(* ===== verification/Prelude.thy ===== *)
theory Prelude
  imports Main "HOL-Library.Word" "HOL-Library.State_Monad"
begin

text \<open>
  Shared vocabulary of the development: the machine integer types, little-endian byte
  codecs, MAC addresses, a state monad with a weakest-precondition calculus, association
  by first match in a vector, and the interfaces (locales) that several components
  implement.
\<close>

unbundle bit_operations_syntax

named_theorems wp_rules \<open>weakest preconditions of the monadic primitives\<close>
named_theorems keeps_rules \<open>programs that keep an invariant of the state\<close>
named_theorems codec_rules \<open>round trips of the byte codecs\<close>

section \<open>Machine integers and buffers\<close>

type_synonym u8 = "8 word"
type_synonym u16 = "16 word"
type_synonym u32 = "32 word"
type_synonym u64 = "64 word"
type_synonym bytes = "u8 list"

text \<open>
  A pointer with a length, as the handlers receive it: \<open>None\<close> is the null pointer,
  \<open>Some bs\<close> a buffer with the bytes \<open>bs\<close>. A queued frame hands out a null pointer
  when its payload vector is empty.
\<close>

type_synonym buf = "bytes option"

definition buf_of :: "bytes \<Rightarrow> buf" where
  "buf_of bs = (if bs = [] then None else Some bs)"

section \<open>Little-endian integers\<close>

definition appendLe16 :: "u16 \<Rightarrow> bytes" where
  "appendLe16 v = [ucast (v AND 0xFF), ucast (drop_bit 8 v AND 0xFF)]"

definition appendLe32 :: "u32 \<Rightarrow> bytes" where
  "appendLe32 v = [ucast (v AND 0xFF), ucast (drop_bit 8 v AND 0xFF),
                   ucast (drop_bit 16 v AND 0xFF), ucast (drop_bit 24 v AND 0xFF)]"

definition le16 :: "u8 \<Rightarrow> u8 \<Rightarrow> u16" where
  "le16 a b = ucast a OR push_bit 8 (ucast b)"

definition le32 :: "u8 \<Rightarrow> u8 \<Rightarrow> u8 \<Rightarrow> u8 \<Rightarrow> u32" where
  "le32 a b c d = ucast a OR push_bit 8 (ucast b) OR push_bit 16 (ucast c) OR push_bit 24 (ucast d)"

text \<open>\<open>readLe32(p)\<close> reads the four bytes at \<open>p\<close>; the callers check the length first.\<close>

definition readLe32 :: "bytes \<Rightarrow> u32" where
  "readLe32 p = le32 (p ! 0) (p ! 1) (p ! 2) (p ! 3)"

definition readLe16 :: "bytes \<Rightarrow> u16" where
  "readLe16 p = le16 (p ! 0) (p ! 1)"

text \<open>Masking with \<open>0xFF\<close> before a narrowing cast to a byte is the cast.\<close>

lemma ucast_and_FF [simp]: "(ucast (v AND 0xFF :: 'a::len word) :: u8) = ucast v"
proof -
  have m: "(0xFF :: 'a word) = mask 8"
    by (simp add: mask_eq_exp_minus_1)
  show ?thesis
    by (rule bit_word_eqI, unfold m) (auto simp: bit_simps dest: bit_imp_le_length)
qed

lemma length_appendLe16 [simp]: "length (appendLe16 v) = 2"
  by (simp add: appendLe16_def)

lemma length_appendLe32 [simp]: "length (appendLe32 v) = 4"
  by (simp add: appendLe32_def)

lemma le16_split: "le16 (ucast v) (ucast (drop_bit 8 v)) = v"
proof (rule bit_word_eqI)
  fix n :: nat
  assume "n < LENGTH(16)"
  then show "bit (le16 (ucast v) (ucast (drop_bit 8 v))) n = bit v n"
    by (cases "n < 8") (auto simp: le16_def bit_simps)
qed

lemma le32_split:
  "le32 (ucast v) (ucast (drop_bit 8 v)) (ucast (drop_bit 16 v)) (ucast (drop_bit 24 v)) = v"
proof (rule bit_word_eqI)
  fix n :: nat
  assume "n < LENGTH(32)"
  then consider "n < 8" | "8 \<le> n" "n < 16" | "16 \<le> n" "n < 24" | "24 \<le> n" "n < 32"
    by fastforce
  then show "bit (le32 (ucast v) (ucast (drop_bit 8 v)) (ucast (drop_bit 16 v))
                (ucast (drop_bit 24 v))) n = bit v n"
    by cases (auto simp: le32_def bit_simps)
qed

lemma appendLe16_eq: "appendLe16 v = [ucast v, ucast (drop_bit 8 v)]"
  by (simp add: appendLe16_def)

lemma appendLe32_eq:
  "appendLe32 v = [ucast v, ucast (drop_bit 8 v), ucast (drop_bit 16 v), ucast (drop_bit 24 v)]"
  by (simp add: appendLe32_def)

lemma u8_no_high_bit: "8 \<le> n \<Longrightarrow> \<not> bit (a :: u8) n"
  by (auto dest: bit_imp_le_length)

lemma appendLe16_le16 [codec_rules, simp]: "appendLe16 (le16 a b) = [a, b]"
  unfolding appendLe16_eq le16_def
  by (auto intro!: bit_word_eqI simp: bit_simps u8_no_high_bit)

lemma appendLe32_le32 [codec_rules, simp]: "appendLe32 (le32 a b c d) = [a, b, c, d]"
  unfolding appendLe32_eq le32_def
  by (auto intro!: bit_word_eqI simp: bit_simps u8_no_high_bit)

lemma readLe32_append [codec_rules, simp]: "readLe32 (appendLe32 v @ rest) = v"
  by (simp add: readLe32_def appendLe32_eq le32_split)

lemma readLe32_appendLe32 [codec_rules, simp]: "readLe32 (appendLe32 v) = v"
  by (simp add: readLe32_def appendLe32_eq le32_split)

lemma readLe16_append [codec_rules, simp]: "readLe16 (appendLe16 v @ rest) = v"
  by (simp add: readLe16_def appendLe16_eq le16_split)

lemma readLe32_Cons4 [simp]: "readLe32 (a # b # c # d # rest) = le32 a b c d"
  by (simp add: readLe32_def)

lemma readLe16_Cons2 [simp]: "readLe16 (a # b # rest) = le16 a b"
  by (simp add: readLe16_def)

text \<open>Distinct byte pairs are distinct integers.\<close>

lemma le16_eq_iff [simp]: "le16 a b = le16 c d \<longleftrightarrow> a = c \<and> b = d"
proof
  assume "le16 a b = le16 c d"
  then have "appendLe16 (le16 a b) = appendLe16 (le16 c d)" by simp
  then show "a = c \<and> b = d" by simp
qed simp

section \<open>Numbers of words\<close>

lemma unat_of_nat_u32: "n < 2 ^ 32 \<Longrightarrow> unat (of_nat n :: u32) = n"
  by (simp add: unat_of_nat take_bit_nat_eq_self)

lemma unat_u32_less: "unat (x :: u32) < 2 ^ 32"
  using unsigned_less [of x] by simp

lemma unat_minus_u32: "unat e < unat d \<Longrightarrow> unat (d - e :: u32) = unat d - unat e"
  by (simp add: unat_sub word_le_nat_alt)

section \<open>MAC addresses\<close>

text \<open>\<open>MacAddress\<close> is \<open>std::array<uint8_t, 6>\<close>: exactly six bytes.\<close>

datatype mac = Mac u8 u8 u8 u8 u8 u8

primrec mac_bytes :: "mac \<Rightarrow> bytes" where
  "mac_bytes (Mac a b c d e f) = [a, b, c, d, e, f]"

definition kBroadcastMac :: mac where
  "kBroadcastMac = Mac 0xFF 0xFF 0xFF 0xFF 0xFF 0xFF"

definition zeroMac :: mac where
  "zeroMac = Mac 0 0 0 0 0 0"

text \<open>Six bytes copied out of a buffer (\<open>memcpy\<close> into an address).\<close>

definition mac_of :: "bytes \<Rightarrow> mac" where
  "mac_of p = Mac (p ! 0) (p ! 1) (p ! 2) (p ! 3) (p ! 4) (p ! 5)"

fun compareBytes :: "bytes \<Rightarrow> bytes \<Rightarrow> int" where
  "compareBytes (x # xs) (y # ys) = (if x < y then -1 else if x > y then 1 else compareBytes xs ys)"
| "compareBytes _ _ = 0"

definition compareMac :: "mac \<Rightarrow> mac \<Rightarrow> int" where
  "compareMac lhs rhs = compareBytes (mac_bytes lhs) (mac_bytes rhs)"

lemma length_mac_bytes [simp]: "length (mac_bytes m) = 6"
  by (cases m) simp

lemma mac_bytes_inj [simp]: "mac_bytes a = mac_bytes b \<longleftrightarrow> a = b"
  by (cases a; cases b) simp

lemma mac_of_bytes [codec_rules, simp]: "mac_of (mac_bytes m @ rest) = m"
  by (cases m) (simp add: mac_of_def)

lemma compareBytes_refl [simp]: "compareBytes xs xs = 0"
  by (induction xs) auto

lemma compareBytes_swap: "compareBytes xs ys = - compareBytes ys xs"
  by (induction xs ys rule: compareBytes.induct) auto

lemma compareBytes_eq: "length xs = length ys \<Longrightarrow> compareBytes xs ys = 0 \<longleftrightarrow> xs = ys"
  by (induction xs ys rule: compareBytes.induct) auto

lemma compareBytes_trans:
  "length xs = length ys \<Longrightarrow> length ys = length zs \<Longrightarrow>
   compareBytes xs ys \<le> 0 \<Longrightarrow> compareBytes ys zs \<le> 0 \<Longrightarrow> compareBytes xs zs \<le> 0"
proof (induction xs arbitrary: ys zs)
  case Nil
  then show ?case by simp
next
  case (Cons x xs)
  then obtain y ys' z zs' where [simp]: "ys = y # ys'" "zs = z # zs'"
    by (metis length_Suc_conv)
  show ?case
    using Cons.prems Cons.IH [of ys' zs'] by (auto split: if_splits)
qed

text \<open>
  \<open>compareMac\<close> is the three-way comparison of a linear order on addresses, which sorting
  by it and taking the smaller endpoint rely on.
\<close>

instantiation mac :: linorder
begin

definition less_eq_mac :: "mac \<Rightarrow> mac \<Rightarrow> bool" where
  "less_eq_mac a b \<longleftrightarrow> compareMac a b \<le> 0"

definition less_mac :: "mac \<Rightarrow> mac \<Rightarrow> bool" where
  "less_mac a b \<longleftrightarrow> compareMac a b < 0"

instance
proof
  fix a b c :: mac
  have sw: "compareMac a b = - compareMac b a"
    by (simp add: compareMac_def compareBytes_swap [of "mac_bytes a"])
  have eq: "compareMac a b = 0 \<longleftrightarrow> a = b"
    by (simp add: compareMac_def compareBytes_eq)
  show "(a < b) = (a \<le> b \<and> \<not> b \<le> a)"
    using sw by (auto simp: less_eq_mac_def less_mac_def)
  show "a \<le> a"
    by (simp add: less_eq_mac_def compareMac_def)
  show "a \<le> b \<Longrightarrow> b \<le> c \<Longrightarrow> a \<le> c"
    unfolding less_eq_mac_def compareMac_def
    by (rule compareBytes_trans [of _ "mac_bytes b"]) auto
  show "a \<le> b \<Longrightarrow> b \<le> a \<Longrightarrow> a = b"
    using sw eq by (simp add: less_eq_mac_def)
  show "a \<le> b \<or> b \<le> a"
    using sw by (auto simp: less_eq_mac_def)
qed

end

section \<open>State-passing programs and weakest preconditions\<close>

text \<open>
  A handler of a stateful class is a program of the library's state monad over the record
  of its fields. \<open>wp m Q s\<close> says that running \<open>m\<close> from \<open>s\<close> gives a result and a
  state in \<open>Q\<close>; since the programs are total functions it is total correctness.
\<close>

definition gets :: "('s \<Rightarrow> 'a) \<Rightarrow> ('s, 'a) state" where
  "gets f = State (\<lambda>s. (f s, s))"

definition modify :: "('s \<Rightarrow> 's) \<Rightarrow> ('s, unit) state" where
  "modify f = State (\<lambda>s. ((), f s))"

definition ret :: "'a \<Rightarrow> ('s, 'a) state" where
  "ret x = State (\<lambda>s. (x, s))"

definition whenM :: "bool \<Rightarrow> ('s, unit) state \<Rightarrow> ('s, unit) state" where
  "whenM b m = (if b then m else ret ())"

fun forM :: "'a list \<Rightarrow> ('a \<Rightarrow> ('s, unit) state) \<Rightarrow> ('s, unit) state" where
  "forM [] f = ret ()"
| "forM (x # xs) f = State_Monad.bind (f x) (\<lambda>_. forM xs f)"

definition wp :: "('s, 'a) state \<Rightarrow> ('a \<Rightarrow> 's \<Rightarrow> bool) \<Rightarrow> 's \<Rightarrow> bool" where
  "wp m Q s = (case run_state m s of (a, s') \<Rightarrow> Q a s')"

lemma run_gets [simp]: "run_state (gets f) s = (f s, s)"
  by (simp add: gets_def)

lemma run_modify [simp]: "run_state (modify f) s = ((), f s)"
  by (simp add: modify_def)

lemma run_ret [simp]: "run_state (ret x) s = (x, s)"
  by (simp add: ret_def)

lemma wp_gets [wp_rules]: "wp (gets f) Q s \<longleftrightarrow> Q (f s) s"
  by (simp add: wp_def)

lemma wp_modify [wp_rules]: "wp (modify f) Q s \<longleftrightarrow> Q () (f s)"
  by (simp add: wp_def)

lemma wp_ret [wp_rules]: "wp (ret x) Q s \<longleftrightarrow> Q x s"
  by (simp add: wp_def)

lemma wp_bind [wp_rules]: "wp (State_Monad.bind m f) Q s \<longleftrightarrow> wp m (\<lambda>a. wp (f a) Q) s"
  by (simp add: wp_def split: prod.splits)

lemma wp_when [wp_rules]: "wp (whenM b m) Q s \<longleftrightarrow> (if b then wp m Q s else Q () s)"
  by (simp add: whenM_def wp_ret)

lemma wp_if [wp_rules]: "wp (if b then m else n) Q s \<longleftrightarrow> (if b then wp m Q s else wp n Q s)"
  by simp

lemma wp_mono: "wp m Q s \<Longrightarrow> (\<And>a t. Q a t \<Longrightarrow> R a t) \<Longrightarrow> wp m R s"
  by (auto simp: wp_def split: prod.splits)

lemma wp_run: "wp m Q s \<Longrightarrow> run_state m s = (a, t) \<Longrightarrow> Q a t"
  by (simp add: wp_def)

lemma wpI: "(\<And>a t. run_state m s = (a, t) \<Longrightarrow> Q a t) \<Longrightarrow> wp m Q s"
  by (auto simp: wp_def split: prod.splits)

lemma wp_conj: "wp m Q s \<Longrightarrow> wp m R s \<Longrightarrow> wp m (\<lambda>a t. Q a t \<and> R a t) s"
  by (simp add: wp_def split: prod.splits)

text \<open>A loop over a list keeps what its body keeps.\<close>

lemma wp_forM:
  assumes "I s" and "\<And>x t. x \<in> set xs \<Longrightarrow> I t \<Longrightarrow> wp (f x) (\<lambda>_. I) t"
    and "\<And>t. I t \<Longrightarrow> Q () t"
  shows "wp (forM xs f) Q s"
  using assms
proof (induction xs arbitrary: s)
  case Nil
  then show ?case by (simp add: wp_ret)
next
  case (Cons x xs)
  from Cons.prems(1,2) have "wp (f x) (\<lambda>_. I) s" by simp
  then have "wp (f x) (\<lambda>_. wp (forM xs f) Q) s"
    by (rule wp_mono) (rule Cons.IH, use Cons.prems in auto)
  then show ?case by (simp add: wp_bind)
qed

lemma wp_case_prod [wp_rules]:
  "wp (case x of (a, b) \<Rightarrow> f a b) Q s \<longleftrightarrow> (case x of (a, b) \<Rightarrow> wp (f a b) Q s)"
  by (simp split: prod.split)

text \<open>\<open>keeps I m\<close>: every run of \<open>m\<close> from a state in \<open>I\<close> ends in \<open>I\<close>. The rules follow the program.\<close>

definition keeps :: "('s \<Rightarrow> bool) \<Rightarrow> ('s, 'a) state \<Rightarrow> bool" where
  "keeps I m \<longleftrightarrow> (\<forall>s. I s \<longrightarrow> wp m (\<lambda>_. I) s)"

lemma keepsD: "keeps I m \<Longrightarrow> I s \<Longrightarrow> wp m (\<lambda>_. I) s"
  by (simp add: keeps_def)

lemma keeps_run: "keeps I m \<Longrightarrow> I s \<Longrightarrow> run_state m s = (a, t) \<Longrightarrow> I t"
  by (auto simp: keeps_def wp_def)

lemma keeps_ret [keeps_rules]: "keeps I (ret x)"
  by (simp add: keeps_def wp_ret)

lemma keeps_gets [keeps_rules]: "keeps I (gets f)"
  by (simp add: keeps_def wp_gets)

lemma keeps_modify: "(\<And>s. I s \<Longrightarrow> I (f s)) \<Longrightarrow> keeps I (modify f)"
  by (simp add: keeps_def wp_modify)

lemma keeps_bind [keeps_rules]:
  "keeps I m \<Longrightarrow> (\<And>a. keeps I (f a)) \<Longrightarrow> keeps I (State_Monad.bind m f)"
  by (simp add: keeps_def wp_bind) (metis (mono_tags, lifting) wp_mono)

lemma keeps_if [keeps_rules]: "(b \<Longrightarrow> keeps I m) \<Longrightarrow> (\<not> b \<Longrightarrow> keeps I n) \<Longrightarrow> keeps I (if b then m else n)"
  by simp

lemma keeps_when [keeps_rules]: "(b \<Longrightarrow> keeps I m) \<Longrightarrow> keeps I (whenM b m)"
  by (simp add: whenM_def keeps_ret)

lemma keeps_prod [keeps_rules]: "(\<And>a b. keeps I (f a b)) \<Longrightarrow> keeps I (case x of (a, b) \<Rightarrow> f a b)"
  by (simp split: prod.split)

lemma keeps_option [keeps_rules]:
  "(x = None \<Longrightarrow> keeps I m) \<Longrightarrow> (\<And>a. x = Some a \<Longrightarrow> keeps I (f a))
   \<Longrightarrow> keeps I (case x of None \<Rightarrow> m | Some a \<Rightarrow> f a)"
  by (simp split: option.split)

lemma keeps_sum [keeps_rules]:
  "(\<And>a. x = Inl a \<Longrightarrow> keeps I (f a)) \<Longrightarrow> (\<And>b. x = Inr b \<Longrightarrow> keeps I (g b))
   \<Longrightarrow> keeps I (case x of Inl a \<Rightarrow> f a | Inr b \<Rightarrow> g b)"
  by (simp split: sum.split)

lemma keeps_let [keeps_rules]: "keeps I (f x) \<Longrightarrow> keeps I (let y = x in f y)"
  by simp

end
