(* ===== verification/Interfaces.thy ===== *)
theory Interfaces
  imports Prelude
begin

text \<open>
  The contracts that several components of the library share, as locales: a byte codec
  (a parser that undoes a builder), a codec whose parser ignores trailing bytes, a codec
  whose parser accepts nothing but built buffers, a keyed table (peer registry, discovery
  cache, role hints), a bounded queue that drops its oldest element, and a machine with an
  invariant that every step keeps. Each is interpreted on the model's own definitions in
  the theory of the component that provides it.
\<close>

section \<open>Codecs\<close>

locale codec =
  fixes enc :: "'a \<Rightarrow> bytes option"
    and dec :: "bytes \<Rightarrow> 'a option"
    and wf :: "'a \<Rightarrow> bool"
  assumes dec_enc: "wf x \<Longrightarrow> enc x = Some b \<Longrightarrow> dec b = Some x"
begin

lemma enc_inj: "wf x \<Longrightarrow> wf y \<Longrightarrow> enc x = Some b \<Longrightarrow> enc y = Some b \<Longrightarrow> x = y"
  using dec_enc [of x b] dec_enc [of y b] by simp

end

locale prefix_codec = codec +
  assumes dec_append: "wf x \<Longrightarrow> enc x = Some b \<Longrightarrow> dec (b @ r) = Some x"
begin

lemma enc_prefix_free:
  "wf x \<Longrightarrow> wf y \<Longrightarrow> enc x = Some b \<Longrightarrow> enc y = Some (b @ r) \<Longrightarrow> x = y \<and> r = []"
  using dec_append [of x b r] dec_enc [of y "b @ r"] by auto

end

locale strict_codec = codec +
  assumes enc_dec: "dec b = Some x \<Longrightarrow> enc x = Some b"
begin

lemma dec_inj: "dec b = Some x \<Longrightarrow> dec c = Some x \<Longrightarrow> b = c"
  using enc_dec [of b x] enc_dec [of c x] by simp

lemma dec_iff: "wf x \<Longrightarrow> dec b = Some x \<longleftrightarrow> enc x = Some b"
  using enc_dec [of b x] dec_enc [of x b] by blast

end

section \<open>Keyed tables\<close>

text \<open>
  \<open>look\<close> finds a record by key, \<open>put\<close> stores a record under its key, \<open>del\<close> removes a key,
  \<open>inv\<close> is the table's well-formedness. Two lookups and an update commute as on a map.
\<close>

locale keyed_table =
  fixes look :: "'t \<Rightarrow> 'k \<Rightarrow> 'v option"
    and put :: "'k \<Rightarrow> 'v \<Rightarrow> 't \<Rightarrow> 't"
    and del :: "'k \<Rightarrow> 't \<Rightarrow> 't"
    and inv :: "'t \<Rightarrow> bool"
    and fits :: "'k \<Rightarrow> 'v \<Rightarrow> bool"
  assumes look_put: "inv t \<Longrightarrow> fits k v \<Longrightarrow> look (put k v t) = (look t)(k \<mapsto> v)"
    and look_del: "inv t \<Longrightarrow> look (del k t) = (look t)(k := None)"
    and inv_put: "inv t \<Longrightarrow> fits k v \<Longrightarrow> inv (put k v t)"
    and inv_del: "inv t \<Longrightarrow> inv (del k t)"
begin

lemma look_put_same: "inv t \<Longrightarrow> fits k v \<Longrightarrow> look (put k v t) k = Some v"
  by (simp add: look_put)

lemma look_put_other: "inv t \<Longrightarrow> fits k v \<Longrightarrow> j \<noteq> k \<Longrightarrow> look (put k v t) j = look t j"
  by (simp add: look_put)

lemma look_put_put:
  "inv t \<Longrightarrow> fits k v \<Longrightarrow> fits k w \<Longrightarrow> look (put k w (put k v t)) = look (put k w t)"
  by (simp add: look_put inv_put)

lemma look_del_put: "inv t \<Longrightarrow> fits k v \<Longrightarrow> look (del k (put k v t)) = look (del k t)"
  by (simp add: look_put look_del inv_put)

lemma dom_put: "inv t \<Longrightarrow> fits k v \<Longrightarrow> dom (look (put k v t)) = insert k (dom (look t))"
  by (simp add: look_put)

lemma dom_del: "inv t \<Longrightarrow> dom (look (del k t)) = dom (look t) - {k}"
  by (simp add: look_del)

end

section \<open>Bounded queues\<close>

text \<open>
  A queue of capacity \<open>cap\<close>: an enqueue on a full queue drops the oldest element first.
  \<open>items\<close> is the content, oldest first.
\<close>

locale bounded_queue =
  fixes items :: "'q \<Rightarrow> 'a list"
    and enq :: "'a \<Rightarrow> 'q \<Rightarrow> 'q"
    and cap :: nat
  assumes cap_pos: "0 < cap"
    and items_enq: "length (items q) \<le> cap \<Longrightarrow>
      items (enq x q) = (if length (items q) \<ge> cap then tl (items q) else items q) @ [x]"
begin

lemma enq_bounded: "length (items q) \<le> cap \<Longrightarrow> length (items (enq x q)) \<le> cap"
  using cap_pos by (auto simp: items_enq)

lemma enq_last: "length (items q) \<le> cap \<Longrightarrow> last (items (enq x q)) = x"
  by (simp add: items_enq)

text \<open>After any burst the queue holds the newest \<open>cap\<close> elements, in arrival order.\<close>

lemma burst_items:
  "length (items q) \<le> cap \<Longrightarrow>
   items (fold enq xs q) = drop (length (items q) + length xs - cap) (items q @ xs)
   \<and> length (items (fold enq xs q)) \<le> cap"
proof (induction xs arbitrary: q)
  case Nil
  then show ?case by simp
next
  case (Cons x xs)
  have b: "length (items (enq x q)) \<le> cap" using Cons.prems by (rule enq_bounded)
  have "items (enq x q) = drop (length (items q) + 1 - cap) (items q @ [x])"
    using Cons.prems cap_pos by (cases "length (items q) = cap") (auto simp: items_enq drop_Suc tl_append2)
  with Cons.IH [OF b] Cons.prems cap_pos show ?case
    by (cases "length (items q) = cap") (auto simp: Suc_diff_le)
qed

end

section \<open>Machines with an invariant\<close>

locale invariant_machine =
  fixes step :: "'s \<Rightarrow> 's \<Rightarrow> bool"
    and inv :: "'s \<Rightarrow> bool"
  assumes step_inv: "step s t \<Longrightarrow> inv s \<Longrightarrow> inv t"
begin

lemma steps_inv: "step\<^sup>*\<^sup>* s t \<Longrightarrow> inv s \<Longrightarrow> inv t"
  by (induction rule: rtranclp_induct) (auto intro: step_inv)

end

section \<open>Blob stores\<close>

text \<open>
  A store of blobs by key, reached by programs: \<open>view\<close> is the map it stands for. A read delivers
  the map's value and changes nothing; a write or an erasure that reports success has its effect
  on the map and nothing else, one that reports failure has none.
\<close>

locale blob_map =
  fixes get_blob :: "'k \<Rightarrow> ('s, bytes option) state"
    and put_blob :: "'k \<Rightarrow> bytes \<Rightarrow> ('s, bool) state"
    and del_blob :: "'k \<Rightarrow> ('s, bool) state"
    and view :: "'s \<Rightarrow> 'k \<Rightarrow> bytes option"
    and ok :: "'s \<Rightarrow> bool"
  assumes get_wp: "ok s \<Longrightarrow> wp (get_blob k) (\<lambda>r t. ok t \<and> view t = view s \<and> r = view s k) s"
    and put_wp: "ok s \<Longrightarrow> d \<noteq> [] \<Longrightarrow>
      wp (put_blob k d) (\<lambda>r t. ok t \<and> view t = (if r then (view s)(k \<mapsto> d) else view s)) s"
    and del_wp: "ok s \<Longrightarrow>
      wp (del_blob k) (\<lambda>r t. ok t \<and> view t = (if r then (view s)(k := None) else view s)) s"
begin

text \<open>The rules in the form a program calls for: whatever follows has to cope with these results.\<close>

lemma wp_get: "ok s \<Longrightarrow> (\<And>t. ok t \<Longrightarrow> view t = view s \<Longrightarrow> Q (view s k) t) \<Longrightarrow> wp (get_blob k) Q s"
  by (rule wp_mono [OF get_wp]) auto

lemma wp_put:
  "ok s \<Longrightarrow> d \<noteq> [] \<Longrightarrow> (\<And>t. ok t \<Longrightarrow> view t = (view s)(k \<mapsto> d) \<Longrightarrow> Q True t)
   \<Longrightarrow> (\<And>t. ok t \<Longrightarrow> view t = view s \<Longrightarrow> Q False t) \<Longrightarrow> wp (put_blob k d) Q s"
  by (rule wp_mono [OF put_wp]) (auto split: if_splits)

lemma wp_del:
  "ok s \<Longrightarrow> (\<And>t. ok t \<Longrightarrow> view t = (view s)(k := None) \<Longrightarrow> Q True t)
   \<Longrightarrow> (\<And>t. ok t \<Longrightarrow> view t = view s \<Longrightarrow> Q False t) \<Longrightarrow> wp (del_blob k) Q s"
  by (rule wp_mono [OF del_wp]) (auto split: if_splits)

lemma put_then_get:
  "ok s \<Longrightarrow> d \<noteq> [] \<Longrightarrow> run_state (put_blob k d) s = (True, t) \<Longrightarrow>
   wp (get_blob j) (\<lambda>r _. r = (if j = k then Some d else view s j)) t"
  using wp_run [OF put_wp [of s d k]] by (intro wp_get) auto

lemma del_then_get:
  "ok s \<Longrightarrow> run_state (del_blob k) s = (True, t) \<Longrightarrow>
   wp (get_blob j) (\<lambda>r _. r = (if j = k then None else view s j)) t"
  using wp_run [OF del_wp [of s k]] by (intro wp_get) auto

end

end
