(* ===== verification/Wire.thy ===== *)
theory Wire
  imports Interfaces
begin

text \<open>
  The frame layer: \<open>include/espnow_link/types.hpp\<close>, \<open>protocol.hpp\<close> and
  \<open>src/core/protocol.cpp\<close>. A frame is a 13-byte header, at most 235 payload bytes and a
  CRC-16/CCITT-FALSE trailer. The \<open>enum class ... : uint8_t\<close> values that arrive from the
  wire may be any byte, so the wire message type, the wire service and the sender's role
  are bytes; the library's own \<open>MessageType\<close> is a datatype.
\<close>

section \<open>Message types and header\<close>

datatype role = Master | Slave

primrec role_code :: "role \<Rightarrow> u8" where
  "role_code Master = 1"
| "role_code Slave = 2"

datatype MessageType =
    Discovery | PairInit | PairInitAck | PairConfirm | PairConfirmAck | PairBusy
  | PullRequest | PullResponse
  | ChannelSwitchPrepare | ChannelSwitchAck | ChannelSwitchCommitAck
  | FirmwareBegin | FirmwareChunk | FirmwareEnd
  | UnpairRequest | UnpairAck | EventReport | FirmwareStatus
  | TopologyTrigger | TopologyTriggerAck | TopologyTriggerBatch | ErrorMsg

primrec message_code :: "MessageType \<Rightarrow> u8" where
  "message_code Discovery = 0x60"
| "message_code PairInit = 0x61"
| "message_code PairInitAck = 0x62"
| "message_code PairConfirm = 0x63"
| "message_code PairConfirmAck = 0x64"
| "message_code PairBusy = 0x65"
| "message_code PullRequest = 0x70"
| "message_code PullResponse = 0x71"
| "message_code ChannelSwitchPrepare = 0x72"
| "message_code ChannelSwitchAck = 0x73"
| "message_code ChannelSwitchCommitAck = 0x74"
| "message_code FirmwareBegin = 0x75"
| "message_code FirmwareChunk = 0x76"
| "message_code FirmwareEnd = 0x77"
| "message_code UnpairRequest = 0x78"
| "message_code UnpairAck = 0x79"
| "message_code EventReport = 0x7A"
| "message_code FirmwareStatus = 0x7B"
| "message_code TopologyTrigger = 0x7C"
| "message_code TopologyTriggerAck = 0x7D"
| "message_code TopologyTriggerBatch = 0x7E"
| "message_code ErrorMsg = 0x7F"

record FrameHeader =
  fh_version :: u8
  fh_type :: MessageType
  fh_flags :: u8
  fh_correlation_id :: u32
  fh_role :: u8
  fh_wire_msg_type :: u8
  fh_wire_service :: u8
  fh_wire_op_code :: u8
  fh_payload_length :: u16

definition default_header :: FrameHeader where
  "default_header = \<lparr>fh_version = 2, fh_type = ErrorMsg, fh_flags = 0, fh_correlation_id = 0,
     fh_role = role_code Slave, fh_wire_msg_type = 0, fh_wire_service = 0, fh_wire_op_code = 0,
     fh_payload_length = 0\<rparr>"

definition kProtocolVersion :: u8 where "kProtocolVersion = 2"
definition kProtocolMagic :: u8 where "kProtocolMagic = 0xE2"
definition kFrameFlagTimeSyncEpoch :: u8 where "kFrameFlagTimeSyncEpoch = 0x01"
definition kTimeSyncMetadataSize :: nat where "kTimeSyncMetadataSize = 4"

definition kMaxFrameBytes :: nat where "kMaxFrameBytes = 250"
definition kHeaderSize :: nat where "kHeaderSize = 13"
definition kCrcSize :: nat where "kCrcSize = 2"
definition kFixedOverhead :: nat where "kFixedOverhead = kHeaderSize + kCrcSize"
definition kMaxPayload :: nat where "kMaxPayload = kMaxFrameBytes - kFixedOverhead"

lemmas frame_sizes = kMaxFrameBytes_def kHeaderSize_def kCrcSize_def kFixedOverhead_def kMaxPayload_def

section \<open>Message type to wire triple and back\<close>

text \<open>\<open>WireMsgType\<close>: 1 request, 2 response ok, 3 response error, 4 event, 5 ack only.
  \<open>WireService\<close>: 1 pairing, 2 descriptor, 3 settings, 4 telemetry, 5 liveness, 6 control,
  7 firmware, 8 channel, 9 discovery.\<close>

definition wmRequest :: u8 where "wmRequest = 0x01"
definition wmResponseOk :: u8 where "wmResponseOk = 0x02"
definition wmResponseErr :: u8 where "wmResponseErr = 0x03"
definition wmEvent :: u8 where "wmEvent = 0x04"
definition wmAckOnly :: u8 where "wmAckOnly = 0x05"

definition wsPairing :: u8 where "wsPairing = 0x01"
definition wsDescriptor :: u8 where "wsDescriptor = 0x02"
definition wsSettings :: u8 where "wsSettings = 0x03"
definition wsTelemetry :: u8 where "wsTelemetry = 0x04"
definition wsLiveness :: u8 where "wsLiveness = 0x05"
definition wsControl :: u8 where "wsControl = 0x06"
definition wsFirmware :: u8 where "wsFirmware = 0x07"
definition wsChannel :: u8 where "wsChannel = 0x08"
definition wsDiscovery :: u8 where "wsDiscovery = 0x09"

lemmas wire_msg_defs =
  wmRequest_def wmResponseOk_def wmResponseErr_def wmEvent_def wmAckOnly_def
lemmas wire_service_defs =
  wsPairing_def wsDescriptor_def wsSettings_def wsTelemetry_def wsLiveness_def
  wsControl_def wsFirmware_def wsChannel_def wsDiscovery_def

definition kControlOpPullRequest :: u8 where "kControlOpPullRequest = 0x01"
definition kControlOpPullResponse :: u8 where "kControlOpPullResponse = 0x02"
definition kControlOpEventReport :: u8 where "kControlOpEventReport = 0x10"
definition kControlOpTopologyTrigger :: u8 where "kControlOpTopologyTrigger = 0x11"
definition kControlOpTopologyTriggerAck :: u8 where "kControlOpTopologyTriggerAck = 0x12"
definition kControlOpTopologyTriggerBatch :: u8 where "kControlOpTopologyTriggerBatch = 0x13"

lemmas control_op_defs =
  kControlOpPullRequest_def kControlOpPullResponse_def kControlOpEventReport_def
  kControlOpTopologyTrigger_def kControlOpTopologyTriggerAck_def kControlOpTopologyTriggerBatch_def

fun toWire :: "MessageType \<Rightarrow> (u8 \<times> u8 \<times> u8) option" where
  "toWire Discovery = Some (wmEvent, wsDiscovery, 0x01)"
| "toWire PairInit = Some (wmRequest, wsPairing, 0x01)"
| "toWire PairInitAck = Some (wmResponseOk, wsPairing, 0x02)"
| "toWire PairConfirm = Some (wmRequest, wsPairing, 0x03)"
| "toWire PairConfirmAck = Some (wmResponseOk, wsPairing, 0x04)"
| "toWire PairBusy = Some (wmResponseErr, wsPairing, 0x07)"
| "toWire UnpairRequest = Some (wmRequest, wsPairing, 0x05)"
| "toWire UnpairAck = Some (wmResponseOk, wsPairing, 0x06)"
| "toWire ChannelSwitchPrepare = Some (wmRequest, wsChannel, 0x01)"
| "toWire ChannelSwitchAck = Some (wmResponseOk, wsChannel, 0x02)"
| "toWire ChannelSwitchCommitAck = Some (wmResponseOk, wsChannel, 0x03)"
| "toWire FirmwareBegin = Some (wmRequest, wsFirmware, 0x01)"
| "toWire FirmwareChunk = Some (wmRequest, wsFirmware, 0x02)"
| "toWire FirmwareEnd = Some (wmRequest, wsFirmware, 0x03)"
| "toWire FirmwareStatus = Some (wmResponseOk, wsFirmware, 0x04)"
| "toWire PullRequest = Some (wmRequest, wsControl, kControlOpPullRequest)"
| "toWire PullResponse = Some (wmResponseOk, wsControl, kControlOpPullResponse)"
| "toWire EventReport = Some (wmEvent, wsControl, kControlOpEventReport)"
| "toWire TopologyTrigger = Some (wmEvent, wsControl, kControlOpTopologyTrigger)"
| "toWire TopologyTriggerAck = Some (wmAckOnly, wsControl, kControlOpTopologyTriggerAck)"
| "toWire TopologyTriggerBatch = Some (wmEvent, wsControl, kControlOpTopologyTriggerBatch)"
| "toWire ErrorMsg = None"

text \<open>The five groups of tests of \<open>fromWire\<close>, each falling through to the next.\<close>

definition fromWirePairing :: "u8 \<Rightarrow> u8 \<Rightarrow> MessageType option" where
  "fromWirePairing msg op =
     (if msg = wmRequest \<and> op = 0x01 then Some PairInit
      else if msg = wmResponseOk \<and> op = 0x02 then Some PairInitAck
      else if msg = wmRequest \<and> op = 0x03 then Some PairConfirm
      else if msg = wmResponseOk \<and> op = 0x04 then Some PairConfirmAck
      else if msg = wmRequest \<and> op = 0x05 then Some UnpairRequest
      else if msg = wmResponseOk \<and> op = 0x06 then Some UnpairAck
      else if msg = wmResponseErr \<and> op = 0x07 then Some PairBusy
      else None)"

definition fromWireChannel :: "u8 \<Rightarrow> u8 \<Rightarrow> MessageType option" where
  "fromWireChannel msg op =
     (if msg = wmRequest \<and> op = 0x01 then Some ChannelSwitchPrepare
      else if msg = wmResponseOk \<and> op = 0x02 then Some ChannelSwitchAck
      else if msg = wmResponseOk \<and> op = 0x03 then Some ChannelSwitchCommitAck
      else None)"

definition fromWireFirmware :: "u8 \<Rightarrow> u8 \<Rightarrow> MessageType option" where
  "fromWireFirmware msg op =
     (if msg = wmRequest \<and> op = 0x01 then Some FirmwareBegin
      else if msg = wmRequest \<and> op = 0x02 then Some FirmwareChunk
      else if msg = wmRequest \<and> op = 0x03 then Some FirmwareEnd
      else if msg = wmResponseOk \<and> op = 0x04 then Some FirmwareStatus
      else None)"

definition fromWireControl :: "u8 \<Rightarrow> u8 \<Rightarrow> MessageType option" where
  "fromWireControl msg op =
     (if msg = wmEvent \<and> op = kControlOpEventReport then Some EventReport
      else if msg = wmEvent \<and> op = kControlOpTopologyTrigger then Some TopologyTrigger
      else if msg = wmEvent \<and> op = kControlOpTopologyTriggerBatch then Some TopologyTriggerBatch
      else if msg = wmAckOnly \<and> op = kControlOpTopologyTriggerAck then Some TopologyTriggerAck
      else None)"

definition fromWirePull :: "u8 \<Rightarrow> u8 \<Rightarrow> MessageType option" where
  "fromWirePull msg op =
     (if msg = wmRequest \<and> (op = 0x01 \<or> op = 0x03 \<or> op = 0x05) then Some PullRequest
      else if (msg = wmResponseOk \<or> msg = wmResponseErr) \<and> (op = 0x02 \<or> op = 0x04 \<or> op = 0x06)
        then Some PullResponse
      else None)"

definition orElse :: "'a option \<Rightarrow> 'a option \<Rightarrow> 'a option" where
  "orElse a b = (case a of Some x \<Rightarrow> Some x | None \<Rightarrow> b)"

definition fromWire :: "u8 \<Rightarrow> u8 \<Rightarrow> u8 \<Rightarrow> MessageType option" where
  "fromWire msg service op =
     (if service = wsDiscovery \<and> msg = wmEvent \<and> op = 0x01 then Some Discovery
      else orElse (if service = wsPairing then fromWirePairing msg op else None)
          (orElse (if service = wsChannel then fromWireChannel msg op else None)
          (orElse (if service = wsFirmware then fromWireFirmware msg op else None)
          (orElse (if service = wsControl then fromWireControl msg op else None)
                  (if service = wsDescriptor \<or> service = wsSettings \<or> service = wsTelemetry
                      \<or> service = wsLiveness \<or> service = wsControl
                   then fromWirePull msg op else None)))))"

lemmas fromWire_defs = fromWire_def fromWirePairing_def fromWireChannel_def fromWireFirmware_def
  fromWireControl_def fromWirePull_def orElse_def wire_msg_defs wire_service_defs control_op_defs

lemma toWire_None_iff [simp]: "toWire t = None \<longleftrightarrow> t = ErrorMsg"
  by (cases t) auto

lemma fromWire_toWire: "toWire t = Some (m, s, op) \<Longrightarrow> fromWire m s op = Some t"
  by (cases t) (auto simp: fromWire_defs)

text \<open>What a frame accepted by \<open>fromWire\<close> carries: a message type between 1 and 5, a
  service and an operation code that are not zero. So the encoder's overrides apply.\<close>

lemma fromWire_image:
  assumes "fromWire m s op = Some t"
  shows "m \<in> {1, 2, 3, 4, 5} \<and> s \<noteq> 0 \<and> op \<noteq> 0 \<and> t \<noteq> ErrorMsg"
proof -
  have p: "fromWirePairing m op = Some t \<Longrightarrow> m \<in> {1, 2, 3, 4, 5} \<and> op \<noteq> 0 \<and> t \<noteq> ErrorMsg"
    by (auto simp: fromWirePairing_def wire_msg_defs split: if_split_asm)
  have c: "fromWireChannel m op = Some t \<Longrightarrow> m \<in> {1, 2, 3, 4, 5} \<and> op \<noteq> 0 \<and> t \<noteq> ErrorMsg"
    by (auto simp: fromWireChannel_def wire_msg_defs split: if_split_asm)
  have f: "fromWireFirmware m op = Some t \<Longrightarrow> m \<in> {1, 2, 3, 4, 5} \<and> op \<noteq> 0 \<and> t \<noteq> ErrorMsg"
    by (auto simp: fromWireFirmware_def wire_msg_defs split: if_split_asm)
  have k: "fromWireControl m op = Some t \<Longrightarrow> m \<in> {1, 2, 3, 4, 5} \<and> op \<noteq> 0 \<and> t \<noteq> ErrorMsg"
    by (auto simp: fromWireControl_def wire_msg_defs control_op_defs split: if_split_asm)
  have q: "fromWirePull m op = Some t \<Longrightarrow> m \<in> {1, 2, 3, 4, 5} \<and> op \<noteq> 0 \<and> t \<noteq> ErrorMsg"
    by (auto simp: fromWirePull_def wire_msg_defs split: if_split_asm)
  from assms consider
      "s = wsDiscovery" "m = wmEvent" "op = 0x01" "t = Discovery"
    | "s = wsPairing" "fromWirePairing m op = Some t"
    | "s = wsChannel" "fromWireChannel m op = Some t"
    | "s = wsFirmware" "fromWireFirmware m op = Some t"
    | "s = wsControl" "fromWireControl m op = Some t"
    | "s \<in> {wsDescriptor, wsSettings, wsTelemetry, wsLiveness, wsControl}" "fromWirePull m op = Some t"
    unfolding fromWire_def orElse_def by (auto split: if_split_asm option.split_asm)
  then show ?thesis
  proof cases
    case 1
    then show ?thesis by (simp add: wire_msg_defs wire_service_defs)
  qed (use p c f k q in \<open>auto simp: wire_service_defs\<close>)
qed

section \<open>CRC-16/CCITT-FALSE\<close>

text \<open>One of the eight inner iterations, one byte, and the whole buffer.\<close>

definition crc16_bit :: "u16 \<Rightarrow> u16" where
  "crc16_bit crc = (if crc AND 0x8000 \<noteq> 0 then push_bit 1 crc XOR 0x1021 else push_bit 1 crc)"

definition crc16_byte :: "u16 \<Rightarrow> u8 \<Rightarrow> u16" where
  "crc16_byte crc b = (crc16_bit ^^ 8) (crc XOR push_bit 8 (ucast b))"

definition crc16_from :: "u16 \<Rightarrow> bytes \<Rightarrow> u16" where
  "crc16_from = foldl crc16_byte"

definition crc16CcittFalse :: "bytes \<Rightarrow> u16" where
  "crc16CcittFalse data = crc16_from 0xFFFF data"

text \<open>
  The shift step is injective (the polynomial has a constant term, so the lowest bit of the
  result tells which branch was taken); hence a byte changes the checksum and everything
  after it keeps the change.
\<close>


lemma top_bit: "crc AND 0x8000 \<noteq> 0 \<longleftrightarrow> bit (crc :: u16) 15"
  using and_exp_eq_0_iff_not_bit [of crc 15] by simp

lemma crc16_bit_low: "bit (crc16_bit c) 0 \<longleftrightarrow> bit c 15"
  unfolding crc16_bit_def top_bit by (auto simp only: bit_push_bit_iff bit_xor_iff split: if_split) auto

lemma xor_cancel: "(a :: 'a::len word) XOR c = b XOR c \<Longrightarrow> a = b"
  by (metis xor.assoc xor.right_neutral xor_self_eq)

lemma push_bit_1_top_inj:
  assumes "push_bit 1 a = push_bit 1 (b :: u16)" and "bit a 15 = bit b 15"
  shows "a = b"
proof (rule bit_word_eqI)
  fix n
  assume n: "n < LENGTH(16)"
  show "bit a n = bit b n"
  proof (cases "n = 15")
    case False
    with n have "Suc n < 16" by simp
    moreover have "bit (push_bit 1 a) (Suc n) = bit (push_bit 1 b) (Suc n)"
      using assms(1) by simp
    ultimately show ?thesis by (simp only: bit_push_bit_iff) simp
  qed (use assms(2) in simp)
qed

lemma crc16_bit_inj: "inj crc16_bit"
proof (rule injI)
  fix a b
  assume eq: "crc16_bit a = crc16_bit b"
  then have top: "bit a 15 = bit b 15"
    using crc16_bit_low [of a] crc16_bit_low [of b] by simp
  have "push_bit 1 a = push_bit 1 b"
    using eq top unfolding crc16_bit_def top_bit by (cases "bit b 15") (auto simp only: if_True if_False dest: xor_cancel)
  then show "a = b"
    using top by (rule push_bit_1_top_inj)
qed

lemma crc16_byte_inj_crc: "crc16_byte a x = crc16_byte b x \<Longrightarrow> a = b"
  unfolding crc16_byte_def
  by (drule injD [OF inj_fn [OF crc16_bit_inj]]) (rule xor_cancel)

lemma push_bit_8_byte_inj: "push_bit 8 (ucast x :: u16) = push_bit 8 (ucast y) \<Longrightarrow> x = (y :: u8)"
proof (rule bit_word_eqI)
  fix n
  assume eq: "push_bit 8 (ucast x :: u16) = push_bit 8 (ucast y)" and n: "n < LENGTH(8)"
  have "bit (push_bit 8 (ucast x :: u16)) (n + 8) = bit (push_bit 8 (ucast y :: u16)) (n + 8)"
    using eq by simp
  with n show "bit x n = bit y n" by (simp add: bit_simps)
qed

lemma crc16_byte_inj_byte: "crc16_byte a x = crc16_byte a y \<Longrightarrow> x = y"
  unfolding crc16_byte_def
  by (drule injD [OF inj_fn [OF crc16_bit_inj]])
    (metis push_bit_8_byte_inj xor.commute xor_cancel)

lemma crc16_from_append: "crc16_from c (xs @ ys) = crc16_from (crc16_from c xs) ys"
  by (simp add: crc16_from_def)

lemma crc16_from_inj: "crc16_from a xs = crc16_from b xs \<Longrightarrow> a = b"
proof (induction xs arbitrary: a b)
  case (Cons x xs)
  then have "crc16_from (crc16_byte a x) xs = crc16_from (crc16_byte b x) xs"
    by (simp add: crc16_from_def)
  then have "crc16_byte a x = crc16_byte b x" by (rule Cons.IH)
  then show ?case by (rule crc16_byte_inj_crc)
qed (simp add: crc16_from_def)

lemma crc16_detects_update:
  assumes "i < length xs" and "y \<noteq> xs ! i"
  shows "crc16CcittFalse (xs[i := y]) \<noteq> crc16CcittFalse xs"
proof
  assume eq: "crc16CcittFalse (xs[i := y]) = crc16CcittFalse xs"
  let ?c = "crc16_from 0xFFFF (take i xs)"
  have "crc16CcittFalse xs = crc16_from (crc16_byte ?c (xs ! i)) (drop (Suc i) xs)"
    by (subst id_take_nth_drop [OF assms(1)])
      (simp add: crc16CcittFalse_def crc16_from_def)
  moreover have "crc16CcittFalse (xs[i := y]) = crc16_from (crc16_byte ?c y) (drop (Suc i) xs)"
    by (subst upd_conv_take_nth_drop [OF assms(1)])
      (simp add: crc16CcittFalse_def crc16_from_def)
  ultimately have "crc16_byte ?c y = crc16_byte ?c (xs ! i)"
    using eq crc16_from_inj by metis
  then show False using assms(2) crc16_byte_inj_byte by blast
qed

section \<open>Encoding and decoding\<close>

definition wire_triple :: "FrameHeader \<Rightarrow> (u8 \<times> u8 \<times> u8) option" where
  "wire_triple h =
     (case toWire (fh_type h) of
        None \<Rightarrow> None
      | Some (m, s, op) \<Rightarrow>
          Some (if 0x01 \<le> fh_wire_msg_type h \<and> fh_wire_msg_type h \<le> 0x05 then fh_wire_msg_type h else m,
                if fh_wire_service h \<noteq> 0 then fh_wire_service h else s,
                if fh_wire_op_code h \<noteq> 0 then fh_wire_op_code h else op))"

definition frame_body :: "FrameHeader \<Rightarrow> u8 \<Rightarrow> u8 \<Rightarrow> u8 \<Rightarrow> bytes \<Rightarrow> bytes" where
  "frame_body h m s op payload =
     [kProtocolMagic, kProtocolVersion, m, fh_flags h]
     @ appendLe32 (fh_correlation_id h)
     @ [fh_role h, s, op]
     @ appendLe16 (word_of_nat (length payload))
     @ payload"

text \<open>\<open>ProtocolCodec::encode\<close>. The payload pointer may be null only for length 0, so a
  byte list carries both arguments.\<close>

definition encode :: "FrameHeader \<Rightarrow> bytes \<Rightarrow> bytes option" where
  "encode h payload =
     (if length payload > kMaxPayload then None
      else case wire_triple h of
        None \<Rightarrow> None
      | Some (m, s, op) \<Rightarrow>
          (let body = frame_body h m s op payload;
               out = body @ appendLe16 (crc16CcittFalse body)
           in if length out \<le> kMaxFrameBytes then Some out else None))"

text \<open>\<open>ProtocolCodec::decode\<close>: the checks in the code's order. The payload output is the
  slice of the input that starts at the header's end.\<close>

definition decode :: "bytes \<Rightarrow> (FrameHeader \<times> bytes) option" where
  "decode data =
     (let len = length data in
      if len < kHeaderSize + kCrcSize then None
      else if data ! 0 \<noteq> kProtocolMagic \<or> data ! 1 \<noteq> kProtocolVersion then None
      else if le16 (data ! (len - 2)) (data ! (len - 1)) \<noteq> crc16CcittFalse (take (len - 2) data) then None
      else
        (let wire_msg = data ! 2; wire_service = data ! 9; wire_op = data ! 10;
             payload_len = le16 (data ! 11) (data ! 12)
         in if unat payload_len > kMaxPayload then None
            else if len \<noteq> kHeaderSize + unat payload_len + kCrcSize then None
            else case fromWire wire_msg wire_service wire_op of
              None \<Rightarrow> None
            | Some mapped \<Rightarrow>
                Some (\<lparr>fh_version = data ! 1, fh_type = mapped, fh_flags = data ! 3,
                        fh_correlation_id = le32 (data ! 4) (data ! 5) (data ! 6) (data ! 7),
                        fh_role = data ! 8, fh_wire_msg_type = wire_msg,
                        fh_wire_service = wire_service, fh_wire_op_code = wire_op,
                        fh_payload_length = payload_len\<rparr>,
                      take (unat payload_len) (drop kHeaderSize data))))"

section \<open>Round trips and error detection\<close>

lemma decode_bad_crc:
  "le16 (data ! (length data - 2)) (data ! (length data - 1)) \<noteq> crc16CcittFalse (take (length data - 2) data)
   \<Longrightarrow> decode data = None"
  unfolding decode_def Let_def by (simp only: if_True simp_thms if_cancel)

lemma decode_short: "length data < 15 \<Longrightarrow> decode data = None"
  by (simp add: decode_def frame_sizes)

lemma decode_SomeD:
  assumes "decode data = Some r"
  shows "15 \<le> length data"
    and "le16 (data ! (length data - 2)) (data ! (length data - 1)) = crc16CcittFalse (take (length data - 2) data)"
  using assms decode_bad_crc [of data] decode_short [of data] by (fastforce simp del: One_nat_def)+

lemma corrupted_decode:
  assumes "decode data = Some r" and "i < length data" and "y \<noteq> data ! i"
  shows "decode (data[i := y]) = None"
proof -
  let ?n = "length data"
  have n: "15 \<le> ?n"
    and crc: "le16 (data ! (?n - 2)) (data ! (?n - 1)) = crc16CcittFalse (take (?n - 2) data)"
    using decode_SomeD [OF assms(1)] by blast+
  have "le16 (data[i := y] ! (?n - 2)) (data[i := y] ! (?n - 1))
        \<noteq> crc16CcittFalse (take (?n - 2) (data[i := y]))"
  proof (cases "i < ?n - 2")
    case True
    then have "crc16CcittFalse ((take (?n - 2) data)[i := y]) \<noteq> crc16CcittFalse (take (?n - 2) data)"
      using assms(2,3) by (intro crc16_detects_update) auto
    then have "crc16CcittFalse (take (?n - 2) (data[i := y])) \<noteq> le16 (data ! (?n - 2)) (data ! (?n - 1))"
      unfolding crc by (simp only: take_update_swap not_False_eq_True)
    moreover have "data[i := y] ! (?n - 2) = data ! (?n - 2)" "data[i := y] ! (?n - 1) = data ! (?n - 1)"
      using True by simp_all
    ultimately show ?thesis by metis
  next
    case False
    then have "i = ?n - 2 \<or> i = ?n - 1" using assms(2) n by auto
    then have "le16 (data[i := y] ! (?n - 2)) (data[i := y] ! (?n - 1))
        \<noteq> le16 (data ! (?n - 2)) (data ! (?n - 1))"
      using assms(2,3) by (metis le16_eq_iff nth_list_update_eq)
    moreover have "take (?n - 2) (data[i := y]) = take (?n - 2) data"
      using False by simp
    ultimately show ?thesis using crc by metis
  qed
  then show ?thesis
    by (intro decode_bad_crc) (simp only: length_list_update not_False_eq_True)
qed

lemma length_frame_body [simp]: "length (frame_body h m s op p) = kHeaderSize + length p"
  by (simp add: frame_body_def frame_sizes)

lemma decode_frame_body:
  assumes "length p \<le> kMaxPayload" and "fromWire m s op = Some t"
  shows "decode (frame_body h m s op p @ appendLe16 (crc16CcittFalse (frame_body h m s op p)))
     = Some (h\<lparr>fh_version := kProtocolVersion, fh_type := t, fh_wire_msg_type := m,
               fh_wire_service := s, fh_wire_op_code := op,
               fh_payload_length := word_of_nat (length p)\<rparr>, p)"
proof -
  let ?b = "frame_body h m s op p"
  let ?d = "?b @ appendLe16 (crc16CcittFalse ?b)"
  have p: "length p \<le> 235" using assms(1) by (simp add: frame_sizes)
  then have un: "unat (word_of_nat (length p) :: u16) = length p"
    by (simp add: unat_of_nat)
  have len: "length ?d = 15 + length p" by (simp add: frame_sizes)
  have b: "?b = kProtocolMagic # kProtocolVersion # m # fh_flags h #
      ucast (fh_correlation_id h) # ucast (drop_bit 8 (fh_correlation_id h)) #
      ucast (drop_bit 16 (fh_correlation_id h)) # ucast (drop_bit 24 (fh_correlation_id h)) #
      fh_role h # s # op # ucast (word_of_nat (length p) :: u16) #
      ucast (drop_bit 8 (word_of_nat (length p) :: u16)) # p"
    by (simp add: frame_body_def appendLe32_eq appendLe16_eq)
  have crc: "le16 (?d ! (length ?d - 2)) (?d ! (length ?d - 1)) = crc16CcittFalse (take (length ?d - 2) ?d)"
    by (simp add: nth_append appendLe16_eq le16_split)
  show ?thesis
    unfolding decode_def Let_def len
    using crc [unfolded len] p un assms
    by (simp add: frame_sizes b le16_split le32_split del: le16_eq_iff)
qed
lemma wire_triple_decoded:
  assumes "fromWire m s op = Some t" and "fh_type h = t" and "fh_wire_msg_type h = m"
    and "fh_wire_service h = s" and "fh_wire_op_code h = op"
  shows "wire_triple h = Some (m, s, op)"
proof -
  have "t \<noteq> ErrorMsg" and "s \<noteq> 0" and "op \<noteq> 0" and "0x01 \<le> m" and "m \<le> 0x05"
    using fromWire_image [OF assms(1)] by auto
  with assms show ?thesis
    by (cases "toWire t") (auto simp: wire_triple_def)
qed

lemma length13E:
  assumes "length xs = 13"
  obtains d0 d1 d2 d3 d4 d5 d6 d7 d8 d9 d10 d11 d12 where
    "xs = [d0, d1, d2, d3, d4, d5, d6, d7, d8, d9, d10, d11, d12]"
  using assms by (auto simp: length_Suc_conv numeral_eq_Suc)

lemma length2E:
  assumes "length xs = 2"
  obtains a b where "xs = [a, b]"
  using assms by (auto simp: length_Suc_conv numeral_eq_Suc)

lemma split_frame:
  assumes "length data = 15 + n"
  obtains d0 d1 d2 d3 d4 d5 d6 d7 d8 d9 d10 d11 d12 p a b where
    "data = [d0, d1, d2, d3, d4, d5, d6, d7, d8, d9, d10, d11, d12] @ p @ [a, b]" and "length p = n"
proof -
  have "length (take 13 data) = 13" using assms by simp
  then obtain d0 d1 d2 d3 d4 d5 d6 d7 d8 d9 d10 d11 d12 where
    hd: "take 13 data = [d0, d1, d2, d3, d4, d5, d6, d7, d8, d9, d10, d11, d12]"
    by (rule length13E)
  have "length (drop (13 + n) data) = 2" using assms by simp
  then obtain a b where tl: "drop (13 + n) data = [a, b]"
    by (rule length2E)
  have "data = take 13 data @ take n (drop 13 data) @ drop (13 + n) data"
    by (metis append_take_drop_id drop_drop add.commute)
  with that [of d0 d1 d2 d3 d4 d5 d6 d7 d8 d9 d10 d11 d12 "take n (drop 13 data)" a b] assms
  show thesis unfolding hd tl by simp
qed

lemma encode_of_decode:
  assumes dec: "decode data = Some (h, p)"
  shows "encode h p = Some data"
proof -
  have len: "length data = 15 + unat (le16 (data ! 11) (data ! 12))"
    and max: "unat (le16 (data ! 11) (data ! 12)) \<le> 235"
    using dec unfolding decode_def Let_def frame_sizes by (auto split: if_split_asm)
  obtain d0 d1 d2 d3 d4 d5 d6 d7 d8 d9 d10 d11 d12 q a b where
    data: "data = [d0, d1, d2, d3, d4, d5, d6, d7, d8, d9, d10, d11, d12] @ q @ [a, b]"
    and q: "length q = unat (le16 d11 d12)"
    by (rule split_frame [OF len]) auto
  have crc: "le16 a b = crc16CcittFalse ([d0, d1, d2, d3, d4, d5, d6, d7, d8, d9, d10, d11, d12] @ q)"
    using decode_SomeD(2) [OF dec] by (simp add: data nth_append del: append_assoc)
  have m: "unat (le16 d11 d12) \<le> 235" using max by (simp add: data)
  obtain t where magic: "d0 = kProtocolMagic" "d1 = kProtocolVersion"
    and t: "fromWire d2 d9 d10 = Some t" and p: "p = q"
    and h: "h = \<lparr>fh_version = d1, fh_type = t, fh_flags = d3, fh_correlation_id = le32 d4 d5 d6 d7,
                fh_role = d8, fh_wire_msg_type = d2, fh_wire_service = d9, fh_wire_op_code = d10,
                fh_payload_length = le16 d11 d12\<rparr>"
    using dec q unfolding decode_def Let_def frame_sizes
    by (auto simp: data split: if_split_asm option.split_asm)
  have wt: "wire_triple h = Some (d2, d9, d10)"
    using t by (rule wire_triple_decoded) (simp_all add: h)
  have l: "word_of_nat (length q) = le16 d11 d12"
    by (simp add: q)
  have body: "frame_body h d2 d9 d10 q = [d0, d1, d2, d3, d4, d5, d6, d7, d8, d9, d10, d11, d12] @ q"
    by (simp add: frame_body_def h l magic)
  have "appendLe16 (crc16CcittFalse (frame_body h d2 d9 d10 q)) = [a, b]"
    unfolding body crc [symmetric] by simp
  then show ?thesis
    unfolding p using m q wt body by (simp add: encode_def Let_def frame_sizes data)
qed

lemma encode_eq:
  assumes "length p \<le> kMaxPayload" and "wire_triple h = Some (m, s, op)"
  shows "encode h p = Some (frame_body h m s op p @ appendLe16 (crc16CcittFalse (frame_body h m s op p)))"
  using assms by (simp add: encode_def Let_def frame_sizes)

lemma encode_SomeD:
  assumes "encode h p = Some out"
  obtains m s op where "length p \<le> kMaxPayload" and "wire_triple h = Some (m, s, op)"
    and "out = frame_body h m s op p @ appendLe16 (crc16CcittFalse (frame_body h m s op p))"
  using assms by (auto simp: encode_def Let_def split: if_split_asm option.split_asm)

lemma wire_triple_None_iff: "wire_triple h = None \<longleftrightarrow> fh_type h = ErrorMsg"
  by (auto simp: wire_triple_def split: option.split)

text \<open>
  A frame in normal form: what \<open>decode\<close> produces, and what \<open>encode\<close> writes without
  normalising anything.
\<close>

definition frame_wf :: "FrameHeader \<times> bytes \<Rightarrow> bool" where
  "frame_wf f \<longleftrightarrow>
     (case f of (h, p) \<Rightarrow>
        fh_version h = kProtocolVersion
      \<and> fh_payload_length h = word_of_nat (length p)
      \<and> fromWire (fh_wire_msg_type h) (fh_wire_service h) (fh_wire_op_code h) = Some (fh_type h))"

definition encode_frame :: "FrameHeader \<times> bytes \<Rightarrow> bytes option" where
  "encode_frame f = encode (fst f) (snd f)"

interpretation frame_codec: strict_codec encode_frame decode frame_wf
proof unfold_locales
  fix f b
  assume wf: "frame_wf f" and e: "encode_frame f = Some b"
  obtain h p where [simp]: "f = (h, p)" by fastforce
  have fw: "fromWire (fh_wire_msg_type h) (fh_wire_service h) (fh_wire_op_code h) = Some (fh_type h)"
    using wf by (simp add: frame_wf_def)
  have "wire_triple h = Some (fh_wire_msg_type h, fh_wire_service h, fh_wire_op_code h)"
    using fw by (rule wire_triple_decoded) simp_all
  then show "decode b = Some f"
    using e wf decode_frame_body [OF _ fw]
    by (auto simp: encode_frame_def frame_wf_def elim!: encode_SomeD)
next
  fix b f
  assume "decode b = Some f"
  then show "encode_frame f = Some b"
    by (cases f) (simp add: encode_frame_def encode_of_decode)
qed

section \<open>Properties of the frame layer\<close>

lemma crc16_byte_unfold:
  "crc16_byte c b = crc16_bit (crc16_bit (crc16_bit (crc16_bit (crc16_bit (crc16_bit (crc16_bit
     (crc16_bit (c XOR push_bit 8 (ucast b)))))))))"
  by (simp add: crc16_byte_def numeral_eq_Suc)

lemmas crc16_eval = crc16CcittFalse_def crc16_from_def crc16_byte_unfold crc16_bit_def

text \<open>An unpair acknowledgement of a slave, as it goes over the air.\<close>

definition sample_header :: FrameHeader where
  "sample_header = default_header\<lparr>fh_type := UnpairAck, fh_correlation_id := 0x01020304\<rparr>"

definition sample_frame :: bytes where
  "sample_frame = [0xE2, 2, 2, 0, 4, 3, 2, 1, 2, 1, 6, 0, 0, 0xC5, 0x37]"

lemma sample_triple: "wire_triple sample_header = Some (2, 1, 6)"
  by (simp add: wire_triple_def sample_header_def default_header_def wire_msg_defs wire_service_defs)

lemma sample_body: "frame_body sample_header 2 1 6 [] = [0xE2, 2, 2, 0, 4, 3, 2, 1, 2, 1, 6, 0, 0]"
  by (simp add: frame_body_def appendLe32_eq appendLe16_eq kProtocolVersion_def
      kProtocolMagic_def sample_header_def default_header_def)

lemma sample_crc: "crc16CcittFalse [0xE2, 2, 2, 0, 4, 3, 2, 1, 2, 1, 6, 0, 0] = 0x37C5"
  by (simp add: crc16_eval)

lemma encode_sample: "encode sample_header [] = Some sample_frame"
  by (simp add: encode_eq [OF _ sample_triple] sample_body sample_crc frame_sizes appendLe16_eq
      sample_frame_def)

lemma sample_from: "fromWire 2 1 6 = Some UnpairAck"
  by (simp add: fromWire_defs)

lemma decode_sample: "\<exists>h. decode sample_frame = Some (h, [])"
  using encode_sample encode_eq [OF _ sample_triple, of "[]"]
    decode_frame_body [OF _ sample_from, of "[]" sample_header]
  by (simp add: frame_sizes)

text \<open>
  Message types and wire triples: every message type the library sends has a wire triple
  of message kind, service and operation, and the receiver maps that triple back to the same
  type; the error type has none.
\<close>

lemma message_type_roundtrip:
  "(t \<noteq> ErrorMsg \<longrightarrow> (\<exists>m s op. toWire t = Some (m, s, op) \<and> fromWire m s op = Some t))
   \<and> toWire ErrorMsg = None"
proof -
  have "\<exists>m s op. toWire t = Some (m, s, op) \<and> fromWire m s op = Some t" if "t \<noteq> ErrorMsg"
  proof -
    from that obtain m s op where "toWire t = Some (m, s, op)"
      by (cases "toWire t") auto
    then show ?thesis using fromWire_toWire by blast
  qed
  then show ?thesis by simp
qed

text \<open>
  The encoder fails exactly on a payload above 235 bytes or on the error type; otherwise
  the frame is the header, the payload and the checksum, 15 bytes more than the payload and
  never above the 250-byte radio limit. The size test at the end of the encoder is never the
  reason for a failure.
\<close>

lemma encode_total:
  "(encode h p = None \<longleftrightarrow> 235 < length p \<or> fh_type h = ErrorMsg)
   \<and> (\<forall>out. encode h p = Some out \<longrightarrow> length out = 15 + length p \<and> length out \<le> 250)"
proof -
  have "encode h p = None \<longleftrightarrow> 235 < length p \<or> fh_type h = ErrorMsg"
    using wire_triple_None_iff [of h] encode_eq [of p h]
    by (cases "wire_triple h") (auto simp: encode_def Let_def frame_sizes)
  moreover have "length out = 15 + length p \<and> length out \<le> 250" if "encode h p = Some out" for out
    using that by (rule encode_SomeD) (simp add: frame_sizes)
  ultimately show ?thesis by blast
qed

text \<open>
  C35. Decoding an encoded frame gives the header and the payload back: the flags, the
  correlation id, the sender's role and every payload byte are unchanged, the version is the
  protocol's, the type is the one the wire triple stands for, and the wire fields are the
  triple itself (the header's own override where it had one).
\<close>

theorem decode_encode:
  assumes "encode h p = Some out" and "wire_triple h = Some (m, s, op)" and "fromWire m s op = Some t"
  shows "decode out = Some (h\<lparr>fh_version := kProtocolVersion, fh_type := t, fh_wire_msg_type := m,
           fh_wire_service := s, fh_wire_op_code := op,
           fh_payload_length := word_of_nat (length p)\<rparr>, p)"
  using assms(1)
proof (rule encode_SomeD)
  fix m' s' op'
  assume "length p \<le> kMaxPayload" and "wire_triple h = Some (m', s', op')"
    and "out = frame_body h m' s' op' p @ appendLe16 (crc16CcittFalse (frame_body h m' s' op' p))"
  then show ?thesis using assms(2) decode_frame_body [OF _ assms(3)] by simp
qed

theorem decode_encode_witness:
  "decode sample_frame = Some (sample_header\<lparr>fh_version := 2, fh_type := UnpairAck,
     fh_wire_msg_type := 2, fh_wire_service := 1, fh_wire_op_code := 6, fh_payload_length := 0\<rparr>, [])"
  using decode_encode [OF encode_sample sample_triple sample_from]
  by (simp add: kProtocolVersion_def)

text \<open>
  Frames are canonical: whatever bytes the decoder accepts are exactly the bytes the
  encoder writes for the decoded header and payload. So no two different byte strings decode
  to the same frame, and a relayed frame is unchanged.
\<close>

lemma encode_decode_canonical:
  assumes "decode data = Some (h, p)"
  shows "encode h p = Some data \<and> (\<forall>other. decode other = Some (h, p) \<longrightarrow> other = data)"
proof
  show "encode h p = Some data" using assms by (rule encode_of_decode)
  show "\<forall>other. decode other = Some (h, p) \<longrightarrow> other = data"
    using frame_codec.dec_inj [OF _ assms] by blast
qed

text \<open>
  C31. The checksum catches every corruption of one byte, wherever it is in an accepted frame
  (header, payload or the checksum itself) and whatever the new value: the decoder rejects
  the frame.
\<close>

theorem decode_rejects_corruption:
  assumes "decode data = Some r" and "i < length data" and "y \<noteq> data ! i"
  shows "decode (data[i := y]) = None"
  using assms by (rule corrupted_decode)

theorem decode_rejects_corruption_witness:
  "decode (sample_frame[3 := 1]) = None \<and> decode (sample_frame[14 := 0]) = None"
proof -
  obtain h where h: "decode sample_frame = Some (h, [])" using decode_sample by blast
  show ?thesis
    using decode_rejects_corruption [OF h, of 3 1] decode_rejects_corruption [OF h, of 14 0]
    by (simp add: sample_frame_def)
qed

end
