(* ===== verification/Tlv.thy ===== *)
theory Tlv
  imports Interfaces
begin

text \<open>
  Tag-length-value payloads: \<open>src/core/control_codec.cpp\<close>, the pairing payloads of
  \<open>src/pairing/pairing.cpp\<close> (builders) and \<open>src/core/manager_helpers.cpp\<close> (parsers).
  Every parser is the same loop over the records of the buffer with a different body; the
  loop is \<open>tlv_walk\<close>, and each parser is its body and what it returns at the end.
\<close>

section \<open>Records\<close>

text \<open>\<open>appendTlv(out, tag, type, value, len)\<close>: fails only on a null value of positive length.\<close>

definition appendTlv :: "bytes \<Rightarrow> u8 \<Rightarrow> u8 \<Rightarrow> buf \<Rightarrow> u16 \<Rightarrow> bytes option" where
  "appendTlv out tag ty v len =
     (let hdr = out @ [tag, ty] @ appendLe16 len
      in if len > 0 then (case v of None \<Rightarrow> None | Some bs \<Rightarrow> Some (hdr @ take (unat len) bs))
         else Some hdr)"

definition appendTlvU8 :: "bytes \<Rightarrow> u8 \<Rightarrow> u8 \<Rightarrow> bytes option" where
  "appendTlvU8 out tag v = appendTlv out tag 0x01 (Some [v]) 1"

definition appendTlvU32 :: "bytes \<Rightarrow> u8 \<Rightarrow> u32 \<Rightarrow> bytes option" where
  "appendTlvU32 out tag v = appendTlv out tag 0x03 (Some (appendLe32 v)) 4"

text \<open>One record on the wire.\<close>

definition tlv :: "u8 \<Rightarrow> u8 \<Rightarrow> bytes \<Rightarrow> bytes" where
  "tlv tag ty v = [tag, ty] @ appendLe16 (word_of_nat (length v)) @ v"

lemma appendTlv_bytes:
  "0 < length v \<Longrightarrow> length v < 65536 \<Longrightarrow> unat len = length v \<Longrightarrow> appendTlv out tag ty (Some v) len = Some (out @ tlv tag ty v)"
proof -
  assume "0 < length v" "length v < 65536" and len: "unat len = length v"
  have "word_of_nat (unat len) = len" by simp
  with len have l: "word_of_nat (length v) = len" by simp
  have "len \<noteq> 0" using len \<open>0 < length v\<close> by auto
  then have "0 < len" by (simp add: word_neq_0_conv)
  then show ?thesis using len l by (simp add: appendTlv_def tlv_def Let_def)
qed

lemma appendTlvU8_eq [simp]: "appendTlvU8 out tag v = Some (out @ tlv tag 0x01 [v])"
  unfolding appendTlvU8_def by (rule appendTlv_bytes) simp_all

lemma appendTlvU32_eq [simp]: "appendTlvU32 out tag v = Some (out @ tlv tag 0x03 (appendLe32 v))"
  unfolding appendTlvU32_def by (rule appendTlv_bytes) simp_all

section \<open>The parsing loop\<close>

text \<open>
  What a loop body does with a record: return from the parser, or go on with new flags and
  outputs.
\<close>

datatype ('r, 's) tlv_step = Return "'r option" | Continue 's

fun tlv_walk :: "(u8 \<Rightarrow> u8 \<Rightarrow> bytes \<Rightarrow> 's \<Rightarrow> ('r, 's) tlv_step) \<Rightarrow> ('s \<Rightarrow> 'r option) \<Rightarrow> 's \<Rightarrow> bytes \<Rightarrow> 'r option" where
  "tlv_walk body fin st (tag # ty # l0 # l1 # rest) =
     (let n = unat (le16 l0 l1)
      in if n > length rest then None
         else case body tag ty (take n rest) st of
           Return r \<Rightarrow> r
         | Continue st' \<Rightarrow> tlv_walk body fin st' (drop n rest))"
| "tlv_walk body fin st _ = fin st"

text \<open>Every parser first tests the payload pointer.\<close>

definition tlv_parse :: "(u8 \<Rightarrow> u8 \<Rightarrow> bytes \<Rightarrow> 's \<Rightarrow> ('r, 's) tlv_step) \<Rightarrow> ('s \<Rightarrow> 'r option) \<Rightarrow> 's \<Rightarrow> buf \<Rightarrow> 'r option" where
  "tlv_parse body fin st payload = (case payload of None \<Rightarrow> None | Some bs \<Rightarrow> tlv_walk body fin st bs)"

lemma tlv_walk_record:
  assumes "length v < 65536"
  shows "tlv_walk body fin st (tlv tag ty v @ rest) =
    (case body tag ty v st of Return r \<Rightarrow> r | Continue st' \<Rightarrow> tlv_walk body fin st' rest)"
proof -
  have "unat (word_of_nat (length v) :: u16) = length v"
    using assms by (simp add: unat_of_nat)
  then show ?thesis
    by (simp add: tlv_def appendLe16_eq le16_split Let_def split: tlv_step.split)
qed

lemma tlv_walk_last:
  assumes "length v < 65536"
  shows "tlv_walk body fin st (tlv tag ty v) =
    (case body tag ty v st of Return r \<Rightarrow> r | Continue st' \<Rightarrow> fin st')"
  using tlv_walk_record [OF assms, of body fin st tag ty "[]"] by (simp split: tlv_step.split)

text \<open>A record whose declared length runs past the end of the buffer fails the parse.\<close>

lemma tlv_walk_overrun:
  "length v < unat (le16 l0 l1) \<Longrightarrow> tlv_walk body fin st (tag # ty # l0 # l1 # v) = None"
  by (simp add: Let_def)

section \<open>Control commands and results\<close>

definition buildControlCommandPayload :: "u16 \<Rightarrow> bytes option" where
  "buildControlCommandPayload cmd_id =
     (case appendTlv [] 0x01 0x01 (Some [1]) 1 of
        None \<Rightarrow> None
      | Some out \<Rightarrow> appendTlv out 0x10 0x02 (Some (appendLe16 cmd_id)) 2)"

definition control_command_body :: "u8 \<Rightarrow> u8 \<Rightarrow> bytes \<Rightarrow> unit \<Rightarrow> (u16, unit) tlv_step" where
  "control_command_body tag ty v st =
     (if tag = 0x10 \<and> ty = 0x02 \<and> length v = 2 then Return (Some (readLe16 v)) else Continue ())"

definition parseControlCommandPayload :: "buf \<Rightarrow> u16 option" where
  "parseControlCommandPayload = tlv_parse control_command_body (\<lambda>_. None) ()"

definition buildControlResultPayload :: "u16 \<Rightarrow> u16 \<Rightarrow> bytes option" where
  "buildControlResultPayload cmd_id result_code =
     (case appendTlv [] 0x20 0x02 (Some (appendLe16 cmd_id)) 2 of
        None \<Rightarrow> None
      | Some out \<Rightarrow> appendTlv out 0x21 0x02 (Some (appendLe16 result_code)) 2)"

text \<open>The flags \<open>have_cmd\<close> and \<open>have_result\<close> with their outputs, as options.\<close>

fun control_result_body :: "u8 \<Rightarrow> u8 \<Rightarrow> bytes \<Rightarrow> u16 option \<times> u16 option \<Rightarrow> (u16 \<times> u16, u16 option \<times> u16 option) tlv_step" where
  "control_result_body tag ty v (cmd, res) =
     (if tag = 0x20 \<and> ty = 0x02 \<and> length v = 2 then Continue (Some (readLe16 v), res)
      else if tag = 0x21 \<and> ty = 0x02 \<and> length v = 2 then Continue (cmd, Some (readLe16 v))
      else Continue (cmd, res))"

fun both :: "'a option \<times> 'b option \<Rightarrow> ('a \<times> 'b) option" where
  "both (Some a, Some b) = Some (a, b)"
| "both _ = None"

definition parseControlResultPayload :: "buf \<Rightarrow> (u16 \<times> u16) option" where
  "parseControlResultPayload = tlv_parse control_result_body both (None, None)"

section \<open>Pairing payloads\<close>

definition kPairSeedSize :: nat where "kPairSeedSize = 16"

definition encodePairInitPayload :: "bytes \<Rightarrow> u32 \<Rightarrow> u8 \<Rightarrow> bytes option" where
  "encodePairInitPayload seed nonce profile_id =
     (case appendTlv [] 0x01 0x01 (Some [1]) 1 of None \<Rightarrow> None
      | Some o1 \<Rightarrow> (case appendTlv o1 0x10 0x08 (Some seed) (word_of_nat (length seed)) of None \<Rightarrow> None
      | Some o2 \<Rightarrow> (case appendTlvU32 o2 0x11 nonce of None \<Rightarrow> None
      | Some o3 \<Rightarrow> appendTlvU8 o3 0x12 profile_id)))"

text \<open>\<open>have_seed\<close>, \<open>have_nonce\<close>, \<open>have_profile\<close> with their outputs.\<close>

record pair_init_out =
  pi_seed :: "bytes option"
  pi_nonce :: "u32 option"
  pi_profile :: "u8 option"

definition pair_init_body :: "u8 \<Rightarrow> u8 \<Rightarrow> bytes \<Rightarrow> pair_init_out \<Rightarrow> (bytes \<times> u32 \<times> u8, pair_init_out) tlv_step" where
  "pair_init_body tag ty v st =
     (if tag = 0x10 \<and> ty = 0x08 \<and> length v = kPairSeedSize then Continue (st\<lparr>pi_seed := Some v\<rparr>)
      else if tag = 0x11 \<and> ty = 0x03 \<and> length v = 4 then Continue (st\<lparr>pi_nonce := Some (readLe32 v)\<rparr>)
      else if tag = 0x12 \<and> ty = 0x01 \<and> length v = 1 then Continue (st\<lparr>pi_profile := Some (v ! 0)\<rparr>)
      else Continue st)"

definition pair_init_fin :: "pair_init_out \<Rightarrow> (bytes \<times> u32 \<times> u8) option" where
  "pair_init_fin st =
     (case (pi_seed st, pi_nonce st, pi_profile st) of
        (Some s, Some n, Some p) \<Rightarrow> Some (s, n, p)
      | _ \<Rightarrow> None)"

definition parsePairInitPayload :: "buf \<Rightarrow> (bytes \<times> u32 \<times> u8) option" where
  "parsePairInitPayload =
     tlv_parse pair_init_body pair_init_fin \<lparr>pi_seed = None, pi_nonce = None, pi_profile = None\<rparr>"

definition encodePairInitAckPayload :: "u32 \<Rightarrow> bytes option" where
  "encodePairInitAckPayload nonce = appendTlvU32 [] 0x20 nonce"

definition encodePairConfirmPayload :: "u32 \<Rightarrow> bytes option" where
  "encodePairConfirmPayload nonce = appendTlvU32 [] 0x30 nonce"

definition nonce_echo_body :: "u8 \<Rightarrow> u8 \<Rightarrow> u8 \<Rightarrow> bytes \<Rightarrow> unit \<Rightarrow> (u32, unit) tlv_step" where
  "nonce_echo_body expected_tag tag ty v st =
     (if tag = expected_tag \<and> ty = 0x03 \<and> length v = 4 then Return (Some (readLe32 v)) else Continue ())"

definition parseNonceEchoPayload :: "buf \<Rightarrow> u8 \<Rightarrow> u32 option" where
  "parseNonceEchoPayload payload expected_tag =
     tlv_parse (nonce_echo_body expected_tag) (\<lambda>_. None) () payload"

definition encodePairConfirmAckPayload :: "bytes option" where
  "encodePairConfirmAckPayload = appendTlvU8 [] 0x40 1"

definition pair_confirm_ack_body :: "u8 \<Rightarrow> u8 \<Rightarrow> bytes \<Rightarrow> unit \<Rightarrow> (bool, unit) tlv_step" where
  "pair_confirm_ack_body tag ty v st =
     (if tag = 0x40 \<and> ty = 0x01 \<and> length v = 1 then Return (Some (v ! 0 = 1)) else Continue ())"

definition parsePairConfirmAckPayload :: "buf \<Rightarrow> bool option" where
  "parsePairConfirmAckPayload = tlv_parse pair_confirm_ack_body (\<lambda>_. None) ()"

record ChannelSwitchPayload =
  new_channel :: u8
  effective_at_ms :: u32

definition encodeChannelPreparePayload :: "ChannelSwitchPayload \<Rightarrow> bytes option" where
  "encodeChannelPreparePayload c =
     (case appendTlvU8 [] 0x10 (new_channel c) of None \<Rightarrow> None
      | Some o1 \<Rightarrow> appendTlvU32 o1 0x11 (effective_at_ms c))"

fun channel_switch_body :: "u8 \<Rightarrow> u8 \<Rightarrow> bytes \<Rightarrow> u8 option \<times> u32 option \<Rightarrow> (u8 \<times> u32, u8 option \<times> u32 option) tlv_step" where
  "channel_switch_body tag ty v (ch, t) =
     (if tag = 0x10 \<and> ty = 0x01 \<and> length v = 1 then Continue (Some (v ! 0), t)
      else if tag = 0x11 \<and> ty = 0x03 \<and> length v = 4 then Continue (ch, Some (readLe32 v))
      else Continue (ch, t))"

definition parseChannelSwitchPayload :: "buf \<Rightarrow> ChannelSwitchPayload option" where
  "parseChannelSwitchPayload payload =
     map_option (\<lambda>(c, t). \<lparr>new_channel = c, effective_at_ms = t\<rparr>)
       (tlv_parse channel_switch_body both (None, None) payload)"

section \<open>What the builders write, and the parsers read back\<close>

lemma buildControlCommandPayload_eq:
  "buildControlCommandPayload cmd = Some (tlv 0x01 0x01 [1] @ tlv 0x10 0x02 (appendLe16 cmd))"
  by (simp add: buildControlCommandPayload_def appendTlv_bytes)

lemma buildControlResultPayload_eq:
  "buildControlResultPayload cmd res =
     Some (tlv 0x20 0x02 (appendLe16 cmd) @ tlv 0x21 0x02 (appendLe16 res))"
  by (simp add: buildControlResultPayload_def appendTlv_bytes)

lemma encodePairInitPayload_eq:
  assumes "length seed = 16"
  shows "encodePairInitPayload seed nonce prof =
     Some (tlv 0x01 0x01 [1] @ tlv 0x10 0x08 seed @ tlv 0x11 0x03 (appendLe32 nonce) @ tlv 0x12 0x01 [prof])"
  using assms by (simp add: encodePairInitPayload_def appendTlv_bytes)

lemmas tlv_codec_defs = tlv_parse_def tlv_walk_record tlv_walk_last
  buildControlCommandPayload_eq buildControlResultPayload_eq encodePairInitPayload_eq
  parseControlCommandPayload_def control_command_body_def
  parseControlResultPayload_def
  parsePairInitPayload_def pair_init_body_def pair_init_fin_def kPairSeedSize_def
  encodePairInitAckPayload_def encodePairConfirmPayload_def parseNonceEchoPayload_def nonce_echo_body_def
  encodePairConfirmAckPayload_def parsePairConfirmAckPayload_def pair_confirm_ack_body_def
  encodeChannelPreparePayload_def parseChannelSwitchPayload_def

lemma readLe16_appendLe16 [simp]: "readLe16 (appendLe16 v) = v"
  using readLe16_append [of v "[]"] by simp

interpretation control_command: codec buildControlCommandPayload
  "\<lambda>b. parseControlCommandPayload (Some b)" "\<lambda>_. True"
  by unfold_locales (auto simp: tlv_codec_defs)

interpretation control_result: codec "\<lambda>(c, r). buildControlResultPayload c r"
  "\<lambda>b. parseControlResultPayload (Some b)" "\<lambda>_. True"
  by unfold_locales (auto simp: tlv_codec_defs)

interpretation pair_init: codec "\<lambda>(s, n, p). encodePairInitPayload s n p"
  "\<lambda>b. parsePairInitPayload (Some b)" "\<lambda>(s, _). length s = 16"
  by unfold_locales (auto simp: tlv_codec_defs)

interpretation pair_init_ack: codec encodePairInitAckPayload
  "\<lambda>b. parseNonceEchoPayload (Some b) 0x20" "\<lambda>_. True"
  by unfold_locales (auto simp: tlv_codec_defs)

interpretation pair_confirm: codec encodePairConfirmPayload
  "\<lambda>b. parseNonceEchoPayload (Some b) 0x30" "\<lambda>_. True"
  by unfold_locales (auto simp: tlv_codec_defs)

interpretation channel_prepare: codec encodeChannelPreparePayload
  "\<lambda>b. parseChannelSwitchPayload (Some b)" "\<lambda>_. True"
  by unfold_locales (auto simp: tlv_codec_defs)

lemma pair_confirm_ack_roundtrip:
  "encodePairConfirmAckPayload = Some b \<Longrightarrow> parsePairConfirmAckPayload (Some b) = Some True"
  by (auto simp: tlv_codec_defs)

lemma tlv_walk_take:
  assumes "length v < 65536"
  shows "tlv_walk body fin st (take k (tlv tag ty v @ rest)) =
    (if k < 4 then fin st else if k < 4 + length v then None
     else case body tag ty v st of Return r \<Rightarrow> r
       | Continue st' \<Rightarrow> tlv_walk body fin st' (take (k - 4 - length v) rest))"
proof -
  define n :: u16 where "n = word_of_nat (length v)"
  have n: "unat n = length v" using assms by (simp add: n_def unat_of_nat)
  have rec: "tlv tag ty v @ rest = tag # ty # ucast n # ucast (drop_bit 8 n) # v @ rest"
    by (simp add: tlv_def appendLe16_eq n_def)
  consider "k = 0" | "k = 1" | "k = 2" | "k = 3" | j where "k = Suc (Suc (Suc (Suc j)))"
    by (metis One_nat_def Suc_1 numeral_3_eq_3 not0_implies_Suc)
  then show ?thesis
  proof cases
    case 5
    then show ?thesis
      unfolding rec by (auto simp: Let_def le16_split n split: tlv_step.split)
  qed (simp_all add: rec numeral_2_eq_2 numeral_3_eq_3)
qed

lemma parsePairInitPayload_truncated:
  assumes "encodePairInitPayload seed nonce prof = Some b" and "length seed = 16" and "k < length b"
  shows "parsePairInitPayload (Some (take k b)) = None"
proof -
  have b: "b = tlv 0x01 0x01 [1] @ tlv 0x10 0x08 seed @ tlv 0x11 0x03 (appendLe32 nonce) @ tlv 0x12 0x01 [prof] @ []"
    using assms(1,2) by (simp add: encodePairInitPayload_eq)
  have "k < 38" using assms(2,3) by (simp add: b tlv_def)
  then show ?thesis
    unfolding b parsePairInitPayload_def tlv_parse_def
    using assms(2) by (simp add: tlv_walk_take tlv_walk_take [where rest = "[]", simplified] pair_init_body_def
        pair_init_fin_def kPairSeedSize_def del: take_append)
qed

section \<open>Properties of the record payloads\<close>

text \<open>
  Pairing payloads: what the pairing engine builds for pair init, pair init
  acknowledgement, pair confirm, its acknowledgement and a channel switch is what the
  receiving manager parses, field by field, for a 16-byte seed.
\<close>

lemma pairing_payload_roundtrip:
  assumes "length seed = 16"
  shows "(\<exists>b. encodePairInitPayload seed nonce prof = Some b
              \<and> parsePairInitPayload (Some b) = Some (seed, nonce, prof))
    \<and> (\<exists>b. encodePairInitAckPayload nonce = Some b \<and> parseNonceEchoPayload (Some b) 0x20 = Some nonce)
    \<and> (\<exists>b. encodePairConfirmPayload nonce = Some b \<and> parseNonceEchoPayload (Some b) 0x30 = Some nonce)
    \<and> (\<exists>b. encodePairConfirmAckPayload = Some b \<and> parsePairConfirmAckPayload (Some b) = Some True)
    \<and> (\<exists>b. encodeChannelPreparePayload c = Some b \<and> parseChannelSwitchPayload (Some b) = Some c)"
proof (intro conjI)
  show "\<exists>b. encodePairInitPayload seed nonce prof = Some b
           \<and> parsePairInitPayload (Some b) = Some (seed, nonce, prof)"
    using assms encodePairInitPayload_eq [OF assms, of nonce prof]
      pair_init.dec_enc [of "(seed, nonce, prof)"] by auto
  show "\<exists>b. encodePairInitAckPayload nonce = Some b \<and> parseNonceEchoPayload (Some b) 0x20 = Some nonce"
    using pair_init_ack.dec_enc by (simp add: encodePairInitAckPayload_def)
  show "\<exists>b. encodePairConfirmPayload nonce = Some b \<and> parseNonceEchoPayload (Some b) 0x30 = Some nonce"
    using pair_confirm.dec_enc by (simp add: encodePairConfirmPayload_def)
  show "\<exists>b. encodePairConfirmAckPayload = Some b \<and> parsePairConfirmAckPayload (Some b) = Some True"
    using pair_confirm_ack_roundtrip by (simp add: encodePairConfirmAckPayload_def)
  show "\<exists>b. encodeChannelPreparePayload c = Some b \<and> parseChannelSwitchPayload (Some b) = Some c"
    using channel_prepare.dec_enc by (simp add: encodeChannelPreparePayload_def)
qed

text \<open>
  A truncated pair-init payload is never taken for a complete one: every proper prefix of
  what the master sends is rejected, whichever field the cut falls in.
\<close>

lemma pair_init_truncation_rejected:
  assumes "encodePairInitPayload seed nonce prof = Some b" and "length seed = 16" and "k < length b"
  shows "parsePairInitPayload (Some (take k b)) = None"
  using assms by (rule parsePairInitPayload_truncated)

text \<open>
  Forward compatibility of pairing: a record whose tag the parser does not know is skipped
  as a whole, so a sender may put new records anywhere before the known ones.
\<close>

lemma pair_init_skips_unknown:
  assumes "length v < 65536" and "tag \<notin> {0x10, 0x11, 0x12}"
  shows "parsePairInitPayload (Some (tlv tag ty v @ p)) = parsePairInitPayload (Some p)"
  using assms
  by (simp add: parsePairInitPayload_def tlv_parse_def tlv_walk_record pair_init_body_def)

text \<open>
  Control commands and results: both payloads parse back to the ids they were built from,
  for every 16-bit id, and a command is never mistaken for a result nor a result for a command.
\<close>

lemma control_payload_roundtrip:
  "\<exists>b d. buildControlCommandPayload cmd = Some b \<and> buildControlResultPayload cmd res = Some d
     \<and> parseControlCommandPayload (Some b) = Some cmd \<and> parseControlResultPayload (Some b) = None
     \<and> parseControlResultPayload (Some d) = Some (cmd, res) \<and> parseControlCommandPayload (Some d) = None"
  by (simp add: tlv_codec_defs)

end
