(* ===== verification/Tables.thy ===== *)
theory Tables
  imports Interfaces
begin

text \<open>
  Vectors searched by key, as the library keeps its peers: the first record with the key is
  found, changed in place or erased, and a record that is missing is pushed at the end.
  Shared by the peer registry, the discovery cache and the role-hint cache.
\<close>

definition find_by :: "('r \<Rightarrow> 'k) \<Rightarrow> 'k \<Rightarrow> 'r list \<Rightarrow> 'r option" where
  "find_by key k rs = List.find (\<lambda>r. key r = k) rs"

fun upd_by :: "('r \<Rightarrow> 'k) \<Rightarrow> 'k \<Rightarrow> ('r \<Rightarrow> 'r) \<Rightarrow> 'r list \<Rightarrow> 'r list" where
  "upd_by key k f [] = []"
| "upd_by key k f (r # rs) = (if key r = k then f r # rs else r # upd_by key k f rs)"

fun del_by :: "('r \<Rightarrow> 'k) \<Rightarrow> 'k \<Rightarrow> 'r list \<Rightarrow> 'r list" where
  "del_by key k [] = []"
| "del_by key k (r # rs) = (if key r = k then rs else r # del_by key k rs)"

definition upsert_by :: "('r \<Rightarrow> 'k) \<Rightarrow> 'k \<Rightarrow> 'r \<Rightarrow> ('r \<Rightarrow> 'r) \<Rightarrow> 'r list \<Rightarrow> 'r list" where
  "upsert_by key k created f rs =
     (case find_by key k rs of None \<Rightarrow> rs @ [created] | Some _ \<Rightarrow> upd_by key k f rs)"

lemma find_by_Nil [simp]: "find_by key k [] = None"
  by (simp add: find_by_def)

lemma find_by_Cons [simp]: "find_by key k (r # rs) = (if key r = k then Some r else find_by key k rs)"
  by (simp add: find_by_def)

lemma find_by_None_iff: "find_by key k rs = None \<longleftrightarrow> k \<notin> key ` set rs"
  by (induction rs) auto

lemma find_by_key: "find_by key k rs = Some r \<Longrightarrow> key r = k \<and> r \<in> set rs"
  by (induction rs) (auto split: if_splits)

lemma find_by_append:
  "find_by key k (rs @ qs) = (case find_by key k rs of None \<Rightarrow> find_by key k qs | Some r \<Rightarrow> Some r)"
  by (induction rs) auto

text \<open>An in-place change that keeps the key.\<close>

lemma find_by_upd:
  assumes "\<And>r. key r = k \<Longrightarrow> key (f r) = k"
  shows "find_by key j (upd_by key k f rs) =
    (if j = k then map_option f (find_by key k rs) else find_by key j rs)"
  by (induction rs) (auto simp: assms)

lemma upd_by_keys [simp]:
  assumes "\<And>r. key r = k \<Longrightarrow> key (f r) = k"
  shows "map key (upd_by key k f rs) = map key rs"
  by (induction rs) (auto simp: assms)

lemma length_upd_by [simp]: "length (upd_by key k f rs) = length rs"
  by (induction rs) auto

lemma set_upd_by: "set (upd_by key k f rs) \<subseteq> set rs \<union> f ` {r \<in> set rs. key r = k}"
  by (induction rs) auto

lemma set_upsert_by:
  "set (upsert_by key k c f rs) \<subseteq> set rs \<union> {c} \<union> f ` {r \<in> set rs. key r = k}"
  using set_upd_by [of key k f rs] by (auto simp: upsert_by_def split: option.splits)

lemma set_del_by: "set (del_by key k rs) \<subseteq> set rs"
  by (induction rs) auto

lemma find_by_upsert:
  assumes "\<And>r. key r = k \<Longrightarrow> key (f r) = k" and "key c = k"
  shows "find_by key j (upsert_by key k c f rs) =
    (if j = k then Some (case find_by key k rs of None \<Rightarrow> c | Some r \<Rightarrow> f r)
     else find_by key j rs)"
proof (cases "find_by key k rs")
  case None
  then show ?thesis using assms(2) by (auto simp: upsert_by_def find_by_append split: option.split)
next
  case (Some r)
  have "find_by key j (upd_by key k f rs) =
      (if j = k then map_option f (find_by key k rs) else find_by key j rs)"
    by (rule find_by_upd) (rule assms(1))
  then show ?thesis using Some by (simp add: upsert_by_def)
qed

lemma distinct_upsert:
  assumes "distinct (map key rs)" and "\<And>r. key r = k \<Longrightarrow> key (f r) = k" and "key c = k"
  shows "distinct (map key (upsert_by key k c f rs))"
  using assms by (auto simp: upsert_by_def find_by_None_iff split: option.split)

lemma find_by_del:
  "distinct (map key rs) \<Longrightarrow> find_by key j (del_by key k rs) = (if j = k then None else find_by key j rs)"
  by (induction rs) (auto simp: find_by_None_iff)

lemma distinct_del: "distinct (map key rs) \<Longrightarrow> distinct (map key (del_by key k rs))"
  by (induction rs) (use set_del_by in \<open>fastforce\<close>)+

lemma length_upsert:
  "length (upsert_by key k c f rs) = (if find_by key k rs = None then Suc (length rs) else length rs)"
  by (auto simp: upsert_by_def split: option.split)

text \<open>The vector is a keyed table as long as its keys are distinct.\<close>

lemma keyed_table_by:
  "keyed_table (\<lambda>rs k. find_by key k rs) (\<lambda>k v. upsert_by key k v (\<lambda>_. v))
     (\<lambda>k. del_by key k) (\<lambda>rs. distinct (map key rs)) (\<lambda>k v. key v = k)"
proof unfold_locales
  fix t :: "'a list" and k v
  assume t: "distinct (map key t)"
  show "(\<lambda>j. find_by key j (del_by key k t)) = (\<lambda>j. find_by key j t)(k := None)"
    using t by (auto simp: find_by_del)
  show "distinct (map key (del_by key k t))"
    using t by (rule distinct_del)
  assume kv: "key v = k"
  show "(\<lambda>j. find_by key j (upsert_by key k v (\<lambda>_. v) t)) = (\<lambda>j. find_by key j t)(k \<mapsto> v)"
    using kv by (auto simp: find_by_upsert split: option.split)
  show "distinct (map key (upsert_by key k v (\<lambda>_. v) t))"
    by (rule distinct_upsert) (use t kv in auto)
qed

end
