(* ===== verification/Registry.thy ===== *)
theory Registry
  imports Tables
begin

text \<open>
  The peer registry (\<open>src/core/peer_registry.cpp\<close>), the master's discovery cache
  (\<open>touchDiscovery\<close>, \<open>tickDiscoveryCache\<close> in \<open>manager_tick_and_queues.cpp\<close>) and the
  role-hint cache (\<open>manager_pairing_and_peers.cpp\<close>). Every registry operation returns the
  code's result with the new vector.
\<close>

section \<open>Registry\<close>

datatype LogicalPeerState = Discovered | Pairing | Paired | Offline

record PeerRecord =
  pr_mac :: mac
  pr_state :: LogicalPeerState
  pr_pinned :: bool
  pr_last_rssi :: u16
  pr_last_seen_ms :: u32
  pr_last_liveness_online :: bool
  pr_retry_count :: u32
  pr_backoff_until_ms :: u32

definition new_peer :: "mac \<Rightarrow> PeerRecord" where
  "new_peer m = \<lparr>pr_mac = m, pr_state = Discovered, pr_pinned = False, pr_last_rssi = 0,
     pr_last_seen_ms = 0, pr_last_liveness_online = False, pr_retry_count = 0,
     pr_backoff_until_ms = 0\<rparr>"

type_synonym registry = "PeerRecord list"

definition findConst :: "mac \<Rightarrow> registry \<Rightarrow> PeerRecord option" where
  "findConst m rs = find_by pr_mac m rs"

definition upsertDiscovery :: "mac \<Rightarrow> u16 \<Rightarrow> u32 \<Rightarrow> registry \<Rightarrow> bool \<times> registry" where
  "upsertDiscovery m rssi now rs =
     (True, upsert_by pr_mac m
        ((new_peer m)\<lparr>pr_state := Discovered, pr_last_rssi := rssi, pr_last_seen_ms := now\<rparr>)
        (\<lambda>r. let r' = r\<lparr>pr_last_rssi := rssi, pr_last_seen_ms := now\<rparr>
             in if pr_state r' = Offline then r'\<lparr>pr_state := Discovered\<rparr> else r') rs)"

definition markPairing :: "mac \<Rightarrow> u32 \<Rightarrow> registry \<Rightarrow> bool \<times> registry" where
  "markPairing m now rs =
     (True, upsert_by pr_mac m ((new_peer m)\<lparr>pr_state := Pairing, pr_last_seen_ms := now\<rparr>)
        (\<lambda>r. r\<lparr>pr_state := Pairing, pr_last_seen_ms := now\<rparr>) rs)"

definition markPaired :: "mac \<Rightarrow> u32 \<Rightarrow> registry \<Rightarrow> bool \<times> registry" where
  "markPaired m now rs =
     (True, upsert_by pr_mac m
        ((new_peer m)\<lparr>pr_state := Paired, pr_last_seen_ms := now, pr_last_liveness_online := True\<rparr>)
        (\<lambda>r. r\<lparr>pr_state := Paired, pr_last_seen_ms := now, pr_last_liveness_online := True,
                pr_retry_count := 0, pr_backoff_until_ms := 0\<rparr>) rs)"

definition on_known :: "mac \<Rightarrow> (PeerRecord \<Rightarrow> PeerRecord) \<Rightarrow> registry \<Rightarrow> bool \<times> registry" where
  "on_known m f rs = (case findConst m rs of None \<Rightarrow> (False, rs) | Some _ \<Rightarrow> (True, upd_by pr_mac m f rs))"

definition markOffline :: "mac \<Rightarrow> u32 \<Rightarrow> registry \<Rightarrow> bool \<times> registry" where
  "markOffline m now = on_known m
     (\<lambda>r. r\<lparr>pr_state := Offline, pr_last_liveness_online := False, pr_last_seen_ms := now\<rparr>)"

definition reg_removePeer :: "mac \<Rightarrow> registry \<Rightarrow> bool \<times> registry" where
  "reg_removePeer m rs =
     (case findConst m rs of None \<Rightarrow> (False, rs) | Some _ \<Rightarrow> (True, del_by pr_mac m rs))"

definition setPinned :: "mac \<Rightarrow> bool \<Rightarrow> registry \<Rightarrow> bool \<times> registry" where
  "setPinned m pinned = on_known m (\<lambda>r. r\<lparr>pr_pinned := pinned\<rparr>)"

definition updateLiveness :: "mac \<Rightarrow> bool \<Rightarrow> u32 \<Rightarrow> registry \<Rightarrow> bool \<times> registry" where
  "updateLiveness m online now = on_known m
     (\<lambda>r. r\<lparr>pr_last_liveness_online := online, pr_last_seen_ms := now,
             pr_state := (if online then Paired else Offline)\<rparr>)"

definition bumpRetry :: "mac \<Rightarrow> u32 \<Rightarrow> u32 \<Rightarrow> registry \<Rightarrow> bool \<times> registry" where
  "bumpRetry m now backoff_ms = on_known m
     (\<lambda>r. r\<lparr>pr_retry_count := pr_retry_count r + 1, pr_last_seen_ms := now,
             pr_backoff_until_ms := now + backoff_ms\<rparr>)"

definition getPeer :: "mac \<Rightarrow> registry \<Rightarrow> PeerRecord option" where
  "getPeer m rs = findConst m rs"

definition reg_size :: "registry \<Rightarrow> nat" where
  "reg_size rs = length rs"

section \<open>Registry operations as one machine\<close>

datatype reg_op =
    OpClear
  | OpDiscovery mac u16 u32
  | OpPairing mac u32
  | OpPaired mac u32
  | OpOffline mac u32
  | OpRemove mac
  | OpPin mac bool
  | OpLiveness mac bool u32
  | OpRetry mac u32 u32

fun reg_apply :: "reg_op \<Rightarrow> registry \<Rightarrow> bool \<times> registry" where
  "reg_apply OpClear rs = (True, [])"
| "reg_apply (OpDiscovery m rssi now) rs = upsertDiscovery m rssi now rs"
| "reg_apply (OpPairing m now) rs = markPairing m now rs"
| "reg_apply (OpPaired m now) rs = markPaired m now rs"
| "reg_apply (OpOffline m now) rs = markOffline m now rs"
| "reg_apply (OpRemove m) rs = reg_removePeer m rs"
| "reg_apply (OpPin m p) rs = setPinned m p rs"
| "reg_apply (OpLiveness m o_n now) rs = updateLiveness m o_n now rs"
| "reg_apply (OpRetry m now b) rs = bumpRetry m now b rs"

text \<open>
  Well-formed: one record per address, and the liveness flag agrees with the state: a paired
  peer is online, a discovered or offline one is not.
\<close>

definition peer_ok :: "PeerRecord \<Rightarrow> bool" where
  "peer_ok r \<longleftrightarrow>
     (case pr_state r of
        Discovered \<Rightarrow> \<not> pr_last_liveness_online r
      | Pairing \<Rightarrow> True
      | Paired \<Rightarrow> pr_last_liveness_online r
      | Offline \<Rightarrow> \<not> pr_last_liveness_online r)"

definition reg_inv :: "registry \<Rightarrow> bool" where
  "reg_inv rs \<longleftrightarrow> distinct (map pr_mac rs) \<and> (\<forall>r \<in> set rs. peer_ok r)"

lemma upsert_inv:
  assumes "reg_inv rs" and "pr_mac c = m" and "peer_ok c"
    and "\<And>r. pr_mac r = m \<Longrightarrow> pr_mac (f r) = m" and "\<And>r. peer_ok r \<Longrightarrow> peer_ok (f r)"
  shows "reg_inv (upsert_by pr_mac m c f rs)"
proof -
  have "distinct (map pr_mac (upsert_by pr_mac m c f rs))"
    using assms by (intro distinct_upsert) (auto simp: reg_inv_def)
  moreover have "\<forall>r \<in> set (upsert_by pr_mac m c f rs). peer_ok r"
    using set_upsert_by [of pr_mac m c f rs] assms by (auto simp: reg_inv_def)
  ultimately show ?thesis by (simp add: reg_inv_def)
qed

lemma on_known_inv:
  assumes "reg_inv rs" and "\<And>r. pr_mac (f r) = pr_mac r" and "\<And>r. peer_ok r \<Longrightarrow> peer_ok (f r)"
  shows "reg_inv (snd (on_known m f rs))"
proof (cases "findConst m rs")
  case None
  then show ?thesis using assms(1) by (simp add: on_known_def)
next
  case (Some r)
  have "\<forall>r \<in> set (upd_by pr_mac m f rs). peer_ok r"
    using set_upd_by [of pr_mac m f rs] assms by (auto simp: reg_inv_def)
  with Some assms(1,2) show ?thesis by (simp add: on_known_def reg_inv_def)
qed

lemma reg_apply_inv: "reg_inv rs \<Longrightarrow> reg_inv (snd (reg_apply op rs))"
proof (cases op)
  case OpClear
  then show ?thesis by (simp add: reg_inv_def)
next
  case (OpRemove m)
  assume "reg_inv rs"
  then show ?thesis
    using OpRemove set_del_by [of pr_mac m rs] distinct_del [of pr_mac rs m]
    by (auto simp: reg_removePeer_def reg_inv_def split: option.split)
qed (auto simp: upsertDiscovery_def markPairing_def markPaired_def markOffline_def setPinned_def
    updateLiveness_def bumpRetry_def new_peer_def peer_ok_def Let_def
    intro!: upsert_inv on_known_inv split: LogicalPeerState.splits)

inductive reg_step :: "registry \<Rightarrow> registry \<Rightarrow> bool" where
  reg_step: "reg_step rs (snd (reg_apply op rs))"

interpretation registry_machine: invariant_machine reg_step reg_inv
  by unfold_locales (auto elim!: reg_step.cases intro: reg_apply_inv)

interpretation registry_table: keyed_table "\<lambda>rs m. findConst m rs"
  "\<lambda>m r. upsert_by pr_mac m r (\<lambda>_. r)" "\<lambda>m. del_by pr_mac m"
  "\<lambda>rs. distinct (map pr_mac rs)" "\<lambda>m r. pr_mac r = m"
  unfolding findConst_def by (rule keyed_table_by)

section \<open>The registry as a map\<close>

text \<open>
  The abstract registry: a map from addresses to records; each operation on the vector is
  one update of the map.
\<close>

definition reg_abs :: "registry \<Rightarrow> (mac \<rightharpoonup> PeerRecord)" where
  "reg_abs rs = (\<lambda>m. findConst m rs)"

definition spec_apply :: "reg_op \<Rightarrow> (mac \<rightharpoonup> PeerRecord) \<Rightarrow> (mac \<rightharpoonup> PeerRecord)" where
  "spec_apply op t =
     (case op of
        OpClear \<Rightarrow> Map.empty
      | OpDiscovery m rssi now \<Rightarrow> t(m \<mapsto> (case t m of
            None \<Rightarrow> (new_peer m)\<lparr>pr_last_rssi := rssi, pr_last_seen_ms := now\<rparr>
          | Some r \<Rightarrow> r\<lparr>pr_last_rssi := rssi, pr_last_seen_ms := now,
                        pr_state := (if pr_state r = Offline then Discovered else pr_state r)\<rparr>))
      | OpPairing m now \<Rightarrow> t(m \<mapsto> (case t m of None \<Rightarrow> new_peer m | Some r \<Rightarrow> r)
                                   \<lparr>pr_state := Pairing, pr_last_seen_ms := now\<rparr>)
      | OpPaired m now \<Rightarrow> t(m \<mapsto> (case t m of None \<Rightarrow> new_peer m | Some r \<Rightarrow> r)
                                  \<lparr>pr_state := Paired, pr_last_seen_ms := now,
                                   pr_last_liveness_online := True, pr_retry_count := 0,
                                   pr_backoff_until_ms := 0\<rparr>)
      | OpOffline m now \<Rightarrow> t(m := map_option (\<lambda>r. r\<lparr>pr_state := Offline,
                                   pr_last_liveness_online := False, pr_last_seen_ms := now\<rparr>) (t m))
      | OpRemove m \<Rightarrow> t(m := None)
      | OpPin m p \<Rightarrow> t(m := map_option (\<lambda>r. r\<lparr>pr_pinned := p\<rparr>) (t m))
      | OpLiveness m o_n now \<Rightarrow> t(m := map_option (\<lambda>r. r\<lparr>pr_last_liveness_online := o_n,
                                   pr_last_seen_ms := now,
                                   pr_state := (if o_n then Paired else Offline)\<rparr>) (t m))
      | OpRetry m now b \<Rightarrow> t(m := map_option (\<lambda>r. r\<lparr>pr_retry_count := pr_retry_count r + 1,
                                   pr_last_seen_ms := now, pr_backoff_until_ms := now + b\<rparr>) (t m)))"

lemma reg_abs_on_known:
  assumes "\<And>r. pr_mac (f r) = pr_mac r"
  shows "reg_abs (snd (on_known m f rs)) = (reg_abs rs)(m := map_option f (reg_abs rs m))"
  using assms
  by (auto simp: reg_abs_def on_known_def findConst_def find_by_upd fun_eq_iff split: option.split)

lemma reg_abs_upsert:
  assumes "\<And>r. pr_mac (f r) = pr_mac r" and "pr_mac c = m"
  shows "reg_abs (upsert_by pr_mac m c f rs) =
    (reg_abs rs)(m \<mapsto> (case reg_abs rs m of None \<Rightarrow> c | Some r \<Rightarrow> f r))"
  using assms by (auto simp: reg_abs_def findConst_def find_by_upsert fun_eq_iff)

lemma reg_refines:
  assumes "reg_inv rs"
  shows "reg_abs (snd (reg_apply op rs)) = spec_apply op (reg_abs rs)"
proof (cases op)
  case OpClear
  then show ?thesis by (simp add: reg_abs_def findConst_def spec_apply_def)
next
  case (OpRemove m)
  have "reg_abs (del_by pr_mac m rs) = (reg_abs rs)(m := None)"
    unfolding reg_abs_def by (rule registry_table.look_del) (use assms in \<open>simp add: reg_inv_def\<close>)
  with OpRemove show ?thesis
    by (auto simp: reg_removePeer_def spec_apply_def reg_abs_def split: option.split)
qed (auto simp: upsertDiscovery_def markPairing_def markPaired_def markOffline_def setPinned_def
    updateLiveness_def bumpRetry_def spec_apply_def reg_abs_on_known reg_abs_upsert new_peer_def
    Let_def fun_eq_iff split: option.split)

lemma reg_run_inv: "reg_inv rs \<Longrightarrow> reg_inv (fold (\<lambda>op. snd \<circ> reg_apply op) ops rs)"
  by (induction ops arbitrary: rs) (auto intro: reg_apply_inv)

lemma reg_run_refines:
  "reg_inv rs \<Longrightarrow>
   reg_abs (fold (\<lambda>op. snd \<circ> reg_apply op) ops rs) = fold spec_apply ops (reg_abs rs)"
  by (induction ops arbitrary: rs) (auto simp: reg_refines reg_apply_inv)

lemma reg_inv_Nil [simp]: "reg_inv []"
  by (simp add: reg_inv_def)

lemma reg_abs_Nil [simp]: "reg_abs [] = Map.empty"
  by (simp add: reg_abs_def findConst_def)

text \<open>
  C29. Any sequence of registry operations on the vector, from an empty registry, is the same
  sequence of map updates; the vector never holds two records of one address, and a paired
  record is online while a discovered or offline one is not.
\<close>

theorem registry_refines_map:
  "reg_abs (fold (\<lambda>op. snd \<circ> reg_apply op) ops []) = fold spec_apply ops Map.empty
   \<and> reg_inv (fold (\<lambda>op. snd \<circ> reg_apply op) ops [])"
  by (simp add: reg_run_refines reg_run_inv)

section \<open>Role hints\<close>

record PeerRoleHintEntry =
  rh_peer :: mac
  rh_role_code :: u8

definition upsertPeerRoleHintCache :: "mac \<Rightarrow> u8 \<Rightarrow> PeerRoleHintEntry list \<Rightarrow> PeerRoleHintEntry list" where
  "upsertPeerRoleHintCache peer role_code hints =
     (if role_code = 0 then hints
      else upsert_by rh_peer peer \<lparr>rh_peer = peer, rh_role_code = role_code\<rparr>
             (\<lambda>e. e\<lparr>rh_role_code := role_code\<rparr>) hints)"

definition findPeerRoleHintCache :: "mac \<Rightarrow> PeerRoleHintEntry list \<Rightarrow> u8 option" where
  "findPeerRoleHintCache peer hints = map_option rh_role_code (find_by rh_peer peer hints)"

text \<open>
  The persisted hint: two bytes, a version and the code. The metadata store is a parameter:
  \<open>None\<close> when there is no store or it is disabled, otherwise what it does with a blob.
\<close>

definition kPeerRoleMetaVersion :: u8 where "kPeerRoleMetaVersion = 1"

definition role_meta_blob :: "u8 \<Rightarrow> bytes" where
  "role_meta_blob role_code = [kPeerRoleMetaVersion, role_code]"

definition parse_role_meta :: "bytes \<Rightarrow> u8" where
  "parse_role_meta blob =
     (if length blob \<ge> 2 \<and> blob ! 0 = kPeerRoleMetaVersion then blob ! 1 else 0)"

definition savePeerRoleHint ::
  "(mac \<Rightarrow> bytes \<Rightarrow> 'm \<Rightarrow> bool \<times> 'm) option \<Rightarrow> mac \<Rightarrow> u8 \<Rightarrow> PeerRoleHintEntry list \<times> 'm \<Rightarrow>
   bool \<times> PeerRoleHintEntry list \<times> 'm" where
  "savePeerRoleHint store peer role_code = (\<lambda>(hints, m).
     if role_code = 0 then (False, hints, m)
     else let hints' = upsertPeerRoleHintCache peer role_code hints
          in case store of
               None \<Rightarrow> (True, hints', m)
             | Some saveMetaBlob \<Rightarrow>
                 (case saveMetaBlob peer (role_meta_blob role_code) m of (ok, m') \<Rightarrow> (ok, hints', m')))"

text \<open>The part of \<open>loadPeerRoleHint\<close> behind the cache: the stored blob is parsed and cached.\<close>

definition load_role_meta ::
  "(mac \<Rightarrow> 'm \<Rightarrow> bytes option) option \<Rightarrow> mac \<Rightarrow> PeerRoleHintEntry list \<Rightarrow> 'm \<Rightarrow>
   u8 option \<times> PeerRoleHintEntry list" where
  "load_role_meta store peer hints m =
     (case store of
        None \<Rightarrow> (None, hints)
      | Some loadMetaBlob \<Rightarrow>
          (case loadMetaBlob peer m of
             None \<Rightarrow> (None, hints)
           | Some blob \<Rightarrow>
               let parsed_role = parse_role_meta blob
               in if parsed_role = 0 then (None, hints)
                  else (Some parsed_role, upsertPeerRoleHintCache peer parsed_role hints)))"

definition loadPeerRoleHint ::
  "(mac \<Rightarrow> 'm \<Rightarrow> bytes option) option \<Rightarrow> mac \<Rightarrow> PeerRoleHintEntry list \<Rightarrow> 'm \<Rightarrow>
   u8 option \<times> PeerRoleHintEntry list" where
  "loadPeerRoleHint store peer hints m =
     (case findPeerRoleHintCache peer hints of
        Some code \<Rightarrow> if code \<noteq> 0 then (Some code, hints) else load_role_meta store peer hints m
      | None \<Rightarrow> load_role_meta store peer hints m)"

lemma find_upsert_hint:
  "role_code \<noteq> 0 \<Longrightarrow>
   findPeerRoleHintCache q (upsertPeerRoleHintCache peer role_code hints) =
     (if q = peer then Some role_code else findPeerRoleHintCache q hints)"
  by (auto simp: findPeerRoleHintCache_def upsertPeerRoleHintCache_def find_by_upsert
      split: option.split)

lemma parse_role_meta_blob [simp]: "parse_role_meta (role_meta_blob c) = c"
  by (simp add: parse_role_meta_def role_meta_blob_def)

text \<open>
  A role hint that was saved is found again: in the cache at once, and after a restart,
  with an empty cache, from the persisted blob, which then fills the cache. The store is the
  platform's: it is assumed to give back a blob it has accepted.
\<close>

lemma role_hint_survives_restart:
  assumes "role_code \<noteq> 0"
    and "savePeerRoleHint (Some save) peer role_code (hints, m) = (True, hints', m')"
    and "\<And>blob. save peer blob m = (True, m') \<Longrightarrow> load peer m' = Some blob"
  shows "loadPeerRoleHint (Some load) peer hints' m' = (Some role_code, hints')
    \<and> (\<exists>hints''. loadPeerRoleHint (Some load) peer [] m' = (Some role_code, hints'')
           \<and> findPeerRoleHintCache peer hints'' = Some role_code)"
proof -
  from assms(1,2) have s: "save peer (role_meta_blob role_code) m = (True, m')"
    and h: "hints' = upsertPeerRoleHintCache peer role_code hints"
    by (auto simp: savePeerRoleHint_def Let_def split: prod.splits)
  have "loadPeerRoleHint (Some load) peer hints' m' = (Some role_code, hints')"
    using assms(1) by (simp add: h loadPeerRoleHint_def find_upsert_hint)
  moreover have "loadPeerRoleHint (Some load) peer [] m' =
      (Some role_code, upsertPeerRoleHintCache peer role_code [])"
    using assms(1) assms(3) [OF s]
    by (simp add: loadPeerRoleHint_def findPeerRoleHintCache_def load_role_meta_def)
  ultimately show ?thesis
    using assms(1) by (simp add: find_upsert_hint)
qed

section \<open>Discovery cache\<close>

record DiscoveryCacheEntry =
  dc_mac :: mac
  dc_ttl_ms :: u32
  dc_last_tick_ms :: u32

definition touchDiscovery :: "u32 \<Rightarrow> mac \<Rightarrow> DiscoveryCacheEntry list \<Rightarrow> DiscoveryCacheEntry list" where
  "touchDiscovery ttl from =
     upsert_by dc_mac from \<lparr>dc_mac = from, dc_ttl_ms = ttl, dc_last_tick_ms = 0\<rparr>
       (\<lambda>e. e\<lparr>dc_ttl_ms := ttl, dc_last_tick_ms := 0\<rparr>)"

text \<open>One entry at a tick: \<open>None\<close> when it has expired.\<close>

definition disc_tick :: "u32 \<Rightarrow> DiscoveryCacheEntry \<Rightarrow> DiscoveryCacheEntry option" where
  "disc_tick now_ms e =
     (if dc_ttl_ms e = 0 then None
      else if dc_last_tick_ms e = 0 then Some (e\<lparr>dc_last_tick_ms := now_ms\<rparr>)
      else let elapsed = now_ms - dc_last_tick_ms e; e' = e\<lparr>dc_last_tick_ms := now_ms\<rparr>
           in if elapsed \<ge> dc_ttl_ms e' then Some (e'\<lparr>dc_ttl_ms := 0\<rparr>)
              else Some (e'\<lparr>dc_ttl_ms := dc_ttl_ms e' - elapsed\<rparr>))"

text \<open>The loop over the cache: the entries kept and the addresses reported as expired.\<close>

fun tickDiscoveryCache ::
  "u32 \<Rightarrow> DiscoveryCacheEntry list \<Rightarrow> DiscoveryCacheEntry list \<times> mac list" where
  "tickDiscoveryCache now_ms [] = ([], [])"
| "tickDiscoveryCache now_ms (e # es) =
     (case tickDiscoveryCache now_ms es of (kept, gone) \<Rightarrow>
        (case disc_tick now_ms e of
           None \<Rightarrow> (kept, dc_mac e # gone)
         | Some e' \<Rightarrow> (e' # kept, gone)))"

definition getDiscoveredPeers :: "DiscoveryCacheEntry list \<Rightarrow> mac list" where
  "getDiscoveredPeers es = map dc_mac es"

lemma disc_tick_mac: "disc_tick now e = Some e' \<Longrightarrow> dc_mac e' = dc_mac e"
  by (auto simp: disc_tick_def Let_def split: if_splits)

lemma tick_cache_split:
  "tickDiscoveryCache now es =
     (map (\<lambda>e. the (disc_tick now e)) (filter (\<lambda>e. dc_ttl_ms e \<noteq> 0) es),
      map dc_mac (filter (\<lambda>e. dc_ttl_ms e = 0) es))"
  by (induction es) (auto simp: disc_tick_def Let_def)

lemma tick_cache_macs:
  "map dc_mac (fst (tickDiscoveryCache now es)) = map dc_mac (filter (\<lambda>e. dc_ttl_ms e \<noteq> 0) es)"
  by (induction es) (auto simp: disc_tick_def Let_def tick_cache_split)

lemma tick_cache_distinct:
  "distinct (map dc_mac es) \<Longrightarrow> distinct (map dc_mac (fst (tickDiscoveryCache now es)))"
  unfolding tick_cache_macs by (induction es) auto

lemma find_tick_cache:
  assumes "distinct (map dc_mac es)"
  shows "find_by dc_mac m (fst (tickDiscoveryCache now es)) =
    (case find_by dc_mac m es of None \<Rightarrow> None | Some e \<Rightarrow> disc_tick now e)"
  using assms
proof (induction es)
  case Nil
  then show ?case by simp
next
  case (Cons e es)
  then have IH: "find_by dc_mac m (fst (tickDiscoveryCache now es)) =
      (case find_by dc_mac m es of None \<Rightarrow> None | Some e \<Rightarrow> disc_tick now e)" by simp
  from Cons.prems have "find_by dc_mac (dc_mac e) es = None"
    by (simp add: find_by_None_iff)
  with IH show ?case
    by (auto simp: disc_tick_mac split: prod.split option.split)
qed

text \<open>
  The cache entry of a peer over a run of ticks, given by their offsets from the first one.
  Clock values wrap as in the code; a tick at clock value 0 is excluded since the code reads
  it as "no tick yet".
\<close>

fun disc_run :: "u32 list \<Rightarrow> DiscoveryCacheEntry \<Rightarrow> DiscoveryCacheEntry option" where
  "disc_run [] e = Some e"
| "disc_run (t # ts) e = (case disc_tick t e of None \<Rightarrow> None | Some e' \<Rightarrow> disc_run ts e')"

definition cache_run :: "u32 list \<Rightarrow> DiscoveryCacheEntry list \<Rightarrow> DiscoveryCacheEntry list" where
  "cache_run ts = fold (\<lambda>t es. fst (tickDiscoveryCache t es)) ts"

definition ticks_at :: "u32 \<Rightarrow> nat list \<Rightarrow> u32 list" where
  "ticks_at t0 bs = map (\<lambda>b. t0 + of_nat b) bs"

lemma find_cache_run:
  "distinct (map dc_mac es) \<Longrightarrow>
   find_by dc_mac m (cache_run ts es) =
     (case find_by dc_mac m es of None \<Rightarrow> None | Some e \<Rightarrow> disc_run ts e)"
  by (induction ts arbitrary: es)
     (auto simp: cache_run_def find_tick_cache tick_cache_distinct split: option.split)

lemma unat_gap:
  assumes "a \<le> b" and "b < 2 ^ 32"
  shows "unat ((t0 + of_nat b) - (t0 + of_nat a) :: u32) = b - a"
proof -
  have "(t0 + of_nat b) - (t0 + of_nat a) = (of_nat (b - a) :: u32)"
    using assms(1) by (simp add: of_nat_diff)
  with assms show ?thesis by (simp add: unat_of_nat_u32 del: of_nat_diff)
qed

lemma unat_left: "a \<le> unat ttl \<Longrightarrow> unat (ttl - of_nat a :: u32) = unat ttl - a"
proof -
  assume a: "a \<le> unat ttl"
  then have "unat (of_nat a :: u32) = a"
    using unat_u32_less [of ttl] by (simp add: unat_of_nat_u32)
  with a show ?thesis by (simp add: unat_sub word_le_nat_alt)
qed

lemma disc_run_expired: "dc_ttl_ms e = 0 \<Longrightarrow> disc_run ts e \<noteq> None \<longleftrightarrow> ts = []"
  by (cases ts) (auto simp: disc_tick_def)

lemma disc_run_listed:
  assumes "a < unat ttl" and "sorted (a # bs)" and "\<forall>b \<in> set (a # bs). b < 2 ^ 32 \<and> t0 + of_nat b \<noteq> 0"
    and "dc_ttl_ms e = ttl - of_nat a" and "dc_last_tick_ms e = t0 + of_nat a"
  shows "disc_run (ticks_at t0 bs) e \<noteq> None \<longleftrightarrow> (\<forall>b \<in> set (butlast bs). b < unat ttl)"
  using assms
proof (induction bs arbitrary: a e)
  case Nil
  then show ?case by (simp add: ticks_at_def)
next
  case (Cons b bs)
  let ?el = "(t0 + of_nat b) - dc_last_tick_ms e"
  have ttl: "unat (dc_ttl_ms e) = unat ttl - a" "dc_ttl_ms e \<noteq> 0"
    using Cons.prems(1,4) unat_left [of a ttl] by (auto simp: unat_gt_0 [symmetric])
  have el: "unat ?el = b - a" "?el = of_nat (b - a)"
    using Cons.prems unat_gap [of a b t0] by (auto simp: of_nat_diff)
  have last: "dc_last_tick_ms e \<noteq> 0" using Cons.prems by simp
  have ab: "a \<le> b" using Cons.prems(2) by simp
  show ?case
  proof (cases "b < unat ttl")
    case True
    with el(1) ttl(1) ab Cons.prems(1) have "\<not> ?el \<ge> dc_ttl_ms e"
      by (simp add: word_le_nat_alt)
    then have "disc_tick (t0 + of_nat b) e =
        Some (e\<lparr>dc_last_tick_ms := t0 + of_nat b, dc_ttl_ms := dc_ttl_ms e - ?el\<rparr>)"
      using ttl(2) last by (simp add: disc_tick_def Let_def)
    moreover have "dc_ttl_ms e - ?el = ttl - of_nat b"
      unfolding el(2) Cons.prems(4) using ab by (simp add: of_nat_diff)
    ultimately show ?thesis
      using Cons.IH [of b "e\<lparr>dc_last_tick_ms := t0 + of_nat b, dc_ttl_ms := ttl - of_nat b\<rparr>"]
        Cons.prems True by (simp add: ticks_at_def)
  next
    case False
    with el(1) ttl(1) ab Cons.prems(1) have "?el \<ge> dc_ttl_ms e"
      by (simp add: word_le_nat_alt)
    then have "disc_tick (t0 + of_nat b) e =
        Some (e\<lparr>dc_last_tick_ms := t0 + of_nat b, dc_ttl_ms := 0\<rparr>)"
      using ttl(2) last by (simp add: disc_tick_def Let_def)
    with False show ?thesis
      using disc_run_expired [of "e\<lparr>dc_last_tick_ms := t0 + of_nat b, dc_ttl_ms := 0\<rparr>" "ticks_at t0 bs"]
      by (simp add: ticks_at_def)
  qed
qed

lemma touch_distinct:
  "distinct (map dc_mac es) \<Longrightarrow> distinct (map dc_mac (touchDiscovery ttl m es))"
  unfolding touchDiscovery_def by (rule distinct_upsert) auto

lemma find_touch:
  "find_by dc_mac j (touchDiscovery ttl m es) =
     (if j = m then Some \<lparr>dc_mac = m, dc_ttl_ms = ttl, dc_last_tick_ms = 0\<rparr> else find_by dc_mac j es)"
  by (auto simp: touchDiscovery_def find_by_upsert dest: find_by_key split: option.split)

lemma listed_iff: "m \<in> set (getDiscoveredPeers es) \<longleftrightarrow> find_by dc_mac m es \<noteq> None"
  by (auto simp: getDiscoveredPeers_def find_by_None_iff)

text \<open>
  The lifetime of a discovered peer is counted from the first tick after the discovery
  frame, whatever the gaps between ticks: the peer is listed after a run of ticks exactly
  when no tick before the last one came its lifetime or more after the first (the tick that
  finds the lifetime over marks the entry and the following one drops it). The clock may
  wrap around.
\<close>

lemma discovery_ttl_exact:
  assumes "distinct (map dc_mac es)" and "ttl \<noteq> 0"
    and "sorted (0 # bs)" and "\<forall>b \<in> set (0 # bs). b < 2 ^ 32 \<and> t0 + of_nat b \<noteq> 0"
  shows "m \<in> set (getDiscoveredPeers (cache_run (t0 # ticks_at t0 bs) (touchDiscovery ttl m es)))
    \<longleftrightarrow> (\<forall>b \<in> set (butlast bs). b < unat ttl)"
proof -
  let ?e = "\<lparr>dc_mac = m, dc_ttl_ms = ttl, dc_last_tick_ms = t0\<rparr>"
  have "disc_run (t0 # ticks_at t0 bs) (?e\<lparr>dc_last_tick_ms := 0\<rparr>) = disc_run (ticks_at t0 bs) ?e"
    using assms(2) by (simp add: disc_tick_def)
  moreover have "0 < unat ttl"
    using assms(2) by (simp add: unat_gt_0)
  ultimately show ?thesis
    using disc_run_listed [of 0 ttl bs t0 ?e] assms
    by (simp add: listed_iff find_cache_run touch_distinct find_touch)
qed

end
