(* ===== verification/Payloads.thy ===== *)
theory Payloads
  imports Wire
begin

text \<open>
  The fixed-layout payloads of \<open>src/core/manager_helpers.cpp\<close>: mandatory events, topology
  triggers, trigger batches and acknowledgements, firmware status. Unlike the frame codec the
  parsers take a payload that may be longer than the layout. Then the pull request and
  response codes and what is read of a discovery frame.
\<close>

section \<open>Mandatory events\<close>

record MandatoryEvent =
  me_event_id :: u16
  me_severity :: u8
  me_value :: u32
  me_ts_s :: u32

definition buildMandatoryEventPayload :: "MandatoryEvent \<Rightarrow> bytes" where
  "buildMandatoryEventPayload e =
     appendLe16 (me_event_id e) @ [me_severity e] @ appendLe32 (me_value e) @ appendLe32 (me_ts_s e)"

definition parseMandatoryEventPayload :: "buf \<Rightarrow> MandatoryEvent option" where
  "parseMandatoryEventPayload payload =
     (case payload of
        None \<Rightarrow> None
      | Some p \<Rightarrow>
          if length p < 11 then None
          else Some \<lparr>me_event_id = le16 (p ! 0) (p ! 1), me_severity = p ! 2,
                     me_value = readLe32 (drop 3 p), me_ts_s = readLe32 (drop 7 p)\<rparr>)"

section \<open>Topology triggers\<close>

definition kTopologyProtoId :: u8 where "kTopologyProtoId = 0xED"
definition kTopologyProtoVersion :: u8 where "kTopologyProtoVersion = 0x01"
definition kTopologyMsgTrigger :: u8 where "kTopologyMsgTrigger = 0x01"
definition kTopologyMsgAck :: u8 where "kTopologyMsgAck = 0x02"
definition kTopologyMsgTriggerBatch :: u8 where "kTopologyMsgTriggerBatch = 0x03"

record TopologyTriggerPayload =
  tt_topology_version :: u32
  tt_seq :: u16
  tt_src_role :: u8
  tt_src_vid :: u8
  tt_dst_role :: u8
  tt_dst_vid :: u8
  tt_direction :: u8
  tt_delay_ms :: u16
  tt_hold_ms :: u16

definition topology_prefix :: "u8 \<Rightarrow> bytes" where
  "topology_prefix kind = [kTopologyProtoId, kTopologyProtoVersion, kind]"

definition topology_prefix_ok :: "u8 \<Rightarrow> bytes \<Rightarrow> bool" where
  "topology_prefix_ok kind p \<longleftrightarrow>
     p ! 0 = kTopologyProtoId \<and> p ! 1 = kTopologyProtoVersion \<and> p ! 2 = kind"

definition buildTopologyTriggerPayload :: "TopologyTriggerPayload \<Rightarrow> bytes" where
  "buildTopologyTriggerPayload t =
     topology_prefix kTopologyMsgTrigger
     @ appendLe32 (tt_topology_version t) @ appendLe16 (tt_seq t)
     @ [tt_src_role t, tt_src_vid t, tt_dst_role t, tt_dst_vid t, tt_direction t]
     @ appendLe16 (tt_delay_ms t) @ appendLe16 (tt_hold_ms t)"

definition parseTopologyTriggerPayload :: "buf \<Rightarrow> TopologyTriggerPayload option" where
  "parseTopologyTriggerPayload payload =
     (case payload of
        None \<Rightarrow> None
      | Some p \<Rightarrow>
          if length p < 18 then None
          else if \<not> topology_prefix_ok kTopologyMsgTrigger p then None
          else Some \<lparr>tt_topology_version = readLe32 (drop 3 p), tt_seq = le16 (p ! 7) (p ! 8),
                     tt_src_role = p ! 9, tt_src_vid = p ! 10, tt_dst_role = p ! 11,
                     tt_dst_vid = p ! 12, tt_direction = p ! 13,
                     tt_delay_ms = le16 (p ! 14) (p ! 15), tt_hold_ms = le16 (p ! 16) (p ! 17)\<rparr>)"

section \<open>Trigger batches\<close>

record TopologyTriggerBatchItem =
  ti_dst_vid :: u8
  ti_target_index :: u8
  ti_delay_ms :: u16
  ti_hold_ms :: u16

record TopologyTriggerBatchPayload =
  tb_topology_version :: u32
  tb_seq :: u16
  tb_src_role :: u8
  tb_src_vid :: u8
  tb_dst_role :: u8
  tb_direction :: u8
  tb_items :: "TopologyTriggerBatchItem list"

definition batch_item_bytes :: "TopologyTriggerBatchItem \<Rightarrow> bytes" where
  "batch_item_bytes i =
     [ti_dst_vid i, ti_target_index i] @ appendLe16 (ti_delay_ms i) @ appendLe16 (ti_hold_ms i)"

definition buildTopologyTriggerBatchPayload :: "TopologyTriggerBatchPayload \<Rightarrow> bytes option" where
  "buildTopologyTriggerBatchPayload t =
     (if tb_items t = [] \<or> length (tb_items t) > 255 then None
      else Some (topology_prefix kTopologyMsgTriggerBatch
        @ appendLe32 (tb_topology_version t) @ appendLe16 (tb_seq t)
        @ [tb_src_role t, tb_src_vid t, tb_dst_role t, tb_direction t, of_nat (length (tb_items t))]
        @ concat (map batch_item_bytes (tb_items t))))"

fun read_items :: "nat \<Rightarrow> bytes \<Rightarrow> TopologyTriggerBatchItem list" where
  "read_items 0 p = []"
| "read_items (Suc n) p =
     \<lparr>ti_dst_vid = p ! 0, ti_target_index = p ! 1, ti_delay_ms = le16 (p ! 2) (p ! 3),
      ti_hold_ms = le16 (p ! 4) (p ! 5)\<rparr> # read_items n (drop 6 p)"

definition parseTopologyTriggerBatchPayload :: "buf \<Rightarrow> TopologyTriggerBatchPayload option" where
  "parseTopologyTriggerBatchPayload payload =
     (case payload of
        None \<Rightarrow> None
      | Some p \<Rightarrow>
          if length p < 14 then None
          else if \<not> topology_prefix_ok kTopologyMsgTriggerBatch p then None
          else let item_count = unat (p ! 13) in
            if item_count = 0 then None
            else if length p < 14 + item_count * 6 then None
            else Some \<lparr>tb_topology_version = readLe32 (drop 3 p), tb_seq = le16 (p ! 7) (p ! 8),
                       tb_src_role = p ! 9, tb_src_vid = p ! 10, tb_dst_role = p ! 11,
                       tb_direction = p ! 12, tb_items = read_items item_count (drop 14 p)\<rparr>)"

section \<open>Trigger acknowledgements\<close>

record TopologyTriggerAckPayload =
  ta_topology_version :: u32
  ta_seq :: u16
  ta_src_role :: u8
  ta_src_vid :: u8
  ta_dst_role :: u8
  ta_dst_vid :: u8
  ta_ack_seq :: u16
  ta_result :: u8
  ta_reason :: u8

definition buildTopologyTriggerAckPayload :: "TopologyTriggerAckPayload \<Rightarrow> bytes" where
  "buildTopologyTriggerAckPayload t =
     topology_prefix kTopologyMsgAck
     @ appendLe32 (ta_topology_version t) @ appendLe16 (ta_seq t)
     @ [ta_src_role t, ta_src_vid t, ta_dst_role t, ta_dst_vid t]
     @ appendLe16 (ta_ack_seq t) @ [ta_result t, ta_reason t]"

definition parseTopologyTriggerAckPayload :: "buf \<Rightarrow> TopologyTriggerAckPayload option" where
  "parseTopologyTriggerAckPayload payload =
     (case payload of
        None \<Rightarrow> None
      | Some p \<Rightarrow>
          if length p < 17 then None
          else if \<not> topology_prefix_ok kTopologyMsgAck p then None
          else Some \<lparr>ta_topology_version = readLe32 (drop 3 p), ta_seq = le16 (p ! 7) (p ! 8),
                     ta_src_role = p ! 9, ta_src_vid = p ! 10, ta_dst_role = p ! 11,
                     ta_dst_vid = p ! 12, ta_ack_seq = le16 (p ! 13) (p ! 14),
                     ta_result = p ! 15, ta_reason = p ! 16\<rparr>)"

section \<open>Firmware status\<close>

record FirmwareStatusPayload =
  fs_kind :: u8
  fs_transfer_corr_id :: u32
  fs_offset_bytes :: u32
  fs_status_code :: u16

definition buildFirmwareStatusPayload :: "FirmwareStatusPayload \<Rightarrow> bytes" where
  "buildFirmwareStatusPayload f =
     [fs_kind f] @ appendLe32 (fs_transfer_corr_id f) @ appendLe32 (fs_offset_bytes f)
     @ appendLe16 (fs_status_code f)"

definition parseFirmwareStatusPayload :: "buf \<Rightarrow> FirmwareStatusPayload option" where
  "parseFirmwareStatusPayload payload =
     (case payload of
        None \<Rightarrow> None
      | Some p \<Rightarrow>
          if length p < 11 then None
          else Some \<lparr>fs_kind = p ! 0, fs_transfer_corr_id = readLe32 (drop 1 p),
                     fs_offset_bytes = readLe32 (drop 5 p), fs_status_code = le16 (p ! 9) (p ! 10)\<rparr>)"

section \<open>Round trips\<close>

lemmas payload_layout = topology_prefix_def topology_prefix_ok_def appendLe16_eq appendLe32_eq
  readLe32_def le16_split le32_split

lemma mandatory_event_append:
  "parseMandatoryEventPayload (Some (buildMandatoryEventPayload e @ r)) = Some e"
  by (simp add: buildMandatoryEventPayload_def parseMandatoryEventPayload_def payload_layout)

lemma topology_trigger_append:
  "parseTopologyTriggerPayload (Some (buildTopologyTriggerPayload t @ r)) = Some t"
  by (simp add: buildTopologyTriggerPayload_def parseTopologyTriggerPayload_def payload_layout)

lemma topology_ack_append:
  "parseTopologyTriggerAckPayload (Some (buildTopologyTriggerAckPayload t @ r)) = Some t"
  by (simp add: buildTopologyTriggerAckPayload_def parseTopologyTriggerAckPayload_def payload_layout)

lemma firmware_status_append:
  "parseFirmwareStatusPayload (Some (buildFirmwareStatusPayload f @ r)) = Some f"
  by (simp add: buildFirmwareStatusPayload_def parseFirmwareStatusPayload_def payload_layout)

lemma read_items_append:
  "read_items (length is) (concat (map batch_item_bytes is) @ r) = is"
  by (induction "is") (simp_all add: batch_item_bytes_def payload_layout)

lemma length_batch_items [simp]: "length (concat (map batch_item_bytes is)) = 6 * length is"
  by (induction "is") (simp_all add: batch_item_bytes_def)

lemma unat_of_nat_u8: "n < 256 \<Longrightarrow> unat (of_nat n :: u8) = n"
  by (simp add: unat_of_nat take_bit_nat_eq_self)

lemma topology_batch_append:
  assumes "buildTopologyTriggerBatchPayload t = Some b"
  shows "parseTopologyTriggerBatchPayload (Some (b @ r)) = Some t"
proof -
  from assms have n: "tb_items t \<noteq> []" "length (tb_items t) < 256"
    and b: "b = topology_prefix kTopologyMsgTriggerBatch
        @ appendLe32 (tb_topology_version t) @ appendLe16 (tb_seq t)
        @ [tb_src_role t, tb_src_vid t, tb_dst_role t, tb_direction t, of_nat (length (tb_items t))]
        @ concat (map batch_item_bytes (tb_items t))"
    by (auto simp: buildTopologyTriggerBatchPayload_def split: if_splits)
  from n show ?thesis
    by (simp add: b parseTopologyTriggerBatchPayload_def Let_def payload_layout unat_of_nat_u8
        read_items_append)
qed

section \<open>The parsers as codecs\<close>

text \<open>
  All of the layouts are prefix codecs: a parser undoes its builder and ignores what follows,
  so no built payload is a proper prefix of another one.
\<close>

interpretation mandatory_event: prefix_codec "\<lambda>e. Some (buildMandatoryEventPayload e)"
  "\<lambda>b. parseMandatoryEventPayload (Some b)" "\<lambda>_. True"
  by unfold_locales (use mandatory_event_append [of _ "[]"] mandatory_event_append in auto)

interpretation topology_trigger: prefix_codec "\<lambda>t. Some (buildTopologyTriggerPayload t)"
  "\<lambda>b. parseTopologyTriggerPayload (Some b)" "\<lambda>_. True"
  by unfold_locales (use topology_trigger_append [of _ "[]"] topology_trigger_append in auto)

interpretation topology_batch: prefix_codec buildTopologyTriggerBatchPayload
  "\<lambda>b. parseTopologyTriggerBatchPayload (Some b)" "\<lambda>_. True"
  by unfold_locales (use topology_batch_append [of _ _ "[]"] topology_batch_append in auto)

interpretation topology_ack: prefix_codec "\<lambda>t. Some (buildTopologyTriggerAckPayload t)"
  "\<lambda>b. parseTopologyTriggerAckPayload (Some b)" "\<lambda>_. True"
  by unfold_locales (use topology_ack_append [of _ "[]"] topology_ack_append in auto)

interpretation firmware_status: prefix_codec "\<lambda>f. Some (buildFirmwareStatusPayload f)"
  "\<lambda>b. parseFirmwareStatusPayload (Some b)" "\<lambda>_. True"
  by unfold_locales (use firmware_status_append [of _ "[]"] firmware_status_append in auto)

text \<open>
  Trigger batches: the builder accepts 1 to 255 items, whatever it builds is
  \<open>14 + 6 * n\<close> bytes and is parsed back to the same batch even with trailing bytes; the
  trigger and acknowledgement parsers refuse it, so the three kinds are never confused.
\<close>

lemma topology_batch_roundtrip:
  "(case buildTopologyTriggerBatchPayload t of
      None \<Rightarrow> tb_items t = [] \<or> length (tb_items t) > 255
    | Some b \<Rightarrow> length b = 14 + 6 * length (tb_items t)
        \<and> parseTopologyTriggerBatchPayload (Some (b @ r)) = Some t
        \<and> parseTopologyTriggerPayload (Some (b @ r)) = None
        \<and> parseTopologyTriggerAckPayload (Some (b @ r)) = None)"
proof (cases "buildTopologyTriggerBatchPayload t")
  case None
  then show ?thesis by (auto simp: buildTopologyTriggerBatchPayload_def split: if_splits)
next
  case (Some b)
  then obtain rest where b: "b = topology_prefix kTopologyMsgTriggerBatch @ rest"
    and l: "length b = 14 + 6 * length (tb_items t)"
    by (auto simp: buildTopologyTriggerBatchPayload_def topology_prefix_def split: if_splits)
  have "\<not> topology_prefix_ok kTopologyMsgTrigger (b @ r)" "\<not> topology_prefix_ok kTopologyMsgAck (b @ r)"
    by (simp_all add: b topology_prefix_def topology_prefix_ok_def kTopologyMsgTrigger_def
        kTopologyMsgAck_def kTopologyMsgTriggerBatch_def)
  then show ?thesis
    using topology_batch.dec_append [of t b r] l Some
    by (simp add: parseTopologyTriggerPayload_def parseTopologyTriggerAckPayload_def)
qed

text \<open>
  Mandatory events, topology triggers, trigger acknowledgements and firmware status
  payloads parse back to the fields they were built from, also with trailing bytes, and every
  proper prefix of one is rejected.
\<close>

lemma fixed_payload_roundtrip:
  "parseMandatoryEventPayload (Some (buildMandatoryEventPayload e @ r)) = Some e
   \<and> parseTopologyTriggerPayload (Some (buildTopologyTriggerPayload t @ r)) = Some t
   \<and> parseTopologyTriggerAckPayload (Some (buildTopologyTriggerAckPayload a @ r)) = Some a
   \<and> parseFirmwareStatusPayload (Some (buildFirmwareStatusPayload f @ r)) = Some f
   \<and> (\<forall>n < length (buildMandatoryEventPayload e).
        parseMandatoryEventPayload (Some (take n (buildMandatoryEventPayload e))) = None)
   \<and> (\<forall>n < length (buildTopologyTriggerPayload t).
        parseTopologyTriggerPayload (Some (take n (buildTopologyTriggerPayload t))) = None)
   \<and> (\<forall>n < length (buildTopologyTriggerAckPayload a).
        parseTopologyTriggerAckPayload (Some (take n (buildTopologyTriggerAckPayload a))) = None)
   \<and> (\<forall>n < length (buildFirmwareStatusPayload f).
        parseFirmwareStatusPayload (Some (take n (buildFirmwareStatusPayload f))) = None)"
proof -
  have l: "length (buildMandatoryEventPayload e) = 11" "length (buildTopologyTriggerPayload t) = 18"
    "length (buildTopologyTriggerAckPayload a) = 17" "length (buildFirmwareStatusPayload f) = 11"
    by (simp_all add: buildMandatoryEventPayload_def buildTopologyTriggerPayload_def
        buildTopologyTriggerAckPayload_def buildFirmwareStatusPayload_def topology_prefix_def)
  have "\<forall>n < 11. parseMandatoryEventPayload (Some (take n (buildMandatoryEventPayload e))) = None"
    "\<forall>n < 18. parseTopologyTriggerPayload (Some (take n (buildTopologyTriggerPayload t))) = None"
    "\<forall>n < 17. parseTopologyTriggerAckPayload (Some (take n (buildTopologyTriggerAckPayload a))) = None"
    "\<forall>n < 11. parseFirmwareStatusPayload (Some (take n (buildFirmwareStatusPayload f))) = None"
    by (simp_all add: parseMandatoryEventPayload_def parseTopologyTriggerPayload_def
        parseTopologyTriggerAckPayload_def parseFirmwareStatusPayload_def min_def)
  then show ?thesis
    by (simp add: l mandatory_event_append topology_trigger_append topology_ack_append
        firmware_status_append)
qed

section \<open>Pull services\<close>

definition pull_service_ok :: "u8 \<Rightarrow> bool" where
  "pull_service_ok service \<longleftrightarrow>
     service = 0x02 \<or> service = 0x03 \<or> service = 0x04 \<or> service = 0x05 \<or> service = 0x06"

definition isValidPullRequestWire :: "u8 \<Rightarrow> u8 \<Rightarrow> bool" where
  "isValidPullRequestWire service op \<longleftrightarrow>
     pull_service_ok service \<and> (op = 0x01 \<or> op = 0x03 \<or> op = 0x05)"

definition isValidPullResponseWire :: "u8 \<Rightarrow> u8 \<Rightarrow> bool" where
  "isValidPullResponseWire service op \<longleftrightarrow>
     pull_service_ok service \<and> (op = 0x02 \<or> op = 0x04 \<or> op = 0x06)"

definition responseOpForRequest :: "u8 \<Rightarrow> u8 \<Rightarrow> u8" where
  "responseOpForRequest service request_op =
     (if service = 0x02 then 0x02
      else if service = 0x03 \<and> request_op = 0x01 then 0x02
      else if service = 0x03 \<and> request_op = 0x03 then 0x04
      else if service = 0x03 \<and> request_op = 0x05 then 0x06
      else if service = 0x04 \<and> request_op = 0x01 then 0x02
      else if service = 0x04 \<and> request_op = 0x03 then 0x04
      else if service = 0x05 then 0x02
      else if service = 0x06 then 0x02
      else if service = 0x07 then
        (if request_op = 0x01 then 0x02 else if request_op = 0x03 then 0x04
         else if request_op = 0x05 then 0x06 else if request_op = 0x07 then 0x08 else 0x02)
      else 0x02)"

text \<open>
  The frame codec and the pull layer agree: a frame with a valid pull-request service and
  operation decodes as a pull request, the response operation computed for it is a valid
  response of the same service, and a response frame carrying it, good or error, decodes as a
  pull response.
\<close>

lemma pull_request_answered:
  assumes "isValidPullRequestWire service op"
  shows "fromWire wmRequest service op = Some PullRequest
    \<and> isValidPullResponseWire service (responseOpForRequest service op)
    \<and> fromWire wmResponseOk service (responseOpForRequest service op) = Some PullResponse
    \<and> fromWire wmResponseErr service (responseOpForRequest service op) = Some PullResponse"
  using assms
  by (auto simp: isValidPullRequestWire_def isValidPullResponseWire_def pull_service_ok_def
      responseOpForRequest_def fromWire_defs)

section \<open>Discovery frames\<close>

definition hex_digit :: "nat \<Rightarrow> char" where
  "hex_digit n = ''0123456789ABCDEF'' ! n"

definition decodeDiscoveryName :: "buf \<Rightarrow> string" where
  "decodeDiscoveryName payload =
     (case payload of
        None \<Rightarrow> ''''
      | Some p \<Rightarrow>
          if length p < 14 then ''''
          else if p ! 0 \<noteq> kProtocolVersion then ''''
          else ''id_'' @ [hex_digit (unat (p ! 5) div 16), hex_digit (unat (p ! 5) mod 16)])"

definition decodeDiscoveryRoleCode :: "buf \<Rightarrow> u8" where
  "decodeDiscoveryRoleCode payload =
     (case payload of
        None \<Rightarrow> 0
      | Some p \<Rightarrow> if length p < 7 then 0 else if p ! 0 \<noteq> kProtocolVersion then 0 else p ! 6)"

end
