(* ===== verification/Environment.thy ===== *)
theory Environment
  imports Wire
begin

text \<open>
  What the link classes are given from outside: the configuration, and the objects behind
  their pointers (radio transport, peer window, pairing store, event sink, platform hooks,
  time source, logger, random numbers). Each call to one of them is an \<open>action\<close> appended to
  the caller's trace; the answer is given by an environment that may depend on the whole trace
  so far. The environment is a parameter of every handler, so a property proved for all
  environments holds whatever the platform answers.

  Also the key derivation of \<open>src/pairing/security.cpp\<close>, over an HMAC that is a parameter.
\<close>

section \<open>Configuration\<close>

text \<open>The fields of \<open>ManagerConfig\<close> that the modelled code reads.\<close>

record ManagerConfig =
  local_role :: role
  cfg_channel :: u8
  discovery_interval_ms :: u32
  discovery_peer_ttl_ms :: u32
  discovery_name :: "bytes option"
  discovery_name_max_len :: u8
  pair_ack_timeout_ms :: u32
  secure_grace_ms :: u32
  unpair_ack_timeout_ms :: u32
  channel_switch_timeout_ms :: u32
  channel_switch_grace_ms :: u32
  enable_encryption :: bool
  master_initiated_only :: bool
  auto_pair_on_discovery :: bool
  force_local_unpair_on_timeout :: bool
  unpair_ack_grace_ms :: u32
  time_sync_enabled :: bool
  time_sync_interval_ms :: u32
  time_sync_apply_on_slave :: bool
  time_sync_min_update_delta_s :: u32
  time_sync_min_valid_epoch_s :: u64
  mandatory_event_min_gap_ms :: u32
  mandatory_event_max_queue :: u8
  mandatory_event_retry_max :: u8
  mandatory_event_fail_backoff_threshold :: u8
  mandatory_event_backoff_ms :: u32

text \<open>The configuration as it is declared, for a role; the discovery name is the null pointer.\<close>

definition default_manager_config :: "role \<Rightarrow> ManagerConfig" where
  "default_manager_config r = \<lparr>local_role = r, cfg_channel = 1, discovery_interval_ms = 1000,
     discovery_peer_ttl_ms = 3000, discovery_name = None, discovery_name_max_len = 24,
     pair_ack_timeout_ms = 1200, secure_grace_ms = 150, unpair_ack_timeout_ms = 1200,
     channel_switch_timeout_ms = 2000, channel_switch_grace_ms = 500, enable_encryption = True,
     master_initiated_only = True, auto_pair_on_discovery = True, force_local_unpair_on_timeout = False,
     unpair_ack_grace_ms = 120, time_sync_enabled = True, time_sync_interval_ms = 5000,
     time_sync_apply_on_slave = True, time_sync_min_update_delta_s = 1,
     time_sync_min_valid_epoch_s = 946684800, mandatory_event_min_gap_ms = 60,
     mandatory_event_max_queue = 12, mandatory_event_retry_max = 3,
     mandatory_event_fail_backoff_threshold = 5, mandatory_event_backoff_ms = 2000\<rparr>"

section \<open>Actions on the environment\<close>

datatype EventType =
    DiscoverySeen | DiscoveryExpired | PairingStarted | PairingStep | EvPaired | PairingFailed
  | PullRequestSeen | PullResponseSeen | ChannelSwitchStarted | ChannelSwitchCommitted
  | ChannelSwitchFailed | LinkError | MandatoryEventReceived | MandatoryEventSent
  | MandatoryEventDropped | TopologyTriggerReceived | TopologyTriggerRejected
  | TopologyTriggerDuplicate | TopologyTriggerAckEvent | OtaTransferStatus | PacketDropped

datatype LibraryLogLevel = LogError | LogWarn | LogInfo | LogDebug

record LibraryLogRecord =
  lr_level :: LibraryLogLevel
  lr_source_id :: u16
  lr_event_id :: u16
  lr_epoch_s :: u32
  lr_uptime_ms :: u32
  lr_p0 :: u32
  lr_p1 :: u32
  lr_p2 :: u32
  lr_ext :: bytes

record PairRecord =
  rec_valid :: bool
  rec_local_role :: role
  rec_local_mac :: mac
  rec_peer_mac :: mac
  rec_lmk :: bytes
  rec_channel :: u8

datatype action =
    TxSend mac bytes
  | SetChannel u8
  | GetChannel
  | AddPeer mac bool "bytes option"
  | DelPeer mac
  | RequestAttach mac bool "bytes option"
  | RequestEvict mac
  | StoreEnabled
  | SavePair PairRecord
  | SaveChannel mac mac u8
  | ErasePair mac mac
  | EraseChannel mac mac
  | OnEvent EventType mac u32 string
  | OnRgbBlink u8 u8 u8 u16
  | OnTxFrame mac MessageType u32 nat bool
  | OnChannelCommitted u8
  | AllowChannelSwitch u8 u8
  | NowEpochSec
  | LogRec LibraryLogRecord
  | EspRandom
  | EspFillRandom

text \<open>
  Which objects are there (pointers that are not null) and what they answer, given the trace
  up to the call and the call.
\<close>

record env =
  cfg :: ManagerConfig
  has_store :: bool
  has_events :: bool
  has_hooks :: bool
  has_window :: bool
  has_time :: bool
  has_logger :: bool
  answer :: "action list \<Rightarrow> action \<Rightarrow> bool"
  channel_of :: "action list \<Rightarrow> u8"
  epoch_of :: "action list \<Rightarrow> u64 option"
  random32 :: "action list \<Rightarrow> u32"
  random_bytes :: "action list \<Rightarrow> nat \<Rightarrow> bytes"
  hmac_sha256 :: "bytes \<Rightarrow> bytes \<Rightarrow> bytes option"
  pmk :: bytes

text \<open>Installing a peer, and doing so with a key: through the window or the transport.\<close>

definition attach_of :: "action \<Rightarrow> (mac \<times> bool \<times> bytes option) option" where
  "attach_of a = (case a of AddPeer m e k \<Rightarrow> Some (m, e, k) | RequestAttach m e k \<Rightarrow> Some (m, e, k)
                  | _ \<Rightarrow> None)"

text \<open>Actions that neither install or remove a peer, nor touch the store or the channel.\<close>

definition quiet :: "action \<Rightarrow> bool" where
  "quiet a = (case a of
      TxSend _ _ \<Rightarrow> True | OnEvent _ _ _ _ \<Rightarrow> True | OnRgbBlink _ _ _ _ \<Rightarrow> True
    | OnTxFrame _ _ _ _ _ \<Rightarrow> True | NowEpochSec \<Rightarrow> True | LogRec _ \<Rightarrow> True | _ \<Rightarrow> False)"

section \<open>Key derivation\<close>

definition kDeriveTag :: bytes where
  "kDeriveTag = [0x45, 0x4E, 0x4C, 0x32, 0x4C, 0x4D, 0x4B]"

definition kTopologyDeriveTag :: bytes where
  "kTopologyDeriveTag = [0x4C, 0x32, 0x4C, 0x2D, 0x76, 0x31]"

definition lmk_message :: "bytes \<Rightarrow> mac \<Rightarrow> mac \<Rightarrow> u32 \<Rightarrow> bytes" where
  "lmk_message seed master slave pairing_nonce =
     mac_bytes master @ mac_bytes slave @ seed @ appendLe32 pairing_nonce @ kDeriveTag"

definition deriveLmkFromSeed ::
  "(bytes \<Rightarrow> bytes \<Rightarrow> bytes option) \<Rightarrow> bytes \<Rightarrow> bytes \<Rightarrow> mac \<Rightarrow> mac \<Rightarrow> u32 \<Rightarrow> bytes option" where
  "deriveLmkFromSeed hmac key seed master slave pairing_nonce =
     (case hmac key (lmk_message seed master slave pairing_nonce) of
        None \<Rightarrow> None
      | Some digest \<Rightarrow> Some (take 16 digest))"

definition topology_lmk_message :: "mac \<Rightarrow> mac \<Rightarrow> mac \<Rightarrow> u8 \<Rightarrow> bytes" where
  "topology_lmk_message icm_mac peer_a peer_b group_id =
     (let (a, b) = (if compareMac peer_a peer_b > 0 then (peer_b, peer_a) else (peer_a, peer_b))
      in kTopologyDeriveTag @ mac_bytes icm_mac @ mac_bytes a @ mac_bytes b @ [group_id])"

definition deriveLmkFromTopologySeed ::
  "(bytes \<Rightarrow> bytes \<Rightarrow> bytes option) \<Rightarrow> bytes \<Rightarrow> mac \<Rightarrow> mac \<Rightarrow> mac \<Rightarrow> u8 \<Rightarrow> bytes option" where
  "deriveLmkFromTopologySeed hmac group_seed icm_mac peer_a peer_b group_id =
     (case hmac group_seed (topology_lmk_message icm_mac peer_a peer_b group_id) of
        None \<Rightarrow> None
      | Some digest \<Rightarrow> Some (take 16 digest))"

text \<open>The messages bind every input: distinct inputs never give the same message.\<close>

lemma lmk_message_inj:
  assumes "length s = 16" and "length s' = 16" and "lmk_message s m p n = lmk_message s' m' p' n'"
  shows "s = s' \<and> m = m' \<and> p = p' \<and> n = n'"
proof -
  have "mac_bytes m = mac_bytes m' \<and> mac_bytes p = mac_bytes p' \<and> s = s' \<and> appendLe32 n = appendLe32 n'"
    using assms by (simp add: lmk_message_def)
  then show ?thesis
    by (metis mac_bytes_inj readLe32_appendLe32)
qed

lemma topology_message_sym: "topology_lmk_message i a b g = topology_lmk_message i b a g"
proof -
  have "compareMac a b = - compareMac b a"
    by (simp add: compareMac_def compareBytes_swap [of "mac_bytes a"])
  moreover have "compareMac a b = 0 \<longleftrightarrow> a = b"
    by (simp add: compareMac_def compareBytes_eq)
  ultimately show ?thesis by (cases "a = b") (auto simp: topology_lmk_message_def Let_def)
qed

lemma topology_message_inj:
  assumes "topology_lmk_message i a b g = topology_lmk_message i' a' b' g'"
  shows "i = i' \<and> {a, b} = {a', b'} \<and> g = g'"
  using assms by (auto simp: topology_lmk_message_def Let_def split: if_splits prod.splits)

text \<open>
  The link key of two lateral peers does not depend on which of the two computes it, and
  the message authenticated for it determines the controller, the unordered pair of peers and
  the group; the message of the pairing key determines seed, both addresses and nonce.
\<close>

lemma lmk_messages_bind:
  "deriveLmkFromTopologySeed hmac seed icm a b g = deriveLmkFromTopologySeed hmac seed icm b a g
   \<and> (topology_lmk_message icm a b g = topology_lmk_message icm' a' b' g'
        \<longleftrightarrow> icm = icm' \<and> {a, b} = {a', b'} \<and> g = g')
   \<and> (length s = 16 \<longrightarrow> length s' = 16 \<longrightarrow>
        (lmk_message s m p n = lmk_message s' m' p' n' \<longleftrightarrow> s = s' \<and> m = m' \<and> p = p' \<and> n = n'))"
  using topology_message_sym [of icm a b g] topology_message_inj [of icm a b g icm' a' b' g']
    lmk_message_inj [of s s' m p n m' p' n']
  by (auto simp: deriveLmkFromTopologySeed_def doubleton_eq_iff)

end
