(* ===== verification/PairingEngine.thy ===== *)
theory PairingEngine
  imports Environment Tlv
begin

text \<open>
  The pairing state machine, \<open>src/pairing/pairing.cpp\<close>: link and pairing phases, timers,
  unpairing, channel switching. The state is the class's members and the trace of its calls on
  the environment; a method is a program of the state monad over it, returning the method's
  result, its early returns written as nested conditionals.
\<close>

section \<open>State\<close>

datatype LinkState = LsUnpaired | LsPairing | LsSecured

datatype PairPhase =
    PhIdle | MasterWaitInitAck | MasterSecureGuard | MasterWaitConfirmAck | SlaveWaitConfirm

datatype ChannelSwitchState = CsIdle | MasterWaitAck | MasterWaitCommit | SlavePrepared

fun link_code :: "LinkState \<Rightarrow> u32" where
  "link_code LsUnpaired = 0" | "link_code LsPairing = 1" | "link_code LsSecured = 2"

fun phase_code :: "PairPhase \<Rightarrow> u32" where
  "phase_code PhIdle = 0" | "phase_code MasterWaitInitAck = 1" | "phase_code MasterSecureGuard = 2"
| "phase_code MasterWaitConfirmAck = 3" | "phase_code SlaveWaitConfirm = 4"

record engine =
  local_mac :: mac
  local_profile_id :: u8
  peer_mac :: mac
  current_seed :: bytes
  current_lmk :: bytes
  pairing_nonce :: u32
  lstate :: LinkState
  pair_phase :: PairPhase
  pair_corr_id :: u32
  pair_deadline_ms :: u32
  pair_total_deadline_ms :: u32
  pair_last_tick_ms :: u32
  current_now_ms :: u32
  discovery_last_sent_ms :: u32
  discovery_counter :: u32
  last_time_sync_tx_ms :: u32
  has_time_sync_tx :: bool
  unpair_pending :: bool
  unpair_corr_id :: u32
  unpair_deadline_ms :: u32
  unpair_last_tick_ms :: u32
  deferred_unpair_cleanup :: bool
  deferred_unpair_peer :: mac
  deferred_unpair_corr_id :: u32
  deferred_unpair_deadline_ms :: u32
  deferred_unpair_last_tick_ms :: u32
  channel_state :: ChannelSwitchState
  pending_channel :: u8
  channel_corr_id :: u32
  channel_effective_at_ms :: u32
  channel_deadline_ms :: u32
  trace :: "action list"

type_synonym 'a eng = "(engine, 'a) state"

definition new_engine :: engine where
  "new_engine = \<lparr>local_mac = zeroMac, local_profile_id = 1, peer_mac = zeroMac,
     current_seed = replicate 16 0, current_lmk = replicate 16 0, pairing_nonce = 0,
     lstate = LsUnpaired, pair_phase = PhIdle, pair_corr_id = 0, pair_deadline_ms = 0,
     pair_total_deadline_ms = 0, pair_last_tick_ms = 0, current_now_ms = 0,
     discovery_last_sent_ms = 0, discovery_counter = 1, last_time_sync_tx_ms = 0,
     has_time_sync_tx = False, unpair_pending = False, unpair_corr_id = 0,
     unpair_deadline_ms = 0, unpair_last_tick_ms = 0, deferred_unpair_cleanup = False,
     deferred_unpair_peer = zeroMac, deferred_unpair_corr_id = 0,
     deferred_unpair_deadline_ms = 0, deferred_unpair_last_tick_ms = 0,
     channel_state = CsIdle, pending_channel = 0, channel_corr_id = 0,
     channel_effective_at_ms = 0, channel_deadline_ms = 0, trace = []\<rparr>"

definition kPairInitAckTimeoutMs :: u32 where "kPairInitAckTimeoutMs = 1200"
definition kSecureGuardDelayMs :: u32 where "kSecureGuardDelayMs = 150"
definition kPairConfirmAckTimeoutMs :: u32 where "kPairConfirmAckTimeoutMs = 1500"
definition kPairTotalTimeoutMs :: u32 where "kPairTotalTimeoutMs = 4000"
definition kSlavePairHoldTimeoutMs :: u32 where "kSlavePairHoldTimeoutMs = 2500"

lemmas pair_timeouts = kPairInitAckTimeoutMs_def kSecureGuardDelayMs_def
  kPairConfirmAckTimeoutMs_def kPairTotalTimeoutMs_def kSlavePairHoldTimeoutMs_def

section \<open>Calls on the environment\<close>

definition note_action :: "action \<Rightarrow> unit eng" where
  "note_action a = modify (\<lambda>s. s\<lparr>trace := trace s @ [a]\<rparr>)"

definition ask :: "env \<Rightarrow> action \<Rightarrow> bool eng" where
  "ask E a = do { tr \<leftarrow> gets trace; _ \<leftarrow> note_action a; ret (answer E tr a) }"

definition getChannel :: "env \<Rightarrow> u8 eng" where
  "getChannel E = do { tr \<leftarrow> gets trace; _ \<leftarrow> note_action GetChannel; ret (channel_of E tr) }"

definition nowEpochSec :: "env \<Rightarrow> u64 option eng" where
  "nowEpochSec E = do { tr \<leftarrow> gets trace; _ \<leftarrow> note_action NowEpochSec; ret (epoch_of E tr) }"

definition esp_random :: "env \<Rightarrow> u32 eng" where
  "esp_random E = do { tr \<leftarrow> gets trace; _ \<leftarrow> note_action EspRandom; ret (random32 E tr) }"

definition esp_fill_random :: "env \<Rightarrow> nat \<Rightarrow> bytes eng" where
  "esp_fill_random E n =
     do { tr \<leftarrow> gets trace; _ \<leftarrow> note_action EspFillRandom; ret (random_bytes E tr n) }"

definition makePairSeed :: "env \<Rightarrow> bytes eng" where
  "makePairSeed E = do {
     seed \<leftarrow> esp_fill_random E 16;
     if list_all (\<lambda>b. b = 0) seed then do {
       r \<leftarrow> esp_random E;
       let b = (ucast (r AND 0xFF) :: u8);
       ret (seed[0 := (if b = 0 then 0x5A else b)])
     } else ret seed }"

definition attachPeer :: "env \<Rightarrow> mac \<Rightarrow> bool \<Rightarrow> bytes option \<Rightarrow> bool eng" where
  "attachPeer E m encrypted lmk =
     (if has_window E then ask E (RequestAttach m encrypted lmk) else ask E (AddPeer m encrypted lmk))"

definition evictPeer :: "env \<Rightarrow> mac \<Rightarrow> bool eng" where
  "evictPeer E m = (if has_window E then ask E (RequestEvict m) else ask E (DelPeer m))"

definition blink_of :: "EventType \<Rightarrow> action option" where
  "blink_of t =
     (if t = PairingStarted \<or> t = PairingStep then Some (OnRgbBlink 255 165 0 80)
      else if t = EvPaired then Some (OnRgbBlink 0 255 0 150)
      else if t = PairingFailed \<or> t = ChannelSwitchFailed then Some (OnRgbBlink 255 0 0 150)
      else if t = ChannelSwitchStarted \<or> t = ChannelSwitchCommitted then Some (OnRgbBlink 255 0 255 100)
      else None)"

definition emit :: "env \<Rightarrow> EventType \<Rightarrow> mac \<Rightarrow> u32 \<Rightarrow> string \<Rightarrow> unit eng" where
  "emit E t peer corr_id msg = do {
     _ \<leftarrow> whenM (has_events E) (note_action (OnEvent t peer corr_id msg));
     if \<not> has_hooks E then ret ()
     else case blink_of t of None \<Rightarrow> ret () | Some a \<Rightarrow> note_action a }"

definition kLogSourcePairing :: u16 where "kLogSourcePairing = 0x0102"
definition kLogEvtPairReqTx :: u16 where "kLogEvtPairReqTx = 0x0001"
definition kLogEvtPairInitRx :: u16 where "kLogEvtPairInitRx = 0x0002"
definition kLogEvtPairAckTx :: u16 where "kLogEvtPairAckTx = 0x0003"
definition kLogEvtSecurePeerInstall :: u16 where "kLogEvtSecurePeerInstall = 0x0004"
definition kLogEvtPairConfirmTx :: u16 where "kLogEvtPairConfirmTx = 0x0005"
definition kLogEvtPairComplete :: u16 where "kLogEvtPairComplete = 0x0006"
definition kLogEvtPairFail :: u16 where "kLogEvtPairFail = 0x0007"
definition kLogEvtUnpairReq :: u16 where "kLogEvtUnpairReq = 0x0008"
definition kLogEvtUnpairAck :: u16 where "kLogEvtUnpairAck = 0x0009"
definition kLogEvtUnpairTimeout :: u16 where "kLogEvtUnpairTimeout = 0x000A"
definition kLogEvtRestore :: u16 where "kLogEvtRestore = 0x000B"
definition kLogEvtBusyReject :: u16 where "kLogEvtBusyReject = 0x000C"

definition emitPairingLog ::
  "env \<Rightarrow> LibraryLogLevel \<Rightarrow> u16 \<Rightarrow> mac \<Rightarrow> u32 \<Rightarrow> u32 \<Rightarrow> u32 \<Rightarrow> unit eng" where
  "emitPairingLog E level event_id peer corr_id p1 p2 =
     (if \<not> has_logger E then ret ()
      else do {
        now \<leftarrow> gets current_now_ms;
        epoch \<leftarrow> (if has_time E then nowEpochSec E else ret None);
        note_action (LogRec \<lparr>lr_level = level, lr_source_id = kLogSourcePairing,
          lr_event_id = event_id,
          lr_epoch_s = (case epoch of None \<Rightarrow> 0 | Some e \<Rightarrow> ucast (e AND 0xFFFFFFFF)),
          lr_uptime_ms = now, lr_p0 = corr_id, lr_p1 = p1, lr_p2 = p2,
          lr_ext = mac_bytes peer\<rparr>) })"

section \<open>Sending\<close>

definition shouldAttachTimeSync :: "env \<Rightarrow> u32 \<Rightarrow> bool eng" where
  "shouldAttachTimeSync E now_ms = do {
     s \<leftarrow> gets id;
     ret (if \<not> time_sync_enabled (cfg E) \<or> local_role (cfg E) \<noteq> Master \<or> \<not> has_time E then False
          else if \<not> has_time_sync_tx s then True
          else if time_sync_interval_ms (cfg E) = 0 then True
          else now_ms - last_time_sync_tx_ms s \<ge> time_sync_interval_ms (cfg E)) }"

definition epoch_prefix :: "u64 \<Rightarrow> bytes" where
  "epoch_prefix epoch_s = appendLe32 (ucast (epoch_s AND 0xFFFFFFFF))"

definition control_header :: "env \<Rightarrow> MessageType \<Rightarrow> u32 \<Rightarrow> bool \<Rightarrow> nat \<Rightarrow> FrameHeader" where
  "control_header E type corr_id wrapped wire_len = default_header\<lparr>fh_version := kProtocolVersion,
     fh_type := type, fh_flags := (if wrapped then kFrameFlagTimeSyncEpoch else 0),
     fh_correlation_id := corr_id, fh_role := role_code (local_role (cfg E)),
     fh_payload_length := of_nat wire_len\<rparr>"

definition wrap_payload :: "env \<Rightarrow> bytes \<Rightarrow> (bool \<times> bytes) eng" where
  "wrap_payload E payload = do {
     now \<leftarrow> gets current_now_ms;
     att \<leftarrow> shouldAttachTimeSync E now;
     if att \<and> length payload \<le> kMaxPayload - kTimeSyncMetadataSize then do {
       e \<leftarrow> nowEpochSec E;
       case e of
         None \<Rightarrow> ret (False, payload)
       | Some epoch_s \<Rightarrow> do {
           _ \<leftarrow> modify (\<lambda>s. s\<lparr>has_time_sync_tx := True, last_time_sync_tx_ms := now\<rparr>);
           ret (True, epoch_prefix epoch_s @ payload) } }
     else ret (False, payload) }"

definition sendControl :: "env \<Rightarrow> mac \<Rightarrow> MessageType \<Rightarrow> u32 \<Rightarrow> bytes \<Rightarrow> bool eng" where
  "sendControl E to type corr_id payload = do {
     w \<leftarrow> wrap_payload E payload;
     let (wrapped, wire_payload) = w;
     let wire_len = length wire_payload;
     case encode (control_header E type corr_id wrapped wire_len) wire_payload of
       None \<Rightarrow> do {
         _ \<leftarrow> whenM (has_hooks E) (note_action (OnTxFrame to type corr_id wire_len False));
         ret False }
     | Some frame \<Rightarrow> do {
         ok \<leftarrow> ask E (TxSend to frame);
         _ \<leftarrow> whenM (has_hooks E) (note_action (OnTxFrame to type corr_id wire_len ok));
         ret ok } }"

section \<open>Resetting, failing, persisting\<close>

definition resetPairing :: "unit eng" where
  "resetPairing = modify (\<lambda>s. s\<lparr>lstate := LsUnpaired, pair_phase := PhIdle, pair_corr_id := 0,
     pair_deadline_ms := 0, pair_total_deadline_ms := 0, pair_last_tick_ms := 0,
     pairing_nonce := 0, has_time_sync_tx := False, last_time_sync_tx_ms := 0,
     unpair_pending := False, unpair_corr_id := 0, unpair_deadline_ms := 0,
     unpair_last_tick_ms := 0, deferred_unpair_cleanup := False,
     deferred_unpair_peer := zeroMac, deferred_unpair_corr_id := 0,
     deferred_unpair_deadline_ms := 0, deferred_unpair_last_tick_ms := 0\<rparr>)"

definition failPairing :: "env \<Rightarrow> mac \<Rightarrow> u32 \<Rightarrow> string \<Rightarrow> unit eng" where
  "failPairing E peer corr_id msg = do {
     s \<leftarrow> gets id;
     _ \<leftarrow> emitPairingLog E LogError kLogEvtPairFail peer corr_id
           (phase_code (pair_phase s)) (link_code (lstate s));
     _ \<leftarrow> emit E PairingFailed peer corr_id msg;
     _ \<leftarrow> whenM (peer \<noteq> kBroadcastMac) (do { _ \<leftarrow> evictPeer E peer; ret () });
     _ \<leftarrow> resetPairing;
     modify (\<lambda>s. s\<lparr>discovery_last_sent_ms := 0\<rparr>) }"

text \<open>\<open>failPairing\<close> followed by \<open>return false\<close>.\<close>

definition fail_with :: "env \<Rightarrow> mac \<Rightarrow> u32 \<Rightarrow> string \<Rightarrow> bool eng" where
  "fail_with E peer corr_id msg = do { _ \<leftarrow> failPairing E peer corr_id msg; ret False }"

definition setPaired :: "bool \<Rightarrow> unit eng" where
  "setPaired paired = modify (\<lambda>s.
     if paired then s\<lparr>lstate := LsSecured, pair_phase := PhIdle, pair_deadline_ms := 0,
                      pair_total_deadline_ms := 0\<rparr>
     else s\<lparr>lstate := LsUnpaired\<rparr>)"

definition setLocalProfileId :: "u8 \<Rightarrow> unit eng" where
  "setLocalProfileId profile_id =
     modify (\<lambda>s. s\<lparr>local_profile_id := (if profile_id = 0 then 1 else profile_id)\<rparr>)"

definition setLocalMac :: "mac \<Rightarrow> unit eng" where
  "setLocalMac m = modify (\<lambda>s. s\<lparr>local_mac := m\<rparr>)"

definition isPaired :: "engine \<Rightarrow> bool" where
  "isPaired s \<longleftrightarrow> lstate s = LsSecured"

definition getPairedPeer :: "engine \<Rightarrow> mac option" where
  "getPairedPeer s = (if lstate s \<noteq> LsSecured then None else Some (peer_mac s))"

text \<open>Both store calls are made, whatever the first one answers.\<close>

definition persistPair :: "env \<Rightarrow> bool eng" where
  "persistPair E =
     (if \<not> has_store E then ret False
      else do {
        en \<leftarrow> ask E StoreEnabled;
        s \<leftarrow> gets id;
        if \<not> en \<or> lstate s \<noteq> LsSecured then ret False
        else do {
          ch \<leftarrow> getChannel E;
          saved_pair \<leftarrow> ask E (SavePair \<lparr>rec_valid = True, rec_local_role = local_role (cfg E),
            rec_local_mac = local_mac s, rec_peer_mac = peer_mac s, rec_lmk = current_lmk s,
            rec_channel = ch\<rparr>);
          saved_chan \<leftarrow> ask E (SaveChannel (local_mac s) (peer_mac s) ch);
          ret (saved_pair \<and> saved_chan) } })"

definition erase_link :: "env \<Rightarrow> mac \<Rightarrow> unit eng" where
  "erase_link E peer = whenM (has_store E) (do {
     me \<leftarrow> gets local_mac;
     _ \<leftarrow> ask E (ErasePair me peer);
     _ \<leftarrow> ask E (EraseChannel me peer);
     ret () })"

section \<open>Pairing messages\<close>

definition requestPair :: "env \<Rightarrow> mac \<Rightarrow> u32 \<Rightarrow> bool eng" where
  "requestPair E peer corr_id = do {
     s \<leftarrow> gets id;
     if local_role (cfg E) \<noteq> Master then ret False
     else if lstate s = LsPairing \<or> unpair_pending s then ret False
     else do {
       _ \<leftarrow> modify (\<lambda>s. s\<lparr>peer_mac := peer, pair_corr_id := corr_id, lstate := LsPairing,
              pair_phase := MasterWaitInitAck, pair_deadline_ms := kPairInitAckTimeoutMs,
              pair_total_deadline_ms := kPairTotalTimeoutMs, pair_last_tick_ms := 0,
              pairing_nonce := 0\<rparr>);
       att \<leftarrow> attachPeer E peer False None;
       if \<not> att then fail_with E peer corr_id ''unsecure peer add failed on master''
       else do {
         seed \<leftarrow> makePairSeed E;
         nonce \<leftarrow> esp_random E;
         _ \<leftarrow> modify (\<lambda>s. s\<lparr>current_seed := seed, pairing_nonce := nonce\<rparr>);
         let profile = (if local_role (cfg E) = Master then 0 else local_profile_id s);
         case encodePairInitPayload seed nonce profile of
           None \<Rightarrow> fail_with E peer corr_id ''pair init tlv encode failed''
         | Some payload \<Rightarrow> do {
             _ \<leftarrow> emit E PairingStarted peer corr_id ''pair_init_tx_unsecure'';
             _ \<leftarrow> emitPairingLog E LogInfo kLogEvtPairReqTx peer corr_id nonce (ucast profile);
             ok \<leftarrow> sendControl E peer PairInit corr_id payload;
             if \<not> ok then fail_with E peer corr_id ''pair init send failed''
             else ret True } } } }"

definition onDiscovery :: "env \<Rightarrow> mac \<Rightarrow> u32 \<Rightarrow> bool eng" where
  "onDiscovery E from corr_id = do {
     s \<leftarrow> gets id;
     if local_role (cfg E) \<noteq> Master \<or> lstate s \<noteq> LsUnpaired then ret False
     else if \<not> auto_pair_on_discovery (cfg E) then do {
       _ \<leftarrow> emit E PairingStep from corr_id ''discovery seen (manual pair mode)'';
       ret True }
     else requestPair E from corr_id }"

definition onPairInit :: "env \<Rightarrow> mac \<Rightarrow> u32 \<Rightarrow> bytes \<Rightarrow> u32 \<Rightarrow> bool eng" where
  "onPairInit E from corr_id seed nonce = do {
     s \<leftarrow> gets id;
     if local_role (cfg E) \<noteq> Slave \<or> lstate s = LsSecured then ret False
     else if lstate s = LsPairing \<and> (from \<noteq> peer_mac s \<or> corr_id \<noteq> pair_corr_id s) then do {
       _ \<leftarrow> attachPeer E from False None;
       _ \<leftarrow> sendControl E from PairBusy corr_id [1];
       _ \<leftarrow> emit E PairingStep from corr_id ''busy_pairing_reject'';
       _ \<leftarrow> emitPairingLog E LogWarn kLogEvtBusyReject from corr_id 1 0;
       ret True }
     else do {
       _ \<leftarrow> modify (\<lambda>s. s\<lparr>peer_mac := from, pair_corr_id := corr_id, current_seed := seed,
              pairing_nonce := nonce, lstate := LsPairing, pair_phase := SlaveWaitConfirm,
              pair_deadline_ms := kSlavePairHoldTimeoutMs,
              pair_total_deadline_ms := kPairTotalTimeoutMs, pair_last_tick_ms := 0\<rparr>);
       _ \<leftarrow> emit E PairingStep from corr_id ''pair_init_rx_unsecure'';
       _ \<leftarrow> emitPairingLog E LogInfo kLogEvtPairInitRx from corr_id nonce 0;
       att \<leftarrow> attachPeer E from False None;
       if \<not> att then fail_with E from corr_id ''unsecure peer add failed on slave''
       else case encodePairInitAckPayload nonce of
         None \<Rightarrow> fail_with E from corr_id ''pair init ack tlv encode failed on slave''
       | Some payload \<Rightarrow> do {
           ok \<leftarrow> sendControl E from PairInitAck corr_id payload;
           if \<not> ok then fail_with E from corr_id ''pair init ack send failed on slave''
           else do {
             _ \<leftarrow> emit E PairingStep from corr_id ''pair_init_ack_tx_unsecure'';
             _ \<leftarrow> emitPairingLog E LogInfo kLogEvtPairAckTx from corr_id nonce 0;
             case deriveLmkFromSeed (hmac_sha256 E) (pmk E) seed from (local_mac s) nonce of
               None \<Rightarrow> fail_with E from corr_id ''lmk derive failed on slave (prepare)''
             | Some lmk \<Rightarrow> do {
                 _ \<leftarrow> modify (\<lambda>s. s\<lparr>current_lmk := lmk\<rparr>);
                 _ \<leftarrow> evictPeer E from;
                 sec \<leftarrow> attachPeer E from True (Some lmk);
                 if \<not> sec then fail_with E from corr_id ''secure peer add failed on slave (prepare)''
                 else do {
                   _ \<leftarrow> emit E PairingStep from corr_id ''secure_peer_install_done'';
                   _ \<leftarrow> emitPairingLog E LogInfo kLogEvtSecurePeerInstall from corr_id 0 0;
                   ret True } } } } } }"

definition onPairInitAck :: "env \<Rightarrow> mac \<Rightarrow> u32 \<Rightarrow> u32 \<Rightarrow> bool eng" where
  "onPairInitAck E from corr_id nonce_echo = do {
     s \<leftarrow> gets id;
     if local_role (cfg E) \<noteq> Master \<or> lstate s \<noteq> LsPairing
        \<or> pair_phase s \<noteq> MasterWaitInitAck \<or> corr_id \<noteq> pair_corr_id s then ret False
     else if nonce_echo \<noteq> pairing_nonce s
       then fail_with E from corr_id ''pair init ack nonce mismatch''
     else do {
       _ \<leftarrow> evictPeer E from;
       case deriveLmkFromSeed (hmac_sha256 E) (pmk E) (current_seed s) (local_mac s) from (pairing_nonce s) of
         None \<Rightarrow> fail_with E from corr_id ''lmk derive failed on master''
       | Some lmk \<Rightarrow> do {
           _ \<leftarrow> modify (\<lambda>s. s\<lparr>current_lmk := lmk\<rparr>);
           sec \<leftarrow> attachPeer E from True (Some lmk);
           if \<not> sec then fail_with E from corr_id ''secure peer add failed on master''
           else do {
             _ \<leftarrow> modify (\<lambda>s. s\<lparr>pair_phase := MasterSecureGuard,
                    pair_deadline_ms := kSecureGuardDelayMs, pair_last_tick_ms := 0\<rparr>);
             _ \<leftarrow> emit E PairingStep from corr_id ''secure_guard_wait_150ms'';
             _ \<leftarrow> emitPairingLog E LogInfo kLogEvtSecurePeerInstall from corr_id 1 0;
             ret True } } } }"

definition onPairConfirm :: "env \<Rightarrow> mac \<Rightarrow> u32 \<Rightarrow> u32 \<Rightarrow> bool eng" where
  "onPairConfirm E from corr_id nonce_echo = do {
     s \<leftarrow> gets id;
     if local_role (cfg E) \<noteq> Slave \<or> lstate s \<noteq> LsPairing
        \<or> pair_phase s \<noteq> SlaveWaitConfirm \<or> corr_id \<noteq> pair_corr_id s then ret False
     else if nonce_echo \<noteq> pairing_nonce s
       then fail_with E from corr_id ''pair confirm nonce mismatch on slave''
     else case deriveLmkFromSeed (hmac_sha256 E) (pmk E) (current_seed s) from (local_mac s) (pairing_nonce s) of
       None \<Rightarrow> fail_with E from corr_id ''lmk derive failed on slave''
     | Some lmk \<Rightarrow> do {
         _ \<leftarrow> modify (\<lambda>s. s\<lparr>current_lmk := lmk\<rparr>);
         _ \<leftarrow> evictPeer E from;
         sec \<leftarrow> attachPeer E from True (Some lmk);
         if \<not> sec then fail_with E from corr_id ''secure peer add failed on slave''
         else do {
           _ \<leftarrow> modify (\<lambda>s. s\<lparr>lstate := LsSecured, pair_phase := PhIdle, pair_deadline_ms := 0,
                  pair_total_deadline_ms := 0, pair_last_tick_ms := 0\<rparr>);
           saved \<leftarrow> persistPair E;
           if \<not> saved then do {
             _ \<leftarrow> evictPeer E from;
             fail_with E from corr_id ''persist failed on slave'' }
           else do {
             _ \<leftarrow> emit E EvPaired from corr_id ''pair_complete_persisted'';
             _ \<leftarrow> emitPairingLog E LogInfo kLogEvtPairComplete from corr_id 1 0;
             case encodePairConfirmAckPayload of
               None \<Rightarrow> fail_with E from corr_id ''pair confirm ack tlv encode failed on slave''
             | Some payload \<Rightarrow> sendControl E from PairConfirmAck corr_id payload } } } }"

definition onPairConfirmAck :: "env \<Rightarrow> mac \<Rightarrow> u32 \<Rightarrow> bool \<Rightarrow> bool eng" where
  "onPairConfirmAck E from corr_id paired_flag = do {
     s \<leftarrow> gets id;
     if local_role (cfg E) \<noteq> Master \<or> lstate s \<noteq> LsPairing
        \<or> pair_phase s \<noteq> MasterWaitConfirmAck \<or> corr_id \<noteq> pair_corr_id s then ret False
     else if \<not> paired_flag then fail_with E from corr_id ''pair confirm ack missing paired flag''
     else do {
       _ \<leftarrow> modify (\<lambda>s. s\<lparr>lstate := LsSecured, pair_phase := PhIdle, pair_deadline_ms := 0,
              pair_total_deadline_ms := 0, pair_last_tick_ms := 0, pairing_nonce := 0\<rparr>);
       saved \<leftarrow> persistPair E;
       if \<not> saved then do {
         _ \<leftarrow> evictPeer E from;
         fail_with E from corr_id ''persist failed on master'' }
       else do {
         _ \<leftarrow> emit E EvPaired from corr_id ''pair_complete_persisted'';
         _ \<leftarrow> emitPairingLog E LogInfo kLogEvtPairComplete from corr_id 2 0;
         ret True } } }"

definition onPairBusy :: "env \<Rightarrow> mac \<Rightarrow> u32 \<Rightarrow> bool eng" where
  "onPairBusy E from corr_id = do {
     s \<leftarrow> gets id;
     if local_role (cfg E) \<noteq> Master \<or> lstate s \<noteq> LsPairing \<or> corr_id \<noteq> pair_corr_id s then ret False
     else do {
       _ \<leftarrow> emit E PairingFailed from corr_id ''busy_pairing'';
       _ \<leftarrow> emitPairingLog E LogWarn kLogEvtBusyReject from corr_id 2 0;
       _ \<leftarrow> evictPeer E from;
       _ \<leftarrow> resetPairing;
       ret False } }"

definition restorePairedLink :: "env \<Rightarrow> PairRecord \<Rightarrow> bool eng" where
  "restorePairedLink E r = do {
     s \<leftarrow> gets id;
     if \<not> rec_valid r \<or> rec_local_role r \<noteq> local_role (cfg E) \<or> rec_local_mac r \<noteq> local_mac s
     then ret False
     else do {
       ok \<leftarrow> ask E (SetChannel (rec_channel r));
       if \<not> ok then ret False
       else do {
         _ \<leftarrow> whenM (has_hooks E) (note_action (OnChannelCommitted (rec_channel r)));
         att \<leftarrow> attachPeer E (rec_peer_mac r) True (Some (rec_lmk r));
         if \<not> att then ret False
         else do {
           _ \<leftarrow> modify (\<lambda>s. s\<lparr>peer_mac := rec_peer_mac r, current_lmk := rec_lmk r,
                  lstate := LsSecured, pair_phase := PhIdle, pair_corr_id := 0,
                  pair_deadline_ms := 0, pair_total_deadline_ms := 0, pairing_nonce := 0,
                  discovery_last_sent_ms := 0\<rparr>);
           _ \<leftarrow> emit E PairingStep (rec_peer_mac r) 0 ''paired link restored from persistence'';
           _ \<leftarrow> emitPairingLog E LogInfo kLogEvtRestore (rec_peer_mac r) 0 (ucast (rec_channel r))
                 (ucast (role_code (local_role (cfg E))));
           ret True } } } }"

section \<open>Unpairing and removing\<close>

definition requestUnpair :: "env \<Rightarrow> mac \<Rightarrow> u32 \<Rightarrow> bool eng" where
  "requestUnpair E peer corr_id = do {
     s \<leftarrow> gets id;
     if local_role (cfg E) \<noteq> Master \<or> lstate s \<noteq> LsSecured \<or> unpair_pending s then ret False
     else do {
       _ \<leftarrow> modify (\<lambda>s. s\<lparr>peer_mac := peer, unpair_pending := True, unpair_corr_id := corr_id,
              unpair_deadline_ms := unpair_ack_timeout_ms (cfg E), unpair_last_tick_ms := 0\<rparr>);
       ok \<leftarrow> sendControl E peer UnpairRequest corr_id [];
       if \<not> ok then do {
         _ \<leftarrow> modify (\<lambda>s. s\<lparr>unpair_pending := False, unpair_corr_id := 0,
                unpair_deadline_ms := 0, unpair_last_tick_ms := 0\<rparr>);
         ret False }
       else do {
         _ \<leftarrow> emitPairingLog E LogInfo kLogEvtUnpairReq peer corr_id 0 0;
         ret True } } }"

definition onUnpairRequest :: "env \<Rightarrow> mac \<Rightarrow> u32 \<Rightarrow> bool eng" where
  "onUnpairRequest E from corr_id = do {
     s \<leftarrow> gets id;
     if lstate s \<noteq> LsSecured then ret False
     else do {
       ok \<leftarrow> sendControl E from UnpairAck corr_id [];
       if \<not> ok then ret False
       else do {
         _ \<leftarrow> modify (\<lambda>s. s\<lparr>deferred_unpair_cleanup := True, deferred_unpair_peer := from,
                deferred_unpair_corr_id := corr_id,
                deferred_unpair_deadline_ms := unpair_ack_grace_ms (cfg E),
                deferred_unpair_last_tick_ms := 0\<rparr>);
         ret True } } }"

definition onUnpairAck :: "env \<Rightarrow> mac \<Rightarrow> u32 \<Rightarrow> bool eng" where
  "onUnpairAck E from corr_id = do {
     s \<leftarrow> gets id;
     if \<not> unpair_pending s \<or> corr_id \<noteq> unpair_corr_id s then ret False
     else do {
       _ \<leftarrow> erase_link E from;
       _ \<leftarrow> evictPeer E from;
       _ \<leftarrow> setPaired False;
       _ \<leftarrow> resetPairing;
       _ \<leftarrow> modify (\<lambda>s. s\<lparr>unpair_pending := False, unpair_corr_id := 0,
              unpair_deadline_ms := 0, unpair_last_tick_ms := 0\<rparr>);
       _ \<leftarrow> emit E PairingStep from corr_id ''unpair ack received'';
       _ \<leftarrow> emitPairingLog E LogInfo kLogEvtUnpairAck from corr_id 0 0;
       ret True } }"

definition removePeer :: "env \<Rightarrow> mac \<Rightarrow> bool \<Rightarrow> bool eng" where
  "removePeer E peer erase_persisted = do {
     removed \<leftarrow> evictPeer E peer;
     _ \<leftarrow> whenM erase_persisted (erase_link E peer);
     s \<leftarrow> gets id;
     _ \<leftarrow> whenM (lstate s = LsSecured \<and> peer = peer_mac s) (do {
       _ \<leftarrow> setPaired False;
       _ \<leftarrow> resetPairing;
       modify (\<lambda>s. s\<lparr>discovery_last_sent_ms := 0\<rparr>) });
     _ \<leftarrow> emit E PairingStep peer 0 ''peer removed locally'';
     ret removed }"

section \<open>Channel switching\<close>

definition channel_ok :: "u8 \<Rightarrow> bool" where
  "channel_ok c \<longleftrightarrow> 1 \<le> c \<and> c \<le> 14"

text \<open>The hook's veto; without hooks every switch is allowed.\<close>

definition switch_allowed :: "env \<Rightarrow> u8 \<Rightarrow> bool eng" where
  "switch_allowed E new =
     (if \<not> has_hooks E then ret True
      else do { current \<leftarrow> getChannel E; ask E (AllowChannelSwitch current new) })"

definition requestChannelSwitch :: "env \<Rightarrow> mac \<Rightarrow> u8 \<Rightarrow> u32 \<Rightarrow> u32 \<Rightarrow> bool eng" where
  "requestChannelSwitch E peer new_ch now_ms corr_id = do {
     s \<leftarrow> gets id;
     if local_role (cfg E) \<noteq> Master \<or> lstate s \<noteq> LsSecured \<or> channel_state s \<noteq> CsIdle then ret False
     else if \<not> channel_ok new_ch then ret False
     else do {
       allowed \<leftarrow> switch_allowed E new_ch;
       if \<not> allowed then do {
         _ \<leftarrow> emit E ChannelSwitchFailed peer corr_id ''channel switch denied by hook'';
         ret False }
       else do {
         let payload = \<lparr>new_channel = new_ch,
                        effective_at_ms = now_ms + channel_switch_grace_ms (cfg E)\<rparr>;
         case encodeChannelPreparePayload payload of
           None \<Rightarrow> ret False
         | Some b \<Rightarrow> do {
             ok \<leftarrow> sendControl E peer ChannelSwitchPrepare corr_id b;
             if \<not> ok then ret False
             else do {
               _ \<leftarrow> modify (\<lambda>s. s\<lparr>peer_mac := peer, pending_channel := new_ch,
                      channel_corr_id := corr_id,
                      channel_effective_at_ms := effective_at_ms payload,
                      channel_deadline_ms := now_ms + channel_switch_timeout_ms (cfg E),
                      channel_state := MasterWaitAck\<rparr>);
               _ \<leftarrow> emit E ChannelSwitchStarted peer corr_id ''prepare sent'';
               ret True } } } } }"

definition onChannelSwitchPrepare :: "env \<Rightarrow> mac \<Rightarrow> u32 \<Rightarrow> ChannelSwitchPayload \<Rightarrow> bool eng" where
  "onChannelSwitchPrepare E from corr_id p = do {
     s \<leftarrow> gets id;
     if local_role (cfg E) \<noteq> Slave \<or> lstate s \<noteq> LsSecured then ret False
     else if \<not> channel_ok (new_channel p) then do {
       _ \<leftarrow> emit E ChannelSwitchFailed from corr_id ''invalid requested channel'';
       ret False }
     else do {
       allowed \<leftarrow> switch_allowed E (new_channel p);
       if \<not> allowed then do {
         _ \<leftarrow> emit E ChannelSwitchFailed from corr_id ''channel switch denied by hook'';
         ret False }
       else do {
         _ \<leftarrow> modify (\<lambda>s. s\<lparr>peer_mac := from, pending_channel := new_channel p,
                channel_corr_id := corr_id, channel_effective_at_ms := effective_at_ms p,
                channel_deadline_ms := effective_at_ms p + channel_switch_timeout_ms (cfg E),
                channel_state := SlavePrepared\<rparr>);
         _ \<leftarrow> emit E ChannelSwitchStarted from corr_id ''slave prepared'';
         sendControl E from ChannelSwitchAck corr_id [] } } }"

definition onChannelSwitchAck :: "env \<Rightarrow> mac \<Rightarrow> u32 \<Rightarrow> bool eng" where
  "onChannelSwitchAck E from corr_id = do {
     s \<leftarrow> gets id;
     if local_role (cfg E) \<noteq> Master \<or> channel_state s \<noteq> MasterWaitAck \<or> corr_id \<noteq> channel_corr_id s
     then ret False
     else do {
       _ \<leftarrow> emit E PairingStep from corr_id ''channel switch ack received'';
       _ \<leftarrow> modify (\<lambda>s. s\<lparr>channel_state := MasterWaitCommit\<rparr>);
       ret True } }"

definition save_channel :: "env \<Rightarrow> mac \<Rightarrow> unit eng" where
  "save_channel E peer = whenM (has_store E) (do {
     s \<leftarrow> gets id;
     _ \<leftarrow> ask E (SaveChannel (local_mac s) peer (pending_channel s));
     ret () })"

definition channel_committed_hook :: "env \<Rightarrow> unit eng" where
  "channel_committed_hook E = do {
     c \<leftarrow> gets pending_channel;
     whenM (has_hooks E) (note_action (OnChannelCommitted c)) }"

definition onChannelSwitchCommitAck :: "env \<Rightarrow> mac \<Rightarrow> u32 \<Rightarrow> bool eng" where
  "onChannelSwitchCommitAck E from corr_id = do {
     s \<leftarrow> gets id;
     if local_role (cfg E) \<noteq> Master \<or> channel_state s \<noteq> MasterWaitCommit \<or> corr_id \<noteq> channel_corr_id s
     then ret False
     else do {
       _ \<leftarrow> save_channel E from;
       _ \<leftarrow> channel_committed_hook E;
       _ \<leftarrow> emit E ChannelSwitchCommitted from corr_id ''master switch confirmed'';
       _ \<leftarrow> modify (\<lambda>s. s\<lparr>channel_state := CsIdle\<rparr>);
       ret True } }"

section \<open>The tick\<close>

definition name_id :: "bytes option \<Rightarrow> u8" where
  "name_id name = (case name of None \<Rightarrow> 0 | Some cs \<Rightarrow> foldl (XOR) 0 cs)"

definition discovery_beacon :: "ManagerConfig \<Rightarrow> u8 \<Rightarrow> bytes" where
  "discovery_beacon c profile =
     [kProtocolVersion, 0, 2, 2, 1, name_id (discovery_name c), profile, 0, 0, 0, 0, 0, 0, 0]"

definition tick_discovery :: "env \<Rightarrow> u32 \<Rightarrow> unit eng" where
  "tick_discovery E now_ms = do {
     s \<leftarrow> gets id;
     whenM (local_role (cfg E) = Slave \<and> lstate s = LsUnpaired
            \<and> (discovery_last_sent_ms s = 0
               \<or> now_ms - discovery_last_sent_ms s \<ge> discovery_interval_ms (cfg E))) (do {
       _ \<leftarrow> modify (\<lambda>s. s\<lparr>discovery_last_sent_ms := now_ms,
              discovery_counter := discovery_counter s + 1\<rparr>);
       _ \<leftarrow> sendControl E kBroadcastMac Discovery (discovery_counter s)
              (discovery_beacon (cfg E) (local_profile_id s));
       ret () }) }"

definition timeout_reason :: "PairPhase \<Rightarrow> string" where
  "timeout_reason ph =
     (if ph = MasterWaitInitAck then ''pair init ack timeout''
      else if ph = MasterWaitConfirmAck then ''pair confirm ack timeout''
      else if ph = SlaveWaitConfirm then ''pair confirm wait timeout on slave''
      else ''pair timeout'')"

definition fail_current :: "env \<Rightarrow> string \<Rightarrow> bool eng" where
  "fail_current E msg = do { s \<leftarrow> gets id; fail_with E (peer_mac s) (pair_corr_id s) msg }"

text \<open>The end of the secure guard: the master sends its pair-confirm.\<close>

definition guard_elapsed :: "env \<Rightarrow> bool eng" where
  "guard_elapsed E = do {
     s \<leftarrow> gets id;
     case encodePairConfirmPayload (pairing_nonce s) of
       None \<Rightarrow> fail_current E ''pair confirm tlv encode failed on master''
     | Some b \<Rightarrow> do {
         ok \<leftarrow> sendControl E (peer_mac s) PairConfirm (pair_corr_id s) b;
         if \<not> ok then fail_current E ''pair confirm send failed on master''
         else do {
           _ \<leftarrow> modify (\<lambda>s. s\<lparr>pair_phase := MasterWaitConfirmAck,
                  pair_deadline_ms := kPairConfirmAckTimeoutMs, pair_last_tick_ms := 0\<rparr>);
           _ \<leftarrow> emit E PairingStep (peer_mac s) (pair_corr_id s) ''pair_confirm_tx_secure'';
           _ \<leftarrow> emitPairingLog E LogInfo kLogEvtPairConfirmTx (peer_mac s) (pair_corr_id s)
                 (pairing_nonce s) 0;
           ret True } } }"

definition tick_deadline :: "env \<Rightarrow> u32 \<Rightarrow> bool eng" where
  "tick_deadline E elapsed = do {
     s \<leftarrow> gets id;
     if pair_deadline_ms s = 0 then ret True
     else if elapsed \<ge> pair_deadline_ms s then
       (if pair_phase s = MasterSecureGuard then guard_elapsed E
        else fail_current E (timeout_reason (pair_phase s)))
     else do { _ \<leftarrow> modify (\<lambda>s. s\<lparr>pair_deadline_ms := pair_deadline_ms s - elapsed\<rparr>); ret True } }"

text \<open>The result is false where the code returns from \<open>tick\<close> with false.\<close>

definition tick_pairing :: "env \<Rightarrow> u32 \<Rightarrow> bool eng" where
  "tick_pairing E now_ms = do {
     s \<leftarrow> gets id;
     if lstate s \<noteq> LsPairing then ret True
     else if pair_last_tick_ms s = 0 then do {
       _ \<leftarrow> modify (\<lambda>s. s\<lparr>pair_last_tick_ms := now_ms\<rparr>);
       ret True }
     else do {
       let elapsed = now_ms - pair_last_tick_ms s;
       _ \<leftarrow> modify (\<lambda>s. s\<lparr>pair_last_tick_ms := now_ms\<rparr>);
       if pair_total_deadline_ms s = 0 then tick_deadline E elapsed
       else if elapsed \<ge> pair_total_deadline_ms s then fail_current E ''pair total timeout''
       else do {
         _ \<leftarrow> modify (\<lambda>s. s\<lparr>pair_total_deadline_ms := pair_total_deadline_ms s - elapsed\<rparr>);
         tick_deadline E elapsed } } }"

text \<open>\<open>Some r\<close> where the code returns \<open>r\<close> from \<open>tick\<close>.\<close>

definition tick_channel :: "env \<Rightarrow> u32 \<Rightarrow> bool option eng" where
  "tick_channel E now_ms = do {
     s \<leftarrow> gets id;
     if channel_state s \<noteq> CsIdle \<and> channel_deadline_ms s \<noteq> 0 \<and> now_ms > channel_deadline_ms s then do {
       _ \<leftarrow> emit E ChannelSwitchFailed (peer_mac s) (channel_corr_id s) ''channel switch timeout'';
       _ \<leftarrow> modify (\<lambda>s. s\<lparr>channel_state := CsIdle\<rparr>);
       ret (Some False) }
     else if channel_state s = SlavePrepared \<and> now_ms \<ge> channel_effective_at_ms s then do {
       ok \<leftarrow> ask E (SetChannel (pending_channel s));
       if \<not> ok then do {
         _ \<leftarrow> emit E ChannelSwitchFailed (peer_mac s) (channel_corr_id s) ''slave channel apply failed'';
         _ \<leftarrow> modify (\<lambda>s. s\<lparr>channel_state := CsIdle\<rparr>);
         ret (Some False) }
       else do {
         _ \<leftarrow> save_channel E (peer_mac s);
         _ \<leftarrow> channel_committed_hook E;
         sent \<leftarrow> sendControl E (peer_mac s) ChannelSwitchCommitAck (channel_corr_id s) [];
         _ \<leftarrow> modify (\<lambda>s. s\<lparr>channel_state := CsIdle\<rparr>);
         _ \<leftarrow> whenM sent (emit E ChannelSwitchCommitted (peer_mac s) (channel_corr_id s)
                ''slave channel committed'');
         ret (Some sent) } }
     else if channel_state s = MasterWaitCommit \<and> now_ms \<ge> channel_effective_at_ms s then do {
       ok \<leftarrow> ask E (SetChannel (pending_channel s));
       if \<not> ok then do {
         _ \<leftarrow> emit E ChannelSwitchFailed (peer_mac s) (channel_corr_id s) ''master channel apply failed'';
         _ \<leftarrow> modify (\<lambda>s. s\<lparr>channel_state := CsIdle\<rparr>);
         ret (Some False) }
       else ret None }
     else ret None }"

definition tick_unpair :: "env \<Rightarrow> u32 \<Rightarrow> unit eng" where
  "tick_unpair E now_ms = do {
     s \<leftarrow> gets id;
     whenM (unpair_pending s \<and> unpair_deadline_ms s \<noteq> 0)
       (if unpair_last_tick_ms s = 0 then modify (\<lambda>s. s\<lparr>unpair_last_tick_ms := now_ms\<rparr>)
        else do {
          let elapsed = now_ms - unpair_last_tick_ms s;
          _ \<leftarrow> modify (\<lambda>s. s\<lparr>unpair_last_tick_ms := now_ms\<rparr>);
          if elapsed \<ge> unpair_deadline_ms s then do {
            _ \<leftarrow> modify (\<lambda>s. s\<lparr>unpair_pending := False, unpair_deadline_ms := 0,
                   unpair_last_tick_ms := 0\<rparr>);
            _ \<leftarrow> emit E PairingStep (peer_mac s) (unpair_corr_id s) ''unpair timeout; still paired'';
            emitPairingLog E LogWarn kLogEvtUnpairTimeout (peer_mac s) (unpair_corr_id s) 0 0 }
          else modify (\<lambda>s. s\<lparr>unpair_deadline_ms := unpair_deadline_ms s - elapsed\<rparr>) }) }"

definition tick_deferred :: "env \<Rightarrow> u32 \<Rightarrow> unit eng" where
  "tick_deferred E now_ms = do {
     s \<leftarrow> gets id;
     whenM (deferred_unpair_cleanup s \<and> deferred_unpair_deadline_ms s \<noteq> 0)
       (if deferred_unpair_last_tick_ms s = 0
        then modify (\<lambda>s. s\<lparr>deferred_unpair_last_tick_ms := now_ms\<rparr>)
        else do {
          let elapsed = now_ms - deferred_unpair_last_tick_ms s;
          _ \<leftarrow> modify (\<lambda>s. s\<lparr>deferred_unpair_last_tick_ms := now_ms\<rparr>);
          if elapsed \<ge> deferred_unpair_deadline_ms s then do {
            _ \<leftarrow> erase_link E (deferred_unpair_peer s);
            _ \<leftarrow> evictPeer E (deferred_unpair_peer s);
            _ \<leftarrow> setPaired False;
            _ \<leftarrow> resetPairing;
            _ \<leftarrow> modify (\<lambda>s. s\<lparr>discovery_last_sent_ms := 0\<rparr>);
            t \<leftarrow> gets id;
            _ \<leftarrow> emit E PairingStep (deferred_unpair_peer t) (deferred_unpair_corr_id t)
                  ''unpaired by request'';
            modify (\<lambda>s. s\<lparr>deferred_unpair_cleanup := False, deferred_unpair_deadline_ms := 0,
              deferred_unpair_last_tick_ms := 0, deferred_unpair_corr_id := 0\<rparr>) }
          else modify (\<lambda>s. s\<lparr>deferred_unpair_deadline_ms := deferred_unpair_deadline_ms s - elapsed\<rparr>) }) }"

definition tick :: "env \<Rightarrow> u32 \<Rightarrow> bool eng" where
  "tick E now_ms = do {
     _ \<leftarrow> modify (\<lambda>s. s\<lparr>current_now_ms := now_ms\<rparr>);
     _ \<leftarrow> tick_discovery E now_ms;
     go \<leftarrow> tick_pairing E now_ms;
     if \<not> go then ret False
     else do {
       r \<leftarrow> tick_channel E now_ms;
       case r of
         Some b \<Rightarrow> ret b
       | None \<Rightarrow> do {
           _ \<leftarrow> tick_unpair E now_ms;
           _ \<leftarrow> tick_deferred E now_ms;
           ret True } } }"

section \<open>Weakest preconditions of the building blocks\<close>

named_theorems wp_intro \<open>introduction rules of the calculus, one per construct and call\<close>

lemma wp_bindI [wp_intro]: "wp m (\<lambda>a. wp (f a) Q) s \<Longrightarrow> wp (State_Monad.bind m f) Q s"
  by (simp add: wp_bind)

lemma wp_getsI [wp_intro]: "Q (f s) s \<Longrightarrow> wp (gets f) Q s"
  by (simp add: wp_gets)

lemma wp_modifyI [wp_intro]: "Q () (f s) \<Longrightarrow> wp (modify f) Q s"
  by (simp add: wp_modify)

lemma wp_retI [wp_intro]: "Q x s \<Longrightarrow> wp (ret x) Q s"
  by (simp add: wp_ret)

lemma wp_ifI [wp_intro]:
  "(b \<Longrightarrow> wp m Q s) \<Longrightarrow> (\<not> b \<Longrightarrow> wp n Q s) \<Longrightarrow> wp (if b then m else n) Q s"
  by simp

lemma wp_whenI [wp_intro]: "(b \<Longrightarrow> wp m Q s) \<Longrightarrow> (\<not> b \<Longrightarrow> Q () s) \<Longrightarrow> wp (whenM b m) Q s"
  by (simp add: wp_when)

lemma wp_optionI [wp_intro]:
  "(x = None \<Longrightarrow> wp n Q s) \<Longrightarrow> (\<And>y. x = Some y \<Longrightarrow> wp (f y) Q s) \<Longrightarrow>
   wp (case x of None \<Rightarrow> n | Some y \<Rightarrow> f y) Q s"
  by (cases x) auto

lemma wp_LetI [wp_intro]: "wp (f v) Q s \<Longrightarrow> wp (Let v f) Q s"
  by simp

lemma wp_prodI [wp_intro]: "(\<And>a b. x = (a, b) \<Longrightarrow> wp (f a b) Q s) \<Longrightarrow> wp (case x of (a, b) \<Rightarrow> f a b) Q s"
  by (cases x) auto

text \<open>
  The trace grows by an update function, so that a state after many calls does not mention
  the states before them over and over.
\<close>

lemma trace_update_id [simp]: "trace_update (\<lambda>tr. tr) s = s"
  by (cases s) simp

lemma append_comp [simp]: "(\<lambda>tr. tr @ b) \<circ> (\<lambda>tr. tr @ a) = (\<lambda>tr. tr @ a @ b)"
  by (simp add: fun_eq_iff)

lemma wp_note [wp_intro]: "Q () (trace_update (\<lambda>tr. tr @ [a]) s) \<Longrightarrow> wp (note_action a) Q s"
  by (cases s) (simp add: note_action_def wp_modify)

lemma wp_ask [wp_intro]:
  "Q (answer E (trace s) a) (trace_update (\<lambda>tr. tr @ [a]) s) \<Longrightarrow> wp (ask E a) Q s"
  unfolding ask_def by (intro wp_intro)

lemma wp_getChannel [wp_intro]:
  "Q (channel_of E (trace s)) (trace_update (\<lambda>tr. tr @ [GetChannel]) s) \<Longrightarrow> wp (getChannel E) Q s"
  unfolding getChannel_def by (intro wp_intro)

lemma wp_nowEpoch [wp_intro]:
  "Q (epoch_of E (trace s)) (trace_update (\<lambda>tr. tr @ [NowEpochSec]) s) \<Longrightarrow> wp (nowEpochSec E) Q s"
  unfolding nowEpochSec_def by (intro wp_intro)

lemma wp_random [wp_intro]:
  "Q (random32 E (trace s)) (trace_update (\<lambda>tr. tr @ [EspRandom]) s) \<Longrightarrow> wp (esp_random E) Q s"
  unfolding esp_random_def by (intro wp_intro)

lemma wp_fill [wp_intro]:
  "Q (random_bytes E (trace s) n) (trace_update (\<lambda>tr. tr @ [EspFillRandom]) s) \<Longrightarrow> wp (esp_fill_random E n) Q s"
  unfolding esp_fill_random_def by (intro wp_intro)

text \<open>
  Reporting and sending: they add quiet actions to the trace and, when a frame carries the
  time, note when it did; nothing else changes.
\<close>

lemma wp_emit [wp_intro]:
  assumes "\<And>ys. list_all quiet ys \<Longrightarrow> Q () (trace_update (\<lambda>tr. tr @ ys) s)"
  shows "wp (emit E t p c m) Q s"
proof -
  have nil: "Q () s" using assms [of "[]"] by simp
  show ?thesis
    unfolding emit_def blink_of_def
    by (intro wp_intro)
       (auto intro!: assms nil simp: quiet_def wp_ret wp_note split: if_splits)
qed

lemma wp_log [wp_intro]:
  assumes "\<And>ys. list_all quiet ys \<Longrightarrow> Q () (trace_update (\<lambda>tr. tr @ ys) s)"
  shows "wp (emitPairingLog E l ev p c p1 p2) Q s"
proof -
  have nil: "Q () s" using assms [of "[]"] by simp
  show ?thesis
    unfolding emitPairingLog_def
    by (intro wp_intro) (auto intro!: assms nil simp: quiet_def)
qed

lemma wp_shouldAttach [wp_intro]:
  "(\<And>b. Q b s) \<Longrightarrow> wp (shouldAttachTimeSync E now) Q s"
  unfolding shouldAttachTimeSync_def by (intro wp_intro) auto

lemma wp_send [wp_intro]:
  assumes "\<And>ok ys b l. list_all quiet ys \<Longrightarrow>
    Q ok ((trace_update (\<lambda>tr. tr @ ys) s)\<lparr>has_time_sync_tx := b, last_time_sync_tx_ms := l\<rparr>)"
  shows "wp (sendControl E to ty c p) Q s"
proof -
  have plain: "list_all quiet ys \<Longrightarrow> Q ok (trace_update (\<lambda>tr. tr @ ys) s)" for ok ys
    using assms [of ys ok "last_time_sync_tx_ms s" "has_time_sync_tx s"] by simp
  have nil: "Q ok s" for ok
    using plain [of "[]"] by simp
  have "trace_update (\<lambda>tr. tr @ ys) (s\<lparr>has_time_sync_tx := b, last_time_sync_tx_ms := l\<rparr>) =
      (trace_update (\<lambda>tr. tr @ ys) s)\<lparr>has_time_sync_tx := b, last_time_sync_tx_ms := l\<rparr>" for ys b l
    by simp
  then have stamped: "list_all quiet ys \<Longrightarrow>
    Q ok (trace_update (\<lambda>tr. tr @ ys) (s\<lparr>has_time_sync_tx := b, last_time_sync_tx_ms := l\<rparr>))" for ok ys b l
    using assms [of ys ok l b] by (simp only:)
  show ?thesis
    unfolding sendControl_def wrap_payload_def
    by (intro wp_intro) (auto intro!: assms stamped plain nil simp: quiet_def)
qed

definition evict_of :: "action \<Rightarrow> mac option" where
  "evict_of a = (case a of DelPeer m \<Rightarrow> Some m | RequestEvict m \<Rightarrow> Some m | _ \<Rightarrow> None)"

lemma wp_attach [wp_intro]:
  "(\<And>ok a. attach_of a = Some (m, e, k) \<Longrightarrow> Q ok (trace_update (\<lambda>tr. tr @ [a]) s)) \<Longrightarrow>
   wp (attachPeer E m e k) Q s"
  unfolding attachPeer_def by (intro wp_intro) (auto simp: attach_of_def)

lemma wp_evict [wp_intro]:
  "(\<And>ok a. evict_of a = Some m \<Longrightarrow> Q ok (trace_update (\<lambda>tr. tr @ [a]) s)) \<Longrightarrow>
   wp (evictPeer E m) Q s"
  unfolding evictPeer_def by (intro wp_intro) (auto simp: evict_of_def)

definition reset_engine :: "engine \<Rightarrow> engine" where
  "reset_engine s = s\<lparr>lstate := LsUnpaired, pair_phase := PhIdle, pair_corr_id := 0,
     pair_deadline_ms := 0, pair_total_deadline_ms := 0, pair_last_tick_ms := 0,
     pairing_nonce := 0, has_time_sync_tx := False, last_time_sync_tx_ms := 0,
     unpair_pending := False, unpair_corr_id := 0, unpair_deadline_ms := 0,
     unpair_last_tick_ms := 0, deferred_unpair_cleanup := False,
     deferred_unpair_peer := zeroMac, deferred_unpair_corr_id := 0,
     deferred_unpair_deadline_ms := 0, deferred_unpair_last_tick_ms := 0\<rparr>"

lemma wp_reset [wp_intro]: "Q () (reset_engine s) \<Longrightarrow> wp resetPairing Q s"
  by (simp add: resetPairing_def reset_engine_def wp_modify)

lemma wp_setPaired [wp_intro]: "Q () (s\<lparr>lstate := LsUnpaired\<rparr>) \<Longrightarrow> wp (setPaired False) Q s"
  by (simp add: setPaired_def wp_modify)

text \<open>Actions of a failure or a teardown: they report, evict and erase.\<close>

definition teardown :: "action \<Rightarrow> bool" where
  "teardown a \<longleftrightarrow> quiet a \<or> evict_of a \<noteq> None
     \<or> (\<exists>m p. a = ErasePair m p \<or> a = EraseChannel m p)"

lemma teardown_quiet [simp]: "list_all quiet ys \<Longrightarrow> list_all teardown ys"
  by (auto simp: list_all_iff teardown_def)

lemma wp_fail [wp_intro]:
  assumes "\<And>ys. list_all teardown ys \<Longrightarrow>
    Q False (reset_engine (trace_update (\<lambda>tr. tr @ ys) s)\<lparr>discovery_last_sent_ms := 0\<rparr>)"
  shows "wp (fail_with E p c m) Q s"
proof -
  have "reset_engine (trace_update (\<lambda>tr. tr @ ys) s)\<lparr>discovery_last_sent_ms := 0\<rparr> =
      reset_engine (trace_update (\<lambda>tr. tr @ ys) s)\<lparr>discovery_last_sent_ms := 0\<rparr>" for ys
    by (simp add: reset_engine_def)
  then have ok: "list_all teardown ys \<Longrightarrow>
    Q False (reset_engine (trace_update (\<lambda>tr. tr @ ys) s)\<lparr>discovery_last_sent_ms := 0\<rparr>)" for ys
    using assms [of ys] by (simp only:)
  show ?thesis
    unfolding fail_with_def failPairing_def
    by (intro wp_intro) (auto intro!: ok simp: teardown_def)
qed

lemma wp_erase [wp_intro]:
  assumes "\<And>ys. list_all teardown ys \<Longrightarrow> Q () (trace_update (\<lambda>tr. tr @ ys) s)"
  shows "wp (erase_link E p) Q s"
proof -
  have nil: "Q () s" using assms [of "[]"] by simp
  show ?thesis
    unfolding erase_link_def by (intro wp_intro) (auto intro!: assms nil simp: teardown_def)
qed

end
