(* ===== verification/PairingInvariant.thy ===== *)
theory PairingInvariant
  imports PairingEngine Interfaces
begin

text \<open>
  The pairing engine as a machine: its inputs (ticks, received messages, requests of the
  application), one step per input with any environment, an invariant of every step, and what
  a step may do to the outside: which keys it installs, which records it persists, which
  channels it selects, and how a link becomes secured.
\<close>

section \<open>Inputs and steps\<close>

datatype input =
    InTick u32
  | InDiscovery mac u32
  | InPairInit mac u32 bytes u32
  | InPairInitAck mac u32 u32
  | InPairConfirm mac u32 u32
  | InPairConfirmAck mac u32 bool
  | InPairBusy mac u32
  | InUnpairRequest mac u32
  | InUnpairAck mac u32
  | InSwitchPrepare mac u32 ChannelSwitchPayload
  | InSwitchAck mac u32
  | InSwitchCommitAck mac u32
  | DoPair mac u32
  | DoUnpair mac u32
  | DoRemove mac bool
  | DoSwitch mac u8 u32 u32
  | DoRestore PairRecord

fun handle :: "env \<Rightarrow> input \<Rightarrow> bool eng" where
  "handle E (InTick now) = tick E now"
| "handle E (InDiscovery m c) = onDiscovery E m c"
| "handle E (InPairInit m c seed n) = onPairInit E m c seed n"
| "handle E (InPairInitAck m c n) = onPairInitAck E m c n"
| "handle E (InPairConfirm m c n) = onPairConfirm E m c n"
| "handle E (InPairConfirmAck m c p) = onPairConfirmAck E m c p"
| "handle E (InPairBusy m c) = onPairBusy E m c"
| "handle E (InUnpairRequest m c) = onUnpairRequest E m c"
| "handle E (InUnpairAck m c) = onUnpairAck E m c"
| "handle E (InSwitchPrepare m c p) = onChannelSwitchPrepare E m c p"
| "handle E (InSwitchAck m c) = onChannelSwitchAck E m c"
| "handle E (InSwitchCommitAck m c) = onChannelSwitchCommitAck E m c"
| "handle E (DoPair m c) = requestPair E m c"
| "handle E (DoUnpair m c) = requestUnpair E m c"
| "handle E (DoRemove m e) = removePeer E m e"
| "handle E (DoSwitch m ch now c) = requestChannelSwitch E m ch now c"
| "handle E (DoRestore r) = restorePairedLink E r"

definition after :: "env \<Rightarrow> input \<Rightarrow> engine \<Rightarrow> engine" where
  "after E i s = snd (run_state (handle E i) s)"

text \<open>The actions a step adds to the trace.\<close>

definition actions :: "env \<Rightarrow> input \<Rightarrow> engine \<Rightarrow> action list" where
  "actions E i s = drop (length (trace s)) (trace (after E i s))"

section \<open>Invariant\<close>

fun phase_limit :: "PairPhase \<Rightarrow> u32" where
  "phase_limit PhIdle = 0"
| "phase_limit MasterWaitInitAck = kPairInitAckTimeoutMs"
| "phase_limit MasterSecureGuard = kSecureGuardDelayMs"
| "phase_limit MasterWaitConfirmAck = kPairConfirmAckTimeoutMs"
| "phase_limit SlaveWaitConfirm = kSlavePairHoldTimeoutMs"

definition pairing_inv :: "role \<Rightarrow> engine \<Rightarrow> bool" where
  "pairing_inv rl s \<longleftrightarrow>
     (lstate s = LsPairing \<longleftrightarrow> pair_phase s \<noteq> PhIdle)
     \<and> (pair_phase s \<noteq> PhIdle \<longrightarrow> (rl = Slave \<longleftrightarrow> pair_phase s = SlaveWaitConfirm))
     \<and> (lstate s = LsPairing \<longrightarrow>
          0 < pair_deadline_ms s \<and> pair_deadline_ms s \<le> phase_limit (pair_phase s)
          \<and> 0 < pair_total_deadline_ms s \<and> pair_total_deadline_ms s \<le> kPairTotalTimeoutMs)
     \<and> (unpair_pending s \<longrightarrow> rl = Master \<and> lstate s = LsSecured)
     \<and> (channel_state s \<noteq> CsIdle \<longrightarrow>
          channel_ok (pending_channel s) \<and> (rl = Slave \<longleftrightarrow> channel_state s = SlavePrepared))"

section \<open>What a step may do\<close>

text \<open>The conditions under which a peer is installed with a key, and the key.\<close>

definition secure_attach_ok :: "env \<Rightarrow> engine \<Rightarrow> input \<Rightarrow> mac \<Rightarrow> bytes option \<Rightarrow> bool" where
  "secure_attach_ok E s i m k \<longleftrightarrow>
     (case i of
        InPairInit from c seed n \<Rightarrow>
          local_role (cfg E) = Slave \<and> lstate s \<noteq> LsSecured \<and> m = from \<and> k \<noteq> None
          \<and> k = deriveLmkFromSeed (hmac_sha256 E) (pmk E) seed from (local_mac s) n
      | InPairInitAck from c n \<Rightarrow>
          local_role (cfg E) = Master \<and> pair_phase s = MasterWaitInitAck \<and> c = pair_corr_id s
          \<and> n = pairing_nonce s \<and> m = from \<and> k \<noteq> None
          \<and> k = deriveLmkFromSeed (hmac_sha256 E) (pmk E) (current_seed s) (local_mac s) from n
      | InPairConfirm from c n \<Rightarrow>
          local_role (cfg E) = Slave \<and> pair_phase s = SlaveWaitConfirm \<and> c = pair_corr_id s
          \<and> n = pairing_nonce s \<and> m = from \<and> k \<noteq> None
          \<and> k = deriveLmkFromSeed (hmac_sha256 E) (pmk E) (current_seed s) from (local_mac s) n
      | DoRestore r \<Rightarrow>
          rec_valid r \<and> rec_local_role r = local_role (cfg E) \<and> rec_local_mac r = local_mac s
          \<and> m = rec_peer_mac r \<and> k = Some (rec_lmk r)
      | _ \<Rightarrow> False)"

text \<open>The record that is persisted: this node, the peer it paired with, its key.\<close>

definition save_pair_ok :: "env \<Rightarrow> engine \<Rightarrow> input \<Rightarrow> PairRecord \<Rightarrow> bool" where
  "save_pair_ok E s i r \<longleftrightarrow>
     rec_valid r \<and> rec_local_role r = local_role (cfg E) \<and> rec_local_mac r = local_mac s
     \<and> rec_peer_mac r = peer_mac s
     \<and> (case i of
          InPairConfirm from c n \<Rightarrow>
            Some (rec_lmk r) = deriveLmkFromSeed (hmac_sha256 E) (pmk E) (current_seed s) from (local_mac s) n
        | InPairConfirmAck from c p \<Rightarrow> p \<and> rec_lmk r = current_lmk s
        | _ \<Rightarrow> False)"

definition action_ok :: "env \<Rightarrow> engine \<Rightarrow> input \<Rightarrow> action \<Rightarrow> bool" where
  "action_ok E s i a \<longleftrightarrow>
     (case attach_of a of
        Some (m, encrypted, k) \<Rightarrow> if encrypted then secure_attach_ok E s i m k else k = None
      | None \<Rightarrow>
          (case a of
             SavePair r \<Rightarrow> save_pair_ok E s i r
           | SetChannel c \<Rightarrow> channel_ok c \<or> (\<exists>r. i = DoRestore r \<and> c = rec_channel r)
           | _ \<Rightarrow> True))"

text \<open>A link that becomes secured in a step: by which input, and what was stored.\<close>

definition secured_ok :: "env \<Rightarrow> engine \<Rightarrow> input \<Rightarrow> action list \<Rightarrow> bool" where
  "secured_ok E s i acts \<longleftrightarrow>
     (case i of
        InPairConfirm from c n \<Rightarrow>
          local_role (cfg E) = Slave \<and> pair_phase s = SlaveWaitConfirm \<and> c = pair_corr_id s
          \<and> n = pairing_nonce s \<and> (\<exists>r. SavePair r \<in> set acts)
      | InPairConfirmAck from c p \<Rightarrow>
          local_role (cfg E) = Master \<and> pair_phase s = MasterWaitConfirmAck \<and> c = pair_corr_id s
          \<and> p \<and> (\<exists>r. SavePair r \<in> set acts)
      | DoRestore r \<Rightarrow>
          rec_valid r \<and> rec_local_role r = local_role (cfg E) \<and> rec_local_mac r = local_mac s
      | _ \<Rightarrow> False)"

definition step_post :: "env \<Rightarrow> input \<Rightarrow> engine \<Rightarrow> bool \<Rightarrow> engine \<Rightarrow> bool" where
  "step_post E i s r t \<longleftrightarrow>
     pairing_inv (local_role (cfg E)) t
     \<and> list_all (action_ok E s i) (drop (length (trace s)) (trace t))
     \<and> (lstate s \<noteq> LsSecured \<longrightarrow> lstate t = LsSecured \<longrightarrow>
          secured_ok E s i (drop (length (trace s)) (trace t)))"

lemma action_ok_teardown: "teardown a \<Longrightarrow> action_ok E s i a"
  by (cases a) (auto simp: teardown_def quiet_def evict_of_def action_ok_def attach_of_def)

lemma list_action_ok_teardown [simp]: "list_all teardown ys \<Longrightarrow> list_all (action_ok E s i) ys"
  by (auto simp: list_all_iff action_ok_teardown)

lemma list_action_ok_quiet [simp]: "list_all quiet ys \<Longrightarrow> list_all (action_ok E s i) ys"
  by (rule list_action_ok_teardown) simp

lemma action_ok_evict [simp]: "evict_of a = Some m \<Longrightarrow> action_ok E s i a"
  by (rule action_ok_teardown) (simp add: teardown_def)

lemma action_ok_attach [simp]:
  "attach_of a = Some (m, e, k) \<Longrightarrow>
   action_ok E s i a \<longleftrightarrow> (if e then secure_attach_ok E s i m k else k = None)"
  by (simp add: action_ok_def)

lemma action_ok_simps [simp]:
  "action_ok E s i StoreEnabled" "action_ok E s i GetChannel" "action_ok E s i EspRandom"
  "action_ok E s i EspFillRandom" "action_ok E s i (SaveChannel m p c)"
  "action_ok E s i (OnChannelCommitted c)" "action_ok E s i (AllowChannelSwitch c c')"
  "action_ok E s i (SavePair r) = save_pair_ok E s i r"
  "action_ok E s i (SetChannel c) \<longleftrightarrow> channel_ok c \<or> (\<exists>r. i = DoRestore r \<and> c = rec_channel r)"
  by (simp_all add: action_ok_def attach_of_def)

lemma reset_engine_simps [simp]:
  "lstate (reset_engine s) = LsUnpaired" "pair_phase (reset_engine s) = PhIdle"
  "unpair_pending (reset_engine s) = False" "channel_state (reset_engine s) = channel_state s"
  "pending_channel (reset_engine s) = pending_channel s" "trace (reset_engine s) = trace s"
  "peer_mac (reset_engine s) = peer_mac s" "local_mac (reset_engine s) = local_mac s"
  "deferred_unpair_peer (reset_engine s) = zeroMac" "deferred_unpair_corr_id (reset_engine s) = 0"
  by (simp_all add: reset_engine_def)

lemma requestPair_post:
  assumes "pairing_inv (local_role (cfg E)) s" and "i = DoPair m c \<or> i = InDiscovery m c"
  shows "wp (requestPair E m c) (step_post E i s) s"
  unfolding requestPair_def makePairSeed_def
  by (intro wp_intro)
     (use assms in \<open>auto simp: step_post_def pairing_inv_def pair_timeouts channel_ok_def\<close>)

lemmas post_defs = step_post_def pairing_inv_def pair_timeouts channel_ok_def secured_ok_def
  secure_attach_ok_def save_pair_ok_def

lemma onDiscovery_post:
  assumes "pairing_inv (local_role (cfg E)) s"
  shows "wp (onDiscovery E m c) (step_post E (InDiscovery m c) s) s"
  unfolding onDiscovery_def
  by (intro wp_intro requestPair_post) (use assms in \<open>auto simp: post_defs\<close>)

lemma onPairInit_post:
  assumes "pairing_inv (local_role (cfg E)) s"
  shows "wp (onPairInit E m c seed n) (step_post E (InPairInit m c seed n) s) s"
  unfolding onPairInit_def
  by (intro wp_intro) (use assms in \<open>auto simp: post_defs\<close>)

lemma onPairInitAck_post:
  assumes "pairing_inv (local_role (cfg E)) s"
  shows "wp (onPairInitAck E m c n) (step_post E (InPairInitAck m c n) s) s"
  unfolding onPairInitAck_def
  by (intro wp_intro) (use assms in \<open>auto simp: post_defs\<close>)

definition persist_action :: "env \<Rightarrow> mac \<Rightarrow> mac \<Rightarrow> bytes \<Rightarrow> action \<Rightarrow> bool" where
  "persist_action E me peer lmk a \<longleftrightarrow> a = StoreEnabled \<or> a = GetChannel
     \<or> (\<exists>ch. a = SavePair \<lparr>rec_valid = True, rec_local_role = local_role (cfg E),
            rec_local_mac = me, rec_peer_mac = peer, rec_lmk = lmk, rec_channel = ch\<rparr>
        \<or> a = SaveChannel me peer ch)"

lemma wp_persist:
  assumes "\<And>saved ys. list_all (persist_action E (local_mac s) (peer_mac s) (current_lmk s)) ys \<Longrightarrow>
      (saved \<Longrightarrow> \<exists>r. SavePair r \<in> set ys) \<Longrightarrow> Q saved (trace_update (\<lambda>tr. tr @ ys) s)"
  shows "wp (persistPair E) Q s"
proof -
  have nil: "Q False s" using assms [of "[]" False] by simp
  show ?thesis
    unfolding persistPair_def
    by (intro wp_intro) (auto intro!: nil assms simp: persist_action_def)
qed

lemma persist_action_ok:
  assumes "list_all (persist_action E me peer lmk) ys"
    and "\<And>ch. save_pair_ok E s i \<lparr>rec_valid = True, rec_local_role = local_role (cfg E),
            rec_local_mac = me, rec_peer_mac = peer, rec_lmk = lmk, rec_channel = ch\<rparr>"
  shows "list_all (action_ok E s i) ys"
  using assms by (auto simp: list_all_iff persist_action_def)

lemma onPairConfirm_post:
  assumes "pairing_inv (local_role (cfg E)) s"
  shows "wp (onPairConfirm E m c n) (step_post E (InPairConfirm m c n) s) s"
  unfolding onPairConfirm_def
  by (intro wp_intro wp_persist)
     (use assms in \<open>auto simp: post_defs elim!: persist_action_ok\<close>)

lemma onPairConfirmAck_post:
  assumes "pairing_inv (local_role (cfg E)) s"
  shows "wp (onPairConfirmAck E m c p) (step_post E (InPairConfirmAck m c p) s) s"
  unfolding onPairConfirmAck_def
  by (intro wp_intro wp_persist)
     (use assms in \<open>auto simp: post_defs elim!: persist_action_ok\<close>)

lemma onPairBusy_post:
  assumes "pairing_inv (local_role (cfg E)) s"
  shows "wp (onPairBusy E m c) (step_post E (InPairBusy m c) s) s"
  unfolding onPairBusy_def
  by (intro wp_intro) (use assms in \<open>auto simp: post_defs\<close>)

lemma restorePairedLink_post:
  assumes "pairing_inv (local_role (cfg E)) s"
  shows "wp (restorePairedLink E r) (step_post E (DoRestore r) s) s"
  unfolding restorePairedLink_def
  by (intro wp_intro) (use assms in \<open>auto simp: post_defs\<close>)

lemma requestUnpair_post:
  assumes "pairing_inv (local_role (cfg E)) s"
  shows "wp (requestUnpair E m c) (step_post E (DoUnpair m c) s) s"
  unfolding requestUnpair_def
  by (intro wp_intro) (use assms in \<open>auto simp: post_defs\<close>)

lemma onUnpairRequest_post:
  assumes "pairing_inv (local_role (cfg E)) s"
  shows "wp (onUnpairRequest E m c) (step_post E (InUnpairRequest m c) s) s"
  unfolding onUnpairRequest_def
  by (intro wp_intro) (use assms in \<open>auto simp: post_defs\<close>)

lemma onUnpairAck_post:
  assumes "pairing_inv (local_role (cfg E)) s"
  shows "wp (onUnpairAck E m c) (step_post E (InUnpairAck m c) s) s"
  unfolding onUnpairAck_def
  by (intro wp_intro) (use assms in \<open>auto simp: post_defs\<close>)

lemma removePeer_post:
  assumes "pairing_inv (local_role (cfg E)) s"
  shows "wp (removePeer E m e) (step_post E (DoRemove m e) s) s"
  unfolding removePeer_def
  by (intro wp_intro) (use assms in \<open>auto simp: post_defs\<close>)

lemma requestChannelSwitch_post:
  assumes "pairing_inv (local_role (cfg E)) s"
  shows "wp (requestChannelSwitch E m ch now c) (step_post E (DoSwitch m ch now c) s) s"
  unfolding requestChannelSwitch_def switch_allowed_def
  by (intro wp_intro) (use assms in \<open>auto simp: post_defs\<close>)

lemma onChannelSwitchPrepare_post:
  assumes "pairing_inv (local_role (cfg E)) s"
  shows "wp (onChannelSwitchPrepare E m c p) (step_post E (InSwitchPrepare m c p) s) s"
  unfolding onChannelSwitchPrepare_def switch_allowed_def
  by (intro wp_intro) (use assms in \<open>auto simp: post_defs\<close>)

lemma onChannelSwitchAck_post:
  assumes "pairing_inv (local_role (cfg E)) s"
  shows "wp (onChannelSwitchAck E m c) (step_post E (InSwitchAck m c) s) s"
  unfolding onChannelSwitchAck_def
  by (intro wp_intro) (use assms in \<open>auto simp: post_defs\<close>)

lemma onChannelSwitchCommitAck_post:
  assumes "pairing_inv (local_role (cfg E)) s"
  shows "wp (onChannelSwitchCommitAck E m c) (step_post E (InSwitchCommitAck m c) s) s"
  unfolding onChannelSwitchCommitAck_def save_channel_def channel_committed_hook_def
  by (intro wp_intro) (use assms in \<open>auto simp: post_defs\<close>)

section \<open>The tick\<close>

definition tick_ok :: "env \<Rightarrow> u32 \<Rightarrow> engine \<Rightarrow> engine \<Rightarrow> bool" where
  "tick_ok E now s t \<longleftrightarrow>
     pairing_inv (local_role (cfg E)) t
     \<and> (\<exists>ys. trace t = trace s @ ys \<and> list_all (action_ok E s (InTick now)) ys)
     \<and> (lstate t = LsSecured \<longrightarrow> lstate s = LsSecured)"

lemma tick_ok_post: "tick_ok E now s t \<Longrightarrow> step_post E (InTick now) s r t"
  by (auto simp: tick_ok_def step_post_def)

lemma countdown:
  assumes "\<not> d \<le> e" and "d \<le> l"
  shows "0 < d - e" and "d - e \<le> (l :: u32)"
proof -
  have u: "unat (d - e) = unat d - unat e" "unat e < unat d"
    using assms(1) by (auto simp: unat_sub word_le_nat_alt)
  then show "0 < d - e" by (simp add: word_less_nat_alt)
  show "d - e \<le> l" using u assms(2) by (simp add: word_le_nat_alt)
qed

lemmas tick_defs = tick_ok_def pairing_inv_def channel_ok_def

lemma tick_discovery_ok: "tick_ok E now s t \<Longrightarrow> wp (tick_discovery E now) (\<lambda>_. tick_ok E now s) t"
  unfolding tick_discovery_def by (intro wp_intro) (auto simp: tick_defs)

lemma fail_current_ok:
  "tick_ok E now s t \<Longrightarrow> wp (fail_current E m) (\<lambda>_. tick_ok E now s) t"
  unfolding fail_current_def by (intro wp_intro) (auto simp: tick_defs)

text \<open>In the middle of a tick the total deadline has been counted down, the other not yet.\<close>

lemma guard_elapsed_ok:
  "tick_ok E now s t \<Longrightarrow> pair_phase t = MasterSecureGuard \<Longrightarrow>
   wp (guard_elapsed E) (\<lambda>_. tick_ok E now s) t"
  unfolding guard_elapsed_def
  by (intro wp_intro fail_current_ok) (auto simp: tick_defs pair_timeouts)

lemma tick_deadline_ok:
  "tick_ok E now s t \<Longrightarrow> wp (tick_deadline E elapsed) (\<lambda>_. tick_ok E now s) t"
  unfolding tick_deadline_def
  by (intro wp_intro fail_current_ok guard_elapsed_ok)
     (auto simp: tick_defs countdown)

lemma tick_pairing_ok:
  "tick_ok E now s t \<Longrightarrow> wp (tick_pairing E now) (\<lambda>_. tick_ok E now s) t"
  unfolding tick_pairing_def
  by (intro wp_intro fail_current_ok tick_deadline_ok)
     (auto simp: tick_defs countdown)

lemma tick_channel_ok:
  "tick_ok E now s t \<Longrightarrow> wp (tick_channel E now) (\<lambda>_. tick_ok E now s) t"
  unfolding tick_channel_def save_channel_def channel_committed_hook_def
  by (intro wp_intro) (auto simp: tick_defs)

lemma tick_unpair_ok:
  "tick_ok E now s t \<Longrightarrow> wp (tick_unpair E now) (\<lambda>_. tick_ok E now s) t"
  unfolding tick_unpair_def by (intro wp_intro) (auto simp: tick_defs)

lemma tick_deferred_ok:
  "tick_ok E now s t \<Longrightarrow> wp (tick_deferred E now) (\<lambda>_. tick_ok E now s) t"
  unfolding tick_deferred_def by (intro wp_intro) (auto simp: tick_defs)

lemma tick_post:
  assumes "pairing_inv (local_role (cfg E)) s"
  shows "wp (tick E now) (step_post E (InTick now) s) s"
proof -
  have start: "tick_ok E now s (s\<lparr>current_now_ms := now\<rparr>)"
    using assms by (simp add: tick_defs)
  have "wp (tick E now) (\<lambda>_. tick_ok E now s) s"
    unfolding tick_def
    by (intro wp_intro wp_mono [OF tick_discovery_ok [where s = s]] wp_mono [OF tick_pairing_ok [where s = s]]
        wp_mono [OF tick_channel_ok [where s = s]] wp_mono [OF tick_unpair_ok [where s = s]] wp_mono [OF tick_deferred_ok [where s = s]])
       (simp add: start)
  then show ?thesis by (rule wp_mono) (rule tick_ok_post)
qed

section \<open>Every step\<close>

lemma handle_post:
  assumes "pairing_inv (local_role (cfg E)) s"
  shows "wp (handle E i) (step_post E i s) s"
  using assms
  by (cases i)
     (auto intro: tick_post onDiscovery_post onPairInit_post onPairInitAck_post onPairConfirm_post
       onPairConfirmAck_post onPairBusy_post onUnpairRequest_post onUnpairAck_post
       onChannelSwitchPrepare_post onChannelSwitchAck_post onChannelSwitchCommitAck_post
       requestPair_post requestUnpair_post removePeer_post requestChannelSwitch_post
       restorePairedLink_post)

lemma step_facts:
  assumes "pairing_inv (local_role (cfg E)) s"
  shows "pairing_inv (local_role (cfg E)) (after E i s)"
    and "a \<in> set (actions E i s) \<Longrightarrow> action_ok E s i a"
    and "lstate s \<noteq> LsSecured \<Longrightarrow> lstate (after E i s) = LsSecured \<Longrightarrow>
         secured_ok E s i (actions E i s)"
proof -
  have "step_post E i s (fst (run_state (handle E i) s)) (after E i s)"
    using handle_post [OF assms, of i] by (simp add: wp_def after_def split: prod.splits)
  then show "pairing_inv (local_role (cfg E)) (after E i s)"
    and "a \<in> set (actions E i s) \<Longrightarrow> action_ok E s i a"
    and "lstate s \<noteq> LsSecured \<Longrightarrow> lstate (after E i s) = LsSecured \<Longrightarrow>
         secured_ok E s i (actions E i s)"
    by (auto simp: step_post_def actions_def list_all_iff)
qed

text \<open>Steps of a node of a fixed role, each with whatever the environment answers.\<close>

inductive engine_step :: "role \<Rightarrow> engine \<Rightarrow> engine \<Rightarrow> bool" where
  engine_step: "local_role (cfg E) = rl \<Longrightarrow> engine_step rl s (after E i s)"

inductive_cases engine_stepE: "engine_step rl s t"

interpretation engine_machine: invariant_machine "engine_step rl" "pairing_inv rl" for rl
  by unfold_locales (auto elim!: engine_stepE intro: step_facts(1))

lemma new_engine_inv [simp]: "pairing_inv rl (new_engine\<lparr>local_mac := m, local_profile_id := p\<rparr>)"
  by (simp add: pairing_inv_def new_engine_def)

end
