(* ===== verification/RxPath.thy ===== *)
theory RxPath
  imports PairingInvariant Payloads Registry
begin

text \<open>
  The receive path of the manager: \<open>onRx\<close> and the time metadata
  (\<open>manager_lifecycle_restore.cpp\<close>), the dispatch into the receive queues
  (\<open>rx_dispatch.cpp\<close>), the budgeted draining of the queues at a tick and the routing of a
  queued control frame (\<open>manager_tick_and_queues.cpp\<close>). The recycled frame buffers of the
  code are not modelled: every field of a recycled frame is overwritten before it is queued.
\<close>

section \<open>Time metadata\<close>

text \<open>
  The manager's own send path attaches the time to an outgoing payload. \<open>source\<close> is the time
  source: \<open>None\<close> the null pointer, \<open>Some e\<close> its answer, if it has one. The state is the pair
  of \<open>has_time_sync_tx_\<close> and \<open>last_time_sync_tx_ms_\<close>. The result: the wrapped payload (empty
  when the time is not attached), the new flags and state.
\<close>

definition mgr_shouldAttachTimeSync ::
  "ManagerConfig \<Rightarrow> u64 option option \<Rightarrow> u32 \<Rightarrow> bool \<times> u32 \<Rightarrow> bool" where
  "mgr_shouldAttachTimeSync c source now_ms = (\<lambda>(has_tx, last_tx_ms).
     if \<not> time_sync_enabled c \<or> local_role c \<noteq> Master \<or> source = None then False
     else if \<not> has_tx then True
     else if time_sync_interval_ms c = 0 then True
     else now_ms - last_tx_ms \<ge> time_sync_interval_ms c)"

definition appendTimeSyncMetadata ::
  "ManagerConfig \<Rightarrow> u64 option option \<Rightarrow> u32 \<Rightarrow> bytes \<Rightarrow> u8 \<Rightarrow> bool \<times> u32 \<Rightarrow> bytes \<times> u8 \<times> bool \<times> u32" where
  "appendTimeSyncMetadata c source now_ms payload flags tx =
     (if \<not> mgr_shouldAttachTimeSync c source now_ms tx then ([], flags, tx)
      else if length payload > kMaxPayload - kTimeSyncMetadataSize then ([], flags, tx)
      else case source of
        None \<Rightarrow> ([], flags, tx)
      | Some None \<Rightarrow> ([], flags, tx)
      | Some (Some epoch_s) \<Rightarrow>
          (epoch_prefix epoch_s @ payload, flags OR kFrameFlagTimeSyncEpoch, True, now_ms))"

definition has_time_flag :: "FrameHeader \<Rightarrow> bool" where
  "has_time_flag h \<longleftrightarrow> fh_flags h AND kFrameFlagTimeSyncEpoch \<noteq> 0"

text \<open>
  The sink that sets the clock is a parameter: \<open>None\<close> is the null pointer, \<open>Some f\<close> answers
  whether the epoch was set. The result: accepted or not, the new last applied epoch, and the
  epoch passed to the sink, if any.
\<close>

definition applyTimeSyncFromFrame ::
  "ManagerConfig \<Rightarrow> (u64 \<Rightarrow> bool) option \<Rightarrow> FrameHeader \<Rightarrow> bytes \<Rightarrow> u64 \<Rightarrow> bool \<times> u64 \<times> u64 option" where
  "applyTimeSyncFromFrame c sink h payload last_s =
     (if \<not> has_time_flag h then (True, last_s, None)
      else if length payload < kTimeSyncMetadataSize then (False, last_s, None)
      else case sink of
        None \<Rightarrow> (True, last_s, None)
      | Some setEpochSec \<Rightarrow>
          if \<not> time_sync_enabled c \<or> \<not> time_sync_apply_on_slave c \<or> local_role c \<noteq> Slave
             \<or> fh_role h \<noteq> role_code Master then (True, last_s, None)
          else
            (let epoch_s = (ucast (readLe32 payload) :: u64);
                 delta = (if epoch_s > last_s then epoch_s - last_s else last_s - epoch_s)
             in if epoch_s < time_sync_min_valid_epoch_s c then (True, last_s, None)
                else if last_s \<noteq> 0 \<and> delta < ucast (time_sync_min_update_delta_s c)
                  then (True, last_s, None)
                else if setEpochSec epoch_s then (True, epoch_s, Some epoch_s)
                else (True, last_s, Some epoch_s)))"

section \<open>Queued frames\<close>

record QueuedControlRx =
  qc_type :: MessageType
  qc_from :: mac
  qc_corr_id :: u32
  qc_payload :: bytes
  qc_queued_ms :: u32
  qc_rssi :: u32

record QueuedPullRequest =
  qp_from :: mac
  qp_corr_id :: u32
  qp_wire_service :: u8
  qp_wire_op :: u8
  qp_payload :: bytes
  qp_queued_ms :: u32

record QueuedPullResponse =
  qr_from :: mac
  qr_corr_id :: u32
  qr_payload :: bytes
  qr_queued_ms :: u32

record rx_state =
  control_rx_queue :: "QueuedControlRx list"
  firmware_rx_queue :: "QueuedControlRx list"
  pull_request_queue :: "QueuedPullRequest list"
  pull_response_queue :: "QueuedPullResponse list"
  rx_now_ms :: u32
  rx_last_epoch_s :: u64
  discovery_rx_enabled :: bool

definition kControlQueueMax :: nat where "kControlQueueMax = 32"
definition kFirmwareQueueMax :: nat where "kFirmwareQueueMax = 32"
definition kPullRequestQueueMax :: nat where "kPullRequestQueueMax = 8"
definition kPullResponseQueueMax :: nat where "kPullResponseQueueMax = 32"

text \<open>A full queue drops its oldest frame; the new one goes to the back.\<close>

definition push_bounded :: "nat \<Rightarrow> 'a \<Rightarrow> 'a list \<Rightarrow> 'a list" where
  "push_bounded limit x q = (if length q \<ge> limit then tl q else q) @ [x]"

definition queued_frame :: "rx_state \<Rightarrow> mac \<Rightarrow> FrameHeader \<Rightarrow> bytes \<Rightarrow> u32 \<Rightarrow> MessageType \<Rightarrow> QueuedControlRx" where
  "queued_frame s from h payload rssi type = \<lparr>qc_type = type, qc_from = from,
     qc_corr_id = fh_correlation_id h, qc_payload = payload, qc_queued_ms = rx_now_ms s,
     qc_rssi = rssi\<rparr>"

text \<open>
  What the dispatch did besides queueing: the frame was queued, handed to a firmware handler
  at once (on a master), counted as sign of life of a peer, or ignored. The boolean is what
  the code returns where it does not come from a handler.
\<close>

datatype dispatched =
    Queued
  | FirmwareNow MessageType mac u32 buf
  | LivenessSeen mac
  | Ignored

definition push_control :: "QueuedControlRx \<Rightarrow> rx_state \<Rightarrow> rx_state" where
  "push_control f s = s\<lparr>control_rx_queue := push_bounded kControlQueueMax f (control_rx_queue s)\<rparr>"

definition push_firmware :: "QueuedControlRx \<Rightarrow> rx_state \<Rightarrow> rx_state" where
  "push_firmware f s = s\<lparr>firmware_rx_queue := push_bounded kFirmwareQueueMax f (firmware_rx_queue s)\<rparr>"

definition push_pull_request :: "QueuedPullRequest \<Rightarrow> rx_state \<Rightarrow> rx_state" where
  "push_pull_request f s =
     s\<lparr>pull_request_queue := push_bounded kPullRequestQueueMax f (pull_request_queue s)\<rparr>"

definition push_pull_response :: "QueuedPullResponse \<Rightarrow> rx_state \<Rightarrow> rx_state" where
  "push_pull_response f s =
     s\<lparr>pull_response_queue := push_bounded kPullResponseQueueMax f (pull_response_queue s)\<rparr>"

definition enqueue_control_rx :: "MessageType \<Rightarrow> mac \<Rightarrow> FrameHeader \<Rightarrow> bytes \<Rightarrow> u32 \<Rightarrow> rx_state \<Rightarrow> dispatched \<times> rx_state" where
  "enqueue_control_rx type from h payload rssi s =
     (Queued, push_control (queued_frame s from h payload rssi type) s)"

definition enqueue_firmware_rx :: "MessageType \<Rightarrow> mac \<Rightarrow> FrameHeader \<Rightarrow> bytes \<Rightarrow> u32 \<Rightarrow> rx_state \<Rightarrow> dispatched \<times> rx_state" where
  "enqueue_firmware_rx type from h payload rssi s =
     (Queued, push_firmware (queued_frame s from h payload rssi type) s)"

definition queued_request :: "rx_state \<Rightarrow> mac \<Rightarrow> FrameHeader \<Rightarrow> bytes \<Rightarrow> QueuedPullRequest" where
  "queued_request s from h payload = \<lparr>qp_from = from, qp_corr_id = fh_correlation_id h,
     qp_wire_service = fh_wire_service h, qp_wire_op = fh_wire_op_code h, qp_payload = payload,
     qp_queued_ms = rx_now_ms s\<rparr>"

definition queued_response :: "rx_state \<Rightarrow> mac \<Rightarrow> FrameHeader \<Rightarrow> bytes \<Rightarrow> QueuedPullResponse" where
  "queued_response s from h payload = \<lparr>qr_from = from, qr_corr_id = fh_correlation_id h,
     qr_payload = payload, qr_queued_ms = rx_now_ms s\<rparr>"

definition onRxPullRequest :: "role \<Rightarrow> mac \<Rightarrow> FrameHeader \<Rightarrow> bytes \<Rightarrow> rx_state \<Rightarrow> dispatched \<times> rx_state" where
  "onRxPullRequest rl from h payload s =
     (if rl \<noteq> Slave then (Ignored, s)
      else (Queued, push_pull_request (queued_request s from h payload) s))"

definition onRxPullResponse :: "role \<Rightarrow> mac \<Rightarrow> FrameHeader \<Rightarrow> bytes \<Rightarrow> rx_state \<Rightarrow> dispatched \<times> rx_state" where
  "onRxPullResponse rl from h payload s =
     (if rl = Master
      then (Queued, push_pull_response (queued_response s from h payload) s)
      else (LivenessSeen from, s))"

definition dispatchRxByType ::
  "role \<Rightarrow> mac \<Rightarrow> FrameHeader \<Rightarrow> bytes \<Rightarrow> u32 \<Rightarrow> rx_state \<Rightarrow> dispatched \<times> rx_state" where
  "dispatchRxByType rl from h payload rssi s =
     (case fh_type h of
        PullRequest \<Rightarrow> onRxPullRequest rl from h payload s
      | PullResponse \<Rightarrow> onRxPullResponse rl from h payload s
      | FirmwareBegin \<Rightarrow>
          if rl = Slave then enqueue_firmware_rx FirmwareBegin from h payload rssi s
          else (FirmwareNow FirmwareBegin from (fh_correlation_id h) (Some payload), s)
      | FirmwareChunk \<Rightarrow>
          if rl = Slave then enqueue_firmware_rx FirmwareChunk from h payload rssi s
          else (FirmwareNow FirmwareChunk from (fh_correlation_id h) (Some payload), s)
      | FirmwareEnd \<Rightarrow>
          if rl = Slave then enqueue_firmware_rx FirmwareEnd from h payload rssi s
          else (FirmwareNow FirmwareEnd from (fh_correlation_id h) (Some payload), s)
      | ErrorMsg \<Rightarrow> (Ignored, s)
      | type \<Rightarrow> enqueue_control_rx type from h payload rssi s)"

section \<open>onRx\<close>

definition discoveryRxEnabled :: "role \<Rightarrow> rx_state \<Rightarrow> bool" where
  "discoveryRxEnabled rl s = (if rl \<noteq> Master then True else discovery_rx_enabled s)"

text \<open>
  Why a frame was not dispatched. The code also reports such a frame as an event and to the log, which is
  left out here: nothing of the state depends on it.
\<close>

datatype rx_result =
    DecodeFailed
  | DiscoveryClosed
  | VersionMismatch
  | TimeMetadataShort
  | Dispatched FrameHeader bytes dispatched

definition onRx ::
  "ManagerConfig \<Rightarrow> (u64 \<Rightarrow> bool) option \<Rightarrow> mac \<Rightarrow> bytes \<Rightarrow> u32 \<Rightarrow> rx_state \<Rightarrow> rx_result \<times> rx_state" where
  "onRx c sink from data rssi s =
     (case decode data of
        None \<Rightarrow> (DecodeFailed, s)
      | Some (h, payload) \<Rightarrow>
          if fh_type h = Discovery \<and> local_role c = Master \<and> \<not> discoveryRxEnabled (local_role c) s
          then (DiscoveryClosed, s)
          else if fh_version h \<noteq> kProtocolVersion then (VersionMismatch, s)
          else
            (case applyTimeSyncFromFrame c sink h payload (rx_last_epoch_s s) of
               (ok, last_s, _) \<Rightarrow>
                 let s = s\<lparr>rx_last_epoch_s := last_s\<rparr> in
                 if \<not> ok then (TimeMetadataShort, s)
                 else
                   (let effective = (if has_time_flag h then drop kTimeSyncMetadataSize payload else payload)
                    in case dispatchRxByType (local_role c) from h effective rssi s of
                         (d, s') \<Rightarrow> (Dispatched h effective d, s'))))"

section \<open>Draining the queues\<close>

definition kPullRequestDispatchBudgetPerTick :: nat where "kPullRequestDispatchBudgetPerTick = 1"
definition kPullResponseDispatchBudgetPerTick :: nat where "kPullResponseDispatchBudgetPerTick = 4"
definition kFirmwareRxDispatchBudgetPerTick :: nat where "kFirmwareRxDispatchBudgetPerTick = 4"
definition kControlRxDispatchBudgetPerTick :: nat where "kControlRxDispatchBudgetPerTick = 4"

text \<open>
  \<open>while (budget-- > 0 && !queue.empty())\<close>: the frames taken this tick, in order, and the
  queue that is left. The role guards of the pull and firmware queues come first.
\<close>

fun drain :: "nat \<Rightarrow> 'a list \<Rightarrow> 'a list \<times> 'a list" where
  "drain 0 q = ([], q)"
| "drain (Suc budget) [] = ([], [])"
| "drain (Suc budget) (x # q) = (case drain budget q of (taken, rest) \<Rightarrow> (x # taken, rest))"

definition tickControlRxQueue :: "rx_state \<Rightarrow> QueuedControlRx list \<times> rx_state" where
  "tickControlRxQueue s =
     (case drain kControlRxDispatchBudgetPerTick (control_rx_queue s) of
        (taken, rest) \<Rightarrow> (taken, s\<lparr>control_rx_queue := rest\<rparr>))"

definition tickFirmwareRxQueue :: "role \<Rightarrow> rx_state \<Rightarrow> QueuedControlRx list \<times> rx_state" where
  "tickFirmwareRxQueue rl s =
     (if rl \<noteq> Slave then ([], s)
      else case drain kFirmwareRxDispatchBudgetPerTick (firmware_rx_queue s) of
        (taken, rest) \<Rightarrow> (taken, s\<lparr>firmware_rx_queue := rest\<rparr>))"

definition tickPullRequestQueue :: "role \<Rightarrow> rx_state \<Rightarrow> QueuedPullRequest list \<times> rx_state" where
  "tickPullRequestQueue rl s =
     (if rl \<noteq> Slave then ([], s)
      else case drain kPullRequestDispatchBudgetPerTick (pull_request_queue s) of
        (taken, rest) \<Rightarrow> (taken, s\<lparr>pull_request_queue := rest\<rparr>))"

definition tickPullResponseQueue :: "role \<Rightarrow> rx_state \<Rightarrow> QueuedPullResponse list \<times> rx_state" where
  "tickPullResponseQueue rl s =
     (if rl \<noteq> Master then ([], s)
      else case drain kPullResponseDispatchBudgetPerTick (pull_response_queue s) of
        (taken, rest) \<Rightarrow> (taken, s\<lparr>pull_response_queue := rest\<rparr>))"

section \<open>Routing a queued control frame\<close>

text \<open>
  \<open>processQueuedControlRx_\<close> and the handlers of \<open>rx_dispatch.cpp\<close> behind it: what a queued
  frame becomes. Pairing frames become inputs of the pairing engine once their payload has
  been parsed; the others go to their handler with the payload pointer, which is null for an
  empty payload. Only the route is given here. What \<open>onRxUnpairRequest\<close> of the manager clears before
  it tells the engine (the push session, the queue of mandatory events, the telemetry
  configuration) is modelled in theory Unpairing, on the node of theory Firmware.
\<close>

datatype target =
    ToPairing input
  | ToDiscovery mac u32 buf u32
  | ToMandatoryEvent mac u32 MandatoryEvent
  | ToTopologyTrigger mac u32 buf
  | ToTopologyTriggerBatch mac u32 buf
  | ToTopologyTriggerAck mac u32 buf
  | ToFirmwareStatus mac u32 buf

text \<open>A pair-init for another profile is refused; profile 0 on either side is a wildcard.\<close>

definition profile_refused :: "u8 \<Rightarrow> u8 \<Rightarrow> bool" where
  "profile_refused local_profile profile \<longleftrightarrow>
     local_profile \<noteq> 0 \<and> profile \<noteq> 0 \<and> profile \<noteq> local_profile"

definition route_pair_init :: "u8 \<Rightarrow> mac \<Rightarrow> u32 \<Rightarrow> buf \<Rightarrow> target option" where
  "route_pair_init local_profile from corr_id payload =
     (case parsePairInitPayload payload of
        None \<Rightarrow> None
      | Some (seed, nonce, profile) \<Rightarrow>
          if profile_refused local_profile profile then None
          else Some (ToPairing (InPairInit from corr_id seed nonce)))"

definition processQueuedControlRx :: "role \<Rightarrow> u8 \<Rightarrow> QueuedControlRx \<Rightarrow> target option" where
  "processQueuedControlRx rl local_profile f =
     (let from = qc_from f; corr_id = qc_corr_id f; payload = buf_of (qc_payload f)
      in case qc_type f of
        Discovery \<Rightarrow> Some (ToDiscovery from corr_id payload (qc_rssi f))
      | PairInit \<Rightarrow> route_pair_init local_profile from corr_id payload
      | PairInitAck \<Rightarrow>
          map_option (\<lambda>n. ToPairing (InPairInitAck from corr_id n)) (parseNonceEchoPayload payload 0x20)
      | PairConfirm \<Rightarrow>
          map_option (\<lambda>n. ToPairing (InPairConfirm from corr_id n)) (parseNonceEchoPayload payload 0x30)
      | PairConfirmAck \<Rightarrow>
          map_option (\<lambda>p. ToPairing (InPairConfirmAck from corr_id p)) (parsePairConfirmAckPayload payload)
      | PairBusy \<Rightarrow> Some (ToPairing (InPairBusy from corr_id))
      | UnpairRequest \<Rightarrow> Some (ToPairing (InUnpairRequest from corr_id))
      | UnpairAck \<Rightarrow> Some (ToPairing (InUnpairAck from corr_id))
      | EventReport \<Rightarrow>
          if rl \<noteq> Master then None
          else map_option (\<lambda>e. ToMandatoryEvent from corr_id e) (parseMandatoryEventPayload payload)
      | TopologyTrigger \<Rightarrow> Some (ToTopologyTrigger from corr_id payload)
      | TopologyTriggerBatch \<Rightarrow> Some (ToTopologyTriggerBatch from corr_id payload)
      | TopologyTriggerAck \<Rightarrow> Some (ToTopologyTriggerAck from corr_id payload)
      | ChannelSwitchPrepare \<Rightarrow>
          map_option (\<lambda>p. ToPairing (InSwitchPrepare from corr_id p)) (parseChannelSwitchPayload payload)
      | ChannelSwitchAck \<Rightarrow> Some (ToPairing (InSwitchAck from corr_id))
      | ChannelSwitchCommitAck \<Rightarrow> Some (ToPairing (InSwitchCommitAck from corr_id))
      | FirmwareStatus \<Rightarrow> Some (ToFirmwareStatus from corr_id payload)
      | _ \<Rightarrow> None)"

section \<open>Discovery frames\<close>

text \<open>
  \<open>onRxDiscovery\<close> on the tables it fills: \<open>(cache, registry, hints)\<close>. The number of persisted
  pairs and whether this peer is one of them are answers of the store, given as arguments; the
  third result tells whether the hint is to be persisted, the fourth whether the pairing
  engine is told.
\<close>

definition onRxDiscovery ::
  "ManagerConfig \<Rightarrow> bool \<Rightarrow> nat \<Rightarrow> bool \<Rightarrow> u32 \<Rightarrow> mac \<Rightarrow> buf \<Rightarrow> u32 \<Rightarrow>
   DiscoveryCacheEntry list \<times> registry \<times> PeerRoleHintEntry list \<Rightarrow>
   (DiscoveryCacheEntry list \<times> registry \<times> PeerRoleHintEntry list) \<times> bool \<times> bool" where
  "onRxDiscovery c rx_enabled persisted_count is_persisted now from payload rssi =
     (\<lambda>(cache, reg, hints).
        if local_role c = Master \<and> \<not> rx_enabled then ((cache, reg, hints), False, False)
        else if local_role c = Master \<and> persisted_count \<ge> 15 then ((cache, reg, hints), False, False)
        else
          (let cache' = touchDiscovery (discovery_peer_ttl_ms c) from cache;
               reg' = snd (upsertDiscovery from (ucast rssi) now reg);
               code = decodeDiscoveryRoleCode payload
           in if code \<noteq> 0
              then ((cache', reg', upsertPeerRoleHintCache from code hints), is_persisted, True)
              else ((cache', reg', hints), False, True)))"

section \<open>Queue facts\<close>

lemmas queue_limits = kControlQueueMax_def kFirmwareQueueMax_def kPullRequestQueueMax_def
  kPullResponseQueueMax_def

interpretation control_queue: bounded_queue control_rx_queue push_control kControlQueueMax
  by unfold_locales (simp_all add: push_control_def push_bounded_def queue_limits)

interpretation firmware_queue: bounded_queue firmware_rx_queue push_firmware kFirmwareQueueMax
  by unfold_locales (simp_all add: push_firmware_def push_bounded_def queue_limits)

interpretation request_queue: bounded_queue pull_request_queue push_pull_request kPullRequestQueueMax
  by unfold_locales (simp_all add: push_pull_request_def push_bounded_def queue_limits)

interpretation response_queue: bounded_queue pull_response_queue push_pull_response kPullResponseQueueMax
  by unfold_locales (simp_all add: push_pull_response_def push_bounded_def queue_limits)

text \<open>Which message types are queued as control frames, and as firmware frames.\<close>

definition is_control :: "MessageType \<Rightarrow> bool" where
  "is_control t \<longleftrightarrow> t \<notin> {PullRequest, PullResponse, FirmwareBegin, FirmwareChunk, FirmwareEnd, ErrorMsg}"

definition is_firmware :: "MessageType \<Rightarrow> bool" where
  "is_firmware t \<longleftrightarrow> t \<in> {FirmwareBegin, FirmwareChunk, FirmwareEnd}"

text \<open>A received frame: sender, header, payload, signal strength.\<close>

type_synonym rx_frame = "mac \<times> FrameHeader \<times> bytes \<times> u32"

definition dispatch_all :: "role \<Rightarrow> rx_frame list \<Rightarrow> rx_state \<Rightarrow> rx_state" where
  "dispatch_all rl fs s = fold (\<lambda>(from, h, p, rssi) s. snd (dispatchRxByType rl from h p rssi s)) fs s"

definition control_frames :: "rx_state \<Rightarrow> rx_frame list \<Rightarrow> QueuedControlRx list" where
  "control_frames s fs = [queued_frame s from h p rssi (fh_type h). (from, h, p, rssi) \<leftarrow> fs, is_control (fh_type h)]"

definition firmware_frames :: "rx_state \<Rightarrow> rx_frame list \<Rightarrow> QueuedControlRx list" where
  "firmware_frames s fs = [queued_frame s from h p rssi (fh_type h). (from, h, p, rssi) \<leftarrow> fs, is_firmware (fh_type h)]"

definition request_frames :: "rx_state \<Rightarrow> rx_frame list \<Rightarrow> QueuedPullRequest list" where
  "request_frames s fs = [queued_request s from h p. (from, h, p, rssi) \<leftarrow> fs, fh_type h = PullRequest]"

definition response_frames :: "rx_state \<Rightarrow> rx_frame list \<Rightarrow> QueuedPullResponse list" where
  "response_frames s fs = [queued_response s from h p. (from, h, p, rssi) \<leftarrow> fs, fh_type h = PullResponse]"

lemma push_simps [simp]:
  "rx_now_ms (push_control f s) = rx_now_ms s" "rx_now_ms (push_firmware f s) = rx_now_ms s"
  "rx_now_ms (push_pull_request q s) = rx_now_ms s" "rx_now_ms (push_pull_response r s) = rx_now_ms s"
  "control_rx_queue (push_firmware f s) = control_rx_queue s"
  "control_rx_queue (push_pull_request q s) = control_rx_queue s"
  "control_rx_queue (push_pull_response r s) = control_rx_queue s"
  "firmware_rx_queue (push_control f s) = firmware_rx_queue s"
  "firmware_rx_queue (push_pull_request q s) = firmware_rx_queue s"
  "firmware_rx_queue (push_pull_response r s) = firmware_rx_queue s"
  "pull_request_queue (push_control f s) = pull_request_queue s"
  "pull_request_queue (push_firmware f s) = pull_request_queue s"
  "pull_request_queue (push_pull_response r s) = pull_request_queue s"
  "pull_response_queue (push_control f s) = pull_response_queue s"
  "pull_response_queue (push_firmware f s) = pull_response_queue s"
  "pull_response_queue (push_pull_request q s) = pull_response_queue s"
  by (simp_all add: push_control_def push_firmware_def push_pull_request_def push_pull_response_def)

lemmas dispatch_defs = dispatchRxByType_def enqueue_control_rx_def enqueue_firmware_rx_def
  onRxPullRequest_def onRxPullResponse_def is_control_def is_firmware_def

text \<open>One dispatch, seen from each queue.\<close>

lemma dispatch_step:
  fixes frm h p rssi s rl
  defines "t \<equiv> snd (dispatchRxByType rl frm h p rssi s)"
  shows "rx_now_ms t = rx_now_ms s"
    and "control_rx_queue t = (if is_control (fh_type h)
           then push_bounded kControlQueueMax (queued_frame s frm h p rssi (fh_type h)) (control_rx_queue s)
           else control_rx_queue s)"
    and "firmware_rx_queue t = (if is_firmware (fh_type h) \<and> rl = Slave
           then push_bounded kFirmwareQueueMax (queued_frame s frm h p rssi (fh_type h)) (firmware_rx_queue s)
           else firmware_rx_queue s)"
    and "pull_request_queue t = (if fh_type h = PullRequest \<and> rl = Slave
           then push_bounded kPullRequestQueueMax (queued_request s frm h p) (pull_request_queue s)
           else pull_request_queue s)"
    and "pull_response_queue t = (if fh_type h = PullResponse \<and> rl = Master
           then push_bounded kPullResponseQueueMax (queued_response s frm h p) (pull_response_queue s)
           else pull_response_queue s)"
  unfolding t_def
  by (cases "fh_type h"; cases rl; simp add: dispatch_defs push_control_def push_firmware_def
      push_pull_request_def push_pull_response_def)+

lemma frames_Cons:
  "control_frames s ((frm, h, p, rssi) # fs) =
     (if is_control (fh_type h) then [queued_frame s frm h p rssi (fh_type h)] else []) @ control_frames s fs"
  "firmware_frames s ((frm, h, p, rssi) # fs) =
     (if is_firmware (fh_type h) then [queued_frame s frm h p rssi (fh_type h)] else []) @ firmware_frames s fs"
  "request_frames s ((frm, h, p, rssi) # fs) =
     (if fh_type h = PullRequest then [queued_request s frm h p] else []) @ request_frames s fs"
  "response_frames s ((frm, h, p, rssi) # fs) =
     (if fh_type h = PullResponse then [queued_response s frm h p] else []) @ response_frames s fs"
  by (simp_all add: control_frames_def firmware_frames_def request_frames_def response_frames_def)

lemma frames_Nil [simp]:
  "control_frames s [] = []" "firmware_frames s [] = []" "request_frames s [] = []" "response_frames s [] = []"
  by (simp_all add: control_frames_def firmware_frames_def request_frames_def response_frames_def)

lemma frames_now:
  assumes "rx_now_ms s = rx_now_ms t"
  shows "control_frames s fs = control_frames t fs" and "firmware_frames s fs = firmware_frames t fs"
    and "request_frames s fs = request_frames t fs" and "response_frames s fs = response_frames t fs"
  using assms
  by (induction fs)
     (auto simp: frames_Cons queued_frame_def queued_request_def queued_response_def)

lemma dispatch_all_queues:
  "control_rx_queue (dispatch_all rl fs s) =
     fold (push_bounded kControlQueueMax) (control_frames s fs) (control_rx_queue s)"
  "firmware_rx_queue (dispatch_all Slave fs s) =
     fold (push_bounded kFirmwareQueueMax) (firmware_frames s fs) (firmware_rx_queue s)"
  "pull_request_queue (dispatch_all Slave fs s) =
     fold (push_bounded kPullRequestQueueMax) (request_frames s fs) (pull_request_queue s)"
  "pull_response_queue (dispatch_all Master fs s) =
     fold (push_bounded kPullResponseQueueMax) (response_frames s fs) (pull_response_queue s)"
proof (induction fs arbitrary: s)
  case Nil
  { case 1 show ?case by (simp add: dispatch_all_def) }
  { case 2 show ?case by (simp add: dispatch_all_def) }
  { case 3 show ?case by (simp add: dispatch_all_def) }
  { case 4 show ?case by (simp add: dispatch_all_def) }
next
  case (Cons f fs)
  obtain frm h p rssi where [simp]: "f = (frm, h, p, rssi)" by (cases f)
  have unroll: "dispatch_all rl ((frm, h, p, rssi) # fs) s =
      dispatch_all rl fs (snd (dispatchRxByType rl frm h p rssi s))" for rl s
    by (simp add: dispatch_all_def)
  note now = frames_now [OF dispatch_step(1)]
  { case 1 show ?case by (simp add: unroll Cons.IH dispatch_step now frames_Cons) }
  { case 2 show ?case by (simp add: unroll Cons.IH dispatch_step now frames_Cons) }
  { case 3 show ?case by (simp add: unroll Cons.IH dispatch_step now frames_Cons) }
  { case 4 show ?case by (simp add: unroll Cons.IH dispatch_step now frames_Cons) }
qed

lemma fold_push:
  "control_rx_queue (fold push_control xs s) = fold (push_bounded kControlQueueMax) xs (control_rx_queue s)"
  "firmware_rx_queue (fold push_firmware xs s) = fold (push_bounded kFirmwareQueueMax) xs (firmware_rx_queue s)"
  "pull_request_queue (fold push_pull_request ys s) =
     fold (push_bounded kPullRequestQueueMax) ys (pull_request_queue s)"
  "pull_response_queue (fold push_pull_response zs s) =
     fold (push_bounded kPullResponseQueueMax) zs (pull_response_queue s)"
     apply (induction xs arbitrary: s)
      apply (simp_all add: push_control_def)
    apply (induction xs arbitrary: s)
     apply (simp_all add: push_firmware_def)
   apply (induction ys arbitrary: s)
    apply (simp_all add: push_pull_request_def)
  apply (induction zs arbitrary: s)
   apply (simp_all add: push_pull_response_def)
  done

text \<open>The newest frames of a burst, as many as a queue holds.\<close>

definition newest :: "nat \<Rightarrow> 'a list \<Rightarrow> 'a list" where
  "newest n xs = drop (length xs - n) xs"

text \<open>
  C33. Whatever burst of frames is received between two ticks, each receive queue stays within
  its capacity and holds exactly the newest frames of its own kind, in arrival order, after
  those that were waiting: 32 control frames, 32 firmware frames and 8 pull requests on a
  slave, 32 pull responses on a master. A flood of one kind never displaces another kind.
\<close>

theorem rx_queues_keep_newest:
  assumes "length (control_rx_queue s) \<le> 32" and "length (firmware_rx_queue s) \<le> 32"
    and "length (pull_request_queue s) \<le> 8" and "length (pull_response_queue s) \<le> 32"
  shows "control_rx_queue (dispatch_all rl fs s) = newest 32 (control_rx_queue s @ control_frames s fs)
    \<and> firmware_rx_queue (dispatch_all Slave fs s) = newest 32 (firmware_rx_queue s @ firmware_frames s fs)
    \<and> pull_request_queue (dispatch_all Slave fs s) = newest 8 (pull_request_queue s @ request_frames s fs)
    \<and> pull_response_queue (dispatch_all Master fs s) = newest 32 (pull_response_queue s @ response_frames s fs)"
  using control_queue.burst_items [of s "control_frames s fs"]
    firmware_queue.burst_items [of s "firmware_frames s fs"]
    request_queue.burst_items [of s "request_frames s fs"]
    response_queue.burst_items [of s "response_frames s fs"] assms
  by (simp add: dispatch_all_queues fold_push queue_limits newest_def)

definition empty_rx :: rx_state where
  "empty_rx = \<lparr>control_rx_queue = [], firmware_rx_queue = [], pull_request_queue = [],
     pull_response_queue = [], rx_now_ms = 0, rx_last_epoch_s = 0, discovery_rx_enabled = True\<rparr>"

theorem rx_queues_keep_newest_witness:
  "map qc_corr_id (control_rx_queue (dispatch_all Master
     (map (\<lambda>i. (zeroMac, default_header\<lparr>fh_type := PairBusy, fh_correlation_id := of_nat i\<rparr>, [], 0)) [0..<34])
     empty_rx)) = map of_nat [2..<34]"
  using rx_queues_keep_newest [of empty_rx Master
    "map (\<lambda>i. (zeroMac, default_header\<lparr>fh_type := PairBusy, fh_correlation_id := of_nat i\<rparr>, [], 0)) [0..<34]"]
  by (simp add: empty_rx_def control_frames_def is_control_def newest_def queued_frame_def upt_rec)

section \<open>Draining\<close>

lemma drain_eq: "drain n q = (take n q, drop n q)"
  by (induction n q rule: drain.induct) auto

text \<open>\<open>k\<close> ticks without arrivals: the frames processed, in order, and the state left.\<close>

fun control_ticks :: "nat \<Rightarrow> rx_state \<Rightarrow> QueuedControlRx list \<times> rx_state" where
  "control_ticks 0 s = ([], s)"
| "control_ticks (Suc k) s =
     (case tickControlRxQueue s of (taken, s') \<Rightarrow>
        (case control_ticks k s' of (later, s'') \<Rightarrow> (taken @ later, s'')))"

text \<open>
  Draining is fair and loses nothing: in \<open>k\<close> ticks exactly the first \<open>4 * k\<close> control frames
  are processed, each once and in arrival order, the others stay queued; so eight ticks empty a
  full queue. One tick takes the first four firmware frames and the first pull request on a
  slave, the first four pull responses on a master, and none in the other role.
\<close>

lemma queues_drain_in_order:
  "control_ticks k s = (take (4 * k) (control_rx_queue s), s\<lparr>control_rx_queue := drop (4 * k) (control_rx_queue s)\<rparr>)
   \<and> tickFirmwareRxQueue rl s = (if rl = Slave
        then (take 4 (firmware_rx_queue s), s\<lparr>firmware_rx_queue := drop 4 (firmware_rx_queue s)\<rparr>) else ([], s))
   \<and> tickPullRequestQueue rl s = (if rl = Slave
        then (take 1 (pull_request_queue s), s\<lparr>pull_request_queue := drop 1 (pull_request_queue s)\<rparr>) else ([], s))
   \<and> tickPullResponseQueue rl s = (if rl = Master
        then (take 4 (pull_response_queue s), s\<lparr>pull_response_queue := drop 4 (pull_response_queue s)\<rparr>) else ([], s))"
proof -
  have "control_ticks k s =
      (take (4 * k) (control_rx_queue s), s\<lparr>control_rx_queue := drop (4 * k) (control_rx_queue s)\<rparr>)" for s
    by (induction k arbitrary: s)
       (simp_all add: tickControlRxQueue_def drain_eq kControlRxDispatchBudgetPerTick_def take_add add.commute)
  then show ?thesis
    by (simp add: tickFirmwareRxQueue_def tickPullRequestQueue_def tickPullResponseQueue_def drain_eq
        kFirmwareRxDispatchBudgetPerTick_def kPullRequestDispatchBudgetPerTick_def
        kPullResponseDispatchBudgetPerTick_def)
qed

end
