(* ===== verification/PairingProgress.thy ===== *)
theory PairingProgress
  imports PairingInvariant
begin

text \<open>
  A pairing attempt always ends: a potential that every tick lowers by the time since the
  previous tick. The code forgets one gap whenever it restarts its reference time (after a
  message, and when the secure guard ends), so the bound is the total timeout and two gaps.
\<close>

section \<open>The pairing part of the state in a tick\<close>

text \<open>What the parts of a tick other than \<open>tick_pairing\<close> may do: end the attempt or leave it.\<close>

definition same_attempt :: "engine \<Rightarrow> engine \<Rightarrow> bool" where
  "same_attempt s t \<longleftrightarrow> (lstate t = LsPairing \<longrightarrow> lstate s = LsPairing
     \<and> pair_phase t = pair_phase s \<and> pair_last_tick_ms t = pair_last_tick_ms s
     \<and> pair_total_deadline_ms t = pair_total_deadline_ms s)"

lemma same_attempt_refl [simp]: "same_attempt s s"
  by (simp add: same_attempt_def)

lemma tick_discovery_same: "wp (tick_discovery E now) (\<lambda>_ t. same_attempt s t) s"
  unfolding tick_discovery_def by (intro wp_intro) (auto simp: same_attempt_def)

lemma tick_channel_same: "same_attempt s u \<Longrightarrow> wp (tick_channel E now) (\<lambda>_ t. same_attempt s t) u"
  unfolding tick_channel_def save_channel_def channel_committed_hook_def
  by (intro wp_intro) (auto simp: same_attempt_def)

lemma tick_unpair_same: "same_attempt s u \<Longrightarrow> wp (tick_unpair E now) (\<lambda>_ t. same_attempt s t) u"
  unfolding tick_unpair_def by (intro wp_intro) (auto simp: same_attempt_def)

lemma tick_deferred_same: "same_attempt s u \<Longrightarrow> wp (tick_deferred E now) (\<lambda>_ t. same_attempt s t) u"
  unfolding tick_deferred_def by (intro wp_intro) (auto simp: same_attempt_def)

text \<open>\<open>tick_pairing\<close> itself: the total deadline goes down by the time since the last tick.\<close>

definition counted :: "u32 \<Rightarrow> engine \<Rightarrow> engine \<Rightarrow> bool" where
  "counted now s t \<longleftrightarrow> (lstate t = LsPairing \<longrightarrow> lstate s = LsPairing
     \<and> (if pair_last_tick_ms s = 0
        then pair_phase t = pair_phase s \<and> pair_last_tick_ms t = now
             \<and> pair_total_deadline_ms t = pair_total_deadline_ms s
        else now - pair_last_tick_ms s < pair_total_deadline_ms s
             \<and> pair_total_deadline_ms t = pair_total_deadline_ms s - (now - pair_last_tick_ms s)
             \<and> (pair_phase t = pair_phase s \<and> pair_last_tick_ms t = now
                \<or> pair_phase s = MasterSecureGuard \<and> pair_phase t = MasterWaitConfirmAck
                  \<and> pair_last_tick_ms t = 0)))"

lemma tick_pairing_counted:
  assumes "lstate s = LsPairing \<longrightarrow> 0 < pair_total_deadline_ms s"
  shows "wp (tick_pairing E now) (\<lambda>_ t. counted now s t) s"
  unfolding tick_pairing_def tick_deadline_def guard_elapsed_def fail_current_def
  by (intro wp_intro) (use assms in \<open>auto simp: counted_def\<close>)

lemma tick_counted:
  assumes "lstate s = LsPairing \<longrightarrow> 0 < pair_total_deadline_ms s"
  shows "counted now s (after E (InTick now) s)"
proof -
  have d: "wp (tick_discovery E now) (\<lambda>_ t. same_attempt s t) (s\<lparr>current_now_ms := now\<rparr>)"
    by (rule wp_mono [OF tick_discovery_same]) (auto simp: same_attempt_def)
  have p: "wp (tick_pairing E now) (\<lambda>_. counted now s) u" if "same_attempt s u" for u
    by (rule wp_mono [OF tick_pairing_counted])
       (use that assms in \<open>auto simp: same_attempt_def counted_def split: if_splits\<close>)
  have c: "counted now s t" if "counted now s u" and "same_attempt u t" for u t
    using that by (auto simp: same_attempt_def counted_def)
  have "wp (tick E now) (\<lambda>_. counted now s) s"
    unfolding tick_def
    by (intro wp_intro wp_mono [OF d] wp_mono [OF p] wp_mono [OF tick_channel_same]
        wp_mono [OF tick_unpair_same] wp_mono [OF tick_deferred_same])
       (auto intro: c)
  then show ?thesis
    by (simp add: wp_def after_def split: prod.splits)
qed

section \<open>The potential\<close>

definition potential :: "nat \<Rightarrow> engine \<Rightarrow> nat" where
  "potential G s = unat (pair_total_deadline_ms s)
     + (if pair_last_tick_ms s = 0 then G else 0)
     + (if pair_phase s = MasterSecureGuard then G else 0)"

lemma potential_bound: "pairing_inv rl s \<Longrightarrow> lstate s = LsPairing \<Longrightarrow> potential G s \<le> 4000 + 2 * G"
  by (auto simp: potential_def pairing_inv_def pair_timeouts word_le_nat_alt)

lemma tick_potential:
  assumes "pairing_inv (local_role (cfg E)) s" and "lstate (after E (InTick now) s) = LsPairing"
    and "pair_last_tick_ms s = 0 \<or> pair_last_tick_ms s = prev"
    and "unat (now - prev) \<le> G" and "now \<noteq> 0"
  shows "lstate s = LsPairing
    \<and> potential G (after E (InTick now) s) + unat (now - prev) \<le> potential G s
    \<and> (pair_last_tick_ms (after E (InTick now) s) = 0
       \<or> pair_last_tick_ms (after E (InTick now) s) = now)"
proof -
  have "lstate s = LsPairing \<longrightarrow> 0 < pair_total_deadline_ms s"
    using assms(1) by (simp add: pairing_inv_def)
  from tick_counted [OF this, of now E] assms(2-5) show ?thesis
    by (auto simp: counted_def potential_def unat_minus_u32 word_less_nat_alt split: if_splits)
qed

text \<open>A run of ticks, each with its own environment, at the given clock values.\<close>

fun run_ticks :: "(env \<times> u32) list \<Rightarrow> engine \<Rightarrow> engine" where
  "run_ticks [] s = s"
| "run_ticks ((E, now) # ts) s = run_ticks ts (after E (InTick now) s)"

lemma run_not_pairing: "lstate s \<noteq> LsPairing \<Longrightarrow> lstate (run_ticks ts s) \<noteq> LsPairing"
proof (induction ts arbitrary: s)
  case Nil
  then show ?case by simp
next
  case (Cons et ts)
  obtain E now where [simp]: "et = (E, now)" by (cases et)
  have "lstate (after E (InTick now) s) \<noteq> LsPairing"
    using tick_counted [of s now E] Cons.prems by (auto simp: counted_def)
  with Cons.IH show ?case by simp
qed

text \<open>The time between consecutive ticks, on the wrapping clock.\<close>

fun gaps :: "u32 \<Rightarrow> (env \<times> u32) list \<Rightarrow> nat list" where
  "gaps prev [] = []"
| "gaps prev ((E, now) # ts) = unat (now - prev) # gaps now ts"

lemma run_potential:
  assumes "pairing_inv rl s" and "lstate (run_ticks ts s) = LsPairing"
    and "pair_last_tick_ms s = 0 \<or> pair_last_tick_ms s = prev"
    and "\<forall>(E, now) \<in> set ts. local_role (cfg E) = rl \<and> now \<noteq> 0"
    and "\<forall>g \<in> set (gaps prev ts). g \<le> G"
  shows "lstate s = LsPairing \<and> sum_list (gaps prev ts) < potential G s"
  using assms
proof (induction ts arbitrary: s prev)
  case Nil
  then show ?case by (auto simp: potential_def pairing_inv_def unat_gt_0)
next
  case (Cons et ts)
  obtain E now where [simp]: "et = (E, now)" by (cases et)
  from Cons.prems have E: "local_role (cfg E) = rl" "now \<noteq> 0" "unat (now - prev) \<le> G"
    by auto
  let ?t = "after E (InTick now) s"
  have t: "pairing_inv rl ?t"
    using step_facts(1) [of E s "InTick now"] Cons.prems(1) E by simp
  define ok where "ok \<longleftrightarrow> pair_last_tick_ms ?t = 0 \<or> pair_last_tick_ms ?t = now"
  have run: "lstate (run_ticks ts ?t) = LsPairing"
    using Cons.prems(2) by simp
  have sub: "lstate ?t = LsPairing \<Longrightarrow> ok"
    using tick_potential [of E s now prev G] Cons.prems E by (simp add: ok_def)
  show ?case
  proof (cases "lstate ?t = LsPairing")
    case True
    from sub [OF True] have "lstate ?t = LsPairing \<and> sum_list (gaps now ts) < potential G ?t"
      unfolding ok_def using Cons.IH [OF t run, of now] Cons.prems by auto
    with tick_potential [of E s now prev G] True Cons.prems E show ?thesis by simp
  next
    case False
    with run_not_pairing [of ?t ts] run show ?thesis by blast
  qed
qed

text \<open>
  C32. A pairing attempt ends without any message. From a reachable state of the engine, a run
  of ticks whose gaps are at most \<open>G\<close> and add up to 4000 ms and twice \<open>G\<close> leaves no pairing
  in progress, whatever the environment answers at each tick. The clock may wrap around; a
  tick at clock value 0 is excluded since the code reads it as "no tick yet".
\<close>

theorem pairing_attempt_ends:
  assumes "(engine_step rl)\<^sup>*\<^sup>* (new_engine\<lparr>local_mac := m, local_profile_id := p\<rparr>) s"
    and "pair_last_tick_ms s = 0 \<or> pair_last_tick_ms s = prev"
    and "\<forall>(E, now) \<in> set ts. local_role (cfg E) = rl \<and> now \<noteq> 0"
    and "\<forall>g \<in> set (gaps prev ts). g \<le> G"
    and "4000 + 2 * G \<le> sum_list (gaps prev ts)"
  shows "lstate (run_ticks ts s) \<noteq> LsPairing"
proof
  assume p: "lstate (run_ticks ts s) = LsPairing"
  have inv: "pairing_inv rl s"
    by (rule engine_machine.steps_inv [OF assms(1)]) simp
  from run_potential [OF inv p assms(2-4)] potential_bound [OF inv, of G] assms(5)
  show False by auto
qed

end
