(* ===== verification/Handshake.thy ===== *)
theory Handshake
  imports RxPath PairingProgress
begin

text \<open>
  The sending and the receiving side put together: a control frame sent by the pairing engine
  is received with the same type, correlation id and payload, whether or not it carried the
  time; then the whole handshake of a master and a slave over such frames, which ends with
  both links secured under the same key.
\<close>

section \<open>Sent frames are received\<close>

text \<open>
  How any receiver whose discovery window is open takes a frame: it dispatches it with the
  given type, correlation id, sender role and payload.
\<close>

definition received_as :: "bytes \<Rightarrow> MessageType \<Rightarrow> u32 \<Rightarrow> role \<Rightarrow> bytes \<Rightarrow> bool" where
  "received_as f ty c rl p \<longleftrightarrow>
     (\<forall>C sink from rssi s. (ty = Discovery \<longrightarrow> discoveryRxEnabled (local_role C) s) \<longrightarrow>
        (\<exists>h last_s.
           onRx C sink from f rssi s =
             (case dispatchRxByType (local_role C) from h p rssi (s\<lparr>rx_last_epoch_s := last_s\<rparr>) of
                (d, s') \<Rightarrow> (Dispatched h p d, s'))
           \<and> fh_type h = ty \<and> fh_correlation_id h = c \<and> fh_role h = role_code rl))"

lemma applyTimeSync_ok:
  "\<not> has_time_flag h \<or> kTimeSyncMetadataSize \<le> length w \<Longrightarrow>
   \<exists>last_s e. applyTimeSyncFromFrame C sink h w l0 = (True, last_s, e)"
  by (auto simp: applyTimeSyncFromFrame_def Let_def split: option.split)

lemma onRx_decoded:
  assumes "decode f = Some (h, w)" and "fh_version h = kProtocolVersion"
    and "has_time_flag h \<longrightarrow> kTimeSyncMetadataSize \<le> length w"
    and "fh_type h = Discovery \<longrightarrow> discoveryRxEnabled (local_role C) s"
  shows "\<exists>last_s. onRx C sink frm f rssi s =
    (case dispatchRxByType (local_role C) frm h
            (if has_time_flag h then drop kTimeSyncMetadataSize w else w) rssi (s\<lparr>rx_last_epoch_s := last_s\<rparr>) of
       (d, s') \<Rightarrow> (Dispatched h (if has_time_flag h then drop kTimeSyncMetadataSize w else w) d, s'))"
proof -
  obtain last_s e where "applyTimeSyncFromFrame C sink h w (rx_last_epoch_s s) = (True, last_s, e)"
    using applyTimeSync_ok [of h w C sink "rx_last_epoch_s s"] assms(3) by auto
  with assms show ?thesis
    by (auto simp: onRx_def Let_def)
qed

lemma control_frame_received:
  assumes "encode (control_header E ty c wrapped n) w = Some f"
    and "w = (if wrapped then epoch_prefix e @ p else p)"
  shows "received_as f ty c (local_role (cfg E)) p"
proof -
  let ?h = "control_header E ty c wrapped n"
  from assms(1) obtain m sv op where len: "length w \<le> kMaxPayload"
    and wt: "wire_triple ?h = Some (m, sv, op)"
    and f: "f = frame_body ?h m sv op w @ appendLe16 (crc16CcittFalse (frame_body ?h m sv op w))"
    by (rule encode_SomeD)
  have "toWire ty = Some (m, sv, op)"
    using wt by (auto simp: wire_triple_def control_header_def default_header_def split: option.splits)
  then have "fromWire m sv op = Some ty" by (rule fromWire_toWire)
  with len have d: "decode f = Some (?h\<lparr>fh_version := kProtocolVersion, fh_type := ty,
      fh_wire_msg_type := m, fh_wire_service := sv, fh_wire_op_code := op,
      fh_payload_length := word_of_nat (length w)\<rparr>, w)"
    unfolding f by (rule decode_frame_body)
  define h where "h = ?h\<lparr>fh_version := kProtocolVersion, fh_type := ty,
      fh_wire_msg_type := m, fh_wire_service := sv, fh_wire_op_code := op,
      fh_payload_length := word_of_nat (length w)\<rparr>"
  have flag: "has_time_flag h = wrapped"
    by (simp add: h_def has_time_flag_def control_header_def default_header_def kFrameFlagTimeSyncEpoch_def)
  have fields: "fh_version h = kProtocolVersion" "fh_type h = ty" "fh_correlation_id h = c"
    "fh_role h = role_code (local_role (cfg E))"
    by (simp_all add: h_def control_header_def default_header_def)
  have eff: "(if has_time_flag h then drop kTimeSyncMetadataSize w else w) = p"
    using assms(2) by (simp add: flag epoch_prefix_def kTimeSyncMetadataSize_def)
  have four: "has_time_flag h \<longrightarrow> kTimeSyncMetadataSize \<le> length w"
    using assms(2) by (simp add: flag epoch_prefix_def kTimeSyncMetadataSize_def)
  show ?thesis
    unfolding received_as_def
  proof (intro allI impI)
    fix C :: ManagerConfig and sink frm rssi s
    assume "ty = Discovery \<longrightarrow> discoveryRxEnabled (local_role C) s"
    with fields(2) have "fh_type h = Discovery \<longrightarrow> discoveryRxEnabled (local_role C) s" by simp
    from onRx_decoded [OF d [folded h_def] fields(1) four this, of sink frm rssi, unfolded eff] fields
    show "\<exists>h last_s. onRx C sink frm f rssi s =
        (case dispatchRxByType (local_role C) frm h p rssi (s\<lparr>rx_last_epoch_s := last_s\<rparr>) of
           (d, s') \<Rightarrow> (Dispatched h p d, s'))
      \<and> fh_type h = ty \<and> fh_correlation_id h = c \<and> fh_role h = role_code (local_role (cfg E))"
      by blast
  qed
qed

text \<open>\<open>sendControl\<close> with what it put on the air and, where nothing fails, its result.\<close>

definition obliging :: "env \<Rightarrow> bool" where
  "obliging E \<longleftrightarrow> (\<forall>tr a. answer E tr a)"

definition sent :: "env \<Rightarrow> mac \<Rightarrow> MessageType \<Rightarrow> u32 \<Rightarrow> bytes \<Rightarrow> action list \<Rightarrow> bool" where
  "sent E to ty c p ys \<longleftrightarrow> (\<exists>f. TxSend to f \<in> set ys \<and> received_as f ty c (local_role (cfg E)) p)"

lemma encode_control_total:
  assumes "length w \<le> kMaxPayload" and "ty \<noteq> ErrorMsg"
  shows "\<exists>f. encode (control_header E ty c wrapped n) w = Some f"
proof -
  have "wire_triple (control_header E ty c wrapped n) \<noteq> None"
    using assms(2) by (simp add: wire_triple_None_iff control_header_def default_header_def)
  then show ?thesis using encode_eq [OF assms(1)] by auto
qed

lemma wp_send_obliging:
  assumes "obliging E" and "ty \<noteq> ErrorMsg" and "length p \<le> 231"
    and "\<And>ys b l. list_all quiet ys \<Longrightarrow> sent E to ty c p ys \<Longrightarrow>
      Q True ((trace_update (\<lambda>tr. tr @ ys) s)\<lparr>has_time_sync_tx := b, last_time_sync_tx_ms := l\<rparr>)"
  shows "wp (sendControl E to ty c p) Q s"
proof -
  have plain: "list_all quiet ys \<Longrightarrow> sent E to ty c p ys \<Longrightarrow> Q True (trace_update (\<lambda>tr. tr @ ys) s)" for ys
    using assms(4) [of ys "last_time_sync_tx_ms s" "has_time_sync_tx s"] by simp
  have "trace_update (\<lambda>tr. tr @ ys) (s\<lparr>has_time_sync_tx := b, last_time_sync_tx_ms := l\<rparr>) =
      (trace_update (\<lambda>tr. tr @ ys) s)\<lparr>has_time_sync_tx := b, last_time_sync_tx_ms := l\<rparr>" for ys b l
    by simp
  then have stamped: "list_all quiet ys \<Longrightarrow> sent E to ty c p ys \<Longrightarrow>
    Q True (trace_update (\<lambda>tr. tr @ ys) (s\<lparr>has_time_sync_tx := b, last_time_sync_tx_ms := l\<rparr>))" for ys b l
    using assms(4) [of ys l b] by (simp only:)
  have ans: "answer E tr a" for tr a
    using assms(1) by (simp add: obliging_def)
  have small: "length p \<le> kMaxPayload" and small': "length (epoch_prefix e @ p) \<le> kMaxPayload" for e
    using assms(3) by (simp_all add: frame_sizes epoch_prefix_def)
  have tot: "encode (control_header E ty c True n) (epoch_prefix e @ p) \<noteq> None"
    "encode (control_header E ty c False n) p \<noteq> None" for n e
    using encode_control_total [OF small assms(2), of E c False n]
      encode_control_total [OF small' assms(2), of E c True n] by auto
  have rec: "received_as f ty c (local_role (cfg E)) p"
    if "encode (control_header E ty c wrapped n) (if wrapped then epoch_prefix e @ p else p) = Some f"
    for f wrapped n e
    using control_frame_received [OF that refl] .
  note rec1 = rec [of True _ e for e, simplified] rec [of False, simplified]
  show ?thesis
    unfolding sendControl_def wrap_payload_def
    by (intro wp_intro)
       (auto intro!: plain stamped simp: quiet_def ans sent_def tot simp del: not_None_eq intro: rec1)
qed

text \<open>An environment for concrete runs: everything succeeds, nothing is attached but a store.\<close>

definition sample_env :: "role \<Rightarrow> env" where
  "sample_env rl = \<lparr>cfg = default_manager_config rl, has_store = True, has_events = False, has_hooks = False,
     has_window = False, has_time = False, has_logger = False, answer = (\<lambda>_ _. True),
     channel_of = (\<lambda>_. 6), epoch_of = (\<lambda>_. None), random32 = (\<lambda>_. 7),
     random_bytes = (\<lambda>_ n. replicate n 1), hmac_sha256 = (\<lambda>k m. Some (replicate 32 9)),
     pmk = replicate 16 3\<rparr>"

lemma sample_env_simps [simp]:
  "obliging (sample_env rl)" "local_role (cfg (sample_env rl)) = rl" "has_store (sample_env rl)"
  "hmac_sha256 (sample_env rl) k m = Some (replicate 32 9)" "pmk (sample_env rl) = replicate 16 3"
  "random_bytes (sample_env rl) tr n = replicate n 1"
  by (simp_all add: sample_env_def default_manager_config_def obliging_def)

text \<open>
  C34. Whatever the environment answers and whether or not the time is attached, a frame that
  \<open>sendControl\<close> puts on the air goes to the intended peer, and every receiver (a master only
  while its discovery window is open, for a discovery frame) dispatches it with the sender's
  message type, correlation id, role and exactly the sender's payload; a successful call has
  put one on the air.
\<close>

theorem control_frame_delivered:
  assumes "run_state (sendControl E to ty c p) s = (ok, t)"
  shows "(\<forall>m f. TxSend m f \<in> set (drop (length (trace s)) (trace t)) \<longrightarrow>
            m = to \<and> received_as f ty c (local_role (cfg E)) p)
    \<and> (ok \<longrightarrow> (\<exists>f. TxSend to f \<in> set (drop (length (trace s)) (trace t))))"
proof -
  have rec: "received_as f ty c (local_role (cfg E)) p"
    if "encode (control_header E ty c wrapped n) (if wrapped then epoch_prefix e @ p else p) = Some f"
    for f wrapped n e
    using control_frame_received [OF that refl] .
  note rec1 = rec [of True _ e for e, simplified] rec [of False, simplified]
  have "wp (sendControl E to ty c p) (\<lambda>ok t.
      (\<forall>m f. TxSend m f \<in> set (drop (length (trace s)) (trace t)) \<longrightarrow>
            m = to \<and> received_as f ty c (local_role (cfg E)) p)
    \<and> (ok \<longrightarrow> (\<exists>f. TxSend to f \<in> set (drop (length (trace s)) (trace t))))) s"
    unfolding sendControl_def wrap_payload_def
    by (intro wp_intro) (auto intro: rec1)
  then show ?thesis using assms by (simp add: wp_def)
qed

theorem control_frame_delivered_witness:
  "\<exists>f. TxSend zeroMac f \<in> set (trace (snd (run_state
       (sendControl (sample_env Master) zeroMac PairBusy 7 [1]) new_engine)))
     \<and> received_as f PairBusy 7 Master [1]"
proof -
  let ?m = "sendControl (sample_env Master) zeroMac PairBusy 7 [1]"
  have "wp ?m (\<lambda>ok _. ok) new_engine"
    by (rule wp_send_obliging) simp_all
  then obtain t where r: "run_state ?m new_engine = (True, t)"
    by (cases "run_state ?m new_engine") (simp add: wp_def)
  have "trace new_engine = []" by (simp add: new_engine_def)
  with control_frame_delivered [OF r] show ?thesis by (auto simp: r)
qed

section \<open>The steps of a handshake\<close>

declare wp_send [wp_intro del] wp_attach [wp_intro del] wp_evict [wp_intro del]
declare wp_send_obliging [wp_intro]

lemma wp_attach_obliging [wp_intro]:
  "obliging E \<Longrightarrow> (\<And>a. attach_of a = Some (m, e, k) \<Longrightarrow> Q True (trace_update (\<lambda>tr. tr @ [a]) s)) \<Longrightarrow>
   wp (attachPeer E m e k) Q s"
  unfolding attachPeer_def by (intro wp_intro) (auto simp: attach_of_def obliging_def)

lemma wp_evict_obliging [wp_intro]:
  "obliging E \<Longrightarrow> (\<And>a. evict_of a = Some m \<Longrightarrow> Q True (trace_update (\<lambda>tr. tr @ [a]) s)) \<Longrightarrow>
   wp (evictPeer E m) Q s"
  unfolding evictPeer_def by (intro wp_intro) (auto simp: evict_of_def obliging_def)

lemma wp_persist_obliging:
  assumes "obliging E" and "has_store E" and "lstate s = LsSecured"
    and "\<And>ys ch. SavePair \<lparr>rec_valid = True, rec_local_role = local_role (cfg E),
            rec_local_mac = local_mac s, rec_peer_mac = peer_mac s, rec_lmk = current_lmk s,
            rec_channel = ch\<rparr> \<in> set ys \<Longrightarrow> Q True (trace_update (\<lambda>tr. tr @ ys) s)"
  shows "wp (persistPair E) Q s"
  unfolding persistPair_def
  by (intro wp_intro) (use assms in \<open>auto simp: obliging_def\<close>)

lemma sent_mono [simp]: "sent E to ty c p ys \<Longrightarrow> sent E to ty c p (xs @ ys @ zs)"
  by (auto simp: sent_def)

lemma sent_append [simp]:
  "sent E to ty c p (xs @ ys) \<longleftrightarrow> sent E to ty c p xs \<or> sent E to ty c p ys"
  by (auto simp: sent_def)

lemma sent_Cons [simp]: "sent E to ty c p ys \<Longrightarrow> sent E to ty c p (x # ys)"
  by (auto simp: sent_def)

lemma length_tlv [simp]: "length (tlv tag ty v) = 4 + length v"
  by (simp add: tlv_def)

lemma makePairSeed_length:
  assumes "\<And>tr n. length (random_bytes E tr n) = n" and "\<And>seed zs. length seed = 16 \<Longrightarrow> Q seed (trace_update (\<lambda>tr. tr @ zs) s)"
  shows "wp (makePairSeed E) Q s"
  unfolding makePairSeed_def by (intro wp_intro) (auto intro!: assms)

lemma do_pair_post:
  assumes "obliging E" and "local_role (cfg E) = Master" and "lstate s \<noteq> LsPairing" and "\<not> unpair_pending s"
    and "\<And>tr n. length (random_bytes E tr n) = n"
  shows "wp (requestPair E m c) (\<lambda>r t. r \<and> lstate t = LsPairing \<and> pair_phase t = MasterWaitInitAck
      \<and> peer_mac t = m \<and> pair_corr_id t = c \<and> length (current_seed t) = 16
      \<and> local_mac t = local_mac s \<and> channel_state t = channel_state s
      \<and> deferred_unpair_cleanup t = deferred_unpair_cleanup s \<and> unpair_pending t = unpair_pending s
      \<and> pair_total_deadline_ms t = 4000
      \<and> sent E m PairInit c (the (encodePairInitPayload (current_seed t) (pairing_nonce t) 0))
          (drop (length (trace s)) (trace t))) s"
  unfolding requestPair_def
  by (intro makePairSeed_length [OF assms(5)] wp_intro)
     (use assms in \<open>auto simp: encodePairInitPayload_eq kPairTotalTimeoutMs_def\<close>)

lemma on_init_post:
  assumes "obliging E" and "local_role (cfg E) = Slave" and "lstate s = LsUnpaired"
    and "hmac_sha256 E (pmk E) (lmk_message seed m (local_mac s) n) = Some d"
  shows "wp (onPairInit E m c seed n) (\<lambda>r t. r \<and> lstate t = LsPairing \<and> pair_phase t = SlaveWaitConfirm
      \<and> peer_mac t = m \<and> pair_corr_id t = c \<and> current_seed t = seed \<and> pairing_nonce t = n
      \<and> local_mac t = local_mac s
      \<and> sent E m PairInitAck c (tlv 0x20 0x03 (appendLe32 n)) (drop (length (trace s)) (trace t))) s"
  unfolding onPairInit_def
  by (intro wp_intro)
     (use assms in \<open>auto simp: encodePairInitAckPayload_def deriveLmkFromSeed_def\<close>)

lemma on_init_ack_post:
  assumes "obliging E" and "local_role (cfg E) = Master" and "lstate s = LsPairing"
    and "pair_phase s = MasterWaitInitAck"
    and "hmac_sha256 E (pmk E) (lmk_message (current_seed s) (local_mac s) m (pairing_nonce s)) = Some d"
  shows "wp (onPairInitAck E m (pair_corr_id s) (pairing_nonce s)) (\<lambda>r t. r \<and> lstate t = LsPairing
      \<and> pair_phase t = MasterSecureGuard \<and> peer_mac t = peer_mac s \<and> pair_corr_id t = pair_corr_id s
      \<and> pairing_nonce t = pairing_nonce s \<and> current_lmk t = take 16 d
      \<and> local_mac t = local_mac s \<and> channel_state t = channel_state s
      \<and> deferred_unpair_cleanup t = deferred_unpair_cleanup s \<and> unpair_pending t = unpair_pending s
      \<and> pair_last_tick_ms t = 0 \<and> pair_deadline_ms t = 150
      \<and> pair_total_deadline_ms t = pair_total_deadline_ms s) s"
  unfolding onPairInitAck_def
  by (intro wp_intro)
     (use assms in \<open>auto simp: deriveLmkFromSeed_def kSecureGuardDelayMs_def\<close>)

lemma on_confirm_post:
  assumes "obliging E" and "has_store E" and "local_role (cfg E) = Slave" and "lstate s = LsPairing"
    and "pair_phase s = SlaveWaitConfirm"
    and "hmac_sha256 E (pmk E) (lmk_message (current_seed s) m (local_mac s) (pairing_nonce s)) = Some d"
  shows "wp (onPairConfirm E m (pair_corr_id s) (pairing_nonce s)) (\<lambda>r t. r \<and> lstate t = LsSecured
      \<and> peer_mac t = peer_mac s \<and> current_lmk t = take 16 d
      \<and> (\<exists>r. SavePair r \<in> set (drop (length (trace s)) (trace t)) \<and> rec_valid r
           \<and> rec_local_mac r = local_mac s \<and> rec_peer_mac r = peer_mac s \<and> rec_lmk r = take 16 d)
      \<and> sent E m PairConfirmAck (pair_corr_id s) (tlv 0x40 0x01 [1]) (drop (length (trace s)) (trace t))) s"
  unfolding onPairConfirm_def
  by (intro wp_persist_obliging wp_intro)
     (use assms in \<open>auto simp: deriveLmkFromSeed_def encodePairConfirmAckPayload_def\<close>)

lemma on_confirm_ack_post:
  assumes "obliging E" and "has_store E" and "local_role (cfg E) = Master" and "lstate s = LsPairing"
    and "pair_phase s = MasterWaitConfirmAck"
  shows "wp (onPairConfirmAck E m (pair_corr_id s) True) (\<lambda>r t. r \<and> lstate t = LsSecured
      \<and> peer_mac t = peer_mac s \<and> current_lmk t = current_lmk s
      \<and> (\<exists>r. SavePair r \<in> set (drop (length (trace s)) (trace t)) \<and> rec_valid r
           \<and> rec_local_mac r = local_mac s \<and> rec_peer_mac r = peer_mac s \<and> rec_lmk r = current_lmk s)) s"
  unfolding onPairConfirmAck_def
  by (intro wp_persist_obliging wp_intro) (use assms in auto)

text \<open>The two ticks of the master around the secure guard.\<close>

definition guarding :: "engine \<Rightarrow> engine \<Rightarrow> bool" where
  "guarding s t \<longleftrightarrow> lstate t = LsPairing \<and> pair_phase t = MasterSecureGuard
     \<and> peer_mac t = peer_mac s \<and> pair_corr_id t = pair_corr_id s \<and> pairing_nonce t = pairing_nonce s
     \<and> current_lmk t = current_lmk s \<and> local_mac t = local_mac s \<and> channel_state t = CsIdle
     \<and> \<not> deferred_unpair_cleanup t \<and> \<not> unpair_pending t
     \<and> pair_deadline_ms t = pair_deadline_ms s \<and> pair_total_deadline_ms t = pair_total_deadline_ms s"

lemma first_tick_post:
  assumes "local_role (cfg E) = Master" and "lstate s = LsPairing" and "pair_phase s = MasterSecureGuard"
    and "pair_last_tick_ms s = 0" and "channel_state s = CsIdle" and "\<not> deferred_unpair_cleanup s"
    and "\<not> unpair_pending s"
  shows "wp (tick E t1) (\<lambda>r t. guarding s t \<and> pair_last_tick_ms t = t1) s"
  unfolding tick_def tick_discovery_def tick_pairing_def tick_channel_def tick_unpair_def tick_deferred_def
  using assms by (simp add: wp_rules guarding_def)

lemma wp_guard_obliging:
  assumes "obliging E"
    and "\<And>ys b l ph d lt. sent E (peer_mac s) PairConfirm (pair_corr_id s)
          (tlv 0x30 0x03 (appendLe32 (pairing_nonce s))) ys \<Longrightarrow>
      Q True ((trace_update (\<lambda>tr. tr @ ys) s)\<lparr>has_time_sync_tx := b, last_time_sync_tx_ms := l,
                pair_phase := MasterWaitConfirmAck, pair_deadline_ms := kPairConfirmAckTimeoutMs,
                pair_last_tick_ms := 0\<rparr>)"
  shows "wp (guard_elapsed E) Q s"
proof -
  have "trace_update (\<lambda>tr. tr @ zs) (s\<lparr>has_time_sync_tx := b, last_time_sync_tx_ms := l,
           pair_phase := MasterWaitConfirmAck, pair_deadline_ms := kPairConfirmAckTimeoutMs,
           pair_last_tick_ms := 0\<rparr>) =
        (trace_update (\<lambda>tr. tr @ zs) s)\<lparr>has_time_sync_tx := b, last_time_sync_tx_ms := l,
           pair_phase := MasterWaitConfirmAck, pair_deadline_ms := kPairConfirmAckTimeoutMs,
           pair_last_tick_ms := 0\<rparr>" for zs b l
    by simp
  then have q: "sent E (peer_mac s) PairConfirm (pair_corr_id s)
          (tlv 0x30 0x03 (appendLe32 (pairing_nonce s))) zs \<Longrightarrow>
      Q True (trace_update (\<lambda>tr. tr @ zs) (s\<lparr>has_time_sync_tx := b, last_time_sync_tx_ms := l,
           pair_phase := MasterWaitConfirmAck, pair_deadline_ms := kPairConfirmAckTimeoutMs,
           pair_last_tick_ms := 0\<rparr>))" for zs b l
    using assms(2) [of zs l b] by (simp only:)
  show ?thesis
    unfolding guard_elapsed_def
    by (intro wp_intro) (use assms(1) in \<open>auto simp: encodePairConfirmPayload_def intro!: q\<close>)
qed

lemma guard_over_post:
  assumes "obliging E" and "guarding s0 s"
    and "pair_deadline_ms s0 \<le> t2 - pair_last_tick_ms s" and "t2 - pair_last_tick_ms s < pair_total_deadline_ms s0"
    and "pair_last_tick_ms s \<noteq> 0" and "0 < pair_deadline_ms s0"
  shows "wp (tick_pairing E t2) (\<lambda>r t. r \<and> lstate t = LsPairing \<and> pair_phase t = MasterWaitConfirmAck
      \<and> peer_mac t = peer_mac s0 \<and> pair_corr_id t = pair_corr_id s0
      \<and> current_lmk t = current_lmk s0 \<and> local_mac t = local_mac s0
      \<and> channel_state t = CsIdle \<and> \<not> deferred_unpair_cleanup t \<and> \<not> unpair_pending t
      \<and> sent E (peer_mac s0) PairConfirm (pair_corr_id s0) (tlv 0x30 0x03 (appendLe32 (pairing_nonce s0)))
          (drop (length (trace s)) (trace t))) s"
proof -
  have e: "pair_total_deadline_ms s0 \<noteq> 0" "\<not> pair_total_deadline_ms s0 \<le> t2 - pair_last_tick_ms s"
    "pair_deadline_ms s0 \<noteq> 0"
    using assms(4,6) by (auto simp: word_less_nat_alt word_le_nat_alt)
  have g: "lstate s = LsPairing" "pair_phase s = MasterSecureGuard" "peer_mac s = peer_mac s0"
    "pair_corr_id s = pair_corr_id s0" "pairing_nonce s = pairing_nonce s0"
    "current_lmk s = current_lmk s0" "local_mac s = local_mac s0" "channel_state s = CsIdle"
    "\<not> deferred_unpair_cleanup s" "\<not> unpair_pending s" "pair_deadline_ms s = pair_deadline_ms s0"
    "pair_total_deadline_ms s = pair_total_deadline_ms s0"
    using assms(2) by (simp_all add: guarding_def)
  show ?thesis
    unfolding tick_pairing_def tick_deadline_def fail_current_def
    by (intro wp_guard_obliging wp_intro) (use assms g e in auto)
qed

lemma second_tick_post:
  assumes "obliging E" and "local_role (cfg E) = Master" and "guarding s0 s"
    and "pair_deadline_ms s0 \<le> t2 - pair_last_tick_ms s" and "t2 - pair_last_tick_ms s < pair_total_deadline_ms s0"
    and "pair_last_tick_ms s \<noteq> 0" and "0 < pair_deadline_ms s0"
  shows "wp (tick E t2) (\<lambda>r t. lstate t = LsPairing \<and> pair_phase t = MasterWaitConfirmAck
      \<and> peer_mac t = peer_mac s0 \<and> pair_corr_id t = pair_corr_id s0
      \<and> current_lmk t = current_lmk s0 \<and> local_mac t = local_mac s0
      \<and> sent E (peer_mac s0) PairConfirm (pair_corr_id s0) (tlv 0x30 0x03 (appendLe32 (pairing_nonce s0)))
          (drop (length (trace s)) (trace t))) s"
proof -
  let ?s = "s\<lparr>current_now_ms := t2\<rparr>"
  have g: "guarding s0 ?s" using assms(3) by (simp add: guarding_def)
  have p: "wp (tick_pairing E t2) (\<lambda>r t. r \<and> lstate t = LsPairing \<and> pair_phase t = MasterWaitConfirmAck
      \<and> peer_mac t = peer_mac s0 \<and> pair_corr_id t = pair_corr_id s0
      \<and> current_lmk t = current_lmk s0 \<and> local_mac t = local_mac s0
      \<and> channel_state t = CsIdle \<and> \<not> deferred_unpair_cleanup t \<and> \<not> unpair_pending t
      \<and> sent E (peer_mac s0) PairConfirm (pair_corr_id s0) (tlv 0x30 0x03 (appendLe32 (pairing_nonce s0)))
          (drop (length (trace ?s)) (trace t))) ?s"
    by (rule guard_over_post [OF assms(1) g]) (use assms in simp_all)
  show ?thesis
    unfolding tick_def tick_discovery_def
    using assms(2)
    by (auto simp: wp_rules tick_channel_def tick_unpair_def tick_deferred_def intro!: wp_mono [OF p])
qed

section \<open>The handshake\<close>

text \<open>
  A node with configuration \<open>C\<close> and profile \<open>prof\<close> hears a frame as an input of its pairing
  engine: \<open>onRx\<close> queues it as the newest control frame, and routing that frame gives the input,
  whatever is in the queues, the signal strength and the time.
\<close>

definition hears :: "ManagerConfig \<Rightarrow> u8 \<Rightarrow> mac \<Rightarrow> bytes \<Rightarrow> input \<Rightarrow> bool" where
  "hears C prof frm f i \<longleftrightarrow>
     (\<forall>sink rssi s. \<exists>h p s'. onRx C sink frm f rssi s = (Dispatched h p Queued, s')
        \<and> processQueuedControlRx (local_role C) prof (last (control_rx_queue s')) = Some (ToPairing i))"

lemma received_hears:
  assumes "received_as f ty c rl p" and "is_control ty" and "ty \<noteq> Discovery"
    and "\<And>q. qc_type q = ty \<Longrightarrow> qc_from q = frm \<Longrightarrow> qc_corr_id q = c \<Longrightarrow> qc_payload q = p \<Longrightarrow>
           processQueuedControlRx (local_role C) prof q = Some (ToPairing i)"
  shows "hears C prof frm f i"
  unfolding hears_def
proof (intro allI)
  fix sink rssi s
  from assms(1,3) obtain h l where rx: "onRx C sink frm f rssi s =
      (case dispatchRxByType (local_role C) frm h p rssi (s\<lparr>rx_last_epoch_s := l\<rparr>) of
         (d, s') \<Rightarrow> (Dispatched h p d, s'))" and h: "fh_type h = ty" "fh_correlation_id h = c"
    unfolding received_as_def by blast
  let ?s = "s\<lparr>rx_last_epoch_s := l\<rparr>"
  have d: "dispatchRxByType (local_role C) frm h p rssi ?s =
      (Queued, push_control (queued_frame ?s frm h p rssi ty) ?s)"
    using assms(2) h(1) by (cases ty) (simp_all add: dispatch_defs)
  have "processQueuedControlRx (local_role C) prof
      (last (control_rx_queue (push_control (queued_frame ?s frm h p rssi ty) ?s))) = Some (ToPairing i)"
    by (rule assms(4)) (simp_all add: push_control_def push_bounded_def queued_frame_def h)
  then show "\<exists>h p s'. onRx C sink frm f rssi s = (Dispatched h p Queued, s')
      \<and> processQueuedControlRx (local_role C) prof (last (control_rx_queue s')) = Some (ToPairing i)"
    using rx d by auto
qed

lemma buf_of_tlv [simp]: "buf_of (tlv tag ty v @ r) = Some (tlv tag ty v @ r)" "buf_of (tlv tag ty v) = Some (tlv tag ty v)"
  by (simp_all add: buf_of_def tlv_def)

lemma sent_heard:
  assumes "sent E to ty c p ys" and "is_control ty" and "ty \<noteq> Discovery"
    and "\<And>q. qc_type q = ty \<Longrightarrow> qc_from q = frm \<Longrightarrow> qc_corr_id q = c \<Longrightarrow> qc_payload q = p \<Longrightarrow>
           processQueuedControlRx (local_role C) prof q = Some (ToPairing i)"
  shows "\<exists>f. TxSend to f \<in> set ys \<and> hears C prof frm f i"
  using assms(1) received_hears [OF _ assms(2-4)] by (auto simp: sent_def)

lemma after_wp: "wp (handle E i) Q s \<Longrightarrow> \<exists>r. Q r (after E i s)"
  by (auto simp: wp_def after_def split: prod.splits)

definition airs :: "env \<Rightarrow> input \<Rightarrow> engine \<Rightarrow> mac \<Rightarrow> ManagerConfig \<Rightarrow> u8 \<Rightarrow> mac \<Rightarrow> input \<Rightarrow> bool" where
  "airs E i s to C prof me j \<longleftrightarrow> (\<exists>f. TxSend to f \<in> set (actions E i s) \<and> hears C prof me f j)"

text \<open>
  C1. The pairing handshake works end to end. A master that is not pairing and an unpaired
  slave, with the same pre-shared key and environments that do what they are asked: the master
  sends a pair-init which the slave hears as one, the slave answers with an acknowledgement
  the master hears, two ticks at least 150 ms apart send the confirmation, and the slave's
  last acknowledgement completes it. Then both links are secured, each with the other as peer,
  under the same link key, and both have stored a record of it. The messages are the frames on
  the air, decoded, queued and parsed by the receiving side.
\<close>

theorem handshake_completes:
  fixes mm sm :: mac
  assumes env: "obliging EM" "obliging ES" "has_store EM" "has_store ES"
      "local_role (cfg EM) = Master" "local_role (cfg ES) = Slave"
      "hmac_sha256 ES = hmac_sha256 EM" "pmk ES = pmk EM"
    and hmac: "\<And>k m. hmac_sha256 EM k m \<noteq> None"
    and random: "\<And>tr n. length (random_bytes EM tr n) = n"
    and master: "local_mac M0 = mm" "lstate M0 \<noteq> LsPairing" "\<not> unpair_pending M0"
      "channel_state M0 = CsIdle" "\<not> deferred_unpair_cleanup M0" "pairing_inv Master M0"
    and slave: "local_mac S0 = sm" "lstate S0 = LsUnpaired"
    and ticks: "t1 \<noteq> 0" "150 \<le> t2 - t1" "t2 - t1 < 4000"
  shows "\<exists>seed n r1 r2.
    let M1 = after EM (DoPair sm c) M0;
        S1 = after ES (InPairInit mm c seed n) S0;
        M2 = after EM (InPairInitAck sm c n) M1;
        M3 = after EM (InTick t1) M2;
        M4 = after EM (InTick t2) M3;
        S2 = after ES (InPairConfirm mm c n) S1;
        M5 = after EM (InPairConfirmAck sm c True) M4
    in airs EM (DoPair sm c) M0 sm (cfg ES) prof mm (InPairInit mm c seed n)
     \<and> airs ES (InPairInit mm c seed n) S0 mm (cfg EM) prof' sm (InPairInitAck sm c n)
     \<and> airs EM (InTick t2) M3 sm (cfg ES) prof mm (InPairConfirm mm c n)
     \<and> airs ES (InPairConfirm mm c n) S1 mm (cfg EM) prof' sm (InPairConfirmAck sm c True)
     \<and> lstate M5 = LsSecured \<and> peer_mac M5 = sm
     \<and> lstate S2 = LsSecured \<and> peer_mac S2 = mm
     \<and> current_lmk M5 = current_lmk S2
     \<and> SavePair r1 \<in> set (actions EM (InPairConfirmAck sm c True) M4)
     \<and> SavePair r2 \<in> set (actions ES (InPairConfirm mm c n) S1)
     \<and> rec_peer_mac r1 = sm \<and> rec_peer_mac r2 = mm \<and> rec_lmk r1 = rec_lmk r2"
proof -
  define M1 where "M1 = after EM (DoPair sm c) M0"
  define seed where "seed = current_seed M1"
  define n where "n = pairing_nonce M1"
  obtain d where d: "hmac_sha256 EM (pmk EM) (lmk_message seed mm sm n) = Some d"
    using hmac by blast
  have inv1: "pairing_inv Master M1"
    using step_facts(1) [of EM M0 "DoPair sm c"] master(6) env(5) by (simp add: M1_def)
  have M1: "lstate M1 = LsPairing" "pair_phase M1 = MasterWaitInitAck" "peer_mac M1 = sm"
    "pair_corr_id M1 = c" "length seed = 16" "local_mac M1 = mm" "channel_state M1 = CsIdle"
    "\<not> deferred_unpair_cleanup M1" "\<not> unpair_pending M1" "pair_total_deadline_ms M1 = 4000"
    and s1: "sent EM sm PairInit c (the (encodePairInitPayload seed n 0)) (actions EM (DoPair sm c) M0)"
    using after_wp [of EM "DoPair sm c", unfolded handle.simps, OF do_pair_post [of EM M0 sm c]] env master random
    by (auto simp: M1_def seed_def n_def actions_def)
  have a1: "airs EM (DoPair sm c) M0 sm (cfg ES) prof mm (InPairInit mm c seed n)"
    unfolding airs_def
    by (rule sent_heard [OF s1])
       (use M1(5) in \<open>simp_all add: is_control_def processQueuedControlRx_def Let_def route_pair_init_def
         encodePairInitPayload_eq tlv_codec_defs profile_refused_def\<close>)
  define S1 where "S1 = after ES (InPairInit mm c seed n) S0"
  have S1: "lstate S1 = LsPairing" "pair_phase S1 = SlaveWaitConfirm" "peer_mac S1 = mm"
    "pair_corr_id S1 = c" "current_seed S1 = seed" "pairing_nonce S1 = n" "local_mac S1 = sm"
    and s2: "sent ES mm PairInitAck c (tlv 0x20 0x03 (appendLe32 n)) (actions ES (InPairInit mm c seed n) S0)"
    using after_wp [of ES "InPairInit mm c seed n", unfolded handle.simps,
        OF on_init_post [of ES S0 seed mm n d c]] env slave d
    by (auto simp: S1_def actions_def)
  have a2: "airs ES (InPairInit mm c seed n) S0 mm (cfg EM) prof' sm (InPairInitAck sm c n)"
    unfolding airs_def
    by (rule sent_heard [OF s2])
       (simp_all add: is_control_def processQueuedControlRx_def Let_def tlv_codec_defs)
  define M2 where "M2 = after EM (InPairInitAck sm c n) M1"
  have M2: "lstate M2 = LsPairing" "pair_phase M2 = MasterSecureGuard" "peer_mac M2 = sm"
    "pair_corr_id M2 = c" "pairing_nonce M2 = n" "current_lmk M2 = take 16 d" "local_mac M2 = mm"
    "channel_state M2 = CsIdle" "\<not> deferred_unpair_cleanup M2" "pair_last_tick_ms M2 = 0"
    "pair_deadline_ms M2 = 150" "pair_total_deadline_ms M2 = 4000" "\<not> unpair_pending M2"
    using after_wp [of EM "InPairInitAck sm c n", unfolded handle.simps] on_init_ack_post [of EM M1 sm d]
      env M1 d by (auto simp: M2_def n_def seed_def)
  define M3 where "M3 = after EM (InTick t1) M2"
  have M3: "guarding M2 M3" "pair_last_tick_ms M3 = t1"
    using after_wp [of EM "InTick t1", unfolded handle.simps, OF first_tick_post [of EM M2 t1]] env M2
    by (auto simp: M3_def)
  define M4 where "M4 = after EM (InTick t2) M3"
  have M4: "lstate M4 = LsPairing" "pair_phase M4 = MasterWaitConfirmAck" "peer_mac M4 = sm"
    "pair_corr_id M4 = c" "current_lmk M4 = take 16 d" "local_mac M4 = mm"
    and s3: "sent EM sm PairConfirm c (tlv 0x30 0x03 (appendLe32 n)) (actions EM (InTick t2) M3)"
    using after_wp [of EM "InTick t2", unfolded handle.simps, OF second_tick_post [of EM M2 M3 t2]] env M2 M3 ticks
    by (auto simp: M4_def actions_def)
  have a3: "airs EM (InTick t2) M3 sm (cfg ES) prof mm (InPairConfirm mm c n)"
    unfolding airs_def
    by (rule sent_heard [OF s3])
       (simp_all add: is_control_def processQueuedControlRx_def Let_def tlv_codec_defs)
  define S2 where "S2 = after ES (InPairConfirm mm c n) S1"
  obtain r2 where S2: "lstate S2 = LsSecured" "peer_mac S2 = mm" "current_lmk S2 = take 16 d"
    and r2: "SavePair r2 \<in> set (actions ES (InPairConfirm mm c n) S1)" "rec_peer_mac r2 = mm" "rec_lmk r2 = take 16 d"
    and s4: "sent ES mm PairConfirmAck c (tlv 0x40 0x01 [1]) (actions ES (InPairConfirm mm c n) S1)"
    using after_wp [of ES "InPairConfirm mm c n", unfolded handle.simps] on_confirm_post [of ES S1 mm d]
      env S1 d by (auto simp: S2_def actions_def)
  have a4: "airs ES (InPairConfirm mm c n) S1 mm (cfg EM) prof' sm (InPairConfirmAck sm c True)"
    unfolding airs_def
    by (rule sent_heard [OF s4])
       (simp_all add: is_control_def processQueuedControlRx_def Let_def tlv_codec_defs)
  define M5 where "M5 = after EM (InPairConfirmAck sm c True) M4"
  obtain r1 where M5: "lstate M5 = LsSecured" "peer_mac M5 = sm" "current_lmk M5 = take 16 d"
    and r1: "SavePair r1 \<in> set (actions EM (InPairConfirmAck sm c True) M4)" "rec_peer_mac r1 = sm" "rec_lmk r1 = take 16 d"
    using after_wp [of EM "InPairConfirmAck sm c True", unfolded handle.simps] on_confirm_ack_post [of EM M4 sm]
      env M4 by (auto simp: M5_def actions_def)
  show ?thesis
    unfolding Let_def
    by (intro exI [of _ seed] exI [of _ n] exI [of _ r1] exI [of _ r2])
       (use a1 a2 a3 a4 M5 S2 r1 r2 in \<open>simp add: M1_def [symmetric] S1_def [symmetric]
         M2_def [symmetric] M3_def [symmetric] M4_def [symmetric] S2_def [symmetric] M5_def [symmetric]\<close>)
qed

text \<open>A master and a slave as they come up, with addresses.\<close>

definition node :: "mac \<Rightarrow> engine" where
  "node m = new_engine\<lparr>local_mac := m\<rparr>"

theorem handshake_completes_witness:
  "\<exists>seed n.
    let m = Mac 1 1 1 1 1 1; s = Mac 2 2 2 2 2 2; EM = sample_env Master; ES = sample_env Slave;
        M1 = after EM (DoPair s 5) (node m);
        S1 = after ES (InPairInit m 5 seed n) (node s);
        M4 = after EM (InTick 260) (after EM (InTick 100) (after EM (InPairInitAck s 5 n) M1))
    in lstate (after EM (InPairConfirmAck s 5 True) M4) = LsSecured
     \<and> lstate (after ES (InPairConfirm m 5 n) S1) = LsSecured"
proof -
  let ?m = "Mac 1 1 1 1 1 1" and ?s = "Mac 2 2 2 2 2 2"
  have env: "obliging (sample_env Master)" "obliging (sample_env Slave)" "has_store (sample_env Master)"
    "has_store (sample_env Slave)" "local_role (cfg (sample_env Master)) = Master"
    "local_role (cfg (sample_env Slave)) = Slave"
    "hmac_sha256 (sample_env Slave) = hmac_sha256 (sample_env Master)"
    "pmk (sample_env Slave) = pmk (sample_env Master)"
    by (simp_all add: sample_env_def default_manager_config_def obliging_def)
  have hmac: "hmac_sha256 (sample_env Master) k x \<noteq> None"
    and random: "length (random_bytes (sample_env Master) tr n) = n" for k x tr n
    by simp_all
  have master: "local_mac (node ?m) = ?m" "lstate (node ?m) \<noteq> LsPairing" "\<not> unpair_pending (node ?m)"
      "channel_state (node ?m) = CsIdle" "\<not> deferred_unpair_cleanup (node ?m)"
      "pairing_inv Master (node ?m)"
    by (simp_all add: node_def new_engine_def pairing_inv_def)
  have slave: "local_mac (node ?s) = ?s" "lstate (node ?s) = LsUnpaired"
    by (simp_all add: node_def new_engine_def)
  have ticks: "(100 :: u32) \<noteq> 0" "150 \<le> (260 :: u32) - 100" "(260 :: u32) - 100 < 4000"
    by simp_all
  from handshake_completes [OF env hmac random master slave ticks, of 5 3 0, unfolded Let_def]
  have "\<exists>seed n. lstate (after (sample_env Master) (InPairConfirmAck ?s 5 True)
        (after (sample_env Master) (InTick 260) (after (sample_env Master) (InTick 100)
          (after (sample_env Master) (InPairInitAck ?s 5 n) (after (sample_env Master) (DoPair ?s 5) (node ?m)))))) = LsSecured
      \<and> lstate (after (sample_env Slave) (InPairConfirm ?m 5 n)
          (after (sample_env Slave) (InPairInit ?m 5 seed n) (node ?s))) = LsSecured"
    by blast
  then show ?thesis by (simp add: Let_def)
qed

end
