(* ===== verification/PairingProps.thy ===== *)
theory PairingProps
  imports Handshake
begin

text \<open>
  The properties of the pairing engine as a whole: its invariant, what it does to the outside,
  how a link becomes secured, that an attempt ends; and two things the code does that it does
  not mean to.
\<close>

definition fresh_engine :: "mac \<Rightarrow> u8 \<Rightarrow> engine" where
  "fresh_engine m p = new_engine\<lparr>local_mac := m, local_profile_id := p\<rparr>"

text \<open>
  C10. In every state the pairing engine can reach, with any inputs and whatever the environment
  answers: the link is pairing exactly when a pairing phase is active; the master's phases occur
  only on a master and the slave's only on a slave; while pairing, both deadlines are running,
  within the phase's timeout and 4000 ms; an unpair request is pending only on a master with a
  secured link; a channel switch in progress has a channel from 1 to 14 and a phase of the
  node's role.
\<close>

theorem pairing_states_consistent:
  assumes "(engine_step rl)\<^sup>*\<^sup>* (new_engine\<lparr>local_mac := m, local_profile_id := p\<rparr>) s"
  shows "(lstate s = LsPairing \<longleftrightarrow> pair_phase s \<noteq> PhIdle)
    \<and> (pair_phase s \<noteq> PhIdle \<longrightarrow> (rl = Slave \<longleftrightarrow> pair_phase s = SlaveWaitConfirm))
    \<and> (lstate s = LsPairing \<longrightarrow>
         0 < pair_deadline_ms s \<and> pair_deadline_ms s \<le> phase_limit (pair_phase s)
         \<and> 0 < pair_total_deadline_ms s \<and> pair_total_deadline_ms s \<le> 4000)
    \<and> (unpair_pending s \<longrightarrow> rl = Master \<and> lstate s = LsSecured)
    \<and> (channel_state s \<noteq> CsIdle \<longrightarrow> 1 \<le> pending_channel s \<and> pending_channel s \<le> 14
         \<and> (rl = Slave \<longleftrightarrow> channel_state s = SlavePrepared))"
proof -
  have "pairing_inv rl s"
    by (rule engine_machine.steps_inv [OF assms]) simp
  then show ?thesis
    by (auto simp: pairing_inv_def channel_ok_def kPairTotalTimeoutMs_def)
qed

text \<open>The slave of the samples after a pair-init.\<close>

definition waiting_slave :: engine where
  "waiting_slave = after (sample_env Slave) (InPairInit (Mac 1 1 1 1 1 1) 5 (replicate 16 1) 7) (fresh_engine (Mac 2 2 2 2 2 2) 1)"

lemma waiting_slave_reach: "(engine_step Slave)\<^sup>*\<^sup>* (fresh_engine (Mac 2 2 2 2 2 2) 1) waiting_slave"
  unfolding waiting_slave_def by (rule r_into_rtranclp, rule engine_step.intros) simp

lemma waiting_slave_facts: "lstate waiting_slave = LsPairing" "pair_phase waiting_slave = SlaveWaitConfirm"
  "pair_corr_id waiting_slave = 5" "pairing_nonce waiting_slave = 7"
  "local_mac waiting_slave = Mac 2 2 2 2 2 2" "peer_mac waiting_slave = Mac 1 1 1 1 1 1"
  "current_seed waiting_slave = replicate 16 1"
proof -
  have "wp (handle (sample_env Slave) (InPairInit (Mac 1 1 1 1 1 1) 5 (replicate 16 1) 7))
     (\<lambda>r t. r \<and> lstate t = LsPairing \<and> pair_phase t = SlaveWaitConfirm
      \<and> peer_mac t = Mac 1 1 1 1 1 1 \<and> pair_corr_id t = 5 \<and> current_seed t = replicate 16 1
      \<and> pairing_nonce t = 7 \<and> local_mac t = Mac 2 2 2 2 2 2) (fresh_engine (Mac 2 2 2 2 2 2) 1)"
    unfolding handle.simps
    by (rule wp_mono [OF on_init_post]) (auto simp: fresh_engine_def new_engine_def)
  from after_wp [OF this]
  show "lstate waiting_slave = LsPairing" "pair_phase waiting_slave = SlaveWaitConfirm"
    "pair_corr_id waiting_slave = 5" "pairing_nonce waiting_slave = 7"
    "local_mac waiting_slave = Mac 2 2 2 2 2 2" "peer_mac waiting_slave = Mac 1 1 1 1 1 1"
    "current_seed waiting_slave = replicate 16 1"
    by (simp_all add: waiting_slave_def)
qed

theorem pairing_states_consistent_witness:
  "pair_phase waiting_slave = SlaveWaitConfirm \<and> 0 < pair_deadline_ms waiting_slave
   \<and> pair_deadline_ms waiting_slave \<le> 2500"
  using pairing_states_consistent [OF waiting_slave_reach [unfolded fresh_engine_def]] waiting_slave_facts
  by (simp add: kSlavePairHoldTimeoutMs_def)

text \<open>
  C8. What a reachable engine does to the radio and the store in one step, whatever the
  environment answers. A peer is installed with a key only when the slave takes a pair-init,
  when the master gets the acknowledgement it waits for or the slave the confirmation it waits
  for, both with the right correlation id and nonce, or from a valid stored record of this
  node; the key is then the one derived from seed, both addresses and nonce, or the stored one.
  A pair record is stored only at the end of a handshake and is this node's, for its current
  peer; the radio is moved only to a channel from 1 to 14 or to a stored record's.
\<close>

theorem keys_and_records_justified:
  assumes "(engine_step (local_role (cfg E)))\<^sup>*\<^sup>* (new_engine\<lparr>local_mac := m, local_profile_id := p\<rparr>) s"
    and "a \<in> set (actions E i s)"
  shows "(\<forall>peer k. attach_of a = Some (peer, True, k) \<longrightarrow> secure_attach_ok E s i peer k)
    \<and> (\<forall>peer k. attach_of a = Some (peer, False, k) \<longrightarrow> k = None)
    \<and> (\<forall>r. a = SavePair r \<longrightarrow> save_pair_ok E s i r)
    \<and> (\<forall>c. a = SetChannel c \<longrightarrow> channel_ok c \<or> (\<exists>r. i = DoRestore r \<and> c = rec_channel r))"
proof -
  have "pairing_inv (local_role (cfg E)) s"
    by (rule engine_machine.steps_inv [OF assms(1)]) simp
  from step_facts(2) [OF this assms(2)] show ?thesis
    by (auto simp: action_ok_def attach_of_def)
qed

theorem keys_and_records_justified_witness:
  "\<exists>a k. a \<in> set (actions (sample_env Slave) (InPairConfirm (Mac 1 1 1 1 1 1) 5 7) waiting_slave)
     \<and> a = SavePair k \<and> rec_peer_mac k = Mac 1 1 1 1 1 1"
proof -
  have "wp (handle (sample_env Slave) (InPairConfirm (Mac 1 1 1 1 1 1) 5 7))
     (\<lambda>r t. \<exists>r. SavePair r \<in> set (drop (length (trace waiting_slave)) (trace t))) waiting_slave"
    using on_confirm_post [of "sample_env Slave" waiting_slave "Mac 1 1 1 1 1 1" "replicate 32 9"]
    by (auto simp: waiting_slave_facts elim!: wp_mono)
  from after_wp [OF this] obtain r where
    r: "SavePair r \<in> set (actions (sample_env Slave) (InPairConfirm (Mac 1 1 1 1 1 1) 5 7) waiting_slave)"
    by (auto simp: actions_def)
  have reach: "(engine_step (local_role (cfg (sample_env Slave))))\<^sup>*\<^sup>*
      (new_engine\<lparr>local_mac := Mac 2 2 2 2 2 2, local_profile_id := 1\<rparr>) waiting_slave"
    using waiting_slave_reach by (simp add: fresh_engine_def)
  from keys_and_records_justified [OF reach r] have "rec_peer_mac r = Mac 1 1 1 1 1 1"
    by (simp add: save_pair_ok_def waiting_slave_facts)
  with r show ?thesis by blast
qed

text \<open>
  C5. A link becomes secured in one of three ways only, from any reachable state and whatever
  the environment answers: the slave in its waiting phase gets a confirmation with the
  correlation id and the nonce of the current attempt, or the master in its last phase a
  positive acknowledgement with the correlation id, and in both cases a pair record is
  written; or a valid stored record of this node is restored. A wrong nonce, correlation id,
  phase or role never gives a secured link.
\<close>

theorem secured_only_by_handshake:
  assumes "(engine_step (local_role (cfg E)))\<^sup>*\<^sup>* (new_engine\<lparr>local_mac := m, local_profile_id := p\<rparr>) s"
    and "\<not> isPaired s" and "isPaired (after E i s)"
  shows "(\<exists>from. i = InPairConfirm from (pair_corr_id s) (pairing_nonce s)
            \<and> local_role (cfg E) = Slave \<and> pair_phase s = SlaveWaitConfirm
            \<and> (\<exists>r. SavePair r \<in> set (actions E i s)))
       \<or> (\<exists>from. i = InPairConfirmAck from (pair_corr_id s) True
            \<and> local_role (cfg E) = Master \<and> pair_phase s = MasterWaitConfirmAck
            \<and> (\<exists>r. SavePair r \<in> set (actions E i s)))
       \<or> (\<exists>r. i = DoRestore r \<and> rec_valid r \<and> rec_local_role r = local_role (cfg E)
            \<and> rec_local_mac r = local_mac s)"
proof -
  have "pairing_inv (local_role (cfg E)) s"
    by (rule engine_machine.steps_inv [OF assms(1)]) simp
  from step_facts(3) [OF this, of i] assms(2,3) show ?thesis
    by (cases i) (auto simp: isPaired_def secured_ok_def)
qed

theorem secured_only_by_handshake_witness:
  "isPaired (after (sample_env Slave) (InPairConfirm (Mac 1 1 1 1 1 1) 5 7) waiting_slave)
   \<and> \<not> isPaired (after (sample_env Slave) (InPairConfirm (Mac 1 1 1 1 1 1) 5 8) waiting_slave)"
proof
  have "wp (handle (sample_env Slave) (InPairConfirm (Mac 1 1 1 1 1 1) 5 7))
     (\<lambda>r t. lstate t = LsSecured) waiting_slave"
    using on_confirm_post [of "sample_env Slave" waiting_slave "Mac 1 1 1 1 1 1" "replicate 32 9"]
    by (auto simp: waiting_slave_facts elim!: wp_mono)
  from after_wp [OF this]
  show "isPaired (after (sample_env Slave) (InPairConfirm (Mac 1 1 1 1 1 1) 5 7) waiting_slave)"
    by (simp add: isPaired_def)
  have reach: "(engine_step (local_role (cfg (sample_env Slave))))\<^sup>*\<^sup>*
      (new_engine\<lparr>local_mac := Mac 2 2 2 2 2 2, local_profile_id := 1\<rparr>) waiting_slave"
    using waiting_slave_reach by (simp add: fresh_engine_def)
  show "\<not> isPaired (after (sample_env Slave) (InPairConfirm (Mac 1 1 1 1 1 1) 5 8) waiting_slave)"
    using secured_only_by_handshake [OF reach, of "InPairConfirm (Mac 1 1 1 1 1 1) 5 8"]
    by (auto simp: isPaired_def waiting_slave_facts)
qed

text \<open>The timeouts at work on that slave: six ticks, 1000 ms apart.\<close>

theorem pairing_attempt_ends_witness:
  "lstate waiting_slave = LsPairing
   \<and> lstate (run_ticks (map (\<lambda>t. (sample_env Slave, t)) [1000, 2000, 3000, 4000, 5000, 6000]) waiting_slave)
     \<noteq> LsPairing"
proof
  have "wp (handle (sample_env Slave) (InPairInit (Mac 1 1 1 1 1 1) 5 (replicate 16 1) 7))
     (\<lambda>r t. pair_last_tick_ms t = 0) (fresh_engine (Mac 2 2 2 2 2 2) 1)"
    unfolding handle.simps onPairInit_def fresh_engine_def new_engine_def
    by (intro wp_intro) (auto simp: encodePairInitAckPayload_def deriveLmkFromSeed_def)
  from after_wp [OF this] have "pair_last_tick_ms waiting_slave = 0"
    by (simp add: waiting_slave_def)
  then show "lstate (run_ticks (map (\<lambda>t. (sample_env Slave, t)) [1000, 2000, 3000, 4000, 5000, 6000]) waiting_slave)
     \<noteq> LsPairing"
    using pairing_attempt_ends [OF waiting_slave_reach [unfolded fresh_engine_def], of 0
        "map (\<lambda>t. (sample_env Slave, t)) [1000, 2000, 3000, 4000, 5000, 6000]" 1000]
    by simp
qed (rule waiting_slave_facts)

section \<open>Two things the code does not mean\<close>

text \<open>
  C39. The slave does not compare the sender of a pair-confirm with the peer it is pairing with.
  If another node sends one with the right correlation id and nonce, and everything succeeds,
  the link is secured and a record is stored for the original peer, but with a key derived for
  the other node's address, and it is the other node's radio entry that gets the key. The
  stored link is then unusable with its peer.
\<close>

theorem confirm_from_other_peer:
  assumes "obliging E" and "has_store E" and "local_role (cfg E) = Slave"
    and "lstate s = LsPairing" and "pair_phase s = SlaveWaitConfirm" and "other \<noteq> peer_mac s"
    and "hmac_sha256 E (pmk E) (lmk_message (current_seed s) other (local_mac s) (pairing_nonce s)) = Some d"
  shows "\<exists>r a. SavePair r \<in> set (actions E (InPairConfirm other (pair_corr_id s) (pairing_nonce s)) s)
    \<and> isPaired (after E (InPairConfirm other (pair_corr_id s) (pairing_nonce s)) s)
    \<and> rec_peer_mac r = peer_mac s \<and> rec_lmk r = take 16 d
    \<and> a \<in> set (actions E (InPairConfirm other (pair_corr_id s) (pairing_nonce s)) s)
    \<and> attach_of a = Some (other, True, Some (take 16 d))"
proof -
  have "wp (onPairConfirm E other (pair_corr_id s) (pairing_nonce s)) (\<lambda>r t. lstate t = LsSecured
      \<and> (\<exists>r a. SavePair r \<in> set (drop (length (trace s)) (trace t)) \<and> rec_peer_mac r = peer_mac s
          \<and> rec_lmk r = take 16 d \<and> a \<in> set (drop (length (trace s)) (trace t))
          \<and> attach_of a = Some (other, True, Some (take 16 d)))) s"
    unfolding onPairConfirm_def
    by (intro wp_persist_obliging wp_intro)
       (use assms in \<open>auto simp: deriveLmkFromSeed_def encodePairConfirmAckPayload_def\<close>)
  then have "wp (handle E (InPairConfirm other (pair_corr_id s) (pairing_nonce s))) (\<lambda>r t. lstate t = LsSecured
      \<and> (\<exists>r a. SavePair r \<in> set (drop (length (trace s)) (trace t)) \<and> rec_peer_mac r = peer_mac s
          \<and> rec_lmk r = take 16 d \<and> a \<in> set (drop (length (trace s)) (trace t))
          \<and> attach_of a = Some (other, True, Some (take 16 d)))) s"
    by simp
  from after_wp [OF this] show ?thesis
    by (auto simp: isPaired_def actions_def)
qed

theorem confirm_from_other_peer_witness:
  "\<exists>r. SavePair r \<in> set (actions (sample_env Slave) (InPairConfirm (Mac 3 3 3 3 3 3) 5 7) waiting_slave)
     \<and> rec_peer_mac r = Mac 1 1 1 1 1 1"
  using confirm_from_other_peer [of "sample_env Slave" waiting_slave "Mac 3 3 3 3 3 3" "replicate 32 9"]
  by (auto simp: waiting_slave_facts)

text \<open>
  The teardown after a granted unpair request resets the engine before it reports. So the
  report never names the peer or the request: it always carries the zero address and
  correlation id 0, whatever peer was unpaired.
\<close>

lemma unpaired_report_is_blank:
  assumes "OnEvent PairingStep peer c ''unpaired by request'' \<in>
      set (drop (length (trace s)) (trace (snd (run_state (tick_deferred E now) s))))"
  shows "peer = zeroMac \<and> c = 0"
proof -
  have "wp (tick_deferred E now) (\<lambda>_ t. \<forall>peer c. OnEvent PairingStep peer c ''unpaired by request''
      \<in> set (drop (length (trace s)) (trace t)) \<longrightarrow> peer = zeroMac \<and> c = 0) s"
    unfolding tick_deferred_def erase_link_def evictPeer_def ask_def note_action_def emit_def
      blink_of_def setPaired_def resetPairing_def
    by (simp add: wp_rules Let_def split: option.split)
  then show ?thesis using assms by (auto simp: wp_def split: prod.splits)
qed

end
