(* ===== verification/Text.thy ===== *)
theory Text
  imports Prelude "HOL-Library.Char_ord"
begin

text \<open>
  Characters and hash constants that the components share: the digits \<open>printf\<close> writes, a number in
  them, strings as the bytes they are stored as, and the constants of the 32-bit FNV-1a hash.
\<close>

definition digit_char :: "nat \<Rightarrow> char" where
  "digit_char d = char_of (if d < 10 then 48 + d else 55 + d)"

text \<open>A number in base \<open>b\<close> as \<open>printf\<close> writes it, upper case, without leading zeros.\<close>

fun digits :: "nat \<Rightarrow> nat \<Rightarrow> string" where
  "digits b n = (if n < b \<or> b < 2 then [digit_char n] else digits b (n div b) @ [digit_char (n mod b)])"

declare digits.simps [simp del]

definition char_byte :: "char \<Rightarrow> u8" where
  "char_byte c = of_nat (of_char c)"

definition kFnvOffset :: u32 where "kFnvOffset = 2166136261"
definition kFnvPrime :: u32 where "kFnvPrime = 16777619"

text \<open>A string as the bytes of its characters, and back.\<close>

definition string_bytes :: "string \<Rightarrow> bytes" where
  "string_bytes s = map char_byte s"

definition string_of_bytes :: "bytes \<Rightarrow> string" where
  "string_of_bytes bs = map (\<lambda>b. char_of (unat b)) bs"

lemma string_of_string_bytes: "string_of_bytes (string_bytes s) = s"
proof -
  have "char_of (unat (char_byte c)) = c" for c
  proof -
    have "(of_char c :: nat) < 256" by (metis of_char_mod_256 mod_less_divisor zero_less_numeral)
    then have "unat (char_byte c) = of_char c" by (simp add: char_byte_def unat_of_nat take_bit_nat_eq_self)
    then show ?thesis by simp
  qed
  then show ?thesis by (simp add: string_of_bytes_def string_bytes_def map_idI)
qed

lemma length_string_bytes [simp]: "length (string_bytes s) = length s"
  by (simp add: string_bytes_def)

text \<open>One step of the hash.\<close>

definition hashByte :: "u32 \<Rightarrow> u8 \<Rightarrow> u32" where
  "hashByte h b = (h XOR ucast b) * kFnvPrime"

end
