(* ===== verification/OtaManager.thy ===== *)
theory OtaManager
  imports Text
begin

text \<open>
  The OTA receive and apply state machine, \<open>src/ota/ota_manager.cpp\<close>, for the Arduino build
  (the PSRAM pool exists only there). The state is the members of \<open>OtaManager\<close> and the trace
  of its calls on the objects behind its pointers: storage backend, update gate, apply executor,
  clock and heap. What they answer is a parameter that may depend on the trace so far. A method
  is a program of the state monad; a method with an \<open>out_message\<close> returns it with its result.
\<close>

section \<open>Data\<close>

datatype OtaStatusCode =
    OtaOk | StorageNotReady | GateDenied | GateBusy | GatePrepFailed | ImageTooLarge
  | InvalidState | InvalidArgument | OffsetMismatch | SizeMismatch | CrcMismatch
  | ApplyRejected | ApplyFailed | OtaTimeout | InternalError

datatype OtaTransferState = OtaIdle | Receiving | OtaReady | Applying | OtaFailed

datatype OtaGateDecision = GdReady | GdDenied | GdBusy | GdPrepFailed

record OtaRuntimeStatus =
  st_state :: OtaTransferState
  st_code :: OtaStatusCode
  st_expected_size :: u32
  st_received_size :: u32
  st_expected_crc32 :: u32
  st_actual_crc32 :: u32
  st_temp_path :: string
  st_image_path :: string
  st_persistent_state :: string
  st_persistent_epoch_s :: u32
  st_boot_report_pending :: bool
  st_confirmed_sw_version :: string
  st_confirmed_build_id :: string
  st_message :: string

record FirmwareImageMetadata =
  sw_version :: string
  build_id :: string
  target_role :: string

record OtaManagerConfig =
  root_path :: string
  in_dir :: string
  stg_dir :: string
  img_dir :: string
  man_dir :: string
  st_dir :: string
  max_firmware_bytes :: u32
  receive_timeout_s :: u32
  psram_required :: bool

record PersistentStatusRecord =
  pr_state :: string
  pr_epoch_s :: u32
  pr_boot_report_pending :: bool
  pr_image_path :: string
  pr_image_size :: u32
  pr_image_crc32 :: u32
  pr_confirmed_sw_version :: string
  pr_confirmed_build_id :: string

record ReceiveSession =
  rs_active :: bool
  rs_from :: mac
  rs_corr_id :: u32
  rs_expected_size :: u32
  rs_expected_crc32 :: u32
  rs_chunk_size :: u32
  rs_received_size :: u32
  rs_unique_received_size :: u32
  rs_running_crc32 :: u32
  rs_last_activity_epoch_s :: u32
  rs_temp_path :: string
  rs_final_path :: string
  rs_chunk_bitmap :: bytes
  rs_chunk_count :: u32

definition no_metadata :: FirmwareImageMetadata where
  "no_metadata = \<lparr>sw_version = [], build_id = [], target_role = []\<rparr>"

definition new_record :: PersistentStatusRecord where
  "new_record = \<lparr>pr_state = ''none'', pr_epoch_s = 0, pr_boot_report_pending = False,
     pr_image_path = [], pr_image_size = 0, pr_image_crc32 = 0, pr_confirmed_sw_version = [],
     pr_confirmed_build_id = []\<rparr>"

definition new_session :: ReceiveSession where
  "new_session = \<lparr>rs_active = False, rs_from = zeroMac, rs_corr_id = 0, rs_expected_size = 0,
     rs_expected_crc32 = 0, rs_chunk_size = 0, rs_received_size = 0, rs_unique_received_size = 0,
     rs_running_crc32 = 0xFFFFFFFF, rs_last_activity_epoch_s = 0, rs_temp_path = [],
     rs_final_path = [], rs_chunk_bitmap = [], rs_chunk_count = 0\<rparr>"

definition new_status :: OtaRuntimeStatus where
  "new_status = \<lparr>st_state = OtaIdle, st_code = OtaOk, st_expected_size = 0, st_received_size = 0,
     st_expected_crc32 = 0, st_actual_crc32 = 0, st_temp_path = [], st_image_path = [],
     st_persistent_state = [], st_persistent_epoch_s = 0, st_boot_report_pending = False,
     st_confirmed_sw_version = [], st_confirmed_build_id = [], st_message = []\<rparr>"

text \<open>The paths of \<open>ota_paths.hpp\<close> are the defaults of the configuration.\<close>

definition default_config :: OtaManagerConfig where
  "default_config = \<lparr>root_path = ''/o'', in_dir = ''/o/in'', stg_dir = ''/o/s'', img_dir = ''/o/r'',
     man_dir = ''/o/m'', st_dir = ''/o/st'', max_firmware_bytes = 0, receive_timeout_s = 12,
     psram_required = True\<rparr>"

section \<open>Calls on the environment\<close>

record OtaStorageStat =
  ss_exists :: bool
  ss_is_dir :: bool
  ss_size_bytes :: u32

datatype ota_call =
    StorageBegin
  | EnsureDir string
  | StatPath string
  | ListDir string
  | TruncateFile string
  | RemovePath string
  | RenamePath string string
  | WriteAt string u32 bytes
  | ReadAt string u32 nat
  | PrepareForTransfer u32 u32 "FirmwareImageMetadata option"
  | PrepareForApply string u32 u32
  | ConfirmBootedImage string u32 u32 string string
  | ExecApplyImage string u32 u32
  | ExecRollbackImage
  | TimeNow
  | PsramFound
  | LargestFreeBlock
  | HeapMalloc nat
  | HeapFree

text \<open>
  The answers: result and message of a storage or executor call, what \<open>stat\<close>, \<open>listDir\<close> and
  \<open>readAt\<close> deliver, the gate's decision, the clock (a signed \<open>time_t\<close>), the heap (whether an
  allocation succeeds and what the fresh bytes hold).
\<close>

record ota_env =
  reply :: "ota_call list \<Rightarrow> ota_call \<Rightarrow> bool \<times> string"
  stat_of :: "ota_call list \<Rightarrow> string \<Rightarrow> OtaStorageStat"
  names_of :: "ota_call list \<Rightarrow> string \<Rightarrow> string list"
  data_of :: "ota_call list \<Rightarrow> string \<Rightarrow> bytes"
  gate_of :: "ota_call list \<Rightarrow> ota_call \<Rightarrow> OtaGateDecision \<times> string"
  time_of :: "ota_call list \<Rightarrow> int"
  psram_found :: bool
  largest_block :: "ota_call list \<Rightarrow> nat"
  malloc_ok :: "ota_call list \<Rightarrow> nat \<Rightarrow> bool"
  heap_byte :: "ota_call list \<Rightarrow> nat \<Rightarrow> u8"

record ota =
  o_config :: OtaManagerConfig
  o_gate :: bool
  o_apply_executor :: bool
  o_receive :: ReceiveSession
  o_receive_meta :: FirmwareImageMetadata
  o_status :: OtaRuntimeStatus
  o_psram_pool :: "bytes option"
  o_psram_pool_size :: u32
  o_calls :: "ota_call list"

type_synonym 'a otam = "(ota, 'a) state"
type_synonym verdict = "bool \<times> string"

definition call :: "ota_call \<Rightarrow> ota_call list otam" where
  "call c = do { tr \<leftarrow> gets o_calls; _ \<leftarrow> modify (\<lambda>s. s\<lparr>o_calls := tr @ [c]\<rparr>); ret tr }"

definition store :: "ota_env \<Rightarrow> ota_call \<Rightarrow> verdict otam" where
  "store E c = do { tr \<leftarrow> call c; ret (reply E tr c) }"

definition ask_gate :: "ota_env \<Rightarrow> ota_call \<Rightarrow> (OtaGateDecision \<times> string) otam" where
  "ask_gate E c = do { tr \<leftarrow> call c; ret (gate_of E tr c) }"

text \<open>A default message where the callee left none.\<close>

definition or_text :: "string \<Rightarrow> string \<Rightarrow> string" where
  "or_text msg dflt = (if msg = [] then dflt else msg)"

definition ota_nowEpochSec :: "ota_env \<Rightarrow> u32 otam" where
  "ota_nowEpochSec E = do {
     tr \<leftarrow> call TimeNow;
     let now = time_of E tr;
     ret (if now \<le> 0 then 0 else of_int now) }"

section \<open>Strings and paths\<close>

definition normalize_strip :: "string \<Rightarrow> string" where
  "normalize_strip p = rev ((\<lambda>r. case dropWhile (\<lambda>c. c = CHR ''/'') r of
       [] \<Rightarrow> ''/'' | r' \<Rightarrow> r') (rev p))"

definition normalizeDir :: "string \<Rightarrow> string" where
  "normalizeDir path =
     (if path = [] then ''/''
      else normalize_strip (if hd path \<noteq> CHR ''/'' then CHR ''/'' # path else path))"

definition joinPath :: "string \<Rightarrow> string \<Rightarrow> string" where
  "joinPath base name =
     (if base = [] \<or> base = ''/'' then ''/'' @ name else base @ ''/'' @ name)"

text \<open>The text after the last slash; the whole path if there is none or it is the last byte.\<close>

definition fileNameFromPath :: "string \<Rightarrow> string" where
  "fileNameFromPath path =
     (let name = rev (takeWhile (\<lambda>c. c \<noteq> CHR ''/'') (rev path))
      in if name = [] then path else name)"

definition hashFileId :: "string \<Rightarrow> u32" where
  "hashFileId name = foldl (\<lambda>h c. (h XOR ucast (char_byte c)) * kFnvPrime) kFnvOffset name"

definition manifestNameForImage :: "string \<Rightarrow> string" where
  "manifestNameForImage file_name = ''m'' @ digits 16 (unat (hashFileId file_name))"

section \<open>CRC-32\<close>

definition kCrc32Poly :: u32 where "kCrc32Poly = 0xEDB88320"

definition crc32_bit :: "u32 \<Rightarrow> u32" where
  "crc32_bit crc = (let mask = - (crc AND 1) in drop_bit 1 crc XOR (kCrc32Poly AND mask))"

definition crc32_byte :: "u32 \<Rightarrow> u8 \<Rightarrow> u32" where
  "crc32_byte crc b = (crc32_bit ^^ 8) (crc XOR ucast b)"

definition crc32Update :: "u32 \<Rightarrow> bytes \<Rightarrow> u32" where
  "crc32Update running_crc data = foldl crc32_byte running_crc data"

definition crc32Finalize :: "u32 \<Rightarrow> u32" where
  "crc32Finalize running_crc = NOT running_crc"

definition crc32 :: "bytes \<Rightarrow> u32" where
  "crc32 data = crc32Finalize (crc32Update 0xFFFFFFFF data)"


section \<open>Results\<close>

definition set_status :: "(OtaRuntimeStatus \<Rightarrow> OtaRuntimeStatus) \<Rightarrow> unit otam" where
  "set_status f = modify (\<lambda>s. s\<lparr>o_status := f (o_status s)\<rparr>)"

definition fail_ota :: "OtaStatusCode \<Rightarrow> string \<Rightarrow> verdict otam" where
  "fail_ota code message = do {
     _ \<leftarrow> set_status (\<lambda>st. st\<lparr>st_code := code, st_state := OtaFailed, st_message := message\<rparr>);
     ret (False, message) }"

definition setOk :: "string \<Rightarrow> string otam" where
  "setOk message = do {
     _ \<leftarrow> set_status (\<lambda>st. st\<lparr>st_code := OtaOk, st_message := message\<rparr>);
     ret message }"

definition validateSession :: "mac \<Rightarrow> u32 \<Rightarrow> ReceiveSession \<Rightarrow> string option" where
  "validateSession from corr_id r =
     (if \<not> rs_active r then Some ''ota no active transfer''
      else if rs_corr_id r \<noteq> corr_id \<or> rs_from r \<noteq> from then Some ''ota transfer context mismatch''
      else None)"

definition clear_session :: "unit otam" where
  "clear_session = modify (\<lambda>s. s\<lparr>o_receive := new_session, o_receive_meta := no_metadata\<rparr>)"

definition fail_session :: "OtaStatusCode \<Rightarrow> string \<Rightarrow> verdict otam" where
  "fail_session code message = do { _ \<leftarrow> clear_session; fail_ota code message }"

definition gateDecisionMessage :: "OtaGateDecision \<Rightarrow> string" where
  "gateDecisionMessage d = (case d of GdReady \<Rightarrow> ''ready'' | GdDenied \<Rightarrow> ''denied''
     | GdBusy \<Rightarrow> ''busy'' | GdPrepFailed \<Rightarrow> ''prep_failed'')"

definition gate_code :: "OtaGateDecision \<Rightarrow> OtaStatusCode" where
  "gate_code d = (if d = GdBusy then GateBusy else if d = GdPrepFailed then GatePrepFailed
     else GateDenied)"

text \<open>
  The gate, where there is one: \<open>None\<close> lets the operation go on, otherwise the code and the
  message it is refused with.
\<close>

definition gate_check :: "ota_env \<Rightarrow> ota_call \<Rightarrow> (OtaStatusCode \<times> string) option otam" where
  "gate_check E c = do {
     g \<leftarrow> gets o_gate;
     if \<not> g then ret None
     else do {
       (d, msg) \<leftarrow> ask_gate E c;
       ret (if d = GdReady then None else Some (gate_code d, or_text msg (gateDecisionMessage d))) } }"

section \<open>Folders and the memory pool\<close>

fun ensure_all :: "ota_env \<Rightarrow> string list \<Rightarrow> verdict otam" where
  "ensure_all E [] = ret (True, ''ok'')"
| "ensure_all E (d # ds) = do {
     (ok, msg) \<leftarrow> store E (EnsureDir d);
     if \<not> ok then ret (False, msg) else ensure_all E ds }"

definition ensureFolders :: "ota_env \<Rightarrow> verdict otam" where
  "ensureFolders E = do {
     c \<leftarrow> gets o_config;
     ensure_all E [root_path c, in_dir c, stg_dir c, img_dir c, man_dir c, st_dir c] }"

fun remove_all :: "ota_env \<Rightarrow> string \<Rightarrow> string list \<Rightarrow> verdict otam" where
  "remove_all E dir [] = ret (True, ''ok'')"
| "remove_all E dir (n # ns) =
     (if n = [] \<or> n = ''.'' \<or> n = ''..'' then remove_all E dir ns
      else do {
        (ok, msg) \<leftarrow> store E (RemovePath (joinPath dir n));
        if \<not> ok then ret (False, or_text msg ''remove failed'') else remove_all E dir ns })"

definition clearDirContents :: "ota_env \<Rightarrow> string \<Rightarrow> verdict otam" where
  "clearDirContents E dir = do {
     tr \<leftarrow> call (ListDir dir);
     let (ok, msg) = reply E tr (ListDir dir);
     if \<not> ok then ret (False, or_text msg ''list failed'') else remove_all E dir (names_of E tr dir) }"

definition releasePsramPool :: "unit otam" where
  "releasePsramPool = do {
     p \<leftarrow> gets o_psram_pool;
     _ \<leftarrow> whenM (p \<noteq> None) (do { _ \<leftarrow> call HeapFree; ret () });
     modify (\<lambda>s. s\<lparr>o_psram_pool := None, o_psram_pool_size := 0\<rparr>) }"

definition alloc_pool :: "ota_env \<Rightarrow> u32 \<Rightarrow> verdict otam" where
  "alloc_pool E n = do {
     tr \<leftarrow> call (HeapMalloc (unat n));
     if \<not> malloc_ok E tr (unat n) then ret (False, ''psram allocation failed'')
     else do {
       _ \<leftarrow> modify (\<lambda>s. s\<lparr>o_psram_pool := Some (map (heap_byte E tr) [0..<unat n]),
                         o_psram_pool_size := n\<rparr>);
       ret (True, ''ok'') } }"

definition ensurePsramPool :: "ota_env \<Rightarrow> verdict otam" where
  "ensurePsramPool E = do {
     s \<leftarrow> gets id;
     let maxb = max_firmware_bytes (o_config s);
     if maxb = 0 then ret (False, ''ota max_firmware_bytes not configured'')
     else if o_psram_pool s \<noteq> None \<and> o_psram_pool_size s = maxb then ret (True, ''ok'')
     else do {
       _ \<leftarrow> releasePsramPool;
       found \<leftarrow> (if psram_required (o_config s) then do { _ \<leftarrow> call PsramFound; ret (psram_found E) }
                else ret True);
       if \<not> found then ret (False, ''psram required but not available'')
       else do {
         tr \<leftarrow> call LargestFreeBlock;
         if largest_block E tr < unat maxb then ret (False, ''psram free block too small'')
         else alloc_pool E maxb } } }"

definition setMaxFirmwareBytes :: "u32 \<Rightarrow> unit otam" where
  "setMaxFirmwareBytes max_bytes = do {
     c \<leftarrow> gets o_config;
     _ \<leftarrow> whenM (max_firmware_bytes c \<noteq> max_bytes) releasePsramPool;
     modify (\<lambda>s. s\<lparr>o_config := (o_config s)\<lparr>max_firmware_bytes := max_bytes\<rparr>\<rparr>) }"

section \<open>Chunks\<close>

definition markChunkReceived :: "u32 \<Rightarrow> ReceiveSession \<Rightarrow> bool \<times> ReceiveSession" where
  "markChunkReceived chunk_index r =
     (if chunk_index \<ge> rs_chunk_count r then (False, r)
      else let byte_index = unat (drop_bit 3 chunk_index);
               bit_mask = (ucast (push_bit (unat (chunk_index AND 7)) (1 :: u32)) :: u8)
           in if byte_index \<ge> length (rs_chunk_bitmap r) then (False, r)
              else (True, r\<lparr>rs_chunk_bitmap := (rs_chunk_bitmap r)
                     [byte_index := rs_chunk_bitmap r ! byte_index OR bit_mask]\<rparr>))"

definition isChunkReceived :: "u32 \<Rightarrow> ReceiveSession \<Rightarrow> bool" where
  "isChunkReceived chunk_index r =
     (if chunk_index \<ge> rs_chunk_count r then False
      else let byte_index = unat (drop_bit 3 chunk_index);
               bit_mask = (ucast (push_bit (unat (chunk_index AND 7)) (1 :: u32)) :: u8)
           in if byte_index \<ge> length (rs_chunk_bitmap r) then False
              else rs_chunk_bitmap r ! byte_index AND bit_mask \<noteq> 0)"

definition chunkSizeAt :: "u32 \<Rightarrow> ReceiveSession \<Rightarrow> u32" where
  "chunkSizeAt chunk_index r =
     (if chunk_index \<ge> rs_chunk_count r \<or> rs_chunk_size r = 0 then 0
      else if chunk_index + 1 < rs_chunk_count r then rs_chunk_size r
      else let used = chunk_index * rs_chunk_size r in rs_expected_size r - used)"

text \<open>
  The loop over the contiguous prefix, with fuel; \<open>None\<close> stands for a loop that needs more
  rounds. One round per chunk and one for the exit are enough in any session that
  \<open>beginReceive\<close> opened (\<open>refresh_loop_returns\<close> of theory \<open>OtaTransfer\<close>).
\<close>

fun refresh_loop :: "nat \<Rightarrow> ReceiveSession \<Rightarrow> u32 \<Rightarrow> u32 option" where
  "refresh_loop 0 r contiguous = None"
| "refresh_loop (Suc fuel) r contiguous =
     (if \<not> contiguous < rs_expected_size r then Some contiguous
      else let chunk_index = contiguous div rs_chunk_size r
           in if \<not> isChunkReceived chunk_index r then Some contiguous
              else let n = chunkSizeAt chunk_index r
                   in if n = 0 then Some contiguous else refresh_loop fuel r (contiguous + n))"

definition refreshContiguousReceived :: "ReceiveSession \<Rightarrow> ReceiveSession option" where
  "refreshContiguousReceived r =
     (if rs_chunk_size r = 0 then Some (r\<lparr>rs_received_size := 0\<rparr>)
      else case refresh_loop (Suc (unat (rs_chunk_count r))) r (rs_received_size r) of
             None \<Rightarrow> None
           | Some c \<Rightarrow> Some (r\<lparr>rs_received_size := c\<rparr>))"

definition expireReceiveIfStale :: "ota_env \<Rightarrow> unit otam" where
  "expireReceiveIfStale E = do {
     s \<leftarrow> gets id;
     let r = o_receive s;
     if \<not> rs_active r then ret ()
     else if receive_timeout_s (o_config s) = 0 then ret ()
     else do {
       now_s \<leftarrow> ota_nowEpochSec E;
       if now_s = 0 \<or> rs_last_activity_epoch_s r = 0 then ret ()
       else do {
         let elapsed = (if now_s \<ge> rs_last_activity_epoch_s r then now_s - rs_last_activity_epoch_s r
                        else 0);
         if elapsed < receive_timeout_s (o_config s) then ret ()
         else do {
           _ \<leftarrow> store E (RemovePath (rs_temp_path r));
           _ \<leftarrow> clear_session;
           set_status (\<lambda>st. st\<lparr>st_state := OtaFailed, st_code := OtaTimeout,
             st_message := ''ota transfer timeout''\<rparr>) } } } }"

definition contiguousReceiveSize :: "ota \<Rightarrow> u32" where
  "contiguousReceiveSize s = (if rs_active (o_receive s) then rs_received_size (o_receive s) else 0)"

section \<open>Receiving an image\<close>

definition abort_text :: string where "abort_text = ''ota transfer aborted''"

text \<open>What both aborts do once the session is theirs to abort.\<close>

definition drop_session :: "ota_env \<Rightarrow> string otam" where
  "drop_session E = do {
     r \<leftarrow> gets o_receive;
     _ \<leftarrow> store E (RemovePath (rs_temp_path r));
     _ \<leftarrow> clear_session;
     _ \<leftarrow> set_status (\<lambda>st. st\<lparr>st_state := OtaFailed, st_code := InvalidState,
            st_message := abort_text\<rparr>);
     ret abort_text }"

definition abortReceive :: "ota_env \<Rightarrow> mac \<Rightarrow> u32 \<Rightarrow> string otam" where
  "abortReceive E from corr_id = do {
     r \<leftarrow> gets o_receive;
     if \<not> rs_active r \<or> rs_from r \<noteq> from \<or> rs_corr_id r \<noteq> corr_id then ret ''ota no active transfer''
     else drop_session E }"

definition abortActiveReceive :: "ota_env \<Rightarrow> string otam" where
  "abortActiveReceive E = do {
     r \<leftarrow> gets o_receive;
     if \<not> rs_active r then ret ''ota no active transfer'' else drop_session E }"

definition fresh_session ::
  "OtaManagerConfig \<Rightarrow> mac \<Rightarrow> u32 \<Rightarrow> u32 \<Rightarrow> u32 \<Rightarrow> u32 \<Rightarrow> u32 \<Rightarrow> ReceiveSession" where
  "fresh_session c from corr_id total_size chunk_size image_crc32 now =
     (let count = (total_size + chunk_size - 1) div chunk_size in
      new_session\<lparr>rs_active := True, rs_from := from, rs_corr_id := corr_id,
        rs_expected_size := total_size, rs_expected_crc32 := image_crc32,
        rs_chunk_size := chunk_size, rs_received_size := 0, rs_unique_received_size := 0,
        rs_running_crc32 := 0xFFFFFFFF, rs_last_activity_epoch_s := now,
        rs_chunk_count := count,
        rs_chunk_bitmap := replicate (unat ((count + 7) div 8)) 0,
        rs_temp_path := joinPath (in_dir c) ''u.tmp'',
        rs_final_path := joinPath (img_dir c) ''u.bin''\<rparr>)"

definition open_session ::
  "ota_env \<Rightarrow> mac \<Rightarrow> u32 \<Rightarrow> u32 \<Rightarrow> u32 \<Rightarrow> u32 \<Rightarrow> FirmwareImageMetadata option \<Rightarrow> verdict otam" where
  "open_session E from corr_id total_size chunk_size image_crc32 metadata = do {
     r \<leftarrow> gets o_receive;
     _ \<leftarrow> whenM (rs_active r) (do { _ \<leftarrow> abortReceive E (rs_from r) (rs_corr_id r); ret () });
     now \<leftarrow> ota_nowEpochSec E;
     _ \<leftarrow> modify (\<lambda>s. s\<lparr>o_receive := fresh_session (o_config s) from corr_id total_size chunk_size
                            image_crc32 now,
                       o_receive_meta := (case metadata of None \<Rightarrow> no_metadata | Some m \<Rightarrow> m)\<rparr>);
     r \<leftarrow> gets o_receive;
     _ \<leftarrow> store E (RemovePath (rs_temp_path r));
     (ok, msg) \<leftarrow> store E (TruncateFile (rs_temp_path r));
     if \<not> ok then fail_session StorageNotReady (or_text msg ''create temp failed'')
     else do {
       _ \<leftarrow> store E (RemovePath (rs_temp_path r));
       _ \<leftarrow> set_status (\<lambda>st. st\<lparr>st_state := Receiving, st_code := OtaOk,
              st_expected_size := total_size, st_received_size := 0,
              st_expected_crc32 := image_crc32, st_actual_crc32 := 0,
              st_temp_path := rs_temp_path r, st_image_path := [], st_message := ''ota receiving''\<rparr>);
       ret (True, ''ota receiving'') } }"

definition beginReceive ::
  "ota_env \<Rightarrow> mac \<Rightarrow> u32 \<Rightarrow> u32 \<Rightarrow> u32 \<Rightarrow> u32 \<Rightarrow> FirmwareImageMetadata option \<Rightarrow> verdict otam" where
  "beginReceive E from corr_id total_size chunk_size image_crc32 metadata = do {
     _ \<leftarrow> expireReceiveIfStale E;
     c \<leftarrow> gets o_config;
     if total_size = 0 \<or> chunk_size = 0 then fail_ota InvalidArgument ''ota begin invalid size''
     else if max_firmware_bytes c > 0 \<and> total_size > max_firmware_bytes c
     then fail_ota ImageTooLarge ''image too large''
     else do {
       refused \<leftarrow> gate_check E (PrepareForTransfer total_size image_crc32 metadata);
       case refused of
         Some (code, msg) \<Rightarrow> fail_ota code msg
       | None \<Rightarrow> do {
           (ok, msg) \<leftarrow> ensureFolders E;
           if \<not> ok then fail_ota StorageNotReady (or_text msg ''ota folders unavailable'')
           else do {
             (ok, msg) \<leftarrow> ensurePsramPool E;
             s \<leftarrow> gets id;
             if \<not> ok then fail_ota StorageNotReady (or_text msg ''ota psram pool unavailable'')
             else if o_psram_pool s = None \<or> o_psram_pool_size s < total_size
             then fail_ota StorageNotReady ''ota psram pool too small''
             else open_session E from corr_id total_size chunk_size image_crc32 metadata } } } }"

text \<open>\<open>memcpy\<close> into the pool; \<open>write_in_bounds\<close> of theory \<open>OtaTransfer\<close> shows that it stays inside.\<close>

definition pool_write :: "nat \<Rightarrow> bytes \<Rightarrow> bytes \<Rightarrow> bytes" where
  "pool_write offset data pool = take offset pool @ data @ drop (offset + length data) pool"

text \<open>The bookkeeping of one accepted chunk.\<close>

definition count_chunk :: "u32 \<Rightarrow> nat \<Rightarrow> ReceiveSession \<Rightarrow> ReceiveSession" where
  "count_chunk chunk_index len r =
     (if isChunkReceived chunk_index r then r
      else (snd (markChunkReceived chunk_index r))
             \<lparr>rs_unique_received_size := rs_unique_received_size r + of_nat len\<rparr>)"

definition accept_chunk :: "ota_env \<Rightarrow> u32 \<Rightarrow> bytes \<Rightarrow> u32 \<Rightarrow> verdict option otam" where
  "accept_chunk E offset data chunk_index = do {
     r \<leftarrow> gets o_receive;
     let already_received = isChunkReceived chunk_index r;
     _ \<leftarrow> modify (\<lambda>s. s\<lparr>o_psram_pool := map_option (pool_write (unat offset) data) (o_psram_pool s)\<rparr>);
     case refreshContiguousReceived (count_chunk chunk_index (length data) r) of
       None \<Rightarrow> ret None
     | Some r2 \<Rightarrow> do {
         now \<leftarrow> ota_nowEpochSec E;
         _ \<leftarrow> modify (\<lambda>s. s\<lparr>o_receive := r2\<lparr>rs_last_activity_epoch_s := now\<rparr>\<rparr>);
         _ \<leftarrow> set_status (\<lambda>st. st\<lparr>st_state := Receiving, st_code := OtaOk,
                st_received_size := rs_received_size r2\<rparr>);
         ret (Some (True, if already_received then ''ota chunk duplicate'' else ''ota chunk accepted'')) } }"

definition reject_chunk :: "OtaStatusCode \<Rightarrow> string \<Rightarrow> verdict option otam" where
  "reject_chunk code msg = do { v \<leftarrow> fail_ota code msg; ret (Some v) }"

text \<open>The checks of a chunk in their order, in a session that is the sender's.\<close>

definition place_chunk :: "ota_env \<Rightarrow> u32 \<Rightarrow> buf \<Rightarrow> verdict option otam" where
  "place_chunk E offset data = do {
     s \<leftarrow> gets id;
     let r = o_receive s;
     case data of
       None \<Rightarrow> reject_chunk InvalidArgument ''ota chunk empty''
     | Some bs \<Rightarrow>
         (let len = length bs; chunk_index = offset div rs_chunk_size r in
          if len = 0 then reject_chunk InvalidArgument ''ota chunk empty''
          else if o_psram_pool s = None \<or> o_psram_pool_size s < rs_expected_size r
          then reject_chunk StorageNotReady ''ota psram pool unavailable''
          else if offset \<ge> rs_expected_size r
          then reject_chunk SizeMismatch ''ota chunk offset out of range''
          else if offset + of_nat len > rs_expected_size r
          then reject_chunk SizeMismatch ''ota chunk exceeds declared size''
          else if rs_chunk_size r = 0 \<or> offset mod rs_chunk_size r \<noteq> 0
          then reject_chunk InvalidArgument ''ota chunk offset alignment invalid''
          else if chunk_index \<ge> rs_chunk_count r
          then reject_chunk InvalidArgument ''ota chunk index out of range''
          else if len \<noteq> unat (chunkSizeAt chunk_index r)
          then reject_chunk SizeMismatch ''ota chunk size mismatch''
          else accept_chunk E offset bs chunk_index) }"

text \<open>\<open>None\<close>: the loop of \<open>refreshContiguousReceived_\<close> does not end.\<close>

definition writeReceiveChunk ::
  "ota_env \<Rightarrow> mac \<Rightarrow> u32 \<Rightarrow> u32 \<Rightarrow> buf \<Rightarrow> verdict option otam" where
  "writeReceiveChunk E from corr_id offset data = do {
     _ \<leftarrow> expireReceiveIfStale E;
     r \<leftarrow> gets o_receive;
     case validateSession from corr_id r of
       Some msg \<Rightarrow> ret (Some (False, msg))
     | None \<Rightarrow> place_chunk E offset data }"

section \<open>Finishing an image\<close>

definition c_str :: "string \<Rightarrow> string" where
  "c_str s = takeWhile (\<lambda>c. c \<noteq> CHR 0x00) s"

definition pad0 :: "nat \<Rightarrow> string \<Rightarrow> string" where
  "pad0 w s = replicate (w - length s) (CHR ''0'') @ s"

definition hex_0x08 :: "u32 \<Rightarrow> string" where
  "hex_0x08 v = ''0x'' @ pad0 8 (digits 16 (unat v))"

definition dec_u32 :: "u32 \<Rightarrow> string" where
  "dec_u32 v = digits 10 (unat v)"

definition newline :: string where "newline = [CHR 0x0A]"

definition manifest_body :: "string \<Rightarrow> u32 \<Rightarrow> u32 \<Rightarrow> FirmwareImageMetadata \<Rightarrow> u32 \<Rightarrow> string" where
  "manifest_body file_name image_size image_crc32 metadata created_epoch_s =
     ''file_id='' @ dec_u32 (hashFileId file_name) @ newline @
     ''file_name='' @ c_str file_name @ newline @
     ''size_bytes='' @ dec_u32 image_size @ newline @
     ''crc32='' @ hex_0x08 image_crc32 @ newline @
     ''version='' @ c_str (sw_version metadata) @ newline @
     ''build_id='' @ c_str (build_id metadata) @ newline @
     ''created_epoch_s='' @ dec_u32 created_epoch_s @ newline @
     ''state=ready'' @ newline @
     ''required_app_bytes='' @ dec_u32 image_size @ newline"

definition writeReadyManifest ::
  "ota_env \<Rightarrow> string \<Rightarrow> u32 \<Rightarrow> u32 \<Rightarrow> FirmwareImageMetadata \<Rightarrow> verdict otam" where
  "writeReadyManifest E image_path image_size image_crc32 metadata = (
     let file_name = fileNameFromPath image_path in
     if file_name = [] then ret (False, ''invalid image path'')
     else do {
       c \<leftarrow> gets o_config;
       (ok, msg) \<leftarrow> store E (EnsureDir (man_dir c));
       if \<not> ok then ret (False, or_text msg ''manifest dir unavailable'')
       else do {
         let manifest_path = joinPath (man_dir c) (manifestNameForImage file_name);
         tr \<leftarrow> call TimeNow;
         let body = manifest_body file_name image_size image_crc32 metadata (of_int (time_of E tr));
         if length body \<ge> 768 then ret (False, ''manifest format failed'')
         else do {
           (ok, msg) \<leftarrow> store E (TruncateFile manifest_path);
           if \<not> ok then ret (False, or_text msg ''manifest truncate failed'')
           else do {
             (ok, msg) \<leftarrow> store E (WriteAt manifest_path 0 (string_bytes body));
             if \<not> ok then ret (False, or_text msg ''manifest write failed'')
             else ret (True, ''ok'') } } } })"

definition kFlushBlockBytes :: u32 where "kFlushBlockBytes = 4096"

lemma flush_progress:
  assumes "written < (expected :: u32)"
  shows "unat (written + min kFlushBlockBytes (expected - written))
           = unat written + min 4096 (unat expected - unat written)"
    and "0 < min 4096 (unat expected - unat written)"
proof -
  have d: "unat (expected - written) = unat expected - unat written"
    using assms by (simp add: unat_sub word_le_nat_alt word_less_nat_alt)
  have n: "unat (min kFlushBlockBytes (expected - written)) = min 4096 (unat expected - unat written)"
    unfolding d [symmetric] by (simp add: kFlushBlockBytes_def min_def word_le_nat_alt)
  show "unat (written + min kFlushBlockBytes (expected - written))
           = unat written + min 4096 (unat expected - unat written)"
    using assms unat_u32_less [of expected] n
    by (subst unat_plus_simple [THEN iffD1])
       (auto simp: no_olen_add_nat word_less_nat_alt min_def split: if_splits)
  show "0 < min 4096 (unat expected - unat written)"
    using assms by (simp add: word_less_nat_alt)
qed

text \<open>The flush loop: the pool goes to the file in blocks; the first failing write ends it.\<close>

function flush_from :: "ota_env \<Rightarrow> string \<Rightarrow> bytes \<Rightarrow> u32 \<Rightarrow> u32 \<Rightarrow> verdict otam" where
  "flush_from E path pool expected written =
     (if \<not> written < expected then ret (True, [])
      else do {
        let n = min kFlushBlockBytes (expected - written);
        (ok, msg) \<leftarrow> store E (WriteAt path written (take (unat n) (drop (unat written) pool)));
        if \<not> ok then ret (False, or_text msg ''ota flush failed'')
        else flush_from E path pool expected (written + n) })"
  by pat_completeness auto

termination
  by (relation "measure (\<lambda>(E, path, pool, expected, written). unat expected - unat written)")
     (use flush_progress in \<open>auto simp: word_less_nat_alt\<close>)

declare flush_from.simps [simp del]

text \<open>Clearing the old image, its manifest and the temporary file before the flush.\<close>

definition make_room :: "ota_env \<Rightarrow> ReceiveSession \<Rightarrow> unit otam" where
  "make_room E r = do {
     c \<leftarrow> gets o_config;
     _ \<leftarrow> store E (RemovePath (rs_final_path r));
     let final_name = fileNameFromPath (rs_final_path r);
     _ \<leftarrow> whenM (final_name \<noteq> [])
           (do { _ \<leftarrow> store E (RemovePath (joinPath (man_dir c) (manifestNameForImage final_name)));
                 ret () });
     _ \<leftarrow> store E (RemovePath (rs_temp_path r));
     ret () }"

definition ready_text :: "bool \<Rightarrow> string \<Rightarrow> string" where
  "ready_text manifest_ok manifest_msg =
     (if manifest_ok then ''ota image ready''
      else ''ota image ready (manifest pending: '' @ or_text manifest_msg ''write failed'' @ '')'')"

definition publish_image :: "ota_env \<Rightarrow> u32 \<Rightarrow> u32 \<Rightarrow> (bool \<times> string \<times> string) otam" where
  "publish_image E total_size crc = do {
     r \<leftarrow> gets o_receive;
     persisted_meta \<leftarrow> gets o_receive_meta;
     _ \<leftarrow> clear_session;
     (manifest_ok, manifest_msg) \<leftarrow>
        writeReadyManifest E (rs_final_path r) total_size crc persisted_meta;
     let final_msg = ready_text manifest_ok manifest_msg;
     _ \<leftarrow> set_status (\<lambda>st. st\<lparr>st_state := OtaReady, st_code := OtaOk, st_received_size := total_size,
            st_image_path := rs_final_path r, st_temp_path := [], st_message := final_msg\<rparr>);
     ret (True, final_msg, rs_final_path r) }"

definition refuse_end :: "verdict \<Rightarrow> (bool \<times> string \<times> string) otam" where
  "refuse_end v = ret (fst v, snd v, [])"

text \<open>
  \<open>endReceive\<close>: the result, the message and the image path (empty unless the image is
  ready).
\<close>

definition flush_image :: "ota_env \<Rightarrow> bytes \<Rightarrow> u32 \<Rightarrow> u32 \<Rightarrow> (bool \<times> string \<times> string) otam" where
  "flush_image E pool total_size crc = do {
     r \<leftarrow> gets o_receive;
     _ \<leftarrow> make_room E r;
     (ok, msg) \<leftarrow> store E (TruncateFile (rs_temp_path r));
     if \<not> ok
     then do { v \<leftarrow> fail_session StorageNotReady (or_text msg ''create temp failed''); refuse_end v }
     else do {
       (ok, msg) \<leftarrow> flush_from E (rs_temp_path r) pool (rs_expected_size r) 0;
       if \<not> ok then do { v \<leftarrow> fail_session StorageNotReady msg; refuse_end v }
       else do {
         (ok, msg) \<leftarrow> store E (RenamePath (rs_temp_path r) (rs_final_path r));
         if \<not> ok
         then do { v \<leftarrow> fail_session StorageNotReady (or_text msg ''ota promote failed''); refuse_end v }
         else publish_image E total_size crc } } }"

definition endReceive ::
  "ota_env \<Rightarrow> mac \<Rightarrow> u32 \<Rightarrow> u32 \<Rightarrow> u32 \<Rightarrow> (bool \<times> string \<times> string) otam" where
  "endReceive E from corr_id total_size image_crc32 = do {
     _ \<leftarrow> expireReceiveIfStale E;
     s \<leftarrow> gets id;
     let r = o_receive s;
     case validateSession from corr_id r of
       Some msg \<Rightarrow> refuse_end (False, msg)
     | None \<Rightarrow>
         if total_size \<noteq> rs_expected_size r \<or> image_crc32 \<noteq> rs_expected_crc32 r
         then do { v \<leftarrow> fail_ota SizeMismatch ''ota end metadata mismatch''; refuse_end v }
         else (case o_psram_pool s of
           None \<Rightarrow> do { v \<leftarrow> fail_ota StorageNotReady ''ota psram pool unavailable''; refuse_end v }
         | Some pool \<Rightarrow>
             if o_psram_pool_size s < rs_expected_size r
             then do { v \<leftarrow> fail_ota StorageNotReady ''ota psram pool unavailable''; refuse_end v }
             else if rs_received_size r \<noteq> rs_expected_size r
                     \<or> rs_unique_received_size r \<noteq> rs_expected_size r
             then do { v \<leftarrow> fail_ota SizeMismatch ''ota total size mismatch''; refuse_end v }
             else do {
               let crc = crc32 (take (unat (rs_expected_size r)) pool);
               _ \<leftarrow> set_status (\<lambda>st. st\<lparr>st_actual_crc32 := crc\<rparr>);
               if crc \<noteq> rs_expected_crc32 r
               then do {
                 _ \<leftarrow> store E (RemovePath (rs_temp_path r));
                 v \<leftarrow> fail_session CrcMismatch ''ota crc mismatch'';
                 refuse_end v }
               else flush_image E pool total_size crc }) }"

section \<open>The status record\<close>

text \<open>\<open>std::isspace\<close> in the C locale.\<close>

definition isspace :: "char \<Rightarrow> bool" where
  "isspace c \<longleftrightarrow> c \<in> {CHR '' '', CHR 0x09, CHR 0x0A, CHR 0x0B, CHR 0x0C, CHR 0x0D}"

definition trim_str :: "string \<Rightarrow> string" where
  "trim_str value = rev (dropWhile isspace (rev (dropWhile isspace value)))"

text \<open>\<open>strtoul\<close> with base 0 and a 32-bit \<open>unsigned long\<close>: the value and what is left unread.\<close>

definition digit_val :: "char \<Rightarrow> nat option" where
  "digit_val c = (let n = (of_char c :: nat) in
     if 48 \<le> n \<and> n \<le> 57 then Some (n - 48) else if 65 \<le> n \<and> n \<le> 90 then Some (n - 55)
     else if 97 \<le> n \<and> n \<le> 122 then Some (n - 87) else None)"

fun read_digits :: "nat \<Rightarrow> nat \<Rightarrow> string \<Rightarrow> nat \<times> string" where
  "read_digits b acc [] = (acc, [])"
| "read_digits b acc (c # cs) =
     (case digit_val c of
        None \<Rightarrow> (acc, c # cs)
      | Some d \<Rightarrow> if d < b then read_digits b (acc * b + d) cs else (acc, c # cs))"

definition has_digit :: "nat \<Rightarrow> string \<Rightarrow> bool" where
  "has_digit b s = (case s of [] \<Rightarrow> False
     | c # _ \<Rightarrow> (case digit_val c of None \<Rightarrow> False | Some d \<Rightarrow> d < b))"

definition strtoul0 :: "string \<Rightarrow> nat \<times> string" where
  "strtoul0 s =
     (let t = dropWhile isspace s;
          neg = (t \<noteq> [] \<and> hd t = CHR ''-'');
          u = (if t \<noteq> [] \<and> (hd t = CHR ''-'' \<or> hd t = CHR ''+'') then tl t else t);
          hex = (take 2 u = ''0x'' \<or> take 2 u = ''0X'') \<and> has_digit 16 (drop 2 u);
          base = (if hex then 16 else if take 1 u = ''0'' then 8 else 10);
          w = (if hex then drop 2 u else u)
      in if \<not> has_digit base w then (0, s)
         else let (v, rest) = read_digits base 0 w
              in (if v \<ge> 2 ^ 32 then (2 ^ 32 - 1, rest)
                  else if neg then ((2 ^ 32 - v) mod 2 ^ 32, rest) else (v, rest)))"

definition parseU32 :: "string \<Rightarrow> u32 option" where
  "parseU32 value =
     (if value = [] then None
      else let (v, rest) = strtoul0 (c_str value) in if rest \<noteq> [] then None else Some (of_nat v))"

definition status_field :: "string \<Rightarrow> string \<Rightarrow> PersistentStatusRecord \<Rightarrow> PersistentStatusRecord" where
  "status_field key value r =
     (let v = parseU32 value in
      if key = ''state'' then r\<lparr>pr_state := or_text value ''none''\<rparr>
      else if key = ''epoch_s'' \<and> v \<noteq> None then r\<lparr>pr_epoch_s := the v\<rparr>
      else if key = ''boot_report_pending'' \<and> v \<noteq> None then r\<lparr>pr_boot_report_pending := the v \<noteq> 0\<rparr>
      else if key = ''image_path'' then r\<lparr>pr_image_path := value\<rparr>
      else if key = ''image_size'' \<and> v \<noteq> None then r\<lparr>pr_image_size := the v\<rparr>
      else if key = ''image_crc32'' \<and> v \<noteq> None then r\<lparr>pr_image_crc32 := the v\<rparr>
      else if key = ''confirmed_sw'' then r\<lparr>pr_confirmed_sw_version := value\<rparr>
      else if key = ''confirmed_build'' then r\<lparr>pr_confirmed_build_id := value\<rparr>
      else r)"

definition status_line :: "string \<Rightarrow> PersistentStatusRecord \<Rightarrow> PersistentStatusRecord" where
  "status_line raw r =
     (let t = trim_str raw;
          line = (if t \<noteq> [] \<and> last t = CHR 0x0D then butlast t else t);
          k = takeWhile (\<lambda>c. c \<noteq> CHR ''='') line
      in if line = [] \<or> k = line \<or> k = [] then r
         else status_field (trim_str k) (trim_str (drop (length k + 1) line)) r)"

function split_lines :: "string \<Rightarrow> string list" where
  "split_lines body =
     (if body = [] then []
      else takeWhile (\<lambda>c. c \<noteq> CHR 0x0A) body
             # split_lines (drop 1 (dropWhile (\<lambda>c. c \<noteq> CHR 0x0A) body)))"
  by pat_completeness auto
termination
proof (relation "measure length", simp)
  fix body :: string
  assume "body \<noteq> []"
  then show "(drop 1 (dropWhile (\<lambda>c. c \<noteq> CHR 0x0A) body), body) \<in> measure length"
    using length_dropWhile_le [of "\<lambda>c. c \<noteq> CHR 0x0A" body] by (cases body) auto
qed

declare split_lines.simps [simp del]

definition parse_status_text :: "string \<Rightarrow> PersistentStatusRecord" where
  "parse_status_text body =
     (let r = fold status_line (split_lines body) new_record
      in if pr_state r = [] then r\<lparr>pr_state := ''none''\<rparr> else r)"

definition statusRecordPath :: "OtaManagerConfig \<Rightarrow> string" where
  "statusRecordPath c = joinPath (st_dir c) ''os.m''"

text \<open>The record, or the message of the failure.\<close>

definition loadStatusRecord :: "ota_env \<Rightarrow> (string + PersistentStatusRecord) otam" where
  "loadStatusRecord E = do {
     c \<leftarrow> gets o_config;
     let path = statusRecordPath c;
     tr \<leftarrow> call (StatPath path);
     let st = stat_of E tr path;
     let (ok, msg) = reply E tr (StatPath path);
     if \<not> ok then ret (Inl (or_text msg ''status stat failed''))
     else if \<not> ss_exists st \<or> ss_is_dir st \<or> ss_size_bytes st = 0 then ret (Inr new_record)
     else if ss_size_bytes st > 2048 then ret (Inl ''status record too large'')
     else do {
       let n = unat (ss_size_bytes st);
       tr \<leftarrow> call (ReadAt path 0 n);
       let (ok, msg) = reply E tr (ReadAt path 0 n);
       if \<not> ok then ret (Inl (or_text msg ''status read failed''))
       else do {
         let bs = take n (data_of E tr path);
         ret (Inr (if bs = [] then new_record else parse_status_text (string_of_bytes bs))) } } }"

definition status_entries :: "PersistentStatusRecord \<Rightarrow> (string \<times> string) list" where
  "status_entries r =
     [(''state'', pr_state r),
      (''epoch_s'', dec_u32 (pr_epoch_s r)),
      (''boot_report_pending'', if pr_boot_report_pending r then ''1'' else ''0''),
      (''image_path'', pr_image_path r),
      (''image_size'', dec_u32 (pr_image_size r)),
      (''image_crc32'', hex_0x08 (pr_image_crc32 r)),
      (''confirmed_sw'', pr_confirmed_sw_version r),
      (''confirmed_build'', pr_confirmed_build_id r)]"

definition status_body :: "PersistentStatusRecord \<Rightarrow> string" where
  "status_body r = concat (map (\<lambda>(key, value). key @ ''='' @ value @ newline) (status_entries r))"

definition saveStatusRecord :: "ota_env \<Rightarrow> PersistentStatusRecord \<Rightarrow> verdict otam" where
  "saveStatusRecord E record = do {
     c \<leftarrow> gets o_config;
     (ok, msg) \<leftarrow> store E (EnsureDir (st_dir c));
     if \<not> ok then ret (False, or_text msg ''status dir unavailable'')
     else do {
       let path = statusRecordPath c;
       (ok, msg) \<leftarrow> store E (TruncateFile path);
       if \<not> ok then ret (False, or_text msg ''status truncate failed'')
       else do {
         (ok, msg) \<leftarrow> store E (WriteAt path 0 (string_bytes (status_body record)));
         if \<not> ok then ret (False, or_text msg ''status write failed'')
         else ret (True, ''ok'') } } }"

definition apply_record :: "PersistentStatusRecord \<Rightarrow> OtaRuntimeStatus \<Rightarrow> OtaRuntimeStatus" where
  "apply_record r st =
     (let st1 = st\<lparr>st_persistent_state := pr_state r, st_persistent_epoch_s := pr_epoch_s r,
            st_boot_report_pending := pr_boot_report_pending r,
            st_confirmed_sw_version := pr_confirmed_sw_version r,
            st_confirmed_build_id := pr_confirmed_build_id r\<rparr>;
          st2 = (if pr_image_size r \<noteq> 0
                 then st1\<lparr>st_expected_size := pr_image_size r,
                         st_received_size := (if st_received_size st1 = 0 then pr_image_size r
                                              else st_received_size st1)\<rparr>
                 else st1);
          st3 = (if pr_image_crc32 r \<noteq> 0
                 then st2\<lparr>st_expected_crc32 := pr_image_crc32 r,
                         st_actual_crc32 := (if st_actual_crc32 st2 = 0 then pr_image_crc32 r
                                             else st_actual_crc32 st2)\<rparr>
                 else st2)
      in if (pr_state r = ''pending_boot'' \<or> pr_state r = ''boot_ok'') \<and> pr_image_path r \<noteq> []
         then st3\<lparr>st_image_path := pr_image_path r\<rparr> else st3)"

definition applyStatusRecordToRuntime :: "PersistentStatusRecord \<Rightarrow> unit otam" where
  "applyStatusRecordToRuntime r = set_status (apply_record r)"

definition persistPendingApply :: "ota_env \<Rightarrow> string \<Rightarrow> u32 \<Rightarrow> u32 \<Rightarrow> verdict otam" where
  "persistPendingApply E image_path image_size image_crc32 = do {
     now \<leftarrow> ota_nowEpochSec E;
     let record = new_record\<lparr>pr_state := ''pending_boot'', pr_epoch_s := now,
           pr_boot_report_pending := False, pr_image_path := image_path,
           pr_image_size := image_size, pr_image_crc32 := image_crc32\<rparr>;
     (ok, msg) \<leftarrow> saveStatusRecord E record;
     if \<not> ok then ret (False, msg)
     else do { _ \<leftarrow> applyStatusRecordToRuntime record; ret (True, msg) } }"

section \<open>Applying, rolling back, confirming\<close>

definition applied_text :: "string \<Rightarrow> bool \<Rightarrow> string \<Rightarrow> string" where
  "applied_text msg persisted persist_msg =
     (if persisted then or_text msg ''ota apply accepted''
      else or_text msg ''ota apply accepted'' @ '' (status persist failed: ''
           @ or_text persist_msg ''write failed'' @ '')'')"

definition run_apply :: "ota_env \<Rightarrow> string \<Rightarrow> u32 \<Rightarrow> u32 \<Rightarrow> verdict otam" where
  "run_apply E image_path image_size image_crc32 = do {
     _ \<leftarrow> set_status (\<lambda>st. st\<lparr>st_state := Applying, st_code := OtaOk, st_image_path := image_path,
            st_expected_size := image_size, st_expected_crc32 := image_crc32,
            st_message := ''ota applying''\<rparr>);
     (ok, msg) \<leftarrow> store E (ExecApplyImage image_path image_size image_crc32);
     if \<not> ok then fail_ota ApplyFailed (or_text msg ''ota apply failed'')
     else do {
       _ \<leftarrow> set_status (\<lambda>st. st\<lparr>st_state := OtaReady\<rparr>);
       (persisted, persist_msg) \<leftarrow> persistPendingApply E image_path image_size image_crc32;
       m \<leftarrow> setOk (applied_text msg persisted persist_msg);
       ret (True, m) } }"

definition applyImage :: "ota_env \<Rightarrow> string \<Rightarrow> u32 \<Rightarrow> u32 \<Rightarrow> verdict otam" where
  "applyImage E image_path image_size image_crc32 = do {
     _ \<leftarrow> expireReceiveIfStale E;
     s \<leftarrow> gets id;
     let maxb = max_firmware_bytes (o_config s);
     if image_path = [] \<or> image_size = 0 then fail_ota InvalidArgument ''ota apply invalid image''
     else if maxb > 0 \<and> image_size > maxb then fail_ota ImageTooLarge ''image too large''
     else do {
       refused \<leftarrow> gate_check E (PrepareForApply image_path image_size image_crc32);
       case refused of
         Some (code, msg) \<Rightarrow> fail_ota code msg
       | None \<Rightarrow>
           if \<not> o_apply_executor s then fail_ota ApplyRejected ''apply executor unavailable''
           else run_apply E image_path image_size image_crc32 } }"

definition rollback :: "ota_env \<Rightarrow> verdict otam" where
  "rollback E = do {
     x \<leftarrow> gets o_apply_executor;
     if \<not> x then fail_ota ApplyRejected ''rollback executor unavailable''
     else do {
       _ \<leftarrow> set_status (\<lambda>st. st\<lparr>st_state := Applying, st_code := OtaOk,
              st_message := ''ota rollback requested''\<rparr>);
       (ok, msg) \<leftarrow> store E ExecRollbackImage;
       if \<not> ok then fail_ota ApplyFailed (or_text msg ''ota rollback failed'')
       else do { m \<leftarrow> setOk (or_text msg ''ota rollback accepted''); ret (True, m) } } }"

definition confirmed_text :: "string \<Rightarrow> string \<Rightarrow> string" where
  "confirmed_text sw build =
     ''updated correctly'' @ (if sw = [] then [] else '' sw='' @ sw)
       @ (if build = [] then [] else '' build='' @ build)"

definition confirm_record :: "ota_env \<Rightarrow> PersistentStatusRecord \<Rightarrow> string \<Rightarrow> string \<Rightarrow> verdict otam" where
  "confirm_record E record sw build = do {
     now \<leftarrow> ota_nowEpochSec E;
     let record = record\<lparr>pr_state := ''boot_ok'', pr_epoch_s := now, pr_boot_report_pending := True,
           pr_confirmed_sw_version := sw, pr_confirmed_build_id := build\<rparr>;
     (ok, msg) \<leftarrow> saveStatusRecord E record;
     if \<not> ok then ret (False, or_text msg ''status write failed'')
     else do {
       _ \<leftarrow> applyStatusRecordToRuntime record;
       let m = confirmed_text sw build;
       _ \<leftarrow> set_status (\<lambda>st. st\<lparr>st_message := m\<rparr>);
       ret (True, m) } }"

definition markBootSuccessful :: "ota_env \<Rightarrow> string \<Rightarrow> string \<Rightarrow> verdict otam" where
  "markBootSuccessful E sw build = do {
     (ok, msg) \<leftarrow> store E StorageBegin;
     if \<not> ok then ret (False, or_text msg ''ota storage begin failed'')
     else do {
       (ok, msg) \<leftarrow> ensureFolders E;
       if \<not> ok then ret (False, or_text msg ''ota folders unavailable'')
       else do {
         loaded \<leftarrow> loadStatusRecord E;
         case loaded of
           Inl msg \<Rightarrow> ret (False, or_text msg ''status read failed'')
         | Inr record \<Rightarrow>
             if pr_state record \<noteq> ''pending_boot'' then ret (True, ''no pending ota apply'')
             else do {
               refused \<leftarrow> gate_check E (ConfirmBootedImage (pr_image_path record)
                 (pr_image_size record) (pr_image_crc32 record) sw build);
               case refused of
                 Some (code, msg) \<Rightarrow> do {
                   _ \<leftarrow> set_status (\<lambda>st. st\<lparr>st_persistent_state := ''pending_boot''\<rparr>);
                   fail_ota code msg }
               | None \<Rightarrow> confirm_record E record sw build } } } }"

definition peekBootCompletionNotice :: "ota \<Rightarrow> (FirmwareImageMetadata \<times> u32) option" where
  "peekBootCompletionNotice s =
     (let st = o_status s in
      if st_persistent_state st \<noteq> ''boot_ok'' \<or> \<not> st_boot_report_pending st then None
      else Some (no_metadata\<lparr>sw_version := st_confirmed_sw_version st,
                            build_id := st_confirmed_build_id st\<rparr>, st_persistent_epoch_s st))"

definition clearBootCompletionNotice :: "ota_env \<Rightarrow> verdict otam" where
  "clearBootCompletionNotice E = do {
     loaded \<leftarrow> loadStatusRecord E;
     case loaded of
       Inl msg \<Rightarrow> ret (False, or_text msg ''status read failed'')
     | Inr record \<Rightarrow>
         if pr_state record \<noteq> ''boot_ok'' \<or> \<not> pr_boot_report_pending record then ret (True, ''ok'')
         else do {
           let record = record\<lparr>pr_boot_report_pending := False\<rparr>;
           (ok, msg) \<leftarrow> saveStatusRecord E record;
           if \<not> ok then ret (False, or_text msg ''status write failed'')
           else do { _ \<leftarrow> applyStatusRecordToRuntime record; ret (True, ''ok'') } } }"

section \<open>Construction and start-up\<close>

definition new_ota :: "OtaManagerConfig \<Rightarrow> bool \<Rightarrow> bool \<Rightarrow> ota" where
  "new_ota c gate exec = \<lparr>o_config = c\<lparr>root_path := normalizeDir (root_path c),
       in_dir := normalizeDir (in_dir c), stg_dir := normalizeDir (stg_dir c),
       img_dir := normalizeDir (img_dir c), man_dir := normalizeDir (man_dir c),
       st_dir := normalizeDir (st_dir c)\<rparr>,
     o_gate = gate, o_apply_executor = exec, o_receive = new_session,
     o_receive_meta = no_metadata, o_status = new_status, o_psram_pool = None,
     o_psram_pool_size = 0, o_calls = []\<rparr>"

fun clear_dirs :: "ota_env \<Rightarrow> (string \<times> string) list \<Rightarrow> verdict otam" where
  "clear_dirs E [] = ret (True, ''ok'')"
| "clear_dirs E ((d, dflt) # ds) = do {
     (ok, msg) \<leftarrow> clearDirContents E d;
     if \<not> ok then ret (False, or_text msg dflt) else clear_dirs E ds }"

definition begin_storage :: "ota_env \<Rightarrow> (string + PersistentStatusRecord) otam" where
  "begin_storage E = do {
     (ok, msg) \<leftarrow> store E StorageBegin;
     if \<not> ok then ret (Inl (or_text msg ''ota storage begin failed''))
     else do {
       (ok, msg) \<leftarrow> ensureFolders E;
       if \<not> ok then ret (Inl (or_text msg ''ota folders unavailable''))
       else do {
         c \<leftarrow> gets o_config;
         (ok, msg) \<leftarrow> clear_dirs E [(in_dir c, ''ota in clear failed''),
             (img_dir c, ''ota img clear failed''), (man_dir c, ''ota man clear failed'')];
         if \<not> ok then ret (Inl msg)
         else do {
           (ok, msg) \<leftarrow> ensurePsramPool E;
           if \<not> ok then ret (Inl (or_text msg ''ota psram pool unavailable''))
           else do {
             loaded \<leftarrow> loadStatusRecord E;
             ret (case loaded of Inl m \<Rightarrow> Inl (or_text m ''ota status record read failed'')
                  | Inr r \<Rightarrow> Inr r) } } } } }"

definition ota_begin :: "ota_env \<Rightarrow> verdict otam" where
  "ota_begin E = do {
     started \<leftarrow> begin_storage E;
     case started of
       Inl msg \<Rightarrow> fail_ota StorageNotReady msg
     | Inr persisted \<Rightarrow> do {
         _ \<leftarrow> applyStatusRecordToRuntime persisted;
         m \<leftarrow> setOk (if pr_state persisted = ''pending_boot''
                    then ''ota ready (pending boot confirmation)''
                    else if pr_state persisted = ''boot_ok'' \<and> pr_confirmed_sw_version persisted \<noteq> []
                    then ''ota ready (last update confirmed)'' else ''ota ready'');
         ret (True, m) } }"

definition setUpdateGate :: "bool \<Rightarrow> unit otam" where
  "setUpdateGate gate = modify (\<lambda>s. s\<lparr>o_gate := gate\<rparr>)"

definition setApplyExecutor :: "bool \<Rightarrow> unit otam" where
  "setApplyExecutor exec = modify (\<lambda>s. s\<lparr>o_apply_executor := exec\<rparr>)"

definition ota_tick :: "ota_env \<Rightarrow> unit otam" where
  "ota_tick E = expireReceiveIfStale E"

end
