(* ===== verification/OtaChunks.thy ===== *)
theory OtaChunks
  imports OtaManager
begin

text \<open>
  The arithmetic of a receive session of \<open>src/ota/ota_manager.cpp\<close>: how an image is cut into
  chunks, the bitmap of the chunks that have arrived, and the loop that advances the contiguous
  prefix. All facts are over natural numbers, away from the wrap-around of the 32-bit fields.
\<close>

section \<open>The bitmap\<close>

lemma unat_low3: "unat (i AND 7 :: u32) = unat i mod 8"
proof -
  have "(7 :: u32) = mask 3" by (simp add: mask_eq_exp_minus_1)
  then have "i AND 7 = take_bit 3 i" by (simp only: take_bit_eq_mask)
  then show ?thesis by (simp add: take_bit_eq_mod unat_mod)
qed

lemma unat_drop3: "unat (drop_bit 3 i :: u32) = unat i div 8"
  by (simp add: unat_drop_bit_eq) (simp add: drop_bit_eq_div)

lemma byte_mask: "k < 8 \<Longrightarrow> (ucast (2 ^ k :: u32) :: u8) = 2 ^ k"
  by (rule bit_word_eqI) (auto simp: bit_simps)

lemma and_bit_nonzero: "(x :: u8) AND 2 ^ k \<noteq> 0 \<longleftrightarrow> bit x k"
  by (metis and_exp_eq_0_iff_not_bit)

lemma isChunkReceived_iff:
  "isChunkReceived i r \<longleftrightarrow> i < rs_chunk_count r \<and> unat i div 8 < length (rs_chunk_bitmap r)
     \<and> bit (rs_chunk_bitmap r ! (unat i div 8)) (unat i mod 8)"
  by (auto simp: isChunkReceived_def Let_def unat_low3 unat_drop3 byte_mask and_bit_nonzero not_le)

lemma mark_fields [simp]:
  "rs_active (snd (markChunkReceived i r)) = rs_active r"
  "rs_from (snd (markChunkReceived i r)) = rs_from r"
  "rs_corr_id (snd (markChunkReceived i r)) = rs_corr_id r"
  "rs_expected_size (snd (markChunkReceived i r)) = rs_expected_size r"
  "rs_expected_crc32 (snd (markChunkReceived i r)) = rs_expected_crc32 r"
  "rs_chunk_size (snd (markChunkReceived i r)) = rs_chunk_size r"
  "rs_received_size (snd (markChunkReceived i r)) = rs_received_size r"
  "rs_unique_received_size (snd (markChunkReceived i r)) = rs_unique_received_size r"
  "rs_last_activity_epoch_s (snd (markChunkReceived i r)) = rs_last_activity_epoch_s r"
  "rs_temp_path (snd (markChunkReceived i r)) = rs_temp_path r"
  "rs_final_path (snd (markChunkReceived i r)) = rs_final_path r"
  "rs_chunk_count (snd (markChunkReceived i r)) = rs_chunk_count r"
  "length (rs_chunk_bitmap (snd (markChunkReceived i r))) = length (rs_chunk_bitmap r)"
  by (auto simp: markChunkReceived_def Let_def)

lemma isChunkReceived_mark:
  "isChunkReceived j (snd (markChunkReceived i r)) \<longleftrightarrow>
     isChunkReceived j r \<or> (j = i \<and> i < rs_chunk_count r \<and> unat i div 8 < length (rs_chunk_bitmap r))"
proof (cases "i < rs_chunk_count r \<and> unat i div 8 < length (rs_chunk_bitmap r)")
  case True
  have b: "rs_chunk_bitmap (snd (markChunkReceived i r))
             = (rs_chunk_bitmap r)[unat i div 8 := rs_chunk_bitmap r ! (unat i div 8)
                                   OR 2 ^ (unat i mod 8)]"
    using True by (auto simp: markChunkReceived_def Let_def unat_low3 unat_drop3 byte_mask)
  have same: "j = i" if "unat j div 8 = unat i div 8" and "unat j mod 8 = unat i mod 8"
    using that by (metis div_mult_mod_eq word_unat_eq_iff)
  show ?thesis
    using True same
    by (cases "unat j div 8 = unat i div 8")
       (auto simp: isChunkReceived_iff b bit_simps nth_list_update)
next
  case False
  then have "snd (markChunkReceived i r) = r"
    by (auto simp: markChunkReceived_def Let_def unat_drop3 not_le not_less)
  then show ?thesis using False by auto
qed

section \<open>Cutting an image into chunks\<close>

abbreviation img_len :: "ReceiveSession \<Rightarrow> nat" where
  "img_len r \<equiv> unat (rs_expected_size r)"

abbreviation chunk_len :: "ReceiveSession \<Rightarrow> nat" where
  "chunk_len r \<equiv> unat (rs_chunk_size r)"

abbreviation chunks :: "ReceiveSession \<Rightarrow> nat" where
  "chunks r \<equiv> unat (rs_chunk_count r)"

text \<open>
  What the fields of an open session satisfy: the chunk count is the rounded-up quotient, or 0
  where the sum of sizes overflows 32 bits.
\<close>

definition chunking_ok :: "ReceiveSession \<Rightarrow> bool" where
  "chunking_ok r \<longleftrightarrow> 0 < img_len r \<and> 0 < chunk_len r
     \<and> (chunks r = (img_len r + chunk_len r - 1) div chunk_len r \<or> chunks r = 0)"

definition clen :: "ReceiveSession \<Rightarrow> nat \<Rightarrow> nat" where
  "clen r i = (if i + 1 < chunks r then chunk_len r else img_len r - i * chunk_len r)"

lemma chunk_count_word:
  fixes total chunk :: u32
  assumes "0 < total" "0 < chunk"
  shows "unat ((total + chunk - 1) div chunk)
           = (if unat total + unat chunk - 1 < 2 ^ 32 then (unat total + unat chunk - 1) div unat chunk
              else 0)"
proof -
  let ?s = "unat total + unat chunk - 1"
  have pos: "0 < unat total" "0 < unat chunk" using assms by (auto simp: word_less_nat_alt)
  have eq: "total + chunk - 1 = of_nat ?s"
    using pos by (simp add: of_nat_diff)
  have u: "unat (total + chunk - 1) = ?s mod 2 ^ 32"
    unfolding eq by (simp add: unat_of_nat take_bit_eq_mod)
  show ?thesis
  proof (cases "?s < 2 ^ 32")
    case True
    then show ?thesis by (simp add: unat_div u del: of_nat_diff)
  next
    case False
    have "?s < 2 ^ 32 + unat chunk" "?s - 2 ^ 32 < 2 ^ 32"
      using unat_u32_less [of total] unat_u32_less [of chunk] by linarith+
    then have "?s - 2 ^ 32 < unat chunk" "?s mod 2 ^ 32 = ?s - 2 ^ 32"
      using False by (linarith, simp only: le_mod_geq not_less mod_less)
    then have "?s mod 2 ^ 32 < unat chunk" by simp
    with False show ?thesis by (simp add: unat_div u)
  qed
qed

lemma chunk_ceiling:
  fixes n c :: nat
  assumes "0 < n" "0 < c" and k: "k = (n + c - 1) div c"
  shows "0 < k" "(k - 1) * c < n" "n \<le> k * c"
proof -
  have lo: "k * c \<le> n + c - 1" unfolding k by (rule div_times_less_eq_dividend)
  have hi: "n + c - 1 < k * c + c"
    unfolding k using assms(2) by (metis add.commute dividend_less_div_times)
  have k1: "1 \<le> k" unfolding k using assms by (simp add: Suc_leI div_greater_zero_iff)
  from k1 show "0 < k" by simp
  have "(k - 1) * c = k * c - c" by (simp add: diff_mult_distrib)
  moreover have "c \<le> k * c" using k1 by simp
  ultimately show "(k - 1) * c < n" using lo assms by linarith
  show "n \<le> k * c" using hi by linarith
qed

lemma chunking_bounds:
  assumes "chunking_ok r" and i: "i < chunks r"
  shows "i * chunk_len r < img_len r" "0 < clen r i" "i * chunk_len r + clen r i \<le> img_len r"
    and "i + 1 < chunks r \<Longrightarrow> i * chunk_len r + clen r i = (i + 1) * chunk_len r"
    and "i + 1 = chunks r \<Longrightarrow> i * chunk_len r + clen r i = img_len r"
proof -
  have k: "chunks r = (img_len r + chunk_len r - 1) div chunk_len r"
    and pos: "0 < img_len r" "0 < chunk_len r"
    using assms by (auto simp: chunking_ok_def)
  note c = chunk_ceiling [OF pos k]
  have le: "j * chunk_len r < img_len r" if "j < chunks r" for j
  proof -
    have "j \<le> chunks r - 1" using that by simp
    then have "j * chunk_len r \<le> (chunks r - 1) * chunk_len r" by (rule mult_le_mono1)
    with c(2) show ?thesis by (rule le_less_trans [rotated])
  qed
  show "i * chunk_len r < img_len r" by (rule le [OF i])
  then show "0 < clen r i" using pos by (simp add: clen_def)
  show "i * chunk_len r + clen r i \<le> img_len r"
    using le [OF i] le [of "i + 1"] by (auto simp: clen_def)
  show "i + 1 < chunks r \<Longrightarrow> i * chunk_len r + clen r i = (i + 1) * chunk_len r"
    by (simp add: clen_def)
  show "i + 1 = chunks r \<Longrightarrow> i * chunk_len r + clen r i = img_len r"
    using le [OF i] by (simp add: clen_def)
qed

lemma chunkSizeAt_unat:
  assumes "chunking_ok r" and "i < chunks r"
  shows "unat (chunkSizeAt (of_nat i) r) = clen r i"
proof -
  note b = chunking_bounds [OF assms]
  have ui: "unat (of_nat i :: u32) = i"
    using assms(2) unat_u32_less [of "rs_chunk_count r"] by (intro unat_of_nat_u32) simp
  have i1: "unat (of_nat i + 1 :: u32) = i + 1" if "i + 1 < 2 ^ 32"
    using unat_of_nat_u32 [OF that] by (simp add: add.commute)
  have le: "i + 1 \<le> chunks r" using assms(2) by simp
  then have lt: "i + 1 < 2 ^ 32" using unat_u32_less [of "rs_chunk_count r"] by simp
  have nz: "rs_chunk_size r \<noteq> 0" using assms(1) by (auto simp: chunking_ok_def)
  have used: "unat (of_nat i * rs_chunk_size r) = i * chunk_len r"
    using b(1) unat_u32_less [of "rs_expected_size r"] by (simp add: unat_word_ariths ui)
  show ?thesis
    using assms(2) nz b(1) used unat_minus_u32 [of "of_nat i * rs_chunk_size r" "rs_expected_size r"]
    by (auto simp: chunkSizeAt_def clen_def word_less_nat_alt word_le_nat_alt ui i1 [OF lt] Let_def)
qed

section \<open>The contiguous prefix\<close>

definition got :: "ReceiveSession \<Rightarrow> nat \<Rightarrow> bool" where
  "got r i \<longleftrightarrow> isChunkReceived (of_nat i) r"

text \<open>The number of bytes in the first \<open>j\<close> chunks.\<close>

definition cut_at :: "ReceiveSession \<Rightarrow> nat \<Rightarrow> nat" where
  "cut_at r j = min (j * chunk_len r) (img_len r)"

lemma cut_0 [simp]: "cut_at r 0 = 0"
  by (simp add: cut_at_def)

lemma cut_less:
  assumes "chunking_ok r" and "j < chunks r"
  shows "cut_at r j = j * chunk_len r" "cut_at r j < img_len r" "cut_at r (Suc j) = cut_at r j + clen r j"
proof -
  note b = chunking_bounds [OF assms]
  show "cut_at r j = j * chunk_len r" "cut_at r j < img_len r" using b(1) by (auto simp: cut_at_def)
  show "cut_at r (Suc j) = cut_at r j + clen r j"
  proof (cases "Suc j < chunks r")
    case True
    then show ?thesis
      using b chunking_bounds(1) [OF assms(1) True] by (auto simp: cut_at_def)
  next
    case False
    have "chunks r = (img_len r + chunk_len r - 1) div chunk_len r"
      using assms by (auto simp: chunking_ok_def)
    then have "img_len r \<le> Suc j * chunk_len r"
      using chunk_ceiling(3) [of "img_len r" "chunk_len r" "chunks r"] assms False
      by (auto simp: chunking_ok_def) (metis Suc_lessI mult_Suc)
    then show ?thesis
      using b False assms(2) by (auto simp: cut_at_def)
  qed
qed

lemma cut_all: "chunking_ok r \<Longrightarrow> 0 < chunks r \<Longrightarrow> cut_at r (chunks r) = img_len r"
  using chunk_ceiling(3) [of "img_len r" "chunk_len r" "chunks r"]
  by (auto simp: chunking_ok_def cut_at_def)

lemma cut_full_iff:
  "chunking_ok r \<Longrightarrow> j \<le> chunks r \<Longrightarrow> cut_at r j = img_len r \<longleftrightarrow> j = chunks r \<and> 0 < chunks r"
  using cut_less(2) [of r j] cut_all [of r]
  by (cases "j < chunks r"; cases "chunks r = 0") (auto simp: chunking_ok_def)

lemma got_less: "got r i \<Longrightarrow> i < 2 ^ 32 \<Longrightarrow> i < chunks r"
  by (auto simp: got_def isChunkReceived_iff word_less_nat_alt unat_of_nat_u32)

text \<open>
  The loop of \<open>refreshContiguousReceived_\<close> ends, and it ends at the first missing chunk: at
  \<open>cut_at r j\<close> with all chunks below \<open>j\<close> received and \<open>j\<close> the last one or not received.
\<close>

definition prefix_to :: "ReceiveSession \<Rightarrow> nat \<Rightarrow> bool" where
  "prefix_to r j \<longleftrightarrow> j \<le> chunks r \<and> (\<forall>i < j. got r i)"

lemma chunk_index_of_cut:
  assumes "chunking_ok r" and "j \<le> chunks r" and c: "unat c = cut_at r j" and "c < rs_expected_size r"
  shows "c div rs_chunk_size r = of_nat j"
proof -
  have "cut_at r j = j * chunk_len r" using assms by (auto simp: cut_at_def word_less_nat_alt)
  moreover have "unat (of_nat j :: u32) = j"
    using assms(2) unat_u32_less [of "rs_chunk_count r"] by (intro unat_of_nat_u32) simp
  ultimately have "unat (c div rs_chunk_size r) = unat (of_nat j :: u32)"
    using assms by (simp add: unat_div chunking_ok_def)
  then show ?thesis by (simp only: word_unat_eq_iff)
qed

lemma refresh_loop_returns:
  assumes ok: "chunking_ok r" and "prefix_to r j" and "unat c = cut_at r j" and "chunks r - j < fuel"
  shows "\<exists>c' j'. refresh_loop fuel r c = Some c' \<and> unat c' = cut_at r j' \<and> j \<le> j' \<and> prefix_to r j'
           \<and> (j' = chunks r \<or> \<not> got r j')"
  using assms(2-)
proof (induction fuel arbitrary: j c)
  case (Suc fuel)
  have jk: "j \<le> chunks r" using Suc.prems by (simp add: prefix_to_def)
  show ?case
  proof (cases "c < rs_expected_size r \<and> got r j")
    case False
    then have "refresh_loop (Suc fuel) r c = Some c"
      using chunk_index_of_cut [OF ok jk Suc.prems(2)] by (auto simp: got_def Let_def)
    moreover have "j = chunks r \<or> \<not> got r j"
      using False cut_less(2) [OF ok, of j] jk Suc.prems(2) by (auto simp: word_less_nat_alt)
    ultimately show ?thesis using Suc.prems by blast
  next
    case True
    then have idx: "c div rs_chunk_size r = of_nat j"
      using chunk_index_of_cut [OF ok jk Suc.prems(2)] by blast
    have "j < 2 ^ 32" using jk unat_u32_less [of "rs_chunk_count r"] by simp
    then have lt: "j < chunks r" using True got_less by blast
    let ?n = "chunkSizeAt (of_nat j) r"
    have n: "unat ?n = clen r j" by (rule chunkSizeAt_unat [OF ok lt])
    have "0 < clen r j" "cut_at r j + clen r j \<le> img_len r"
      using chunking_bounds [OF ok lt] cut_less [OF ok lt] by auto
    then have nz: "?n \<noteq> 0" and nx: "unat (c + ?n) = cut_at r (Suc j)"
      using n Suc.prems(2) cut_less(3) [OF ok lt] unat_u32_less [of "rs_expected_size r"]
      by (auto simp: unat_word_ariths)
    have "prefix_to r (Suc j)"
      using Suc.prems(1) True lt by (auto simp: prefix_to_def less_Suc_eq)
    moreover have "chunks r - Suc j < fuel" using Suc.prems(3) lt by simp
    ultimately have "\<exists>c' j'. refresh_loop fuel r (c + ?n) = Some c' \<and> unat c' = cut_at r j' \<and> Suc j \<le> j'
        \<and> prefix_to r j' \<and> (j' = chunks r \<or> \<not> got r j')"
      using nx by (intro Suc.IH)
    then
    obtain c' j' where "refresh_loop fuel r (c + ?n) = Some c'" "unat c' = cut_at r j'" "Suc j \<le> j'"
      "prefix_to r j'" "j' = chunks r \<or> \<not> got r j'"
      by blast
    moreover have "refresh_loop (Suc fuel) r c = refresh_loop fuel r (c + ?n)"
      using True nz by (simp add: idx got_def Let_def)
    ultimately show ?thesis by (auto intro: Suc_leD)
  qed
qed simp

end
