(* ===== verification/OtaInvariant.thy ===== *)
theory OtaInvariant
  imports OtaChunks Interfaces
begin

text \<open>
  The invariant of the OTA manager over all its operations and all environments: the pool has
  the recorded size, and an open session counts exactly the bytes of the chunks received
  without a gap. From it: every accepted chunk stays inside the pool and inside the declared
  image, and the loop in \<open>writeReceiveChunk\<close> ends.
\<close>

section \<open>The invariant\<close>

definition session_ok :: "ReceiveSession \<Rightarrow> bool" where
  "session_ok r \<longleftrightarrow> chunking_ok r
     \<and> (\<exists>j. unat (rs_received_size r) = cut_at r j \<and> prefix_to r j \<and> (j = chunks r \<or> \<not> got r j))"

definition pool_ok :: "ota \<Rightarrow> bool" where
  "pool_ok s \<longleftrightarrow> (\<forall>p. o_psram_pool s = Some p \<longrightarrow> length p = unat (o_psram_pool_size s))"

definition ota_ok :: "ota \<Rightarrow> bool" where
  "ota_ok s \<longleftrightarrow> pool_ok s \<and> (rs_active (o_receive s) \<longrightarrow> session_ok (o_receive s))"

lemma session_ok_cong:
  "rs_expected_size r = rs_expected_size r' \<Longrightarrow> rs_chunk_size r = rs_chunk_size r' \<Longrightarrow>
   rs_received_size r = rs_received_size r' \<Longrightarrow> rs_chunk_bitmap r = rs_chunk_bitmap r' \<Longrightarrow>
   rs_chunk_count r = rs_chunk_count r' \<Longrightarrow> session_ok r = session_ok r'"
  by (simp add: session_ok_def chunking_ok_def cut_at_def prefix_to_def got_def isChunkReceived_iff)

lemma inactive_new [simp]: "\<not> rs_active new_session"
  by (simp add: new_session_def)

section \<open>Operations that leave session and pool alone\<close>

lemma ota_ok_frame [simp]:
  "ota_ok (s\<lparr>o_calls := cs\<rparr>) = ota_ok s"
  "ota_ok (s\<lparr>o_status := st\<rparr>) = ota_ok s"
  "ota_ok (s\<lparr>o_config := c\<rparr>) = ota_ok s"
  "ota_ok (s\<lparr>o_gate := g\<rparr>) = ota_ok s"
  "ota_ok (s\<lparr>o_apply_executor := x\<rparr>) = ota_ok s"
  by (auto simp: ota_ok_def pool_ok_def)

lemma keeps_call [keeps_rules]: "keeps ota_ok (call c)"
  by (auto simp: call_def keeps_def wp_rules)

lemma keeps_store [keeps_rules]: "keeps ota_ok (store E c)"
  by (auto simp: store_def intro!: keeps_rules)

lemma keeps_ask_gate [keeps_rules]: "keeps ota_ok (ask_gate E c)"
  by (auto simp: ask_gate_def intro!: keeps_rules)

lemma keeps_now [keeps_rules]: "keeps ota_ok (ota_nowEpochSec E)"
  by (auto simp: ota_nowEpochSec_def Let_def intro!: keeps_rules)

lemma keeps_set_status [keeps_rules]: "keeps ota_ok (set_status f)"
  by (auto simp: set_status_def intro!: keeps_modify)

lemma keeps_clear_session [keeps_rules]: "keeps ota_ok clear_session"
  by (auto simp: clear_session_def ota_ok_def pool_ok_def intro!: keeps_modify)

lemma keeps_ensure_all [keeps_rules]: "keeps ota_ok (ensure_all E ds)"
  by (induction ds) (auto intro!: keeps_rules)

lemma keeps_remove_all [keeps_rules]: "keeps ota_ok (remove_all E dir ns)"
  by (induction ns) (auto intro!: keeps_rules)

lemma keeps_flush_from [keeps_rules]: "keeps ota_ok (flush_from E path pool expected written)"
  by (induction E path pool expected written rule: flush_from.induct)
     (subst flush_from.simps, auto simp: Let_def intro!: keeps_rules)

lemmas ota_leaf_defs = fail_ota_def setOk_def fail_session_def gate_check_def ensureFolders_def
  clearDirContents_def expireReceiveIfStale_def drop_session_def abortReceive_def
  abortActiveReceive_def reject_chunk_def refuse_end_def writeReadyManifest_def make_room_def
  loadStatusRecord_def saveStatusRecord_def applyStatusRecordToRuntime_def Let_def

lemma keeps_leaves [keeps_rules]:
  "keeps ota_ok (fail_ota code msg)" "keeps ota_ok (setOk msg)" "keeps ota_ok (fail_session code msg)"
  "keeps ota_ok (gate_check E c)" "keeps ota_ok (ensureFolders E)" "keeps ota_ok (clearDirContents E d)"
  "keeps ota_ok (expireReceiveIfStale E)" "keeps ota_ok (drop_session E)"
  "keeps ota_ok (abortReceive E from corr)" "keeps ota_ok (abortActiveReceive E)"
  "keeps ota_ok (reject_chunk code msg)" "keeps ota_ok (refuse_end v)" "keeps ota_ok (make_room E r)"
  "keeps ota_ok (writeReadyManifest E path n crc md)" "keeps ota_ok (loadStatusRecord E)"
  "keeps ota_ok (saveStatusRecord E record)" "keeps ota_ok (applyStatusRecordToRuntime record)"
  by (auto simp: ota_leaf_defs intro!: keeps_rules)

lemma keeps_set_pointers [keeps_rules]:
  "keeps ota_ok (setUpdateGate g)" "keeps ota_ok (setApplyExecutor x)"
  by (auto simp: setUpdateGate_def setApplyExecutor_def intro!: keeps_modify)

lemma keeps_clear_dirs [keeps_rules]: "keeps ota_ok (clear_dirs E ds)"
  by (induction E ds rule: clear_dirs.induct) (auto intro!: keeps_rules)

lemma keeps_persist [keeps_rules]: "keeps ota_ok (persistPendingApply E path n crc)"
  by (auto simp: persistPendingApply_def Let_def intro!: keeps_rules)

lemma keeps_apply [keeps_rules]:
  "keeps ota_ok (applyImage E path n crc)" "keeps ota_ok (rollback E)"
  by (auto simp: applyImage_def run_apply_def rollback_def Let_def intro!: keeps_rules)

lemma keeps_confirm [keeps_rules]:
  "keeps ota_ok (markBootSuccessful E sw build)" "keeps ota_ok (clearBootCompletionNotice E)"
  by (auto simp: markBootSuccessful_def confirm_record_def clearBootCompletionNotice_def Let_def
      intro!: keeps_rules)

lemma keeps_end [keeps_rules]: "keeps ota_ok (endReceive E from corr n crc)"
  by (auto simp: endReceive_def flush_image_def publish_image_def Let_def intro!: keeps_rules)

section \<open>Operations on the pool\<close>

lemma keeps_release [keeps_rules]: "keeps ota_ok releasePsramPool"
proof -
  have "keeps ota_ok (modify (\<lambda>s. s\<lparr>o_psram_pool := None, o_psram_pool_size := 0\<rparr>))"
    by (auto simp: ota_ok_def pool_ok_def intro!: keeps_modify)
  then show ?thesis by (auto simp: releasePsramPool_def intro!: keeps_rules)
qed

lemma keeps_alloc [keeps_rules]: "keeps ota_ok (alloc_pool E n)"
proof -
  have "keeps ota_ok (modify (\<lambda>s. s\<lparr>o_psram_pool := Some (map f [0..<unat n]), o_psram_pool_size := n\<rparr>))"
    for f :: "nat \<Rightarrow> u8"
    by (auto simp: ota_ok_def pool_ok_def intro!: keeps_modify)
  then show ?thesis by (auto simp: alloc_pool_def intro!: keeps_rules)
qed

lemma keeps_pool [keeps_rules]:
  "keeps ota_ok (ensurePsramPool E)" "keeps ota_ok (setMaxFirmwareBytes n)"
proof -
  have "keeps ota_ok (modify (\<lambda>s. s\<lparr>o_config := (o_config s)\<lparr>max_firmware_bytes := n\<rparr>\<rparr>))"
    by (auto intro!: keeps_modify)
  then show "keeps ota_ok (ensurePsramPool E)" "keeps ota_ok (setMaxFirmwareBytes n)"
    by (auto simp: ensurePsramPool_def setMaxFirmwareBytes_def Let_def intro!: keeps_rules)
qed

lemma keeps_begin [keeps_rules]: "keeps ota_ok (ota_begin E)"
  by (auto simp: ota_begin_def begin_storage_def Let_def intro!: keeps_rules)

section \<open>Opening a session\<close>

lemma fresh_fields [simp]:
  "rs_active (fresh_session c from corr n k crc now)"
  "rs_from (fresh_session c from corr n k crc now) = from"
  "rs_corr_id (fresh_session c from corr n k crc now) = corr"
  "rs_expected_size (fresh_session c from corr n k crc now) = n"
  "rs_expected_crc32 (fresh_session c from corr n k crc now) = crc"
  "rs_chunk_size (fresh_session c from corr n k crc now) = k"
  "rs_received_size (fresh_session c from corr n k crc now) = 0"
  "rs_unique_received_size (fresh_session c from corr n k crc now) = 0"
  "rs_chunk_count (fresh_session c from corr n k crc now) = (n + k - 1) div k"
  "rs_last_activity_epoch_s (fresh_session c from corr n k crc now) = now"
  "rs_temp_path (fresh_session c from corr n k crc now) = joinPath (in_dir c) ''u.tmp''"
  "rs_final_path (fresh_session c from corr n k crc now) = joinPath (img_dir c) ''u.bin''"
  by (simp_all add: fresh_session_def Let_def)

lemma fresh_not_got [simp]: "\<not> got (fresh_session c from corr n k crc now) i"
  by (auto simp: got_def isChunkReceived_iff fresh_session_def Let_def)

lemma fresh_chunking:
  assumes "n \<noteq> 0" "k \<noteq> 0"
  shows "chunking_ok (fresh_session c from corr n k crc now)"
proof -
  have "0 < n" "0 < k" using assms by (auto simp: word_gt_0)
  then show ?thesis
    using chunk_count_word [of n k] by (auto simp: chunking_ok_def unat_gt_0)
qed

lemma fresh_session_ok: "n \<noteq> 0 \<Longrightarrow> k \<noteq> 0 \<Longrightarrow> session_ok (fresh_session c from corr n k crc now)"
  unfolding session_ok_def
  by (rule conjI, erule (1) fresh_chunking, rule exI [of _ 0]) (simp add: prefix_to_def)

lemma keeps_open_session:
  assumes "n \<noteq> 0" "k \<noteq> 0"
  shows "keeps ota_ok (open_session E from corr n k crc md)"
proof -
  have "keeps ota_ok (modify (\<lambda>s. s\<lparr>o_receive := fresh_session (o_config s) from corr n k crc now,
          o_receive_meta := m\<rparr>))" for now m
    using fresh_session_ok [OF assms] by (auto simp: ota_ok_def pool_ok_def intro!: keeps_modify)
  then show ?thesis by (auto simp: open_session_def intro!: keeps_rules)
qed

lemma keeps_beginReceive [keeps_rules]: "keeps ota_ok (beginReceive E from corr n k crc md)"
  by (auto simp: beginReceive_def Let_def intro!: keeps_rules keeps_open_session)

section \<open>Accepting a chunk\<close>

text \<open>The fields of a session that chunks do not change.\<close>

definition same_transfer :: "ReceiveSession \<Rightarrow> ReceiveSession \<Rightarrow> bool" where
  "same_transfer r r' \<longleftrightarrow> rs_active r' = rs_active r \<and> rs_from r' = rs_from r \<and> rs_corr_id r' = rs_corr_id r
     \<and> rs_expected_size r' = rs_expected_size r \<and> rs_expected_crc32 r' = rs_expected_crc32 r
     \<and> rs_chunk_size r' = rs_chunk_size r \<and> rs_chunk_count r' = rs_chunk_count r
     \<and> rs_temp_path r' = rs_temp_path r \<and> rs_final_path r' = rs_final_path r
     \<and> length (rs_chunk_bitmap r') = length (rs_chunk_bitmap r)"

text \<open>The bitmap has a bit for every chunk.\<close>

definition bitmap_full :: "ReceiveSession \<Rightarrow> bool" where
  "bitmap_full r \<longleftrightarrow> (\<forall>i < chunks r. i div 8 < length (rs_chunk_bitmap r))"

text \<open>The session after chunk \<open>i\<close> has been accepted.\<close>

definition chunk_added :: "ReceiveSession \<Rightarrow> nat \<Rightarrow> ReceiveSession \<Rightarrow> bool" where
  "chunk_added r i r' \<longleftrightarrow> same_transfer r r' \<and> session_ok r'
     \<and> (\<forall>j < chunks r. got r' j \<longleftrightarrow> got r j \<or> (j = i \<and> i div 8 < length (rs_chunk_bitmap r)))
     \<and> rs_unique_received_size r' = (if got r i then rs_unique_received_size r
          else rs_unique_received_size r + of_nat (clen r i))"

lemma refresh_session:
  assumes "chunking_ok r" and "prefix_to r j" and "unat (rs_received_size r) = cut_at r j"
  shows "\<exists>c. refreshContiguousReceived r = Some (r\<lparr>rs_received_size := c\<rparr>)
           \<and> session_ok (r\<lparr>rs_received_size := c, rs_last_activity_epoch_s := now\<rparr>)"
proof -
  have "chunks r - j < Suc (chunks r)" by simp
  from refresh_loop_returns [OF assms this]
  obtain c j' where "refresh_loop (Suc (chunks r)) r (rs_received_size r) = Some c" "unat c = cut_at r j'"
    "prefix_to r j'" "j' = chunks r \<or> \<not> got r j'"
    by blast
  moreover have "rs_chunk_size r \<noteq> 0" using assms(1) by (auto simp: chunking_ok_def)
  moreover have "session_ok (r\<lparr>rs_received_size := c, rs_last_activity_epoch_s := now\<rparr>)"
    if "unat c = cut_at r j'" "prefix_to r j'" "j' = chunks r \<or> \<not> got r j'"
    using assms(1) that
    by (auto simp: session_ok_def chunking_ok_def cut_at_def prefix_to_def got_def isChunkReceived_iff)
  ultimately show ?thesis by (auto simp: refreshContiguousReceived_def simp del: refresh_loop.simps)
qed

lemma got_mark:
  assumes "i < chunks r" and "j < chunks r"
  shows "got (snd (markChunkReceived (of_nat i) r)) j
           \<longleftrightarrow> got r j \<or> (j = i \<and> i div 8 < length (rs_chunk_bitmap r))"
proof -
  have u: "unat (of_nat k :: u32) = k" if "k < chunks r" for k
    using that unat_u32_less [of "rs_chunk_count r"] by (intro unat_of_nat_u32) simp
  have "(of_nat j :: u32) = of_nat i \<longleftrightarrow> j = i"
    using u [OF assms(1)] u [OF assms(2)] by metis
  then show ?thesis
    using assms u [OF assms(1)] by (auto simp: got_def isChunkReceived_mark word_less_nat_alt)
qed

lemma count_same: "same_transfer r (count_chunk i n r)"
  by (simp add: same_transfer_def count_chunk_def)

lemma count_received [simp]: "rs_received_size (count_chunk i n r) = rs_received_size r"
  by (simp add: count_chunk_def)

lemma count_unique:
  "rs_unique_received_size (count_chunk i n r)
     = (if isChunkReceived i r then rs_unique_received_size r else rs_unique_received_size r + of_nat n)"
  by (simp add: count_chunk_def)

lemma got_update [simp]: "got (r\<lparr>rs_received_size := c\<rparr>) k = got r k"
  "got (r\<lparr>rs_last_activity_epoch_s := now\<rparr>) k = got r k"
  "got (r\<lparr>rs_unique_received_size := u\<rparr>) k = got r k"
  by (simp_all add: got_def isChunkReceived_iff)

lemma got_count:
  assumes "i < chunks r" and "k < chunks r"
  shows "got (count_chunk (of_nat i) n r) k
           \<longleftrightarrow> got r k \<or> (k = i \<and> i div 8 < length (rs_chunk_bitmap r))"
  using got_mark [OF assms] by (auto simp: count_chunk_def) (simp add: got_def)

lemma count_chunk_refresh:
  assumes ok: "session_ok r" and i: "i < chunks r"
  obtains c where
    "refreshContiguousReceived (count_chunk (of_nat i) (clen r i) r)
       = Some ((count_chunk (of_nat i) (clen r i) r)\<lparr>rs_received_size := c\<rparr>)"
    "\<And>now. chunk_added r i ((count_chunk (of_nat i) (clen r i) r)
              \<lparr>rs_received_size := c, rs_last_activity_epoch_s := now\<rparr>)"
proof -
  let ?r1 = "count_chunk (of_nat i) (clen r i) r"
  obtain j where j: "unat (rs_received_size r) = cut_at r j" "prefix_to r j"
    using ok by (auto simp: session_ok_def)
  have f: "rs_expected_size ?r1 = rs_expected_size r" "rs_chunk_size ?r1 = rs_chunk_size r"
    "rs_chunk_count ?r1 = rs_chunk_count r"
    using count_same [of r] by (auto simp: same_transfer_def)
  have "chunking_ok ?r1" "unat (rs_received_size ?r1) = cut_at ?r1 j"
    using ok j by (auto simp: session_ok_def chunking_ok_def cut_at_def f)
  moreover have "prefix_to ?r1 j" using j(2) got_count [OF i] by (auto simp: prefix_to_def f)
  ultimately have ex: "\<exists>c. refreshContiguousReceived ?r1 = Some (?r1\<lparr>rs_received_size := c\<rparr>)
      \<and> session_ok (?r1\<lparr>rs_received_size := c, rs_last_activity_epoch_s := now\<rparr>)" for now
    by (intro refresh_session)
  then obtain c where c: "refreshContiguousReceived ?r1 = Some (?r1\<lparr>rs_received_size := c\<rparr>)" by blast
  have "rs_received_size (?r1\<lparr>rs_received_size := d\<rparr>) = d" for d by simp
  then have "session_ok (?r1\<lparr>rs_received_size := c, rs_last_activity_epoch_s := now\<rparr>)" for now
    using ex [of now] c by (metis option.inject)
  then have "chunk_added r i (?r1\<lparr>rs_received_size := c, rs_last_activity_epoch_s := now\<rparr>)" for now
    using count_same [of r "of_nat i" "clen r i"] got_count [OF i]
    by (auto simp: chunk_added_def same_transfer_def count_unique got_def [symmetric])
  with c that show ?thesis by blast
qed

text \<open>The clock as the manager reads it.\<close>

definition clock :: "ota_env \<Rightarrow> ota_call list \<Rightarrow> u32" where
  "clock E tr = (if time_of E tr \<le> 0 then 0 else of_int (time_of E tr))"

lemma accept_chunk_post:
  assumes ok: "session_ok (o_receive s)" and i: "i < chunks (o_receive s)"
    and p: "o_psram_pool s = Some p" and len: "length bs = clen (o_receive s) i"
  shows "wp (accept_chunk E off bs (of_nat i)) (\<lambda>v t. (\<exists>msg. v = Some (True, msg))
           \<and> o_psram_pool t = Some (pool_write (unat off) bs p)
           \<and> o_psram_pool_size t = o_psram_pool_size s \<and> o_config t = o_config s
           \<and> (\<exists>tr. rs_last_activity_epoch_s (o_receive t) = clock E tr)
           \<and> chunk_added (o_receive s) i (o_receive t)) s"
proof -
  obtain c where c: "refreshContiguousReceived (count_chunk (of_nat i) (length bs) (o_receive s))
       = Some ((count_chunk (of_nat i) (length bs) (o_receive s))\<lparr>rs_received_size := c\<rparr>)"
    and added: "\<And>now. chunk_added (o_receive s) i ((count_chunk (of_nat i) (length bs) (o_receive s))
              \<lparr>rs_received_size := c, rs_last_activity_epoch_s := now\<rparr>)"
    using count_chunk_refresh [OF ok i] len by metis
  show ?thesis
    unfolding accept_chunk_def Let_def
    by (auto simp: wp_rules c set_status_def ota_nowEpochSec_def call_def Let_def p added clock_def)
qed

section \<open>A chunk arrives\<close>

lemma expire_post:
  "wp (expireReceiveIfStale E) (\<lambda>_ t. o_psram_pool t = o_psram_pool s
     \<and> o_psram_pool_size t = o_psram_pool_size s \<and> o_config t = o_config s
     \<and> (o_receive t = o_receive s \<and> o_receive_meta t = o_receive_meta s \<or> \<not> rs_active (o_receive t))) s"
  unfolding expireReceiveIfStale_def ota_nowEpochSec_def call_def store_def clear_session_def
    set_status_def Let_def
  by (simp add: wp_rules)

text \<open>What an accepted chunk has been checked for, and what it does.\<close>

definition chunk_accepted :: "mac \<Rightarrow> u32 \<Rightarrow> u32 \<Rightarrow> bytes \<Rightarrow> nat \<Rightarrow> ota \<Rightarrow> ota \<Rightarrow> bool" where
  "chunk_accepted from corr offset bs i s t \<longleftrightarrow> (let r = o_receive s in
     rs_active r \<and> rs_from r = from \<and> rs_corr_id r = corr
     \<and> i < chunks r \<and> unat offset = i * chunk_len r \<and> length bs = clen r i
     \<and> img_len r \<le> unat (o_psram_pool_size s)
     \<and> (\<exists>p. o_psram_pool s = Some p \<and> o_psram_pool t = Some (pool_write (unat offset) bs p))
     \<and> chunk_added r i (o_receive t))"

definition chunk_rejected :: "ota \<Rightarrow> ota \<Rightarrow> bool" where
  "chunk_rejected s t \<longleftrightarrow> o_psram_pool t = o_psram_pool s
     \<and> (o_receive t = o_receive s \<or> \<not> rs_active (o_receive t))"

lemma reject_post:
  "wp (reject_chunk code m) (\<lambda>v t. (\<exists>msg. v = Some (False, msg)) \<and> o_psram_pool t = o_psram_pool s
     \<and> o_psram_pool_size t = o_psram_pool_size s \<and> o_config t = o_config s \<and> o_receive t = o_receive s) s"
  by (simp add: reject_chunk_def fail_ota_def set_status_def wp_rules)

definition write_post :: "mac \<Rightarrow> u32 \<Rightarrow> u32 \<Rightarrow> buf \<Rightarrow> ota \<Rightarrow> verdict option \<Rightarrow> ota \<Rightarrow> bool" where
  "write_post from corr offset data s v t \<longleftrightarrow>
     o_psram_pool_size t = o_psram_pool_size s \<and> o_config t = o_config s
     \<and> ((\<exists>msg. v = Some (False, msg)) \<and> chunk_rejected s t
        \<or> (\<exists>msg bs i. v = Some (True, msg) \<and> data = Some bs \<and> chunk_accepted from corr offset bs i s t))"

lemma write_post_reject:
  "wp (reject_chunk code m) (write_post from corr offset data s) s"
  by (rule wp_mono [OF reject_post]) (auto simp: write_post_def chunk_rejected_def)

lemma write_post_mono:
  "write_post from corr offset data u v t \<Longrightarrow> o_psram_pool u = o_psram_pool s \<Longrightarrow>
   o_psram_pool_size u = o_psram_pool_size s \<Longrightarrow> o_config u = o_config s \<Longrightarrow>
   o_receive u = o_receive s \<or> \<not> rs_active (o_receive u) \<Longrightarrow> write_post from corr offset data s v t"
  by (auto simp: write_post_def chunk_rejected_def chunk_accepted_def Let_def)

lemma write_checked:
  assumes ok: "session_ok (o_receive s)"
    and v: "validateSession from corr (o_receive s) = None"
    and p: "o_psram_pool s = Some p" "\<not> o_psram_pool_size s < rs_expected_size (o_receive s)"
    and al: "off mod rs_chunk_size (o_receive s) = 0"
    and i: "\<not> rs_chunk_count (o_receive s) \<le> off div rs_chunk_size (o_receive s)"
    and len: "length bs = unat (chunkSizeAt (off div rs_chunk_size (o_receive s)) (o_receive s))"
  shows "wp (accept_chunk E off bs (off div rs_chunk_size (o_receive s)))
           (write_post from corr off (Some bs) s) s"
proof -
  let ?r = "o_receive s"
  define k where "k = unat (off div rs_chunk_size ?r)"
  have idx: "off div rs_chunk_size ?r = of_nat k" by (simp add: k_def)
  have kc: "k < chunks ?r" using i by (simp add: k_def word_le_nat_alt not_le)
  have ck: "chunking_ok ?r" using ok by (simp add: session_ok_def)
  have len': "length bs = clen ?r k" using len chunkSizeAt_unat [OF ck kc] by (simp add: idx)
  have "unat off = k * chunk_len ?r"
    using al unat_mod [of off "rs_chunk_size ?r"] div_mult_mod_eq [of "unat off" "chunk_len ?r"]
    by (simp add: k_def unat_div)
  moreover have "rs_active ?r" "rs_from ?r = from" "rs_corr_id ?r = corr"
    using v by (auto simp: validateSession_def split: if_splits)
  moreover have "img_len ?r \<le> unat (o_psram_pool_size s)"
    using p(2) by (simp add: word_le_nat_alt not_less)
  ultimately show ?thesis
    unfolding idx
    by (intro wp_mono [OF accept_chunk_post [OF ok kc p(1) len']])
       (auto simp: write_post_def chunk_accepted_def Let_def p(1) kc len' intro!: exI [of _ k])
qed

lemma place_post:
  assumes "session_ok (o_receive s)" and "validateSession from corr (o_receive s) = None"
  shows "wp (place_chunk E off data) (write_post from corr off data s) s"
  unfolding place_chunk_def
  using write_checked [OF assms]
  by (cases data) (auto simp: Let_def wp_rules not_le intro: write_post_reject del: mod_0_imp_dvd)

lemma write_chunk_post:
  assumes ok: "ota_ok s"
  shows "wp (writeReceiveChunk E from corr off data) (write_post from corr off data s) s"
proof -
  have "wp (do { r \<leftarrow> gets o_receive;
      case validateSession from corr r of
        Some msg \<Rightarrow> ret (Some (False, msg)) | None \<Rightarrow> place_chunk E off data })
      (write_post from corr off data s) u"
    if f: "o_psram_pool u = o_psram_pool s \<and> o_psram_pool_size u = o_psram_pool_size s
          \<and> o_config u = o_config s
          \<and> (o_receive u = o_receive s \<and> o_receive_meta u = o_receive_meta s \<or> \<not> rs_active (o_receive u))"
      and u: "ota_ok u" for u
  proof (cases "validateSession from corr (o_receive u)")
    case None
    then have "session_ok (o_receive u)"
      using u by (auto simp: ota_ok_def validateSession_def split: if_splits)
    then show ?thesis
      using None f by (auto simp: wp_rules elim: write_post_mono intro: wp_mono [OF place_post])
  next
    case (Some m)
    then show ?thesis using f by (auto simp: wp_rules write_post_def chunk_rejected_def)
  qed
  then show ?thesis
    unfolding writeReceiveChunk_def wp_bind [of "expireReceiveIfStale E"]
    by (intro wp_mono [OF wp_conj [OF expire_post keepsD [OF keeps_leaves(7) ok]]]) blast
qed

lemma keeps_writeReceiveChunk [keeps_rules]: "keeps ota_ok (writeReceiveChunk E from corr off data)"
proof -
  have "ota_ok t" if "ota_ok s" "write_post from corr off data s v t" for s v t
  proof (cases "chunk_rejected s t")
    case True
    with that show ?thesis
      by (auto simp: ota_ok_def pool_ok_def chunk_rejected_def write_post_def)
  next
    case False
    with that obtain bs i where a: "chunk_accepted from corr off bs i s t"
      by (auto simp: write_post_def)
    then have "session_ok (o_receive t)" "rs_active (o_receive s)" "chunking_ok (o_receive s)"
      using that(1) by (auto simp: chunk_accepted_def chunk_added_def Let_def ota_ok_def session_ok_def)
    with a that show ?thesis
      using chunking_bounds(3) [of "o_receive s" i]
      by (auto simp: ota_ok_def pool_ok_def chunk_accepted_def Let_def write_post_def pool_write_def)
  qed
  then show ?thesis
    unfolding keeps_def by (blast intro: wp_mono [OF write_chunk_post])
qed

section \<open>The machine\<close>

datatype ota_op =
    OpBegin
  | OpTick
  | OpBeginReceive mac u32 u32 u32 u32 "FirmwareImageMetadata option"
  | OpWrite mac u32 u32 buf
  | OpEnd mac u32 u32 u32
  | OpAbort mac u32
  | OpAbortActive
  | OpApply string u32 u32
  | OpRollback
  | OpMarkBoot string string
  | OpClearNotice
  | OpSetMax u32
  | OpSetGate bool
  | OpSetExecutor bool

primrec perform :: "ota_env \<Rightarrow> ota_op \<Rightarrow> unit otam" where
  "perform E OpBegin = do { _ \<leftarrow> ota_begin E; ret () }"
| "perform E OpTick = ota_tick E"
| "perform E (OpBeginReceive from corr n k crc md) = do { _ \<leftarrow> beginReceive E from corr n k crc md; ret () }"
| "perform E (OpWrite from corr off data) = do { _ \<leftarrow> writeReceiveChunk E from corr off data; ret () }"
| "perform E (OpEnd from corr n crc) = do { _ \<leftarrow> endReceive E from corr n crc; ret () }"
| "perform E (OpAbort from corr) = do { _ \<leftarrow> abortReceive E from corr; ret () }"
| "perform E OpAbortActive = do { _ \<leftarrow> abortActiveReceive E; ret () }"
| "perform E (OpApply path n crc) = do { _ \<leftarrow> applyImage E path n crc; ret () }"
| "perform E OpRollback = do { _ \<leftarrow> rollback E; ret () }"
| "perform E (OpMarkBoot sw build) = do { _ \<leftarrow> markBootSuccessful E sw build; ret () }"
| "perform E OpClearNotice = do { _ \<leftarrow> clearBootCompletionNotice E; ret () }"
| "perform E (OpSetMax n) = setMaxFirmwareBytes n"
| "perform E (OpSetGate g) = setUpdateGate g"
| "perform E (OpSetExecutor x) = setApplyExecutor x"

lemma keeps_perform: "keeps ota_ok (perform E a)"
  by (cases a) (auto simp: ota_tick_def intro!: keeps_rules)

inductive ota_step :: "ota \<Rightarrow> ota \<Rightarrow> bool" where
  "run_state (perform E a) s = ((), t) \<Longrightarrow> ota_step s t"

interpretation ota: invariant_machine ota_step ota_ok
  by unfold_locales (auto elim!: ota_step.cases intro: keeps_run [OF keeps_perform])

lemma ota_ok_new: "ota_ok (new_ota c g x)"
  by (simp add: ota_ok_def pool_ok_def new_ota_def)

definition perform_all :: "ota_env \<Rightarrow> ota_op list \<Rightarrow> ota \<Rightarrow> ota" where
  "perform_all E ops s = fold (\<lambda>a s. snd (run_state (perform E a) s)) ops s"

lemma perform_all_steps: "ota_step\<^sup>*\<^sup>* s (perform_all E ops s)"
proof (induction ops arbitrary: s)
  case (Cons a ops)
  have "ota_step s (snd (run_state (perform E a) s))"
    by (rule ota_step.intros) (simp add: prod_eq_iff)
  with Cons [of "snd (run_state (perform E a) s)"] show ?case
    by (simp add: perform_all_def converse_rtranclp_into_rtranclp)
qed (simp add: perform_all_def)

lemma perform_all_ok: "ota_ok s \<Longrightarrow> ota_ok (perform_all E ops s)"
  by (rule ota.steps_inv [OF perform_all_steps])

end
