(* ===== verification/OtaDisk.thy ===== *)
theory OtaDisk
  imports OtaInvariant
begin

text \<open>
  What the storage calls of the OTA manager leave on the medium, by the documented behaviour of
  \<open>IOtaStorageBackend\<close> (\<open>ota_storage.hpp\<close>): a call that reports success has its effect, one that
  reports failure has none. With it: a successful \<open>endReceive\<close> has written the image.
\<close>

section \<open>Files\<close>

type_synonym files = "string \<Rightarrow> bytes option"

definition patch :: "nat \<Rightarrow> bytes \<Rightarrow> bytes \<Rightarrow> bytes" where
  "patch off d old = take off old @ replicate (off - length old) 0 @ d @ drop (off + length d) old"

fun effect :: "ota_call \<Rightarrow> files \<Rightarrow> files" where
  "effect (TruncateFile p) fs = fs(p \<mapsto> [])"
| "effect (RemovePath p) fs = fs(p := None)"
| "effect (RenamePath a b) fs = (fs(b := fs a))(a := None)"
| "effect (WriteAt p off d) fs =
     fs(p \<mapsto> patch (unat off) d (case fs p of None \<Rightarrow> [] | Some old \<Rightarrow> old))"
| "effect _ fs = fs"

text \<open>The files after the calls \<open>cs\<close> that follow the calls \<open>done\<close>.\<close>

fun replay :: "ota_env \<Rightarrow> ota_call list \<Rightarrow> ota_call list \<Rightarrow> files \<Rightarrow> files" where
  "replay E before [] fs = fs"
| "replay E before (c # cs) fs =
     replay E (before @ [c]) cs (if fst (reply E before c) then effect c fs else fs)"

definition disk :: "ota_env \<Rightarrow> files \<Rightarrow> ota \<Rightarrow> files" where
  "disk E fs0 s = replay E [] (o_calls s) fs0"

lemma replay_append: "replay E b (xs @ ys) fs = replay E (b @ xs) ys (replay E b xs fs)"
  by (induction xs arbitrary: b fs) auto

lemma disk_call:
  "disk E fs0 (s\<lparr>o_calls := o_calls s @ [c]\<rparr>)
     = (if fst (reply E (o_calls s) c) then effect c (disk E fs0 s) else disk E fs0 s)"
  by (simp add: disk_def replay_append)

lemma disk_frame [simp]:
  "disk E fs0 (s\<lparr>o_status := st\<rparr>) = disk E fs0 s"
  "disk E fs0 (s\<lparr>o_receive := r\<rparr>) = disk E fs0 s"
  "disk E fs0 (s\<lparr>o_receive_meta := m\<rparr>) = disk E fs0 s"
  by (simp_all add: disk_def)

lemma wp_store: "wp (store E c) Q s \<longleftrightarrow> Q (reply E (o_calls s) c) (s\<lparr>o_calls := o_calls s @ [c]\<rparr>)"
  by (simp add: store_def call_def wp_rules)

lemma patch_append: "patch (length old) d old = old @ d"
  by (simp add: patch_def)

section \<open>Paths that differ\<close>

lemma last_joinPath: "n \<noteq> [] \<Longrightarrow> last (joinPath d n) = last n"
  by (auto simp: joinPath_def)

lemma digits_ne: "digits b n \<noteq> []"
  by (subst digits.simps) simp

lemma last_digits: "2 \<le> b \<Longrightarrow> \<exists>d < b. last (digits b n) = digit_char d"
  by (subst digits.simps) (auto intro: exI [of _ n] exI [of _ "n mod b"])

lemma last_manifest: "last (manifestNameForImage f) \<in> digit_char ` {..<16}"
  using last_digits [of 16 "unat (hashFileId f)"] by (auto simp: manifestNameForImage_def digits_ne)

lemma hex_chars: "CHR ''n'' \<notin> digit_char ` {..<16}"
proof
  assume "CHR ''n'' \<in> digit_char ` {..<16}"
  then obtain d where "d < 16" "(of_char (CHR ''n'') :: nat) = of_char (digit_char d)" by force
  then show False by (simp add: digit_char_def split: if_splits)
qed

lemma manifest_path_ne: "joinPath d (manifestNameForImage f) \<noteq> joinPath e ''u.bin''"
proof
  assume "joinPath d (manifestNameForImage f) = joinPath e ''u.bin''"
  then have "last (manifestNameForImage f) = CHR ''n''"
    by (metis last_joinPath last.simps list.distinct(1) manifestNameForImage_def append_Cons)
  then show False using last_manifest [of f] hex_chars by auto
qed

lemma temp_path_ne: "joinPath d ''u.tmp'' \<noteq> joinPath e ''u.bin''"
  using last_joinPath [of "''u.tmp''" d] last_joinPath [of "''u.bin''" e] by auto

section \<open>Flushing\<close>

text \<open>What a call on the environment does not change.\<close>

definition same_but_calls :: "ota \<Rightarrow> ota \<Rightarrow> bool" where
  "same_but_calls s t \<longleftrightarrow> (\<exists>cs. t = s\<lparr>o_calls := cs\<rparr>)"

lemma same_but_calls_refl [simp]: "same_but_calls s s"
  by (auto simp: same_but_calls_def intro: exI [of _ "o_calls s"])

lemma same_but_calls_step [simp]: "same_but_calls (s\<lparr>o_calls := cs\<rparr>) t = same_but_calls s t"
  by (simp add: same_but_calls_def)

lemma same_but_calls_call [simp]: "same_but_calls s (s\<lparr>o_calls := cs\<rparr>)"
  by (auto simp: same_but_calls_def)

lemma same_but_calls_fields:
  assumes "same_but_calls s t"
  shows "o_receive t = o_receive s" "o_psram_pool t = o_psram_pool s" "o_config t = o_config s"
    "o_status t = o_status s" "o_receive_meta t = o_receive_meta s" "o_psram_pool_size t = o_psram_pool_size s"
  using assms by (auto simp: same_but_calls_def)

lemma flush_post:
  assumes "unat expected \<le> length pool" and "unat written \<le> unat expected"
    and "disk E fs0 s path = Some (take (unat written) pool)"
  shows "wp (flush_from E path pool expected written) (\<lambda>(ok, msg) t. same_but_calls s t
           \<and> (ok \<longrightarrow> disk E fs0 t path = Some (take (unat expected) pool))) s"
  using assms
proof (induction E path pool expected written arbitrary: s rule: flush_from.induct)
  case (1 E path pool expected written)
  show ?case
  proof (cases "written < expected")
    case False
    then have "unat written = unat expected"
      using 1(3) by (simp add: word_less_nat_alt)
    then show ?thesis
      using 1(4) False by (subst flush_from.simps) (simp add: wp_rules)
  next
    case True
    let ?n = "min kFlushBlockBytes (expected - written)"
    let ?c = "WriteAt path written (take (unat ?n) (drop (unat written) pool))"
    let ?s = "s\<lparr>o_calls := o_calls s @ [?c]\<rparr>"
    note p = flush_progress [OF True]
    have n: "unat written + unat ?n = unat (written + ?n)" "unat (written + ?n) \<le> unat expected"
    proof -
      show "unat (written + ?n) \<le> unat expected" using p(1) True by (simp add: word_less_nat_alt)
      have "unat ?n = min 4096 (unat expected - unat written)"
        using True by (simp add: kFlushBlockBytes_def min_def word_le_nat_alt unat_sub word_less_nat_alt)
      then show "unat written + unat ?n = unat (written + ?n)" using p(1) by simp
    qed
    have len: "length (take (unat written) pool) = unat written" using 1 by simp
    have "disk E fs0 ?s path = Some (take (unat (written + ?n)) pool)" if "fst (reply E (o_calls s) ?c)"
      using that 1(4) patch_append [of "take (unat written) pool", unfolded len]
      by (simp add: disk_call take_add [symmetric] n)
    then show ?thesis
      using True n 1(1) [of ?n True ?s] 1(2)
      by (subst flush_from.simps) (auto simp: Let_def wp_rules wp_store split: prod.split)
  qed
qed

section \<open>Publishing\<close>

text \<open>Calls with no effect on a file \<open>q\<close> keep what is on the disk there.\<close>

definition untouched :: "ota_env \<Rightarrow> files \<Rightarrow> string \<Rightarrow> ota \<Rightarrow> ota \<Rightarrow> bool" where
  "untouched E fs0 q s t \<longleftrightarrow> same_but_calls s t \<and> disk E fs0 t q = disk E fs0 s q"

lemma untouched_call:
  "(\<And>fs. effect c fs q = fs q) \<Longrightarrow> untouched E fs0 q s u \<Longrightarrow>
   untouched E fs0 q s (u\<lparr>o_calls := o_calls u @ [c]\<rparr>)"
  by (auto simp: untouched_def disk_call same_but_calls_def)

lemma keeps_untouched_call:
  assumes "\<And>fs. effect c fs q = fs q"
  shows "keeps (untouched E fs0 q s) (store E c)" "keeps (untouched E fs0 q s) (call c)"
  using untouched_call [OF assms] by (auto simp: keeps_def wp_store wp_rules call_def)

lemma keeps_gets_bind: "(\<And>s. I s \<Longrightarrow> keeps I (f (g s))) \<Longrightarrow> keeps I (State_Monad.bind (gets g) f)"
  by (auto simp: keeps_def wp_rules)

lemma manifest_post:
  assumes q: "q \<noteq> joinPath (man_dir (o_config s)) (manifestNameForImage (fileNameFromPath image_path))"
  shows "wp (writeReadyManifest E image_path n crc md) (\<lambda>_. untouched E fs0 q s) s"
proof -
  have "keeps (untouched E fs0 q s) (writeReadyManifest E image_path n crc md)"
    unfolding writeReadyManifest_def Let_def
  proof (intro keeps_if keeps_ret keeps_gets_bind, goal_cases)
    case (1 u)
    then have "man_dir (o_config u) = man_dir (o_config s)"
      by (auto simp: untouched_def same_but_calls_fields)
    then show ?case using q by (auto intro!: keeps_rules keeps_untouched_call)
  qed
  then show ?thesis by (rule keepsD) (simp add: untouched_def)
qed

text \<open>What a successful \<open>endReceive\<close> has checked and left behind.\<close>

definition end_post ::
  "ota_env \<Rightarrow> files \<Rightarrow> u32 \<Rightarrow> u32 \<Rightarrow> ota \<Rightarrow> bool \<times> string \<times> string \<Rightarrow> ota \<Rightarrow> bool" where
  "end_post E fs0 n crc s v t \<longleftrightarrow> (case v of (ok, msg, path) \<Rightarrow> ok \<longrightarrow>
     (\<exists>p. o_psram_pool s = Some p \<and> rs_active (o_receive s)
        \<and> n = rs_expected_size (o_receive s) \<and> crc = rs_expected_crc32 (o_receive s)
        \<and> rs_received_size (o_receive s) = n \<and> unat n \<le> length p \<and> crc32 (take (unat n) p) = crc
        \<and> path = rs_final_path (o_receive s)
        \<and> disk E fs0 t path = Some (take (unat n) p)
        \<and> \<not> rs_active (o_receive t) \<and> st_state (o_status t) = OtaReady))"

lemma end_post_refuse: "\<not> fst w \<Longrightarrow> wp (refuse_end w) (end_post E fs0 n crc s) u"
  by (cases w) (simp add: refuse_end_def wp_rules end_post_def)

lemma end_post_fail:
  "wp (do { v \<leftarrow> fail_ota code m; refuse_end v }) (end_post E fs0 n crc s) u"
  "wp (do { v \<leftarrow> fail_session code m; refuse_end v }) (end_post E fs0 n crc s) u"
  by (simp_all add: fail_session_def clear_session_def fail_ota_def set_status_def wp_rules end_post_refuse)

lemma make_room_post: "wp (make_room E r) (\<lambda>_ t. same_but_calls s t) s"
  by (simp add: make_room_def wp_rules wp_store Let_def)

lemma publish_post:
  assumes f: "rs_final_path (o_receive s) = joinPath d ''u.bin''"
  shows "wp (publish_image E n crc) (\<lambda>(ok, msg, path) t. ok \<and> path = rs_final_path (o_receive s)
           \<and> disk E fs0 t path = disk E fs0 s path \<and> \<not> rs_active (o_receive t)
           \<and> st_state (o_status t) = OtaReady) s"
proof -
  let ?u = "s\<lparr>o_receive := new_session, o_receive_meta := no_metadata\<rparr>"
  have "wp (writeReadyManifest E (rs_final_path (o_receive s)) n crc md)
          (\<lambda>_ t. untouched E fs0 (rs_final_path (o_receive s)) ?u t) ?u" for md
    by (rule manifest_post) (metis f manifest_path_ne)
  then have manifest: "wp (writeReadyManifest E (rs_final_path (o_receive s)) n crc md)
     (\<lambda>a. wp (case a of (x, y) \<Rightarrow> f x y) Q) ?u"
    if "\<And>x y t. untouched E fs0 (rs_final_path (o_receive s)) ?u t \<Longrightarrow> wp (f x y) Q t" for f Q md
    by (rule wp_mono) (use that in \<open>auto split: prod.split\<close>)
  show ?thesis
    unfolding publish_image_def clear_session_def set_status_def Let_def wp_bind wp_gets wp_modify
    by (rule manifest)
       (auto simp: wp_rules untouched_def same_but_calls_fields)
qed

definition published :: "ota_env \<Rightarrow> files \<Rightarrow> string \<Rightarrow> bytes \<Rightarrow> bool \<times> string \<times> string \<Rightarrow> ota \<Rightarrow> bool" where
  "published E fs0 final img v t \<longleftrightarrow> (case v of (ok, msg, path) \<Rightarrow> ok \<longrightarrow>
     path = final \<and> disk E fs0 t path = Some img \<and> \<not> rs_active (o_receive t)
     \<and> st_state (o_status t) = OtaReady)"

lemma published_fail:
  "wp (do { v \<leftarrow> fail_session code m; refuse_end v }) (published E fs0 final img) u"
  by (simp add: fail_session_def clear_session_def fail_ota_def set_status_def wp_rules refuse_end_def
      published_def)

lemma rename_and_publish_post:
  assumes "rs_final_path (o_receive s) = joinPath d ''u.bin''"
    and "disk E fs0 s (rs_temp_path (o_receive s)) = Some img"
    and "rs_temp_path (o_receive s) \<noteq> rs_final_path (o_receive s)"
  shows "wp (do { (ok, msg) \<leftarrow> store E (RenamePath (rs_temp_path (o_receive s)) (rs_final_path (o_receive s)));
     if \<not> ok then do { v \<leftarrow> fail_session StorageNotReady (or_text msg m); refuse_end v }
     else publish_image E n crc }) (published E fs0 (rs_final_path (o_receive s)) img) s"
proof -
  let ?c = "RenamePath (rs_temp_path (o_receive s)) (rs_final_path (o_receive s))"
  let ?u = "s\<lparr>o_calls := o_calls s @ [?c]\<rparr>"
  have "wp (publish_image E n crc) (published E fs0 (rs_final_path (o_receive s)) img) ?u"
    if "fst (reply E (o_calls s) ?c)"
  proof -
    have "disk E fs0 ?u (rs_final_path (o_receive s)) = Some img"
      using that assms by (simp add: disk_call)
    then show ?thesis
      by (intro wp_mono [OF publish_post [of ?u d _ _ _ fs0]])
         (use assms in \<open>auto simp: published_def split: prod.splits\<close>)
  qed
  then show ?thesis
    unfolding wp_bind [of "store E ?c"] wp_store
    by (auto simp: published_fail split: prod.split)
qed

lemma flush_image_post:
  assumes len: "img_len (o_receive s) \<le> length pool"
    and temp: "rs_temp_path (o_receive s) = joinPath b ''u.tmp''"
    and final: "rs_final_path (o_receive s) = joinPath d ''u.bin''"
  shows "wp (flush_image E pool n crc)
           (published E fs0 (rs_final_path (o_receive s)) (take (img_len (o_receive s)) pool)) s"
proof -
  let ?r = "o_receive s"
  let ?Q = "published E fs0 (rs_final_path ?r) (take (img_len ?r) pool)"
  let ?tail = "\<lambda>r. do {
       (ok, msg) \<leftarrow> store E (RenamePath (rs_temp_path r) (rs_final_path r));
       if \<not> ok then do { v \<leftarrow> fail_session StorageNotReady (or_text msg ''ota promote failed''); refuse_end v }
       else publish_image E n crc }"
  have tail: "wp (?tail ?r) ?Q u"
    if "same_but_calls s u" "disk E fs0 u (rs_temp_path ?r) = Some (take (img_len ?r) pool)" for u
    using rename_and_publish_post [of u d E fs0] that final temp temp_path_ne
    by (simp add: same_but_calls_fields)
  have flush: "wp (do { (ok, msg) \<leftarrow> flush_from E (rs_temp_path ?r) pool (rs_expected_size ?r) 0;
       if \<not> ok then do { v \<leftarrow> fail_session StorageNotReady msg; refuse_end v } else ?tail ?r }) ?Q u"
    if "same_but_calls s u" "disk E fs0 u (rs_temp_path ?r) = Some []" for u
  proof -
    have "wp (flush_from E (rs_temp_path ?r) pool (rs_expected_size ?r) 0) (\<lambda>(ok, msg) t. same_but_calls u t
           \<and> (ok \<longrightarrow> disk E fs0 t (rs_temp_path ?r) = Some (take (img_len ?r) pool))) u"
      by (rule flush_post) (use len that in auto)
    moreover have "same_but_calls s t" if "same_but_calls u t" for t
      using that \<open>same_but_calls s u\<close> by (auto simp: same_but_calls_def)
    ultimately show ?thesis
      unfolding wp_bind
      by (elim wp_mono) (auto simp: published_fail wp_bind [symmetric] intro: tail split: prod.splits)
  qed
  show ?thesis
    unfolding flush_image_def wp_bind [of "gets o_receive"] wp_gets wp_bind [of "make_room E ?r"]
  proof (rule wp_mono [OF make_room_post])
    fix u :: ota
    assume u: "same_but_calls s u"
    let ?c = "TruncateFile (rs_temp_path ?r)"
    let ?u = "u\<lparr>o_calls := o_calls u @ [?c]\<rparr>"
    have "same_but_calls s ?u" using u by (auto simp: same_but_calls_def)
    moreover have "disk E fs0 ?u (rs_temp_path ?r) = Some []" if "fst (reply E (o_calls u) ?c)"
      using that by (simp add: disk_call)
    ultimately show "wp (do { (ok, msg) \<leftarrow> store E ?c;
        if \<not> ok
        then do { v \<leftarrow> fail_session StorageNotReady (or_text msg ''create temp failed''); refuse_end v }
        else do {
          (ok, msg) \<leftarrow> flush_from E (rs_temp_path ?r) pool (rs_expected_size ?r) 0;
          if \<not> ok then do { v \<leftarrow> fail_session StorageNotReady msg; refuse_end v } else ?tail ?r } }) ?Q u"
      unfolding wp_bind [of "store E ?c"] wp_store
      by (auto simp: published_fail intro: flush split: prod.splits)
  qed
qed

lemma end_receive_post:
  assumes ok: "ota_ok s"
    and paths: "rs_active (o_receive s) \<Longrightarrow> rs_temp_path (o_receive s) = joinPath b ''u.tmp''
        \<and> rs_final_path (o_receive s) = joinPath d ''u.bin''"
  shows "wp (endReceive E from corr n crc) (end_post E fs0 n crc s) s"
proof -
  have main: "wp (do { s \<leftarrow> gets id; let r = o_receive s;
     case validateSession from corr r of
       Some msg \<Rightarrow> refuse_end (False, msg)
     | None \<Rightarrow> f s r }) (end_post E fs0 n crc s) u"
    if "validateSession from corr (o_receive u) = None \<Longrightarrow> wp (f u (o_receive u)) (end_post E fs0 n crc s) u" for f u
    using that by (auto simp: wp_rules Let_def end_post_refuse split: option.split)
  show ?thesis
    unfolding endReceive_def wp_bind [of "expireReceiveIfStale E"]
  proof (rule wp_mono [OF wp_conj [OF expire_post keepsD [OF keeps_leaves(7) ok]]], rule main)
    fix u
    assume u: "(o_psram_pool u = o_psram_pool s \<and> o_psram_pool_size u = o_psram_pool_size s
        \<and> o_config u = o_config s \<and> (o_receive u = o_receive s \<and> o_receive_meta u = o_receive_meta s
            \<or> \<not> rs_active (o_receive u))) \<and> ota_ok u"
      and v: "validateSession from corr (o_receive u) = None"
    then have act: "rs_active (o_receive s)" and r: "o_receive u = o_receive s"
      by (auto simp: validateSession_def split: if_splits)
    have flush: "wp (flush_image E p n crc) (end_post E fs0 n crc s) (u\<lparr>o_status := st\<rparr>)"
      if "o_psram_pool s = Some p" "\<not> o_psram_pool_size s < rs_expected_size (o_receive s)"
        "n = rs_expected_size (o_receive s)" "crc = rs_expected_crc32 (o_receive s)"
        "rs_received_size (o_receive s) = n" "crc32 (take (unat n) p) = crc" for p st
    proof -
      have "unat n \<le> length p"
        using that ok by (simp add: ota_ok_def pool_ok_def word_less_nat_alt not_less)
      then show ?thesis
        by (intro wp_mono [OF flush_image_post [of "u\<lparr>o_status := st\<rparr>" p b d]])
           (use that act r paths in \<open>auto simp: published_def end_post_def split: prod.splits\<close>)
    qed
    show "wp (if n \<noteq> rs_expected_size (o_receive u) \<or> crc \<noteq> rs_expected_crc32 (o_receive u)
         then do { v \<leftarrow> fail_ota SizeMismatch ''ota end metadata mismatch''; refuse_end v }
         else (case o_psram_pool u of
           None \<Rightarrow> do { v \<leftarrow> fail_ota StorageNotReady ''ota psram pool unavailable''; refuse_end v }
         | Some pool \<Rightarrow>
             if o_psram_pool_size u < rs_expected_size (o_receive u)
             then do { v \<leftarrow> fail_ota StorageNotReady ''ota psram pool unavailable''; refuse_end v }
             else if rs_received_size (o_receive u) \<noteq> rs_expected_size (o_receive u)
                     \<or> rs_unique_received_size (o_receive u) \<noteq> rs_expected_size (o_receive u)
             then do { v \<leftarrow> fail_ota SizeMismatch ''ota total size mismatch''; refuse_end v }
             else do {
               let crc' = crc32 (take (unat (rs_expected_size (o_receive u))) pool);
               _ \<leftarrow> set_status (\<lambda>st. st\<lparr>st_actual_crc32 := crc'\<rparr>);
               if crc' \<noteq> rs_expected_crc32 (o_receive u)
               then do {
                 _ \<leftarrow> store E (RemovePath (rs_temp_path (o_receive u)));
                 v \<leftarrow> fail_session CrcMismatch ''ota crc mismatch'';
                 refuse_end v }
               else flush_image E pool n crc' })) (end_post E fs0 n crc s) u"
      using flush u r end_post_fail
      by (auto simp: Let_def set_status_def wp_bind [of "modify f" for f] wp_bind [of "store E c" for c]
          wp_modify wp_store split: option.split)
  qed
qed

end
