(* ===== verification/OtaCompletes.thy ===== *)
theory OtaCompletes
  imports OtaTransfer
begin

text \<open>
  Liveness of an OTA transfer: over a storage that works and within the receive timeout, a sender
  that sends every chunk of its image at least once, in any order, gets its image onto the disk.
\<close>

section \<open>A sender and an environment that cooperate\<close>

text \<open>All reads of the clock fall into one window shorter than the receive timeout.\<close>

definition patient :: "ota_env \<Rightarrow> OtaManagerConfig \<Rightarrow> bool" where
  "patient E c \<longleftrightarrow> receive_timeout_s c = 0 \<or> (\<exists>t0 \<ge> 0. t0 + uint (receive_timeout_s c) \<le> 2 ^ 32
     \<and> (\<forall>tr. t0 \<le> time_of E tr \<and> time_of E tr < t0 + uint (receive_timeout_s c)))"

definition storage_works :: "ota_env \<Rightarrow> bool" where
  "storage_works E \<longleftrightarrow> (\<forall>tr c. fst (reply E tr c))"

text \<open>Chunk \<open>i\<close> of an image cut at \<open>k\<close> bytes, as the sender puts it on the air.\<close>

definition chunk_of :: "bytes \<Rightarrow> nat \<Rightarrow> nat \<Rightarrow> u32 \<times> bytes" where
  "chunk_of img k i = (of_nat (i * k), take k (drop (i * k) img))"

lemma clock_step:
  assumes "patient E c" "receive_timeout_s c \<noteq> 0" "clock E tr \<noteq> 0" "clock E tr' \<le> clock E tr"
  shows "clock E tr - clock E tr' < receive_timeout_s c"
proof -
  obtain t0 where t0: "0 \<le> t0" "t0 + uint (receive_timeout_s c) \<le> 2 ^ 32"
    "\<And>tr. t0 \<le> time_of E tr \<and> time_of E tr < t0 + uint (receive_timeout_s c)"
    using assms(1,2) by (auto simp: patient_def)
  have u: "int (unat (clock E tr)) = max 0 (time_of E tr)" for tr
    using t0(1,2) t0(3) [of tr]
    by (auto simp: clock_def uint_word_of_int take_bit_int_eq_self_iff simp flip: uint_nat)
  have "unat (clock E tr - clock E tr') = unat (clock E tr) - unat (clock E tr')"
    using assms(4) by (simp add: unat_sub)
  moreover have "int (unat (clock E tr)) - int (unat (clock E tr')) < int (unat (receive_timeout_s c))"
    using u [of tr] u [of tr'] t0(1) t0(3) [of tr] t0(3) [of tr'] uint_nat [of "receive_timeout_s c"]
    by linarith
  moreover have "0 < unat (receive_timeout_s c)" using assms(2) by (simp add: unat_gt_0)
  ultimately show ?thesis unfolding word_less_nat_alt by linarith
qed

lemma expire_noop:
  assumes "patient E (o_config s)" "rs_last_activity_epoch_s (o_receive s) = clock E tr'"
  shows "wp (expireReceiveIfStale E) (\<lambda>_ t. same_but_calls s t) s"
proof -
  let ?now = "clock E (o_calls s)"
  have now: "(if time_of E (o_calls s) \<le> 0 then 0 else word_of_int (time_of E (o_calls s))) = ?now"
    by (simp add: clock_def)
  have "?now - clock E tr' < receive_timeout_s (o_config s)"
    if "receive_timeout_s (o_config s) \<noteq> 0" "?now \<noteq> 0" "clock E tr' \<le> ?now"
    using clock_step [OF assms(1) that] .
  moreover have "0 < receive_timeout_s (o_config s)" if "receive_timeout_s (o_config s) \<noteq> 0"
    using that by (simp add: word_gt_0)
  ultimately show ?thesis
    unfolding expireReceiveIfStale_def ota_nowEpochSec_def call_def Let_def
    by (auto simp: wp_rules now assms(2))
qed

section \<open>Chunks of an image in flight\<close>

text \<open>Exactly the chunks in \<open>S\<close> have arrived, and the pool holds the image there.\<close>

definition arrived :: "ota_env \<Rightarrow> bytes \<Rightarrow> ReceiveSession \<Rightarrow> nat set \<Rightarrow> ota \<Rightarrow> bool" where
  "arrived E img r S s \<longleftrightarrow> ota_ok s \<and> same_transfer r (o_receive s)
     \<and> (\<exists>tr. rs_last_activity_epoch_s (o_receive s) = clock E tr)
     \<and> (\<forall>i < chunks r. got (o_receive s) i \<longleftrightarrow> i \<in> S)
     \<and> unat (rs_unique_received_size (o_receive s)) = (\<Sum>i \<in> S. clen r i)
     \<and> img_len r \<le> unat (o_psram_pool_size s)
     \<and> (\<exists>p. o_psram_pool s = Some p \<and> (\<forall>i \<in> S. \<forall>q. i * chunk_len r \<le> q \<and> q < i * chunk_len r + clen r i
           \<longrightarrow> p ! q = img ! q))"

lemma sum_clen:
  assumes "chunking_ok r"
  shows "j \<le> chunks r \<Longrightarrow> (\<Sum>i < j. clen r i) = cut_at r j"
proof (induction j)
  case (Suc j)
  then show ?case using cut_less(3) [OF assms, of j] by simp
qed simp

lemma sum_clen_le:
  assumes "chunking_ok r" "S \<subseteq> {..<chunks r}"
  shows "(\<Sum>i \<in> S. clen r i) \<le> img_len r"
proof -
  have "(\<Sum>i \<in> S. clen r i) \<le> (\<Sum>i < chunks r. clen r i)" using assms(2) by (intro sum_mono2) auto
  then show ?thesis using sum_clen [OF assms(1), of "chunks r"] by (simp add: cut_at_def)
qed

lemma clen_chunk_of:
  assumes "chunking_ok r" "i < chunks r" "length img = img_len r"
  shows "length (snd (chunk_of img (chunk_len r) i)) = clen r i"
    and "\<And>q. q < clen r i \<Longrightarrow> snd (chunk_of img (chunk_len r) i) ! q = img ! (i * chunk_len r + q)"
    and "unat (fst (chunk_of img (chunk_len r) i)) = i * chunk_len r"
proof -
  note b = chunking_bounds [OF assms(1,2)]
  have c: "chunks r = (img_len r + chunk_len r - 1) div chunk_len r" "0 < img_len r" "0 < chunk_len r"
    using assms by (auto simp: chunking_ok_def)
  have le: "clen r i \<le> chunk_len r"
  proof (cases "i + 1 < chunks r")
    case False
    then have "i + 1 = chunks r" using assms(2) by simp
    then have "img_len r \<le> (i + 1) * chunk_len r" using chunk_ceiling(3) [OF c(2,3,1)] by simp
    then show ?thesis using False by (simp add: clen_def)
  qed (simp add: clen_def)
  have min: "min (img_len r - i * chunk_len r) (chunk_len r) = clen r i"
    using b(3) le by (cases "i + 1 < chunks r") (auto simp: clen_def)
  then show "length (snd (chunk_of img (chunk_len r) i)) = clen r i"
    by (simp add: chunk_of_def assms(3))
  show "snd (chunk_of img (chunk_len r) i) ! q = img ! (i * chunk_len r + q)" if "q < clen r i" for q
    using that b(3) le assms(3) by (simp add: chunk_of_def)
  show "unat (fst (chunk_of img (chunk_len r) i)) = i * chunk_len r"
    using b(1) unat_u32_less [of "rs_expected_size r"] unat_of_nat_u32 [of "i * chunk_len r"]
    by (simp add: chunk_of_def del: of_nat_mult)
qed

lemma place_chunk_accepts:
  assumes r: "chunking_ok r" "i < chunks r" "length img = img_len r" and st: "same_transfer r (o_receive s)"
    and p: "o_psram_pool s = Some p" "img_len r \<le> unat (o_psram_pool_size s)"
    and c: "chunk_of img (chunk_len r) i = (off, bs)"
  shows "wp (place_chunk E off (Some bs)) Q s = wp (accept_chunk E off bs (of_nat i)) Q s"
proof -
  note cl = clen_chunk_of [OF r, unfolded c, simplified]
  note b = chunking_bounds [OF r(1,2)]
  note eq = same_transfer_clen [OF st]
  have N: "rs_expected_size (o_receive s) = rs_expected_size r" "rs_chunk_size (o_receive s) = rs_chunk_size r"
    "rs_chunk_count (o_receive s) = rs_chunk_count r"
    using st by (auto simp: same_transfer_def)
  have k: "rs_chunk_size r \<noteq> 0" using r(1) by (auto simp: chunking_ok_def)
  have ui: "unat (of_nat i :: u32) = i"
    using r(2) unat_u32_less [of "rs_chunk_count r"] by (intro unat_of_nat_u32) simp
  have idx: "off div rs_chunk_size r = of_nat i"
  proof -
    have "0 < chunk_len r" using r(1) by (simp add: chunking_ok_def)
    then have "unat (off div rs_chunk_size r) = unat (of_nat i :: u32)"
      unfolding unat_div cl(3) ui by simp
    then show ?thesis by (simp only: word_unat_eq_iff)
  qed
  have mod0: "off mod rs_chunk_size r = 0"
    unfolding word_unat_eq_iff unat_mod cl(3) by simp
  have lt: "off < rs_expected_size r" using b(1) by (simp add: word_less_nat_alt cl(3))
  have len: "length bs = unat (chunkSizeAt (of_nat i) (o_receive s))"
    using chunkSizeAt_unat [of "o_receive s" i] r(1,2) eq cl(1) N by (simp add: chunking_ok_def clen_def)
  have "unat (off + of_nat (length bs)) = i * chunk_len r + clen r i"
    using b(3) unat_u32_less [of "rs_expected_size r"] unat_of_nat_u32 [of "clen r i"]
    by (simp add: unat_word_ariths cl)
  then have fits: "\<not> rs_expected_size r < off + of_nat (length bs)"
    using b(3) by (simp add: word_less_nat_alt)
  have size: "\<not> o_psram_pool_size s < rs_expected_size r"
    using p(2) by (simp add: word_less_nat_alt)
  have cnt: "\<not> rs_chunk_count r \<le> of_nat i" using r(2) by (simp add: word_le_nat_alt ui)
  have ne: "bs \<noteq> []" using b(2) cl(1) by auto
  show ?thesis
    unfolding place_chunk_def
    by (simp only: wp_bind wp_gets id_apply Let_def option.case N idx mod0 p(1) fits size
        len [symmetric] cnt k lt [unfolded not_le [symmetric]] if_False simp_thms length_0_conv ne option.distinct)
qed

lemma arrived_write:
  assumes r: "chunking_ok r" "bitmap_full r" "rs_active r" "rs_from r = from" "rs_corr_id r = corr"
    and i: "i < chunks r" and img: "length img = img_len r" and S: "S \<subseteq> {..<chunks r}"
    and s: "arrived E img r S s" and pat: "patient E (o_config s)"
    and c: "chunk_of img (chunk_len r) i = (off, bs)"
  shows "wp (writeReceiveChunk E from corr off (Some bs))
           (\<lambda>v t. ok_verdict v \<and> arrived E img r (insert i S) t \<and> o_config t = o_config s) s"
proof -
  note cl = clen_chunk_of [OF r(1) i img, unfolded c fst_conv snd_conv]
  obtain tr p where st: "same_transfer r (o_receive s)" and tr: "rs_last_activity_epoch_s (o_receive s) = clock E tr"
    and p: "o_psram_pool s = Some p" "img_len r \<le> unat (o_psram_pool_size s)" and ok: "ota_ok s"
    and got: "\<forall>j < chunks r. got (o_receive s) j \<longleftrightarrow> j \<in> S"
    and uni: "unat (rs_unique_received_size (o_receive s)) = (\<Sum>j \<in> S. clen r j)"
    and data: "\<forall>j \<in> S. \<forall>q. j * chunk_len r \<le> q \<and> q < j * chunk_len r + clen r j \<longrightarrow> p ! q = img ! q"
    using s by (auto simp: arrived_def)
  note eq = same_transfer_clen [OF st]
  have sok: "session_ok (o_receive s)" using ok st r(3) by (auto simp: ota_ok_def same_transfer_def)
  have val: "validateSession from corr (o_receive s) = None"
    using st r by (simp add: validateSession_def same_transfer_def)
  have len_p: "length p = unat (o_psram_pool_size s)" using ok p(1) by (simp add: ota_ok_def pool_ok_def)
  have room: "i * chunk_len r + clen r i \<le> length p"
    using chunking_bounds(3) [OF r(1) i] p(2) len_p by simp
  have after: "arrived E img r (insert i S) t"
    if t: "o_psram_pool t = Some (pool_write (unat off) bs p)" "o_psram_pool_size t = o_psram_pool_size s"
      "\<exists>tr. rs_last_activity_epoch_s (o_receive t) = clock E tr" "chunk_added (o_receive s) i (o_receive t)"
      and okt: "ota_ok t" for t
  proof -
    have full: "i div 8 < length (rs_chunk_bitmap (o_receive s))"
      using r(2) i st by (simp add: bitmap_full_def same_transfer_def)
    have g: "\<forall>j < chunks r. got (o_receive t) j \<longleftrightarrow> j \<in> insert i S"
      using t(4) full got eq by (auto simp: chunk_added_def)
    have fin: "finite S" using S finite_subset by blast
    have "unat (rs_unique_received_size (o_receive t)) = (\<Sum>j \<in> insert i S. clen r j)"
    proof (cases "i \<in> S")
      case True
      then show ?thesis using t(4) got i uni by (auto simp: chunk_added_def insert_absorb)
    next
      case False
      then have "rs_unique_received_size (o_receive t) = rs_unique_received_size (o_receive s) + of_nat (clen r i)"
        using t(4) got i eq by (auto simp: chunk_added_def)
      moreover have "(\<Sum>j \<in> insert i S. clen r j) \<le> img_len r"
        using S i by (intro sum_clen_le [OF r(1)]) auto
      ultimately show ?thesis
        using False fin uni unat_u32_less [of "rs_expected_size r"] unat_of_nat_u32 [of "clen r i"]
        by (simp add: unat_word_ariths)
    qed
    moreover have "pool_write (unat off) bs p ! q = img ! q"
      if j: "j \<in> insert i S" "j * chunk_len r \<le> q" "q < j * chunk_len r + clen r j" for j q
    proof -
      have "j < chunks r" using j(1) i S by auto
      then have "q < length p" using j(3) chunking_bounds(3) [OF r(1), of j] p(2) len_p by simp
      then show ?thesis
        using nth_pool_write [of "unat off" bs p q] room cl j data
        by (cases "unat off \<le> q \<and> q < unat off + length bs") auto
    qed
    moreover have "same_transfer r (o_receive t)"
      using same_transfer_trans [OF st] t(4) by (simp add: chunk_added_def)
    ultimately show ?thesis using t g okt p(2) by (auto simp: arrived_def)
  qed
  have "wp (accept_chunk E off bs (of_nat i))
      (\<lambda>v t. ok_verdict v \<and> o_psram_pool t = Some (pool_write (unat off) bs p)
         \<and> o_psram_pool_size t = o_psram_pool_size s \<and> o_config t = o_config s
         \<and> (\<exists>tr. rs_last_activity_epoch_s (o_receive t) = clock E tr)
         \<and> chunk_added (o_receive s) i (o_receive t)) u" if "same_but_calls s u" for u
    using that p(1) sok i eq cl(1)
    by (intro wp_mono [OF accept_chunk_post [of u]]) (auto simp: same_but_calls_fields ok_verdict_def)
  moreover have "wp (place_chunk E off (Some bs)) Q u = wp (accept_chunk E off bs (of_nat i)) Q u"
    if "same_but_calls s u" for u Q
    using that r(1) i img st p c
    by (intro place_chunk_accepts) (auto simp: same_but_calls_def)
  ultimately have "wp (writeReceiveChunk E from corr off (Some bs))
      (\<lambda>v t. ok_verdict v \<and> o_psram_pool t = Some (pool_write (unat off) bs p)
         \<and> o_psram_pool_size t = o_psram_pool_size s \<and> o_config t = o_config s
         \<and> (\<exists>tr. rs_last_activity_epoch_s (o_receive t) = clock E tr)
         \<and> chunk_added (o_receive s) i (o_receive t)) s"
    unfolding writeReceiveChunk_def wp_bind [of "expireReceiveIfStale E"]
    by (intro wp_mono [OF expire_noop [OF pat tr]])
       (simp add: wp_bind [of "gets f" for f] wp_gets same_but_calls_fields val)
  from wp_conj [OF this keepsD [OF keeps_writeReceiveChunk ok]] show ?thesis
    by (rule wp_mono) (use after in blast)
qed

lemma arrived_feed:
  assumes r: "chunking_ok r" "bitmap_full r" "rs_active r" "rs_from r = from" "rs_corr_id r = corr"
    and img: "length img = img_len r"
  shows "set ks \<subseteq> {..<chunks r} \<Longrightarrow> S \<subseteq> {..<chunks r} \<Longrightarrow> arrived E img r S s \<Longrightarrow> patient E (o_config s) \<Longrightarrow>
     wp (feed E from corr (map (chunk_of img (chunk_len r)) ks))
       (\<lambda>vs t. list_all ok_verdict vs \<and> arrived E img r (set ks \<union> S) t \<and> o_config t = o_config s) s"
proof (induction ks arbitrary: S s)
  case Nil
  then show ?case by (simp add: wp_rules)
next
  case (Cons i ks)
  obtain off bs where c: "chunk_of img (chunk_len r) i = (off, bs)" by fastforce
  have "wp (feed E from corr (map (chunk_of img (chunk_len r)) ks))
      (\<lambda>vs t. list_all ok_verdict (v # vs) \<and> arrived E img r (set (i # ks) \<union> S) t \<and> o_config t = o_config s) u"
    if "ok_verdict v \<and> arrived E img r (insert i S) u \<and> o_config u = o_config s" for v u
    by (rule wp_mono [OF Cons.IH [of "insert i S" u]]) (use that Cons.prems in auto)
  then show ?case
    unfolding list.map c feed.simps wp_bind wp_ret
    by (intro wp_mono [OF arrived_write [OF r _ img _ Cons.prems(3,4) c]]) (use Cons.prems in auto)
qed

section \<open>Finishing\<close>

lemma wp_store_works:
  assumes "storage_works E" and "\<And>msg. wp (f True msg) Q (s\<lparr>o_calls := o_calls s @ [c]\<rparr>)"
  shows "wp (State_Monad.bind (store E c) (\<lambda>(ok, msg). f ok msg)) Q s"
proof -
  obtain msg where "reply E (o_calls s) c = (True, msg)"
    using assms(1) unfolding storage_works_def by (metis prod.collapse)
  with assms(2) show ?thesis by (simp add: wp_bind wp_store)
qed

lemma flush_works: "storage_works E \<Longrightarrow> wp (flush_from E path pool n w) (\<lambda>v _. fst v) s"
proof (induction E path pool n w arbitrary: s rule: flush_from.induct)
  case (1 E path pool n w)
  then show ?case
    by (subst flush_from.simps) (auto simp: Let_def wp_rules intro!: wp_store_works [unfolded wp_bind])
qed

lemma flush_image_works:
  assumes w: "storage_works E"
  shows "wp (flush_image E pool n crc) (\<lambda>v _. fst v) s"
proof -
  have pub: "wp (publish_image E n crc) (\<lambda>v _. fst v) u" for u
    by (simp add: publish_image_def clear_session_def set_status_def Let_def wp_def split: prod.split)
  have any: "wp m (\<lambda>_ _. True) u" for m :: "'b otam" and u
    by (simp add: wp_def split: prod.split)
  have flush: "wp (do { (ok, msg) \<leftarrow> flush_from E path pool e 0; f ok msg }) (\<lambda>v _. fst v) u"
    if "\<And>msg u. wp (f True msg) (\<lambda>v _. fst v) u" for path e f u
    unfolding wp_bind by (rule wp_mono [OF flush_works [OF w]]) (use that in \<open>auto split: prod.split\<close>)
  show ?thesis
    unfolding flush_image_def wp_bind [of "gets o_receive"] wp_gets wp_bind [of "make_room E r" for r]
    by (rule wp_mono [OF any], rule wp_store_works [OF w], simp, rule flush, simp,
        rule wp_store_works [OF w], simp add: pub)
qed

lemma end_receive_works:
  assumes "storage_works E" and pat: "patient E (o_config s)"
    and tr: "rs_last_activity_epoch_s (o_receive s) = clock E tr"
    and v: "validateSession from corr (o_receive s) = None"
    and r: "n = rs_expected_size (o_receive s)" "crc = rs_expected_crc32 (o_receive s)"
      "rs_received_size (o_receive s) = n" "rs_unique_received_size (o_receive s) = n"
    and p: "o_psram_pool s = Some p" "\<not> o_psram_pool_size s < n" "crc32 (take (unat n) p) = crc"
  shows "wp (endReceive E from corr n crc) (\<lambda>v _. fst v) s"
proof -
  show ?thesis
    unfolding endReceive_def wp_bind [of "expireReceiveIfStale E"]
  proof (rule wp_mono [OF expire_noop [OF pat tr]], goal_cases)
    case (1 a u)
    then have "o_receive u = o_receive s" "o_psram_pool u = Some p" "o_psram_pool_size u = o_psram_pool_size s"
      using p(1) by (simp_all add: same_but_calls_fields)
    then show ?case
      using v p(2,3) r(3,4) unfolding r(1,2)
      by (simp add: wp_bind [of "gets f" for f] wp_gets wp_bind [of "modify f" for f] wp_modify
          set_status_def Let_def flush_image_works [OF assms(1)])
  qed
qed

lemma arrived_all:
  assumes r: "chunking_ok r" "0 < chunks r" and img: "length img = img_len r"
    and s: "arrived E img r {..<chunks r} s" and act: "rs_active r"
  shows "rs_received_size (o_receive s) = rs_expected_size r"
    and "rs_unique_received_size (o_receive s) = rs_expected_size r"
    and "\<exists>p. o_psram_pool s = Some p \<and> take (img_len r) p = img"
proof -
  have st: "same_transfer r (o_receive s)" and ok: "ota_ok s" using s by (auto simp: arrived_def)
  note eq = same_transfer_clen [OF st]
  have "session_ok (o_receive s)" using ok st act by (auto simp: ota_ok_def same_transfer_def)
  then obtain j where j: "unat (rs_received_size (o_receive s)) = cut_at r j" "j \<le> chunks r"
    "j = chunks r \<or> \<not> got (o_receive s) j"
    using eq by (auto simp: session_ok_def prefix_to_def)
  moreover have "\<forall>i < chunks r. got (o_receive s) i" using s by (simp add: arrived_def)
  ultimately have "j = chunks r" by (metis le_neq_implies_less)
  then show "rs_received_size (o_receive s) = rs_expected_size r"
    using j(1) cut_all [OF r] by (simp add: word_unat_eq_iff)
  show "rs_unique_received_size (o_receive s) = rs_expected_size r"
    using s sum_clen [OF r(1), of "chunks r"] cut_all [OF r] by (simp add: arrived_def word_unat_eq_iff)
  obtain p where p: "o_psram_pool s = Some p" "img_len r \<le> length p"
    "\<forall>i < chunks r. \<forall>q. i * chunk_len r \<le> q \<and> q < i * chunk_len r + clen r i \<longrightarrow> p ! q = img ! q"
    using s by (auto simp: arrived_def ota_ok_def pool_ok_def)
  have "p ! q = img ! q" if q: "q < img_len r" for q
  proof -
    let ?ws = "map (\<lambda>i. (of_nat (i * chunk_len r) :: u32, replicate (clen r i) (0 :: u8))) [0..<chunks r]"
    have "\<forall>i < chunks r. \<exists>w \<in> set ?ws. unat (fst w) = i * chunk_len r \<and> length (snd w) = clen r i"
      using clen_chunk_of(3) [OF r(1) _ img] by (auto simp: chunk_of_def simp del: of_nat_mult)
    from all_got_covers [OF r(1) q this r(2)] obtain i where "i < chunks r"
      "unat (of_nat (i * chunk_len r) :: u32) \<le> q" "q < unat (of_nat (i * chunk_len r) :: u32) + clen r i"
      by (auto simp: covers_def simp del: of_nat_mult)
    then show ?thesis
      using p(3) clen_chunk_of(3) [OF r(1) _ img, of i] by (simp add: chunk_of_def del: of_nat_mult)
  qed
  then have "take (img_len r) p = img" using p(2) img by (intro nth_equalityI) auto
  with p(1) show "\<exists>p. o_psram_pool s = Some p \<and> take (img_len r) p = img" by blast
qed

section \<open>Beginning\<close>

text \<open>The rest of the environment cooperates: the gate lets the transfer pass, the heap delivers.\<close>

definition heap_delivers :: "ota_env \<Rightarrow> OtaManagerConfig \<Rightarrow> bool" where
  "heap_delivers E c \<longleftrightarrow> psram_found E \<and> (\<forall>tr. unat (max_firmware_bytes c) \<le> largest_block E tr)
     \<and> (\<forall>tr m. malloc_ok E tr m)"

definition gate_open :: "ota_env \<Rightarrow> bool" where
  "gate_open E \<longleftrightarrow> (\<forall>tr c. fst (gate_of E tr c) = GdReady)"

definition cfg_is :: "OtaManagerConfig \<Rightarrow> ota \<Rightarrow> bool" where
  "cfg_is c s \<longleftrightarrow> o_config s = c"

lemma cfg_modify:
  "keeps (cfg_is c) (call x)" "keeps (cfg_is c) (store E x)" "keeps (cfg_is c) (set_status f)"
  "keeps (cfg_is c) clear_session"
  by (auto simp: keeps_def wp_rules call_def wp_store cfg_is_def set_status_def clear_session_def)

lemma cfg_ensure_all: "keeps (cfg_is c) (ensure_all E ds)"
  by (induction ds) (auto intro!: keeps_rules cfg_modify)

lemmas cfg_rules = keeps_rules cfg_modify cfg_ensure_all

lemma cfg_open_session: "keeps (cfg_is c) (open_session E from corr n k crc md)"
proof -
  have "keeps (cfg_is c) (modify (\<lambda>s. s\<lparr>o_receive := f s, o_receive_meta := m\<rparr>))" for f m
    by (auto simp: keeps_def wp_rules cfg_is_def)
  then show ?thesis
    by (auto simp: open_session_def abortReceive_def drop_session_def ota_nowEpochSec_def fail_session_def
        fail_ota_def Let_def intro!: cfg_rules)
qed

text \<open>\<open>succeeds m\<close>: from every state \<open>m\<close> reports success.\<close>

definition succeeds :: "verdict otam \<Rightarrow> bool" where
  "succeeds m \<longleftrightarrow> (\<forall>s. wp m (\<lambda>v _. fst v) s)"

lemma succeeds_bind: "(\<And>a. succeeds (f a)) \<Longrightarrow> succeeds (State_Monad.bind m f)"
  by (fastforce simp: succeeds_def wp_def split: prod.splits)

lemma succeeds_store:
  "storage_works E \<Longrightarrow> (\<And>msg. succeeds (f True msg)) \<Longrightarrow>
   succeeds (State_Monad.bind (store E c) (\<lambda>(ok, msg). f ok msg))"
  by (auto simp: succeeds_def intro: wp_store_works)

lemma succeeds_ret: "succeeds (ret (True, m))"
  by (simp add: succeeds_def wp_ret)

lemma ensure_all_works: "storage_works E \<Longrightarrow> succeeds (ensure_all E ds)"
  by (induction ds) (auto intro!: succeeds_ret succeeds_store)

lemma open_session_works: "storage_works E \<Longrightarrow> succeeds (open_session E from corr n k crc md)"
  unfolding open_session_def
  by (intro succeeds_store succeeds_bind) (auto intro!: succeeds_bind succeeds_ret)

lemma pool_works:
  assumes h: "heap_delivers E c" and m: "max_firmware_bytes c \<noteq> 0" and s: "cfg_is c s"
  shows "wp (ensurePsramPool E) (\<lambda>v t. fst v \<and> cfg_is c t \<and> o_psram_pool t \<noteq> None
           \<and> o_psram_pool_size t = max_firmware_bytes c) s"
proof -
  have "largest_block E tr < unat (max_firmware_bytes c) \<longleftrightarrow> False" "malloc_ok E tr j" "psram_found E" for tr j
    using h by (auto simp: heap_delivers_def not_less)
  then show ?thesis
    using m s
    by (auto simp: ensurePsramPool_def Let_def wp_rules call_def alloc_pool_def releasePsramPool_def
        cfg_is_def)
qed

lemma gate_check_open: "gate_open E \<Longrightarrow> wp (gate_check E x) (\<lambda>r t. r = None \<and> o_config t = o_config s) s"
  unfolding gate_open_def
  by (auto simp: gate_check_def ask_gate_def call_def wp_rules split: prod.split) (metis fst_conv)

lemma begin_works:
  assumes env: "storage_works E" "gate_open E" "heap_delivers E c"
    and n: "0 < n" "n \<le> max_firmware_bytes c" "k \<noteq> 0" and s: "cfg_is c s"
  shows "wp (beginReceive E from corr n k crc md) (\<lambda>v t. fst v \<and> cfg_is c t) s"
proof -
  have m: "max_firmware_bytes c \<noteq> 0" using n by auto
  have opens: "wp (open_session E from corr n k crc md) (\<lambda>v t. fst v \<and> cfg_is c t) u" if "cfg_is c u" for u
    using open_session_works [OF env(1)] keepsD [OF cfg_open_session that]
    by (auto simp: succeeds_def intro: wp_conj)
  have tail: "wp (do { (ok, msg) \<leftarrow> ensurePsramPool E; s \<leftarrow> gets id;
        if \<not> ok then fail_ota StorageNotReady (or_text msg ''ota psram pool unavailable'')
        else if o_psram_pool s = None \<or> o_psram_pool_size s < n
        then fail_ota StorageNotReady ''ota psram pool too small''
        else open_session E from corr n k crc md }) (\<lambda>v t. fst v \<and> cfg_is c t) u" if "cfg_is c u" for u
    unfolding wp_bind [of "ensurePsramPool E"]
    by (rule wp_mono [OF pool_works [OF env(3) m that]])
       (use n(2) opens in \<open>auto simp: wp_bind wp_gets not_less split: prod.splits\<close>)
  have folders: "wp (ensureFolders E) (\<lambda>v t. fst v \<and> cfg_is c t) u" if "cfg_is c u" for u
    using ensure_all_works [OF env(1)] keepsD [OF cfg_ensure_all that]
    by (auto simp: ensureFolders_def wp_bind wp_gets succeeds_def simp del: ensure_all.simps intro: wp_conj)
  have rest: "wp (do { (ok, msg) \<leftarrow> ensureFolders E;
        if \<not> ok then fail_ota StorageNotReady (or_text msg ''ota folders unavailable'') else m }) Q u"
    if "cfg_is c u" "\<And>u. cfg_is c u \<Longrightarrow> wp m Q u" for u m Q
    unfolding wp_bind [of "ensureFolders E"]
    by (rule wp_mono [OF folders [OF that(1)]]) (use that(2) in \<open>auto split: prod.splits\<close>)
  have gate: "wp (do { refused \<leftarrow> gate_check E x; case refused of Some (code, msg) \<Rightarrow> fail_ota code msg | None \<Rightarrow> m }) Q u"
    if "cfg_is c u" "\<And>u. cfg_is c u \<Longrightarrow> wp m Q u" for u m Q x
    unfolding wp_bind [of "gate_check E x"]
    by (rule wp_mono [OF gate_check_open [OF env(2)]]) (use that in \<open>auto simp: cfg_is_def\<close>)
  have "keeps (cfg_is c) (expireReceiveIfStale E)"
    by (auto simp: expireReceiveIfStale_def ota_nowEpochSec_def Let_def intro!: cfg_rules)
  from keepsD [OF this s] show ?thesis
    unfolding beginReceive_def wp_bind [of "expireReceiveIfStale E"]
  proof (rule wp_mono)
    fix u :: ota
    assume u: "cfg_is c u"
    then have c: "o_config u = c" by (simp add: cfg_is_def)
    have args: "\<not> (n = 0 \<or> k = 0)" "\<not> (max_firmware_bytes c > 0 \<and> n > max_firmware_bytes c)"
      using n by auto
    show "wp (do {
       c \<leftarrow> gets o_config;
       if n = 0 \<or> k = 0 then fail_ota InvalidArgument ''ota begin invalid size''
       else if max_firmware_bytes c > 0 \<and> n > max_firmware_bytes c
       then fail_ota ImageTooLarge ''image too large''
       else do {
         refused \<leftarrow> gate_check E (PrepareForTransfer n crc md);
         case refused of
           Some (code, msg) \<Rightarrow> fail_ota code msg
         | None \<Rightarrow> do {
             (ok, msg) \<leftarrow> ensureFolders E;
             if \<not> ok then fail_ota StorageNotReady (or_text msg ''ota folders unavailable'')
             else do {
               (ok, msg) \<leftarrow> ensurePsramPool E;
               s \<leftarrow> gets id;
               if \<not> ok then fail_ota StorageNotReady (or_text msg ''ota psram pool unavailable'')
               else if o_psram_pool s = None \<or> o_psram_pool_size s < n
               then fail_ota StorageNotReady ''ota psram pool too small''
               else open_session E from corr n k crc md } } } }) (\<lambda>v t. fst v \<and> cfg_is c t) u"
      unfolding wp_bind [of "gets o_config"] wp_gets c if_not_P [OF args(1)] if_not_P [OF args(2)]
      by (intro gate rest tail u)
  qed
qed

section \<open>The whole transfer\<close>

lemma chunks_fresh:
  assumes "n \<noteq> 0" "k \<noteq> 0" "unat n + unat k + 7 \<le> 2 ^ 32"
  shows "chunks (fresh_session c from corr n k crc now) = (unat n + unat k - 1) div unat k"
    and "bitmap_full (fresh_session c from corr n k crc now)"
proof -
  let ?r = "fresh_session c from corr n k crc now"
  have pos: "0 < unat n" "0 < unat k" using assms by (auto simp: unat_gt_0)
  show ch: "chunks ?r = (unat n + unat k - 1) div unat k"
    using chunk_count_word [of n k] assms pos by (simp add: word_less_nat_alt)
  let ?K = "(unat n + unat k - 1) div unat k"
  have "?K - 1 \<le> (?K - 1) * unat k" using pos by simp
  then have "?K \<le> unat n" using chunk_ceiling(2) [OF pos refl] by linarith
  then have "chunks ?r + 7 < 2 ^ 32" unfolding ch [symmetric] using assms(3) pos by linarith
  then have "unat (rs_chunk_count ?r + 7) = chunks ?r + 7"
    by (simp only: unat_word_ariths) (simp del: fresh_fields)
  then have "length (rs_chunk_bitmap ?r) = (chunks ?r + 7) div 8"
    by (simp add: fresh_session_def Let_def unat_div)
  then show "bitmap_full ?r" by (simp only: bitmap_full_def) auto
qed

lemma transfer_completes:
  assumes ok: "ota_ok s0" and env: "patient E (o_config s0)" "storage_works E" "gate_open E"
      "heap_delivers E (o_config s0)"
    and size: "0 < n" "n \<le> max_firmware_bytes (o_config s0)" "k \<noteq> 0" "unat n + unat k + 7 \<le> 2 ^ 32"
    and img: "length img = unat n" "crc32 img = crc"
    and ks: "set ks = {..<(unat n + unat k - 1) div unat k}"
  obtains m1 s1 vs s2 m2 path s3 where
    "run_state (beginReceive E from corr n k crc md) s0 = ((True, m1), s1)"
    "run_state (feed E from corr (map (chunk_of img (unat k)) ks)) s1 = (vs, s2)" "list_all ok_verdict vs"
    "run_state (endReceive E from corr n crc) s2 = ((True, m2, path), s3)"
    "disk E fs0 s3 path = Some img"
proof -
  obtain v1 m1 s1 where b': "run_state (beginReceive E from corr n k crc md) s0 = ((v1, m1), s1)"
    by (metis prod_cases3 surj_pair)
  have "v1 \<and> cfg_is (o_config s0) s1"
    using wp_run [OF begin_works [OF env(2,3,4) size(1,2,3)] b'] by (simp add: cfg_is_def)
  then have b: "run_state (beginReceive E from corr n k crc md) s0 = ((True, m1), s1)"
    and cfg1: "o_config s1 = o_config s0"
    using b' by (simp_all add: cfg_is_def)
  have ok1: "ota_ok s1" using b ok keeps_run [OF keeps_beginReceive] by blast
  have op: "opened E from corr n k crc s1" using wp_run [OF begin_post b] by simp
  then have nz: "n \<noteq> 0" "k \<noteq> 0" and sz: "\<not> o_psram_pool_size s1 < n" by (auto simp: opened_def)
  obtain r p0 c now where f: "filled r p0 [] s1" "r = fresh_session c from corr n k crc now" "chunking_ok r"
    "unat n \<le> length p0" "o_receive s1 = r" "\<exists>tr. now = clock E tr"
    using opened_filled [OF op ok1] by metis
  have ch: "chunks r = (unat n + unat k - 1) div unat k" and full: "bitmap_full r"
    using chunks_fresh [OF nz size(4)] by (simp_all add: f(2))
  have "0 < chunks r"
    unfolding ch by (rule chunk_ceiling(1) [OF _ _ refl]) (use nz in \<open>simp_all add: unat_gt_0\<close>)
  have a0: "arrived E img r {} s1"
    using f ok1 sz by (auto simp: arrived_def same_transfer_def filled_def word_less_nat_alt)
  obtain vs s2 where fd: "run_state (feed E from corr (map (chunk_of img (unat k)) ks)) s1 = (vs, s2)"
    by fastforce
  have "wp (feed E from corr (map (chunk_of img (chunk_len r)) ks))
      (\<lambda>vs t. list_all ok_verdict vs \<and> arrived E img r (set ks \<union> {}) t \<and> o_config t = o_config s1) s1"
    by (rule arrived_feed [OF f(3) full _ _ _ _ _ _ a0]) (use cfg1 env(1) ks ch img in \<open>auto simp: f(2)\<close>)
  moreover have K: "{..<chunks r} = set ks" by (simp only: ch ks)
  ultimately have "wp (feed E from corr (map (chunk_of img (unat k)) ks))
      (\<lambda>vs t. list_all ok_verdict vs \<and> arrived E img r (set ks) t \<and> o_config t = o_config s1) s1"
    by (simp add: f(2))
  from wp_run [OF this fd] have vs: "list_all ok_verdict vs" and a: "arrived E img r {..<chunks r} s2"
    and cfg: "o_config s2 = o_config s1"
    unfolding K by (simp_all add: f(2))
  have st: "same_transfer r (o_receive s2)" and ok2: "ota_ok s2" using a by (auto simp: arrived_def)
  obtain tr where tr: "rs_last_activity_epoch_s (o_receive s2) = clock E tr" using a by (auto simp: arrived_def)
  have all: "rs_received_size (o_receive s2) = n" "rs_unique_received_size (o_receive s2) = n"
    using arrived_all(1,2) [OF f(3) \<open>0 < chunks r\<close> _ a] img by (simp_all add: f(2))
  obtain p where p: "o_psram_pool s2 = Some p" "take (unat n) p = img"
    using arrived_all(3) [OF f(3) \<open>0 < chunks r\<close> _ a] img by (auto simp: f(2))
  have psz: "\<not> o_psram_pool_size s2 < n"
    using a by (simp add: arrived_def f(2) word_less_nat_alt)
  have w: "wp (endReceive E from corr n crc) (\<lambda>v _. fst v) s2"
    using env st all p psz tr img
    by (intro end_receive_works [OF env(2) _ tr]) (auto simp: cfg cfg1 same_transfer_def f(2) validateSession_def)
  moreover have "wp (endReceive E from corr n crc) (end_post E fs0 n crc s2) s2"
    using st by (intro end_receive_post [OF ok2, of "in_dir c" "img_dir c"]) (auto simp: same_transfer_def f(2))
  moreover obtain b' m2 path s3 where e: "run_state (endReceive E from corr n crc) s2 = ((b', m2, path), s3)"
    by (metis prod_cases3 surj_pair)
  ultimately have "b'" "disk E fs0 s3 path = Some img"
    using p by (auto simp: wp_def end_post_def)
  with that [OF b fd vs] e show ?thesis by simp
qed

end
