(* ===== verification/OtaProps.thy ===== *)
theory OtaProps
  imports OtaCompletes
begin

text \<open>
  The properties of the OTA manager of \<open>src/ota/ota_manager.cpp\<close>, with a concrete manager,
  environment and image for their witnesses.
\<close>

section \<open>A concrete environment\<close>

definition sample_ota_env :: ota_env where
  "sample_ota_env = \<lparr>reply = \<lambda>_ _. (True, []), stat_of = \<lambda>_ _. \<lparr>ss_exists = False, ss_is_dir = False,
     ss_size_bytes = 0\<rparr>, names_of = \<lambda>_ _. [], data_of = \<lambda>_ _. [], gate_of = \<lambda>_ _. (GdReady, []),
     time_of = \<lambda>_. 100, psram_found = True, largest_block = \<lambda>_. 16, malloc_ok = \<lambda>_ _. True,
     heap_byte = \<lambda>_ _. 0\<rparr>"

definition sample_ota :: ota where
  "sample_ota = perform_all sample_ota_env [] (new_ota (default_config\<lparr>max_firmware_bytes := 4\<rparr>) False False)"

definition sample_image :: bytes where "sample_image = [0x31, 0x32, 0x33]"

lemma sample_config: "max_firmware_bytes (o_config sample_ota) = 4" "receive_timeout_s (o_config sample_ota) = 12"
  by (simp_all add: sample_ota_def perform_all_def new_ota_def default_config_def)

lemma sample_env_cooperates:
  "patient sample_ota_env (o_config sample_ota)" "storage_works sample_ota_env" "gate_open sample_ota_env"
  "heap_delivers sample_ota_env (o_config sample_ota)"
proof -
  have "uint (12 :: u32) = 12" by simp
  then show "patient sample_ota_env (o_config sample_ota)"
    unfolding patient_def sample_config
    by (intro disjI2 exI [of _ 100]) (simp add: sample_ota_env_def)
qed (simp_all add: storage_works_def gate_open_def heap_delivers_def sample_config sample_ota_env_def)

lemma sample_ota_ok: "ota_ok sample_ota"
  unfolding sample_ota_def by (intro perform_all_ok ota_ok_new)

section \<open>Transfers\<close>

text \<open>
  C6. A transfer completes: from any state the manager can be in, over a storage that works, a
  gate that agrees, a heap that delivers and a clock that stays within the receive timeout,
  \<open>beginReceive\<close> accepts an image within the configured size, every chunk of it is accepted in
  whatever order and however often it is sent, and once each chunk was sent \<open>endReceive\<close>
  reports success and the file at the returned path is the image.
\<close>

theorem ota_transfer_completes:
  assumes "s0 = perform_all E ops (new_ota c g x)"
    and "patient E (o_config s0)" "storage_works E" "gate_open E" "heap_delivers E (o_config s0)"
    and "0 < n" "n \<le> max_firmware_bytes (o_config s0)" "k \<noteq> 0" "unat n + unat k + 7 \<le> 2 ^ 32"
    and "length img = unat n" and "set ks = {..<(unat n + unat k - 1) div unat k}"
  shows "\<exists>m1 s1 vs s2 m2 path s3.
      run_state (beginReceive E from corr n k (crc32 img) md) s0 = ((True, m1), s1)
    \<and> run_state (feed E from corr (map (chunk_of img (unat k)) ks)) s1 = (vs, s2) \<and> list_all ok_verdict vs
    \<and> run_state (endReceive E from corr n (crc32 img)) s2 = ((True, m2, path), s3)
    \<and> disk E fs0 s3 path = Some img"
proof -
  have "ota_ok s0" unfolding assms(1) by (intro perform_all_ok ota_ok_new)
  from transfer_completes [OF this assms(2-10) refl assms(11)] show ?thesis by metis
qed

theorem ota_transfer_completes_witness:
  "\<exists>m1 s1 vs s2 m2 path s3.
      run_state (beginReceive sample_ota_env zeroMac 1 3 2 (crc32 sample_image) None) sample_ota = ((True, m1), s1)
    \<and> run_state (feed sample_ota_env zeroMac 1 (map (chunk_of sample_image 2) [1, 0, 1])) s1 = (vs, s2)
    \<and> list_all ok_verdict vs
    \<and> run_state (endReceive sample_ota_env zeroMac 1 3 (crc32 sample_image)) s2 = ((True, m2, path), s3)
    \<and> disk sample_ota_env Map.empty s3 path = Some [0x31, 0x32, 0x33]"
proof -
  have "set [1, 0, 1] = {..<(unat (3 :: u32) + unat (2 :: u32) - 1) div unat (2 :: u32)}" by auto
  then show ?thesis
    using ota_transfer_completes [OF sample_ota_def sample_env_cooperates, of 3 2 sample_image "[1, 0, 1]"
        zeroMac 1 None Map.empty]
    by (simp add: sample_config sample_image_def)
qed

text \<open>
  C3. An image that \<open>endReceive\<close> accepted: sizes and checksum are those announced by
  \<open>beginReceive\<close>; the file at the returned path has that size and that CRC-32, and each of its
  bytes is the byte of the last accepted chunk that covers it, whatever chunks were offered in
  between and whatever the storage, the gate and the clock answered.
\<close>

theorem ota_image_verified:
  assumes "run_state (beginReceive E from corr n k crc md) (perform_all E ops (new_ota c g x)) = ((True, m1), s1)"
    and "run_state (feed E from corr xs) s1 = (vs, s2)"
    and "run_state (endReceive E from corr n' crc') s2 = ((True, m2, path), s3)"
  shows "n' = n \<and> crc' = crc \<and> (\<exists>img. disk E fs0 s3 path = Some img \<and> length img = unat n
           \<and> crc32 img = crc \<and> (\<forall>q < unat n. last_writer (accepted xs vs) q (img ! q)))"
  by (rule image_verified [OF assms(1) perform_all_ok [OF ota_ok_new] assms(2,3)])

theorem ota_image_verified_witness:
  "\<exists>s3 path img. disk sample_ota_env Map.empty s3 path = Some img \<and> length img = 3
     \<and> crc32 img = crc32 sample_image"
proof -
  have ks: "set [1, 0] = {..<(unat (3 :: u32) + unat (2 :: u32) - 1) div unat (2 :: u32)}" by auto
  have n: "(0 :: u32) < 3" "(3 :: u32) \<le> max_firmware_bytes (o_config sample_ota)" "(2 :: u32) \<noteq> 0"
    "unat (3 :: u32) + unat (2 :: u32) + 7 \<le> 2 ^ 32" "length sample_image = unat (3 :: u32)"
    by (simp_all add: sample_config sample_image_def)
  obtain m1 s1 vs s2 m2 path s3 where
    "run_state (beginReceive sample_ota_env zeroMac 1 3 2 (crc32 sample_image) None) sample_ota = ((True, m1), s1)"
    "run_state (feed sample_ota_env zeroMac 1 (map (chunk_of sample_image (unat (2 :: u32))) [1, 0])) s1 = (vs, s2)"
    "run_state (endReceive sample_ota_env zeroMac 1 3 (crc32 sample_image)) s2 = ((True, m2, path), s3)"
    using transfer_completes [OF sample_ota_ok sample_env_cooperates n refl ks, where ?fs0.0 = Map.empty]
    by metis
  from ota_image_verified [OF this(1)[unfolded sample_ota_def] this(2,3), of Map.empty] show ?thesis
    by auto
qed

text \<open>
  C15. Whatever operations the manager has performed: the memory pool has its recorded size, and
  an open session counts as received exactly the bytes of the longest run of chunks from the
  start that have all arrived, never more than the announced size.
\<close>

theorem ota_session_consistent:
  "let s = perform_all E ops (new_ota c g x); r = o_receive s in
     (\<forall>p. o_psram_pool s = Some p \<longrightarrow> length p = unat (o_psram_pool_size s))
     \<and> (rs_active r \<longrightarrow> rs_received_size r \<le> rs_expected_size r
          \<and> (\<exists>j \<le> unat (rs_chunk_count r). unat (rs_received_size r)
                 = min (j * unat (rs_chunk_size r)) (unat (rs_expected_size r))
               \<and> (\<forall>i < j. isChunkReceived (of_nat i) r)
               \<and> (j = unat (rs_chunk_count r) \<or> \<not> isChunkReceived (of_nat j) r)))"
proof -
  have "ota_ok (perform_all E ops (new_ota c g x))" by (intro perform_all_ok ota_ok_new)
  then show ?thesis
    by (auto simp: Let_def ota_ok_def pool_ok_def session_ok_def cut_at_def prefix_to_def got_def
        word_le_nat_alt)
qed

lemma run_state_bind: "run_state (State_Monad.bind m f) s = (case run_state m s of (a, t) \<Rightarrow> run_state (f a) t)"
  by (simp add: State_Monad.bind_def)

lemma sample_opened:
  "rs_active (o_receive (perform_all sample_ota_env [OpBeginReceive zeroMac 1 3 2 0 None] sample_ota))"
proof -
  obtain v t where run: "run_state (beginReceive sample_ota_env zeroMac 1 3 2 0 None) sample_ota = (v, t)"
    by fastforce
  have "(0 :: u32) < 3" "(3 :: u32) \<le> max_firmware_bytes (o_config sample_ota)" "(2 :: u32) \<noteq> 0"
    by (simp_all add: sample_config)
  from wp_run [OF begin_works [OF sample_env_cooperates(2-4) this, of sample_ota] run]
  have "fst v" by (simp add: cfg_is_def)
  with wp_run [OF begin_post run] have "rs_active (o_receive t)" by (auto simp: opened_def)
  then show ?thesis
    using run by (simp add: perform_all_def run_state_bind)
qed

theorem ota_session_consistent_witness:
  "let r = o_receive (perform_all sample_ota_env [OpBeginReceive zeroMac 1 3 2 0 None] sample_ota) in
     rs_active r \<and> rs_received_size r \<le> rs_expected_size r"
  using ota_session_consistent [of sample_ota_env
      "[OpBeginReceive zeroMac 1 3 2 0 None]" "default_config\<lparr>max_firmware_bytes := 4\<rparr>" False False]
    sample_opened
  by (simp add: sample_ota_def Let_def perform_all_def)

text \<open>
  C14. Memory safety of \<open>writeReceiveChunk\<close>: after any operations, and for any sender, offset and
  data, the call returns; if it accepts the chunk, the chunk lies inside the announced image and
  the image inside the pool, so the copy stays in the pool, and the pool differs only there.
\<close>

theorem ota_chunks_in_bounds:
  "case run_state (writeReceiveChunk E from corr off data) (perform_all E ops (new_ota c g x)) of (v, t) \<Rightarrow>
     let s = perform_all E ops (new_ota c g x) in
     v \<noteq> None \<and> (ok_verdict v \<longrightarrow> (\<exists>bs p. data = Some bs \<and> o_psram_pool s = Some p
        \<and> unat off + length bs \<le> unat (rs_expected_size (o_receive s))
        \<and> unat (rs_expected_size (o_receive s)) \<le> length p
        \<and> o_psram_pool t = Some (pool_write (unat off) bs p)))
     \<and> (\<not> ok_verdict v \<longrightarrow> o_psram_pool t = o_psram_pool s)"
proof -
  define s where "s = perform_all E ops (new_ota c g x)"
  have ok: "ota_ok s" unfolding s_def by (intro perform_all_ok ota_ok_new)
  obtain v t where run: "run_state (writeReceiveChunk E from corr off data) s = (v, t)" by fastforce
  have post: "write_post from corr off data s v t" by (rule wp_run [OF write_chunk_post [OF ok] run])
  have "unat off + length bs \<le> img_len (o_receive s)" if "chunk_accepted from corr off bs i s t" for bs i
    using that ok chunking_bounds(3) [of "o_receive s" i]
    by (auto simp: chunk_accepted_def Let_def ota_ok_def session_ok_def)
  then show ?thesis
    using post ok run
    by (auto simp: s_def [symmetric] Let_def write_post_def ok_verdict_def chunk_rejected_def
        chunk_accepted_def ota_ok_def pool_ok_def)
qed

theorem ota_chunks_in_bounds_witness:
  "fst (run_state (writeReceiveChunk sample_ota_env zeroMac 1 0 (Some [1])) sample_ota) \<noteq> None"
  using ota_chunks_in_bounds [where E = sample_ota_env and ?from = zeroMac and corr = 1 and off = 0
      and data = "Some [1]" and ops = "[]" and c = "default_config\<lparr>max_firmware_bytes := 4\<rparr>"
      and g = False and x = False]
  by (auto simp: sample_ota_def Let_def split: prod.splits)

section \<open>A chunk size that overflows\<close>

definition no_chunks :: "ota \<Rightarrow> bool" where
  "no_chunks s \<longleftrightarrow> ota_ok s \<and> (rs_active (o_receive s) \<longrightarrow> rs_chunk_count (o_receive s) = 0)"

lemma no_chunks_write:
  "no_chunks s \<Longrightarrow> wp (writeReceiveChunk E from corr off data) (\<lambda>v t. \<not> ok_verdict v \<and> no_chunks t) s"
  unfolding no_chunks_def
  by (rule wp_mono [OF wp_conj [OF write_chunk_post keepsD [OF keeps_writeReceiveChunk]]])
     (auto simp: write_post_def chunk_rejected_def chunk_accepted_def Let_def ok_verdict_def)

lemma no_chunks_feed:
  "no_chunks s \<Longrightarrow> wp (feed E from corr xs) (\<lambda>vs t. list_all (\<lambda>v. \<not> ok_verdict v) vs) s"
proof (induction xs arbitrary: s)
  case (Cons x xs)
  obtain off bs where x: "x = (off, bs)" by fastforce
  show ?case
    unfolding x feed.simps wp_bind wp_ret
    by (rule wp_mono [OF no_chunks_write [OF Cons.prems]])
       (auto intro: wp_mono [OF Cons.IH])
qed (simp add: wp_rules)

text \<open>
  A begin request whose image and chunk sizes add up to more than \<open>2 ^ 32\<close> is accepted, but its
  chunk count wraps around to 0: every chunk of the transfer is then rejected, and \<open>endReceive\<close>
  cannot succeed, so the accepted transfer only ends by an abort or the timeout.
\<close>

lemma oversized_chunk_stalls:
  assumes "run_state (beginReceive E from corr n k crc md) (perform_all E ops (new_ota c g x)) = ((True, m1), s1)"
    and "unat n + unat k > 2 ^ 32" and "run_state (feed E from corr xs) s1 = (vs, s2)"
  shows "list_all (\<lambda>v. \<not> ok_verdict v) vs \<and> \<not> fst (fst (run_state (endReceive E from corr n' crc') s2))"
proof -
  have ok0: "ota_ok (perform_all E ops (new_ota c g x))" by (intro perform_all_ok ota_ok_new)
  then have ok1: "ota_ok s1" using assms(1) keeps_run [OF keeps_beginReceive] by blast
  have op: "opened E from corr n k crc s1" using wp_run [OF begin_post assms(1)] by simp
  then have n: "n \<noteq> 0" "k \<noteq> 0" by (auto simp: opened_def)
  then have "unat ((n + k - 1) div k) = 0"
    using chunk_count_word [of n k] assms(2) by (simp add: word_gt_0)
  then have "no_chunks s1" using op ok1 by (auto simp: no_chunks_def opened_def word_unat_eq_iff)
  from wp_run [OF no_chunks_feed [OF this] assms(3)]
  have vs: "list_all (\<lambda>v. \<not> ok_verdict v) vs" .
  then have "accepted xs vs = []"
    by (auto simp: accepted_def filter_empty_conv list_all_iff dest: set_zip_rightD)
  moreover have "0 < unat n" using n by (simp add: unat_gt_0)
  ultimately have "\<not> fst (fst (run_state (endReceive E from corr n' crc') s2))"
    using image_verified [OF assms(1) ok0 assms(3), of n' crc']
    by (cases "run_state (endReceive E from corr n' crc') s2") (fastforce simp: last_writer_def)
  with vs show ?thesis by blast
qed

end
