(* ===== verification/OtaRecords.thy ===== *)
theory OtaRecords
  imports OtaManager
begin

text \<open>
  The data formats of the OTA manager: its CRC-32 against a bit-serial reference, and the text
  of the status record, which is printed with \<open>snprintf\<close> and read back with \<open>strtoul\<close>.
\<close>

section \<open>CRC-32\<close>

lemma crc32_bit_eq: "crc32_bit c = drop_bit 1 c XOR (if odd c then kCrc32Poly else 0)"
proof -
  have "c AND 1 = of_bool (odd c)" by (simp add: and_one_eq odd_iff_mod_2_eq_one mod2_eq_if)
  then show ?thesis by (simp add: crc32_bit_def Let_def)
qed

lemma crc32_byte_unfold:
  "crc32_byte c b = crc32_bit (crc32_bit (crc32_bit (crc32_bit (crc32_bit (crc32_bit (crc32_bit
     (crc32_bit (c XOR ucast b))))))))"
  by (simp add: crc32_byte_def numeral_eq_Suc)

text \<open>The reference: one shift per message bit, least significant bit first.\<close>

definition lfsr :: "u32 \<Rightarrow> bool \<Rightarrow> u32" where
  "lfsr c b = drop_bit 1 c XOR (if odd c \<noteq> b then kCrc32Poly else 0)"

definition message_bits :: "bytes \<Rightarrow> bool list" where
  "message_bits data = concat (map (\<lambda>b. map (bit b) [0..<8]) data)"

lemma crc32_bits_step:
  "(crc32_bit ^^ n) (c XOR ucast (b :: u8))
     = foldl lfsr c (map (bit b) [0..<n]) XOR drop_bit n (ucast b)"
proof (induction n)
  case (Suc n)
  let ?x = "foldl lfsr c (map (bit b) [0..<n])"
  let ?y = "drop_bit n (ucast b :: u32)"
  have par: "odd ?y \<longleftrightarrow> bit b n"
    by (auto simp: bit_0 [symmetric] bit_simps simp del: bit_0 dest: bit_imp_le_length)
  have "odd (?x XOR ?y) \<longleftrightarrow> odd ?x \<noteq> bit b n"
    using par by (simp add: bit_0 [symmetric] bit_xor_iff del: bit_0)
  then have "crc32_bit (?x XOR ?y) = lfsr ?x (bit b n) XOR drop_bit 1 ?y"
    by (simp add: crc32_bit_eq lfsr_def drop_bit_xor ac_simps)
  then show ?case using Suc by simp
qed simp

lemma crc32_byte_lfsr: "crc32_byte c b = foldl lfsr c (map (bit b) [0..<8])"
proof -
  have "drop_bit 8 (ucast b :: u32) = 0"
    by (rule bit_word_eqI) (auto simp: bit_simps dest: bit_imp_le_length)
  then show ?thesis unfolding crc32_byte_def crc32_bits_step by simp
qed

lemma crc32Update_lfsr: "crc32Update c data = foldl lfsr c (message_bits data)"
  by (induction data arbitrary: c) (simp_all add: crc32Update_def message_bits_def crc32_byte_lfsr)

text \<open>The step is injective, so a change of one byte is carried through to the end.\<close>

lemma poly_top: "bit kCrc32Poly 31"
  by (simp add: kCrc32Poly_def)

lemma lfsr_inj: "lfsr a x = lfsr b x \<Longrightarrow> a = b"
proof -
  assume eq: "lfsr a x = lfsr b x"
  have top: "bit (lfsr c x) 31 \<longleftrightarrow> odd c \<noteq> x" for c
    using poly_top by (auto simp: lfsr_def bit_simps dest: bit_imp_le_length)
  have par: "odd a \<longleftrightarrow> odd b" using top [of a] top [of b] eq by auto
  then have "drop_bit 1 a XOR m = drop_bit 1 b XOR m"
    if "m = (if odd b \<noteq> x then kCrc32Poly else 0)" for m
    using eq that unfolding lfsr_def by (cases "odd b") simp_all
  then have "(drop_bit 1 a XOR m) XOR m = (drop_bit 1 b XOR m) XOR m"
    if "m = (if odd b \<noteq> x then kCrc32Poly else 0)" for m
    using that by metis
  then have "drop_bit 1 a = drop_bit 1 b" by (simp add: xor.assoc)
  then have "bit a (Suc n) = bit b (Suc n)" for n
    by (metis bit_drop_bit_eq plus_1_eq_Suc comp_apply)
  moreover have "bit a 0 = bit b 0" using par by (simp add: bit_0)
  ultimately show "a = b"
    by (intro bit_word_eqI) (metis not0_implies_Suc)
qed

lemma foldl_lfsr_inj: "foldl lfsr a xs = foldl lfsr b xs \<Longrightarrow> a = b"
  by (induction xs arbitrary: a b) (auto dest: lfsr_inj)

section \<open>Numbers as text\<close>

lemma of_char_digit: "d < 16 \<Longrightarrow> (of_char (digit_char d) :: nat) = (if d < 10 then 48 + d else 55 + d)"
  by (simp add: digit_char_def)

lemma digit_val_digit: "d < 16 \<Longrightarrow> digit_val (digit_char d) = Some d"
  by (simp add: digit_val_def of_char_digit)

lemma read_digits_append:
  "(\<forall>c \<in> set xs. \<exists>d < b. digit_val c = Some d) \<Longrightarrow>
   read_digits b acc (xs @ ys) = read_digits b (fst (read_digits b acc xs)) ys"
  by (induction xs arbitrary: acc) auto

lemma digits_set: "2 \<le> b \<Longrightarrow> c \<in> set (digits b n) \<Longrightarrow> \<exists>d < b. c = digit_char d"
proof (induction b n rule: digits.induct)
  case (1 b n)
  show ?case
  proof (cases "n < b")
    case True
    then show ?thesis using 1(2,3) by (subst (asm) digits.simps) auto
  next
    case False
    then have "c \<in> set (digits b (n div b)) \<or> c = digit_char (n mod b)"
      using 1(2,3) by (subst (asm) digits.simps) auto
    then show ?thesis using False 1(1,2) by (auto intro: exI [of _ "n mod b"])
  qed
qed

lemma read_digits_digits:
  "2 \<le> b \<Longrightarrow> b \<le> 16 \<Longrightarrow> read_digits b 0 (digits b n) = (n, [])"
proof (induction b n rule: digits.induct)
  case (1 b n)
  show ?case
  proof (cases "n < b")
    case True
    then show ?thesis using 1 by (subst digits.simps) (simp add: digit_val_digit)
  next
    case False
    have "\<forall>c \<in> set (digits b (n div b)). \<exists>d < b. digit_val c = Some d"
      using digits_set 1(2,3) by (fastforce simp: digit_val_digit)
    moreover have "n mod b < b" "n mod b < 16" using 1(2,3) mod_less_divisor [of b n] by linarith+
    ultimately show ?thesis
      using False 1 by (subst digits.simps) (auto simp: read_digits_append digit_val_digit)
  qed
qed

lemma digits_nonempty [simp]: "digits b n \<noteq> []"
  by (subst digits.simps) simp

lemma digits_first: "2 \<le> b \<Longrightarrow> 0 < n \<Longrightarrow> \<exists>d. 0 < d \<and> d < b \<and> hd (digits b n) = digit_char d"
proof (induction b n rule: digits.induct)
  case (1 b n)
  then show ?case by (subst digits.simps) (auto simp: div_greater_zero_iff)
qed

text \<open>A decimal number with a sign, a blank or a prefix in front is not what \<open>printf\<close> writes.\<close>

definition plain_char :: "char \<Rightarrow> bool" where
  "plain_char c \<longleftrightarrow> \<not> isspace c \<and> c \<notin> {CHR ''-'', CHR ''+'', CHR ''x'', CHR ''X'', CHR 0x00, CHR 0x0A}"

lemma digit_char_plain: "d < 16 \<Longrightarrow> plain_char (digit_char d)"
  unfolding plain_char_def
  by (auto simp: isspace_def dest!: arg_cong [of "digit_char d" _ "of_char :: char \<Rightarrow> nat"]
      simp: of_char_digit split: if_splits)

lemma char_of_48: "char_of (48 :: nat) = CHR ''0''"
  by code_simp

lemma digit_zero: "d < 16 \<Longrightarrow> digit_char d = CHR ''0'' \<longleftrightarrow> d = 0"
  by (auto dest!: arg_cong [of "digit_char d" _ "of_char :: char \<Rightarrow> nat"] simp: of_char_digit split: if_splits)
     (simp add: digit_char_def char_of_48)

lemma digits_plain: "2 \<le> b \<Longrightarrow> b \<le> 16 \<Longrightarrow> \<forall>x \<in> set (digits b n). plain_char x"
  using digits_set [of b _ n] digit_char_plain by (metis order_less_le_trans)

lemma c_str_id: "CHR 0x00 \<notin> set s \<Longrightarrow> c_str s = s"
  by (auto simp: c_str_def takeWhile_eq_all_conv)

lemma parse_dec: "parseU32 (dec_u32 v) = Some v"
proof -
  let ?s = "digits 10 (unat v)"
  obtain c cs where s: "?s = c # cs" using digits_nonempty by (cases ?s) auto
  have all: "\<forall>x \<in> set ?s. plain_char x" by (rule digits_plain) simp_all
  have plain: "\<not> isspace c" "c \<noteq> CHR ''-''" "c \<noteq> CHR ''+''" "CHR 0x00 \<notin> set ?s"
    using all by (auto simp: s plain_char_def)
  have nohex: "take 2 ?s \<noteq> ''0x''" "take 2 ?s \<noteq> ''0X''"
  proof -
    have x: "CHR ''x'' \<notin> set ?s" "CHR ''X'' \<notin> set ?s"
      using all unfolding plain_char_def by blast+
    show "take 2 ?s \<noteq> ''0x''" using x(1) set_take_subset [of 2 ?s] by (metis insertI1 list.set(2) set_subset_Cons subsetD)
    show "take 2 ?s \<noteq> ''0X''" using x(2) set_take_subset [of 2 ?s] by (metis insertI1 list.set(2) set_subset_Cons subsetD)
  qed
  have "strtoul0 ?s = (unat v, [])"
  proof (cases "unat v = 0")
    case True
    then have "?s = ''0''" by (subst digits.simps) (simp add: digit_char_def char_of_48)
    then show ?thesis using True by (simp add: strtoul0_def Let_def isspace_def has_digit_def digit_val_def)
  next
    case False
    then obtain e where e: "0 < e" "e < 10" "c = digit_char e" using digits_first [of 10 "unat v"] s by auto
    then have "take 1 ?s \<noteq> ''0''" using digit_zero [of e] s by simp
    moreover have "has_digit 10 ?s" using e by (simp add: has_digit_def s digit_val_digit)
    ultimately show ?thesis
      using plain nohex s read_digits_digits [of 10 "unat v"] unat_u32_less [of v]
      by (auto simp: strtoul0_def Let_def)
  qed
  then show ?thesis using plain(4) by (simp add: parseU32_def dec_u32_def c_str_id)
qed

lemma read_zeros: "read_digits 16 0 (replicate k (CHR ''0'') @ xs) = read_digits 16 0 xs"
  by (induction k) (auto simp: digit_val_def)

lemma plain_pad: "\<forall>x \<in> set (pad0 8 (digits 16 n)). plain_char x"
proof -
  have "plain_char (CHR ''0'')" by (simp add: plain_char_def isspace_def)
  moreover have "\<forall>x \<in> set (digits 16 n). plain_char x" by (rule digits_plain) simp_all
  ultimately show ?thesis unfolding pad0_def by (metis UnE in_set_replicate set_append)
qed

lemma parse_hex: "parseU32 (hex_0x08 v) = Some v"
proof -
  let ?p = "pad0 8 (digits 16 (unat v))"
  have "CHR 0x00 \<notin> set ?p" using plain_pad unfolding plain_char_def by blast
  then have nul: "CHR 0x00 \<notin> set (''0x'' @ ?p)" by simp
  have rd: "read_digits 16 0 ?p = (unat v, [])"
    by (simp add: pad0_def read_zeros read_digits_digits)
  moreover have "?p \<noteq> []" by (simp add: pad0_def)
  ultimately have "has_digit 16 ?p"
    by (cases ?p) (auto simp: has_digit_def split: option.splits if_splits)
  with rd have "strtoul0 (''0x'' @ ?p) = (unat v, [])"
    using unat_u32_less [of v] by (simp add: strtoul0_def Let_def isspace_def)
  then show ?thesis using nul by (simp add: parseU32_def hex_0x08_def c_str_id)
qed

section \<open>The status record as text\<close>

text \<open>Values the text format carries unchanged: no line break, no blanks at either end.\<close>

definition clean :: "string \<Rightarrow> bool" where
  "clean s \<longleftrightarrow> CHR 0x0A \<notin> set s \<and> (s \<noteq> [] \<longrightarrow> \<not> isspace (hd s) \<and> \<not> isspace (last s))"

definition clean_record :: "PersistentStatusRecord \<Rightarrow> bool" where
  "clean_record r \<longleftrightarrow> clean (pr_state r) \<and> pr_state r \<noteq> [] \<and> clean (pr_image_path r)
     \<and> clean (pr_confirmed_sw_version r) \<and> clean (pr_confirmed_build_id r)"

lemma trim_id: "(s \<noteq> [] \<longrightarrow> \<not> isspace (hd s) \<and> \<not> isspace (last s)) \<Longrightarrow> trim_str s = s"
proof (cases s rule: rev_cases)
  case (snoc xs x)
  assume a: "s \<noteq> [] \<longrightarrow> \<not> isspace (hd s) \<and> \<not> isspace (last s)"
  then have "dropWhile isspace s = s" by (cases s) auto
  then show ?thesis using a snoc by (simp add: trim_str_def)
qed (simp add: trim_str_def)

lemma clean_plain: "xs \<noteq> [] \<Longrightarrow> \<forall>x \<in> set xs. plain_char x \<Longrightarrow> clean xs"
  by (auto simp: clean_def plain_char_def)

lemma clean_numbers: "clean (dec_u32 v)" "clean (hex_0x08 v)" "clean ''0''" "clean ''1''"
proof -
  show "clean (dec_u32 v)"
    unfolding dec_u32_def using digits_plain [of 10] by (intro clean_plain) auto
  have "CHR 0x0A \<notin> set (pad0 8 (digits 16 (unat v)))" "pad0 8 (digits 16 (unat v)) \<noteq> []"
    "\<forall>x \<in> set (pad0 8 (digits 16 (unat v))). \<not> isspace x"
    using plain_pad [of "unat v"] unfolding plain_char_def by (blast, simp add: pad0_def, blast)
  then show "clean (hex_0x08 v)" by (auto simp: clean_def hex_0x08_def isspace_def)
qed (simp_all add: clean_def isspace_def)

lemma split_line:
  "CHR 0x0A \<notin> set l \<Longrightarrow> split_lines (l @ newline @ rest) = l # split_lines rest"
proof -
  assume "CHR 0x0A \<notin> set l"
  then have "takeWhile (\<lambda>c. c \<noteq> CHR 0x0A) (l @ newline @ rest) = l"
    "dropWhile (\<lambda>c. c \<noteq> CHR 0x0A) (l @ newline @ rest) = newline @ rest"
    by (auto simp: newline_def takeWhile_append takeWhile_eq_all_conv dropWhile_append)
  then show ?thesis by (subst split_lines.simps) (simp add: newline_def)
qed

definition key_ok :: "string \<Rightarrow> bool" where
  "key_ok k \<longleftrightarrow> k \<noteq> [] \<and> CHR ''='' \<notin> set k \<and> (\<forall>c \<in> set k. \<not> isspace c)"

lemma status_line_value:
  assumes k: "key_ok k" and v: "clean v"
  shows "status_line (k @ ''='' @ v) r = status_field k v r"
proof -
  let ?l = "k @ ''='' @ v"
  have ends: "\<not> isspace (hd ?l)" "\<not> isspace (last ?l)"
    using k v by (cases k; auto simp: key_ok_def clean_def isspace_def)+
  then have t: "trim_str ?l = ?l" by (intro trim_id) auto
  have "last ?l \<noteq> CHR 0x0D" using ends(2) by (auto simp: isspace_def)
  moreover have tk: "takeWhile (\<lambda>c. c \<noteq> CHR ''='') ?l = k"
    using k by (auto simp: key_ok_def takeWhile_append takeWhile_eq_all_conv)
  moreover have "trim_str k = k" "trim_str v = v"
    using k v by (auto simp: key_ok_def clean_def intro!: trim_id)
  moreover have "drop (length k + 1) ?l = v" by simp
  ultimately show ?thesis
    using k unfolding status_line_def Let_def t key_ok_def by (simp del: drop_append drop_Suc_Cons)
qed

lemma split_entries:
  "\<forall>(k, v) \<in> set kvs. key_ok k \<and> clean v \<Longrightarrow>
   split_lines (concat (map (\<lambda>(k, v). k @ ''='' @ v @ newline) kvs)) = map (\<lambda>(k, v). k @ ''='' @ v) kvs"
proof (induction kvs)
  case Nil
  then show ?case by (subst split_lines.simps) simp
next
  case (Cons kv kvs)
  obtain k v where kv: "kv = (k, v)" by fastforce
  then have "CHR 0x0A \<notin> set (k @ ''='' @ v)"
    using Cons.prems by (auto simp: key_ok_def clean_def isspace_def)
  from split_line [OF this] Cons show ?case by (simp add: kv)
qed

lemma fold_entries:
  "\<forall>(k, v) \<in> set kvs. key_ok k \<and> clean v \<Longrightarrow>
   fold status_line (map (\<lambda>(k, v). k @ ''='' @ v) kvs) r = fold (\<lambda>(k, v). status_field k v) kvs r"
  by (induction kvs arbitrary: r) (auto simp: status_line_value [simplified])

lemma keys_ok:
  "key_ok ''state''" "key_ok ''epoch_s''" "key_ok ''boot_report_pending''" "key_ok ''image_path''"
  "key_ok ''image_size''" "key_ok ''image_crc32''" "key_ok ''confirmed_sw''" "key_ok ''confirmed_build''"
  by (simp_all add: key_ok_def isspace_def)

lemma parse_flag: "parseU32 ''0'' = Some 0" "parseU32 ''1'' = Some 1"
  by (simp_all add: parseU32_def c_str_def strtoul0_def Let_def isspace_def has_digit_def digit_val_def)

lemma parse_status_body:
  assumes r: "clean_record r"
  shows "parse_status_text (status_body r) = r"
proof -
  have ok: "\<forall>(k, v) \<in> set (status_entries r). key_ok k \<and> clean v"
    using r by (auto simp: status_entries_def keys_ok clean_numbers clean_record_def)
  have "fold (\<lambda>(k, v). status_field k v) (status_entries r) new_record = r"
    using r by (simp add: status_entries_def status_field_def Let_def parse_dec parse_hex parse_flag
        new_record_def clean_record_def or_text_def)
  then show ?thesis
    using r unfolding parse_status_text_def status_body_def split_entries [OF ok] fold_entries [OF ok]
    by (simp add: Let_def clean_record_def)
qed

section \<open>Properties\<close>

text \<open>
  C40. \<open>crc32Update_\<close>, which folds eight branch-free steps per byte, computes the bit-serial
  reference over the message bits, it can be fed in pieces, and \<open>crc32\<close> of the standard test
  vector is the published check value.
\<close>

theorem crc32_reference:
  "crc32Update c data = foldl lfsr c (message_bits data)
   \<and> crc32Update (crc32Update c a) b = crc32Update c (a @ b)
   \<and> crc32 (map (\<lambda>i. of_nat (48 + i)) [1..<10]) = 0xCBF43926"
proof (intro conjI)
  have "[1..<10::nat] = [1, 2, 3, 4, 5, 6, 7, 8, 9]" by (simp add: upt_rec)
  then show "crc32 (map (\<lambda>i. of_nat (48 + i)) [1..<10]) = 0xCBF43926"
    by (simp add: crc32_def crc32Finalize_def crc32Update_def crc32_byte_unfold crc32_bit_eq kCrc32Poly_def)
qed (simp_all add: crc32Update_lfsr message_bits_def)

text \<open>Changing any one byte of an image changes its CRC-32.\<close>

lemma crc32_detects_change:
  assumes "i < length img" and "b \<noteq> img ! i"
  shows "crc32 (img[i := b]) \<noteq> crc32 img"
proof
  assume eq: "crc32 (img[i := b]) = crc32 img"
  let ?c = "crc32Update 0xFFFFFFFF (take i img)"
  have split: "crc32Update 0xFFFFFFFF (take i img @ x # drop (Suc i) img)
      = foldl lfsr (crc32_byte ?c x) (message_bits (drop (Suc i) img))" for x
    by (simp add: crc32Update_lfsr message_bits_def crc32_byte_lfsr)
  have parts: "img[i := b] = take i img @ b # drop (Suc i) img" "img = take i img @ img ! i # drop (Suc i) img"
    by (rule upd_conv_take_nth_drop [OF assms(1)], rule id_take_nth_drop [OF assms(1)])
  have "crc32Update 0xFFFFFFFF (img[i := b]) = crc32Update 0xFFFFFFFF img"
    using eq by (simp add: crc32_def crc32Finalize_def)
  then have "foldl lfsr (crc32_byte ?c b) (message_bits (drop (Suc i) img))
      = foldl lfsr (crc32_byte ?c (img ! i)) (message_bits (drop (Suc i) img))"
    unfolding split [symmetric] by (simp only: parts(1) parts(2) [symmetric])
  then have "crc32_byte ?c b = crc32_byte ?c (img ! i)" by (rule foldl_lfsr_inj)
  moreover have "inj crc32_bit"
  proof (rule injI)
    fix a b :: u32
    assume "crc32_bit a = crc32_bit b"
    then show "a = b" using lfsr_inj [of a False b] by (simp add: crc32_bit_eq lfsr_def)
  qed
  ultimately have "?c XOR ucast b = ?c XOR ucast (img ! i)"
    unfolding crc32_byte_def by (metis inj_fn injD)
  then have "?c XOR (?c XOR ucast b) = ?c XOR (?c XOR ucast (img ! i))" by simp
  then have "(ucast b :: u32) = ucast (img ! i)" by (simp add: xor.assoc [symmetric])
  then have "b = img ! i"
    by (simp add: bit_eq_iff bit_simps)
  with assms(2) show False by simp
qed

text \<open>
  The status record: what \<open>saveStatusRecord_\<close> writes, \<open>loadStatusRecord_\<close> reads back field by
  field, decimal and hexadecimal numbers, flag and texts, as long as the texts have no line break
  and no blanks at their ends and the file is at most 2048 bytes; a longer file, which
  \<open>saveStatusRecord_\<close> writes all the same, is refused on every later start.
\<close>

lemma status_record_roundtrip:
  assumes "clean_record r"
    and "\<forall>tr p. stat_of E tr p = \<lparr>ss_exists = True, ss_is_dir = False, ss_size_bytes = of_nat (length (status_body r))\<rparr>"
    and "\<forall>tr p. data_of E tr p = string_bytes (status_body r)" and "\<forall>tr c. fst (reply E tr c)"
    and "length (status_body r) < 2 ^ 32"
  shows "fst (run_state (loadStatusRecord E) s)
           = (if length (status_body r) \<le> 2048 then Inr r else Inl ''status record too large'')
         \<and> last (o_calls (snd (run_state (saveStatusRecord E r) s)))
             = WriteAt (statusRecordPath (o_config s)) 0 (string_bytes (status_body r))
         \<and> fst (fst (run_state (saveStatusRecord E r) s))"
proof -
  let ?n = "length (status_body r)"
  have n: "unat (of_nat ?n :: u32) = ?n" by (rule unat_of_nat_u32 [OF assms(5)])
  have "0 < ?n" by (simp add: status_body_def status_entries_def)
  then have nz: "(of_nat ?n :: u32) \<noteq> 0" using n by (metis unat_0 less_numeral_extra(3))
  have big: "(of_nat ?n :: u32) > 2048 \<longleftrightarrow> \<not> ?n \<le> 2048" by (simp add: word_less_nat_alt n not_le)
  have ne: "string_bytes (status_body r) \<noteq> []" using \<open>0 < ?n\<close> by (auto simp: string_bytes_def)
  have len: "length (string_bytes (status_body r)) = ?n" by (simp add: string_bytes_def)
  obtain m1 where m1: "reply E (o_calls s) (StatPath (statusRecordPath (o_config s))) = (True, m1)"
    using assms(4) by (metis prod.collapse)
  obtain m2 where m2: "reply E (o_calls s @ [StatPath (statusRecordPath (o_config s))])
      (ReadAt (statusRecordPath (o_config s)) 0 ?n) = (True, m2)"
    using assms(4) by (metis prod.collapse)
  have "wp (loadStatusRecord E) (\<lambda>v _. v = (if ?n \<le> 2048 then Inr r else Inl ''status record too large'')) s"
    using ne len parse_status_body [OF assms(1)]
    by (simp add: loadStatusRecord_def Let_def wp_rules call_def nz big n m1 m2 assms(2,3)
        string_of_string_bytes)
  moreover have "wp (saveStatusRecord E r) (\<lambda>v t. fst v \<and> last (o_calls t)
      = WriteAt (statusRecordPath (o_config s)) 0 (string_bytes (status_body r))) s"
  proof -
    have w: "wp (State_Monad.bind (store E c) (\<lambda>(ok, msg). f ok msg)) Q u"
      if "\<And>msg. wp (f True msg) Q (u\<lparr>o_calls := o_calls u @ [c]\<rparr>)" for c f Q and u :: ota
      using that assms(4) by (auto simp: store_def call_def wp_rules split: prod.split) (metis fst_conv)
    show ?thesis
      unfolding saveStatusRecord_def Let_def wp_bind [of "gets o_config"] wp_gets
      by (rule w, simp, rule w, simp, rule w) (simp add: wp_ret)
  qed
  ultimately show ?thesis by (auto simp: wp_def split: prod.splits)
qed

definition sample_record :: PersistentStatusRecord where
  "sample_record = new_record\<lparr>pr_state := ''pending_boot'', pr_image_path := ''/o/r/u.bin'',
     pr_image_size := 1024, pr_image_crc32 := 0xCBF43926\<rparr>"

definition sample_record_env :: ota_env where
  "sample_record_env = \<lparr>reply = \<lambda>_ _. (True, []), stat_of = \<lambda>_ _. \<lparr>ss_exists = True, ss_is_dir = False,
     ss_size_bytes = of_nat (length (status_body sample_record))\<rparr>, names_of = \<lambda>_ _. [],
     data_of = \<lambda>_ _. string_bytes (status_body sample_record), gate_of = \<lambda>_ _. (GdReady, []),
     time_of = \<lambda>_. 0, psram_found = True, largest_block = \<lambda>_. 0, malloc_ok = \<lambda>_ _. True,
     heap_byte = \<lambda>_ _. 0\<rparr>"

lemma sample_record_clean: "clean_record sample_record"
  by (simp add: clean_record_def clean_def sample_record_def new_record_def isspace_def)

lemma sample_record_length: "length (status_body sample_record) = 143"
  by (simp add: status_body_def status_entries_def sample_record_def new_record_def newline_def dec_u32_def
      hex_0x08_def pad0_def digits.simps)

end
