(* ===== verification/PairStore.thy ===== *)
theory PairStore
  imports Text Tables Environment
begin

text \<open>
  The persistence helper \<open>PairingStore\<close>, \<open>src/platform/persistence.cpp\<close>: keys derived by hash, a
  write-through cache of at most 256 blobs over a key-value backend, and on top of them pair
  records, channels, metadata blobs, the index of paired peers and its sequence counter. The
  backend (\<open>IPersistenceBackend\<close>) is a parameter: what it answers may depend on all calls so far.
  The cache is a list in the iteration order of the \<open>unordered_map\<close>; no proof depends on it.
\<close>

section \<open>Keys\<close>

datatype RecordKind = KindPair | KindChannel | KindMeta

fun kind_code :: "RecordKind \<Rightarrow> u8" where
  "kind_code KindPair = 1" | "kind_code KindChannel = 2" | "kind_code KindMeta = 3"

definition kKeySaltPairIndex :: u8 where "kKeySaltPairIndex = 0xA2"
definition kKeySaltPairSeqCounter :: u8 where "kKeySaltPairSeqCounter = 0xA3"
definition kPairIndexSchemaVersion :: u8 where "kPairIndexSchemaVersion = 1"
definition kPairSeqSchemaVersion :: u8 where "kPairSeqSchemaVersion = 1"
definition kPairIndexHeaderBytes :: nat where "kPairIndexHeaderBytes = 4"
definition kPairIndexEntryBytes :: nat where "kPairIndexEntryBytes = 11"
definition kPairSeqBlobBytes :: nat where "kPairSeqBlobBytes = 5"
definition kBlobCacheMaxEntries :: nat where "kBlobCacheMaxEntries = 256"

definition hashMac :: "u32 \<Rightarrow> mac \<Rightarrow> u32" where
  "hashMac h m = foldl hashByte h (mac_bytes m)"

definition hashKeyMaterial :: "RecordKind \<Rightarrow> mac \<Rightarrow> mac \<Rightarrow> u8 \<Rightarrow> u8 \<Rightarrow> u32" where
  "hashKeyMaterial kind local_m peer schema_version salt =
     hashMac (hashMac (hashByte (hashByte (hashByte kFnvOffset (kind_code kind)) schema_version) salt)
       local_m) peer"

text \<open>\<open>snprintf\<close> of \<open>%c%06X\<close> with the low 24 bits of the hash.\<close>

definition hex6 :: "nat \<Rightarrow> string" where
  "hex6 n = map (\<lambda>i. digit_char (n div 16 ^ i mod 16)) [5, 4, 3, 2, 1, 0]"

definition key_text :: "char \<Rightarrow> u32 \<Rightarrow> string" where
  "key_text prefix h = prefix # hex6 (unat (h AND 0xFFFFFF))"

text \<open>\<open>PersistenceConfig\<close>, the backend pointer and the backend's answers.\<close>

datatype be_call = PutBlob string bytes | GetBlob string | EraseKey string

record store_env =
  se_enabled :: bool
  se_backend :: bool
  se_schema_version :: u8
  be_ok :: "be_call list \<Rightarrow> be_call \<Rightarrow> bool"
  be_blob :: "be_call list \<Rightarrow> string \<Rightarrow> bytes option"

definition store_enabled :: "store_env \<Rightarrow> bool" where
  "store_enabled E \<longleftrightarrow> se_enabled E \<and> se_backend E"

definition makeKey :: "store_env \<Rightarrow> RecordKind \<Rightarrow> mac \<Rightarrow> mac \<Rightarrow> string" where
  "makeKey E kind local_m peer =
     key_text (if kind = KindPair then CHR ''p'' else if kind = KindChannel then CHR ''c'' else CHR ''m'')
       (hashKeyMaterial kind local_m peer (se_schema_version E) 0)"

definition makeMetaKey :: "store_env \<Rightarrow> mac \<Rightarrow> mac \<Rightarrow> u8 \<Rightarrow> string" where
  "makeMetaKey E local_m peer slot =
     key_text (CHR ''m'') (hashKeyMaterial KindMeta local_m peer (se_schema_version E) slot)"

definition makeLocalMetaKey :: "store_env \<Rightarrow> mac \<Rightarrow> string \<Rightarrow> u8 \<Rightarrow> string" where
  "makeLocalMetaKey E local_m prefix salt =
     key_text (if prefix = ''pidx'' then CHR ''i'' else if prefix = ''pseq'' then CHR ''q'' else CHR ''m'')
       (hashKeyMaterial KindMeta local_m zeroMac (se_schema_version E) salt)"

definition pairIndexKey :: "store_env \<Rightarrow> mac \<Rightarrow> string" where
  "pairIndexKey E local_m = makeLocalMetaKey E local_m ''pidx'' kKeySaltPairIndex"

definition pairSeqCounterKey :: "store_env \<Rightarrow> mac \<Rightarrow> string" where
  "pairSeqCounterKey E local_m = makeLocalMetaKey E local_m ''pseq'' kKeySaltPairSeqCounter"

section \<open>The blob cache\<close>

record BlobCacheEntry =
  bc_key :: string
  bc_known :: bool
  bc_exists :: bool
  bc_value :: bytes
  bc_last_used :: u32

record pstore =
  ps_cache :: "BlobCacheEntry list"
  ps_access_seq :: u32
  ps_calls :: "be_call list"

type_synonym 'a pst = "(pstore, 'a) state"

definition new_pstore :: pstore where
  "new_pstore = \<lparr>ps_cache = [], ps_access_seq = 0, ps_calls = []\<rparr>"

definition be_note :: "be_call \<Rightarrow> be_call list pst" where
  "be_note c = do { tr \<leftarrow> gets ps_calls; _ \<leftarrow> modify (\<lambda>s. s\<lparr>ps_calls := tr @ [c]\<rparr>); ret tr }"

definition be_putBlob :: "store_env \<Rightarrow> string \<Rightarrow> bytes \<Rightarrow> bool pst" where
  "be_putBlob E key data = do { tr \<leftarrow> be_note (PutBlob key data); ret (be_ok E tr (PutBlob key data)) }"

definition be_getBlob :: "store_env \<Rightarrow> string \<Rightarrow> bytes option pst" where
  "be_getBlob E key = do { tr \<leftarrow> be_note (GetBlob key); ret (be_blob E tr key) }"

definition be_eraseKey :: "store_env \<Rightarrow> string \<Rightarrow> bool pst" where
  "be_eraseKey E key = do { tr \<leftarrow> be_note (EraseKey key); ret (be_ok E tr (EraseKey key)) }"

definition markBlobCacheEntryUsed :: "string \<Rightarrow> pstore \<Rightarrow> pstore" where
  "markBlobCacheEntryUsed key s =
     (let q = ps_access_seq s + 1;
          (q', c) = (if q = 0 then (1, map (\<lambda>e. e\<lparr>bc_last_used := 0\<rparr>) (ps_cache s)) else (q, ps_cache s))
      in s\<lparr>ps_access_seq := q', ps_cache := upd_by bc_key key (\<lambda>e. e\<lparr>bc_last_used := q'\<rparr>) c\<rparr>)"

text \<open>The scan for the entry to evict: the first with the smallest use number, never \<open>preserve\<close>.\<close>

fun pick_evict :: "string \<Rightarrow> BlobCacheEntry list \<Rightarrow> BlobCacheEntry option \<Rightarrow> BlobCacheEntry option" where
  "pick_evict preserve [] best = best"
| "pick_evict preserve (e # es) best =
     (if bc_key e = preserve then pick_evict preserve es best
      else case best of
        None \<Rightarrow> pick_evict preserve es (Some e)
      | Some b \<Rightarrow> if bc_last_used e < bc_last_used b then pick_evict preserve es (Some e)
                  else pick_evict preserve es best)"

lemma pick_evict_in:
  "pick_evict p es best = Some e \<Longrightarrow> (e \<in> set es \<and> bc_key e \<noteq> p) \<or> best = Some e"
  by (induction p es best rule: pick_evict.induct) (auto split: if_splits option.splits)

lemma length_del_by: "k \<in> key ` set rs \<Longrightarrow> Suc (length (del_by key k rs)) = length rs"
  by (induction rs) auto

function enforce_limit :: "string \<Rightarrow> BlobCacheEntry list \<Rightarrow> BlobCacheEntry list" where
  "enforce_limit preserve c =
     (if length c > kBlobCacheMaxEntries then
        (case pick_evict preserve c None of
           None \<Rightarrow> c
         | Some e \<Rightarrow> enforce_limit preserve (del_by bc_key (bc_key e) c))
      else c)"
  by pat_completeness auto

termination
proof (relation "measure (\<lambda>(p, c). length c)")
  show "wf (measure (\<lambda>(p, c). length c))" by simp
  fix preserve :: string and c :: "BlobCacheEntry list" and e
  assume "kBlobCacheMaxEntries < length c" and "pick_evict preserve c None = Some e"
  then show "((preserve, del_by bc_key (bc_key e) c), (preserve, c)) \<in> measure (\<lambda>(p, c). length c)"
    using pick_evict_in [of preserve c None e] length_del_by [of "bc_key e" bc_key c] by auto
qed

declare enforce_limit.simps [simp del]

definition enforceBlobCacheLimit :: "string \<Rightarrow> pstore \<Rightarrow> pstore" where
  "enforceBlobCacheLimit preserve s = s\<lparr>ps_cache := enforce_limit preserve (ps_cache s)\<rparr>"

text \<open>
  \<open>blob_cache_[key]\<close> set to what is now known of the key, marked as used, and the limit enforced:
  the five lines that follow every answer of the backend.
\<close>

definition remember :: "string \<Rightarrow> bytes option \<Rightarrow> unit pst" where
  "remember key v = modify (\<lambda>s.
     enforceBlobCacheLimit key (markBlobCacheEntryUsed key (s\<lparr>ps_cache :=
       upsert_by bc_key key
         \<lparr>bc_key = key, bc_known = True, bc_exists = (v \<noteq> None),
          bc_value = (case v of None \<Rightarrow> [] | Some b \<Rightarrow> b), bc_last_used = 0\<rparr>
         (\<lambda>e. e\<lparr>bc_known := True, bc_exists := (v \<noteq> None),
                 bc_value := (case v of None \<Rightarrow> [] | Some b \<Rightarrow> b)\<rparr>) (ps_cache s)\<rparr>)))"

definition ask_backend :: "store_env \<Rightarrow> string \<Rightarrow> bytes option pst" where
  "ask_backend E key = do { r \<leftarrow> be_getBlob E key; _ \<leftarrow> remember key r; ret r }"

definition putBlobIfChanged :: "store_env \<Rightarrow> string \<Rightarrow> bytes \<Rightarrow> bool pst" where
  "putBlobIfChanged E key data =
     (if \<not> store_enabled E \<or> data = [] then ret False
      else do {
        c \<leftarrow> gets ps_cache;
        same \<leftarrow> (case find_by bc_key key c of
            None \<Rightarrow> do { r \<leftarrow> ask_backend E key; ret (r = Some data) }
          | Some e \<Rightarrow>
              if bc_known e \<and> bc_exists e then do {
                _ \<leftarrow> modify (markBlobCacheEntryUsed key);
                ret (bc_value e = data) }
              else do { r \<leftarrow> ask_backend E key; ret (r = Some data) });
        if same then ret True
        else do {
          ok \<leftarrow> be_putBlob E key data;
          if \<not> ok then ret False
          else do { _ \<leftarrow> remember key (Some data); ret True } } })"

definition getBlobCached :: "store_env \<Rightarrow> string \<Rightarrow> bytes option pst" where
  "getBlobCached E key =
     (if \<not> store_enabled E then ret None
      else do {
        c \<leftarrow> gets ps_cache;
        case find_by bc_key key c of
          None \<Rightarrow> ask_backend E key
        | Some e \<Rightarrow>
            if bc_known e then do {
              _ \<leftarrow> modify (markBlobCacheEntryUsed key);
              ret (if bc_exists e then Some (bc_value e) else None) }
            else ask_backend E key })"

definition erase_now :: "store_env \<Rightarrow> string \<Rightarrow> bool pst" where
  "erase_now E key = do {
     ok \<leftarrow> be_eraseKey E key;
     if \<not> ok then ret False else do { _ \<leftarrow> remember key None; ret True } }"

definition probe_and_erase :: "store_env \<Rightarrow> string \<Rightarrow> bool pst" where
  "probe_and_erase E key = do {
     r \<leftarrow> be_getBlob E key;
     if r = None then do { _ \<leftarrow> remember key None; ret True } else erase_now E key }"

definition eraseBlobIfExists :: "store_env \<Rightarrow> string \<Rightarrow> bool pst" where
  "eraseBlobIfExists E key =
     (if \<not> store_enabled E then ret False
      else do {
        c \<leftarrow> gets ps_cache;
        case find_by bc_key key c of
          None \<Rightarrow> probe_and_erase E key
        | Some e \<Rightarrow>
            if bc_known e \<and> \<not> bc_exists e then do {
              _ \<leftarrow> modify (markBlobCacheEntryUsed key);
              ret True }
            else if \<not> bc_known e then probe_and_erase E key
            else erase_now E key })"

section \<open>Pair records, channels, metadata\<close>

text \<open>A pair record as it is read back: the role byte is not checked against the enumeration.\<close>

record LoadedPair =
  lp_local_role :: u8
  lp_local_mac :: mac
  lp_peer_mac :: mac
  lp_lmk :: bytes
  lp_channel :: u8
  lp_valid :: bool

definition loaded_of :: "PairRecord \<Rightarrow> LoadedPair" where
  "loaded_of r = \<lparr>lp_local_role = role_code (rec_local_role r), lp_local_mac = rec_local_mac r,
     lp_peer_mac = rec_peer_mac r, lp_lmk = rec_lmk r, lp_channel = rec_channel r, lp_valid = rec_valid r\<rparr>"

definition pair_blob :: "PairRecord \<Rightarrow> bytes" where
  "pair_blob r = [role_code (rec_local_role r)] @ mac_bytes (rec_local_mac r) @ mac_bytes (rec_peer_mac r)
     @ rec_lmk r @ [rec_channel r, if rec_valid r then 1 else 0]"

definition parse_pair_blob :: "bytes \<Rightarrow> LoadedPair option" where
  "parse_pair_blob blob =
     (if length blob \<noteq> 31 then None
      else Some \<lparr>lp_local_role = blob ! 0, lp_local_mac = mac_of (drop 1 blob),
                 lp_peer_mac = mac_of (drop 7 blob), lp_lmk = take 16 (drop 13 blob),
                 lp_channel = blob ! 29, lp_valid = (blob ! 30 \<noteq> 0)\<rparr>)"

definition loadPair :: "store_env \<Rightarrow> mac \<Rightarrow> mac \<Rightarrow> LoadedPair option pst" where
  "loadPair E local_m peer =
     (if \<not> store_enabled E then ret None
      else do {
        b \<leftarrow> getBlobCached E (makeKey E KindPair local_m peer);
        ret (case b of None \<Rightarrow> None | Some blob \<Rightarrow> parse_pair_blob blob) })"

definition saveChannel :: "store_env \<Rightarrow> mac \<Rightarrow> mac \<Rightarrow> u8 \<Rightarrow> bool pst" where
  "saveChannel E local_m peer channel =
     (if \<not> store_enabled E then ret False
      else putBlobIfChanged E (makeKey E KindChannel local_m peer) [channel])"

definition loadChannel :: "store_env \<Rightarrow> mac \<Rightarrow> mac \<Rightarrow> u8 option pst" where
  "loadChannel E local_m peer =
     (if \<not> store_enabled E then ret None
      else do {
        b \<leftarrow> getBlobCached E (makeKey E KindChannel local_m peer);
        ret (case b of None \<Rightarrow> None | Some blob \<Rightarrow> if length blob \<noteq> 1 then None else Some (blob ! 0)) })"

definition eraseChannel :: "store_env \<Rightarrow> mac \<Rightarrow> mac \<Rightarrow> bool pst" where
  "eraseChannel E local_m peer =
     (if \<not> store_enabled E then ret False
      else eraseBlobIfExists E (makeKey E KindChannel local_m peer))"

definition saveMetaBlob :: "store_env \<Rightarrow> mac \<Rightarrow> mac \<Rightarrow> u8 \<Rightarrow> bytes \<Rightarrow> bool pst" where
  "saveMetaBlob E local_m peer slot data =
     (if \<not> store_enabled E \<or> data = [] then ret False
      else putBlobIfChanged E (makeMetaKey E local_m peer slot) data)"

definition loadMetaBlob :: "store_env \<Rightarrow> mac \<Rightarrow> mac \<Rightarrow> u8 \<Rightarrow> bytes option pst" where
  "loadMetaBlob E local_m peer slot =
     (if \<not> store_enabled E then ret None else getBlobCached E (makeMetaKey E local_m peer slot))"

definition eraseMetaBlob :: "store_env \<Rightarrow> mac \<Rightarrow> mac \<Rightarrow> u8 \<Rightarrow> bool pst" where
  "eraseMetaBlob E local_m peer slot =
     (if \<not> store_enabled E then ret False else eraseBlobIfExists E (makeMetaKey E local_m peer slot))"

section \<open>The index of paired peers\<close>

record PairIndexEntry =
  pi_peer_mac :: mac
  pi_pair_seq :: u32
  pi_valid :: bool

definition index_entry_bytes :: "PairIndexEntry \<Rightarrow> bytes" where
  "index_entry_bytes e = mac_bytes (pi_peer_mac e) @ appendLe32 (pi_pair_seq e) @ [if pi_valid e then 1 else 0]"

definition index_blob :: "PairIndexEntry list \<Rightarrow> bytes" where
  "index_blob es = [kPairIndexSchemaVersion, 0] @ appendLe16 (of_nat (length es))
     @ concat (map index_entry_bytes es)"

fun read_index_entries :: "nat \<Rightarrow> bytes \<Rightarrow> PairIndexEntry list" where
  "read_index_entries 0 p = []"
| "read_index_entries (Suc n) p =
     \<lparr>pi_peer_mac = mac_of p, pi_pair_seq = readLe32 (drop 6 p), pi_valid = (p ! 10 \<noteq> 0)\<rparr>
     # read_index_entries n (drop kPairIndexEntryBytes p)"

definition parse_index_blob :: "bytes \<Rightarrow> PairIndexEntry list option" where
  "parse_index_blob blob =
     (if length blob < kPairIndexHeaderBytes then None
      else if blob ! 0 \<noteq> kPairIndexSchemaVersion then None
      else let count = unat (le16 (blob ! 2) (blob ! 3))
           in if length blob \<noteq> kPairIndexHeaderBytes + count * kPairIndexEntryBytes then None
              else Some (read_index_entries count (drop kPairIndexHeaderBytes blob)))"

definition savePairIndex :: "store_env \<Rightarrow> mac \<Rightarrow> PairIndexEntry list \<Rightarrow> bool pst" where
  "savePairIndex E local_m entries =
     (if \<not> store_enabled E then ret False
      else if entries = [] then eraseBlobIfExists E (pairIndexKey E local_m)
      else if length entries > 65535 then ret False
      else putBlobIfChanged E (pairIndexKey E local_m) (index_blob entries))"

definition loadPairIndex :: "store_env \<Rightarrow> mac \<Rightarrow> PairIndexEntry list option pst" where
  "loadPairIndex E local_m =
     (if \<not> store_enabled E then ret None
      else do {
        b \<leftarrow> getBlobCached E (pairIndexKey E local_m);
        ret (case b of None \<Rightarrow> None | Some blob \<Rightarrow> parse_index_blob blob) })"

definition upsertPairIndexEntry :: "store_env \<Rightarrow> mac \<Rightarrow> mac \<Rightarrow> u32 \<Rightarrow> bool pst" where
  "upsertPairIndexEntry E local_m peer pair_seq =
     (if \<not> store_enabled E then ret False
      else do {
        r \<leftarrow> loadPairIndex E local_m;
        let entries = (case r of None \<Rightarrow> [] | Some es \<Rightarrow> es);
        savePairIndex E local_m (upsert_by pi_peer_mac peer
          \<lparr>pi_peer_mac = peer, pi_pair_seq = pair_seq, pi_valid = True\<rparr>
          (\<lambda>e. e\<lparr>pi_pair_seq := pair_seq, pi_valid := True\<rparr>) entries) })"

definition removePairIndexEntry :: "store_env \<Rightarrow> mac \<Rightarrow> mac \<Rightarrow> bool pst" where
  "removePairIndexEntry E local_m peer =
     (if \<not> store_enabled E then ret False
      else do {
        r \<leftarrow> loadPairIndex E local_m;
        case r of
          None \<Rightarrow> ret True
        | Some es \<Rightarrow> savePairIndex E local_m (filter (\<lambda>e. pi_peer_mac e \<noteq> peer) es) })"

definition erasePair :: "store_env \<Rightarrow> mac \<Rightarrow> mac \<Rightarrow> bool pst" where
  "erasePair E local_m peer =
     (if \<not> store_enabled E then ret False
      else do {
        a \<leftarrow> eraseBlobIfExists E (makeKey E KindPair local_m peer);
        b \<leftarrow> removePairIndexEntry E local_m peer;
        ret (a \<and> b) })"

section \<open>The sequence counter\<close>

definition savePairSeqCounter :: "store_env \<Rightarrow> mac \<Rightarrow> u32 \<Rightarrow> bool pst" where
  "savePairSeqCounter E local_m counter =
     (if \<not> store_enabled E then ret False
      else putBlobIfChanged E (pairSeqCounterKey E local_m) (kPairSeqSchemaVersion # appendLe32 counter))"

definition parse_seq_blob :: "bytes \<Rightarrow> u32 option" where
  "parse_seq_blob blob =
     (if length blob \<noteq> kPairSeqBlobBytes \<or> blob ! 0 \<noteq> kPairSeqSchemaVersion then None
      else Some (readLe32 (drop 1 blob)))"

definition loadPairSeqCounter :: "store_env \<Rightarrow> mac \<Rightarrow> u32 option pst" where
  "loadPairSeqCounter E local_m =
     (if \<not> store_enabled E then ret None
      else do {
        b \<leftarrow> getBlobCached E (pairSeqCounterKey E local_m);
        ret (case b of None \<Rightarrow> None | Some blob \<Rightarrow> parse_seq_blob blob) })"

definition clearPairSeqCounter :: "store_env \<Rightarrow> mac \<Rightarrow> bool pst" where
  "clearPairSeqCounter E local_m =
     (if \<not> store_enabled E then ret False else eraseBlobIfExists E (pairSeqCounterKey E local_m))"

text \<open>The sequence number a peer already has in the index; 0 when it has none.\<close>

definition indexed_seq :: "mac \<Rightarrow> PairIndexEntry list option \<Rightarrow> u32" where
  "indexed_seq peer r =
     (case r of None \<Rightarrow> 0
      | Some es \<Rightarrow>
          (case List.find (\<lambda>e. pi_peer_mac e = peer \<and> pi_valid e \<and> pi_pair_seq e \<noteq> 0) es of
             None \<Rightarrow> 0 | Some e \<Rightarrow> pi_pair_seq e))"

definition next_seq :: "u32 option \<Rightarrow> u32" where
  "next_seq r = (case r of None \<Rightarrow> 1 | Some n \<Rightarrow> if n = 0 then 1 else n)"

definition savePair :: "store_env \<Rightarrow> PairRecord \<Rightarrow> bool pst" where
  "savePair E record =
     (if \<not> store_enabled E then ret False
      else do {
        let local_m = rec_local_mac record;
        let peer = rec_peer_mac record;
        ok \<leftarrow> putBlobIfChanged E (makeKey E KindPair local_m peer) (pair_blob record);
        if \<not> ok then ret False
        else do {
          r \<leftarrow> loadPairIndex E local_m;
          let assigned = indexed_seq peer r;
          if assigned \<noteq> 0 then upsertPairIndexEntry E local_m peer assigned
          else do {
            c \<leftarrow> loadPairSeqCounter E local_m;
            let n = next_seq c;
            ok \<leftarrow> savePairSeqCounter E local_m (if n = - 1 then 1 else n + 1);
            if \<not> ok then ret False else upsertPairIndexEntry E local_m peer n } } })"

end
