(* ===== verification/StoreCache.thy ===== *)
theory StoreCache
  imports PairStore
begin

text \<open>
  The cached store is a plain map: with a backend that works as documented, every access of
  \<open>PairingStore\<close> reads and writes the map of the backend, whatever the cache holds and evicts. The
  contract is the locale \<open>blob_map\<close> of the interfaces; it is interpreted here on the store.
\<close>

section \<open>The backend\<close>

type_synonym kv = "string \<Rightarrow> bytes option"

fun be_effect :: "be_call \<Rightarrow> kv \<Rightarrow> kv" where
  "be_effect (PutBlob k d) m = m(k \<mapsto> d)"
| "be_effect (EraseKey k) m = m(k := None)"
| "be_effect (GetBlob k) m = m"

text \<open>The backend's content after the calls \<open>cs\<close> that follow the calls \<open>before\<close>.\<close>

fun be_replay :: "store_env \<Rightarrow> be_call list \<Rightarrow> be_call list \<Rightarrow> kv \<Rightarrow> kv" where
  "be_replay E before [] m = m"
| "be_replay E before (c # cs) m =
     be_replay E (before @ [c]) cs (if be_ok E before c then be_effect c m else m)"

definition stored :: "store_env \<Rightarrow> kv \<Rightarrow> pstore \<Rightarrow> kv" where
  "stored E m0 s = be_replay E [] (ps_calls s) m0"

text \<open>
  The documented behaviour of \<open>IPersistenceBackend\<close>: a read delivers what is stored. (That a write
  or an erasure that reports failure changes nothing is in the definition of \<open>be_replay\<close>.)
\<close>

definition backend_ok :: "store_env \<Rightarrow> kv \<Rightarrow> bool" where
  "backend_ok E m0 \<longleftrightarrow> (\<forall>tr k. be_blob E tr k = be_replay E [] tr m0 k)"

lemma be_replay_append: "be_replay E b (xs @ ys) m = be_replay E (b @ xs) ys (be_replay E b xs m)"
  by (induction xs arbitrary: b m) auto

lemma stored_call:
  "stored E m0 (s\<lparr>ps_calls := ps_calls s @ [c]\<rparr>)
     = (if be_ok E (ps_calls s) c then be_effect c (stored E m0 s) else stored E m0 s)"
  by (simp add: stored_def be_replay_append)

lemma stored_get [simp]: "stored E m0 (s\<lparr>ps_calls := ps_calls s @ [GetBlob k]\<rparr>) = stored E m0 s"
  by (simp add: stored_call)

section \<open>The cache agrees with the backend\<close>

definition strip :: "BlobCacheEntry \<Rightarrow> BlobCacheEntry" where
  "strip e = e\<lparr>bc_last_used := 0\<rparr>"

definition entry_ok :: "kv \<Rightarrow> BlobCacheEntry \<Rightarrow> bool" where
  "entry_ok m e \<longleftrightarrow> bc_known e \<and> m (bc_key e) = (if bc_exists e then Some (bc_value e) else None)"

definition coherent :: "kv \<Rightarrow> BlobCacheEntry list \<Rightarrow> bool" where
  "coherent m c \<longleftrightarrow> distinct (map bc_key c) \<and> (\<forall>k e. find_by bc_key k c = Some e \<longrightarrow> entry_ok m e)"

definition store_ok :: "store_env \<Rightarrow> kv \<Rightarrow> pstore \<Rightarrow> bool" where
  "store_ok E m0 s \<longleftrightarrow> coherent (stored E m0 s) (ps_cache s) \<and> length (ps_cache s) \<le> kBlobCacheMaxEntries"

lemma strip_fields [simp]:
  "bc_key (strip e) = bc_key e" "entry_ok m (strip e) = entry_ok m e"
  by (simp_all add: strip_def entry_ok_def)

lemma find_strip: "find_by bc_key k (map strip c) = map_option strip (find_by bc_key k c)"
  by (induction c) auto

lemma coherent_strip: "map strip c = map strip c' \<Longrightarrow> coherent m c = coherent m c'"
proof -
  have "coherent m d = coherent m (map strip d)" for d
    unfolding coherent_def by (auto simp: comp_def find_strip) (metis strip_fields(2))
  then show "map strip c = map strip c' \<Longrightarrow> coherent m c = coherent m c'" by metis
qed

lemma strip_upd_used: "map strip (upd_by bc_key k (\<lambda>e. e\<lparr>bc_last_used := q\<rparr>) c) = map strip c"
  by (induction c) (auto simp: strip_def)

lemma mark_used:
  shows mark_strip: "map strip (ps_cache (markBlobCacheEntryUsed k s)) = map strip (ps_cache s)"
    and mark_calls [simp]: "ps_calls (markBlobCacheEntryUsed k s) = ps_calls s"
    and mark_length [simp]: "length (ps_cache (markBlobCacheEntryUsed k s)) = length (ps_cache s)"
  by (auto simp: markBlobCacheEntryUsed_def Let_def strip_upd_used comp_def) (simp_all add: strip_def)

lemma mark_coherent [simp]: "coherent m (ps_cache (markBlobCacheEntryUsed k s)) = coherent m (ps_cache s)"
  by (rule coherent_strip [OF mark_strip])

lemma pick_evict_Some: "pick_evict p xs (Some b) \<noteq> None"
  by (induction xs arbitrary: b) auto

lemma pick_evict_None: "pick_evict p es None = None \<Longrightarrow> e \<in> set es \<Longrightarrow> bc_key e = p"
  by (induction es) (auto simp: pick_evict_Some split: if_splits)

lemma coherent_del: "coherent m c \<Longrightarrow> coherent m (del_by bc_key k c)"
  by (auto simp: coherent_def distinct_del find_by_del split: if_splits)

lemma same_key_short: "distinct (map f c) \<Longrightarrow> \<forall>e \<in> set c. f e = p \<Longrightarrow> length c \<le> 1"
  by (cases c; cases "tl c") auto

lemma enforce_ok:
  "coherent m c \<Longrightarrow> coherent m (enforce_limit p c) \<and> length (enforce_limit p c) \<le> kBlobCacheMaxEntries"
proof (induction p c rule: enforce_limit.induct)
  case (1 p c)
  show ?case
  proof (cases "kBlobCacheMaxEntries < length c \<and> pick_evict p c None \<noteq> None")
    case True
    then show ?thesis
      using 1 by (subst (1 2) enforce_limit.simps) (auto simp: coherent_del)
  next
    case False
    then have "length c \<le> kBlobCacheMaxEntries"
      using pick_evict_None [of p c] same_key_short [of bc_key c p] 1(2)
      by (force simp: coherent_def kBlobCacheMaxEntries_def)
    then show ?thesis
      using 1(2) by (subst (1 2) enforce_limit.simps) simp
  qed
qed

lemma coherent_upsert:
  assumes "coherent m c" and "bc_key new = k" and "entry_ok (m(k := v)) new"
    and f: "\<And>e. bc_key e = k \<Longrightarrow> bc_key (f e) = k" "\<And>e. bc_key e = k \<Longrightarrow> entry_ok (m(k := v)) (f e)"
  shows "coherent (m(k := v)) (upsert_by bc_key k new f c)"
proof -
  have find: "find_by bc_key j (upsert_by bc_key k new f c) =
      (if j = k then Some (case find_by bc_key k c of None \<Rightarrow> new | Some e \<Rightarrow> f e)
       else find_by bc_key j c)" for j
    using f(1) assms(2) by (rule find_by_upsert)
  have "distinct (map bc_key (upsert_by bc_key k new f c))"
    using assms by (intro distinct_upsert) (auto simp: coherent_def)
  moreover have "entry_ok (m(k := v)) e" if "find_by bc_key j (upsert_by bc_key k new f c) = Some e" for j e
  proof (cases "j = k")
    case True
    then show ?thesis
      using that assms(3) f(2) find_by_key [of bc_key k c] by (auto simp: find split: option.splits)
  next
    case False
    then have "entry_ok m e" "bc_key e = j"
      using that assms(1) find_by_key [of bc_key j c e] by (auto simp: find coherent_def)
    with False show ?thesis by (simp add: entry_ok_def)
  qed
  ultimately show ?thesis by (auto simp: coherent_def)
qed

section \<open>The accesses\<close>

lemma remember_wp:
  assumes "coherent m (ps_cache s)" and "m' = m(k := v)"
  shows "wp (remember k v) (\<lambda>_ t. ps_calls t = ps_calls s \<and> coherent m' (ps_cache t)
           \<and> length (ps_cache t) \<le> kBlobCacheMaxEntries) s"
proof -
  have "coherent (m(k := v)) (upsert_by bc_key k
      \<lparr>bc_key = k, bc_known = True, bc_exists = (v \<noteq> None),
       bc_value = (case v of None \<Rightarrow> [] | Some b \<Rightarrow> b), bc_last_used = 0\<rparr>
      (\<lambda>e. e\<lparr>bc_known := True, bc_exists := (v \<noteq> None),
              bc_value := (case v of None \<Rightarrow> [] | Some b \<Rightarrow> b)\<rparr>) (ps_cache s))"
    using assms(1) by (rule coherent_upsert) (auto simp: entry_ok_def)
  then show ?thesis
    unfolding assms(2) by (simp add: remember_def wp_rules enforceBlobCacheLimit_def enforce_ok)
qed

definition store_works :: "store_env \<Rightarrow> kv \<Rightarrow> pstore \<Rightarrow> bool" where
  "store_works E m0 s \<longleftrightarrow> store_enabled E \<and> backend_ok E m0 \<and> store_ok E m0 s"

lemma stored_same_calls: "ps_calls t = ps_calls s \<Longrightarrow> stored E m0 t = stored E m0 s"
  by (simp add: stored_def)

lemma wp_remember:
  assumes "store_works E m0 s" and "stored E m0 u = (stored E m0 s)(k := v)" and "ps_cache u = ps_cache s"
    and "\<And>t. store_works E m0 t \<Longrightarrow> stored E m0 t = (stored E m0 s)(k := v) \<Longrightarrow> Q () t"
  shows "wp (remember k v) Q u"
proof -
  have "coherent (stored E m0 s) (ps_cache u)"
    using assms(1,3) by (simp add: store_works_def store_ok_def)
  then show ?thesis
  proof (rule wp_mono [OF remember_wp [OF _ refl]])
    fix a :: unit and t :: pstore
    assume t: "ps_calls t = ps_calls u \<and> coherent ((stored E m0 s)(k := v)) (ps_cache t)
      \<and> length (ps_cache t) \<le> kBlobCacheMaxEntries"
    then have "stored E m0 t = (stored E m0 s)(k := v)"
      using assms(2) stored_same_calls [of t u] by simp
    then show "Q a t"
      using t assms(1,4) by (simp add: store_works_def store_ok_def)
  qed
qed

lemma wp_ask_backend:
  assumes "store_works E m0 s"
    and "\<And>t. store_works E m0 t \<Longrightarrow> stored E m0 t = stored E m0 s \<Longrightarrow> Q (stored E m0 s k) t"
  shows "wp (ask_backend E k) Q s"
proof -
  have "be_blob E (ps_calls s) k = stored E m0 s k"
    using assms(1) by (simp add: store_works_def backend_ok_def stored_def)
  then show ?thesis
    by (simp add: ask_backend_def be_getBlob_def be_note_def wp_rules)
       (rule wp_remember [OF assms(1)], auto intro!: assms(2) simp: wp_ret)
qed

lemma works_mark: "store_works E m0 s \<Longrightarrow> store_works E m0 (markBlobCacheEntryUsed k s)"
  by (simp add: store_works_def store_ok_def stored_def)

lemma stored_mark [simp]: "stored E m0 (markBlobCacheEntryUsed k s) = stored E m0 s"
  by (simp add: stored_def)

lemma works_entry:
  assumes "store_works E m0 s" and "find_by bc_key k (ps_cache s) = Some e"
  shows "bc_known e" and "stored E m0 s k = (if bc_exists e then Some (bc_value e) else None)"
  using assms find_by_key [OF assms(2)]
  by (auto simp: store_works_def store_ok_def coherent_def entry_ok_def)

lemma get_cached_wp:
  "store_works E m0 s \<Longrightarrow>
   wp (getBlobCached E k) (\<lambda>r t. store_works E m0 t \<and> stored E m0 t = stored E m0 s \<and> r = stored E m0 s k) s"
  by (auto simp: getBlobCached_def wp_rules works_mark works_entry store_works_def [of E m0 s]
      split: option.split intro!: wp_ask_backend)

lemma store_call:
  assumes "store_works E m0 s"
  shows "stored E m0 (s\<lparr>ps_calls := ps_calls s @ [c]\<rparr>)
      = (if be_ok E (ps_calls s) c then be_effect c (stored E m0 s) else stored E m0 s)"
    and "be_effect c (stored E m0 s) = stored E m0 s \<Longrightarrow> store_works E m0 (s\<lparr>ps_calls := ps_calls s @ [c]\<rparr>)"
  using assms by (auto simp: stored_call store_works_def store_ok_def)

lemma wp_write:
  assumes "store_works E m0 s" and "d \<noteq> []"
  shows "wp (do { ok \<leftarrow> be_putBlob E k d;
                  if \<not> ok then ret False else do { _ \<leftarrow> remember k (Some d); ret True } })
     (\<lambda>r t. store_works E m0 t \<and> stored E m0 t = (if r then (stored E m0 s)(k \<mapsto> d) else stored E m0 s)) s"
proof (cases "be_ok E (ps_calls s) (PutBlob k d)")
  case True
  then show ?thesis
    by (simp add: be_putBlob_def be_note_def wp_rules)
       (rule wp_remember [OF assms(1)], auto simp: wp_ret stored_call)
next
  case False
  with assms show ?thesis
    by (simp add: be_putBlob_def be_note_def wp_rules stored_call store_works_def store_ok_def)
qed

lemma put_changed_wp:
  assumes "store_works E m0 s" and "d \<noteq> []"
  shows "wp (putBlobIfChanged E k d) (\<lambda>r t. store_works E m0 t
           \<and> stored E m0 t = (if r then (stored E m0 s)(k \<mapsto> d) else stored E m0 s)) s"
proof -
  let ?P = "\<lambda>r t. store_works E m0 t \<and> stored E m0 t = (if r then (stored E m0 s)(k \<mapsto> d) else stored E m0 s)"
  let ?w = "\<lambda>same. if same then ret True else do { ok \<leftarrow> be_putBlob E k d;
              if \<not> ok then ret False else do { _ \<leftarrow> remember k (Some d); ret True } }"
  have wr: "wp (?w same) ?P t"
    if "store_works E m0 t" "stored E m0 t = stored E m0 s" "same \<Longrightarrow> stored E m0 s k = Some d" for same t
    using wp_write [OF that(1) assms(2), of k, unfolded that(2)] that by (cases same) (auto simp: wp_ret)
  have same: "wp (case find_by bc_key k (ps_cache s) of
        None \<Rightarrow> do { r \<leftarrow> ask_backend E k; ret (r = Some d) }
      | Some e \<Rightarrow> if bc_known e \<and> bc_exists e
          then do { _ \<leftarrow> modify (markBlobCacheEntryUsed k); ret (bc_value e = d) }
          else do { r \<leftarrow> ask_backend E k; ret (r = Some d) })
      (\<lambda>b t. store_works E m0 t \<and> stored E m0 t = stored E m0 s \<and> (b \<longrightarrow> stored E m0 s k = Some d)) s"
    using assms(1) works_entry [OF assms(1), of k]
    by (auto simp: wp_bind wp_modify wp_ret works_mark split: option.split intro!: wp_ask_backend)
  have "store_enabled E" using assms(1) by (simp add: store_works_def)
  with assms(2) show ?thesis
    by (simp add: putBlobIfChanged_def wp_bind [of "gets ps_cache"] wp_gets)
       (subst wp_bind, rule wp_mono [OF same], rule wr, auto)
qed

lemma wp_erase_now:
  assumes "store_works E m0 s"
  shows "wp (erase_now E k) (\<lambda>r t. store_works E m0 t
           \<and> stored E m0 t = (if r then (stored E m0 s)(k := None) else stored E m0 s)) s"
proof (cases "be_ok E (ps_calls s) (EraseKey k)")
  case True
  then show ?thesis
    by (simp add: erase_now_def be_eraseKey_def be_note_def wp_rules)
       (rule wp_remember [OF assms], auto simp: wp_ret stored_call)
next
  case False
  with assms show ?thesis
    by (simp add: erase_now_def be_eraseKey_def be_note_def wp_rules stored_call store_works_def store_ok_def)
qed

lemma wp_probe_and_erase:
  assumes "store_works E m0 s"
  shows "wp (probe_and_erase E k) (\<lambda>r t. store_works E m0 t
           \<and> stored E m0 t = (if r then (stored E m0 s)(k := None) else stored E m0 s)) s"
proof -
  let ?s = "s\<lparr>ps_calls := ps_calls s @ [GetBlob k]\<rparr>"
  have s: "store_works E m0 ?s" using store_call(2) [OF assms, of "GetBlob k"] by simp
  have blob: "be_blob E (ps_calls s) k = stored E m0 s k"
    using assms by (simp add: store_works_def backend_ok_def stored_def)
  show ?thesis
  proof (cases "stored E m0 s k")
    case None
    then show ?thesis
      by (simp add: probe_and_erase_def be_getBlob_def be_note_def wp_rules blob)
         (rule wp_remember [OF assms], auto simp: wp_ret fun_upd_idem_iff)
  next
    case (Some v)
    then show ?thesis
      using wp_erase_now [OF s, of k, unfolded stored_get] by (simp add: probe_and_erase_def be_getBlob_def be_note_def wp_rules blob)
  qed
qed

lemma erase_blob_wp:
  assumes "store_works E m0 s"
  shows "wp (eraseBlobIfExists E k) (\<lambda>r t. store_works E m0 t
           \<and> stored E m0 t = (if r then (stored E m0 s)(k := None) else stored E m0 s)) s"
  using assms works_entry [OF assms, of k] wp_erase_now [OF assms, of k] wp_probe_and_erase [OF assms, of k]
  by (auto simp: eraseBlobIfExists_def wp_bind wp_gets wp_modify wp_ret store_works_def [of E m0 s]
      fun_upd_idem_iff works_mark split: option.split)

interpretation blobs: blob_map "getBlobCached E" "putBlobIfChanged E" "eraseBlobIfExists E"
  "stored E m0" "store_works E m0" for E m0
  by unfold_locales (auto intro: get_cached_wp put_changed_wp erase_blob_wp)

section \<open>The store as a machine\<close>

datatype store_op = StGet string | StPut string bytes | StErase string

text \<open>The answers: what a read delivers, or whether a change is reported as done.\<close>

datatype store_answer = Got "bytes option" | Did bool

fun store_step :: "store_env \<Rightarrow> store_op \<Rightarrow> store_answer pst" where
  "store_step E (StGet k) = do { r \<leftarrow> getBlobCached E k; ret (Got r) }"
| "store_step E (StPut k d) = do { r \<leftarrow> putBlobIfChanged E k d; ret (Did r) }"
| "store_step E (StErase k) = do { r \<leftarrow> eraseBlobIfExists E k; ret (Did r) }"

fun store_run :: "store_env \<Rightarrow> store_op list \<Rightarrow> store_answer list pst" where
  "store_run E [] = ret []"
| "store_run E (x # xs) = do { a \<leftarrow> store_step E x; as \<leftarrow> store_run E xs; ret (a # as) }"

text \<open>The plain map: which answers it allows, and its content after them.\<close>

fun map_step :: "store_op \<Rightarrow> store_answer \<Rightarrow> kv \<Rightarrow> kv option" where
  "map_step (StGet k) (Got r) m = (if r = m k then Some m else None)"
| "map_step (StPut k d) (Did b) m = Some (if b then m(k \<mapsto> d) else m)"
| "map_step (StErase k) (Did b) m = Some (if b then m(k := None) else m)"
| "map_step _ _ m = None"

fun map_run :: "store_op list \<Rightarrow> store_answer list \<Rightarrow> kv \<Rightarrow> kv option" where
  "map_run [] [] m = Some m"
| "map_run (x # xs) (a # as) m = (case map_step x a m of None \<Rightarrow> None | Some m' \<Rightarrow> map_run xs as m')"
| "map_run _ _ m = None"

lemma store_step_wp:
  assumes "store_works E m0 s"
  shows "wp (store_step E x) (\<lambda>a t. store_works E m0 t \<and> map_step x a (stored E m0 s) = Some (stored E m0 t)) s"
proof (cases x)
  case (StGet k)
  show ?thesis unfolding StGet
    by (simp add: wp_bind wp_ret) (rule blobs.wp_get [OF assms], simp add: wp_ret)
next
  case (StPut k d)
  show ?thesis
  proof (cases "d = []")
    case True
    then show ?thesis using assms by (simp add: StPut putBlobIfChanged_def wp_rules)
  next
    case False
    then show ?thesis unfolding StPut
      by (simp add: wp_bind wp_ret) (rule blobs.wp_put [OF assms], auto simp: wp_ret)
  qed
next
  case (StErase k)
  show ?thesis unfolding StErase
    by (simp add: wp_bind wp_ret) (rule blobs.wp_del [OF assms], auto simp: wp_ret)
qed

lemma store_run_wp:
  "store_works E m0 s \<Longrightarrow>
   wp (store_run E xs) (\<lambda>as t. store_works E m0 t \<and> map_run xs as (stored E m0 s) = Some (stored E m0 t)) s"
proof (induction xs arbitrary: s)
  case Nil
  then show ?case by (simp add: wp_ret)
next
  case (Cons x xs)
  show ?case
    unfolding store_run.simps wp_bind
    by (rule wp_mono [OF store_step_wp [OF Cons.prems]])
       (auto simp: wp_bind wp_ret intro!: wp_mono [OF Cons.IH])
qed

end
