(* ===== verification/StoreRecords.thy ===== *)
theory StoreRecords
  imports StoreCache
begin

text \<open>
  What \<open>PairingStore\<close> keeps in its blobs: pair records, the index of paired peers and the sequence
  counter are read back as written, and the index stays sorted by the order in which the peers
  were paired. Keys are 24 bits of a hash, and two peers can share one.
\<close>

section \<open>Round trips\<close>

lemma parse_pair_blob_of: "length (rec_lmk r) = 16 \<Longrightarrow> parse_pair_blob (pair_blob r) = Some (loaded_of r)"
  by (cases "rec_local_mac r"; cases "rec_peer_mac r")
     (simp add: parse_pair_blob_def pair_blob_def loaded_of_def mac_of_def nth_append)

lemma length_index_entry [simp]: "length (index_entry_bytes e) = 11"
  by (simp add: index_entry_bytes_def)

lemma length_index_entries: "length (concat (map index_entry_bytes es)) = 11 * length es"
  by (induction es) auto

lemma read_index_entry:
  "mac_of (index_entry_bytes e @ r) = pi_peer_mac e"
  "readLe32 (drop 6 (index_entry_bytes e @ r)) = pi_pair_seq e"
  "(index_entry_bytes e @ r) ! 10 = (if pi_valid e then 1 else 0)"
  "drop 11 (index_entry_bytes e @ r) = r"
  by (cases "pi_peer_mac e"; simp add: index_entry_bytes_def mac_of_def nth_append)+

lemma read_index_of: "read_index_entries (length es) (concat (map index_entry_bytes es) @ r) = es"
proof (induction es)
  case Nil
  then show ?case by simp
next
  case (Cons e es)
  then show ?case
    using read_index_entry [of e "concat (map index_entry_bytes es) @ r"]
    by (simp add: kPairIndexEntryBytes_def)
qed

lemma unat_le16_append: "n \<le> 65535 \<Longrightarrow> appendLe16 (of_nat n) = [a, b] \<Longrightarrow> unat (le16 a b) = n"
proof -
  assume n: "n \<le> 65535" and ab: "appendLe16 (of_nat n) = [a, b]"
  have "le16 a b = of_nat n"
    using ab le16_split [of "of_nat n"] by (simp add: appendLe16_eq)
  then show "unat (le16 a b) = n"
    using n by (simp add: unat_of_nat take_bit_nat_eq_self)
qed

lemma parse_index_of: "length es \<le> 65535 \<Longrightarrow> parse_index_blob (index_blob es) = Some es"
proof -
  assume n: "length es \<le> 65535"
  obtain a b where ab: "appendLe16 (of_nat (length es)) = [a, b]"
    by (simp add: appendLe16_eq)
  show ?thesis
    using n unat_le16_append [OF n ab] read_index_of [of es "[]"]
    by (simp add: parse_index_blob_def index_blob_def ab kPairIndexHeaderBytes_def kPairIndexEntryBytes_def
        length_index_entries Let_def)
qed

lemma parse_seq_of: "parse_seq_blob (kPairSeqSchemaVersion # appendLe32 n) = Some n"
  by (simp add: parse_seq_blob_def kPairSeqBlobBytes_def)

section \<open>Keys\<close>

lemma key_prefix: "key_text c h = key_text d g \<Longrightarrow> c = d"
  by (simp add: key_text_def)

lemmas key_defs = makeKey_def makeMetaKey_def makeLocalMetaKey_def pairIndexKey_def pairSeqCounterKey_def

text \<open>The families of records have keys of their own; within a family the hash decides.\<close>

lemma keys_apart [simp]:
  "makeKey E KindPair l p \<noteq> pairIndexKey E l'" "makeKey E KindPair l p \<noteq> pairSeqCounterKey E l'"
  "makeKey E KindPair l p \<noteq> makeKey E KindChannel l' q" "makeKey E KindPair l p \<noteq> makeMetaKey E l' q s"
  "pairIndexKey E l \<noteq> pairSeqCounterKey E l'" "pairIndexKey E l \<noteq> makeKey E KindPair l' p"
  "pairIndexKey E l \<noteq> makeKey E KindChannel l' p" "pairIndexKey E l \<noteq> makeMetaKey E l' p s"
  "pairSeqCounterKey E l \<noteq> pairIndexKey E l'" "pairSeqCounterKey E l \<noteq> makeKey E KindPair l' p"
  "pairSeqCounterKey E l \<noteq> makeKey E KindChannel l' p" "pairSeqCounterKey E l \<noteq> makeMetaKey E l' p s"
  "makeKey E KindChannel l p \<noteq> pairIndexKey E l'" "makeKey E KindChannel l p \<noteq> pairSeqCounterKey E l'"
  "makeKey E KindChannel l p \<noteq> makeKey E KindPair l' q" "makeMetaKey E l p s \<noteq> makeKey E KindPair l' q"
  "makeMetaKey E l p s \<noteq> pairIndexKey E l'" "makeMetaKey E l p s \<noteq> pairSeqCounterKey E l'"
  by (auto simp: key_defs dest!: key_prefix)

section \<open>What the store holds\<close>

definition index_in :: "store_env \<Rightarrow> mac \<Rightarrow> kv \<Rightarrow> PairIndexEntry list" where
  "index_in E l m = (case m (pairIndexKey E l) of None \<Rightarrow> []
     | Some b \<Rightarrow> (case parse_index_blob b of None \<Rightarrow> [] | Some es \<Rightarrow> es))"

definition counter_in :: "store_env \<Rightarrow> mac \<Rightarrow> kv \<Rightarrow> u32" where
  "counter_in E l m = next_seq (case m (pairSeqCounterKey E l) of None \<Rightarrow> None | Some b \<Rightarrow> parse_seq_blob b)"

definition pair_in :: "store_env \<Rightarrow> mac \<Rightarrow> mac \<Rightarrow> kv \<Rightarrow> LoadedPair option" where
  "pair_in E l p m = (case m (makeKey E KindPair l p) of None \<Rightarrow> None | Some b \<Rightarrow> parse_pair_blob b)"

lemma in_frame [simp]:
  "k \<noteq> pairIndexKey E l \<Longrightarrow> index_in E l (m(k := v)) = index_in E l m"
  "k \<noteq> pairSeqCounterKey E l \<Longrightarrow> counter_in E l (m(k := v)) = counter_in E l m"
  "k \<noteq> makeKey E KindPair l p \<Longrightarrow> pair_in E l p (m(k := v)) = pair_in E l p m"
  by (auto simp: index_in_def counter_in_def pair_in_def)

lemma wp_loadPair:
  "store_works E m0 s \<Longrightarrow>
   (\<And>t. store_works E m0 t \<Longrightarrow> stored E m0 t = stored E m0 s \<Longrightarrow> Q (pair_in E l p (stored E m0 s)) t)
   \<Longrightarrow> wp (loadPair E l p) Q s"
  by (auto simp: loadPair_def wp_bind wp_ret store_works_def [of E m0 s] pair_in_def intro!: blobs.wp_get [of E m0])

lemma wp_loadPairIndex:
  assumes "store_works E m0 s"
    and "\<And>r t. store_works E m0 t \<Longrightarrow> stored E m0 t = stored E m0 s \<Longrightarrow>
          (case r of None \<Rightarrow> [] | Some es \<Rightarrow> es) = index_in E l (stored E m0 s) \<Longrightarrow> Q r t"
  shows "wp (loadPairIndex E l) Q s"
  using assms by (auto simp: loadPairIndex_def wp_bind wp_ret store_works_def [of E m0 s] index_in_def
      split: option.split intro!: blobs.wp_get [of E m0])

lemma wp_savePairIndex:
  assumes "store_works E m0 s"
    and "\<And>t. store_works E m0 t \<Longrightarrow> stored E m0 t = stored E m0 s \<Longrightarrow> Q False t"
    and "\<And>t v. store_works E m0 t \<Longrightarrow> stored E m0 t = (stored E m0 s)(pairIndexKey E l := v) \<Longrightarrow>
          index_in E l (stored E m0 t) = es \<Longrightarrow> Q True t"
  shows "wp (savePairIndex E l es) Q s"
proof -
  have ne: "index_blob es \<noteq> []" by (simp add: index_blob_def)
  have en: "store_enabled E" using assms(1) by (simp add: store_works_def)
  consider "es = []" | "es \<noteq> []" "length es > 65535" | "es \<noteq> []" "length es \<le> 65535" by linarith
  then show ?thesis
  proof cases
    case 1
    with en show ?thesis
      by (simp add: savePairIndex_def) (rule blobs.wp_del [OF assms(1)], auto simp: index_in_def intro: assms(2,3))
  next
    case 2
    with en show ?thesis by (simp add: savePairIndex_def wp_ret assms(1,2))
  next
    case 3
    with en show ?thesis
      by (simp add: savePairIndex_def)
         (rule blobs.wp_put [OF assms(1) ne], auto simp: index_in_def parse_index_of intro: assms(2,3))
  qed
qed

lemma wp_upsertPairIndexEntry:
  assumes "store_works E m0 s"
    and "\<And>t. store_works E m0 t \<Longrightarrow> stored E m0 t = stored E m0 s \<Longrightarrow> Q False t"
    and "\<And>t v. store_works E m0 t \<Longrightarrow> stored E m0 t = (stored E m0 s)(pairIndexKey E l := v) \<Longrightarrow>
          index_in E l (stored E m0 t) = upsert_by pi_peer_mac p
            \<lparr>pi_peer_mac = p, pi_pair_seq = n, pi_valid = True\<rparr>
            (\<lambda>e. e\<lparr>pi_pair_seq := n, pi_valid := True\<rparr>) (index_in E l (stored E m0 s)) \<Longrightarrow> Q True t"
  shows "wp (upsertPairIndexEntry E l p n) Q s"
proof -
  have "store_enabled E" using assms(1) by (simp add: store_works_def)
  then show ?thesis
    by (simp add: upsertPairIndexEntry_def wp_bind)
       (rule wp_loadPairIndex [OF assms(1)], erule wp_savePairIndex, auto intro: assms(2,3))
qed

lemma wp_loadPairSeqCounter:
  assumes "store_works E m0 s"
    and "\<And>r t. store_works E m0 t \<Longrightarrow> stored E m0 t = stored E m0 s \<Longrightarrow>
          next_seq r = counter_in E l (stored E m0 s) \<Longrightarrow> Q r t"
  shows "wp (loadPairSeqCounter E l) Q s"
  using assms by (auto simp: loadPairSeqCounter_def wp_bind wp_ret store_works_def [of E m0 s] counter_in_def
      split: option.split intro!: blobs.wp_get [of E m0])

lemma wp_savePairSeqCounter:
  assumes "store_works E m0 s" and "n \<noteq> 0"
    and "\<And>t. store_works E m0 t \<Longrightarrow> stored E m0 t = stored E m0 s \<Longrightarrow> Q False t"
    and "\<And>t v. store_works E m0 t \<Longrightarrow> stored E m0 t = (stored E m0 s)(pairSeqCounterKey E l := v) \<Longrightarrow>
          counter_in E l (stored E m0 t) = n \<Longrightarrow> Q True t"
  shows "wp (savePairSeqCounter E l n) Q s"
proof -
  have "store_enabled E" using assms(1) by (simp add: store_works_def)
  then show ?thesis
    by (simp add: savePairSeqCounter_def)
       (rule blobs.wp_put [OF assms(1)],
        auto simp: counter_in_def parse_seq_of next_seq_def assms(2) intro: assms(3,4))
qed

section \<open>The index stays sorted\<close>

definition index_ok :: "u32 \<Rightarrow> PairIndexEntry list \<Rightarrow> bool" where
  "index_ok c es \<longleftrightarrow> sorted_wrt (<) (map pi_pair_seq es) \<and> distinct (map pi_peer_mac es)
     \<and> (\<forall>e \<in> set es. pi_valid e \<and> pi_pair_seq e \<noteq> 0 \<and> pi_pair_seq e < c)"

lemma word_less_Suc: "c \<noteq> - 1 \<Longrightarrow> x < c \<or> x = c \<Longrightarrow> x < c + (1 :: u32)"
proof -
  assume "c \<noteq> - 1" and x: "x < c \<or> x = c"
  then have "1 + c \<noteq> 0" by (metis add.commute eq_neg_iff_add_eq_0)
  then have "unat (1 + c) = Suc (unat c)" by (rule unatSuc)
  with x show "x < c + 1" by (auto simp: word_less_nat_alt add.commute)
qed

lemma index_ok_mono: "index_ok c es \<Longrightarrow> c \<noteq> - 1 \<Longrightarrow> index_ok (c + 1) es"
  by (auto simp: index_ok_def intro: word_less_Suc)

lemma index_ok_add:
  "index_ok c es \<Longrightarrow> c \<noteq> - 1 \<Longrightarrow> c \<noteq> 0 \<Longrightarrow> p \<notin> pi_peer_mac ` set es \<Longrightarrow>
   index_ok (c + 1) (es @ [\<lparr>pi_peer_mac = p, pi_pair_seq = c, pi_valid = True\<rparr>])"
  by (auto simp: index_ok_def sorted_wrt_append intro: word_less_Suc)

lemma index_ok_filter: "index_ok c es \<Longrightarrow> index_ok c (filter P es)"
  by (auto simp: index_ok_def distinct_map_filter sorted_wrt_filter sorted_wrt_map)

lemma upsert_same:
  assumes "find_by pi_peer_mac p es = Some e" and "pi_pair_seq e = n" and "pi_valid e"
  shows "upsert_by pi_peer_mac p new (\<lambda>e. e\<lparr>pi_pair_seq := n, pi_valid := True\<rparr>) es = es"
  using assms by (simp add: upsert_by_def) (induction es, auto split: if_splits)

lemma indexed_find:
  assumes "index_ok c es" and "es = (case r of None \<Rightarrow> [] | Some es \<Rightarrow> es)"
  shows "indexed_seq p r = (case find_by pi_peer_mac p es of None \<Rightarrow> 0 | Some e \<Rightarrow> pi_pair_seq e)"
proof -
  have "List.find (\<lambda>e. pi_peer_mac e = p \<and> pi_valid e \<and> pi_pair_seq e \<noteq> 0) es = find_by pi_peer_mac p es"
    using assms(1) unfolding index_ok_def find_by_def by (induction es) auto
  then show ?thesis
    using assms(2) by (auto simp: indexed_seq_def split: option.splits)
qed

text \<open>The index and the counter after a peer has been given a place in the index.\<close>

definition listed :: "store_env \<Rightarrow> mac \<Rightarrow> mac \<Rightarrow> kv \<Rightarrow> bool \<Rightarrow> kv \<Rightarrow> bool" where
  "listed E l p m b m' \<longleftrightarrow> index_ok (counter_in E l m') (index_in E l m')
     \<and> (counter_in E l m' = counter_in E l m \<or> counter_in E l m' = counter_in E l m + 1)
     \<and> (b \<longrightarrow> p \<in> pi_peer_mac ` set (index_in E l m'))
     \<and> (\<forall>k. k \<noteq> pairIndexKey E l \<longrightarrow> k \<noteq> pairSeqCounterKey E l \<longrightarrow> m' k = m k)"

lemma counter_nonzero [simp]: "counter_in E l m \<noteq> 0"
  by (simp add: counter_in_def next_seq_def split: option.split)

lemma word_Suc_nonzero: "c \<noteq> - 1 \<Longrightarrow> c + (1 :: u32) \<noteq> 0"
  by (metis add.commute eq_neg_iff_add_eq_0)

definition map_ok :: "store_env \<Rightarrow> mac \<Rightarrow> kv \<Rightarrow> bool" where
  "map_ok E l m \<longleftrightarrow> index_ok (counter_in E l m) (index_in E l m) \<and> counter_in E l m \<noteq> - 1"

lemma list_known:
  assumes "store_works E m0 t" "stored E m0 t = m" "map_ok E l m"
    and e: "find_by pi_peer_mac p (index_in E l m) = Some e"
  shows "wp (upsertPairIndexEntry E l p (pi_pair_seq e))
           (\<lambda>b u. store_works E m0 u \<and> listed E l p m b (stored E m0 u)) t"
proof -
  have "pi_valid e" "pi_peer_mac e = p" "e \<in> set (index_in E l m)"
    using assms(3) find_by_key [OF e] by (auto simp: map_ok_def index_ok_def)
  then show ?thesis
    using assms by (intro wp_upsertPairIndexEntry [OF assms(1)])
      (auto simp: assms(2) map_ok_def listed_def upsert_same)
qed

lemma list_fresh:
  assumes "store_works E m0 t" "map_ok E l m" "p \<notin> pi_peer_mac ` set (index_in E l m)"
    and t: "stored E m0 t = m(pairSeqCounterKey E l := v)"
    and n: "counter_in E l (m(pairSeqCounterKey E l := v)) = counter_in E l m + 1"
  shows "wp (upsertPairIndexEntry E l p (counter_in E l m))
           (\<lambda>b u. store_works E m0 u \<and> listed E l p m b (stored E m0 u)) t"
proof -
  let ?es = "index_in E l m" and ?c = "counter_in E l m"
  have "index_ok (?c + 1) ?es" "index_ok (?c + 1) (?es @ [\<lparr>pi_peer_mac = p, pi_pair_seq = ?c, pi_valid = True\<rparr>])"
    using assms(2,3) by (auto simp: map_ok_def intro: index_ok_mono index_ok_add)
  moreover have "find_by pi_peer_mac p ?es = None" using assms(3) by (simp add: find_by_None_iff)
  ultimately show ?thesis
    by (intro wp_upsertPairIndexEntry [OF assms(1)]) (auto simp: t n listed_def upsert_by_def)
qed

text \<open>The second half of \<open>savePair\<close>.\<close>

lemma list_peer_wp:
  assumes s: "store_works E m0 s" "stored E m0 s = m" and ok: "map_ok E l m"
  shows "wp (do { r \<leftarrow> loadPairIndex E l;
                  let assigned = indexed_seq p r;
                  if assigned \<noteq> 0 then upsertPairIndexEntry E l p assigned
                  else do {
                    c \<leftarrow> loadPairSeqCounter E l;
                    let n = next_seq c;
                    ok \<leftarrow> savePairSeqCounter E l (if n = - 1 then 1 else n + 1);
                    if \<not> ok then ret False else upsertPairIndexEntry E l p n } })
     (\<lambda>b t. store_works E m0 t \<and> listed E l p m b (stored E m0 t)) s"
  unfolding wp_bind
proof (rule wp_loadPairIndex [OF s(1)], unfold s(2))
  fix r t
  assume t: "store_works E m0 t" "stored E m0 t = m" "(case r of None \<Rightarrow> [] | Some es \<Rightarrow> es) = index_in E l m"
  have ix: "index_ok (counter_in E l m) (index_in E l m)" using ok by (simp add: map_ok_def)
  have a: "indexed_seq p r = (case find_by pi_peer_mac p (index_in E l m) of None \<Rightarrow> 0 | Some e \<Rightarrow> pi_pair_seq e)"
    using indexed_find [OF ix] t(3) by simp
  show "wp (let assigned = indexed_seq p r in
      if assigned \<noteq> 0 then upsertPairIndexEntry E l p assigned
      else do {
        c \<leftarrow> loadPairSeqCounter E l;
        let n = next_seq c;
        ok \<leftarrow> savePairSeqCounter E l (if n = - 1 then 1 else n + 1);
        if \<not> ok then ret False else upsertPairIndexEntry E l p n })
      (\<lambda>b u. store_works E m0 u \<and> listed E l p m b (stored E m0 u)) t"
  proof (cases "find_by pi_peer_mac p (index_in E l m)")
    case (Some e)
    then have "pi_pair_seq e \<noteq> 0" using ix find_by_key [OF Some] by (auto simp: index_ok_def)
    with Some a list_known [OF t(1,2) ok Some] show ?thesis by simp
  next
    case None
    with a have z: "indexed_seq p r = 0" and p: "p \<notin> pi_peer_mac ` set (index_in E l m)"
      by (auto simp: find_by_None_iff)
    have "listed E l p m False m" using ix by (simp add: listed_def)
    then show ?thesis
      unfolding z Let_def using ok p
      by (simp add: wp_bind)
         (rule wp_loadPairSeqCounter [OF t(1)], simp add: t(2) map_ok_def wp_bind,
          erule wp_savePairSeqCounter, simp add: word_Suc_nonzero, simp add: wp_ret,
          simp add: list_fresh ok)
  qed
qed

lemma savePair_wp:
  assumes s: "store_works E m0 s" and ok: "map_ok E (rec_local_mac r) (stored E m0 s)"
    and lmk: "length (rec_lmk r) = 16"
  shows "wp (savePair E r) (\<lambda>b t. store_works E m0 t
    \<and> listed E (rec_local_mac r) (rec_peer_mac r) (stored E m0 s) b
        ((stored E m0 t)(makeKey E KindPair (rec_local_mac r) (rec_peer_mac r) :=
           stored E m0 s (makeKey E KindPair (rec_local_mac r) (rec_peer_mac r))))
    \<and> (b \<longrightarrow> pair_in E (rec_local_mac r) (rec_peer_mac r) (stored E m0 t) = Some (loaded_of r))) s"
  (is "wp _ ?Q s")
proof -
  let ?l = "rec_local_mac r" and ?p = "rec_peer_mac r" and ?m = "stored E m0 s"
  let ?k = "makeKey E KindPair ?l ?p"
  have en: "store_enabled E" using s by (simp add: store_works_def)
  have stay: "listed E ?l ?p ?m False ?m" using ok by (simp add: map_ok_def listed_def)
  have ne: "pair_blob r \<noteq> []" by (simp add: pair_blob_def)
  have part: "wp (do { q \<leftarrow> loadPairIndex E ?l;
      let assigned = indexed_seq ?p q;
      if assigned \<noteq> 0 then upsertPairIndexEntry E ?l ?p assigned
      else do {
        c \<leftarrow> loadPairSeqCounter E ?l;
        let n = next_seq c;
        ok \<leftarrow> savePairSeqCounter E ?l (if n = - 1 then 1 else n + 1);
        if \<not> ok then ret False else upsertPairIndexEntry E ?l ?p n } }) ?Q t"
    if t: "store_works E m0 t" "stored E m0 t = ?m(?k \<mapsto> pair_blob r)" for t
  proof (rule wp_mono [OF list_peer_wp [OF t]])
    show "map_ok E ?l (?m(?k \<mapsto> pair_blob r))" using ok by (simp add: map_ok_def)
    fix b u
    assume "store_works E m0 u \<and> listed E ?l ?p (?m(?k \<mapsto> pair_blob r)) b (stored E m0 u)"
    then show "?Q b u"
      by (auto simp: listed_def pair_in_def parse_pair_blob_of [OF lmk])
  qed
  show ?thesis
    by (simp only: savePair_def Let_def en not_True_eq_False if_False, rule wp_bind [THEN iffD2], rule blobs.wp_put [OF s ne])
       (simp only: not_True_eq_False if_False, erule (1) part [unfolded Let_def], simp add: wp_ret stay)
qed

section \<open>A backend that accepts every write\<close>

definition accepts :: "store_env \<Rightarrow> bool" where
  "accepts E \<longleftrightarrow> (\<forall>tr c. be_ok E tr c)"

lemmas access_defs = putBlobIfChanged_def eraseBlobIfExists_def probe_and_erase_def erase_now_def
  ask_backend_def be_getBlob_def be_putBlob_def be_eraseKey_def be_note_def remember_def

lemma put_accepted: "accepts E \<Longrightarrow> store_enabled E \<Longrightarrow> d \<noteq> [] \<Longrightarrow> wp (putBlobIfChanged E k d) (\<lambda>r _. r) s"
  by (auto simp: access_defs accepts_def wp_bind wp_gets wp_ret wp_modify split: option.split)

lemma erase_accepted: "accepts E \<Longrightarrow> store_enabled E \<Longrightarrow> wp (eraseBlobIfExists E k) (\<lambda>r _. r) s"
  by (auto simp: access_defs accepts_def wp_bind wp_gets wp_ret wp_modify split: option.split)

lemma wp_put_accepted:
  assumes "accepts E" "store_works E m0 s" "d \<noteq> []"
    and "\<And>t. store_works E m0 t \<Longrightarrow> stored E m0 t = (stored E m0 s)(k \<mapsto> d) \<Longrightarrow> Q True t"
  shows "wp (putBlobIfChanged E k d) Q s"
proof -
  have "store_enabled E" using assms(2) by (simp add: store_works_def)
  then show ?thesis
    using wp_mono [OF wp_conj [OF blobs.put_wp [OF assms(2,3)] put_accepted [OF assms(1) _ assms(3)]]] assms(4)
    by fastforce
qed

lemma savePairIndex_accepted:
  assumes "accepts E" "store_enabled E" "length es \<le> 65535"
  shows "wp (savePairIndex E l es) (\<lambda>r _. r) s"
proof -
  have "index_blob es \<noteq> []" by (simp add: index_blob_def)
  with assms show ?thesis by (simp add: savePairIndex_def erase_accepted put_accepted)
qed

lemma upsert_accepted:
  assumes "accepts E" "store_works E m0 s" "length (index_in E l (stored E m0 s)) < 65535"
  shows "wp (upsertPairIndexEntry E l p n) (\<lambda>r _. r) s"
proof -
  have en: "store_enabled E" using assms(2) by (simp add: store_works_def)
  show ?thesis
    using assms(3) en
    by (simp add: upsertPairIndexEntry_def wp_bind)
       (rule wp_loadPairIndex [OF assms(2)], simp add: savePairIndex_accepted assms(1) length_upsert)
qed

lemma wp_seq_accepted:
  assumes "accepts E" "store_works E m0 s"
    and "\<And>t. store_works E m0 t \<Longrightarrow> index_in E l (stored E m0 t) = index_in E l (stored E m0 s) \<Longrightarrow> Q True t"
  shows "wp (savePairSeqCounter E l n) Q s"
proof -
  have "store_enabled E" using assms(2) by (simp add: store_works_def)
  then show ?thesis
    by (simp add: savePairSeqCounter_def) (rule wp_put_accepted [OF assms(1,2)], auto intro: assms(3))
qed

lemma savePair_accepted:
  assumes "accepts E" "store_works E m0 s" "length (index_in E (rec_local_mac r) (stored E m0 s)) < 65535"
  shows "wp (savePair E r) (\<lambda>b _. b) s"
proof -
  let ?l = "rec_local_mac r" and ?k = "makeKey E KindPair (rec_local_mac r) (rec_peer_mac r)"
  have en: "store_enabled E" using assms(2) by (simp add: store_works_def)
  have ups: "wp (upsertPairIndexEntry E ?l p n) (\<lambda>r _. r) t"
    if "store_works E m0 t" "index_in E ?l (stored E m0 t) = index_in E ?l (stored E m0 s)" for p n t
    using upsert_accepted [OF assms(1) that(1)] that(2) assms(3) by simp
  have seq: "wp (do { c \<leftarrow> loadPairSeqCounter E ?l;
        ok \<leftarrow> savePairSeqCounter E ?l (if next_seq c = - 1 then 1 else next_seq c + 1);
        if \<not> ok then ret False else upsertPairIndexEntry E ?l p (next_seq c) }) (\<lambda>r _. r) t"
    if "store_works E m0 t" "index_in E ?l (stored E m0 t) = index_in E ?l (stored E m0 s)" for p t
    using that en
    by (simp only: wp_bind, intro wp_loadPairSeqCounter [OF that(1)])
       (simp only: wp_bind, erule wp_seq_accepted [OF assms(1)], simp add: ups)
  show ?thesis
    by (simp only: savePair_def Let_def en not_True_eq_False if_False, rule wp_bind [THEN iffD2],
        rule wp_put_accepted [OF assms(1,2)], simp add: pair_blob_def)
       (simp add: wp_bind [of "loadPairIndex E ?l"], erule wp_loadPairIndex, simp add: ups seq)
qed

section \<open>The store in use\<close>

text \<open>One device, with the address \<open>l\<close>, keeping and dropping records.\<close>

datatype pair_op =
    OpSavePair PairRecord | OpErasePair mac | OpLoadPair mac
  | OpSaveChannel mac u8 | OpEraseChannel mac | OpLoadChannel mac
  | OpSaveMeta mac u8 bytes | OpEraseMeta mac u8 | OpLoadMeta mac u8

fun pair_step :: "store_env \<Rightarrow> mac \<Rightarrow> pair_op \<Rightarrow> unit pst" where
  "pair_step E l (OpSavePair r) = do { _ \<leftarrow> savePair E (r\<lparr>rec_local_mac := l\<rparr>); ret () }"
| "pair_step E l (OpErasePair p) = do { _ \<leftarrow> erasePair E l p; ret () }"
| "pair_step E l (OpLoadPair p) = do { _ \<leftarrow> loadPair E l p; ret () }"
| "pair_step E l (OpSaveChannel p c) = do { _ \<leftarrow> saveChannel E l p c; ret () }"
| "pair_step E l (OpEraseChannel p) = do { _ \<leftarrow> eraseChannel E l p; ret () }"
| "pair_step E l (OpLoadChannel p) = do { _ \<leftarrow> loadChannel E l p; ret () }"
| "pair_step E l (OpSaveMeta p n d) = do { _ \<leftarrow> saveMetaBlob E l p n d; ret () }"
| "pair_step E l (OpEraseMeta p n) = do { _ \<leftarrow> eraseMetaBlob E l p n; ret () }"
| "pair_step E l (OpLoadMeta p n) = do { _ \<leftarrow> loadMetaBlob E l p n; ret () }"

text \<open>Link keys have 16 bytes.\<close>

fun op_fits :: "pair_op \<Rightarrow> bool" where
  "op_fits (OpSavePair r) = (length (rec_lmk r) = 16)"
| "op_fits _ = True"

definition pair_run :: "store_env \<Rightarrow> mac \<Rightarrow> pair_op list \<Rightarrow> unit pst" where
  "pair_run E l xs = forM xs (pair_step E l)"

text \<open>What every operation keeps, and by how much the counter may grow.\<close>

definition grown :: "store_env \<Rightarrow> kv \<Rightarrow> mac \<Rightarrow> kv \<Rightarrow> pstore \<Rightarrow> bool" where
  "grown E m0 l m t \<longleftrightarrow> store_works E m0 t
     \<and> index_ok (counter_in E l (stored E m0 t)) (index_in E l (stored E m0 t))
     \<and> (counter_in E l (stored E m0 t) = counter_in E l m \<or> counter_in E l (stored E m0 t) = counter_in E l m + 1)"

lemma grown_same:
  "store_works E m0 t \<Longrightarrow> map_ok E l m \<Longrightarrow> index_in E l (stored E m0 t) = index_in E l m \<Longrightarrow>
   counter_in E l (stored E m0 t) = counter_in E l m \<Longrightarrow> grown E m0 l m t"
  by (simp add: grown_def map_ok_def)

lemma erasePair_wp:
  assumes s: "store_works E m0 s" and ok: "map_ok E l (stored E m0 s)"
  shows "wp (erasePair E l p) (\<lambda>_. grown E m0 l (stored E m0 s)) s"
proof -
  let ?m = "stored E m0 s"
  have en: "store_enabled E" using s by (simp add: store_works_def)
  have rm: "wp (removePairIndexEntry E l p) (\<lambda>_. grown E m0 l ?m) t"
    if t: "store_works E m0 t" "index_in E l (stored E m0 t) = index_in E l ?m"
      "counter_in E l (stored E m0 t) = counter_in E l ?m" for t
    using ok en t
    by (simp add: removePairIndexEntry_def wp_bind)
       (rule wp_loadPairIndex [OF t(1)], auto simp: wp_ret grown_def map_ok_def index_ok_filter
         split: option.split intro!: wp_savePairIndex)
  show ?thesis
    by (simp add: erasePair_def en wp_bind, rule blobs.wp_del [OF s])
       (simp_all add: wp_bind, (rule wp_mono [OF rm], simp_all add: wp_ret)+)
qed

lemma wp_ignore: "wp (State_Monad.bind m (\<lambda>_. ret ())) (\<lambda>_. P) s \<longleftrightarrow> wp m (\<lambda>_. P) s"
  by (simp add: wp_def split: prod.split)

lemma pair_step_wp:
  assumes s: "store_works E m0 s" and ok: "map_ok E l (stored E m0 s)" and fits: "op_fits x"
  shows "wp (pair_step E l x) (\<lambda>_. grown E m0 l (stored E m0 s)) s"
proof -
  have en: "store_enabled E" using s by (simp add: store_works_def)
  note same = grown_same [OF _ ok]
  show ?thesis
  proof (cases x)
    case (OpSavePair r)
    have "wp (savePair E (r\<lparr>rec_local_mac := l\<rparr>)) (\<lambda>_. grown E m0 l (stored E m0 s)) s"
      using savePair_wp [OF s, of "r\<lparr>rec_local_mac := l\<rparr>"] ok fits OpSavePair
      by (auto elim!: wp_mono simp: listed_def grown_def)
    then show ?thesis by (simp add: OpSavePair wp_ignore)
  next
    case (OpErasePair p)
    then show ?thesis using erasePair_wp [OF s ok, of p] by (simp add: wp_ignore)
  next
    case (OpLoadPair p)
    then show ?thesis by (auto simp: wp_bind wp_ret intro!: wp_loadPair [OF s] same)
  next
    case (OpSaveChannel p c)
    then show ?thesis
      by (auto simp: saveChannel_def en wp_bind wp_ret intro!: blobs.wp_put [OF s] same)
  next
    case (OpEraseChannel p)
    then show ?thesis
      by (auto simp: eraseChannel_def en wp_bind wp_ret intro!: blobs.wp_del [OF s] same)
  next
    case (OpLoadChannel p)
    then show ?thesis
      by (auto simp: loadChannel_def en wp_bind wp_ret intro!: blobs.wp_get [OF s] same)
  next
    case (OpSaveMeta p n d)
    then show ?thesis
      by (auto simp: saveMetaBlob_def en wp_bind wp_ret intro!: blobs.wp_put [OF s] same s)
  next
    case (OpEraseMeta p n)
    then show ?thesis
      by (auto simp: eraseMetaBlob_def en wp_bind wp_ret intro!: blobs.wp_del [OF s] same)
  next
    case (OpLoadMeta p n)
    then show ?thesis
      by (auto simp: loadMetaBlob_def en wp_bind wp_ret intro!: blobs.wp_get [OF s] same)
  qed
qed

lemma pair_run_wp:
  "store_works E m0 s \<Longrightarrow> index_ok (counter_in E l (stored E m0 s)) (index_in E l (stored E m0 s)) \<Longrightarrow>
   \<forall>x \<in> set xs. op_fits x \<Longrightarrow> unat (counter_in E l (stored E m0 s)) + length xs < 2 ^ 32 \<Longrightarrow>
   wp (pair_run E l xs) (\<lambda>_ t. store_works E m0 t
     \<and> index_ok (counter_in E l (stored E m0 t)) (index_in E l (stored E m0 t))) s"
proof (induction xs arbitrary: s)
  case Nil
  then show ?case by (simp add: pair_run_def wp_ret)
next
  case (Cons x xs)
  let ?c = "counter_in E l (stored E m0 s)"
  have "?c \<noteq> - 1" using Cons.prems(4) by (intro notI) (simp add: unsigned_minus_1_eq_mask mask_eq_exp_minus_1)
  then have ok: "map_ok E l (stored E m0 s)" using Cons.prems(2) by (simp add: map_ok_def)
  have step: "wp (pair_step E l x) (\<lambda>_. grown E m0 l (stored E m0 s)) s"
    using pair_step_wp [OF Cons.prems(1) ok] Cons.prems(3) by simp
  have "unat (?c + 1) = Suc (unat ?c)"
    using word_Suc_nonzero [OF \<open>?c \<noteq> - 1\<close>] unatSuc [of ?c] by (simp add: add.commute)
  with Cons.prems Cons.IH show ?case
    unfolding pair_run_def forM.simps wp_bind
    by (intro wp_mono [OF step]) (auto simp: grown_def)
qed

end
