(* ===== verification/StoreProps.thy ===== *)
theory StoreProps
  imports StoreRecords
begin

text \<open>
  The properties of the persistence helper: it behaves as a plain map, saved pairs are read back,
  the index keeps the order of pairing; and the flaw of its keys.
\<close>

section \<open>A backend for the witnesses\<close>

definition good_backend :: store_env where
  "good_backend = \<lparr>se_enabled = True, se_backend = True, se_schema_version = 1, be_ok = (\<lambda>_ _. True),
     be_blob = (\<lambda>tr k. fold be_effect tr (\<lambda>_. None) k)\<rparr>"

lemma good_ok [simp]: "be_ok good_backend tr c"
  by (simp add: good_backend_def)

lemma good_replay: "be_replay good_backend b cs m = fold be_effect cs m"
  by (induction cs arbitrary: b m) simp_all

lemma good_accepts: "accepts good_backend"
  by (simp add: accepts_def)

lemma stored_new [simp]: "stored E m0 new_pstore = m0"
  by (simp add: stored_def new_pstore_def)

lemma fresh_index: "index_in E l (\<lambda>_. None) = []" "counter_in E l (\<lambda>_. None) = 1"
  by (simp_all add: index_in_def counter_in_def next_seq_def)

lemma fresh_map_ok: "map_ok E l (\<lambda>_. None)"
  by (simp add: map_ok_def fresh_index index_ok_def)

lemma new_works: "store_enabled E \<Longrightarrow> backend_ok E m0 \<Longrightarrow> store_works E m0 new_pstore"
  by (simp add: store_works_def store_ok_def coherent_def new_pstore_def kBlobCacheMaxEntries_def)

lemma good_enabled: "store_enabled good_backend"
  by (simp add: store_enabled_def good_backend_def)

lemma good_backend_ok: "backend_ok good_backend (\<lambda>_. None)"
  by (simp only: backend_ok_def good_replay) (simp add: good_backend_def)

lemmas good_backend_works = new_works [OF good_enabled good_backend_ok]

section \<open>Properties\<close>

text \<open>
  C7. The cached store refines a plain map. Over a backend that delivers what it stored (and may
  refuse any write), every sequence of reads, writes and erasures answers as that map does,
  whatever has been cached, found absent or evicted; a refused change leaves the map as it was;
  and the cache never holds more than 256 blobs.
\<close>

theorem pairing_store_refines_map:
  assumes "store_enabled E" and "backend_ok E m0"
    and "run_state (store_run E xs) new_pstore = (as, t)"
  shows "map_run xs as m0 = Some (stored E m0 t) \<and> length (ps_cache t) \<le> 256"
proof -
  have "store_works E m0 t \<and> map_run xs as (stored E m0 new_pstore) = Some (stored E m0 t)"
    by (rule wp_run [OF store_run_wp [OF new_works [OF assms(1,2)]] assms(3)])
  then show ?thesis
    by (simp add: store_works_def store_ok_def kBlobCacheMaxEntries_def)
qed

lemma pairing_store_refines_map_witness:
  "\<exists>as t. run_state (store_run good_backend [StPut ''k'' [1], StErase ''k'', StGet ''k'']) new_pstore = (as, t)
     \<and> map_run [StPut ''k'' [1], StErase ''k'', StGet ''k''] as (\<lambda>_. None)
         = Some (stored good_backend (\<lambda>_. None) t)"
proof -
  let ?xs = "[StPut ''k'' [1], StErase ''k'', StGet ''k'']"
  obtain as t where r: "run_state (store_run good_backend ?xs) new_pstore = (as, t)" by fastforce
  from pairing_store_refines_map [OF good_enabled good_backend_ok r] r show ?thesis by blast
qed

text \<open>
  C18. A pair record is read back as it was saved, and the peer is listed in the index for the next
  start; other peers are read as before unless they share the key. Saving succeeds whenever the
  backend accepts the writes and the index has room.
\<close>

theorem saved_pair_loaded:
  assumes works: "store_works E m0 s" and ok: "map_ok E (rec_local_mac r) (stored E m0 s)"
    and lmk: "length (rec_lmk r) = 16" and save: "run_state (savePair E r) s = (b, t)"
    and load: "run_state (loadPair E (rec_local_mac r) q) t = (x, u)"
  shows "(accepts E \<and> length (index_in E (rec_local_mac r) (stored E m0 s)) < 65535 \<longrightarrow> b)
    \<and> (b \<longrightarrow> rec_peer_mac r \<in> pi_peer_mac ` set (index_in E (rec_local_mac r) (stored E m0 t)))
    \<and> (b \<and> q = rec_peer_mac r \<longrightarrow> x = Some (loaded_of r))
    \<and> (makeKey E KindPair (rec_local_mac r) q \<noteq> makeKey E KindPair (rec_local_mac r) (rec_peer_mac r)
         \<longrightarrow> x = pair_in E (rec_local_mac r) q (stored E m0 s))"
proof -
  let ?l = "rec_local_mac r" and ?p = "rec_peer_mac r"
  note saved = wp_run [OF savePair_wp [OF works ok lmk] save]
  then have t: "store_works E m0 t" by blast
  have x: "x = pair_in E ?l q (stored E m0 t)"
    by (rule wp_run [OF wp_loadPair [OF t] load]) simp
  have "accepts E \<and> length (index_in E ?l (stored E m0 s)) < 65535 \<longrightarrow> b"
    using wp_run [OF savePair_accepted [OF _ works] save] by blast
  moreover have "makeKey E KindPair ?l q \<noteq> makeKey E KindPair ?l ?p \<longrightarrow> x = pair_in E ?l q (stored E m0 s)"
  proof
    assume q: "makeKey E KindPair ?l q \<noteq> makeKey E KindPair ?l ?p"
    then have "stored E m0 t (makeKey E KindPair ?l q) = stored E m0 s (makeKey E KindPair ?l q)"
      using saved unfolding listed_def by (metis fun_upd_other keys_apart(1,2))
    then show "x = pair_in E ?l q (stored E m0 s)" by (simp add: x pair_in_def)
  qed
  ultimately show ?thesis
    using saved by (auto simp: x listed_def)
qed

definition sample_pair :: PairRecord where
  "sample_pair = \<lparr>rec_valid = True, rec_local_role = Master, rec_local_mac = Mac 0x24 0x6F 0x28 0 0 1,
     rec_peer_mac = Mac 0x24 0x6F 0x28 0x06 0x06 0xCD, rec_lmk = replicate 16 7, rec_channel = 6\<rparr>"

lemma saved_pair_loaded_witness:
  "\<exists>t u. run_state (savePair good_backend sample_pair) new_pstore = (True, t)
     \<and> run_state (loadPair good_backend (rec_local_mac sample_pair) (rec_peer_mac sample_pair)) t
         = (Some (loaded_of sample_pair), u)"
proof -
  obtain b t where s: "run_state (savePair good_backend sample_pair) new_pstore = (b, t)" by fastforce
  obtain x u where l: "run_state (loadPair good_backend (rec_local_mac sample_pair) (rec_peer_mac sample_pair)) t
      = (x, u)" by fastforce
  have "b \<and> x = Some (loaded_of sample_pair)"
    using saved_pair_loaded [OF good_backend_works _ _ s l] good_accepts
    by (simp add: fresh_map_ok fresh_index sample_pair_def)
  with s l show ?thesis by auto
qed

text \<open>
  On a device that starts with an empty store, after any operations (saves, erasures, metadata,
  with writes refused at any point) the index of paired peers lists each peer once, with valid
  entries whose sequence numbers are strictly increasing: the order of the index is the order in
  which its peers were first paired. The bound on the operations excludes a counter that wraps.
\<close>

lemma pair_index_ordered:
  assumes "store_enabled E" and "backend_ok E (\<lambda>_. None)"
    and "\<forall>x \<in> set xs. op_fits x" and "length xs < 2 ^ 32 - 1"
    and run: "run_state (pair_run E l xs) new_pstore = ((), t)"
    and es: "es = index_in E l (stored E (\<lambda>_. None) t)"
  shows "sorted_wrt (<) (map pi_pair_seq es) \<and> distinct (map pi_peer_mac es)
    \<and> (\<forall>e \<in> set es. pi_valid e \<and> pi_pair_seq e \<noteq> 0)"
proof -
  have "index_ok (counter_in E l (stored E (\<lambda>_. None) t)) es"
    using wp_run [OF pair_run_wp [OF new_works [OF assms(1,2)]] run] assms(3,4) es
    by (simp add: fresh_index index_ok_def [of 1])
  then show ?thesis by (simp add: index_ok_def)
qed

text \<open>
  Keys carry 24 bits of a hash and a loaded record is not compared with the peer asked for. Two
  peers with the same bits, here two addresses of one vendor, share one record: after pairing with
  the first, the store reports the first one's record, with its address and key, as the valid
  record of the second, which never paired.
\<close>

lemma pair_keys_collide:
  assumes "store_works E m0 s" and "map_ok E (rec_local_mac r) (stored E m0 s)"
    and "length (rec_lmk r) = 16" and "se_schema_version E = 1"
    and "rec_local_mac r = Mac 0x24 0x6F 0x28 0 0 1"
    and "rec_peer_mac r = Mac 0x24 0x6F 0x28 0x06 0x06 0xCD"
    and "run_state (savePair E r) s = (True, t)"
    and "run_state (loadPair E (rec_local_mac r) (Mac 0x24 0x6F 0x28 0x61 0x80 0x00)) t = (x, u)"
  shows "x = Some (loaded_of r)"
proof -
  let ?q = "Mac 0x24 0x6F 0x28 0x61 0x80 0x00"
  have key: "makeKey E KindPair (rec_local_mac r) ?q = makeKey E KindPair (rec_local_mac r) (rec_peer_mac r)"
    by (simp add: assms(4-6) makeKey_def key_text_def hashKeyMaterial_def hashMac_def hashByte_def
        kFnvOffset_def kFnvPrime_def)
  note saved = wp_run [OF savePair_wp [OF assms(1-3)] assms(7)]
  then have t: "store_works E m0 t" by blast
  have "x = pair_in E (rec_local_mac r) ?q (stored E m0 t)"
    by (rule wp_run [OF wp_loadPair [OF t] assms(8)]) simp
  then show ?thesis
    using saved by (simp add: pair_in_def key)
qed

end
