(* ===== verification/Manager.thy ===== *)
theory Manager
  imports RxPath StoreCache
begin

text \<open>
  The part of \<open>EspNowManager\<close> that its components share (\<open>manager_core.cpp\<close>, \<open>manager_tx.cpp\<close>): the
  members they use, the calls on transport, peer window, event sink, hooks, clock and logger as
  actions of a trace, the runtime log, metadata blobs, the typed send and the blink codes. The
  pairing engine, the pairing store and the peer registry are the models of their own theories,
  held as members. A component extends the record by its own members.
\<close>

section \<open>Members and environment\<close>

record Event =
  ev_type :: EventType
  ev_peer :: mac
  ev_correlation_id :: u32
  ev_message :: string
  ev_rssi :: u16
  ev_node_name :: string
  ev_event_id :: u16
  ev_severity :: u8
  ev_value :: u32
  ev_ts_s :: u32
  ev_src_role :: u8
  ev_src_vid :: u8
  ev_dst_role :: u8
  ev_dst_vid :: u8
  ev_direction :: u8
  ev_reason :: u8
  ev_result :: u8
  ev_delay_ms :: u16
  ev_hold_ms :: u16
  ev_ack_seq :: u16

definition new_event :: "EventType \<Rightarrow> Event" where
  "new_event t = \<lparr>ev_type = t, ev_peer = zeroMac, ev_correlation_id = 0, ev_message = [],
     ev_rssi = 0, ev_node_name = [], ev_event_id = 0, ev_severity = 0, ev_value = 0, ev_ts_s = 0, ev_src_role = 0,
     ev_src_vid = 0xFF, ev_dst_role = 0, ev_dst_vid = 0xFF, ev_direction = 0, ev_reason = 0,
     ev_result = 0, ev_delay_ms = 0, ev_hold_ms = 0, ev_ack_seq = 0\<rparr>"

record TopologyTriggerNotification =
  tn_source :: mac
  tn_seq :: u16
  tn_src_role :: u8
  tn_src_vid :: u8
  tn_dst_role :: u8
  tn_dst_vid :: u8
  tn_direction :: u8
  tn_delay_ms :: u16
  tn_hold_ms :: u16

datatype mcall =
    TransportSend mac bytes
  | HookTxFrame mac MessageType u32 nat bool
  | HookRgbBlink u8 u8 u8 u16
  | HookTopologyTrigger TopologyTriggerNotification
  | WindowAttach mac bool bytes
  | WindowEvict mac
  | SinkEvent Event
  | LogRecord LibraryLogRecord
  | ClockEpoch

text \<open>
  The configuration, which pointers are set, and what the objects behind them answer, given the
  calls so far. \<open>pairing_store\<close> is the configuration and backend of the store, if there is one.
\<close>

record menv =
  m_cfg :: ManagerConfig
  pairing_store :: "store_env option"
  m_events :: bool
  m_hooks :: bool
  m_window :: bool
  m_clock :: bool
  m_logger :: bool
  m_answer :: "mcall list \<Rightarrow> mcall \<Rightarrow> bool"
  m_epoch :: "mcall list \<Rightarrow> u64 option"
  m_hmac :: "bytes \<Rightarrow> bytes \<Rightarrow> bytes option"

record mgr =
  g_local_mac :: mac
  g_local_profile_id :: u16
  g_pairing :: engine
  g_store :: pstore
  g_registry :: registry
  g_now_ms :: u32
  g_has_time_sync_tx :: bool
  g_last_time_sync_tx_ms :: u32
  g_calls :: "mcall list"

type_synonym ('r, 'a) mgrm = "('r mgr_scheme, 'a) state"

definition m_call :: "mcall \<Rightarrow> ('r, mcall list) mgrm" where
  "m_call c = do { tr \<leftarrow> gets g_calls; _ \<leftarrow> modify (\<lambda>s. s\<lparr>g_calls := tr @ [c]\<rparr>); ret tr }"

definition m_do :: "mcall \<Rightarrow> ('r, unit) mgrm" where
  "m_do c = do { _ \<leftarrow> m_call c; ret () }"

definition m_ask :: "menv \<Rightarrow> mcall \<Rightarrow> ('r, bool) mgrm" where
  "m_ask E c = do { tr \<leftarrow> m_call c; ret (m_answer E tr c) }"

definition m_nowEpochSec :: "menv \<Rightarrow> ('r, u64 option) mgrm" where
  "m_nowEpochSec E = do { tr \<leftarrow> m_call ClockEpoch; ret (m_epoch E tr) }"

text \<open>A program of the pairing store run on the store member.\<close>

definition in_store :: "'a pst \<Rightarrow> ('r, 'a) mgrm" where
  "in_store m = State (\<lambda>s. case run_state m (g_store s) of (a, t) \<Rightarrow> (a, s\<lparr>g_store := t\<rparr>))"

lemma wp_in_store: "wp m (\<lambda>a t. Q a (s\<lparr>g_store := t\<rparr>)) (g_store s) \<Longrightarrow> wp (in_store m) Q s"
  by (auto simp: wp_def in_store_def split: prod.splits)

definition m_event :: "menv \<Rightarrow> Event \<Rightarrow> ('r, unit) mgrm" where
  "m_event E e = whenM (m_events E) (m_do (SinkEvent e))"

definition storeReady :: "menv \<Rightarrow> bool" where
  "storeReady E \<longleftrightarrow> (case pairing_store E of None \<Rightarrow> False | Some S \<Rightarrow> store_enabled S)"

section \<open>The runtime log\<close>

definition kLogSourceManager :: u16 where "kLogSourceManager = 0x0101"
definition kLogEvtRestoreOk :: u16 where "kLogEvtRestoreOk = 0x0003"
definition kLogEvtRestoreFail :: u16 where "kLogEvtRestoreFail = 0x0004"
definition kLogEvtTxEncodeFail :: u16 where "kLogEvtTxEncodeFail = 0x0007"
definition kLogEvtTxSendFail :: u16 where "kLogEvtTxSendFail = 0x0008"
definition kLogEvtRestoreTrimDrop :: u16 where "kLogEvtRestoreTrimDrop = 0x000B"
definition kLogEvtRestoreTrimSummary :: u16 where "kLogEvtRestoreTrimSummary = 0x000C"
definition kLogEvtTopologyLmkRestore :: u16 where "kLogEvtTopologyLmkRestore = 0x000D"
definition kLogEvtTopologyPeerReady :: u16 where "kLogEvtTopologyPeerReady = 0x000E"
definition kLogEvtTopologyLmkNvsLifecycle :: u16 where "kLogEvtTopologyLmkNvsLifecycle = 0x000F"

definition logExternalEvent ::
  "menv \<Rightarrow> LibraryLogLevel \<Rightarrow> u16 \<Rightarrow> u16 \<Rightarrow> u32 \<Rightarrow> u32 \<Rightarrow> u32 \<Rightarrow> bytes \<Rightarrow> ('r, bool) mgrm" where
  "logExternalEvent E level source_id event_id p0 p1 p2 ext =
     (if \<not> m_logger E then ret False
      else do {
        epoch \<leftarrow> (if m_clock E then m_nowEpochSec E else ret None);
        now \<leftarrow> gets g_now_ms;
        m_ask E (LogRecord \<lparr>lr_level = level, lr_source_id = source_id, lr_event_id = event_id,
          lr_epoch_s = (case epoch of None \<Rightarrow> 0 | Some e \<Rightarrow> ucast (e AND 0xFFFFFFFF)),
          lr_uptime_ms = now, lr_p0 = p0, lr_p1 = p1, lr_p2 = p2, lr_ext = ext\<rparr>) })"

definition emitRuntimeLog ::
  "menv \<Rightarrow> LibraryLogLevel \<Rightarrow> u16 \<Rightarrow> u32 \<Rightarrow> u32 \<Rightarrow> u32 \<Rightarrow> bytes \<Rightarrow> ('r, unit) mgrm" where
  "emitRuntimeLog E level event_id corr_id p1 p2 ext = do {
     _ \<leftarrow> logExternalEvent E level kLogSourceManager event_id corr_id p1 p2 (take 64 ext);
     ret () }"

definition emitTopologyRuntimeLog ::
  "menv \<Rightarrow> LibraryLogLevel \<Rightarrow> u16 \<Rightarrow> u32 \<Rightarrow> u32 \<Rightarrow> string \<Rightarrow> ('r, unit) mgrm" where
  "emitTopologyRuntimeLog E level event_id p1 p2 reason =
     emitRuntimeLog E level event_id 0 p1 p2 (map char_byte reason)"

section \<open>Metadata of the node itself\<close>

definition saveLocalMetaBlob :: "menv \<Rightarrow> u8 \<Rightarrow> bytes \<Rightarrow> ('r, bool) mgrm" where
  "saveLocalMetaBlob E slot data =
     (case pairing_store E of
        None \<Rightarrow> ret False
      | Some S \<Rightarrow>
          if \<not> store_enabled S \<or> data = [] then ret False
          else do { m \<leftarrow> gets g_local_mac; in_store (saveMetaBlob S m zeroMac slot data) })"

definition loadLocalMetaBlob :: "menv \<Rightarrow> u8 \<Rightarrow> ('r, bytes option) mgrm" where
  "loadLocalMetaBlob E slot =
     (case pairing_store E of
        None \<Rightarrow> ret None
      | Some S \<Rightarrow>
          if \<not> store_enabled S then ret None
          else do { m \<leftarrow> gets g_local_mac; in_store (loadMetaBlob S m zeroMac slot) })"

definition eraseLocalMetaBlob :: "menv \<Rightarrow> u8 \<Rightarrow> ('r, bool) mgrm" where
  "eraseLocalMetaBlob E slot =
     (case pairing_store E of
        None \<Rightarrow> ret False
      | Some S \<Rightarrow>
          if \<not> store_enabled S then ret False
          else do { m \<leftarrow> gets g_local_mac; in_store (eraseMetaBlob S m zeroMac slot) })"

section \<open>Sending\<close>

definition isOtaWireMessage :: "MessageType \<Rightarrow> bool" where
  "isOtaWireMessage t \<longleftrightarrow> t = FirmwareBegin \<or> t = FirmwareChunk \<or> t = FirmwareEnd \<or> t = FirmwareStatus"

text \<open>\<open>appendTimeSyncMetadata\<close> on the members: the payload to send and whether it carries the time.\<close>

definition m_wrap :: "menv \<Rightarrow> bytes \<Rightarrow> ('r, bool \<times> bytes) mgrm" where
  "m_wrap E payload = do {
     s \<leftarrow> gets (\<lambda>s. (g_now_ms s, g_has_time_sync_tx s, g_last_time_sync_tx_ms s));
     let (now, has_tx, last_tx) = s;
     if mgr_shouldAttachTimeSync (m_cfg E) (if m_clock E then Some None else None) now (has_tx, last_tx)
        \<and> length payload \<le> kMaxPayload - kTimeSyncMetadataSize then do {
       epoch \<leftarrow> m_nowEpochSec E;
       case epoch of
         None \<Rightarrow> ret (False, payload)
       | Some e \<Rightarrow> do {
           _ \<leftarrow> modify (\<lambda>s. s\<lparr>g_has_time_sync_tx := True, g_last_time_sync_tx_ms := now\<rparr>);
           ret (True, epoch_prefix e @ payload) } }
     else ret (False, payload) }"

definition typed_header :: "menv \<Rightarrow> MessageType \<Rightarrow> u32 \<Rightarrow> bool \<Rightarrow> nat \<Rightarrow> u8 \<Rightarrow> u8 \<Rightarrow> u8 \<Rightarrow> FrameHeader" where
  "typed_header E type corr_id wrapped wire_len service op msg_type = default_header\<lparr>
     fh_version := kProtocolVersion, fh_type := type,
     fh_flags := (if wrapped then kFrameFlagTimeSyncEpoch else 0), fh_correlation_id := corr_id,
     fh_role := role_code (local_role (m_cfg E)), fh_wire_service := service, fh_wire_op_code := op,
     fh_wire_msg_type := msg_type, fh_payload_length := of_nat wire_len\<rparr>"

definition message_index :: "MessageType \<Rightarrow> u32" where
  "message_index t = ucast (message_code t)"

text \<open>Encoding and sending: the result and the text left in \<open>out_error\<close>.\<close>

definition transmit ::
  "menv \<Rightarrow> mac \<Rightarrow> MessageType \<Rightarrow> u32 \<Rightarrow> FrameHeader \<Rightarrow> bytes \<Rightarrow> ('r, bool \<times> string) mgrm" where
  "transmit E to type corr_id h wire_payload =
     (let wire_len = length wire_payload in
      case encode h wire_payload of
        None \<Rightarrow> do {
          _ \<leftarrow> whenM (m_hooks E) (m_do (HookTxFrame to type corr_id wire_len False));
          _ \<leftarrow> emitRuntimeLog E LogError kLogEvtTxEncodeFail corr_id (message_index type)
                (of_nat wire_len) (mac_bytes to);
          ret (False, ''encode_failed'') }
      | Some frame \<Rightarrow> do {
          ok \<leftarrow> m_ask E (TransportSend to frame);
          _ \<leftarrow> whenM (m_hooks E \<and> \<not> isOtaWireMessage type) (m_do (HookTxFrame to type corr_id wire_len ok));
          if \<not> ok then do {
            _ \<leftarrow> emitRuntimeLog E LogError kLogEvtTxSendFail corr_id (message_index type)
                  (of_nat wire_len) (mac_bytes to);
            ret (False, ''transport_send_failed'') }
          else ret (True, ''ok'') })"

definition sendTyped ::
  "menv \<Rightarrow> mac \<Rightarrow> MessageType \<Rightarrow> bytes \<Rightarrow> u32 \<Rightarrow> u8 \<Rightarrow> u8 \<Rightarrow> u8 \<Rightarrow> ('r, bool \<times> string) mgrm" where
  "sendTyped E to type payload corr_id service op msg_type = do {
     (wrapped, w) \<leftarrow> m_wrap E payload;
     transmit E to type corr_id (typed_header E type corr_id wrapped (length w) service op msg_type) w }"

definition blink_code :: "MessageType \<Rightarrow> mcall option" where
  "blink_code t =
     (if t = Discovery then Some (HookRgbBlink 0 0 255 50)
      else if t = PairInit \<or> t = PairInitAck \<or> t = PairConfirm \<or> t = PairConfirmAck
        then Some (HookRgbBlink 255 165 0 80)
      else if t = UnpairRequest \<or> t = PairBusy \<or> t = UnpairAck then Some (HookRgbBlink 255 0 0 120)
      else if t = ChannelSwitchPrepare \<or> t = ChannelSwitchAck \<or> t = ChannelSwitchCommitAck
        then Some (HookRgbBlink 255 0 255 100)
      else if t = PullRequest \<or> t = PullResponse then Some (HookRgbBlink 0 255 0 40)
      else if t = EventReport then Some (HookRgbBlink 255 220 0 60)
      else if t = TopologyTrigger then Some (HookRgbBlink 0 180 255 45)
      else if t = TopologyTriggerBatch then Some (HookRgbBlink 0 200 255 50)
      else if t = TopologyTriggerAck then Some (HookRgbBlink 0 120 220 35)
      else if t = FirmwareBegin then Some (HookRgbBlink 0 255 255 120)
      else if t = FirmwareChunk \<or> t = FirmwareStatus then None
      else if t = FirmwareEnd then Some (HookRgbBlink 255 255 255 180)
      else Some (HookRgbBlink 128 128 128 20))"

definition blinkForMessage :: "menv \<Rightarrow> MessageType \<Rightarrow> ('r, unit) mgrm" where
  "blinkForMessage E t =
     (if \<not> m_hooks E then ret ()
      else case blink_code t of None \<Rightarrow> ret () | Some c \<Rightarrow> m_do c)"

definition m_updateLiveness :: "mac \<Rightarrow> ('r, unit) mgrm" where
  "m_updateLiveness from = modify (\<lambda>s. s\<lparr>g_registry := snd (updateLiveness from True (g_now_ms s) (g_registry s))\<rparr>)"

section \<open>A manager for concrete runs\<close>

text \<open>A manager of either role whose calls all succeed, without time synchronisation, clock and logger.\<close>

definition topo_config :: "role \<Rightarrow> ManagerConfig" where
  "topo_config r = (default_manager_config r)\<lparr>time_sync_enabled := False\<rparr>"

definition quiet_menv :: "role \<Rightarrow> store_env option \<Rightarrow> menv" where
  "quiet_menv r S = \<lparr>m_cfg = topo_config r, pairing_store = S, m_events = True, m_hooks = True, m_window = True,
     m_clock = False, m_logger = False, m_answer = (\<lambda>_ _. True), m_epoch = (\<lambda>_. None),
     m_hmac = (\<lambda>_ _. Some (replicate 32 5))\<rparr>"

lemma quiet_role [simp]: "local_role (m_cfg (quiet_menv r S)) = r" "m_hooks (quiet_menv r S)"
  "pairing_store (quiet_menv r S) = S"
  by (simp_all add: quiet_menv_def topo_config_def default_manager_config_def)

end
