(* ===== verification/TopologyData.thy ===== *)
theory TopologyData
  imports Text Tables Payloads
begin

text \<open>
  Topology snapshots: the data of \<open>manager.hpp\<close>, the helpers and the blob format of
  \<open>manager_constants.hpp\<close>, and the validation and checksum of \<open>manager_topology_runtime.cpp\<close>. The
  C++ arrays are lists of fixed length; a signed byte is a byte read with \<open>sint\<close>; the state and
  the error texts are those of the code.
\<close>

section \<open>Data\<close>

definition kTopologyMaxSlots :: nat where "kTopologyMaxSlots = 13"
definition kTopologyMaxGroups :: nat where "kTopologyMaxGroups = 12"
definition kTopologySchemaVersion :: u8 where "kTopologySchemaVersion = 1"

definition tsNone :: u8 where "tsNone = 0"
definition tsStaged :: u8 where "tsStaged = 1"
definition tsCommitted :: u8 where "tsCommitted = 2"

record TopologySlot =
  sl_enabled :: bool
  sl_peer :: mac
  sl_peer_role :: u8
  sl_group_id :: u8
  sl_relative_index :: u8
  sl_local_virtual_index :: u8
  sl_peer_virtual_index :: u8
  sl_axis_order :: u8
  sl_delay_ms :: u16
  sl_hold_ms :: u16

record TopologyGroupSeed =
  gs_enabled :: bool
  gs_group_id :: u8
  gs_seed :: bytes

record TopologySnapshot =
  sn_schema_version :: u8
  sn_state :: u8
  sn_topology_version :: u32
  sn_index_neg :: u8
  sn_index_pos :: u8
  sn_enabled_slot_count :: u8
  sn_enabled_group_count :: u8
  sn_checksum :: u32
  sn_slots :: "TopologySlot list"
  sn_groups :: "TopologyGroupSeed list"

definition no_slot :: TopologySlot where
  "no_slot = \<lparr>sl_enabled = False, sl_peer = zeroMac, sl_peer_role = 0, sl_group_id = 0,
     sl_relative_index = 0, sl_local_virtual_index = 0xFF, sl_peer_virtual_index = 0xFF,
     sl_axis_order = 0, sl_delay_ms = 0, sl_hold_ms = 0\<rparr>"

definition no_group :: TopologyGroupSeed where
  "no_group = \<lparr>gs_enabled = False, gs_group_id = 0, gs_seed = replicate 32 0\<rparr>"

definition no_snapshot :: TopologySnapshot where
  "no_snapshot = \<lparr>sn_schema_version = kTopologySchemaVersion, sn_state = tsNone, sn_topology_version = 0,
     sn_index_neg = 0, sn_index_pos = 0, sn_enabled_slot_count = 0, sn_enabled_group_count = 0,
     sn_checksum = 0, sn_slots = replicate kTopologyMaxSlots no_slot,
     sn_groups = replicate kTopologyMaxGroups no_group\<rparr>"

text \<open>The lengths of the arrays.\<close>

definition group_wf :: "TopologyGroupSeed \<Rightarrow> bool" where
  "group_wf g \<longleftrightarrow> length (gs_seed g) = 32"

definition snapshot_wf :: "TopologySnapshot \<Rightarrow> bool" where
  "snapshot_wf s \<longleftrightarrow> length (sn_slots s) = kTopologyMaxSlots \<and> length (sn_groups s) = kTopologyMaxGroups
     \<and> (\<forall>g \<in> set (sn_groups s). group_wf g)"

section \<open>Profiles\<close>

definition kProfileUnknown :: u16 where "kProfileUnknown = 0"
definition kProfilePms :: u16 where "kProfilePms = 1"
definition kProfileRelay :: u16 where "kProfileRelay = 2"
definition kProfileSens :: u16 where "kProfileSens = 3"
definition kProfileSemu :: u16 where "kProfileSemu = 4"
definition kProfileRemu :: u16 where "kProfileRemu = 5"

definition profile_code :: "u16 \<Rightarrow> u8" where
  "profile_code p = ucast (p AND 0xFF)"

definition isAllZeroMac :: "mac \<Rightarrow> bool" where
  "isAllZeroMac m = list_all (\<lambda>b. b = 0) (mac_bytes m)"

definition isBroadcastMac :: "mac \<Rightarrow> bool" where
  "isBroadcastMac m = list_all (\<lambda>b. b = 0xFF) (mac_bytes m)"

definition isAllZeroSeed :: "bytes \<Rightarrow> bool" where
  "isAllZeroSeed seed = list_all (\<lambda>b. b = 0) seed"

definition isVirtualIndexAllowedForRole :: "u8 \<Rightarrow> u8 \<Rightarrow> bool" where
  "isVirtualIndexAllowedForRole code vi =
     (if vi = 0xFF then True
      else if code = profile_code kProfileSemu then vi \<le> 7
      else if code = profile_code kProfileRemu then vi \<le> 15
      else if code = profile_code kProfileSens \<or> code = profile_code kProfileRelay
              \<or> code = profile_code kProfilePms then False
      else vi \<le> 15)"

definition isSensorProfileCode :: "u8 \<Rightarrow> bool" where
  "isSensorProfileCode code \<longleftrightarrow> code = profile_code kProfileSens \<or> code = profile_code kProfileSemu"

definition isRelayProfileCode :: "u8 \<Rightarrow> bool" where
  "isRelayProfileCode code \<longleftrightarrow> code = profile_code kProfileRelay \<or> code = profile_code kProfileRemu"

definition topologySlotCapForLocalRole :: "u8 \<Rightarrow> u8" where
  "topologySlotCapForLocalRole local_code = of_nat kTopologyMaxSlots"

definition isTopologyRolePairAllowed :: "u8 \<Rightarrow> u8 \<Rightarrow> bool" where
  "isTopologyRolePairAllowed local_code peer_code =
     (if isSensorProfileCode local_code then isRelayProfileCode peer_code
      else if isRelayProfileCode local_code then isSensorProfileCode peer_code
      else True)"

section \<open>Blobs\<close>

definition kTopologyBlobVersion :: u8 where "kTopologyBlobVersion = 1"
definition kTopologySlotBlobSize :: nat where "kTopologySlotBlobSize = 17"
definition kTopologyGroupBlobSize :: nat where "kTopologyGroupBlobSize = 34"
definition kTopologyHeaderBlobSize :: nat where "kTopologyHeaderBlobSize = 16"
definition kTopologyBlobSize :: nat where
  "kTopologyBlobSize = kTopologyHeaderBlobSize + kTopologyMaxSlots * kTopologySlotBlobSize
     + kTopologyMaxGroups * kTopologyGroupBlobSize"

lemmas blob_sizes = kTopologySlotBlobSize_def kTopologyGroupBlobSize_def kTopologyHeaderBlobSize_def
  kTopologyBlobSize_def kTopologyMaxSlots_def kTopologyMaxGroups_def

definition topology_slot_blob :: "TopologySlot \<Rightarrow> bytes" where
  "topology_slot_blob s = [if sl_enabled s then 1 else 0] @ mac_bytes (sl_peer s)
     @ [sl_peer_role s, sl_group_id s, sl_relative_index s, sl_local_virtual_index s,
        sl_peer_virtual_index s, sl_axis_order s]
     @ appendLe16 (sl_delay_ms s) @ appendLe16 (sl_hold_ms s)"

text \<open>The readers of a slot and of a group are called with enough bytes only, and check it.\<close>

definition readTopologySlotBlob :: "bytes \<Rightarrow> TopologySlot option" where
  "readTopologySlotBlob p =
     (if length p < kTopologySlotBlobSize then None
      else Some \<lparr>sl_enabled = (p ! 0 \<noteq> 0), sl_peer = mac_of (drop 1 p), sl_peer_role = p ! 7,
        sl_group_id = p ! 8, sl_relative_index = p ! 9, sl_local_virtual_index = p ! 10,
        sl_peer_virtual_index = p ! 11, sl_axis_order = p ! 12, sl_delay_ms = readLe16 (drop 13 p),
        sl_hold_ms = readLe16 (drop 15 p)\<rparr>)"

definition topology_group_blob :: "TopologyGroupSeed \<Rightarrow> bytes" where
  "topology_group_blob g = [if gs_enabled g then 1 else 0, gs_group_id g] @ gs_seed g"

definition readTopologyGroupBlob :: "bytes \<Rightarrow> TopologyGroupSeed option" where
  "readTopologyGroupBlob p =
     (if length p < kTopologyGroupBlobSize then None
      else Some \<lparr>gs_enabled = (p ! 0 \<noteq> 0), gs_group_id = p ! 1, gs_seed = take 32 (drop 2 p)\<rparr>)"

definition topology_header :: "TopologySnapshot \<Rightarrow> bytes" where
  "topology_header s = [kTopologyBlobVersion, sn_schema_version s, sn_state s, 0]
     @ appendLe32 (sn_topology_version s)
     @ [sn_index_neg s, sn_index_pos s, sn_enabled_slot_count s, sn_enabled_group_count s]
     @ appendLe32 (sn_checksum s)"

definition serializeTopologySnapshotBlob :: "TopologySnapshot \<Rightarrow> bytes option" where
  "serializeTopologySnapshotBlob s =
     (let out = topology_header s @ concat (map topology_slot_blob (sn_slots s))
                @ concat (map topology_group_blob (sn_groups s))
      in if length out = kTopologyBlobSize then Some out else None)"

text \<open>Reading \<open>n\<close> records of a fixed size: the records and the rest.\<close>

fun read_many :: "nat \<Rightarrow> nat \<Rightarrow> (bytes \<Rightarrow> 'a option) \<Rightarrow> bytes \<Rightarrow> ('a list \<times> bytes) option" where
  "read_many 0 step rd p = Some ([], p)"
| "read_many (Suc n) step rd p =
     (case rd p of
        None \<Rightarrow> None
      | Some x \<Rightarrow> (case read_many n step rd (drop step p) of
            None \<Rightarrow> None | Some (xs, r) \<Rightarrow> Some (x # xs, r)))"

definition deserializeTopologySnapshotBlob :: "bytes \<Rightarrow> TopologySnapshot option" where
  "deserializeTopologySnapshotBlob blob =
     (if length blob \<noteq> kTopologyBlobSize then None
      else if blob ! 0 \<noteq> kTopologyBlobVersion then None
      else case read_many kTopologyMaxSlots kTopologySlotBlobSize readTopologySlotBlob
                  (drop kTopologyHeaderBlobSize blob) of
        None \<Rightarrow> None
      | Some (slots, r) \<Rightarrow>
          (case read_many kTopologyMaxGroups kTopologyGroupBlobSize readTopologyGroupBlob r of
             None \<Rightarrow> None
           | Some (groups, r') \<Rightarrow>
               if r' \<noteq> [] then None
               else Some \<lparr>sn_schema_version = blob ! 1, sn_state = blob ! 2,
                 sn_topology_version = readLe32 (drop 4 blob), sn_index_neg = blob ! 8,
                 sn_index_pos = blob ! 9, sn_enabled_slot_count = blob ! 10,
                 sn_enabled_group_count = blob ! 11, sn_checksum = readLe32 (drop 12 blob),
                 sn_slots = slots, sn_groups = groups\<rparr>))"

section \<open>Checksum\<close>

text \<open>The mixed bytes, in the order of the code: those of a slot and of a group are as in the blob.\<close>

definition checksum_bytes :: "TopologySnapshot \<Rightarrow> bytes" where
  "checksum_bytes s = [sn_schema_version s, sn_state s] @ appendLe32 (sn_topology_version s)
     @ [sn_index_neg s, sn_index_pos s, sn_enabled_slot_count s, sn_enabled_group_count s]
     @ concat (map topology_slot_blob (sn_slots s)) @ concat (map topology_group_blob (sn_groups s))"

definition computeTopologyChecksum :: "TopologySnapshot \<Rightarrow> u32" where
  "computeTopologyChecksum s = foldl hashByte kFnvOffset (checksum_bytes s)"

section \<open>Validation\<close>

text \<open>The loop over the groups: an error, or the number of enabled groups.\<close>

fun check_groups :: "TopologyGroupSeed list \<Rightarrow> u8 \<Rightarrow> string + u8" where
  "check_groups [] n = Inr n"
| "check_groups (g # gs) n =
     (if \<not> gs_enabled g then check_groups gs n
      else if gs_group_id g = 0 \<or> isAllZeroSeed (gs_seed g) then Inl ''invalid_group_seed''
      else check_groups gs (n + 1))"

definition group_found :: "TopologyGroupSeed list \<Rightarrow> u8 \<Rightarrow> bool" where
  "group_found gs group_id = list_ex (\<lambda>g. gs_enabled g \<and> gs_group_id g = group_id) gs"

text \<open>The inner loop: a slot against the slots after it.\<close>

definition same_logical_peer :: "TopologySlot \<Rightarrow> TopologySlot \<Rightarrow> bool" where
  "same_logical_peer a b \<longleftrightarrow> sl_peer a = sl_peer b \<and> sl_peer_role a = sl_peer_role b
     \<and> sl_local_virtual_index a = sl_local_virtual_index b
     \<and> sl_peer_virtual_index a = sl_peer_virtual_index b"

fun check_later :: "TopologySlot \<Rightarrow> TopologySlot list \<Rightarrow> string option" where
  "check_later s [] = None"
| "check_later s (x # xs) =
     (if \<not> sl_enabled x then check_later s xs
      else if same_logical_peer s x then Some ''duplicate_logical_peer''
      else if sl_relative_index s = sl_relative_index x then Some ''duplicate_relative_index''
      else check_later s xs)"

definition check_slot :: "u8 \<Rightarrow> TopologyGroupSeed list \<Rightarrow> TopologySlot \<Rightarrow> string option" where
  "check_slot code gs s =
     (if sl_peer_role s = 0 then Some ''invalid_peer_role''
      else if \<not> isTopologyRolePairAllowed code (sl_peer_role s) then Some ''invalid_role_pair''
      else if isAllZeroMac (sl_peer s) \<or> isBroadcastMac (sl_peer s) then Some ''invalid_peer_mac''
      else if sl_relative_index s = 0
              \<or> sint (sl_relative_index s) < - uint (topologySlotCapForLocalRole code)
              \<or> sint (sl_relative_index s) > uint (topologySlotCapForLocalRole code)
        then Some ''invalid_relative_index''
      else if \<not> isVirtualIndexAllowedForRole code (sl_local_virtual_index s)
        then Some ''invalid_local_virtual_index''
      else if \<not> isVirtualIndexAllowedForRole (sl_peer_role s) (sl_peer_virtual_index s)
        then Some ''invalid_peer_virtual_index''
      else if \<not> group_found gs (sl_group_id s) then Some ''group_id_missing''
      else None)"

fun check_slots :: "u8 \<Rightarrow> TopologyGroupSeed list \<Rightarrow> TopologySlot list \<Rightarrow> u8 \<Rightarrow> string + u8" where
  "check_slots code gs [] n = Inr n"
| "check_slots code gs (s # ss) n =
     (if \<not> sl_enabled s then check_slots code gs ss n
      else case check_slot code gs s of
        Some e \<Rightarrow> Inl e
      | None \<Rightarrow> (case check_later s ss of Some e \<Rightarrow> Inl e | None \<Rightarrow> check_slots code gs ss (n + 1)))"

text \<open>
  \<open>validateTopologySnapshot_\<close>: an error, or the snapshot with version, counts and checksum filled
  in. (On an error the code may have filled in the version of the caller's copy, which every
  caller drops.)
\<close>

definition validateTopologySnapshot :: "u16 \<Rightarrow> TopologySnapshot \<Rightarrow> string + TopologySnapshot" where
  "validateTopologySnapshot local_profile_id s0 =
     (let code = profile_code local_profile_id;
          cap = topologySlotCapForLocalRole code;
          s = (if sn_schema_version s0 = 0 then s0\<lparr>sn_schema_version := kTopologySchemaVersion\<rparr> else s0)
      in if sn_schema_version s \<noteq> kTopologySchemaVersion then Inl ''invalid_schema_version''
         else if sn_topology_version s = 0 then Inl ''invalid_topology_version''
         else if sn_index_neg s > cap \<or> sn_index_pos s > cap then Inl ''invalid_index_window''
         else case check_groups (sn_groups s) 0 of
           Inl e \<Rightarrow> Inl e
         | Inr enabled_groups \<Rightarrow>
             (case check_slots code (sn_groups s) (sn_slots s) 0 of
                Inl e \<Rightarrow> Inl e
              | Inr enabled_slots \<Rightarrow>
                  if enabled_slots > cap \<or> enabled_groups > of_nat kTopologyMaxGroups
                    then Inl ''capacity_exceeded''
                  else let s = s\<lparr>sn_enabled_slot_count := enabled_slots, sn_enabled_group_count := enabled_groups\<rparr>;
                           computed = computeTopologyChecksum s
                       in if sn_checksum s \<noteq> 0 \<and> sn_checksum s \<noteq> computed then Inl ''invalid_checksum''
                          else Inr (s\<lparr>sn_checksum := computed\<rparr>)))"

section \<open>Looking up slots and seeds\<close>

definition findTopologyGroupSeed :: "TopologySnapshot \<Rightarrow> u8 \<Rightarrow> bytes option" where
  "findTopologyGroupSeed s group_id =
     (if group_id = 0 then None
      else map_option gs_seed (List.find (\<lambda>g. gs_enabled g \<and> gs_group_id g = group_id) (sn_groups s)))"

definition find_index :: "TopologySnapshot \<Rightarrow> u8 \<Rightarrow> TopologySlot option" where
  "find_index s target_idx = List.find (\<lambda>x. sl_enabled x \<and> sl_relative_index x = target_idx) (sn_slots s)"

text \<open>The search of \<open>resolveTopologyTargetIndex\<close> in the snapshot of the state asked for, if there is one.\<close>

definition resolveTopologyTargetIndex :: "TopologySnapshot option \<Rightarrow> u8 \<Rightarrow> string + TopologySlot" where
  "resolveTopologyTargetIndex snapshot target_idx =
     (case snapshot of
        None \<Rightarrow> Inl ''topology_missing''
      | Some s \<Rightarrow>
          if target_idx = 0 then Inl ''invalid_index''
          else if (sint target_idx < 0 \<and> (of_int (- sint target_idx) :: u8) > sn_index_neg s)
                  \<or> (sint target_idx > 0 \<and> target_idx > sn_index_pos s) then Inl ''out_of_window''
          else (case find_index s target_idx of Some x \<Rightarrow> Inr x | None \<Rightarrow> Inl ''index_unmapped''))"

end
