(* ===== verification/TopologyValid.thy ===== *)
theory TopologyValid
  imports TopologyData
begin

text \<open>
  Snapshots: what is stored is read back, and what validation accepts, stated once for all without
  its loops. From it: the facts about an accepted snapshot that routing and keys rest on.
\<close>

section \<open>The blob round trip\<close>

lemma length_slot_blob [simp]: "length (topology_slot_blob s) = 17"
  by (simp add: topology_slot_blob_def)

lemma length_group_blob [simp]: "group_wf g \<Longrightarrow> length (topology_group_blob g) = 34"
  by (simp add: topology_group_blob_def group_wf_def)

lemma read_slot_blob: "readTopologySlotBlob (topology_slot_blob s @ r) = Some s"
  by (cases "sl_peer s")
     (simp add: readTopologySlotBlob_def topology_slot_blob_def kTopologySlotBlobSize_def mac_of_def
       nth_append nth_Cons' readLe16_append)

lemma read_group_blob: "group_wf g \<Longrightarrow> readTopologyGroupBlob (topology_group_blob g @ r) = Some g"
  by (simp add: readTopologyGroupBlob_def topology_group_blob_def kTopologyGroupBlobSize_def group_wf_def)

lemma read_many_of:
  "\<forall>x \<in> set xs. length (enc x) = k \<and> (\<forall>r. rd (enc x @ r) = Some x) \<Longrightarrow>
   read_many (length xs) k rd (concat (map enc xs) @ r) = Some (xs, r)"
  by (induction xs) auto

lemma length_concat_const: "\<forall>x \<in> set xs. length (enc x) = k \<Longrightarrow> length (concat (map enc xs)) = k * length xs"
  by (induction xs) auto

lemma snapshot_blob:
  assumes "snapshot_wf s"
  obtains b where "serializeTopologySnapshotBlob s = Some b" and "deserializeTopologySnapshotBlob b = Some s"
    and "b \<noteq> []"
proof -
  let ?ss = "concat (map topology_slot_blob (sn_slots s))" and ?gs = "concat (map topology_group_blob (sn_groups s))"
  let ?b = "topology_header s @ ?ss @ ?gs"
  have n: "length (sn_slots s) = 13" "length (sn_groups s) = 12" "\<forall>g \<in> set (sn_groups s). group_wf g"
    using assms by (auto simp: snapshot_wf_def kTopologyMaxSlots_def kTopologyMaxGroups_def)
  have h: "length (topology_header s) = 16" by (simp add: topology_header_def)
  have len: "length ?ss = 17 * 13" "length ?gs = 34 * 12"
    using length_concat_const [of "sn_slots s" topology_slot_blob 17]
      length_concat_const [of "sn_groups s" topology_group_blob 34] n by auto
  then have size: "length ?b = kTopologyBlobSize" by (simp add: h blob_sizes)
  have slots: "read_many 13 17 readTopologySlotBlob (?ss @ ?gs) = Some (sn_slots s, ?gs)"
    using read_many_of [of "sn_slots s" topology_slot_blob 17 readTopologySlotBlob ?gs] n
    by (simp add: read_slot_blob)
  have groups: "read_many 12 34 readTopologyGroupBlob ?gs = Some (sn_groups s, [])"
    using read_many_of [of "sn_groups s" topology_group_blob 34 readTopologyGroupBlob "[]"] n
    by (simp add: read_group_blob)
  have fields: "?b ! 0 = kTopologyBlobVersion" "?b ! 1 = sn_schema_version s" "?b ! 2 = sn_state s"
    "readLe32 (drop 4 ?b) = sn_topology_version s" "?b ! 8 = sn_index_neg s" "?b ! 9 = sn_index_pos s"
    "?b ! 10 = sn_enabled_slot_count s" "?b ! 11 = sn_enabled_group_count s" "readLe32 (drop 12 ?b) = sn_checksum s"
    by (simp_all add: topology_header_def nth_append)
  have des: "deserializeTopologySnapshotBlob ?b = Some s"
    unfolding deserializeTopologySnapshotBlob_def size fields
    using slots groups by (simp add: blob_sizes h)
  show thesis
    by (rule that [OF _ des]) (use size in \<open>simp_all add: serializeTopologySnapshotBlob_def topology_header_def\<close>)
qed

section \<open>What validation accepts\<close>

definition enabled_slots :: "TopologySnapshot \<Rightarrow> TopologySlot list" where
  "enabled_slots s = filter sl_enabled (sn_slots s)"

definition enabled_groups :: "TopologySnapshot \<Rightarrow> TopologyGroupSeed list" where
  "enabled_groups s = filter gs_enabled (sn_groups s)"

text \<open>One slot on its own, and two slots together.\<close>

definition slot_ok :: "u8 \<Rightarrow> TopologySnapshot \<Rightarrow> TopologySlot \<Rightarrow> bool" where
  "slot_ok code s x \<longleftrightarrow> sl_peer_role x \<noteq> 0 \<and> isTopologyRolePairAllowed code (sl_peer_role x)
     \<and> sl_peer x \<noteq> zeroMac \<and> sl_peer x \<noteq> kBroadcastMac
     \<and> sl_relative_index x \<noteq> 0 \<and> \<bar>sint (sl_relative_index x)\<bar> \<le> 13
     \<and> isVirtualIndexAllowedForRole code (sl_local_virtual_index x)
     \<and> isVirtualIndexAllowedForRole (sl_peer_role x) (sl_peer_virtual_index x)
     \<and> sl_group_id x \<in> gs_group_id ` set (enabled_groups s)"

definition slots_differ :: "TopologySlot \<Rightarrow> TopologySlot \<Rightarrow> bool" where
  "slots_differ x y \<longleftrightarrow> \<not> same_logical_peer x y \<and> sl_relative_index x \<noteq> sl_relative_index y"

definition snapshot_ok :: "u8 \<Rightarrow> TopologySnapshot \<Rightarrow> bool" where
  "snapshot_ok code s \<longleftrightarrow> sn_schema_version s \<in> {0, kTopologySchemaVersion} \<and> sn_topology_version s \<noteq> 0
     \<and> sn_index_neg s \<le> 13 \<and> sn_index_pos s \<le> 13
     \<and> (\<forall>g \<in> set (enabled_groups s). gs_group_id g \<noteq> 0 \<and> \<not> isAllZeroSeed (gs_seed g))
     \<and> (\<forall>x \<in> set (enabled_slots s). slot_ok code s x)
     \<and> sorted_wrt slots_differ (enabled_slots s)"

text \<open>The snapshot with version and counts filled in.\<close>

definition counted :: "TopologySnapshot \<Rightarrow> TopologySnapshot" where
  "counted s = s\<lparr>sn_schema_version := kTopologySchemaVersion,
     sn_enabled_slot_count := of_nat (length (enabled_slots s)),
     sn_enabled_group_count := of_nat (length (enabled_groups s))\<rparr>"

definition sealed :: "TopologySnapshot \<Rightarrow> TopologySnapshot" where
  "sealed s = (counted s)\<lparr>sn_checksum := computeTopologyChecksum (counted s)\<rparr>"

lemma check_groups_iff:
  "check_groups gs n = Inr k \<longleftrightarrow>
     (\<forall>g \<in> set (filter gs_enabled gs). gs_group_id g \<noteq> 0 \<and> \<not> isAllZeroSeed (gs_seed g))
     \<and> k = n + of_nat (length (filter gs_enabled gs))"
  by (induction gs n rule: check_groups.induct) (auto simp: algebra_simps)

lemma check_later_iff: "check_later x ys = None \<longleftrightarrow> (\<forall>y \<in> set (filter sl_enabled ys). slots_differ x y)"
  by (induction x ys rule: check_later.induct) (auto simp: slots_differ_def)

lemma zero_mac_iff: "isAllZeroMac m \<longleftrightarrow> m = zeroMac"
  by (cases m) (simp add: isAllZeroMac_def zeroMac_def)

lemma broadcast_mac_iff: "isBroadcastMac m \<longleftrightarrow> m = kBroadcastMac"
  by (cases m) (simp add: isBroadcastMac_def kBroadcastMac_def)

lemma group_found_iff: "group_found gs i \<longleftrightarrow> i \<in> gs_group_id ` set (filter gs_enabled gs)"
  by (auto simp: group_found_def list_ex_iff)

lemma slot_cap [simp]: "topologySlotCapForLocalRole code = 13"
  by (simp add: topologySlotCapForLocalRole_def kTopologyMaxSlots_def)

lemma check_slot_iff: "check_slot code (sn_groups s) x = None \<longleftrightarrow> slot_ok code s x"
  by (auto simp: check_slot_def slot_ok_def zero_mac_iff broadcast_mac_iff group_found_iff enabled_groups_def)

lemma check_slots_iff:
  "check_slots code (sn_groups s) xs n = Inr k \<longleftrightarrow>
     (\<forall>x \<in> set (filter sl_enabled xs). slot_ok code s x) \<and> sorted_wrt slots_differ (filter sl_enabled xs)
     \<and> k = n + of_nat (length (filter sl_enabled xs))"
proof (induction xs arbitrary: n)
  case Nil
  then show ?case by auto
next
  case (Cons x xs)
  show ?case
    using Cons.IH [of "n + 1"] Cons.IH [of n] check_slot_iff [of code s x] check_later_iff [of x xs]
    by (auto split: option.splits simp: algebra_simps)
qed

text \<open>The checks before the loops, and what is left of the method after them.\<close>

definition head_ok :: "TopologySnapshot \<Rightarrow> bool" where
  "head_ok s \<longleftrightarrow> sn_schema_version s \<in> {0, kTopologySchemaVersion} \<and> sn_topology_version s \<noteq> 0
    \<and> sn_index_neg s \<le> 13 \<and> sn_index_pos s \<le> 13"

lemma validate_head:
  "\<not> head_ok s \<Longrightarrow> \<exists>e. validateTopologySnapshot profile s = Inl e"
  by (auto simp: validateTopologySnapshot_def Let_def not_le head_ok_def kTopologySchemaVersion_def)

lemma validate_loops:
  assumes "head_ok s"
  shows "validateTopologySnapshot profile s =
    (case check_groups (sn_groups s) 0 of Inl e \<Rightarrow> Inl e
     | Inr n \<Rightarrow> (case check_slots (profile_code profile) (sn_groups s) (sn_slots s) 0 of Inl e \<Rightarrow> Inl e
         | Inr k \<Rightarrow> if k > 13 \<or> n > 12 then Inl ''capacity_exceeded''
             else let u = s\<lparr>sn_schema_version := kTopologySchemaVersion, sn_enabled_slot_count := k,
                           sn_enabled_group_count := n\<rparr>
                  in if sn_checksum s \<noteq> 0 \<and> sn_checksum s \<noteq> computeTopologyChecksum u then Inl ''invalid_checksum''
                     else Inr (u\<lparr>sn_checksum := computeTopologyChecksum u\<rparr>)))"
proof -
  let ?t = "if sn_schema_version s = 0 then s\<lparr>sn_schema_version := kTopologySchemaVersion\<rparr> else s"
  have fields: "sn_slots ?t = sn_slots s" "sn_groups ?t = sn_groups s" "sn_topology_version ?t = sn_topology_version s"
    "sn_index_neg ?t = sn_index_neg s" "sn_index_pos ?t = sn_index_pos s" "sn_checksum ?t = sn_checksum s"
    by simp_all
  have t: "?t = s\<lparr>sn_schema_version := kTopologySchemaVersion\<rparr>" "sn_schema_version ?t = kTopologySchemaVersion"
    using assms by (auto simp: head_ok_def)
  have "\<not> sn_index_neg s > 13" "\<not> sn_index_pos s > 13" "sn_topology_version s \<noteq> 0"
    using assms by (simp_all add: head_ok_def not_less)
  then show ?thesis
    unfolding validateTopologySnapshot_def Let_def fields t slot_cap
    by (cases "check_groups (sn_groups s) 0";
        cases "check_slots (profile_code profile) (sn_groups s) (sn_slots s) 0")
       (simp_all add: kTopologyMaxGroups_def)
qed

lemma counts_fit:
  assumes "snapshot_wf s"
  shows "\<not> of_nat (length (enabled_slots s)) > (13 :: u8)" and "\<not> of_nat (length (enabled_groups s)) > (12 :: u8)"
proof -
  have "length (enabled_slots s) \<le> 13" "length (enabled_groups s) \<le> 12"
    using assms length_filter_le [of sl_enabled "sn_slots s"] length_filter_le [of gs_enabled "sn_groups s"]
    by (simp_all add: snapshot_wf_def enabled_slots_def enabled_groups_def kTopologyMaxSlots_def
        kTopologyMaxGroups_def)
  then show "\<not> of_nat (length (enabled_slots s)) > (13 :: u8)" "\<not> of_nat (length (enabled_groups s)) > (12 :: u8)"
    by (simp_all add: word_less_nat_alt unat_of_nat take_bit_nat_eq_self not_less)
qed

theorem validate_iff:
  assumes "snapshot_wf s"
  shows "validateTopologySnapshot profile s = Inr s' \<longleftrightarrow>
    snapshot_ok (profile_code profile) s \<and> sn_checksum s \<in> {0, computeTopologyChecksum (counted s)}
    \<and> s' = sealed s"
proof (cases "head_ok s")
  case False
  then show ?thesis using validate_head [OF False, of profile] by (auto simp: snapshot_ok_def head_ok_def)
next
  case head: True
  let ?code = "profile_code profile"
  let ?G = "\<forall>g \<in> set (enabled_groups s). gs_group_id g \<noteq> 0 \<and> \<not> isAllZeroSeed (gs_seed g)"
  let ?S = "(\<forall>x \<in> set (enabled_slots s). slot_ok ?code s x) \<and> sorted_wrt slots_differ (enabled_slots s)"
  have ok: "snapshot_ok ?code s \<longleftrightarrow> ?G \<and> ?S" using head by (auto simp: snapshot_ok_def head_ok_def)
  have g: "if ?G then check_groups (sn_groups s) 0 = Inr (of_nat (length (enabled_groups s)))
      else \<exists>e. check_groups (sn_groups s) 0 = Inl e"
    using check_groups_iff [of "sn_groups s" 0]
    by (cases "check_groups (sn_groups s) 0") (auto simp: enabled_groups_def)
  have x: "if ?S then check_slots ?code (sn_groups s) (sn_slots s) 0 = Inr (of_nat (length (enabled_slots s)))
      else \<exists>e. check_slots ?code (sn_groups s) (sn_slots s) 0 = Inl e"
    using check_slots_iff [of ?code s "sn_slots s" 0]
    by (cases "check_slots ?code (sn_groups s) (sn_slots s) 0") (auto simp: enabled_slots_def)
  show ?thesis
  proof (cases "?G \<and> ?S")
    case True
    with g x have "validateTopologySnapshot profile s =
        (if sn_checksum s \<noteq> 0 \<and> sn_checksum s \<noteq> computeTopologyChecksum (counted s)
         then Inl ''invalid_checksum'' else Inr (sealed s))"
      unfolding validate_loops [OF head] using counts_fit [OF assms]
      by (simp add: counted_def sealed_def Let_def)
    with True ok show ?thesis by auto
  next
    case False
    with g x have "\<exists>e. validateTopologySnapshot profile s = Inl e"
      unfolding validate_loops [OF head] by (auto split: if_splits sum.split)
    with False ok show ?thesis by auto
  qed
qed

end
