(* ===== verification/Topology.thy ===== *)
theory Topology
  imports Manager TopologyValid
begin

text \<open>
  The topology runtime of the manager, \<open>manager_topology_runtime.cpp\<close> and
  \<open>manager_topology_storage.cpp\<close>: staging and committing snapshots with rollback, their storage and
  restoration, the link keys of lateral peers (derived, installed at the radio, stored and
  reloaded), and the trigger messages with their authorization and duplicate detection. A method
  with an \<open>out_error\<close> returns it: \<open>Inl\<close> the text of a failure.
\<close>

section \<open>Members\<close>

record TopologyTriggerDedupEntry =
  dd_source :: mac
  dd_src_role :: u8
  dd_src_vid :: u8
  dd_seq :: u16
  dd_seen_ms :: u32

record topo = mgr +
  tp_staged :: TopologySnapshot
  tp_committed :: TopologySnapshot
  tp_has_staged :: bool
  tp_has_committed :: bool
  tp_restore_mode :: u8
  tp_restore_reason :: string
  tp_fail_count :: u32
  tp_fail_last :: string
  tp_fail_by_reason :: "string \<Rightarrow> u32 option"
  tp_attached :: "mac list"
  tp_dedup :: "TopologyTriggerDedupEntry list"
  tp_trigger_seq :: u16

type_synonym 'a tpm = "(topo, 'a) state"
type_synonym outcome = "string + unit"

definition kTopologyMetaSlotStaged :: u8 where "kTopologyMetaSlotStaged = 0x32"
definition kTopologyMetaSlotCommitted :: u8 where "kTopologyMetaSlotCommitted = 0x33"
definition kTopologyMetaSlotLmk :: u8 where "kTopologyMetaSlotLmk = 0x34"
definition kTopologyLmkBlobVersionV2 :: u8 where "kTopologyLmkBlobVersionV2 = 2"
definition kTopologyLmkBlobEntrySize :: nat where "kTopologyLmkBlobEntrySize = 23"
definition kTopologyLmkBlobHeaderSizeV2 :: nat where "kTopologyLmkBlobHeaderSizeV2 = 23"
definition kTopologyTriggerDedupWindowMs :: u32 where "kTopologyTriggerDedupWindowMs = 15000"
definition kTopologyTriggerDedupMaxEntries :: nat where "kTopologyTriggerDedupMaxEntries = 32"
definition kTopologyTriggerResultAccepted :: u8 where "kTopologyTriggerResultAccepted = 0"
definition kTopologyTriggerResultRejected :: u8 where "kTopologyTriggerResultRejected = 1"
definition kTopologyTriggerReasonOk :: u8 where "kTopologyTriggerReasonOk = 0"
definition kTopologyTriggerReasonUnauthorizedPeer :: u8 where "kTopologyTriggerReasonUnauthorizedPeer = 1"
definition kTopologyTriggerReasonStaleTopology :: u8 where "kTopologyTriggerReasonStaleTopology = 2"
definition kTopologyTriggerReasonBadIndex :: u8 where "kTopologyTriggerReasonBadIndex = 3"
definition kTopologyTriggerReasonRangeRejected :: u8 where "kTopologyTriggerReasonRangeRejected = 4"
definition kTopologyRestoreModeNone :: u8 where "kTopologyRestoreModeNone = 0"
definition kTopologyRestoreModeNvs :: u8 where "kTopologyRestoreModeNvs = 1"
definition kTopologyRestoreModeDerived :: u8 where "kTopologyRestoreModeDerived = 2"
definition kTopologyRestoreModeFailed :: u8 where "kTopologyRestoreModeFailed = 3"

definition setTopologyRestoreStatus :: "u8 \<Rightarrow> string \<Rightarrow> unit tpm" where
  "setTopologyRestoreStatus mode reason =
     modify (\<lambda>s. s\<lparr>tp_restore_mode := mode, tp_restore_reason := take 39 reason\<rparr>)"

definition noteTopologyPeerReadyFailure :: "string \<Rightarrow> unit tpm" where
  "noteTopologyPeerReadyFailure reason = (
     let safe = (if reason = [] then ''peer_not_ready'' else reason)
     in modify (\<lambda>s. s\<lparr>tp_fail_count := tp_fail_count s + 1,
          tp_fail_by_reason := (tp_fail_by_reason s)(safe \<mapsto>
            (case tp_fail_by_reason s safe of None \<Rightarrow> 1 | Some n \<Rightarrow> n + 1)),
          tp_fail_last := take 39 safe\<rparr>))"

section \<open>Stored snapshots\<close>

definition saveTopologySnapshotMeta :: "menv \<Rightarrow> u8 \<Rightarrow> TopologySnapshot \<Rightarrow> bool tpm" where
  "saveTopologySnapshotMeta E slot snapshot =
     (if \<not> storeReady E then ret True
      else case serializeTopologySnapshotBlob snapshot of
        None \<Rightarrow> ret False
      | Some blob \<Rightarrow> saveLocalMetaBlob E slot blob)"

definition loadTopologySnapshotMeta :: "menv \<Rightarrow> u8 \<Rightarrow> TopologySnapshot option tpm" where
  "loadTopologySnapshotMeta E slot =
     (if \<not> storeReady E then ret None
      else do {
        b \<leftarrow> loadLocalMetaBlob E slot;
        ret (case b of None \<Rightarrow> None | Some blob \<Rightarrow> deserializeTopologySnapshotBlob blob) })"

definition eraseTopologySnapshotMeta :: "menv \<Rightarrow> u8 \<Rightarrow> bool tpm" where
  "eraseTopologySnapshotMeta E slot = (if \<not> storeReady E then ret True else eraseLocalMetaBlob E slot)"

text \<open>One stored snapshot read back at the start: kept if it validates, erased if not.\<close>

definition restore_snapshot :: "menv \<Rightarrow> u8 \<Rightarrow> u8 \<Rightarrow> TopologySnapshot option tpm" where
  "restore_snapshot E slot state = do {
     r \<leftarrow> loadTopologySnapshotMeta E slot;
     case r of
       None \<Rightarrow> ret None
     | Some snapshot \<Rightarrow> do {
         profile \<leftarrow> gets g_local_profile_id;
         case validateTopologySnapshot profile (snapshot\<lparr>sn_state := state\<rparr>) of
           Inl e \<Rightarrow> do { _ \<leftarrow> eraseTopologySnapshotMeta E slot; ret None }
         | Inr valid \<Rightarrow> ret (Some valid) } }"

definition restoreTopologySnapshots :: "menv \<Rightarrow> unit tpm" where
  "restoreTopologySnapshots E = do {
     _ \<leftarrow> modify (\<lambda>s. s\<lparr>tp_staged := no_snapshot, tp_committed := no_snapshot, tp_has_staged := False,
            tp_has_committed := False, tp_attached := []\<rparr>);
     c \<leftarrow> restore_snapshot E kTopologyMetaSlotCommitted tsCommitted;
     _ \<leftarrow> (case c of None \<Rightarrow> ret ()
           | Some x \<Rightarrow> modify (\<lambda>s. s\<lparr>tp_committed := x, tp_has_committed := True\<rparr>));
     g \<leftarrow> restore_snapshot E kTopologyMetaSlotStaged tsStaged;
     (case g of None \<Rightarrow> ret ()
      | Some x \<Rightarrow> modify (\<lambda>s. s\<lparr>tp_staged := x, tp_has_staged := True\<rparr>)) }"

section \<open>Link keys\<close>

text \<open>\<open>deriveTopologySlotLmk_\<close>; \<open>master\<close> is what \<open>resolveTopologyMasterMac_\<close> finds.\<close>

definition deriveTopologySlotLmk ::
  "menv \<Rightarrow> mac \<Rightarrow> mac option \<Rightarrow> TopologySnapshot \<Rightarrow> TopologySlot \<Rightarrow> string + bytes" where
  "deriveTopologySlotLmk E local_m master snapshot slot =
     (if \<not> sl_enabled slot then Inl ''topology_slot_disabled''
      else if sl_peer slot = local_m then Inl ''topology_slot_self_peer''
      else case findTopologyGroupSeed snapshot (sl_group_id slot) of
        None \<Rightarrow> Inl ''topology_group_seed_missing''
      | Some seed \<Rightarrow>
          (case master of
             None \<Rightarrow> Inl ''topology_master_missing''
           | Some m \<Rightarrow>
               (case deriveLmkFromTopologySeed (m_hmac E) seed m local_m (sl_peer slot) (sl_group_id slot) of
                  None \<Rightarrow> Inl ''topology_lmk_derive_failed'' | Some k \<Rightarrow> Inr k)))"

text \<open>\<open>std::map\<close>: pairs sorted by key.\<close>

fun smap_put :: "'k::linorder \<Rightarrow> 'v \<Rightarrow> ('k \<times> 'v) list \<Rightarrow> ('k \<times> 'v) list" where
  "smap_put k v [] = [(k, v)]"
| "smap_put k v ((j, w) # xs) =
     (if k < j then (k, v) # (j, w) # xs
      else if k = j then (k, v) # xs
      else (j, w) # smap_put k v xs)"

text \<open>The choice of one key per peer, the one of its smallest group; shared by two methods.\<close>

type_synonym choice = "(mac \<times> bytes \<times> u8) list"

fun choose_keys :: "(TopologySlot \<Rightarrow> string + bytes) \<Rightarrow> TopologySlot list \<Rightarrow> choice \<Rightarrow> string + choice" where
  "choose_keys lmk_of [] c = Inr c"
| "choose_keys lmk_of (s # ss) c =
     (if \<not> sl_enabled s then choose_keys lmk_of ss c
      else case lmk_of s of
        Inl e \<Rightarrow> Inl e
      | Inr k \<Rightarrow>
          (case map_of c (sl_peer s) of
             None \<Rightarrow> choose_keys lmk_of ss (smap_put (sl_peer s) (k, sl_group_id s) c)
           | Some (k', g) \<Rightarrow>
               if sl_group_id s < g
                 then choose_keys lmk_of ss (smap_put (sl_peer s) (k, sl_group_id s) c)
               else if sl_group_id s = g \<and> k' \<noteq> k then Inl ''topology_lmk_conflict''
               else choose_keys lmk_of ss c))"

fun attach_all :: "menv \<Rightarrow> mac option \<Rightarrow> (mac \<times> bytes) list \<Rightarrow> bool tpm" where
  "attach_all E active [] = ret True"
| "attach_all E active ((m, k) # xs) =
     (if active = Some m then attach_all E active xs
      else do {
        ok \<leftarrow> m_ask E (WindowAttach m True k);
        if \<not> ok then ret False else attach_all E active xs })"

fun evict_old :: "menv \<Rightarrow> mac option \<Rightarrow> (mac \<times> bytes) list \<Rightarrow> mac list \<Rightarrow> bool tpm" where
  "evict_old E active desired [] = ret True"
| "evict_old E active desired (m # ms) =
     (if active = Some m \<or> map_of desired m \<noteq> None then evict_old E active desired ms
      else do {
        ok \<leftarrow> m_ask E (WindowEvict m);
        if \<not> ok then ret False else evict_old E active desired ms })"

definition applyTopologyDesiredPeers :: "menv \<Rightarrow> (mac \<times> bytes) list \<Rightarrow> outcome tpm" where
  "applyTopologyDesiredPeers E desired =
     (if local_role (m_cfg E) \<noteq> Slave then ret (Inr ())
      else if \<not> m_window E then ret (Inl ''topology_peer_window_missing'')
      else do {
        active \<leftarrow> gets (\<lambda>s. getPairedPeer (g_pairing s));
        a \<leftarrow> attach_all E active desired;
        if \<not> a then ret (Inl ''topology_attach_failed'')
        else do {
          old \<leftarrow> gets tp_attached;
          b \<leftarrow> evict_old E active desired old;
          if \<not> b then ret (Inl ''topology_evict_failed'')
          else do {
            _ \<leftarrow> modify (\<lambda>s. s\<lparr>tp_attached := filter (\<lambda>m. active \<noteq> Some m) (map fst desired)\<rparr>);
            ret (Inr ()) } } })"

definition slot_key :: "menv \<Rightarrow> TopologySnapshot \<Rightarrow> (TopologySlot \<Rightarrow> string + bytes) tpm" where
  "slot_key E snapshot =
     gets (\<lambda>s. deriveTopologySlotLmk E (g_local_mac s) (getPairedPeer (g_pairing s)) snapshot)"

definition materializeTopologyPeers :: "menv \<Rightarrow> TopologySnapshot \<Rightarrow> outcome tpm" where
  "materializeTopologyPeers E snapshot =
     (if local_role (m_cfg E) \<noteq> Slave then ret (Inr ())
      else do {
        lmk_of \<leftarrow> slot_key E snapshot;
        case choose_keys lmk_of (sn_slots snapshot) [] of
          Inl e \<Rightarrow> ret (Inl e)
        | Inr c \<Rightarrow> applyTopologyDesiredPeers E (map (\<lambda>(m, k, g). (m, k)) c) })"

section \<open>Stored link keys\<close>

record TopologyPersistedLmkEntry =
  le_peer :: mac
  le_lmk :: bytes
  le_group_id :: u8

record TopologyPersistedLmkMeta =
  lm_topology_version :: u32
  lm_topology_checksum :: u32
  lm_master_mac :: mac
  lm_local_mac :: mac
  lm_local_profile :: u8
  lm_entries :: "TopologyPersistedLmkEntry list"

definition lmk_entry_blob :: "mac \<times> bytes \<times> u8 \<Rightarrow> bytes" where
  "lmk_entry_blob = (\<lambda>(m, k, g). mac_bytes m @ k @ [g])"

definition lmk_blob :: "TopologySnapshot \<Rightarrow> mac \<Rightarrow> mac \<Rightarrow> u8 \<Rightarrow> choice \<Rightarrow> bytes" where
  "lmk_blob snapshot master local_m code c =
     [kTopologyLmkBlobVersionV2, of_nat (length c)] @ appendLe32 (sn_topology_version snapshot)
     @ appendLe32 (sn_checksum snapshot) @ mac_bytes master @ mac_bytes local_m @ [code]
     @ concat (map lmk_entry_blob c)"

fun read_lmk_entries :: "nat \<Rightarrow> bytes \<Rightarrow> TopologyPersistedLmkEntry list" where
  "read_lmk_entries 0 p = []"
| "read_lmk_entries (Suc n) p =
     \<lparr>le_peer = mac_of p, le_lmk = take 16 (drop 6 p), le_group_id = p ! 22\<rparr>
     # read_lmk_entries n (drop kTopologyLmkBlobEntrySize p)"

definition purge_lmk :: "menv \<Rightarrow> u32 \<Rightarrow> u32 \<Rightarrow> string \<Rightarrow> string \<Rightarrow> bool tpm" where
  "purge_lmk E p1 p2 done_text failed_text = do {
     erased \<leftarrow> eraseLocalMetaBlob E kTopologyMetaSlotLmk;
     _ \<leftarrow> emitTopologyRuntimeLog E (if erased then LogInfo else LogWarn) kLogEvtTopologyLmkNvsLifecycle
           p1 p2 (if erased then done_text else failed_text);
     ret erased }"

text \<open>
  \<open>loadTopologyLmkMeta_\<close>: a blob that is not of the expected size or version is erased. The reads
  behind the size check cannot fail.
\<close>

definition loadTopologyLmkMeta :: "menv \<Rightarrow> (string + TopologyPersistedLmkMeta) tpm" where
  "loadTopologyLmkMeta E =
     (if \<not> storeReady E then ret (Inl ''topology_lmk_nvs_disabled'')
      else do {
        b \<leftarrow> loadLocalMetaBlob E kTopologyMetaSlotLmk;
        case b of
          None \<Rightarrow> ret (Inl ''topology_lmk_nvs_miss'')
        | Some blob \<Rightarrow>
            if length blob < 2 then do {
              _ \<leftarrow> purge_lmk E (ucast kTopologyMetaSlotLmk) 0 ''topology_lmk_nvs_invalid_purged''
                    ''topology_lmk_nvs_invalid_purge_failed'';
              ret (Inl ''topology_lmk_nvs_invalid'') }
            else if blob ! 0 \<noteq> kTopologyLmkBlobVersionV2 then do {
              _ \<leftarrow> purge_lmk E (ucast kTopologyMetaSlotLmk) 0 ''topology_lmk_nvs_invalid_version_purged''
                    ''topology_lmk_nvs_invalid_version_purge_failed'';
              ret (Inl ''topology_lmk_nvs_version_invalid'') }
            else if length blob \<noteq> kTopologyLmkBlobHeaderSizeV2 + unat (blob ! 1) * kTopologyLmkBlobEntrySize
              then do {
              _ \<leftarrow> purge_lmk E (ucast kTopologyMetaSlotLmk) 0 ''topology_lmk_nvs_invalid_purged''
                    ''topology_lmk_nvs_invalid_purge_failed'';
              ret (Inl ''topology_lmk_nvs_invalid'') }
            else ret (Inr \<lparr>lm_topology_version = readLe32 (drop 2 blob),
              lm_topology_checksum = readLe32 (drop 6 blob), lm_master_mac = mac_of (drop 10 blob),
              lm_local_mac = mac_of (drop 16 blob), lm_local_profile = blob ! 22,
              lm_entries = read_lmk_entries (unat (blob ! 1)) (drop kTopologyLmkBlobHeaderSizeV2 blob)\<rparr>) })"

text \<open>\<open>validateTopologyLmkMeta_\<close>: \<open>None\<close> when the stored keys belong to this snapshot, master and node.\<close>

definition validateTopologyLmkMeta ::
  "mac \<Rightarrow> u16 \<Rightarrow> TopologyPersistedLmkMeta \<Rightarrow> TopologySnapshot \<Rightarrow> mac \<Rightarrow> string option" where
  "validateTopologyLmkMeta local_m profile meta snapshot paired_master =
     (if lm_entries meta = [] then Some ''topology_lmk_nvs_empty''
      else if lm_topology_version meta \<noteq> sn_topology_version snapshot
        then Some ''topology_lmk_nvs_version_mismatch''
      else if lm_topology_checksum meta \<noteq> sn_checksum snapshot
        then Some ''topology_lmk_nvs_checksum_mismatch''
      else if lm_master_mac meta \<noteq> paired_master then Some ''topology_lmk_nvs_master_mismatch''
      else if lm_local_mac meta \<noteq> local_m then Some ''topology_lmk_nvs_local_mismatch''
      else if lm_local_profile meta = 0 \<or> lm_local_profile meta \<noteq> profile_code profile
        then Some ''topology_lmk_nvs_profile_mismatch''
      else None)"

definition findSlotLmkFromNvs :: "TopologySlot \<Rightarrow> TopologyPersistedLmkMeta \<Rightarrow> bytes option" where
  "findSlotLmkFromNvs slot meta = map_option le_lmk (find_by le_peer (sl_peer slot) (lm_entries meta))"

fun desired_from_nvs ::
  "TopologyPersistedLmkMeta \<Rightarrow> TopologySlot list \<Rightarrow> (mac \<times> bytes) list \<Rightarrow> string + (mac \<times> bytes) list" where
  "desired_from_nvs meta [] d = Inr d"
| "desired_from_nvs meta (s # ss) d =
     (if \<not> sl_enabled s then desired_from_nvs meta ss d
      else case findSlotLmkFromNvs s meta of
        None \<Rightarrow> Inl ''topology_lmk_missing''
      | Some k \<Rightarrow>
          (case map_of d (sl_peer s) of
             None \<Rightarrow> desired_from_nvs meta ss (smap_put (sl_peer s) k d)
           | Some k' \<Rightarrow> if k' \<noteq> k then Inl ''topology_lmk_conflict'' else desired_from_nvs meta ss d))"

definition buildDesiredTopologyPeersFromNvs ::
  "TopologySnapshot \<Rightarrow> TopologyPersistedLmkMeta \<Rightarrow> string + (mac \<times> bytes) list" where
  "buildDesiredTopologyPeersFromNvs snapshot meta = desired_from_nvs meta (sn_slots snapshot) []"

definition log_lmk_meta :: "menv \<Rightarrow> TopologySnapshot \<Rightarrow> LibraryLogLevel \<Rightarrow> string \<Rightarrow> u32 \<Rightarrow> unit tpm" where
  "log_lmk_meta E snapshot level reason entry_count =
     emitTopologyRuntimeLog E level kLogEvtTopologyLmkNvsLifecycle entry_count
       (sn_topology_version snapshot) reason"

definition saveTopologyLmkMeta :: "menv \<Rightarrow> TopologySnapshot \<Rightarrow> bool tpm" where
  "saveTopologyLmkMeta E snapshot =
     (if \<not> storeReady E then ret True
      else do {
        s \<leftarrow> gets (\<lambda>s. (g_local_mac s, getPairedPeer (g_pairing s), g_local_profile_id s));
        let (local_m, paired, profile) = s;
        lmk_of \<leftarrow> slot_key E snapshot;
        case paired of
          None \<Rightarrow> do { _ \<leftarrow> log_lmk_meta E snapshot LogWarn ''topology_lmk_master_missing'' 0; ret False }
        | Some master \<Rightarrow>
            if profile_code profile = 0 then do {
              _ \<leftarrow> log_lmk_meta E snapshot LogWarn ''topology_lmk_local_profile_missing'' 0; ret False }
            else case choose_keys lmk_of (sn_slots snapshot) [] of
              Inl e \<Rightarrow> do { _ \<leftarrow> log_lmk_meta E snapshot LogWarn e 0; ret False }
            | Inr c \<Rightarrow>
                if c = [] then do {
                  erased \<leftarrow> eraseLocalMetaBlob E kTopologyMetaSlotLmk;
                  _ \<leftarrow> log_lmk_meta E snapshot (if erased then LogInfo else LogWarn)
                        (if erased then ''topology_lmk_nvs_purge_old''
                         else ''topology_lmk_nvs_purge_old_failed'') 0;
                  ret erased }
                else if length c > 255 then do {
                  _ \<leftarrow> log_lmk_meta E snapshot LogWarn ''topology_lmk_nvs_too_many_entries'' 0; ret False }
                else do {
                  saved \<leftarrow> saveLocalMetaBlob E kTopologyMetaSlotLmk
                            (lmk_blob snapshot master local_m (profile_code profile) c);
                  _ \<leftarrow> log_lmk_meta E snapshot (if saved then LogInfo else LogWarn)
                        (if saved then ''topology_lmk_nvs_write_ok'' else ''topology_lmk_nvs_write_fail'')
                        (of_nat (length c));
                  ret saved } })"

section \<open>Staging and committing\<close>

definition differs :: "bool \<Rightarrow> TopologySnapshot \<Rightarrow> TopologySnapshot \<Rightarrow> bool" where
  "differs has old new \<longleftrightarrow> \<not> has \<or> sn_topology_version old \<noteq> sn_topology_version new
     \<or> sn_checksum old \<noteq> sn_checksum new"

definition stageTopology :: "menv \<Rightarrow> TopologySnapshot \<Rightarrow> outcome tpm" where
  "stageTopology E snapshot = do {
     s \<leftarrow> gets id;
     case validateTopologySnapshot (g_local_profile_id s) (snapshot\<lparr>sn_state := tsStaged\<rparr>) of
       Inl e \<Rightarrow> ret (Inl e)
     | Inr normalized \<Rightarrow> do {
         _ \<leftarrow> whenM (local_role (m_cfg E) = Slave \<and> storeReady E
                \<and> (differs (tp_has_staged s) (tp_staged s) normalized
                    \<or> differs (tp_has_committed s) (tp_committed s) normalized)) (do {
               _ \<leftarrow> purge_lmk E (sn_topology_version normalized) (ucast (sn_enabled_slot_count normalized))
                     ''topology_lmk_nvs_purge_old'' ''topology_lmk_nvs_purge_old_failed'';
               ret () });
         _ \<leftarrow> modify (\<lambda>s. s\<lparr>tp_staged := normalized, tp_has_staged := True\<rparr>);
         saved \<leftarrow> saveTopologySnapshotMeta E kTopologyMetaSlotStaged normalized;
         if \<not> saved then do {
           _ \<leftarrow> modify (\<lambda>u. u\<lparr>tp_staged := tp_staged s, tp_has_staged := tp_has_staged s\<rparr>);
           ret (Inl ''topology_persist_failed'') }
         else ret (Inr ()) } }"

definition restore_old_lmk_meta :: "menv \<Rightarrow> bytes option \<Rightarrow> unit tpm" where
  "restore_old_lmk_meta E old_blob =
     (if local_role (m_cfg E) \<noteq> Slave \<or> \<not> storeReady E then ret ()
      else case old_blob of
        Some (b # bs) \<Rightarrow> do { _ \<leftarrow> saveLocalMetaBlob E kTopologyMetaSlotLmk (b # bs); ret () }
      | _ \<Rightarrow> do { _ \<leftarrow> eraseLocalMetaBlob E kTopologyMetaSlotLmk; ret () })"

text \<open>Going back to the peers of the snapshot that was committed before; best effort.\<close>

definition roll_back_peers :: "menv \<Rightarrow> topo \<Rightarrow> bytes option \<Rightarrow> unit tpm" where
  "roll_back_peers E old old_blob = do {
     _ \<leftarrow> modify (\<lambda>s. s\<lparr>tp_attached := tp_attached old\<rparr>);
     _ \<leftarrow> whenM (tp_has_committed old) (do {
           _ \<leftarrow> materializeTopologyPeers E (tp_committed old); ret () });
     restore_old_lmk_meta E old_blob }"

text \<open>The peers of the snapshot at the radio and their keys in the store, for a slave.\<close>

definition apply_peers :: "menv \<Rightarrow> topo \<Rightarrow> bytes option \<Rightarrow> TopologySnapshot \<Rightarrow> outcome tpm" where
  "apply_peers E old old_blob normalized =
     (if local_role (m_cfg E) \<noteq> Slave then ret (Inr ())
      else do {
        m \<leftarrow> materializeTopologyPeers E normalized;
        case m of
          Inl e \<Rightarrow> do {
            _ \<leftarrow> modify (\<lambda>s. s\<lparr>tp_attached := tp_attached old\<rparr>);
            ret (Inl ''topology_apply_failed'') }
        | Inr _ \<Rightarrow> do {
            saved \<leftarrow> saveTopologyLmkMeta E normalized;
            if \<not> saved then do {
              _ \<leftarrow> roll_back_peers E old old_blob;
              ret (Inl ''topology_persist_failed'') }
            else ret (Inr ()) } })"

definition commitStagedTopology :: "menv \<Rightarrow> outcome tpm" where
  "commitStagedTopology E = do {
     s \<leftarrow> gets id;
     if \<not> tp_has_staged s
       then ret (if tp_has_committed s then Inr () else Inl ''topology_not_staged'')
     else case validateTopologySnapshot (g_local_profile_id s)
                 ((tp_staged s)\<lparr>sn_state := tsCommitted, sn_checksum := 0\<rparr>) of
       Inl e \<Rightarrow> ret (Inl e)
     | Inr normalized \<Rightarrow> do {
         old_blob \<leftarrow> (if local_role (m_cfg E) = Slave \<and> storeReady E
                       then loadLocalMetaBlob E kTopologyMetaSlotLmk else ret None);
         a \<leftarrow> apply_peers E s old_blob normalized;
         case a of
           Inl e \<Rightarrow> ret (Inl e)
         | Inr _ \<Rightarrow> do {
             _ \<leftarrow> modify (\<lambda>u. u\<lparr>tp_committed := normalized, tp_has_committed := True\<rparr>);
             saved \<leftarrow> saveTopologySnapshotMeta E kTopologyMetaSlotCommitted normalized;
             if \<not> saved then do {
               _ \<leftarrow> modify (\<lambda>u. u\<lparr>tp_committed := tp_committed s, tp_has_committed := tp_has_committed s\<rparr>);
               _ \<leftarrow> whenM (local_role (m_cfg E) = Slave) (roll_back_peers E s old_blob);
               ret (Inl ''topology_persist_failed'') }
             else do {
               _ \<leftarrow> modify (\<lambda>u. u\<lparr>tp_staged := no_snapshot, tp_has_staged := False\<rparr>);
               _ \<leftarrow> eraseTopologySnapshotMeta E kTopologyMetaSlotStaged;
               ret (Inr ()) } } } }"

definition clearStagedTopology :: "menv \<Rightarrow> bool tpm" where
  "clearStagedTopology E = do {
     _ \<leftarrow> modify (\<lambda>s. s\<lparr>tp_staged := no_snapshot, tp_has_staged := False\<rparr>);
     eraseTopologySnapshotMeta E kTopologyMetaSlotStaged }"

definition getTopologySnapshot :: "u8 \<Rightarrow> topo \<Rightarrow> TopologySnapshot option" where
  "getTopologySnapshot state s =
     (if state = tsStaged then (if tp_has_staged s then Some (tp_staged s) else None)
      else if state = tsCommitted then (if tp_has_committed s then Some (tp_committed s) else None)
      else None)"

section \<open>A peer made ready\<close>

definition fail_peer_ready :: "menv \<Rightarrow> TopologySlot \<Rightarrow> string \<Rightarrow> outcome tpm" where
  "fail_peer_ready E slot reason = do {
     _ \<leftarrow> noteTopologyPeerReadyFailure reason;
     n \<leftarrow> gets tp_fail_count;
     _ \<leftarrow> emitTopologyRuntimeLog E LogWarn kLogEvtTopologyPeerReady (scast (sl_relative_index slot)) n reason;
     ret (Inl (if reason = [] then ''peer_not_ready'' else reason)) }"

text \<open>The stored key of a slot, when the stored keys are those of the committed snapshot.\<close>

definition lmk_from_nvs :: "menv \<Rightarrow> TopologySlot \<Rightarrow> mac \<Rightarrow> (string + bytes) tpm" where
  "lmk_from_nvs E slot paired_master = do {
     m \<leftarrow> loadTopologyLmkMeta E;
     s \<leftarrow> gets id;
     ret (case m of
        Inl e \<Rightarrow> Inl e
      | Inr meta \<Rightarrow>
          (case validateTopologyLmkMeta (g_local_mac s) (g_local_profile_id s) meta (tp_committed s) paired_master of
             Some e \<Rightarrow> Inl e
           | None \<Rightarrow> (case findSlotLmkFromNvs slot meta of None \<Rightarrow> Inl [] | Some k \<Rightarrow> Inr k))) }"

definition log_lmk_slot :: "menv \<Rightarrow> TopologySlot \<Rightarrow> LibraryLogLevel \<Rightarrow> string \<Rightarrow> unit tpm" where
  "log_lmk_slot E slot level reason = do {
     v \<leftarrow> gets (\<lambda>s. sn_topology_version (tp_committed s));
     emitTopologyRuntimeLog E level kLogEvtTopologyLmkNvsLifecycle (scast (sl_relative_index slot)) v reason }"

definition attach_slot :: "menv \<Rightarrow> TopologySlot \<Rightarrow> bytes \<Rightarrow> bool \<Rightarrow> outcome tpm" where
  "attach_slot E slot lmk fallback = do {
     ok \<leftarrow> m_ask E (WindowAttach (sl_peer slot) True lmk);
     if \<not> ok then fail_peer_ready E slot ''peer_attach_failed''
     else do {
       c \<leftarrow> gets tp_committed;
       _ \<leftarrow> whenM fallback (do { _ \<leftarrow> saveTopologyLmkMeta E c; ret () });
       _ \<leftarrow> emitTopologyRuntimeLog E LogInfo kLogEvtTopologyPeerReady (scast (sl_relative_index slot))
             (if fallback then 1 else 0)
             (if fallback then ''topology_trigger_peer_ready_ok_fallback'' else ''topology_trigger_peer_ready_ok'');
       ret (Inr ()) } }"

definition ensureTopologyPeerReadyForSlot :: "menv \<Rightarrow> TopologySlot \<Rightarrow> outcome tpm" where
  "ensureTopologyPeerReadyForSlot E slot =
     (if local_role (m_cfg E) \<noteq> Slave then ret (Inr ())
      else if \<not> sl_enabled slot then fail_peer_ready E slot ''index_unmapped''
      else if \<not> m_window E then fail_peer_ready E slot ''peer_not_ready''
      else do {
        s \<leftarrow> gets id;
        case getPairedPeer (g_pairing s) of
          None \<Rightarrow> fail_peer_ready E slot ''pair_missing''
        | Some master \<Rightarrow>
            if master = sl_peer slot then ret (Inr ())
            else if \<not> tp_has_committed s then fail_peer_ready E slot ''topology_missing''
            else do {
              r \<leftarrow> lmk_from_nvs E slot master;
              case r of
                Inr k \<Rightarrow> do {
                  _ \<leftarrow> log_lmk_slot E slot LogInfo ''topology_lmk_nvs_hit'';
                  attach_slot E slot k False }
              | Inl e \<Rightarrow> do {
                  _ \<leftarrow> log_lmk_slot E slot LogWarn (if e = [] then ''topology_lmk_nvs_miss'' else e);
                  lmk_of \<leftarrow> slot_key E (tp_committed s);
                  case lmk_of slot of
                    Inl d \<Rightarrow> fail_peer_ready E slot (if d = [] then ''topology_lmk_missing'' else d)
                  | Inr k \<Rightarrow> do {
                      _ \<leftarrow> log_lmk_slot E slot LogInfo ''topology_lmk_nvs_fallback_derive'';
                      attach_slot E slot k True } } } })"

section \<open>Restoring the peers with the link\<close>

text \<open>
  The topology part of \<open>restorePairedLink\<close>, for a slave whose link to \<open>master\<close> has just been
  restored: keys from the store if they fit, derived again if not.
\<close>

definition log_restore :: "menv \<Rightarrow> LibraryLogLevel \<Rightarrow> u16 \<Rightarrow> string \<Rightarrow> unit tpm" where
  "log_restore E level event_id reason = do {
     c \<leftarrow> gets tp_committed;
     emitTopologyRuntimeLog E level event_id (ucast (sn_enabled_slot_count c)) (sn_topology_version c) reason }"

definition desired_from_store :: "menv \<Rightarrow> mac \<Rightarrow> (string + (mac \<times> bytes) list) tpm" where
  "desired_from_store E master = do {
     m \<leftarrow> loadTopologyLmkMeta E;
     s \<leftarrow> gets id;
     ret (case m of
        Inl e \<Rightarrow> Inl e
      | Inr meta \<Rightarrow>
          (case validateTopologyLmkMeta (g_local_mac s) (g_local_profile_id s) meta (tp_committed s) master of
             Some e \<Rightarrow> Inl e
           | None \<Rightarrow> buildDesiredTopologyPeersFromNvs (tp_committed s) meta)) }"

definition restore_from_store :: "menv \<Rightarrow> mac \<Rightarrow> outcome tpm" where
  "restore_from_store E master = do {
     d \<leftarrow> desired_from_store E master;
     case d of
       Inl e \<Rightarrow> ret (Inl e)
     | Inr desired \<Rightarrow> do {
         a \<leftarrow> applyTopologyDesiredPeers E desired;
         case a of
           Inl e \<Rightarrow> ret (Inl e)
         | Inr _ \<Rightarrow> do {
             _ \<leftarrow> setTopologyRestoreStatus kTopologyRestoreModeNvs ''topology_lmk_nvs_hit'';
             _ \<leftarrow> log_restore E LogInfo kLogEvtTopologyLmkRestore ''topology_lmk_nvs_hit'';
             ret (Inr ()) } } }"

definition restore_by_deriving :: "menv \<Rightarrow> string \<Rightarrow> outcome tpm" where
  "restore_by_deriving E error = do {
     _ \<leftarrow> log_restore E LogWarn kLogEvtTopologyLmkNvsLifecycle (if error = [] then ''topology_lmk_nvs_miss'' else error);
     c \<leftarrow> gets tp_committed;
     m \<leftarrow> materializeTopologyPeers E c;
     case m of
       Inr _ \<Rightarrow> do {
         _ \<leftarrow> setTopologyRestoreStatus kTopologyRestoreModeDerived ''topology_lmk_nvs_fallback_derive'';
         _ \<leftarrow> log_restore E LogInfo kLogEvtTopologyLmkRestore ''topology_lmk_nvs_fallback_derive'';
         saved \<leftarrow> saveTopologyLmkMeta E c;
         _ \<leftarrow> whenM (\<not> saved) (log_restore E LogWarn kLogEvtTopologyLmkNvsLifecycle ''topology_lmk_nvs_write_fail'');
         ret (Inr ()) }
     | Inl d \<Rightarrow> do {
         let reason = (if d \<noteq> [] then d else if error = [] then ''topology_lmk_restore_fail'' else error);
         _ \<leftarrow> setTopologyRestoreStatus kTopologyRestoreModeFailed reason;
         _ \<leftarrow> log_restore E LogWarn kLogEvtTopologyLmkRestore reason;
         ret (Inl reason) } }"

definition restoreTopologyLink :: "menv \<Rightarrow> mac \<Rightarrow> unit tpm" where
  "restoreTopologyLink E master =
     (if local_role (m_cfg E) \<noteq> Slave then ret ()
      else do {
        _ \<leftarrow> setTopologyRestoreStatus kTopologyRestoreModeNone ''topology_not_committed'';
        has \<leftarrow> gets tp_has_committed;
        if \<not> has then ret ()
        else do {
          r \<leftarrow> restore_from_store E master;
          case r of
            Inr _ \<Rightarrow> ret ()
          | Inl e \<Rightarrow> do { _ \<leftarrow> restore_by_deriving E e; ret () } } })"

end
