(* ===== verification/Triggers.thy ===== *)
theory Triggers
  imports Topology
begin

text \<open>
  The lateral triggers of \<open>manager_topology_runtime.cpp\<close>: sending one or a batch to the peer of a
  committed slot, and receiving them, with the authorization by the committed snapshot, the
  window of sequence numbers already seen, the event, the notification of the hooks and the
  acknowledgement. A handler returns whether it took the frame.
\<close>

section \<open>Sending\<close>

record TopologyTriggerRequest =
  tq_target_index :: u8
  tq_direction :: u8
  tq_delay_ms :: u16
  tq_hold_ms :: u16
  tq_source_virtual_index :: u8

record TopologyTriggerBatchEntry =
  te_target_index :: u8
  te_delay_ms :: u16
  te_hold_ms :: u16

record TopologyTriggerBatchRequest =
  bq_direction :: u8
  bq_source_virtual_index :: u8
  bq_entries :: "TopologyTriggerBatchEntry list"

definition resolve_committed :: "topo \<Rightarrow> u8 \<Rightarrow> string + TopologySlot" where
  "resolve_committed s target_idx = resolveTopologyTargetIndex (getTopologySnapshot tsCommitted s) target_idx"

text \<open>The number taken for a trigger; the next one skips 0.\<close>

definition take_trigger_seq :: "u16 tpm" where
  "take_trigger_seq = do {
     n \<leftarrow> gets tp_trigger_seq;
     _ \<leftarrow> modify (\<lambda>s. s\<lparr>tp_trigger_seq := (if n + 1 = 0 then 1 else n + 1)\<rparr>);
     ret n }"

definition non_empty :: "string \<Rightarrow> string \<Rightarrow> string" where
  "non_empty e fallback = (if e = [] then fallback else e)"

text \<open>The end of both senders: the typed send, and the sequence number if it succeeded.\<close>

definition send_trigger :: "menv \<Rightarrow> mac \<Rightarrow> MessageType \<Rightarrow> bytes \<Rightarrow> u32 \<Rightarrow> u16 \<Rightarrow> (string + u16) tpm" where
  "send_trigger E peer type payload send_corr seq = do {
     r \<leftarrow> sendTyped E peer type payload send_corr 0 0 0;
     ret (if fst r then Inr seq else Inl (non_empty (snd r) ''send_failed'')) }"

definition sendTopologyTrigger :: "menv \<Rightarrow> TopologyTriggerRequest \<Rightarrow> u32 \<Rightarrow> (string + u16) tpm" where
  "sendTopologyTrigger E q corr_id = do {
     s \<leftarrow> gets id;
     if \<not> tp_has_committed s then ret (Inl ''topology_missing'')
     else if tq_direction q \<noteq> 1 \<and> tq_direction q \<noteq> 2 then ret (Inl ''invalid_direction'')
     else if tq_source_virtual_index q \<noteq> 0xFF \<and> tq_source_virtual_index q > 0x0F
       then ret (Inl ''invalid_source_virtual_index'')
     else if g_local_profile_id s = kProfileUnknown then ret (Inl ''local_profile_unknown'')
     else case resolve_committed s (tq_target_index q) of
       Inl e \<Rightarrow> ret (Inl e)
     | Inr slot \<Rightarrow> do {
         seq \<leftarrow> take_trigger_seq;
         let src_role = profile_code (g_local_profile_id s);
         if \<not> isTopologyRolePairAllowed src_role (sl_peer_role slot) then ret (Inl ''invalid_role_pair'')
         else do {
           r \<leftarrow> ensureTopologyPeerReadyForSlot E slot;
           case r of
             Inl e \<Rightarrow> ret (Inl (non_empty e ''peer_not_ready''))
           | Inr _ \<Rightarrow>
               send_trigger E (sl_peer slot) TopologyTrigger
                 (buildTopologyTriggerPayload
                   \<lparr>tt_topology_version = sn_topology_version (tp_committed s), tt_seq = seq,
                    tt_src_role = src_role, tt_src_vid = tq_source_virtual_index q,
                    tt_dst_role = sl_peer_role slot, tt_dst_vid = sl_peer_virtual_index slot,
                    tt_direction = tq_direction q, tt_delay_ms = tq_delay_ms q,
                    tt_hold_ms = tq_hold_ms q\<rparr>)
                 (if corr_id = 0
                    then 0x54000000 OR (push_bit 16 (ucast (tq_target_index q))) OR ucast seq
                    else corr_id) seq } } }"

text \<open>The loop over the entries of a batch: all of them lead to one peer.\<close>

fun batch_items ::
  "topo \<Rightarrow> TopologyTriggerBatchEntry list \<Rightarrow> TopologySlot option \<Rightarrow> TopologyTriggerBatchItem list
   \<Rightarrow> string + (TopologySlot option \<times> TopologyTriggerBatchItem list)" where
  "batch_items s [] first items = Inr (first, items)"
| "batch_items s (e # es) first items =
     (if te_target_index e = 0 then Inl ''invalid_target_index''
      else case resolve_committed s (te_target_index e) of
        Inl m \<Rightarrow> Inl m
      | Inr slot \<Rightarrow>
          let item = \<lparr>ti_dst_vid = sl_peer_virtual_index slot, ti_target_index = te_target_index e,
                      ti_delay_ms = te_delay_ms e, ti_hold_ms = te_hold_ms e\<rparr>
          in (case first of
                None \<Rightarrow> batch_items s es (Some slot) (items @ [item])
              | Some f \<Rightarrow>
                  if sl_peer slot \<noteq> sl_peer f \<or> sl_peer_role slot \<noteq> sl_peer_role f
                    then Inl ''batch_multi_peer''
                  else batch_items s es first (items @ [item])))"

definition sendTopologyTriggerBatch :: "menv \<Rightarrow> TopologyTriggerBatchRequest \<Rightarrow> u32 \<Rightarrow> (string + u16) tpm" where
  "sendTopologyTriggerBatch E q corr_id = do {
     s \<leftarrow> gets id;
     if \<not> tp_has_committed s then ret (Inl ''topology_missing'')
     else if bq_entries q = [] then ret (Inl ''batch_empty'')
     else if bq_direction q \<noteq> 1 \<and> bq_direction q \<noteq> 2 then ret (Inl ''invalid_direction'')
     else if bq_source_virtual_index q \<noteq> 0xFF \<and> bq_source_virtual_index q > 0x0F
       then ret (Inl ''invalid_source_virtual_index'')
     else if g_local_profile_id s = kProfileUnknown then ret (Inl ''local_profile_unknown'')
     else case batch_items s (bq_entries q) None [] of
       Inl e \<Rightarrow> ret (Inl e)
     | Inr (None, _) \<Rightarrow> ret (Inl ''batch_empty'')
     | Inr (Some first, items) \<Rightarrow> do {
         let src_role = profile_code (g_local_profile_id s);
         if items = [] then ret (Inl ''batch_empty'')
         else if \<not> isTopologyRolePairAllowed src_role (sl_peer_role first) then ret (Inl ''invalid_role_pair'')
         else do {
           r \<leftarrow> ensureTopologyPeerReadyForSlot E first;
           case r of
             Inl e \<Rightarrow> ret (Inl (non_empty e ''peer_not_ready''))
           | Inr _ \<Rightarrow> do {
               seq \<leftarrow> take_trigger_seq;
               case buildTopologyTriggerBatchPayload
                      \<lparr>tb_topology_version = sn_topology_version (tp_committed s), tb_seq = seq,
                       tb_src_role = src_role, tb_src_vid = bq_source_virtual_index q,
                       tb_dst_role = sl_peer_role first, tb_direction = bq_direction q,
                       tb_items = items\<rparr> of
                 None \<Rightarrow> ret (Inl ''trigger_encode_failed'')
               | Some payload \<Rightarrow>
                   send_trigger E (sl_peer first) TopologyTriggerBatch payload
                     (if corr_id = 0 then 0x5A000000 OR ucast seq else corr_id) seq } } } }"

section \<open>Authorization and duplicates\<close>

definition authorizes :: "mac \<Rightarrow> u8 \<Rightarrow> u8 \<Rightarrow> u8 \<Rightarrow> TopologySlot \<Rightarrow> bool" where
  "authorizes from src_role src_vid dst_vid slot \<longleftrightarrow> sl_enabled slot \<and> sl_peer slot = from
     \<and> sl_peer_role slot = src_role \<and> sl_peer_virtual_index slot = src_vid
     \<and> sl_local_virtual_index slot = dst_vid"

definition findTopologyAuthorizedSourceSlot ::
  "topo \<Rightarrow> mac \<Rightarrow> u8 \<Rightarrow> u8 \<Rightarrow> u8 \<Rightarrow> TopologySlot option" where
  "findTopologyAuthorizedSourceSlot s from src_role src_vid dst_vid =
     (if \<not> tp_has_committed s then None
      else List.find (authorizes from src_role src_vid dst_vid) (sn_slots (tp_committed s)))"

fun pruneTopologyTriggerDedup :: "u32 \<Rightarrow> TopologyTriggerDedupEntry list \<Rightarrow> TopologyTriggerDedupEntry list" where
  "pruneTopologyTriggerDedup now [] = []"
| "pruneTopologyTriggerDedup now (e # es) =
     (if now - dd_seen_ms e \<le> kTopologyTriggerDedupWindowMs
         \<and> length (e # es) \<le> kTopologyTriggerDedupMaxEntries then e # es
      else pruneTopologyTriggerDedup now es)"

definition same_trigger :: "mac \<Rightarrow> u8 \<Rightarrow> u8 \<Rightarrow> u16 \<Rightarrow> TopologyTriggerDedupEntry \<Rightarrow> bool" where
  "same_trigger from src_role src_vid seq e \<longleftrightarrow> dd_source e = from \<and> dd_src_role e = src_role
     \<and> dd_src_vid e = src_vid \<and> dd_seq e = seq"

definition isTopologyTriggerDuplicate :: "mac \<Rightarrow> u8 \<Rightarrow> u8 \<Rightarrow> u16 \<Rightarrow> bool tpm" where
  "isTopologyTriggerDuplicate from src_role src_vid seq = do {
     now \<leftarrow> gets g_now_ms;
     _ \<leftarrow> modify (\<lambda>s. s\<lparr>tp_dedup := pruneTopologyTriggerDedup now (tp_dedup s)\<rparr>);
     seen \<leftarrow> gets tp_dedup;
     if list_ex (same_trigger from src_role src_vid seq) seen then ret True
     else do {
       _ \<leftarrow> modify (\<lambda>s. s\<lparr>tp_dedup := pruneTopologyTriggerDedup now
              (seen @ [\<lparr>dd_source = from, dd_src_role = src_role, dd_src_vid = src_vid,
                        dd_seq = seq, dd_seen_ms = now\<rparr>])\<rparr>);
       ret False } }"

section \<open>Receiving a trigger\<close>

text \<open>What the chain of conditions decides: accepted, duplicate, reason.\<close>

type_synonym verdict = "bool \<times> bool \<times> u8"

definition vid_bad :: "u8 \<Rightarrow> bool" where
  "vid_bad vid \<longleftrightarrow> vid \<noteq> 0xFF \<and> vid > 0x0F"

definition decide_trigger :: "mac \<Rightarrow> TopologyTriggerPayload \<Rightarrow> verdict tpm" where
  "decide_trigger from t = do {
     s \<leftarrow> gets id;
     let code = profile_code (g_local_profile_id s);
     if \<not> tp_has_committed s then ret (False, False, kTopologyTriggerReasonStaleTopology)
     else if g_local_profile_id s = kProfileUnknown \<or> tt_dst_role t \<noteq> code
       then ret (False, False, kTopologyTriggerReasonUnauthorizedPeer)
     else if \<not> isTopologyRolePairAllowed code (tt_src_role t)
       then ret (False, False, kTopologyTriggerReasonUnauthorizedPeer)
     else if vid_bad (tt_src_vid t) \<or> vid_bad (tt_dst_vid t)
       then ret (False, False, kTopologyTriggerReasonBadIndex)
     else if tt_direction t \<noteq> 1 \<and> tt_direction t \<noteq> 2
       then ret (False, False, kTopologyTriggerReasonRangeRejected)
     else if findTopologyAuthorizedSourceSlot s from (tt_src_role t) (tt_src_vid t) (tt_dst_vid t) = None
       then ret (False, False, kTopologyTriggerReasonUnauthorizedPeer)
     else do {
       d \<leftarrow> isTopologyTriggerDuplicate from (tt_src_role t) (tt_src_vid t) (tt_seq t);
       ret (True, d, kTopologyTriggerReasonOk) } }"

text \<open>The event of a verdict: its kind, its text and its severity.\<close>

definition verdict_event :: "Event \<Rightarrow> verdict \<Rightarrow> string \<Rightarrow> Event" where
  "verdict_event e v name = (case v of (accepted, duplicate, reason) \<Rightarrow>
     let e = e\<lparr>ev_reason := reason,
               ev_result := (if accepted then kTopologyTriggerResultAccepted else kTopologyTriggerResultRejected)\<rparr>
     in if accepted \<and> duplicate then e\<lparr>ev_type := TopologyTriggerDuplicate, ev_message := name @ '' duplicate''\<rparr>
        else if accepted then e\<lparr>ev_type := TopologyTriggerReceived, ev_message := name @ '' accepted''\<rparr>
        else e\<lparr>ev_type := TopologyTriggerRejected, ev_message := name @ '' rejected'', ev_severity := reason\<rparr>)"

definition trigger_event :: "mac \<Rightarrow> u32 \<Rightarrow> TopologyTriggerPayload \<Rightarrow> verdict \<Rightarrow> Event" where
  "trigger_event from corr_id t v = verdict_event
     ((new_event TopologyTriggerRejected)\<lparr>ev_peer := from, ev_correlation_id := corr_id,
        ev_event_id := tt_seq t, ev_severity := tt_direction t, ev_value := ucast (tt_hold_ms t),
        ev_src_role := tt_src_role t, ev_src_vid := tt_src_vid t, ev_dst_role := tt_dst_role t,
        ev_dst_vid := tt_dst_vid t, ev_direction := tt_direction t, ev_delay_ms := tt_delay_ms t,
        ev_hold_ms := tt_hold_ms t\<rparr>) v ''topology trigger''"

definition trigger_note :: "mac \<Rightarrow> TopologyTriggerPayload \<Rightarrow> TopologyTriggerNotification" where
  "trigger_note from t = \<lparr>tn_source = from, tn_seq = tt_seq t, tn_src_role = tt_src_role t,
     tn_src_vid = tt_src_vid t, tn_dst_role = tt_dst_role t, tn_dst_vid = tt_dst_vid t,
     tn_direction = tt_direction t, tn_delay_ms = tt_delay_ms t, tn_hold_ms = tt_hold_ms t\<rparr>"

definition ack_version :: "topo \<Rightarrow> u32 \<Rightarrow> u32" where
  "ack_version s received = (if tp_has_committed s then sn_topology_version (tp_committed s) else received)"

definition verdict_ack :: "TopologyTriggerAckPayload \<Rightarrow> verdict \<Rightarrow> TopologyTriggerAckPayload" where
  "verdict_ack a v = (case v of (accepted, _, reason) \<Rightarrow>
     a\<lparr>ta_result := (if accepted then kTopologyTriggerResultAccepted else kTopologyTriggerResultRejected),
       ta_reason := (if accepted then kTopologyTriggerReasonOk else reason)\<rparr>)"

definition trigger_ack :: "topo \<Rightarrow> TopologyTriggerPayload \<Rightarrow> verdict \<Rightarrow> TopologyTriggerAckPayload" where
  "trigger_ack s t v = verdict_ack
     \<lparr>ta_topology_version = ack_version s (tt_topology_version t), ta_seq = tt_seq t,
      ta_src_role = profile_code (g_local_profile_id s), ta_src_vid = tt_dst_vid t,
      ta_dst_role = tt_src_role t, ta_dst_vid = tt_src_vid t, ta_ack_seq = tt_seq t,
      ta_result = 0, ta_reason = 0\<rparr> v"

definition send_ack :: "menv \<Rightarrow> mac \<Rightarrow> u32 \<Rightarrow> TopologyTriggerAckPayload \<Rightarrow> unit tpm" where
  "send_ack E from corr_id a = do {
     _ \<leftarrow> sendTyped E from TopologyTriggerAck (buildTopologyTriggerAckPayload a) corr_id 0 0 0;
     ret () }"

definition onRxTopologyTrigger :: "menv \<Rightarrow> mac \<Rightarrow> FrameHeader \<Rightarrow> buf \<Rightarrow> bool tpm" where
  "onRxTopologyTrigger E from h payload =
     (if local_role (m_cfg E) \<noteq> Slave then ret False
      else case parseTopologyTriggerPayload payload of
        None \<Rightarrow> ret False
      | Some t \<Rightarrow> do {
          _ \<leftarrow> m_updateLiveness from;
          v \<leftarrow> decide_trigger from t;
          _ \<leftarrow> m_event E (trigger_event from (fh_correlation_id h) t v);
          _ \<leftarrow> whenM (fst v \<and> \<not> fst (snd v) \<and> m_hooks E) (m_do (HookTopologyTrigger (trigger_note from t)));
          s \<leftarrow> gets id;
          _ \<leftarrow> send_ack E from (fh_correlation_id h) (trigger_ack s t v);
          _ \<leftarrow> blinkForMessage E (fh_type h);
          ret True })"

section \<open>Receiving a batch\<close>

text \<open>The loop over the items: the reason of the first bad one, or the slots of all.\<close>

fun authorize_items ::
  "topo \<Rightarrow> mac \<Rightarrow> u8 \<Rightarrow> u8 \<Rightarrow> TopologyTriggerBatchItem list \<Rightarrow> TopologySlot list \<Rightarrow> u8 \<times> TopologySlot list" where
  "authorize_items s from src_role src_vid [] slots = (kTopologyTriggerReasonOk, slots)"
| "authorize_items s from src_role src_vid (i # is) slots =
     (if vid_bad (ti_dst_vid i) \<or> ti_target_index i = 0 then (kTopologyTriggerReasonBadIndex, slots)
      else case findTopologyAuthorizedSourceSlot s from src_role src_vid (ti_dst_vid i) of
        None \<Rightarrow> (kTopologyTriggerReasonUnauthorizedPeer, slots)
      | Some slot \<Rightarrow> authorize_items s from src_role src_vid is (slots @ [slot]))"

definition decide_batch :: "mac \<Rightarrow> TopologyTriggerBatchPayload \<Rightarrow> (verdict \<times> TopologySlot list) tpm" where
  "decide_batch from t = do {
     s \<leftarrow> gets id;
     let code = profile_code (g_local_profile_id s);
     if \<not> tp_has_committed s then ret ((False, False, kTopologyTriggerReasonStaleTopology), [])
     else if g_local_profile_id s = kProfileUnknown \<or> tb_dst_role t \<noteq> code
       then ret ((False, False, kTopologyTriggerReasonUnauthorizedPeer), [])
     else if \<not> isTopologyRolePairAllowed code (tb_src_role t)
       then ret ((False, False, kTopologyTriggerReasonUnauthorizedPeer), [])
     else if vid_bad (tb_src_vid t) \<or> tb_items t = []
       then ret ((False, False, kTopologyTriggerReasonBadIndex), [])
     else if tb_direction t \<noteq> 1 \<and> tb_direction t \<noteq> 2
       then ret ((False, False, kTopologyTriggerReasonRangeRejected), [])
     else do {
       d \<leftarrow> isTopologyTriggerDuplicate from (tb_src_role t) (tb_src_vid t) (tb_seq t);
       if d then ret ((True, True, kTopologyTriggerReasonOk), [])
       else do {
         let r = authorize_items s from (tb_src_role t) (tb_src_vid t) (tb_items t) [];
         ret ((fst r = kTopologyTriggerReasonOk, False, fst r), snd r) } } }"

definition batch_event :: "mac \<Rightarrow> u32 \<Rightarrow> TopologyTriggerBatchPayload \<Rightarrow> verdict \<Rightarrow> Event" where
  "batch_event from corr_id t v = verdict_event
     ((new_event TopologyTriggerRejected)\<lparr>ev_peer := from, ev_correlation_id := corr_id,
        ev_event_id := tb_seq t, ev_severity := tb_direction t, ev_value := of_nat (length (tb_items t)),
        ev_src_role := tb_src_role t, ev_src_vid := tb_src_vid t, ev_dst_role := tb_dst_role t,
        ev_dst_vid := 0xFF, ev_direction := tb_direction t\<rparr>) v ''topology trigger batch''"

definition batch_note :: "mac \<Rightarrow> TopologyTriggerBatchPayload \<Rightarrow> TopologyTriggerBatchItem \<Rightarrow> TopologyTriggerNotification" where
  "batch_note from t i = \<lparr>tn_source = from, tn_seq = tb_seq t, tn_src_role = tb_src_role t,
     tn_src_vid = tb_src_vid t, tn_dst_role = tb_dst_role t, tn_dst_vid = ti_dst_vid i,
     tn_direction = tb_direction t, tn_delay_ms = ti_delay_ms i, tn_hold_ms = ti_hold_ms i\<rparr>"

definition batch_ack :: "topo \<Rightarrow> TopologyTriggerBatchPayload \<Rightarrow> verdict \<Rightarrow> TopologyTriggerAckPayload" where
  "batch_ack s t v = verdict_ack
     \<lparr>ta_topology_version = ack_version s (tb_topology_version t), ta_seq = tb_seq t,
      ta_src_role = profile_code (g_local_profile_id s), ta_src_vid = 0xFF,
      ta_dst_role = tb_src_role t, ta_dst_vid = tb_src_vid t, ta_ack_seq = tb_seq t,
      ta_result = 0, ta_reason = 0\<rparr> v"

definition onRxTopologyTriggerBatch :: "menv \<Rightarrow> mac \<Rightarrow> FrameHeader \<Rightarrow> buf \<Rightarrow> bool tpm" where
  "onRxTopologyTriggerBatch E from h payload =
     (if local_role (m_cfg E) \<noteq> Slave then ret False
      else case parseTopologyTriggerBatchPayload payload of
        None \<Rightarrow> ret False
      | Some t \<Rightarrow> do {
          _ \<leftarrow> m_updateLiveness from;
          d \<leftarrow> decide_batch from t;
          let (v, slots) = d;
          _ \<leftarrow> m_event E (batch_event from (fh_correlation_id h) t v);
          _ \<leftarrow> whenM (fst v \<and> \<not> fst (snd v) \<and> m_hooks E)
                (forM (take (min (length (tb_items t)) (length slots)) (tb_items t))
                   (\<lambda>i. m_do (HookTopologyTrigger (batch_note from t i))));
          s \<leftarrow> gets id;
          _ \<leftarrow> send_ack E from (fh_correlation_id h) (batch_ack s t v);
          _ \<leftarrow> blinkForMessage E (fh_type h);
          ret True })"

section \<open>Receiving an acknowledgement\<close>

definition onRxTopologyTriggerAck :: "menv \<Rightarrow> mac \<Rightarrow> FrameHeader \<Rightarrow> buf \<Rightarrow> bool tpm" where
  "onRxTopologyTriggerAck E from h payload =
     (case parseTopologyTriggerAckPayload payload of
        None \<Rightarrow> ret False
      | Some a \<Rightarrow> do {
          _ \<leftarrow> m_updateLiveness from;
          _ \<leftarrow> m_event E ((new_event TopologyTriggerAckEvent)\<lparr>ev_peer := from,
                 ev_correlation_id := fh_correlation_id h, ev_event_id := ta_ack_seq a,
                 ev_severity := ta_result a, ev_value := ucast (ta_reason a),
                 ev_src_role := ta_src_role a, ev_src_vid := ta_src_vid a,
                 ev_dst_role := ta_dst_role a, ev_dst_vid := ta_dst_vid a,
                 ev_result := ta_result a, ev_reason := ta_reason a, ev_ack_seq := ta_ack_seq a,
                 ev_message := (if ta_result a = kTopologyTriggerResultAccepted
                   then ''topology trigger ack accepted'' else ''topology trigger ack rejected'')\<rparr>);
          _ \<leftarrow> blinkForMessage E (fh_type h);
          ret True })"

end
