(* ===== verification/TopologyFrame.thy ===== *)
theory TopologyFrame
  imports Triggers
begin

text \<open>
  What the operations of the topology runtime leave alone. The core of the state are the two
  snapshots with their flags, the identity of the node, the clock, the window of seen sequence
  numbers and the notifications given to the hooks. Sending, logging, the store, the derivation
  of keys and the peer window keep it; the operations that change it are followed field by field.
\<close>

section \<open>Notifications and the core\<close>

definition note_of :: "mcall \<Rightarrow> TopologyTriggerNotification option" where
  "note_of c = (case c of HookTopologyTrigger n \<Rightarrow> Some n | _ \<Rightarrow> None)"

definition noted :: "mcall list \<Rightarrow> TopologyTriggerNotification list" where
  "noted cs = List.map_filter note_of cs"

lemma noted_append [simp]: "noted (xs @ ys) = noted xs @ noted ys"
  by (simp add: noted_def List.map_filter_def)

lemma noted_simps [simp]: "noted [] = []" "noted (c # cs) = (case note_of c of None \<Rightarrow> [] | Some n \<Rightarrow> [n]) @ noted cs"
  by (simp_all add: noted_def List.map_filter_def split: option.split)

lemma note_of_simps [simp]:
  "note_of (TransportSend m f) = None" "note_of (HookTxFrame m t c n b) = None"
  "note_of (HookRgbBlink cr cg cb d) = None" "note_of (HookTopologyTrigger n') = Some n'"
  "note_of (WindowAttach m b k) = None" "note_of (WindowEvict m) = None" "note_of (SinkEvent e) = None"
  "note_of (LogRecord l) = None" "note_of ClockEpoch = None"
  by (simp_all add: note_of_def)

record core =
  co_has_staged :: bool
  co_staged :: TopologySnapshot
  co_has_committed :: bool
  co_committed :: TopologySnapshot
  co_profile :: u16
  co_local :: mac
  co_now :: u32
  co_dedup :: "TopologyTriggerDedupEntry list"
  co_notes :: "TopologyTriggerNotification list"

definition core :: "topo \<Rightarrow> core" where
  "core s = \<lparr>co_has_staged = tp_has_staged s, co_staged = tp_staged s,
     co_has_committed = tp_has_committed s, co_committed = tp_committed s,
     co_profile = g_local_profile_id s, co_local = g_local_mac s, co_now = g_now_ms s,
     co_dedup = tp_dedup s, co_notes = noted (g_calls s)\<rparr>"

named_theorems frame_rules \<open>programs that keep a predicate of the frame\<close>

text \<open>
  A predicate that depends on the core and on the store only, and on the store in a way that the
  stored link keys do not matter to, is kept by all of these programs.
\<close>

locale topo_frame =
  fixes E :: menv and P :: "topo \<Rightarrow> bool"
  assumes same: "P s \<Longrightarrow> core t = core s \<Longrightarrow> g_store t = g_store s \<Longrightarrow> P t"
    and load_kept: "keeps P (loadLocalMetaBlob E slot)"
    and save_kept: "keeps P (saveLocalMetaBlob E kTopologyMetaSlotLmk d)"
    and erase_kept: "keeps P (eraseLocalMetaBlob E kTopologyMetaSlotLmk)"
begin

lemmas meta_kept [frame_rules] = load_kept save_kept erase_kept

lemma modify_kept [frame_rules]: "(\<And>s. core (f s) = core s \<and> g_store (f s) = g_store s) \<Longrightarrow> keeps P (modify f)"
  by (rule keeps_modify) (use same in blast)

lemma call_kept [frame_rules]: "note_of a = None \<Longrightarrow> keeps P (m_call a)"
  by (auto simp: keeps_def m_call_def wp_bind wp_gets wp_modify wp_ret core_def intro: same)

lemma do_kept [frame_rules]: "note_of a = None \<Longrightarrow> keeps P (m_do a)"
  unfolding m_do_def by (intro keeps_rules frame_rules)

lemma ask_kept [frame_rules]: "note_of a = None \<Longrightarrow> keeps P (m_ask E a)"
  unfolding m_ask_def by (intro keeps_rules frame_rules)

lemma epoch_kept [frame_rules]: "keeps P (m_nowEpochSec E)"
  unfolding m_nowEpochSec_def by (intro keeps_rules frame_rules) simp

lemma event_kept [frame_rules]: "keeps P (m_event E e)"
  unfolding m_event_def by (intro keeps_rules frame_rules) simp

lemma log_kept [frame_rules]: "keeps P (logExternalEvent E l i e p0 p1 p2 x)"
  unfolding logExternalEvent_def by (intro keeps_rules frame_rules) simp

lemma runtime_log_kept [frame_rules]:
  "keeps P (emitRuntimeLog E l e p0 p1 p2 x)"
  "keeps P (emitTopologyRuntimeLog E l e p1 p2 r)"
  unfolding emitTopologyRuntimeLog_def emitRuntimeLog_def by (intro keeps_rules frame_rules)+

lemma wrap_kept [frame_rules]: "keeps P (m_wrap E p)"
  unfolding m_wrap_def by (intro keeps_rules frame_rules) (simp add: core_def)

lemma sendTyped_kept [frame_rules]: "keeps P (sendTyped E to ty p i a b d)"
  unfolding sendTyped_def transmit_def Let_def by (intro keeps_rules frame_rules) simp_all

lemma blink_kept [frame_rules]: "keeps P (blinkForMessage E t)"
  unfolding blinkForMessage_def
  by (intro keeps_rules frame_rules) (auto simp: blink_code_def split: if_splits)

lemma liveness_kept [frame_rules]: "keeps P (m_updateLiveness from)"
  unfolding m_updateLiveness_def by (intro frame_rules) (simp add: core_def)

lemma snapshot_load_kept [frame_rules]: "keeps P (loadTopologySnapshotMeta E slot)"
  unfolding loadTopologySnapshotMeta_def by (intro keeps_rules frame_rules)

lemma status_kept [frame_rules]:
  "keeps P (setTopologyRestoreStatus m r)" "keeps P (noteTopologyPeerReadyFailure r)"
  unfolding setTopologyRestoreStatus_def noteTopologyPeerReadyFailure_def Let_def
  by (intro frame_rules; simp add: core_def)+

lemma attach_all_kept [frame_rules]: "keeps P (attach_all E a xs)"
proof (induction xs)
  case (Cons x xs)
  then show ?case by (cases x) (simp, intro conjI impI keeps_rules frame_rules; simp)
qed (simp add: keeps_ret)

lemma evict_old_kept [frame_rules]: "keeps P (evict_old E a d ms)"
proof (induction ms)
  case (Cons m ms)
  then show ?case by (simp, intro conjI impI keeps_rules frame_rules; simp)
qed (simp add: keeps_ret)

lemma apply_kept [frame_rules]: "keeps P (applyTopologyDesiredPeers E d)"
  unfolding applyTopologyDesiredPeers_def by (intro keeps_rules frame_rules) (simp add: core_def)

lemma slot_key_kept [frame_rules]: "keeps P (slot_key E n)"
  unfolding slot_key_def by (intro keeps_rules)

lemma materialize_kept [frame_rules]: "keeps P (materializeTopologyPeers E n)"
  unfolding materializeTopologyPeers_def by (intro keeps_rules frame_rules)

lemma lmk_kept [frame_rules]:
  "keeps P (purge_lmk E p1 p2 a b)" "keeps P (log_lmk_meta E n l r i)"
  unfolding purge_lmk_def log_lmk_meta_def by (intro keeps_rules frame_rules)+

lemma lmk_meta_kept [frame_rules]:
  "keeps P (loadTopologyLmkMeta E)" "keeps P (saveTopologyLmkMeta E n)"
  unfolding loadTopologyLmkMeta_def saveTopologyLmkMeta_def by (intro keeps_rules frame_rules)+

lemma rollback_kept [frame_rules]:
  "keeps P (restore_old_lmk_meta E b)" "keeps P (roll_back_peers E s b)"
  "keeps P (apply_peers E s b n)"
proof -
  show r: "keeps P (restore_old_lmk_meta E b)" for b
    unfolding restore_old_lmk_meta_def
    by (cases b; cases "the b") (auto intro!: keeps_rules frame_rules)
  show q: "keeps P (roll_back_peers E s b)" for b
    unfolding roll_back_peers_def by (intro keeps_rules frame_rules r) (simp add: core_def)
  show "keeps P (apply_peers E s b n)"
    unfolding apply_peers_def by (intro keeps_rules frame_rules q) (simp add: core_def)
qed

lemma ready_kept [frame_rules]:
  "keeps P (fail_peer_ready E slot r)" "keeps P (lmk_from_nvs E slot m)"
  "keeps P (log_lmk_slot E slot l r)"
  unfolding fail_peer_ready_def lmk_from_nvs_def log_lmk_slot_def by (intro keeps_rules frame_rules)+

lemma attach_slot_kept [frame_rules]: "keeps P (attach_slot E slot k f)"
  unfolding attach_slot_def by (intro keeps_rules frame_rules) simp

lemma ensure_kept [frame_rules]: "keeps P (ensureTopologyPeerReadyForSlot E slot)"
  unfolding ensureTopologyPeerReadyForSlot_def by (intro keeps_rules frame_rules)

lemma restore_link_kept [frame_rules]:
  "keeps P (log_restore E l e r)" "keeps P (desired_from_store E m)"
  "keeps P (restore_from_store E m)" "keeps P (restore_by_deriving E r)"
  "keeps P (restoreTopologyLink E m)"
  unfolding log_restore_def desired_from_store_def restore_from_store_def restore_by_deriving_def
    restoreTopologyLink_def
  by (intro keeps_rules frame_rules)+

lemma send_trigger_kept [frame_rules]: "keeps P (send_trigger E m t p i n)"
  "keeps P take_trigger_seq"
  unfolding send_trigger_def take_trigger_seq_def
  by (intro keeps_rules frame_rules; simp add: core_def)+

lemma sendTopologyTrigger_kept [frame_rules]: "keeps P (sendTopologyTrigger E q i)"
  unfolding sendTopologyTrigger_def by (intro keeps_rules frame_rules)

lemma sendTopologyTriggerBatch_kept [frame_rules]: "keeps P (sendTopologyTriggerBatch E q i)"
  unfolding sendTopologyTriggerBatch_def by (intro keeps_rules frame_rules)

lemma send_ack_kept [frame_rules]: "keeps P (send_ack E from i a)"
  unfolding send_ack_def by (intro keeps_rules frame_rules)

lemma onRxTopologyTriggerAck_kept [frame_rules]: "keeps P (onRxTopologyTriggerAck E from h p)"
  unfolding onRxTopologyTriggerAck_def by (intro keeps_rules frame_rules)

text \<open>A program that keeps a predicate, inside another one.\<close>

lemma wp_kept: "keeps P m \<Longrightarrow> P s \<Longrightarrow> (\<And>a t. P t \<Longrightarrow> Q a t) \<Longrightarrow> wp m Q s"
  by (rule wp_mono [of m "\<lambda>_. P"]) (simp_all add: keepsD)

end

section \<open>The core itself\<close>

lemma in_store_core: "keeps (\<lambda>s. core s = c) (in_store m)"
  by (auto simp: keeps_def wp_def in_store_def core_def split: prod.splits)

lemma meta_core:
  "keeps (\<lambda>s. core s = c) (saveLocalMetaBlob E slot d)" "keeps (\<lambda>s. core s = c) (loadLocalMetaBlob E slot)"
  "keeps (\<lambda>s. core s = c) (eraseLocalMetaBlob E slot)"
  unfolding saveLocalMetaBlob_def loadLocalMetaBlob_def eraseLocalMetaBlob_def
  by (intro keeps_rules in_store_core)+

interpretation core: topo_frame E "\<lambda>s. core s = c" for E c
  by unfold_locales (auto intro: meta_core)

lemma wp_core: "(\<And>c. keeps (\<lambda>s. core s = c) m) \<Longrightarrow> (\<And>a t. core t = core s \<Longrightarrow> Q a t) \<Longrightarrow> wp m Q s"
  by (rule core.wp_kept [where c = "core s"]) auto

lemma snapshot_meta_core:
  "keeps (\<lambda>s. core s = c) (saveTopologySnapshotMeta E slot n)"
  "keeps (\<lambda>s. core s = c) (eraseTopologySnapshotMeta E slot)"
  unfolding saveTopologySnapshotMeta_def eraseTopologySnapshotMeta_def
  by (intro keeps_rules meta_core)+

end
