(* ===== verification/LocalMeta.thy ===== *)
theory LocalMeta
  imports StoreRecords TopologyFrame
begin

text \<open>
  The metadata blobs of the node itself, through the manager: a map from slots to blobs. The keys
  of the slots of one node never collide, although they carry only 24 bits of their hash: each
  step of the hash is a bijection on those bits.
\<close>

section \<open>Keys of the slots\<close>

definition low24 :: "u32 \<Rightarrow> 24 word" where
  "low24 h = ucast h"

lemma ucast24_mult: "ucast (x * y) = (ucast x * ucast y :: 24 word)" for x y :: u32
proof -
  have "x * y mod 16777216 = x mod 4294967296 * (y mod 4294967296) mod 16777216" for x y :: int
    by (subst mod_mult_eq [symmetric], subst (2) mod_mult_eq [symmetric]) (simp add: mod_mod_cancel)
  then show ?thesis
    by transfer (simp add: take_bit_eq_mod mod_mod_cancel)
qed

lemma low24_hash: "low24 (hashByte h b) = (low24 h XOR ucast b) * 403"
proof -
  have "(ucast (ucast b :: u32) :: 24 word) = ucast b"
    by transfer simp
  moreover have "(ucast (16777619 :: u32) :: 24 word) = 403"
    by (simp add: word_unat_eq_iff)
  ultimately show ?thesis
    by (simp only: low24_def hashByte_def kFnvPrime_def ucast24_mult unsigned_xor_eq)
qed

lemma low24_mult: "x * 403 = y * (403 :: 24 word) \<longleftrightarrow> x = y"
proof
  assume "x * 403 = y * (403 :: 24 word)"
  then have "x * 403 * 10241179 = y * 403 * (10241179 :: 24 word)" by simp
  moreover have "(403 * 10241179 :: 24 word) = 1"
    by (simp add: word_unat_eq_iff)
  ultimately show "x = y" by (simp only: mult.assoc mult_1_right)
qed simp

lemma word_xor_cancel: "x XOR z = y XOR z \<longleftrightarrow> x = y" for x y z :: "'a :: len word"
proof
  assume "x XOR z = y XOR z"
  then have "(x XOR z) XOR z = (y XOR z) XOR z" by simp
  then show "x = y" by (simp add: xor.assoc)
qed simp

lemma word_xor_cancel_left: "z XOR x = z XOR y \<longleftrightarrow> x = y" for x y z :: "'a :: len word"
  using word_xor_cancel [of x z y] by (simp add: xor.commute)

lemma low24_step: "low24 (hashByte g b) = low24 (hashByte h b) \<longleftrightarrow> low24 g = low24 h"
  by (simp only: low24_hash low24_mult word_xor_cancel)

lemma low24_mac: "low24 (hashMac g m) = low24 (hashMac h m) \<longleftrightarrow> low24 g = low24 h"
  by (cases m) (simp add: hashMac_def low24_step)

lemma digit_char_inj:
  assumes "m < 16" "n < 16" "digit_char m = digit_char n"
  shows "m = n"
proof -
  have "(of_char (digit_char k) :: nat) = (if k < 10 then 48 + k else 55 + k)" if "k < 16" for k
    using that by (simp add: digit_char_def)
  then show ?thesis using assms by (auto dest!: arg_cong [of _ _ "of_char :: char \<Rightarrow> nat"] split: if_splits)
qed

lemma mod_power16:
  "\<forall>i < k. m div 16 ^ i mod 16 = n div 16 ^ i mod (16 :: nat) \<Longrightarrow> m mod 16 ^ k = n mod 16 ^ k"
proof (induction k)
  case (Suc k)
  then show ?case
    using mod_mult2_eq [of m "16 ^ k" 16] mod_mult2_eq [of n "16 ^ k" 16] by (simp add: mult.commute)
qed simp

lemma hex6_inj:
  assumes "m < 16 ^ 6" "n < 16 ^ 6" and "hex6 m = hex6 n"
  shows "m = n"
proof -
  have "m div 16 ^ i mod 16 = n div 16 ^ i mod 16" if "i < 6" for i
  proof -
    have "i \<in> {0, 1, 2, 3, 4, 5}" using that by auto
    then show ?thesis
      using assms(3) by (intro digit_char_inj) (auto simp: hex6_def)
  qed
  then have "m mod 16 ^ 6 = n mod 16 ^ 6" by (intro mod_power16) blast
  with assms(1,2) show ?thesis by simp
qed

lemma key_text_low24: "key_text c g = key_text c h \<longleftrightarrow> low24 g = low24 h"
proof -
  have low: "unat (x AND 0xFFFFFF) = unat (low24 x)" for x
  proof -
    have "x AND 0xFFFFFF = take_bit 24 x" by (simp add: take_bit_eq_mask mask_eq_exp_minus_1)
    then show ?thesis by (simp add: low24_def unsigned_ucast_eq unsigned_take_bit_eq)
  qed
  have "unat (low24 x) < 16 ^ 6" for x
    using unsigned_less [of "low24 x"] by simp
  then show ?thesis
    using hex6_inj [of "unat (low24 g)" "unat (low24 h)"] by (auto simp: key_text_def low word_unat_eq_iff)
qed

lemma meta_key_inj: "makeMetaKey E l p a = makeMetaKey E l p b \<longleftrightarrow> a = b"
proof -
  have "(ucast a :: 24 word) = ucast b \<longleftrightarrow> a = b"
    by (simp add: word_unat_eq_iff unsigned_ucast_eq take_bit_nat_eq_self
        unsigned_less less_trans [OF unsigned_less])
  then show ?thesis
    unfolding makeMetaKey_def hashKeyMaterial_def key_text_low24 low24_mac low24_hash low24_mult
    by (simp add: word_xor_cancel_left)
qed

section \<open>The map\<close>

definition meta_view :: "store_env \<Rightarrow> kv \<Rightarrow> topo \<Rightarrow> u8 \<Rightarrow> bytes option" where
  "meta_view S m0 s slot = stored S m0 (g_store s) (makeMetaKey S (g_local_mac s) zeroMac slot)"

definition meta_ok :: "menv \<Rightarrow> store_env \<Rightarrow> kv \<Rightarrow> topo \<Rightarrow> bool" where
  "meta_ok E S m0 s \<longleftrightarrow> pairing_store E = Some S \<and> store_works S m0 (g_store s)"

lemma meta_enabled: "meta_ok E S m0 s \<Longrightarrow> store_enabled S \<and> storeReady E"
  by (simp add: meta_ok_def store_works_def storeReady_def)

lemma core_store [simp]: "core (s\<lparr>g_store := t\<rparr>) = core s"
  by (simp add: core_def)

lemma meta_view_upd:
  "stored S m0 t = (stored S m0 (g_store s))(makeMetaKey S (g_local_mac s) zeroMac slot := v) \<Longrightarrow>
   meta_view S m0 (s\<lparr>g_store := t\<rparr>) = (meta_view S m0 s)(slot := v)"
  by (auto simp: meta_view_def meta_key_inj)

lemma meta_view_same:
  "stored S m0 t = stored S m0 (g_store s) \<Longrightarrow> meta_view S m0 (s\<lparr>g_store := t\<rparr>) = meta_view S m0 s"
  by (auto simp: meta_view_def)

text \<open>The slots are a map, and the core stays as it is.\<close>

interpretation local_meta: blob_map "loadLocalMetaBlob E" "saveLocalMetaBlob E" "eraseLocalMetaBlob E"
  "meta_view S m0" "\<lambda>s. meta_ok E S m0 s \<and> core s = c" for E S m0 c
proof
  fix s :: topo and slot and d :: bytes
  assume ok: "meta_ok E S m0 s \<and> core s = c"
  then have E: "pairing_store E = Some S" and en: "store_enabled S" and w: "store_works S m0 (g_store s)"
    by (auto simp: meta_ok_def store_works_def)
  show "wp (loadLocalMetaBlob E slot) (\<lambda>r t. (meta_ok E S m0 t \<and> core t = c)
      \<and> meta_view S m0 t = meta_view S m0 s \<and> r = meta_view S m0 s slot) s"
    using ok by (auto simp: loadLocalMetaBlob_def loadMetaBlob_def E en wp_bind wp_gets meta_ok_def
        meta_view_same meta_view_def [of S m0 s slot] intro!: wp_in_store blobs.wp_get [OF w])
  show "wp (eraseLocalMetaBlob E slot) (\<lambda>r t. (meta_ok E S m0 t \<and> core t = c)
      \<and> meta_view S m0 t = (if r then (meta_view S m0 s)(slot := None) else meta_view S m0 s)) s"
    using ok by (auto simp: eraseLocalMetaBlob_def eraseMetaBlob_def E en wp_bind wp_gets meta_ok_def
        meta_view_same meta_view_upd intro!: wp_in_store blobs.wp_del [OF w])
  assume d: "d \<noteq> []"
  show "wp (saveLocalMetaBlob E slot d) (\<lambda>r t. (meta_ok E S m0 t \<and> core t = c)
      \<and> meta_view S m0 t = (if r then (meta_view S m0 s)(slot \<mapsto> d) else meta_view S m0 s)) s"
    using ok by (auto simp: saveLocalMetaBlob_def saveMetaBlob_def E en d wp_bind wp_gets meta_ok_def
        meta_view_same meta_view_upd intro!: wp_in_store blobs.wp_put [OF w])
qed

lemma save_nothing: "wp (saveLocalMetaBlob E slot []) Q s \<longleftrightarrow> Q False s"
  by (simp add: saveLocalMetaBlob_def wp_ret split: option.split)

end
