(* ===== verification/TopologyState.thy ===== *)
theory TopologyState
  imports LocalMeta
begin

text \<open>
  What the operations on snapshots do to them, and two invariants of every sequence of operations:
  the snapshots the node holds are valid ones, and the committed one is what a restart would
  restore from the store.
\<close>

section \<open>Operations\<close>

text \<open>
  \<open>OpPeers\<close> stands for whatever pairing, unpairing and removing peers do to the members here: the
  engine, the registry and the attached peers become any others, and the link keys are erased or not.
  The local profile is set at startup and stays.
\<close>

datatype topo_op =
    OpStage TopologySnapshot
  | OpCommit
  | OpClearStaged
  | OpRestoreSnapshots
  | OpRestoreLink mac
  | OpSendTrigger TopologyTriggerRequest u32
  | OpSendBatch TopologyTriggerBatchRequest u32
  | OpRxTrigger mac FrameHeader buf
  | OpRxBatch mac FrameHeader buf
  | OpRxAck mac FrameHeader buf
  | OpPeers engine registry "mac list" bool
  | OpClock u32

fun topo_step :: "menv \<Rightarrow> topo_op \<Rightarrow> unit tpm" where
  "topo_step E (OpStage x) = do { _ \<leftarrow> stageTopology E x; ret () }"
| "topo_step E OpCommit = do { _ \<leftarrow> commitStagedTopology E; ret () }"
| "topo_step E OpClearStaged = do { _ \<leftarrow> clearStagedTopology E; ret () }"
| "topo_step E OpRestoreSnapshots = restoreTopologySnapshots E"
| "topo_step E (OpRestoreLink m) = restoreTopologyLink E m"
| "topo_step E (OpSendTrigger q i) = do { _ \<leftarrow> sendTopologyTrigger E q i; ret () }"
| "topo_step E (OpSendBatch q i) = do { _ \<leftarrow> sendTopologyTriggerBatch E q i; ret () }"
| "topo_step E (OpRxTrigger m h p) = do { _ \<leftarrow> onRxTopologyTrigger E m h p; ret () }"
| "topo_step E (OpRxBatch m h p) = do { _ \<leftarrow> onRxTopologyTriggerBatch E m h p; ret () }"
| "topo_step E (OpRxAck m h p) = do { _ \<leftarrow> onRxTopologyTriggerAck E m h p; ret () }"
| "topo_step E (OpPeers e r peers erase_keys) = do {
     _ \<leftarrow> modify (\<lambda>s. s\<lparr>g_pairing := e, g_registry := r, tp_attached := peers\<rparr>);
     whenM erase_keys (do {
       _ \<leftarrow> purge_lmk E (ucast kTopologyMetaSlotLmk) 0 ''topology_lmk_nvs_purge_old'' ''topology_lmk_nvs_purge_old_failed'';
       ret () }) }"
| "topo_step E (OpClock n) = modify (\<lambda>s. s\<lparr>g_now_ms := n\<rparr>)"

fun topo_run :: "menv \<Rightarrow> topo_op list \<Rightarrow> unit tpm" where
  "topo_run E [] = ret ()"
| "topo_run E (x # xs) = do { _ \<leftarrow> topo_step E x; topo_run E xs }"

text \<open>The arrays of a snapshot handed in have their lengths.\<close>

definition op_wf :: "topo_op \<Rightarrow> bool" where
  "op_wf x = (case x of OpStage n \<Rightarrow> snapshot_wf n | _ \<Rightarrow> True)"

section \<open>Predicates on the snapshots\<close>

text \<open>The frame of the programs that take part in receiving: they do not touch the snapshots.\<close>

locale snapshot_frame = topo_frame +
  assumes receiving: "P s \<Longrightarrow> core t = (core s)\<lparr>co_now := n, co_dedup := d, co_notes := x\<rparr>
     \<Longrightarrow> g_store t = g_store s \<Longrightarrow> P t"
begin

lemma dedup_kept: "keeps P (modify (\<lambda>s. s\<lparr>tp_dedup := f s\<rparr>))"
proof (rule keeps_modify)
  fix s assume "P s"
  then show "P (s\<lparr>tp_dedup := f s\<rparr>)"
    by (rule receiving [where n = "g_now_ms s" and d = "f s" and x = "noted (g_calls s)"]) (simp_all add: core_def)
qed

lemma note_kept: "keeps P (m_do a)"
proof -
  have "P (s\<lparr>g_calls := g_calls s @ [a]\<rparr>)" if "P s" for s
    by (rule receiving [OF that, where n = "g_now_ms s" and d = "tp_dedup s"
          and x = "noted (g_calls s @ [a])"]) (simp_all add: core_def)
  then show ?thesis by (simp add: keeps_def m_do_def m_call_def wp_rules)
qed

lemma clock_kept: "keeps P (modify (\<lambda>s. s\<lparr>g_now_ms := n\<rparr>))"
proof (rule keeps_modify)
  fix s assume "P s"
  then show "P (s\<lparr>g_now_ms := n\<rparr>)"
    by (rule receiving [where n = n and d = "tp_dedup s" and x = "noted (g_calls s)"]) (simp_all add: core_def)
qed

lemma notify_kept: "keeps P (forM xs (\<lambda>i. m_do (f i)))"
  by (induction xs) (auto intro!: keeps_rules note_kept)

lemma duplicate_kept: "keeps P (isTopologyTriggerDuplicate from r v n)"
  unfolding isTopologyTriggerDuplicate_def by (intro keeps_rules dedup_kept)

lemma receive_kept:
  "keeps P (onRxTopologyTrigger E from h p)" "keeps P (onRxTopologyTriggerBatch E from h p)"
  unfolding onRxTopologyTrigger_def decide_trigger_def onRxTopologyTriggerBatch_def decide_batch_def
  by (intro keeps_rules frame_rules note_kept notify_kept duplicate_kept)+

lemma peers_kept [frame_rules]: "keeps P (modify (\<lambda>s. s\<lparr>g_pairing := e, g_registry := r, tp_attached := a\<rparr>))"
  by (rule modify_kept) (simp add: core_def)

lemma step_kept:
  assumes "\<And>n. x = OpStage n \<Longrightarrow> keeps P (stageTopology E n)" and "keeps P (commitStagedTopology E)"
    and "keeps P (clearStagedTopology E)" and "keeps P (restoreTopologySnapshots E)"
  shows "keeps P (topo_step E x)"
  using assms by (cases x) (auto intro!: keeps_rules frame_rules receive_kept clock_kept)

lemma run_kept:
  assumes "\<And>n. OpStage n \<in> set xs \<Longrightarrow> keeps P (stageTopology E n)" and "keeps P (commitStagedTopology E)"
    and "keeps P (clearStagedTopology E)" and "keeps P (restoreTopologySnapshots E)"
  shows "keeps P (topo_run E xs)"
  using assms(1)
proof (induction xs)
  case (Cons x xs)
  have "keeps P (topo_step E x)"
    by (rule step_kept) (use assms Cons.prems in auto)
  then show ?case using Cons by (auto intro!: keeps_rules)
qed (simp add: keeps_ret)

end

section \<open>What staging and committing do\<close>

text \<open>
  \<open>kept S m0 c v\<close>: the core is \<open>c\<close> and the slots hold \<open>v\<close>, but for the one with the link keys.
\<close>

definition kept :: "menv \<Rightarrow> store_env \<Rightarrow> kv \<Rightarrow> core \<Rightarrow> (u8 \<Rightarrow> bytes option) \<Rightarrow> topo \<Rightarrow> bool" where
  "kept E S m0 c v s \<longleftrightarrow> meta_ok E S m0 s \<and> core s = c \<and> (\<forall>k. k \<noteq> kTopologyMetaSlotLmk \<longrightarrow> meta_view S m0 s k = v k)"

lemma kept_refl: "meta_ok E S m0 s \<Longrightarrow> kept E S m0 (core s) (meta_view S m0 s) s"
  by (simp add: kept_def)

interpretation kept: topo_frame E "kept E S m0 c v" for E S m0 c v
proof
  show "kept E S m0 c v s \<Longrightarrow> core t = core s \<Longrightarrow> g_store t = g_store s \<Longrightarrow> kept E S m0 c v t" for s t
    by (auto simp: kept_def meta_ok_def meta_view_def core_def)
  show "keeps (kept E S m0 c v) (loadLocalMetaBlob E slot)" for slot
    unfolding keeps_def by (auto simp: kept_def intro!: local_meta.wp_get [where c = c])
  show "keeps (kept E S m0 c v) (eraseLocalMetaBlob E kTopologyMetaSlotLmk)"
    unfolding keeps_def by (auto simp: kept_def intro!: local_meta.wp_del [where c = c])
  show "keeps (kept E S m0 c v) (saveLocalMetaBlob E kTopologyMetaSlotLmk d)" for d
    unfolding keeps_def
    by (cases "d = []") (auto simp: kept_def save_nothing intro!: local_meta.wp_put [where c = c])
qed

text \<open>Without a look at the store.\<close>

lemma stage_core:
  "wp (stageTopology E x) (\<lambda>r t. case r of Inl _ \<Rightarrow> core t = core s
     | Inr _ \<Rightarrow> \<exists>n. validateTopologySnapshot (g_local_profile_id s) (x\<lparr>sn_state := tsStaged\<rparr>) = Inr n
         \<and> core t = (core s)\<lparr>co_staged := n, co_has_staged := True\<rparr>) s"
proof (cases "validateTopologySnapshot (g_local_profile_id s) (x\<lparr>sn_state := tsStaged\<rparr>)")
  case (Inl e)
  then show ?thesis by (simp add: stageTopology_def wp_rules)
next
  case (Inr n)
  show ?thesis
    unfolding stageTopology_def wp_bind wp_gets id_apply Inr sum.case
    by (rule wp_core, intro keeps_rules core.lmk_kept, unfold wp_modify,
        rule wp_core, rule snapshot_meta_core)
       (auto simp: wp_rules core_def)
qed

lemma commit_core:
  "wp (commitStagedTopology E) (\<lambda>r t. case r of Inl _ \<Rightarrow> core t = core s
     | Inr _ \<Rightarrow> if \<not> tp_has_staged s then core t = core s \<and> tp_has_committed s
         else \<exists>n. validateTopologySnapshot (g_local_profile_id s) ((tp_staged s)\<lparr>sn_state := tsCommitted, sn_checksum := 0\<rparr>) = Inr n
           \<and> core t = (core s)\<lparr>co_committed := n, co_has_committed := True,
                co_staged := no_snapshot, co_has_staged := False\<rparr>) s"
proof (cases "tp_has_staged s")
  case False
  then show ?thesis by (simp add: commitStagedTopology_def wp_rules)
next
  case staged: True
  show ?thesis
  proof (cases "validateTopologySnapshot (g_local_profile_id s) ((tp_staged s)\<lparr>sn_state := tsCommitted, sn_checksum := 0\<rparr>)")
    case (Inl e)
    then show ?thesis using staged by (simp add: commitStagedTopology_def wp_rules)
  next
    case (Inr n)
    show ?thesis
      unfolding commitStagedTopology_def wp_bind wp_gets wp_ret id_apply Inr sum.case
      apply (simp only: staged not_True_eq_False if_False wp_bind)
      apply (rule wp_core, intro keeps_rules meta_core)
      unfolding wp_bind
      apply (rule wp_core, rule core.rollback_kept)
      apply (split sum.split, intro conjI allI impI)
      apply (simp add: wp_ret)
      unfolding wp_bind wp_modify
      apply (rule wp_core, rule snapshot_meta_core)
      apply (auto simp: wp_rules staged Inr intro!: wp_core [OF core.rollback_kept(2)] wp_core [OF snapshot_meta_core(2)])
      apply (simp_all add: core_def)
      done
  qed
qed

section \<open>Valid snapshots\<close>

definition valid_at :: "u16 \<Rightarrow> u8 \<Rightarrow> TopologySnapshot \<Rightarrow> bool" where
  "valid_at p st n \<longleftrightarrow> snapshot_wf n \<and> sn_state n = st \<and> validateTopologySnapshot p n = Inr n"

definition snapshots_valid :: "core \<Rightarrow> bool" where
  "snapshots_valid c \<longleftrightarrow> snapshot_wf (co_staged c) \<and> snapshot_wf (co_committed c)
     \<and> (co_has_staged c \<longrightarrow> valid_at (co_profile c) tsStaged (co_staged c))
     \<and> (co_has_committed c \<longrightarrow> valid_at (co_profile c) tsCommitted (co_committed c))"

lemma no_snapshot_wf [simp]: "snapshot_wf no_snapshot"
  by (simp add: snapshot_wf_def no_snapshot_def kTopologyMaxSlots_def kTopologyMaxGroups_def group_wf_def no_group_def)

lemma snapshot_wf_upd [simp]:
  "snapshot_wf (n\<lparr>sn_state := st\<rparr>) = snapshot_wf n" "snapshot_wf (n\<lparr>sn_checksum := k\<rparr>) = snapshot_wf n"
  "snapshot_wf (sealed n) = snapshot_wf n"
  by (simp_all add: snapshot_wf_def sealed_def counted_def)

text \<open>Sealing again changes nothing.\<close>

lemma sealed_facts:
  "enabled_slots (sealed n) = enabled_slots n" "enabled_groups (sealed n) = enabled_groups n"
  "sn_state (sealed n) = sn_state n"
  by (simp_all add: sealed_def counted_def enabled_slots_def enabled_groups_def)

lemma checksum_counted_sealed: "computeTopologyChecksum (counted (sealed n)) = computeTopologyChecksum (counted n)"
  by (simp add: computeTopologyChecksum_def checksum_bytes_def sealed_def counted_def enabled_slots_def enabled_groups_def)

lemma sealed_sealed: "sealed (sealed n) = sealed n"
  unfolding sealed_def [of "sealed n"] checksum_counted_sealed
  by (simp add: sealed_def counted_def enabled_slots_def enabled_groups_def)

lemma snapshot_ok_sealed: "snapshot_ok code n \<Longrightarrow> snapshot_ok code (sealed n)"
  by (auto simp: snapshot_ok_def slot_ok_def sealed_facts) (auto simp: sealed_def counted_def)

lemma validate_again:
  assumes "validateTopologySnapshot p x = Inr n" and wf: "snapshot_wf x"
  shows "valid_at p (sn_state x) n"
proof -
  from assms have ok: "snapshot_ok (profile_code p) x" and n: "n = sealed x"
    by (simp_all add: validate_iff)
  have "sn_checksum n = computeTopologyChecksum (counted n)"
    unfolding n checksum_counted_sealed by (simp add: sealed_def)
  then have "validateTopologySnapshot p n = Inr n"
    using snapshot_ok_sealed [OF ok] wf by (simp add: validate_iff n sealed_sealed)
  then show ?thesis using wf by (simp add: valid_at_def n sealed_facts)
qed

lemma validate_state:
  "validateTopologySnapshot p (x\<lparr>sn_state := st\<rparr>) = Inr n \<Longrightarrow> snapshot_wf x \<Longrightarrow> valid_at p st n"
  using validate_again [of p "x\<lparr>sn_state := st\<rparr>" n] by simp

lemma read_many_props:
  "read_many n k rd p = Some (xs, r) \<Longrightarrow> \<forall>p x. rd p = Some x \<longrightarrow> Q x \<Longrightarrow> length xs = n \<and> (\<forall>x \<in> set xs. Q x)"
proof (induction n arbitrary: p xs)
  case (Suc n)
  then obtain x ys where "rd p = Some x" "read_many n k rd (drop k p) = Some (ys, r)" "xs = x # ys"
    by (auto split: option.splits)
  with Suc show ?case by auto
qed auto

lemma deserialize_wf:
  assumes "deserializeTopologySnapshotBlob b = Some x"
  shows "snapshot_wf x"
proof -
  have g: "\<forall>p g. readTopologyGroupBlob p = Some g \<longrightarrow> group_wf g"
    by (auto simp: readTopologyGroupBlob_def group_wf_def kTopologyGroupBlobSize_def split: if_splits)
  show ?thesis
    using assms read_many_props [OF _ g] read_many_props [of kTopologyMaxSlots _ readTopologySlotBlob _ _ _ "\<lambda>_. True"]
    by (auto simp: deserializeTopologySnapshotBlob_def snapshot_wf_def split: if_splits option.splits prod.splits)
qed

lemma core_pred: "(\<And>c. keeps (\<lambda>s. core s = c) m) \<Longrightarrow> keeps (\<lambda>s. R (core s)) m"
  unfolding keeps_def [of "\<lambda>s. R (core s)"] by (auto intro!: wp_core)

interpretation valid: snapshot_frame E "\<lambda>s. snapshots_valid (core s)" for E
  by unfold_locales (auto intro!: core_pred meta_core simp: snapshots_valid_def)

lemma stage_valid: "snapshot_wf x \<Longrightarrow> keeps (\<lambda>s. snapshots_valid (core s)) (stageTopology E x)"
  unfolding keeps_def
proof (intro allI impI)
  fix s :: topo
  assume wf: "snapshot_wf x" and ok: "snapshots_valid (core s)"
  show "wp (stageTopology E x) (\<lambda>_ t. snapshots_valid (core t)) s"
    by (rule wp_mono [OF stage_core])
       (use ok wf in \<open>auto simp: snapshots_valid_def core_def valid_at_def [of _ tsStaged] split: sum.splits
          dest!: validate_again\<close>)
qed

lemma commit_valid: "keeps (\<lambda>s. snapshots_valid (core s)) (commitStagedTopology E)"
  unfolding keeps_def
proof (intro allI impI)
  fix s :: topo
  assume ok: "snapshots_valid (core s)"
  show "wp (commitStagedTopology E) (\<lambda>_ t. snapshots_valid (core t)) s"
    by (rule wp_mono [OF commit_core])
       (use ok in \<open>auto simp: snapshots_valid_def core_def valid_at_def [of _ tsCommitted] split: sum.splits if_splits
          dest!: validate_again\<close>)
qed

lemma clear_valid: "keeps (\<lambda>s. snapshots_valid (core s)) (clearStagedTopology E)"
  unfolding clearStagedTopology_def
  by (intro keeps_rules keeps_modify, simp add: snapshots_valid_def core_def)
     (auto simp: keeps_def intro!: wp_core snapshot_meta_core)

text \<open>What a stored blob gives at the next start.\<close>

definition restored :: "u16 \<Rightarrow> u8 \<Rightarrow> bytes option \<Rightarrow> TopologySnapshot option" where
  "restored p st b = (case b of None \<Rightarrow> None
     | Some blob \<Rightarrow> (case deserializeTopologySnapshotBlob blob of None \<Rightarrow> None
         | Some x \<Rightarrow> (case validateTopologySnapshot p (x\<lparr>sn_state := st\<rparr>) of Inl _ \<Rightarrow> None | Inr n \<Rightarrow> Some n)))"

lemma restored_valid: "restored p st b = Some n \<Longrightarrow> valid_at p st n"
  by (auto simp: restored_def split: option.splits sum.splits dest: deserialize_wf intro: validate_state)

lemma restored_saved:
  assumes "valid_at p st n" and "serializeTopologySnapshotBlob n = Some b"
  shows "restored p st (Some b) = Some n"
proof -
  have "deserializeTopologySnapshotBlob b = Some n"
    using assms snapshot_blob [of n] by (auto simp: valid_at_def)
  moreover have "validateTopologySnapshot p (n\<lparr>sn_state := st\<rparr>) = Inr n"
    using assms by (cases n) (simp add: valid_at_def)
  ultimately show ?thesis by (simp add: restored_def)
qed

section \<open>Restoring\<close>

lemma load_snapshot_core:
  "wp (loadTopologySnapshotMeta E slot) (\<lambda>r t. core t = core s \<and> (\<forall>x. r = Some x \<longrightarrow> snapshot_wf x)) s"
  unfolding loadTopologySnapshotMeta_def
  by (auto simp: wp_rules deserialize_wf split: option.split intro!: wp_core [OF meta_core(2)])

lemma restore_snapshot_core:
  "wp (restore_snapshot E slot st)
     (\<lambda>r t. core t = core s \<and> (\<forall>n. r = Some n \<longrightarrow> valid_at (co_profile (core s)) st n)) s"
  unfolding restore_snapshot_def wp_bind
proof (rule wp_mono [OF load_snapshot_core])
  fix r :: "TopologySnapshot option" and t
  assume t: "core t = core s \<and> (\<forall>x. r = Some x \<longrightarrow> snapshot_wf x)"
  then have p: "g_local_profile_id t = co_profile (core s)" by (auto simp: core_def)
  show "wp (case r of None \<Rightarrow> ret None
     | Some snapshot \<Rightarrow> do {
         profile \<leftarrow> gets g_local_profile_id;
         case validateTopologySnapshot profile (snapshot\<lparr>sn_state := st\<rparr>) of
           Inl e \<Rightarrow> do { _ \<leftarrow> eraseTopologySnapshotMeta E slot; ret None }
         | Inr valid \<Rightarrow> ret (Some valid) })
     (\<lambda>r t. core t = core s \<and> (\<forall>n. r = Some n \<longrightarrow> valid_at (co_profile (core s)) st n)) t"
    using t validate_state
    by (auto simp: wp_rules p split: option.split sum.split intro!: wp_core [OF snapshot_meta_core(2)])
qed

lemma restore_valid: "keeps (\<lambda>s. snapshots_valid (core s)) (restoreTopologySnapshots E)"
  unfolding keeps_def restoreTopologySnapshots_def wp_bind wp_modify
proof (intro allI impI, rule wp_mono [OF restore_snapshot_core])
  fix s t :: topo and r
  let ?s = "s\<lparr>tp_staged := no_snapshot, tp_committed := no_snapshot, tp_has_staged := False,
               tp_has_committed := False, tp_attached := []\<rparr>"
  assume "core t = core ?s \<and> (\<forall>n. r = Some n \<longrightarrow> valid_at (co_profile (core ?s)) tsCommitted n)"
  then show "wp (case r of None \<Rightarrow> ret ()
      | Some x \<Rightarrow> modify (\<lambda>s. s\<lparr>tp_committed := x, tp_has_committed := True\<rparr>))
    (\<lambda>_. wp (restore_snapshot E kTopologyMetaSlotStaged tsStaged)
      (\<lambda>g. wp (case g of None \<Rightarrow> ret ()
         | Some x \<Rightarrow> modify (\<lambda>s. s\<lparr>tp_staged := x, tp_has_staged := True\<rparr>))
       (\<lambda>_ u. snapshots_valid (core u)))) t"
    by (auto simp: wp_rules snapshots_valid_def valid_at_def core_def split: option.split
        intro!: wp_mono [OF restore_snapshot_core])
qed

text \<open>The same over a store that works: the snapshot is the one of the slot, which stays or is emptied.\<close>

lemma kept_slot:
  assumes "kept E S m0 c v s" and "slot \<noteq> kTopologyMetaSlotLmk"
  shows "wp (loadLocalMetaBlob E slot) (\<lambda>r t. r = v slot \<and> kept E S m0 c v t) s"
    and "wp (eraseLocalMetaBlob E slot) (\<lambda>r t. kept E S m0 c (if r then v(slot := None) else v) t) s"
    and "b \<noteq> [] \<Longrightarrow> wp (saveLocalMetaBlob E slot b) (\<lambda>r t. kept E S m0 c (if r then v(slot \<mapsto> b) else v) t) s"
proof -
  from assms have ok: "meta_ok E S m0 s \<and> core s = c" by (simp add: kept_def)
  show "wp (loadLocalMetaBlob E slot) (\<lambda>r t. r = v slot \<and> kept E S m0 c v t) s"
    by (rule local_meta.wp_get [OF ok]) (use assms in \<open>simp add: kept_def\<close>)
  show "wp (eraseLocalMetaBlob E slot) (\<lambda>r t. kept E S m0 c (if r then v(slot := None) else v) t) s"
    by (rule local_meta.wp_del [OF ok]) (use assms in \<open>simp_all add: kept_def\<close>)
  show "wp (saveLocalMetaBlob E slot b) (\<lambda>r t. kept E S m0 c (if r then v(slot \<mapsto> b) else v) t) s"
    if "b \<noteq> []"
    by (rule local_meta.wp_put [OF ok that]) (use assms in \<open>simp_all add: kept_def\<close>)
qed

lemma kept_facts:
  "kept E S m0 c v s \<Longrightarrow> storeReady E" "kept E S m0 c v s \<Longrightarrow> g_local_profile_id s = co_profile c"
  using meta_enabled by (auto simp: kept_def core_def)

lemma restored_simps:
  "restored p st None = None" "deserializeTopologySnapshotBlob b = None \<Longrightarrow> restored p st (Some b) = None"
  "deserializeTopologySnapshotBlob b = Some x \<Longrightarrow> validateTopologySnapshot p (x\<lparr>sn_state := st\<rparr>) = Inl e
   \<Longrightarrow> restored p st (Some b) = None"
  "deserializeTopologySnapshotBlob b = Some x \<Longrightarrow> validateTopologySnapshot p (x\<lparr>sn_state := st\<rparr>) = Inr n
   \<Longrightarrow> restored p st (Some b) = Some n"
  by (simp_all add: restored_def)

lemma restore_snapshot_kept:
  assumes s: "kept E S m0 c v s" and slot: "slot \<noteq> kTopologyMetaSlotLmk"
  shows "wp (restore_snapshot E slot st) (\<lambda>r t. r = restored (co_profile c) st (v slot)
    \<and> (\<exists>w. restored (co_profile c) st w = r \<and> kept E S m0 c (v(slot := w)) t)) s"
proof (cases "restored (co_profile c) st (v slot)")
  case (Some n)
  then obtain b x where "v slot = Some b" "deserializeTopologySnapshotBlob b = Some x"
    "validateTopologySnapshot (co_profile c) (x\<lparr>sn_state := st\<rparr>) = Inr n"
    by (auto simp: restored_def split: option.splits sum.splits)
  with Some show ?thesis
    by (auto simp: restore_snapshot_def loadTopologySnapshotMeta_def kept_facts [OF s] wp_rules kept_facts
        fun_upd_idem intro!: wp_mono [OF kept_slot(1) [OF s slot]] exI [of _ "v slot"])
next
  case None
  define R where "R t \<longleftrightarrow> (\<exists>w. restored (co_profile c) st w = None \<and> kept E S m0 c (v(slot := w)) t)" for t
  have stay: "R t" if "kept E S m0 c v t" for t
    using None that unfolding R_def by (intro exI [of _ "v slot"]) simp
  have empty: "R t" if "kept E S m0 c (v(slot := None)) t" for t
    using that unfolding R_def by (intro exI [of _ None]) (simp add: restored_simps)
  have erase: "wp (eraseLocalMetaBlob E slot) (\<lambda>_. R) t" if "kept E S m0 c v t" for t
    by (rule wp_mono [OF kept_slot(2) [OF that slot]]) (auto split: if_splits intro: stay empty)
  have "wp (restore_snapshot E slot st) (\<lambda>r t. r = None \<and> R t) s"
    using None
    by (auto simp: restore_snapshot_def loadTopologySnapshotMeta_def eraseTopologySnapshotMeta_def kept_facts [OF s]
        wp_rules kept_facts restored_simps split: option.split sum.split
        intro!: wp_mono [OF kept_slot(1) [OF s slot]] wp_mono [OF erase] intro: stay)
  then show ?thesis
    by (rule wp_mono) (auto simp: None R_def)
qed

end
