(* ===== verification/TopologyDurable.thy ===== *)
theory TopologyDurable
  imports TopologyState
begin

text \<open>
  Staging, committing, clearing and restoring over a store that works: what the slots hold
  afterwards, and the invariant that ties the committed snapshot to them.
\<close>

section \<open>Saving and erasing snapshots\<close>

lemma serialize_nonempty: "serializeTopologySnapshotBlob n = Some b \<Longrightarrow> b \<noteq> []"
  by (auto simp: serializeTopologySnapshotBlob_def Let_def blob_sizes split: if_splits)

lemma save_snapshot_kept:
  assumes "kept E S m0 c v s" and "slot \<noteq> kTopologyMetaSlotLmk"
  shows "wp (saveTopologySnapshotMeta E slot n) (\<lambda>r t.
     if r then \<exists>b. serializeTopologySnapshotBlob n = Some b \<and> kept E S m0 c (v(slot \<mapsto> b)) t
     else kept E S m0 c v t) s"
proof (cases "serializeTopologySnapshotBlob n")
  case None
  then show ?thesis using assms by (simp add: saveTopologySnapshotMeta_def kept_facts wp_ret)
next
  case (Some b)
  then show ?thesis
    using kept_slot(3) [OF assms serialize_nonempty [OF Some]]
    by (auto simp: saveTopologySnapshotMeta_def kept_facts [OF assms(1)] elim: wp_mono split: if_splits)
qed

lemma erase_snapshot_kept:
  assumes "kept E S m0 c v s" and "slot \<noteq> kTopologyMetaSlotLmk"
  shows "wp (eraseTopologySnapshotMeta E slot) (\<lambda>r t. kept E S m0 c (if r then v(slot := None) else v) t) s"
  using kept_slot(2) [OF assms] by (simp add: eraseTopologySnapshotMeta_def kept_facts [OF assms(1)])

lemma kept_upd:
  "kept E S m0 c v s \<Longrightarrow> core t = d \<Longrightarrow> g_store t = g_store s \<Longrightarrow> co_local d = co_local c \<Longrightarrow> kept E S m0 d v t"
  by (auto simp: kept_def meta_ok_def meta_view_def core_def)

lemma slots_apart [simp]:
  "kTopologyMetaSlotStaged \<noteq> kTopologyMetaSlotLmk" "kTopologyMetaSlotCommitted \<noteq> kTopologyMetaSlotLmk"
  "kTopologyMetaSlotStaged \<noteq> kTopologyMetaSlotCommitted" "kTopologyMetaSlotCommitted \<noteq> kTopologyMetaSlotStaged"
  by (simp_all add: kTopologyMetaSlotStaged_def kTopologyMetaSlotLmk_def kTopologyMetaSlotCommitted_def)

section \<open>Staging\<close>

lemma stage_kept:
  assumes s: "kept E S m0 (core s) v s"
  shows "wp (stageTopology E x) (\<lambda>r t. case r of Inl _ \<Rightarrow> kept E S m0 (core s) v t
     | Inr _ \<Rightarrow> \<exists>n b. validateTopologySnapshot (g_local_profile_id s) (x\<lparr>sn_state := tsStaged\<rparr>) = Inr n
         \<and> serializeTopologySnapshotBlob n = Some b
         \<and> kept E S m0 ((core s)\<lparr>co_staged := n, co_has_staged := True\<rparr>) (v(kTopologyMetaSlotStaged \<mapsto> b)) t) s"
proof (cases "validateTopologySnapshot (g_local_profile_id s) (x\<lparr>sn_state := tsStaged\<rparr>)")
  case (Inl e)
  then show ?thesis using s by (simp add: stageTopology_def wp_rules)
next
  case (Inr n)
  let ?c = "(core s)\<lparr>co_staged := n, co_has_staged := True\<rparr>"
  have set: "kept E S m0 ?c v (t\<lparr>tp_staged := n, tp_has_staged := True\<rparr>)" if "kept E S m0 (core s) v t" for t
    by (rule kept_upd [OF that]) (use that in \<open>auto simp: kept_def core_def\<close>)
  have reset: "kept E S m0 (core s) v (t\<lparr>tp_staged := tp_staged s, tp_has_staged := tp_has_staged s\<rparr>)"
    if "kept E S m0 ?c v t" for t
    by (rule kept_upd [OF that]) (use that in \<open>auto simp: kept_def core_def\<close>)
  show ?thesis
    unfolding stageTopology_def wp_bind wp_gets id_apply Inr sum.case
    by (rule kept.wp_kept [OF _ s], intro keeps_rules kept.lmk_kept, unfold wp_modify,
        rule wp_mono, rule save_snapshot_kept [OF set slots_apart(1)], assumption)
       (auto simp: wp_rules split: if_splits intro: reset)
qed

section \<open>Committing\<close>

lemma commit_kept:
  assumes s: "kept E S m0 (core s) v s"
  shows "wp (commitStagedTopology E) (\<lambda>r t. case r of Inl _ \<Rightarrow> kept E S m0 (core s) v t
     | Inr _ \<Rightarrow> if \<not> tp_has_staged s then kept E S m0 (core s) v t \<and> tp_has_committed s
         else \<exists>n b w. validateTopologySnapshot (g_local_profile_id s) ((tp_staged s)\<lparr>sn_state := tsCommitted, sn_checksum := 0\<rparr>) = Inr n
           \<and> serializeTopologySnapshotBlob n = Some b
           \<and> kept E S m0 ((core s)\<lparr>co_committed := n, co_has_committed := True,
                co_staged := no_snapshot, co_has_staged := False\<rparr>)
               (v(kTopologyMetaSlotCommitted \<mapsto> b, kTopologyMetaSlotStaged := w)) t) s"
proof (cases "tp_has_staged s")
  case False
  then show ?thesis using s by (simp add: commitStagedTopology_def wp_rules)
next
  case staged: True
  show ?thesis
  proof (cases "validateTopologySnapshot (g_local_profile_id s) ((tp_staged s)\<lparr>sn_state := tsCommitted, sn_checksum := 0\<rparr>)")
    case (Inl e)
    then show ?thesis using staged s by (simp add: commitStagedTopology_def wp_rules)
  next
    case (Inr n)
    let ?c = "(core s)\<lparr>co_committed := n, co_has_committed := True\<rparr>"
    let ?d = "?c\<lparr>co_staged := no_snapshot, co_has_staged := False\<rparr>"
    have set: "kept E S m0 ?c v (t\<lparr>tp_committed := n, tp_has_committed := True\<rparr>)"
      if "kept E S m0 (core s) v t" for t
      by (rule kept_upd [OF that]) (use that in \<open>auto simp: kept_def core_def\<close>)
    have reset: "kept E S m0 (core s) v (t\<lparr>tp_committed := tp_committed s, tp_has_committed := tp_has_committed s\<rparr>)"
      if "kept E S m0 ?c v t" for t
      by (rule kept_upd [OF that]) (use that in \<open>auto simp: kept_def core_def\<close>)
    have clear: "kept E S m0 ?d w (t\<lparr>tp_staged := no_snapshot, tp_has_staged := False\<rparr>)"
      if "kept E S m0 ?c w t" for t w
      by (rule kept_upd [OF that]) (use that in \<open>auto simp: kept_def core_def\<close>)
    have finish: "wp (eraseTopologySnapshotMeta E kTopologyMetaSlotStaged)
        (\<lambda>_ t. \<exists>w. kept E S m0 ?d (u(kTopologyMetaSlotStaged := w)) t) t"
      if "kept E S m0 ?d u t" for t u
      by (rule wp_mono [OF erase_snapshot_kept [OF that slots_apart(1)]])
         (auto split: if_splits intro: exI [of _ None] exI [of _ "u kTopologyMetaSlotStaged"])
    show ?thesis
      unfolding commitStagedTopology_def wp_bind wp_gets wp_ret id_apply Inr sum.case
      apply (simp only: staged not_True_eq_False if_False wp_bind)
      apply (rule kept.wp_kept [OF _ s], intro keeps_rules kept.load_kept)
      unfolding wp_bind
      apply (rule kept.wp_kept [OF kept.rollback_kept(3)], assumption)
      apply (split sum.split, intro conjI allI impI)
       apply (simp add: wp_ret)
      unfolding wp_bind wp_modify
      apply (rule wp_mono, rule save_snapshot_kept [OF set slots_apart(2)], assumption)
      apply (auto simp: wp_rules staged Inr split: if_splits
          intro!: reset kept.wp_kept [OF kept.rollback_kept(2)] wp_mono [OF finish [OF clear]])
      done
  qed
qed

section \<open>The committed snapshot and the store\<close>

text \<open>
  What a restart would restore: exactly the committed snapshot, and a staged snapshot if there is
  one. (A staged one that was cleared may come back if its blob could not be erased.)
\<close>

definition durable_in :: "core \<Rightarrow> (u8 \<Rightarrow> bytes option) \<Rightarrow> bool" where
  "durable_in c v \<longleftrightarrow> snapshots_valid c
     \<and> restored (co_profile c) tsCommitted (v kTopologyMetaSlotCommitted)
         = (if co_has_committed c then Some (co_committed c) else None)
     \<and> (co_has_staged c \<longrightarrow> restored (co_profile c) tsStaged (v kTopologyMetaSlotStaged) = Some (co_staged c))"

definition durable :: "menv \<Rightarrow> store_env \<Rightarrow> kv \<Rightarrow> topo \<Rightarrow> bool" where
  "durable E S m0 s \<longleftrightarrow> meta_ok E S m0 s \<and> durable_in (core s) (meta_view S m0 s)"

lemma durable_kept: "durable E S m0 s \<Longrightarrow> kept E S m0 (core s) (meta_view S m0 s) s"
  by (simp add: durable_def kept_refl)

lemma kept_durable: "kept E S m0 c v t \<Longrightarrow> durable_in c v \<Longrightarrow> durable E S m0 t"
  by (simp add: durable_def kept_def durable_in_def)

lemma durable_in: "durable E S m0 s \<Longrightarrow> durable_in (core s) (meta_view S m0 s)"
  by (simp add: durable_def)

lemma kept_program: "(\<And>c v. keeps (kept E S m0 c v) m) \<Longrightarrow> keeps (durable E S m0) m"
  unfolding keeps_def [of "durable E S m0"]
proof (intro allI impI)
  fix s
  assume m: "\<And>c v. keeps (kept E S m0 c v) m" and s: "durable E S m0 s"
  show "wp m (\<lambda>_. durable E S m0) s"
    by (rule wp_mono [OF keepsD [OF m durable_kept [OF s]]]) (use s in \<open>auto intro: kept_durable durable_in\<close>)
qed

lemma meta_same:
  assumes "g_store t = g_store s" and "co_local (core t) = co_local (core s)"
  shows "meta_view S m0 t = meta_view S m0 s" and "meta_ok E S m0 t = meta_ok E S m0 s"
  using assms by (auto simp: meta_view_def meta_ok_def core_def fun_eq_iff)

interpretation durable: snapshot_frame E "durable E S m0" for E S m0
proof
  show "durable E S m0 s \<Longrightarrow> core t = core s \<Longrightarrow> g_store t = g_store s \<Longrightarrow> durable E S m0 t" for s t
    by (simp add: durable_def meta_same [of t s])
  show "durable E S m0 s \<Longrightarrow> core t = (core s)\<lparr>co_now := n, co_dedup := d, co_notes := x\<rparr> \<Longrightarrow>
      g_store t = g_store s \<Longrightarrow> durable E S m0 t" for s t n d x
    by (simp add: durable_def meta_same [of t s] durable_in_def snapshots_valid_def)
qed (intro kept_program kept.load_kept kept.save_kept kept.erase_kept)+

lemma stage_durable: "snapshot_wf x \<Longrightarrow> keeps (durable E S m0) (stageTopology E x)"
  unfolding keeps_def
proof (intro allI impI)
  fix s
  assume wf: "snapshot_wf x" and s: "durable E S m0 s"
  have staged: "durable_in ((core s)\<lparr>co_staged := n, co_has_staged := True\<rparr>)
      ((meta_view S m0 s)(kTopologyMetaSlotStaged \<mapsto> b))"
    if "validateTopologySnapshot (g_local_profile_id s) (x\<lparr>sn_state := tsStaged\<rparr>) = Inr n"
      and b: "serializeTopologySnapshotBlob n = Some b" for n b
  proof -
    have "valid_at (g_local_profile_id s) tsStaged n" by (rule validate_state [OF that(1) wf])
    then show ?thesis
      using s restored_saved [OF _ b, of _ tsStaged]
      by (auto simp: durable_def durable_in_def snapshots_valid_def core_def valid_at_def [of _ tsStaged])
  qed
  show "wp (stageTopology E x) (\<lambda>_. durable E S m0) s"
    by (rule wp_mono [OF stage_kept [OF durable_kept [OF s]]])
       (use s in \<open>auto split: sum.splits intro: kept_durable durable_in staged\<close>)
qed

lemma commit_durable: "keeps (durable E S m0) (commitStagedTopology E)"
  unfolding keeps_def
proof (intro allI impI)
  fix s
  assume s: "durable E S m0 s"
  have committed: "durable_in ((core s)\<lparr>co_committed := n, co_has_committed := True,
        co_staged := no_snapshot, co_has_staged := False\<rparr>)
      ((meta_view S m0 s)(kTopologyMetaSlotCommitted \<mapsto> b, kTopologyMetaSlotStaged := w))"
    if v: "validateTopologySnapshot (g_local_profile_id s) ((tp_staged s)\<lparr>sn_state := tsCommitted, sn_checksum := 0\<rparr>) = Inr n"
      and b: "serializeTopologySnapshotBlob n = Some b" for n b w
  proof -
    have "snapshot_wf (tp_staged s)" using s by (simp add: durable_def durable_in_def snapshots_valid_def core_def)
    then have "valid_at (g_local_profile_id s) tsCommitted n"
      using validate_again [OF v] by simp
    then show ?thesis
      using s restored_saved [OF _ b, of _ tsCommitted]
      by (auto simp: durable_def durable_in_def snapshots_valid_def core_def valid_at_def [of _ tsCommitted])
  qed
  show "wp (commitStagedTopology E) (\<lambda>_. durable E S m0) s"
    by (rule wp_mono [OF commit_kept [OF durable_kept [OF s]]])
       (use s in \<open>auto split: sum.splits if_splits intro: kept_durable durable_in committed\<close>)
qed

lemma clear_durable: "keeps (durable E S m0) (clearStagedTopology E)"
  unfolding keeps_def clearStagedTopology_def wp_bind wp_modify
proof (intro allI impI)
  fix s
  assume s: "durable E S m0 s"
  let ?c = "(core s)\<lparr>co_staged := no_snapshot, co_has_staged := False\<rparr>"
  have t: "kept E S m0 ?c (meta_view S m0 s) (s\<lparr>tp_staged := no_snapshot, tp_has_staged := False\<rparr>)"
    by (rule kept_upd [OF durable_kept [OF s]]) (simp_all add: core_def)
  have "durable_in ?c ((meta_view S m0 s)(kTopologyMetaSlotStaged := w))" for w
    using s by (auto simp: durable_def durable_in_def snapshots_valid_def core_def)
  note any = this this [of "meta_view S m0 s kTopologyMetaSlotStaged", simplified]
  show "wp (eraseTopologySnapshotMeta E kTopologyMetaSlotStaged) (\<lambda>_. durable E S m0)
      (s\<lparr>tp_staged := no_snapshot, tp_has_staged := False\<rparr>)"
    by (rule wp_mono [OF erase_snapshot_kept [OF t slots_apart(1)]])
       (auto split: if_splits intro: kept_durable any)
qed

section \<open>Restoring all snapshots\<close>

lemma core_upd:
  "core (t\<lparr>tp_committed := x\<rparr>) = (core t)\<lparr>co_committed := x\<rparr>"
  "core (t\<lparr>tp_has_committed := b\<rparr>) = (core t)\<lparr>co_has_committed := b\<rparr>"
  "core (t\<lparr>tp_staged := x\<rparr>) = (core t)\<lparr>co_staged := x\<rparr>"
  "core (t\<lparr>tp_has_staged := b\<rparr>) = (core t)\<lparr>co_has_staged := b\<rparr>"
  by (simp_all add: core_def)

lemma kept_core: "kept E S m0 c v t \<Longrightarrow> core t = c"
  by (simp add: kept_def)

lemma wp_option_modify:
  "wp (case r of None \<Rightarrow> ret () | Some x \<Rightarrow> modify (f x)) Q t \<longleftrightarrow> Q () (case r of None \<Rightarrow> t | Some x \<Rightarrow> f x t)"
  by (simp add: wp_rules split: option.split)

lemma restore_kept:
  assumes s: "meta_ok E S m0 s"
  shows "wp (restoreTopologySnapshots E) (\<lambda>_ t. durable E S m0 t
     \<and> getTopologySnapshot tsCommitted t
         = restored (g_local_profile_id s) tsCommitted (meta_view S m0 s kTopologyMetaSlotCommitted)
     \<and> getTopologySnapshot tsStaged t
         = restored (g_local_profile_id s) tsStaged (meta_view S m0 s kTopologyMetaSlotStaged)) s"
proof -
  let ?p = "g_local_profile_id s" and ?v = "meta_view S m0 s"
  let ?C = kTopologyMetaSlotCommitted and ?T = kTopologyMetaSlotStaged
  define clear where "clear = (core s)\<lparr>co_staged := no_snapshot, co_committed := no_snapshot,
    co_has_staged := False, co_has_committed := False\<rparr>"
  define with_committed where "with_committed r = (case r of None \<Rightarrow> clear
    | Some x \<Rightarrow> clear\<lparr>co_committed := x, co_has_committed := True\<rparr>)" for r
  define with_both where "with_both r q = (case q of None \<Rightarrow> with_committed r
    | Some x \<Rightarrow> (with_committed r)\<lparr>co_staged := x, co_has_staged := True\<rparr>)" for r q
  note cores = clear_def with_committed_def with_both_def
  have start: "kept E S m0 clear ?v (s\<lparr>tp_staged := no_snapshot, tp_committed := no_snapshot,
      tp_has_staged := False, tp_has_committed := False, tp_attached := []\<rparr>)"
    by (rule kept_upd [OF kept_refl [OF s]]) (simp_all add: clear_def core_def)
  have prof: "co_profile clear = ?p" "co_profile (with_committed r) = ?p" for r
    by (simp_all add: cores core_def split: option.split)
  have set1: "kept E S m0 (with_committed r) v (case r of None \<Rightarrow> t
      | Some x \<Rightarrow> t\<lparr>tp_committed := x, tp_has_committed := True\<rparr>)" if "kept E S m0 clear v t" for r v t
    using that by (cases r) (simp_all add: with_committed_def kept_upd [OF that] core_upd kept_core [OF that])
  have set2: "kept E S m0 (with_both r q) v (case q of None \<Rightarrow> t
      | Some x \<Rightarrow> t\<lparr>tp_staged := x, tp_has_staged := True\<rparr>)" if "kept E S m0 (with_committed r) v t" for r q v t
    using that by (cases q) (simp_all add: with_both_def kept_upd [OF that] core_upd kept_core [OF that])
  have final: "durable E S m0 t \<and> getTopologySnapshot tsCommitted t = r \<and> getTopologySnapshot tsStaged t = q"
    if "kept E S m0 (with_both r q) (v(?C := w, ?T := w')) t" and "restored ?p tsCommitted w = r"
      and "restored ?p tsStaged w' = q" for r q v w w' t
  proof -
    have "durable_in (with_both r q) (v(?C := w, ?T := w'))"
      using that(2,3) restored_valid [of ?p tsCommitted w] restored_valid [of ?p tsStaged w']
      by (auto simp: durable_in_def snapshots_valid_def cores valid_at_def core_def split: option.splits)
    moreover have "core t = with_both r q" using that(1) by (simp add: kept_def)
    then have "getTopologySnapshot tsCommitted t = r" "getTopologySnapshot tsStaged t = q"
      by (auto simp: cores core_def getTopologySnapshot_def tsCommitted_def tsStaged_def split: option.splits)
    ultimately show ?thesis using kept_durable [OF that(1)] by simp
  qed
  show ?thesis
    unfolding restoreTopologySnapshots_def wp_bind wp_modify
  proof (rule wp_mono [OF restore_snapshot_kept [OF start slots_apart(2)]], elim conjE exE)
    fix r t w
    assume r: "r = restored (co_profile clear) tsCommitted (?v ?C)" "restored (co_profile clear) tsCommitted w = r"
      and "kept E S m0 clear (?v(?C := w)) t"
    note t = set1 [OF this(3), of r]
    show "wp (case r of None \<Rightarrow> ret () | Some x \<Rightarrow> modify (\<lambda>s. s\<lparr>tp_committed := x, tp_has_committed := True\<rparr>))
      (\<lambda>_. wp (restore_snapshot E ?T tsStaged)
        (\<lambda>g. wp (case g of None \<Rightarrow> ret () | Some x \<Rightarrow> modify (\<lambda>s. s\<lparr>tp_staged := x, tp_has_staged := True\<rparr>))
          (\<lambda>_ t. durable E S m0 t \<and> getTopologySnapshot tsCommitted t = restored ?p tsCommitted (?v ?C)
             \<and> getTopologySnapshot tsStaged t = restored ?p tsStaged (?v ?T)))) t"
      unfolding wp_option_modify
    proof (rule wp_mono [OF restore_snapshot_kept [OF t slots_apart(1)]], elim conjE exE)
      fix q u w'
      assume q: "q = restored (co_profile (with_committed r)) tsStaged ((?v(?C := w)) ?T)"
          "restored (co_profile (with_committed r)) tsStaged w' = q"
        and u: "kept E S m0 (with_committed r) (?v(?C := w, ?T := w')) u"
      show "durable E S m0 (case q of None \<Rightarrow> u | Some x \<Rightarrow> u\<lparr>tp_staged := x, tp_has_staged := True\<rparr>)
         \<and> getTopologySnapshot tsCommitted (case q of None \<Rightarrow> u | Some x \<Rightarrow> u\<lparr>tp_staged := x, tp_has_staged := True\<rparr>)
             = restored ?p tsCommitted (?v ?C)
         \<and> getTopologySnapshot tsStaged (case q of None \<Rightarrow> u | Some x \<Rightarrow> u\<lparr>tp_staged := x, tp_has_staged := True\<rparr>)
             = restored ?p tsStaged (?v ?T)"
        using final [OF set2 [OF u, of q]] r q by (simp add: prof)
    qed
  qed
qed

lemma restore_durable: "keeps (durable E S m0) (restoreTopologySnapshots E)"
  by (auto simp: keeps_def durable_def [of E S m0] intro!: wp_mono [OF restore_kept])

end
