(* ===== verification/TriggerRuns.thy ===== *)
theory TriggerRuns
  imports TopologyState
begin

text \<open>
  What receiving does to the core: one of three outcomes per frame, and from them what a run does to
  the window of seen numbers and which notifications the hooks get.
\<close>

section \<open>Outcomes of a frame\<close>

type_synonym trigger_key = "mac \<times> u8 \<times> u8 \<times> u16"

definition note_key :: "TopologyTriggerNotification \<Rightarrow> trigger_key" where
  "note_key n = (tn_source n, tn_src_role n, tn_src_vid n, tn_seq n)"

definition entry_key :: "TopologyTriggerDedupEntry \<Rightarrow> trigger_key" where
  "entry_key e = (dd_source e, dd_src_role e, dd_src_vid e, dd_seq e)"

definition entry_of :: "trigger_key \<Rightarrow> u32 \<Rightarrow> TopologyTriggerDedupEntry" where
  "entry_of = (\<lambda>(m, r, v, n) now. \<lparr>dd_source = m, dd_src_role = r, dd_src_vid = v, dd_seq = n, dd_seen_ms = now\<rparr>)"

lemma same_trigger_key: "same_trigger m r v n e \<longleftrightarrow> entry_key e = (m, r, v, n)"
  by (auto simp: same_trigger_def entry_key_def)

lemma entry_of_fields [simp]: "entry_key (entry_of k now) = k" "dd_seen_ms (entry_of k now) = now"
  by (cases k; simp add: entry_of_def entry_key_def)+

text \<open>The committed snapshot lets this notification through.\<close>

definition authorized :: "core \<Rightarrow> TopologyTriggerNotification \<Rightarrow> bool" where
  "authorized c n \<longleftrightarrow> co_has_committed c \<and> co_profile c \<noteq> kProfileUnknown
     \<and> tn_dst_role n = profile_code (co_profile c)
     \<and> isTopologyRolePairAllowed (tn_dst_role n) (tn_src_role n)
     \<and> \<not> vid_bad (tn_src_vid n) \<and> \<not> vid_bad (tn_dst_vid n) \<and> tn_direction n \<in> {1, 2}
     \<and> (\<exists>slot \<in> set (sn_slots (co_committed c)).
          authorizes (tn_source n) (tn_src_role n) (tn_src_vid n) (tn_dst_vid n) slot)"

definition received :: "trigger_key \<Rightarrow> core \<Rightarrow> core \<Rightarrow> bool" where
  "received k c d \<longleftrightarrow> (let seen = pruneTopologyTriggerDedup (co_now c) (co_dedup c) in
     d = c
     \<or> (k \<in> entry_key ` set seen \<and> d = c\<lparr>co_dedup := seen\<rparr>)
     \<or> (k \<notin> entry_key ` set seen \<and> (\<exists>ns.
          d = c\<lparr>co_dedup := pruneTopologyTriggerDedup (co_now c) (seen @ [entry_of k (co_now c)]),
                co_notes := co_notes c @ ns\<rparr>
          \<and> (\<forall>n \<in> set ns. note_key n = k \<and> authorized c n))))"

lemma wp_duplicate:
  "wp (isTopologyTriggerDuplicate m r v n) Q s \<longleftrightarrow>
    (let seen = pruneTopologyTriggerDedup (g_now_ms s) (tp_dedup s) in
     if (m, r, v, n) \<in> entry_key ` set seen then Q True (s\<lparr>tp_dedup := seen\<rparr>)
     else Q False (s\<lparr>tp_dedup := pruneTopologyTriggerDedup (g_now_ms s) (seen @ [entry_of (m, r, v, n) (g_now_ms s)])\<rparr>))"
proof -
  have "list_ex (same_trigger m r v n) xs \<longleftrightarrow> (m, r, v, n) \<in> entry_key ` set xs" for xs
    by (auto simp: list_ex_iff same_trigger_key image_iff) (metis)
  then show ?thesis
    by (simp add: isTopologyTriggerDuplicate_def wp_rules Let_def entry_of_def)
qed

lemma found_slot:
  "findTopologyAuthorizedSourceSlot s m r v d = Some slot \<Longrightarrow>
   tp_has_committed s \<and> slot \<in> set (sn_slots (tp_committed s)) \<and> authorizes m r v d slot"
  by (auto simp: findTopologyAuthorizedSourceSlot_def find_Some_iff split: if_splits)

lemma found_iff:
  "findTopologyAuthorizedSourceSlot s m r v d \<noteq> None \<longleftrightarrow>
   tp_has_committed s \<and> (\<exists>slot \<in> set (sn_slots (tp_committed s)). authorizes m r v d slot)"
proof -
  have "(List.find P xs \<noteq> None) = (\<exists>x \<in> set xs. P x)" for P :: "TopologySlot \<Rightarrow> bool" and xs
    unfolding find_None_iff Bex_def by simp
  then show ?thesis by (simp add: findTopologyAuthorizedSourceSlot_def)
qed

abbreviation "seen_at s \<equiv> pruneTopologyTriggerDedup (g_now_ms s) (tp_dedup s)"

definition record_key :: "trigger_key \<Rightarrow> topo \<Rightarrow> topo" where
  "record_key k s = s\<lparr>tp_dedup := pruneTopologyTriggerDedup (g_now_ms s) (seen_at s @ [entry_of k (g_now_ms s)])\<rparr>"

lemma wp_decide_trigger:
  assumes "\<And>r. \<not> authorized (core s) (trigger_note m t) \<Longrightarrow> Q (False, False, r) s"
    and "(m, tt_src_role t, tt_src_vid t, tt_seq t) \<in> entry_key ` set (seen_at s) \<Longrightarrow>
       Q (True, True, kTopologyTriggerReasonOk) (s\<lparr>tp_dedup := seen_at s\<rparr>)"
    and "(m, tt_src_role t, tt_src_vid t, tt_seq t) \<notin> entry_key ` set (seen_at s) \<Longrightarrow>
       authorized (core s) (trigger_note m t) \<Longrightarrow>
       Q (True, False, kTopologyTriggerReasonOk) (record_key (m, tt_src_role t, tt_src_vid t, tt_seq t) s)"
  shows "wp (decide_trigger m t) Q s"
proof -
  have "authorized (core s) (trigger_note m t) \<longleftrightarrow>
      tp_has_committed s \<and> g_local_profile_id s \<noteq> kProfileUnknown \<and> tt_dst_role t = profile_code (g_local_profile_id s)
      \<and> isTopologyRolePairAllowed (profile_code (g_local_profile_id s)) (tt_src_role t)
      \<and> \<not> vid_bad (tt_src_vid t) \<and> \<not> vid_bad (tt_dst_vid t) \<and> (tt_direction t = 1 \<or> tt_direction t = 2)
      \<and> findTopologyAuthorizedSourceSlot s m (tt_src_role t) (tt_src_vid t) (tt_dst_vid t) \<noteq> None"
    unfolding found_iff by (auto simp: authorized_def core_def trigger_note_def)
  then show ?thesis
    using assms by (auto simp: decide_trigger_def wp_rules wp_duplicate Let_def record_key_def)
qed

lemma authorize_items_all:
  "authorize_items s m r v is slots = (kTopologyTriggerReasonOk, out) \<Longrightarrow>
   length out = length slots + length is \<and>
   (\<forall>i \<in> set is. \<not> vid_bad (ti_dst_vid i) \<and> findTopologyAuthorizedSourceSlot s m r v (ti_dst_vid i) \<noteq> None)"
proof (induction "is" arbitrary: slots)
  case (Cons i "is")
  then show ?case
    by (fastforce simp: kTopologyTriggerReasonBadIndex_def kTopologyTriggerReasonOk_def
        kTopologyTriggerReasonUnauthorizedPeer_def split: if_splits option.splits)
qed simp

lemma wp_decide_batch:
  assumes "\<And>r. Q ((False, False, r), []) s"
    and "(m, tb_src_role t, tb_src_vid t, tb_seq t) \<in> entry_key ` set (seen_at s) \<Longrightarrow>
       Q ((True, True, kTopologyTriggerReasonOk), []) (s\<lparr>tp_dedup := seen_at s\<rparr>)"
    and "\<And>r slots. (m, tb_src_role t, tb_src_vid t, tb_seq t) \<notin> entry_key ` set (seen_at s) \<Longrightarrow>
       Q ((False, False, r), slots) (record_key (m, tb_src_role t, tb_src_vid t, tb_seq t) s)"
    and "\<And>slots. (m, tb_src_role t, tb_src_vid t, tb_seq t) \<notin> entry_key ` set (seen_at s) \<Longrightarrow>
       length slots = length (tb_items t) \<Longrightarrow>
       \<forall>i \<in> set (tb_items t). authorized (core s) (batch_note m t i) \<Longrightarrow>
       Q ((True, False, kTopologyTriggerReasonOk), slots)
         (record_key (m, tb_src_role t, tb_src_vid t, tb_seq t) s)"
  shows "wp (decide_batch m t) Q s"
proof -
  have "length slots = length (tb_items t) \<and> (\<forall>i \<in> set (tb_items t). authorized (core s) (batch_note m t i))"
    if "tp_has_committed s" "g_local_profile_id s \<noteq> kProfileUnknown" "tb_dst_role t = profile_code (g_local_profile_id s)"
      "isTopologyRolePairAllowed (profile_code (g_local_profile_id s)) (tb_src_role t)"
      "\<not> vid_bad (tb_src_vid t)" "tb_direction t = 1 \<or> tb_direction t = 2"
      "authorize_items s m (tb_src_role t) (tb_src_vid t) (tb_items t) [] = (kTopologyTriggerReasonOk, slots)" for slots
    using that authorize_items_all [OF that(7)] found_slot
    by (fastforce simp: authorized_def core_def batch_note_def)
  note ok = this
  obtain r slots where items: "authorize_items s m (tb_src_role t) (tb_src_vid t) (tb_items t) [] = (r, slots)"
    by fastforce
  show ?thesis
    using assms ok [of slots]
    by (cases "r = kTopologyTriggerReasonOk")
       (simp_all add: decide_batch_def wp_rules wp_duplicate Let_def record_key_def items)
qed

section \<open>The handlers\<close>

lemma core_liveness: "core (snd (run_state (m_updateLiveness m) s)) = core s"
  by (simp add: m_updateLiveness_def core_def)

lemma received_simps:
  "received k c c"
  "k \<in> entry_key ` set (seen_at s) \<Longrightarrow> received k (core s) (core (s\<lparr>tp_dedup := seen_at s\<rparr>))"
  "k \<notin> entry_key ` set (seen_at s) \<Longrightarrow> received k (core s) (core (record_key k s))"
  by (auto simp: received_def Let_def core_def record_key_def)

lemma core_note: "core (s\<lparr>g_calls := g_calls s @ cs\<rparr>) = (core s)\<lparr>co_notes := co_notes (core s) @ noted cs\<rparr>"
  by (simp add: core_def)

lemma received_notes:
  assumes "k \<notin> entry_key ` set (seen_at s)" and "core u = core (record_key k s)"
    and "\<forall>n \<in> set (noted cs). note_key n = k \<and> authorized (core s) n"
  shows "received k (core s) (core (u\<lparr>g_calls := g_calls u @ cs\<rparr>))"
  unfolding core_note assms(2) received_def Let_def
  using assms(1,3) by (intro disjI2 conjI exI [of _ "noted cs"]) (simp_all add: core_def record_key_def)

lemma wp_do: "wp (m_do a) Q s \<longleftrightarrow> Q () (s\<lparr>g_calls := g_calls s @ [a]\<rparr>)"
  by (simp add: m_do_def m_call_def wp_rules)

lemma wp_do_all:
  "wp (forM xs (\<lambda>i. m_do (f i))) Q s \<longleftrightarrow> Q () (s\<lparr>g_calls := g_calls s @ map f xs\<rparr>)"
  by (induction xs arbitrary: s) (simp_all add: wp_rules wp_do)

text \<open>What follows the decision in both handlers: the hooks get \<open>cs\<close> if \<open>b\<close>, and nothing else of the core changes.\<close>

lemma wp_tail:
  assumes notify: "\<And>R v. wp notify R v \<longleftrightarrow> R () (v\<lparr>g_calls := g_calls v @ cs\<rparr>)"
    and Q: "\<And>w. core w = (core u)\<lparr>co_notes := co_notes (core u) @ (if b then noted cs else [])\<rparr> \<Longrightarrow> Q True w"
  shows "wp (do { _ \<leftarrow> m_event E e; _ \<leftarrow> whenM b notify; s \<leftarrow> gets id;
                  _ \<leftarrow> send_ack E m i (a s); _ \<leftarrow> blinkForMessage E ty; ret True }) Q u"
proof -
  have answer: "wp (send_ack E m i x) (\<lambda>_. wp (blinkForMessage E ty) (\<lambda>_. wp (ret True) Q)) v"
    if "core v = (core u)\<lparr>co_notes := co_notes (core u) @ (if b then noted cs else [])\<rparr>" for v x
    by (rule wp_core, rule core.send_ack_kept, rule wp_core, rule core.blink_kept)
       (simp add: wp_ret Q that)
  show ?thesis
    unfolding wp_bind
    by (rule wp_core, rule core.event_kept) (auto simp: wp_when notify wp_gets core_note intro!: answer)
qed

lemma core_seen: "core t = core s \<Longrightarrow> seen_at t = seen_at s"
  by (simp add: core_def)

lemma core_dedup: "core (s\<lparr>tp_dedup := d\<rparr>) = (core s)\<lparr>co_dedup := d\<rparr>"
  by (simp add: core_def)

lemma core_record: "core t = core s \<Longrightarrow> core (record_key k t) = core (record_key k s)"
  by (simp add: record_key_def core_def)

lemma record_notes [simp]: "co_notes (core (record_key k s)) = co_notes (core s)"
  by (simp add: record_key_def core_def)

lemma noted_hooks: "noted (map (\<lambda>i. HookTopologyTrigger (f i)) xs) = map f xs"
  by (induction xs) simp_all

lemma wp_trigger:
  assumes "\<And>w. core w = core s \<Longrightarrow> parseTopologyTriggerPayload p = None \<or> local_role (m_cfg E) \<noteq> Slave \<Longrightarrow> Q False w"
    and "\<And>t w. parseTopologyTriggerPayload p = Some t \<Longrightarrow> \<not> authorized (core s) (trigger_note m t) \<Longrightarrow>
      core w = core s \<Longrightarrow> Q True w"
    and "\<And>t w. parseTopologyTriggerPayload p = Some t \<Longrightarrow>
      (m, tt_src_role t, tt_src_vid t, tt_seq t) \<in> entry_key ` set (seen_at s) \<Longrightarrow>
      core w = core (s\<lparr>tp_dedup := seen_at s\<rparr>) \<Longrightarrow> Q True w"
    and "\<And>t w. parseTopologyTriggerPayload p = Some t \<Longrightarrow> local_role (m_cfg E) = Slave \<Longrightarrow>
      (m, tt_src_role t, tt_src_vid t, tt_seq t) \<notin> entry_key ` set (seen_at s) \<Longrightarrow>
      authorized (core s) (trigger_note m t) \<Longrightarrow>
      core w = (core (record_key (m, tt_src_role t, tt_src_vid t, tt_seq t) s))
        \<lparr>co_notes := co_notes (core s) @ (if m_hooks E then [trigger_note m t] else [])\<rparr> \<Longrightarrow> Q True w"
  shows "wp (onRxTopologyTrigger E m h p) Q s"
proof (cases "local_role (m_cfg E) = Slave \<and> (\<exists>t. parseTopologyTriggerPayload p = Some t)")
  case False
  then show ?thesis using assms(1) by (auto simp: onRxTopologyTrigger_def wp_ret split: option.split)
next
  case True
  then obtain t where E: "local_role (m_cfg E) = Slave" and p: "parseTopologyTriggerPayload p = Some t" by blast
  show ?thesis
    unfolding onRxTopologyTrigger_def p option.case
  proof (simp only: E not_True_eq_False simp_thms if_False, subst wp_bind, rule wp_core, rule core.liveness_kept)
    fix u
    assume u: "core u = core s"
    have seen: "seen_at u = seen_at s" and same: "core (u\<lparr>tp_dedup := seen_at u\<rparr>) = core (s\<lparr>tp_dedup := seen_at s\<rparr>)"
      and rec: "core (record_key k u) = core (record_key k s)" for k
      by (rule core_seen [OF u], simp add: core_dedup u core_seen [OF u], rule core_record [OF u])
    show "wp (do { v \<leftarrow> decide_trigger m t;
        _ \<leftarrow> m_event E (trigger_event m (fh_correlation_id h) t v);
        _ \<leftarrow> whenM (fst v \<and> \<not> fst (snd v) \<and> m_hooks E) (m_do (HookTopologyTrigger (trigger_note m t)));
        s \<leftarrow> gets id; _ \<leftarrow> send_ack E m (fh_correlation_id h) (trigger_ack s t v);
        _ \<leftarrow> blinkForMessage E (fh_type h); ret True }) Q u"
      apply (subst wp_bind, rule wp_decide_trigger; rule wp_tail, rule wp_do)
        apply (rule assms(2) [OF p], simp add: u, simp add: u)
       apply (rule assms(3) [OF p], simp only: seen, simp add: same)
      apply (rule assms(4) [OF p E], simp add: seen, simp add: u, simp add: rec u)
      done
  qed
qed

lemma trigger_notes:
  assumes "local_role (m_cfg E) = Slave" and "m_hooks E" and "parseTopologyTriggerPayload p = Some t"
  shows "wp (onRxTopologyTrigger E m h p) (\<lambda>b u. b \<and> noted (g_calls u) = noted (g_calls s) @
    (if authorized (core s) (trigger_note m t) \<and> note_key (trigger_note m t) \<notin> entry_key ` set (seen_at s)
     then [trigger_note m t] else [])) s"
proof -
  have "wp (onRxTopologyTrigger E m h p) (\<lambda>b u. b \<and> co_notes (core u) = co_notes (core s) @
    (if authorized (core s) (trigger_note m t) \<and> note_key (trigger_note m t) \<notin> entry_key ` set (seen_at s)
     then [trigger_note m t] else [])) s"
    by (rule wp_trigger) (use assms in \<open>auto simp: core_dedup note_key_def trigger_note_def\<close>)
  then show ?thesis by (simp add: core_def)
qed

lemma wp_batch:
  assumes "\<And>w. core w = core s \<Longrightarrow> Q False w" and "\<And>w. core w = core s \<Longrightarrow> Q True w"
    and "\<And>t w. parseTopologyTriggerBatchPayload p = Some t \<Longrightarrow>
      (m, tb_src_role t, tb_src_vid t, tb_seq t) \<in> entry_key ` set (seen_at s) \<Longrightarrow>
      core w = core (s\<lparr>tp_dedup := seen_at s\<rparr>) \<Longrightarrow> Q True w"
    and "\<And>t w b. parseTopologyTriggerBatchPayload p = Some t \<Longrightarrow> local_role (m_cfg E) = Slave \<Longrightarrow>
      (m, tb_src_role t, tb_src_vid t, tb_seq t) \<notin> entry_key ` set (seen_at s) \<Longrightarrow>
      (b \<Longrightarrow> \<forall>i \<in> set (tb_items t). authorized (core s) (batch_note m t i)) \<Longrightarrow>
      core w = (core (record_key (m, tb_src_role t, tb_src_vid t, tb_seq t) s))
        \<lparr>co_notes := co_notes (core s) @ (if b \<and> m_hooks E then map (batch_note m t) (tb_items t) else [])\<rparr>
      \<Longrightarrow> Q True w"
  shows "wp (onRxTopologyTriggerBatch E m h p) Q s"
proof (cases "local_role (m_cfg E) = Slave \<and> (\<exists>t. parseTopologyTriggerBatchPayload p = Some t)")
  case False
  then show ?thesis using assms(1) by (auto simp: onRxTopologyTriggerBatch_def wp_ret split: option.split)
next
  case True
  then obtain t where E: "local_role (m_cfg E) = Slave" and p: "parseTopologyTriggerBatchPayload p = Some t" by blast
  show ?thesis
    unfolding onRxTopologyTriggerBatch_def p option.case
  proof (simp only: E not_True_eq_False simp_thms if_False, subst wp_bind, rule wp_core, rule core.liveness_kept)
    fix u
    assume u: "core u = core s"
    have seen: "seen_at u = seen_at s" and same: "core (u\<lparr>tp_dedup := seen_at u\<rparr>) = core (s\<lparr>tp_dedup := seen_at s\<rparr>)"
      and rec: "core (record_key k u) = core (record_key k s)" for k
      by (rule core_seen [OF u], simp add: core_dedup u core_seen [OF u], rule core_record [OF u])
    show "wp (do { d \<leftarrow> decide_batch m t;
        let (v, slots) = d;
        _ \<leftarrow> m_event E (batch_event m (fh_correlation_id h) t v);
        _ \<leftarrow> whenM (fst v \<and> \<not> fst (snd v) \<and> m_hooks E)
              (forM (take (min (length (tb_items t)) (length slots)) (tb_items t))
                (\<lambda>i. m_do (HookTopologyTrigger (batch_note m t i))));
        s \<leftarrow> gets id; _ \<leftarrow> send_ack E m (fh_correlation_id h) (batch_ack s t v);
        _ \<leftarrow> blinkForMessage E (fh_type h); ret True }) Q u"
      apply (subst wp_bind, rule wp_decide_batch; simp only: Let_def prod.case; rule wp_tail, rule wp_do_all)
         apply (rule assms(2), simp add: u)
        apply (rule assms(3) [OF p], simp only: seen, simp add: same)
       apply (rule assms(4) [OF p E, where b = False], simp add: seen, simp, simp add: rec u)
      apply (rule assms(4) [OF p E, where b = True], simp add: seen, simp add: u, simp add: rec u noted_hooks)
      done
  qed
qed

lemma received_same: "core w = core s \<Longrightarrow> received k (core s) (core w)"
  by (simp add: received_simps)

lemma received_new:
  assumes "k \<notin> entry_key ` set (seen_at s)"
    and "core w = (core (record_key k s))\<lparr>co_notes := co_notes (core s) @ ns\<rparr>"
    and "\<forall>n \<in> set ns. note_key n = k \<and> authorized (core s) n"
  shows "received k (core s) (core w)"
  unfolding received_def Let_def assms(2)
  using assms(1,3) by (intro disjI2 conjI exI [of _ ns]) (simp_all add: core_def record_key_def)

lemma received_seen:
  "k \<in> entry_key ` set (seen_at s) \<Longrightarrow> core w = core (s\<lparr>tp_dedup := seen_at s\<rparr>) \<Longrightarrow> received k (core s) (core w)"
  by (simp add: received_simps)

lemma note_keys [simp]:
  "note_key (trigger_note m t) = (m, tt_src_role t, tt_src_vid t, tt_seq t)"
  "note_key (batch_note m b i) = (m, tb_src_role b, tb_src_vid b, tb_seq b)"
  by (simp_all add: note_key_def trigger_note_def batch_note_def)

lemma trigger_received: "wp (onRxTopologyTrigger E m h p) (\<lambda>_ w. \<exists>k. received k (core s) (core w)) s"
proof (rule wp_trigger, goal_cases)
  case (4 t w)
  show ?case by (rule exI, rule received_new [OF 4(3) 4(5)]) (use 4(4) in auto)
qed (rule exI, erule received_same received_seen, (assumption)?)+

lemma batch_received: "wp (onRxTopologyTriggerBatch E m h p) (\<lambda>_ w. \<exists>k. received k (core s) (core w)) s"
proof (rule wp_batch, goal_cases)
  case (4 t w b)
  show ?case by (rule exI, rule received_new [OF 4(3) 4(5)]) (use 4(4) in auto)
qed (rule exI, erule received_same received_seen, (assumption)?)+

section \<open>Steps\<close>

definition receives :: "topo_op \<Rightarrow> bool" where
  "receives x = (case x of OpRxTrigger _ _ _ \<Rightarrow> True | OpRxBatch _ _ _ \<Rightarrow> True | _ \<Rightarrow> False)"

text \<open>A step that is not the receipt of a trigger leaves the window and the notifications alone.\<close>

definition untouched :: "topo_op \<Rightarrow> core \<Rightarrow> core \<Rightarrow> bool" where
  "untouched x c d \<longleftrightarrow> co_dedup d = co_dedup c \<and> co_notes d = co_notes c
     \<and> co_now d = (case x of OpClock n \<Rightarrow> n | _ \<Rightarrow> co_now c)"

lemma restore_untouched: "wp (restoreTopologySnapshots E) (\<lambda>_ w. untouched OpRestoreSnapshots (core s) (core w)) s"
  unfolding restoreTopologySnapshots_def wp_bind wp_modify
  by (rule wp_mono [OF restore_snapshot_core])
     (auto simp: untouched_def wp_rules core_def split: option.split intro!: wp_mono [OF restore_snapshot_core])

lemma clear_untouched: "wp (clearStagedTopology E) (\<lambda>_ w. untouched OpClearStaged (core s) (core w)) s"
  unfolding clearStagedTopology_def wp_bind wp_modify
  by (rule wp_core [OF snapshot_meta_core(2)]) (simp add: untouched_def core_def)

lemma untouched_same: "core w = core s \<Longrightarrow> (\<And>n. x \<noteq> OpClock n) \<Longrightarrow> untouched x (core s) (core w)"
  by (simp add: untouched_def split: topo_op.split)

lemma step_outcome:
  "wp (topo_step E x) (\<lambda>_ w. if receives x then \<exists>k. received k (core s) (core w) else untouched x (core s) (core w)) s"
proof (cases x)
  case (OpStage n)
  show ?thesis unfolding OpStage
    by (simp add: wp_bind receives_def)
       (rule wp_mono [OF stage_core], auto simp: untouched_def wp_ret split: sum.splits)
next
  case OpCommit
  show ?thesis unfolding OpCommit
    by (simp add: wp_bind receives_def)
       (rule wp_mono [OF commit_core], auto simp: untouched_def wp_ret split: sum.splits if_splits)
next
  case OpClearStaged
  show ?thesis unfolding OpClearStaged
    by (simp add: wp_bind receives_def) (rule wp_mono [OF clear_untouched], simp add: wp_ret)
next
  case OpRestoreSnapshots
  then show ?thesis using restore_untouched by (simp add: receives_def)
next
  case (OpRxTrigger m h p)
  show ?thesis unfolding OpRxTrigger
    by (simp add: wp_bind receives_def) (rule wp_mono [OF trigger_received], simp add: wp_ret)
next
  case (OpRxBatch m h p)
  show ?thesis unfolding OpRxBatch
    by (simp add: wp_bind receives_def) (rule wp_mono [OF batch_received], simp add: wp_ret)
next
  case (OpPeers e r a purge)
  have "core (t\<lparr>g_pairing := e, g_registry := r, tp_attached := a\<rparr>) = core t" for t by (simp add: core_def)
  then have "keeps (\<lambda>t. core t = core s) (topo_step E x)"
    unfolding OpPeers topo_step.simps by (intro keeps_rules core.lmk_kept keeps_modify) simp_all
  then show ?thesis
    by (simp add: OpPeers receives_def keeps_def) (auto elim!: wp_mono intro: untouched_same)
next
  case (OpClock n)
  then show ?thesis by (simp add: wp_modify receives_def untouched_def core_def)
qed (auto simp: wp_bind receives_def intro!: wp_core [OF core.restore_link_kept(5)] wp_core [OF core.sendTopologyTrigger_kept]
      wp_core [OF core.sendTopologyTriggerBatch_kept] wp_core [OF core.onRxTopologyTriggerAck_kept], auto simp: wp_ret intro: untouched_same)

section \<open>The window\<close>

lemma prune_keeps:
  "now - dd_seen_ms e \<le> kTopologyTriggerDedupWindowMs \<Longrightarrow> length post < kTopologyTriggerDedupMaxEntries \<Longrightarrow>
   \<exists>pre'. pruneTopologyTriggerDedup now (pre @ e # post) = pre' @ e # post"
  by (induction pre) auto

text \<open>The entry of \<open>k\<close>, seen at \<open>t0\<close>, with at most \<open>j\<close> entries after it, and the clock within the window.\<close>

definition remembered :: "trigger_key \<Rightarrow> u32 \<Rightarrow> nat \<Rightarrow> core \<Rightarrow> bool" where
  "remembered k t0 j c \<longleftrightarrow> co_now c - t0 \<le> kTopologyTriggerDedupWindowMs
     \<and> (\<exists>pre post. co_dedup c = pre @ entry_of k t0 # post \<and> length post \<le> j)"

lemma remembered_prune:
  assumes "remembered k t0 j c" and "j < kTopologyTriggerDedupMaxEntries"
  obtains pre post where "pruneTopologyTriggerDedup (co_now c) (co_dedup c) = pre @ entry_of k t0 # post" "length post \<le> j"
proof -
  from assms(1) obtain pre post where d: "co_dedup c = pre @ entry_of k t0 # post" and "length post \<le> j"
    and "co_now c - t0 \<le> kTopologyTriggerDedupWindowMs"
    by (auto simp: remembered_def)
  with assms(2) prune_keeps [of "co_now c" "entry_of k t0" post pre] obtain pre'
    where "pruneTopologyTriggerDedup (co_now c) (co_dedup c) = pre' @ entry_of k t0 # post" by auto
  with \<open>length post \<le> j\<close> show thesis by (intro that)
qed

lemma remembered_received:
  assumes c: "remembered k t0 j c" and d: "received k' c d" and j: "Suc j < kTopologyTriggerDedupMaxEntries"
  shows "remembered k t0 (Suc j) d"
proof -
  obtain pre post where seen: "pruneTopologyTriggerDedup (co_now c) (co_dedup c) = pre @ entry_of k t0 # post"
    and post: "length post \<le> j" using remembered_prune [OF c] j by auto
  have now: "co_now d = co_now c" "co_now c - t0 \<le> kTopologyTriggerDedupWindowMs"
    using d c by (auto simp: received_def Let_def remembered_def)
  obtain pre' where new: "pruneTopologyTriggerDedup (co_now c) ((pre @ entry_of k t0 # post) @ [entry_of k' (co_now c)])
      = pre' @ entry_of k t0 # post @ [entry_of k' (co_now c)]"
    using prune_keeps [of "co_now c" "entry_of k t0" "post @ [entry_of k' (co_now c)]" pre] now post j by auto
  consider "co_dedup d = co_dedup c" | "co_dedup d = pre @ entry_of k t0 # post"
    | "co_dedup d = pre' @ entry_of k t0 # post @ [entry_of k' (co_now c)]"
    using d new unfolding received_def Let_def seen by auto
  then show ?thesis
  proof cases
    case 1
    then show ?thesis using c now by (fastforce simp: remembered_def)
  next
    case 2
    then show ?thesis using now post by (fastforce simp: remembered_def)
  next
    case 3
    moreover have "length (post @ [entry_of k' (co_now c)]) \<le> Suc j" using post by simp
    ultimately show ?thesis using now unfolding remembered_def now(1) by blast
  qed
qed

lemma remembered_quiet:
  assumes c: "remembered k t0 j c" and d: "received k' c d" and j: "j < kTopologyTriggerDedupMaxEntries"
    and ns: "co_notes d = co_notes c @ ns"
  shows "k \<notin> note_key ` set ns"
proof -
  have "k \<in> entry_key ` set (pruneTopologyTriggerDedup (co_now c) (co_dedup c))"
    using remembered_prune [OF c j] by (metis entry_of_fields(1) image_eqI in_set_conv_decomp)
  then show ?thesis using d ns by (auto simp: received_def Let_def)
qed

text \<open>A frame that gave a notification of \<open>k\<close> leaves its entry at the end of the window.\<close>

lemma notified_remembered:
  assumes d: "received k' c d" and ns: "co_notes d = co_notes c @ ns" and k: "k \<in> note_key ` set ns"
  shows "remembered k (co_now c) 0 d"
proof -
  let ?seen = "pruneTopologyTriggerDedup (co_now c) (co_dedup c)"
  have "k' = k" and d': "co_dedup d = pruneTopologyTriggerDedup (co_now c) (?seen @ [entry_of k (co_now c)])"
    and now: "co_now d = co_now c"
    using d ns k by (auto simp: received_def Let_def)
  obtain pre where "pruneTopologyTriggerDedup (co_now c) (?seen @ [entry_of k (co_now c)]) = pre @ [entry_of k (co_now c)]"
    using prune_keeps [of "co_now c" "entry_of k (co_now c)" "[]" ?seen]
    by (auto simp: kTopologyTriggerDedupMaxEntries_def)
  then show ?thesis by (auto simp: remembered_def d' now)
qed

lemma remembered_run:
  assumes "remembered k t0 j (core s)" and "j + length (filter receives xs) < kTopologyTriggerDedupMaxEntries"
    and "\<forall>n. OpClock n \<in> set xs \<longrightarrow> n - t0 \<le> kTopologyTriggerDedupWindowMs"
  shows "wp (topo_run E xs) (\<lambda>_ w. remembered k t0 (j + length (filter receives xs)) (core w)) s"
  using assms
proof (induction xs arbitrary: s j)
  case Nil
  then show ?case by (simp add: wp_ret)
next
  case (Cons x xs)
  show ?case
    unfolding topo_run.simps wp_bind
  proof (rule wp_mono [OF step_outcome])
    fix w
    assume out: "if receives x then \<exists>k. received k (core s) (core w) else untouched x (core s) (core w)"
    have "remembered k t0 (if receives x then Suc j else j) (core w)"
    proof (cases "receives x")
      case True
      then obtain k' where "received k' (core s) (core w)" using out by auto
      then show ?thesis using True remembered_received [OF Cons.prems(1)] Cons.prems(2) by simp
    next
      case False
      then show ?thesis using out Cons.prems
        by (auto simp: untouched_def remembered_def split: topo_op.splits)
    qed
    from Cons.IH [OF this] Cons.prems(2,3)
    show "wp (topo_run E xs) (\<lambda>_ w. remembered k t0 (j + length (filter receives (x # xs))) (core w)) w"
      by (auto split: if_splits)
  qed
qed

end
