(* ===== verification/Transmit.thy ===== *)
theory Transmit
  imports Manager
begin

text \<open>
  What a typed send of the manager puts on the air, as a receiver takes it: the frame decodes to
  the type, the correlation id and the payload given to \<open>sendTyped\<close>, with or without the time in
  front. The trace of calls is read through \<open>on_air\<close>; hooks, logs and clock are silent.
\<close>

definition heard :: "mcall \<Rightarrow> (mac \<times> MessageType \<times> u32 \<times> bytes) option" where
  "heard c =
     (case c of
        TransportSend to f \<Rightarrow>
          (case decode f of
             None \<Rightarrow> None
           | Some (h, w) \<Rightarrow> Some (to, fh_type h, fh_correlation_id h,
               if has_time_flag h then drop kTimeSyncMetadataSize w else w))
      | _ \<Rightarrow> None)"

definition on_air :: "mcall list \<Rightarrow> (mac \<times> MessageType \<times> u32 \<times> bytes) list" where
  "on_air cs = List.map_filter heard cs"

lemma on_air_append [simp]: "on_air (xs @ ys) = on_air xs @ on_air ys"
  by (simp add: on_air_def List.map_filter_def)

lemma on_air_simps [simp]:
  "on_air [] = []" "on_air (c # cs) = (case heard c of None \<Rightarrow> [] | Some x \<Rightarrow> [x]) @ on_air cs"
  by (simp_all add: on_air_def List.map_filter_def split: option.split)

lemma heard_simps [simp]:
  "heard (HookTxFrame m t c n b) = None" "heard (HookRgbBlink cr cg cb d) = None"
  "heard (HookTopologyTrigger n') = None" "heard (WindowAttach m b k) = None" "heard (WindowEvict m) = None"
  "heard (SinkEvent e) = None" "heard (LogRecord l) = None" "heard ClockEpoch = None"
  by (simp_all add: heard_def)

text \<open>Service, operation and message kind given to \<open>sendTyped\<close> are read back as its type.\<close>

definition wire_carries :: "MessageType \<Rightarrow> u8 \<Rightarrow> u8 \<Rightarrow> u8 \<Rightarrow> bool" where
  "wire_carries ty service op msg_type \<longleftrightarrow>
     (case wire_triple (default_header\<lparr>fh_type := ty, fh_wire_service := service, fh_wire_op_code := op,
                          fh_wire_msg_type := msg_type\<rparr>) of
        None \<Rightarrow> False | Some (m, s, k) \<Rightarrow> fromWire m s k = Some ty)"

lemma typed_frame_heard:
  assumes w: "wire_carries ty service op msg_type"
    and len: "length (if wrapped then epoch_prefix e @ p else p) \<le> kMaxPayload"
  obtains f where
    "encode (typed_header E ty c wrapped n service op msg_type) (if wrapped then epoch_prefix e @ p else p) = Some f"
    "heard (TransportSend to f) = Some (to, ty, c, p)"
proof -
  let ?h = "typed_header E ty c wrapped n service op msg_type"
  let ?w = "if wrapped then epoch_prefix e @ p else p"
  have "wire_triple ?h = wire_triple (default_header\<lparr>fh_type := ty, fh_wire_service := service,
      fh_wire_op_code := op, fh_wire_msg_type := msg_type\<rparr>)"
    by (cases "toWire ty") (auto simp: wire_triple_def typed_header_def default_header_def)
  with w obtain m s k where t: "wire_triple ?h = Some (m, s, k)" "fromWire m s k = Some ty"
    by (auto simp: wire_carries_def split: option.splits)
  from encode_eq [OF len t(1)] decode_frame_body [OF len t(2), of ?h] show ?thesis
    by (intro that [of "frame_body ?h m s k ?w @ appendLe16 (crc16CcittFalse (frame_body ?h m s k ?w))"])
       (simp_all add: heard_def has_time_flag_def typed_header_def default_header_def kFrameFlagTimeSyncEpoch_def
          epoch_prefix_def kTimeSyncMetadataSize_def)
qed

text \<open>Sending changes nothing but the trace and the time of the last synchronisation.\<close>

definition same_but_sent :: "'r mgr_scheme \<Rightarrow> 'r mgr_scheme \<Rightarrow> bool" where
  "same_but_sent s t \<longleftrightarrow> t = s\<lparr>g_has_time_sync_tx := g_has_time_sync_tx t,
     g_last_time_sync_tx_ms := g_last_time_sync_tx_ms t, g_calls := g_calls t\<rparr>"

lemma same_but_sent_refl [simp]: "same_but_sent s s"
  by (simp add: same_but_sent_def)

lemma same_but_sent_steps [simp]:
  "same_but_sent s (t\<lparr>g_calls := cs\<rparr>) = same_but_sent s t"
  "same_but_sent s (t\<lparr>g_has_time_sync_tx := b\<rparr>) = same_but_sent s t"
  "same_but_sent s (t\<lparr>g_last_time_sync_tx_ms := n\<rparr>) = same_but_sent s t"
  by (cases s; cases t; simp add: same_but_sent_def)+

lemma same_but_sent_fields:
  assumes "same_but_sent s t"
  shows "g_now_ms t = g_now_ms s" "g_pairing t = g_pairing s" "g_store t = g_store s"
    "g_local_mac t = g_local_mac s" "g_registry t = g_registry s" "mgr.more t = mgr.more s"
  using assms by (cases s; cases t; simp add: same_but_sent_def)+

lemma same_but_sent_trans: "same_but_sent s t \<Longrightarrow> same_but_sent t u \<Longrightarrow> same_but_sent s u"
  by (cases s; cases t; cases u; simp add: same_but_sent_def)

definition quiet_since :: "'r mgr_scheme \<Rightarrow> (mac \<times> MessageType \<times> u32 \<times> bytes) list \<Rightarrow> 'r mgr_scheme \<Rightarrow> bool" where
  "quiet_since s xs t \<longleftrightarrow> same_but_sent s t \<and> on_air (g_calls t) = on_air (g_calls s) @ xs"

lemma quiet_since_refl [simp]: "quiet_since s [] s"
  by (simp add: quiet_since_def)

lemma quiet_call: "quiet_since s xs t \<Longrightarrow> on_air cs = [] \<Longrightarrow> quiet_since s xs (t\<lparr>g_calls := g_calls t @ cs\<rparr>)"
  by (simp add: quiet_since_def)

lemma quiet_time: "quiet_since s xs t \<Longrightarrow>
   quiet_since s xs (t\<lparr>g_has_time_sync_tx := b, g_last_time_sync_tx_ms := n\<rparr>)"
  by (simp add: quiet_since_def)

text \<open>Programs that send nothing.\<close>

lemmas call_rules = m_call_def m_do_def m_ask_def m_nowEpochSec_def wp_bind wp_gets wp_modify wp_ret wp_when

lemma keeps_quiet_log:
  "keeps (quiet_since s xs) (logExternalEvent E l i e p0 p1 p2 x)"
  "keeps (quiet_since s xs) (emitRuntimeLog E l e p0 p1 p2 x)"
  by (auto simp: keeps_def logExternalEvent_def emitRuntimeLog_def call_rules quiet_call)

lemma keeps_quiet_event: "keeps (quiet_since s xs) (m_event E e)"
  by (auto simp: keeps_def m_event_def call_rules quiet_call)

lemma keeps_quiet_hook: "heard c = None \<Longrightarrow> keeps (quiet_since s xs) (whenM b (m_do c))"
  by (auto simp: keeps_def call_rules quiet_call)

lemma keeps_quiet_blink: "keeps (quiet_since s xs) (blinkForMessage E t)"
  by (auto simp: keeps_def blinkForMessage_def call_rules blink_code_def intro: quiet_call)

definition delivers :: "menv \<Rightarrow> bool" where
  "delivers E \<longleftrightarrow> (\<forall>tr to f. m_answer E tr (TransportSend to f))"

lemma wp_quiet: "keeps (quiet_since s xs) m \<Longrightarrow> quiet_since s xs t \<Longrightarrow>
   (\<And>a u. quiet_since s xs u \<Longrightarrow> Q a u) \<Longrightarrow> wp m Q t"
  by (auto simp: keeps_def intro: wp_mono)

text \<open>A typed send puts exactly its payload on the air, once.\<close>

lemma wp_sendTyped:
  assumes w: "wire_carries ty service op msg_type" and len: "length p \<le> kMaxPayload"
    and Q: "\<And>t ok err. quiet_since s [(to, ty, c, p)] t \<Longrightarrow> (delivers E \<Longrightarrow> ok) \<Longrightarrow> Q (ok, err) t"
  shows "wp (sendTyped E to ty p c service op msg_type) Q s"
proof -
  have send: "wp (transmit E to ty c (typed_header E ty c wrapped (length w) service op msg_type) w) Q t"
    if "w = (if wrapped then epoch_prefix e @ p else p)" "length w \<le> kMaxPayload" "quiet_since s [] t"
    for wrapped w e t
  proof -
    from that obtain f where f: "encode (typed_header E ty c wrapped (length w) service op msg_type) w = Some f"
      "heard (TransportSend to f) = Some (to, ty, c, p)"
      using typed_frame_heard [OF assms(1), of wrapped e p E c "length w" to] by auto
    let ?u = "t\<lparr>g_calls := g_calls t @ [TransportSend to f]\<rparr>" and ?ok = "m_answer E (g_calls t) (TransportSend to f)"
    have u: "quiet_since s [(to, ty, c, p)] ?u"
      using that(3) f(2) by (simp add: quiet_since_def)
    have fin: "Q (?ok, err) v" if "quiet_since s [(to, ty, c, p)] v" for v err
      by (rule Q [OF that]) (simp add: delivers_def)
    show ?thesis
      unfolding transmit_def Let_def f(1) option.case m_ask_def m_call_def wp_bind wp_gets wp_modify wp_ret
      by (rule wp_quiet [OF keeps_quiet_hook u], simp)
         (cases ?ok; auto simp: wp_bind wp_ret intro!: wp_quiet [OF keeps_quiet_log(2)] dest: fin)
  qed
  have pre: "length (epoch_prefix e @ p) \<le> kMaxPayload" if "length p \<le> kMaxPayload - kTimeSyncMetadataSize" for e
    using that by (simp add: epoch_prefix_def kTimeSyncMetadataSize_def frame_sizes)
  have plain: "wp (transmit E to ty c (typed_header E ty c False (length p) service op msg_type) p) Q t"
    if "quiet_since s [] t" for t
    by (rule send [of _ False]) (use len that in auto)
  have stamped: "wp (transmit E to ty c (typed_header E ty c True (length (epoch_prefix e) + length p) service op msg_type)
      (epoch_prefix e @ p)) Q t" if "quiet_since s [] t" "length p \<le> kMaxPayload - kTimeSyncMetadataSize" for t e
    using send [of "epoch_prefix e @ p" True e t] that pre by simp
  show ?thesis
    unfolding sendTyped_def m_wrap_def wp_bind wp_gets Let_def split_beta fst_conv snd_conv
    by (auto simp: wp_if wp_bind wp_ret m_nowEpochSec_def m_call_def wp_gets wp_modify quiet_call quiet_time
        intro!: plain stamped split: option.split)
qed

end
