(* ===== verification/BatchRetry.thy ===== *)
theory BatchRetry
  imports TriggerRuns Transmit
begin

text \<open>
  The answer to a batch of triggers that is refused or taken for a repetition: what the handler of
  theory Triggers puts on the air, and that the hooks get nothing.
\<close>

text \<open>The checks a batch passes before its number is looked up and recorded.\<close>

definition admits_batch :: "topo \<Rightarrow> TopologyTriggerBatchPayload \<Rightarrow> bool" where
  "admits_batch s t \<longleftrightarrow> tp_has_committed s \<and> g_local_profile_id s \<noteq> kProfileUnknown
     \<and> tb_dst_role t = profile_code (g_local_profile_id s)
     \<and> isTopologyRolePairAllowed (profile_code (g_local_profile_id s)) (tb_src_role t)
     \<and> \<not> vid_bad (tb_src_vid t) \<and> tb_items t \<noteq> [] \<and> tb_direction t \<in> {1, 2}"

abbreviation batch_key :: "mac \<Rightarrow> TopologyTriggerBatchPayload \<Rightarrow> trigger_key" where
  "batch_key m t \<equiv> (m, tb_src_role t, tb_src_vid t, tb_seq t)"

lemma admits_core: "core u = core s \<Longrightarrow> admits_batch u t = admits_batch s t"
  by (simp add: admits_batch_def core_def)

lemma authorize_items_core:
  assumes "core u = core s"
  shows "authorize_items u m r v is slots = authorize_items s m r v is slots"
proof (induction "is" arbitrary: slots)
  case (Cons i "is")
  have "findTopologyAuthorizedSourceSlot u m r v d = findTopologyAuthorizedSourceSlot s m r v d" for d
    using assms by (simp add: findTopologyAuthorizedSourceSlot_def core_def)
  with Cons show ?case by (simp split: option.split)
qed simp

lemma ack_core: "core u = core s \<Longrightarrow> batch_ack (u\<lparr>tp_dedup := d\<rparr>) t v = batch_ack s t v"
  by (simp add: batch_ack_def ack_version_def core_def)

lemma ack_wire: "wire_carries TopologyTriggerAck 0 0 0"
  by (simp add: wire_carries_def wire_triple_def default_header_def fromWire_defs)

lemma ack_same: "same_but_sent u w \<Longrightarrow> batch_ack w t v = batch_ack u t v"
  by (cases u; cases w; simp add: same_but_sent_def batch_ack_def ack_version_def)

text \<open>A verdict that gives the hooks nothing: the answer is all that happens.\<close>

lemma wp_answer_only:
  assumes "\<not> (fst v \<and> \<not> fst (snd v))"
  shows "wp (do { _ \<leftarrow> m_event E e; _ \<leftarrow> whenM (fst v \<and> \<not> fst (snd v) \<and> b) notify; s \<leftarrow> gets id;
                  _ \<leftarrow> send_ack E m c (batch_ack s t v); _ \<leftarrow> blinkForMessage E ty; ret True })
    (\<lambda>ok w. ok \<and> core w = core u
       \<and> on_air (g_calls w) = on_air (g_calls u) @ [(m, TopologyTriggerAck, c, buildTopologyTriggerAckPayload (batch_ack u t v))]) u"
proof -
  let ?p = "buildTopologyTriggerAckPayload (batch_ack u t v)"
  let ?air = "\<lambda>w. on_air (g_calls w) = on_air (g_calls u) @ [(m, TopologyTriggerAck, c, ?p)]"
  have none: "(fst v \<and> \<not> fst (snd v) \<and> b) = False" using assms by blast
  have len: "length (buildTopologyTriggerAckPayload a) \<le> kMaxPayload" for a
    by (simp add: buildTopologyTriggerAckPayload_def topology_prefix_def frame_sizes)
  have "wp (send_ack E m c (batch_ack w t v)) (\<lambda>_. wp (blinkForMessage E ty) (\<lambda>_. wp (ret True) (\<lambda>ok w. ok \<and> ?air w))) w"
    if w: "quiet_since u [] w" for w
  proof -
    have ack: "batch_ack w t v = batch_ack u t v" using w by (simp add: quiet_since_def ack_same)
    have air: "?air x" if "quiet_since w [(m, TopologyTriggerAck, c, ?p)] x" for x
      using w that by (simp add: quiet_since_def)
    show ?thesis
      unfolding send_ack_def wp_bind ack
      by (rule wp_sendTyped [OF ack_wire len], subst wp_ret, rule wp_quiet [OF keeps_quiet_blink], assumption)
         (simp add: wp_ret air)
  qed
  then have air: "wp (do { _ \<leftarrow> m_event E e; _ \<leftarrow> whenM False (ret ()); s \<leftarrow> gets id;
                  _ \<leftarrow> send_ack E m c (batch_ack s t v); _ \<leftarrow> blinkForMessage E ty; ret True }) (\<lambda>ok w. ok \<and> ?air w) u"
    unfolding wp_bind wp_gets id_apply
    by (intro wp_quiet [OF keeps_quiet_event quiet_since_refl]) (simp add: wp_when)
  have kept: "wp (do { _ \<leftarrow> m_event E e; _ \<leftarrow> whenM False (ret ()); s \<leftarrow> gets id;
                  _ \<leftarrow> send_ack E m c (batch_ack s t v); _ \<leftarrow> blinkForMessage E ty; ret True }) (\<lambda>ok w. core w = core u) u"
    by (rule wp_tail [where cs = "[]"]) (simp_all add: wp_ret)
  have skip: "whenM False notify = whenM False (ret ())" by (simp add: whenM_def)
  show ?thesis
    unfolding none skip by (rule wp_mono [OF wp_conj [OF air kept]]) blast
qed

text \<open>The handler, when the decision gives the hooks nothing.\<close>

lemma wp_batch_answer:
  assumes E: "local_role (m_cfg E) = Slave" and p: "parseTopologyTriggerBatchPayload p = Some t"
    and v: "\<not> (fst v \<and> \<not> fst (snd v))"
    and decide: "\<And>u. core u = core s \<Longrightarrow> run_state (decide_batch m t) u = ((v, slots), u\<lparr>tp_dedup := d\<rparr>)"
  shows "wp (onRxTopologyTriggerBatch E m h p) (\<lambda>ok w. ok \<and> core w = (core s)\<lparr>co_dedup := d\<rparr>
     \<and> on_air (g_calls w) = on_air (g_calls s)
         @ [(m, TopologyTriggerAck, fh_correlation_id h, buildTopologyTriggerAckPayload (batch_ack s t v))]) s"
proof -
  let ?u = "snd (run_state (m_updateLiveness m) s)"
  have u: "core ?u = core s" "g_calls ?u = g_calls s" by (rule core_liveness) (simp add: m_updateLiveness_def)
  have liveness: "wp (m_updateLiveness m) Q s \<longleftrightarrow> Q () ?u" for Q by (simp add: wp_def split: prod.split)
  have tail: "wp (decide_batch m t) Q ?u \<longleftrightarrow> Q (v, slots) (?u\<lparr>tp_dedup := d\<rparr>)" for Q
    by (simp add: wp_def decide [OF u(1)])
  show ?thesis
    unfolding onRxTopologyTriggerBatch_def p option.case
    apply (simp only: E not_True_eq_False simp_thms if_False)
    apply (subst wp_bind, subst liveness, subst wp_bind, subst tail)
    apply (simp only: Let_def prod.case)
    apply (rule wp_mono [OF wp_answer_only [OF v]])
    apply (simp add: core_dedup u ack_core [OF u(1)])
    done
qed

section \<open>Refused, and refused again\<close>

lemma run_as_wp: "run_state m s = x \<longleftrightarrow> wp m (\<lambda>a t. (a, t) = x) s"
  by (auto simp: wp_def split: prod.splits)

text \<open>The first time: the number is recorded and the items are refused.\<close>

lemma decide_refused:
  assumes "admits_batch s t" "batch_key m t \<notin> entry_key ` set (seen_at s)"
    and "authorize_items s m (tb_src_role t) (tb_src_vid t) (tb_items t) [] = (r, slots)" "r \<noteq> kTopologyTriggerReasonOk"
  shows "run_state (decide_batch m t) s = (((False, False, r), slots), record_key (batch_key m t) s)"
  using assms by (auto simp: admits_batch_def run_as_wp decide_batch_def wp_rules wp_duplicate Let_def record_key_def)

text \<open>The next time: the number is found.\<close>

lemma decide_repeated:
  assumes "admits_batch s t" "batch_key m t \<in> entry_key ` set (seen_at s)"
  shows "run_state (decide_batch m t) s = (((True, True, kTopologyTriggerReasonOk), []), s\<lparr>tp_dedup := seen_at s\<rparr>)"
  using assms by (auto simp: admits_batch_def run_as_wp decide_batch_def wp_rules wp_duplicate Let_def)

lemma refused_batch:
  assumes E: "local_role (m_cfg E) = Slave" and p: "parseTopologyTriggerBatchPayload p = Some t"
    and s: "admits_batch s t" "batch_key m t \<notin> entry_key ` set (seen_at s)"
    and items: "fst (authorize_items s m (tb_src_role t) (tb_src_vid t) (tb_items t) []) \<noteq> kTopologyTriggerReasonOk"
  shows "wp (onRxTopologyTriggerBatch E m h p) (\<lambda>ok w. ok \<and> core w = core (record_key (batch_key m t) s)
     \<and> on_air (g_calls w) = on_air (g_calls s) @ [(m, TopologyTriggerAck, fh_correlation_id h,
         buildTopologyTriggerAckPayload (batch_ack s t (False, False,
           fst (authorize_items s m (tb_src_role t) (tb_src_vid t) (tb_items t) []))))]) s"
proof -
  obtain r slots where r: "authorize_items s m (tb_src_role t) (tb_src_vid t) (tb_items t) [] = (r, slots)" by fastforce
  have "run_state (decide_batch m t) u = (((False, False, r), slots), u\<lparr>tp_dedup := tp_dedup (record_key (batch_key m t) s)\<rparr>)"
    if u: "core u = core s" for u
  proof -
    have "record_key (batch_key m t) u = u\<lparr>tp_dedup := tp_dedup (record_key (batch_key m t) s)\<rparr>"
      using u by (simp add: record_key_def core_def)
    then show ?thesis
      using decide_refused [of u t m r slots] s items u
      by (simp add: admits_core [OF u] core_seen [OF u] authorize_items_core [OF u] r)
  qed
  from wp_batch_answer [OF E p _ this] have "wp (onRxTopologyTriggerBatch E m h p) (\<lambda>ok w. ok
     \<and> core w = (core s)\<lparr>co_dedup := tp_dedup (record_key (batch_key m t) s)\<rparr>
     \<and> on_air (g_calls w) = on_air (g_calls s) @ [(m, TopologyTriggerAck, fh_correlation_id h,
         buildTopologyTriggerAckPayload (batch_ack s t (False, False, r)))]) s" by simp
  moreover have "(core s)\<lparr>co_dedup := tp_dedup (record_key (batch_key m t) s)\<rparr> = core (record_key (batch_key m t) s)"
    by (simp add: record_key_def core_dedup)
  ultimately show ?thesis by (simp add: r)
qed

lemma repeated_batch:
  assumes E: "local_role (m_cfg E) = Slave" and p: "parseTopologyTriggerBatchPayload p = Some t"
    and s: "admits_batch s t" "batch_key m t \<in> entry_key ` set (seen_at s)"
  shows "wp (onRxTopologyTriggerBatch E m h p) (\<lambda>ok w. ok \<and> core w = (core s)\<lparr>co_dedup := seen_at s\<rparr>
     \<and> on_air (g_calls w) = on_air (g_calls s) @ [(m, TopologyTriggerAck, fh_correlation_id h,
         buildTopologyTriggerAckPayload (batch_ack s t (True, True, kTopologyTriggerReasonOk)))]) s"
proof (rule wp_batch_answer [OF E p])
  fix u
  assume u: "core u = core s"
  from decide_repeated [of u t m] s show
    "run_state (decide_batch m t) u = (((True, True, kTopologyTriggerReasonOk), []), u\<lparr>tp_dedup := seen_at s\<rparr>)"
    by (simp add: admits_core [OF u] core_seen [OF u])
qed simp

text \<open>A number that was just recorded is remembered.\<close>

lemma record_remembered: "core u = core (record_key k s) \<Longrightarrow> remembered k (g_now_ms s) 0 (core u)"
  using prune_keeps [of "g_now_ms s" "entry_of k (g_now_ms s)" "[]" "seen_at s"]
  by (auto simp: remembered_def record_key_def core_def kTopologyTriggerDedupMaxEntries_def)

lemma remembered_seen:
  assumes "remembered k t0 j (core s)" "j < kTopologyTriggerDedupMaxEntries"
  shows "k \<in> entry_key ` set (seen_at s)"
proof -
  obtain pre post where "pruneTopologyTriggerDedup (co_now (core s)) (co_dedup (core s)) = pre @ entry_of k t0 # post"
    using remembered_prune [OF assms] by blast
  then have "seen_at s = pre @ entry_of k t0 # post" by (simp add: core_def)
  then show ?thesis by force
qed

end
