(* ===== verification/TopologyProps.thy ===== *)
theory TopologyProps
  imports TopologyDurable BatchRetry StoreProps
begin

text \<open>
  The properties of the topology runtime: snapshots stay valid, a change succeeds or leaves the
  snapshots alone, the committed snapshot survives a restart, and triggers reach the hooks exactly
  when the committed snapshot allows them, and once.
\<close>

section \<open>A node after construction\<close>

definition new_topo :: "mac \<Rightarrow> u16 \<Rightarrow> topo" where
  "new_topo m p = \<lparr>g_local_mac = m, g_local_profile_id = p, g_pairing = new_engine\<lparr>local_mac := m\<rparr>,
     g_store = new_pstore, g_registry = [], g_now_ms = 0, g_has_time_sync_tx = False,
     g_last_time_sync_tx_ms = 0, g_calls = [],
     tp_staged = no_snapshot, tp_committed = no_snapshot, tp_has_staged = False, tp_has_committed = False,
     tp_restore_mode = kTopologyRestoreModeNone, tp_restore_reason = [], tp_fail_count = 0,
     tp_fail_last = [], tp_fail_by_reason = (\<lambda>_. None), tp_attached = [], tp_dedup = [], tp_trigger_seq = 1\<rparr>"

lemma new_topo_valid: "snapshots_valid (core (new_topo m p))"
  by (simp add: snapshots_valid_def core_def new_topo_def)

text \<open>A relay with one sensor on its positive side.\<close>

definition sample_slot :: TopologySlot where
  "sample_slot = no_slot\<lparr>sl_enabled := True, sl_peer := Mac 3 3 3 3 3 3, sl_peer_role := 3, sl_group_id := 1,
     sl_relative_index := 1\<rparr>"

definition sample_snapshot :: TopologySnapshot where
  "sample_snapshot = no_snapshot\<lparr>sn_topology_version := 7, sn_index_pos := 1,
     sn_slots := sample_slot # replicate 12 no_slot,
     sn_groups := no_group\<lparr>gs_enabled := True, gs_group_id := 1, gs_seed := replicate 32 9\<rparr> # replicate 11 no_group\<rparr>"

lemma sample_wf: "snapshot_wf sample_snapshot"
  by (simp add: snapshot_wf_def sample_snapshot_def kTopologyMaxSlots_def kTopologyMaxGroups_def group_wf_def no_group_def)

lemma sample_enabled: "enabled_slots sample_snapshot = [sample_slot]"
  "enabled_groups sample_snapshot = [no_group\<lparr>gs_enabled := True, gs_group_id := 1, gs_seed := replicate 32 9\<rparr>]"
  by (simp_all add: enabled_slots_def enabled_groups_def sample_snapshot_def sample_slot_def no_slot_def no_group_def)

lemma sample_ok: "snapshot_ok (profile_code kProfileRelay) sample_snapshot"
  unfolding snapshot_ok_def sample_enabled slot_ok_def
  by (simp add: sample_snapshot_def sample_slot_def no_snapshot_def no_slot_def no_group_def
      kTopologySchemaVersion_def isAllZeroSeed_def isTopologyRolePairAllowed_def isSensorProfileCode_def
      isRelayProfileCode_def profile_code_def kProfileRelay_def kProfileRemu_def kProfileSens_def kProfileSemu_def
      zeroMac_def kBroadcastMac_def isVirtualIndexAllowedForRole_def list_all_iff)

lemma sample_validates:
  "validateTopologySnapshot kProfileRelay (sample_snapshot\<lparr>sn_state := st\<rparr>)
     = Inr (sealed (sample_snapshot\<lparr>sn_state := st\<rparr>))"
proof -
  have "snapshot_ok (profile_code kProfileRelay) (sample_snapshot\<lparr>sn_state := st\<rparr>)"
    using sample_ok by (simp add: snapshot_ok_def slot_ok_def enabled_slots_def enabled_groups_def)
  then show ?thesis
    using sample_wf by (simp add: validate_iff) (simp add: sample_snapshot_def no_snapshot_def)
qed

section \<open>Snapshots\<close>

lemma find_only:
  "sorted_wrt slots_differ (filter sl_enabled xs) \<Longrightarrow> x \<in> set (filter sl_enabled xs) \<Longrightarrow>
   List.find (\<lambda>y. sl_enabled y \<and> sl_relative_index y = sl_relative_index x) xs = Some x"
  by (induction xs) (auto simp: slots_differ_def split: if_splits)

lemma slot_routed: "snapshot_ok code n \<Longrightarrow> x \<in> set (enabled_slots n) \<Longrightarrow> find_index n (sl_relative_index x) = Some x"
  unfolding find_index_def by (rule find_only) (simp_all add: snapshot_ok_def enabled_slots_def)

lemma slot_seeded:
  assumes ok: "snapshot_ok code n" and x: "x \<in> set (enabled_slots n)"
  shows "findTopologyGroupSeed n (sl_group_id x) \<noteq> None"
proof -
  from ok x obtain g where "g \<in> set (enabled_groups n)" "gs_group_id g = sl_group_id x" "gs_group_id g \<noteq> 0"
    by (auto simp: snapshot_ok_def slot_ok_def)
  then have "List.find (\<lambda>g. gs_enabled g \<and> gs_group_id g = sl_group_id x) (sn_groups n) \<noteq> None" "sl_group_id x \<noteq> 0"
    unfolding find_None_iff by (auto simp: enabled_groups_def)
  then show ?thesis by (simp add: findTopologyGroupSeed_def)
qed

text \<open>
  C12. Whatever is staged, committed, cleared, restored or received, and whatever the store holds
  and answers, the snapshots a node has are well formed: arrays of their lengths, the state of
  their place, version, counts and checksum filled in, every condition of the validation. So every
  enabled slot is the one its relative index leads to, with the seed of its group present.
\<close>

theorem topology_snapshots_valid:
  assumes "\<forall>x \<in> set xs. op_wf x" and "run_state (topo_run E xs) (new_topo m p) = ((), t)"
    and "getTopologySnapshot st t = Some n"
  shows "snapshot_wf n \<and> sn_state n = st \<and> n = sealed n \<and> snapshot_ok (profile_code (g_local_profile_id t)) n
    \<and> (\<forall>x \<in> set (enabled_slots n).
         find_index n (sl_relative_index x) = Some x \<and> findTopologyGroupSeed n (sl_group_id x) \<noteq> None)"
proof -
  have "keeps (\<lambda>s. snapshots_valid (core s)) (topo_run E xs)"
    by (rule valid.run_kept)
       (use assms(1) in \<open>auto simp: op_wf_def intro!: stage_valid commit_valid clear_valid restore_valid\<close>)
  from keeps_run [OF this new_topo_valid assms(2)] assms(3)
  have v: "valid_at (g_local_profile_id t) st n"
    by (auto simp: getTopologySnapshot_def snapshots_valid_def core_def split: if_splits)
  then have ok: "snapshot_ok (profile_code (g_local_profile_id t)) n" "n = sealed n"
    by (auto simp: valid_at_def validate_iff)
  with v show ?thesis
    using slot_routed [OF ok(1)] slot_seeded [OF ok(1)] by (simp add: valid_at_def)
qed

lemma sample_staged:
  "run_state (stageTopology (quiet_menv Master None) sample_snapshot) (new_topo m kProfileRelay)
     = (Inr (), (new_topo m kProfileRelay)\<lparr>tp_staged := sealed (sample_snapshot\<lparr>sn_state := tsStaged\<rparr>), tp_has_staged := True\<rparr>)"
  by (simp add: stageTopology_def saveTopologySnapshotMeta_def storeReady_def new_topo_def sample_validates whenM_def)

lemma topology_snapshots_valid_witness:
  "\<exists>t. run_state (topo_run (quiet_menv Master None) [OpStage sample_snapshot]) (new_topo zeroMac kProfileRelay) = ((), t)
     \<and> tp_has_staged t \<and> snapshot_ok (profile_code kProfileRelay) (tp_staged t)"
proof -
  let ?n = "sealed (sample_snapshot\<lparr>sn_state := tsStaged\<rparr>)"
  let ?t = "(new_topo zeroMac kProfileRelay)\<lparr>tp_staged := ?n, tp_has_staged := True\<rparr>"
  have r: "run_state (topo_run (quiet_menv Master None) [OpStage sample_snapshot]) (new_topo zeroMac kProfileRelay) = ((), ?t)"
    by (simp add: sample_staged)
  moreover have "snapshot_ok (profile_code (g_local_profile_id ?t)) ?n"
    using topology_snapshots_valid [OF _ r, of tsStaged ?n]
    by (simp add: op_wf_def sample_wf getTopologySnapshot_def)
  ultimately show ?thesis by (auto simp: new_topo_def)
qed

text \<open>
  C19. Staging and committing are all or nothing for the snapshots, whatever storing them, deriving
  and attaching keys and undoing that gives: on an error both snapshots are as before; a success of
  staging puts the validated snapshot in place and keeps the committed one; a success of committing
  moves the staged snapshot, revalidated, into place and leaves none staged.
\<close>

theorem topology_change_atomic:
  assumes "run_state (stageTopology E x) s = (r, t)" and "run_state (commitStagedTopology E) s = (q, u)"
  shows "getTopologySnapshot tsCommitted t = getTopologySnapshot tsCommitted s
    \<and> (case r of Inl _ \<Rightarrow> getTopologySnapshot tsStaged t = getTopologySnapshot tsStaged s
       | Inr _ \<Rightarrow> \<exists>n. validateTopologySnapshot (g_local_profile_id s) (x\<lparr>sn_state := tsStaged\<rparr>) = Inr n
           \<and> getTopologySnapshot tsStaged t = Some n)
    \<and> (case q of Inl _ \<Rightarrow> getTopologySnapshot tsStaged u = getTopologySnapshot tsStaged s
           \<and> getTopologySnapshot tsCommitted u = getTopologySnapshot tsCommitted s
       | Inr _ \<Rightarrow> getTopologySnapshot tsStaged u = None
           \<and> (case getTopologySnapshot tsStaged s of
                None \<Rightarrow> getTopologySnapshot tsCommitted u = getTopologySnapshot tsCommitted s
                  \<and> getTopologySnapshot tsCommitted s \<noteq> None
              | Some old \<Rightarrow> \<exists>n. validateTopologySnapshot (g_local_profile_id s)
                      (old\<lparr>sn_state := tsCommitted, sn_checksum := 0\<rparr>) = Inr n
                  \<and> getTopologySnapshot tsCommitted u = Some n))"
  using wp_run [OF stage_core assms(1)] wp_run [OF commit_core assms(2)]
  by (auto simp: getTopologySnapshot_def core_def tsStaged_def tsCommitted_def split: sum.splits if_splits)

lemma topology_change_atomic_witness:
  "\<exists>q u. run_state (commitStagedTopology (quiet_menv Master None)) (new_topo zeroMac kProfileRelay) = (q, u)
     \<and> getTopologySnapshot tsCommitted u = None"
proof -
  let ?s = "new_topo zeroMac kProfileRelay"
  obtain q u where u: "run_state (commitStagedTopology (quiet_menv Master None)) ?s = (q, u)" by fastforce
  have "getTopologySnapshot tsCommitted u = None"
    using topology_change_atomic [OF sample_staged u] by (auto simp: getTopologySnapshot_def tsStaged_def tsCommitted_def new_topo_def split: sum.splits if_splits)
  with u show ?thesis by blast
qed

text \<open>
  C9. After a start and any operations over a store that works (it may refuse any write), a node
  that is restarted with the same storage has exactly the committed snapshot it had before, or
  none if it had none; and the staged one if it had one.
\<close>

theorem committed_topology_survives:
  assumes "pairing_store E = Some S" and "store_works S m0 (g_store s)" and "\<forall>x \<in> set xs. op_wf x"
    and run: "run_state (topo_run E (OpRestoreSnapshots # xs)) s = ((), t)"
    and "store_works S m0 (g_store r)" and "stored S m0 (g_store r) = stored S m0 (g_store t)"
    and "g_local_mac r = g_local_mac t" and "g_local_profile_id r = g_local_profile_id t"
    and restart: "run_state (restoreTopologySnapshots E) r = ((), u)"
  shows "getTopologySnapshot tsCommitted u = getTopologySnapshot tsCommitted t
    \<and> (tp_has_staged t \<longrightarrow> getTopologySnapshot tsStaged u = getTopologySnapshot tsStaged t)"
proof -
  have ok: "meta_ok E S m0 s" "meta_ok E S m0 r" using assms(1,2,5) by (simp_all add: meta_ok_def)
  obtain a where a: "run_state (restoreTopologySnapshots E) s = ((), a)"
    by (cases "run_state (restoreTopologySnapshots E) s") simp
  have start: "durable E S m0 a" using wp_run [OF restore_kept [OF ok(1)] a] by blast
  have "keeps (durable E S m0) (topo_run E xs)"
    by (rule durable.run_kept)
       (use assms(3) in \<open>auto simp: op_wf_def intro!: stage_durable commit_durable clear_durable restore_durable\<close>)
  then have t: "durable E S m0 t"
    using run a start by (auto elim: keeps_run)
  have "meta_view S m0 r = meta_view S m0 t" using assms(6,7) by (simp add: meta_view_def fun_eq_iff)
  then show ?thesis
    using wp_run [OF restore_kept [OF ok(2)] restart] durable_in [OF t] assms(8)
    by (auto simp: durable_in_def core_def getTopologySnapshot_def tsStaged_def tsCommitted_def)
qed

text \<open>The cache is lost in a restart, the backend is not.\<close>

lemma restart_works:
  "store_enabled S \<Longrightarrow> backend_ok S m0 \<Longrightarrow> store_works S m0 (x\<lparr>ps_cache := []\<rparr>)"
  by (simp add: store_works_def store_ok_def coherent_def)

lemma committed_topology_survives_witness:
  "\<exists>t u. run_state (topo_run (quiet_menv Slave (Some good_backend)) [OpRestoreSnapshots, OpStage sample_snapshot, OpCommit])
          (new_topo zeroMac kProfileRelay) = ((), t)
     \<and> run_state (restoreTopologySnapshots (quiet_menv Slave (Some good_backend)))
          (t\<lparr>g_store := (g_store t)\<lparr>ps_cache := []\<rparr>\<rparr>) = ((), u)
     \<and> getTopologySnapshot tsCommitted u = getTopologySnapshot tsCommitted t"
proof -
  let ?E = "quiet_menv Slave (Some good_backend)"
  obtain t where t: "run_state (topo_run ?E [OpRestoreSnapshots, OpStage sample_snapshot, OpCommit])
      (new_topo zeroMac kProfileRelay) = ((), t)"
    by (cases "run_state (topo_run ?E [OpRestoreSnapshots, OpStage sample_snapshot, OpCommit])
      (new_topo zeroMac kProfileRelay)") simp
  let ?r = "t\<lparr>g_store := (g_store t)\<lparr>ps_cache := []\<rparr>\<rparr>"
  obtain u where u: "run_state (restoreTopologySnapshots ?E) ?r = ((), u)"
    by (cases "run_state (restoreTopologySnapshots ?E) ?r") simp
  have "getTopologySnapshot tsCommitted u = getTopologySnapshot tsCommitted t"
    using committed_topology_survives [OF _ _ _ t _ _ _ _ u, of good_backend "\<lambda>_. None"]
      good_backend_works restart_works [OF good_enabled good_backend_ok]
      stored_same_calls [of "(g_store t)\<lparr>ps_cache := []\<rparr>" "g_store t"]
    by (simp add: op_wf_def sample_wf new_topo_def)
  with t u show ?thesis by blast
qed

section \<open>Triggers\<close>

text \<open>
  C4. A trigger frame on a slave with hooks gives exactly one notification, with the fields of the
  frame, if the committed snapshot authorizes it (an enabled slot whose peer, role and virtual
  indices are those of the frame, an allowed pair of roles, a direction) and its number has not
  been seen in the window; and no notification otherwise.
\<close>

theorem trigger_executed_iff:
  assumes "local_role (m_cfg E) = Slave" and "m_hooks E" and "parseTopologyTriggerPayload p = Some t"
    and "run_state (onRxTopologyTrigger E m h p) s = (b, u)"
  shows "b \<and> noted (g_calls u) = noted (g_calls s) @
    (if authorized (core s) (trigger_note m t)
        \<and> note_key (trigger_note m t) \<notin> entry_key ` set (pruneTopologyTriggerDedup (g_now_ms s) (tp_dedup s))
     then [trigger_note m t] else [])"
  using wp_run [OF trigger_notes [OF assms(1-3)] assms(4)] .

definition committed_relay :: topo where
  "committed_relay = (new_topo (Mac 2 2 2 2 2 2) kProfileRelay)\<lparr>tp_committed := sample_snapshot, tp_has_committed := True,
     g_now_ms := 1000\<rparr>"

definition sample_trigger :: TopologyTriggerPayload where
  "sample_trigger = \<lparr>tt_topology_version = 7, tt_seq = 1, tt_src_role = 3, tt_src_vid = 0xFF, tt_dst_role = 2,
     tt_dst_vid = 0xFF, tt_direction = 1, tt_delay_ms = 0, tt_hold_ms = 500\<rparr>"

lemmas sample_roles = isTopologyRolePairAllowed_def isSensorProfileCode_def isRelayProfileCode_def profile_code_def
  kProfileRelay_def kProfileRemu_def kProfileSens_def kProfileSemu_def kProfileUnknown_def

lemma sample_authorized: "authorized (core committed_relay) (trigger_note (Mac 3 3 3 3 3 3) sample_trigger)"
  by (simp add: authorized_def core_def committed_relay_def new_topo_def trigger_note_def sample_trigger_def
      sample_snapshot_def sample_slot_def authorizes_def no_slot_def vid_bad_def sample_roles)

lemma sample_fresh: "tp_dedup committed_relay = []"
  by (simp add: committed_relay_def new_topo_def)

lemma trigger_executed_iff_witness:
  "\<exists>b u. run_state (onRxTopologyTrigger (quiet_menv Slave None) (Mac 3 3 3 3 3 3) default_header
            (Some (buildTopologyTriggerPayload sample_trigger))) committed_relay = (b, u)
     \<and> b \<and> noted (g_calls u) = noted (g_calls committed_relay) @ [trigger_note (Mac 3 3 3 3 3 3) sample_trigger]"
proof -
  let ?E = "quiet_menv Slave None" and ?m = "Mac 3 3 3 3 3 3"
  let ?p = "Some (buildTopologyTriggerPayload sample_trigger)"
  obtain b u where u: "run_state (onRxTopologyTrigger ?E ?m default_header ?p) committed_relay = (b, u)" by fastforce
  have p: "parseTopologyTriggerPayload ?p = Some sample_trigger"
    using topology_trigger_append [of sample_trigger "[]"] by simp
  have "b \<and> noted (g_calls u) = noted (g_calls committed_relay) @ [trigger_note ?m sample_trigger]"
    using trigger_executed_iff [OF _ _ p u] sample_authorized by (simp add: sample_fresh)
  with u show ?thesis by blast
qed

text \<open>
  C13. A trigger is not executed twice. After a frame, single or batch, that gave a notification,
  no frame with the same source, role, virtual index and number gives one again, whatever happens
  in between, as long as the clock stays within 15 seconds of the first one and fewer than 32
  trigger frames have come in between.
\<close>

theorem trigger_not_repeated:
  assumes "run_state (topo_step E x) s = ((), t)" and "noted (g_calls t) = noted (g_calls s) @ ns"
    and "k \<in> note_key ` set ns"
    and "run_state (topo_run E xs) t = ((), u)" and "length (filter receives xs) < 32"
    and "\<forall>n. OpClock n \<in> set xs \<longrightarrow> n - g_now_ms s \<le> 15000"
    and "run_state (topo_step E y) u = ((), w)" and "noted (g_calls w) = noted (g_calls u) @ ns'"
  shows "k \<notin> note_key ` set ns'"
proof -
  note first = wp_run [OF step_outcome assms(1)] and last = wp_run [OF step_outcome assms(7)]
  have ns: "co_notes (core t) = co_notes (core s) @ ns" "co_notes (core w) = co_notes (core u) @ ns'"
    using assms(2,8) by (simp_all add: core_def)
  have "receives x" using first ns(1) assms(3) by (auto simp: untouched_def split: if_splits)
  with first obtain j where "received j (core s) (core t)" by auto
  from notified_remembered [OF this ns(1) assms(3)]
  have "remembered k (co_now (core s)) 0 (core t)" .
  moreover have "co_now (core s) = g_now_ms s" by (simp add: core_def)
  ultimately have u: "remembered k (g_now_ms s) (length (filter receives xs)) (core u)"
    using wp_run [OF remembered_run assms(4), of k "g_now_ms s" 0] assms(5,6)
    by (simp add: kTopologyTriggerDedupWindowMs_def kTopologyTriggerDedupMaxEntries_def)
  show ?thesis
  proof (cases "receives y")
    case True
    with last obtain j where "received j (core u) (core w)" by auto
    from remembered_quiet [OF u this _ ns(2)] assms(5) show ?thesis
      by (simp add: kTopologyTriggerDedupMaxEntries_def)
  next
    case False
    with last ns(2) show ?thesis by (auto simp: untouched_def)
  qed
qed

lemma trigger_not_repeated_witness:
  "\<exists>x t u w. run_state (topo_step (quiet_menv Slave None) x) committed_relay = ((), t)
     \<and> noted (g_calls t) = noted (g_calls committed_relay) @ [trigger_note (Mac 3 3 3 3 3 3) sample_trigger]
     \<and> run_state (topo_run (quiet_menv Slave None) [OpClock 9000]) t = ((), u)
     \<and> run_state (topo_step (quiet_menv Slave None) x) u = ((), w)
     \<and> (\<forall>ns. noted (g_calls w) = noted (g_calls u) @ ns \<longrightarrow>
          note_key (trigger_note (Mac 3 3 3 3 3 3) sample_trigger) \<notin> note_key ` set ns)"
proof -
  let ?E = "quiet_menv Slave None" and ?m = "Mac 3 3 3 3 3 3"
  let ?p = "Some (buildTopologyTriggerPayload sample_trigger)"
  let ?x = "OpRxTrigger ?m default_header ?p"
  have p: "parseTopologyTriggerPayload ?p = Some sample_trigger"
    using topology_trigger_append [of sample_trigger "[]"] by simp
  obtain t where t: "run_state (topo_step ?E ?x) committed_relay = ((), t)"
    by (cases "run_state (topo_step ?E ?x) committed_relay") simp
  obtain u where u: "run_state (topo_run ?E [OpClock 9000]) t = ((), u)"
    by (cases "run_state (topo_run ?E [OpClock 9000]) t") simp
  obtain w where w: "run_state (topo_step ?E ?x) u = ((), w)" by (cases "run_state (topo_step ?E ?x) u") simp
  have "wp (topo_step ?E ?x) (\<lambda>_ t. noted (g_calls t)
      = noted (g_calls committed_relay) @ [trigger_note ?m sample_trigger]) committed_relay"
    unfolding topo_step.simps wp_bind wp_ret
    by (rule wp_mono [OF trigger_notes [OF _ _ p]]) (use sample_authorized in \<open>auto simp: sample_fresh wp_ret\<close>)
  from wp_run [OF this t]
  have n: "noted (g_calls t) = noted (g_calls committed_relay) @ [trigger_note ?m sample_trigger]" .
  have "g_now_ms committed_relay = 1000" by (simp add: committed_relay_def)
  then have "note_key (trigger_note ?m sample_trigger) \<notin> note_key ` set ns"
    if "noted (g_calls w) = noted (g_calls u) @ ns" for ns
    by (intro trigger_not_repeated [OF t n _ u _ _ w that]) (simp_all add: receives_def)
  with t n u w show ?thesis by blast
qed

text \<open>
  C38. A batch is marked as seen before its items are authorized. A batch that passes the checks in
  front of that (\<open>admits_batch\<close>), is new, and has an item that is refused is acknowledged as rejected;
  sent again within 15 seconds and 31 other trigger frames, whatever else happens in between (a
  corrected topology may be committed), to a node that still admits it, it is acknowledged as
  accepted, with reason 0. Neither frame gives the hooks a notification: the batch was not executed
  when it was refused and is not executed when it is acknowledged as accepted. Refusals by the
  checks in front (no topology, wrong role) leave no mark, and after 15 seconds the mark is gone: then
  the batch is decided anew.
\<close>

theorem rejected_batch_acked_on_retry:
  assumes E: "local_role (m_cfg E) = Slave" and p: "parseTopologyTriggerBatchPayload p = Some t"
    and s: "admits_batch s t"
    and fresh: "(m, tb_src_role t, tb_src_vid t, tb_seq t) \<notin> entry_key ` set (pruneTopologyTriggerDedup (g_now_ms s) (tp_dedup s))"
    and refused: "fst (authorize_items s m (tb_src_role t) (tb_src_vid t) (tb_items t) []) \<noteq> kTopologyTriggerReasonOk"
    and first: "run_state (onRxTopologyTriggerBatch E m h p) s = (a, u)"
    and between: "run_state (topo_run E xs) u = ((), v)" "length (filter receives xs) < kTopologyTriggerDedupMaxEntries"
      "\<forall>n. OpClock n \<in> set xs \<longrightarrow> n - g_now_ms s \<le> 15000"
    and v: "admits_batch v t"
    and again: "run_state (onRxTopologyTriggerBatch E m h' p) v = (b, w)"
  shows "noted (g_calls u) = noted (g_calls s) \<and> noted (g_calls w) = noted (g_calls v)
    \<and> (\<exists>x. on_air (g_calls u) = on_air (g_calls s) @ [(m, TopologyTriggerAck, fh_correlation_id h, buildTopologyTriggerAckPayload x)]
         \<and> ta_ack_seq x = tb_seq t \<and> ta_result x = kTopologyTriggerResultRejected \<and> ta_reason x \<noteq> kTopologyTriggerReasonOk)
    \<and> (\<exists>x. on_air (g_calls w) = on_air (g_calls v) @ [(m, TopologyTriggerAck, fh_correlation_id h', buildTopologyTriggerAckPayload x)]
         \<and> ta_ack_seq x = tb_seq t \<and> ta_result x = kTopologyTriggerResultAccepted \<and> ta_reason x = kTopologyTriggerReasonOk)"
proof -
  let ?k = "batch_key m t"
  from wp_run [OF refused_batch [OF E p s fresh refused] first]
  have u: "core u = core (record_key ?k s)"
    "on_air (g_calls u) = on_air (g_calls s) @ [(m, TopologyTriggerAck, fh_correlation_id h,
       buildTopologyTriggerAckPayload (batch_ack s t (False, False,
         fst (authorize_items s m (tb_src_role t) (tb_src_vid t) (tb_items t) []))))]" by auto
  have "wp (topo_run E xs) (\<lambda>_ w. remembered ?k (g_now_ms s) (0 + length (filter receives xs)) (core w)) u"
    using between(2,3) by (intro remembered_run record_remembered u(1)) (simp_all add: kTopologyTriggerDedupWindowMs_def)
  from remembered_seen [OF wp_run [OF this between(1)]] between(2) have "?k \<in> entry_key ` set (seen_at v)" by simp
  from wp_run [OF repeated_batch [OF E p v this] again]
  have w: "core w = (core v)\<lparr>co_dedup := seen_at v\<rparr>"
    "on_air (g_calls w) = on_air (g_calls v) @ [(m, TopologyTriggerAck, fh_correlation_id h',
       buildTopologyTriggerAckPayload (batch_ack v t (True, True, kTopologyTriggerReasonOk)))]" by auto
  have "co_notes (core u) = co_notes (core s)" "co_notes (core w) = co_notes (core v)" by (simp_all add: u(1) w(1))
  then have "noted (g_calls u) = noted (g_calls s)" "noted (g_calls w) = noted (g_calls v)" by (simp_all add: core_def)
  with u(2) w(2) refused show ?thesis by (auto simp: batch_ack_def verdict_ack_def)
qed

definition sample_batch :: TopologyTriggerBatchPayload where
  "sample_batch = \<lparr>tb_topology_version = 7, tb_seq = 9, tb_src_role = 3, tb_src_vid = 0xFF, tb_dst_role = 2,
     tb_direction = 1, tb_items = [\<lparr>ti_dst_vid = 5, ti_target_index = 1, ti_delay_ms = 0, ti_hold_ms = 1\<rparr>]\<rparr>"

lemma sample_batch_admitted: "admits_batch committed_relay sample_batch"
  by (simp add: admits_batch_def committed_relay_def new_topo_def sample_batch_def sample_roles vid_bad_def)

lemma sample_batch_refused:
  "fst (authorize_items committed_relay (Mac 3 3 3 3 3 3) (tb_src_role sample_batch) (tb_src_vid sample_batch)
     (tb_items sample_batch) []) \<noteq> kTopologyTriggerReasonOk"
proof -
  have "findTopologyAuthorizedSourceSlot committed_relay (Mac 3 3 3 3 3 3) 3 0xFF 5 = None"
    using found_iff [of committed_relay "Mac 3 3 3 3 3 3" 3 "0xFF" 5]
    by (simp add: committed_relay_def sample_snapshot_def sample_slot_def no_slot_def authorizes_def)
  then show ?thesis
    by (simp add: sample_batch_def vid_bad_def kTopologyTriggerReasonUnauthorizedPeer_def kTopologyTriggerReasonOk_def)
qed

lemma rejected_batch_acked_on_retry_witness:
  "\<exists>p u v b w x. run_state (onRxTopologyTriggerBatch (quiet_menv Slave None) (Mac 3 3 3 3 3 3) default_header p) committed_relay
       = (True, u)
     \<and> run_state (topo_run (quiet_menv Slave None) [OpClock 2000]) u = ((), v)
     \<and> run_state (onRxTopologyTriggerBatch (quiet_menv Slave None) (Mac 3 3 3 3 3 3) default_header p) v = (b, w)
     \<and> noted (g_calls w) = noted (g_calls v)
     \<and> on_air (g_calls w) = on_air (g_calls v) @ [(Mac 3 3 3 3 3 3, TopologyTriggerAck, fh_correlation_id default_header,
         buildTopologyTriggerAckPayload x)]
     \<and> ta_result x = kTopologyTriggerResultAccepted"
proof -
  let ?E = "quiet_menv Slave None" and ?m = "Mac 3 3 3 3 3 3"
  obtain bs where "buildTopologyTriggerBatchPayload sample_batch = Some bs"
    by (auto simp: buildTopologyTriggerBatchPayload_def sample_batch_def)
  then have p: "parseTopologyTriggerBatchPayload (Some bs) = Some sample_batch"
    using topology_batch_append [of sample_batch bs "[]"] by simp
  have E: "local_role (m_cfg ?E) = Slave" by simp
  have fresh: "batch_key ?m sample_batch \<notin> entry_key ` set (seen_at committed_relay)" by (simp add: sample_fresh)
  obtain a u where u: "run_state (onRxTopologyTriggerBatch ?E ?m default_header (Some bs)) committed_relay = (a, u)" by fastforce
  from wp_run [OF refused_batch [OF E p sample_batch_admitted fresh sample_batch_refused] u]
  have a: "a" "core u = core (record_key (batch_key ?m sample_batch) committed_relay)" by simp_all
  let ?v = "u\<lparr>g_now_ms := 2000\<rparr>"
  have "admits_batch (record_key (batch_key ?m sample_batch) committed_relay) sample_batch"
    using sample_batch_admitted by (simp add: admits_batch_def record_key_def)
  then have "admits_batch u sample_batch" unfolding admits_core [OF a(2)] .
  then have admitted: "admits_batch ?v sample_batch" by (simp add: admits_batch_def)
  obtain b w where w: "run_state (onRxTopologyTriggerBatch ?E ?m default_header (Some bs)) ?v = (b, w)" by fastforce
  have v: "run_state (topo_run ?E [OpClock 2000]) u = ((), ?v)" by simp
  moreover have "\<forall>n. OpClock n \<in> set [OpClock 2000] \<longrightarrow> n - g_now_ms committed_relay \<le> 15000"
    by (simp add: committed_relay_def)
  ultimately show ?thesis
    using rejected_batch_acked_on_retry [OF E p sample_batch_admitted fresh sample_batch_refused u v _ _ admitted w] a(1) u v w
    by (intro exI [of _ "Some bs"] exI [of _ u] exI [of _ ?v] exI [of _ b] exI [of _ w])
       (auto simp: receives_def kTopologyTriggerDedupMaxEntries_def)
qed

end
