(* ===== verification/Firmware.thy ===== *)
theory Firmware
  imports Transmit OtaCompletes "HOL-Library.While_Combinator"
begin

text \<open>
  Firmware over the air between two managers: the frames the master sends (\<open>manager_tx.cpp\<close>), the
  handlers of the slave (\<open>manager_firmware.cpp\<close>) in front of the OTA manager behind
  \<open>OtaFirmwareSink\<close> (\<open>ota_firmware_sink.cpp\<close>), the acknowledgements and the repeated final status,
  and the queue of mandatory events they report through (\<open>manager_telemetry_push.cpp\<close>).
\<close>

section \<open>Members\<close>

record PendingMandatoryEvent =
  pe_event_id :: u16
  pe_severity :: u8
  pe_value :: u32
  pe_event_ts_s :: u32
  pe_corr_id :: u32
  pe_retry_count :: u8

text \<open>The members \<open>ota_transfer_*\<close> and \<open>ota_finalize_*\<close> of the manager.\<close>

record ota_transfer =
  tr_corr_id :: u32
  tr_last_received_offset :: u32
  tr_expected_size :: u32
  tr_last_acked_offset :: u32
  tr_ack_step_bytes :: u32
  tr_next_ack_offset :: u32
  tr_last_nack_offset :: u32
  tr_last_nack_ms :: u32

definition no_transfer :: ota_transfer where
  "no_transfer = \<lparr>tr_corr_id = 0, tr_last_received_offset = 0, tr_expected_size = 0, tr_last_acked_offset = 0,
     tr_ack_step_bytes = 0, tr_next_ack_offset = 0, tr_last_nack_offset = 0, tr_last_nack_ms = 0\<rparr>"

record ota_finalize =
  fz_pending :: bool
  fz_peer :: mac
  fz_corr_id :: u32
  fz_offset :: u32
  fz_status_code :: u16
  fz_kind :: u8
  fz_started_ms :: u32
  fz_last_tx_ms :: u32

text \<open>Forgetting a pending final status; the peer stays in its member.\<close>

definition forget_finalize :: "ota_finalize \<Rightarrow> ota_finalize" where
  "forget_finalize f = f\<lparr>fz_pending := False, fz_corr_id := 0, fz_offset := 0, fz_status_code := 0,
     fz_kind := 0, fz_started_ms := 0, fz_last_tx_ms := 0\<rparr>"

text \<open>Of the push session only its master, while it has one, is kept.\<close>

record fnode = mgr +
  fn_push_master :: "mac option"
  fn_role_hints :: "PeerRoleHintEntry list"
  fn_ota :: ota
  fn_last_message :: string
  fn_last_image_path :: string
  fn_transfer :: ota_transfer
  fn_finalize :: ota_finalize
  fn_events :: "PendingMandatoryEvent list"
  fn_event_corr_seq :: u32
  fn_event_last_tx_ms :: u32
  fn_event_backoff_until_ms :: u32
  fn_event_fail_streak :: u8
  fn_boot_notice_last_try_ms :: u32

type_synonym 'a fnm = "(fnode, 'a) state"

definition kOtaBootCompleteEventId :: u16 where "kOtaBootCompleteEventId = 0x7F10"
definition kOtaTransferReadyEventId :: u16 where "kOtaTransferReadyEventId = 0x7F11"
definition kFirmwareStatusKindChunkAck :: u8 where "kFirmwareStatusKindChunkAck = 0x01"
definition kFirmwareStatusKindChunkNack :: u8 where "kFirmwareStatusKindChunkNack = 0x02"
definition kFirmwareStatusKindFinalizeOk :: u8 where "kFirmwareStatusKindFinalizeOk = 0x03"
definition kFirmwareStatusKindFinalizeFail :: u8 where "kFirmwareStatusKindFinalizeFail = 0x04"
definition kFirmwareStatusKindFinalizeAck :: u8 where "kFirmwareStatusKindFinalizeAck = 0x05"
definition kFinalizeStatusRetryIntervalMs :: u32 where "kFinalizeStatusRetryIntervalMs = 400"
definition kFinalizeStatusRetryWindowMs :: u32 where "kFinalizeStatusRetryWindowMs = 12000"
definition kFirmwareMetaMagic :: u8 where "kFirmwareMetaMagic = 0xA5"
definition kFirmwareMetaVersionV1 :: u8 where "kFirmwareMetaVersionV1 = 1"
definition kFirmwareMetaVersionV2 :: u8 where "kFirmwareMetaVersionV2 = 2"
definition kFirmwareMetaHeaderSizeV1 :: nat where "kFirmwareMetaHeaderSizeV1 = 4"
definition kFirmwareMetaHeaderSizeV2 :: nat where "kFirmwareMetaHeaderSizeV2 = 5"

text \<open>The numbers of the status codes.\<close>

fun ota_code :: "OtaStatusCode \<Rightarrow> u16" where
  "ota_code OtaOk = 0x0000" | "ota_code StorageNotReady = 0x0001" | "ota_code GateDenied = 0x0002"
| "ota_code GateBusy = 0x0003" | "ota_code GatePrepFailed = 0x0004" | "ota_code ImageTooLarge = 0x0005"
| "ota_code InvalidState = 0x0006" | "ota_code InvalidArgument = 0x0007" | "ota_code OffsetMismatch = 0x0008"
| "ota_code SizeMismatch = 0x0009" | "ota_code CrcMismatch = 0x000A" | "ota_code ApplyRejected = 0x000B"
| "ota_code ApplyFailed = 0x000C" | "ota_code OtaTimeout = 0x000D" | "ota_code InternalError = 0x00FF"

section \<open>The firmware sink\<close>

text \<open>A program of the OTA manager run on the manager that the sink refers to.\<close>

definition in_ota :: "'a otam \<Rightarrow> 'a fnm" where
  "in_ota m = State (\<lambda>s. case run_state m (fn_ota s) of (a, t) \<Rightarrow> (a, s\<lparr>fn_ota := t\<rparr>))"

definition sink_begin :: "ota_env \<Rightarrow> mac \<Rightarrow> u32 \<Rightarrow> u32 \<Rightarrow> u32 \<Rightarrow> u32 \<Rightarrow> FirmwareImageMetadata \<Rightarrow> bool fnm" where
  "sink_begin D from corr_id total_size chunk_size image_crc32 metadata = do {
     _ \<leftarrow> modify (\<lambda>s. s\<lparr>fn_last_image_path := []\<rparr>);
     (ok, msg) \<leftarrow> in_ota (beginReceive D from corr_id total_size chunk_size image_crc32 (Some metadata));
     _ \<leftarrow> modify (\<lambda>s. s\<lparr>fn_last_message := msg\<rparr>);
     ret ok }"

definition sink_writeChunk :: "ota_env \<Rightarrow> mac \<Rightarrow> u32 \<Rightarrow> u32 \<Rightarrow> buf \<Rightarrow> bool option fnm" where
  "sink_writeChunk D from corr_id offset data = do {
     r \<leftarrow> in_ota (writeReceiveChunk D from corr_id offset data);
     case r of
       None \<Rightarrow> ret None
     | Some (ok, msg) \<Rightarrow> do { _ \<leftarrow> modify (\<lambda>s. s\<lparr>fn_last_message := msg\<rparr>); ret (Some ok) } }"

definition sink_end :: "ota_env \<Rightarrow> mac \<Rightarrow> u32 \<Rightarrow> u32 \<Rightarrow> u32 \<Rightarrow> bool fnm" where
  "sink_end D from corr_id total_size image_crc32 = do {
     (ok, msg, path) \<leftarrow> in_ota (endReceive D from corr_id total_size image_crc32);
     _ \<leftarrow> modify (\<lambda>s. s\<lparr>fn_last_message := msg, fn_last_image_path := path\<rparr>);
     ret ok }"

definition sink_abort :: "ota_env \<Rightarrow> mac \<Rightarrow> u32 \<Rightarrow> unit fnm" where
  "sink_abort D from corr_id = do {
     msg \<leftarrow> in_ota (abortReceive D from corr_id);
     modify (\<lambda>s. s\<lparr>fn_last_message := msg\<rparr>) }"

definition sink_clearBootCompletionNotice :: "ota_env \<Rightarrow> bool fnm" where
  "sink_clearBootCompletionNotice D = do { (ok, msg) \<leftarrow> in_ota (clearBootCompletionNotice D); ret ok }"

definition lastOtaStatusCode :: "fnode \<Rightarrow> u16" where
  "lastOtaStatusCode s = ota_code (st_code (o_status (fn_ota s)))"

section \<open>The sending side\<close>

definition firmware_meta_bytes :: "FirmwareImageMetadata \<Rightarrow> bytes" where
  "firmware_meta_bytes meta =
     (let use_v2 = (target_role meta \<noteq> []) in
      if meta = no_metadata then []
      else [kFirmwareMetaMagic, if use_v2 then kFirmwareMetaVersionV2 else kFirmwareMetaVersionV1,
            of_nat (length (sw_version meta)), of_nat (length (build_id meta))]
           @ (if use_v2 then [of_nat (length (target_role meta))] else [])
           @ string_bytes (sw_version meta) @ string_bytes (build_id meta)
           @ (if use_v2 then string_bytes (target_role meta) else []))"

definition sendFirmwareBegin ::
  "menv \<Rightarrow> mac \<Rightarrow> u32 \<Rightarrow> u32 \<Rightarrow> u32 \<Rightarrow> u32 \<Rightarrow> FirmwareImageMetadata option \<Rightarrow> ('r, bool) mgrm" where
  "sendFirmwareBegin E to total_size chunk_size image_crc32 corr_id metadata =
     (if local_role (m_cfg E) \<noteq> Master \<or> total_size = 0 \<or> chunk_size = 0 then ret False
      else let meta = (case metadata of None \<Rightarrow> no_metadata | Some m \<Rightarrow> m) in
        if length (sw_version meta) > 63 \<or> length (build_id meta) > 63 \<or> length (target_role meta) > 15
        then ret False
        else do {
          r \<leftarrow> sendTyped E to FirmwareBegin
                (appendLe32 total_size @ appendLe32 chunk_size @ appendLe32 image_crc32 @ firmware_meta_bytes meta)
                corr_id 0x07 0x01 0x01;
          ret (fst r) })"

definition sendFirmwareChunk :: "menv \<Rightarrow> mac \<Rightarrow> u32 \<Rightarrow> buf \<Rightarrow> u32 \<Rightarrow> ('r, bool) mgrm" where
  "sendFirmwareChunk E to offset data corr_id =
     (case data of
        None \<Rightarrow> ret False
      | Some bs \<Rightarrow>
          if local_role (m_cfg E) \<noteq> Master \<or> bs = [] then ret False
          else do {
            r \<leftarrow> sendTyped E to FirmwareChunk (appendLe32 offset @ bs) corr_id 0x07 0x02 0x01;
            ret (fst r) })"

definition sendFirmwareEnd :: "menv \<Rightarrow> mac \<Rightarrow> u32 \<Rightarrow> u32 \<Rightarrow> u32 \<Rightarrow> ('r, bool) mgrm" where
  "sendFirmwareEnd E to total_size image_crc32 corr_id =
     (if local_role (m_cfg E) \<noteq> Master \<or> total_size = 0 then ret False
      else do {
        r \<leftarrow> sendTyped E to FirmwareEnd (appendLe32 total_size @ appendLe32 image_crc32) corr_id 0x07 0x03 0x01;
        ret (fst r) })"

definition sendFirmwareStatus :: "menv \<Rightarrow> mac \<Rightarrow> u32 \<Rightarrow> u8 \<Rightarrow> u32 \<Rightarrow> u16 \<Rightarrow> ('r, bool) mgrm" where
  "sendFirmwareStatus E to corr_id kind offset_bytes status_code = do {
     r \<leftarrow> sendTyped E to FirmwareStatus (buildFirmwareStatusPayload \<lparr>fs_kind = kind, fs_transfer_corr_id = corr_id,
            fs_offset_bytes = offset_bytes, fs_status_code = status_code\<rparr>) corr_id 0x07 0x04 0x02;
     ret (fst r) }"

definition sendFirmwareFinalizeAck :: "menv \<Rightarrow> mac \<Rightarrow> u32 \<Rightarrow> u32 \<Rightarrow> u16 \<Rightarrow> ('r, bool) mgrm" where
  "sendFirmwareFinalizeAck E to corr_id finalized_offset status_code =
     sendFirmwareStatus E to corr_id kFirmwareStatusKindFinalizeAck finalized_offset status_code"

section \<open>Mandatory events\<close>

text \<open>
  \<open>publishMandatoryEvent\<close>. \<open>None\<close>: the code reads and removes the front of an empty queue, which
  is undefined; it happens when the configured limit is 0.
\<close>

definition dropped_event :: "PendingMandatoryEvent \<Rightarrow> Event" where
  "dropped_event d = (new_event MandatoryEventDropped)\<lparr>ev_event_id := pe_event_id d, ev_severity := pe_severity d,
     ev_value := pe_value d, ev_ts_s := pe_event_ts_s d, ev_message := ''event queue full''\<rparr>"

definition publishMandatoryEvent :: "menv \<Rightarrow> u16 \<Rightarrow> u8 \<Rightarrow> u32 \<Rightarrow> u32 \<Rightarrow> bool option fnm" where
  "publishMandatoryEvent E event_id severity value event_ts_s =
     (if local_role (m_cfg E) \<noteq> Slave \<or> event_id = 0 then ret (Some False)
      else do {
        seq \<leftarrow> gets fn_event_corr_seq;
        _ \<leftarrow> modify (\<lambda>s. s\<lparr>fn_event_corr_seq := seq + 1\<rparr>);
        let ev = \<lparr>pe_event_id = event_id, pe_severity = severity, pe_value = value,
                  pe_event_ts_s = event_ts_s, pe_corr_id = seq, pe_retry_count = 0\<rparr>;
        q \<leftarrow> gets fn_events;
        if find_by pe_event_id event_id q \<noteq> None then do {
          _ \<leftarrow> modify (\<lambda>s. s\<lparr>fn_events := upd_by pe_event_id event_id (\<lambda>_. ev) q\<rparr>);
          ret (Some True) }
        else if length q \<ge> unat (mandatory_event_max_queue (m_cfg E)) then
          (case q of
             [] \<Rightarrow> ret None
           | d # rest \<Rightarrow> do {
               _ \<leftarrow> m_event E (dropped_event d);
               _ \<leftarrow> modify (\<lambda>s. s\<lparr>fn_events := rest @ [ev]\<rparr>);
               ret (Some True) })
        else do {
          _ \<leftarrow> modify (\<lambda>s. s\<lparr>fn_events := q @ [ev]\<rparr>);
          ret (Some True) } })"

definition sendMandatoryEventReport :: "menv \<Rightarrow> mac \<Rightarrow> PendingMandatoryEvent \<Rightarrow> bool fnm" where
  "sendMandatoryEventReport E to ev = do {
     r \<leftarrow> sendTyped E to EventReport (buildMandatoryEventPayload \<lparr>me_event_id = pe_event_id ev,
            me_severity = pe_severity ev, me_value = pe_value ev, me_ts_s = pe_event_ts_s ev\<rparr>)
            (pe_corr_id ev) 0x06 0x10 0x04;
     ret (fst r) }"

text \<open>The report of an event to the sink, when it was sent or given up.\<close>

definition event_outcome :: "EventType \<Rightarrow> string \<Rightarrow> mac \<Rightarrow> PendingMandatoryEvent \<Rightarrow> Event" where
  "event_outcome type message master ev = (new_event type)\<lparr>ev_peer := master, ev_correlation_id := pe_corr_id ev,
     ev_event_id := pe_event_id ev, ev_severity := pe_severity ev, ev_value := pe_value ev,
     ev_ts_s := pe_event_ts_s ev, ev_message := message\<rparr>"

definition event_due :: "menv \<Rightarrow> u32 \<Rightarrow> fnode \<Rightarrow> bool" where
  "event_due E now_ms s \<longleftrightarrow>
     \<not> (fn_event_backoff_until_ms s \<noteq> 0 \<and> sint (now_ms - fn_event_backoff_until_ms s) < 0)
     \<and> \<not> (fn_event_last_tx_ms s \<noteq> 0 \<and> now_ms - fn_event_last_tx_ms s < mandatory_event_min_gap_ms (m_cfg E))"

definition event_failed :: "menv \<Rightarrow> u32 \<Rightarrow> mac \<Rightarrow> PendingMandatoryEvent \<Rightarrow> unit fnm" where
  "event_failed E now_ms master ev = do {
     _ \<leftarrow> modify (\<lambda>s. s\<lparr>fn_event_last_tx_ms := now_ms,
            fn_events := (hd (fn_events s))\<lparr>pe_retry_count := pe_retry_count (hd (fn_events s)) + 1\<rparr> # tl (fn_events s),
            fn_event_fail_streak := fn_event_fail_streak s + 1\<rparr>);
     head \<leftarrow> gets (\<lambda>s. hd (fn_events s));
     _ \<leftarrow> whenM (pe_retry_count head > mandatory_event_retry_max (m_cfg E)) (do {
           _ \<leftarrow> m_event E (event_outcome MandatoryEventDropped ''event retry exceeded'' master ev);
           modify (\<lambda>s. s\<lparr>fn_events := tl (fn_events s)\<rparr>) });
     streak \<leftarrow> gets fn_event_fail_streak;
     whenM (streak \<ge> mandatory_event_fail_backoff_threshold (m_cfg E))
       (modify (\<lambda>s. s\<lparr>fn_event_backoff_until_ms := now_ms + mandatory_event_backoff_ms (m_cfg E),
                       fn_event_fail_streak := 0\<rparr>)) }"

definition event_sent :: "menv \<Rightarrow> ota_env option \<Rightarrow> u32 \<Rightarrow> mac \<Rightarrow> PendingMandatoryEvent \<Rightarrow> unit fnm" where
  "event_sent E F now_ms master ev = do {
     _ \<leftarrow> modify (\<lambda>s. s\<lparr>fn_event_last_tx_ms := now_ms, fn_event_backoff_until_ms := 0, fn_event_fail_streak := 0\<rparr>);
     _ \<leftarrow> (case F of
             Some D \<Rightarrow> whenM (pe_event_id ev = kOtaBootCompleteEventId)
                          (do { _ \<leftarrow> sink_clearBootCompletionNotice D; ret () })
           | None \<Rightarrow> ret ());
     _ \<leftarrow> modify (\<lambda>s. s\<lparr>fn_events := tl (fn_events s)\<rparr>);
     m_event E (event_outcome MandatoryEventSent ''mandatory event tx'' master ev) }"

definition tickMandatoryEventQueue :: "menv \<Rightarrow> ota_env option \<Rightarrow> u32 \<Rightarrow> unit fnm" where
  "tickMandatoryEventQueue E F now_ms = do {
     s \<leftarrow> gets id;
     case fn_events s of
       [] \<Rightarrow> ret ()
     | ev # _ \<Rightarrow>
         if local_role (m_cfg E) \<noteq> Slave then ret ()
         else case getPairedPeer (g_pairing s) of
           None \<Rightarrow> ret ()
         | Some master \<Rightarrow>
             if \<not> event_due E now_ms s then ret ()
             else do {
               ok \<leftarrow> sendMandatoryEventReport E master ev;
               if ok then event_sent E F now_ms master ev else event_failed E now_ms master ev } }"

section \<open>Receiving firmware\<close>

text \<open>The fields of a begin frame: sizes, checksum and metadata, or \<open>None\<close> for a bad one.\<close>

definition parse_begin_meta :: "bytes \<Rightarrow> FirmwareImageMetadata option" where
  "parse_begin_meta payload =
     (let len = length payload; sw_len = unat (payload ! 14); build_len = unat (payload ! 15);
          field = (\<lambda>off n. string_of_bytes (take n (drop off payload)))
      in
      if len < 12 + kFirmwareMetaHeaderSizeV1 then None
      else if payload ! 12 \<noteq> kFirmwareMetaMagic then None
      else if sw_len > 63 \<or> build_len > 63 then None
      else if payload ! 13 = kFirmwareMetaVersionV1 then
        (if 12 + kFirmwareMetaHeaderSizeV1 + sw_len + build_len \<noteq> len then None
         else Some \<lparr>sw_version = field 16 sw_len, build_id = field (16 + sw_len) build_len, target_role = []\<rparr>)
      else if payload ! 13 = kFirmwareMetaVersionV2 then
        (if len < 12 + kFirmwareMetaHeaderSizeV2 then None
         else let role_len = unat (payload ! 16) in
           if role_len > 15 then None
           else if 12 + kFirmwareMetaHeaderSizeV2 + sw_len + build_len + role_len \<noteq> len then None
           else Some \<lparr>sw_version = field 17 sw_len, build_id = field (17 + sw_len) build_len,
                      target_role = field (17 + sw_len + build_len) role_len\<rparr>)
      else None)"

definition parse_firmware_begin :: "bytes \<Rightarrow> (u32 \<times> u32 \<times> u32 \<times> FirmwareImageMetadata) option" where
  "parse_firmware_begin payload =
     (if length payload < 12 then None
      else case (if length payload > 12 then parse_begin_meta payload else Some no_metadata) of
        None \<Rightarrow> None
      | Some meta \<Rightarrow> Some (readLe32 payload, readLe32 (drop 4 payload), readLe32 (drop 8 payload), meta))"

text \<open>The members after an accepted begin frame.\<close>

definition begun_transfer :: "u32 \<Rightarrow> u32 \<Rightarrow> u32 \<Rightarrow> ota_transfer" where
  "begun_transfer corr_id total_size chunk_size =
     (let step = max 1024 (chunk_size * 16) in
      \<lparr>tr_corr_id = corr_id, tr_last_received_offset = 0, tr_expected_size = total_size, tr_last_acked_offset = 0,
       tr_ack_step_bytes = step, tr_next_ack_offset = step, tr_last_nack_offset = 0, tr_last_nack_ms = 0\<rparr>)"

definition handleFirmwareBegin :: "menv \<Rightarrow> ota_env option \<Rightarrow> mac \<Rightarrow> u32 \<Rightarrow> buf \<Rightarrow> bool fnm" where
  "handleFirmwareBegin E F from corr_id payload =
     (case (F, payload) of
        (Some D, Some p) \<Rightarrow>
          (case parse_firmware_begin p of
             None \<Rightarrow> ret False
           | Some (total_size, chunk_size, crc, meta) \<Rightarrow> do {
               ok \<leftarrow> sink_begin D from corr_id total_size chunk_size crc meta;
               if local_role (m_cfg E) \<noteq> Slave then ret ok
               else do {
                 _ \<leftarrow> modify (\<lambda>s. s\<lparr>fn_finalize := forget_finalize (fn_finalize s)\<rparr>);
                 _ \<leftarrow> (if ok then do {
                         _ \<leftarrow> modify (\<lambda>s. s\<lparr>fn_transfer := begun_transfer corr_id total_size chunk_size\<rparr>);
                         sendFirmwareStatus E from corr_id kFirmwareStatusKindChunkAck 0 (ota_code OtaOk) }
                       else do {
                         _ \<leftarrow> modify (\<lambda>s. s\<lparr>fn_transfer := (fn_transfer s)\<lparr>tr_expected_size := 0,
                                             tr_last_acked_offset := 0\<rparr>\<rparr>);
                         sendFirmwareStatus E from corr_id kFirmwareStatusKindChunkNack 0 (ota_code InvalidState) });
                 ret ok } })
      | _ \<Rightarrow> ret False)"

text \<open>
  The loop that moves the next acknowledgement past the received bytes; \<open>None\<close> if it does not end
  (the offsets wrap around).
\<close>

definition raise_next_ack :: "u32 \<Rightarrow> u32 \<Rightarrow> u32 \<Rightarrow> u32 option" where
  "raise_next_ack step expected_offset next_ack =
     while_option (\<lambda>n. step \<noteq> 0 \<and> n \<le> expected_offset) (\<lambda>n. n + step) next_ack"

text \<open>The acknowledgement of an accepted chunk; \<open>None\<close> if the loop does not end.\<close>

definition ack_due :: "ota_transfer \<Rightarrow> u32 \<Rightarrow> bool" where
  "ack_due t expected_offset \<longleftrightarrow>
     (expected_offset \<ge> tr_next_ack_offset t
      \<or> (tr_expected_size t \<noteq> 0 \<and> expected_offset = tr_expected_size t) \<or> expected_offset = 0)
     \<and> expected_offset \<noteq> tr_last_acked_offset t"

definition chunk_acked :: "menv \<Rightarrow> mac \<Rightarrow> u32 \<Rightarrow> u32 \<Rightarrow> bool option fnm" where
  "chunk_acked E from corr_id expected_offset = do {
     _ \<leftarrow> modify (\<lambda>s. s\<lparr>fn_transfer := (fn_transfer s)\<lparr>tr_last_received_offset := expected_offset\<rparr>\<rparr>);
     t \<leftarrow> gets fn_transfer;
     if \<not> ack_due t expected_offset then ret (Some True)
     else do {
       _ \<leftarrow> sendFirmwareStatus E from corr_id kFirmwareStatusKindChunkAck expected_offset (ota_code OtaOk);
       _ \<leftarrow> modify (\<lambda>s. s\<lparr>fn_transfer := (fn_transfer s)\<lparr>tr_last_acked_offset := expected_offset\<rparr>\<rparr>);
       case raise_next_ack (tr_ack_step_bytes t) expected_offset (tr_next_ack_offset t) of
         None \<Rightarrow> ret None
       | Some n \<Rightarrow> do {
           _ \<leftarrow> modify (\<lambda>s. s\<lparr>fn_transfer := (fn_transfer s)\<lparr>tr_next_ack_offset := n\<rparr>\<rparr>);
           ret (Some True) } } }"

text \<open>The negative acknowledgement of a refused chunk, not repeated for 60 ms.\<close>

definition chunk_nacked :: "menv \<Rightarrow> mac \<Rightarrow> u32 \<Rightarrow> u32 \<Rightarrow> unit fnm" where
  "chunk_nacked E from corr_id expected_offset = do {
     now_ms \<leftarrow> gets g_now_ms;
     _ \<leftarrow> modify (\<lambda>s. s\<lparr>fn_transfer := (fn_transfer s)\<lparr>tr_last_received_offset := expected_offset\<rparr>\<rparr>);
     t \<leftarrow> gets fn_transfer;
     let nack_recent = (expected_offset = tr_last_nack_offset t \<and> sint (now_ms - tr_last_nack_ms t) < 60);
     whenM (\<not> nack_recent) (do {
       _ \<leftarrow> sendFirmwareStatus E from corr_id kFirmwareStatusKindChunkNack expected_offset (ota_code OffsetMismatch);
       modify (\<lambda>s. s\<lparr>fn_transfer := (fn_transfer s)\<lparr>tr_last_nack_offset := expected_offset, tr_last_nack_ms := now_ms\<rparr>\<rparr>) }) }"

definition handleFirmwareChunk :: "menv \<Rightarrow> ota_env option \<Rightarrow> mac \<Rightarrow> u32 \<Rightarrow> buf \<Rightarrow> bool option fnm" where
  "handleFirmwareChunk E F from corr_id payload =
     (case (F, payload) of
        (Some D, Some p) \<Rightarrow>
          if length p < 4 then ret (Some False)
          else do {
            t \<leftarrow> gets fn_transfer;
            w \<leftarrow> sink_writeChunk D from corr_id (readLe32 p) (Some (drop 4 p));
            case w of
              None \<Rightarrow> ret None
            | Some ok \<Rightarrow>
                if \<not> (local_role (m_cfg E) = Slave \<and> tr_corr_id t = corr_id) then ret (Some ok)
                else do {
                  sink_contiguous \<leftarrow> gets (\<lambda>s. contiguousReceiveSize (fn_ota s));
                  let expected_offset = (if sink_contiguous \<ge> tr_last_received_offset t then sink_contiguous
                                         else tr_last_received_offset t);
                  if ok then chunk_acked E from corr_id expected_offset
                  else do { _ \<leftarrow> chunk_nacked E from corr_id expected_offset; ret (Some False) } } }
      | _ \<Rightarrow> ret (Some False))"

text \<open>The end frame: the final status is sent and kept for repetition. \<open>None\<close> as for publishing.\<close>

definition transfer_ready :: "menv \<Rightarrow> u32 \<Rightarrow> bool option fnm" where
  "transfer_ready E corr_id = do {
     epoch \<leftarrow> (if m_clock E then m_nowEpochSec E else ret None);
     publishMandatoryEvent E kOtaTransferReadyEventId 1 (corr_id AND 0x7FFFFFFF)
       (case epoch of None \<Rightarrow> 0 | Some e \<Rightarrow> ucast (e AND 0xFFFFFFFF)) }"

text \<open>The slave's answer to an end frame, \<open>ok\<close> being the verdict of the sink.\<close>

definition conclude_transfer :: "menv \<Rightarrow> mac \<Rightarrow> u32 \<Rightarrow> u32 \<Rightarrow> bool \<Rightarrow> bool option fnm" where
  "conclude_transfer E from corr_id total_size ok = do {
     s \<leftarrow> gets id;
     let kind = (if ok then kFirmwareStatusKindFinalizeOk else kFirmwareStatusKindFinalizeFail);
     let offset = (if ok then total_size else tr_last_received_offset (fn_transfer s));
     let code = (if ok then ota_code OtaOk
                 else if lastOtaStatusCode s = 0 then ota_code InvalidState else lastOtaStatusCode s);
     _ \<leftarrow> modify (\<lambda>s. s\<lparr>fn_finalize := \<lparr>fz_pending = True, fz_peer = from, fz_corr_id = corr_id, fz_offset = offset,
            fz_status_code = code, fz_kind = kind, fz_started_ms = g_now_ms s, fz_last_tx_ms = 0\<rparr>\<rparr>);
     sent \<leftarrow> sendFirmwareStatus E from corr_id kind offset code;
     _ \<leftarrow> whenM sent (modify (\<lambda>s. s\<lparr>fn_finalize := (fn_finalize s)\<lparr>fz_last_tx_ms := g_now_ms s\<rparr>\<rparr>));
     published \<leftarrow> (if ok then transfer_ready E corr_id else ret (Some True));
     case published of
       None \<Rightarrow> ret None
     | Some _ \<Rightarrow> do {
         _ \<leftarrow> modify (\<lambda>s. if tr_corr_id (fn_transfer s) = corr_id then s\<lparr>fn_transfer := no_transfer\<rparr> else s);
         ret (Some ok) } }"

definition handleFirmwareEnd :: "menv \<Rightarrow> ota_env option \<Rightarrow> mac \<Rightarrow> u32 \<Rightarrow> buf \<Rightarrow> bool option fnm" where
  "handleFirmwareEnd E F from corr_id payload =
     (case (F, payload) of
        (Some D, Some p) \<Rightarrow>
          if length p \<noteq> 8 then ret (Some False)
          else do {
            let total_size = readLe32 p;
            let crc = readLe32 (drop 4 p);
            ok \<leftarrow> sink_end D from corr_id total_size crc;
            if local_role (m_cfg E) \<noteq> Slave then ret (Some ok)
            else conclude_transfer E from corr_id total_size ok }
      | _ \<Rightarrow> ret (Some False))"

definition handleFirmwareStatus :: "menv \<Rightarrow> mac \<Rightarrow> u32 \<Rightarrow> buf \<Rightarrow> bool fnm" where
  "handleFirmwareStatus E from corr_id payload =
     (case parseFirmwareStatusPayload payload of
        None \<Rightarrow> ret False
      | Some f \<Rightarrow>
          if local_role (m_cfg E) = Slave then do {
            z \<leftarrow> gets fn_finalize;
            _ \<leftarrow> whenM (fs_kind f = kFirmwareStatusKindFinalizeAck \<and> fz_pending z
                        \<and> fz_corr_id z = fs_transfer_corr_id f \<and> fz_peer z = from)
                  (modify (\<lambda>s. s\<lparr>fn_finalize := forget_finalize (fn_finalize s)\<rparr>));
            ret True }
          else do {
            _ \<leftarrow> m_event E ((new_event OtaTransferStatus)\<lparr>ev_peer := from, ev_correlation_id := fs_transfer_corr_id f,
                   ev_event_id := ucast (fs_kind f), ev_value := fs_offset_bytes f AND 0x7FFFFFFF,
                   ev_ts_s := ucast (fs_status_code f), ev_message := ''ota transfer status''\<rparr>);
            ret True })"

text \<open>A frame drained from the firmware queue.\<close>

definition processQueuedFirmwareRx :: "menv \<Rightarrow> ota_env option \<Rightarrow> QueuedControlRx \<Rightarrow> bool option fnm" where
  "processQueuedFirmwareRx E F frame = (
     let payload = (if qc_payload frame = [] then None else Some (qc_payload frame)) in
     case qc_type frame of
       FirmwareBegin \<Rightarrow> do {
         _ \<leftarrow> blinkForMessage E FirmwareBegin;
         ok \<leftarrow> handleFirmwareBegin E F (qc_from frame) (qc_corr_id frame) payload;
         ret (Some ok) }
     | FirmwareChunk \<Rightarrow> do {
         _ \<leftarrow> blinkForMessage E FirmwareChunk;
         handleFirmwareChunk E F (qc_from frame) (qc_corr_id frame) payload }
     | FirmwareEnd \<Rightarrow> do {
         _ \<leftarrow> blinkForMessage E FirmwareEnd;
         handleFirmwareEnd E F (qc_from frame) (qc_corr_id frame) payload }
     | _ \<Rightarrow> ret (Some False))"

section \<open>Timers\<close>

definition tickOtaBootCompletionNotice :: "menv \<Rightarrow> ota_env option \<Rightarrow> u32 \<Rightarrow> bool option fnm" where
  "tickOtaBootCompletionNotice E F now_ms = do {
     s \<leftarrow> gets id;
     if local_role (m_cfg E) \<noteq> Slave \<or> F = None \<or> \<not> isPaired (g_pairing s) then ret (Some True)
     else if fn_boot_notice_last_try_ms s \<noteq> 0 \<and> now_ms - fn_boot_notice_last_try_ms s < 1000 then ret (Some True)
     else case peekBootCompletionNotice (fn_ota s) of
       None \<Rightarrow> ret (Some True)
     | Some (meta, epoch_s) \<Rightarrow> do {
         _ \<leftarrow> modify (\<lambda>s. s\<lparr>fn_boot_notice_last_try_ms := now_ms\<rparr>);
         publishMandatoryEvent E kOtaBootCompleteEventId 1
           (if sw_version meta = [] then 1 else of_nat (length (sw_version meta)) AND 0x7FFF) epoch_s } }"

definition tickOtaFinalizeStatusRetry :: "menv \<Rightarrow> u32 \<Rightarrow> unit fnm" where
  "tickOtaFinalizeStatusRetry E now_ms = do {
     s \<leftarrow> gets id;
     let z = fn_finalize s;
     if local_role (m_cfg E) \<noteq> Slave \<or> \<not> fz_pending z then ret ()
     else if \<not> isPaired (g_pairing s) then ret ()
     else if sint (now_ms - fz_started_ms z) \<ge> sint kFinalizeStatusRetryWindowMs
       then modify (\<lambda>s. s\<lparr>fn_finalize := forget_finalize (fn_finalize s)\<rparr>)
     else if sint (now_ms - fz_last_tx_ms z) < sint kFinalizeStatusRetryIntervalMs then ret ()
     else do {
       sent \<leftarrow> sendFirmwareStatus E (fz_peer z) (fz_corr_id z) (fz_kind z) (fz_offset z) (fz_status_code z);
       whenM sent (modify (\<lambda>s. s\<lparr>fn_finalize := (fn_finalize s)\<lparr>fz_last_tx_ms := now_ms\<rparr>\<rparr>)) } }"

end
