(* ===== verification/FirmwareSession.thy ===== *)
theory FirmwareSession
  imports Firmware
begin

text \<open>
  What the sink's operations do to the receive session, as far as the acknowledgements depend on
  it: a refused begin, an end and the bookkeeping of the boot notice leave the session as it is or
  close it, and an accepted chunk never takes back what has been received.
\<close>

named_theorems session_rules \<open>programs that keep a predicate of session and configuration\<close>

text \<open>A predicate of the OTA manager that only looks at session and configuration and allows closing.\<close>

locale session_frame =
  fixes P :: "ota \<Rightarrow> bool"
  assumes same: "P s \<Longrightarrow> o_receive t = o_receive s \<Longrightarrow> o_config t = o_config s \<Longrightarrow> P t"
    and closed: "P s \<Longrightarrow> \<not> rs_active (o_receive t) \<Longrightarrow> o_config t = o_config s \<Longrightarrow> P t"
begin

lemma modify_kept [session_rules]:
  "(\<And>s. o_config (f s) = o_config s) \<Longrightarrow>
   (\<And>s. o_receive (f s) = o_receive s \<or> \<not> rs_active (o_receive (f s))) \<Longrightarrow> keeps P (modify f)"
  by (rule keeps_modify) (use same closed in blast)

lemma leaves_kept [session_rules]:
  "keeps P (call c)" "keeps P (store E c)" "keeps P (ask_gate E c)" "keeps P (ota_nowEpochSec E)"
  "keeps P (set_status f)" "keeps P clear_session" "keeps P (fail_ota code msg)" "keeps P (fail_session code msg)"
  "keeps P (refuse_end v)"
  unfolding store_def ask_gate_def ota_nowEpochSec_def set_status_def clear_session_def fail_session_def
    fail_ota_def refuse_end_def call_def Let_def
  by (intro keeps_rules session_rules; simp)+

lemma loops_kept [session_rules]:
  "keeps P (ensure_all E ds)" "keeps P (flush_from E path pool expected written)"
proof -
  show "keeps P (ensure_all E ds)" by (induction ds) (auto intro!: keeps_rules session_rules)
  show "keeps P (flush_from E path pool expected written)"
    by (induction E path pool expected written rule: flush_from.induct)
       (subst flush_from.simps, auto simp: Let_def intro!: keeps_rules session_rules)
qed

lemma expire_kept [session_rules]: "keeps P (expireReceiveIfStale E)"
  unfolding expireReceiveIfStale_def Let_def by (intro keeps_rules session_rules)

lemma end_kept: "keeps P (endReceive E from corr n crc)"
  unfolding endReceive_def flush_image_def publish_image_def make_room_def writeReadyManifest_def Let_def
  by (intro keeps_rules session_rules)

lemma clear_notice_kept: "keeps P (clearBootCompletionNotice E)"
  unfolding clearBootCompletionNotice_def loadStatusRecord_def saveStatusRecord_def
    applyStatusRecordToRuntime_def Let_def
  by (intro keeps_rules session_rules)

lemma gate_kept [session_rules]: "keeps P (gate_check E c)"
  unfolding gate_check_def by (intro keeps_rules session_rules)

lemma folders_kept [session_rules]: "keeps P (ensureFolders E)"
  unfolding ensureFolders_def by (intro keeps_rules session_rules)

lemma pool_kept [session_rules]: "keeps P (ensurePsramPool E)"
  unfolding ensurePsramPool_def releasePsramPool_def alloc_pool_def Let_def
  by (intro keeps_rules session_rules; simp)

lemma drop_kept [session_rules]: "keeps P (abortReceive E from corr)"
  unfolding abortReceive_def drop_session_def by (intro keeps_rules session_rules)

end

text \<open>The session is still \<open>r\<close>, or closed.\<close>

definition session_within :: "ReceiveSession \<Rightarrow> ota \<Rightarrow> bool" where
  "session_within r s \<longleftrightarrow> o_receive s = r \<or> \<not> rs_active (o_receive s)"

interpretation within: session_frame "session_within r"
  by unfold_locales (auto simp: session_within_def)

interpretation config: session_frame "cfg_is c"
  by unfold_locales (auto simp: cfg_is_def)

text \<open>A refused begin.\<close>

definition closes :: "verdict otam \<Rightarrow> bool" where
  "closes m \<longleftrightarrow> (\<forall>s. wp m (\<lambda>v t. \<not> fst v \<longrightarrow> \<not> rs_active (o_receive t)) s)"

lemma closes_bind: "(\<And>a. closes (f a)) \<Longrightarrow> closes (State_Monad.bind m f)"
  by (fastforce simp: closes_def wp_def split: prod.splits)

lemma closes_ends: "closes (ret (True, m))" "closes (fail_session code msg)"
  by (simp_all add: closes_def fail_session_def fail_ota_def clear_session_def set_status_def wp_rules)

lemma open_closes: "closes (open_session E from corr n k crc md)"
  unfolding open_session_def by (intro closes_bind) (auto intro!: closes_bind closes_ends)

text \<open>\<open>refuses r m\<close>: if \<open>m\<close> reports a failure, the session was left alone or closed.\<close>

definition refuses :: "ReceiveSession \<Rightarrow> verdict otam \<Rightarrow> bool" where
  "refuses r m \<longleftrightarrow> (\<forall>s. session_within r s \<longrightarrow> wp m (\<lambda>v t. \<not> fst v \<longrightarrow> session_within r t) s)"

lemma refuses_bind: "keeps (session_within r) m \<Longrightarrow> (\<And>a. refuses r (f a)) \<Longrightarrow> refuses r (State_Monad.bind m f)"
  unfolding refuses_def wp_bind keeps_def by (blast intro: wp_mono)

lemma refuses_keeps: "keeps (session_within r) m \<Longrightarrow> refuses r m"
  unfolding refuses_def by (intro allI impI wp_mono [OF keepsD]) auto

lemma refuses_if: "refuses r m \<Longrightarrow> refuses r n \<Longrightarrow> refuses r (if b then m else n)"
  by simp

lemma refuses_cases:
  "(\<And>a b. refuses r (f a b)) \<Longrightarrow> refuses r (case x of (a, b) \<Rightarrow> f a b)"
  "refuses r m \<Longrightarrow> (\<And>y. refuses r (g y)) \<Longrightarrow> refuses r (case z of None \<Rightarrow> m | Some y \<Rightarrow> g y)"
  by (simp_all split: prod.split option.split)

lemma begin_refused:
  "wp (beginReceive E from corr n k crc md) (\<lambda>v t. \<not> fst v \<longrightarrow> session_within (o_receive s) t) s"
proof -
  have "refuses (o_receive s) (open_session E from corr n k crc md)"
    using open_closes [of E _ corr n k crc md]
    by (auto simp: refuses_def closes_def session_within_def intro: wp_mono)
  then have "refuses (o_receive s) (beginReceive E from corr n k crc md)"
    unfolding beginReceive_def
    by (intro refuses_bind refuses_if refuses_cases refuses_keeps [OF within.leaves_kept(7)] keeps_gets
        within.expire_kept within.gate_kept within.folders_kept within.pool_kept)
  then show ?thesis by (simp add: refuses_def session_within_def)
qed

lemma begin_config: "wp (beginReceive E from corr n k crc md) (\<lambda>_ t. o_config t = o_config s) s"
proof -
  have "keeps (cfg_is c) (beginReceive E from corr n k crc md)" for c
    unfolding beginReceive_def
    by (intro keeps_rules config.leaves_kept config.expire_kept config.gate_kept config.folders_kept
        config.pool_kept cfg_open_session)
  from keepsD [OF this [of "o_config s"], of s] show ?thesis
    by (auto simp: cfg_is_def intro: wp_mono)
qed

text \<open>An accepted begin is within the configured size.\<close>

lemma begin_limit:
  "wp (beginReceive E from corr n k crc md) (\<lambda>v t. fst v \<longrightarrow> n \<le> max_firmware_bytes (o_config s)) s"
proof -
  let ?Q = "\<lambda>_. n \<le> max_firmware_bytes (o_config s)"
  have pool: "wp (ensurePsramPool E) (\<lambda>v t. cfg_is (o_config s) t \<and> (fst v \<longrightarrow> max_firmware_bytes (o_config s) \<noteq> 0)) u"
    if "cfg_is (o_config s) u" for u
    using that by (intro wp_conj [OF keepsD [OF config.pool_kept that]])
      (auto simp: ensurePsramPool_def Let_def wp_rules cfg_is_def intro: wpI)
  have tail: "wp (do { (ok, m) \<leftarrow> ensurePsramPool E; s \<leftarrow> gets id;
          if \<not> ok then fail_ota StorageNotReady (or_text m ''ota psram pool unavailable'')
          else if o_psram_pool s = None \<or> o_psram_pool_size s < n
          then fail_ota StorageNotReady ''ota psram pool too small''
          else open_session E from corr n k crc md }) (\<lambda>v t. fst v \<longrightarrow> ?Q t) u"
    if "cfg_is (o_config s) u" "\<not> (max_firmware_bytes (o_config s) > 0 \<and> n > max_firmware_bytes (o_config s))" for u
    unfolding wp_bind [of "ensurePsramPool E"]
    by (rule wp_mono [OF pool [OF that(1)]])
       (use that(2) in \<open>auto simp: wp_bind wp_gets wp_if word_gt_0 not_less intro: wp_mono [OF fail_never_ok(1)] wpI
          split: prod.splits\<close>)
  have skip: "wp (State_Monad.bind m f) R u"
    if "cfg_is (o_config s) u" "keeps (cfg_is (o_config s)) m" "\<And>a t. cfg_is (o_config s) t \<Longrightarrow> wp (f a) R t"
    for m :: "'b otam" and f :: "'b \<Rightarrow> 'c otam" and R u
    unfolding wp_bind by (rule wp_mono [OF keepsD [OF that(2,1)]]) (rule that(3))
  note fails = wp_mono [OF fail_never_ok(1)]
  show ?thesis
    unfolding beginReceive_def
    by (rule skip, simp add: cfg_is_def, rule config.expire_kept)
       (auto simp: wp_bind [of "gets o_config"] wp_gets wp_if cfg_is_def intro!: fails tail
          skip [OF _ config.gate_kept] skip [OF _ config.folders_kept] split: option.splits prod.splits)
qed

section \<open>What has been received grows\<close>

lemma received_grows:
  assumes "session_ok r" and "chunk_added r i r'"
  shows "rs_received_size r \<le> rs_received_size r'"
proof -
  from assms(1) obtain j where j: "unat (rs_received_size r) = cut_at r j" "prefix_to r j"
    by (auto simp: session_ok_def)
  from assms(2) have same: "rs_chunk_count r' = rs_chunk_count r" "rs_chunk_size r' = rs_chunk_size r"
    "rs_expected_size r' = rs_expected_size r" and got: "\<And>q. q < chunks r \<Longrightarrow> got r q \<Longrightarrow> got r' q"
    by (auto simp: chunk_added_def same_transfer_def)
  from assms(2) obtain j' where j': "unat (rs_received_size r') = cut_at r' j'" "prefix_to r' j'"
    "j' = chunks r' \<or> \<not> got r' j'"
    by (auto simp: chunk_added_def session_ok_def)
  have "j \<le> j'"
  proof (rule ccontr)
    assume "\<not> j \<le> j'"
    then have "j' < j" by simp
    with j(2) have "got r j'" "j' < chunks r" by (auto simp: prefix_to_def)
    with got j'(3) same show False by auto
  qed
  then have "cut_at r j \<le> cut_at r j'"
    unfolding cut_at_def by (intro min.mono mult_le_mono1) simp_all
  moreover have "cut_at r' j' = cut_at r j'" by (simp add: cut_at_def same)
  ultimately show ?thesis
    by (simp add: word_le_nat_alt j(1) j'(1))
qed

lemma received_bound: "session_ok r \<Longrightarrow> rs_received_size r \<le> rs_expected_size r"
  by (auto simp: session_ok_def word_le_nat_alt cut_at_def)

end
