(* ===== verification/FirmwareRx.thy ===== *)
theory FirmwareRx
  imports FirmwareSession
begin

text \<open>
  The firmware side of a node as steps: frames, status frames, timer ticks, published events and
  whatever pairing does to its engine. The invariant of the members, and what each step puts on
  the air.
\<close>

section \<open>Status frames on the air\<close>

definition status_of :: "mac \<times> MessageType \<times> u32 \<times> bytes \<Rightarrow> (mac \<times> FirmwareStatusPayload) option" where
  "status_of = (\<lambda>(to, ty, c, p).
     if ty = FirmwareStatus then map_option (Pair to) (parseFirmwareStatusPayload (Some p)) else None)"

definition statuses :: "mcall list \<Rightarrow> (mac \<times> FirmwareStatusPayload) list" where
  "statuses cs = List.map_filter status_of (on_air cs)"

text \<open>Everything the firmware members depend on that sending leaves alone.\<close>

definition same_members :: "fnode \<Rightarrow> fnode \<Rightarrow> bool" where
  "same_members s t \<longleftrightarrow> fn_ota t = fn_ota s \<and> fn_transfer t = fn_transfer s \<and> fn_finalize t = fn_finalize s
     \<and> fn_events t = fn_events s \<and> g_now_ms t = g_now_ms s \<and> g_pairing t = g_pairing s
     \<and> fn_event_corr_seq t = fn_event_corr_seq s \<and> fn_event_last_tx_ms t = fn_event_last_tx_ms s
     \<and> fn_event_backoff_until_ms t = fn_event_backoff_until_ms s
     \<and> fn_event_fail_streak t = fn_event_fail_streak s
     \<and> fn_boot_notice_last_try_ms t = fn_boot_notice_last_try_ms s \<and> fn_last_image_path t = fn_last_image_path s"

lemma sent_members: "same_but_sent s t \<Longrightarrow> same_members s t"
  by (cases s; cases t; simp add: same_but_sent_def same_members_def)

lemma quiet_members: "quiet_since s xs t \<Longrightarrow> same_members s t"
  by (simp add: quiet_since_def sent_members)

lemma wire_kinds [simp]:
  "wire_carries FirmwareStatus 0x07 0x04 0x02" "wire_carries FirmwareBegin 0x07 0x01 0x01"
  "wire_carries FirmwareChunk 0x07 0x02 0x01" "wire_carries FirmwareEnd 0x07 0x03 0x01"
  "wire_carries EventReport 0x06 0x10 0x04"
  by (simp_all add: wire_carries_def wire_triple_def default_header_def fromWire_defs)

lemma status_heard:
  "status_of (to, FirmwareStatus, c, buildFirmwareStatusPayload f) = Some (to, f)"
  using firmware_status_append [of f "[]"] by (simp add: status_of_def)

lemma statuses_quiet:
  assumes "quiet_since s xs t"
  shows "statuses (g_calls t) = statuses (g_calls s) @ List.map_filter status_of xs"
  using assms by (simp add: quiet_since_def statuses_def List.map_filter_def)

lemma wp_status:
  assumes "\<And>t ok. same_members s t \<Longrightarrow> statuses (g_calls t) = statuses (g_calls s) @
      [(to, \<lparr>fs_kind = kind, fs_transfer_corr_id = c, fs_offset_bytes = off, fs_status_code = code\<rparr>)] \<Longrightarrow>
      (delivers E \<Longrightarrow> ok) \<Longrightarrow> Q ok t"
  shows "wp (sendFirmwareStatus E to c kind off code) Q s"
  unfolding sendFirmwareStatus_def wp_bind wp_ret
proof (rule wp_sendTyped)
  fix t :: fnode and ok err
  let ?f = "\<lparr>fs_kind = kind, fs_transfer_corr_id = c, fs_offset_bytes = off, fs_status_code = code\<rparr>"
  assume t: "quiet_since s [(to, FirmwareStatus, c, buildFirmwareStatusPayload ?f)] t" and ok: "delivers E \<Longrightarrow> ok"
  have "statuses (g_calls t) = statuses (g_calls s) @ [(to, ?f)]"
    using statuses_quiet [OF t] status_heard [of to c ?f] by (simp add: List.map_filter_def)
  with quiet_members [OF t] ok show "Q (fst (ok, err)) t" by (auto intro: assms)
qed (simp_all add: buildFirmwareStatusPayload_def frame_sizes)

text \<open>Programs without a send: hooks and events.\<close>

definition silent :: "fnode \<Rightarrow> fnode \<Rightarrow> bool" where
  "silent s t \<longleftrightarrow> same_members s t \<and> statuses (g_calls t) = statuses (g_calls s)"

lemma quiet_silent: "quiet_since s [] t \<Longrightarrow> silent s t"
  using statuses_quiet [of s "[]" t] by (simp add: silent_def quiet_members List.map_filter_def)

lemma wp_silent: "keeps (quiet_since s []) m \<Longrightarrow> (\<And>a t. silent s t \<Longrightarrow> Q a t) \<Longrightarrow> wp m Q s"
  by (rule wp_quiet [of s "[]"]) (auto intro: quiet_silent)

lemmas wp_blink = wp_silent [OF keeps_quiet_blink]
lemmas wp_event = wp_silent [OF keeps_quiet_event]

lemma wp_epoch: "(\<And>e t. silent s t \<Longrightarrow> Q e t) \<Longrightarrow> wp (if b then m_nowEpochSec E else ret None) Q s"
  by (rule wp_silent) (auto simp: keeps_def call_rules quiet_call)

lemma wp_in_ota: "wp (in_ota m) Q s \<longleftrightarrow> wp m (\<lambda>a t. Q a (s\<lparr>fn_ota := t\<rparr>)) (fn_ota s)"
  by (simp add: wp_def in_ota_def split: prod.split)

section \<open>The OTA manager behind the sink\<close>

definition begin_effect :: "mac \<Rightarrow> u32 \<Rightarrow> u32 \<Rightarrow> u32 \<Rightarrow> ota \<Rightarrow> bool \<Rightarrow> ota \<Rightarrow> bool" where
  "begin_effect from corr n k s ok t \<longleftrightarrow> ota_ok t \<and> o_config t = o_config s
     \<and> (if ok then rs_active (o_receive t) \<and> rs_from (o_receive t) = from \<and> rs_corr_id (o_receive t) = corr
          \<and> rs_expected_size (o_receive t) = n \<and> rs_received_size (o_receive t) = 0
          \<and> n \<le> max_firmware_bytes (o_config s)
        else session_within (o_receive s) t)"

lemma wp_begin:
  assumes "ota_ok s"
  shows "wp (beginReceive E from corr n k crc md) (\<lambda>v. begin_effect from corr n k s (fst v)) s"
  by (rule wp_mono [OF wp_conj [OF keepsD [OF keeps_beginReceive assms]
        wp_conj [OF begin_config wp_conj [OF begin_limit wp_conj [OF begin_post begin_refused]]]]])
     (auto simp: begin_effect_def opened_def)

definition write_effect :: "mac \<Rightarrow> u32 \<Rightarrow> ota \<Rightarrow> bool \<Rightarrow> ota \<Rightarrow> bool" where
  "write_effect from corr s ok t \<longleftrightarrow> ota_ok t \<and> o_config t = o_config s
     \<and> (if ok then rs_active (o_receive t) \<and> rs_from (o_receive t) = from \<and> rs_corr_id (o_receive t) = corr
          \<and> rs_active (o_receive s) \<and> rs_corr_id (o_receive s) = corr
          \<and> rs_expected_size (o_receive t) = rs_expected_size (o_receive s)
          \<and> rs_received_size (o_receive s) \<le> rs_received_size (o_receive t)
        else session_within (o_receive s) t)"

lemma wp_ota_write:
  assumes "ota_ok s"
  shows "wp (writeReceiveChunk E from corr off data) (\<lambda>v t. \<exists>ok msg. v = Some (ok, msg) \<and> write_effect from corr s ok t) s"
proof (rule wp_mono [OF wp_conj [OF write_chunk_post [OF assms] keepsD [OF keeps_writeReceiveChunk assms]]])
  fix v and t :: ota
  assume a: "write_post from corr off data s v t \<and> ota_ok t"
  show "\<exists>ok msg. v = Some (ok, msg) \<and> write_effect from corr s ok t"
  proof (cases "\<exists>msg. v = Some (False, msg)")
    case True
    with a show ?thesis
      by (auto simp: write_post_def chunk_rejected_def write_effect_def session_within_def)
  next
    case False
    with a obtain msg bs i where v: "v = Some (True, msg)" and c: "chunk_accepted from corr off bs i s t"
      and cfg: "o_config t = o_config s"
      by (auto simp: write_post_def)
    from c assms have "session_ok (o_receive s)" "chunk_added (o_receive s) i (o_receive t)"
      by (auto simp: chunk_accepted_def Let_def ota_ok_def)
    from received_grows [OF this] c a cfg v show ?thesis
      by (auto simp: write_effect_def chunk_accepted_def chunk_added_def same_transfer_def Let_def)
  qed
qed

lemma wp_end:
  assumes "ota_ok s"
  shows "wp (endReceive E from corr n crc) (\<lambda>_ t. ota_ok t \<and> o_config t = o_config s \<and> session_within (o_receive s) t) s"
proof -
  have "session_within (o_receive s) s" "cfg_is (o_config s) s" by (simp_all add: session_within_def cfg_is_def)
  from wp_conj [OF keepsD [OF keeps_end assms] wp_conj [OF keepsD [OF config.end_kept this(2)]
      keepsD [OF within.end_kept this(1)]]]
  show ?thesis by (simp add: cfg_is_def)
qed

lemma wp_clear_notice:
  assumes "ota_ok s"
  shows "wp (clearBootCompletionNotice E) (\<lambda>_ t. ota_ok t \<and> o_config t = o_config s \<and> session_within (o_receive s) t) s"
proof -
  have "session_within (o_receive s) s" "cfg_is (o_config s) s" by (simp_all add: session_within_def cfg_is_def)
  from wp_conj [OF keepsD [OF keeps_confirm(2) assms] wp_conj [OF keepsD [OF config.clear_notice_kept this(2)]
      keepsD [OF within.clear_notice_kept this(1)]]]
  show ?thesis by (simp add: cfg_is_def)
qed

section \<open>The next acknowledgement\<close>

text \<open>The loop ends: below 2 GiB the next acknowledgement cannot wrap around.\<close>

lemma raise_step:
  fixes n step expected :: u32
  assumes "step \<noteq> 0" "n \<le> expected" "step \<le> n" and "expected < 0x80000000"
  shows "step \<le> n + step" "unat expected + 1 - unat (n + step) < unat expected + 1 - unat n"
proof -
  have le: "unat n \<le> unat expected" "unat step \<le> unat n" "unat expected < 2147483648" "0 < unat step"
    using assms by (simp_all add: word_le_nat_alt word_less_nat_alt unat_gt_0)
  then have "unat (n + step) = unat n + unat step"
    by (simp add: unat_word_ariths)
  with le show "step \<le> n + step" "unat expected + 1 - unat (n + step) < unat expected + 1 - unat n"
    by (simp_all add: word_le_nat_alt)
qed

lemma raise_returns:
  assumes "step = 0 \<or> step \<le> n0" and "expected < 0x80000000"
  obtains n where "raise_next_ack step expected n0 = Some n" "step = 0 \<or> step \<le> n"
proof -
  let ?P = "\<lambda>n. step = 0 \<or> step \<le> n"
  have "\<exists>n. raise_next_ack step expected n0 = Some n"
    unfolding raise_next_ack_def
  proof (rule measure_while_option_Some [where P = ?P and f = "\<lambda>n. unat expected + 1 - unat n"])
    fix n assume n: "?P n" "step \<noteq> 0 \<and> n \<le> expected"
    then have "step \<noteq> 0" "n \<le> expected" "step \<le> n" by blast+
    from raise_step [OF this assms(2)]
    show "?P (n + step) \<and> unat expected + 1 - unat (n + step) < unat expected + 1 - unat n" by blast
  qed (rule assms(1))
  then obtain n where n: "raise_next_ack step expected n0 = Some n" by blast
  moreover have "?P n"
    using n assms(1) unfolding raise_next_ack_def
    by (rule while_option_rule [where P = ?P, rotated]) (use raise_step assms(2) in blast)
  ultimately show ?thesis by (rule that)
qed

end
