(* ===== verification/FirmwareSteps.thy ===== *)
theory FirmwareSteps
  imports FirmwareRx
begin

text \<open>
  The invariant of the members of a firmware transfer and what the handlers and timers do under
  it: they return, keep it, and every chunk acknowledgement they put on the air carries exactly
  what the open session has received without a gap.
\<close>

section \<open>The invariant\<close>

definition session_fits :: "ReceiveSession \<Rightarrow> ota_transfer \<Rightarrow> bool" where
  "session_fits r t \<longleftrightarrow>
     (rs_active r \<longrightarrow> rs_expected_size r < 0x80000000
        \<and> (rs_corr_id r = tr_corr_id t \<longrightarrow> tr_last_received_offset t \<le> rs_received_size r))
     \<and> tr_last_received_offset t < 0x80000000
     \<and> (tr_ack_step_bytes t = 0 \<or> tr_ack_step_bytes t \<le> tr_next_ack_offset t)"

definition transfer_ok :: "menv \<Rightarrow> fnode \<Rightarrow> bool" where
  "transfer_ok E s \<longleftrightarrow> ota_ok (fn_ota s) \<and> max_firmware_bytes (o_config (fn_ota s)) < 0x80000000
     \<and> session_fits (o_receive (fn_ota s)) (fn_transfer s)
     \<and> (local_role (m_cfg E) \<noteq> Slave \<longrightarrow> fn_transfer s = no_transfer)
     \<and> (fz_pending (fn_finalize s) \<longrightarrow> fz_kind (fn_finalize s) \<in> {kFirmwareStatusKindFinalizeOk, kFirmwareStatusKindFinalizeFail})"

text \<open>What an acknowledgement says about the session of its sender.\<close>

definition acked :: "ota \<Rightarrow> mac \<times> FirmwareStatusPayload \<Rightarrow> bool" where
  "acked m = (\<lambda>(to, f). fs_kind f = kFirmwareStatusKindChunkAck \<longrightarrow>
     (let r = o_receive m in rs_active r \<and> rs_from r = to \<and> rs_corr_id r = fs_transfer_corr_id f
        \<and> rs_received_size r = fs_offset_bytes f))"

definition well_behaved :: "menv \<Rightarrow> fnode \<Rightarrow> fnode \<Rightarrow> bool" where
  "well_behaved E s t \<longleftrightarrow> transfer_ok E t
     \<and> (\<exists>new. statuses (g_calls t) = statuses (g_calls s) @ new \<and> list_all (acked (fn_ota t)) new)"

lemma same_members_ok: "same_members s t \<Longrightarrow> transfer_ok E t = transfer_ok E s"
  by (simp add: same_members_def transfer_ok_def)

lemma silent_ok: "silent s t \<Longrightarrow> transfer_ok E s \<Longrightarrow> well_behaved E s t"
  using same_members_ok [of s t E] by (simp add: silent_def well_behaved_def)

lemma silent_then: "silent s t \<Longrightarrow> well_behaved E t u \<Longrightarrow> well_behaved E s u"
  by (simp add: silent_def well_behaved_def)

lemma no_status_ok: "transfer_ok E t \<Longrightarrow> statuses (g_calls t) = statuses (g_calls s) \<Longrightarrow> well_behaved E s t"
  by (simp add: well_behaved_def)

lemma one_status_ok:
  "transfer_ok E t \<Longrightarrow> statuses (g_calls t) = statuses (g_calls s) @ [x] \<Longrightarrow> acked (fn_ota t) x \<Longrightarrow> well_behaved E s t"
  by (simp add: well_behaved_def)

lemmas status_kinds = kFirmwareStatusKindChunkAck_def kFirmwareStatusKindChunkNack_def
  kFirmwareStatusKindFinalizeOk_def kFirmwareStatusKindFinalizeFail_def kFirmwareStatusKindFinalizeAck_def

lemma session_fits_within:
  "session_within r m \<Longrightarrow> session_fits r t \<Longrightarrow> session_fits (o_receive m) t"
  by (auto simp: session_within_def session_fits_def)

lemma session_fits_forgets:
  "session_fits r t \<Longrightarrow> session_fits r no_transfer"
  "session_fits r t \<Longrightarrow> session_fits r (t\<lparr>tr_expected_size := a, tr_last_acked_offset := b\<rparr>)"
  "session_fits r t \<Longrightarrow> session_fits r (t\<lparr>tr_last_nack_offset := a, tr_last_nack_ms := b\<rparr>)"
  "session_fits r t \<Longrightarrow> session_fits r (t\<lparr>tr_last_acked_offset := b\<rparr>)"
  by (auto simp: session_fits_def no_transfer_def)

text \<open>Sending a status frame.\<close>

lemma wp_answer:
  assumes "transfer_ok E u" "statuses (g_calls u) = statuses (g_calls s)"
    and "acked (fn_ota u) (to, \<lparr>fs_kind = kind, fs_transfer_corr_id = c, fs_offset_bytes = off, fs_status_code = code\<rparr>)"
    and "\<And>t ok. same_members u t \<Longrightarrow> well_behaved E s t \<Longrightarrow> Q ok t"
  shows "wp (sendFirmwareStatus E to c kind off code) Q u"
proof (rule wp_status)
  fix t ok
  let ?f = "\<lparr>fs_kind = kind, fs_transfer_corr_id = c, fs_offset_bytes = off, fs_status_code = code\<rparr>"
  assume t: "same_members u t" "statuses (g_calls t) = statuses (g_calls u) @ [(to, ?f)]"
  have "fn_ota t = fn_ota u" using t(1) by (simp add: same_members_def)
  with t assms(1-3) same_members_ok [OF t(1), of E] have "well_behaved E s t"
    by (intro one_status_ok [of E t s "(to, ?f)"]) simp_all
  then show "Q ok t" using t(1) by (rule assms(4) [rotated])
qed

section \<open>Publishing an event\<close>

lemma wp_publish:
  assumes "mandatory_event_max_queue (m_cfg E) \<noteq> 0"
    and "\<And>t b. transfer_ok E s = transfer_ok E t \<Longrightarrow> statuses (g_calls t) = statuses (g_calls s) \<Longrightarrow>
          fn_ota t = fn_ota s \<Longrightarrow> fn_transfer t = fn_transfer s \<Longrightarrow> fn_finalize t = fn_finalize s \<Longrightarrow>
          fn_last_image_path t = fn_last_image_path s \<Longrightarrow> Q (Some b) t"
  shows "wp (publishMandatoryEvent E i sev v ts) Q s"
proof -
  have "q \<noteq> []" if "unat (mandatory_event_max_queue (m_cfg E)) \<le> length q" for q :: "PendingMandatoryEvent list"
    using that assms(1) by (auto simp: unat_eq_0)
  then show ?thesis
    unfolding publishMandatoryEvent_def Let_def
    by (auto simp: wp_rules transfer_ok_def silent_def same_members_def intro!: assms(2) wp_event split: list.split)
qed

section \<open>A begin frame\<close>

lemma begin_fits:
  assumes "begin_effect from corr n k s ok m" "session_fits (o_receive s) t" "max_firmware_bytes (o_config s) < 0x80000000"
  shows "\<not> ok \<Longrightarrow> session_fits (o_receive m) t" "session_fits (o_receive m) no_transfer"
    "ok \<Longrightarrow> session_fits (o_receive m) (begun_transfer c n' k')"
  using assms
  by (auto simp: begin_effect_def session_fits_def session_within_def no_transfer_def begun_transfer_def Let_def
      split: if_splits)

lemma begin_keeps:
  assumes s: "transfer_ok E s" and m: "begin_effect from corr n k (fn_ota s) ok m"
    and u: "fn_ota u = m" "fn_transfer u = fn_transfer s" "fn_finalize u = fn_finalize s"
  shows "local_role (m_cfg E) \<noteq> Slave \<Longrightarrow> transfer_ok E u"
    "local_role (m_cfg E) = Slave \<Longrightarrow> ok \<Longrightarrow>
       transfer_ok E (u\<lparr>fn_finalize := forget_finalize (fn_finalize s), fn_transfer := begun_transfer corr n k\<rparr>)"
    "local_role (m_cfg E) = Slave \<Longrightarrow> \<not> ok \<Longrightarrow>
       transfer_ok E (u\<lparr>fn_finalize := forget_finalize (fn_finalize s),
            fn_transfer := (fn_transfer s)\<lparr>tr_expected_size := 0, tr_last_acked_offset := 0\<rparr>\<rparr>)"
proof -
  have base: "ota_ok m" "max_firmware_bytes (o_config m) < 0x80000000"
    "fz_pending (fn_finalize s) \<longrightarrow> fz_kind (fn_finalize s) \<in> {kFirmwareStatusKindFinalizeOk, kFirmwareStatusKindFinalizeFail}"
    "local_role (m_cfg E) \<noteq> Slave \<longrightarrow> fn_transfer s = no_transfer"
    using s m by (auto simp: transfer_ok_def begin_effect_def)
  have "session_fits (o_receive (fn_ota s)) (fn_transfer s)" "max_firmware_bytes (o_config (fn_ota s)) < 0x80000000"
    using s by (simp_all add: transfer_ok_def)
  note fits = begin_fits [OF m this]
  show "local_role (m_cfg E) \<noteq> Slave \<Longrightarrow> transfer_ok E u"
    using base fits(2) u by (simp add: transfer_ok_def)
  show "transfer_ok E (u\<lparr>fn_finalize := forget_finalize (fn_finalize s), fn_transfer := begun_transfer corr n k\<rparr>)"
    if "local_role (m_cfg E) = Slave" "ok"
    using base fits(3) u that by (simp add: transfer_ok_def forget_finalize_def)
  show "transfer_ok E (u\<lparr>fn_finalize := forget_finalize (fn_finalize s),
      fn_transfer := (fn_transfer s)\<lparr>tr_expected_size := 0, tr_last_acked_offset := 0\<rparr>\<rparr>)"
    if "local_role (m_cfg E) = Slave" "\<not> ok"
    using base session_fits_forgets(2) [OF fits(1)] u that by (simp add: transfer_ok_def forget_finalize_def)
qed

lemma begin_acked:
  "begin_effect from corr n k s True m \<Longrightarrow>
     acked m (from, \<lparr>fs_kind = kind, fs_transfer_corr_id = corr, fs_offset_bytes = 0, fs_status_code = c\<rparr>)"
  "acked m (from, \<lparr>fs_kind = kFirmwareStatusKindChunkNack, fs_transfer_corr_id = corr, fs_offset_bytes = off, fs_status_code = c\<rparr>)"
  by (simp_all add: acked_def begin_effect_def Let_def status_kinds)

lemma begin_returns:
  assumes "transfer_ok E s"
  shows "wp (handleFirmwareBegin E F from corr payload) (\<lambda>_. well_behaved E s) s"
proof (cases "\<exists>D p x. F = Some D \<and> payload = Some p \<and> parse_firmware_begin p = Some x")
  case False
  then show ?thesis
    using assms by (auto simp: handleFirmwareBegin_def wp_rules no_status_ok split: option.split)
next
  case True
  then obtain D p n k crc md where F: "F = Some D" "payload = Some p" "parse_firmware_begin p = Some (n, k, crc, md)"
    by (metis prod_cases4)
  have ok: "ota_ok (fn_ota s)" using assms by (simp add: transfer_ok_def)
  show ?thesis
    unfolding handleFirmwareBegin_def sink_begin_def F prod.case option.case wp_bind wp_modify wp_in_ota
    by (rule wp_mono [OF wp_begin])
       (auto simp: ok wp_rules intro!: wp_answer [where s = s] begin_acked
         begin_keeps(2,3) [OF assms] no_status_ok [OF begin_keeps(1) [OF assms]] split: prod.split)
qed

section \<open>A chunk\<close>

lemma write_fits:
  assumes "write_effect from corr s ok m" "session_fits (o_receive s) t"
  shows "session_fits (o_receive m) t"
    "tr_corr_id t = corr \<Longrightarrow> e = max (contiguousReceiveSize m) (tr_last_received_offset t) \<Longrightarrow>
       session_fits (o_receive m) (t\<lparr>tr_last_received_offset := e\<rparr>) \<and> e < 0x80000000"
    "ok \<Longrightarrow> tr_corr_id t = corr \<Longrightarrow> max (contiguousReceiveSize m) (tr_last_received_offset t) = rs_received_size (o_receive m)"
proof -
  have bound: "rs_received_size (o_receive m) \<le> rs_expected_size (o_receive m)" if "rs_active (o_receive m)"
    using assms(1) that by (auto simp: write_effect_def ota_ok_def intro: received_bound)
  show "session_fits (o_receive m) t"
    using assms by (auto simp: write_effect_def session_fits_def session_within_def split: if_splits)
  show "max (contiguousReceiveSize m) (tr_last_received_offset t) = rs_received_size (o_receive m)"
    if "ok" "tr_corr_id t = corr"
    using assms that
    by (auto simp: write_effect_def session_fits_def contiguousReceiveSize_def max_def)
  show "session_fits (o_receive m) (t\<lparr>tr_last_received_offset := e\<rparr>) \<and> e < 0x80000000"
    if "tr_corr_id t = corr" and e: "e = max (contiguousReceiveSize m) (tr_last_received_offset t)"
  proof (cases "rs_active (o_receive m)")
    case True
    then have lt: "rs_received_size (o_receive m) < 0x80000000"
      using assms bound \<open>session_fits (o_receive m) t\<close> by (auto simp: session_fits_def)
    with True \<open>session_fits (o_receive m) t\<close> show ?thesis
      by (auto simp: e session_fits_def contiguousReceiveSize_def max_def)
  qed (use \<open>session_fits (o_receive m) t\<close> in \<open>auto simp: e session_fits_def contiguousReceiveSize_def\<close>)
qed

lemma chunk_acked_returns:
  assumes s: "transfer_ok E (s\<lparr>fn_transfer := (fn_transfer s)\<lparr>tr_last_received_offset := e\<rparr>\<rparr>)"
    and lt: "e < 0x80000000" and slave: "local_role (m_cfg E) = Slave"
    and st: "statuses (g_calls s) = statuses (g_calls s0)"
    and a: "acked (fn_ota s) (from, \<lparr>fs_kind = kFirmwareStatusKindChunkAck, fs_transfer_corr_id = corr,
      fs_offset_bytes = e, fs_status_code = 0\<rparr>)"
  shows "wp (chunk_acked E from corr e) (\<lambda>v t. v \<noteq> None \<and> well_behaved E s0 t) s"
proof -
  let ?t = "(fn_transfer s)\<lparr>tr_last_received_offset := e\<rparr>" and ?s = "s\<lparr>fn_transfer := (fn_transfer s)\<lparr>tr_last_received_offset := e\<rparr>\<rparr>"
  have "session_fits (o_receive (fn_ota s)) ?t" using s by (simp add: transfer_ok_def)
  then have step: "tr_ack_step_bytes ?t = 0 \<or> tr_ack_step_bytes ?t \<le> tr_next_ack_offset ?t"
    by (simp add: session_fits_def)
  obtain n where n: "raise_next_ack (tr_ack_step_bytes ?t) e (tr_next_ack_offset ?t) = Some n"
    "tr_ack_step_bytes ?t = 0 \<or> tr_ack_step_bytes ?t \<le> n"
    by (rule raise_returns [OF step lt])
  have fin: "well_behaved E s0 (u\<lparr>fn_transfer := (fn_transfer u)\<lparr>tr_last_acked_offset := e, tr_next_ack_offset := n\<rparr>\<rparr>)"
    if "same_members ?s u" "well_behaved E s0 u" for u
    using that n(2) slave by (auto simp: well_behaved_def same_members_def transfer_ok_def session_fits_def)
  show ?thesis
    unfolding chunk_acked_def wp_bind [of "modify f" for f] wp_bind [of "gets f" for f] wp_gets wp_modify
      wp_if wp_ret wp_bind [of "sendFirmwareStatus E a b c d e'" for a b c d e']
    using s st a n(1) fin no_status_ok [OF s, of s0]
    by (auto simp: wp_rules intro!: wp_answer [where s = s0])
qed

lemma chunk_returns:
  assumes "transfer_ok E s"
  shows "wp (handleFirmwareChunk E F from corr payload) (\<lambda>v t. v \<noteq> None \<and> well_behaved E s t) s"
proof (cases "\<exists>D p. F = Some D \<and> payload = Some p \<and> \<not> length p < 4")
  case False
  then show ?thesis
    using assms by (auto simp: handleFirmwareChunk_def wp_rules no_status_ok split: option.split)
next
  case True
  then obtain D p where F: "F = Some D" "payload = Some p" "\<not> length p < 4" by blast
  have ok: "ota_ok (fn_ota s)" using assms by (simp add: transfer_ok_def)
  let ?t = "fn_transfer s"
  have main: "wp (do {
      sink_contiguous \<leftarrow> gets (\<lambda>s. contiguousReceiveSize (fn_ota s));
      let expected_offset = (if sink_contiguous \<ge> tr_last_received_offset ?t then sink_contiguous
                                         else tr_last_received_offset ?t);
      if b then chunk_acked E from corr expected_offset
      else do { _ \<leftarrow> chunk_nacked E from corr expected_offset; ret (Some False) } })
      (\<lambda>v t. v \<noteq> None \<and> well_behaved E s t) u"
    if w: "write_effect from corr (fn_ota s) b m" and u: "u = s\<lparr>fn_ota := m, fn_last_message := msg\<rparr>"
      and slave: "local_role (m_cfg E) = Slave" "tr_corr_id ?t = corr" for b m msg u
  proof -
    let ?e = "max (contiguousReceiveSize m) (tr_last_received_offset ?t)"
    have e: "(if tr_last_received_offset ?t \<le> contiguousReceiveSize (fn_ota u) then contiguousReceiveSize (fn_ota u)
         else tr_last_received_offset ?t) = ?e"
      using linear [of "tr_last_received_offset ?t" "contiguousReceiveSize m"] by (auto simp: u max_def)
    have fits: "session_fits (o_receive (fn_ota s)) ?t" using assms by (simp add: transfer_ok_def)
    note f = write_fits [OF w fits]
    have ok: "transfer_ok E (u\<lparr>fn_transfer := ?t\<lparr>tr_last_received_offset := ?e\<rparr>\<rparr>)" (is "transfer_ok E ?u")
      using assms w f(2) [OF slave(2) refl] slave by (simp add: u transfer_ok_def write_effect_def)
    have ack: "wp (chunk_acked E from corr ?e) (\<lambda>v t. v \<noteq> None \<and> well_behaved E s t) u" if b
      using ok f(2,3) w slave that
      by (intro chunk_acked_returns) (auto simp: u acked_def Let_def write_effect_def)
    have nack: "wp (chunk_nacked E from corr ?e) (\<lambda>_. well_behaved E s) u"
    proof -
      have "well_behaved E s (t\<lparr>fn_transfer := (fn_transfer t)\<lparr>tr_last_nack_offset := a, tr_last_nack_ms := c\<rparr>\<rparr>)"
        if "well_behaved E s t" for t a c
        using that slave session_fits_forgets(3) by (auto simp: well_behaved_def transfer_ok_def)
      then show ?thesis
        unfolding chunk_nacked_def Let_def
        using ok by (auto simp: wp_rules u begin_acked(2) intro!: no_status_ok wp_answer [where s = s])
    qed
    have "wp (do { _ \<leftarrow> chunk_nacked E from corr ?e; ret (Some False) }) (\<lambda>v t. v \<noteq> None \<and> well_behaved E s t) u"
      unfolding wp_bind wp_ret by (rule wp_mono [OF nack]) simp
    with ack show ?thesis
      by (simp add: wp_bind [of "gets f" for f] wp_gets Let_def e)
  qed
  have quiet: "well_behaved E s (s\<lparr>fn_ota := m, fn_last_message := msg\<rparr>)"
    if "write_effect from corr (fn_ota s) b m" for b m msg
    using assms write_fits(1) [OF that] that by (intro no_status_ok) (auto simp: transfer_ok_def write_effect_def)
  show ?thesis
    unfolding handleFirmwareChunk_def sink_writeChunk_def F prod.case option.case if_not_P [OF F(3)] wp_bind [of "gets f" for f]
      wp_gets wp_bind [of "in_ota m" for m] wp_bind [of "State_Monad.bind m f" for m f] wp_in_ota
  proof (rule wp_mono [OF wp_ota_write [OF ok]])
    fix v :: "verdict option" and m :: ota
    assume "\<exists>b msg. v = Some (b, msg) \<and> write_effect from corr (fn_ota s) b m"
    then obtain b msg where v: "v = Some (b, msg)" and w: "write_effect from corr (fn_ota s) b m" by blast
    show "wp (case v of None \<Rightarrow> ret None
         | Some (ok, msg) \<Rightarrow> do { _ \<leftarrow> modify (\<lambda>s. s\<lparr>fn_last_message := msg\<rparr>); ret (Some ok) })
        (\<lambda>a. wp (case a of None \<Rightarrow> ret None
         | Some ok \<Rightarrow>
             if \<not> (local_role (m_cfg E) = Slave \<and> tr_corr_id ?t = corr) then ret (Some ok)
             else do {
               sink_contiguous \<leftarrow> gets (\<lambda>s. contiguousReceiveSize (fn_ota s));
               let expected_offset = (if sink_contiguous \<ge> tr_last_received_offset ?t then sink_contiguous
                                         else tr_last_received_offset ?t);
               if ok then chunk_acked E from corr expected_offset
               else do { _ \<leftarrow> chunk_nacked E from corr expected_offset; ret (Some False) } })
          (\<lambda>v t. v \<noteq> None \<and> well_behaved E s t)) (s\<lparr>fn_ota := m\<rparr>)"
    proof (cases "local_role (m_cfg E) = Slave \<and> tr_corr_id ?t = corr")
      case True
      then show ?thesis
        using main [OF w refl] by (simp add: v wp_bind [of "modify f" for f] wp_modify wp_ret del: not_None_eq)
    next
      case False
      then show ?thesis
        using quiet [OF w] by (simp add: v wp_bind [of "modify f" for f] wp_modify wp_ret)
    qed
  qed
qed

section \<open>The end frame and the master's answer\<close>

lemma published_ok:
  "transfer_ok E s \<Longrightarrow> mandatory_event_max_queue (m_cfg E) \<noteq> 0 \<Longrightarrow>
   wp (publishMandatoryEvent E i sev v ts) (\<lambda>v. \<lambda>t. v \<noteq> None \<and> well_behaved E s t) s"
  by (rule wp_publish) (auto intro: no_status_ok)

lemma quiet_step:
  "well_behaved E s t \<Longrightarrow> transfer_ok E u \<Longrightarrow> fn_ota u = fn_ota t \<Longrightarrow> g_calls u = g_calls t \<Longrightarrow> well_behaved E s u"
  by (auto simp: well_behaved_def)

lemma end_returns:
  assumes "transfer_ok E s" and q: "mandatory_event_max_queue (m_cfg E) \<noteq> 0"
  shows "wp (handleFirmwareEnd E F from corr payload) (\<lambda>v t. v \<noteq> None \<and> well_behaved E s t) s"
proof (cases "\<exists>D p. F = Some D \<and> payload = Some p \<and> length p = 8")
  case False
  then show ?thesis
    using assms by (auto simp: handleFirmwareEnd_def wp_rules no_status_ok split: option.split)
next
  case True
  then obtain D p where F: "F = Some D" "payload = Some p" "length p = 8" by blast
  have ok: "ota_ok (fn_ota s)" using assms by (simp add: transfer_ok_def)
  have ended: "transfer_ok E (s\<lparr>fn_ota := m, fn_last_message := msg, fn_last_image_path := path\<rparr>)"
    if "ota_ok m \<and> o_config m = o_config (fn_ota s) \<and> session_within (o_receive (fn_ota s)) m" for m msg path
    using assms(1) that session_fits_within by (auto simp: transfer_ok_def)
  have kept: "transfer_ok E (u\<lparr>fn_finalize := z\<rparr>)"
    if "transfer_ok E u" "fz_kind z \<in> {kFirmwareStatusKindFinalizeOk, kFirmwareStatusKindFinalizeFail}" for u z
    using that by (simp add: transfer_ok_def)
  have reset: "well_behaved E s (u\<lparr>fn_transfer := no_transfer\<rparr>)"
    if "well_behaved E s u" for u
    using that session_fits_forgets(1) by (auto simp: well_behaved_def transfer_ok_def)
  have stamp: "well_behaved E s (u\<lparr>fn_finalize := (fn_finalize u)\<lparr>fz_last_tx_ms := n\<rparr>\<rparr>)" if "well_behaved E s u" for u n
    using that by (auto simp: well_behaved_def transfer_ok_def)
  have ready: "wp (transfer_ready E c) (\<lambda>v t. v \<noteq> None \<and> well_behaved E s t) u" if "well_behaved E s u" for u c
  proof -
    have "wp (publishMandatoryEvent E i sev n ts) (\<lambda>v t. v \<noteq> None \<and> well_behaved E s t) t" if "silent u t" for t i sev n ts
    proof -
      have t: "well_behaved E s t"
        using \<open>well_behaved E s u\<close> that same_members_ok [of u t E]
        by (auto simp: silent_def well_behaved_def same_members_def)
      then show ?thesis
        by (intro wp_publish [OF q]) (auto simp: well_behaved_def)
    qed
    then show ?thesis
      unfolding transfer_ready_def wp_bind [of "if b then m else n" for b m n] by (intro wp_epoch)
  qed
  have published: "wp (if ok then transfer_ready E c else ret (Some True)) (\<lambda>v t. v \<noteq> None \<and> well_behaved E s t) u"
    if "well_behaved E s u" for u c ok
    using ready [OF that, of c] that by (cases ok) (auto simp: wp_ret)
  have final: "wp (do { published \<leftarrow> (if ok then transfer_ready E corr else ret (Some True));
              case published of
                None \<Rightarrow> ret None
              | Some _ \<Rightarrow> do {
                  _ \<leftarrow> modify (\<lambda>s. if tr_corr_id (fn_transfer s) = corr then s\<lparr>fn_transfer := no_transfer\<rparr> else s);
                  ret (Some ok) } }) (\<lambda>v t. v \<noteq> None \<and> well_behaved E s t) u" if "well_behaved E s u" for u ok
    unfolding wp_bind [of "if ok then m else n" for ok m n]
    by (rule wp_mono [OF published [OF that]]) (auto simp: wp_rules intro!: reset)
  have rest: "wp (do { _ \<leftarrow> whenM sent (modify (\<lambda>s. s\<lparr>fn_finalize := (fn_finalize s)\<lparr>fz_last_tx_ms := g_now_ms s\<rparr>\<rparr>));
              published \<leftarrow> (if ok then transfer_ready E corr else ret (Some True));
              case published of
                None \<Rightarrow> ret None
              | Some _ \<Rightarrow> do {
                  _ \<leftarrow> modify (\<lambda>s. if tr_corr_id (fn_transfer s) = corr then s\<lparr>fn_transfer := no_transfer\<rparr> else s);
                  ret (Some ok) } }) (\<lambda>v t. v \<noteq> None \<and> well_behaved E s t) u" if "well_behaved E s u" for u ok sent
    unfolding wp_bind [of "whenM b m" for b m] wp_when wp_modify
    using that by (cases sent; simp only: if_True if_False; intro final stamp)
  have concluded: "wp (conclude_transfer E from corr n b) (\<lambda>v t. v \<noteq> None \<and> well_behaved E s t) u"
    if "transfer_ok E u" "g_calls u = g_calls s" for u n b
    unfolding conclude_transfer_def Let_def wp_bind [of "gets f" for f] wp_gets id_apply wp_bind [of "modify f" for f] wp_modify
      wp_bind [of "sendFirmwareStatus E a b c d e" for a b c d e]
    by (rule wp_answer [where s = s, OF kept [OF that(1)] _ _ rest])
       (use that(2) in \<open>simp_all add: acked_def status_kinds\<close>)
  have quiet: "well_behaved E s u" if "transfer_ok E u" "g_calls u = g_calls s" for u
    using that by (simp add: no_status_ok)
  show ?thesis
    unfolding handleFirmwareEnd_def sink_end_def F prod.case option.case Let_def
      wp_bind [of "State_Monad.bind m f" for m f] wp_bind [of "in_ota m" for m] wp_in_ota wp_if
    by (auto simp: F(3) wp_if wp_bind [of "modify f" for f] wp_modify wp_ret simp del: not_None_eq
        intro!: wp_mono [OF wp_end [OF ok]] concluded quiet ended)
qed

lemma status_returns:
  assumes "transfer_ok E s"
  shows "wp (handleFirmwareStatus E from corr payload) (\<lambda>_. well_behaved E s) s"
proof -
  have "well_behaved E s (s\<lparr>fn_finalize := forget_finalize (fn_finalize s)\<rparr>)"
    using assms by (intro no_status_ok) (simp_all add: transfer_ok_def forget_finalize_def)
  then show ?thesis
    using assms
    by (auto simp: handleFirmwareStatus_def wp_rules no_status_ok intro!: wp_event silent_ok split: option.split)
qed

lemma frame_returns:
  assumes "transfer_ok E s" "mandatory_event_max_queue (m_cfg E) \<noteq> 0"
  shows "wp (processQueuedFirmwareRx E F frame) (\<lambda>v t. v \<noteq> None \<and> well_behaved E s t) s"
proof -
  have after: "wp m (\<lambda>v t. v \<noteq> None \<and> well_behaved E s t) t"
    if "silent s t" "transfer_ok E t \<Longrightarrow> wp m (\<lambda>v u. v \<noteq> None \<and> well_behaved E t u) t" for t and m :: "bool option fnm"
    using that assms(1) same_members_ok [of s t E]
    by (intro wp_mono [OF that(2)]) (auto simp: silent_def intro: silent_then)
  have begins: "wp (do { ok \<leftarrow> handleFirmwareBegin E F who corr p; ret (Some ok) })
      (\<lambda>v u. v \<noteq> None \<and> well_behaved E t u) t" if "transfer_ok E t" for who corr p t
    unfolding wp_bind wp_ret by (rule wp_mono [OF begin_returns [OF that]]) simp
  show ?thesis
    unfolding processQueuedFirmwareRx_def Let_def
    by (cases "qc_type frame")
       (auto simp: wp_ret no_status_ok assms(1) wp_bind [of "blinkForMessage E t" for t] simp del: not_None_eq
          intro!: wp_blink after begins chunk_returns end_returns assms(2))
qed

section \<open>Timers\<close>

lemma boot_notice_returns:
  assumes "transfer_ok E s" "mandatory_event_max_queue (m_cfg E) \<noteq> 0"
  shows "wp (tickOtaBootCompletionNotice E F now) (\<lambda>v t. v \<noteq> None \<and> well_behaved E s t) s"
proof -
  let ?u = "s\<lparr>fn_boot_notice_last_try_ms := now\<rparr>"
  have ok: "transfer_ok E ?u" using assms(1) by (simp add: transfer_ok_def)
  have "wp (publishMandatoryEvent E i sev n ts) (\<lambda>v t. v \<noteq> None \<and> well_behaved E s t) ?u" for i sev n ts
    using published_ok [OF ok assms(2)] by (auto simp: well_behaved_def)
  then show ?thesis
    unfolding tickOtaBootCompletionNotice_def
    by (auto simp: wp_rules no_status_ok assms(1) simp del: not_None_eq split: option.split)
qed

lemma retry_returns:
  assumes "transfer_ok E s"
  shows "wp (tickOtaFinalizeStatusRetry E now) (\<lambda>_. well_behaved E s) s"
proof -
  have "transfer_ok E (s\<lparr>fn_finalize := forget_finalize (fn_finalize s)\<rparr>)"
    using assms by (simp add: transfer_ok_def forget_finalize_def)
  then have forget: "well_behaved E s (s\<lparr>fn_finalize := forget_finalize (fn_finalize s)\<rparr>)"
    by (rule no_status_ok) simp
  have stamp: "well_behaved E s (t\<lparr>fn_finalize := (fn_finalize t)\<lparr>fz_last_tx_ms := now\<rparr>\<rparr>)"
    if "well_behaved E s t" for t
    using that by (auto simp: well_behaved_def transfer_ok_def)
  have "wp (do { sent \<leftarrow> sendFirmwareStatus E (fz_peer z) (fz_corr_id z) (fz_kind z) (fz_offset z) (fz_status_code z);
           whenM sent (modify (\<lambda>s. s\<lparr>fn_finalize := (fn_finalize s)\<lparr>fz_last_tx_ms := now\<rparr>\<rparr>)) }) (\<lambda>_. well_behaved E s) s"
    if "fz_pending z" "z = fn_finalize s" for z
    unfolding wp_bind wp_when wp_modify
    by (rule wp_answer [OF assms])
       (use assms that in \<open>auto simp: transfer_ok_def acked_def status_kinds intro: stamp\<close>)
  then show ?thesis
    unfolding tickOtaFinalizeStatusRetry_def Let_def
    using assms forget by (auto simp: wp_bind [of "gets f" for f] wp_gets wp_if wp_ret wp_modify no_status_ok)
qed

section \<open>Sending reports\<close>

lemma report_quiet:
  assumes "\<And>t ok. same_members s t \<Longrightarrow> statuses (g_calls t) = statuses (g_calls s) \<Longrightarrow> (delivers E \<Longrightarrow> ok) \<Longrightarrow> Q ok t"
  shows "wp (sendMandatoryEventReport E to ev) Q s"
  unfolding sendMandatoryEventReport_def wp_bind wp_ret
proof (rule wp_sendTyped)
  fix t ok err
  let ?p = "buildMandatoryEventPayload \<lparr>me_event_id = pe_event_id ev,
            me_severity = pe_severity ev, me_value = pe_value ev, me_ts_s = pe_event_ts_s ev\<rparr>"
  assume t: "quiet_since s [(to, EventReport, pe_corr_id ev, ?p)] t" and ok: "delivers E \<Longrightarrow> ok"
  have "statuses (g_calls t) = statuses (g_calls s)"
    using statuses_quiet [OF t] by (simp add: status_of_def List.map_filter_def)
  with quiet_members [OF t] ok show "Q (fst (ok, err)) t" by (auto intro: assms)
qed (simp_all add: buildMandatoryEventPayload_def frame_sizes)

text \<open>No status frame has been sent.\<close>

definition untold :: "menv \<Rightarrow> fnode \<Rightarrow> fnode \<Rightarrow> bool" where
  "untold E s t \<longleftrightarrow> transfer_ok E t \<and> statuses (g_calls t) = statuses (g_calls s)"

lemma untold_members:
  assumes "untold E s t"
  shows "untold E s (t\<lparr>fn_events := q\<rparr>)" "untold E s (t\<lparr>fn_event_last_tx_ms := n\<rparr>)"
    "untold E s (t\<lparr>fn_event_backoff_until_ms := n\<rparr>)" "untold E s (t\<lparr>fn_event_fail_streak := k\<rparr>)"
  using assms by (simp_all add: untold_def transfer_ok_def)

lemma untold_quiet:
  "untold E s t \<Longrightarrow> same_members t u \<Longrightarrow> statuses (g_calls u) = statuses (g_calls t) \<Longrightarrow> untold E s u"
  using same_members_ok [of t u E] by (simp add: untold_def)

lemma untold_event: "keeps (untold E s) (m_event E' e)"
  unfolding keeps_def
proof (intro allI impI)
  show "wp (m_event E' e) (\<lambda>_. untold E s) t" if "untold E s t" for t
    using untold_quiet [OF that] by (intro wp_event) (simp add: silent_def)
qed

lemma untold_notice: "keeps (untold E s) (sink_clearBootCompletionNotice D)"
proof -
  have "untold E s (u\<lparr>fn_ota := m\<rparr>)" if "untold E s u"
    "ota_ok m \<and> o_config m = o_config (fn_ota u) \<and> session_within (o_receive (fn_ota u)) m" for u m
    using that session_fits_within by (auto simp: untold_def transfer_ok_def)
  moreover have "ota_ok (fn_ota u)" if "untold E s u" for u
    using that by (simp add: untold_def transfer_ok_def)
  ultimately show ?thesis
    unfolding sink_clearBootCompletionNotice_def keeps_def
    by (auto simp: wp_bind wp_in_ota wp_ret intro!: wp_mono [OF wp_clear_notice] split: prod.split)
qed

lemma untold_outcomes:
  "keeps (untold E s) (event_failed E' now m ev)" "keeps (untold E s) (event_sent E' F now m ev)"
  unfolding event_failed_def event_sent_def
  by (intro keeps_rules keeps_modify untold_event untold_notice; simp add: untold_members)+

lemma queue_returns:
  assumes "transfer_ok E s"
  shows "wp (tickMandatoryEventQueue E F now) (\<lambda>_. well_behaved E s) s"
proof -
  have told: "untold E s t \<Longrightarrow> well_behaved E s t" for t by (simp add: untold_def no_status_ok)
  have start: "untold E s u" if "same_members s u" "statuses (g_calls u) = statuses (g_calls s)" for u
    using that assms by - (rule untold_quiet [of E s s u], simp_all add: untold_def)
  have after: "wp m (\<lambda>_. well_behaved E s) u" if "keeps (untold E s) m" "untold E s u" for m :: "unit fnm" and u
    by (rule wp_mono [OF keepsD [OF that]]) (rule told)
  show ?thesis
    unfolding tickMandatoryEventQueue_def
    using assms by (auto simp: wp_bind [of "gets f" for f] wp_gets wp_bind [of "sendMandatoryEventReport E a b" for a b] wp_if
      wp_ret no_status_ok intro!: report_quiet after untold_outcomes start split: list.split option.split)
qed

end
