(* ===== verification/FirmwareEvents.thy ===== *)
theory FirmwareEvents
  imports FirmwareSteps
begin

text \<open>
  The queue of mandatory events: bounded, one entry per event id, and no event leaves it by what is
  published, received or sent without a report to the event sink that it was sent or dropped.
  (Unpairing empties it without one: see theories Unpairing and FirmwareRuns.)
\<close>

section \<open>Programs that leave the queue alone\<close>

named_theorems queue_rules \<open>programs that keep a predicate of the event queue\<close>

text \<open>A predicate of the queue and the trace that more calls and a new event preserve.\<close>

locale event_frame =
  fixes E :: menv and P :: "fnode \<Rightarrow> bool"
  assumes same: "P s \<Longrightarrow> fn_events t = fn_events s \<Longrightarrow> \<exists>cs. g_calls t = g_calls s @ cs \<Longrightarrow> P t"
    and publish_kept: "keeps P (publishMandatoryEvent E i sev v ts)"
begin

lemma modify_kept:
  "(\<And>s. fn_events (f s) = fn_events s \<and> (\<exists>cs. g_calls (f s) = g_calls s @ cs)) \<Longrightarrow> keeps P (modify f)"
  by (rule keeps_modify, erule same) simp_all

text \<open>One rule for the modifications that do not touch the trace.\<close>

lemma change_kept [queue_rules]:
  "(\<And>s. fn_events (f s) = fn_events s) \<Longrightarrow> (\<And>s. g_calls (f s) = g_calls s) \<Longrightarrow> keeps P (modify f)"
  by (rule modify_kept) simp

lemma ota_kept [queue_rules]: "keeps P (in_ota m)"
proof -
  have "P (s\<lparr>fn_ota := t\<rparr>)" if "P s" for s t by (rule same [OF that]) simp_all
  then show ?thesis by (simp add: keeps_def wp_in_ota) (simp add: wp_def split: prod.split)
qed

lemma call_kept [queue_rules]: "keeps P (m_call c)" "keeps P (m_do c)" "keeps P (m_ask E c)" "keeps P (m_nowEpochSec E)"
proof -
  have "P (s\<lparr>g_calls := g_calls s @ [c]\<rparr>)" if "P s" for s c by (rule same [OF that]) simp_all
  then show "keeps P (m_call c)" "keeps P (m_do c)" "keeps P (m_ask E c)" "keeps P (m_nowEpochSec E)"
    by (simp_all add: keeps_def call_rules)
qed

lemma event_kept [queue_rules]: "keeps P (m_event E e)"
  unfolding m_event_def by (intro keeps_rules queue_rules)

lemma log_kept [queue_rules]: "keeps P (emitRuntimeLog E l e p0 p1 p2 x)"
  unfolding emitRuntimeLog_def logExternalEvent_def by (intro keeps_rules queue_rules)

lemma wrap_kept [queue_rules]: "keeps P (m_wrap E p)"
  unfolding m_wrap_def by (intro keeps_rules queue_rules) simp_all

lemma sendTyped_kept [queue_rules]: "keeps P (sendTyped E to ty p i a b d)"
  unfolding sendTyped_def transmit_def Let_def by (intro keeps_rules queue_rules)

lemma blink_kept [queue_rules]: "keeps P (blinkForMessage E t)"
  unfolding blinkForMessage_def by (intro keeps_rules queue_rules)

lemma status_kept [queue_rules]: "keeps P (sendFirmwareStatus E to c kind off code)"
  unfolding sendFirmwareStatus_def by (intro keeps_rules queue_rules)

lemma report_kept [queue_rules]: "keeps P (sendMandatoryEventReport E to ev)"
  unfolding sendMandatoryEventReport_def by (intro keeps_rules queue_rules)

lemma sink_kept [queue_rules]:
  "keeps P (sink_begin D from corr n k crc md)" "keeps P (sink_writeChunk D from corr off data)"
  "keeps P (sink_end D from corr n crc)" "keeps P (sink_clearBootCompletionNotice D)"
  unfolding sink_begin_def sink_writeChunk_def sink_end_def sink_clearBootCompletionNotice_def
  by (intro keeps_rules queue_rules; simp)+

lemma handlers_kept [queue_rules]:
  "keeps P (handleFirmwareBegin E F from corr p)" "keeps P (handleFirmwareChunk E F from corr p)"
  "keeps P (handleFirmwareEnd E F from corr p)" "keeps P (handleFirmwareStatus E from corr p)"
  unfolding handleFirmwareBegin_def handleFirmwareChunk_def handleFirmwareEnd_def handleFirmwareStatus_def
    conclude_transfer_def transfer_ready_def chunk_acked_def chunk_nacked_def Let_def split_beta
  by (intro keeps_rules queue_rules publish_kept; simp)+

lemma frame_kept: "keeps P (processQueuedFirmwareRx E F frame)"
  unfolding processQueuedFirmwareRx_def Let_def
  by (cases "qc_type frame"; simp only: MessageType.case; intro keeps_rules queue_rules)

lemma timers_kept: "keeps P (tickOtaBootCompletionNotice E F now)" "keeps P (tickOtaFinalizeStatusRetry E now)"
  unfolding tickOtaBootCompletionNotice_def tickOtaFinalizeStatusRetry_def Let_def
  by (intro keeps_rules queue_rules publish_kept; simp)+

end

section \<open>Events leave the queue with a report\<close>

text \<open>The event sink has been told that the event with this id was sent or dropped.\<close>

definition reported :: "u16 \<Rightarrow> mcall list \<Rightarrow> bool" where
  "reported i cs \<longleftrightarrow> (\<exists>e. SinkEvent e \<in> set cs \<and> ev_event_id e = i
     \<and> ev_type e \<in> {MandatoryEventSent, MandatoryEventDropped})"

definition queued :: "fnode \<Rightarrow> u16 list" where
  "queued s = map pe_event_id (fn_events s)"

text \<open>Since \<open>s\<close>: the queue is in order, and what was queued still is or has been reported.\<close>

definition events_since :: "menv \<Rightarrow> fnode \<Rightarrow> fnode \<Rightarrow> bool" where
  "events_since E s t \<longleftrightarrow> length (fn_events t) \<le> unat (mandatory_event_max_queue (m_cfg E)) \<and> distinct (queued t)
     \<and> (\<exists>cs. g_calls t = g_calls s @ cs
          \<and> (m_events E \<longrightarrow> (\<forall>i \<in> set (queued s). i \<in> set (queued t) \<or> reported i cs)))"

lemma reported_append [simp]: "reported i (xs @ ys) \<longleftrightarrow> reported i xs \<or> reported i ys"
  by (auto simp: reported_def)

lemma events_since_refl:
  "length (fn_events s) \<le> unat (mandatory_event_max_queue (m_cfg E)) \<Longrightarrow> distinct (queued s) \<Longrightarrow> events_since E s s"
  by (simp add: events_since_def)

lemma events_since_trans: "events_since E s t \<Longrightarrow> events_since E t u \<Longrightarrow> events_since E s u"
  unfolding events_since_def by (elim conjE exE) (force simp: reported_append)

lemma events_since_same:
  "events_since E s t \<Longrightarrow> fn_events u = fn_events t \<Longrightarrow> \<exists>cs. g_calls u = g_calls t @ cs \<Longrightarrow> events_since E s u"
  by (auto simp: events_since_def queued_def)

text \<open>The event at the head leaves with a report.\<close>

lemma head_leaves:
  assumes "events_since E s t" "queued t = i # is" "queued u = is"
    and "g_calls u = g_calls t @ cs" "m_events E \<Longrightarrow> reported i cs"
  shows "events_since E s u"
proof -
  have "length (fn_events u) \<le> length (fn_events t)"
    using assms(2,3) by (metis length_map queued_def length_Cons le_Suc_eq order_refl)
  with assms show ?thesis by (fastforce simp: events_since_def)
qed

lemma wp_report:
  "wp (m_event E e) Q s \<longleftrightarrow> Q () (s\<lparr>g_calls := g_calls s @ (if m_events E then [SinkEvent e] else [])\<rparr>)"
  by (simp add: m_event_def call_rules)

lemma publish_events: "keeps (events_since E s) (publishMandatoryEvent E i sev v ts)"
  unfolding keeps_def
proof (intro allI impI)
  fix t assume t: "events_since E s t"
  let ?ev = "\<lparr>pe_event_id = i, pe_severity = sev, pe_value = v, pe_event_ts_s = ts,
    pe_corr_id = fn_event_corr_seq t, pe_retry_count = 0\<rparr>"
  have seq: "events_since E s (t\<lparr>fn_event_corr_seq := n\<rparr>)" for n
    using t by (simp add: events_since_def queued_def)
  have replaced: "events_since E s (t\<lparr>fn_event_corr_seq := n, fn_events := upd_by pe_event_id i (\<lambda>_. ?ev) (fn_events t)\<rparr>)" for n
    using t by (simp add: events_since_def queued_def)
  have added: "events_since E s (t\<lparr>fn_event_corr_seq := n, fn_events := fn_events t @ [?ev]\<rparr>)"
    if "i \<notin> pe_event_id ` set (fn_events t)" "length (fn_events t) < unat (mandatory_event_max_queue (m_cfg E))" for n
    using t that by (auto simp: events_since_def queued_def)
  have rotated: "events_since E s (t\<lparr>fn_event_corr_seq := n,
      g_calls := g_calls t @ (if m_events E then [SinkEvent (dropped_event d)] else []), fn_events := q @ [?ev]\<rparr>)"
    if "i \<notin> pe_event_id ` set (fn_events t)" "fn_events t = d # q" for n d q
  proof -
    have "reported (pe_event_id d) [SinkEvent (dropped_event d)]"
      by (simp add: reported_def dropped_event_def new_event_def)
    then show ?thesis
      using t that by (fastforce simp: events_since_def queued_def)
  qed
  show "wp (publishMandatoryEvent E i sev v ts) (\<lambda>_. events_since E s) t"
    unfolding publishMandatoryEvent_def Let_def
    using t seq replaced added rotated
    by (auto simp: wp_rules wp_report find_by_None_iff not_le split: list.split)
qed

interpretation events: event_frame E "events_since E s"
  by unfold_locales (fact events_since_same, fact publish_events)

lemma event_failed_events:
  assumes t: "events_since E s t" and q: "fn_events t = ev # q"
  shows "wp (event_failed E now m ev) (\<lambda>_. events_since E s) t"
proof -
  let ?t = "t\<lparr>fn_event_last_tx_ms := now, fn_events := ev\<lparr>pe_retry_count := pe_retry_count ev + 1\<rparr> # q,
    fn_event_fail_streak := fn_event_fail_streak t + 1\<rparr>"
  have kept: "events_since E s ?t"
    using t q by (simp add: events_since_def queued_def)
  have rep: "reported (pe_event_id ev) [SinkEvent (event_outcome MandatoryEventDropped msg m ev)]" for msg
    by (simp add: reported_def event_outcome_def new_event_def)
  have left: "events_since E s (?t\<lparr>g_calls := g_calls t @ (if m_events E then
      [SinkEvent (event_outcome MandatoryEventDropped msg m ev)] else []), fn_events := q\<rparr>)" for msg
    by (rule head_leaves [OF kept, of "pe_event_id ev" "map pe_event_id q" _
        "if m_events E then [SinkEvent (event_outcome MandatoryEventDropped msg m ev)] else []"]) (simp_all add: queued_def rep)
  have end_: "wp (do { streak \<leftarrow> gets fn_event_fail_streak;
      whenM (streak \<ge> mandatory_event_fail_backoff_threshold (m_cfg E))
       (modify (\<lambda>s. s\<lparr>fn_event_backoff_until_ms := now + mandatory_event_backoff_ms (m_cfg E),
                       fn_event_fail_streak := 0\<rparr>)) }) (\<lambda>_. events_since E s) u" if "events_since E s u" for u
    using that by (auto simp: wp_rules elim: events_since_same)
  show ?thesis
    unfolding event_failed_def wp_bind [of "modify f" for f] wp_modify wp_bind [of "whenM b x" for b x] wp_when
      wp_bind [of "gets (\<lambda>s. hd (fn_events s))"] wp_gets wp_bind [of "m_event E e" for e] wp_report
    using left kept by (auto simp: q intro!: end_)
qed

lemma event_sent_events:
  assumes t: "events_since E s t" and q: "fn_events t = ev # q"
  shows "wp (event_sent E F now m ev) (\<lambda>_. events_since E s) t"
proof -
  let ?P = "\<lambda>u. events_since E s u \<and> fn_events u = ev # q"
  have rep: "reported (pe_event_id ev) [SinkEvent (event_outcome MandatoryEventSent msg m ev)]" for msg
    by (simp add: reported_def event_outcome_def new_event_def)
  have left: "events_since E s (u\<lparr>fn_events := q, g_calls := g_calls u @ (if m_events E then
      [SinkEvent (event_outcome MandatoryEventSent msg m ev)] else [])\<rparr>)" if "?P u" for u msg
    by (rule head_leaves [of E s u "pe_event_id ev" "map pe_event_id q" _
        "if m_events E then [SinkEvent (event_outcome MandatoryEventSent msg m ev)] else []"]) (use that rep in \<open>simp_all add: queued_def\<close>)
  have notice: "wp (sink_clearBootCompletionNotice D) (\<lambda>_. ?P) u" if "?P u" for D u
    using that unfolding sink_clearBootCompletionNotice_def
    by (auto simp: wp_bind wp_in_ota wp_ret intro!: wpI elim!: events_since_same)
  have tail: "wp (do { _ \<leftarrow> modify (\<lambda>s. s\<lparr>fn_events := tl (fn_events s)\<rparr>);
      m_event E (event_outcome MandatoryEventSent ''mandatory event tx'' m ev) }) (\<lambda>_. events_since E s) u" if "?P u" for u
    using left [OF that] that by (simp add: wp_bind wp_modify wp_report)
  have "?P (t\<lparr>fn_event_last_tx_ms := now, fn_event_backoff_until_ms := 0, fn_event_fail_streak := 0\<rparr>)"
    using q by (auto intro: events_since_same [OF t])
  then show ?thesis
    unfolding event_sent_def wp_bind [of "modify (\<lambda>s. s\<lparr>fn_event_last_tx_ms := now, fn_event_backoff_until_ms := 0,
        fn_event_fail_streak := 0\<rparr>)"] wp_modify wp_bind [of "case F of None \<Rightarrow> x | Some D \<Rightarrow> f D" for x f]
    by (cases F) (auto simp: wp_ret wp_when wp_bind [of "sink_clearBootCompletionNotice D" for D]
        intro!: tail wp_mono [OF notice])
qed

lemma queue_events: "keeps (events_since E s) (tickMandatoryEventQueue E F now)"
proof -
  have report: "wp (sendMandatoryEventReport E m ev) (\<lambda>_ u. events_since E s u \<and> fn_events u = fn_events t) t"
    if "events_since E s t" for m ev t
    by (rule wp_conj [OF keepsD [OF events.report_kept that]]) (rule report_quiet, simp add: same_members_def)
  show ?thesis
    unfolding tickMandatoryEventQueue_def keeps_def
    by (auto simp: wp_bind [of "gets f" for f] wp_gets wp_ret wp_bind [of "sendMandatoryEventReport E a b" for a b]
        intro!: wp_mono [OF report] event_sent_events event_failed_events split: list.split option.split)
qed

end
