(* ===== verification/Unpairing.thy ===== *)
theory Unpairing
  imports FirmwareEvents Topology
begin

text \<open>
  Unpairing as the manager does it around the pairing engine: an unpair request received
  (\<open>rx_dispatch.cpp\<close>), \<open>requestUnpair\<close> and \<open>removePeer\<close> (\<open>manager_pairing_and_peers.cpp\<close>), and the
  telemetry configuration they clear (\<open>manager_telemetry_push.cpp\<close>). Each of them can empty the queue
  of mandatory events. The attached peers of the topology, which \<open>removePeer\<close> also drops a peer
  from, are members of the topology's node and not of this one.
\<close>

section \<open>The operations\<close>

definition kTelemetryMetaSlot :: u8 where "kTelemetryMetaSlot = 1"
definition kPeerRoleMetaSlot :: u8 where "kPeerRoleMetaSlot = 3"
definition kLogEvtManagerUnpairReq :: u16 where "kLogEvtManagerUnpairReq = 0x000A"

text \<open>A program of the pairing engine run on the engine of the manager.\<close>

definition in_pairing :: "'a eng \<Rightarrow> ('r, 'a) mgrm" where
  "in_pairing m = State (\<lambda>s. case run_state m (g_pairing s) of (a, t) \<Rightarrow> (a, s\<lparr>g_pairing := t\<rparr>))"

definition clearTelemetryPushConfig :: "menv \<Rightarrow> mac \<Rightarrow> bool fnm" where
  "clearTelemetryPushConfig E master =
     (case pairing_store E of
        None \<Rightarrow> ret False
      | Some S \<Rightarrow>
          if \<not> store_enabled S then ret False
          else do {
            local_m \<leftarrow> gets g_local_mac;
            existing \<leftarrow> in_store (loadMetaBlob S local_m master kTelemetryMetaSlot);
            erased \<leftarrow> (if existing \<noteq> None then in_store (eraseMetaBlob S local_m master kTelemetryMetaSlot)
                       else ret True);
            _ \<leftarrow> modify (\<lambda>s. s\<lparr>fn_push_master := (if fn_push_master s = Some master then None else fn_push_master s)\<rparr>);
            ret erased })"

text \<open>The keys of the topology, erased after a link is gone.\<close>

definition purge_old_lmk :: "menv \<Rightarrow> unit fnm" where
  "purge_old_lmk E = do {
     erased \<leftarrow> eraseLocalMetaBlob E kTopologyMetaSlotLmk;
     emitTopologyRuntimeLog E (if erased then LogInfo else LogWarn) kLogEvtTopologyLmkNvsLifecycle
       (ucast kTopologyMetaSlotLmk) 0
       (if erased then ''topology_lmk_nvs_purge_old'' else ''topology_lmk_nvs_purge_old_failed'') }"

definition onRxUnpairRequest :: "env \<Rightarrow> menv \<Rightarrow> mac \<Rightarrow> u32 \<Rightarrow> bool fnm" where
  "onRxUnpairRequest PE E from corr_id = do {
     _ \<leftarrow> blinkForMessage E UnpairRequest;
     _ \<leftarrow> whenM (local_role (m_cfg E) = Slave) (do {
           _ \<leftarrow> modify (\<lambda>s. s\<lparr>fn_push_master := None\<rparr>);
           _ \<leftarrow> modify (\<lambda>s. s\<lparr>fn_events := []\<rparr>);
           _ \<leftarrow> clearTelemetryPushConfig E from;
           ret () });
     in_pairing (onUnpairRequest (PE\<lparr>cfg := m_cfg E\<rparr>) from corr_id) }"

definition mgr_requestUnpair :: "env \<Rightarrow> menv \<Rightarrow> mac \<Rightarrow> u32 \<Rightarrow> bool fnm" where
  "mgr_requestUnpair PE E peer corr_id = do {
     _ \<leftarrow> (if local_role (m_cfg E) = Master then do { _ \<leftarrow> clearTelemetryPushConfig E peer; ret () }
           else modify (\<lambda>s. s\<lparr>fn_events := []\<rparr>));
     ok \<leftarrow> in_pairing (requestUnpair (PE\<lparr>cfg := m_cfg E\<rparr>) peer corr_id);
     _ \<leftarrow> emitRuntimeLog E (if ok then LogInfo else LogError) kLogEvtManagerUnpairReq corr_id
           (if ok then 1 else 0) 0 (mac_bytes peer);
     _ \<leftarrow> whenM (ok \<and> local_role (m_cfg E) = Slave \<and> storeReady E) (purge_old_lmk E);
     ret ok }"

definition mgr_removePeer :: "env \<Rightarrow> menv \<Rightarrow> mac \<Rightarrow> bool \<Rightarrow> bool fnm" where
  "mgr_removePeer PE E peer erase_persisted = do {
     _ \<leftarrow> whenM erase_persisted (do {
           _ \<leftarrow> clearTelemetryPushConfig E peer;
           local_m \<leftarrow> gets g_local_mac;
           case pairing_store E of
             None \<Rightarrow> ret ()
           | Some S \<Rightarrow> whenM (store_enabled S)
               (do { _ \<leftarrow> in_store (eraseMetaBlob S local_m peer kPeerRoleMetaSlot); ret () }) });
     _ \<leftarrow> modify (\<lambda>s. s\<lparr>fn_events := []\<rparr>);
     removed \<leftarrow> in_pairing (removePeer (PE\<lparr>cfg := m_cfg E\<rparr>) peer erase_persisted);
     _ \<leftarrow> modify (\<lambda>s. s\<lparr>fn_role_hints := filter (\<lambda>h. rh_peer h \<noteq> peer) (fn_role_hints s)\<rparr>);
     _ \<leftarrow> whenM removed (do {
           _ \<leftarrow> modify (\<lambda>s. s\<lparr>g_registry := snd (reg_removePeer peer (g_registry s))\<rparr>);
           whenM (erase_persisted \<and> local_role (m_cfg E) = Slave \<and> storeReady E) (purge_old_lmk E) });
     ret removed }"

section \<open>What they leave alone\<close>

text \<open>
  Since \<open>s\<close> nothing of the firmware members has changed, the queue is \<open>q\<close>, and no frame was sent and no
  event reported.
\<close>

definition aside :: "fnode \<Rightarrow> PendingMandatoryEvent list \<Rightarrow> fnode \<Rightarrow> bool" where
  "aside s q t \<longleftrightarrow> fn_ota t = fn_ota s \<and> fn_transfer t = fn_transfer s \<and> fn_finalize t = fn_finalize s \<and> fn_events t = q
     \<and> (\<exists>cs. g_calls t = g_calls s @ cs \<and> on_air cs = [] \<and> (\<forall>e. SinkEvent e \<notin> set cs))"

lemma aside_refl [simp]: "aside s (fn_events s) s"
  by (simp add: aside_def)

lemma aside_same:
  "aside s q t \<Longrightarrow> fn_ota u = fn_ota t \<Longrightarrow> fn_transfer u = fn_transfer t \<Longrightarrow> fn_finalize u = fn_finalize t \<Longrightarrow>
   fn_events u = fn_events t \<Longrightarrow> g_calls u = g_calls t \<Longrightarrow> aside s q u"
  by (simp add: aside_def)

lemma aside_calls:
  assumes "aside s q t" "on_air xs = []" "\<And>e. SinkEvent e \<notin> set xs"
  shows "aside s q (t\<lparr>g_calls := g_calls t @ xs\<rparr>)"
proof -
  obtain cs where "g_calls t = g_calls s @ cs" "on_air cs = []" "\<forall>e. SinkEvent e \<notin> set cs"
    using assms(1) by (auto simp: aside_def)
  then have "g_calls t @ xs = g_calls s @ (cs @ xs) \<and> on_air (cs @ xs) = [] \<and> (\<forall>e. SinkEvent e \<notin> set (cs @ xs))"
    using assms(2,3) by auto
  then show ?thesis using assms(1) unfolding aside_def by auto
qed

named_theorems aside_rules \<open>programs that leave the firmware members and the queue alone\<close>

lemma aside_members [aside_rules]:
  "keeps (aside s q) (in_store m)" "keeps (aside s q) (in_pairing e)"
  "keeps (aside s q) (modify (\<lambda>t. t\<lparr>fn_push_master := f t\<rparr>))"
  "keeps (aside s q) (modify (\<lambda>t. t\<lparr>fn_role_hints := h t\<rparr>))"
  "keeps (aside s q) (modify (\<lambda>t. t\<lparr>g_registry := r t\<rparr>))"
  by (auto simp: keeps_def wp_def in_store_def in_pairing_def modify_def elim!: aside_same split: prod.split)

lemma aside_log [aside_rules]: "keeps (aside s q) (emitRuntimeLog E l e p0 p1 p2 x)"
  by (auto simp: keeps_def logExternalEvent_def emitRuntimeLog_def call_rules intro!: aside_calls)

lemma aside_blink [aside_rules]: "keeps (aside s q) (blinkForMessage E UnpairRequest)"
  by (auto simp: keeps_def blinkForMessage_def call_rules blink_code_def intro!: aside_calls)

lemma aside_clear [aside_rules]: "keeps (aside s q) (clearTelemetryPushConfig E m)"
  unfolding clearTelemetryPushConfig_def by (intro keeps_rules aside_rules)

lemma aside_purge [aside_rules]: "keeps (aside s q) (purge_old_lmk E)"
  unfolding purge_old_lmk_def eraseLocalMetaBlob_def emitTopologyRuntimeLog_def by (intro keeps_rules aside_rules)

lemma wp_emptied: "aside s q t \<Longrightarrow> wp (modify (\<lambda>t. t\<lparr>fn_events := []\<rparr>)) (\<lambda>_. aside s []) t"
  by (simp add: wp_modify aside_def)

text \<open>The queue after each of the operations.\<close>

lemma unpair_frame_effect:
  "wp (onRxUnpairRequest PE E from c)
     (\<lambda>_. aside s (if local_role (m_cfg E) = Slave then [] else fn_events s)) s"
proof -
  let ?q = "if local_role (m_cfg E) = Slave then [] else fn_events s"
  have slave: "wp (whenM (local_role (m_cfg E) = Slave) (do {
      _ \<leftarrow> modify (\<lambda>s. s\<lparr>fn_push_master := None\<rparr>); _ \<leftarrow> modify (\<lambda>s. s\<lparr>fn_events := []\<rparr>);
      _ \<leftarrow> clearTelemetryPushConfig E from; ret () })) (\<lambda>_. aside s ?q) t" if "aside s (fn_events s) t" for t
    using that unfolding wp_when wp_bind wp_modify wp_ret
    by (auto simp: aside_def [of s _ "u\<lparr>fn_push_master := a, fn_events := b\<rparr>" for u a b] aside_def [of s "fn_events s"]
        intro!: keepsD [OF aside_clear])
  show ?thesis
    unfolding onRxUnpairRequest_def wp_bind
    by (rule wp_mono [OF keepsD [OF aside_blink aside_refl]], rule wp_mono [OF slave], assumption)
       (rule keepsD [OF aside_members(2)])
qed

lemma request_unpair_effect:
  "wp (mgr_requestUnpair PE E peer c)
     (\<lambda>_. aside s (if local_role (m_cfg E) = Master then fn_events s else [])) s"
proof -
  let ?q = "if local_role (m_cfg E) = Master then fn_events s else []"
  have first: "wp (if local_role (m_cfg E) = Master then do { _ \<leftarrow> clearTelemetryPushConfig E peer; ret () }
      else modify (\<lambda>s. s\<lparr>fn_events := []\<rparr>)) (\<lambda>_. aside s ?q) s"
    using keepsD [OF aside_clear aside_refl, of E peer s] wp_emptied [OF aside_refl, of s]
    by (simp add: wp_bind) (simp add: wp_ret [abs_def])
  show ?thesis
    unfolding mgr_requestUnpair_def wp_bind [of "if b then x else y" for b x y]
    by (rule wp_mono [OF first], rule keepsD) (intro keeps_rules aside_rules)
qed

lemma remove_effect: "wp (mgr_removePeer PE E peer er) (\<lambda>_. aside s []) s"
proof -
  have first: "keeps (aside s (fn_events s)) (whenM er (do {
      _ \<leftarrow> clearTelemetryPushConfig E peer; local_m \<leftarrow> gets g_local_mac;
      case pairing_store E of None \<Rightarrow> ret () | Some S \<Rightarrow> whenM (store_enabled S)
        (do { _ \<leftarrow> in_store (eraseMetaBlob S local_m peer kPeerRoleMetaSlot); ret () }) }))"
    by (intro keeps_rules aside_rules)
  show ?thesis
    unfolding mgr_removePeer_def wp_bind [of "whenM b x" for b x] wp_bind [of "modify (\<lambda>s. s\<lparr>fn_events := []\<rparr>)"]
    by (rule wp_mono [OF keepsD [OF first aside_refl]], rule wp_mono [OF wp_emptied], assumption, rule keepsD)
       (intro keeps_rules aside_rules)
qed

section \<open>Refused requests\<close>

text \<open>
  The queue is emptied before the engine is asked: a slave's own request to unpair, which the engine
  always refuses, and the unpair frame of any sender at a slave that is not even paired leave the
  queue empty as well.
\<close>

lemma slave_request_discards:
  assumes "local_role (m_cfg E) = Slave"
  shows "wp (mgr_requestUnpair PE E peer c) (\<lambda>ok t. \<not> ok \<and> fn_events t = []) s"
proof -
  have refused: "run_state (requestUnpair (PE\<lparr>cfg := m_cfg E\<rparr>) peer c) e = (False, e)" for e
    using assms by (simp add: requestUnpair_def)
  have "wp (mgr_requestUnpair PE E peer c) (\<lambda>ok t. \<not> ok) s"
    using assms
    by (simp add: mgr_requestUnpair_def wp_bind wp_modify) (auto simp: wp_def in_pairing_def refused split: prod.splits)
  from wp_conj [OF this request_unpair_effect [of PE E peer c s]] show ?thesis
    by (rule wp_mono) (use assms in \<open>auto simp: aside_def\<close>)
qed

lemma unpaired_frame_discards:
  assumes "local_role (m_cfg E) = Slave" "lstate (g_pairing s) \<noteq> LsSecured"
  shows "wp (onRxUnpairRequest PE E sender c) (\<lambda>ok t. \<not> ok \<and> fn_events t = []) s"
proof -
  let ?e = "g_pairing s"
  have refused: "run_state (onUnpairRequest (PE\<lparr>cfg := m_cfg E\<rparr>) sender c) ?e = (False, ?e)"
    using assms by (simp add: onUnpairRequest_def)
  define P where "P = (\<lambda>t::fnode. g_pairing t = ?e)"
  have store: "keeps P (in_store m)" for m :: "'a pst"
    by (auto simp: P_def keeps_def wp_def in_store_def split: prod.split)
  have modify: "keeps P (modify f)" if "\<And>t. g_pairing (f t) = g_pairing t" for f
    by (auto simp: P_def keeps_def wp_modify that)
  have blink: "keeps P (blinkForMessage E UnpairRequest)"
    by (simp add: P_def keeps_def blinkForMessage_def call_rules blink_code_def)
  have clear: "keeps P (clearTelemetryPushConfig E sender)"
    unfolding clearTelemetryPushConfig_def by (intro keeps_rules store modify) simp_all
  have before: "keeps P (do {
      _ \<leftarrow> blinkForMessage E UnpairRequest;
      whenM (local_role (m_cfg E) = Slave) (do {
           _ \<leftarrow> modify (\<lambda>s. s\<lparr>fn_push_master := None\<rparr>);
           _ \<leftarrow> modify (\<lambda>s. s\<lparr>fn_events := []\<rparr>);
           _ \<leftarrow> clearTelemetryPushConfig E sender;
           ret () }) })"
    by (intro keeps_rules blink clear modify) simp_all
  have "wp (onRxUnpairRequest PE E sender c) (\<lambda>ok t. \<not> ok) s"
    using keepsD [OF before, of s]
    by (auto simp: onRxUnpairRequest_def wp_bind P_def wp_def in_pairing_def refused split: prod.splits)
  from wp_conj [OF this unpair_frame_effect [of PE E sender c s]] show ?thesis
    by (rule wp_mono) (use assms(1) in \<open>auto simp: aside_def\<close>)
qed

end
