(* ===== verification/FirmwareRuns.thy ===== *)
theory FirmwareRuns
  imports Unpairing
begin

text \<open>
  A node that receives firmware as a whole: its steps (queued frames, status frames, timers, events,
  unpairing) and its runs, which return, keep the invariants and account for every mandatory event.
\<close>

section \<open>Runs of a node\<close>

text \<open>The members at the start, \<open>g\<close> being those of the manager and \<open>m\<close> the OTA manager behind the sink.\<close>

definition fresh_fnode :: "mgr \<Rightarrow> ota \<Rightarrow> fnode" where
  "fresh_fnode g m = mgr.extend g \<lparr>fn_push_master = None, fn_role_hints = [], fn_ota = m, fn_last_message = [], fn_last_image_path = [],
     fn_transfer = no_transfer,
     fn_finalize = \<lparr>fz_pending = False, fz_peer = zeroMac, fz_corr_id = 0, fz_offset = 0, fz_status_code = 0,
       fz_kind = 0, fz_started_ms = 0, fz_last_tx_ms = 0\<rparr>,
     fn_events = [], fn_event_corr_seq = 1, fn_event_last_tx_ms = 0, fn_event_backoff_until_ms = 0,
     fn_event_fail_streak = 0, fn_boot_notice_last_try_ms = 0\<rparr>"

lemma fresh_fnode_fields [simp]:
  "fn_ota (fresh_fnode g m) = m" "fn_transfer (fresh_fnode g m) = no_transfer"
  "fz_pending (fn_finalize (fresh_fnode g m)) = False" "fn_events (fresh_fnode g m) = []"
  "g_calls (fresh_fnode g m) = g_calls g" "g_pairing (fresh_fnode g m) = g_pairing g" "g_now_ms (fresh_fnode g m) = g_now_ms g"
  by (simp_all add: fresh_fnode_def mgr.extend_def)

text \<open>
  Unpairing and the removal of a peer are steps of their own, with the environment of the pairing
  engine. \<open>FwPairing\<close> stands for what the engine does otherwise, whatever it is: its other frames, its
  timer and a restored link do not touch the members here. So does \<open>FwOthers\<close> for the other
  components, which change the push session, the hints, the store and the registry.
\<close>

datatype fw_op =
    FwFrame QueuedControlRx
  | FwStatus mac u32 buf
  | FwBootNotice u32
  | FwRetry u32
  | FwQueue u32
  | FwPublish u16 u8 u32 u32
  | FwOtaTick
  | FwPairing engine
  | FwUnpairFrame env mac u32
  | FwRequestUnpair env mac u32
  | FwRemovePeer env mac bool
  | FwOthers "mac option" "PeerRoleHintEntry list" pstore registry
  | FwClock u32

primrec fw_program :: "menv \<Rightarrow> ota_env option \<Rightarrow> fw_op \<Rightarrow> bool option fnm" where
  "fw_program E F (FwFrame frame) = processQueuedFirmwareRx E F frame"
| "fw_program E F (FwStatus sender corr payload) =
     do { ok \<leftarrow> handleFirmwareStatus E sender corr payload; ret (Some ok) }"
| "fw_program E F (FwBootNotice now) = tickOtaBootCompletionNotice E F now"
| "fw_program E F (FwRetry now) = do { _ \<leftarrow> tickOtaFinalizeStatusRetry E now; ret (Some True) }"
| "fw_program E F (FwQueue now) = do { _ \<leftarrow> tickMandatoryEventQueue E F now; ret (Some True) }"
| "fw_program E F (FwPublish i sev v ts) = publishMandatoryEvent E i sev v ts"
| "fw_program E F FwOtaTick =
     (case F of None \<Rightarrow> ret (Some True) | Some D \<Rightarrow> do { _ \<leftarrow> in_ota (ota_tick D); ret (Some True) })"
| "fw_program E F (FwPairing e) = do { _ \<leftarrow> modify (\<lambda>s. s\<lparr>g_pairing := e\<rparr>); ret (Some True) }"
| "fw_program E F (FwUnpairFrame PE sender corr) = do { ok \<leftarrow> onRxUnpairRequest PE E sender corr; ret (Some ok) }"
| "fw_program E F (FwRequestUnpair PE peer corr) = do { ok \<leftarrow> mgr_requestUnpair PE E peer corr; ret (Some ok) }"
| "fw_program E F (FwRemovePeer PE peer erase_persisted) =
     do { ok \<leftarrow> mgr_removePeer PE E peer erase_persisted; ret (Some ok) }"
| "fw_program E F (FwOthers m hints st reg) =
     do { _ \<leftarrow> modify (\<lambda>s. s\<lparr>fn_push_master := m, fn_role_hints := hints, g_store := st, g_registry := reg\<rparr>);
          ret (Some True) }"
| "fw_program E F (FwClock now) = do { _ \<leftarrow> modify (\<lambda>s. s\<lparr>g_now_ms := now\<rparr>); ret (Some True) }"

text \<open>A run of the node; \<open>None\<close>: some step does not return.\<close>

fun fw_run :: "menv \<Rightarrow> ota_env option \<Rightarrow> fw_op list \<Rightarrow> fnode \<Rightarrow> fnode option" where
  "fw_run E F [] s = Some s"
| "fw_run E F (op # ops) s =
     (case run_state (fw_program E F op) s of (None, _) \<Rightarrow> None | (Some _, t) \<Rightarrow> fw_run E F ops t)"

lemma fw_run_append:
  "fw_run E F (xs @ ys) s = (case fw_run E F xs s of None \<Rightarrow> None | Some t \<Rightarrow> fw_run E F ys t)"
  by (induction E F xs s rule: fw_run.induct) (auto split: prod.split option.split)

text \<open>The steps that discard the queue of mandatory events.\<close>

fun discards :: "menv \<Rightarrow> fw_op \<Rightarrow> bool" where
  "discards E (FwUnpairFrame PE sender corr) \<longleftrightarrow> local_role (m_cfg E) = Slave"
| "discards E (FwRequestUnpair PE peer corr) \<longleftrightarrow> local_role (m_cfg E) \<noteq> Master"
| "discards E (FwRemovePeer PE peer erase_persisted) \<longleftrightarrow> True"
| "discards E _ \<longleftrightarrow> False"

section \<open>The steps of a run\<close>

lemma aside_ok: "aside s q t \<Longrightarrow> transfer_ok E s \<Longrightarrow> well_behaved E s t"
  by (rule no_status_ok) (auto simp: aside_def transfer_ok_def statuses_def)

lemma unpair_step:
  assumes "op = FwUnpairFrame PE m c \<or> op = FwRequestUnpair PE m c \<or> op = FwRemovePeer PE m b"
  shows "wp (fw_program E F op) (\<lambda>v t. v \<noteq> None \<and> aside s (if discards E op then [] else fn_events s) t) s"
  using assms
proof (elim disjE)
  assume "op = FwUnpairFrame PE m c"
  then show ?thesis using unpair_frame_effect [of PE E m c s] by (auto simp: wp_bind wp_ret elim: wp_mono)
next
  assume "op = FwRequestUnpair PE m c"
  then show ?thesis using request_unpair_effect [of PE E m c s] by (auto simp: wp_bind wp_ret elim: wp_mono)
next
  assume "op = FwRemovePeer PE m b"
  then show ?thesis using remove_effect [of PE E m b s] by (auto simp: wp_bind wp_ret elim: wp_mono)
qed

lemma step_well_behaved:
  assumes "transfer_ok E s" "mandatory_event_max_queue (m_cfg E) \<noteq> 0"
  shows "wp (fw_program E F op) (\<lambda>v t. v \<noteq> None \<and> well_behaved E s t) s"
proof -
  have then_ret: "wp (do { _ \<leftarrow> m; ret (Some x) }) (\<lambda>v t. v \<noteq> None \<and> well_behaved E s t) s"
    if "wp m (\<lambda>_. well_behaved E s) s" for m :: "unit fnm" and x :: bool
    unfolding wp_bind wp_ret by (rule wp_mono [OF that]) simp
  have status: "wp (fw_program E F (FwStatus w c p)) (\<lambda>v t. v \<noteq> None \<and> well_behaved E s t) s" for w c p
    unfolding fw_program.simps wp_bind wp_ret by (rule wp_mono [OF status_returns [OF assms(1)]]) simp
  have tick: "wp (in_ota (ota_tick D)) (\<lambda>_. well_behaved E s) s" for D
  proof -
    let ?r = "o_receive (fn_ota s)" and ?c = "o_config (fn_ota s)"
    have start: "session_within ?r (fn_ota s)" "cfg_is ?c (fn_ota s)" by (simp_all add: session_within_def cfg_is_def)
    have "keeps ota_ok (ota_tick D)" by (auto simp: ota_tick_def intro!: keeps_rules)
    moreover have "ota_ok (fn_ota s)" using assms(1) by (simp add: transfer_ok_def)
    ultimately have "wp (ota_tick D) (\<lambda>_ t. ota_ok t \<and> cfg_is ?c t \<and> session_within ?r t) (fn_ota s)"
      unfolding ota_tick_def
      by (intro wp_conj keepsD [OF within.expire_kept start(1)] keepsD [OF config.expire_kept start(2)])
         (auto simp: keeps_def)
    then show ?thesis
      unfolding wp_in_ota
      by (rule wp_mono) (use assms(1) session_fits_within in \<open>auto simp: transfer_ok_def cfg_is_def intro!: no_status_ok\<close>)
  qed
  have ota: "wp (fw_program E F FwOtaTick) (\<lambda>v t. v \<noteq> None \<and> well_behaved E s t) s"
    using assms(1) tick by (cases F) (auto simp: wp_ret no_status_ok simp del: not_None_eq intro!: then_ret)
  have timers: "wp (fw_program E F (FwRetry n)) (\<lambda>v t. v \<noteq> None \<and> well_behaved E s t) s"
    "wp (fw_program E F (FwQueue n)) (\<lambda>v t. v \<noteq> None \<and> well_behaved E s t) s" for n
    unfolding fw_program.simps
    by (rule then_ret [OF retry_returns [OF assms(1)]], rule then_ret [OF queue_returns [OF assms(1)]])
  have members: "wp (fw_program E F (FwPairing e)) (\<lambda>v t. v \<noteq> None \<and> well_behaved E s t) s"
    "wp (fw_program E F (FwClock n)) (\<lambda>v t. v \<noteq> None \<and> well_behaved E s t) s" for e n
    unfolding fw_program.simps
    by (rule then_ret, use assms(1) in \<open>simp add: wp_modify no_status_ok transfer_ok_def\<close>)+
  have others: "wp (fw_program E F (FwOthers a h st r)) (\<lambda>v t. v \<noteq> None \<and> well_behaved E s t) s" for a h st r
    unfolding fw_program.simps
    by (rule then_ret, use assms(1) in \<open>simp add: wp_modify no_status_ok transfer_ok_def\<close>)
  have unpair: "wp (fw_program E F op) (\<lambda>v t. v \<noteq> None \<and> well_behaved E s t) s"
    if "op = FwUnpairFrame PE m c \<or> op = FwRequestUnpair PE m c \<or> op = FwRemovePeer PE m b" for PE m c b
    by (rule wp_mono [OF unpair_step [OF that]]) (use aside_ok assms(1) in blast)
  show ?thesis
  proof (cases op)
    case FwUnpairFrame then show ?thesis by (intro unpair) blast
  next
    case FwRequestUnpair then show ?thesis by (intro unpair) blast
  next
    case FwRemovePeer then show ?thesis by (intro unpair) blast
  qed (use frame_returns [OF assms] boot_notice_returns [OF assms] published_ok [OF assms] in
       \<open>simp_all only: fw_program.simps(1,3,6) status ota timers members others\<close>)
qed

lemma step_events:
  assumes "\<not> discards E op"
  shows "keeps (events_since E s) (fw_program E F op)"
proof -
  have tick: "keeps (events_since E s) (in_ota (ota_tick D))" for D by (rule events.ota_kept)
  have unpair: "keeps (events_since E s) (fw_program E F op)"
    if "op = FwUnpairFrame PE m c \<or> op = FwRequestUnpair PE m c" for PE m c
  proof -
    from that have op: "op = FwUnpairFrame PE m c \<or> op = FwRequestUnpair PE m c \<or> op = FwRemovePeer PE m b" for b by blast
    show ?thesis
      unfolding keeps_def
      by (intro allI impI, rule wp_mono [OF unpair_step [OF op]])
         (use assms in \<open>auto simp: aside_def elim: events_since_same\<close>)
  qed
  show ?thesis
  proof (cases op)
    case FwUnpairFrame then show ?thesis by (intro unpair) blast
  next
    case FwRequestUnpair then show ?thesis by (intro unpair) blast
  next
    case FwRemovePeer then show ?thesis using assms by simp
  qed (cases F; auto intro!: tick keeps_rules events.frame_kept events.handlers_kept events.timers_kept queue_events
         publish_events events.change_kept)+
qed

text \<open>An event leaves the queue without a report in one way only: a step discards the whole queue.\<close>

definition discards_event :: "menv \<Rightarrow> ota_env option \<Rightarrow> fw_op \<Rightarrow> fnode \<Rightarrow> u16 \<Rightarrow> bool" where
  "discards_event E F op s i \<longleftrightarrow> discards E op \<and> i \<in> set (queued s)
     \<and> (case fw_run E F [op] s of
          None \<Rightarrow> False
        | Some t \<Rightarrow> fn_events t = [] \<and> (\<forall>e. SinkEvent e \<notin> set (drop (length (g_calls s)) (g_calls t))))"

definition discarded :: "menv \<Rightarrow> ota_env option \<Rightarrow> fw_op list \<Rightarrow> fnode \<Rightarrow> u16 \<Rightarrow> bool" where
  "discarded E F ops s i \<longleftrightarrow>
     (\<exists>xs op ys u. ops = xs @ op # ys \<and> fw_run E F xs s = Some u \<and> discards_event E F op u i)"

lemma discard_step:
  assumes "discards E op" "run_state (fw_program E F op) s = (v, t)"
  shows "\<exists>b cs. v = Some b \<and> fn_events t = [] \<and> g_calls t = g_calls s @ cs \<and> (\<forall>e. SinkEvent e \<notin> set cs)"
proof -
  obtain PE m c b where "op = FwUnpairFrame PE m c \<or> op = FwRequestUnpair PE m c \<or> op = FwRemovePeer PE m b"
    using assms(1) by (cases op) auto
  from wp_run [OF unpair_step [OF this] assms(2)] assms(1) show ?thesis by (auto simp: aside_def)
qed

lemma discarded_now: "discards_event E F op s i \<Longrightarrow> discarded E F (op # ops) s i"
  unfolding discarded_def by (rule exI [of _ "[]"]) simp

lemma discarded_later:
  assumes "fw_run E F [op] s = Some t" "discarded E F ops t i"
  shows "discarded E F (op # ops) s i"
proof -
  obtain xs p ys u where "ops = xs @ p # ys" "fw_run E F xs t = Some u" "discards_event E F p u i"
    using assms(2) unfolding discarded_def by blast
  moreover have "fw_run E F (op # xs) s = fw_run E F xs t"
    using assms(1) by (auto split: prod.splits option.splits)
  ultimately show ?thesis unfolding discarded_def by (intro exI [of _ "op # xs"]) auto
qed

lemma step_accounts:
  assumes "events_since E s s" "fw_run E F [op] s = Some t" "m_events E"
  shows "events_since E t t \<and> (\<exists>cs. g_calls t = g_calls s @ cs
    \<and> (\<forall>i \<in> set (queued s). i \<in> set (queued t) \<or> reported i cs \<or> discards_event E F op s i))"
proof -
  obtain v where run: "run_state (fw_program E F op) s = (v, t)"
    using assms(2) by (auto split: prod.splits option.splits)
  show ?thesis
  proof (cases "discards E op")
    case True
    from discard_step [OF True run] obtain cs where t: "fn_events t = []" "g_calls t = g_calls s @ cs"
      "\<forall>e. SinkEvent e \<notin> set cs" by blast
    have "discards_event E F op s i" if "i \<in> set (queued s)" for i
      unfolding discards_event_def assms(2) using True t that by simp
    with t show ?thesis by (auto simp: events_since_def queued_def)
  next
    case False
    from keeps_run [OF step_events [OF False] assms(1) run] have "events_since E s t" .
    then show ?thesis using assms(3) by (auto simp: events_since_def)
  qed
qed

lemma run_accounts:
  assumes "events_since E s s" "fw_run E F ops s = Some t" "m_events E"
  shows "events_since E t t \<and> (\<exists>cs. g_calls t = g_calls s @ cs
    \<and> (\<forall>i \<in> set (queued s). i \<in> set (queued t) \<or> reported i cs \<or> discarded E F ops s i))"
  using assms(1,2)
proof (induction ops arbitrary: s)
  case (Cons op ops)
  from Cons.prems(2) obtain u where u: "fw_run E F [op] s = Some u" "fw_run E F ops u = Some t"
    by (auto split: prod.splits option.splits)
  from step_accounts [OF Cons.prems(1) u(1) assms(3)] obtain cs where s: "events_since E u u" "g_calls u = g_calls s @ cs"
    "\<forall>i \<in> set (queued s). i \<in> set (queued u) \<or> reported i cs \<or> discards_event E F op s i" by blast
  from Cons.IH [OF s(1) u(2)] obtain ds where t: "events_since E t t" "g_calls t = g_calls u @ ds"
    "\<forall>i \<in> set (queued u). i \<in> set (queued t) \<or> reported i ds \<or> discarded E F ops u i" by blast
  have "i \<in> set (queued t) \<or> reported i (cs @ ds) \<or> discarded E F (op # ops) s i" if "i \<in> set (queued s)" for i
    using that s(3) t(3) discarded_now discarded_later [OF u(1)] unfolding reported_append by blast
  with t(1) show ?case unfolding t(2) s(2) by auto
qed simp

lemma run_ok:
  assumes "mandatory_event_max_queue (m_cfg E) \<noteq> 0" "transfer_ok E s"
  shows "\<exists>t. fw_run E F ops s = Some t \<and> transfer_ok E t"
  using assms(2)
proof (induction ops arbitrary: s)
  case (Cons op ops)
  obtain v t where run: "run_state (fw_program E F op) s = (v, t)" by fastforce
  from wp_run [OF step_well_behaved [OF Cons.prems assms(1)] run]
  obtain b where v: "v = Some b" and t: "transfer_ok E t" by (auto simp: well_behaved_def)
  from Cons.IH [OF t] run v show ?case by simp
qed simp

lemma fresh_ok:
  assumes "ota_ok m" "\<not> rs_active (o_receive m)" "max_firmware_bytes (o_config m) < 0x80000000"
  shows "transfer_ok E (fresh_fnode g m)"
  using assms by (simp add: transfer_ok_def session_fits_def no_transfer_def)

lemma fresh_events: "events_since E (fresh_fnode g m) (fresh_fnode g m)"
  by (rule events_since_refl) (simp_all add: queued_def)

end
