(* ===== verification/FirmwareDelivery.thy ===== *)
theory FirmwareDelivery
  imports FirmwareRuns OtaRecords
begin

text \<open>
  A whole transfer between two nodes: the frames a master puts on the air for an image, and what
  the slave that takes them from its queue does with its OTA manager.
\<close>

section \<open>The begin frame\<close>

lemma meta_parsed:
  assumes len: "length P = 12" and m: "length (sw_version md) \<le> 63" "length (build_id md) \<le> 63" "length (target_role md) \<le> 15"
    and "md \<noteq> no_metadata"
  shows "parse_begin_meta (P @ firmware_meta_bytes md) = Some md"
proof -
  have u: "unat (of_nat (length (sw_version md)) :: u8) = length (sw_version md)"
    "unat (of_nat (length (build_id md)) :: u8) = length (build_id md)"
    "unat (of_nat (length (target_role md)) :: u8) = length (target_role md)"
    using m by (simp_all add: unat_of_nat)
  have d: "drop (4 + j) (a # b # c # d # xs) = drop j xs" "drop (5 + j) (a # b # c # d # e # xs) = drop j xs"
    "drop 4 (a # b # c # d # xs) = xs" "drop 5 (a # b # c # d # e # xs) = xs"
    for a b c d e :: u8 and xs j
    by (simp_all add: eval_nat_numeral)
  show ?thesis
    using assms u d
    by (cases md)
       (simp add: parse_begin_meta_def firmware_meta_bytes_def Let_def nth_append string_of_string_bytes string_of_bytes_def [of "[]"]
          kFirmwareMetaHeaderSizeV1_def kFirmwareMetaHeaderSizeV2_def kFirmwareMetaVersionV1_def kFirmwareMetaVersionV2_def)
qed

lemma begin_parsed:
  assumes "length (sw_version md) \<le> 63" "length (build_id md) \<le> 63" "length (target_role md) \<le> 15"
  shows "parse_firmware_begin (appendLe32 n @ appendLe32 k @ appendLe32 crc @ firmware_meta_bytes md) = Some (n, k, crc, md)"
proof -
  let ?P = "appendLe32 n @ appendLe32 k @ appendLe32 crc"
  have len: "length ?P = 12" by simp
  have empty: "firmware_meta_bytes md = [] \<longleftrightarrow> md = no_metadata"
    by (simp add: firmware_meta_bytes_def Let_def)
  show ?thesis
    using meta_parsed [OF len assms] empty by (auto simp: parse_firmware_begin_def)
qed

section \<open>What the master puts on the air\<close>

fun send_chunks :: "menv \<Rightarrow> mac \<Rightarrow> u32 \<Rightarrow> (u32 \<times> bytes) list \<Rightarrow> ('r, bool list) mgrm" where
  "send_chunks E to corr [] = ret []"
| "send_chunks E to corr ((off, bs) # xs) = do {
     ok \<leftarrow> sendFirmwareChunk E to off (Some bs) corr;
     oks \<leftarrow> send_chunks E to corr xs;
     ret (ok # oks) }"

definition send_image ::
  "menv \<Rightarrow> mac \<Rightarrow> u32 \<Rightarrow> u32 \<Rightarrow> u32 \<Rightarrow> u32 \<Rightarrow> FirmwareImageMetadata option \<Rightarrow> (u32 \<times> bytes) list \<Rightarrow> ('r, bool list) mgrm" where
  "send_image E to n k crc corr md xs = do {
     b \<leftarrow> sendFirmwareBegin E to n k crc corr md;
     cs \<leftarrow> send_chunks E to corr xs;
     e \<leftarrow> sendFirmwareEnd E to n crc corr;
     ret (b # cs @ [e]) }"

text \<open>The frames of a transfer, in the order they are sent.\<close>

definition transfer_frames ::
  "mac \<Rightarrow> u32 \<Rightarrow> u32 \<Rightarrow> u32 \<Rightarrow> u32 \<Rightarrow> FirmwareImageMetadata \<Rightarrow> (u32 \<times> bytes) list \<Rightarrow> (mac \<times> MessageType \<times> u32 \<times> bytes) list" where
  "transfer_frames to n k crc corr md xs =
     [(to, FirmwareBegin, corr, appendLe32 n @ appendLe32 k @ appendLe32 crc @ firmware_meta_bytes md)]
     @ map (\<lambda>(off, bs). (to, FirmwareChunk, corr, appendLe32 off @ bs)) xs
     @ [(to, FirmwareEnd, corr, appendLe32 n @ appendLe32 crc)]"

lemma quiet_since_trans: "quiet_since s xs t \<Longrightarrow> quiet_since t ys u \<Longrightarrow> quiet_since s (xs @ ys) u"
  by (auto simp: quiet_since_def intro: same_but_sent_trans)

lemma wp_send_begin:
  assumes "local_role (m_cfg E) = Master" "n \<noteq> 0" "k \<noteq> 0"
    and "length (sw_version md) \<le> 63" "length (build_id md) \<le> 63" "length (target_role md) \<le> 15"
  shows "wp (sendFirmwareBegin E to n k crc corr (Some md))
     (\<lambda>_. quiet_since s [(to, FirmwareBegin, corr, appendLe32 n @ appendLe32 k @ appendLe32 crc @ firmware_meta_bytes md)]) s"
proof -
  have "length (firmware_meta_bytes md) \<le> 146"
    using assms by (auto simp: firmware_meta_bytes_def Let_def)
  then show ?thesis
    using assms unfolding sendFirmwareBegin_def
    by (auto simp: Let_def wp_bind wp_ret frame_sizes intro!: wp_sendTyped)
qed

lemma wp_send_chunks:
  assumes "local_role (m_cfg E) = Master" "\<forall>(off, bs) \<in> set xs. bs \<noteq> [] \<and> length bs + 4 \<le> kMaxPayload"
  shows "wp (send_chunks E to corr xs) (\<lambda>_. quiet_since s (map (\<lambda>(off, bs). (to, FirmwareChunk, corr, appendLe32 off @ bs)) xs)) s"
  using assms(2)
proof (induction xs arbitrary: s)
  case (Cons x xs)
  obtain off bs where x: "x = (off, bs)" by fastforce
  have "wp (sendFirmwareChunk E to off (Some bs) corr) (\<lambda>_. quiet_since s [(to, FirmwareChunk, corr, appendLe32 off @ bs)]) s"
    using assms(1) Cons.prems x unfolding sendFirmwareChunk_def
    by (auto simp: wp_bind wp_ret intro!: wp_sendTyped)
  then show ?case
    unfolding x send_chunks.simps wp_bind wp_ret
    by (rule wp_mono) (rule wp_mono [OF Cons.IH], use Cons.prems in \<open>auto dest: quiet_since_trans\<close>)
qed (simp add: wp_ret)

lemma wp_send_image:
  assumes "local_role (m_cfg E) = Master" "n \<noteq> 0" "k \<noteq> 0"
    and "length (sw_version md) \<le> 63" "length (build_id md) \<le> 63" "length (target_role md) \<le> 15"
    and "\<forall>(off, bs) \<in> set xs. bs \<noteq> [] \<and> length bs + 4 \<le> kMaxPayload"
  shows "wp (send_image E to n k crc corr (Some md) xs) (\<lambda>_. quiet_since s (transfer_frames to n k crc corr md xs)) s"
proof -
  have e: "wp (sendFirmwareEnd E to n crc corr) (\<lambda>_. quiet_since t [(to, FirmwareEnd, corr, appendLe32 n @ appendLe32 crc)]) t" for t
    using assms(1,2) unfolding sendFirmwareEnd_def
    by (auto simp: wp_bind wp_ret frame_sizes intro!: wp_sendTyped)
  show ?thesis
    unfolding send_image_def wp_bind wp_ret transfer_frames_def
    by (rule wp_mono [OF wp_send_begin], use assms in auto)
      (auto intro!: wp_mono [OF wp_send_chunks [OF assms(1,7)]] wp_mono [OF e] dest: quiet_since_trans)
qed

section \<open>What the slave does with them\<close>

definition frame_from :: "mac \<Rightarrow> mac \<times> MessageType \<times> u32 \<times> bytes \<Rightarrow> QueuedControlRx" where
  "frame_from sender = (\<lambda>(to, ty, c, p). \<lparr>qc_type = ty, qc_from = sender, qc_corr_id = c, qc_payload = p,
     qc_queued_ms = 0, qc_rssi = 0\<rparr>)"

text \<open>The effect of the handlers on the OTA manager is that of its operation.\<close>

lemma wp_program: "run_state m s = (a, t) \<Longrightarrow> wp m Q s \<longleftrightarrow> Q a t"
  by (simp add: wp_def)

lemma begin_ota:
  assumes "parse_firmware_begin p = Some (n, k, crc, md)"
    and "run_state (beginReceive D sender corr n k crc (Some md)) (fn_ota s) = (v, m)"
  shows "wp (handleFirmwareBegin E (Some D) sender corr (Some p)) (\<lambda>_ t. fn_ota t = m) s"
proof -
  have status: "wp (sendFirmwareStatus E to c kind off code) Q u" if "\<And>ok t. fn_ota t = fn_ota u \<Longrightarrow> Q ok t"
    for to c kind off code u and Q :: "bool \<Rightarrow> fnode \<Rightarrow> bool"
    by (rule wp_status) (simp add: that same_members_def)
  show ?thesis
    using assms(1) unfolding handleFirmwareBegin_def sink_begin_def
    by (auto simp: wp_rules wp_in_ota wp_program [OF assms(2)] intro!: status split: prod.split)
qed

lemma chunk_ota:
  assumes "run_state (writeReceiveChunk D sender corr off (Some bs)) (fn_ota s) = (v, m)"
  shows "wp (handleFirmwareChunk E (Some D) sender corr (Some (appendLe32 off @ bs))) (\<lambda>_ t. fn_ota t = m) s"
proof -
  have status: "wp (sendFirmwareStatus E to c kind off code) Q u" if "\<And>ok t. fn_ota t = fn_ota u \<Longrightarrow> Q ok t"
    for to c kind off code u and Q :: "bool \<Rightarrow> fnode \<Rightarrow> bool"
    by (rule wp_status) (simp add: that same_members_def)
  have acked: "wp (chunk_acked E w c e) Q u" if "fn_ota u = m" "\<And>b t. fn_ota t = m \<Longrightarrow> Q b t" for u e w c Q
    using that
    unfolding chunk_acked_def by (auto simp: wp_rules intro!: status split: option.split)
  have nacked: "wp (chunk_nacked E w c e) Q u" if "fn_ota u = m" "\<And>b t. fn_ota t = m \<Longrightarrow> Q b t" for u e w c Q
    using that
    unfolding chunk_nacked_def Let_def by (auto simp: wp_rules intro!: status)
  show ?thesis
    unfolding handleFirmwareChunk_def sink_writeChunk_def
    by (auto simp: wp_rules wp_in_ota wp_program [OF assms(1)] Let_def
        intro!: acked nacked split: option.split prod.split)
qed

lemma end_ota:
  assumes "run_state (endReceive D sender corr n crc) (fn_ota s) = ((True, msg, path), m)"
    and slave: "local_role (m_cfg E) = Slave" and q: "mandatory_event_max_queue (m_cfg E) \<noteq> 0"
  shows "wp (handleFirmwareEnd E (Some D) sender corr (Some (appendLe32 n @ appendLe32 crc)))
     (\<lambda>v t. v = Some True \<and> fn_ota t = m \<and> fn_last_image_path t = path \<and> statuses (g_calls t) = statuses (g_calls s) @
        [(sender, \<lparr>fs_kind = kFirmwareStatusKindFinalizeOk, fs_transfer_corr_id = corr, fs_offset_bytes = n, fs_status_code = 0\<rparr>)]) s"
proof -
  let ?f = "(sender, \<lparr>fs_kind = kFirmwareStatusKindFinalizeOk, fs_transfer_corr_id = corr, fs_offset_bytes = n, fs_status_code = 0\<rparr>)"
  let ?R = "\<lambda>t. fn_ota t = m \<and> fn_last_image_path t = path \<and> statuses (g_calls t) = statuses (g_calls s) @ [?f]"
  have publish: "wp (publishMandatoryEvent E i sev v ts) (\<lambda>b t. b \<noteq> None \<and> ?R t) u" if "?R u" for u i sev v ts
    by (rule wp_publish [OF q]) (use that in auto)
  have ready: "wp (transfer_ready E corr) (\<lambda>b t. b \<noteq> None \<and> ?R t) u" if "?R u" for u
    unfolding transfer_ready_def wp_bind [of "if b then x else y" for b x y]
    by (rule wp_epoch, rule publish) (use that in \<open>simp add: silent_def same_members_def\<close>)
  have tail: "wp (do { published \<leftarrow> transfer_ready E corr;
      case published of None \<Rightarrow> ret None
      | Some _ \<Rightarrow> do {
          _ \<leftarrow> modify (\<lambda>s. if tr_corr_id (fn_transfer s) = corr then s\<lparr>fn_transfer := no_transfer\<rparr> else s);
          ret (Some True) } }) (\<lambda>v t. v = Some True \<and> ?R t) u" if "?R u" for u
    unfolding wp_bind [of "transfer_ready E c" for c]
    by (rule wp_mono [OF ready [OF that]]) (auto simp: wp_rules)
  have "wp (conclude_transfer E sender corr n True) (\<lambda>v t. v = Some True \<and> ?R t) (s\<lparr>fn_ota := m, fn_last_message := msg, fn_last_image_path := path\<rparr>)"
    unfolding conclude_transfer_def Let_def if_True wp_bind [of "gets f" for f] wp_gets wp_bind [of "modify f" for f] wp_modify
      wp_bind [of "sendFirmwareStatus E a b c d e" for a b c d e] wp_bind [of "whenM b x" for b x] wp_when
  proof (rule wp_status, goal_cases)
    case (1 t ok)
    then show ?case by (cases ok) (simp_all only: if_True if_False, (rule tail, simp add: same_members_def)+)
  qed
  then show ?thesis
    unfolding handleFirmwareEnd_def sink_end_def
    by (simp add: wp_rules wp_in_ota wp_program [OF assms(1)] Let_def slave)
qed

text \<open>The queued frames, with the blink in front.\<close>

lemma le32_not_empty [simp]: "(appendLe32 n @ xs = []) = False"
  by (metis append_is_Nil_conv length_appendLe32 list.size(3) zero_neq_numeral)

lemma silent_members:
  "silent s t \<Longrightarrow> fn_ota t = fn_ota s" "silent s t \<Longrightarrow> fn_last_image_path t = fn_last_image_path s"
  "silent s t \<Longrightarrow> statuses (g_calls t) = statuses (g_calls s)"
  by (simp_all add: silent_def same_members_def)

lemmas frame_program = processQueuedFirmwareRx_def frame_from_def Let_def wp_bind [of "blinkForMessage E t" for E t]
  prod.case QueuedControlRx.select_convs MessageType.case le32_not_empty if_False

lemma frame_begin:
  assumes "parse_firmware_begin (appendLe32 n @ p) = Some (n', k, crc, md)"
    and "run_state (beginReceive D w corr n' k crc (Some md)) (fn_ota s) = (v, m)"
  shows "wp (processQueuedFirmwareRx E (Some D) (frame_from w (to, FirmwareBegin, corr, appendLe32 n @ p))) (\<lambda>_ t. fn_ota t = m) s"
  unfolding frame_program wp_bind [of "handleFirmwareBegin E F a b c" for F a b c] wp_ret
  by (rule wp_blink, rule begin_ota [OF assms(1)]) (simp add: silent_members assms(2))

lemma frame_chunk:
  assumes "run_state (writeReceiveChunk D w corr off (Some bs)) (fn_ota s) = (v, m)"
  shows "wp (processQueuedFirmwareRx E (Some D) (frame_from w (to, FirmwareChunk, corr, appendLe32 off @ bs))) (\<lambda>_ t. fn_ota t = m) s"
  unfolding frame_program by (rule wp_blink, rule chunk_ota) (simp add: silent_members assms)

lemma frame_end:
  assumes "run_state (endReceive D w corr n crc) (fn_ota s) = ((True, msg, path), m)"
    and "local_role (m_cfg E) = Slave" "mandatory_event_max_queue (m_cfg E) \<noteq> 0"
  shows "wp (processQueuedFirmwareRx E (Some D) (frame_from w (to, FirmwareEnd, corr, appendLe32 n @ appendLe32 crc)))
     (\<lambda>v t. v = Some True \<and> fn_ota t = m \<and> fn_last_image_path t = path \<and> statuses (g_calls t) = statuses (g_calls s) @
        [(w, \<lparr>fs_kind = kFirmwareStatusKindFinalizeOk, fs_transfer_corr_id = corr, fs_offset_bytes = n, fs_status_code = 0\<rparr>)]) s"
  unfolding frame_program
proof (rule wp_blink)
  fix a :: unit and t
  assume t: "silent s t"
  show "wp (handleFirmwareEnd E (Some D) w corr (Some (appendLe32 n @ appendLe32 crc)))
     (\<lambda>v t. v = Some True \<and> fn_ota t = m \<and> fn_last_image_path t = path \<and> statuses (g_calls t) = statuses (g_calls s) @
        [(w, \<lparr>fs_kind = kFirmwareStatusKindFinalizeOk, fs_transfer_corr_id = corr, fs_offset_bytes = n, fs_status_code = 0\<rparr>)]) t"
    using end_ota [of D w corr n crc t msg path m E] assms by (simp add: silent_members [OF t])
qed

lemma run_frame:
  assumes "transfer_ok E s" "mandatory_event_max_queue (m_cfg E) \<noteq> 0"
    and "wp (processQueuedFirmwareRx E F frame) (\<lambda>_. Q) s"
  shows "\<exists>t. transfer_ok E t \<and> Q t \<and> (\<forall>ops. fw_run E F (FwFrame frame # ops) s = fw_run E F ops t)"
proof -
  obtain v t where run: "run_state (processQueuedFirmwareRx E F frame) s = (v, t)" by fastforce
  from wp_run [OF frame_returns [OF assms(1,2)] run] wp_run [OF assms(3) run]
  obtain b where v: "v = Some b" and t: "well_behaved E s t" "Q t" by auto
  from v run have "fw_run E F (FwFrame frame # ops) s = fw_run E F ops t" for ops by simp
  with t show ?thesis by (auto simp: well_behaved_def)
qed

lemma run_chunks:
  assumes "mandatory_event_max_queue (m_cfg E) \<noteq> 0"
  shows "transfer_ok E s \<Longrightarrow> run_state (feed D w corr xs) (fn_ota s) = (vs, m) \<Longrightarrow>
     \<exists>t. transfer_ok E t \<and> fn_ota t = m
       \<and> (\<forall>ops. fw_run E (Some D) (map (\<lambda>(off, bs). FwFrame (frame_from w (to, FirmwareChunk, corr, appendLe32 off @ bs))) xs @ ops) s
            = fw_run E (Some D) ops t)"
proof (induction xs arbitrary: s vs)
  case (Cons x xs)
  obtain off bs where x: "x = (off, bs)" by fastforce
  obtain v m1 where w: "run_state (writeReceiveChunk D w corr off (Some bs)) (fn_ota s) = (v, m1)" by fastforce
  from Cons.prems(2) obtain vs' where f: "run_state (feed D w corr xs) m1 = (vs', m)"
    by (auto simp: x w State_Monad.bind_def split: prod.splits)
  from run_frame [OF Cons.prems(1) assms frame_chunk [OF w]]
  obtain t where t: "transfer_ok E t" "fn_ota t = m1"
    "\<And>ops. fw_run E (Some D) (FwFrame (frame_from w (to, FirmwareChunk, corr, appendLe32 off @ bs)) # ops) s = fw_run E (Some D) ops t"
    by blast
  from Cons.IH [OF t(1)] f t(2) obtain u where "transfer_ok E u" "fn_ota u = m"
    "\<forall>ops. fw_run E (Some D) (map (\<lambda>(off, bs). FwFrame (frame_from w (to, FirmwareChunk, corr, appendLe32 off @ bs))) xs @ ops) t
       = fw_run E (Some D) ops u" by blast
  then show ?case using t(3) by (auto simp: x)
qed (auto simp del: fw_run.simps)

lemma run_transfer:
  assumes s: "transfer_ok E s" and q: "mandatory_event_max_queue (m_cfg E) \<noteq> 0" and slave: "local_role (m_cfg E) = Slave"
    and md: "length (sw_version md) \<le> 63" "length (build_id md) \<le> 63" "length (target_role md) \<le> 15"
    and b: "run_state (beginReceive D w corr n k crc (Some md)) (fn_ota s) = (v, m1)"
    and f: "run_state (feed D w corr xs) m1 = (vs, m2)"
    and e: "run_state (endReceive D w corr n crc) m2 = ((True, msg, path), m3)"
  shows "\<exists>t cs. fw_run E (Some D) (map (\<lambda>x. FwFrame (frame_from w x)) (transfer_frames to n k crc corr md xs)) s = Some t
     \<and> fn_ota t = m3 \<and> fn_last_image_path t = path \<and> statuses (g_calls t) = cs @
        [(w, \<lparr>fs_kind = kFirmwareStatusKindFinalizeOk, fs_transfer_corr_id = corr, fs_offset_bytes = n, fs_status_code = 0\<rparr>)]"
proof -
  let ?opening = "frame_from w (to, FirmwareBegin, corr, appendLe32 n @ appendLe32 k @ appendLe32 crc @ firmware_meta_bytes md)"
  obtain t1 where t1: "transfer_ok E t1" "fn_ota t1 = m1"
    "\<And>ops. fw_run E (Some D) (FwFrame ?opening # ops) s = fw_run E (Some D) ops t1"
    using run_frame [OF s q frame_begin [OF begin_parsed [OF md] b]] by blast
  obtain t2 where t2: "transfer_ok E t2" "fn_ota t2 = m2"
    "\<And>ops. fw_run E (Some D) (map (\<lambda>(off, bs). FwFrame (frame_from w (to, FirmwareChunk, corr, appendLe32 off @ bs))) xs @ ops) t1
       = fw_run E (Some D) ops t2"
    using run_chunks [OF q t1(1), of D w corr xs] f t1(2) by metis
  have "wp (processQueuedFirmwareRx E (Some D) (frame_from w (to, FirmwareEnd, corr, appendLe32 n @ appendLe32 crc)))
     (\<lambda>_ t. fn_ota t = m3 \<and> fn_last_image_path t = path \<and> statuses (g_calls t) = statuses (g_calls t2) @
        [(w, \<lparr>fs_kind = kFirmwareStatusKindFinalizeOk, fs_transfer_corr_id = corr, fs_offset_bytes = n, fs_status_code = 0\<rparr>)]) t2"
    by (rule wp_mono [OF frame_end [OF _ slave q]]) (use e t2(2) in auto)
  from run_frame [OF t2(1) q this]
  obtain t3 where t3: "fn_ota t3 = m3" "fn_last_image_path t3 = path" "statuses (g_calls t3) = statuses (g_calls t2) @
        [(w, \<lparr>fs_kind = kFirmwareStatusKindFinalizeOk, fs_transfer_corr_id = corr, fs_offset_bytes = n, fs_status_code = 0\<rparr>)]"
    "\<And>ops. fw_run E (Some D) (FwFrame (frame_from w (to, FirmwareEnd, corr, appendLe32 n @ appendLe32 crc)) # ops) t2
       = fw_run E (Some D) ops t3" by metis
  have frames: "map (\<lambda>x. FwFrame (frame_from w x)) (transfer_frames to n k crc corr md xs) = FwFrame ?opening
      # map (\<lambda>(off, bs). FwFrame (frame_from w (to, FirmwareChunk, corr, appendLe32 off @ bs))) xs
      @ [FwFrame (frame_from w (to, FirmwareEnd, corr, appendLe32 n @ appendLe32 crc))]"
    by (simp add: transfer_frames_def comp_def case_prod_beta')
  show ?thesis
    unfolding frames t1(3) t2(3) t3(4) using t3 by simp
qed

end
