(* ===== verification/FirmwareProps.thy ===== *)
theory FirmwareProps
  imports FirmwareDelivery OtaProps
begin

text \<open>
  The properties of firmware transfers between nodes and of the queue of mandatory events, with
  concrete nodes for their witnesses.
\<close>

section \<open>A concrete node\<close>

definition sample_mgr :: mgr where
  "sample_mgr = \<lparr>g_local_mac = zeroMac, g_local_profile_id = 1, g_pairing = new_engine\<lparr>lstate := LsSecured\<rparr>,
     g_store = new_pstore, g_registry = [], g_now_ms = 0, g_has_time_sync_tx = False,
     g_last_time_sync_tx_ms = 0, g_calls = []\<rparr>"

definition sample_fnode :: fnode where
  "sample_fnode = fresh_fnode sample_mgr sample_ota"

lemma sample_start:
  "sample_ota = perform_all sample_ota_env [] (new_ota (default_config\<lparr>max_firmware_bytes := 4\<rparr>) False False)"
  "\<not> rs_active (o_receive sample_ota)" "max_firmware_bytes (o_config sample_ota) < 0x80000000"
  "mandatory_event_max_queue (m_cfg (quiet_menv r S)) \<noteq> 0" "m_events (quiet_menv r S)"
  by (simp_all add: sample_ota_def perform_all_def new_ota_def default_config_def new_session_def quiet_menv_def
      topo_config_def default_manager_config_def)

text \<open>The frames of the sample image, with both chunks, the second first.\<close>

definition sample_frame :: "MessageType \<Rightarrow> bytes \<Rightarrow> QueuedControlRx" where
  "sample_frame ty p = frame_from zeroMac (zeroMac, ty, 9, p)"

lemma begin_acks:
  assumes "parse_firmware_begin p = Some (n, k, crc, md)" "local_role (m_cfg E) = Slave"
    and "run_state (beginReceive D w corr n k crc (Some md)) (fn_ota s) = ((True, msg), m)"
  shows "wp (handleFirmwareBegin E (Some D) w corr (Some p)) (\<lambda>v t. statuses (g_calls t) = statuses (g_calls s) @
     [(w, \<lparr>fs_kind = kFirmwareStatusKindChunkAck, fs_transfer_corr_id = corr, fs_offset_bytes = 0, fs_status_code = 0\<rparr>)]) s"
  using assms(1,2) unfolding handleFirmwareBegin_def sink_begin_def
  by (auto simp: wp_rules wp_in_ota wp_program [OF assms(3)] intro!: wp_status)

section \<open>Frames return\<close>

text \<open>
  C16. No frame, timer or event hangs a node: after any operations of its OTA manager that leave no
  session open, with a configured image size below 2 GiB and a queue of at least one event, every
  sequence of queued firmware frames, status frames, timer ticks, published events, pairing changes
  and clock values is carried through, whatever storage, gate, clock and transport answer. With a queue
  of size 0 the first event a slave publishes reads the front of an empty queue.
\<close>

theorem firmware_frames_return:
  assumes "m = perform_all D ops0 (new_ota c gt ex)" "\<not> rs_active (o_receive m)"
    and "max_firmware_bytes (o_config m) < 0x80000000"
  shows "(mandatory_event_max_queue (m_cfg E) \<noteq> 0 \<longrightarrow> fw_run E F ops (fresh_fnode g m) \<noteq> None)
    \<and> (mandatory_event_max_queue (m_cfg E) = 0 \<and> local_role (m_cfg E) = Slave \<and> i \<noteq> 0 \<longrightarrow>
        fw_run E F (FwPublish i sev v ts # ops) (fresh_fnode g m) = None)"
proof -
  have "ota_ok m" unfolding assms(1) by (intro perform_all_ok ota_ok_new)
  from fresh_ok [OF this assms(2,3)] have ok: "transfer_ok E (fresh_fnode g m)" .
  have "wp (publishMandatoryEvent E i sev v ts) (\<lambda>v _. v = None) (fresh_fnode g m)"
    if "mandatory_event_max_queue (m_cfg E) = 0" "local_role (m_cfg E) = Slave" "i \<noteq> 0"
    using that by (simp add: publishMandatoryEvent_def wp_rules Let_def)
  then have "fst (run_state (publishMandatoryEvent E i sev v ts) (fresh_fnode g m)) = None"
    if "mandatory_event_max_queue (m_cfg E) = 0" "local_role (m_cfg E) = Slave" "i \<noteq> 0"
    using that by (simp add: wp_def split_beta)
  then show ?thesis
    using run_ok [OF _ ok, of F ops]
    by (cases "run_state (publishMandatoryEvent E i sev v ts) (fresh_fnode g m)") auto
qed

theorem firmware_frames_return_witness:
  "fw_run (quiet_menv Slave None) (Some sample_ota_env)
     [FwFrame (sample_frame FirmwareChunk [0, 0, 0, 0, 7]), FwRetry 5, FwQueue 5] (fresh_fnode sample_mgr sample_ota) \<noteq> None"
  using firmware_frames_return [OF sample_start(1-3)] sample_start(4) by blast

section \<open>Acknowledgements\<close>

text \<open>
  C11. A chunk acknowledgement is exact: whatever a node has been through, if a step puts a \<open>ChunkAck\<close>
  on the air, then its receiver and correlation id are those of the open session, and the offset
  it carries is the number of bytes of the image that have arrived without a gap, every chunk
  below it having been received.
\<close>

theorem firmware_acks_exact:
  assumes "m = perform_all D ops0 (new_ota c gt ex)" "\<not> rs_active (o_receive m)"
    and "max_firmware_bytes (o_config m) < 0x80000000" "mandatory_event_max_queue (m_cfg E) \<noteq> 0"
    and "fw_run E F ops (fresh_fnode g m) = Some s" "fw_run E F [op] s = Some t"
    and "statuses (g_calls t) = statuses (g_calls s) @ new" "(to, f) \<in> set new"
    and "fs_kind f = kFirmwareStatusKindChunkAck"
  shows "let r = o_receive (fn_ota t) in rs_active r \<and> to = rs_from r \<and> fs_transfer_corr_id f = rs_corr_id r
    \<and> (\<exists>j \<le> unat (rs_chunk_count r).
         unat (fs_offset_bytes f) = min (j * unat (rs_chunk_size r)) (unat (rs_expected_size r))
         \<and> (\<forall>i < j. isChunkReceived (of_nat i) r))"
proof -
  have "ota_ok m" unfolding assms(1) by (intro perform_all_ok ota_ok_new)
  from fresh_ok [OF this assms(2,3)] have "transfer_ok E (fresh_fnode g m)" .
  with run_ok [OF assms(4), of _ F ops] assms(5) have ok: "transfer_ok E s" by fastforce
  from assms(6) obtain b where "run_state (fw_program E F op) s = (Some b, t)" by (auto split: prod.splits option.splits)
  from wp_run [OF step_well_behaved [OF ok assms(4)] this] have t: "well_behaved E s t" by simp
  then have a: "acked (fn_ota t) (to, f)" using assms(7,8) by (auto simp: well_behaved_def list_all_iff)
  have "ota_ok (fn_ota t)" using t by (simp add: well_behaved_def transfer_ok_def)
  with a assms(9) show ?thesis
    by (auto simp: acked_def Let_def ota_ok_def session_ok_def cut_at_def prefix_to_def got_def)
qed

theorem firmware_acks_exact_witness:
  "\<exists>t. fw_run (quiet_menv Slave None) (Some sample_ota_env)
      [FwFrame (sample_frame FirmwareBegin (appendLe32 3 @ appendLe32 2 @ appendLe32 0))] sample_fnode = Some t
    \<and> rs_active (o_receive (fn_ota t)) \<and> rs_corr_id (o_receive (fn_ota t)) = 9"
proof -
  let ?E = "quiet_menv Slave None" and ?D = "sample_ota_env"
  let ?frame = "sample_frame FirmwareBegin (appendLe32 3 @ appendLe32 2 @ appendLe32 0)"
  obtain t where run: "fw_run ?E (Some ?D) [FwFrame ?frame] (fresh_fnode sample_mgr sample_ota) = Some t"
    using run_ok [OF sample_start(4) fresh_ok [OF sample_ota_ok sample_start(2,3)]] by blast
  have parse: "parse_firmware_begin (appendLe32 3 @ appendLe32 2 @ appendLe32 0) = Some (3, 2, 0, no_metadata)"
    by (simp add: parse_firmware_begin_def)
  have "(0 :: u32) < 3" "(3 :: u32) \<le> max_firmware_bytes (o_config sample_ota)" "(2 :: u32) \<noteq> 0"
    by (simp_all add: sample_config)
  from begin_works [OF sample_env_cooperates(2-4) this, of sample_ota zeroMac 9 0 "Some no_metadata"]
  obtain msg m where b: "run_state (beginReceive ?D zeroMac 9 3 2 0 (Some no_metadata)) sample_ota = ((True, msg), m)"
    by (auto simp: wp_def cfg_is_def split: prod.splits)
  have "wp (processQueuedFirmwareRx ?E (Some ?D) ?frame) (\<lambda>v t. statuses (g_calls t) =
     [(zeroMac, \<lparr>fs_kind = kFirmwareStatusKindChunkAck, fs_transfer_corr_id = 9, fs_offset_bytes = 0, fs_status_code = 0\<rparr>)])
     (fresh_fnode sample_mgr sample_ota)"
    unfolding sample_frame_def frame_program wp_bind [of "handleFirmwareBegin E F a b c" for E F a b c] wp_ret
  proof (rule wp_blink)
    fix a :: unit and t
    assume t: "silent (fresh_fnode sample_mgr sample_ota) t"
    have "statuses (g_calls t) = []" using silent_members(3) [OF t] by (simp add: sample_mgr_def statuses_def List.map_filter_def)
    then show "wp (handleFirmwareBegin ?E (Some ?D) zeroMac 9 (Some (appendLe32 3 @ appendLe32 2 @ appendLe32 0)))
        (\<lambda>_ t. statuses (g_calls t) = [(zeroMac, \<lparr>fs_kind = kFirmwareStatusKindChunkAck, fs_transfer_corr_id = 9,
           fs_offset_bytes = 0, fs_status_code = 0\<rparr>)]) t"
      using begin_acks [OF parse, of ?E ?D zeroMac 9 t msg m] b silent_members(1) [OF t] by simp
  qed
  then have "statuses (g_calls t) = statuses (g_calls (fresh_fnode sample_mgr sample_ota)) @
     [(zeroMac, \<lparr>fs_kind = kFirmwareStatusKindChunkAck, fs_transfer_corr_id = 9, fs_offset_bytes = 0, fs_status_code = 0\<rparr>)]"
    using run by (auto simp: wp_def sample_mgr_def statuses_def List.map_filter_def split: prod.splits option.splits)
  from firmware_acks_exact [OF sample_start(1-4) fw_run.simps(1) run this] run show ?thesis
    by (auto simp: Let_def sample_fnode_def)
qed

section \<open>Mandatory events\<close>

text \<open>
  C17. No mandatory event gets lost without a trace, except by unpairing: in every run, the queue
  never exceeds the configured size and holds one event per id, and an event that was queued at
  some point is, at any later point, still queued (perhaps with newer values for its id), or has in
  between been reported to the event sink as sent or as dropped, or was in the queue when a step in
  between (an unpair request received by a slave, a node that is no master asked to unpair, or the
  removal of a peer) discarded the whole queue, which it does without any report.
\<close>

theorem mandatory_events_accounted:
  assumes "fw_run E F ops0 (fresh_fnode g m) = Some s" "fw_run E F ops s = Some t" "m_events E"
  shows "length (fn_events t) \<le> unat (mandatory_event_max_queue (m_cfg E))
    \<and> distinct (queued t)
    \<and> (\<forall>i \<in> set (queued s). i \<in> set (queued t)
         \<or> reported i (drop (length (g_calls s)) (g_calls t))
         \<or> discarded E F ops s i)"
proof -
  have "events_since E s s" using run_accounts [OF fresh_events assms(1,3)] by blast
  from run_accounts [OF this assms(2,3)] obtain cs where cs: "g_calls t = g_calls s @ cs"
    "\<forall>i \<in> set (queued s). i \<in> set (queued t) \<or> reported i cs \<or> discarded E F ops s i" "events_since E t t" by blast
  then have "drop (length (g_calls s)) (g_calls t) = cs" by simp
  with cs(2,3) show ?thesis by (simp add: events_since_def)
qed

theorem mandatory_events_accounted_witness:
  "\<exists>s t. queued s = [5] \<and> fw_run (quiet_menv Slave None) None [FwQueue 100] s = Some t
     \<and> (5 \<in> set (queued t) \<or> reported 5 (drop (length (g_calls s)) (g_calls t)))"
proof -
  let ?E = "quiet_menv Slave None"
  note ok = run_ok [OF sample_start(4) fresh_ok [OF sample_ota_ok sample_start(2,3)], of Slave None]
  obtain s where s: "fw_run ?E None [FwPublish 5 1 0 0] (fresh_fnode sample_mgr sample_ota) = Some s" "transfer_ok ?E s"
    using ok by blast
  have "wp (publishMandatoryEvent ?E 5 1 0 0) (\<lambda>_ t. queued t = [5]) (fresh_fnode sample_mgr sample_ota)"
    using sample_start(4) [of Slave None]
    by (simp add: publishMandatoryEvent_def Let_def wp_rules queued_def unat_gt_0)
  then have q: "queued s = [5]" using s(1) by (auto simp: wp_def split: prod.splits option.splits)
  obtain t where t: "fw_run ?E None [FwQueue 100] s = Some t" using run_ok [OF sample_start(4) s(2)] by blast
  have "\<not> discarded ?E None [FwQueue 100] s 5"
    by (auto simp: discarded_def discards_event_def Cons_eq_append_conv)
  with mandatory_events_accounted [OF s(1) t sample_start(5)] q t show ?thesis by auto
qed

section \<open>A transfer between two nodes\<close>

text \<open>
  C2. Firmware sent is firmware received: a master that sends begin, every chunk at least once in
  whatever order, and end, puts frames on the air which, taken from its queue by a slave
  in any state it can be in, leave the image on the slave's disk under the path the sink reports,
  and make the slave report the transfer as complete, with the storage, gate, heap and clock of
  the OTA manager cooperating.
\<close>

theorem firmware_transfer_delivered:
  assumes fresh: "m = perform_all D ops0 (new_ota c gt ex)" "\<not> rs_active (o_receive m)"
      "max_firmware_bytes (o_config m) < 0x80000000"
    and s: "fw_run ES (Some D) ops (fresh_fnode g m) = Some s"
    and roles: "local_role (m_cfg EM) = Master" "local_role (m_cfg ES) = Slave" "mandatory_event_max_queue (m_cfg ES) \<noteq> 0"
    and env: "patient D (o_config (fn_ota s))" "storage_works D" "gate_open D" "heap_delivers D (o_config (fn_ota s))"
    and n: "0 < n" "n \<le> max_firmware_bytes (o_config (fn_ota s))" "k \<noteq> 0" "unat k + 4 \<le> kMaxPayload"
    and img: "length img = unat n" "set ks = {..<(unat n + unat k - 1) div unat k}"
    and md: "length (sw_version md) \<le> 63" "length (build_id md) \<le> 63" "length (target_role md) \<le> 15"
    and sent: "run_state (send_image EM to n k (crc32 img) corr (Some md) (map (chunk_of img (unat k)) ks)) u = (oks, u')"
      "on_air (g_calls u') = on_air (g_calls u) @ sent"
  shows "\<exists>t cs. fw_run ES (Some D) (map (\<lambda>x. FwFrame (frame_from w x)) sent) s = Some t
    \<and> disk D fs0 (fn_ota t) (fn_last_image_path t) = Some img
    \<and> statuses (g_calls t) = cs @ [(w, \<lparr>fs_kind = kFirmwareStatusKindFinalizeOk, fs_transfer_corr_id = corr,
         fs_offset_bytes = n, fs_status_code = 0\<rparr>)]"
proof -
  have "ota_ok m" unfolding fresh(1) by (intro perform_all_ok ota_ok_new)
  from run_ok [OF roles(3) fresh_ok [OF this fresh(2,3)], of "Some D" ops g] s
  have ok: "transfer_ok ES s" by auto
  then have o: "ota_ok (fn_ota s)" and lim: "max_firmware_bytes (o_config (fn_ota s)) < 0x80000000"
    by (simp_all add: transfer_ok_def)
  have nz: "n \<noteq> 0" and un: "unat n < 2 ^ 31" using n(1,2) lim by (auto simp: word_le_nat_alt word_less_nat_alt)
  have pos: "0 < unat n" "0 < unat k" using nz n(3) by (simp_all add: unat_gt_0)
  have size: "unat n + unat k + 7 \<le> 2 ^ 32" using un n(4) by (simp add: frame_sizes)
  have "bs \<noteq> [] \<and> length bs + 4 \<le> kMaxPayload" if "(off, bs) \<in> set (map (chunk_of img (unat k)) ks)" for off bs
  proof -
    from that img(2) obtain i where i: "i < (unat n + unat k - 1) div unat k" "bs = take (unat k) (drop (i * unat k) img)"
      by (auto simp: chunk_of_def)
    then have "i * unat k \<le> ((unat n + unat k - 1) div unat k - 1) * unat k" by (intro mult_le_mono1) simp
    also have "\<dots> < unat n" by (rule chunk_ceiling(2) [OF pos refl])
    finally have "i * unat k < unat n" .
    then show ?thesis using i(2) pos n(4) img(1) by auto
  qed
  then have xs: "\<forall>(off, bs) \<in> set (map (chunk_of img (unat k)) ks). bs \<noteq> [] \<and> length bs + 4 \<le> kMaxPayload" by blast
  from wp_run [OF wp_send_image [OF roles(1) nz n(3) md xs] sent(1)] sent(2)
  have air: "sent = transfer_frames to n k (crc32 img) corr md (map (chunk_of img (unat k)) ks)"
    by (auto simp: quiet_since_def)
  obtain m1 s1 vs s2 m2 path s3 where
    "run_state (beginReceive D w corr n k (crc32 img) (Some md)) (fn_ota s) = ((True, m1), s1)"
    "run_state (feed D w corr (map (chunk_of img (unat k)) ks)) s1 = (vs, s2)"
    "run_state (endReceive D w corr n (crc32 img)) s2 = ((True, m2, path), s3)" "disk D fs0 s3 path = Some img"
    using transfer_completes [OF o env n(1-3) size img(1) refl img(2), of w corr "Some md" fs0] by metis
  with run_transfer [OF ok roles(3,2) md this(1-3), of to] show ?thesis
    unfolding air by auto
qed

theorem firmware_transfer_delivered_witness:
  "\<exists>sent t. fw_run (quiet_menv Slave None) (Some sample_ota_env) (map (\<lambda>x. FwFrame (frame_from zeroMac x)) sent) sample_fnode = Some t
     \<and> disk sample_ota_env Map.empty (fn_ota t) (fn_last_image_path t) = Some [0x31, 0x32, 0x33]"
proof -
  let ?xs = "map (chunk_of sample_image (unat (2 :: u32))) [1, 0]"
  obtain oks u' where run: "run_state (send_image (quiet_menv Master None) zeroMac 3 2 (crc32 sample_image) 9
      (Some no_metadata) ?xs) sample_mgr = (oks, u')" by fastforce
  have md: "length (sw_version no_metadata) \<le> 63" "length (build_id no_metadata) \<le> 63" "length (target_role no_metadata) \<le> 15"
    by (simp_all add: no_metadata_def)
  have xs: "\<forall>(off, bs) \<in> set ?xs. bs \<noteq> [] \<and> length bs + 4 \<le> kMaxPayload"
    by (simp add: chunk_of_def sample_image_def frame_sizes)
  have "on_air (g_calls u') = on_air (g_calls sample_mgr) @ transfer_frames zeroMac 3 2 (crc32 sample_image) 9 no_metadata ?xs"
    using wp_run [OF wp_send_image [OF _ _ _ md xs] run] by (simp add: quiet_since_def)
  moreover have "set [1, 0] = {..<(unat (3 :: u32) + unat (2 :: u32) - 1) div unat (2 :: u32)}" by auto
  ultimately show ?thesis
    using firmware_transfer_delivered [OF sample_start(1-3), where ES = "quiet_menv Slave None" and ops = "[]"
        and g = sample_mgr and s = "fresh_fnode sample_mgr sample_ota" and EM = "quiet_menv Master None" and n = 3 and k = 2
        and img = sample_image and ks = "[1, 0]" and md = no_metadata and to = zeroMac and corr = 9 and u = sample_mgr
        and oks = oks and u' = u' and w = zeroMac and ?fs0.0 = Map.empty]
      run md sample_env_cooperates sample_start(4) [of Slave None]
    by (auto simp: sample_config sample_image_def frame_sizes sample_fnode_def)
qed

text \<open>
  What a begin frame carries is read back: sizes, checksum and the three texts of the metadata
  that \<open>sendFirmwareBegin\<close> was given are what the receiver parses from the frame on the air, whether
  the time was put in front or not, in both versions of the metadata.
\<close>

lemma firmware_begin_roundtrip:
  assumes "local_role (m_cfg E) = Master" "n \<noteq> 0" "k \<noteq> 0"
    and "length (sw_version md) \<le> 63" "length (build_id md) \<le> 63" "length (target_role md) \<le> 15"
    and "run_state (sendFirmwareBegin E to n k crc corr (Some md)) s = (ok, t)"
  shows "\<exists>p. on_air (g_calls t) = on_air (g_calls s) @ [(to, FirmwareBegin, corr, p)]
    \<and> parse_firmware_begin p = Some (n, k, crc, md)"
proof -
  from wp_run [OF wp_send_begin [OF assms(1-6)] assms(7)] begin_parsed [OF assms(4-6), of n k crc]
  show ?thesis by (auto simp: quiet_since_def)
qed

section \<open>The final status\<close>

interpretation inactive: session_frame "\<lambda>s. \<not> rs_active (o_receive s)"
  by unfold_locales simp_all

text \<open>An accepted end closes the session and leaves the status code at \<open>OtaOk\<close>.\<close>

definition concludes :: "(bool \<times> string \<times> string) otam \<Rightarrow> bool" where
  "concludes m \<longleftrightarrow> (\<forall>s. wp m (\<lambda>v t. fst v \<longrightarrow> \<not> rs_active (o_receive t) \<and> st_code (o_status t) = OtaOk) s)"

lemma concludes_bind: "(\<And>a. concludes (f a)) \<Longrightarrow> concludes (State_Monad.bind m f)"
  by (fastforce simp: concludes_def wp_def split: prod.splits)

lemma concludes_if: "concludes m \<Longrightarrow> concludes n \<Longrightarrow> concludes (if b then m else n)"
  by simp

lemma concludes_refuse:
  "concludes (do { v \<leftarrow> fail_ota code msg; refuse_end v })" "concludes (do { v \<leftarrow> fail_session code msg; refuse_end v })"
  "concludes (refuse_end (False, msg))"
  by (simp_all add: concludes_def fail_session_def fail_ota_def clear_session_def set_status_def refuse_end_def wp_rules)

lemma concludes_publish: "concludes (publish_image E n crc)"
proof -
  have keep: "keeps (\<lambda>s. \<not> rs_active (o_receive s)) (writeReadyManifest E p n crc md)" for p md
    unfolding writeReadyManifest_def Let_def
    by (intro keeps_rules inactive.leaves_kept)
  show ?thesis
    unfolding concludes_def publish_image_def clear_session_def Let_def set_status_def
    by (auto simp: wp_rules new_session_def intro!: wp_mono [OF keepsD [OF keep]] split: prod.split)
qed

lemma concludes_end: "concludes (endReceive E w corr n crc)"
  unfolding endReceive_def flush_image_def Let_def
  by (auto intro!: concludes_bind concludes_if concludes_refuse concludes_publish split: option.split prod.split)

lemma end_again:
  assumes "\<not> rs_active (o_receive s)" "st_code (o_status s) = OtaOk"
  shows "wp (endReceive E w corr n crc) (\<lambda>v t. \<not> fst v \<and> st_code (o_status t) = OtaOk) s"
  using assms unfolding endReceive_def expireReceiveIfStale_def
  by (simp add: wp_rules Let_def validateSession_def refuse_end_def)

text \<open>Every accepted end frame leaves the OTA manager so.\<close>

lemma conclude_keeps_ota: "keeps (\<lambda>t. fn_ota t = m) (conclude_transfer E w corr n ok)"
proof -
  have status: "keeps (\<lambda>t :: fnode. fn_ota t = m) (sendFirmwareStatus E to c kind off code)" for to c kind off code
    unfolding keeps_def
  proof (intro allI impI)
    show "wp (sendFirmwareStatus E to c kind off code) (\<lambda>_ t. fn_ota t = m) t" if "fn_ota t = m" for t :: fnode
      by (rule wp_status) (simp add: same_members_def that)
  qed
  have epoch: "keeps (\<lambda>t :: fnode. fn_ota t = m) (m_nowEpochSec E)"
    by (simp add: keeps_def call_rules)
  have publish: "keeps (\<lambda>t. fn_ota t = m) (publishMandatoryEvent E i sev v ts)" for i sev v ts
    by (auto simp: keeps_def publishMandatoryEvent_def Let_def wp_rules wp_report split: list.split)
  show ?thesis
    unfolding conclude_transfer_def transfer_ready_def Let_def
    by (intro keeps_rules status epoch publish keeps_modify; simp)
qed

lemma end_accepted:
  "wp (handleFirmwareEnd E (Some D) w corr payload)
     (\<lambda>v t. v = Some True \<longrightarrow> \<not> rs_active (o_receive (fn_ota t)) \<and> st_code (o_status (fn_ota t)) = OtaOk) s"
proof -
  have kind: "wp (conclude_transfer E w corr n False) (\<lambda>v _. v \<noteq> Some True) u" for n u
    unfolding conclude_transfer_def Let_def if_False
    by (auto simp: wp_rules intro!: wp_status)
  have fin: "wp (endReceive D w corr n crc) (\<lambda>v t. fst v \<longrightarrow> \<not> rs_active (o_receive t) \<and> st_code (o_status t) = OtaOk) (fn_ota s)" for n crc
    using concludes_end by (simp add: concludes_def)
  have conclude: "wp (conclude_transfer E w corr n ok)
      (\<lambda>v t. v = Some True \<longrightarrow> \<not> rs_active (o_receive (fn_ota t)) \<and> st_code (o_status (fn_ota t)) = OtaOk) u"
    if "ok \<Longrightarrow> \<not> rs_active (o_receive (fn_ota u)) \<and> st_code (o_status (fn_ota u)) = OtaOk" for n ok u
  proof (cases ok)
    case True
    then show ?thesis
      by (intro wp_mono [OF keepsD [OF conclude_keeps_ota [of "fn_ota u"] refl]]) (use that in simp)
  next
    case False
    then show ?thesis by (auto intro!: wp_mono [OF kind])
  qed
  show ?thesis
    unfolding handleFirmwareEnd_def sink_end_def Let_def
    by (cases payload)
      (auto simp: wp_rules wp_in_ota intro!: wp_mono [OF fin] conclude)
qed

text \<open>
  C37. A repeated end frame takes the success back: if a slave has accepted an end frame, and so
  reported the transfer as complete, then the same frame taken from its queue once more makes it
  report the transfer as failed, with the status code \<open>InvalidState\<close>, and repeat that failure
  until the master acknowledges it, although the image is in place.
\<close>

theorem repeated_end_reports_failure:
  assumes "run_state (handleFirmwareEnd E (Some D) w corr payload) s = (Some True, s1)"
    and "local_role (m_cfg E) = Slave" and "run_state (handleFirmwareEnd E (Some D) w corr payload) s1 = (v, s2)"
  shows "v = Some False \<and> fz_pending (fn_finalize s2) \<and> fz_kind (fn_finalize s2) = kFirmwareStatusKindFinalizeFail
    \<and> fz_status_code (fn_finalize s2) = ota_code InvalidState
    \<and> (\<exists>off. statuses (g_calls s2) = statuses (g_calls s1) @
         [(w, \<lparr>fs_kind = kFirmwareStatusKindFinalizeFail, fs_transfer_corr_id = corr, fs_offset_bytes = off,
              fs_status_code = ota_code InvalidState\<rparr>)])"
proof -
  have s1: "\<not> rs_active (o_receive (fn_ota s1))" "st_code (o_status (fn_ota s1)) = OtaOk"
    using wp_run [OF end_accepted assms(1)] by simp_all
  obtain p where p: "payload = Some p" "length p = 8"
    using assms(1) by (cases payload) (auto simp: handleFirmwareEnd_def split: if_splits)
  let ?R = "\<lambda>t. fz_pending (fn_finalize t) \<and> fz_kind (fn_finalize t) = kFirmwareStatusKindFinalizeFail
    \<and> fz_status_code (fn_finalize t) = 6
    \<and> (\<exists>off. statuses (g_calls t) = statuses (g_calls s1) @
         [(w, \<lparr>fs_kind = kFirmwareStatusKindFinalizeFail, fs_transfer_corr_id = corr, fs_offset_bytes = off, fs_status_code = 6\<rparr>)])"
  have conclude: "wp (conclude_transfer E w corr n False) (\<lambda>v t. v = Some False \<and> ?R t) u"
    if "g_calls u = g_calls s1" "lastOtaStatusCode u = 0" for u n
    unfolding conclude_transfer_def Let_def if_False wp_bind [of "gets f" for f] wp_gets wp_bind [of "modify f" for f] wp_modify
      wp_bind [of "sendFirmwareStatus E a b c d e" for a b c d e] id_apply
    by (rule wp_status) (use that in \<open>auto simp: same_members_def wp_rules\<close>)
  have ok: "wp (endReceive D w corr n crc) (\<lambda>v t. \<not> fst v \<and> st_code (o_status t) = OtaOk) (fn_ota s1)" for n crc
    by (rule end_again [OF s1])
  have "wp (handleFirmwareEnd E (Some D) w corr payload) (\<lambda>v t. v = Some False \<and> ?R t) s1"
    unfolding handleFirmwareEnd_def sink_end_def p(1) prod.case option.case Let_def
      wp_bind [of "State_Monad.bind m f" for m f] wp_bind [of "in_ota m" for m] wp_in_ota wp_if
    by (auto simp: p(2) assms(2) wp_if wp_bind [of "modify f" for f] wp_modify wp_ret lastOtaStatusCode_def
        intro!: wp_mono [OF ok] conclude)
  from wp_run [OF this assms(3)] show ?thesis by simp
qed

theorem repeated_end_reports_failure_witness:
  "\<exists>p s s1 s2. run_state (handleFirmwareEnd (quiet_menv Slave None) (Some sample_ota_env) zeroMac 9 p) s = (Some True, s1)
     \<and> run_state (handleFirmwareEnd (quiet_menv Slave None) (Some sample_ota_env) zeroMac 9 p) s1 = (Some False, s2)
     \<and> fz_kind (fn_finalize s2) = kFirmwareStatusKindFinalizeFail"
proof -
  let ?E = "quiet_menv Slave None" and ?p = "Some (appendLe32 3 @ appendLe32 (crc32 sample_image))"
  have ks: "set [1, 0] = {..<(unat (3 :: u32) + unat (2 :: u32) - 1) div unat (2 :: u32)}" by auto
  have n: "(0 :: u32) < 3" "(3 :: u32) \<le> max_firmware_bytes (o_config sample_ota)" "(2 :: u32) \<noteq> 0"
    "unat (3 :: u32) + unat (2 :: u32) + 7 \<le> 2 ^ 32" "length sample_image = unat (3 :: u32)"
    by (simp_all add: sample_config sample_image_def)
  obtain m s2 path s3 where e: "run_state (endReceive sample_ota_env zeroMac 9 3 (crc32 sample_image)) s2 = ((True, m, path), s3)"
    using transfer_completes [OF sample_ota_ok sample_env_cooperates n refl ks, of zeroMac 9] by metis
  let ?s = "fresh_fnode sample_mgr s2"
  obtain v s4 where r: "run_state (handleFirmwareEnd ?E (Some sample_ota_env) zeroMac 9 ?p) ?s = (v, s4)" by fastforce
  have "wp (handleFirmwareEnd ?E (Some sample_ota_env) zeroMac 9 ?p) (\<lambda>v _. v = Some True) ?s"
    using e sample_start(4) by (intro wp_mono [OF end_ota [of _ _ _ _ _ _ m path s3]]) auto
  from wp_run [OF this r] have "v = Some True" by simp
  with r have r4: "run_state (handleFirmwareEnd ?E (Some sample_ota_env) zeroMac 9 ?p) ?s = (Some True, s4)" by simp
  obtain v' s5 where r5: "run_state (handleFirmwareEnd ?E (Some sample_ota_env) zeroMac 9 ?p) s4 = (v', s5)" by fastforce
  from repeated_end_reports_failure [OF r4 _ r5] r4 r5 show ?thesis by auto
qed

lemma sint_u32: "sint (now :: u32) = (if uint now < 2 ^ 31 then uint now else uint now - 2 ^ 32)"
proof (cases "uint now < 2 ^ 31")
  case True
  then have "(uint now + 2 ^ 31) mod 2 ^ 32 = uint now + 2 ^ 31" by simp
  then show ?thesis
    using True by (simp add: sint_uint signed_take_bit_eq_take_bit_shift take_bit_eq_mod)
next
  case False
  then have "(uint now + 2 ^ 31) mod 2 ^ 32 = uint now + 2 ^ 31 - 2 ^ 32"
    using uint_lt2p [of now] by (subst mod_pos_geq) simp_all
  then show ?thesis
    using False by (simp add: sint_uint signed_take_bit_eq_take_bit_shift take_bit_eq_mod)
qed

text \<open>
  A final status whose sending failed at first is never repeated once the uptime has passed
  \<open>2 ^ 31\<close> milliseconds: with the time of the last transmission still 0, the retry timer sends nothing
  at any such time. Below that, it sends the status once more to the peer of a paired slave, as soon
  as 400 ms have passed and until 12 s after the end frame.
\<close>

lemma final_status_not_repeated:
  assumes "local_role (m_cfg E) = Slave" "isPaired (g_pairing s)" "fz_pending (fn_finalize s)"
    and "fz_last_tx_ms (fn_finalize s) = 0"
  shows "(\<forall>ts t. (\<forall>now \<in> set ts. 0x80000000 \<le> now) \<and> fw_run E F (map FwRetry ts) s = Some t \<longrightarrow> g_calls t = g_calls s)
    \<and> (\<forall>now t. 400 \<le> now \<and> now < 0x80000000 \<and> sint (now - fz_started_ms (fn_finalize s)) < 12000
        \<and> fw_run E F [FwRetry now] s = Some t \<longrightarrow>
        statuses (g_calls t) = statuses (g_calls s) @
         [(fz_peer (fn_finalize s), \<lparr>fs_kind = fz_kind (fn_finalize s), fs_transfer_corr_id = fz_corr_id (fn_finalize s),
            fs_offset_bytes = fz_offset (fn_finalize s), fs_status_code = fz_status_code (fn_finalize s)\<rparr>)])"
proof -
  have neg: "sint now < 0" if "0x80000000 \<le> now" for now :: u32
    using that uint_lt2p [of now] by (simp add: sint_u32 word_le_def)
  have pos: "400 \<le> sint now" if "400 \<le> now" "now < 0x80000000" for now :: u32
    using that by (simp add: sint_u32 word_le_def word_less_def)
  let ?P = "\<lambda>t. fz_last_tx_ms (fn_finalize t) = 0 \<and> g_calls t = g_calls s"
  have quiet: "wp (tickOtaFinalizeStatusRetry E now) (\<lambda>_. ?P) t" if "?P t" "0x80000000 \<le> now" for t now
  proof -
    have early: "sint (now - fz_last_tx_ms (fn_finalize t)) < sint kFinalizeStatusRetryIntervalMs"
      using that(1) neg [OF that(2)] by (simp add: kFinalizeStatusRetryIntervalMs_def)
    show ?thesis
      unfolding tickOtaFinalizeStatusRetry_def Let_def wp_bind [of "gets f" for f] wp_gets id_apply if_P [OF early] wp_if wp_ret wp_modify
      using that(1) by (simp add: forget_finalize_def)
  qed
  have "?P t \<Longrightarrow> \<forall>now \<in> set ts. 0x80000000 \<le> now \<Longrightarrow> fw_run E F (map FwRetry ts) t = Some u \<Longrightarrow> ?P u" for ts t u
  proof (induction ts arbitrary: t)
    case (Cons now ts)
    obtain v where run: "run_state (tickOtaFinalizeStatusRetry E now) t = ((), v)"
      by (cases "run_state (tickOtaFinalizeStatusRetry E now) t") auto
    have "?P v" using wp_run [OF quiet run] Cons.prems by simp
    with Cons run show ?case by (auto simp: run_state_bind)
  qed simp
  then have never: "g_calls t = g_calls s"
    if "\<forall>now \<in> set ts. 0x80000000 \<le> now" "fw_run E F (map FwRetry ts) s = Some t" for ts t
    using that assms(4) by blast
  have "statuses (g_calls t) = statuses (g_calls s) @
         [(fz_peer (fn_finalize s), \<lparr>fs_kind = fz_kind (fn_finalize s), fs_transfer_corr_id = fz_corr_id (fn_finalize s),
            fs_offset_bytes = fz_offset (fn_finalize s), fs_status_code = fz_status_code (fn_finalize s)\<rparr>)]" (is "?R t")
    if "400 \<le> now" "now < 0x80000000" "sint (now - fz_started_ms (fn_finalize s)) < 12000"
      and run: "fw_run E F [FwRetry now] s = Some t" for now t
  proof -
    have due: "\<not> sint (now - fz_last_tx_ms (fn_finalize s)) < sint kFinalizeStatusRetryIntervalMs"
      "\<not> sint kFinalizeStatusRetryWindowMs \<le> sint (now - fz_started_ms (fn_finalize s))"
      using pos [OF that(1,2)] that(3) assms(4)
      by (simp_all add: kFinalizeStatusRetryIntervalMs_def kFinalizeStatusRetryWindowMs_def)
    have "wp (tickOtaFinalizeStatusRetry E now) (\<lambda>_ t. ?R t) s"
      unfolding tickOtaFinalizeStatusRetry_def Let_def wp_bind [of "gets f" for f] wp_gets id_apply
        if_not_P [OF due(1)] if_not_P [OF due(2)] wp_bind [of "sendFirmwareStatus E a b c d e" for a b c d e] wp_when wp_modify
      by (simp only: assms(1-3) simp_thms if_False wp_bind wp_when wp_modify, rule wp_status)
         (simp add: wp_when wp_modify)
    moreover obtain v where r: "run_state (tickOtaFinalizeStatusRetry E now) s = ((), v)"
      by (cases "run_state (tickOtaFinalizeStatusRetry E now) s") auto
    ultimately have "?R v" by (rule wp_run)
    moreover have "v = t" using r run by (simp add: run_state_bind)
    ultimately show ?thesis by simp
  qed
  with never show ?thesis by blast
qed

end
