(* ===== verification/Descriptor.thy ===== *)
theory Descriptor
  imports Tlv TopologyData
begin

text \<open>
  Descriptor queries, what a master asks of a slave: \<open>struct DescriptorQuery\<close> of \<open>descriptor.hpp\<close>,
  and the encoding of the default codec, \<open>encodeDescriptorQuery\<close> and \<open>parseDescriptorQuery\<close> of
  \<open>src/descriptor/descriptor.cpp\<close>. The type of a query is a byte, as the C++ enumeration holds
  whatever byte is cast to it.
\<close>

section \<open>Data\<close>

definition qUnknown :: u8 where "qUnknown = 0"
definition qGetDevice :: u8 where "qGetDevice = 1"
definition qGetCapabilities :: u8 where "qGetCapabilities = 2"
definition qGetTelemetry :: u8 where "qGetTelemetry = 3"
definition qPullTelemetry :: u8 where "qPullTelemetry = 4"
definition qGetLiveness :: u8 where "qGetLiveness = 5"
definition qGetTime :: u8 where "qGetTime = 6"
definition qSetTime :: u8 where "qSetTime = 7"
definition qGetSettings :: u8 where "qGetSettings = 8"
definition qGetNodeBundle :: u8 where "qGetNodeBundle = 9"
definition qGetSetting :: u8 where "qGetSetting = 10"
definition qSetSetting :: u8 where "qSetSetting = 11"
definition qGetLogStatus :: u8 where "qGetLogStatus = 12"
definition qReadLogChunk :: u8 where "qReadLogChunk = 13"
definition qClearLog :: u8 where "qClearLog = 14"
definition qSetLogControl :: u8 where "qSetLogControl = 15"
definition qGetStorageInfo :: u8 where "qGetStorageInfo = 16"
definition qListStoragePath :: u8 where "qListStoragePath = 17"
definition qStatStoragePath :: u8 where "qStatStoragePath = 18"
definition qFormatStorage :: u8 where "qFormatStorage = 19"
definition qGetOtaStatus :: u8 where "qGetOtaStatus = 20"
definition qGetOtaManifest :: u8 where "qGetOtaManifest = 21"
definition qRebuildOtaManifest :: u8 where "qRebuildOtaManifest = 22"
definition qClearOtaScope :: u8 where "qClearOtaScope = 23"
definition qGetOtaCapacity :: u8 where "qGetOtaCapacity = 24"
definition qGetOtaGateInfo :: u8 where "qGetOtaGateInfo = 25"
definition qApplyOtaImage :: u8 where "qApplyOtaImage = 26"
definition qTopologyStageClear :: u8 where "qTopologyStageClear = 27"
definition qTopologyStageBegin :: u8 where "qTopologyStageBegin = 28"
definition qTopologyStageSlotSet :: u8 where "qTopologyStageSlotSet = 29"
definition qTopologyStageGroupSet :: u8 where "qTopologyStageGroupSet = 30"
definition qTopologyStageFinalize :: u8 where "qTopologyStageFinalize = 31"
definition qTopologyCommit :: u8 where "qTopologyCommit = 32"
definition qTopologyStatus :: u8 where "qTopologyStatus = 33"
definition qTopologyTriggerSend :: u8 where "qTopologyTriggerSend = 34"

lemmas query_types = qUnknown_def qGetDevice_def qGetCapabilities_def qGetTelemetry_def qPullTelemetry_def
  qGetLiveness_def qGetTime_def qSetTime_def qGetSettings_def qGetNodeBundle_def qGetSetting_def qSetSetting_def
  qGetLogStatus_def qReadLogChunk_def qClearLog_def qSetLogControl_def qGetStorageInfo_def qListStoragePath_def
  qStatStoragePath_def qFormatStorage_def qGetOtaStatus_def qGetOtaManifest_def qRebuildOtaManifest_def
  qClearOtaScope_def qGetOtaCapacity_def qGetOtaGateInfo_def qApplyOtaImage_def qTopologyStageClear_def
  qTopologyStageBegin_def qTopologyStageSlotSet_def qTopologyStageGroupSet_def qTopologyStageFinalize_def
  qTopologyCommit_def qTopologyStatus_def qTopologyTriggerSend_def

definition kNodeBundleMaskSettings :: u8 where "kNodeBundleMaskSettings = 0x08"
definition kNodeBundleMaskAll :: u8 where "kNodeBundleMaskAll = 0x1F"

record DescriptorQuery =
  dq_type :: u8
  dq_key :: string
  dq_has_setting_id :: bool
  dq_setting_id :: u16
  dq_value :: string
  dq_time_epoch_s :: u64
  dq_paged :: bool
  dq_cursor :: u16
  dq_page_size :: u8
  dq_bundle_mask :: u8
  dq_log_offset :: u32
  dq_log_max_bytes :: u16
  dq_has_log_enable :: bool
  dq_log_enable :: bool
  dq_storage_path :: string
  dq_ota_scope :: string
  dq_ota_target :: string
  dq_schema_version :: u8
  dq_topology_version :: u32
  dq_index_neg :: u8
  dq_index_pos :: u8
  dq_slot_index :: u8
  dq_slot_enabled :: bool
  dq_peer :: mac
  dq_peer_role :: u8
  dq_group_id :: u8
  dq_relative_index :: u8
  dq_local_vi :: u8
  dq_peer_vi :: u8
  dq_axis_order :: u8
  dq_delay_ms :: u16
  dq_hold_ms :: u16
  dq_group_slot :: u8
  dq_group_enabled :: bool
  dq_group_seed :: bytes
  dq_target_index :: u8
  dq_direction :: u8
  dq_source_vi :: u8

definition no_query :: DescriptorQuery where
  "no_query = \<lparr>dq_type = qUnknown, dq_key = [], dq_has_setting_id = False, dq_setting_id = 0,
     dq_value = [], dq_time_epoch_s = 0, dq_paged = False, dq_cursor = 0, dq_page_size = 0,
     dq_bundle_mask = kNodeBundleMaskAll, dq_log_offset = 0, dq_log_max_bytes = 0, dq_has_log_enable = False,
     dq_log_enable = False, dq_storage_path = [], dq_ota_scope = [], dq_ota_target = [],
     dq_schema_version = 1, dq_topology_version = 0, dq_index_neg = 0, dq_index_pos = 0, dq_slot_index = 0,
     dq_slot_enabled = False, dq_peer = zeroMac, dq_peer_role = 0, dq_group_id = 0, dq_relative_index = 0,
     dq_local_vi = 0xFF, dq_peer_vi = 0xFF, dq_axis_order = 0, dq_delay_ms = 0, dq_hold_ms = 0,
     dq_group_slot = 0, dq_group_enabled = False, dq_group_seed = replicate 32 0, dq_target_index = 0,
     dq_direction = 0, dq_source_vi = 0xFF\<rparr>"

section \<open>Encoding\<close>

definition appendU16 :: "bytes \<Rightarrow> u8 \<Rightarrow> u16 \<Rightarrow> bytes option" where
  "appendU16 out tag v = appendTlv out tag 0x02 (Some (appendLe16 v)) 2"

definition appendBool :: "bytes \<Rightarrow> u8 \<Rightarrow> bool \<Rightarrow> bytes option" where
  "appendBool out tag v = appendTlv out tag 0x06 (Some [if v then 1 else 0]) 1"

definition appendUtf8 :: "bytes \<Rightarrow> u8 \<Rightarrow> string \<Rightarrow> bytes option" where
  "appendUtf8 out tag s =
     (if length s > 65535 then None
      else appendTlv out tag 0x09 (Some (string_bytes s)) (of_nat (length s)))"

definition supportsPaging :: "u8 \<Rightarrow> bool" where
  "supportsPaging ty \<longleftrightarrow> ty = qGetCapabilities \<or> ty = qGetTelemetry \<or> ty = qPullTelemetry
     \<or> ty = qGetNodeBundle \<or> ty = qGetSettings \<or> ty = qGetOtaManifest"

text \<open>A block of the encoder under its condition: it may fail, and then the encoder does.\<close>

definition block :: "bool \<Rightarrow> (bytes \<Rightarrow> bytes option) \<Rightarrow> bytes \<Rightarrow> bytes option" where
  "block c f out = (if c then f out else Some out)"

definition append_selector :: "DescriptorQuery \<Rightarrow> bytes \<Rightarrow> bytes option" where
  "append_selector q out =
     (let has_key = (dq_key q \<noteq> []) in
      if dq_has_setting_id q = has_key then None
      else if dq_has_setting_id q then appendTlv out 0x14 0x02 (Some (appendLe16 (dq_setting_id q))) 2
      else appendUtf8 out 0x11 (dq_key q))"

definition append_log_read :: "DescriptorQuery \<Rightarrow> bytes \<Rightarrow> bytes option" where
  "append_log_read q out = do {
     o1 \<leftarrow> appendTlvU32 out 0x30 (dq_log_offset q);
     appendTlv o1 0x31 0x02 (Some (appendLe16 (dq_log_max_bytes q))) 2 }"

definition append_stage_begin :: "DescriptorQuery \<Rightarrow> bytes \<Rightarrow> bytes option" where
  "append_stage_begin q out = do {
     o1 \<leftarrow> appendTlvU8 out 0x40 (dq_schema_version q);
     o2 \<leftarrow> appendTlvU32 o1 0x41 (dq_topology_version q);
     o3 \<leftarrow> appendTlvU8 o2 0x42 (dq_index_neg q);
     appendTlvU8 o3 0x43 (dq_index_pos q) }"

definition append_slot :: "DescriptorQuery \<Rightarrow> bytes \<Rightarrow> bytes option" where
  "append_slot q out = do {
     o1 \<leftarrow> appendTlvU8 out 0x44 (dq_slot_index q);
     o2 \<leftarrow> appendBool o1 0x45 (dq_slot_enabled q);
     o3 \<leftarrow> appendTlv o2 0x46 0x08 (Some (mac_bytes (dq_peer q))) 6;
     o4 \<leftarrow> appendTlvU8 o3 0x47 (dq_peer_role q);
     o5 \<leftarrow> appendTlvU8 o4 0x48 (dq_group_id q);
     o6 \<leftarrow> appendTlvU8 o5 0x49 (dq_relative_index q);
     o7 \<leftarrow> appendTlvU8 o6 0x4A (dq_local_vi q);
     o8 \<leftarrow> appendTlvU8 o7 0x4B (dq_peer_vi q);
     o9 \<leftarrow> appendTlvU8 o8 0x4C (dq_axis_order q);
     o10 \<leftarrow> appendU16 o9 0x4D (dq_delay_ms q);
     appendU16 o10 0x4E (dq_hold_ms q) }"

definition append_group :: "DescriptorQuery \<Rightarrow> bytes \<Rightarrow> bytes option" where
  "append_group q out = do {
     o1 \<leftarrow> appendTlvU8 out 0x50 (dq_group_slot q);
     o2 \<leftarrow> appendBool o1 0x51 (dq_group_enabled q);
     o3 \<leftarrow> appendTlvU8 o2 0x52 (dq_group_id q);
     block (dq_group_enabled q) (\<lambda>b. appendTlv b 0x53 0x08 (Some (dq_group_seed q)) 32) o3 }"

definition append_trigger :: "DescriptorQuery \<Rightarrow> bytes \<Rightarrow> bytes option" where
  "append_trigger q out = do {
     o1 \<leftarrow> appendTlvU8 out 0x54 (dq_target_index q);
     o2 \<leftarrow> appendTlvU8 o1 0x55 (dq_direction q);
     o3 \<leftarrow> appendU16 o2 0x56 (dq_delay_ms q);
     o4 \<leftarrow> appendU16 o3 0x57 (dq_hold_ms q);
     appendTlvU8 o4 0x58 (dq_source_vi q) }"

definition append_page :: "DescriptorQuery \<Rightarrow> bytes \<Rightarrow> bytes option" where
  "append_page q out = do {
     o1 \<leftarrow> appendBool out 0x15 True;
     o2 \<leftarrow> appendTlv o1 0x16 0x02 (Some (appendLe16 (dq_cursor q))) 2;
     appendTlvU8 o2 0x17 (dq_page_size q) }"

definition encodeDescriptorQuery :: "DescriptorQuery \<Rightarrow> bytes option" where
  "encodeDescriptorQuery q = (let ty = dq_type q in do {
     o1 \<leftarrow> appendTlvU8 [] 0x01 1;
     o2 \<leftarrow> appendTlvU8 o1 0x10 ty;
     o3 \<leftarrow> block (ty = qGetSetting \<or> ty = qSetSetting) (append_selector q) o2;
     o4 \<leftarrow> block (ty = qSetSetting) (\<lambda>b. appendUtf8 b 0x12 (dq_value q)) o3;
     o5 \<leftarrow> block (ty = qSetTime) (\<lambda>b. appendTlvU32 b 0x13 (ucast (dq_time_epoch_s q AND 0xFFFFFFFF))) o4;
     o6 \<leftarrow> block (ty = qGetNodeBundle)
            (\<lambda>b. appendTlvU8 b 0x59 (if dq_bundle_mask q = 0 then kNodeBundleMaskAll else dq_bundle_mask q)) o5;
     o7 \<leftarrow> block (ty = qReadLogChunk) (append_log_read q) o6;
     o8 \<leftarrow> block (ty = qSetLogControl) (\<lambda>b. appendBool b 0x32 (dq_log_enable q)) o7;
     o9 \<leftarrow> block (ty = qListStoragePath \<or> ty = qStatStoragePath)
            (block (dq_storage_path q \<noteq> []) (\<lambda>b. appendUtf8 b 0x33 (dq_storage_path q))) o8;
     o10 \<leftarrow> block (ty = qClearOtaScope \<and> dq_ota_scope q \<noteq> []) (\<lambda>b. appendUtf8 b 0x34 (dq_ota_scope q)) o9;
     o11 \<leftarrow> block (ty = qApplyOtaImage \<and> dq_ota_target q \<noteq> []) (\<lambda>b. appendUtf8 b 0x35 (dq_ota_target q)) o10;
     o12 \<leftarrow> block (ty = qTopologyStageBegin) (append_stage_begin q) o11;
     o13 \<leftarrow> block (ty = qTopologyStageSlotSet) (append_slot q) o12;
     o14 \<leftarrow> block (ty = qTopologyStageGroupSet) (append_group q) o13;
     o15 \<leftarrow> block (ty = qTopologyTriggerSend) (append_trigger q) o14;
     block (dq_paged q \<and> supportsPaging ty) (append_page q) o15 })"

section \<open>Parsing\<close>

text \<open>The loop body: what a record of the buffer sets; the flag is \<open>have_type\<close>.\<close>

definition query_body :: "u8 \<Rightarrow> u8 \<Rightarrow> bytes \<Rightarrow> bool \<times> DescriptorQuery \<Rightarrow> (DescriptorQuery, bool \<times> DescriptorQuery) tlv_step" where
  "query_body tag ty v st =
     (let n = length v; have = fst st; q = snd st; set = (\<lambda>r. Continue (have, r)) in
      if tag = 0x10 \<and> ty = 0x01 \<and> n = 1 then Continue (True, q\<lparr>dq_type := v ! 0\<rparr>)
      else if tag = 0x11 \<and> ty = 0x09 then set (q\<lparr>dq_key := string_of_bytes v\<rparr>)
      else if tag = 0x12 \<and> ty = 0x09 then set (q\<lparr>dq_value := string_of_bytes v\<rparr>)
      else if tag = 0x13 \<and> ty = 0x03 \<and> n = 4 then set (q\<lparr>dq_time_epoch_s := ucast (readLe32 v)\<rparr>)
      else if tag = 0x14 \<and> ty = 0x02 \<and> n = 2 then set (q\<lparr>dq_setting_id := readLe16 v, dq_has_setting_id := True\<rparr>)
      else if tag = 0x15 \<and> ty = 0x06 \<and> n = 1 then set (q\<lparr>dq_paged := (v ! 0 \<noteq> 0)\<rparr>)
      else if tag = 0x16 \<and> ty = 0x02 \<and> n = 2 then set (q\<lparr>dq_cursor := readLe16 v\<rparr>)
      else if tag = 0x17 \<and> ty = 0x01 \<and> n = 1 then set (q\<lparr>dq_page_size := v ! 0\<rparr>)
      else if tag = 0x30 \<and> ty = 0x03 \<and> n = 4 then set (q\<lparr>dq_log_offset := readLe32 v\<rparr>)
      else if tag = 0x31 \<and> ty = 0x02 \<and> n = 2 then set (q\<lparr>dq_log_max_bytes := readLe16 v\<rparr>)
      else if tag = 0x32 \<and> ty = 0x06 \<and> n = 1 then set (q\<lparr>dq_has_log_enable := True, dq_log_enable := (v ! 0 \<noteq> 0)\<rparr>)
      else if tag = 0x33 \<and> ty = 0x09 then set (q\<lparr>dq_storage_path := string_of_bytes v\<rparr>)
      else if tag = 0x34 \<and> ty = 0x09 then set (q\<lparr>dq_ota_scope := string_of_bytes v\<rparr>)
      else if tag = 0x35 \<and> ty = 0x09 then set (q\<lparr>dq_ota_target := string_of_bytes v\<rparr>)
      else if tag = 0x40 \<and> ty = 0x01 \<and> n = 1 then set (q\<lparr>dq_schema_version := v ! 0\<rparr>)
      else if tag = 0x41 \<and> ty = 0x03 \<and> n = 4 then set (q\<lparr>dq_topology_version := readLe32 v\<rparr>)
      else if tag = 0x42 \<and> ty = 0x01 \<and> n = 1 then set (q\<lparr>dq_index_neg := v ! 0\<rparr>)
      else if tag = 0x43 \<and> ty = 0x01 \<and> n = 1 then set (q\<lparr>dq_index_pos := v ! 0\<rparr>)
      else if tag = 0x44 \<and> ty = 0x01 \<and> n = 1 then set (q\<lparr>dq_slot_index := v ! 0\<rparr>)
      else if tag = 0x45 \<and> ty = 0x06 \<and> n = 1 then set (q\<lparr>dq_slot_enabled := (v ! 0 \<noteq> 0)\<rparr>)
      else if tag = 0x46 \<and> ty = 0x08 \<and> n = 6 then set (q\<lparr>dq_peer := mac_of v\<rparr>)
      else if tag = 0x47 \<and> ty = 0x01 \<and> n = 1 then set (q\<lparr>dq_peer_role := v ! 0\<rparr>)
      else if tag = 0x48 \<and> ty = 0x01 \<and> n = 1 then set (q\<lparr>dq_group_id := v ! 0\<rparr>)
      else if tag = 0x49 \<and> ty = 0x01 \<and> n = 1 then set (q\<lparr>dq_relative_index := v ! 0\<rparr>)
      else if tag = 0x4A \<and> ty = 0x01 \<and> n = 1 then set (q\<lparr>dq_local_vi := v ! 0\<rparr>)
      else if tag = 0x4B \<and> ty = 0x01 \<and> n = 1 then set (q\<lparr>dq_peer_vi := v ! 0\<rparr>)
      else if tag = 0x4C \<and> ty = 0x01 \<and> n = 1 then set (q\<lparr>dq_axis_order := v ! 0\<rparr>)
      else if tag = 0x4D \<and> ty = 0x02 \<and> n = 2 then set (q\<lparr>dq_delay_ms := readLe16 v\<rparr>)
      else if tag = 0x4E \<and> ty = 0x02 \<and> n = 2 then set (q\<lparr>dq_hold_ms := readLe16 v\<rparr>)
      else if tag = 0x50 \<and> ty = 0x01 \<and> n = 1 then set (q\<lparr>dq_group_slot := v ! 0\<rparr>)
      else if tag = 0x51 \<and> ty = 0x06 \<and> n = 1 then set (q\<lparr>dq_group_enabled := (v ! 0 \<noteq> 0)\<rparr>)
      else if tag = 0x52 \<and> ty = 0x01 \<and> n = 1 then set (q\<lparr>dq_group_id := v ! 0\<rparr>)
      else if tag = 0x53 \<and> ty = 0x08 \<and> n = 32 then set (q\<lparr>dq_group_seed := v\<rparr>)
      else if tag = 0x54 \<and> ty = 0x01 \<and> n = 1 then set (q\<lparr>dq_target_index := v ! 0\<rparr>)
      else if tag = 0x55 \<and> ty = 0x01 \<and> n = 1 then set (q\<lparr>dq_direction := v ! 0\<rparr>)
      else if tag = 0x56 \<and> ty = 0x02 \<and> n = 2 then set (q\<lparr>dq_delay_ms := readLe16 v\<rparr>)
      else if tag = 0x57 \<and> ty = 0x02 \<and> n = 2 then set (q\<lparr>dq_hold_ms := readLe16 v\<rparr>)
      else if tag = 0x58 \<and> ty = 0x01 \<and> n = 1 then set (q\<lparr>dq_source_vi := v ! 0\<rparr>)
      else if tag = 0x59 \<and> ty = 0x01 \<and> n = 1 then set (q\<lparr>dq_bundle_mask := v ! 0\<rparr>)
      else Continue st)"

text \<open>The tests after the loop, in their order.\<close>

definition query_valid :: "DescriptorQuery \<Rightarrow> bool" where
  "query_valid q = (let ty = dq_type q in
     if (ty = qGetSetting \<or> ty = qSetSetting) \<and> dq_has_setting_id q = (dq_key q \<noteq> []) then False
     else if ty = qSetSetting \<and> dq_value q = [] then False
     else if ty = qSetTime \<and> dq_time_epoch_s q = 0 then False
     else if ty = qReadLogChunk \<and> dq_log_max_bytes q = 0 then False
     else if ty = qSetLogControl \<and> \<not> dq_has_log_enable q then False
     else if ty = qClearOtaScope \<and> dq_ota_scope q = [] then False
     else if ty = qApplyOtaImage \<and> dq_ota_target q = [] then False
     else if ty = qTopologyStageBegin \<and> dq_topology_version q = 0 then False
     else if ty = qTopologyStageSlotSet \<and> (unat (dq_slot_index q) \<ge> kTopologyMaxSlots
          \<or> dq_slot_enabled q \<and> (dq_peer_role q = 0 \<or> dq_relative_index q = 0 \<or> dq_group_id q = 0)) then False
     else if ty = qTopologyStageGroupSet \<and> (unat (dq_group_slot q) \<ge> kTopologyMaxGroups
          \<or> dq_group_enabled q \<and> dq_group_id q = 0) then False
     else if ty = qTopologyTriggerSend \<and> (dq_target_index q = 0 \<or> sint (dq_target_index q) < - int kTopologyMaxSlots
          \<or> sint (dq_target_index q) > int kTopologyMaxSlots
          \<or> dq_direction q \<noteq> 1 \<and> dq_direction q \<noteq> 2
          \<or> dq_source_vi q \<noteq> 0xFF \<and> dq_source_vi q > 0x0F) then False
     else ty \<noteq> qUnknown)"

definition masked_bundle :: "u8 \<Rightarrow> u8" where
  "masked_bundle m =
     (if m = 0 then kNodeBundleMaskAll
      else let k = m AND kNodeBundleMaskAll in if k = 0 then kNodeBundleMaskAll else k)"

definition query_fin :: "bool \<times> DescriptorQuery \<Rightarrow> DescriptorQuery option" where
  "query_fin st =
     (let q = snd st in
      if \<not> fst st \<or> \<not> query_valid q then None
      else Some (if dq_type q = qGetNodeBundle then q\<lparr>dq_bundle_mask := masked_bundle (dq_bundle_mask q)\<rparr> else q))"

definition parseDescriptorQuery :: "buf \<Rightarrow> DescriptorQuery option" where
  "parseDescriptorQuery payload =
     (case payload of
        None \<Rightarrow> None
      | Some bs \<Rightarrow> if length bs < 8 then None else tlv_walk query_body query_fin (False, no_query) bs)"

end
