(* ===== verification/DescriptorCodec.thy ===== *)
theory DescriptorCodec
  imports Descriptor
begin

text \<open>
  What the default codec does with a query: the records it writes, when it refuses to, and what the
  receiver reads from them. \<open>carried\<close> is a query reduced to the fields its type transports.
\<close>

section \<open>Runs over records\<close>

fun tlv_run :: "(u8 \<Rightarrow> u8 \<Rightarrow> bytes \<Rightarrow> 's \<Rightarrow> ('r, 's) tlv_step) \<Rightarrow> ('s \<Rightarrow> 'r option) \<Rightarrow> 's \<Rightarrow> (u8 \<times> u8 \<times> bytes) list \<Rightarrow> 'r option" where
  "tlv_run body fin st [] = fin st"
| "tlv_run body fin st ((tag, ty, v) # rs) =
     (case body tag ty v st of Return r \<Rightarrow> r | Continue st' \<Rightarrow> tlv_run body fin st' rs)"

definition records :: "(u8 \<times> u8 \<times> bytes) list \<Rightarrow> bytes" where
  "records rs = concat (map (\<lambda>(tag, ty, v). tlv tag ty v) rs)"

lemma records_simps [simp]:
  "records [] = []" "records ((tag, ty, v) # rs) = tlv tag ty v @ records rs"
  "records (xs @ ys) = records xs @ records ys"
  by (simp_all add: records_def)

lemma tlv_walk_records:
  "\<forall>(tag, ty, v) \<in> set rs. length v < 65536 \<Longrightarrow> tlv_walk body fin st (records rs) = tlv_run body fin st rs"
proof (induction rs arbitrary: st)
  case (Cons r rs)
  obtain tag ty v where r: "r = (tag, ty, v)" by (cases r)
  show ?case
    using Cons unfolding r by (simp add: tlv_walk_record split: tlv_step.split)
qed simp

section \<open>What is written\<close>

lemma appendUtf8_eq:
  "appendUtf8 out tag s = (if length s \<le> 65535 then Some (out @ tlv tag 0x09 (string_bytes s)) else None)"
proof (cases "s = []")
  case True
  then show ?thesis by (simp add: appendUtf8_def appendTlv_def tlv_def string_bytes_def)
next
  case False
  then have "0 < length (string_bytes s)" by simp
  then show ?thesis
    using False appendTlv_bytes [of "string_bytes s" "of_nat (length s)" out tag 9]
    by (auto simp: appendUtf8_def unat_of_nat not_le)
qed

lemma append_fields [simp]:
  "appendU16 out tag w = Some (out @ tlv tag 0x02 (appendLe16 w))"
  "appendBool out tag b = Some (out @ tlv tag 0x06 [if b then 1 else 0])"
  "appendTlv out tag ty (Some (appendLe16 w)) 2 = Some (out @ tlv tag ty (appendLe16 w))"
  "appendTlv out tag ty (Some (mac_bytes m)) 6 = Some (out @ tlv tag ty (mac_bytes m))"
  by (simp_all add: appendU16_def appendBool_def appendTlv_bytes)

definition page_records :: "DescriptorQuery \<Rightarrow> (u8 \<times> u8 \<times> bytes) list" where
  "page_records q =
     (if dq_paged q \<and> supportsPaging (dq_type q)
      then [(0x15, 0x06, [1]), (0x16, 0x02, appendLe16 (dq_cursor q)), (0x17, 0x01, [dq_page_size q])] else [])"

definition field_records :: "DescriptorQuery \<Rightarrow> (u8 \<times> u8 \<times> bytes) list" where
  "field_records q = (let ty = dq_type q;
     selector = (if dq_has_setting_id q then (0x14, 0x02, appendLe16 (dq_setting_id q)) else (0x11, 0x09, string_bytes (dq_key q)));
     flag = (\<lambda>b. [if b then 1 else 0]);
     path = (\<lambda>tag s. if s = [] then [] else [(tag, 0x09, string_bytes s)]) in
     if ty = qGetSetting then [selector]
     else if ty = qSetSetting then [selector, (0x12, 0x09, string_bytes (dq_value q))]
     else if ty = qSetTime then [(0x13, 0x03, appendLe32 (ucast (dq_time_epoch_s q AND 0xFFFFFFFF)))]
     else if ty = qGetNodeBundle
       then [(0x59, 0x01, [if dq_bundle_mask q = 0 then kNodeBundleMaskAll else dq_bundle_mask q])]
     else if ty = qReadLogChunk
       then [(0x30, 0x03, appendLe32 (dq_log_offset q)), (0x31, 0x02, appendLe16 (dq_log_max_bytes q))]
     else if ty = qSetLogControl then [(0x32, 0x06, flag (dq_log_enable q))]
     else if ty = qListStoragePath \<or> ty = qStatStoragePath then path 0x33 (dq_storage_path q)
     else if ty = qClearOtaScope then path 0x34 (dq_ota_scope q)
     else if ty = qApplyOtaImage then path 0x35 (dq_ota_target q)
     else if ty = qTopologyStageBegin
       then [(0x40, 0x01, [dq_schema_version q]), (0x41, 0x03, appendLe32 (dq_topology_version q)),
             (0x42, 0x01, [dq_index_neg q]), (0x43, 0x01, [dq_index_pos q])]
     else if ty = qTopologyStageSlotSet
       then [(0x44, 0x01, [dq_slot_index q]), (0x45, 0x06, flag (dq_slot_enabled q)),
             (0x46, 0x08, mac_bytes (dq_peer q)), (0x47, 0x01, [dq_peer_role q]),
             (0x48, 0x01, [dq_group_id q]), (0x49, 0x01, [dq_relative_index q]),
             (0x4A, 0x01, [dq_local_vi q]), (0x4B, 0x01, [dq_peer_vi q]), (0x4C, 0x01, [dq_axis_order q]),
             (0x4D, 0x02, appendLe16 (dq_delay_ms q)), (0x4E, 0x02, appendLe16 (dq_hold_ms q))]
     else if ty = qTopologyStageGroupSet
       then [(0x50, 0x01, [dq_group_slot q]), (0x51, 0x06, flag (dq_group_enabled q)), (0x52, 0x01, [dq_group_id q])]
            @ (if dq_group_enabled q then [(0x53, 0x08, dq_group_seed q)] else [])
     else if ty = qTopologyTriggerSend
       then [(0x54, 0x01, [dq_target_index q]), (0x55, 0x01, [dq_direction q]), (0x56, 0x02, appendLe16 (dq_delay_ms q)),
             (0x57, 0x02, appendLe16 (dq_hold_ms q)), (0x58, 0x01, [dq_source_vi q])]
     else [])"

definition query_records :: "DescriptorQuery \<Rightarrow> (u8 \<times> u8 \<times> bytes) list" where
  "query_records q = [(0x01, 0x01, [1]), (0x10, 0x01, [dq_type q])] @ field_records q @ page_records q"

text \<open>When the encoder accepts a query: one selector, and no text longer than a record.\<close>

definition query_fits :: "DescriptorQuery \<Rightarrow> bool" where
  "query_fits q \<longleftrightarrow> (let ty = dq_type q in
     (ty = qGetSetting \<or> ty = qSetSetting \<longrightarrow> dq_has_setting_id q \<noteq> (dq_key q \<noteq> []))
     \<and> ((ty = qGetSetting \<or> ty = qSetSetting) \<longrightarrow> length (dq_key q) \<le> 65535)
     \<and> (ty = qSetSetting \<longrightarrow> length (dq_value q) \<le> 65535)
     \<and> (ty = qListStoragePath \<or> ty = qStatStoragePath \<longrightarrow> length (dq_storage_path q) \<le> 65535)
     \<and> (ty = qClearOtaScope \<longrightarrow> length (dq_ota_scope q) \<le> 65535)
     \<and> (ty = qApplyOtaImage \<longrightarrow> length (dq_ota_target q) \<le> 65535))"

lemma query_type_cases:
  obtains "ty = qGetSetting" | "ty = qSetSetting" | "ty = qSetTime" | "ty = qGetNodeBundle" | "ty = qReadLogChunk"
    | "ty = qSetLogControl" | "ty = qListStoragePath" | "ty = qStatStoragePath" | "ty = qClearOtaScope"
    | "ty = qApplyOtaImage" | "ty = qTopologyStageBegin" | "ty = qTopologyStageSlotSet"
    | "ty = qTopologyStageGroupSet" | "ty = qTopologyTriggerSend"
    | "ty \<notin> {qGetSetting, qSetSetting, qSetTime, qGetNodeBundle, qReadLogChunk, qSetLogControl, qListStoragePath,
        qStatStoragePath, qClearOtaScope, qApplyOtaImage, qTopologyStageBegin, qTopologyStageSlotSet,
        qTopologyStageGroupSet, qTopologyTriggerSend}"
  by blast

lemma seed_record: "length seed = 32 \<Longrightarrow> appendTlv out tag ty (Some seed) 32 = Some (out @ tlv tag ty seed)"
  by (rule appendTlv_bytes) simp_all

lemmas query_append_defs = append_selector_def append_log_read_def append_stage_begin_def append_slot_def
  append_group_def append_trigger_def append_page_def block_def

lemma append_page_eq: "block (dq_paged q \<and> supportsPaging (dq_type q)) (append_page q) out = Some (out @ records (page_records q))"
  by (simp add: block_def append_page_def page_records_def)

lemma encodeDescriptorQuery_eq:
  assumes "length (dq_group_seed q) = 32"
  shows "encodeDescriptorQuery q = (if query_fits q then Some (records (query_records q)) else None)"
  unfolding encodeDescriptorQuery_def Let_def append_page_eq
  by (cases "dq_type q" rule: query_type_cases)
     (simp_all add: query_append_defs query_fits_def query_records_def field_records_def appendUtf8_eq
        seed_record [OF assms] query_types Let_def)

section \<open>What is read back\<close>

lemma string_of_string_bytes_set [simp]: "string_of_bytes (string_bytes s) = s"
  by (rule string_of_string_bytes)

lemma query_body_simps [simp]:
  "query_body 0x01 0x01 v st = Continue st"
  "query_body 0x10 0x01 [x] (h, q) = Continue (True, q\<lparr>dq_type := x\<rparr>)"
  "query_body 0x11 0x09 v (h, q) = Continue (h, q\<lparr>dq_key := string_of_bytes v\<rparr>)"
  "query_body 0x12 0x09 v (h, q) = Continue (h, q\<lparr>dq_value := string_of_bytes v\<rparr>)"
  "query_body 0x13 0x03 (appendLe32 w) (h, q) = Continue (h, q\<lparr>dq_time_epoch_s := ucast w\<rparr>)"
  "query_body 0x14 0x02 (appendLe16 i) (h, q) = Continue (h, q\<lparr>dq_setting_id := i, dq_has_setting_id := True\<rparr>)"
  "query_body 0x15 0x06 [x] (h, q) = Continue (h, q\<lparr>dq_paged := (x \<noteq> 0)\<rparr>)"
  "query_body 0x16 0x02 (appendLe16 i) (h, q) = Continue (h, q\<lparr>dq_cursor := i\<rparr>)"
  "query_body 0x17 0x01 [x] (h, q) = Continue (h, q\<lparr>dq_page_size := x\<rparr>)"
  "query_body 0x30 0x03 (appendLe32 w) (h, q) = Continue (h, q\<lparr>dq_log_offset := w\<rparr>)"
  "query_body 0x31 0x02 (appendLe16 i) (h, q) = Continue (h, q\<lparr>dq_log_max_bytes := i\<rparr>)"
  "query_body 0x32 0x06 [x] (h, q) = Continue (h, q\<lparr>dq_has_log_enable := True, dq_log_enable := (x \<noteq> 0)\<rparr>)"
  "query_body 0x33 0x09 v (h, q) = Continue (h, q\<lparr>dq_storage_path := string_of_bytes v\<rparr>)"
  "query_body 0x34 0x09 v (h, q) = Continue (h, q\<lparr>dq_ota_scope := string_of_bytes v\<rparr>)"
  "query_body 0x35 0x09 v (h, q) = Continue (h, q\<lparr>dq_ota_target := string_of_bytes v\<rparr>)"
  by (simp_all add: query_body_def)

lemma query_body_topology [simp]:
  "query_body 0x40 0x01 [x] (h, q) = Continue (h, q\<lparr>dq_schema_version := x\<rparr>)"
  "query_body 0x41 0x03 (appendLe32 w) (h, q) = Continue (h, q\<lparr>dq_topology_version := w\<rparr>)"
  "query_body 0x42 0x01 [x] (h, q) = Continue (h, q\<lparr>dq_index_neg := x\<rparr>)"
  "query_body 0x43 0x01 [x] (h, q) = Continue (h, q\<lparr>dq_index_pos := x\<rparr>)"
  "query_body 0x44 0x01 [x] (h, q) = Continue (h, q\<lparr>dq_slot_index := x\<rparr>)"
  "query_body 0x45 0x06 [x] (h, q) = Continue (h, q\<lparr>dq_slot_enabled := (x \<noteq> 0)\<rparr>)"
  "query_body 0x46 0x08 (mac_bytes m) (h, q) = Continue (h, q\<lparr>dq_peer := m\<rparr>)"
  "query_body 0x47 0x01 [x] (h, q) = Continue (h, q\<lparr>dq_peer_role := x\<rparr>)"
  "query_body 0x48 0x01 [x] (h, q) = Continue (h, q\<lparr>dq_group_id := x\<rparr>)"
  "query_body 0x49 0x01 [x] (h, q) = Continue (h, q\<lparr>dq_relative_index := x\<rparr>)"
  "query_body 0x4A 0x01 [x] (h, q) = Continue (h, q\<lparr>dq_local_vi := x\<rparr>)"
  "query_body 0x4B 0x01 [x] (h, q) = Continue (h, q\<lparr>dq_peer_vi := x\<rparr>)"
  "query_body 0x4C 0x01 [x] (h, q) = Continue (h, q\<lparr>dq_axis_order := x\<rparr>)"
  "query_body 0x4D 0x02 (appendLe16 i) (h, q) = Continue (h, q\<lparr>dq_delay_ms := i\<rparr>)"
  "query_body 0x4E 0x02 (appendLe16 i) (h, q) = Continue (h, q\<lparr>dq_hold_ms := i\<rparr>)"
  "query_body 0x50 0x01 [x] (h, q) = Continue (h, q\<lparr>dq_group_slot := x\<rparr>)"
  "query_body 0x51 0x06 [x] (h, q) = Continue (h, q\<lparr>dq_group_enabled := (x \<noteq> 0)\<rparr>)"
  "query_body 0x52 0x01 [x] (h, q) = Continue (h, q\<lparr>dq_group_id := x\<rparr>)"
  "length v = 32 \<Longrightarrow> query_body 0x53 0x08 v (h, q) = Continue (h, q\<lparr>dq_group_seed := v\<rparr>)"
  "query_body 0x54 0x01 [x] (h, q) = Continue (h, q\<lparr>dq_target_index := x\<rparr>)"
  "query_body 0x55 0x01 [x] (h, q) = Continue (h, q\<lparr>dq_direction := x\<rparr>)"
  "query_body 0x56 0x02 (appendLe16 i) (h, q) = Continue (h, q\<lparr>dq_delay_ms := i\<rparr>)"
  "query_body 0x57 0x02 (appendLe16 i) (h, q) = Continue (h, q\<lparr>dq_hold_ms := i\<rparr>)"
  "query_body 0x58 0x01 [x] (h, q) = Continue (h, q\<lparr>dq_source_vi := x\<rparr>)"
  "query_body 0x59 0x01 [x] (h, q) = Continue (h, q\<lparr>dq_bundle_mask := x\<rparr>)"
  using mac_of_bytes [of m "[]"] by (simp_all add: query_body_def)

definition carried_fields :: "DescriptorQuery \<Rightarrow> DescriptorQuery \<Rightarrow> DescriptorQuery" where
  "carried_fields q d = (let ty = dq_type q;
     selector = (if dq_has_setting_id q then (\<lambda>d. d\<lparr>dq_setting_id := dq_setting_id q, dq_has_setting_id := True\<rparr>)
                 else (\<lambda>d. d\<lparr>dq_key := dq_key q\<rparr>)) in
     if ty = qGetSetting then selector d
     else if ty = qSetSetting then (selector d)\<lparr>dq_value := dq_value q\<rparr>
     else if ty = qSetTime then d\<lparr>dq_time_epoch_s := ucast (ucast (dq_time_epoch_s q) :: u32)\<rparr>
     else if ty = qGetNodeBundle
       then d\<lparr>dq_bundle_mask := (if dq_bundle_mask q = 0 then kNodeBundleMaskAll else dq_bundle_mask q)\<rparr>
     else if ty = qReadLogChunk then d\<lparr>dq_log_offset := dq_log_offset q, dq_log_max_bytes := dq_log_max_bytes q\<rparr>
     else if ty = qSetLogControl then d\<lparr>dq_has_log_enable := True, dq_log_enable := dq_log_enable q\<rparr>
     else if ty = qListStoragePath \<or> ty = qStatStoragePath then d\<lparr>dq_storage_path := dq_storage_path q\<rparr>
     else if ty = qClearOtaScope then d\<lparr>dq_ota_scope := dq_ota_scope q\<rparr>
     else if ty = qApplyOtaImage then d\<lparr>dq_ota_target := dq_ota_target q\<rparr>
     else if ty = qTopologyStageBegin
       then d\<lparr>dq_schema_version := dq_schema_version q, dq_topology_version := dq_topology_version q,
              dq_index_neg := dq_index_neg q, dq_index_pos := dq_index_pos q\<rparr>
     else if ty = qTopologyStageSlotSet
       then d\<lparr>dq_slot_index := dq_slot_index q, dq_slot_enabled := dq_slot_enabled q, dq_peer := dq_peer q,
              dq_peer_role := dq_peer_role q, dq_group_id := dq_group_id q, dq_relative_index := dq_relative_index q,
              dq_local_vi := dq_local_vi q, dq_peer_vi := dq_peer_vi q, dq_axis_order := dq_axis_order q,
              dq_delay_ms := dq_delay_ms q, dq_hold_ms := dq_hold_ms q\<rparr>
     else if ty = qTopologyStageGroupSet
       then d\<lparr>dq_group_slot := dq_group_slot q, dq_group_enabled := dq_group_enabled q, dq_group_id := dq_group_id q,
              dq_group_seed := (if dq_group_enabled q then dq_group_seed q else replicate 32 0)\<rparr>
     else if ty = qTopologyTriggerSend
       then d\<lparr>dq_target_index := dq_target_index q, dq_direction := dq_direction q, dq_delay_ms := dq_delay_ms q,
              dq_hold_ms := dq_hold_ms q, dq_source_vi := dq_source_vi q\<rparr>
     else d)"

definition carried_page :: "DescriptorQuery \<Rightarrow> DescriptorQuery \<Rightarrow> DescriptorQuery" where
  "carried_page q d =
     (if dq_paged q \<and> supportsPaging (dq_type q)
      then d\<lparr>dq_paged := True, dq_cursor := dq_cursor q, dq_page_size := dq_page_size q\<rparr> else d)"

definition carried :: "DescriptorQuery \<Rightarrow> DescriptorQuery" where
  "carried q = carried_page q (carried_fields q (no_query\<lparr>dq_type := dq_type q\<rparr>))"

lemma tlv_run_append:
  "(\<And>tag ty v st x. body tag ty v st \<noteq> Return x) \<Longrightarrow>
   tlv_run body fin st (rs @ rs') = tlv_run body (\<lambda>st'. tlv_run body fin st' rs') st rs"
proof (induction rs arbitrary: st)
  case (Cons r rs)
  obtain tag ty v where r: "r = (tag, ty, v)" by (cases r)
  show ?case using Cons by (cases "body tag ty v st") (auto simp: r)
qed simp

lemma query_body_continues: "query_body tag ty v st \<noteq> Return x"
  by (simp add: query_body_def Let_def)

lemma run_page: "tlv_run query_body fin (h, d) (page_records q) = fin (h, carried_page q d)"
  by (simp add: page_records_def carried_page_def)

lemma and_low_u32: "(ucast (w AND 0xFFFFFFFF :: u64) :: u32) = ucast w"
proof -
  have m: "(0xFFFFFFFF :: u64) = mask 32" by (simp add: mask_eq_exp_minus_1)
  show ?thesis by (rule bit_word_eqI, unfold m) (auto simp: bit_simps dest: bit_imp_le_length)
qed

lemma run_fields:
  assumes "length (dq_group_seed q) = 32"
  shows "tlv_run query_body fin (h, no_query\<lparr>dq_type := ty\<rparr>) (field_records q)
     = fin (h, carried_fields q (no_query\<lparr>dq_type := ty\<rparr>))"
  using assms
  by (cases "dq_type q" rule: query_type_cases)
     (simp_all add: field_records_def carried_fields_def query_types Let_def and_low_u32 no_query_def)

lemma run_query:
  assumes "length (dq_group_seed q) = 32"
  shows "tlv_run query_body query_fin (False, no_query) (query_records q) = query_fin (True, carried q)"
proof -
  have "tlv_run query_body query_fin (True, no_query\<lparr>dq_type := dq_type q\<rparr>) (field_records q @ page_records q)
      = query_fin (True, carried q)"
    by (subst tlv_run_append) (simp_all add: query_body_continues run_fields [OF assms] run_page carried_def)
  then show ?thesis by (simp add: query_records_def)
qed

lemma query_records_short:
  "query_fits q \<Longrightarrow> length (dq_group_seed q) = 32 \<Longrightarrow> \<forall>(tag, ty, v) \<in> set (query_records q). length v < 65536"
  by (cases "dq_type q" rule: query_type_cases)
     (auto simp: query_records_def field_records_def page_records_def query_fits_def query_types Let_def split: if_splits)

lemma carried_simps [simp]: "dq_type (carried q) = dq_type q"
  by (simp add: carried_def carried_page_def carried_fields_def Let_def)

lemma parse_encoded:
  assumes "length (dq_group_seed q) = 32" "encodeDescriptorQuery q = Some p"
  shows "parseDescriptorQuery (Some p) = query_fin (True, carried q)"
proof -
  from assms have fits: "query_fits q" and p: "p = records (query_records q)"
    by (auto simp: encodeDescriptorQuery_eq split: if_splits)
  have "\<not> length p < 8" by (simp add: p query_records_def tlv_def)
  then show ?thesis
    using run_query [OF assms(1)] query_records_short [OF fits assms(1)]
    by (simp add: parseDescriptorQuery_def p tlv_walk_records)
qed

end
