(* ===== verification/Codecs.thy ===== *)
theory Codecs
  imports DescriptorCodec
begin

text \<open>
  The built-in profile codecs of \<open>src/descriptor/codecs\<close>, for queries, control commands and control
  results: the default one passes the record encoding through; packed, CBOR-lite and binary-map put
  a five-byte header in front of it; compact, varint and delta have a layout of their own, with a
  byte of flags and fields whose integers and strings each codec writes in its way (\<open>field_ops\<close>).
  A read at an offset fails, goes on, or leaves the buffer: \<open>size_t\<close> has 32 bits on the target, so a
  bound check by addition can wrap. A decoder returns \<open>None\<close> when that happens.
\<close>

section \<open>Writing and reading at an offset\<close>

definition putU8 :: "u8 \<Rightarrow> bytes \<Rightarrow> bytes option" where
  "putU8 v out = (if length out + 1 > kMaxPayload then None else Some (out @ [v]))"

definition putU16 :: "u16 \<Rightarrow> bytes \<Rightarrow> bytes option" where
  "putU16 v out = (if length out + 2 > kMaxPayload then None else Some (out @ appendLe16 v))"

definition putU32 :: "u32 \<Rightarrow> bytes \<Rightarrow> bytes option" where
  "putU32 v out = (if length out + 4 > kMaxPayload then None else Some (out @ appendLe32 v))"

definition putBytes :: "bytes \<Rightarrow> bytes \<Rightarrow> bytes option" where
  "putBytes bs out = (if length out + length bs > kMaxPayload then None else Some (out @ bs))"

definition putStr8 :: "string \<Rightarrow> bytes \<Rightarrow> bytes option" where
  "putStr8 s out =
     (if length s > 255 then None
      else if length out + (1 + length s) > kMaxPayload then None
      else Some (out @ [of_nat (length s)] @ string_bytes s))"

definition putStr16 :: "string \<Rightarrow> bytes \<Rightarrow> bytes option" where
  "putStr16 s out =
     (if length s > 0xFFFF then None
      else Option.bind (putU16 (of_nat (length s)) out) (putBytes (string_bytes s)))"

text \<open>The two loops of \<open>appendVarU32\<close>: the bytes needed, and the bytes.\<close>

lemma drop7_less: "0x80 \<le> (v :: u32) \<Longrightarrow> unat (drop_bit 7 v) < unat v"
proof -
  assume "0x80 \<le> v"
  then have "128 \<le> unat v" by (simp add: word_le_nat_alt)
  then have "unat v div 2 ^ 7 < unat v" by (intro div_less_dividend) auto
  then show ?thesis unfolding unat_drop_bit_eq unfolding drop_bit_eq_div .
qed

function var_need :: "u32 \<Rightarrow> nat" where
  "var_need t = (if t \<ge> 0x80 then Suc (var_need (drop_bit 7 t)) else 1)"
  by auto

termination
  by (relation "measure unat") (auto intro: drop7_less)

function var_bytes :: "u32 \<Rightarrow> bytes" where
  "var_bytes v =
     (if v \<ge> 0x80 then ucast ((v AND 0x7F) OR 0x80) # var_bytes (drop_bit 7 v) else [ucast (v AND 0x7F)])"
  by auto

termination
  by (relation "measure unat") (auto intro: drop7_less)

declare var_need.simps [simp del] var_bytes.simps [simp del]

definition putVarU32 :: "u32 \<Rightarrow> bytes \<Rightarrow> bytes option" where
  "putVarU32 v out = (if length out + var_need v > kMaxPayload then None else Some (out @ var_bytes v))"

definition putVarStr :: "string \<Rightarrow> bytes \<Rightarrow> bytes option" where
  "putVarStr s out = Option.bind (putVarU32 (of_nat (length s)) out) (putBytes (string_bytes s))"

datatype 'a rd = Fail | Wild | Got 'a nat

type_synonym 'a reader = "bytes \<Rightarrow> nat \<Rightarrow> 'a rd"

definition rd_then :: "'a reader \<Rightarrow> ('a \<Rightarrow> 'b reader) \<Rightarrow> 'b reader" where
  "rd_then m f = (\<lambda>p off. case m p off of Fail \<Rightarrow> Fail | Wild \<Rightarrow> Wild | Got a off' \<Rightarrow> f a p off')"

definition rd_give :: "'a \<Rightarrow> 'a reader" where
  "rd_give a = (\<lambda>p off. Got a off)"

definition rd_if :: "bool \<Rightarrow> 'a reader \<Rightarrow> ('a \<Rightarrow> 'b \<Rightarrow> 'b) \<Rightarrow> 'b \<Rightarrow> 'b reader" where
  "rd_if c m f q = (if c then rd_then m (\<lambda>a. rd_give (f a q)) else rd_give q)"

definition getU8 :: "u8 reader" where
  "getU8 p off = (if off + 1 > length p then Fail else Got (p ! off) (off + 1))"

definition getU16 :: "u16 reader" where
  "getU16 p off = (if off + 2 > length p then Fail else Got (readLe16 (drop off p)) (off + 2))"

definition getU32 :: "u32 reader" where
  "getU32 p off = (if off + 4 > length p then Fail else Got (readLe32 (drop off p)) (off + 4))"

text \<open>\<open>off + n > len\<close> on 32 bits: \<open>n\<close> bytes from \<open>off\<close>, or a run out of the buffer if the sum wraps.\<close>

definition getChars :: "nat \<Rightarrow> string reader" where
  "getChars n p off =
     (if unat (of_nat off + of_nat n :: u32) > length p then Fail
      else if off + n > length p then Wild
      else Got (string_of_bytes (take n (drop off p))) (off + n))"

definition getStr8 :: "string reader" where
  "getStr8 = rd_then getU8 (\<lambda>n. getChars (unat n))"

definition getStr16 :: "string reader" where
  "getStr16 = rd_then getU16 (\<lambda>n. getChars (unat n))"

text \<open>\<open>readVarU32\<close>: at most five bytes, the first argument counts them down.\<close>

fun getVar :: "nat \<Rightarrow> nat \<Rightarrow> u32 \<Rightarrow> u32 reader" where
  "getVar 0 shift acc p off = Fail"
| "getVar (Suc i) shift acc p off =
     (case getU8 p off of
        Fail \<Rightarrow> Fail
      | Wild \<Rightarrow> Wild
      | Got b off' \<Rightarrow>
          (let acc' = acc OR push_bit shift (ucast (b AND 0x7F)) in
           if b AND 0x80 = 0 then Got acc' off' else getVar i (shift + 7) acc' p off'))"

definition getVarU32 :: "u32 reader" where
  "getVarU32 = getVar 5 0 0"

definition getVarStr :: "string reader" where
  "getVarStr = rd_then getVarU32 (\<lambda>n. getChars (unat n))"

section \<open>Queries with flags\<close>

text \<open>How a codec writes and reads setting id and cursor, time, page size, and texts.\<close>

record field_ops =
  put_id :: "u16 \<Rightarrow> bytes \<Rightarrow> bytes option"
  get_id :: "u16 reader"
  put_time :: "u32 \<Rightarrow> bytes \<Rightarrow> bytes option"
  get_time :: "u32 reader"
  put_size :: "u8 \<Rightarrow> bytes \<Rightarrow> bytes option"
  get_size :: "u8 reader"
  put_text :: "string \<Rightarrow> bytes \<Rightarrow> bytes option"
  get_text :: "string reader"

definition compact_ops :: field_ops where
  "compact_ops = \<lparr>put_id = putU16, get_id = getU16, put_time = putU32, get_time = getU32,
     put_size = putU8, get_size = getU8, put_text = putStr8, get_text = getStr8\<rparr>"

definition delta_ops :: field_ops where
  "delta_ops = \<lparr>put_id = putU16, get_id = getU16, put_time = putU32, get_time = getU32,
     put_size = putU8, get_size = getU8, put_text = putStr16, get_text = getStr16\<rparr>"

definition varint_ops :: field_ops where
  "varint_ops = \<lparr>
     put_id = (\<lambda>v. putVarU32 (ucast v)), get_id = rd_then getVarU32 (\<lambda>v. rd_give (ucast (v AND 0xFFFF))),
     put_time = putVarU32, get_time = getVarU32,
     put_size = (\<lambda>v. putVarU32 (ucast v)), get_size = rd_then getVarU32 (\<lambda>v. rd_give (ucast (v AND 0xFF))),
     put_text = putVarStr, get_text = getVarStr\<rparr>"

definition query_flags :: "DescriptorQuery \<Rightarrow> u8" where
  "query_flags q =
     (if dq_key q \<noteq> [] then 0x01 else 0) OR (if dq_has_setting_id q then 0x02 else 0)
     OR (if dq_value q \<noteq> [] then 0x04 else 0) OR (if dq_time_epoch_s q \<noteq> 0 then 0x08 else 0)
     OR (if dq_paged q then 0x10 else 0) OR (if dq_paged q then 0x20 else 0) OR (if dq_paged q then 0x40 else 0)"

text \<open>Type, flags and fields behind what is already written.\<close>

definition put_flagged :: "field_ops \<Rightarrow> DescriptorQuery \<Rightarrow> bytes \<Rightarrow> bytes option" where
  "put_flagged F q out = do {
     o1 \<leftarrow> putU8 (dq_type q) out;
     o2 \<leftarrow> putU8 (query_flags q) o1;
     o3 \<leftarrow> block (dq_has_setting_id q) (put_id F (dq_setting_id q)) o2;
     o4 \<leftarrow> block (dq_time_epoch_s q \<noteq> 0) (put_time F (ucast (dq_time_epoch_s q AND 0xFFFFFFFF))) o3;
     o5 \<leftarrow> block (dq_paged q) (put_id F (dq_cursor q)) o4;
     o6 \<leftarrow> block (dq_paged q) (put_size F (dq_page_size q)) o5;
     o7 \<leftarrow> block (dq_key q \<noteq> []) (put_text F (dq_key q)) o6;
     block (dq_value q \<noteq> []) (put_text F (dq_value q)) o7 }"

definition selector_ok :: "DescriptorQuery \<Rightarrow> bool" where
  "selector_ok q \<longleftrightarrow> \<not> ((dq_type q = qGetSetting \<or> dq_type q = qSetSetting) \<and> (dq_key q \<noteq> []) = dq_has_setting_id q)"

definition get_flagged :: "field_ops \<Rightarrow> u8 \<Rightarrow> u8 \<Rightarrow> DescriptorQuery reader" where
  "get_flagged F ty flags =
     rd_then (rd_if (flags AND 0x02 \<noteq> 0) (get_id F) (\<lambda>i q. q\<lparr>dq_setting_id := i, dq_has_setting_id := True\<rparr>)
                (no_query\<lparr>dq_type := ty\<rparr>)) (\<lambda>q1.
     rd_then (rd_if (flags AND 0x08 \<noteq> 0) (get_time F) (\<lambda>t q. q\<lparr>dq_time_epoch_s := ucast t\<rparr>) q1) (\<lambda>q2.
     rd_then (rd_if (flags AND 0x20 \<noteq> 0) (get_id F) (\<lambda>c q. q\<lparr>dq_cursor := c\<rparr>) q2) (\<lambda>q3.
     rd_then (rd_if (flags AND 0x40 \<noteq> 0) (get_size F) (\<lambda>z q. q\<lparr>dq_page_size := z\<rparr>) q3) (\<lambda>q4.
     let q5 = (if flags AND 0x10 \<noteq> 0 then q4\<lparr>dq_paged := True\<rparr> else q4) in
     rd_then (rd_if (flags AND 0x01 \<noteq> 0) (get_text F) (\<lambda>k q. q\<lparr>dq_key := k\<rparr>) q5) (\<lambda>q6.
     rd_if (flags AND 0x04 \<noteq> 0) (get_text F) (\<lambda>v q. q\<lparr>dq_value := v\<rparr>) q6)))))"

text \<open>The tests after the fields: the whole buffer, a type, one selector, a value to set.\<close>

definition flagged_accepted :: "bytes \<Rightarrow> nat \<Rightarrow> DescriptorQuery \<Rightarrow> bool" where
  "flagged_accepted p off q \<longleftrightarrow> off = length p \<and> dq_type q \<noteq> qUnknown \<and> selector_ok q
     \<and> \<not> (dq_type q = qSetSetting \<and> dq_value q = [])"

definition flagged_result :: "(DescriptorQuery \<Rightarrow> bool) \<Rightarrow> bytes \<Rightarrow> DescriptorQuery rd \<Rightarrow> DescriptorQuery option option" where
  "flagged_result extra p r =
     (case r of
        Fail \<Rightarrow> Some None
      | Wild \<Rightarrow> None
      | Got q off \<Rightarrow> Some (if flagged_accepted p off q \<and> extra q then Some q else None))"

text \<open>The types that the three codecs leave to the record encoding.\<close>

definition by_records :: "u8 \<Rightarrow> bool" where
  "by_records ty \<longleftrightarrow> ty = qGetLogStatus \<or> ty = qReadLogChunk \<or> ty = qClearLog \<or> ty = qSetLogControl
     \<or> ty = qGetStorageInfo \<or> ty = qListStoragePath \<or> ty = qStatStoragePath \<or> ty = qFormatStorage
     \<or> ty = qGetNodeBundle \<or> ty = qGetOtaStatus \<or> ty = qGetOtaManifest \<or> ty = qRebuildOtaManifest
     \<or> ty = qClearOtaScope \<or> ty = qGetOtaCapacity \<or> ty = qGetOtaGateInfo \<or> ty = qApplyOtaImage"

definition topology_type :: "u8 \<Rightarrow> bool" where
  "topology_type ty \<longleftrightarrow> ty = qTopologyStageClear \<or> ty = qTopologyStageBegin \<or> ty = qTopologyStageSlotSet
     \<or> ty = qTopologyStageGroupSet \<or> ty = qTopologyStageFinalize \<or> ty = qTopologyCommit \<or> ty = qTopologyStatus
     \<or> ty = qTopologyTriggerSend"

end
