(* ===== verification/ProfileCodecs.thy ===== *)
theory ProfileCodecs
  imports Codecs
begin

text \<open>
  The seven built-in codecs as records of functions, and the registry that finds one by its id. A
  decoder gives a buffer without its own header to the record parser, so every codec also reads what
  the default codec writes.
\<close>

section \<open>Headers\<close>

definition wrap :: "u8 \<Rightarrow> u8 \<Rightarrow> u8 \<Rightarrow> bytes \<Rightarrow> bytes option" where
  "wrap magic version kind inner =
     (if length inner > 0xFFFF then None
      else do {
        o1 \<leftarrow> putU8 magic [];
        o2 \<leftarrow> putU8 version o1;
        o3 \<leftarrow> putU8 kind o2;
        o4 \<leftarrow> putU16 (of_nat (length inner)) o3;
        putBytes inner o4 })"

definition unwrap :: "u8 \<Rightarrow> u8 \<Rightarrow> u8 \<Rightarrow> buf \<Rightarrow> bytes option" where
  "unwrap magic version kind payload =
     (case payload of
        None \<Rightarrow> None
      | Some p \<Rightarrow>
          if length p < 5 then None
          else if p ! 0 \<noteq> magic \<or> p ! 1 \<noteq> version \<or> p ! 2 \<noteq> kind then None
          else let n = unat (le16 (p ! 3) (p ! 4)) in
               if length p \<noteq> 5 + n then None else Some (take n (drop 5 p)))"

text \<open>The varint codec writes the length of the inner buffer in its own way.\<close>

definition wrap_var :: "u8 \<Rightarrow> u8 \<Rightarrow> u8 \<Rightarrow> bytes \<Rightarrow> bytes option" where
  "wrap_var magic version kind inner = do {
     o1 \<leftarrow> putU8 magic [];
     o2 \<leftarrow> putU8 version o1;
     o3 \<leftarrow> putU8 kind o2;
     o4 \<leftarrow> putVarU32 (of_nat (length inner)) o3;
     putBytes inner o4 }"

definition unwrap_var :: "u8 \<Rightarrow> u8 \<Rightarrow> u8 \<Rightarrow> buf \<Rightarrow> bytes option" where
  "unwrap_var magic version kind payload =
     (case payload of
        None \<Rightarrow> None
      | Some p \<Rightarrow>
          if length p < 4 then None
          else if p ! 0 \<noteq> magic \<or> p ! 1 \<noteq> version \<or> p ! 2 \<noteq> kind then None
          else case getVarU32 p 3 of
            Got n off \<Rightarrow>
              if unat (of_nat off + n) \<noteq> length p then None else Some (take (unat n) (drop off p))
          | _ \<Rightarrow> None)"

section \<open>Codecs\<close>

record profile_codec =
  codec_id :: u16
  encode_query :: "DescriptorQuery \<Rightarrow> bytes option"
  decode_query :: "buf \<Rightarrow> DescriptorQuery option option"
  encode_command :: "u16 \<Rightarrow> bytes option"
  decode_command :: "buf \<Rightarrow> u16 option"
  encode_result :: "u16 \<Rightarrow> u16 \<Rightarrow> bytes option"
  decode_result :: "buf \<Rightarrow> (u16 \<times> u16) option"

definition default_codec :: profile_codec where
  "default_codec = \<lparr>codec_id = 1,
     encode_query = encodeDescriptorQuery, decode_query = (\<lambda>b. Some (parseDescriptorQuery b)),
     encode_command = buildControlCommandPayload, decode_command = parseControlCommandPayload,
     encode_result = buildControlResultPayload, decode_result = parseControlResultPayload\<rparr>"

text \<open>A codec that puts a header in front of the record encoding.\<close>

definition or_plain :: "(buf \<Rightarrow> 'a) \<Rightarrow> (buf \<Rightarrow> bytes option) \<Rightarrow> buf \<Rightarrow> 'a" where
  "or_plain parse strip payload = (case strip payload of None \<Rightarrow> parse payload | Some inner \<Rightarrow> parse (Some inner))"

definition header_codec :: "u16 \<Rightarrow> u8 \<Rightarrow> u8 \<Rightarrow> profile_codec" where
  "header_codec i desc ctrl = \<lparr>codec_id = i,
     encode_query = (\<lambda>q. Option.bind (encodeDescriptorQuery q) (wrap desc 1 1)),
     decode_query = (\<lambda>b. Some (or_plain parseDescriptorQuery (unwrap desc 1 1) b)),
     encode_command = (\<lambda>c. Option.bind (buildControlCommandPayload c) (wrap ctrl 1 1)),
     decode_command = or_plain parseControlCommandPayload (unwrap ctrl 1 1),
     encode_result = (\<lambda>c r. Option.bind (buildControlResultPayload c r) (wrap ctrl 1 2)),
     decode_result = or_plain parseControlResultPayload (unwrap ctrl 1 2)\<rparr>"

definition packed_tlv_codec :: profile_codec where
  "packed_tlv_codec = header_codec 3 0xD1 0xD2"

definition cbor_lite_codec :: profile_codec where
  "cbor_lite_codec = header_codec 6 0xA1 0xA2"

definition binary_map_codec :: profile_codec where
  "binary_map_codec = header_codec 7 0xB1 0xB2"

definition compact_encode_query :: "DescriptorQuery \<Rightarrow> bytes option" where
  "compact_encode_query q =
     (if by_records (dq_type q) \<or> topology_type (dq_type q) then encodeDescriptorQuery q
      else if \<not> selector_ok q then None
      else do {
        o1 \<leftarrow> putU8 0xC1 [];
        o2 \<leftarrow> putU8 0x01 o1;
        put_flagged compact_ops q o2 })"

definition compact_refuses :: "u8 \<Rightarrow> bool" where
  "compact_refuses ty \<longleftrightarrow> ty = qTopologyStageBegin \<or> ty = qTopologyStageSlotSet \<or> ty = qTopologyStageGroupSet
     \<or> ty = qTopologyTriggerSend"

definition compact_decode_query :: "buf \<Rightarrow> DescriptorQuery option option" where
  "compact_decode_query payload =
     (case payload of
        None \<Rightarrow> Some (parseDescriptorQuery payload)
      | Some p \<Rightarrow>
          if length p < 4 \<or> p ! 0 \<noteq> 0xC1 \<or> p ! 1 \<noteq> 0x01 then Some (parseDescriptorQuery payload)
          else flagged_result (\<lambda>q. \<not> compact_refuses (dq_type q)) p (get_flagged compact_ops (p ! 2) (p ! 3) p 4))"

definition compact_indexed_codec :: profile_codec where
  "compact_indexed_codec = \<lparr>codec_id = 2,
     encode_query = compact_encode_query, decode_query = compact_decode_query,
     encode_command = (\<lambda>c. do { o1 \<leftarrow> putU8 0xC2 []; o2 \<leftarrow> putU8 0x01 o1; putU16 c o2 }),
     decode_command = (\<lambda>b. case b of
        Some [m, k, c0, c1] \<Rightarrow> if m = 0xC2 \<and> k = 0x01 then Some (le16 c0 c1) else parseControlCommandPayload b
      | _ \<Rightarrow> parseControlCommandPayload b),
     encode_result = (\<lambda>c r. do { o1 \<leftarrow> putU8 0xC2 []; o2 \<leftarrow> putU8 0x02 o1; o3 \<leftarrow> putU16 c o2; putU16 r o3 }),
     decode_result = (\<lambda>b. case b of
        Some [m, k, c0, c1, r0, r1] \<Rightarrow>
          if m = 0xC2 \<and> k = 0x02 then Some (le16 c0 c1, le16 r0 r1) else parseControlResultPayload b
      | _ \<Rightarrow> parseControlResultPayload b)\<rparr>"

text \<open>Type and flags are the first two bytes of the inner buffer.\<close>

definition get_inner :: "field_ops \<Rightarrow> bytes \<Rightarrow> DescriptorQuery option option" where
  "get_inner F inner =
     flagged_result (\<lambda>_. True) inner
       (rd_then getU8 (\<lambda>ty. rd_then getU8 (\<lambda>flags. get_flagged F ty flags)) inner 0)"

definition inner_encode :: "field_ops \<Rightarrow> (bytes \<Rightarrow> bytes option) \<Rightarrow> DescriptorQuery \<Rightarrow> bytes option" where
  "inner_encode F wr q =
     (if by_records (dq_type q) then encodeDescriptorQuery q
      else if \<not> selector_ok q then None
      else Option.bind (put_flagged F q []) wr)"

definition inner_decode :: "field_ops \<Rightarrow> (buf \<Rightarrow> bytes option) \<Rightarrow> buf \<Rightarrow> DescriptorQuery option option" where
  "inner_decode F strip payload =
     (case strip payload of
        None \<Rightarrow> Some (parseDescriptorQuery payload)
      | Some inner \<Rightarrow> get_inner F inner)"

text \<open>One or two numbers that fill a buffer.\<close>

definition get_whole :: "'a reader \<Rightarrow> bytes \<Rightarrow> 'a option" where
  "get_whole m p = (case m p 0 of Got a off \<Rightarrow> if off = length p then Some a else None | _ \<Rightarrow> None)"

definition get_pair :: "u16 reader \<Rightarrow> (u16 \<times> u16) reader" where
  "get_pair m = rd_then m (\<lambda>c. rd_then m (\<lambda>r. rd_give (c, r)))"

definition flagged_codec ::
  "u16 \<Rightarrow> field_ops \<Rightarrow> (u8 \<Rightarrow> u8 \<Rightarrow> u8 \<Rightarrow> bytes \<Rightarrow> bytes option) \<Rightarrow> (u8 \<Rightarrow> u8 \<Rightarrow> u8 \<Rightarrow> buf \<Rightarrow> bytes option)
   \<Rightarrow> u8 \<Rightarrow> u8 \<Rightarrow> profile_codec" where
  "flagged_codec i F wr strip desc ctrl = \<lparr>codec_id = i,
     encode_query = inner_encode F (wr desc 1 1), decode_query = inner_decode F (strip desc 1 1),
     encode_command = (\<lambda>c. Option.bind (put_id F c []) (wr ctrl 1 1)),
     decode_command = (\<lambda>b. case strip ctrl 1 1 b of
        None \<Rightarrow> parseControlCommandPayload b | Some inner \<Rightarrow> get_whole (get_id F) inner),
     encode_result = (\<lambda>c r. Option.bind (Option.bind (put_id F c []) (put_id F r)) (wr ctrl 1 2)),
     decode_result = (\<lambda>b. case strip ctrl 1 2 b of
        None \<Rightarrow> parseControlResultPayload b | Some inner \<Rightarrow> get_whole (get_pair (get_id F)) inner)\<rparr>"

definition varint_tlv_codec :: profile_codec where
  "varint_tlv_codec = flagged_codec 4 varint_ops wrap_var unwrap_var 0xE1 0xE2"

definition delta_binary_codec :: profile_codec where
  "delta_binary_codec = flagged_codec 5 delta_ops wrap unwrap 0xF1 0xF2"

section \<open>The registry\<close>

text \<open>\<open>registerCodec\<close> on a vector of codecs (null pointers and nameless codecs are left out), \<open>find\<close>.\<close>

definition registerCodec :: "profile_codec \<Rightarrow> profile_codec list \<Rightarrow> bool \<times> profile_codec list" where
  "registerCodec c cs =
     (if codec_id c = 0 then (False, cs)
      else if \<exists>d \<in> set cs. codec_id d = codec_id c then (True, cs)
      else (True, cs @ [c]))"

definition find_codec :: "u16 \<Rightarrow> profile_codec list \<Rightarrow> profile_codec option" where
  "find_codec i cs = find (\<lambda>c. codec_id c = i) cs"

definition registerBuiltInCodecs :: "profile_codec list \<Rightarrow> profile_codec list" where
  "registerBuiltInCodecs cs = fold (\<lambda>c cs. snd (registerCodec c cs))
     [default_codec, compact_indexed_codec, packed_tlv_codec, varint_tlv_codec, delta_binary_codec,
      cbor_lite_codec, binary_map_codec] cs"

definition isBuiltInCodecId :: "u16 \<Rightarrow> bool" where
  "isBuiltInCodecId i \<longleftrightarrow> i \<ge> 1 \<and> i \<le> 7"

end
