(* ===== verification/CodecFields.thy ===== *)
theory CodecFields
  imports ProfileCodecs
begin

text \<open>
  The fields of the three codecs with flags: a field's reader gives back what its writer appended,
  wherever it stands and if there is room the writer succeeds; the law is closed under composition,
  so it holds for the queries the fields make up.
\<close>

section \<open>Fields\<close>

text \<open>\<open>get\<close> reads \<open>x\<close> at its place from what \<open>put\<close> has appended, whatever stands around it.\<close>

definition carries :: "(bytes \<Rightarrow> bytes option) \<Rightarrow> 'a reader \<Rightarrow> 'a \<Rightarrow> bool" where
  "carries put get x \<longleftrightarrow> (\<forall>out ext. put out = Some ext \<longrightarrow>
     (\<exists>b. ext = out @ b \<and> (\<forall>pre rest. length (pre @ b @ rest) < 2 ^ 32 \<longrightarrow>
        get (pre @ b @ rest) (length pre) = Got x (length pre + length b))))"

definition writes :: "('a \<Rightarrow> bytes \<Rightarrow> bytes option) \<Rightarrow> 'a reader \<Rightarrow> bool" where
  "writes put get \<longleftrightarrow> (\<forall>x. carries (put x) get x)"

lemma carriesI:
  assumes "\<And>out ext. put out = Some ext \<Longrightarrow> \<exists>b. ext = out @ b \<and> (\<forall>pre rest. length (pre @ b @ rest) < 2 ^ 32 \<longrightarrow>
        get (pre @ b @ rest) (length pre) = Got x (length pre + length b))"
  shows "carries put get x"
  using assms by (simp add: carries_def)

lemma carriesE:
  assumes "carries put get x" "put out = Some ext"
  obtains b where "ext = out @ b" "\<And>pre rest. length (pre @ b @ rest) < 2 ^ 32 \<Longrightarrow>
        get (pre @ b @ rest) (length pre) = Got x (length pre + length b)"
  using assms unfolding carries_def by blast

lemma writesI:
  assumes "\<And>x out ext. put x out = Some ext \<Longrightarrow> \<exists>b. ext = out @ b \<and> (\<forall>pre rest. length (pre @ b @ rest) < 2 ^ 32 \<longrightarrow>
        get (pre @ b @ rest) (length pre) = Got x (length pre + length b))"
  shows "writes put get"
  using assms by (auto simp: writes_def intro: carriesI)

lemma writesD: "writes put get \<Longrightarrow> carries (put x) get x"
  by (simp add: writes_def)

lemma writesE:
  assumes "writes put get" "put x out = Some ext"
  obtains b where "ext = out @ b" "\<And>pre rest. length (pre @ b @ rest) < 2 ^ 32 \<Longrightarrow>
        get (pre @ b @ rest) (length pre) = Got x (length pre + length b)"
  using assms unfolding writes_def by (blast elim: carriesE)

text \<open>One field after another, and a field under its condition.\<close>

lemma carries_then:
  assumes a: "carries put get x" and b: "carries put' (get' x) y"
  shows "carries (\<lambda>out. Option.bind (put out) put') (rd_then get get') y"
proof (rule carriesI)
  fix out ext
  assume "Option.bind (put out) put' = Some ext"
  then obtain mid where mid: "put out = Some mid" "put' mid = Some ext"
    by (auto simp: bind_eq_Some_conv)
  from carriesE [OF a mid(1)] obtain u where u: "mid = out @ u"
    "\<And>pre rest. length (pre @ u @ rest) < 2 ^ 32 \<Longrightarrow> get (pre @ u @ rest) (length pre) = Got x (length pre + length u)"
    by metis
  from carriesE [OF b mid(2)] obtain v where v: "ext = mid @ v"
    "\<And>pre rest. length (pre @ v @ rest) < 2 ^ 32 \<Longrightarrow> get' x (pre @ v @ rest) (length pre) = Got y (length pre + length v)"
    by metis
  have "rd_then get get' (pre @ (u @ v) @ rest) (length pre) = Got y (length pre + length (u @ v))"
    if "length (pre @ (u @ v) @ rest) < 2 ^ 32" for pre rest
    using that u(2) [of pre "v @ rest"] v(2) [of "pre @ u" rest] by (simp add: rd_then_def)
  then show "\<exists>b. ext = out @ b \<and> (\<forall>pre rest. length (pre @ b @ rest) < 2 ^ 32 \<longrightarrow>
      rd_then get get' (pre @ b @ rest) (length pre) = Got y (length pre + length b))"
    using u(1) v(1) by (intro exI [of _ "u @ v"]) simp
qed

lemma carries_give: "carries Some (rd_give x) x"
  by (simp add: carries_def rd_give_def)

lemma carries_map: "carries put get x \<Longrightarrow> carries put (rd_then get (\<lambda>a. rd_give (f a))) (f x)"
  using carries_then [of put get x Some "\<lambda>a. rd_give (f a)" "f x"] by (simp add: carries_give)

lemma block_simps [simp]: "block True f = f" "block False f = Some"
  by (simp_all add: block_def fun_eq_iff)

lemma carries_block:
  assumes "c \<Longrightarrow> carries put get x" and "d = c" and "y = (if c then f x q else q)"
  shows "carries (block c put) (rd_if d get f q) y"
  using assms carries_map [of put get x "\<lambda>a. f a q"] by (cases c) (simp_all add: rd_if_def carries_give)

text \<open>\<open>put\<close> succeeds where \<open>n\<close> bytes are free, and takes no more.\<close>

definition fits :: "(bytes \<Rightarrow> bytes option) \<Rightarrow> nat \<Rightarrow> bool" where
  "fits put n \<longleftrightarrow> (\<forall>out. length out + n \<le> kMaxPayload \<longrightarrow> (\<exists>ext. put out = Some ext \<and> length ext \<le> length out + n))"

lemma fits_then: "fits p a \<Longrightarrow> fits p' b \<Longrightarrow> fits (\<lambda>out. Option.bind (p out) p') (a + b)"
proof (unfold fits_def, intro allI impI)
  fix out :: bytes
  assume laws: "\<forall>out. length out + a \<le> kMaxPayload \<longrightarrow> (\<exists>ext. p out = Some ext \<and> length ext \<le> length out + a)"
    "\<forall>out. length out + b \<le> kMaxPayload \<longrightarrow> (\<exists>ext. p' out = Some ext \<and> length ext \<le> length out + b)"
    and room: "length out + (a + b) \<le> kMaxPayload"
  from laws(1) [rule_format, of out] room obtain mid where mid: "p out = Some mid" "length mid \<le> length out + a" by auto
  with laws(2) [rule_format, of mid] room obtain ext where "p' mid = Some ext" "length ext \<le> length mid + b" by auto
  with mid show "\<exists>ext. Option.bind (p out) p' = Some ext \<and> length ext \<le> length out + (a + b)" by auto
qed

lemma fits_block: "fits p a \<Longrightarrow> fits (block c p) a"
  by (cases c) (auto simp: fits_def)

lemma fits_more: "fits p a \<Longrightarrow> a \<le> b \<Longrightarrow> fits p b"
  unfolding fits_def by (meson add_le_mono le_refl le_trans)

lemma fits_put: "fits (putU8 a) 1" "fits (putU16 b) 2" "fits (putU32 c) 4"
  "length s \<le> 255 \<Longrightarrow> fits (putStr8 s) (1 + length s)"
  by (auto simp: fits_def putU8_def putU16_def putU32_def putStr8_def)

lemma fits_bytes: "fits (putBytes bs) (length bs)"
  by (auto simp: fits_def putBytes_def)

lemma fits_Str16:
  assumes "length s \<le> 0xFFFF"
  shows "fits (putStr16 s) (2 + length s)"
  using fits_then [OF fits_put(2) fits_bytes [of "string_bytes s"], of "of_nat (length s)"] assms
  by (simp add: putStr16_def [abs_def])

lemma writes_U8: "writes putU8 getU8"
  by (rule writesI) (auto simp: putU8_def getU8_def split: if_splits)

lemma writes_U16: "writes putU16 getU16"
  by (rule writesI) (auto simp: putU16_def getU16_def split: if_splits)

lemma writes_U32: "writes putU32 getU32"
  by (rule writesI) (auto simp: putU32_def getU32_def split: if_splits)

lemma getChars_at:
  assumes "length (pre @ string_bytes s @ rest) < 2 ^ 32"
  shows "getChars (length s) (pre @ string_bytes s @ rest) (length pre) = Got s (length pre + length s)"
proof -
  have "length pre + length s < 2 ^ 32" using assms by simp
  then have "unat (of_nat (length pre) + of_nat (length s) :: u32) = length pre + length s"
    by (metis of_nat_add unat_of_nat_u32)
  then show ?thesis by (simp add: getChars_def string_of_string_bytes)
qed

lemma writes_text:
  assumes num: "writes putn getn" and to: "\<And>n. n \<le> kMaxPayload \<Longrightarrow> size_of (code n) = n"
    and put: "\<And>s out ext. put s out = Some ext \<Longrightarrow> length s \<le> kMaxPayload
        \<and> Option.bind (putn (code (length s)) out) (putBytes (string_bytes s)) = Some ext"
  shows "writes put (rd_then getn (\<lambda>v. getChars (size_of v)))"
proof (rule writesI)
  fix s out ext
  assume "put s out = Some ext"
  from put [OF this] obtain mid where len: "length s \<le> kMaxPayload"
    and mid: "putn (code (length s)) out = Some mid" "putBytes (string_bytes s) mid = Some ext"
    by (auto split: Option.bind_splits)
  from writesE [OF num mid(1)] obtain b where b: "mid = out @ b"
    "\<And>pre rest. length (pre @ b @ rest) < 2 ^ 32 \<Longrightarrow> getn (pre @ b @ rest) (length pre) = Got (code (length s)) (length pre + length b)"
    by metis
  have ext: "ext = out @ b @ string_bytes s"
    using mid(2) b(1) by (simp add: putBytes_def split: if_splits)
  have "rd_then getn (\<lambda>v. getChars (size_of v)) (pre @ (b @ string_bytes s) @ rest) (length pre)
      = Got s (length pre + length (b @ string_bytes s))"
    if "length (pre @ (b @ string_bytes s) @ rest) < 2 ^ 32" for pre rest
    using that b(2) [of pre "string_bytes s @ rest"] getChars_at [of "pre @ b" s rest] to [OF len]
    by (simp add: rd_then_def)
  then show "\<exists>b. ext = out @ b \<and> (\<forall>pre rest. length (pre @ b @ rest) < 2 ^ 32 \<longrightarrow>
        rd_then getn (\<lambda>v. getChars (size_of v)) (pre @ b @ rest) (length pre) = Got s (length pre + length b))"
    using ext by blast
qed

lemma writes_Str8: "writes putStr8 getStr8"
  unfolding getStr8_def
  by (rule writes_text [where code = of_nat and size_of = unat, OF writes_U8])
     (auto simp: putStr8_def putU8_def putBytes_def frame_sizes unat_of_nat split: if_splits)

lemma writes_Str16: "writes putStr16 getStr16"
  unfolding getStr16_def
  by (rule writes_text [where code = of_nat and size_of = unat, OF writes_U16])
     (auto simp: putStr16_def putU16_def putBytes_def frame_sizes unat_of_nat split: if_splits Option.bind_splits)

subsection \<open>Variable-length integers\<close>

lemma var_need_length: "var_need v = length (var_bytes v)"
  by (induction v rule: var_bytes.induct) (subst var_need.simps, subst var_bytes.simps, simp)

lemma group_masks: "(0x7F :: u32) = mask 7" "(0x7F :: u8) = mask 7"
  by (simp_all add: mask_eq_exp_minus_1)

lemma bit_128: "bit (128 :: 'a :: len word) n \<longleftrightarrow> n = 7 \<and> 7 < LENGTH('a)" "bit (128 :: int) n \<longleftrightarrow> n = 7"
proof -
  have "bit (2 ^ 7 :: 'a word) n \<longleftrightarrow> n = 7 \<and> 7 < LENGTH('a)" "bit (2 ^ 7 :: int) n \<longleftrightarrow> n = 7"
    by (auto simp only: bit_exp_iff possible_bit_word possible_bit_int)
  then show "bit (128 :: 'a :: len word) n \<longleftrightarrow> n = 7 \<and> 7 < LENGTH('a)" "bit (128 :: int) n \<longleftrightarrow> n = 7" by simp_all
qed

lemma group_bits:
  "(ucast (ucast (v AND 0x7F :: u32) AND 0x7F :: u8) :: u32) = v AND 0x7F"
  "(ucast (ucast ((v AND 0x7F) OR 0x80 :: u32) AND 0x7F :: u8) :: u32) = v AND 0x7F"
  "(ucast (v AND 0x7F :: u32) AND 0x80 :: u8) = 0" "(ucast ((v AND 0x7F) OR 0x80 :: u32) AND 0x80 :: u8) \<noteq> 0"
proof -
  show "(ucast (ucast (v AND 0x7F :: u32) AND 0x7F :: u8) :: u32) = v AND 0x7F"
    "(ucast (ucast ((v AND 0x7F) OR 0x80 :: u32) AND 0x7F :: u8) :: u32) = v AND 0x7F"
    unfolding group_masks by (rule bit_word_eqI; auto simp: bit_simps bit_128)+
  show "(ucast (v AND 0x7F :: u32) AND 0x80 :: u8) = 0"
    unfolding group_masks by (rule bit_word_eqI) (auto simp: bit_simps bit_128)
  have "bit (ucast ((v AND 0x7F) OR 0x80 :: u32) AND 0x80 :: u8) 7"
    unfolding group_masks by (simp add: bit_simps bit_128)
  then show "(ucast ((v AND 0x7F) OR 0x80 :: u32) AND 0x80 :: u8) \<noteq> 0"
    by (metis bit_0_eq bot_apply bot_bool_def)
qed

lemma group_join: "(acc OR push_bit n (v AND 0x7F)) OR push_bit (n + 7) (drop_bit 7 v) = acc OR push_bit n (v :: u32)"
proof (unfold group_masks, rule bit_word_eqI)
  fix k :: nat
  assume "k < LENGTH(32)"
  then show "bit ((acc OR push_bit n (v AND mask 7)) OR push_bit (n + 7) (drop_bit 7 v)) k = bit (acc OR push_bit n v) k"
    by (cases "n + 7 \<le> k") (auto simp: bit_simps)
qed

lemma low_group: "\<not> 0x80 \<le> v \<Longrightarrow> v AND 0x7F = (v :: u32)"
proof -
  assume "\<not> 0x80 \<le> v"
  then have "unat v < 2 ^ 7" by (simp add: word_le_nat_alt)
  then have "unat (take_bit 7 v) = unat v" by (simp add: unsigned_take_bit_eq take_bit_nat_eq_self)
  then have "take_bit 7 v = v" by (simp only: word_unat_eq_iff)
  then show ?thesis unfolding group_masks take_bit_eq_mask [symmetric] .
qed

lemma var_rest_small:
  assumes "0x80 \<le> v" "unat (v :: u32) < 2 ^ (7 * Suc i)"
  shows "unat (drop_bit 7 v) < 2 ^ (7 * i)" "0 < i"
proof -
  show "unat (drop_bit 7 v) < 2 ^ (7 * i)"
    unfolding unat_drop_bit_eq unfolding drop_bit_eq_div
    using assms(2) by (intro less_mult_imp_div_less) (simp add: power_add)
  show "0 < i" using assms by (cases i) (auto simp: word_le_nat_alt)
qed

lemma length_var_bytes: "unat v < 2 ^ (7 * i) \<Longrightarrow> 0 < i \<Longrightarrow> length (var_bytes v) \<le> i"
proof (induction i arbitrary: v)
  case (Suc i)
  then show ?case
    using var_rest_small [OF _ Suc.prems(1)] by (subst var_bytes.simps) simp
qed simp

lemma length_var_bytes_u32: "length (var_bytes v) \<le> 5"
  using length_var_bytes [of v 5] unat_u32_less [of v] by simp

lemma getVar_at:
  assumes "unat v < 2 ^ (7 * i)" "0 < i"
  shows "getVar i shift acc (pre @ var_bytes v @ rest) (length pre)
     = Got (acc OR push_bit shift v) (length pre + length (var_bytes v))"
  using assms
proof (induction i arbitrary: shift acc pre v)
  case (Suc i)
  show ?case
  proof (cases "0x80 \<le> v")
    case True
    have b: "var_bytes v = ucast ((v AND 0x7F) OR 0x80) # var_bytes (drop_bit 7 v)"
      using True by (subst var_bytes.simps) simp
    from Suc.IH [OF var_rest_small [OF True Suc.prems(1)], of "shift + 7" "acc OR push_bit shift (v AND 0x7F)" "pre @ [ucast ((v AND 0x7F) OR 0x80)]"]
    show ?thesis
      by (simp add: b getU8_def nth_append group_bits group_join [simplified])
  next
    case False
    then have "var_bytes v = [ucast (v AND 0x7F)]" by (subst var_bytes.simps) simp
    then have "getVar (Suc i) shift acc (pre @ var_bytes v @ rest) (length pre)
        = Got (acc OR push_bit shift (v AND 0x7F)) (length pre + length (var_bytes v))"
      by (simp add: getU8_def nth_append group_bits)
    then show ?thesis using low_group [OF False] by simp
  qed
qed simp

lemma fits_VarU32: "unat v < 2 ^ (7 * i) \<Longrightarrow> 0 < i \<Longrightarrow> fits (putVarU32 v) i"
  using length_var_bytes [of v i] by (auto simp: fits_def putVarU32_def var_need_length)

lemma fits_VarStr:
  assumes "length s < 2 ^ 14"
  shows "fits (putVarStr s) (2 + length s)"
proof -
  have "fits (putVarU32 (of_nat (length s))) 2"
    using assms by (intro fits_VarU32) (simp_all add: unat_of_nat_u32)
  from fits_then [OF this fits_bytes [of "string_bytes s"]] show ?thesis by (simp add: putVarStr_def [abs_def])
qed

lemma fits_wide: "fits (putVarU32 (ucast (a :: u16))) 3" "fits (putVarU32 (ucast (b :: u8))) 2"
  "fits (putVarU32 c) 5"
proof -
  have "unat (ucast a :: u32) < 2 ^ 16" "unat (ucast b :: u32) < 2 ^ 8"
    by (auto simp: unsigned_ucast_eq intro!: le_less_trans [OF take_bit_nat_less_eq_self] order.strict_trans2 [OF unsigned_less])
  then show "fits (putVarU32 (ucast a)) 3" "fits (putVarU32 (ucast b)) 2"
    by (intro fits_VarU32; simp)+
  show "fits (putVarU32 c) 5" using unat_u32_less [of c] by (intro fits_VarU32) simp_all
qed

lemma writes_VarU32: "writes putVarU32 getVarU32"
proof (rule writesI)
  fix v out ext
  assume "putVarU32 v out = Some ext"
  moreover have "unat v < 2 ^ (7 * 5)" using unat_u32_less [of v] by simp
  ultimately show "\<exists>b. ext = out @ b \<and> (\<forall>pre rest. length (pre @ b @ rest) < 2 ^ 32 \<longrightarrow>
        getVarU32 (pre @ b @ rest) (length pre) = Got v (length pre + length b))"
    unfolding putVarU32_def getVarU32_def
    by (intro exI [of _ "var_bytes v"]) (auto simp: getVar_at split: if_splits)
qed

lemma writes_VarStr: "writes putVarStr getVarStr"
  unfolding getVarStr_def
  by (rule writes_text [where code = of_nat and size_of = unat, OF writes_VarU32])
     (auto simp: putVarStr_def putVarU32_def putBytes_def frame_sizes unat_of_nat_u32 split: if_splits Option.bind_splits)

text \<open>A narrower number written as a wide one.\<close>

lemma writes_narrow:
  assumes "writes put get" and "\<And>x. narrow (wide x) = x"
  shows "writes (\<lambda>x. put (wide x)) (rd_then get (\<lambda>v. rd_give (narrow v)))"
  unfolding writes_def using carries_map [OF writesD [OF assms(1)], of _ narrow] by (metis assms(2))

lemma narrow_u16: "(ucast (ucast (v :: u16) AND 0xFFFF :: u32) :: u16) = v"
proof -
  have m: "(0xFFFF :: u32) = mask 16" by (simp add: mask_eq_exp_minus_1)
  show ?thesis by (rule bit_word_eqI, unfold m) (auto simp: bit_simps)
qed

lemma narrow_u8: "(ucast (ucast (v :: u8) AND 0xFF :: u32) :: u8) = v"
proof -
  have m: "(0xFF :: u32) = mask 8" by (simp add: mask_eq_exp_minus_1)
  show ?thesis by (rule bit_word_eqI, unfold m) (auto simp: bit_simps)
qed

subsection \<open>Reads that stay in the buffer\<close>

definition tame :: "'a reader \<Rightarrow> bool" where
  "tame get \<longleftrightarrow> (\<forall>p off. length p < 2 ^ 31 \<longrightarrow> off \<le> length p \<longrightarrow>
     get p off \<noteq> Wild \<and> (\<forall>x off'. get p off = Got x off' \<longrightarrow> off' \<le> length p))"

lemma tame_then: "tame get \<Longrightarrow> (\<And>x. tame (get' x)) \<Longrightarrow> tame (rd_then get get')"
proof (unfold tame_def, intro allI impI)
  fix p :: bytes and off
  assume laws: "\<forall>p off. length p < 2 ^ 31 \<longrightarrow> off \<le> length p \<longrightarrow>
      get p off \<noteq> Wild \<and> (\<forall>x off'. get p off = Got x off' \<longrightarrow> off' \<le> length p)"
    "\<And>x. \<forall>p off. length p < 2 ^ 31 \<longrightarrow> off \<le> length p \<longrightarrow>
      get' x p off \<noteq> Wild \<and> (\<forall>y off'. get' x p off = Got y off' \<longrightarrow> off' \<le> length p)"
    and p: "length p < 2 ^ 31" "off \<le> length p"
  show "rd_then get get' p off \<noteq> Wild \<and> (\<forall>y off'. rd_then get get' p off = Got y off' \<longrightarrow> off' \<le> length p)"
    using laws(1) [rule_format, OF p] laws(2) [rule_format, OF p(1)]
    by (cases "get p off") (simp_all add: rd_then_def)
qed

lemma tame_give: "tame (rd_give x)"
  by (simp add: tame_def rd_give_def)

lemma tame_if: "tame get \<Longrightarrow> tame (rd_if c get f q)"
  by (simp add: rd_if_def tame_give tame_then)

lemma tame_numbers: "tame getU8" "tame getU16" "tame getU32"
  by (auto simp: tame_def getU8_def getU16_def getU32_def split: if_splits)

lemma tame_chars: "n < 2 ^ 31 \<Longrightarrow> tame (getChars n)"
  unfolding tame_def getChars_def
  by (auto simp: unat_of_nat_u32 simp flip: of_nat_add split: if_splits)

lemma tame_texts: "tame getStr8" "tame getStr16"
proof -
  have "unat (a :: u8) < 2 ^ 31" "unat (b :: u16) < 2 ^ 31" for a b
    by (rule order.strict_trans2 [OF unsigned_less], simp)+
  then show "tame getStr8" "tame getStr16"
    unfolding getStr8_def getStr16_def by (intro tame_then tame_numbers tame_chars; simp)+
qed

lemma tame_flagged:
  assumes "tame (get_id F)" "tame (get_time F)" "tame (get_size F)" "tame (get_text F)"
  shows "tame (get_flagged F ty flags)"
  unfolding get_flagged_def Let_def using assms by (intro tame_then tame_if)

lemmas tame_ops = tame_flagged [of compact_ops, simplified compact_ops_def field_ops.simps]
  tame_flagged [of delta_ops, simplified delta_ops_def field_ops.simps]

section \<open>Queries with flags\<close>

lemmas field_then = carries_then [OF carries_block [OF writesD refl refl]]

text \<open>What a query with flags transports.\<close>

definition flagged_part :: "DescriptorQuery \<Rightarrow> DescriptorQuery" where
  "flagged_part q = (no_query\<lparr>dq_type := dq_type q\<rparr>)\<lparr>
     dq_has_setting_id := dq_has_setting_id q,
     dq_setting_id := (if dq_has_setting_id q then dq_setting_id q else 0),
     dq_time_epoch_s := ucast (ucast (dq_time_epoch_s q) :: u32), dq_paged := dq_paged q,
     dq_cursor := (if dq_paged q then dq_cursor q else 0),
     dq_page_size := (if dq_paged q then dq_page_size q else 0),
     dq_key := dq_key q, dq_value := dq_value q\<rparr>"

lemma flags_set:
  "(query_flags q AND 0x01 \<noteq> 0) = (dq_key q \<noteq> [])" "(query_flags q AND 0x02 \<noteq> 0) = dq_has_setting_id q"
  "(query_flags q AND 0x04 \<noteq> 0) = (dq_value q \<noteq> [])" "(query_flags q AND 0x08 \<noteq> 0) = (dq_time_epoch_s q \<noteq> 0)"
  "(query_flags q AND 0x10 \<noteq> 0) = dq_paged q" "(query_flags q AND 0x20 \<noteq> 0) = dq_paged q"
  "(query_flags q AND 0x40 \<noteq> 0) = dq_paged q"
  by (auto simp: query_flags_def)

text \<open>The contract of a codec's fields: each is read as it was written.\<close>

locale flagged_fields =
  fixes F :: field_ops
  assumes id_law: "writes (put_id F) (get_id F)"
    and time_law: "writes (put_time F) (get_time F)"
    and size_law: "writes (put_size F) (get_size F)"
    and text_law: "writes (put_text F) (get_text F)"
    and room_law: "fits (put_id F i) 3" "fits (put_time F t) 5" "fits (put_size F z) 2"
      "length s \<le> 255 \<Longrightarrow> fits (put_text F s) (2 + length s)"
begin

lemma put_flagged_fits:
  assumes "length (dq_key q) \<le> 255" "length (dq_value q) \<le> 255"
  shows "fits (put_flagged F q) (19 + length (dq_key q) + length (dq_value q))"
proof -
  have "fits (put_flagged F q) (1 + (1 + (3 + (5 + (3 + (2 + ((2 + length (dq_key q)) + (2 + length (dq_value q)))))))))"
    unfolding put_flagged_def using assms
    by (intro fits_then fits_block fits_put room_law)
  then show ?thesis by (simp add: add.assoc numeral_eq_Suc)
qed

lemma fields_carried:
  "carries (\<lambda>o2. do {
     o3 \<leftarrow> block (dq_has_setting_id q) (put_id F (dq_setting_id q)) o2;
     o4 \<leftarrow> block (dq_time_epoch_s q \<noteq> 0) (put_time F (ucast (dq_time_epoch_s q AND 0xFFFFFFFF))) o3;
     o5 \<leftarrow> block (dq_paged q) (put_id F (dq_cursor q)) o4;
     o6 \<leftarrow> block (dq_paged q) (put_size F (dq_page_size q)) o5;
     o7 \<leftarrow> block (dq_key q \<noteq> []) (put_text F (dq_key q)) o6;
     block (dq_value q \<noteq> []) (put_text F (dq_value q)) o7 })
   (get_flagged F (dq_type q) (query_flags q)) (flagged_part q)"
  unfolding get_flagged_def Let_def flags_set
  by (rule field_then [OF id_law], rule field_then [OF time_law], rule field_then [OF id_law],
      rule field_then [OF size_law], rule field_then [OF text_law], rule carries_block [OF writesD [OF text_law] refl])
     (simp add: flagged_part_def no_query_def and_low_u32)

lemma flagged_carried:
  "carries (put_flagged F q) (rd_then getU8 (\<lambda>ty. rd_then getU8 (\<lambda>flags. get_flagged F ty flags))) (flagged_part q)"
  unfolding put_flagged_def
  by (rule carries_then [OF writesD [OF writes_U8]], rule carries_then [OF writesD [OF writes_U8]], rule fields_carried)

end

interpretation compact: flagged_fields compact_ops
  by unfold_locales
     (simp_all add: compact_ops_def writes_U8 writes_U16 writes_U32 writes_Str8 fits_put fits_more [OF fits_put(1)]
        fits_more [OF fits_put(2)] fits_more [OF fits_put(3)] fits_more [OF fits_put(4)])

interpretation delta: flagged_fields delta_ops
  by unfold_locales
     (simp_all add: delta_ops_def writes_U8 writes_U16 writes_U32 writes_Str16 fits_Str16 [simplified] fits_more [OF fits_put(1)]
        fits_more [OF fits_put(2)] fits_more [OF fits_put(3)])

lemma writes_varint: "writes (put_id varint_ops) (get_id varint_ops)" "writes (put_size varint_ops) (get_size varint_ops)"
  unfolding varint_ops_def field_ops.simps
  by (rule writes_narrow [where narrow = "\<lambda>v. ucast (v AND 0xFFFF)", OF writes_VarU32 narrow_u16],
      rule writes_narrow [where narrow = "\<lambda>v. ucast (v AND 0xFF)", OF writes_VarU32 narrow_u8])

interpretation varint: flagged_fields varint_ops
  by unfold_locales
     (fact writes_varint | simp add: varint_ops_def writes_VarU32 writes_VarStr fits_wide fits_VarStr [simplified])+

end
