(* ===== verification/CodecProps.thy ===== *)
theory CodecProps
  imports CodecFields
begin

text \<open>
  What the built-in codecs do with queries, commands and results: the contract that all seven keep,
  its interpretation on each of them, and the properties, with what two of them lose.
\<close>

section \<open>Queries a codec should transport\<close>

definition canonical :: "DescriptorQuery \<Rightarrow> bool" where
  "canonical q \<longleftrightarrow> length (dq_group_seed q) = 32 \<and> carried q = q \<and> query_fin (True, q) = Some q"

lemma valid_query:
  assumes "query_valid q"
  shows "dq_type q \<noteq> qUnknown" "selector_ok q" "dq_type q = qSetSetting \<Longrightarrow> dq_value q \<noteq> []"
proof -
  show "dq_type q \<noteq> qUnknown"
    using assms by (rule contrapos_pn) (simp add: query_valid_def query_types)
  show "selector_ok q"
    using assms by (rule contrapos_pp) (auto simp: query_valid_def selector_ok_def)
  show "dq_value q \<noteq> []" if "dq_type q = qSetSetting"
    using assms by (rule contrapos_pn) (simp add: query_valid_def that)
qed

lemma canonicalD:
  assumes "canonical q"
  shows "length (dq_group_seed q) = 32" "carried q = q" "query_fin (True, q) = Some q" "query_valid q"
  using assms by (auto simp: canonical_def query_fin_def Let_def split: if_splits)

lemma canonical_parse: "canonical q \<Longrightarrow> encodeDescriptorQuery q = Some p \<Longrightarrow> parseDescriptorQuery (Some p) = Some q"
  using parse_encoded [of q p] by (simp add: canonical_def)

text \<open>Which topology types have parameters: no field with a flag carries them.\<close>

lemma narrow_u32 [simp]: "(ucast (ucast (w :: u32) :: u64) :: u32) = w"
  by (rule bit_word_eqI) (auto simp: bit_simps)

lemmas flagged_defs = carried_def carried_fields_def carried_page_def flagged_part_def no_query_def Let_def
  by_records_def compact_refuses_def query_types supportsPaging_def

lemma flagged_whole:
  assumes "carried q = q" "\<not> by_records (dq_type q)" "\<not> compact_refuses (dq_type q)"
  shows "flagged_part q = q"
proof -
  have "flagged_part (carried q) = carried q"
    using assms(2,3)
    by (cases "dq_type q" rule: query_type_cases; cases "dq_has_setting_id q"; cases "dq_paged q")
       (simp_all add: flagged_defs)
  then show ?thesis using assms(1) by simp
qed

lemma flagged_lossy:
  assumes "carried q = q" "compact_refuses (dq_type q)"
  shows "flagged_part q = no_query\<lparr>dq_type := dq_type q\<rparr>"
proof -
  have "flagged_part (carried q) = no_query\<lparr>dq_type := dq_type q\<rparr>"
    using assms(2) unfolding compact_refuses_def by (elim disjE) (simp_all add: flagged_defs)
  then show ?thesis using assms(1) by simp
qed

lemma encoded_head:
  assumes "length (dq_group_seed q) = 32" "encodeDescriptorQuery q = Some p"
  shows "p ! 0 = 0x01" "8 < length p"
  using assms by (auto simp: encodeDescriptorQuery_eq query_records_def tlv_def split: if_splits)

section \<open>Headers\<close>

text \<open>What a header does: taken off as it was put on, and recognised by its first byte.\<close>

locale header =
  fixes wr :: "u8 \<Rightarrow> u8 \<Rightarrow> u8 \<Rightarrow> bytes \<Rightarrow> bytes option"
    and strip :: "u8 \<Rightarrow> u8 \<Rightarrow> u8 \<Rightarrow> buf \<Rightarrow> bytes option"
  assumes strip_wr: "wr m v k inner = Some p \<Longrightarrow> strip m v k (Some p) = Some inner \<and> length inner < 2 ^ 32"
    and strip_other: "p ! 0 \<noteq> m \<Longrightarrow> strip m v k (Some p) = None"
    and wr_room: "length inner \<le> 200 \<Longrightarrow> wr m v k inner \<noteq> None"
    and wr_short: "wr m v k inner = Some p \<Longrightarrow> length p \<le> kMaxPayload"

lemma wrap_eq: "wrap m v k inner =
    (if length inner + 5 \<le> kMaxPayload then Some ([m, v, k] @ appendLe16 (of_nat (length inner)) @ inner) else None)"
  by (simp add: wrap_def putU8_def putU16_def putBytes_def frame_sizes)

lemma unwrap_wrap:
  assumes "length inner < 65536"
  shows "unwrap m v k (Some ([m, v, k] @ appendLe16 (of_nat (length inner)) @ inner)) = Some inner"
proof -
  have "unat (of_nat (length inner) :: u16) = length inner" using assms by (simp add: unat_of_nat)
  moreover have "le16 (appendLe16 w ! 0) (appendLe16 w ! 1) = w" "length (appendLe16 w) = 2" for w
    using readLe16_appendLe16 [of w] by (simp_all add: readLe16_def)
  ultimately show ?thesis
    by (simp add: unwrap_def nth_append Let_def)
qed

interpretation five_byte: header wrap unwrap
proof
  fix m v k inner p
  assume "wrap m v k inner = Some p"
  then show "unwrap m v k (Some p) = Some inner \<and> length inner < 2 ^ 32"
    using unwrap_wrap [of inner m v k] by (auto simp: wrap_eq frame_sizes split: if_splits)
qed (auto simp: unwrap_def wrap_eq frame_sizes split: if_splits)

lemma wrap_var_eq: "wrap_var m v k inner =
    (if 3 + var_need (of_nat (length inner)) + length inner \<le> kMaxPayload
     then Some ([m, v, k] @ var_bytes (of_nat (length inner)) @ inner) else None)"
  by (auto simp: wrap_var_def putU8_def putVarU32_def putBytes_def frame_sizes var_need_length)

lemma unwrap_wrap_var:
  assumes "length inner \<le> kMaxPayload"
  shows "unwrap_var m v k (Some ([m, v, k] @ var_bytes (of_nat (length inner)) @ inner)) = Some inner"
proof -
  let ?n = "of_nat (length inner) :: u32"
  let ?p = "[m, v, k] @ var_bytes ?n @ inner"
  have n: "unat ?n = length inner" using assms by (simp add: unat_of_nat_u32 frame_sizes)
  have "getVarU32 ?p (length [m, v, k]) = Got ?n (length [m, v, k] + length (var_bytes ?n))"
    using getVar_at [of ?n 5 0 0 "[m, v, k]" inner] unat_u32_less [of ?n] by (simp add: getVarU32_def)
  then have get: "getVarU32 ?p 3 = Got ?n (3 + length (var_bytes ?n))"
    by (simp add: eval_nat_numeral)
  have off: "unat (of_nat (3 + length (var_bytes ?n)) + ?n) = 3 + length (var_bytes ?n) + length inner"
    unfolding of_nat_add [symmetric]
    using assms length_var_bytes_u32 [of ?n] by (intro unat_of_nat_u32) (simp add: frame_sizes)
  have "0 < length (var_bytes ?n)" by (subst var_bytes.simps) simp
  then have "\<not> length ?p < 4" by (simp add: less_Suc_eq_le Suc_le_eq)
  moreover have "drop (3 + length (var_bytes ?n)) ?p = inner" by (simp add: numeral_3_eq_3)
  ultimately show ?thesis
    using get off n by (simp only: unwrap_var_def option.case if_False rd.case) simp
qed

interpretation var_length: header wrap_var unwrap_var
proof
  fix m v k inner p
  assume "wrap_var m v k inner = Some p"
  then show "unwrap_var m v k (Some p) = Some inner \<and> length inner < 2 ^ 32"
    using unwrap_wrap_var [of inner m v k] by (auto simp: wrap_var_eq frame_sizes split: if_splits)
next
  fix m v k and inner :: bytes
  assume "length inner \<le> 200"
  then show "wrap_var m v k inner \<noteq> None"
    using length_var_bytes_u32 [of "of_nat (length inner)"] by (simp add: wrap_var_eq var_need_length frame_sizes)
qed (auto simp: unwrap_var_def wrap_var_eq var_need_length split: if_splits)

section \<open>The contract of a codec\<close>

definition query_texts :: "DescriptorQuery \<Rightarrow> nat" where
  "query_texts q = length (dq_key q) + length (dq_value q) + length (dq_storage_path q)
     + length (dq_ota_scope q) + length (dq_ota_target q)"

locale transport =
  fixes C :: profile_codec and loses :: "u8 \<Rightarrow> bool"
  assumes query_encodes: "canonical q \<Longrightarrow> query_texts q \<le> 80 \<Longrightarrow> \<exists>p. encode_query C q = Some p \<and> length p \<le> kMaxPayload"
    and query_back: "canonical q \<Longrightarrow> encode_query C q = Some p \<Longrightarrow>
       decode_query C (Some p) = Some (Some (if loses (dq_type q) then no_query\<lparr>dq_type := dq_type q\<rparr> else q))"
    and default_read: "length (dq_group_seed q) = 32 \<Longrightarrow> encodeDescriptorQuery q = Some p \<Longrightarrow>
       decode_query C (Some p) = Some (parseDescriptorQuery (Some p))"
    and command_back: "\<exists>p. encode_command C c = Some p \<and> decode_command C (Some p) = Some c"
    and result_back: "\<exists>p. encode_result C c r = Some p \<and> decode_result C (Some p) = Some (c, r)"

lemma encoded_room:
  assumes "length (dq_group_seed q) = 32" "query_texts q \<le> 80" "canonical q"
  shows "\<exists>p. encodeDescriptorQuery q = Some p \<and> length p \<le> 200"
proof -
  have "selector_ok q" using valid_query(2) canonicalD(4) [OF assms(3)] by blast
  then have fits: "query_fits q"
    using assms(2) by (auto simp: query_fits_def Let_def selector_ok_def query_texts_def)
  have "length (records (page_records q)) \<le> 16" by (simp add: page_records_def tlv_def)
  moreover have "length (records (field_records q)) \<le> 90 + query_texts q"
    using assms(1) by (cases "dq_type q" rule: query_type_cases)
      (simp_all add: field_records_def query_types query_texts_def Let_def tlv_def)
  ultimately have "length (records (query_records q)) \<le> 200"
    using assms(2) by (simp add: query_records_def tlv_def)
  then show ?thesis using fits assms(1) by (simp add: encodeDescriptorQuery_eq)
qed

lemma control_payloads:
  "buildControlCommandPayload c = Some p \<Longrightarrow> parseControlCommandPayload (Some p) = Some c"
  "buildControlResultPayload c r = Some p \<Longrightarrow> parseControlResultPayload (Some p) = Some (c, r)"
  by (auto simp: tlv_codec_defs)

interpretation plain: transport default_codec "\<lambda>_. False"
proof
  fix q :: DescriptorQuery and p c r
  show "canonical q \<Longrightarrow> query_texts q \<le> 80 \<Longrightarrow> \<exists>p. encode_query default_codec q = Some p \<and> length p \<le> kMaxPayload"
    using encoded_room [of q] canonicalD(1) [of q] by (fastforce simp: default_codec_def frame_sizes)
  show "canonical q \<Longrightarrow> encode_query default_codec q = Some p \<Longrightarrow>
      decode_query default_codec (Some p) = Some (Some (if False then no_query\<lparr>dq_type := dq_type q\<rparr> else q))"
    by (simp add: default_codec_def canonical_parse)
  show "\<exists>p. encode_command default_codec c = Some p \<and> decode_command default_codec (Some p) = Some c"
    using control_payloads(1) by (simp add: default_codec_def buildControlCommandPayload_eq)
  show "\<exists>p. encode_result default_codec c r = Some p \<and> decode_result default_codec (Some p) = Some (c, r)"
    using control_payloads(2) by (simp add: default_codec_def buildControlResultPayload_eq)
qed (simp add: default_codec_def)

lemma control_room:
  "\<exists>p. buildControlCommandPayload c = Some p \<and> length p \<le> 200"
  "\<exists>p. buildControlResultPayload c r = Some p \<and> length p \<le> 200"
  by (simp_all add: buildControlCommandPayload_eq buildControlResultPayload_eq tlv_def)

lemma wrapped:
  assumes "length inner \<le> 200"
  shows "\<exists>p. wrap m v k inner = Some p \<and> unwrap m v k (Some p) = Some inner \<and> length p \<le> kMaxPayload"
  using five_byte.wr_room [OF assms, of m v k] five_byte.strip_wr [of m v k inner] five_byte.wr_short [of m v k inner] by auto

lemma header_transport:
  assumes "desc \<noteq> 0x01"
  shows "transport (header_codec i desc ctrl) (\<lambda>_. False)"
proof
  fix q :: DescriptorQuery and p c r
  let ?C = "header_codec i desc ctrl"
  note defs = header_codec_def or_plain_def
  show "canonical q \<Longrightarrow> query_texts q \<le> 80 \<Longrightarrow> \<exists>p. encode_query ?C q = Some p \<and> length p \<le> kMaxPayload"
    using encoded_room [of q] canonicalD(1) [of q] wrapped [of _ desc 1 1] by (fastforce simp: defs)
  show "canonical q \<Longrightarrow> encode_query ?C q = Some p \<Longrightarrow>
      decode_query ?C (Some p) = Some (Some (if False then no_query\<lparr>dq_type := dq_type q\<rparr> else q))"
    by (auto simp: defs bind_eq_Some_conv canonical_parse dest!: five_byte.strip_wr)
  show "length (dq_group_seed q) = 32 \<Longrightarrow> encodeDescriptorQuery q = Some p \<Longrightarrow>
      decode_query ?C (Some p) = Some (parseDescriptorQuery (Some p))"
    using encoded_head [of q p] five_byte.strip_other [of p desc] assms by (simp add: defs)
  show "\<exists>p. encode_command ?C c = Some p \<and> decode_command ?C (Some p) = Some c"
    using control_room(1) [of c] wrapped [of _ ctrl 1 1] by (fastforce simp: defs dest: control_payloads)
  show "\<exists>p. encode_result ?C c r = Some p \<and> decode_result ?C (Some p) = Some (c, r)"
    using control_room(2) [of c r] wrapped [of _ ctrl 1 2] by (fastforce simp: defs dest: control_payloads)
qed

interpretation packed: transport packed_tlv_codec "\<lambda>_. False"
  unfolding packed_tlv_codec_def by (rule header_transport) simp

interpretation cbor: transport cbor_lite_codec "\<lambda>_. False"
  unfolding cbor_lite_codec_def by (rule header_transport) simp

interpretation map_like: transport binary_map_codec "\<lambda>_. False"
  unfolding binary_map_codec_def by (rule header_transport) simp

text \<open>The codecs with flags: what comes out of a whole buffer of fields.\<close>

lemma accepted_part:
  assumes "canonical q"
  shows "flagged_accepted p (length p) (flagged_part q)"
  using valid_query [OF canonicalD(4) [OF assms]]
  by (auto simp: flagged_accepted_def flagged_part_def selector_ok_def)

lemma part_read:
  assumes "canonical q" "\<not> by_records (dq_type q)"
  shows "flagged_part q = (if compact_refuses (dq_type q) then no_query\<lparr>dq_type := dq_type q\<rparr> else q)"
  using flagged_whole flagged_lossy canonicalD(2) [OF assms(1)] assms(2) by simp

lemma by_records_whole: "by_records ty \<Longrightarrow> \<not> compact_refuses ty"
  by (auto simp: by_records_def compact_refuses_def query_types)

context flagged_fields
begin

lemma inner_read:
  assumes "canonical q" "put_flagged F q [] = Some inner" "length inner < 2 ^ 32" "\<not> by_records (dq_type q)"
  shows "get_inner F inner = Some (Some (if compact_refuses (dq_type q) then no_query\<lparr>dq_type := dq_type q\<rparr> else q))"
proof -
  from carriesE [OF flagged_carried assms(2)] obtain b where b: "inner = b"
    "\<And>pre rest. length (pre @ b @ rest) < 2 ^ 32 \<Longrightarrow>
       rd_then getU8 (\<lambda>ty. rd_then getU8 (\<lambda>flags. get_flagged F ty flags)) (pre @ b @ rest) (length pre)
         = Got (flagged_part q) (length pre + length b)"
    by auto
  from b(2) [of "[]" "[]"] b(1) assms(3) show ?thesis
    using accepted_part [OF assms(1)] part_read [OF assms(1,4)] by (simp add: get_inner_def flagged_result_def)
qed

lemma inner_room:
  assumes "query_texts q \<le> 80"
  shows "\<exists>inner. put_flagged F q [] = Some inner \<and> length inner \<le> 200"
proof -
  have "fits (put_flagged F q) (19 + length (dq_key q) + length (dq_value q))"
    using assms by (intro put_flagged_fits) (simp_all add: query_texts_def)
  then show ?thesis
    using assms unfolding fits_def by (elim allE [of _ "[]"]) (auto simp: frame_sizes query_texts_def)
qed

lemma ids_whole:
  "\<exists>p. put_id F c [] = Some p \<and> length p \<le> 200 \<and> get_whole (get_id F) p = Some c"
  "\<exists>p. Option.bind (put_id F c []) (put_id F r) = Some p \<and> length p \<le> 200
     \<and> get_whole (get_pair (get_id F)) p = Some (c, r)"
proof -
  have whole: "\<exists>p. put [] = Some p \<and> length p \<le> 200 \<and> get_whole get p = Some x"
    if "carries put get x" "fits put n" "n \<le> 200" for put n and get :: "'x reader" and x
  proof -
    from that(2,3) obtain p where p: "put [] = Some p" "length p \<le> 200"
      by (force simp: fits_def frame_sizes)
    from carriesE [OF that(1) p(1)] obtain b where "p = b"
      "\<And>pre rest. length (pre @ b @ rest) < 2 ^ 32 \<Longrightarrow> get (pre @ b @ rest) (length pre) = Got x (length pre + length b)"
      by auto
    from this(1) this(2) [of "[]" "[]"] p show ?thesis by (simp add: get_whole_def)
  qed
  show "\<exists>p. put_id F c [] = Some p \<and> length p \<le> 200 \<and> get_whole (get_id F) p = Some c"
    by (rule whole [OF writesD [OF id_law] room_law(1)]) simp
  show "\<exists>p. Option.bind (put_id F c []) (put_id F r) = Some p \<and> length p \<le> 200
     \<and> get_whole (get_pair (get_id F)) p = Some (c, r)"
    unfolding get_pair_def
    by (rule whole [OF carries_then [OF writesD [OF id_law] carries_map [OF writesD [OF id_law]]]
          fits_then [OF room_law(1) room_law(1)]]) simp
qed

end

locale flagged_profile = header wr strip + flagged_fields F for wr strip F
begin

lemma room: "length inner \<le> 200 \<Longrightarrow> \<exists>p. wr m v k inner = Some p \<and> strip m v k (Some p) = Some inner \<and> length p \<le> kMaxPayload"
  using wr_room [of inner m v k] strip_wr [of m v k inner] wr_short [of m v k inner] by auto

lemma profile_transport:
  assumes "desc \<noteq> 0x01"
  shows "transport (flagged_codec i F wr strip desc ctrl) compact_refuses"
proof
  fix q :: DescriptorQuery and p c r
  let ?C = "flagged_codec i F wr strip desc ctrl"
  note defs = flagged_codec_def inner_encode_def inner_decode_def
  show "\<exists>p. encode_query ?C q = Some p \<and> length p \<le> kMaxPayload" if "canonical q" "query_texts q \<le> 80"
    using that encoded_room [of q] canonicalD(1) [of q] inner_room [of q] room [of _ desc 1 1]
      valid_query(2) [OF canonicalD(4), of q]
    by (fastforce simp: defs frame_sizes)
  show other: "decode_query ?C (Some p) = Some (parseDescriptorQuery (Some p))"
    if "length (dq_group_seed q) = 32" "encodeDescriptorQuery q = Some p" for q p
    using encoded_head [of q p] strip_other [of p desc] assms that by (simp add: defs)
  show "decode_query ?C (Some p) = Some (Some (if compact_refuses (dq_type q) then no_query\<lparr>dq_type := dq_type q\<rparr> else q))"
    if "canonical q" "encode_query ?C q = Some p"
  proof (cases "by_records (dq_type q)")
    case True
    then have "encodeDescriptorQuery q = Some p" using that(2) by (simp add: defs)
    then show ?thesis
      using other [OF canonicalD(1) [OF that(1)]] canonical_parse [OF that(1)] by_records_whole [OF True] by simp
  next
    case False
    with that(2) obtain inner where "put_flagged F q [] = Some inner" "wr desc 1 1 inner = Some p"
      by (auto simp: defs bind_eq_Some_conv split: if_splits)
    then show ?thesis
      using inner_read [OF that(1) _ _ False] strip_wr [of desc 1 1 inner p] by (simp add: defs)
  qed
  show "\<exists>p. encode_command ?C c = Some p \<and> decode_command ?C (Some p) = Some c"
    using ids_whole(1) [of c] room [of _ ctrl 1 1] by (fastforce simp: defs)
  show "\<exists>p. encode_result ?C c r = Some p \<and> decode_result ?C (Some p) = Some (c, r)"
  proof -
    from ids_whole(2) [of c r] obtain inner where inner: "Option.bind (put_id F c []) (put_id F r) = Some inner"
      "length inner \<le> 200" "get_whole (get_pair (get_id F)) inner = Some (c, r)"
      by blast
    from room [OF this(2), of ctrl 1 2] inner show ?thesis by (auto simp: defs simp del: Option.bind_assoc)
  qed
qed

end

interpretation varint_profile: flagged_profile wrap_var unwrap_var varint_ops ..

interpretation delta_profile: flagged_profile wrap unwrap delta_ops ..

interpretation varint_transport: transport varint_tlv_codec compact_refuses
  unfolding varint_tlv_codec_def by (rule varint_profile.profile_transport) simp

interpretation delta_transport: transport delta_binary_codec compact_refuses
  unfolding delta_binary_codec_def by (rule delta_profile.profile_transport) simp

lemma got_two:
  "rd_then getU8 (\<lambda>a. rd_then getU8 (g a)) p off = Got x n \<Longrightarrow>
   off + 2 \<le> length p \<and> g (p ! off) (p ! (off + 1)) p (off + 2) = Got x n"
  by (auto simp: rd_then_def getU8_def split: if_splits)

definition bounded :: "(bytes \<Rightarrow> bytes option) \<Rightarrow> bool" where
  "bounded put \<longleftrightarrow> (\<forall>out ext. put out = Some ext \<longrightarrow> length out \<le> kMaxPayload \<longrightarrow> length ext \<le> kMaxPayload)"

lemma bounded_then: "bounded p \<Longrightarrow> bounded p' \<Longrightarrow> bounded (\<lambda>out. Option.bind (p out) p')"
  by (auto simp: bounded_def bind_eq_Some_conv)

lemma bounded_block: "bounded p \<Longrightarrow> bounded (block c p)"
  by (cases c) (auto simp: bounded_def)

lemma compact_bounded: "bounded (put_flagged compact_ops q)"
  unfolding put_flagged_def compact_ops_def field_ops.simps
  by (intro bounded_then bounded_block)
     (auto simp: bounded_def putU8_def putU16_def putU32_def putStr8_def split: if_splits)

lemma compact_read:
  assumes "canonical q" "put_flagged compact_ops q [0xC1, 0x01] = Some p"
    "\<not> by_records (dq_type q)" "\<not> topology_type (dq_type q)"
  shows "compact_decode_query (Some p) = Some (Some q)"
proof -
  have two: "length [0xC1 :: u8, 0x01] = 2" "length ([0xC1, 0x01] @ b) = 2 + length b" for b :: bytes
    by simp_all
  from carriesE [OF compact.flagged_carried assms(2)] obtain b where p: "p = [0xC1, 0x01] @ b" and
    "\<And>pre rest. length (pre @ b @ rest) < 2 ^ 32 \<Longrightarrow>
       rd_then getU8 (\<lambda>ty. rd_then getU8 (\<lambda>flags. get_flagged compact_ops ty flags)) (pre @ b @ rest) (length pre)
         = Got (flagged_part q) (length pre + length b)"
    by metis
  moreover have "length p < 2 ^ 32"
    using compact_bounded assms(2) by (fastforce simp: bounded_def frame_sizes)
  ultimately have "rd_then getU8 (\<lambda>ty. rd_then getU8 (\<lambda>flags. get_flagged compact_ops ty flags)) p 2
      = Got (flagged_part q) (length p)"
    by (metis append_Nil2 two)
  from got_two [OF this] have "4 \<le> length p" "get_flagged compact_ops (p ! 2) (p ! 3) p 4 = Got (flagged_part q) (length p)"
    by (simp_all add: numeral_eq_Suc)
  moreover have "flagged_part q = q" "\<not> compact_refuses (dq_type q)"
    using part_read [OF assms(1,3)] assms(4) by (auto simp: topology_type_def compact_refuses_def)
  ultimately show ?thesis
    using accepted_part [OF assms(1), of p] by (simp add: compact_decode_query_def flagged_result_def p)
qed

lemma compact_room:
  assumes "query_texts q \<le> 80"
  shows "\<exists>p. put_flagged compact_ops q [0xC1, 0x01] = Some p \<and> length p \<le> 200"
proof -
  have "fits (put_flagged compact_ops q) (19 + length (dq_key q) + length (dq_value q))"
    using assms by (intro compact.put_flagged_fits) (simp_all add: query_texts_def)
  then show ?thesis
    using assms unfolding fits_def by (elim allE [of _ "[0xC1, 0x01]"]) (auto simp: frame_sizes query_texts_def)
qed

interpretation compact_transport: transport compact_indexed_codec "\<lambda>_. False"
proof
  fix q :: DescriptorQuery and p c r
  let ?C = "compact_indexed_codec"
  note defs = compact_indexed_codec_def compact_encode_query_def
  show "\<exists>p. encode_query ?C q = Some p \<and> length p \<le> kMaxPayload" if "canonical q" "query_texts q \<le> 80"
    using that encoded_room [of q] canonicalD(1) [of q] compact_room [of q] valid_query(2) [OF canonicalD(4), of q]
    by (fastforce simp: defs putU8_def frame_sizes)
  show other: "decode_query ?C (Some p) = Some (parseDescriptorQuery (Some p))"
    if "length (dq_group_seed q) = 32" "encodeDescriptorQuery q = Some p" for q p
    using encoded_head [OF that] by (simp add: compact_indexed_codec_def compact_decode_query_def)
  show "decode_query ?C (Some p) = Some (Some (if False then no_query\<lparr>dq_type := dq_type q\<rparr> else q))"
    if "canonical q" "encode_query ?C q = Some p"
  proof (cases "by_records (dq_type q) \<or> topology_type (dq_type q)")
    case True
    then have "encodeDescriptorQuery q = Some p" using that(2) by (simp add: defs)
    then show ?thesis using other [OF canonicalD(1) [OF that(1)]] canonical_parse [OF that(1)] by simp
  next
    case False
    then have "put_flagged compact_ops q [0xC1, 0x01] = Some p"
      using that(2) by (auto simp: defs putU8_def frame_sizes split: if_splits)
    then show ?thesis
      using compact_read [OF that(1)] False by (simp add: compact_indexed_codec_def)
  qed
  show "\<exists>p. encode_command ?C c = Some p \<and> decode_command ?C (Some p) = Some c"
    by (simp add: compact_indexed_codec_def putU8_def putU16_def frame_sizes appendLe16_eq le16_split)
  show "\<exists>p. encode_result ?C c r = Some p \<and> decode_result ?C (Some p) = Some (c, r)"
    by (simp add: compact_indexed_codec_def putU8_def putU16_def frame_sizes appendLe16_eq le16_split)
qed

section \<open>All codecs\<close>

lemma built_in: "registerBuiltInCodecs [] = [default_codec, compact_indexed_codec, packed_tlv_codec, varint_tlv_codec,
    delta_binary_codec, cbor_lite_codec, binary_map_codec]"
  by (simp add: registerBuiltInCodecs_def registerCodec_def default_codec_def compact_indexed_codec_def
      packed_tlv_codec_def varint_tlv_codec_def delta_binary_codec_def cbor_lite_codec_def binary_map_codec_def
      header_codec_def flagged_codec_def)

lemma codec_ids [simp]: "codec_id default_codec = 1" "codec_id compact_indexed_codec = 2" "codec_id packed_tlv_codec = 3"
  "codec_id varint_tlv_codec = 4" "codec_id delta_binary_codec = 5" "codec_id cbor_lite_codec = 6"
  "codec_id binary_map_codec = 7"
  by (simp_all add: default_codec_def compact_indexed_codec_def packed_tlv_codec_def varint_tlv_codec_def
      delta_binary_codec_def cbor_lite_codec_def binary_map_codec_def header_codec_def flagged_codec_def)

lemma found_built_in:
  assumes "find_codec i (registerBuiltInCodecs []) = Some c"
  obtains "i = 1" "c = default_codec" | "i = 2" "c = compact_indexed_codec" | "i = 3" "c = packed_tlv_codec"
    | "i = 4" "c = varint_tlv_codec" | "i = 5" "c = delta_binary_codec" | "i = 6" "c = cbor_lite_codec"
    | "i = 7" "c = binary_map_codec"
  using assms by (auto simp: built_in find_codec_def split: if_splits)

lemma found_transport:
  assumes "find_codec i (registerBuiltInCodecs []) = Some c"
  shows "transport c (\<lambda>ty. (i = 4 \<or> i = 5) \<and> compact_refuses ty)"
  using assms
  by (rule found_built_in)
     (simp_all add: plain.transport_axioms compact_transport.transport_axioms packed.transport_axioms
        varint_transport.transport_axioms delta_transport.transport_axioms cbor.transport_axioms map_like.transport_axioms)

text \<open>
  C20. Every built-in codec transports queries: a query as the parser produces them, with texts of
  at most 80 characters, is encoded and read back as it was, except for the four topology queries
  with parameters through the varint and delta codecs.
\<close>

theorem codec_query_roundtrip:
  assumes "find_codec i (registerBuiltInCodecs []) = Some c" "canonical q" "query_texts q \<le> 80"
    "\<not> ((i = 4 \<or> i = 5) \<and> compact_refuses (dq_type q))"
  shows "\<exists>p. encode_query c q = Some p \<and> decode_query c (Some p) = Some (Some q)"
proof -
  from assms(1) have t: "transport c (\<lambda>ty. (i = 4 \<or> i = 5) \<and> compact_refuses ty)" by (rule found_transport)
  from transport.query_encodes [OF t assms(2,3)] obtain p where "encode_query c q = Some p" by auto
  with transport.query_back [OF t assms(2) this] assms(4) show ?thesis by auto
qed

definition setting_query :: DescriptorQuery where
  "setting_query = no_query\<lparr>dq_type := qSetSetting, dq_key := ''led'', dq_value := ''on''\<rparr>"

lemmas query_eval = canonical_def carried_def carried_fields_def carried_page_def no_query_def query_types
  supportsPaging_def query_fin_def query_valid_def query_texts_def compact_refuses_def Let_def

lemma codec_query_roundtrip_witness:
  "\<exists>p. encode_query varint_tlv_codec setting_query = Some p \<and> decode_query varint_tlv_codec (Some p) = Some (Some setting_query)"
  by (rule codec_query_roundtrip [where i = 4])
     (simp_all add: find_codec_def built_in setting_query_def query_eval)

text \<open>
  The varint and delta codecs lose the parameters of the topology queries: what a node that
  stages a topology or requests a trigger through them receives is the bare query with defaults,
  whatever was sent.
\<close>

lemma topology_parameters_lost:
  assumes "find_codec i (registerBuiltInCodecs []) = Some c" "i = 4 \<or> i = 5" "compact_refuses (dq_type q)"
    "canonical q" "query_texts q \<le> 80"
  shows "\<exists>p. encode_query c q = Some p \<and> decode_query c (Some p) = Some (Some (no_query\<lparr>dq_type := dq_type q\<rparr>))"
proof -
  from assms(1) have t: "transport c (\<lambda>ty. (i = 4 \<or> i = 5) \<and> compact_refuses ty)" by (rule found_transport)
  from transport.query_encodes [OF t assms(4,5)] obtain p where "encode_query c q = Some p" by auto
  with transport.query_back [OF t assms(4) this] assms(2,3) show ?thesis by auto
qed

definition slot_query :: DescriptorQuery where
  "slot_query = no_query\<lparr>dq_type := qTopologyStageSlotSet, dq_slot_index := 3, dq_slot_enabled := True,
     dq_peer_role := 1, dq_relative_index := 1, dq_group_id := 2\<rparr>"

text \<open>
  C30. Every built-in codec reads what the default codec writes, and reads it as the default codec
  does: a node whose peer has not been assigned a codec yet is understood.
\<close>

theorem codecs_read_default:
  assumes "find_codec i (registerBuiltInCodecs []) = Some c" "length (dq_group_seed q) = 32"
    "encode_query default_codec q = Some p"
  shows "decode_query c (Some p) = decode_query default_codec (Some p)"
proof -
  from assms(1) have t: "transport c (\<lambda>ty. (i = 4 \<or> i = 5) \<and> compact_refuses ty)" by (rule found_transport)
  from transport.default_read [OF t assms(2)] assms(3) show ?thesis by (simp add: default_codec_def)
qed

lemma codecs_read_default_witness:
  "\<exists>p. encode_query default_codec setting_query = Some p
     \<and> decode_query compact_indexed_codec (Some p) = decode_query default_codec (Some p)"
proof -
  have "canonical setting_query" "query_texts setting_query \<le> 80" "length (dq_group_seed setting_query) = 32"
    by (simp_all add: setting_query_def query_eval)
  with plain.query_encodes obtain p where "encode_query default_codec setting_query = Some p" by blast
  moreover from codecs_read_default [of 2 compact_indexed_codec setting_query p] this
  have "decode_query compact_indexed_codec (Some p) = decode_query default_codec (Some p)"
    by (simp add: find_codec_def built_in setting_query_def no_query_def)
  ultimately show ?thesis by blast
qed

text \<open>
  The commands and results of every built-in codec are read back as they were written, for
  every identifier and code.
\<close>

lemma codec_control_roundtrip:
  assumes "find_codec i (registerBuiltInCodecs []) = Some c"
  shows "\<exists>p p'. encode_command c cmd = Some p \<and> decode_command c (Some p) = Some cmd
     \<and> encode_result c cmd code = Some p' \<and> decode_result c (Some p') = Some (cmd, code)"
proof -
  from assms have t: "transport c (\<lambda>ty. (i = 4 \<or> i = 5) \<and> compact_refuses ty)" by (rule found_transport)
  from transport.command_back [OF t, of cmd] transport.result_back [OF t, of cmd code] show ?thesis by blast
qed

section \<open>Reads in and outside the buffer\<close>

lemma flagged_tame:
  assumes "tame get" "length p \<le> kMaxPayload" "off \<le> length p"
  shows "flagged_result extra p (get p off) \<noteq> None"
  using assms by (auto simp: tame_def flagged_result_def frame_sizes split: rd.splits)

lemma length_unwrap: "unwrap m v k (Some p) = Some inner \<Longrightarrow> length inner \<le> length p"
  by (auto simp: unwrap_def Let_def split: if_splits)

lemma delta_tame: "tame (get_flagged delta_ops ty flags)"
  unfolding delta_ops_def by (rule tame_ops(2)) (rule tame_numbers tame_texts)+

lemma compact_tame: "tame (get_flagged compact_ops ty flags)"
  unfolding compact_ops_def by (rule tame_ops(1)) (rule tame_numbers tame_texts)+

lemma delta_reads: "length p \<le> kMaxPayload \<Longrightarrow> decode_query delta_binary_codec (Some p) \<noteq> None"
  unfolding delta_binary_codec_def flagged_codec_def inner_decode_def get_inner_def
  by (simp split: option.split)
     (intro allI impI flagged_tame [of "rd_then getU8 (\<lambda>ty. rd_then getU8 (\<lambda>flags. get_flagged delta_ops ty flags))",
        simplified] tame_then tame_numbers delta_tame, auto dest!: length_unwrap)

lemma compact_reads: "length p \<le> kMaxPayload \<Longrightarrow> decode_query compact_indexed_codec (Some p) \<noteq> None"
  using flagged_tame [OF compact_tame, of p 4]
  by (simp add: compact_indexed_codec_def compact_decode_query_def)

definition wild_payload :: bytes where
  "wild_payload = [0xE1, 1, 1, 7, qGetSetting, 0x01, 0xFF, 0xFF, 0xFF, 0xFF, 0x0F]"

abbreviation wild_inner :: bytes where
  "wild_inner \<equiv> [qGetSetting, 0x01, 0xFF, 0xFF, 0xFF, 0xFF, 0x0F]"

lemma five_bytes: "getVarU32 = getVar (Suc (Suc (Suc (Suc (Suc 0))))) 0 0"
  by (simp add: getVarU32_def numeral_eq_Suc)

lemma wild_unwrapped: "unwrap_var 0xE1 1 1 (Some wild_payload) = Some wild_inner"
proof -
  have "getVarU32 wild_payload 3 = Got 7 4"
    by (simp add: wild_payload_def five_bytes getU8_def)
  then show ?thesis by (simp add: unwrap_var_def) (simp add: wild_payload_def)
qed

lemma wild_length: "getVarU32 wild_inner 2 = Got 0xFFFFFFFF 7"
  by (simp add: five_bytes getU8_def)

lemma wild_chars: "getChars (unat (0xFFFFFFFF :: u32)) wild_inner 7 = Wild"
  by (simp add: getChars_def)

lemma varint_wild: "decode_query varint_tlv_codec (Some wild_payload) = None"
proof -
  have "getVarStr wild_inner (Suc (Suc 0)) = Wild"
    unfolding numeral_2_eq_2 [symmetric] getVarStr_def rd_then_def wild_length using wild_chars by simp
  then have "get_inner varint_ops wild_inner = None"
    by (simp add: get_inner_def flagged_result_def rd_then_def getU8_def get_flagged_def rd_if_def rd_give_def varint_ops_def)
  then show ?thesis
    by (simp add: varint_tlv_codec_def flagged_codec_def inner_decode_def wild_unwrapped)
qed

text \<open>
  C28. On a payload that fits into a frame the decoders of the built-in codecs stay inside the
  buffer, whatever it contains, with one exception: the varint codec, whose length fields have 32
  bits, adds such a length to an offset with wrap-around and then reads past the end.
\<close>

theorem codec_reads_in_bounds:
  assumes "find_codec i (registerBuiltInCodecs []) = Some c"
  shows "(\<forall>p. length p \<le> kMaxPayload \<longrightarrow> decode_query c (Some p) \<noteq> None) \<longleftrightarrow> i \<noteq> 4"
proof -
  have wild: "length wild_payload \<le> kMaxPayload" by (simp add: wild_payload_def frame_sizes)
  from assms show ?thesis
  proof (rule found_built_in)
    assume c: "i = 4" "c = varint_tlv_codec"
    from varint_wild wild show ?thesis unfolding c by blast
  qed (use compact_reads delta_reads in \<open>auto simp: default_codec_def packed_tlv_codec_def cbor_lite_codec_def
      binary_map_codec_def header_codec_def\<close>)
qed

lemma codec_reads_in_bounds_witness:
  "\<not> (\<forall>p. length p \<le> kMaxPayload \<longrightarrow> decode_query varint_tlv_codec (Some p) \<noteq> None)"
proof -
  have "find_codec 4 (registerBuiltInCodecs []) = Some varint_tlv_codec" by (simp add: find_codec_def built_in)
  from codec_reads_in_bounds [OF this] show ?thesis by simp
qed

section \<open>Queries that no parser accepts\<close>

text \<open>
  C36. The default encoder accepts queries that the parser refuses: an encoded query is accepted
  exactly if the fields it transports satisfy the parser's conditions, and it is then the sent query
  without what its type does not transport. An empty value, the time 0, a log read of no bytes and a
  slot beyond the last are encoded and sent, and refused by every receiver.
\<close>

theorem default_query_accepted_iff:
  assumes "length (dq_group_seed q) = 32" "encodeDescriptorQuery q = Some p"
  shows "parseDescriptorQuery (Some p) =
    (if query_valid (carried q)
     then Some (if dq_type q = qGetNodeBundle
                then (carried q)\<lparr>dq_bundle_mask := masked_bundle (dq_bundle_mask (carried q))\<rparr> else carried q)
     else None)"
  using parse_encoded [OF assms] by (simp add: query_fin_def Let_def)

definition empty_log_read :: DescriptorQuery where
  "empty_log_read = no_query\<lparr>dq_type := qReadLogChunk, dq_log_offset := 100\<rparr>"

lemma default_query_accepted_iff_witness:
  "\<exists>p. encodeDescriptorQuery empty_log_read = Some p \<and> parseDescriptorQuery (Some p) = None"
proof -
  have len: "length (dq_group_seed empty_log_read) = 32" and fits: "query_fits empty_log_read"
    by (simp_all add: empty_log_read_def query_eval query_fits_def)
  then obtain p where p: "encodeDescriptorQuery empty_log_read = Some p"
    by (simp add: encodeDescriptorQuery_eq)
  from default_query_accepted_iff [OF len p] have "parseDescriptorQuery (Some p) = None"
    by (simp add: empty_log_read_def query_eval)
  with p show ?thesis by blast
qed

end
