(* ===== verification/PullClient.thy ===== *)
theory PullClient
  imports Transmit ProfileCodecs
begin

text \<open>
  What a master asks of a slave: \<open>MasterPullClient\<close> (\<open>master_pull_client.cpp\<close>) over the codec of the
  manager (\<open>manager_core.cpp\<close>), and the pull request it ends in (\<open>sendPullRequest\<close> of
  \<open>manager_tx.cpp\<close>), whose service and operation \<open>classifyPullRequest\<close> of \<open>manager_helpers.cpp\<close>
  reads off the payload.
\<close>

section \<open>The codec of a manager\<close>

record client = mgr +
  cl_codec :: profile_codec

text \<open>The local profile is given by the codecs it supports, \<open>None\<close> if there is no profile.\<close>

definition setCodec :: "(u16 \<Rightarrow> bool) option \<Rightarrow> profile_codec option \<Rightarrow> ('r client_scheme, unit) state" where
  "setCodec profile chosen =
     (case chosen of
        None \<Rightarrow> modify (\<lambda>s. s\<lparr>cl_codec := default_codec\<rparr>)
      | Some c \<Rightarrow>
          if (case profile of None \<Rightarrow> False | Some supports \<Rightarrow> \<not> supports (codec_id c)) then ret ()
          else modify (\<lambda>s. s\<lparr>cl_codec := c\<rparr>))"

definition setCodecById :: "profile_codec list \<Rightarrow> (u16 \<Rightarrow> bool) option \<Rightarrow> u16 \<Rightarrow> ('r client_scheme, bool) state" where
  "setCodecById registry profile i =
     (case find_codec i registry of
        None \<Rightarrow> ret False
      | Some c \<Rightarrow>
          if (case profile of None \<Rightarrow> False | Some supports \<Rightarrow> \<not> supports i) then ret False
          else do { _ \<leftarrow> modify (\<lambda>s. s\<lparr>cl_codec := c\<rparr>); ret True })"

section \<open>Pull requests\<close>

definition classify_query :: "u8 \<Rightarrow> (u8 \<times> u8) option" where
  "classify_query ty =
     (if ty = qGetDevice \<or> ty = qGetCapabilities \<or> ty = qGetTime \<or> ty = qSetTime then Some (0x02, 0x01)
      else if ty = qGetSettings \<or> ty = qGetNodeBundle then Some (0x03, 0x05)
      else if ty = qGetSetting then Some (0x03, 0x01)
      else if ty = qSetSetting then Some (0x03, 0x03)
      else if ty = qGetTelemetry then Some (0x04, 0x01)
      else if ty = qPullTelemetry then Some (0x04, 0x03)
      else if ty = qGetLiveness then Some (0x05, 0x01)
      else if ty = qGetLogStatus then Some (0x02, 0x01)
      else if ty = qReadLogChunk then Some (0x02, 0x03)
      else if ty = qClearLog then Some (0x02, 0x05)
      else if ty = qSetLogControl then Some (0x02, 0x05)
      else if ty = qGetStorageInfo then Some (0x02, 0x01)
      else if ty = qListStoragePath then Some (0x02, 0x03)
      else if ty = qStatStoragePath then Some (0x02, 0x01)
      else if ty = qTopologyStageClear \<or> ty = qTopologyStageBegin \<or> ty = qTopologyStageSlotSet
        \<or> ty = qTopologyStageGroupSet \<or> ty = qTopologyStageFinalize \<or> ty = qTopologyCommit
        \<or> ty = qTopologyStatus then Some (0x05, 0x03)
      else None)"

definition classifyPullRequest :: "buf \<Rightarrow> (u8 \<times> u8) option" where
  "classifyPullRequest payload =
     (case Option.bind (parseDescriptorQuery payload) (\<lambda>q. classify_query (dq_type q)) of
        Some c \<Rightarrow> Some c
      | None \<Rightarrow> (case parseControlCommandPayload payload of None \<Rightarrow> None | Some _ \<Rightarrow> Some (0x06, 0x01)))"

definition pull_request_wire :: "bytes \<Rightarrow> u8 \<times> u8" where
  "pull_request_wire payload =
     (let (service, op) = (case classifyPullRequest (Some payload) of None \<Rightarrow> (0x06, 0x01) | Some c \<Rightarrow> c) in
      if isValidPullRequestWire service op then (service, op) else (0x06, 0x01))"

definition sendPullRequest :: "menv \<Rightarrow> mac \<Rightarrow> bytes \<Rightarrow> u32 \<Rightarrow> ('r, bool) mgrm" where
  "sendPullRequest E to payload corr_id =
     (if local_role (m_cfg E) \<noteq> Master then ret False
      else do {
        r \<leftarrow> sendTyped E to PullRequest payload corr_id (fst (pull_request_wire payload)) (snd (pull_request_wire payload)) 0x01;
        ret (fst r) })"

section \<open>The client\<close>

definition sendDescriptorQuery :: "menv \<Rightarrow> mac \<Rightarrow> DescriptorQuery \<Rightarrow> u32 \<Rightarrow> ('r client_scheme, bool) state" where
  "sendDescriptorQuery E to q corr_id = do {
     c \<leftarrow> gets cl_codec;
     case encode_query c q of
       None \<Rightarrow> ret False
     | Some payload \<Rightarrow> sendPullRequest E to payload corr_id }"

definition sendControlCommand :: "menv \<Rightarrow> mac \<Rightarrow> u16 \<Rightarrow> u32 \<Rightarrow> ('r client_scheme, bool) state" where
  "sendControlCommand E to cmd_id corr_id = do {
     c \<leftarrow> gets cl_codec;
     case encode_command c cmd_id of
       None \<Rightarrow> ret False
     | Some payload \<Rightarrow> sendPullRequest E to payload corr_id }"

type_synonym 'r request = "mac \<Rightarrow> u32 \<Rightarrow> ('r client_scheme, bool) state"

definition requestSimple :: "menv \<Rightarrow> u8 \<Rightarrow> 'r request" where
  "requestSimple E ty to c = sendDescriptorQuery E to (no_query\<lparr>dq_type := ty\<rparr>) c"

text \<open>A page of an answer.\<close>

definition request_page :: "menv \<Rightarrow> u8 \<Rightarrow> u16 \<Rightarrow> u8 \<Rightarrow> 'r request" where
  "request_page E ty cursor page_size to c =
     sendDescriptorQuery E to (no_query\<lparr>dq_type := ty, dq_paged := True, dq_cursor := cursor, dq_page_size := page_size\<rparr>) c"

definition requestDevice :: "menv \<Rightarrow> 'r request" where "requestDevice E = requestSimple E qGetDevice"
definition requestCapabilities :: "menv \<Rightarrow> 'r request" where "requestCapabilities E = requestSimple E qGetCapabilities"
definition requestCapabilitiesPage :: "menv \<Rightarrow> u16 \<Rightarrow> u8 \<Rightarrow> 'r request" where
  "requestCapabilitiesPage E = request_page E qGetCapabilities"
definition requestTelemetrySchema :: "menv \<Rightarrow> 'r request" where "requestTelemetrySchema E = requestSimple E qGetTelemetry"
definition requestTelemetrySchemaPage :: "menv \<Rightarrow> u16 \<Rightarrow> u8 \<Rightarrow> 'r request" where
  "requestTelemetrySchemaPage E = request_page E qGetTelemetry"
definition requestTelemetryPull :: "menv \<Rightarrow> 'r request" where "requestTelemetryPull E = requestSimple E qPullTelemetry"
definition requestTelemetryPullPage :: "menv \<Rightarrow> u16 \<Rightarrow> u8 \<Rightarrow> 'r request" where
  "requestTelemetryPullPage E = request_page E qPullTelemetry"
definition requestLiveness :: "menv \<Rightarrow> 'r request" where "requestLiveness E = requestSimple E qGetLiveness"
definition requestTimeGet :: "menv \<Rightarrow> 'r request" where "requestTimeGet E = requestSimple E qGetTime"
definition requestTimeSet :: "menv \<Rightarrow> u64 \<Rightarrow> 'r request" where
  "requestTimeSet E epoch_s to c = sendDescriptorQuery E to (no_query\<lparr>dq_type := qSetTime, dq_time_epoch_s := epoch_s\<rparr>) c"
definition requestSettings :: "menv \<Rightarrow> 'r request" where "requestSettings E = requestSimple E qGetSettings"
definition requestSettingsPage :: "menv \<Rightarrow> u16 \<Rightarrow> u8 \<Rightarrow> 'r request" where
  "requestSettingsPage E = request_page E qGetSettings"

definition requestNodeBundle :: "menv \<Rightarrow> u8 \<Rightarrow> 'r request" where
  "requestNodeBundle E bundle_mask to c =
     (let mask = (if bundle_mask = 0 then kNodeBundleMaskAll else bundle_mask);
          q = no_query\<lparr>dq_type := qGetNodeBundle, dq_bundle_mask := mask\<rparr> in
      sendDescriptorQuery E to
        (if mask AND kNodeBundleMaskSettings \<noteq> 0 then q\<lparr>dq_paged := True, dq_cursor := 0, dq_page_size := 16\<rparr> else q) c)"

definition requestSettingGet :: "menv \<Rightarrow> string \<Rightarrow> 'r request" where
  "requestSettingGet E key to c = sendDescriptorQuery E to (no_query\<lparr>dq_type := qGetSetting, dq_key := key\<rparr>) c"
definition requestSettingGetById :: "menv \<Rightarrow> u16 \<Rightarrow> 'r request" where
  "requestSettingGetById E setting_id to c =
     sendDescriptorQuery E to (no_query\<lparr>dq_type := qGetSetting, dq_has_setting_id := True, dq_setting_id := setting_id\<rparr>) c"
definition requestSettingSet :: "menv \<Rightarrow> string \<Rightarrow> string \<Rightarrow> 'r request" where
  "requestSettingSet E key value to c =
     sendDescriptorQuery E to (no_query\<lparr>dq_type := qSetSetting, dq_key := key, dq_value := value\<rparr>) c"
definition requestSettingSetById :: "menv \<Rightarrow> u16 \<Rightarrow> string \<Rightarrow> 'r request" where
  "requestSettingSetById E setting_id value to c =
     sendDescriptorQuery E to (no_query\<lparr>dq_type := qSetSetting, dq_has_setting_id := True,
       dq_setting_id := setting_id, dq_value := value\<rparr>) c"

definition requestLogStatus :: "menv \<Rightarrow> 'r request" where "requestLogStatus E = requestSimple E qGetLogStatus"
definition requestLogReadChunk :: "menv \<Rightarrow> u32 \<Rightarrow> u16 \<Rightarrow> 'r request" where
  "requestLogReadChunk E offset max_bytes to c =
     (let n = (if max_bytes = 0 then 96 else max_bytes) in
      sendDescriptorQuery E to (no_query\<lparr>dq_type := qReadLogChunk, dq_log_offset := offset,
        dq_log_max_bytes := (if n > 128 then 128 else n)\<rparr>) c)"
definition requestLogClear :: "menv \<Rightarrow> 'r request" where "requestLogClear E = requestSimple E qClearLog"
definition requestLogSetEnabled :: "menv \<Rightarrow> bool \<Rightarrow> 'r request" where
  "requestLogSetEnabled E enabled to c =
     sendDescriptorQuery E to (no_query\<lparr>dq_type := qSetLogControl, dq_has_log_enable := True, dq_log_enable := enabled\<rparr>) c"

definition requestStorageInfo :: "menv \<Rightarrow> 'r request" where "requestStorageInfo E = requestSimple E qGetStorageInfo"
definition requestStorageList :: "menv \<Rightarrow> string \<Rightarrow> 'r request" where
  "requestStorageList E path to c = sendDescriptorQuery E to (no_query\<lparr>dq_type := qListStoragePath, dq_storage_path := path\<rparr>) c"
definition requestStorageStat :: "menv \<Rightarrow> string \<Rightarrow> 'r request" where
  "requestStorageStat E path to c = sendDescriptorQuery E to (no_query\<lparr>dq_type := qStatStoragePath, dq_storage_path := path\<rparr>) c"
definition requestStorageFormat :: "menv \<Rightarrow> 'r request" where "requestStorageFormat E = requestSimple E qFormatStorage"

definition requestOtaStatus :: "menv \<Rightarrow> 'r request" where "requestOtaStatus E = requestSimple E qGetOtaStatus"
definition requestOtaManifest :: "menv \<Rightarrow> 'r request" where "requestOtaManifest E = requestSimple E qGetOtaManifest"
definition requestOtaManifestPage :: "menv \<Rightarrow> u16 \<Rightarrow> u8 \<Rightarrow> 'r request" where
  "requestOtaManifestPage E = request_page E qGetOtaManifest"
definition requestOtaManifestRebuild :: "menv \<Rightarrow> 'r request" where "requestOtaManifestRebuild E = requestSimple E qRebuildOtaManifest"
definition requestOtaClearScope :: "menv \<Rightarrow> string \<Rightarrow> 'r request" where
  "requestOtaClearScope E scope to c = sendDescriptorQuery E to (no_query\<lparr>dq_type := qClearOtaScope, dq_ota_scope := scope\<rparr>) c"
definition requestOtaCapacity :: "menv \<Rightarrow> 'r request" where "requestOtaCapacity E = requestSimple E qGetOtaCapacity"
definition requestOtaGateInfo :: "menv \<Rightarrow> 'r request" where "requestOtaGateInfo E = requestSimple E qGetOtaGateInfo"
definition requestOtaApply :: "menv \<Rightarrow> string \<Rightarrow> 'r request" where
  "requestOtaApply E target to c = sendDescriptorQuery E to (no_query\<lparr>dq_type := qApplyOtaImage, dq_ota_target := target\<rparr>) c"

section \<open>Topology requests\<close>

record ManagementTopologySlotPayload =
  ms_slot_index :: u8
  ms_enabled :: bool
  ms_peer :: mac
  ms_peer_role :: u8
  ms_group_id :: u8
  ms_relative_index :: u8
  ms_local_virtual_index :: u8
  ms_peer_virtual_index :: u8
  ms_axis_order :: u8
  ms_delay_ms :: u16
  ms_hold_ms :: u16

record ManagementTopologyGroupSeedPayload =
  mg_group_slot :: u8
  mg_enabled :: bool
  mg_group_id :: u8
  mg_seed :: bytes

text \<open>The queries, as the client builds them.\<close>

definition begin_query :: "u8 \<Rightarrow> u32 \<Rightarrow> u8 \<Rightarrow> u8 \<Rightarrow> DescriptorQuery" where
  "begin_query schema_version topology_version index_neg index_pos =
     no_query\<lparr>dq_type := qTopologyStageBegin, dq_schema_version := schema_version,
       dq_topology_version := topology_version, dq_index_neg := index_neg, dq_index_pos := index_pos\<rparr>"

definition slot_set_query :: "ManagementTopologySlotPayload \<Rightarrow> DescriptorQuery" where
  "slot_set_query slot = no_query\<lparr>dq_type := qTopologyStageSlotSet, dq_slot_index := ms_slot_index slot,
     dq_slot_enabled := ms_enabled slot, dq_peer := ms_peer slot, dq_peer_role := ms_peer_role slot,
     dq_group_id := ms_group_id slot, dq_relative_index := ms_relative_index slot,
     dq_local_vi := ms_local_virtual_index slot, dq_peer_vi := ms_peer_virtual_index slot,
     dq_axis_order := ms_axis_order slot, dq_delay_ms := ms_delay_ms slot, dq_hold_ms := ms_hold_ms slot\<rparr>"

definition group_set_query :: "ManagementTopologyGroupSeedPayload \<Rightarrow> DescriptorQuery" where
  "group_set_query grp = no_query\<lparr>dq_type := qTopologyStageGroupSet, dq_group_slot := mg_group_slot grp,
     dq_group_enabled := mg_enabled grp, dq_group_id := mg_group_id grp, dq_group_seed := mg_seed grp\<rparr>"

definition requestTopologyStageClear :: "menv \<Rightarrow> 'r request" where
  "requestTopologyStageClear E = requestSimple E qTopologyStageClear"
definition requestTopologyStageBegin :: "menv \<Rightarrow> u8 \<Rightarrow> u32 \<Rightarrow> u8 \<Rightarrow> u8 \<Rightarrow> 'r request" where
  "requestTopologyStageBegin E schema_version topology_version index_neg index_pos to c =
     sendDescriptorQuery E to (begin_query schema_version topology_version index_neg index_pos) c"
definition requestTopologyStageSlotSet :: "menv \<Rightarrow> ManagementTopologySlotPayload \<Rightarrow> 'r request" where
  "requestTopologyStageSlotSet E slot to c = sendDescriptorQuery E to (slot_set_query slot) c"
definition requestTopologyStageGroupSet :: "menv \<Rightarrow> ManagementTopologyGroupSeedPayload \<Rightarrow> 'r request" where
  "requestTopologyStageGroupSet E grp to c = sendDescriptorQuery E to (group_set_query grp) c"
definition requestTopologyStageFinalize :: "menv \<Rightarrow> 'r request" where
  "requestTopologyStageFinalize E = requestSimple E qTopologyStageFinalize"
definition requestTopologyCommit :: "menv \<Rightarrow> 'r request" where "requestTopologyCommit E = requestSimple E qTopologyCommit"
definition requestTopologyStatus :: "menv \<Rightarrow> 'r request" where "requestTopologyStatus E = requestSimple E qTopologyStatus"

definition requestTopologyTriggerSend :: "menv \<Rightarrow> u8 \<Rightarrow> u8 \<Rightarrow> u16 \<Rightarrow> u16 \<Rightarrow> u8 \<Rightarrow> 'r request" where
  "requestTopologyTriggerSend E target_index direction delay_ms hold_ms source_virtual_index to c =
     sendDescriptorQuery E to (no_query\<lparr>dq_type := qTopologyTriggerSend, dq_target_index := target_index,
       dq_direction := direction, dq_delay_ms := delay_ms, dq_hold_ms := hold_ms, dq_source_vi := source_virtual_index\<rparr>) c"

end
