(* ===== verification/PullProps.thy ===== *)
theory PullProps
  imports PullClient CodecProps
begin

text \<open>
  Requests on the air: what a slave reads of a query or command that the client of a master sends.
\<close>

lemma carries_pull:
  "isValidPullRequestWire service op \<Longrightarrow> wire_carries PullRequest service op 0x01"
  using pull_request_answered [of service op]
  by (auto simp: wire_carries_def wire_triple_def default_header_def wmRequest_def isValidPullRequestWire_def pull_service_ok_def)

lemma pull_wire_valid: "isValidPullRequestWire (fst (pull_request_wire p)) (snd (pull_request_wire p))"
  by (simp add: pull_request_wire_def split_beta Let_def isValidPullRequestWire_def pull_service_ok_def)

lemma wp_sendPullRequest:
  assumes "local_role (m_cfg E) = Master" "length p \<le> kMaxPayload" "delivers E"
    and "\<And>t. quiet_since s [(to, PullRequest, c, p)] t \<Longrightarrow> Q True t"
  shows "wp (sendPullRequest E to p c) Q s"
  unfolding sendPullRequest_def
  by (simp add: assms(1) wp_bind wp_ret)
     (rule wp_sendTyped [OF carries_pull [OF pull_wire_valid] assms(2)], use assms(3,4) in \<open>auto simp: wp_ret\<close>)

text \<open>
  C23. A query of the client reaches the slave: a query as the parser produces them (\<open>canonical\<close>), with
  at most 80 characters of text, goes out through any built-in codec as exactly one pull request with
  the caller's correlation id, under a service and operation that a receiver accepts. The slave's
  codec reads the query back, with one exception: of the four topology queries with parameters
  through the varint and delta codecs (ids 4 and 5) it reads the bare query with default parameters,
  whatever was sent.
\<close>

theorem pull_query_delivered:
  assumes "find_codec i (registerBuiltInCodecs []) = Some (cl_codec s)" "canonical q" "query_texts q \<le> 80"
    "local_role (m_cfg E) = Master" "delivers E"
    and run: "run_state (sendDescriptorQuery E to q corr_id) s = (ok, t)"
  shows "ok \<and> (\<exists>p. quiet_since s [(to, PullRequest, corr_id, p)] t
     \<and> decode_query (cl_codec s) (Some p) = Some (Some
         (if (i = 4 \<or> i = 5) \<and> compact_refuses (dq_type q) then no_query\<lparr>dq_type := dq_type q\<rparr> else q)))"
proof -
  let ?q = "if (i = 4 \<or> i = 5) \<and> compact_refuses (dq_type q) then no_query\<lparr>dq_type := dq_type q\<rparr> else q"
  from assms(1) have c: "transport (cl_codec s) (\<lambda>ty. (i = 4 \<or> i = 5) \<and> compact_refuses ty)" by (rule found_transport)
  from transport.query_encodes [OF c assms(2,3)] obtain p where p: "encode_query (cl_codec s) q = Some p"
    "length p \<le> kMaxPayload" by auto
  have "decode_query (cl_codec s) (Some p) = Some (Some ?q)"
    using transport.query_back [OF c assms(2) p(1)] by simp
  then have "wp (sendDescriptorQuery E to q corr_id) (\<lambda>ok t. ok \<and> (\<exists>p. quiet_since s [(to, PullRequest, corr_id, p)] t
     \<and> decode_query (cl_codec s) (Some p) = Some (Some ?q))) s"
    unfolding sendDescriptorQuery_def
    by (auto simp: wp_bind wp_gets p(1) intro!: wp_sendPullRequest [OF assms(4) p(2) assms(5)])
  from wp_run [OF this run] show ?thesis .
qed

definition sample_client :: client where
  "sample_client = \<lparr>g_local_mac = zeroMac, g_local_profile_id = 1, g_pairing = new_engine, g_store = new_pstore,
     g_registry = [], g_now_ms = 0, g_has_time_sync_tx = False, g_last_time_sync_tx_ms = 0, g_calls = [],
     cl_codec = delta_binary_codec\<rparr>"

lemma pull_query_delivered_witness:
  "\<exists>ok t p. run_state (sendDescriptorQuery (quiet_menv Master None) zeroMac setting_query 7) sample_client = (ok, t)
     \<and> ok \<and> quiet_since sample_client [(zeroMac, PullRequest, 7, p)] t
     \<and> decode_query delta_binary_codec (Some p) = Some (Some setting_query)"
proof -
  obtain ok t where r: "run_state (sendDescriptorQuery (quiet_menv Master None) zeroMac setting_query 7) sample_client = (ok, t)"
    by fastforce
  have q: "canonical setting_query" "query_texts setting_query \<le> 80" "\<not> compact_refuses (dq_type setting_query)"
    by (simp_all add: setting_query_def query_eval)
  have c: "find_codec 5 (registerBuiltInCodecs []) = Some (cl_codec sample_client)"
    by (simp add: find_codec_def built_in sample_client_def)
  have "delivers (quiet_menv Master None)" by (simp add: delivers_def quiet_menv_def)
  from pull_query_delivered [OF c q(1,2) _ this r] r q(3) show ?thesis by (auto simp: sample_client_def)
qed

end
