(* ===== verification/AutoPull.thy ===== *)
theory AutoPull
  imports PullProps
begin

text \<open>
  The automatic pull of a master: \<open>src/descriptor/master_autopull.cpp\<close>. The scheduler asks a slave for its
  liveness and its telemetry and decides when the slave is offline. Its members extend those of
  the client whose requests it sends; the caller's correlation counter is passed through. The last
  part shows when a silent slave is reported, and that one of the two reports is never made.
\<close>

section \<open>The scheduler\<close>

record puller = client +
  ap_enabled :: bool
  ap_slave_online :: bool
  ap_liveness_waiting :: bool
  ap_interval_ms :: u32
  ap_last_liveness_rx_ms :: u32
  ap_last_liveness_req_ms :: u32
  ap_next_live_ms :: u32
  ap_next_telem_ms :: u32
  ap_tx_fail_streak :: u8
  ap_tx_backoff_until_ms :: u32
  ap_timeout_miss_streak :: u8
  ap_stale_miss_streak :: u8
  ap_last_peer_activity_ms :: u32

type_synonym 'a pullm = "(puller, 'a) state"

record MasterAutoPullTickResult =
  sent_liveness :: bool
  sent_telemetry :: bool
  offline_timeout :: bool
  offline_stale :: bool

definition kOfflineTimeoutMissThreshold :: u8 where "kOfflineTimeoutMissThreshold = 2"
definition kOfflineStaleMissThreshold :: u8 where "kOfflineStaleMissThreshold = 2"

definition resetOfflineMissStreaks :: "unit pullm" where
  "resetOfflineMissStreaks = modify (\<lambda>s. s\<lparr>ap_timeout_miss_streak := 0, ap_stale_miss_streak := 0\<rparr>)"

definition noteTxSuccess :: "unit pullm" where
  "noteTxSuccess = modify (\<lambda>s. s\<lparr>ap_tx_fail_streak := 0, ap_tx_backoff_until_ms := 0\<rparr>)"

definition autopull_reset :: "unit pullm" where
  "autopull_reset = do {
     _ \<leftarrow> modify (\<lambda>s. s\<lparr>ap_slave_online := False, ap_liveness_waiting := False, ap_last_liveness_rx_ms := 0,
       ap_last_liveness_req_ms := 0, ap_last_peer_activity_ms := 0, ap_tx_fail_streak := 0, ap_tx_backoff_until_ms := 0\<rparr>);
     resetOfflineMissStreaks }"

definition setEnabled :: "bool \<Rightarrow> u32 \<Rightarrow> u32 \<Rightarrow> unit pullm" where
  "setEnabled enabled now_ms interval_ms = do {
     _ \<leftarrow> modify (\<lambda>s. s\<lparr>ap_enabled := enabled\<rparr>);
     _ \<leftarrow> whenM (interval_ms \<ge> 300) (modify (\<lambda>s. s\<lparr>ap_interval_ms := interval_ms\<rparr>));
     _ \<leftarrow> modify (\<lambda>s. s\<lparr>ap_next_live_ms := now_ms, ap_next_telem_ms := now_ms + ap_interval_ms s div 2,
       ap_liveness_waiting := False, ap_last_peer_activity_ms := 0\<rparr>);
     _ \<leftarrow> resetOfflineMissStreaks;
     noteTxSuccess }"

definition livenessTimeoutMs :: "puller \<Rightarrow> u32" where
  "livenessTimeoutMs s = ap_interval_ms s * 2 + 500"

definition livenessAgeMs :: "u32 \<Rightarrow> puller \<Rightarrow> u32" where
  "livenessAgeMs now_ms s = (if ap_last_liveness_rx_ms s = 0 then 0 else now_ms - ap_last_liveness_rx_ms s)"

definition markLivenessRequested :: "u32 \<Rightarrow> unit pullm" where
  "markLivenessRequested now_ms = modify (\<lambda>s. s\<lparr>ap_liveness_waiting := True, ap_last_liveness_req_ms := now_ms\<rparr>)"

text \<open>What a sign of life changes; the result says whether the slave has come back.\<close>

definition note_alive :: "bool \<Rightarrow> u32 \<Rightarrow> bool pullm" where
  "note_alive online now_ms = do {
     was_online \<leftarrow> gets ap_slave_online;
     _ \<leftarrow> modify (\<lambda>s. s\<lparr>ap_slave_online := online, ap_last_liveness_rx_ms := now_ms, ap_last_peer_activity_ms := now_ms,
       ap_liveness_waiting := False\<rparr>);
     _ \<leftarrow> resetOfflineMissStreaks;
     _ \<leftarrow> noteTxSuccess;
     ret (\<not> was_online \<and> online) }"

definition onLivenessResponse :: "bool \<Rightarrow> u32 \<Rightarrow> bool pullm" where
  "onLivenessResponse online now_ms = note_alive online now_ms"

definition onPeerActivity :: "u32 \<Rightarrow> bool pullm" where
  "onPeerActivity now_ms = note_alive True now_ms"

definition txBackoffMs :: "u8 \<Rightarrow> u32" where
  "txBackoffMs streak =
     (let n = (if streak > 6 then 6 else streak); backoff = push_bit (unat n) (200 :: u32) in
      if backoff > 8000 then 8000 else backoff)"

definition noteTxFailure :: "u32 \<Rightarrow> unit pullm" where
  "noteTxFailure now_ms = do {
     _ \<leftarrow> modify (\<lambda>s. if ap_tx_fail_streak s < 255 then s\<lparr>ap_tx_fail_streak := ap_tx_fail_streak s + 1\<rparr> else s);
     modify (\<lambda>s. s\<lparr>ap_tx_backoff_until_ms := now_ms + txBackoffMs (ap_tx_fail_streak s)\<rparr>) }"

text \<open>One cycle: the two requests, each skipped or tried, then the two tests for an offline slave.\<close>

definition poll_liveness :: "menv \<Rightarrow> mac \<Rightarrow> u32 \<Rightarrow> u32 \<Rightarrow> bool pullm" where
  "poll_liveness E peer now_ms corr_id = do {
     ok \<leftarrow> requestLiveness E peer corr_id;
     if ok then do {
       _ \<leftarrow> markLivenessRequested now_ms;
       _ \<leftarrow> modify (\<lambda>s. s\<lparr>ap_next_live_ms := now_ms + ap_interval_ms s\<rparr>);
       _ \<leftarrow> noteTxSuccess;
       ret True }
     else do {
       _ \<leftarrow> noteTxFailure now_ms;
       _ \<leftarrow> modify (\<lambda>s. s\<lparr>ap_next_live_ms := now_ms + txBackoffMs (ap_tx_fail_streak s)\<rparr>);
       ret False } }"

definition poll_telemetry :: "menv \<Rightarrow> mac \<Rightarrow> u32 \<Rightarrow> u32 \<Rightarrow> bool pullm" where
  "poll_telemetry E peer now_ms corr_id = do {
     ok \<leftarrow> requestTelemetryPull E peer corr_id;
     if ok then do {
       _ \<leftarrow> noteTxSuccess;
       _ \<leftarrow> modify (\<lambda>s. s\<lparr>ap_next_telem_ms := now_ms + ap_interval_ms s\<rparr>);
       ret True }
     else do {
       _ \<leftarrow> noteTxFailure now_ms;
       _ \<leftarrow> modify (\<lambda>s. s\<lparr>ap_next_telem_ms := now_ms + txBackoffMs (ap_tx_fail_streak s)\<rparr>);
       ret False } }"

definition bump :: "u8 \<Rightarrow> u8" where
  "bump n = (if n < 255 then n + 1 else n)"

definition check_timeout :: "u32 \<Rightarrow> bool pullm" where
  "check_timeout now_ms = do {
     over \<leftarrow> gets (\<lambda>s. ap_liveness_waiting s \<and> now_ms - ap_last_liveness_req_ms s > livenessTimeoutMs s);
     if \<not> over then ret False
     else do {
       _ \<leftarrow> modify (\<lambda>s. s\<lparr>ap_liveness_waiting := False, ap_timeout_miss_streak := bump (ap_timeout_miss_streak s)\<rparr>);
       lost \<leftarrow> gets (\<lambda>s. ap_timeout_miss_streak s \<ge> kOfflineTimeoutMissThreshold \<and> ap_slave_online s);
       _ \<leftarrow> whenM lost (modify (\<lambda>s. s\<lparr>ap_slave_online := False\<rparr>));
       ret lost } }"

definition freshness_ms :: "puller \<Rightarrow> u32" where
  "freshness_ms s = (if ap_last_peer_activity_ms s \<noteq> 0 then ap_last_peer_activity_ms s else ap_last_liveness_rx_ms s)"

definition check_stale :: "u32 \<Rightarrow> bool pullm" where
  "check_stale now_ms = do {
     over \<leftarrow> gets (\<lambda>s. freshness_ms s \<noteq> 0 \<and> now_ms - freshness_ms s > livenessTimeoutMs s + ap_interval_ms s);
     if \<not> over then do { _ \<leftarrow> modify (\<lambda>s. s\<lparr>ap_stale_miss_streak := 0\<rparr>); ret False }
     else do {
       _ \<leftarrow> modify (\<lambda>s. s\<lparr>ap_stale_miss_streak := bump (ap_stale_miss_streak s)\<rparr>);
       lost \<leftarrow> gets (\<lambda>s. ap_stale_miss_streak s \<ge> kOfflineStaleMissThreshold \<and> ap_slave_online s);
       _ \<leftarrow> whenM lost (modify (\<lambda>s. s\<lparr>ap_slave_online := False\<rparr>));
       ret lost } }"

definition autopull_tick :: "menv \<Rightarrow> bool \<Rightarrow> mac \<Rightarrow> bool \<Rightarrow> u32 \<Rightarrow> u32 \<Rightarrow> (MasterAutoPullTickResult \<times> u32) pullm" where
  "autopull_tick E has_client peer can_poll now_ms corr_id = do {
     enabled \<leftarrow> gets ap_enabled;
     if \<not> enabled \<or> \<not> can_poll \<or> \<not> has_client
     then ret (\<lparr>sent_liveness = False, sent_telemetry = False, offline_timeout = False, offline_stale = False\<rparr>, corr_id)
     else do {
       backoff \<leftarrow> gets (\<lambda>s. ap_tx_backoff_until_ms s \<noteq> 0 \<and> sint (now_ms - ap_tx_backoff_until_ms s) < 0);
       live_due \<leftarrow> gets (\<lambda>s. \<not> backoff \<and> sint (now_ms - ap_next_live_ms s) \<ge> 0);
       live \<leftarrow> (if live_due then poll_liveness E peer now_ms corr_id else ret False);
       telem_due \<leftarrow> gets (\<lambda>s. \<not> backoff \<and> \<not> live_due \<and> sint (now_ms - ap_next_telem_ms s) \<ge> 0);
       online \<leftarrow> gets ap_slave_online;
       telem \<leftarrow> (if telem_due \<and> online then poll_telemetry E peer now_ms corr_id
         else do {
           _ \<leftarrow> whenM telem_due (modify (\<lambda>s. s\<lparr>ap_next_telem_ms := now_ms + ap_interval_ms s\<rparr>));
           ret False });
       timeout \<leftarrow> check_timeout now_ms;
       stale \<leftarrow> check_stale now_ms;
       ret (\<lparr>sent_liveness = live, sent_telemetry = telem, offline_timeout = timeout, offline_stale = stale\<rparr>,
         if live_due \<or> telem_due \<and> online then corr_id + 1 else corr_id) } }"

section \<open>Requests\<close>

lemma sent_fields:
  assumes "same_but_sent (s :: puller) t"
  shows "cl_codec t = cl_codec s" "ap_enabled t = ap_enabled s" "ap_slave_online t = ap_slave_online s"
    "ap_liveness_waiting t = ap_liveness_waiting s" "ap_interval_ms t = ap_interval_ms s"
    "ap_last_liveness_rx_ms t = ap_last_liveness_rx_ms s" "ap_last_liveness_req_ms t = ap_last_liveness_req_ms s"
    "ap_next_live_ms t = ap_next_live_ms s" "ap_next_telem_ms t = ap_next_telem_ms s"
    "ap_tx_fail_streak t = ap_tx_fail_streak s" "ap_tx_backoff_until_ms t = ap_tx_backoff_until_ms s"
    "ap_timeout_miss_streak t = ap_timeout_miss_streak s" "ap_stale_miss_streak t = ap_stale_miss_streak s"
    "ap_last_peer_activity_ms t = ap_last_peer_activity_ms s"
  using assms by (cases s; cases t; simp add: same_but_sent_def)+

lemma wp_requestSimple:
  assumes "find_codec i (registerBuiltInCodecs []) = Some (cl_codec s)" "canonical (no_query\<lparr>dq_type := ty\<rparr>)"
    and "local_role (m_cfg E) = Master" "delivers E"
    and Q: "\<And>t. same_but_sent s t \<Longrightarrow> Q True t"
  shows "wp (requestSimple E ty to c) Q s"
proof -
  from assms(1) have "transport (cl_codec s) (\<lambda>ty. (i = 4 \<or> i = 5) \<and> compact_refuses ty)" by (rule found_transport)
  from transport.query_encodes [OF this assms(2)] obtain p where
    "encode_query (cl_codec s) (no_query\<lparr>dq_type := ty\<rparr>) = Some p" "length p \<le> kMaxPayload"
    by (auto simp: query_texts_def no_query_def)
  then show ?thesis
    unfolding requestSimple_def sendDescriptorQuery_def
    by (auto simp: wp_bind wp_gets quiet_since_def intro!: wp_sendPullRequest [OF assms(3) _ assms(4)] Q)
qed

lemma plain_canonical: "canonical (no_query\<lparr>dq_type := qGetLiveness\<rparr>)" "canonical (no_query\<lparr>dq_type := qPullTelemetry\<rparr>)"
  by (simp_all add: query_eval)

section \<open>A silent slave\<close>

text \<open>
  A scheduler whose slave was last heard at \<open>f\<close>, whose last tick was at \<open>prev\<close>, and which has counted \<open>n\<close>
  ticks at which the slave was late.
\<close>

definition watching :: "u16 \<Rightarrow> u32 \<Rightarrow> u32 \<Rightarrow> u32 \<Rightarrow> nat \<Rightarrow> puller \<Rightarrow> bool" where
  "watching i iv f prev n s \<longleftrightarrow> find_codec i (registerBuiltInCodecs []) = Some (cl_codec s) \<and> ap_enabled s
     \<and> ap_interval_ms s = iv \<and> ap_last_peer_activity_ms s = f \<and> ap_tx_backoff_until_ms s = 0
     \<and> (ap_liveness_waiting s \<longrightarrow> ap_next_live_ms s = ap_last_liveness_req_ms s + iv \<and> prev - ap_last_liveness_req_ms s < iv)
     \<and> ap_slave_online s = (n < 2) \<and> ap_stale_miss_streak s = of_nat (min n 255)"

definition is_late :: "u32 \<Rightarrow> u32 \<Rightarrow> u32 \<Rightarrow> bool" where
  "is_late iv f now \<longleftrightarrow> now - f > 3 * iv + 500"

lemma watching_sent: "watching i iv f prev n s \<Longrightarrow> same_but_sent s t \<Longrightarrow> watching i iv f prev n t"
  by (simp add: watching_def sent_fields)

lemma not_due:
  assumes "sint (now - (r + iv)) < 0" "now - r < 0x80000000"
  shows "now - r < (iv :: u32)"
proof (rule ccontr)
  define d where "d = now - r"
  assume "\<not> now - r < iv"
  then have "iv \<le> d" by (simp add: d_def)
  then have "d - iv \<le> d" by (simp add: word_le_nat_alt unat_sub)
  then have "d - iv < 0x80000000" using assms(2) by (simp add: d_def)
  then have "uint (d - iv) < 2 ^ 31" by (simp add: word_less_def)
  then have "sint (d - iv) \<ge> 0"
    by (simp add: sint_uint signed_take_bit_eq_take_bit_shift take_bit_eq_mod)
  moreover have "now - (r + iv) = d - iv" by (simp add: d_def)
  ultimately show False using assms(1) by (metis not_le)
qed

lemma gap_sum:
  "(now :: u32) - prev < 0x40000000 \<Longrightarrow> prev - r < iv \<Longrightarrow> iv < 0x20000000 \<Longrightarrow> now - r < 0x80000000"
proof -
  assume a: "now - prev < 0x40000000" "prev - r < iv" "iv < 0x20000000"
  have "now - r = (now - prev) + (prev - r)" by simp
  then have "unat (now - r) = (unat (now - prev) + unat (prev - r)) mod 2 ^ LENGTH(32)"
    by (simp only: unat_word_ariths(1))
  also have "\<dots> \<le> unat (now - prev) + unat (prev - r)" by (rule mod_less_eq_dividend)
  also have "\<dots> < 0x80000000" using a by (simp add: word_less_nat_alt)
  finally show ?thesis by (simp add: word_less_nat_alt)
qed

lemma wp_live_phase:
  assumes "watching i iv f prev n s" "now - prev < 0x40000000" "0 < iv" "iv < 0x20000000"
    and "local_role (m_cfg E) = Master" "delivers E"
    and Q: "\<And>b t. watching i iv f now n t \<Longrightarrow> Q b t"
  shows "wp (if sint (now - ap_next_live_ms s) \<ge> 0 then poll_liveness E peer now c else ret False) Q s"
proof (cases "sint (now - ap_next_live_ms s) \<ge> 0")
  case True
  have "watching i iv f now n (t\<lparr>ap_liveness_waiting := True, ap_last_liveness_req_ms := now, ap_next_live_ms := now + ap_interval_ms t,
      ap_tx_fail_streak := 0, ap_tx_backoff_until_ms := 0\<rparr>)" if "same_but_sent s t" for t
    using watching_sent [OF assms(1) that] assms(3) by (simp add: watching_def)
  with True show ?thesis
    using assms(1) unfolding poll_liveness_def requestLiveness_def
    by (auto simp: wp_rules markLivenessRequested_def noteTxSuccess_def watching_def [of i iv f prev]
      intro!: wp_requestSimple [OF _ plain_canonical(1) assms(5,6)] Q)
next
  case False
  have "watching i iv f now n s"
    using assms(1) False gap_sum [OF assms(2) _ assms(4)] not_due by (auto simp: watching_def not_le)
  with False show ?thesis by (simp add: wp_rules Q)
qed

lemma wp_telem_phase:
  assumes "watching i iv f now n s" "local_role (m_cfg E) = Master" "delivers E"
    and Q: "\<And>b t. watching i iv f now n t \<Longrightarrow> Q b t"
  shows "wp (if due \<and> ap_slave_online s then poll_telemetry E peer now c
    else do { _ \<leftarrow> whenM due (modify (\<lambda>s. s\<lparr>ap_next_telem_ms := now + ap_interval_ms s\<rparr>)); ret False }) Q s"
proof -
  have skip: "watching i iv f now n (t\<lparr>ap_next_telem_ms := x\<rparr>)" if "watching i iv f now n t" for t x
    using that by (simp add: watching_def)
  have sent: "watching i iv f now n (t\<lparr>ap_tx_fail_streak := 0, ap_tx_backoff_until_ms := 0\<rparr>)"
    if "same_but_sent s t" for t
    using watching_sent [OF assms(1) that] by (simp add: watching_def)
  have "find_codec i (registerBuiltInCodecs []) = Some (cl_codec s)" using assms(1) by (simp add: watching_def)
  then show ?thesis
    unfolding poll_telemetry_def requestTelemetryPull_def
    by (auto simp: wp_rules noteTxSuccess_def assms(1) intro!: wp_requestSimple [OF _ plain_canonical(2) assms(2,3)] Q sent skip)
qed

lemma wp_check_timeout:
  assumes "watching i iv f now n s" "iv < 0x20000000" "Q False s"
  shows "wp (check_timeout now) Q s"
proof -
  have "iv \<le> iv * 2 + 500"
    using assms(2) by (simp add: word_le_nat_alt word_less_nat_alt unat_word_ariths)
  then show ?thesis
    using assms by (auto simp: check_timeout_def wp_rules watching_def livenessTimeoutMs_def)
qed

lemma wp_check_stale:
  assumes "watching i iv f now n s" "f \<noteq> 0" "n > 0 \<longrightarrow> is_late iv f now"
    and Q: "\<And>t. watching i iv f now (if is_late iv f now then Suc n else n) t \<Longrightarrow> Q (is_late iv f now \<and> n = 1) t"
  shows "wp (check_stale now) Q s"
proof (cases "is_late iv f now")
  case True
  define m where "m = (of_nat (min (Suc n) 255) :: u8)"
  have b: "bump (of_nat (min n 255)) = m"
  proof (cases "n < 255")
    case True
    then have "(of_nat n :: u8) < 255" by (simp add: word_less_nat_alt unat_of_nat)
    with True show ?thesis by (simp add: bump_def m_def)
  qed (simp add: bump_def m_def)
  have "2 \<le> m \<longleftrightarrow> 1 \<le> n"
    by (auto simp: m_def word_le_nat_alt unat_of_nat min_def)
  then have lost: "2 \<le> m \<and> ap_slave_online s \<longleftrightarrow> n = 1" using assms(1) by (auto simp: watching_def)
  have over: "freshness_ms s \<noteq> 0 \<and> now - freshness_ms s > livenessTimeoutMs s + ap_interval_ms s"
    using assms(1,2) True by (simp add: watching_def freshness_ms_def livenessTimeoutMs_def is_late_def algebra_simps)
  have streak: "bump (ap_stale_miss_streak s) = m" using assms(1) b by (simp add: watching_def)
  have "watching i iv f now (Suc n) (s\<lparr>ap_stale_miss_streak := m, ap_slave_online := False\<rparr>)" if "n = 1"
    using assms(1) that by (simp add: watching_def m_def)
  moreover have "watching i iv f now (Suc n) (s\<lparr>ap_stale_miss_streak := m\<rparr>)" if "n \<noteq> 1"
    using assms(1) that by (auto simp: watching_def m_def)
  ultimately show ?thesis
    using Q True over lost by (cases "n = 1"; cases "2 \<le> m"; cases "ap_slave_online s") (simp_all add: check_stale_def wp_rules kOfflineStaleMissThreshold_def streak)
next
  case False
  with assms(3) have "n = 0" by simp
  have over: "\<not> (freshness_ms s \<noteq> 0 \<and> now - freshness_ms s > livenessTimeoutMs s + ap_interval_ms s)"
    using assms(1,2) False by (simp add: watching_def freshness_ms_def livenessTimeoutMs_def is_late_def algebra_simps)
  have "watching i iv f now n (s\<lparr>ap_stale_miss_streak := 0\<rparr>)"
    using assms(1) \<open>n = 0\<close> by (simp add: watching_def)
  with Q False over show ?thesis by (simp add: check_stale_def wp_rules)
qed

lemma wp_tick:
  assumes "watching i iv f prev n s" "now - prev < 0x40000000" "0 < iv" "iv < 0x20000000" "f \<noteq> 0"
    and "local_role (m_cfg E) = Master" "delivers E" "n > 0 \<longrightarrow> is_late iv f now"
  shows "wp (autopull_tick E True peer True now c) (\<lambda>(r, c') t. watching i iv f now (if is_late iv f now then Suc n else n) t
    \<and> \<not> offline_timeout r \<and> (offline_stale r \<longleftrightarrow> is_late iv f now \<and> n = 1)) s"
proof -
  have start: "ap_enabled s" "ap_tx_backoff_until_ms s = 0" using assms(1) by (simp_all add: watching_def)
  show ?thesis
    unfolding autopull_tick_def
    by (simp only: wp_bind wp_gets start simp_thms if_False)
       (rule wp_live_phase [OF assms(1-4,6,7)], simp only: wp_bind wp_gets,
        rule wp_telem_phase [OF _ assms(6,7)], assumption, simp only: wp_bind,
        rule wp_check_timeout [OF _ assms(4)], assumption, simp only: wp_bind,
        rule wp_check_stale [OF _ assms(5,8)], assumption, simp add: wp_ret)
qed

text \<open>A sequence of ticks with nothing heard in between.\<close>

fun autopull_ticks :: "menv \<Rightarrow> mac \<Rightarrow> u32 list \<Rightarrow> u32 \<Rightarrow> MasterAutoPullTickResult list pullm" where
  "autopull_ticks E peer [] c = ret []"
| "autopull_ticks E peer (now # ts) c = do {
     rc \<leftarrow> autopull_tick E True peer True now c;
     rs \<leftarrow> autopull_ticks E peer ts (snd rc);
     ret (fst rc # rs) }"

text \<open>Ticks less than \<open>2 ^ 30\<close> milliseconds apart.\<close>

fun paced :: "u32 \<Rightarrow> u32 list \<Rightarrow> bool" where
  "paced prev [] = True"
| "paced prev (now # ts) \<longleftrightarrow> now - prev < 0x40000000 \<and> paced now ts"

lemma wp_ticks:
  assumes "watching i iv f prev n s" "paced prev ts" "0 < iv" "iv < 0x20000000" "f \<noteq> 0"
    and "local_role (m_cfg E) = Master" "delivers E" "sorted (map (\<lambda>t. t - f) ts)" "n > 0 \<longrightarrow> (\<forall>t \<in> set ts. is_late iv f t)"
  shows "wp (autopull_ticks E peer ts c) (\<lambda>rs t. ap_slave_online t = (n + length (filter (is_late iv f) ts) < 2)
    \<and> (\<forall>r \<in> set rs. \<not> offline_timeout r) \<and> length rs = length ts
    \<and> (\<forall>j < length ts. offline_stale (rs ! j) \<longleftrightarrow> is_late iv f (ts ! j) \<and> n + length (filter (is_late iv f) (take j ts)) = 1)) s"
  using assms(1,2,8,9)
proof (induction ts arbitrary: prev n c s)
  case Nil
  then show ?case by (simp add: wp_ret watching_def)
next
  case (Cons now ts)
  let ?n = "if is_late iv f now then Suc n else n"
  have late: "?n > 0 \<longrightarrow> (\<forall>t \<in> set ts. is_late iv f t)"
    using Cons.prems(3,4) by (auto simp: is_late_def)
  have tick: "wp (autopull_tick E True peer True now c) (\<lambda>(r, c') t. watching i iv f now ?n t
      \<and> \<not> offline_timeout r \<and> (offline_stale r \<longleftrightarrow> is_late iv f now \<and> n = 1)) s"
    using Cons.prems by (intro wp_tick [OF _ _ assms(3-7)]) auto
  have rest: "paced now ts" "sorted (map (\<lambda>t. t - f) ts)" using Cons.prems(2,3) by simp_all
  show ?case
    unfolding autopull_ticks.simps wp_bind wp_ret
  proof (rule wp_mono [OF tick], clarify)
    fix r :: MasterAutoPullTickResult and c' t
    assume w: "watching i iv f now ?n t" and r: "\<not> offline_timeout r" "offline_stale r \<longleftrightarrow> is_late iv f now \<and> n = 1"
    show "wp (autopull_ticks E peer ts (snd (r, c'))) (\<lambda>rs t. ap_slave_online t = (n + length (filter (is_late iv f) (now # ts)) < 2)
      \<and> (\<forall>r \<in> set (fst (r, c') # rs). \<not> offline_timeout r) \<and> length (fst (r, c') # rs) = length (now # ts)
      \<and> (\<forall>j < length (now # ts). offline_stale ((fst (r, c') # rs) ! j) \<longleftrightarrow>
          is_late iv f ((now # ts) ! j) \<and> n + length (filter (is_late iv f) (take j (now # ts))) = 1)) t"
      by (rule wp_mono [OF Cons.IH [OF w rest late]]) (auto simp: r less_Suc_eq_0_disj)
  qed
qed

lemma alive_watching:
  "find_codec i (registerBuiltInCodecs []) = Some (cl_codec s) \<Longrightarrow> ap_enabled s \<Longrightarrow>
   wp (onPeerActivity f) (\<lambda>_. watching i (ap_interval_ms s) f f 0) s"
  by (simp add: onPeerActivity_def note_alive_def noteTxSuccess_def resetOfflineMissStreaks_def wp_rules watching_def)

text \<open>
  C24. A slave that falls silent is reported offline exactly once, at the second tick that comes more than
  three intervals and half a second after its last sign of life, and not before; from then on it
  counts as offline. While the requests go out, this report is the only one: the other one, for a
  liveness request without an answer, is never made, as each request restarts its timeout, which
  is longer than the interval between the requests.
\<close>

theorem silent_slave_reported:
  assumes "find_codec i (registerBuiltInCodecs []) = Some (cl_codec s)" "local_role (m_cfg E) = Master" "delivers E"
    and "ap_enabled s" "0 < ap_interval_ms s" "ap_interval_ms s < 0x20000000"
    and "f \<noteq> 0" "paced f ts" "sorted (map (\<lambda>t. t - f) ts)"
    and run: "run_state (do { _ \<leftarrow> onPeerActivity f; autopull_ticks E peer ts c }) s = (rs, t)"
  shows "(ap_slave_online t \<longleftrightarrow> length (filter (is_late (ap_interval_ms s) f) ts) < 2)
    \<and> (\<forall>j < length ts. offline_stale (rs ! j) \<longleftrightarrow> is_late (ap_interval_ms s) f (ts ! j)
        \<and> length (filter (is_late (ap_interval_ms s) f) (take j ts)) = 1)
    \<and> (\<forall>r \<in> set rs. \<not> offline_timeout r)"
proof -
  have "wp (do { _ \<leftarrow> onPeerActivity f; autopull_ticks E peer ts c }) (\<lambda>rs t.
      (ap_slave_online t \<longleftrightarrow> length (filter (is_late (ap_interval_ms s) f) ts) < 2)
    \<and> (\<forall>j < length ts. offline_stale (rs ! j) \<longleftrightarrow> is_late (ap_interval_ms s) f (ts ! j)
        \<and> length (filter (is_late (ap_interval_ms s) f) (take j ts)) = 1)
    \<and> (\<forall>r \<in> set rs. \<not> offline_timeout r)) s"
    unfolding wp_bind
    by (rule wp_mono [OF alive_watching [OF assms(1,4)]], rule wp_mono [OF wp_ticks [OF _ assms(8,5,6,7,2,3,9)]]) auto
  from wp_run [OF this run] show ?thesis .
qed

definition sample_puller :: puller where
  "sample_puller = client.extend sample_client \<lparr>ap_enabled = True, ap_slave_online = False, ap_liveness_waiting = False,
     ap_interval_ms = 2000, ap_last_liveness_rx_ms = 0, ap_last_liveness_req_ms = 0, ap_next_live_ms = 0,
     ap_next_telem_ms = 1000, ap_tx_fail_streak = 0, ap_tx_backoff_until_ms = 0, ap_timeout_miss_streak = 0,
     ap_stale_miss_streak = 0, ap_last_peer_activity_ms = 0\<rparr>"

lemma silent_slave_reported_witness:
  "\<exists>rs t. run_state (do { _ \<leftarrow> onPeerActivity 1000; autopull_ticks (quiet_menv Master None) zeroMac [7000, 8000, 9000, 10000] 1 })
      sample_puller = (rs, t)
     \<and> \<not> ap_slave_online t \<and> offline_stale (rs ! 2) \<and> \<not> offline_stale (rs ! 1) \<and> \<not> offline_stale (rs ! 3)"
proof -
  obtain rs t where r: "run_state (do { _ \<leftarrow> onPeerActivity 1000;
      autopull_ticks (quiet_menv Master None) zeroMac [7000, 8000, 9000, 10000] 1 }) sample_puller = (rs, t)"
    by fastforce
  have c: "find_codec 5 (registerBuiltInCodecs []) = Some (cl_codec sample_puller)"
    by (simp add: find_codec_def built_in sample_puller_def client.defs sample_client_def)
  have s: "ap_enabled sample_puller" "ap_interval_ms sample_puller = 2000" by (simp_all add: sample_puller_def client.defs)
  have "local_role (m_cfg (quiet_menv Master None)) = Master" by simp
  moreover have "delivers (quiet_menv Master None)" by (simp add: delivers_def quiet_menv_def)
  ultimately have E: "local_role (m_cfg (quiet_menv Master None)) = Master" "delivers (quiet_menv Master None)" .
  have late: "is_late 2000 1000 7000 = False" "is_late 2000 1000 8000" "is_late 2000 1000 9000" "is_late 2000 1000 10000"
    by (simp_all add: is_late_def)
  have "(ap_slave_online t \<longleftrightarrow> length (filter (is_late 2000 1000) [7000, 8000, 9000, 10000]) < 2)
    \<and> (\<forall>j < length [7000 :: u32, 8000, 9000, 10000]. offline_stale (rs ! j) \<longleftrightarrow> is_late 2000 1000 ([7000, 8000, 9000, 10000] ! j)
        \<and> length (filter (is_late 2000 1000) (take j [7000, 8000, 9000, 10000])) = 1)
    \<and> (\<forall>r \<in> set rs. \<not> offline_timeout r)"
    using silent_slave_reported [OF c E s(1) _ _ _ _ _ r] by (simp add: s(2))
  then have "\<not> ap_slave_online t" and out: "\<forall>j < 4. offline_stale (rs ! j) \<longleftrightarrow> is_late 2000 1000 ([7000, 8000, 9000, 10000] ! j)
        \<and> length (filter (is_late 2000 1000) (take j [7000, 8000, 9000, 10000])) = 1"
    by (simp_all add: late)
  moreover have "offline_stale (rs ! 2)" "\<not> offline_stale (rs ! 1)" "\<not> offline_stale (rs ! 3)"
    using out [rule_format, of 2] out [rule_format, of 1] out [rule_format, of 3] by (simp_all add: late)
  ultimately show ?thesis using r by blast
qed

end
