(* ===== verification/Peers.thy ===== *)
theory Peers
  imports Manager StoreProps "HOL-Library.Multiset"
begin

text \<open>
  The paired peers that a manager keeps across restarts (\<open>manager_pairing_and_peers.cpp\<close>): which
  peers have a record of their own, in which order they are listed, and their channels.
\<close>

section \<open>Operations\<close>

text \<open>A record that this node wrote for itself in its present role.\<close>

definition own_record :: "menv \<Rightarrow> mac \<Rightarrow> LoadedPair option \<Rightarrow> bool" where
  "own_record E local_m r =
     (case r of
        None \<Rightarrow> False
      | Some p \<Rightarrow> lp_valid p \<and> lp_local_role p = role_code (local_role (m_cfg E)) \<and> lp_local_mac p = local_m)"

definition hasPersistedPair :: "menv \<Rightarrow> mac \<Rightarrow> ('r, bool) mgrm" where
  "hasPersistedPair E peer = do {
     m \<leftarrow> gets g_local_mac;
     active \<leftarrow> gets (\<lambda>s. getPairedPeer (g_pairing s));
     case pairing_store E of
       None \<Rightarrow> ret (active = Some peer)
     | Some S \<Rightarrow>
         if \<not> store_enabled S then ret (active = Some peer)
         else do { r \<leftarrow> in_store (loadPair S m peer); ret (own_record E m r) } }"

text \<open>The loop over the index: entries without a record of their own and repeated peers are left out.\<close>

fun collect_peers :: "menv \<Rightarrow> store_env \<Rightarrow> mac \<Rightarrow> PairIndexEntry list \<Rightarrow> (mac \<times> u32) list \<Rightarrow> ('r, (mac \<times> u32) list) mgrm" where
  "collect_peers E S m [] ordered = ret ordered"
| "collect_peers E S m (e # es) ordered =
     (if \<not> pi_valid e \<or> pi_pair_seq e = 0 then collect_peers E S m es ordered
      else do {
        r \<leftarrow> in_store (loadPair S m (pi_peer_mac e));
        if \<not> own_record E m r \<or> pi_peer_mac e \<in> fst ` set ordered then collect_peers E S m es ordered
        else collect_peers E S m es (ordered @ [(pi_peer_mac e, pi_pair_seq e)]) })"

text \<open>Sorting by sequence number, then by address: two stable sorts.\<close>

definition getPersistedPeers :: "menv \<Rightarrow> ('r, mac list) mgrm" where
  "getPersistedPeers E = do {
     m \<leftarrow> gets g_local_mac;
     active \<leftarrow> gets (\<lambda>s. getPairedPeer (g_pairing s));
     let alone = (case active of None \<Rightarrow> [] | Some p \<Rightarrow> [p]);
     case pairing_store E of
       None \<Rightarrow> ret alone
     | Some S \<Rightarrow>
         if \<not> store_enabled S then ret alone
         else do {
           entries \<leftarrow> in_store (loadPairIndex S m);
           case entries of
             None \<Rightarrow> ret []
           | Some es \<Rightarrow> do {
               ordered \<leftarrow> collect_peers E S m es [];
               ret (map fst (sort_key snd (sort_key fst ordered))) } } }"

definition persistedPairCount :: "menv \<Rightarrow> ('r, nat) mgrm" where
  "persistedPairCount E = do { ps \<leftarrow> getPersistedPeers E; ret (length ps) }"

record PersistedPeerChannelEntry =
  pc_peer :: mac
  pc_channel :: u8
  pc_channel_key :: string

fun collect_channels :: "store_env \<Rightarrow> mac \<Rightarrow> mac list \<Rightarrow> ('r, PersistedPeerChannelEntry list) mgrm" where
  "collect_channels S m [] = ret []"
| "collect_channels S m (p # ps) = do {
     c \<leftarrow> in_store (loadChannel S m p);
     rest \<leftarrow> collect_channels S m ps;
     ret (case c of None \<Rightarrow> rest
        | Some ch \<Rightarrow> \<lparr>pc_peer = p, pc_channel = ch, pc_channel_key = makeKey S KindChannel m p\<rparr> # rest) }"

definition getPersistedPeerChannels :: "menv \<Rightarrow> ('r, PersistedPeerChannelEntry list) mgrm" where
  "getPersistedPeerChannels E =
     (case pairing_store E of
        None \<Rightarrow> ret []
      | Some S \<Rightarrow>
          if \<not> store_enabled S then ret []
          else do { m \<leftarrow> gets g_local_mac; ps \<leftarrow> getPersistedPeers E; collect_channels S m ps })"

section \<open>Reading the store through the manager\<close>

definition in_works :: "store_env \<Rightarrow> kv \<Rightarrow> kv \<Rightarrow> 'r mgr_scheme \<Rightarrow> bool" where
  "in_works S m0 m s \<longleftrightarrow> store_works S m0 (g_store s) \<and> stored S m0 (g_store s) = m"

lemma same_but_store: "t = s\<lparr>g_store := x\<rparr> \<Longrightarrow> g_local_mac t = g_local_mac s"
  by simp

lemma wp_own_record:
  assumes "in_works S m0 m s"
    and "\<And>t. in_works S m0 m t \<Longrightarrow> t = s\<lparr>g_store := g_store t\<rparr> \<Longrightarrow> Q (pair_in S l p m) t"
  shows "wp (in_store (loadPair S l p)) Q s"
  by (rule wp_in_store, rule wp_loadPair [of S m0]) (use assms in \<open>auto simp: in_works_def\<close>)

definition own_entry :: "menv \<Rightarrow> store_env \<Rightarrow> mac \<Rightarrow> kv \<Rightarrow> PairIndexEntry \<Rightarrow> bool" where
  "own_entry E S l m e \<longleftrightarrow> own_record E l (pair_in S l (pi_peer_mac e) m)"

lemma wp_collect:
  assumes "in_works S m0 m s" "distinct (map fst acc @ map pi_peer_mac es)" "\<forall>e \<in> set es. pi_valid e \<and> pi_pair_seq e \<noteq> 0"
    and "\<And>t. in_works S m0 m t \<Longrightarrow> t = s\<lparr>g_store := g_store t\<rparr> \<Longrightarrow>
       Q (acc @ map (\<lambda>e. (pi_peer_mac e, pi_pair_seq e)) (filter (own_entry E S l m) es)) t"
  shows "wp (collect_peers E S l es acc) Q s"
  using assms
proof (induction es arbitrary: acc s)
  case Nil
  from Nil.prems(4) [OF Nil.prems(1)] show ?case by (simp add: wp_ret)
next
  case (Cons e es)
  have step: "wp (collect_peers E S l es acc') Q t"
    if t: "in_works S m0 m t" "t = s\<lparr>g_store := g_store t\<rparr>"
      and acc: "acc' = acc @ map (\<lambda>e. (pi_peer_mac e, pi_pair_seq e)) (filter (own_entry E S l m) [e])" for acc' t
  proof (rule Cons.IH [OF t(1)])
    show "distinct (map fst acc' @ map pi_peer_mac es)" using Cons.prems(2) acc by auto
    show "\<forall>e \<in> set es. pi_valid e \<and> pi_pair_seq e \<noteq> 0" using Cons.prems(3) by simp
    fix u
    assume u: "in_works S m0 m u" "u = t\<lparr>g_store := g_store u\<rparr>"
    then have "u = s\<lparr>g_store := g_store u\<rparr>" using t(2) by (cases s; cases t; cases u) simp
    from Cons.prems(4) [OF u(1) this] acc
    show "Q (acc' @ map (\<lambda>e. (pi_peer_mac e, pi_pair_seq e)) (filter (own_entry E S l m) es)) u" by (auto split: if_splits)
  qed
  have e: "(\<not> pi_valid e \<or> pi_pair_seq e = 0) = False" "pi_peer_mac e \<notin> fst ` set acc"
    using Cons.prems(2,3) by auto
  show ?case
    unfolding collect_peers.simps e(1) if_False wp_bind
  proof (rule wp_own_record [OF Cons.prems(1)])
    fix t
    assume "in_works S m0 m t" "t = s\<lparr>g_store := g_store t\<rparr>"
    from step [OF this refl] e(2) show "wp (if \<not> own_record E l (pair_in S l (pi_peer_mac e) m) \<or> pi_peer_mac e \<in> fst ` set acc
        then collect_peers E S l es acc else collect_peers E S l es (acc @ [(pi_peer_mac e, pi_pair_seq e)])) Q t"
      by (cases "own_entry E S l m e") (simp_all add: own_entry_def)
  qed
qed

lemma sorted_twice:
  assumes "sorted_wrt (<) (map snd (xs :: ('a :: linorder \<times> 'b :: linorder) list))"
  shows "sort_key snd (sort_key fst xs) = xs"
proof -
  have "mset (sort_key fst xs) = mset xs" by simp
  moreover have "inj_on snd (set xs)"
    using strict_sorted_imp_sorted [OF assms] strict_sorted_iff [of "map snd xs"] assms by (simp add: distinct_map)
  ultimately have "sort_key snd (sort_key fst xs) = sort_key snd xs"
    by (intro sort_key_inj_key_eq) auto
  also have "\<dots> = xs" using assms by (intro sort_key_id_if_sorted) (simp add: strict_sorted_imp_sorted)
  finally show ?thesis .
qed

section \<open>The list of peers\<close>

lemma wp_peers:
  assumes "pairing_store E = Some S" "in_works S m0 m s" "index_ok c (index_in S (g_local_mac s) m)"
    and "\<And>t. in_works S m0 m t \<Longrightarrow> t = s\<lparr>g_store := g_store t\<rparr> \<Longrightarrow>
       Q (map pi_peer_mac (filter (own_entry E S (g_local_mac s) m) (index_in S (g_local_mac s) m))) t"
  shows "wp (getPersistedPeers E) Q s"
proof -
  let ?l = "g_local_mac s" and ?es = "index_in S (g_local_mac s) m"
  let ?ps = "filter (own_entry E S ?l m) ?es"
  let ?pairs = "map (\<lambda>e. (pi_peer_mac e, pi_pair_seq e)) ?ps"
  have en: "store_enabled S" using assms(2) by (simp add: in_works_def store_works_def)
  have "sorted_wrt (<) (map snd ?pairs)"
    using assms(3) by (simp add: index_ok_def sorted_wrt_map sorted_wrt_filter comp_def)
  then have sorted: "sort_key snd (sort_key fst ?pairs) = ?pairs" by (rule sorted_twice)
  have fin: "Q (map pi_peer_mac ?ps) t" if "in_works S m0 m t" "t = s\<lparr>g_store := g_store t\<rparr>" for t
    using assms(4) [OF that] .
  show ?thesis
    unfolding getPersistedPeers_def wp_bind wp_gets Let_def assms(1) option.case
    apply (simp only: en not_True_eq_False if_False wp_bind)
    apply (rule wp_in_store, rule wp_loadPairIndex [of S m0])
     apply (use assms(2) in \<open>simp add: in_works_def\<close>)
    subgoal premises t for r t
    proof (cases r)
      case None
      then have "?es = []" using t(2,3) assms(2) by (simp add: in_works_def)
      then show ?thesis using fin [of "s\<lparr>g_store := t\<rparr>"] t(1,2) assms(2) None by (simp add: wp_ret in_works_def)
    next
      case (Some es)
      then have es: "es = ?es" using t(3) assms(2) by (simp add: in_works_def)
      have w: "in_works S m0 m (s\<lparr>g_store := t\<rparr>)" using t(1,2) assms(2) by (simp add: in_works_def)
      show ?thesis
        unfolding Some option.case wp_bind es
      proof (rule wp_collect [OF w])
        show "distinct (map fst [] @ map pi_peer_mac ?es)" "\<forall>e \<in> set ?es. pi_valid e \<and> pi_pair_seq e \<noteq> 0"
          using assms(3) by (auto simp: index_ok_def)
        fix u assume "in_works S m0 m u" "u = s\<lparr>g_store := t\<rparr>\<lparr>g_store := g_store u\<rparr>"
        then show "wp (ret (map fst (sort_key snd (sort_key fst ([] @ ?pairs))))) Q u"
          using fin [of u] by (simp add: sorted wp_ret comp_def)
      qed
    qed
    done
qed

lemma wp_has_pair:
  assumes "pairing_store E = Some S" "in_works S m0 m s"
    and "\<And>t. in_works S m0 m t \<Longrightarrow> t = s\<lparr>g_store := g_store t\<rparr> \<Longrightarrow>
       Q (own_record E (g_local_mac s) (pair_in S (g_local_mac s) p m)) t"
  shows "wp (hasPersistedPair E p) Q s"
proof -
  have "store_enabled S" using assms(2) by (simp add: in_works_def store_works_def)
  then show ?thesis
    using assms by (simp add: hasPersistedPair_def wp_rules wp_own_record)
qed

text \<open>
  C25. A node lists its paired peers once each, in the order in which they were first paired: after
  any operations on a store that was empty at first, refused writes included, the list contains
  exactly the peers of the index with a readable record that this node wrote in its present role,
  in the order of their sequence numbers, and for each of them \<open>hasPersistedPair\<close> holds.
\<close>

theorem persisted_peers_in_order:
  assumes "store_enabled S" and "backend_ok S (\<lambda>_. None)" and "pairing_store E = Some S"
    and "\<forall>x \<in> set xs. op_fits x" and "length xs < 2 ^ 32 - 1"
    and run: "run_state (pair_run S (g_local_mac s) xs) new_pstore = ((), g_store s)"
    and ps: "run_state (getPersistedPeers E) s = (ps, t)" and has: "run_state (hasPersistedPair E p) t = (b, u)"
    and es: "es = index_in S (g_local_mac s) (stored S (\<lambda>_. None) (g_store s))"
  shows "ps = map pi_peer_mac (filter (\<lambda>e.
      own_record E (g_local_mac s) (pair_in S (g_local_mac s) (pi_peer_mac e) (stored S (\<lambda>_. None) (g_store s)))) es)
    \<and> distinct ps \<and> sorted_wrt (<) (map pi_pair_seq es) \<and> (p \<in> set ps \<longrightarrow> b)"
proof -
  let ?l = "g_local_mac s" and ?m = "stored S (\<lambda>_. None) (g_store s)"
  have grown: "store_works S (\<lambda>_. None) (g_store s) \<and> index_ok (counter_in S ?l ?m) (index_in S ?l ?m)"
    using wp_run [OF pair_run_wp [OF new_works [OF assms(1,2)]] run] assms(4,5)
    by (simp add: fresh_index index_ok_def [of 1])
  then have w: "in_works S (\<lambda>_. None) ?m s" by (simp add: in_works_def)
  have "wp (getPersistedPeers E) (\<lambda>r t. r = map pi_peer_mac (filter (own_entry E S ?l ?m) es)
      \<and> in_works S (\<lambda>_. None) ?m t \<and> g_local_mac t = ?l) s"
    by (rule wp_peers [OF assms(3) w]) (use grown es in \<open>auto dest: same_but_store\<close>)
  from wp_run [OF this ps] have r: "ps = map pi_peer_mac (filter (own_entry E S ?l ?m) es)"
    and t: "in_works S (\<lambda>_. None) ?m t" "g_local_mac t = ?l" by auto
  have "wp (hasPersistedPair E p) (\<lambda>b _. b = own_record E ?l (pair_in S ?l p ?m)) t"
    by (rule wp_has_pair [OF assms(3) t(1)]) (simp add: t(2))
  from wp_run [OF this has] have "b = own_record E ?l (pair_in S ?l p ?m)" .
  then show ?thesis
    using grown r es by (auto simp: index_ok_def own_entry_def [abs_def] distinct_map_filter)
qed

definition sample_manager :: "pstore \<Rightarrow> mgr" where
  "sample_manager t = \<lparr>g_local_mac = rec_local_mac sample_pair, g_local_profile_id = 1, g_pairing = new_engine,
     g_store = t, g_registry = [], g_now_ms = 0, g_has_time_sync_tx = False, g_last_time_sync_tx_ms = 0, g_calls = []\<rparr>"

lemma persisted_peers_in_order_witness:
  "\<exists>t ps u. run_state (pair_run good_backend (rec_local_mac sample_pair) [OpSavePair sample_pair]) new_pstore = ((), t)
     \<and> run_state (getPersistedPeers (quiet_menv Master (Some good_backend))) (sample_manager t) = (ps, u)
     \<and> distinct ps"
proof -
  let ?xs = "[OpSavePair sample_pair]" and ?E = "quiet_menv Master (Some good_backend)"
  obtain t where r: "run_state (pair_run good_backend (rec_local_mac sample_pair) ?xs) new_pstore = ((), t)"
    by (cases "run_state (pair_run good_backend (rec_local_mac sample_pair) ?xs) new_pstore") simp
  obtain ps u where ps: "run_state (getPersistedPeers ?E) (sample_manager t) = (ps, u)" by fastforce
  obtain b v where has: "run_state (hasPersistedPair ?E zeroMac) u = (b, v)" by fastforce
  have grown: "run_state (pair_run good_backend (g_local_mac (sample_manager t)) ?xs) new_pstore = ((), g_store (sample_manager t))"
    using r by (simp add: sample_manager_def)
  have E: "pairing_store ?E = Some good_backend" by (simp add: quiet_role)
  have xs: "\<forall>x \<in> set ?xs. op_fits x" "length ?xs < 2 ^ 32 - 1" by (simp_all add: sample_pair_def)
  have "distinct ps"
    using persisted_peers_in_order [OF good_enabled good_backend_ok E xs grown ps has refl] by blast
  with r ps show ?thesis by blast
qed

end
