(* ===== verification/Response.thy ===== *)
theory Response
  imports Descriptor
begin

text \<open>
  Descriptor responses, what a slave answers: the structures of \<open>descriptor.hpp\<close> and the encoder
  \<open>encodeDescriptorResponse\<close> of the default codec (\<open>src/descriptor/descriptor.cpp\<close>). Enumerations are
  bytes, as the C++ ones hold whatever byte is cast to them; a \<open>float\<close> is its four bytes as a word.
\<close>

section \<open>Data\<close>

definition rUnknown :: u8 where "rUnknown = 0"
definition rDevice :: u8 where "rDevice = 1"
definition rCapabilities :: u8 where "rCapabilities = 2"
definition rTelemetry :: u8 where "rTelemetry = 3"
definition rTelemetrySnapshot :: u8 where "rTelemetrySnapshot = 4"
definition rLiveness :: u8 where "rLiveness = 5"
definition rTime :: u8 where "rTime = 6"
definition rNodeBundle :: u8 where "rNodeBundle = 7"
definition rSettings :: u8 where "rSettings = 8"
definition rSetting :: u8 where "rSetting = 9"
definition rLogStatus :: u8 where "rLogStatus = 10"
definition rLogChunk :: u8 where "rLogChunk = 11"
definition rStorageInfo :: u8 where "rStorageInfo = 12"
definition rStorageList :: u8 where "rStorageList = 13"
definition rStorageStat :: u8 where "rStorageStat = 14"
definition rAck :: u8 where "rAck = 15"
definition rError :: u8 where "rError = 16"
definition rOtaStatus :: u8 where "rOtaStatus = 17"
definition rOtaManifest :: u8 where "rOtaManifest = 18"
definition rOtaCapacity :: u8 where "rOtaCapacity = 19"
definition rOtaGateInfo :: u8 where "rOtaGateInfo = 20"

lemmas response_types = rUnknown_def rDevice_def rCapabilities_def rTelemetry_def rTelemetrySnapshot_def
  rLiveness_def rTime_def rNodeBundle_def rSettings_def rSetting_def rLogStatus_def rLogChunk_def
  rStorageInfo_def rStorageList_def rStorageStat_def rAck_def rError_def rOtaStatus_def rOtaManifest_def
  rOtaCapacity_def rOtaGateInfo_def

definition kNodeBundleMaskDevice :: u8 where "kNodeBundleMaskDevice = 0x01"
definition kNodeBundleMaskLiveness :: u8 where "kNodeBundleMaskLiveness = 0x02"
definition kNodeBundleMaskTime :: u8 where "kNodeBundleMaskTime = 0x04"
definition kNodeBundleMaskTelemetry :: u8 where "kNodeBundleMaskTelemetry = 0x10"

lemmas bundle_masks = kNodeBundleMaskDevice_def kNodeBundleMaskLiveness_def kNodeBundleMaskTime_def
  kNodeBundleMaskSettings_def kNodeBundleMaskTelemetry_def kNodeBundleMaskAll_def

record DeviceDescriptor =
  de_type :: string
  de_id :: string
  de_name :: string
  de_hw :: string
  de_sw :: string
  de_build :: string

record CapabilityDescriptor =
  ca_key :: string
  ca_description :: string

record TelemetryDescriptor =
  te_metric_id :: u16
  te_key :: string
  te_unit :: string
  te_min :: u32
  te_max :: u32
  te_description :: string

record TelemetrySample =
  sa_metric_id :: u16
  sa_key :: string
  sa_value :: string
  sa_unit :: string

record LivenessStatus =
  li_online :: bool
  li_uptime_ms :: u32
  li_state :: string

record TimeStatus =
  ti_epoch_s :: u64
  ti_uptime_ms :: u32

record SettingDescriptor =
  sd_id :: u16
  sd_key :: string
  sd_value_type :: u8
  sd_writable :: bool
  sd_nvs_key :: string
  sd_current :: string
  sd_default :: string
  sd_description :: string

record StorageInfo =
  sn_mode :: u8
  sn_available :: bool
  sn_mounted :: bool
  sn_total_bytes :: u32
  sn_used_bytes :: u32
  sn_free_bytes :: u32
  sn_root_path :: string
  sn_cwd :: string

record StorageEntry =
  se_name :: string
  se_is_dir :: bool
  se_size_bytes :: u32

record StorageStat =
  sx_path :: string
  sx_exists :: bool
  sx_is_dir :: bool
  sx_size_bytes :: u32

record OtaManifestEntry =
  mf_file_id :: u32
  mf_file_name :: string
  mf_size_bytes :: u32
  mf_crc32 :: u32
  mf_version :: string
  mf_build_id :: string
  mf_created_epoch_s :: u32
  mf_state :: string
  mf_required_app_bytes :: u32

record OtaStatusInfo =
  oi_transfer_state :: u8
  oi_status_code :: u16
  oi_expected_size :: u32
  oi_received_size :: u32
  oi_expected_crc32 :: u32
  oi_actual_crc32 :: u32
  oi_temp_path :: string
  oi_image_path :: string
  oi_persistent_state :: string
  oi_persistent_epoch_s :: u32
  oi_confirmed_sw_version :: string
  oi_confirmed_build_id :: string

record OtaCapacityInfo =
  oc_max_fw_bytes :: u32
  oc_last_checked_image_bytes :: u32
  oc_last_fit :: bool

record OtaGateInfo =
  og_decision :: u8
  og_detail :: string

record DescriptorResponse =
  dr_type :: u8
  dr_message :: string
  dr_bundle_mask :: u8
  dr_is_paged :: bool
  dr_snapshot_id :: u32
  dr_total_count :: u16
  dr_cursor :: u16
  dr_returned_count :: u16
  dr_next_cursor :: u16
  dr_done :: bool
  dr_device :: DeviceDescriptor
  dr_capabilities :: "CapabilityDescriptor list"
  dr_telemetry :: "TelemetryDescriptor list"
  dr_samples :: "TelemetrySample list"
  dr_liveness :: LivenessStatus
  dr_time :: TimeStatus
  dr_settings :: "SettingDescriptor list"
  dr_setting :: SettingDescriptor
  dr_logger_available :: bool
  dr_logger_enabled :: bool
  dr_logger_min_level :: u8
  dr_log_bytes_used :: u32
  dr_log_bytes_dropped :: u32
  dr_log_records_appended :: u32
  dr_log_rotations :: u32
  dr_log_total_size :: u32
  dr_log_chunk_offset :: u32
  dr_log_chunk :: bytes
  dr_storage_info :: StorageInfo
  dr_storage_path :: string
  dr_storage_parent_path :: string
  dr_storage_entries :: "StorageEntry list"
  dr_storage_stat :: StorageStat
  dr_ota_status :: OtaStatusInfo
  dr_ota_manifest :: "OtaManifestEntry list"
  dr_ota_capacity :: OtaCapacityInfo
  dr_ota_gate :: OtaGateInfo

definition new_device :: DeviceDescriptor where
  "new_device = \<lparr>de_type = [], de_id = [], de_name = [], de_hw = [], de_sw = [], de_build = []\<rparr>"
definition new_capability :: CapabilityDescriptor where
  "new_capability = \<lparr>ca_key = [], ca_description = []\<rparr>"
definition new_telemetry :: TelemetryDescriptor where
  "new_telemetry = \<lparr>te_metric_id = 0, te_key = [], te_unit = [], te_min = 0, te_max = 0, te_description = []\<rparr>"
definition new_sample :: TelemetrySample where
  "new_sample = \<lparr>sa_metric_id = 0, sa_key = [], sa_value = [], sa_unit = []\<rparr>"
definition new_setting :: SettingDescriptor where
  "new_setting = \<lparr>sd_id = 0, sd_key = [], sd_value_type = 0, sd_writable = False, sd_nvs_key = [],
     sd_current = [], sd_default = [], sd_description = []\<rparr>"
definition new_storage_info :: StorageInfo where
  "new_storage_info = \<lparr>sn_mode = 0, sn_available = False, sn_mounted = False, sn_total_bytes = 0,
     sn_used_bytes = 0, sn_free_bytes = 0, sn_root_path = ''/'', sn_cwd = ''/''\<rparr>"
definition new_storage_entry :: StorageEntry where
  "new_storage_entry = \<lparr>se_name = [], se_is_dir = False, se_size_bytes = 0\<rparr>"
definition new_storage_stat :: StorageStat where
  "new_storage_stat = \<lparr>sx_path = [], sx_exists = False, sx_is_dir = False, sx_size_bytes = 0\<rparr>"
definition new_manifest_entry :: OtaManifestEntry where
  "new_manifest_entry = \<lparr>mf_file_id = 0, mf_file_name = [], mf_size_bytes = 0, mf_crc32 = 0, mf_version = [],
     mf_build_id = [], mf_created_epoch_s = 0, mf_state = [], mf_required_app_bytes = 0\<rparr>"
definition new_ota_status :: OtaStatusInfo where
  "new_ota_status = \<lparr>oi_transfer_state = 0, oi_status_code = 0, oi_expected_size = 0, oi_received_size = 0,
     oi_expected_crc32 = 0, oi_actual_crc32 = 0, oi_temp_path = [], oi_image_path = [], oi_persistent_state = [],
     oi_persistent_epoch_s = 0, oi_confirmed_sw_version = [], oi_confirmed_build_id = []\<rparr>"

definition no_response :: DescriptorResponse where
  "no_response = \<lparr>dr_type = rUnknown, dr_message = [], dr_bundle_mask = 0, dr_is_paged = False, dr_snapshot_id = 0,
     dr_total_count = 0, dr_cursor = 0, dr_returned_count = 0, dr_next_cursor = 0, dr_done = False,
     dr_device = new_device, dr_capabilities = [], dr_telemetry = [], dr_samples = [],
     dr_liveness = \<lparr>li_online = True, li_uptime_ms = 0, li_state = []\<rparr>,
     dr_time = \<lparr>ti_epoch_s = 0, ti_uptime_ms = 0\<rparr>, dr_settings = [], dr_setting = new_setting,
     dr_logger_available = False, dr_logger_enabled = False, dr_logger_min_level = 0, dr_log_bytes_used = 0,
     dr_log_bytes_dropped = 0, dr_log_records_appended = 0, dr_log_rotations = 0, dr_log_total_size = 0,
     dr_log_chunk_offset = 0, dr_log_chunk = [], dr_storage_info = new_storage_info, dr_storage_path = [],
     dr_storage_parent_path = [], dr_storage_entries = [], dr_storage_stat = new_storage_stat,
     dr_ota_status = new_ota_status, dr_ota_manifest = [],
     dr_ota_capacity = \<lparr>oc_max_fw_bytes = 0, oc_last_checked_image_bytes = 0, oc_last_fit = True\<rparr>,
     dr_ota_gate = \<lparr>og_decision = 0, og_detail = []\<rparr>\<rparr>"

section \<open>Appending under the size limit\<close>

text \<open>The first argument is \<open>reserve_paged_meta\<close>: room for the page records is kept while it holds.\<close>

definition kPagedMetaReserveBytes :: nat where "kPagedMetaReserveBytes = 42"

definition canFit :: "bool \<Rightarrow> bytes \<Rightarrow> nat \<Rightarrow> bool" where
  "canFit reserve out n \<longleftrightarrow> length out + n + (if reserve then kPagedMetaReserveBytes else 0) \<le> kMaxPayload"

definition tryAppendU8 :: "bool \<Rightarrow> u8 \<Rightarrow> u8 \<Rightarrow> bytes \<Rightarrow> bytes option" where
  "tryAppendU8 rsv tag v out = (if canFit rsv out 5 then appendTlvU8 out tag v else None)"

definition tryAppendBool :: "bool \<Rightarrow> u8 \<Rightarrow> bool \<Rightarrow> bytes \<Rightarrow> bytes option" where
  "tryAppendBool rsv tag v out = (if canFit rsv out 5 then appendBool out tag v else None)"

definition tryAppendU16 :: "bool \<Rightarrow> u8 \<Rightarrow> u16 \<Rightarrow> bytes \<Rightarrow> bytes option" where
  "tryAppendU16 rsv tag v out = (if canFit rsv out 6 then appendU16 out tag v else None)"

definition tryAppendU32 :: "bool \<Rightarrow> u8 \<Rightarrow> u32 \<Rightarrow> bytes \<Rightarrow> bytes option" where
  "tryAppendU32 rsv tag v out = (if canFit rsv out 8 then appendTlvU32 out tag v else None)"

definition tryAppendUtf8 :: "bool \<Rightarrow> u8 \<Rightarrow> string \<Rightarrow> bytes \<Rightarrow> bytes option" where
  "tryAppendUtf8 rsv tag v out = (if canFit rsv out (4 + length v) then appendUtf8 out tag v else None)"

definition appendF32 :: "bytes \<Rightarrow> u8 \<Rightarrow> u32 \<Rightarrow> bytes option" where
  "appendF32 out tag v = appendTlv out tag 0x07 (Some (appendLe32 v)) 4"

text \<open>Several records, the first failure fails all.\<close>

fun puts :: "(bytes \<Rightarrow> bytes option) list \<Rightarrow> bytes \<Rightarrow> bytes option" where
  "puts [] out = Some out"
| "puts (f # fs) out = Option.bind (f out) (puts fs)"

text \<open>
  The loop over the items of a list: it stops at the first that does not fit. The result has the
  buffer, whether something was left out, and the number of items written.
\<close>

fun put_items :: "('a \<Rightarrow> nat) \<Rightarrow> ('a \<Rightarrow> bytes \<Rightarrow> (bytes \<times> bool) option) \<Rightarrow> bool \<Rightarrow> 'a list \<Rightarrow> bytes \<Rightarrow> (bytes \<times> bool \<times> nat) option" where
  "put_items need put rsv [] out = Some (out, False, 0)"
| "put_items need put rsv (x # xs) out =
     (if \<not> canFit rsv out (need x) then Some (out, True, 0)
      else do {
        (o1, lost) \<leftarrow> put x out;
        (o2, lost', n) \<leftarrow> put_items need put rsv xs o1;
        Some (o2, lost \<or> lost', n + 1) })"

definition whole :: "(bytes \<Rightarrow> bytes option) list \<Rightarrow> bytes \<Rightarrow> (bytes \<times> bool) option" where
  "whole fs out = map_option (\<lambda>b. (b, False)) (puts fs out)"

section \<open>Encoding\<close>

definition utf8 :: "u8 \<Rightarrow> string \<Rightarrow> bytes \<Rightarrow> bytes option" where "utf8 tag s out = appendUtf8 out tag s"
definition num16 :: "u8 \<Rightarrow> u16 \<Rightarrow> bytes \<Rightarrow> bytes option" where "num16 tag v out = appendU16 out tag v"
definition num32 :: "u8 \<Rightarrow> u32 \<Rightarrow> bytes \<Rightarrow> bytes option" where "num32 tag v out = appendTlvU32 out tag v"

definition device_puts :: "bool \<Rightarrow> DeviceDescriptor \<Rightarrow> (bytes \<Rightarrow> bytes option) list" where
  "device_puts rsv d =
     [tryAppendUtf8 rsv 0x20 (de_type d), tryAppendUtf8 rsv 0x21 (de_id d), tryAppendUtf8 rsv 0x22 (de_name d),
      tryAppendUtf8 rsv 0x23 (de_hw d), tryAppendUtf8 rsv 0x24 (de_sw d), tryAppendUtf8 rsv 0x25 (de_build d)]"

definition capability_need :: "CapabilityDescriptor \<Rightarrow> nat" where
  "capability_need c = 4 + length (ca_key c) + 4 + length (ca_description c)"

definition put_capability :: "CapabilityDescriptor \<Rightarrow> bytes \<Rightarrow> (bytes \<times> bool) option" where
  "put_capability c = whole [utf8 0x30 (ca_key c), utf8 0x31 (ca_description c)]"

definition telemetry_need :: "TelemetryDescriptor \<Rightarrow> nat" where
  "telemetry_need t = 6 + (4 + length (te_key t)) + (4 + length (te_unit t))"

text \<open>Both zeros compare equal to \<open>0.0f\<close>.\<close>

definition zero_float :: "u32 \<Rightarrow> bool" where
  "zero_float f \<longleftrightarrow> f = 0 \<or> f = 0x80000000"

text \<open>An optional part of an item: written if it fits, left out otherwise.\<close>

definition put_part :: "bool \<Rightarrow> bool \<Rightarrow> nat \<Rightarrow> (bytes \<Rightarrow> bytes option) list \<Rightarrow> bytes \<Rightarrow> (bytes \<times> bool) option" where
  "put_part rsv present need fs out =
     (if \<not> present then Some (out, False)
      else if canFit rsv out need then whole fs out
      else Some (out, True))"

definition put_telemetry :: "bool \<Rightarrow> TelemetryDescriptor \<Rightarrow> bytes \<Rightarrow> (bytes \<times> bool) option" where
  "put_telemetry rsv t out = do {
     o1 \<leftarrow> puts [num16 0x3F (te_metric_id t), utf8 0x40 (te_key t), utf8 0x41 (te_unit t)] out;
     (o2, lost) \<leftarrow> put_part rsv (\<not> (zero_float (te_min t) \<and> zero_float (te_max t))) (8 + 8)
        [\<lambda>b. appendF32 b 0x42 (te_min t), \<lambda>b. appendF32 b 0x43 (te_max t)] o1;
     (o3, lost') \<leftarrow> put_part rsv (te_description t \<noteq> []) (4 + length (te_description t)) [utf8 0x44 (te_description t)] o2;
     Some (o3, lost \<or> lost') }"

definition sample_need :: "TelemetrySample \<Rightarrow> nat" where
  "sample_need t = 6 + (4 + length (sa_key t)) + (4 + length (sa_value t)) + (4 + length (sa_unit t))"

definition put_sample :: "TelemetrySample \<Rightarrow> bytes \<Rightarrow> (bytes \<times> bool) option" where
  "put_sample t = whole [num16 0x4F (sa_metric_id t), utf8 0x50 (sa_key t), utf8 0x51 (sa_value t), utf8 0x52 (sa_unit t)]"

definition liveness_puts :: "bool \<Rightarrow> LivenessStatus \<Rightarrow> (bytes \<Rightarrow> bytes option) list" where
  "liveness_puts rsv l =
     [tryAppendBool rsv 0x60 (li_online l), tryAppendU32 rsv 0x61 (li_uptime_ms l), tryAppendUtf8 rsv 0x62 (li_state l)]"

definition time_puts :: "bool \<Rightarrow> TimeStatus \<Rightarrow> (bytes \<Rightarrow> bytes option) list" where
  "time_puts rsv t =
     [tryAppendU32 rsv 0x70 (ucast (ti_epoch_s t AND 0xFFFFFFFF)), tryAppendU32 rsv 0x71 (ti_uptime_ms t)]"

definition setting_need :: "SettingDescriptor \<Rightarrow> nat" where
  "setting_need s = 6 + (4 + length (sd_key s)) + 5 + 5 + (4 + length (sd_nvs_key s)) + (4 + length (sd_current s))
     + (4 + length (sd_default s)) + (4 + length (sd_description s))"

definition put_setting :: "SettingDescriptor \<Rightarrow> bytes \<Rightarrow> (bytes \<times> bool) option" where
  "put_setting s = whole [num16 0x7F (sd_id s), utf8 0x80 (sd_key s), \<lambda>b. appendTlvU8 b 0x81 (sd_value_type s),
     \<lambda>b. appendBool b 0x82 (sd_writable s), utf8 0x83 (sd_nvs_key s), utf8 0x84 (sd_current s),
     utf8 0x85 (sd_default s), utf8 0x86 (sd_description s)]"

definition one_setting_puts :: "bool \<Rightarrow> SettingDescriptor \<Rightarrow> (bytes \<Rightarrow> bytes option) list" where
  "one_setting_puts rsv s =
     [tryAppendU16 rsv 0x7F (sd_id s), tryAppendUtf8 rsv 0x80 (sd_key s), tryAppendU8 rsv 0x81 (sd_value_type s),
      tryAppendBool rsv 0x82 (sd_writable s), tryAppendUtf8 rsv 0x83 (sd_nvs_key s), tryAppendUtf8 rsv 0x84 (sd_current s),
      tryAppendUtf8 rsv 0x85 (sd_default s), tryAppendUtf8 rsv 0x86 (sd_description s)]"

text \<open>The parts of a bundle in their order; only its settings are counted for the page.\<close>

definition bundle_mask_of :: "DescriptorResponse \<Rightarrow> u8" where
  "bundle_mask_of r = (if dr_bundle_mask r = 0 then kNodeBundleMaskAll else dr_bundle_mask r)"

definition put_bundle :: "bool \<Rightarrow> DescriptorResponse \<Rightarrow> bytes \<Rightarrow> (bytes \<times> bool \<times> nat) option" where
  "put_bundle rsv r out = (let m = bundle_mask_of r in do {
     o1 \<leftarrow> block (m AND kNodeBundleMaskDevice \<noteq> 0) (puts (device_puts rsv (dr_device r))) out;
     o2 \<leftarrow> block (m AND kNodeBundleMaskLiveness \<noteq> 0) (puts (liveness_puts rsv (dr_liveness r))) o1;
     o3 \<leftarrow> block (m AND kNodeBundleMaskTime \<noteq> 0) (puts (time_puts rsv (dr_time r))) o2;
     (o4, lost, _) \<leftarrow> (if m AND kNodeBundleMaskTelemetry \<noteq> 0
        then put_items sample_need put_sample rsv (dr_samples r) o3 else Some (o3, False, 0));
     (o5, lost', n) \<leftarrow> (if m AND kNodeBundleMaskSettings \<noteq> 0
        then put_items setting_need put_setting rsv (dr_settings r) o4 else Some (o4, False, 0));
     Some (o5, lost \<or> lost', n) })"

definition log_status_puts :: "bool \<Rightarrow> DescriptorResponse \<Rightarrow> (bytes \<Rightarrow> bytes option) list" where
  "log_status_puts rsv r =
     [tryAppendBool rsv 0x90 (dr_logger_available r), tryAppendBool rsv 0x91 (dr_logger_enabled r),
      tryAppendU8 rsv 0x92 (dr_logger_min_level r), tryAppendU32 rsv 0x93 (dr_log_bytes_used r),
      tryAppendU32 rsv 0x94 (dr_log_bytes_dropped r), tryAppendU32 rsv 0x95 (dr_log_records_appended r),
      tryAppendU32 rsv 0x96 (dr_log_rotations r), tryAppendU32 rsv 0x97 (dr_log_total_size r)]"

text \<open>As much of the chunk as the payload has room for.\<close>

definition put_log_chunk :: "bool \<Rightarrow> DescriptorResponse \<Rightarrow> bytes \<Rightarrow> (bytes \<times> bool) option" where
  "put_log_chunk rsv r out =
     (if \<not> canFit rsv out (8 + 8) then None
      else do {
        o1 \<leftarrow> puts [num32 0xA0 (dr_log_chunk_offset r), num32 0xA1 (dr_log_total_size r)] out;
        let room = (if kMaxPayload > length o1 + 4 then kMaxPayload - length o1 - 4 else 0);
            emit = min (length (dr_log_chunk r)) room in do {
        o2 \<leftarrow> appendTlv o1 0xA2 0x08 (if emit = 0 then None else Some (dr_log_chunk r)) (of_nat emit);
        Some (o2, emit \<noteq> length (dr_log_chunk r)) } })"

definition storage_info_puts :: "bool \<Rightarrow> StorageInfo \<Rightarrow> (bytes \<Rightarrow> bytes option) list" where
  "storage_info_puts rsv s =
     [tryAppendU8 rsv 0xB0 (sn_mode s), tryAppendBool rsv 0xB1 (sn_available s), tryAppendBool rsv 0xB2 (sn_mounted s),
      tryAppendU32 rsv 0xB3 (sn_total_bytes s), tryAppendU32 rsv 0xB4 (sn_used_bytes s),
      tryAppendU32 rsv 0xB5 (sn_free_bytes s), tryAppendUtf8 rsv 0xB6 (sn_root_path s), tryAppendUtf8 rsv 0xB7 (sn_cwd s)]"

definition entry_need :: "StorageEntry \<Rightarrow> nat" where
  "entry_need e = (4 + length (se_name e)) + 5 + 8"

definition put_entry :: "StorageEntry \<Rightarrow> bytes \<Rightarrow> (bytes \<times> bool) option" where
  "put_entry e = whole [utf8 0xBA (se_name e), \<lambda>b. appendBool b 0xBB (se_is_dir e), num32 0xBC (se_size_bytes e)]"

definition put_storage_list :: "bool \<Rightarrow> DescriptorResponse \<Rightarrow> bytes \<Rightarrow> (bytes \<times> bool \<times> nat) option" where
  "put_storage_list rsv r out = do {
     o1 \<leftarrow> puts [tryAppendUtf8 rsv 0xB8 (dr_storage_path r), tryAppendUtf8 rsv 0xB9 (dr_storage_parent_path r)] out;
     (o2, lost, _) \<leftarrow> put_items entry_need put_entry rsv (dr_storage_entries r) o1;
     Some (o2, lost, 0) }"

definition storage_stat_puts :: "bool \<Rightarrow> DescriptorResponse \<Rightarrow> (bytes \<Rightarrow> bytes option) list" where
  "storage_stat_puts rsv r = (let s = dr_storage_stat r in
     [tryAppendUtf8 rsv 0xC0 (if sx_path s = [] then dr_storage_path r else sx_path s), tryAppendBool rsv 0xC1 (sx_exists s),
      tryAppendBool rsv 0xC2 (sx_is_dir s), tryAppendU32 rsv 0xC3 (sx_size_bytes s)])"

definition ota_status_puts :: "bool \<Rightarrow> OtaStatusInfo \<Rightarrow> (bytes \<Rightarrow> bytes option) list" where
  "ota_status_puts rsv s =
     [tryAppendU8 rsv 0xD0 (oi_transfer_state s), tryAppendU16 rsv 0xD1 (oi_status_code s),
      tryAppendU32 rsv 0xD2 (oi_expected_size s), tryAppendU32 rsv 0xD3 (oi_received_size s),
      tryAppendU32 rsv 0xD4 (oi_expected_crc32 s), tryAppendU32 rsv 0xD5 (oi_actual_crc32 s),
      tryAppendUtf8 rsv 0xD6 (oi_temp_path s), tryAppendUtf8 rsv 0xD7 (oi_image_path s),
      tryAppendUtf8 rsv 0xD8 (oi_persistent_state s), tryAppendU32 rsv 0xD9 (oi_persistent_epoch_s s),
      tryAppendUtf8 rsv 0xDA (oi_confirmed_sw_version s), tryAppendUtf8 rsv 0xDB (oi_confirmed_build_id s)]"

definition manifest_need :: "OtaManifestEntry \<Rightarrow> nat" where
  "manifest_need i = 8 + (4 + length (mf_file_name i)) + 8 + 8 + (4 + length (mf_version i))
     + (4 + length (mf_build_id i)) + 8 + (4 + length (mf_state i)) + 8"

definition put_manifest :: "OtaManifestEntry \<Rightarrow> bytes \<Rightarrow> (bytes \<times> bool) option" where
  "put_manifest i = whole [num32 0xE0 (mf_file_id i), utf8 0xE1 (mf_file_name i), num32 0xE2 (mf_size_bytes i),
     num32 0xE3 (mf_crc32 i), utf8 0xE4 (mf_version i), utf8 0xE5 (mf_build_id i), num32 0xE6 (mf_created_epoch_s i),
     utf8 0xE7 (mf_state i), num32 0xE8 (mf_required_app_bytes i)]"

definition ota_capacity_puts :: "bool \<Rightarrow> OtaCapacityInfo \<Rightarrow> (bytes \<Rightarrow> bytes option) list" where
  "ota_capacity_puts rsv c =
     [tryAppendU32 rsv 0xF0 (oc_max_fw_bytes c), tryAppendU32 rsv 0xF1 (oc_last_checked_image_bytes c),
      tryAppendBool rsv 0xF2 (oc_last_fit c)]"

definition ota_gate_puts :: "bool \<Rightarrow> OtaGateInfo \<Rightarrow> (bytes \<Rightarrow> bytes option) list" where
  "ota_gate_puts rsv g = [tryAppendU8 rsv 0xF3 (og_decision g), tryAppendUtf8 rsv 0xF4 (og_detail g)]"

text \<open>The records of a type: the buffer, whether something was left out, and the number of items of a page.\<close>

definition uncounted :: "(bytes \<times> bool) option \<Rightarrow> (bytes \<times> bool \<times> nat) option" where
  "uncounted = map_option (\<lambda>(b, lost). (b, lost, 0))"

definition put_body :: "DescriptorResponse \<Rightarrow> bytes \<Rightarrow> (bytes \<times> bool \<times> nat) option" where
  "put_body r out =
     (let ty = dr_type r; rsv = dr_is_paged r; plain = (\<lambda>fs. uncounted (whole fs out)) in
      if ty = rDevice then plain (device_puts rsv (dr_device r))
      else if ty = rCapabilities then put_items capability_need put_capability rsv (dr_capabilities r) out
      else if ty = rTelemetry then put_items telemetry_need (put_telemetry rsv) rsv (dr_telemetry r) out
      else if ty = rTelemetrySnapshot then put_items sample_need put_sample rsv (dr_samples r) out
      else if ty = rLiveness then plain (liveness_puts rsv (dr_liveness r))
      else if ty = rTime then plain (time_puts rsv (dr_time r))
      else if ty = rNodeBundle then put_bundle rsv r out
      else if ty = rSettings then put_items setting_need put_setting rsv (dr_settings r) out
      else if ty = rSetting then plain (one_setting_puts rsv (dr_setting r))
      else if ty = rLogStatus then plain (log_status_puts rsv r)
      else if ty = rLogChunk then uncounted (put_log_chunk rsv r out)
      else if ty = rStorageInfo then plain (storage_info_puts rsv (dr_storage_info r))
      else if ty = rStorageList then put_storage_list rsv r out
      else if ty = rStorageStat then plain (storage_stat_puts rsv r)
      else if ty = rOtaStatus then plain (ota_status_puts rsv (dr_ota_status r))
      else if ty = rOtaManifest then put_items manifest_need put_manifest rsv (dr_ota_manifest r) out
      else if ty = rOtaCapacity then plain (ota_capacity_puts rsv (dr_ota_capacity r))
      else if ty = rOtaGateInfo then plain (ota_gate_puts rsv (dr_ota_gate r))
      else Some (out, False, 0))"

definition head_puts :: "DescriptorResponse \<Rightarrow> (bytes \<Rightarrow> bytes option) list" where
  "head_puts r = (let rsv = dr_is_paged r in
     [tryAppendU8 rsv 0x01 1, tryAppendU8 rsv 0x10 (dr_type r),
      block (dr_message r \<noteq> []) (tryAppendUtf8 rsv 0x11 (dr_message r)),
      block (dr_type r = rNodeBundle \<or> dr_bundle_mask r \<noteq> 0) (tryAppendU8 rsv 0x59 (bundle_mask_of r))])"

text \<open>
  What the page records say when \<open>n\<close> items were written: the counts of the response, or those
  of the shorter page.
\<close>

definition counted_type :: "u8 \<Rightarrow> bool" where
  "counted_type ty \<longleftrightarrow> ty = rCapabilities \<or> ty = rTelemetry \<or> ty = rTelemetrySnapshot \<or> ty = rNodeBundle
     \<or> ty = rSettings \<or> ty = rOtaManifest"

definition short_page :: "DescriptorResponse \<Rightarrow> nat \<Rightarrow> bool" where
  "short_page r n \<longleftrightarrow> counted_type (dr_type r) \<and> of_nat n \<noteq> dr_returned_count r"

definition page_of :: "DescriptorResponse \<Rightarrow> nat \<Rightarrow> u16 \<times> u16 \<times> bool" where
  "page_of r n =
     (if short_page r n
      then (let next_item = (ucast (dr_cursor r) :: u32) + ucast (of_nat n :: u16);
                cursor' = ucast (min next_item (ucast (dr_total_count r))) in
            (of_nat n, cursor', cursor' \<ge> dr_total_count r))
      else (dr_returned_count r, dr_next_cursor r, dr_done r))"

definition page_puts :: "DescriptorResponse \<Rightarrow> u16 \<times> u16 \<times> bool \<Rightarrow> (bytes \<Rightarrow> bytes option) list" where
  "page_puts r pg = (case pg of (returned, next_cursor, finished) \<Rightarrow>
     [tryAppendBool False 0x18 True, tryAppendU32 False 0x19 (dr_snapshot_id r), tryAppendU16 False 0x1A (dr_total_count r),
      tryAppendU16 False 0x1B (dr_cursor r), tryAppendU16 False 0x1C returned, tryAppendU16 False 0x1D next_cursor,
      tryAppendBool False 0x1E finished])"

definition put_page :: "DescriptorResponse \<Rightarrow> nat \<Rightarrow> bytes \<Rightarrow> (bytes \<times> bool) option" where
  "put_page r n out =
     (if \<not> dr_is_paged r then Some (out, False)
      else map_option (\<lambda>b. (b, short_page r n)) (puts (page_puts r (page_of r n)) out))"

definition encodeDescriptorResponse :: "DescriptorResponse \<Rightarrow> bytes option" where
  "encodeDescriptorResponse r = do {
     o1 \<leftarrow> puts (head_puts r) [];
     (o2, lost, n) \<leftarrow> put_body r o1;
     (o3, lost') \<leftarrow> put_page r n o2;
     if (lost \<or> lost') \<and> canFit False o3 (4 + 9)
     then Some (case appendUtf8 o3 0x11 ''truncated'' of None \<Rightarrow> o3 | Some b \<Rightarrow> b) else Some o3 }"

end
