(* ===== verification/ResponseRead.thy ===== *)
theory ResponseRead
  imports Response
begin

text \<open>
  Reading a descriptor response: \<open>decodeDescriptorResponse\<close> of \<open>src/descriptor/descriptor.cpp\<close>, its local
  variables, the six lambdas that append a finished item, and the loop body, cut into the groups of
  tags that belong together.
\<close>

section \<open>Local state\<close>

record reading =
  rs_out :: DescriptorResponse
  rs_cap :: CapabilityDescriptor
  rs_have_cap_key :: bool
  rs_telem :: TelemetryDescriptor
  rs_telem_stage :: nat
  rs_sample :: TelemetrySample
  rs_sample_stage :: nat
  rs_setting :: SettingDescriptor
  rs_setting_stage :: nat
  rs_entry :: StorageEntry
  rs_entry_stage :: nat
  rs_manifest :: OtaManifestEntry
  rs_manifest_stage :: nat

definition new_reading :: reading where
  "new_reading = \<lparr>rs_out = no_response, rs_cap = new_capability, rs_have_cap_key = False,
     rs_telem = new_telemetry, rs_telem_stage = 0, rs_sample = new_sample, rs_sample_stage = 0,
     rs_setting = new_setting, rs_setting_stage = 0, rs_entry = new_storage_entry, rs_entry_stage = 0,
     rs_manifest = new_manifest_entry, rs_manifest_stage = 0\<rparr>"

definition set_out :: "(DescriptorResponse \<Rightarrow> DescriptorResponse) \<Rightarrow> reading \<Rightarrow> reading" where
  "set_out f s = s\<lparr>rs_out := f (rs_out s)\<rparr>"

definition flush_cap :: "reading \<Rightarrow> reading" where
  "flush_cap s =
     (if rs_have_cap_key s
      then (set_out (\<lambda>r. r\<lparr>dr_capabilities := dr_capabilities r @ [rs_cap s]\<rparr>) s)
             \<lparr>rs_cap := new_capability, rs_have_cap_key := False\<rparr>
      else s)"

definition flush_telem :: "reading \<Rightarrow> reading" where
  "flush_telem s =
     (if rs_telem_stage s > 0
      then (set_out (\<lambda>r. r\<lparr>dr_telemetry := dr_telemetry r @ [rs_telem s]\<rparr>) s)
             \<lparr>rs_telem := new_telemetry, rs_telem_stage := 0\<rparr>
      else s)"

definition flush_sample :: "reading \<Rightarrow> reading" where
  "flush_sample s =
     (if rs_sample_stage s > 0
      then (set_out (\<lambda>r. r\<lparr>dr_samples := dr_samples r @ [rs_sample s]\<rparr>) s)
             \<lparr>rs_sample := new_sample, rs_sample_stage := 0\<rparr>
      else s)"

definition flush_setting :: "reading \<Rightarrow> reading" where
  "flush_setting s =
     (if rs_setting_stage s > 0
      then (set_out (\<lambda>r. r\<lparr>dr_settings := dr_settings r @ [rs_setting s]\<rparr>) s)
             \<lparr>rs_setting := new_setting, rs_setting_stage := 0\<rparr>
      else s)"

definition flush_entry :: "reading \<Rightarrow> reading" where
  "flush_entry s =
     (if rs_entry_stage s > 0
      then (set_out (\<lambda>r. r\<lparr>dr_storage_entries := dr_storage_entries r @ [rs_entry s]\<rparr>) s)
             \<lparr>rs_entry := new_storage_entry, rs_entry_stage := 0\<rparr>
      else s)"

definition flush_manifest :: "reading \<Rightarrow> reading" where
  "flush_manifest s =
     (if rs_manifest_stage s > 0
      then (set_out (\<lambda>r. r\<lparr>dr_ota_manifest := dr_ota_manifest r @ [rs_manifest s]\<rparr>) s)
             \<lparr>rs_manifest := new_manifest_entry, rs_manifest_stage := 0\<rparr>
      else s)"

section \<open>The loop body\<close>

text \<open>Each group returns the new state, or nothing if the record is not of the group.\<close>

definition read_head :: "u8 \<Rightarrow> u8 \<Rightarrow> bytes \<Rightarrow> reading \<Rightarrow> reading option" where
  "read_head tag ty v s =
     (let n = length v; set = (\<lambda>f. Some (set_out f s)) in
      if tag = 0x10 \<and> ty = 0x01 \<and> n = 1 then set (\<lambda>r. r\<lparr>dr_type := v ! 0\<rparr>)
      else if tag = 0x11 \<and> ty = 0x09 then set (\<lambda>r. r\<lparr>dr_message := string_of_bytes v\<rparr>)
      else if tag = 0x59 \<and> ty = 0x01 \<and> n = 1 then set (\<lambda>r. r\<lparr>dr_bundle_mask := v ! 0\<rparr>)
      else if tag = 0x18 \<and> ty = 0x06 \<and> n = 1 then set (\<lambda>r. r\<lparr>dr_is_paged := (v ! 0 \<noteq> 0)\<rparr>)
      else if tag = 0x19 \<and> ty = 0x03 \<and> n = 4 then set (\<lambda>r. r\<lparr>dr_snapshot_id := readLe32 v\<rparr>)
      else if tag = 0x1A \<and> ty = 0x02 \<and> n = 2 then set (\<lambda>r. r\<lparr>dr_total_count := readLe16 v\<rparr>)
      else if tag = 0x1B \<and> ty = 0x02 \<and> n = 2 then set (\<lambda>r. r\<lparr>dr_cursor := readLe16 v\<rparr>)
      else if tag = 0x1C \<and> ty = 0x02 \<and> n = 2 then set (\<lambda>r. r\<lparr>dr_returned_count := readLe16 v\<rparr>)
      else if tag = 0x1D \<and> ty = 0x02 \<and> n = 2 then set (\<lambda>r. r\<lparr>dr_next_cursor := readLe16 v\<rparr>)
      else if tag = 0x1E \<and> ty = 0x06 \<and> n = 1 then set (\<lambda>r. r\<lparr>dr_done := (v ! 0 \<noteq> 0)\<rparr>)
      else None)"

definition read_device :: "u8 \<Rightarrow> u8 \<Rightarrow> bytes \<Rightarrow> reading \<Rightarrow> reading option" where
  "read_device tag ty v s =
     (let set = (\<lambda>f. Some (set_out (\<lambda>r. r\<lparr>dr_device := f (dr_device r)\<rparr>) s)); str = string_of_bytes v in
      if tag = 0x20 \<and> ty = 0x09 then set (\<lambda>d. d\<lparr>de_type := str\<rparr>)
      else if tag = 0x21 \<and> ty = 0x09 then set (\<lambda>d. d\<lparr>de_id := str\<rparr>)
      else if tag = 0x22 \<and> ty = 0x09 then set (\<lambda>d. d\<lparr>de_name := str\<rparr>)
      else if tag = 0x23 \<and> ty = 0x09 then set (\<lambda>d. d\<lparr>de_hw := str\<rparr>)
      else if tag = 0x24 \<and> ty = 0x09 then set (\<lambda>d. d\<lparr>de_sw := str\<rparr>)
      else if tag = 0x25 \<and> ty = 0x09 then set (\<lambda>d. d\<lparr>de_build := str\<rparr>)
      else None)"

definition read_capability :: "u8 \<Rightarrow> u8 \<Rightarrow> bytes \<Rightarrow> reading \<Rightarrow> reading option" where
  "read_capability tag ty v s =
     (if tag = 0x30 \<and> ty = 0x09
      then (let s = flush_cap s in Some (s\<lparr>rs_cap := (rs_cap s)\<lparr>ca_key := string_of_bytes v\<rparr>, rs_have_cap_key := True\<rparr>))
      else if tag = 0x31 \<and> ty = 0x09
      then (let s = s\<lparr>rs_cap := (rs_cap s)\<lparr>ca_description := string_of_bytes v\<rparr>\<rparr> in
            Some (if rs_have_cap_key s then flush_cap s else s))
      else None)"

text \<open>A float of another length than 4 leaves its field alone, but the stage advances.\<close>

definition read_telemetry :: "u8 \<Rightarrow> u8 \<Rightarrow> bytes \<Rightarrow> reading \<Rightarrow> reading option" where
  "read_telemetry tag ty v s =
     (let n = length v; str = string_of_bytes v; t = rs_telem s; stage = rs_telem_stage s in
      if tag = 0x3F \<and> ty = 0x02 \<and> n = 2 then Some (s\<lparr>rs_telem := t\<lparr>te_metric_id := readLe16 v\<rparr>\<rparr>)
      else if tag = 0x40 \<and> ty = 0x09
      then (let s = flush_telem s in Some (s\<lparr>rs_telem := (rs_telem s)\<lparr>te_key := str\<rparr>, rs_telem_stage := 1\<rparr>))
      else if tag = 0x41 \<and> ty = 0x09
      then Some (s\<lparr>rs_telem := t\<lparr>te_unit := str\<rparr>, rs_telem_stage := (if stage < 2 then 2 else stage)\<rparr>)
      else if tag = 0x42 \<and> ty = 0x07
      then Some (s\<lparr>rs_telem := (if n = 4 then t\<lparr>te_min := readLe32 v\<rparr> else t), rs_telem_stage := (if stage < 3 then 3 else stage)\<rparr>)
      else if tag = 0x43 \<and> ty = 0x07
      then Some (s\<lparr>rs_telem := (if n = 4 then t\<lparr>te_max := readLe32 v\<rparr> else t), rs_telem_stage := (if stage < 4 then 4 else stage)\<rparr>)
      else if tag = 0x44 \<and> ty = 0x09 then Some (flush_telem (s\<lparr>rs_telem := t\<lparr>te_description := str\<rparr>\<rparr>))
      else None)"

definition read_sample :: "u8 \<Rightarrow> u8 \<Rightarrow> bytes \<Rightarrow> reading \<Rightarrow> reading option" where
  "read_sample tag ty v s =
     (let n = length v; str = string_of_bytes v; t = rs_sample s; stage = rs_sample_stage s in
      if tag = 0x4F \<and> ty = 0x02 \<and> n = 2 then Some (s\<lparr>rs_sample := t\<lparr>sa_metric_id := readLe16 v\<rparr>\<rparr>)
      else if tag = 0x50 \<and> ty = 0x09
      then (let s = flush_sample s in Some (s\<lparr>rs_sample := (rs_sample s)\<lparr>sa_key := str\<rparr>, rs_sample_stage := 1\<rparr>))
      else if tag = 0x51 \<and> ty = 0x09
      then Some (s\<lparr>rs_sample := t\<lparr>sa_value := str\<rparr>, rs_sample_stage := (if stage < 2 then 2 else stage)\<rparr>)
      else if tag = 0x52 \<and> ty = 0x09 then Some (flush_sample (s\<lparr>rs_sample := t\<lparr>sa_unit := str\<rparr>\<rparr>))
      else None)"

definition read_status :: "u8 \<Rightarrow> u8 \<Rightarrow> bytes \<Rightarrow> reading \<Rightarrow> reading option" where
  "read_status tag ty v s =
     (let n = length v;
          live = (\<lambda>f. Some (set_out (\<lambda>r. r\<lparr>dr_liveness := f (dr_liveness r)\<rparr>) s));
          tim = (\<lambda>f. Some (set_out (\<lambda>r. r\<lparr>dr_time := f (dr_time r)\<rparr>) s)) in
      if tag = 0x60 \<and> ty = 0x06 \<and> n = 1 then live (\<lambda>l. l\<lparr>li_online := (v ! 0 = 1)\<rparr>)
      else if tag = 0x61 \<and> ty = 0x03 \<and> n = 4 then live (\<lambda>l. l\<lparr>li_uptime_ms := readLe32 v\<rparr>)
      else if tag = 0x62 \<and> ty = 0x09 then live (\<lambda>l. l\<lparr>li_state := string_of_bytes v\<rparr>)
      else if tag = 0x70 \<and> ty = 0x03 \<and> n = 4 then tim (\<lambda>t. t\<lparr>ti_epoch_s := ucast (readLe32 v)\<rparr>)
      else if tag = 0x71 \<and> ty = 0x03 \<and> n = 4 then tim (\<lambda>t. t\<lparr>ti_uptime_ms := readLe32 v\<rparr>)
      else None)"

definition read_setting :: "u8 \<Rightarrow> u8 \<Rightarrow> bytes \<Rightarrow> reading \<Rightarrow> reading option" where
  "read_setting tag ty v s =
     (let n = length v; str = string_of_bytes v; t = rs_setting s; stage = rs_setting_stage s;
          set = (\<lambda>t' k. Some (s\<lparr>rs_setting := t', rs_setting_stage := (if stage < k then k else stage)\<rparr>)) in
      if tag = 0x7F \<and> ty = 0x02 \<and> n = 2 then Some (s\<lparr>rs_setting := t\<lparr>sd_id := readLe16 v\<rparr>\<rparr>)
      else if tag = 0x80 \<and> ty = 0x09
      then (let s = flush_setting s in Some (s\<lparr>rs_setting := (rs_setting s)\<lparr>sd_key := str\<rparr>, rs_setting_stage := 1\<rparr>))
      else if tag = 0x81 \<and> ty = 0x01 \<and> n = 1 then set (t\<lparr>sd_value_type := v ! 0\<rparr>) 2
      else if tag = 0x82 \<and> ty = 0x06 \<and> n = 1 then set (t\<lparr>sd_writable := (v ! 0 = 1)\<rparr>) 3
      else if tag = 0x83 \<and> ty = 0x09 then set (t\<lparr>sd_nvs_key := str\<rparr>) 4
      else if tag = 0x84 \<and> ty = 0x09 then set (t\<lparr>sd_current := str\<rparr>) 5
      else if tag = 0x85 \<and> ty = 0x09 then set (t\<lparr>sd_default := str\<rparr>) 6
      else if tag = 0x86 \<and> ty = 0x09 then Some (flush_setting (s\<lparr>rs_setting := t\<lparr>sd_description := str\<rparr>\<rparr>))
      else None)"

definition read_log :: "u8 \<Rightarrow> u8 \<Rightarrow> bytes \<Rightarrow> reading \<Rightarrow> reading option" where
  "read_log tag ty v s =
     (let n = length v; set = (\<lambda>f. Some (set_out f s)) in
      if tag = 0x90 \<and> ty = 0x06 \<and> n = 1 then set (\<lambda>r. r\<lparr>dr_logger_available := (v ! 0 \<noteq> 0)\<rparr>)
      else if tag = 0x91 \<and> ty = 0x06 \<and> n = 1 then set (\<lambda>r. r\<lparr>dr_logger_enabled := (v ! 0 \<noteq> 0)\<rparr>)
      else if tag = 0x92 \<and> ty = 0x01 \<and> n = 1 then set (\<lambda>r. r\<lparr>dr_logger_min_level := v ! 0\<rparr>)
      else if tag = 0x93 \<and> ty = 0x03 \<and> n = 4 then set (\<lambda>r. r\<lparr>dr_log_bytes_used := readLe32 v\<rparr>)
      else if tag = 0x94 \<and> ty = 0x03 \<and> n = 4 then set (\<lambda>r. r\<lparr>dr_log_bytes_dropped := readLe32 v\<rparr>)
      else if tag = 0x95 \<and> ty = 0x03 \<and> n = 4 then set (\<lambda>r. r\<lparr>dr_log_records_appended := readLe32 v\<rparr>)
      else if tag = 0x96 \<and> ty = 0x03 \<and> n = 4 then set (\<lambda>r. r\<lparr>dr_log_rotations := readLe32 v\<rparr>)
      else if tag = 0x97 \<and> ty = 0x03 \<and> n = 4 then set (\<lambda>r. r\<lparr>dr_log_total_size := readLe32 v\<rparr>)
      else if tag = 0xA0 \<and> ty = 0x03 \<and> n = 4 then set (\<lambda>r. r\<lparr>dr_log_chunk_offset := readLe32 v\<rparr>)
      else if tag = 0xA1 \<and> ty = 0x03 \<and> n = 4 then set (\<lambda>r. r\<lparr>dr_log_total_size := readLe32 v\<rparr>)
      else if tag = 0xA2 \<and> ty = 0x08 then set (\<lambda>r. r\<lparr>dr_log_chunk := v\<rparr>)
      else None)"

definition read_storage :: "u8 \<Rightarrow> u8 \<Rightarrow> bytes \<Rightarrow> reading \<Rightarrow> reading option" where
  "read_storage tag ty v s =
     (let n = length v; str = string_of_bytes v; e = rs_entry s; stage = rs_entry_stage s;
          set = (\<lambda>f. Some (set_out f s));
          info = (\<lambda>f. Some (set_out (\<lambda>r. r\<lparr>dr_storage_info := f (dr_storage_info r)\<rparr>) s));
          stat = (\<lambda>f. Some (set_out (\<lambda>r. r\<lparr>dr_storage_stat := f (dr_storage_stat r)\<rparr>) s)) in
      if tag = 0xB0 \<and> ty = 0x01 \<and> n = 1 then info (\<lambda>i. i\<lparr>sn_mode := v ! 0\<rparr>)
      else if tag = 0xB1 \<and> ty = 0x06 \<and> n = 1 then info (\<lambda>i. i\<lparr>sn_available := (v ! 0 \<noteq> 0)\<rparr>)
      else if tag = 0xB2 \<and> ty = 0x06 \<and> n = 1 then info (\<lambda>i. i\<lparr>sn_mounted := (v ! 0 \<noteq> 0)\<rparr>)
      else if tag = 0xB3 \<and> ty = 0x03 \<and> n = 4 then info (\<lambda>i. i\<lparr>sn_total_bytes := readLe32 v\<rparr>)
      else if tag = 0xB4 \<and> ty = 0x03 \<and> n = 4 then info (\<lambda>i. i\<lparr>sn_used_bytes := readLe32 v\<rparr>)
      else if tag = 0xB5 \<and> ty = 0x03 \<and> n = 4 then info (\<lambda>i. i\<lparr>sn_free_bytes := readLe32 v\<rparr>)
      else if tag = 0xB6 \<and> ty = 0x09 then info (\<lambda>i. i\<lparr>sn_root_path := str\<rparr>)
      else if tag = 0xB7 \<and> ty = 0x09 then info (\<lambda>i. i\<lparr>sn_cwd := str\<rparr>)
      else if tag = 0xB8 \<and> ty = 0x09 then set (\<lambda>r. r\<lparr>dr_storage_path := str\<rparr>)
      else if tag = 0xB9 \<and> ty = 0x09 then set (\<lambda>r. r\<lparr>dr_storage_parent_path := str\<rparr>)
      else if tag = 0xBA \<and> ty = 0x09
      then (let s = flush_entry s in Some (s\<lparr>rs_entry := (rs_entry s)\<lparr>se_name := str\<rparr>, rs_entry_stage := 1\<rparr>))
      else if tag = 0xBB \<and> ty = 0x06 \<and> n = 1
      then Some (s\<lparr>rs_entry := e\<lparr>se_is_dir := (v ! 0 \<noteq> 0)\<rparr>, rs_entry_stage := (if stage < 2 then 2 else stage)\<rparr>)
      else if tag = 0xBC \<and> ty = 0x03 \<and> n = 4
      then Some (s\<lparr>rs_entry := e\<lparr>se_size_bytes := readLe32 v\<rparr>, rs_entry_stage := (if stage < 3 then 3 else stage)\<rparr>)
      else if tag = 0xC0 \<and> ty = 0x09 then stat (\<lambda>x. x\<lparr>sx_path := str\<rparr>)
      else if tag = 0xC1 \<and> ty = 0x06 \<and> n = 1 then stat (\<lambda>x. x\<lparr>sx_exists := (v ! 0 \<noteq> 0)\<rparr>)
      else if tag = 0xC2 \<and> ty = 0x06 \<and> n = 1 then stat (\<lambda>x. x\<lparr>sx_is_dir := (v ! 0 \<noteq> 0)\<rparr>)
      else if tag = 0xC3 \<and> ty = 0x03 \<and> n = 4 then stat (\<lambda>x. x\<lparr>sx_size_bytes := readLe32 v\<rparr>)
      else None)"

definition read_ota_status :: "u8 \<Rightarrow> u8 \<Rightarrow> bytes \<Rightarrow> reading \<Rightarrow> reading option" where
  "read_ota_status tag ty v s =
     (let n = length v; str = string_of_bytes v;
          set = (\<lambda>f. Some (set_out (\<lambda>r. r\<lparr>dr_ota_status := f (dr_ota_status r)\<rparr>) s)) in
      if tag = 0xD0 \<and> ty = 0x01 \<and> n = 1 then set (\<lambda>o'. o'\<lparr>oi_transfer_state := v ! 0\<rparr>)
      else if tag = 0xD1 \<and> ty = 0x02 \<and> n = 2 then set (\<lambda>o'. o'\<lparr>oi_status_code := readLe16 v\<rparr>)
      else if tag = 0xD2 \<and> ty = 0x03 \<and> n = 4 then set (\<lambda>o'. o'\<lparr>oi_expected_size := readLe32 v\<rparr>)
      else if tag = 0xD3 \<and> ty = 0x03 \<and> n = 4 then set (\<lambda>o'. o'\<lparr>oi_received_size := readLe32 v\<rparr>)
      else if tag = 0xD4 \<and> ty = 0x03 \<and> n = 4 then set (\<lambda>o'. o'\<lparr>oi_expected_crc32 := readLe32 v\<rparr>)
      else if tag = 0xD5 \<and> ty = 0x03 \<and> n = 4 then set (\<lambda>o'. o'\<lparr>oi_actual_crc32 := readLe32 v\<rparr>)
      else if tag = 0xD6 \<and> ty = 0x09 then set (\<lambda>o'. o'\<lparr>oi_temp_path := str\<rparr>)
      else if tag = 0xD7 \<and> ty = 0x09 then set (\<lambda>o'. o'\<lparr>oi_image_path := str\<rparr>)
      else if tag = 0xD8 \<and> ty = 0x09 then set (\<lambda>o'. o'\<lparr>oi_persistent_state := str\<rparr>)
      else if tag = 0xD9 \<and> ty = 0x03 \<and> n = 4 then set (\<lambda>o'. o'\<lparr>oi_persistent_epoch_s := readLe32 v\<rparr>)
      else if tag = 0xDA \<and> ty = 0x09 then set (\<lambda>o'. o'\<lparr>oi_confirmed_sw_version := str\<rparr>)
      else if tag = 0xDB \<and> ty = 0x09 then set (\<lambda>o'. o'\<lparr>oi_confirmed_build_id := str\<rparr>)
      else None)"

definition read_manifest :: "u8 \<Rightarrow> u8 \<Rightarrow> bytes \<Rightarrow> reading \<Rightarrow> reading option" where
  "read_manifest tag ty v s =
     (let n = length v; str = string_of_bytes v; m = rs_manifest s; stage = rs_manifest_stage s;
          set = (\<lambda>m' k. Some (s\<lparr>rs_manifest := m', rs_manifest_stage := (if stage < k then k else stage)\<rparr>)) in
      if tag = 0xE0 \<and> ty = 0x03 \<and> n = 4 then Some (s\<lparr>rs_manifest := m\<lparr>mf_file_id := readLe32 v\<rparr>\<rparr>)
      else if tag = 0xE1 \<and> ty = 0x09
      then (let s = flush_manifest s in Some (s\<lparr>rs_manifest := (rs_manifest s)\<lparr>mf_file_name := str\<rparr>, rs_manifest_stage := 1\<rparr>))
      else if tag = 0xE2 \<and> ty = 0x03 \<and> n = 4 then set (m\<lparr>mf_size_bytes := readLe32 v\<rparr>) 2
      else if tag = 0xE3 \<and> ty = 0x03 \<and> n = 4 then set (m\<lparr>mf_crc32 := readLe32 v\<rparr>) 3
      else if tag = 0xE4 \<and> ty = 0x09 then set (m\<lparr>mf_version := str\<rparr>) 4
      else if tag = 0xE5 \<and> ty = 0x09 then set (m\<lparr>mf_build_id := str\<rparr>) 5
      else if tag = 0xE6 \<and> ty = 0x03 \<and> n = 4 then set (m\<lparr>mf_created_epoch_s := readLe32 v\<rparr>) 6
      else if tag = 0xE7 \<and> ty = 0x09 then set (m\<lparr>mf_state := str\<rparr>) 7
      else if tag = 0xE8 \<and> ty = 0x03 \<and> n = 4 then set (m\<lparr>mf_required_app_bytes := readLe32 v\<rparr>) 8
      else None)"

definition read_capacity :: "u8 \<Rightarrow> u8 \<Rightarrow> bytes \<Rightarrow> reading \<Rightarrow> reading option" where
  "read_capacity tag ty v s =
     (let n = length v;
          cap = (\<lambda>f. Some (set_out (\<lambda>r. r\<lparr>dr_ota_capacity := f (dr_ota_capacity r)\<rparr>) s));
          gate = (\<lambda>f. Some (set_out (\<lambda>r. r\<lparr>dr_ota_gate := f (dr_ota_gate r)\<rparr>) s)) in
      if tag = 0xF0 \<and> ty = 0x03 \<and> n = 4 then cap (\<lambda>c. c\<lparr>oc_max_fw_bytes := readLe32 v\<rparr>)
      else if tag = 0xF1 \<and> ty = 0x03 \<and> n = 4 then cap (\<lambda>c. c\<lparr>oc_last_checked_image_bytes := readLe32 v\<rparr>)
      else if tag = 0xF2 \<and> ty = 0x06 \<and> n = 1 then cap (\<lambda>c. c\<lparr>oc_last_fit := (v ! 0 \<noteq> 0)\<rparr>)
      else if tag = 0xF3 \<and> ty = 0x01 \<and> n = 1 then gate (\<lambda>g. g\<lparr>og_decision := v ! 0\<rparr>)
      else if tag = 0xF4 \<and> ty = 0x09 then gate (\<lambda>g. g\<lparr>og_detail := string_of_bytes v\<rparr>)
      else None)"

text \<open>The \<open>else if\<close> chain over the groups; other records are skipped.\<close>

fun first_of :: "('s \<Rightarrow> 's option) list \<Rightarrow> 's \<Rightarrow> 's" where
  "first_of [] s = s"
| "first_of (f # fs) s = (case f s of Some s' \<Rightarrow> s' | None \<Rightarrow> first_of fs s)"

definition response_body :: "u8 \<Rightarrow> u8 \<Rightarrow> bytes \<Rightarrow> reading \<Rightarrow> (DescriptorResponse, reading) tlv_step" where
  "response_body tag ty v s =
     Continue (first_of [read_head tag ty v, read_device tag ty v, read_capability tag ty v, read_telemetry tag ty v,
       read_sample tag ty v, read_status tag ty v, read_setting tag ty v, read_log tag ty v, read_storage tag ty v,
       read_ota_status tag ty v, read_manifest tag ty v, read_capacity tag ty v] s)"

section \<open>The end\<close>

definition flush_all :: "reading \<Rightarrow> reading" where
  "flush_all s = flush_manifest (flush_entry (flush_setting (flush_sample (flush_telem (flush_cap s)))))"

definition response_fin :: "reading \<Rightarrow> DescriptorResponse option" where
  "response_fin s =
     (let r = rs_out (flush_all s);
          r' = (case dr_settings r of
                  x # _ \<Rightarrow> if dr_type r = rSetting then r\<lparr>dr_setting := x, dr_settings := []\<rparr> else r
                | [] \<Rightarrow> r) in
      if dr_type r' = rUnknown then None else Some r')"

definition decodeDescriptorResponse :: "buf \<Rightarrow> DescriptorResponse option" where
  "decodeDescriptorResponse payload =
     (case payload of
        None \<Rightarrow> None
      | Some bs \<Rightarrow> if length bs < 8 then None else tlv_walk response_body response_fin new_reading bs)"

end
