(* ===== verification/ResponseLaws.thy ===== *)
theory ResponseLaws
  imports ResponseRead DescriptorCodec
begin

text \<open>
  The two halves of the response codec as laws: what the encoder's steps write, as records, and what
  each record and each item does to the reader. The items of a list are read back after a flush,
  except for the file numbers of a manifest, which come in front of the tag that ends an item.
\<close>

section \<open>Writing records\<close>

definition short :: "(u8 \<times> u8 \<times> bytes) list \<Rightarrow> bool" where
  "short rs \<longleftrightarrow> (\<forall>(tag, ty, v) \<in> set rs. length v < 65536)"

lemma short_simps [simp]: "short []" "short ((tag, ty, v) # rs) \<longleftrightarrow> length v < 65536 \<and> short rs"
  "short (xs @ ys) \<longleftrightarrow> short xs \<and> short ys"
  unfolding short_def by (simp_all add: ball_Un)

definition puts_out :: "(bytes \<Rightarrow> bytes option) \<Rightarrow> (u8 \<times> u8 \<times> bytes) list \<Rightarrow> bool" where
  "puts_out f rs \<longleftrightarrow> (\<forall>out b. f out = Some b \<longrightarrow> b = out @ records rs \<and> short rs)"

lemma puts_outD: "puts_out f rs \<Longrightarrow> f out = Some b \<Longrightarrow> b = out @ records rs \<and> short rs"
  by (simp add: puts_out_def)

lemma appendF32_eq: "appendF32 out tag v = Some (out @ tlv tag 0x07 (appendLe32 v))"
  unfolding appendF32_def by (rule appendTlv_bytes) simp_all

lemma puts_out_steps [simp]:
  "puts_out (tryAppendU8 rsv tag x) [(tag, 0x01, [x])]"
  "puts_out (tryAppendBool rsv tag c) [(tag, 0x06, [if c then 1 else 0])]"
  "puts_out (tryAppendU16 rsv tag w) [(tag, 0x02, appendLe16 w)]"
  "puts_out (tryAppendU32 rsv tag v) [(tag, 0x03, appendLe32 v)]"
  "puts_out (tryAppendUtf8 rsv tag s) [(tag, 0x09, string_bytes s)]"
  "puts_out (utf8 tag s) [(tag, 0x09, string_bytes s)]"
  "puts_out (num16 tag w) [(tag, 0x02, appendLe16 w)]"
  "puts_out (num32 tag v) [(tag, 0x03, appendLe32 v)]"
  "puts_out (\<lambda>b. appendTlvU8 b tag x) [(tag, 0x01, [x])]"
  "puts_out (\<lambda>b. appendBool b tag c) [(tag, 0x06, [if c then 1 else 0])]"
  "puts_out (\<lambda>b. appendF32 b tag v) [(tag, 0x07, appendLe32 v)]"
  by (auto simp: puts_out_def tryAppendU8_def tryAppendBool_def tryAppendU16_def tryAppendU32_def tryAppendUtf8_def
      utf8_def num16_def num32_def appendUtf8_eq appendF32_eq split: if_splits)

lemma puts_out_block [simp]: "puts_out f rs \<Longrightarrow> puts_out (block c f) (if c then rs else [])"
  by (auto simp: puts_out_def block_def)

lemma puts_out_puts: "list_all2 puts_out fs rss \<Longrightarrow> puts_out (puts fs) (concat rss)"
proof (induction fs rss rule: list_all2_induct)
  case (Cons f fs rs rss)
  then show ?case by (fastforce simp: puts_out_def bind_eq_Some_conv)
qed (simp add: puts_out_def)

lemma puts_writes:
  "puts fs out = Some b \<Longrightarrow> list_all2 puts_out fs rss \<Longrightarrow> b = out @ records (concat rss) \<and> short (concat rss)"
  using puts_out_puts puts_outD by blast

lemma whole_writes:
  "whole fs out = Some (b, c) \<Longrightarrow> list_all2 puts_out fs rss \<Longrightarrow> \<not> c \<and> b = out @ records (concat rss) \<and> short (concat rss)"
  using puts_writes by (auto simp: whole_def)

text \<open>A list of items: a prefix of it is written, all of it if nothing is left out.\<close>

lemma put_items_writes:
  assumes "\<And>x. \<exists>fs. put x = whole fs \<and> list_all2 puts_out fs (map (\<lambda>r. [r]) (recs x))"
    and "put_items need put rsv xs out = Some (b, lost, n)"
  shows "n \<le> length xs \<and> b = out @ records (concat (map recs (take n xs))) \<and> short (concat (map recs (take n xs)))
    \<and> (lost \<longleftrightarrow> n < length xs) \<and> (n < length xs \<longrightarrow> \<not> canFit rsv b (need (xs ! n)))"
  using assms(2)
proof (induction xs arbitrary: out b lost n)
  case (Cons x xs)
  show ?case
  proof (cases "canFit rsv out (need x)")
    case True
    from True Cons.prems obtain o1 c where p1: "put x out = Some (o1, c)"
      by (auto simp: bind_eq_Some_conv)
    with True Cons.prems obtain o2 c' m where p: "put_items need put rsv xs o1 = Some (o2, c', m)"
      "b = o2" "lost = (c \<or> c')" "n = m + 1"
      by (cases "put_items need put rsv xs o1") auto
    obtain fs where fs: "put x = whole fs" "list_all2 puts_out fs (map (\<lambda>r. [r]) (recs x))" using assms(1) by blast
    from whole_writes [OF p1 [unfolded fs(1)] fs(2)] have "\<not> c \<and> o1 = out @ records (recs x) \<and> short (recs x)"
      by simp
    with Cons.IH [OF p(1)] p show ?thesis by auto
  qed (use Cons.prems in auto)
qed simp

section \<open>Reading records\<close>

fun read_one :: "u8 \<times> u8 \<times> bytes \<Rightarrow> reading \<Rightarrow> reading" where
  "read_one (tag, ty, v) s =
     first_of [read_head tag ty v, read_device tag ty v, read_capability tag ty v, read_telemetry tag ty v,
       read_sample tag ty v, read_status tag ty v, read_setting tag ty v, read_log tag ty v, read_storage tag ty v,
       read_ota_status tag ty v, read_manifest tag ty v, read_capacity tag ty v] s"

lemmas read_groups = read_head_def read_device_def read_capability_def read_telemetry_def read_sample_def read_status_def
  read_setting_def read_log_def read_storage_def read_ota_status_def read_manifest_def read_capacity_def

lemma run_response: "tlv_run response_body fin s rs = fin (fold read_one rs s)"
  by (induction rs arbitrary: s) (auto simp: response_body_def)

lemma read_head_records:
  "read_one (0x01, 0x01, v) s = s"
  "read_one (0x10, 0x01, [x]) s = set_out (\<lambda>r. r\<lparr>dr_type := x\<rparr>) s"
  "read_one (0x11, 0x09, v) s = set_out (\<lambda>r. r\<lparr>dr_message := string_of_bytes v\<rparr>) s"
  "read_one (0x59, 0x01, [x]) s = set_out (\<lambda>r. r\<lparr>dr_bundle_mask := x\<rparr>) s"
  "read_one (0x18, 0x06, [x]) s = set_out (\<lambda>r. r\<lparr>dr_is_paged := (x \<noteq> 0)\<rparr>) s"
  "read_one (0x19, 0x03, appendLe32 d) s = set_out (\<lambda>r. r\<lparr>dr_snapshot_id := d\<rparr>) s"
  "read_one (0x1A, 0x02, appendLe16 w) s = set_out (\<lambda>r. r\<lparr>dr_total_count := w\<rparr>) s"
  "read_one (0x1B, 0x02, appendLe16 w) s = set_out (\<lambda>r. r\<lparr>dr_cursor := w\<rparr>) s"
  "read_one (0x1C, 0x02, appendLe16 w) s = set_out (\<lambda>r. r\<lparr>dr_returned_count := w\<rparr>) s"
  "read_one (0x1D, 0x02, appendLe16 w) s = set_out (\<lambda>r. r\<lparr>dr_next_cursor := w\<rparr>) s"
  "read_one (0x1E, 0x06, [x]) s = set_out (\<lambda>r. r\<lparr>dr_done := (x \<noteq> 0)\<rparr>) s"
  by (simp_all add: read_groups)

lemma read_plain_records:
  "read_one (0x20, 0x09, v) s = set_out (\<lambda>r. r\<lparr>dr_device := (dr_device r)\<lparr>de_type := string_of_bytes v\<rparr>\<rparr>) s"
  "read_one (0x21, 0x09, v) s = set_out (\<lambda>r. r\<lparr>dr_device := (dr_device r)\<lparr>de_id := string_of_bytes v\<rparr>\<rparr>) s"
  "read_one (0x22, 0x09, v) s = set_out (\<lambda>r. r\<lparr>dr_device := (dr_device r)\<lparr>de_name := string_of_bytes v\<rparr>\<rparr>) s"
  "read_one (0x23, 0x09, v) s = set_out (\<lambda>r. r\<lparr>dr_device := (dr_device r)\<lparr>de_hw := string_of_bytes v\<rparr>\<rparr>) s"
  "read_one (0x24, 0x09, v) s = set_out (\<lambda>r. r\<lparr>dr_device := (dr_device r)\<lparr>de_sw := string_of_bytes v\<rparr>\<rparr>) s"
  "read_one (0x25, 0x09, v) s = set_out (\<lambda>r. r\<lparr>dr_device := (dr_device r)\<lparr>de_build := string_of_bytes v\<rparr>\<rparr>) s"
  "read_one (0x60, 0x06, [x]) s = set_out (\<lambda>r. r\<lparr>dr_liveness := (dr_liveness r)\<lparr>li_online := (x = 1)\<rparr>\<rparr>) s"
  "read_one (0x61, 0x03, appendLe32 d) s = set_out (\<lambda>r. r\<lparr>dr_liveness := (dr_liveness r)\<lparr>li_uptime_ms := d\<rparr>\<rparr>) s"
  "read_one (0x62, 0x09, v) s = set_out (\<lambda>r. r\<lparr>dr_liveness := (dr_liveness r)\<lparr>li_state := string_of_bytes v\<rparr>\<rparr>) s"
  "read_one (0x70, 0x03, appendLe32 d) s = set_out (\<lambda>r. r\<lparr>dr_time := (dr_time r)\<lparr>ti_epoch_s := ucast d\<rparr>\<rparr>) s"
  "read_one (0x71, 0x03, appendLe32 d) s = set_out (\<lambda>r. r\<lparr>dr_time := (dr_time r)\<lparr>ti_uptime_ms := d\<rparr>\<rparr>) s"
  by (simp_all add: read_groups)

lemma read_log_records:
  "read_one (0x90, 0x06, [x]) s = set_out (\<lambda>r. r\<lparr>dr_logger_available := (x \<noteq> 0)\<rparr>) s"
  "read_one (0x91, 0x06, [x]) s = set_out (\<lambda>r. r\<lparr>dr_logger_enabled := (x \<noteq> 0)\<rparr>) s"
  "read_one (0x92, 0x01, [x]) s = set_out (\<lambda>r. r\<lparr>dr_logger_min_level := x\<rparr>) s"
  "read_one (0x93, 0x03, appendLe32 d) s = set_out (\<lambda>r. r\<lparr>dr_log_bytes_used := d\<rparr>) s"
  "read_one (0x94, 0x03, appendLe32 d) s = set_out (\<lambda>r. r\<lparr>dr_log_bytes_dropped := d\<rparr>) s"
  "read_one (0x95, 0x03, appendLe32 d) s = set_out (\<lambda>r. r\<lparr>dr_log_records_appended := d\<rparr>) s"
  "read_one (0x96, 0x03, appendLe32 d) s = set_out (\<lambda>r. r\<lparr>dr_log_rotations := d\<rparr>) s"
  "read_one (0x97, 0x03, appendLe32 d) s = set_out (\<lambda>r. r\<lparr>dr_log_total_size := d\<rparr>) s"
  "read_one (0xA0, 0x03, appendLe32 d) s = set_out (\<lambda>r. r\<lparr>dr_log_chunk_offset := d\<rparr>) s"
  "read_one (0xA1, 0x03, appendLe32 d) s = set_out (\<lambda>r. r\<lparr>dr_log_total_size := d\<rparr>) s"
  "read_one (0xA2, 0x08, v) s = set_out (\<lambda>r. r\<lparr>dr_log_chunk := v\<rparr>) s"
  by (simp_all add: read_groups)

lemma read_storage_records:
  "read_one (0xB0, 0x01, [x]) s = set_out (\<lambda>r. r\<lparr>dr_storage_info := (dr_storage_info r)\<lparr>sn_mode := x\<rparr>\<rparr>) s"
  "read_one (0xB1, 0x06, [x]) s = set_out (\<lambda>r. r\<lparr>dr_storage_info := (dr_storage_info r)\<lparr>sn_available := (x \<noteq> 0)\<rparr>\<rparr>) s"
  "read_one (0xB2, 0x06, [x]) s = set_out (\<lambda>r. r\<lparr>dr_storage_info := (dr_storage_info r)\<lparr>sn_mounted := (x \<noteq> 0)\<rparr>\<rparr>) s"
  "read_one (0xB3, 0x03, appendLe32 d) s = set_out (\<lambda>r. r\<lparr>dr_storage_info := (dr_storage_info r)\<lparr>sn_total_bytes := d\<rparr>\<rparr>) s"
  "read_one (0xB4, 0x03, appendLe32 d) s = set_out (\<lambda>r. r\<lparr>dr_storage_info := (dr_storage_info r)\<lparr>sn_used_bytes := d\<rparr>\<rparr>) s"
  "read_one (0xB5, 0x03, appendLe32 d) s = set_out (\<lambda>r. r\<lparr>dr_storage_info := (dr_storage_info r)\<lparr>sn_free_bytes := d\<rparr>\<rparr>) s"
  "read_one (0xB6, 0x09, v) s = set_out (\<lambda>r. r\<lparr>dr_storage_info := (dr_storage_info r)\<lparr>sn_root_path := string_of_bytes v\<rparr>\<rparr>) s"
  "read_one (0xB7, 0x09, v) s = set_out (\<lambda>r. r\<lparr>dr_storage_info := (dr_storage_info r)\<lparr>sn_cwd := string_of_bytes v\<rparr>\<rparr>) s"
  "read_one (0xB8, 0x09, v) s = set_out (\<lambda>r. r\<lparr>dr_storage_path := string_of_bytes v\<rparr>) s"
  "read_one (0xB9, 0x09, v) s = set_out (\<lambda>r. r\<lparr>dr_storage_parent_path := string_of_bytes v\<rparr>) s"
  "read_one (0xC0, 0x09, v) s = set_out (\<lambda>r. r\<lparr>dr_storage_stat := (dr_storage_stat r)\<lparr>sx_path := string_of_bytes v\<rparr>\<rparr>) s"
  "read_one (0xC1, 0x06, [x]) s = set_out (\<lambda>r. r\<lparr>dr_storage_stat := (dr_storage_stat r)\<lparr>sx_exists := (x \<noteq> 0)\<rparr>\<rparr>) s"
  "read_one (0xC2, 0x06, [x]) s = set_out (\<lambda>r. r\<lparr>dr_storage_stat := (dr_storage_stat r)\<lparr>sx_is_dir := (x \<noteq> 0)\<rparr>\<rparr>) s"
  "read_one (0xC3, 0x03, appendLe32 d) s = set_out (\<lambda>r. r\<lparr>dr_storage_stat := (dr_storage_stat r)\<lparr>sx_size_bytes := d\<rparr>\<rparr>) s"
  by (simp_all add: read_groups)

lemma read_ota_records:
  "read_one (0xD0, 0x01, [x]) s = set_out (\<lambda>r. r\<lparr>dr_ota_status := (dr_ota_status r)\<lparr>oi_transfer_state := x\<rparr>\<rparr>) s"
  "read_one (0xD1, 0x02, appendLe16 w) s = set_out (\<lambda>r. r\<lparr>dr_ota_status := (dr_ota_status r)\<lparr>oi_status_code := w\<rparr>\<rparr>) s"
  "read_one (0xD2, 0x03, appendLe32 d) s = set_out (\<lambda>r. r\<lparr>dr_ota_status := (dr_ota_status r)\<lparr>oi_expected_size := d\<rparr>\<rparr>) s"
  "read_one (0xD3, 0x03, appendLe32 d) s = set_out (\<lambda>r. r\<lparr>dr_ota_status := (dr_ota_status r)\<lparr>oi_received_size := d\<rparr>\<rparr>) s"
  "read_one (0xD4, 0x03, appendLe32 d) s = set_out (\<lambda>r. r\<lparr>dr_ota_status := (dr_ota_status r)\<lparr>oi_expected_crc32 := d\<rparr>\<rparr>) s"
  "read_one (0xD5, 0x03, appendLe32 d) s = set_out (\<lambda>r. r\<lparr>dr_ota_status := (dr_ota_status r)\<lparr>oi_actual_crc32 := d\<rparr>\<rparr>) s"
  "read_one (0xD6, 0x09, v) s = set_out (\<lambda>r. r\<lparr>dr_ota_status := (dr_ota_status r)\<lparr>oi_temp_path := string_of_bytes v\<rparr>\<rparr>) s"
  "read_one (0xD7, 0x09, v) s = set_out (\<lambda>r. r\<lparr>dr_ota_status := (dr_ota_status r)\<lparr>oi_image_path := string_of_bytes v\<rparr>\<rparr>) s"
  "read_one (0xD8, 0x09, v) s = set_out (\<lambda>r. r\<lparr>dr_ota_status := (dr_ota_status r)\<lparr>oi_persistent_state := string_of_bytes v\<rparr>\<rparr>) s"
  "read_one (0xD9, 0x03, appendLe32 d) s = set_out (\<lambda>r. r\<lparr>dr_ota_status := (dr_ota_status r)\<lparr>oi_persistent_epoch_s := d\<rparr>\<rparr>) s"
  "read_one (0xDA, 0x09, v) s = set_out (\<lambda>r. r\<lparr>dr_ota_status := (dr_ota_status r)\<lparr>oi_confirmed_sw_version := string_of_bytes v\<rparr>\<rparr>) s"
  "read_one (0xDB, 0x09, v) s = set_out (\<lambda>r. r\<lparr>dr_ota_status := (dr_ota_status r)\<lparr>oi_confirmed_build_id := string_of_bytes v\<rparr>\<rparr>) s"
  "read_one (0xF0, 0x03, appendLe32 d) s = set_out (\<lambda>r. r\<lparr>dr_ota_capacity := (dr_ota_capacity r)\<lparr>oc_max_fw_bytes := d\<rparr>\<rparr>) s"
  "read_one (0xF1, 0x03, appendLe32 d) s = set_out (\<lambda>r. r\<lparr>dr_ota_capacity := (dr_ota_capacity r)\<lparr>oc_last_checked_image_bytes := d\<rparr>\<rparr>) s"
  "read_one (0xF2, 0x06, [x]) s = set_out (\<lambda>r. r\<lparr>dr_ota_capacity := (dr_ota_capacity r)\<lparr>oc_last_fit := (x \<noteq> 0)\<rparr>\<rparr>) s"
  "read_one (0xF3, 0x01, [x]) s = set_out (\<lambda>r. r\<lparr>dr_ota_gate := (dr_ota_gate r)\<lparr>og_decision := x\<rparr>\<rparr>) s"
  "read_one (0xF4, 0x09, v) s = set_out (\<lambda>r. r\<lparr>dr_ota_gate := (dr_ota_gate r)\<lparr>og_detail := string_of_bytes v\<rparr>\<rparr>) s"
  by (simp_all add: read_groups)

lemmas read_records = read_head_records read_plain_records read_log_records read_storage_records read_ota_records

end
