(* ===== verification/ResponseBodies.thy ===== *)
theory ResponseBodies
  imports ResponseLaws
begin

text \<open>
  What arrives of a response: for every type the fields that its encoding transports, of a list the
  items that had room, and of a page the cursor behind the last item that was sent.
\<close>

section \<open>Items\<close>

definition capability_records :: "CapabilityDescriptor \<Rightarrow> (u8 \<times> u8 \<times> bytes) list" where
  "capability_records c = [(0x30, 0x09, string_bytes (ca_key c)), (0x31, 0x09, string_bytes (ca_description c))]"

definition sample_records :: "TelemetrySample \<Rightarrow> (u8 \<times> u8 \<times> bytes) list" where
  "sample_records t = [(0x4F, 0x02, appendLe16 (sa_metric_id t)), (0x50, 0x09, string_bytes (sa_key t)),
     (0x51, 0x09, string_bytes (sa_value t)), (0x52, 0x09, string_bytes (sa_unit t))]"

definition setting_records :: "SettingDescriptor \<Rightarrow> (u8 \<times> u8 \<times> bytes) list" where
  "setting_records s = [(0x7F, 0x02, appendLe16 (sd_id s)), (0x80, 0x09, string_bytes (sd_key s)),
     (0x81, 0x01, [sd_value_type s]), (0x82, 0x06, [if sd_writable s then 1 else 0]),
     (0x83, 0x09, string_bytes (sd_nvs_key s)), (0x84, 0x09, string_bytes (sd_current s)),
     (0x85, 0x09, string_bytes (sd_default s)), (0x86, 0x09, string_bytes (sd_description s))]"

definition entry_records :: "StorageEntry \<Rightarrow> (u8 \<times> u8 \<times> bytes) list" where
  "entry_records e = [(0xBA, 0x09, string_bytes (se_name e)), (0xBB, 0x06, [if se_is_dir e then 1 else 0]),
     (0xBC, 0x03, appendLe32 (se_size_bytes e))]"

definition manifest_records :: "OtaManifestEntry \<Rightarrow> (u8 \<times> u8 \<times> bytes) list" where
  "manifest_records i = [(0xE0, 0x03, appendLe32 (mf_file_id i)), (0xE1, 0x09, string_bytes (mf_file_name i)),
     (0xE2, 0x03, appendLe32 (mf_size_bytes i)), (0xE3, 0x03, appendLe32 (mf_crc32 i)),
     (0xE4, 0x09, string_bytes (mf_version i)), (0xE5, 0x09, string_bytes (mf_build_id i)),
     (0xE6, 0x03, appendLe32 (mf_created_epoch_s i)), (0xE7, 0x09, string_bytes (mf_state i)),
     (0xE8, 0x03, appendLe32 (mf_required_app_bytes i))]"

lemma items_write:
  "\<exists>fs. put_capability c = whole fs \<and> list_all2 puts_out fs (map (\<lambda>r. [r]) (capability_records c))"
  "\<exists>fs. put_sample t = whole fs \<and> list_all2 puts_out fs (map (\<lambda>r. [r]) (sample_records t))"
  "\<exists>fs. put_setting s = whole fs \<and> list_all2 puts_out fs (map (\<lambda>r. [r]) (setting_records s))"
  "\<exists>fs. put_entry e = whole fs \<and> list_all2 puts_out fs (map (\<lambda>r. [r]) (entry_records e))"
  "\<exists>fs. put_manifest i = whole fs \<and> list_all2 puts_out fs (map (\<lambda>r. [r]) (manifest_records i))"
  unfolding put_capability_def put_sample_def put_setting_def put_entry_def put_manifest_def
    capability_records_def sample_records_def setting_records_def entry_records_def manifest_records_def
  by ((rule exI, rule conjI, rule refl), simp only: list.map list_all2_Cons list_all2_Nil puts_out_steps simp_thms)+

abbreviation items :: "('a \<Rightarrow> (u8 \<times> u8 \<times> bytes) list) \<Rightarrow> 'a list \<Rightarrow> (u8 \<times> u8 \<times> bytes) list" where
  "items recs xs \<equiv> concat (map recs xs)"

lemma read_item_records:
  "read_one (0x30, 0x09, v) s = (let s = flush_cap s in s\<lparr>rs_cap := (rs_cap s)\<lparr>ca_key := string_of_bytes v\<rparr>, rs_have_cap_key := True\<rparr>)"
  "read_one (0x31, 0x09, v) s = (let s = s\<lparr>rs_cap := (rs_cap s)\<lparr>ca_description := string_of_bytes v\<rparr>\<rparr> in
     if rs_have_cap_key s then flush_cap s else s)"
  "read_one (0x4F, 0x02, appendLe16 w) s = s\<lparr>rs_sample := (rs_sample s)\<lparr>sa_metric_id := w\<rparr>\<rparr>"
  "read_one (0x50, 0x09, v) s = (let s = flush_sample s in s\<lparr>rs_sample := (rs_sample s)\<lparr>sa_key := string_of_bytes v\<rparr>, rs_sample_stage := 1\<rparr>)"
  "read_one (0x51, 0x09, v) s = s\<lparr>rs_sample := (rs_sample s)\<lparr>sa_value := string_of_bytes v\<rparr>,
     rs_sample_stage := max 2 (rs_sample_stage s)\<rparr>"
  "read_one (0x52, 0x09, v) s = flush_sample (s\<lparr>rs_sample := (rs_sample s)\<lparr>sa_unit := string_of_bytes v\<rparr>\<rparr>)"
  "read_one (0xBA, 0x09, v) s = (let s = flush_entry s in s\<lparr>rs_entry := (rs_entry s)\<lparr>se_name := string_of_bytes v\<rparr>, rs_entry_stage := 1\<rparr>)"
  "read_one (0xBB, 0x06, [x]) s = s\<lparr>rs_entry := (rs_entry s)\<lparr>se_is_dir := (x \<noteq> 0)\<rparr>, rs_entry_stage := max 2 (rs_entry_stage s)\<rparr>"
  "read_one (0xBC, 0x03, appendLe32 d) s = s\<lparr>rs_entry := (rs_entry s)\<lparr>se_size_bytes := d\<rparr>, rs_entry_stage := max 3 (rs_entry_stage s)\<rparr>"
  by (simp_all add: read_groups max_def Let_def)

lemma read_setting_records:
  "read_one (0x7F, 0x02, appendLe16 w) s = s\<lparr>rs_setting := (rs_setting s)\<lparr>sd_id := w\<rparr>\<rparr>"
  "read_one (0x80, 0x09, v) s = (let s = flush_setting s in s\<lparr>rs_setting := (rs_setting s)\<lparr>sd_key := string_of_bytes v\<rparr>, rs_setting_stage := 1\<rparr>)"
  "read_one (0x81, 0x01, [x]) s = s\<lparr>rs_setting := (rs_setting s)\<lparr>sd_value_type := x\<rparr>, rs_setting_stage := max 2 (rs_setting_stage s)\<rparr>"
  "read_one (0x82, 0x06, [x]) s = s\<lparr>rs_setting := (rs_setting s)\<lparr>sd_writable := (x = 1)\<rparr>, rs_setting_stage := max 3 (rs_setting_stage s)\<rparr>"
  "read_one (0x83, 0x09, v) s = s\<lparr>rs_setting := (rs_setting s)\<lparr>sd_nvs_key := string_of_bytes v\<rparr>, rs_setting_stage := max 4 (rs_setting_stage s)\<rparr>"
  "read_one (0x84, 0x09, v) s = s\<lparr>rs_setting := (rs_setting s)\<lparr>sd_current := string_of_bytes v\<rparr>, rs_setting_stage := max 5 (rs_setting_stage s)\<rparr>"
  "read_one (0x85, 0x09, v) s = s\<lparr>rs_setting := (rs_setting s)\<lparr>sd_default := string_of_bytes v\<rparr>, rs_setting_stage := max 6 (rs_setting_stage s)\<rparr>"
  "read_one (0x86, 0x09, v) s = flush_setting (s\<lparr>rs_setting := (rs_setting s)\<lparr>sd_description := string_of_bytes v\<rparr>\<rparr>)"
  by (simp_all add: read_groups max_def Let_def)

lemma read_manifest_records:
  "read_one (0xE0, 0x03, appendLe32 d) s = s\<lparr>rs_manifest := (rs_manifest s)\<lparr>mf_file_id := d\<rparr>\<rparr>"
  "read_one (0xE1, 0x09, v) s = (let s = flush_manifest s in s\<lparr>rs_manifest := (rs_manifest s)\<lparr>mf_file_name := string_of_bytes v\<rparr>, rs_manifest_stage := 1\<rparr>)"
  "read_one (0xE2, 0x03, appendLe32 d) s = s\<lparr>rs_manifest := (rs_manifest s)\<lparr>mf_size_bytes := d\<rparr>, rs_manifest_stage := max 2 (rs_manifest_stage s)\<rparr>"
  "read_one (0xE3, 0x03, appendLe32 d) s = s\<lparr>rs_manifest := (rs_manifest s)\<lparr>mf_crc32 := d\<rparr>, rs_manifest_stage := max 3 (rs_manifest_stage s)\<rparr>"
  "read_one (0xE4, 0x09, v) s = s\<lparr>rs_manifest := (rs_manifest s)\<lparr>mf_version := string_of_bytes v\<rparr>, rs_manifest_stage := max 4 (rs_manifest_stage s)\<rparr>"
  "read_one (0xE5, 0x09, v) s = s\<lparr>rs_manifest := (rs_manifest s)\<lparr>mf_build_id := string_of_bytes v\<rparr>, rs_manifest_stage := max 5 (rs_manifest_stage s)\<rparr>"
  "read_one (0xE6, 0x03, appendLe32 d) s = s\<lparr>rs_manifest := (rs_manifest s)\<lparr>mf_created_epoch_s := d\<rparr>, rs_manifest_stage := max 6 (rs_manifest_stage s)\<rparr>"
  "read_one (0xE7, 0x09, v) s = s\<lparr>rs_manifest := (rs_manifest s)\<lparr>mf_state := string_of_bytes v\<rparr>, rs_manifest_stage := max 7 (rs_manifest_stage s)\<rparr>"
  "read_one (0xE8, 0x03, appendLe32 d) s = s\<lparr>rs_manifest := (rs_manifest s)\<lparr>mf_required_app_bytes := d\<rparr>, rs_manifest_stage := max 8 (rs_manifest_stage s)\<rparr>"
  by (simp_all add: read_groups max_def Let_def)

text \<open>The reader between two items.\<close>

lemma flush_idle [simp]:
  "\<not> rs_have_cap_key s \<Longrightarrow> flush_cap s = s" "rs_telem_stage s = 0 \<Longrightarrow> flush_telem s = s"
  "rs_sample_stage s = 0 \<Longrightarrow> flush_sample s = s" "rs_setting_stage s = 0 \<Longrightarrow> flush_setting s = s"
  "rs_entry_stage s = 0 \<Longrightarrow> flush_entry s = s" "rs_manifest_stage s = 0 \<Longrightarrow> flush_manifest s = s"
  by (simp_all add: flush_cap_def flush_telem_def flush_sample_def flush_setting_def flush_entry_def flush_manifest_def)

definition at :: "DescriptorResponse \<Rightarrow> reading" where
  "at r = new_reading\<lparr>rs_out := r\<rparr>"

lemma at_simps [simp]: "set_out f (at r) = at (f r)" "rs_out (at r) = r" "flush_all (at r) = at r"
  by (simp_all add: at_def set_out_def new_reading_def flush_all_def)

lemma at_stages [simp]:
  "\<not> rs_have_cap_key (at r)" "rs_telem_stage (at r) = 0" "rs_sample_stage (at r) = 0" "rs_setting_stage (at r) = 0"
  "rs_entry_stage (at r) = 0" "rs_manifest_stage (at r) = 0"
  "rs_entry (at r) = new_storage_entry" "rs_manifest (at r) = new_manifest_entry"
  by (simp_all add: at_def new_reading_def)

lemma at_start: "new_reading = at no_response"
  by (simp add: at_def new_reading_def)

declare read_one.simps [simp del]

lemma read_capability_item: "fold read_one (capability_records c) (at r) = at (r\<lparr>dr_capabilities := dr_capabilities r @ [c]\<rparr>)"
  by (simp add: capability_records_def read_item_records read_setting_records at_def new_reading_def flush_cap_def set_out_def new_capability_def Let_def)

lemma read_sample_item: "fold read_one (sample_records t) (at r) = at (r\<lparr>dr_samples := dr_samples r @ [t]\<rparr>)"
  by (simp add: sample_records_def read_item_records read_setting_records at_def new_reading_def flush_sample_def set_out_def new_sample_def Let_def)

lemma read_setting_item: "fold read_one (setting_records s) (at r) = at (r\<lparr>dr_settings := dr_settings r @ [s]\<rparr>)"
  by (simp add: setting_records_def read_item_records read_setting_records at_def new_reading_def flush_setting_def set_out_def new_setting_def Let_def)

lemma read_items:
  "fold read_one (items capability_records cs) (at r) = at (r\<lparr>dr_capabilities := dr_capabilities r @ cs\<rparr>)"
  "fold read_one (items sample_records ts) (at r) = at (r\<lparr>dr_samples := dr_samples r @ ts\<rparr>)"
  "fold read_one (items setting_records ss) (at r) = at (r\<lparr>dr_settings := dr_settings r @ ss\<rparr>)"
  by (induction cs arbitrary: r, simp_all add: read_capability_item)
     (induction ts arbitrary: r, simp_all add: read_sample_item,
      induction ss arbitrary: r, simp_all add: read_setting_item)

text \<open>Directory entries: the last one is appended by the next one or at the end.\<close>

definition in_entries :: "DescriptorResponse \<Rightarrow> StorageEntry list \<Rightarrow> reading" where
  "in_entries r es =
     (if es = [] then at r
      else (at (r\<lparr>dr_storage_entries := dr_storage_entries r @ butlast es\<rparr>))\<lparr>rs_entry := last es, rs_entry_stage := 3\<rparr>)"

lemma read_entry:
  "rs_entry (flush_entry s) = new_storage_entry \<Longrightarrow>
   fold read_one (entry_records e) s = (flush_entry s)\<lparr>rs_entry := e, rs_entry_stage := 3\<rparr>"
  by (simp add: entry_records_def read_item_records new_storage_entry_def Let_def)

lemma flush_pending_entry:
  "flush_entry ((at r)\<lparr>rs_entry := e, rs_entry_stage := Suc n\<rparr>) = at (r\<lparr>dr_storage_entries := dr_storage_entries r @ [e]\<rparr>)"
  by (simp add: flush_entry_def at_def new_reading_def set_out_def)

lemma flush_in_entries: "flush_entry (in_entries r es) = at (r\<lparr>dr_storage_entries := dr_storage_entries r @ es\<rparr>)"
  by (simp add: in_entries_def flush_pending_entry numeral_3_eq_3)

lemma read_entries: "fold read_one (items entry_records es) (at r) = in_entries r es"
proof (induction es rule: rev_induct)
  case (snoc e es)
  then show ?case by (simp add: read_entry flush_in_entries) (simp add: in_entries_def)
qed (simp add: in_entries_def)

lemma flush_entries: "flush_all (in_entries r es) = at (r\<lparr>dr_storage_entries := dr_storage_entries r @ es\<rparr>)"
  using flush_in_entries [of r es] by (simp add: flush_all_def in_entries_def)

text \<open>Manifest entries: the number of the next file replaces that of the last.\<close>

fun shifted :: "OtaManifestEntry list \<Rightarrow> OtaManifestEntry list" where
  "shifted [] = []"
| "shifted [x] = [x\<lparr>mf_file_id := 0\<rparr>]"
| "shifted (x # y # xs) = x\<lparr>mf_file_id := mf_file_id y\<rparr> # shifted (y # xs)"

lemma shifted_snoc: "shifted (xs @ [y, x]) = butlast (shifted (xs @ [y])) @ [y\<lparr>mf_file_id := mf_file_id x\<rparr>, x\<lparr>mf_file_id := 0\<rparr>]"
proof (induction xs rule: shifted.induct)
  case (3 a b xs)
  then show ?case by (cases xs) simp_all
qed simp_all

lemma shifted_ne [simp]: "shifted (x # xs) \<noteq> []"
  by (cases xs) simp_all

lemma length_shifted [simp]: "length (shifted xs) = length xs"
  by (induction xs rule: shifted.induct) simp_all

lemma last_shifted: "last (shifted (xs @ [x])) = x\<lparr>mf_file_id := 0\<rparr>"
proof (induction xs rule: shifted.induct)
  case (3 a b xs)
  then show ?case by (cases xs) simp_all
qed simp_all

text \<open>What arrives of a manifest: a single entry as it is.\<close>

definition arrived :: "OtaManifestEntry list \<Rightarrow> OtaManifestEntry list" where
  "arrived xs = (if length xs = 1 then xs else shifted xs)"

definition in_manifest :: "DescriptorResponse \<Rightarrow> OtaManifestEntry list \<Rightarrow> reading" where
  "in_manifest r xs =
     (if xs = [] then at r
      else (at (r\<lparr>dr_ota_manifest := dr_ota_manifest r @ butlast (arrived xs)\<rparr>))
             \<lparr>rs_manifest := last (arrived xs), rs_manifest_stage := 8\<rparr>)"

lemma read_manifest_first:
  "fold read_one (manifest_records x) (at r) = (at r)\<lparr>rs_manifest := x, rs_manifest_stage := 8\<rparr>"
  by (simp add: manifest_records_def read_manifest_records new_manifest_entry_def Let_def)

lemma flush_pending_manifest:
  "flush_manifest ((at r)\<lparr>rs_manifest := m, rs_manifest_stage := Suc n\<rparr>) = at (r\<lparr>dr_ota_manifest := dr_ota_manifest r @ [m]\<rparr>)"
  by (simp add: flush_manifest_def at_def new_reading_def set_out_def)

lemma read_manifest_next:
  "fold read_one (manifest_records x) ((at r)\<lparr>rs_manifest := m, rs_manifest_stage := 8\<rparr>)
   = (at (r\<lparr>dr_ota_manifest := dr_ota_manifest r @ [m\<lparr>mf_file_id := mf_file_id x\<rparr>]\<rparr>))
       \<lparr>rs_manifest := x\<lparr>mf_file_id := 0\<rparr>, rs_manifest_stage := 8\<rparr>"
  by (simp add: manifest_records_def read_manifest_records new_manifest_entry_def Let_def flush_manifest_def
      at_def new_reading_def set_out_def numeral_eq_Suc)

lemma read_manifests: "fold read_one (items manifest_records xs) (at r) = in_manifest r xs"
proof (induction xs rule: rev_induct)
  case (snoc x xs)
  show ?case
  proof (cases xs rule: rev_cases)
    case Nil
    then show ?thesis by (simp add: in_manifest_def arrived_def read_manifest_first)
  next
    case (snoc ys y)
    have two: "arrived (ys @ [y, x]) = butlast (arrived xs) @ [y\<lparr>mf_file_id := mf_file_id x\<rparr>, x\<lparr>mf_file_id := 0\<rparr>]"
      using shifted_snoc [of ys y x] by (cases ys) (simp_all add: arrived_def snoc)
    have "(last (arrived xs))\<lparr>mf_file_id := mf_file_id x\<rparr> = y\<lparr>mf_file_id := mf_file_id x\<rparr>"
      by (simp add: arrived_def snoc last_shifted)
    then have "fold read_one (manifest_records x) (in_manifest r xs) = in_manifest r (xs @ [x])"
      using two by (simp add: in_manifest_def snoc read_manifest_next butlast_append)
    with \<open>fold read_one (items manifest_records xs) (at r) = in_manifest r xs\<close> show ?thesis by simp
  qed
qed (simp add: in_manifest_def)

lemma arrived_empty [simp]: "arrived [] = []" "arrived xs = [] \<longleftrightarrow> xs = []"
  by (cases xs; auto simp: arrived_def)+

lemma flush_manifests: "flush_all (in_manifest r xs) = at (r\<lparr>dr_ota_manifest := dr_ota_manifest r @ arrived xs\<rparr>)"
  using flush_pending_manifest [where r = "r\<lparr>dr_ota_manifest := dr_ota_manifest r @ butlast (arrived xs)\<rparr>"
      and m = "last (arrived xs)" and n = 7]
  by (simp add: flush_all_def in_manifest_def)

section \<open>Bodies\<close>

text \<open>Changes that do not touch the lists the reader appends to.\<close>

definition framed :: "(DescriptorResponse \<Rightarrow> DescriptorResponse) \<Rightarrow> bool" where
  "framed f \<longleftrightarrow> (\<forall>r l. f (r\<lparr>dr_capabilities := l\<rparr>) = (f r)\<lparr>dr_capabilities := l\<rparr>
     \<and> dr_capabilities (f r) = dr_capabilities r) \<and> (\<forall>r l. f (r\<lparr>dr_telemetry := l\<rparr>) = (f r)\<lparr>dr_telemetry := l\<rparr>
     \<and> dr_telemetry (f r) = dr_telemetry r) \<and> (\<forall>r l. f (r\<lparr>dr_samples := l\<rparr>) = (f r)\<lparr>dr_samples := l\<rparr>
     \<and> dr_samples (f r) = dr_samples r) \<and> (\<forall>r l. f (r\<lparr>dr_settings := l\<rparr>) = (f r)\<lparr>dr_settings := l\<rparr>
     \<and> dr_settings (f r) = dr_settings r) \<and> (\<forall>r l. f (r\<lparr>dr_storage_entries := l\<rparr>) = (f r)\<lparr>dr_storage_entries := l\<rparr>
     \<and> dr_storage_entries (f r) = dr_storage_entries r) \<and> (\<forall>r l. f (r\<lparr>dr_ota_manifest := l\<rparr>) = (f r)\<lparr>dr_ota_manifest := l\<rparr>
     \<and> dr_ota_manifest (f r) = dr_ota_manifest r)"

lemma flush_framed: "framed f \<Longrightarrow> flush_all (set_out f s) = set_out f (flush_all s)"
proof -
  assume f: "framed f"
  have c: "flush_cap (set_out f s) = set_out f (flush_cap s)" for s
    using f by (simp add: framed_def flush_cap_def set_out_def)
  have t: "flush_telem (set_out f s) = set_out f (flush_telem s)" for s
    using f by (simp add: framed_def flush_telem_def set_out_def)
  have x: "flush_sample (set_out f s) = set_out f (flush_sample s)" for s
    using f by (simp add: framed_def flush_sample_def set_out_def)
  have y: "flush_setting (set_out f s) = set_out f (flush_setting s)" for s
    using f by (simp add: framed_def flush_setting_def set_out_def)
  have e: "flush_entry (set_out f s) = set_out f (flush_entry s)" for s
    using f by (simp add: framed_def flush_entry_def set_out_def)
  have m: "flush_manifest (set_out f s) = set_out f (flush_manifest s)" for s
    using f by (simp add: framed_def flush_manifest_def set_out_def)
  show ?thesis by (simp add: flush_all_def c t x y e m)
qed

text \<open>The items of a response that its encoding goes through: their number, and what a prefix conveys.\<close>

definition item_count :: "DescriptorResponse \<Rightarrow> nat" where
  "item_count r = (let ty = dr_type r in
     if ty = rCapabilities then length (dr_capabilities r)
     else if ty = rTelemetrySnapshot then length (dr_samples r)
     else if ty = rNodeBundle then (if bundle_mask_of r AND kNodeBundleMaskSettings \<noteq> 0 then length (dr_settings r) else 0)
     else if ty = rSettings then length (dr_settings r)
     else if ty = rLogChunk then length (dr_log_chunk r)
     else if ty = rStorageList then length (dr_storage_entries r)
     else if ty = rOtaManifest then length (dr_ota_manifest r)
     else 0)"

definition low_time :: "TimeStatus \<Rightarrow> TimeStatus" where
  "low_time t = t\<lparr>ti_epoch_s := ucast (ucast (ti_epoch_s t) :: u32)\<rparr>"

text \<open>\<open>k\<close> is the number of samples in a bundle.\<close>

definition carried_bundle :: "DescriptorResponse \<Rightarrow> nat \<Rightarrow> nat \<Rightarrow> DescriptorResponse \<Rightarrow> DescriptorResponse" where
  "carried_bundle r n k d = (let m = bundle_mask_of r; on = (\<lambda>b f d. if m AND b \<noteq> 0 then f d else d) in
     on kNodeBundleMaskSettings (\<lambda>d. d\<lparr>dr_settings := take n (dr_settings r)\<rparr>)
     (on kNodeBundleMaskTelemetry (\<lambda>d. d\<lparr>dr_samples := take k (dr_samples r)\<rparr>)
     (on kNodeBundleMaskTime (\<lambda>d. d\<lparr>dr_time := low_time (dr_time r)\<rparr>)
     (on kNodeBundleMaskLiveness (\<lambda>d. d\<lparr>dr_liveness := dr_liveness r\<rparr>)
     (on kNodeBundleMaskDevice (\<lambda>d. d\<lparr>dr_device := dr_device r\<rparr>) d)))))"

definition carried_body :: "DescriptorResponse \<Rightarrow> nat \<Rightarrow> nat \<Rightarrow> DescriptorResponse \<Rightarrow> DescriptorResponse" where
  "carried_body r n k d = (let ty = dr_type r in
     if ty = rDevice then d\<lparr>dr_device := dr_device r\<rparr>
     else if ty = rCapabilities then d\<lparr>dr_capabilities := take n (dr_capabilities r)\<rparr>
     else if ty = rTelemetrySnapshot then d\<lparr>dr_samples := take n (dr_samples r)\<rparr>
     else if ty = rLiveness then d\<lparr>dr_liveness := dr_liveness r\<rparr>
     else if ty = rTime then d\<lparr>dr_time := low_time (dr_time r)\<rparr>
     else if ty = rNodeBundle then carried_bundle r n k d
     else if ty = rSettings then d\<lparr>dr_settings := take n (dr_settings r)\<rparr>
     else if ty = rSetting then d\<lparr>dr_settings := [dr_setting r]\<rparr>
     else if ty = rLogStatus then d\<lparr>dr_logger_available := dr_logger_available r, dr_logger_enabled := dr_logger_enabled r,
       dr_logger_min_level := dr_logger_min_level r, dr_log_bytes_used := dr_log_bytes_used r,
       dr_log_bytes_dropped := dr_log_bytes_dropped r, dr_log_records_appended := dr_log_records_appended r,
       dr_log_rotations := dr_log_rotations r, dr_log_total_size := dr_log_total_size r\<rparr>
     else if ty = rLogChunk then d\<lparr>dr_log_chunk_offset := dr_log_chunk_offset r, dr_log_total_size := dr_log_total_size r,
       dr_log_chunk := take n (dr_log_chunk r)\<rparr>
     else if ty = rStorageInfo then d\<lparr>dr_storage_info := dr_storage_info r\<rparr>
     else if ty = rStorageList then d\<lparr>dr_storage_path := dr_storage_path r,
       dr_storage_parent_path := dr_storage_parent_path r, dr_storage_entries := take n (dr_storage_entries r)\<rparr>
     else if ty = rStorageStat then d\<lparr>dr_storage_stat := (let x = dr_storage_stat r in
       if sx_path x = [] then x\<lparr>sx_path := dr_storage_path r\<rparr> else x)\<rparr>
     else if ty = rOtaStatus then d\<lparr>dr_ota_status := dr_ota_status r\<rparr>
     else if ty = rOtaManifest then d\<lparr>dr_ota_manifest := arrived (take n (dr_ota_manifest r))\<rparr>
     else if ty = rOtaCapacity then d\<lparr>dr_ota_capacity := dr_ota_capacity r\<rparr>
     else if ty = rOtaGateInfo then d\<lparr>dr_ota_gate := dr_ota_gate r\<rparr>
     else d)"

text \<open>A response without lists yet, and what a body does to it.\<close>

definition fresh_lists :: "DescriptorResponse \<Rightarrow> bool" where
  "fresh_lists d \<longleftrightarrow> dr_capabilities d = [] \<and> dr_samples d = [] \<and> dr_settings d = []
     \<and> dr_storage_entries d = [] \<and> dr_ota_manifest d = []"

definition body_reads :: "DescriptorResponse \<Rightarrow> (u8 \<times> u8 \<times> bytes) list \<Rightarrow> nat \<Rightarrow> nat \<Rightarrow> bool" where
  "body_reads r rs n k \<longleftrightarrow> (\<forall>d. fresh_lists d \<longrightarrow> flush_all (fold read_one rs (at d)) = at (carried_body r n k d))"

definition device_records :: "DeviceDescriptor \<Rightarrow> (u8 \<times> u8 \<times> bytes) list" where
  "device_records d =
     [(0x20, 0x09, string_bytes (de_type d)), (0x21, 0x09, string_bytes (de_id d)),
      (0x22, 0x09, string_bytes (de_name d)), (0x23, 0x09, string_bytes (de_hw d)),
      (0x24, 0x09, string_bytes (de_sw d)), (0x25, 0x09, string_bytes (de_build d))]"

definition liveness_records :: "LivenessStatus \<Rightarrow> (u8 \<times> u8 \<times> bytes) list" where
  "liveness_records l =
     [(0x60, 0x06, [if li_online l then 1 else 0]), (0x61, 0x03, appendLe32 (li_uptime_ms l)),
      (0x62, 0x09, string_bytes (li_state l))]"

definition time_records :: "TimeStatus \<Rightarrow> (u8 \<times> u8 \<times> bytes) list" where
  "time_records t =
     [(0x70, 0x03, appendLe32 (ucast (ti_epoch_s t AND 0xFFFFFFFF))),
      (0x71, 0x03, appendLe32 (ti_uptime_ms t))]"

definition log_status_records :: "DescriptorResponse \<Rightarrow> (u8 \<times> u8 \<times> bytes) list" where
  "log_status_records r =
     [(0x90, 0x06, [if dr_logger_available r then 1 else 0]),
      (0x91, 0x06, [if dr_logger_enabled r then 1 else 0]), (0x92, 0x01, [dr_logger_min_level r]),
      (0x93, 0x03, appendLe32 (dr_log_bytes_used r)), (0x94, 0x03, appendLe32 (dr_log_bytes_dropped r)),
      (0x95, 0x03, appendLe32 (dr_log_records_appended r)), (0x96, 0x03, appendLe32 (dr_log_rotations r)),
      (0x97, 0x03, appendLe32 (dr_log_total_size r))]"

definition storage_info_records :: "StorageInfo \<Rightarrow> (u8 \<times> u8 \<times> bytes) list" where
  "storage_info_records s =
     [(0xB0, 0x01, [sn_mode s]), (0xB1, 0x06, [if sn_available s then 1 else 0]),
      (0xB2, 0x06, [if sn_mounted s then 1 else 0]), (0xB3, 0x03, appendLe32 (sn_total_bytes s)),
      (0xB4, 0x03, appendLe32 (sn_used_bytes s)), (0xB5, 0x03, appendLe32 (sn_free_bytes s)),
      (0xB6, 0x09, string_bytes (sn_root_path s)), (0xB7, 0x09, string_bytes (sn_cwd s))]"

definition storage_stat_records :: "DescriptorResponse \<Rightarrow> (u8 \<times> u8 \<times> bytes) list" where
  "storage_stat_records r =
     (let s = dr_storage_stat r in
     [(0xC0, 0x09, string_bytes (if sx_path s = [] then dr_storage_path r else sx_path s)),
      (0xC1, 0x06, [if sx_exists s then 1 else 0]), (0xC2, 0x06, [if sx_is_dir s then 1 else 0]),
      (0xC3, 0x03, appendLe32 (sx_size_bytes s))])"

definition ota_status_records :: "OtaStatusInfo \<Rightarrow> (u8 \<times> u8 \<times> bytes) list" where
  "ota_status_records s =
     [(0xD0, 0x01, [oi_transfer_state s]), (0xD1, 0x02, appendLe16 (oi_status_code s)),
      (0xD2, 0x03, appendLe32 (oi_expected_size s)), (0xD3, 0x03, appendLe32 (oi_received_size s)),
      (0xD4, 0x03, appendLe32 (oi_expected_crc32 s)), (0xD5, 0x03, appendLe32 (oi_actual_crc32 s)),
      (0xD6, 0x09, string_bytes (oi_temp_path s)), (0xD7, 0x09, string_bytes (oi_image_path s)),
      (0xD8, 0x09, string_bytes (oi_persistent_state s)), (0xD9, 0x03, appendLe32 (oi_persistent_epoch_s s)),
      (0xDA, 0x09, string_bytes (oi_confirmed_sw_version s)),
      (0xDB, 0x09, string_bytes (oi_confirmed_build_id s))]"

definition ota_capacity_records :: "OtaCapacityInfo \<Rightarrow> (u8 \<times> u8 \<times> bytes) list" where
  "ota_capacity_records c =
     [(0xF0, 0x03, appendLe32 (oc_max_fw_bytes c)), (0xF1, 0x03, appendLe32 (oc_last_checked_image_bytes c)),
      (0xF2, 0x06, [if oc_last_fit c then 1 else 0])]"

definition ota_gate_records :: "OtaGateInfo \<Rightarrow> (u8 \<times> u8 \<times> bytes) list" where
  "ota_gate_records g =
     [(0xF3, 0x01, [og_decision g]), (0xF4, 0x09, string_bytes (og_detail g))]"

lemma plain_puts:
  "list_all2 puts_out (device_puts rsv d) (map (\<lambda>r. [r]) (device_records d))"
  "list_all2 puts_out (liveness_puts rsv l) (map (\<lambda>r. [r]) (liveness_records l))"
  "list_all2 puts_out (time_puts rsv t) (map (\<lambda>r. [r]) (time_records t))"
  "list_all2 puts_out (one_setting_puts rsv x) (map (\<lambda>r. [r]) (setting_records x))"
  "list_all2 puts_out (log_status_puts rsv r) (map (\<lambda>r. [r]) (log_status_records r))"
  "list_all2 puts_out (storage_info_puts rsv i) (map (\<lambda>r. [r]) (storage_info_records i))"
  "list_all2 puts_out (storage_stat_puts rsv r) (map (\<lambda>r. [r]) (storage_stat_records r))"
  "list_all2 puts_out (ota_status_puts rsv s) (map (\<lambda>r. [r]) (ota_status_records s))"
  "list_all2 puts_out (ota_capacity_puts rsv c) (map (\<lambda>r. [r]) (ota_capacity_records c))"
  "list_all2 puts_out (ota_gate_puts rsv g) (map (\<lambda>r. [r]) (ota_gate_records g))"
  unfolding device_puts_def device_records_def liveness_puts_def liveness_records_def time_puts_def time_records_def
    one_setting_puts_def setting_records_def log_status_puts_def log_status_records_def storage_info_puts_def
    storage_info_records_def storage_stat_puts_def storage_stat_records_def ota_status_puts_def ota_status_records_def
    ota_capacity_puts_def ota_capacity_records_def ota_gate_puts_def ota_gate_records_def Let_def
  by (simp_all only: list.map list_all2_Cons list_all2_Nil puts_out_steps simp_thms)

lemma low_word: "(ucast (ucast (w AND 0xFFFFFFFF :: u64) :: u32) :: u64) = ucast (ucast w :: u32)"
  by (simp add: and_low_u32)

lemma read_plain:
  "fold read_one (device_records d) (at r) = at (r\<lparr>dr_device := d\<rparr>)"
  "fold read_one (liveness_records l) (at r) = at (r\<lparr>dr_liveness := l\<rparr>)"
  "fold read_one (time_records t) (at r) = at (r\<lparr>dr_time := low_time t\<rparr>)"
  "fold read_one (storage_info_records i) (at r) = at (r\<lparr>dr_storage_info := i\<rparr>)"
  "fold read_one (ota_status_records s) (at r) = at (r\<lparr>dr_ota_status := s\<rparr>)"
  "fold read_one (ota_capacity_records c) (at r) = at (r\<lparr>dr_ota_capacity := c\<rparr>)"
  "fold read_one (ota_gate_records g) (at r) = at (r\<lparr>dr_ota_gate := g\<rparr>)"
  subgoal by (cases d; cases "dr_device r"; simp add: device_records_def read_records)
  subgoal by (cases l; cases "dr_liveness r"; simp add: liveness_records_def read_records)
  subgoal by (cases t; cases "dr_time r"; simp add: time_records_def low_time_def and_low_u32 read_records)
  subgoal by (cases i; cases "dr_storage_info r"; simp add: storage_info_records_def read_records)
  subgoal by (cases s; cases "dr_ota_status r"; simp add: ota_status_records_def read_records)
  subgoal by (cases c; cases "dr_ota_capacity r"; simp add: ota_capacity_records_def read_records)
  subgoal by (cases g; cases "dr_ota_gate r"; simp add: ota_gate_records_def read_records)
  done

lemma read_storage_stat:
  "fold read_one (storage_stat_records r) (at d) = at (d\<lparr>dr_storage_stat := (let x = dr_storage_stat r in
     if sx_path x = [] then x\<lparr>sx_path := dr_storage_path r\<rparr> else x)\<rparr>)"
  by (cases "dr_storage_stat r"; cases "dr_storage_stat d"; simp add: storage_stat_records_def read_records Let_def)

lemma read_log_status:
  "fold read_one (log_status_records r) (at d) = at (d\<lparr>dr_logger_available := dr_logger_available r,
     dr_logger_enabled := dr_logger_enabled r, dr_logger_min_level := dr_logger_min_level r,
     dr_log_bytes_used := dr_log_bytes_used r, dr_log_bytes_dropped := dr_log_bytes_dropped r,
     dr_log_records_appended := dr_log_records_appended r, dr_log_rotations := dr_log_rotations r,
     dr_log_total_size := dr_log_total_size r\<rparr>)"
  by (simp add: log_status_records_def read_records)

lemma plain_body:
  assumes "uncounted (whole fs out) = Some (b, lost, m)" "list_all2 puts_out fs (map (\<lambda>r. [r]) rs)"
  shows "\<not> lost \<and> m = 0 \<and> b = out @ records rs \<and> short rs"
  using assms whole_writes [OF _ assms(2)] by (auto simp: uncounted_def)

text \<open>The room an item of a page needs.\<close>

definition item_need :: "DescriptorResponse \<Rightarrow> nat \<Rightarrow> nat" where
  "item_need r i =
     (if dr_type r = rCapabilities then capability_need (dr_capabilities r ! i)
      else if dr_type r = rTelemetrySnapshot then sample_need (dr_samples r ! i)
      else if dr_type r = rOtaManifest then manifest_need (dr_ota_manifest r ! i)
      else setting_need (dr_settings r ! i))"

text \<open>What the body of a response is to its receiver; \<open>m\<close> is the number of items of the page.\<close>

definition left_out :: "DescriptorResponse \<Rightarrow> nat \<Rightarrow> nat \<Rightarrow> bool" where
  "left_out r n k \<longleftrightarrow> n < item_count r \<or> k < length (dr_samples r)"

definition sends_body :: "DescriptorResponse \<Rightarrow> bytes \<Rightarrow> bytes \<Rightarrow> bool \<Rightarrow> nat \<Rightarrow> bool" where
  "sends_body r out b lost m \<longleftrightarrow> (\<exists>rs n k. b = out @ records rs \<and> short rs \<and> body_reads r rs n k
     \<and> n \<le> item_count r \<and> (lost \<longleftrightarrow> left_out r n k)
     \<and> (counted_type (dr_type r) \<longrightarrow> m = n \<and> (n < item_count r \<longrightarrow> lost \<and> \<not> canFit (dr_is_paged r) b (item_need r n))))"

lemmas body_defs = left_out_def put_body_def item_count_def carried_body_def counted_type_def item_need_def response_types Let_def

lemma sends_bodyI:
  assumes "b = out @ records rs \<and> short rs"
    and "\<And>d. fresh_lists d \<Longrightarrow> flush_all (fold read_one rs (at d)) = at (carried_body r n k d)"
    and "n \<le> item_count r" "lost \<longleftrightarrow> left_out r n k"
    and "counted_type (dr_type r) \<Longrightarrow> m = n \<and> (n < item_count r \<longrightarrow> lost \<and> \<not> canFit (dr_is_paged r) b (item_need r n))"
  shows "sends_body r out b lost m"
  unfolding sends_body_def body_reads_def using assms by blast

lemma sends_plain:
  assumes "uncounted (whole fs out) = Some (b, lost, m)" "list_all2 puts_out fs (map (\<lambda>r. [r]) rs)"
    and "\<And>d. fresh_lists d \<Longrightarrow> fold read_one rs (at d) = at (carried_body r 0 (length (dr_samples r)) d)"
    and "item_count r = 0" "\<not> counted_type (dr_type r)"
  shows "sends_body r out b lost m"
  using plain_body [OF assms(1,2)] assms(3-5) by (intro sends_bodyI [where n = 0 and k = "length (dr_samples r)"]) (auto simp: left_out_def)

lemma sends_items:
  assumes "put_items need put (dr_is_paged r) xs out = Some (b, lost, m)"
    and "\<And>x. \<exists>fs. put x = whole fs \<and> list_all2 puts_out fs (map (\<lambda>r. [r]) (recs x))"
    and "\<And>d n. fresh_lists d \<Longrightarrow> flush_all (fold read_one (items recs (take n xs)) (at d)) = at (carried_body r n (length (dr_samples r)) d)"
    and "item_count r = length xs" "\<And>i. item_need r i = need (xs ! i)"
  shows "sends_body r out b lost m"
  using put_items_writes [OF assms(2,1)] assms(3-5)
  by (intro sends_bodyI [where n = m and k = "length (dr_samples r)"]) (auto simp: left_out_def)

lemma sends_log_chunk:
  assumes "uncounted (put_log_chunk rsv r out) = Some (b, lost, m)" "dr_type r = rLogChunk"
  shows "sends_body r out b lost m"
proof -
  obtain o1 where o1: "puts [num32 0xA0 (dr_log_chunk_offset r), num32 0xA1 (dr_log_total_size r)] out = Some o1"
    by (simp add: num32_def)
  define n where "n = min (length (dr_log_chunk r)) (if kMaxPayload > length o1 + 4 then kMaxPayload - length o1 - 4 else 0)"
  have "uncounted (Option.bind (appendTlv o1 0xA2 0x08 (if n = 0 then None else Some (dr_log_chunk r)) (of_nat n))
      (\<lambda>o2. Some (o2, n \<noteq> length (dr_log_chunk r)))) = Some (b, lost, m)"
    using assms(1) unfolding put_log_chunk_def Let_def o1 n_def bind.simps
    by (cases "canFit rsv out (8 + 8)") (simp_all only: uncounted_def if_True if_False not_True_eq_False not_False_eq_True
        option.map option.distinct)
  then have b: "appendTlv o1 0xA2 0x08 (if n = 0 then None else Some (dr_log_chunk r)) (of_nat n) = Some b"
    and lost: "lost \<longleftrightarrow> n \<noteq> length (dr_log_chunk r)"
    unfolding uncounted_def by (cases "appendTlv o1 0xA2 0x08 (if n = 0 then None else Some (dr_log_chunk r)) (of_nat n)"; auto)+
  have n: "n \<le> length (dr_log_chunk r)" "n \<le> 235"
    by (simp_all add: n_def frame_sizes min.coboundedI2)
  have un: "unat (of_nat n :: u16) = n" using n(2) by (simp add: unat_of_nat)
  then have "n \<noteq> 0 \<Longrightarrow> (0 :: u16) < of_nat n" by (simp add: word_less_nat_alt)
  then have b': "b = o1 @ tlv 0xA2 0x08 (take n (dr_log_chunk r))"
    using b un n(1) by (cases "n = 0") (auto simp: appendTlv_def tlv_def Let_def min_absorb2)
  let ?rs = "[(0xA0, 0x03, appendLe32 (dr_log_chunk_offset r)), (0xA1, 0x03, appendLe32 (dr_log_total_size r)),
    (0xA2, 0x08, take n (dr_log_chunk r))]"
  have "b = out @ records ?rs \<and> short ?rs"
    using b' n puts_writes [OF o1, of "[[(0xA0, 0x03, appendLe32 (dr_log_chunk_offset r))], [(0xA1, 0x03, appendLe32 (dr_log_total_size r))]]"]
    by simp
  then show ?thesis
    by (rule sends_bodyI [where n = n and k = "length (dr_samples r)"])
       (use n lost assms(2) in \<open>auto simp: body_defs read_records\<close>)
qed

lemma sends_storage_list:
  assumes "put_storage_list (dr_is_paged r) r out = Some (b, lost, m)" "dr_type r = rStorageList"
  shows "sends_body r out b lost m"
proof -
  from assms(1) obtain o1 n where o1: "puts [tryAppendUtf8 (dr_is_paged r) 0xB8 (dr_storage_path r),
      tryAppendUtf8 (dr_is_paged r) 0xB9 (dr_storage_parent_path r)] out = Some o1"
    and p: "put_items entry_need put_entry (dr_is_paged r) (dr_storage_entries r) o1 = Some (b, lost, n)"
    by (auto simp: put_storage_list_def bind_eq_Some_conv)
  from puts_writes [OF o1, of "[[(0xB8, 0x09, string_bytes (dr_storage_path r))], [(0xB9, 0x09, string_bytes (dr_storage_parent_path r))]]"]
    put_items_writes [OF items_write(4) p]
  show ?thesis
    by (intro sends_bodyI [where n = n and k = "length (dr_samples r)" and rs = "[(0xB8, 0x09, string_bytes (dr_storage_path r)),
        (0xB9, 0x09, string_bytes (dr_storage_parent_path r))] @ items entry_records (take n (dr_storage_entries r))"])
       (use assms(2) in \<open>auto simp: body_defs read_records read_entries flush_entries fresh_lists_def\<close>)
qed

text \<open>A bundle: the parts that the mask names, one after the other.\<close>

lemma puts_plain: "list_all2 puts_out fs (map (\<lambda>r. [r]) rs) \<Longrightarrow> puts_out (puts fs) rs"
  using puts_out_puts [of fs "map (\<lambda>r. [r]) rs"] by simp

definition only :: "bool \<Rightarrow> 'a list \<Rightarrow> 'a list" where "only c xs = (if c then xs else [])"

lemma put_if_items:
  "(if c then put_items need put rsv xs out else Some (out, False, 0)) = put_items need put rsv (only c xs) out"
  by (simp add: only_def)

lemma read_only:
  "(\<And>d. fold read_one rs (at d) = at (f d)) \<Longrightarrow> fold read_one (only c rs) (at d) = at (if c then f d else d)"
  by (simp add: only_def)

lemma only_items: "items recs (take k (only c xs)) = only c (items recs (take k xs))"
  by (simp add: only_def)

lemma keeps_lists:
  "dr_samples (if c then d\<lparr>dr_device := x\<rparr> else d) = dr_samples d" "dr_samples (if c then d\<lparr>dr_liveness := y\<rparr> else d) = dr_samples d"
  "dr_samples (if c then d\<lparr>dr_time := z\<rparr> else d) = dr_samples d"
  "dr_settings (if c then d\<lparr>dr_device := x\<rparr> else d) = dr_settings d" "dr_settings (if c then d\<lparr>dr_liveness := y\<rparr> else d) = dr_settings d"
  "dr_settings (if c then d\<lparr>dr_time := z\<rparr> else d) = dr_settings d" "dr_settings (if c then d\<lparr>dr_samples := l\<rparr> else d) = dr_settings d"
  by simp_all

lemma sends_bundle:
  assumes "put_bundle (dr_is_paged r) r out = Some (b, lost, m)" "dr_type r = rNodeBundle"
  shows "sends_body r out b lost m"
proof -
  let ?p = "dr_is_paged r" and ?on = "\<lambda>x. bundle_mask_of r AND x \<noteq> 0"
  let ?samples = "only (?on kNodeBundleMaskTelemetry) (dr_samples r)" and ?settings = "only (?on kNodeBundleMaskSettings) (dr_settings r)"
  from assms(1) obtain o1 o2 o3 o4 l k b' l' m'
    where p: "block (?on kNodeBundleMaskDevice) (puts (device_puts ?p (dr_device r))) out = Some o1"
      "block (?on kNodeBundleMaskLiveness) (puts (liveness_puts ?p (dr_liveness r))) o1 = Some o2"
      "block (?on kNodeBundleMaskTime) (puts (time_puts ?p (dr_time r))) o2 = Some o3"
      "put_items sample_need put_sample ?p ?samples o3 = Some (o4, l, k)"
      "put_items setting_need put_setting ?p ?settings o4 = Some (b', l', m')" and eq: "b' = b" "(l \<or> l') = lost" "m' = m"
    unfolding put_bundle_def Let_def put_if_items bind_eq_Some_conv split_paired_Ex prod.case option.inject prod.inject
    by (elim exE conjE) (rule that, assumption+)
  note p = p [unfolded eq]
  note ws = puts_outD [OF puts_out_block [OF puts_plain [OF plain_puts(1)]] p(1)]
    puts_outD [OF puts_out_block [OF puts_plain [OF plain_puts(2)]] p(2)]
    puts_outD [OF puts_out_block [OF puts_plain [OF plain_puts(3)]] p(3)]
    put_items_writes [OF items_write(2) p(4)] put_items_writes [OF items_write(3) p(5)]
  let ?rs = "only (?on kNodeBundleMaskDevice) (device_records (dr_device r))
    @ only (?on kNodeBundleMaskLiveness) (liveness_records (dr_liveness r))
    @ only (?on kNodeBundleMaskTime) (time_records (dr_time r))
    @ items sample_records (take k ?samples) @ items setting_records (take m ?settings)"
  have "b = out @ records ?rs \<and> short ?rs" using ws by (simp add: only_def)
  then show ?thesis
  proof (rule sends_bodyI [where n = m and k = "if l then k else max k (length (dr_samples r))"])
    fix d
    assume "fresh_lists d"
    then show "flush_all (fold read_one ?rs (at d)) = at (carried_body r m (if l then k else max k (length (dr_samples r))) d)"
      using ws(4) assms(2)
      apply (simp only: fold_append comp_apply only_items read_only [OF read_plain(1)] read_only [OF read_plain(2)]
          read_only [OF read_plain(3)] read_only [OF read_items(2)] read_only [OF read_items(3)] at_simps)
      apply (simp add: fresh_lists_def keeps_lists body_defs carried_bundle_def only_def del: if_split)
      done
  qed (use ws assms(2) eq(2) in \<open>auto simp: body_defs only_def split: if_splits\<close>)
qed

text \<open>Every type except the telemetry schema.\<close>

lemma sends_type:
  assumes p: "put_body r out = Some (b, lost, m)" and ty: "dr_type r \<noteq> rTelemetry"
  shows "sends_body r out b lost m"
proof -
  note named = put_body_def Let_def response_types
  consider "dr_type r = rDevice" | "dr_type r = rCapabilities" | "dr_type r = rTelemetrySnapshot" | "dr_type r = rLiveness"
    | "dr_type r = rTime" | "dr_type r = rNodeBundle" | "dr_type r = rSettings" | "dr_type r = rSetting"
    | "dr_type r = rLogStatus" | "dr_type r = rLogChunk" | "dr_type r = rStorageInfo" | "dr_type r = rStorageList"
    | "dr_type r = rStorageStat" | "dr_type r = rOtaStatus" | "dr_type r = rOtaManifest" | "dr_type r = rOtaCapacity"
    | "dr_type r = rOtaGateInfo"
    | "dr_type r \<notin> {rDevice, rCapabilities, rTelemetrySnapshot, rLiveness, rTime, rNodeBundle, rSettings, rSetting, rLogStatus,
        rLogChunk, rStorageInfo, rStorageList, rStorageStat, rOtaStatus, rOtaManifest, rOtaCapacity, rOtaGateInfo}"
    by blast
  then show ?thesis
  proof cases
    case 1
    show ?thesis by (rule sends_plain [OF _ plain_puts(1)]) (use p 1 in \<open>simp_all add: body_defs read_plain\<close>)
  next
    case 2
    show ?thesis by (rule sends_items [where put = put_capability and recs = capability_records, OF _ items_write(1)])
        (use p 2 in \<open>simp_all add: body_defs read_items fresh_lists_def\<close>)
  next
    case 3
    show ?thesis by (rule sends_items [where put = put_sample and recs = sample_records, OF _ items_write(2)])
        (use p 3 in \<open>simp_all add: body_defs read_items fresh_lists_def\<close>)
  next
    case 4
    show ?thesis by (rule sends_plain [OF _ plain_puts(2)]) (use p 4 in \<open>simp_all add: body_defs read_plain\<close>)
  next
    case 5
    show ?thesis by (rule sends_plain [OF _ plain_puts(3)]) (use p 5 in \<open>simp_all add: body_defs read_plain\<close>)
  next
    case 6
    show ?thesis by (rule sends_bundle [OF _ 6]) (use p 6 in \<open>simp add: named\<close>)
  next
    case 7
    show ?thesis by (rule sends_items [where put = put_setting and recs = setting_records, OF _ items_write(3)])
        (use p 7 in \<open>simp_all add: body_defs read_items fresh_lists_def\<close>)
  next
    case 8
    show ?thesis by (rule sends_plain [OF _ plain_puts(4)])
        (use p 8 in \<open>simp_all add: body_defs read_setting_item fresh_lists_def\<close>)
  next
    case 9
    show ?thesis by (rule sends_plain [OF _ plain_puts(5)]) (use p 9 in \<open>simp_all add: body_defs read_log_status\<close>)
  next
    case 10
    show ?thesis by (rule sends_log_chunk [OF _ 10]) (use p 10 in \<open>simp add: named\<close>)
  next
    case 11
    show ?thesis by (rule sends_plain [OF _ plain_puts(6)]) (use p 11 in \<open>simp_all add: body_defs read_plain\<close>)
  next
    case 12
    show ?thesis by (rule sends_storage_list [OF _ 12]) (use p 12 in \<open>simp add: named\<close>)
  next
    case 13
    show ?thesis by (rule sends_plain [OF _ plain_puts(7)]) (use p 13 in \<open>simp_all add: body_defs read_storage_stat\<close>)
  next
    case 14
    show ?thesis by (rule sends_plain [OF _ plain_puts(8)]) (use p 14 in \<open>simp_all add: body_defs read_plain\<close>)
  next
    case 15
    show ?thesis by (rule sends_items [where put = put_manifest and recs = manifest_records, OF _ items_write(5)])
        (use p 15 in \<open>simp_all add: body_defs read_manifests flush_manifests fresh_lists_def\<close>)
  next
    case 16
    show ?thesis by (rule sends_plain [OF _ plain_puts(9)]) (use p 16 in \<open>simp_all add: body_defs read_plain\<close>)
  next
    case 17
    show ?thesis by (rule sends_plain [OF _ plain_puts(10)]) (use p 17 in \<open>simp_all add: body_defs read_plain\<close>)
  next
    case 18
    show ?thesis
      by (rule sends_plain [where fs = "[]" and rs = "[]"]) (use p 18 ty in \<open>simp_all add: body_defs whole_def uncounted_def\<close>)
  qed
qed

end
