(* ===== verification/ResponseProps.thy ===== *)
theory ResponseProps
  imports ResponseBodies
begin

text \<open>
  The response codec as a whole: what the receiver of a response has, and what happens to the file
  numbers of a manifest.
\<close>

section \<open>Head, page and mark\<close>

definition head_records :: "DescriptorResponse \<Rightarrow> (u8 \<times> u8 \<times> bytes) list" where
  "head_records r = [(0x01, 0x01, [1]), (0x10, 0x01, [dr_type r])]
     @ (if dr_message r \<noteq> [] then [(0x11, 0x09, string_bytes (dr_message r))] else [])
     @ (if dr_type r = rNodeBundle \<or> dr_bundle_mask r \<noteq> 0 then [(0x59, 0x01, [bundle_mask_of r])] else [])"

definition head_of :: "DescriptorResponse \<Rightarrow> DescriptorResponse" where
  "head_of r = no_response\<lparr>dr_type := dr_type r, dr_message := dr_message r,
     dr_bundle_mask := (if dr_type r = rNodeBundle \<or> dr_bundle_mask r \<noteq> 0 then bundle_mask_of r else 0)\<rparr>"

lemma head_written: "puts (head_puts r) [] = Some b \<Longrightarrow> b = records (head_records r) \<and> short (head_records r)"
proof -
  assume b: "puts (head_puts r) [] = Some b"
  have "list_all2 puts_out (head_puts r) [[(0x01, 0x01, [1])], [(0x10, 0x01, [dr_type r])],
      (if dr_message r \<noteq> [] then [(0x11, 0x09, string_bytes (dr_message r))] else []),
      (if dr_type r = rNodeBundle \<or> dr_bundle_mask r \<noteq> 0 then [(0x59, 0x01, [bundle_mask_of r])] else [])]"
    unfolding head_puts_def Let_def by (intro list.rel_intros puts_out_block puts_out_steps)
  from puts_writes [OF b this] show ?thesis unfolding head_records_def by simp
qed

lemma head_read: "fold read_one (head_records r) (at no_response) = at (head_of r)"
  by (auto simp: head_records_def head_of_def read_records no_response_def)

lemma head_fresh [simp]: "fresh_lists (head_of r)"
  by (simp add: fresh_lists_def head_of_def no_response_def)

lemma head_length: "10 \<le> length (records (head_records r))"
  by (simp add: head_records_def tlv_def)

definition resp_page_records :: "DescriptorResponse \<Rightarrow> nat \<Rightarrow> (u8 \<times> u8 \<times> bytes) list" where
  "resp_page_records r n =
     (if \<not> dr_is_paged r then []
      else case page_of r n of (returned, next_cursor, finished) \<Rightarrow>
        [(0x18, 0x06, [1]), (0x19, 0x03, appendLe32 (dr_snapshot_id r)), (0x1A, 0x02, appendLe16 (dr_total_count r)),
         (0x1B, 0x02, appendLe16 (dr_cursor r)), (0x1C, 0x02, appendLe16 returned), (0x1D, 0x02, appendLe16 next_cursor),
         (0x1E, 0x06, [if finished then 1 else 0])])"

text \<open>
  What the receiver is told of the page, in numbers: a page of fewer items than announced ends at the
  item after the last one written, or at the end of the list.
\<close>

definition told :: "DescriptorResponse \<Rightarrow> nat \<Rightarrow> u16 \<times> u16 \<times> bool" where
  "told r n =
     (let ends = unat (dr_cursor r) + unat (of_nat n :: u16) in
      if counted_type (dr_type r) \<and> of_nat n \<noteq> dr_returned_count r
      then (of_nat n, of_nat (min ends (unat (dr_total_count r))), unat (dr_total_count r) \<le> ends)
      else (dr_returned_count r, dr_next_cursor r, dr_done r))"

lemma page_of_told: "page_of r n = told r n"
proof -
  define c t and m :: u16 where "c = dr_cursor r" and "t = dr_total_count r" and "m = of_nat n"
  have sum: "unat ((ucast c :: u32) + ucast m) = unat c + unat m"
    using unsigned_less [of c, where ?'a = nat] unsigned_less [of m, where ?'a = nat] by (simp add: unat_word_ariths unsigned_ucast_eq take_bit_eq_mod)
  have "unat (min ((ucast c :: u32) + ucast m) (ucast t)) = min (unat c + unat m) (unat t)"
    using sum unsigned_less [of t, where ?'a = nat] by (simp add: min_def word_le_nat_alt unsigned_ucast_eq take_bit_eq_mod)
  then have stop: "(ucast (min ((ucast c :: u32) + ucast m) (ucast t)) :: u16) = of_nat (min (unat c + unat m) (unat t))"
    by (metis of_nat_unat)
  have "(t \<le> (of_nat (min (unat c + unat m) (unat t)) :: u16)) \<longleftrightarrow> unat t \<le> unat c + unat m"
    using unsigned_less [of t, where ?'a = nat] by (auto simp: word_le_nat_alt unat_of_nat)
  with stop show ?thesis
    by (simp add: page_of_def told_def short_page_def Let_def c_def t_def m_def)
qed

definition with_page :: "DescriptorResponse \<Rightarrow> nat \<Rightarrow> DescriptorResponse \<Rightarrow> DescriptorResponse" where
  "with_page r n d =
     (if \<not> dr_is_paged r then d
      else case told r n of (returned, next_cursor, finished) \<Rightarrow>
        d\<lparr>dr_is_paged := True, dr_snapshot_id := dr_snapshot_id r, dr_total_count := dr_total_count r,
          dr_cursor := dr_cursor r, dr_returned_count := returned, dr_next_cursor := next_cursor, dr_done := finished\<rparr>)"

lemma page_written:
  assumes "put_page r n out = Some (b, lost)"
  shows "b = out @ records (resp_page_records r n) \<and> short (resp_page_records r n) \<and> (lost \<longleftrightarrow> dr_is_paged r \<and> short_page r n)"
proof (cases "dr_is_paged r")
  case True
  obtain ret nxt fin where pg: "page_of r n = (ret, nxt, fin)" by (cases "page_of r n")
  have "list_all2 puts_out (page_puts r (page_of r n)) (map (\<lambda>x. [x]) (resp_page_records r n))"
    using True puts_out_steps(2) [of False "0x18" True]
    by (simp only: page_puts_def resp_page_records_def pg prod.case not_True_eq_False if_False if_True list.map
        list_all2_Cons list_all2_Nil puts_out_steps simp_thms)
  from puts_writes [OF _ this] True assms show ?thesis by (auto simp: put_page_def)
qed (use assms in \<open>simp add: put_page_def resp_page_records_def\<close>)

lemma page_read: "fold read_one (resp_page_records r n) s = set_out (with_page r n) s"
  by (auto simp: resp_page_records_def page_of_told with_page_def read_records set_out_def split: prod.splits)

lemma page_framed: "framed (with_page r n)"
  by (auto simp: framed_def with_page_def split: prod.splits)

definition marked :: "bool \<Rightarrow> DescriptorResponse \<Rightarrow> DescriptorResponse" where
  "marked c d = (if c then d\<lparr>dr_message := ''truncated''\<rparr> else d)"

lemma mark_framed: "framed (marked c)"
  by (simp add: framed_def marked_def)

text \<open>A single setting is read as a list of one.\<close>

definition placed :: "DescriptorResponse \<Rightarrow> DescriptorResponse" where
  "placed r = (case dr_settings r of
     x # _ \<Rightarrow> if dr_type r = rSetting then r\<lparr>dr_setting := x, dr_settings := []\<rparr> else r | [] \<Rightarrow> r)"

definition received :: "DescriptorResponse \<Rightarrow> nat \<Rightarrow> nat \<Rightarrow> bool \<Rightarrow> DescriptorResponse" where
  "received r n k c = placed (marked c (with_page r n (carried_body r n k (head_of r))))"

lemma dr_type_simps [simp]:
  "dr_type (with_page r n d) = dr_type d" "dr_type (marked c d) = dr_type d" "dr_type (placed d) = dr_type d"
  "dr_type (carried_body r n k d) = dr_type d" "dr_type (head_of r) = dr_type r"
  by (auto simp: with_page_def marked_def placed_def carried_body_def carried_bundle_def head_of_def Let_def
      split: prod.splits list.splits)

lemma list_simps [simp]:
  "dr_ota_manifest (with_page r n d) = dr_ota_manifest d" "dr_ota_manifest (marked c d) = dr_ota_manifest d"
  "dr_ota_manifest (placed d) = dr_ota_manifest d"
  "dr_capabilities (with_page r n d) = dr_capabilities d" "dr_capabilities (marked c d) = dr_capabilities d"
  "dr_capabilities (placed d) = dr_capabilities d"
  "dr_settings (with_page r n d) = dr_settings d" "dr_settings (marked c d) = dr_settings d"
  "dr_type d \<noteq> rSetting \<Longrightarrow> placed d = d"
  by (auto simp: with_page_def marked_def placed_def split: prod.splits list.splits)

section \<open>What arrives\<close>

definition left_short :: "DescriptorResponse \<Rightarrow> nat \<Rightarrow> nat \<Rightarrow> bool" where
  "left_short r n k \<longleftrightarrow> left_out r n k \<or> dr_is_paged r \<and> short_page r n"

lemma response_received:
  assumes enc: "encodeDescriptorResponse r = Some p" and ty: "dr_type r \<noteq> rUnknown" "dr_type r \<noteq> rTelemetry"
  obtains n k c where "decodeDescriptorResponse (Some p) = Some (received r n k c)" "n \<le> item_count r"
    "c \<longrightarrow> left_short r n k" "left_short r n k \<longrightarrow> c \<or> length p + 13 > kMaxPayload"
    "counted_type (dr_type r) \<and> n < item_count r \<longrightarrow> length p + item_need r n > kMaxPayload + (if c then 13 else 0)"
proof -
  from enc obtain o1 o2 l m o3 l' where o1: "puts (head_puts r) [] = Some o1" and o2: "put_body r o1 = Some (o2, l, m)"
    and o3: "put_page r m o2 = Some (o3, l')"
    and p: "p = (if (l \<or> l') \<and> canFit False o3 13 then o3 @ tlv 0x11 0x09 (string_bytes ''truncated'') else o3)"
    unfolding encodeDescriptorResponse_def by (auto simp: bind_eq_Some_conv appendUtf8_eq split: if_splits)
  define c where "c \<longleftrightarrow> (l \<or> l') \<and> canFit False o3 13"
  from sends_type [OF o2 ty(2)] obtain rs n k where body: "o2 = o1 @ records rs" "short rs" "body_reads r rs n k"
    "n \<le> item_count r" "l \<longleftrightarrow> left_out r n k"
    "counted_type (dr_type r) \<longrightarrow> m = n \<and> (n < item_count r \<longrightarrow> l \<and> \<not> canFit (dr_is_paged r) o2 (item_need r n))"
    unfolding sends_body_def by blast
  have same: "with_page r m = with_page r n" "short_page r m = short_page r n"
    using body(6) by (auto simp: fun_eq_iff with_page_def told_def short_page_def)
  let ?mark = "if c then [(0x11, 0x09, string_bytes ''truncated'')] else []"
  let ?all = "head_records r @ rs @ resp_page_records r m @ ?mark"
  have ws: "o1 = records (head_records r) \<and> short (head_records r)"
    "o3 = o2 @ records (resp_page_records r m) \<and> short (resp_page_records r m) \<and> (l' \<longleftrightarrow> dr_is_paged r \<and> short_page r m)"
    using head_written [OF o1] page_written [OF o3] by auto
  then have bytes: "p = records ?all" and sh: "short ?all"
    using p body(1,2) by (simp_all add: c_def)
  have mark: "fold read_one ?mark s = set_out (marked c) s" for s
    by (simp add: read_records marked_def set_out_def)
  have "flush_all (fold read_one ?all (at no_response)) = at (marked c (with_page r n (carried_body r n k (head_of r))))"
    using body(3)
    by (simp only: fold_append comp_apply head_read page_read mark flush_framed [OF mark_framed] flush_framed [OF page_framed]
        body_reads_def same head_fresh at_simps simp_thms)
  then have "response_fin (fold read_one ?all new_reading) = Some (received r n k c)"
    using ty(1) by (simp add: response_fin_def received_def at_start placed_def Let_def response_types split: list.split)
  moreover have "8 \<le> length p" using bytes head_length [of r] by simp
  ultimately have "decodeDescriptorResponse (Some p) = Some (received r n k c)"
    using tlv_walk_records [OF sh [unfolded short_def], of response_body response_fin new_reading]
    by (simp only: decodeDescriptorResponse_def option.case bytes run_response not_less [symmetric] if_False)
  moreover have "length p + item_need r n > kMaxPayload + (if c then 13 else 0)" if "counted_type (dr_type r)" "n < item_count r"
  proof -
    have "length (records (resp_page_records r m)) = (if dr_is_paged r then 42 else 0)"
      by (auto simp: resp_page_records_def tlv_def split: prod.split)
    then have "length p = length o2 + (if dr_is_paged r then 42 else 0) + (if c then 13 else 0)"
      using ws(2) p by (simp add: c_def tlv_def)
    moreover have "\<not> canFit (dr_is_paged r) o2 (item_need r n)" using body(6) that by blast
    ultimately show ?thesis by (auto simp: canFit_def kPagedMetaReserveBytes_def)
  qed
  moreover have "left_short r n k \<longleftrightarrow> l \<or> l'" using body(5) ws(2) same by (auto simp: left_short_def)
  then have "c \<longrightarrow> left_short r n k" "left_short r n k \<longrightarrow> c \<or> length p + 13 > kMaxPayload"
    using p by (auto simp: c_def canFit_def)
  ultimately show ?thesis using that body(4) by blast
qed

section \<open>What was sent\<close>

text \<open>
  The fields a type transports, as the sender has them: of a list the first \<open>n\<close> items, of the samples
  of a bundle the first \<open>k\<close>. A file status without a path goes out with the path of the response.
\<close>

definition sent_bundle :: "DescriptorResponse \<Rightarrow> nat \<Rightarrow> nat \<Rightarrow> DescriptorResponse \<Rightarrow> DescriptorResponse" where
  "sent_bundle r n k d = (let on = (\<lambda>b f d. if bundle_mask_of r AND b \<noteq> 0 then f d else d) in
     on kNodeBundleMaskSettings (\<lambda>d. d\<lparr>dr_settings := take n (dr_settings r)\<rparr>)
     (on kNodeBundleMaskTelemetry (\<lambda>d. d\<lparr>dr_samples := take k (dr_samples r)\<rparr>)
     (on kNodeBundleMaskTime (\<lambda>d. d\<lparr>dr_time := dr_time r\<rparr>)
     (on kNodeBundleMaskLiveness (\<lambda>d. d\<lparr>dr_liveness := dr_liveness r\<rparr>)
     (on kNodeBundleMaskDevice (\<lambda>d. d\<lparr>dr_device := dr_device r\<rparr>) d)))))"

definition sent_body :: "DescriptorResponse \<Rightarrow> nat \<Rightarrow> nat \<Rightarrow> DescriptorResponse \<Rightarrow> DescriptorResponse" where
  "sent_body r n k d = (let ty = dr_type r in
     if ty = rDevice then d\<lparr>dr_device := dr_device r\<rparr>
     else if ty = rCapabilities then d\<lparr>dr_capabilities := take n (dr_capabilities r)\<rparr>
     else if ty = rTelemetrySnapshot then d\<lparr>dr_samples := take n (dr_samples r)\<rparr>
     else if ty = rLiveness then d\<lparr>dr_liveness := dr_liveness r\<rparr>
     else if ty = rTime then d\<lparr>dr_time := dr_time r\<rparr>
     else if ty = rNodeBundle then sent_bundle r n k d
     else if ty = rSettings then d\<lparr>dr_settings := take n (dr_settings r)\<rparr>
     else if ty = rSetting then d\<lparr>dr_setting := dr_setting r\<rparr>
     else if ty = rLogStatus then d\<lparr>dr_logger_available := dr_logger_available r, dr_logger_enabled := dr_logger_enabled r,
       dr_logger_min_level := dr_logger_min_level r, dr_log_bytes_used := dr_log_bytes_used r,
       dr_log_bytes_dropped := dr_log_bytes_dropped r, dr_log_records_appended := dr_log_records_appended r,
       dr_log_rotations := dr_log_rotations r, dr_log_total_size := dr_log_total_size r\<rparr>
     else if ty = rLogChunk then d\<lparr>dr_log_chunk_offset := dr_log_chunk_offset r, dr_log_total_size := dr_log_total_size r,
       dr_log_chunk := take n (dr_log_chunk r)\<rparr>
     else if ty = rStorageInfo then d\<lparr>dr_storage_info := dr_storage_info r\<rparr>
     else if ty = rStorageList then d\<lparr>dr_storage_path := dr_storage_path r,
       dr_storage_parent_path := dr_storage_parent_path r, dr_storage_entries := take n (dr_storage_entries r)\<rparr>
     else if ty = rStorageStat then d\<lparr>dr_storage_stat := (let x = dr_storage_stat r in
       if sx_path x = [] then x\<lparr>sx_path := dr_storage_path r\<rparr> else x)\<rparr>
     else if ty = rOtaStatus then d\<lparr>dr_ota_status := dr_ota_status r\<rparr>
     else if ty = rOtaManifest then d\<lparr>dr_ota_manifest := take n (dr_ota_manifest r)\<rparr>
     else if ty = rOtaCapacity then d\<lparr>dr_ota_capacity := dr_ota_capacity r\<rparr>
     else if ty = rOtaGateInfo then d\<lparr>dr_ota_gate := dr_ota_gate r\<rparr>
     else d)"

text \<open>The response as sent: type and message, the fields of the type, the page, and the mark if it is cut short.\<close>

definition as_sent :: "DescriptorResponse \<Rightarrow> nat \<Rightarrow> nat \<Rightarrow> bool \<Rightarrow> DescriptorResponse" where
  "as_sent r n k c = marked c (with_page r n (sent_body r n k (head_of r)))"

text \<open>
  The responses the encoding is faithful to: not the telemetry schema, whose metric numbers move as those
  of a manifest do, no manifest of several images (see C22), and no time beyond 32 bits.
\<close>

definition sends_time :: "DescriptorResponse \<Rightarrow> bool" where
  "sends_time r \<longleftrightarrow> dr_type r = rTime \<or> dr_type r = rNodeBundle \<and> bundle_mask_of r AND kNodeBundleMaskTime \<noteq> 0"

definition faithful :: "DescriptorResponse \<Rightarrow> bool" where
  "faithful r \<longleftrightarrow> dr_type r \<noteq> rUnknown \<and> dr_type r \<noteq> rTelemetry
     \<and> (dr_type r = rOtaManifest \<longrightarrow> length (dr_ota_manifest r) \<le> 1)
     \<and> (sends_time r \<longrightarrow> unat (ti_epoch_s (dr_time r)) < 2 ^ 32)"

lemma low_time_same:
  assumes "unat (ti_epoch_s t) < 2 ^ 32"
  shows "low_time t = t"
proof -
  let ?e = "ti_epoch_s t"
  have "unat (ucast (ucast ?e :: u32) :: u64) = unat ?e"
    using assms by (simp add: unsigned_ucast_eq unsigned_take_bit_eq take_bit_nat_eq_self)
  then have "(ucast (ucast ?e :: u32) :: u64) = ?e" by (rule unsigned_word_eqI)
  then show ?thesis by (simp add: low_time_def)
qed

lemma sent_received:
  assumes "faithful r"
  shows "received r n k c = as_sent r n k c"
proof -
  have time: "low_time (dr_time r) = dr_time r" if "sends_time r"
    using assms that by (intro low_time_same) (simp add: faithful_def)
  have manifest: "arrived (take n (dr_ota_manifest r)) = take n (dr_ota_manifest r)" if "dr_type r = rOtaManifest"
  proof -
    have "length (take n (dr_ota_manifest r)) \<le> 1" using assms that by (auto simp: faithful_def min_def)
    then show ?thesis by (cases "take n (dr_ota_manifest r)") (auto simp: arrived_def)
  qed
  show ?thesis
  proof (cases "dr_type r = rSetting")
    case True
    then show ?thesis
      by (auto simp: received_def as_sent_def placed_def carried_body_def sent_body_def head_of_def no_response_def with_page_def
          marked_def response_types Let_def split: prod.splits)
  next
    case False
    have bundled: "carried_bundle r n k d = sent_bundle r n k d" if "dr_type r = rNodeBundle" for d
    proof (cases "bundle_mask_of r AND kNodeBundleMaskTime = 0")
      case True
      then show ?thesis by (simp only: carried_bundle_def sent_bundle_def Let_def simp_thms if_False)
    next
      case False
      then have "low_time (dr_time r) = dr_time r" using that by (intro time) (simp add: sends_time_def)
      then show ?thesis by (simp only: carried_bundle_def sent_bundle_def Let_def)
    qed
    have timed: "low_time (dr_time r) = dr_time r" if "dr_type r = rTime" using that by (intro time) (simp add: sends_time_def)
    have "carried_body r n k (head_of r) = sent_body r n k (head_of r)"
      unfolding carried_body_def sent_body_def Let_def
      by (intro if_cong refl) (simp_all only: timed bundled manifest False)
    from this [symmetric] show ?thesis using False by (simp add: received_def as_sent_def)
  qed
qed

text \<open>
  C21. A response arrives as it was sent, as far as it was sent: for every known type except the
  telemetry schema, a manifest of at most one image and a time below 2^32 seconds, the receiver
  reads exactly the fields that the type transports, and of a page where it ends and whether it is
  the last; of a list it reads a prefix, and if items were left out the next one had no room, and the
  message says \<open>truncated\<close> if there was room for it.
\<close>

theorem response_roundtrip:
  assumes "encodeDescriptorResponse r = Some p" "faithful r"
  shows "\<exists>n k c. decodeDescriptorResponse (Some p) = Some (as_sent r n k c) \<and> n \<le> item_count r
    \<and> (c \<longrightarrow> left_short r n k) \<and> (left_short r n k \<longrightarrow> c \<or> length p + 13 > kMaxPayload)
    \<and> (counted_type (dr_type r) \<and> n < item_count r \<longrightarrow> length p + item_need r n > kMaxPayload + (if c then 13 else 0))"
proof -
  have ty: "dr_type r \<noteq> rUnknown" "dr_type r \<noteq> rTelemetry" using assms(2) by (simp_all add: faithful_def)
  show ?thesis
    by (rule response_received [OF assms(1) ty]) (unfold sent_received [OF assms(2)], blast)
qed

definition sample_setting :: SettingDescriptor where
  "sample_setting = new_setting\<lparr>sd_id := 7, sd_key := ''led'', sd_writable := True, sd_current := ''on''\<rparr>"

definition setting_response :: DescriptorResponse where
  "setting_response = no_response\<lparr>dr_type := rSetting, dr_setting := sample_setting\<rparr>"

lemma response_roundtrip_witness:
  "\<exists>p. encodeDescriptorResponse setting_response = Some p
     \<and> (\<exists>c. map_option dr_setting (decodeDescriptorResponse (Some p)) = Some sample_setting)"
proof -
  obtain p where p: "encodeDescriptorResponse setting_response = Some p"
    by (simp add: encodeDescriptorResponse_def setting_response_def head_puts_def put_body_def put_page_def response_types
        one_setting_puts_def whole_def uncounted_def block_def tryAppendU8_def tryAppendUtf8_def tryAppendU16_def
        tryAppendBool_def canFit_def frame_sizes appendUtf8_eq tlv_def sample_setting_def new_setting_def no_response_def)
  have "faithful setting_response"
    by (simp add: faithful_def sends_time_def setting_response_def response_types no_response_def)
  from response_roundtrip [OF p this] obtain n k c where "decodeDescriptorResponse (Some p) = Some (as_sent setting_response n k c)"
    by blast
  then show ?thesis
    using p by (simp add: as_sent_def marked_def with_page_def sent_body_def head_of_def setting_response_def
        response_types no_response_def Let_def)
qed

section \<open>File numbers of a manifest\<close>

definition unnumbered :: "OtaManifestEntry \<Rightarrow> OtaManifestEntry" where
  "unnumbered x = x\<lparr>mf_file_id := 0\<rparr>"

lemma shifted_numbers:
  "map unnumbered (shifted xs) = map unnumbered xs"
  "xs \<noteq> [] \<Longrightarrow> map mf_file_id (shifted xs) = tl (map mf_file_id xs) @ [0]"
  by (induction xs rule: shifted.induct) (simp_all add: unnumbered_def)

lemma arrived_numbers:
  "map unnumbered (arrived xs) = map unnumbered xs"
  "2 \<le> length xs \<Longrightarrow> map mf_file_id (arrived xs) = tl (map mf_file_id xs) @ [0]"
proof -
  show "map unnumbered (arrived xs) = map unnumbered xs" by (simp add: arrived_def shifted_numbers(1))
  assume "2 \<le> length xs"
  then have "xs \<noteq> []" "length xs \<noteq> 1" by auto
  then show "map mf_file_id (arrived xs) = tl (map mf_file_id xs) @ [0]"
    using shifted_numbers(2) by (simp add: arrived_def)
qed

text \<open>
  C22. A manifest of several images arrives with the wrong file numbers: every entry has the number
  of the entry behind it, and the last one has the number 0. All other fields arrive as they were
  sent.
\<close>

theorem manifest_numbers_shifted:
  assumes "encodeDescriptorResponse r = Some p" "dr_type r = rOtaManifest"
  shows "\<exists>n d. decodeDescriptorResponse (Some p) = Some d \<and> n \<le> length (dr_ota_manifest r)
    \<and> (n < length (dr_ota_manifest r) \<longrightarrow> length p + manifest_need (dr_ota_manifest r ! n) > kMaxPayload)
    \<and> map unnumbered (dr_ota_manifest d) = map unnumbered (take n (dr_ota_manifest r))
    \<and> (2 \<le> n \<longrightarrow> map mf_file_id (dr_ota_manifest d) = tl (map mf_file_id (take n (dr_ota_manifest r))) @ [0])"
proof -
  have ty: "dr_type r \<noteq> rUnknown" "dr_type r \<noteq> rTelemetry" by (simp_all add: assms(2) response_types)
  have count: "item_count r = length (dr_ota_manifest r)" "counted_type (dr_type r)" "item_need r i = manifest_need (dr_ota_manifest r ! i)" for i
    using assms(2) by (simp_all add: body_defs)
  have list: "dr_ota_manifest (received r n k c) = arrived (take n (dr_ota_manifest r))" for n k c
    using assms(2) by (simp add: received_def carried_body_def response_types Let_def)
  obtain n k c where d: "decodeDescriptorResponse (Some p) = Some (received r n k c)" and n: "n \<le> length (dr_ota_manifest r)"
    and "counted_type (dr_type r) \<and> n < item_count r \<longrightarrow> length p + item_need r n > kMaxPayload + (if c then 13 else 0)"
    by (rule response_received [OF assms(1) ty]) (simp add: count)
  then have room: "n < length (dr_ota_manifest r) \<longrightarrow> length p + manifest_need (dr_ota_manifest r ! n) > kMaxPayload"
    by (auto simp: count)
  have "2 \<le> n \<Longrightarrow> 2 \<le> length (take n (dr_ota_manifest r))" using n by simp
  with d n room arrived_numbers [of "take n (dr_ota_manifest r)"] show ?thesis
    unfolding list [symmetric, of n k c] by blast
qed

definition two_images :: DescriptorResponse where
  "two_images = no_response\<lparr>dr_type := rOtaManifest, dr_ota_manifest :=
     [new_manifest_entry\<lparr>mf_file_id := 5, mf_file_name := ''a''\<rparr>, new_manifest_entry\<lparr>mf_file_id := 6, mf_file_name := ''b''\<rparr>]\<rparr>"

lemma manifest_numbers_shifted_witness:
  "\<exists>p d. encodeDescriptorResponse two_images = Some p \<and> decodeDescriptorResponse (Some p) = Some d
     \<and> map mf_file_id (dr_ota_manifest d) = [6, 0]"
proof -
  obtain p where p: "encodeDescriptorResponse two_images = Some p" "length p = 124"
    by (simp add: encodeDescriptorResponse_def two_images_def head_puts_def put_body_def put_page_def response_types
        put_manifest_def whole_def uncounted_def block_def tryAppendU8_def num32_def utf8_def manifest_need_def
        canFit_def frame_sizes appendUtf8_eq tlv_def new_manifest_entry_def no_response_def Let_def)
  have "dr_type two_images = rOtaManifest" by (simp add: two_images_def)
  from manifest_numbers_shifted [OF p(1) this] obtain n d where
    d: "decodeDescriptorResponse (Some p) = Some d" and n: "n \<le> length (dr_ota_manifest two_images)"
    "n < length (dr_ota_manifest two_images) \<longrightarrow> 124 + manifest_need (dr_ota_manifest two_images ! n) > kMaxPayload"
    "2 \<le> n \<longrightarrow> map mf_file_id (dr_ota_manifest d) = tl (map mf_file_id (take n (dr_ota_manifest two_images))) @ [0]"
    unfolding p(2) by blast
  have "n = 2"
    using n(1,2) by (cases n; cases "n - 1") (auto simp: two_images_def manifest_need_def new_manifest_entry_def frame_sizes)
  with n(3) have "map mf_file_id (dr_ota_manifest d) = [6, 0]" by (simp add: two_images_def new_manifest_entry_def)
  with p(1) d show ?thesis by (intro exI conjI)
qed

end
