(* ===== verification/Profiles.thy ===== *)
theory Profiles
  imports ProfileCodecs
begin

text \<open>
  Device profiles and their registry: \<open>src/descriptor/profile.cpp\<close> and \<open>profile.hpp\<close>. A profile is an
  object behind a pointer, which the registry compares and keeps: pointers are numbers, and \<open>P\<close> gives
  the object at a pointer, which never changes. The three kinds of entries are one structure here.
\<close>

section \<open>Profiles\<close>

datatype ProfileSpec = ProfileSpec (ps_id: u16) (ps_key: string)

record ProfileDefinition =
  pf_id :: u16
  pf_name :: "string option"
  pf_default_codec :: u16
  pf_supports :: "u16 \<Rightarrow> bool"
  pf_telemetry :: "ProfileSpec list"
  pf_settings :: "ProfileSpec list"
  pf_events :: "ProfileSpec list"

type_synonym profiles = "nat \<Rightarrow> ProfileDefinition"

definition kProfileLockAlarm :: u16 where "kProfileLockAlarm = 6"
definition kCodecIdDefault :: u16 where "kCodecIdDefault = 1"

definition g_pms_profile :: ProfileDefinition where
  "g_pms_profile = \<lparr>pf_id = kProfilePms, pf_name = Some ''PMS'', pf_default_codec = kCodecIdDefault, pf_supports = isBuiltInCodecId,
     pf_telemetry =
      [ProfileSpec 0x01 ''wall_v'', ProfileSpec 0x02 ''batt_v'', ProfileSpec 0x03 ''wall_i'', ProfileSpec
       0x04 ''batt_i'', ProfileSpec 0x05 ''power_source'', ProfileSpec 0x06 ''trip'', ProfileSpec 0x07
       ''relay_cut''],
     pf_settings =
      [ProfileSpec 0x0001 ''device_name'', ProfileSpec 0x0002 ''channel'', ProfileSpec 0x0101
       ''pwr_mode'', ProfileSpec 0x0102 ''trip_limit_current'', ProfileSpec 0x0103 ''v_cal_factor'',
       ProfileSpec 0x0104 ''i_cal_factor'', ProfileSpec 0x0201 ''vbus_ovp_mv'', ProfileSpec 0x0202
       ''vbus_uvp_mv'', ProfileSpec 0x0203 ''ibus_ocp_ma'', ProfileSpec 0x0204 ''vbat_ovp_mv'', ProfileSpec
       0x0205 ''vbat_uvp_mv'', ProfileSpec 0x0206 ''ibat_ocp_ma''],
     pf_events =
      [ProfileSpec 0xE001 ''trip_state_changed'', ProfileSpec 0xE002 ''power_fault'', ProfileSpec 0xE003
       ''reset_requested'']\<rparr>"

definition g_relay_profile :: ProfileDefinition where
  "g_relay_profile = \<lparr>pf_id = kProfileRelay, pf_name = Some ''RELAY'', pf_default_codec = kCodecIdDefault, pf_supports = isBuiltInCodecId,
     pf_telemetry =
      [ProfileSpec 0x01 ''relay_bitmap'', ProfileSpec 0x02 ''uptime_ms''],
     pf_settings =
      [ProfileSpec 0x0001 ''device_name'', ProfileSpec 0x0002 ''channel'', ProfileSpec 0x0101
       ''split_idx'', ProfileSpec 0x0102 ''pulse_ms'', ProfileSpec 0x0103 ''hold_ms'', ProfileSpec 0x0104
       ''interlock'', ProfileSpec 0x0105 ''rt_limit_c'', ProfileSpec 0x0106 ''sensor_a_mac'', ProfileSpec
       0x0107 ''sensor_b_mac'', ProfileSpec 0x030B ''persist_output_state'', ProfileSpec 0x0901
       ''topo_version'', ProfileSpec 0x0902 ''topo_seed_id'', ProfileSpec 0x0903 ''topo_state'',
       ProfileSpec 0x0906 ''topo_prev_mac'', ProfileSpec 0x0907 ''topo_next_mac'', ProfileSpec 0x0908
       ''topo_allowed_sources_blob''],
     pf_events =
      [ProfileSpec 0xE101 ''relay_state_changed'', ProfileSpec 0xE102 ''interlock_blocked'', ProfileSpec
       0xE103 ''relay_fault'', ProfileSpec 0xE1A1 ''topology_staged'', ProfileSpec 0xE1A2
       ''topology_committed'', ProfileSpec 0xE1A3 ''peer_pair_request_rejected'']\<rparr>"

definition g_sens_profile :: ProfileDefinition where
  "g_sens_profile = \<lparr>pf_id = kProfileSens, pf_name = Some ''SENS'', pf_default_codec = kCodecIdDefault, pf_supports = isBuiltInCodecId,
     pf_telemetry =
      [ProfileSpec 0x01 ''tfl_a_mm'', ProfileSpec 0x02 ''tfl_b_mm'', ProfileSpec 0x03 ''tfl_a_flux'',
       ProfileSpec 0x04 ''tfl_b_flux'', ProfileSpec 0x05 ''tfl_a_temp_c'', ProfileSpec 0x06
       ''tfl_b_temp_c'', ProfileSpec 0x07 ''env_temp_c'', ProfileSpec 0x08 ''env_hum_pct'', ProfileSpec
       0x09 ''env_press_pa'', ProfileSpec 0x0A ''lux''],
     pf_settings =
      [ProfileSpec 0x0001 ''device_name'', ProfileSpec 0x0002 ''channel'', ProfileSpec 0x0101
       ''prev_mac'', ProfileSpec 0x0102 ''next_mac'', ProfileSpec 0x0103 ''pos_relays'', ProfileSpec 0x0104
       ''neg_relays'', ProfileSpec 0x0201 ''detect_fall_delta_cm'', ProfileSpec 0x0202
       ''detect_release_delta_cm'', ProfileSpec 0x0203 ''ab_spacing_cm'', ProfileSpec 0x0204
       ''als_t0_lux'', ProfileSpec 0x0205 ''als_t1_lux'', ProfileSpec 0x0206 ''detect_window_ms'',
       ProfileSpec 0x0207 ''detect_clear_hold_ms'', ProfileSpec 0x0208 ''relay_on_ms'', ProfileSpec 0x0209
       ''relay_off_ms'', ProfileSpec 0x020A ''lead_count'', ProfileSpec 0x020B ''lead_step_ms'',
       ProfileSpec 0x020C ''sample_loop_ms'', ProfileSpec 0x020D ''sample_ring_n'', ProfileSpec 0x0301
       ''LoopAuto'', ProfileSpec 0x0901 ''topo_version'', ProfileSpec 0x0902 ''topo_seed_id'', ProfileSpec
       0x0903 ''topo_state'', ProfileSpec 0x0904 ''topo_relay_targets_blob'', ProfileSpec 0x0905
       ''topo_commit_epoch_s''],
     pf_events =
      [ProfileSpec 0xE201 ''vehicle_detected'', ProfileSpec 0xE202 ''vehicle_cleared'', ProfileSpec 0xE203
       ''sensor_fault'', ProfileSpec 0xE2A1 ''topology_staged'', ProfileSpec 0xE2A2 ''topology_committed'',
       ProfileSpec 0xE2A3 ''peer_pair_link_result'']\<rparr>"

definition g_semu_profile :: ProfileDefinition where
  "g_semu_profile = \<lparr>pf_id = kProfileSemu, pf_name = Some ''SEMU'', pf_default_codec = kCodecIdDefault, pf_supports = isBuiltInCodecId,
     pf_telemetry =
      [ProfileSpec 0x01 ''v0_tfl_a_mm'', ProfileSpec 0x02 ''v0_tfl_b_mm'', ProfileSpec 0x03
       ''v0_tfl_a_flux'', ProfileSpec 0x04 ''v0_tfl_b_flux'', ProfileSpec 0x05 ''v0_tfl_a_temp_c'',
       ProfileSpec 0x06 ''v0_tfl_b_temp_c'', ProfileSpec 0x07 ''env_temp_c'', ProfileSpec 0x08
       ''env_hum_pct'', ProfileSpec 0x09 ''env_press_pa'', ProfileSpec 0x0A ''lux''],
     pf_settings =
      [ProfileSpec 0x0001 ''device_name'', ProfileSpec 0x0002 ''channel'', ProfileSpec 0x0101
       ''sensor_count'', ProfileSpec 0x0102 ''prev_mac'', ProfileSpec 0x0103 ''next_mac'', ProfileSpec
       0x0104 ''pos_relays'', ProfileSpec 0x0105 ''neg_relays'', ProfileSpec 0x0110 ''von_ms'', ProfileSpec
       0x0111 ''vlead_count'', ProfileSpec 0x0112 ''vlead_ms'', ProfileSpec 0x0114 ''sample_loop_ms'',
       ProfileSpec 0x0115 ''sample_ring_n'', ProfileSpec 0x0901 ''topo_version'', ProfileSpec 0x0902
       ''topo_seed_id'', ProfileSpec 0x0903 ''topo_state'', ProfileSpec 0x0904 ''topo_relay_targets_blob'',
       ProfileSpec 0x0905 ''topo_commit_epoch_s''],
     pf_events =
      [ProfileSpec 0xE301 ''virtual_sensor_started'', ProfileSpec 0xE302 ''virtual_sensor_fault'',
       ProfileSpec 0xE3A1 ''topology_staged'', ProfileSpec 0xE3A2 ''topology_committed'', ProfileSpec
       0xE3A3 ''peer_pair_link_result'']\<rparr>"

definition g_remu_profile :: ProfileDefinition where
  "g_remu_profile = \<lparr>pf_id = kProfileRemu, pf_name = Some ''REMU'', pf_default_codec = kCodecIdDefault, pf_supports = isBuiltInCodecId,
     pf_telemetry =
      [ProfileSpec 0x01 ''relay_bitmap'', ProfileSpec 0x02 ''relay_count''],
     pf_settings =
      [ProfileSpec 0x0001 ''device_name'', ProfileSpec 0x0002 ''channel'', ProfileSpec 0x0101
       ''relay_count'', ProfileSpec 0x0102 ''split_idx'', ProfileSpec 0x0103 ''global_pulse_ms'',
       ProfileSpec 0x0104 ''global_hold_ms'', ProfileSpec 0x0105 ''repeat_ms'', ProfileSpec 0x0106
       ''interlock_json'', ProfileSpec 0x0107 ''sensor_a_mac'', ProfileSpec 0x0108 ''sensor_b_mac'',
       ProfileSpec 0x030B ''persist_output_state'', ProfileSpec 0x0901 ''topo_version'', ProfileSpec 0x0902
       ''topo_seed_id'', ProfileSpec 0x0903 ''topo_state'', ProfileSpec 0x0906 ''topo_prev_mac'',
       ProfileSpec 0x0907 ''topo_next_mac'', ProfileSpec 0x0908 ''topo_allowed_sources_blob''],
     pf_events =
      [ProfileSpec 0xE401 ''virtual_relay_state_changed'', ProfileSpec 0xE402 ''virtual_relay_fault'',
       ProfileSpec 0xE4A1 ''topology_staged'', ProfileSpec 0xE4A2 ''topology_committed'', ProfileSpec
       0xE4A3 ''peer_pair_request_rejected'']\<rparr>"

definition g_lock_alarm_profile :: ProfileDefinition where
  "g_lock_alarm_profile = \<lparr>pf_id = kProfileLockAlarm, pf_name = Some ''LOCK_ALARM'', pf_default_codec = kCodecIdDefault, pf_supports = isBuiltInCodecId,
     pf_telemetry =
      [ProfileSpec 0x01 ''armed'', ProfileSpec 0x02 ''motion_alarm_enabled'', ProfileSpec 0x03 ''breach'',
       ProfileSpec 0x04 ''battery_pct'', ProfileSpec 0x07 ''door_open'', ProfileSpec 0x08 ''shock_active'',
       ProfileSpec 0x09 ''reed_active'', ProfileSpec 0x0A ''uptime_ms'', ProfileSpec 0x20 ''lock_state'',
       ProfileSpec 0x23 ''fingerprint_enabled''],
     pf_settings =
      [ProfileSpec 0x0001 ''device_name'', ProfileSpec 0x0002 ''device_id'', ProfileSpec 0x0003
       ''master_id'', ProfileSpec 0x0004 ''configured'', ProfileSpec 0x0005 ''channel'', ProfileSpec 0x0101
       ''armed_state'', ProfileSpec 0x0102 ''breach_state'', ProfileSpec 0x0103 ''motion_trigger_alarm'',
       ProfileSpec 0x0201 ''lock_timeout_ms'', ProfileSpec 0x0202 ''lock_emag_mode'', ProfileSpec 0x0203
       ''fingerprint_enabled'', ProfileSpec 0x0301 ''cap_open_switch'', ProfileSpec 0x0302
       ''cap_shock_sensor'', ProfileSpec 0x0303 ''cap_reed_switch'', ProfileSpec 0x0304
       ''cap_fingerprint'', ProfileSpec 0x0401 ''shock_sensor_type'', ProfileSpec 0x0402
       ''shock_threshold''],
     pf_events =
      [ProfileSpec 0xE001 ''breach'', ProfileSpec 0xE002 ''critical'', ProfileSpec 0xE003 ''battery_low'',
       ProfileSpec 0xE004 ''battery_recovered'', ProfileSpec 0xE005 ''door_opened_after_unlock'',
       ProfileSpec 0xE006 ''door_closed_after_unlock'', ProfileSpec 0xE007 ''alarm_cleared'', ProfileSpec
       0xE008 ''reed_state'', ProfileSpec 0xE020 ''fp_match'', ProfileSpec 0xE021 ''fp_fail'']\<rparr>"

text \<open>Identifiers and keys are set and occur once; the two sets are those of the loop.\<close>

fun validateSpecSet :: "u16 set \<Rightarrow> string set \<Rightarrow> ProfileSpec list \<Rightarrow> bool" where
  "validateSpecSet ids keys [] = True"
| "validateSpecSet ids keys (s # ss) =
     (if ps_id s = 0 then False
      else if ps_key s = [] then False
      else if ps_id s \<in> ids \<or> ps_key s \<in> keys then False
      else validateSpecSet (insert (ps_id s) ids) (insert (ps_key s) keys) ss)"

definition validateProfileDefinition :: "ProfileDefinition \<Rightarrow> bool" where
  "validateProfileDefinition p \<longleftrightarrow> pf_supports p (pf_default_codec p) \<and> validateSpecSet {} {} (pf_telemetry p)
     \<and> validateSpecSet {} {} (pf_settings p) \<and> validateSpecSet {} {} (pf_events p)"

section \<open>The registry\<close>

datatype spec_kind = Telemetry | Settings | Events

fun specs_of :: "spec_kind \<Rightarrow> ProfileDefinition \<Rightarrow> ProfileSpec list" where
  "specs_of Telemetry p = pf_telemetry p"
| "specs_of Settings p = pf_settings p"
| "specs_of Events p = pf_events p"

record ProfileRegistrySnapshot =
  sh_generation :: u64
  sh_profiles_by_id :: "u16 \<rightharpoonup> nat"
  sh_profiles_by_name :: "string \<rightharpoonup> nat"
  sh_by_id :: "spec_kind \<Rightarrow> u16 \<rightharpoonup> (u16 \<rightharpoonup> ProfileSpec)"
  sh_by_key :: "spec_kind \<Rightarrow> u16 \<rightharpoonup> (string \<rightharpoonup> ProfileSpec)"

record ProfileRegistry =
  pr_profiles :: "nat list"
  pr_by_id :: "u16 \<rightharpoonup> nat"
  pr_by_name :: "string \<rightharpoonup> nat"
  pr_generation :: u64
  pr_cache :: ProfileRegistrySnapshot
  pr_cache_valid :: bool

definition empty_snapshot :: ProfileRegistrySnapshot where
  "empty_snapshot = \<lparr>sh_generation = 0, sh_profiles_by_id = Map.empty, sh_profiles_by_name = Map.empty,
     sh_by_id = (\<lambda>_. Map.empty), sh_by_key = (\<lambda>_. Map.empty)\<rparr>"

definition new_registry :: ProfileRegistry where
  "new_registry = \<lparr>pr_profiles = [], pr_by_id = Map.empty, pr_by_name = Map.empty, pr_generation = 0,
     pr_cache = empty_snapshot, pr_cache_valid = False\<rparr>"

definition registerProfile :: "profiles \<Rightarrow> nat option \<Rightarrow> (ProfileRegistry, bool) state" where
  "registerProfile P profile =
     (case profile of
        None \<Rightarrow> ret False
      | Some a \<Rightarrow> (case pf_name (P a) of
          None \<Rightarrow> ret False
        | Some name \<Rightarrow>
            if pf_id (P a) = kProfileUnknown then ret False
            else if name = [] then ret False
            else if \<not> validateProfileDefinition (P a) then ret False
            else do {
              s \<leftarrow> gets (\<lambda>s. s);
              if a \<in> set (pr_profiles s) then ret True
              else if (case pr_by_id s (pf_id (P a)) of None \<Rightarrow> False | Some b \<Rightarrow> b \<noteq> a) then ret False
              else if (case pr_by_name s name of None \<Rightarrow> False | Some b \<Rightarrow> b \<noteq> a) then ret False
              else do {
                _ \<leftarrow> modify (\<lambda>s. s\<lparr>pr_profiles := pr_profiles s @ [a], pr_by_id := (pr_by_id s)(pf_id (P a) \<mapsto> a),
                  pr_by_name := (pr_by_name s)(name \<mapsto> a), pr_generation := pr_generation s + 1, pr_cache_valid := False\<rparr>);
                ret True } }))"

definition findProfile :: "u16 \<Rightarrow> ProfileRegistry \<Rightarrow> nat option" where
  "findProfile pid s = pr_by_id s pid"

definition findByName :: "string \<Rightarrow> ProfileRegistry \<Rightarrow> nat option" where
  "findByName name s = pr_by_name s name"

text \<open>\<open>emplace\<close> keeps an entry that is there.\<close>

definition emplace :: "'a \<Rightarrow> 'b \<Rightarrow> ('a \<rightharpoonup> 'b) \<Rightarrow> ('a \<rightharpoonup> 'b)" where
  "emplace k v m = (case m k of None \<Rightarrow> m(k \<mapsto> v) | Some _ \<Rightarrow> m)"

definition put_ids :: "ProfileSpec list \<Rightarrow> (u16 \<rightharpoonup> ProfileSpec) \<Rightarrow> (u16 \<rightharpoonup> ProfileSpec)" where
  "put_ids specs m = fold (\<lambda>s. emplace (ps_id s) s) specs m"

definition put_keys :: "ProfileSpec list \<Rightarrow> (string \<rightharpoonup> ProfileSpec) \<Rightarrow> (string \<rightharpoonup> ProfileSpec)" where
  "put_keys specs m = fold (\<lambda>s m. if ps_key s \<noteq> [] then emplace (ps_key s) s m else m) specs m"

text \<open>The element of \<open>operator[]\<close>, empty if there is none.\<close>

definition sub_map :: "('a \<rightharpoonup> ('b \<rightharpoonup> 'c)) \<Rightarrow> 'a \<Rightarrow> ('b \<rightharpoonup> 'c)" where
  "sub_map m k = (case m k of None \<Rightarrow> Map.empty | Some x \<Rightarrow> x)"

definition add_profile :: "profiles \<Rightarrow> nat \<Rightarrow> ProfileRegistrySnapshot \<Rightarrow> ProfileRegistrySnapshot" where
  "add_profile P a s = (let p = P a in
     if pf_id p = kProfileUnknown \<or> pf_name p = None \<or> pf_name p = Some [] then s
     else s\<lparr>sh_profiles_by_id := emplace (pf_id p) a (sh_profiles_by_id s),
       sh_profiles_by_name := emplace (the (pf_name p)) a (sh_profiles_by_name s),
       sh_by_id := (\<lambda>k. (sh_by_id s k)(pf_id p \<mapsto> put_ids (specs_of k p) (sub_map (sh_by_id s k) (pf_id p)))),
       sh_by_key := (\<lambda>k. (sh_by_key s k)(pf_id p \<mapsto> put_keys (specs_of k p) (sub_map (sh_by_key s k) (pf_id p))))\<rparr>)"

definition build_snapshot :: "profiles \<Rightarrow> ProfileRegistry \<Rightarrow> ProfileRegistrySnapshot" where
  "build_snapshot P s = fold (add_profile P) (pr_profiles s) (empty_snapshot\<lparr>sh_generation := pr_generation s\<rparr>)"

definition rebuildSnapshotCache :: "profiles \<Rightarrow> (ProfileRegistry, unit) state" where
  "rebuildSnapshotCache P = modify (\<lambda>s. s\<lparr>pr_cache := build_snapshot P s, pr_cache_valid := True\<rparr>)"

definition snapshot :: "profiles \<Rightarrow> (ProfileRegistry, ProfileRegistrySnapshot) state" where
  "snapshot P = do {
     stale \<leftarrow> gets (\<lambda>s. \<not> pr_cache_valid s \<or> sh_generation (pr_cache s) \<noteq> pr_generation s);
     _ \<leftarrow> whenM stale (rebuildSnapshotCache P);
     gets pr_cache }"

definition resolve_id :: "profiles \<Rightarrow> spec_kind \<Rightarrow> u16 \<Rightarrow> u16 \<Rightarrow> (ProfileRegistry, ProfileSpec option) state" where
  "resolve_id P k pid i =
     (if pid = kProfileUnknown \<or> i = 0 then ret None
      else do {
        sh \<leftarrow> snapshot P;
        ret (case sh_by_id sh k pid of None \<Rightarrow> None | Some m \<Rightarrow> m i) })"

definition resolve_key :: "profiles \<Rightarrow> spec_kind \<Rightarrow> u16 \<Rightarrow> string \<Rightarrow> (ProfileRegistry, ProfileSpec option) state" where
  "resolve_key P k pid key =
     (if pid = kProfileUnknown \<or> key = [] then ret None
      else do {
        sh \<leftarrow> snapshot P;
        ret (case sh_by_key sh k pid of None \<Rightarrow> None | Some m \<Rightarrow> m key) })"

definition resolveTelemetryById where "resolveTelemetryById P = resolve_id P Telemetry"
definition resolveTelemetryByKey where "resolveTelemetryByKey P = resolve_key P Telemetry"
definition resolveSettingById where "resolveSettingById P = resolve_id P Settings"
definition resolveSettingByKey where "resolveSettingByKey P = resolve_key P Settings"
definition resolveEventById where "resolveEventById P = resolve_id P Events"
definition resolveEventByKey where "resolveEventByKey P = resolve_key P Events"

text \<open>The functions that take a profile or its id, and ask the one registry.\<close>

definition find_by_id :: "profiles \<Rightarrow> spec_kind \<Rightarrow> nat option \<Rightarrow> u16 \<Rightarrow> (ProfileRegistry, ProfileSpec option) state" where
  "find_by_id P k profile i = (case profile of None \<Rightarrow> ret None | Some a \<Rightarrow> resolve_id P k (pf_id (P a)) i)"

definition find_by_key :: "profiles \<Rightarrow> spec_kind \<Rightarrow> nat option \<Rightarrow> string \<Rightarrow> (ProfileRegistry, ProfileSpec option) state" where
  "find_by_key P k profile key = (case profile of
     None \<Rightarrow> ret None
   | Some a \<Rightarrow> if key = [] then ret None else resolve_key P k (pf_id (P a)) key)"

text \<open>The built-in profiles, at the first six pointers.\<close>

definition built_in_profiles :: profiles where
  "built_in_profiles a = (if a = 0 then g_pms_profile else if a = 1 then g_relay_profile else if a = 2 then g_sens_profile
     else if a = 3 then g_semu_profile else if a = 4 then g_remu_profile else g_lock_alarm_profile)"

definition registerBuiltInProfiles :: "(ProfileRegistry, unit) state" where
  "registerBuiltInProfiles = forM [0, 1, 2, 3, 4, 5] (\<lambda>a. do { _ \<leftarrow> registerProfile built_in_profiles (Some a); ret () })"

section \<open>The registry holds what was registered\<close>

definition valid_profile :: "ProfileDefinition \<Rightarrow> bool" where
  "valid_profile p \<longleftrightarrow> pf_id p \<noteq> kProfileUnknown \<and> pf_name p \<noteq> None \<and> pf_name p \<noteq> Some [] \<and> validateProfileDefinition p"

definition registry_ok :: "profiles \<Rightarrow> ProfileRegistry \<Rightarrow> bool" where
  "registry_ok P s \<longleftrightarrow> (\<forall>a \<in> set (pr_profiles s). valid_profile (P a))
     \<and> distinct (map (pf_id \<circ> P) (pr_profiles s)) \<and> distinct (map (pf_name \<circ> P) (pr_profiles s))
     \<and> (\<forall>i a. pr_by_id s i = Some a \<longleftrightarrow> a \<in> set (pr_profiles s) \<and> pf_id (P a) = i)
     \<and> (\<forall>n a. pr_by_name s n = Some a \<longleftrightarrow> a \<in> set (pr_profiles s) \<and> pf_name (P a) = Some n)
     \<and> (pr_cache_valid s \<longrightarrow> pr_cache s = build_snapshot P s)"

lemma valid_specs:
  "validateSpecSet ids keys ss \<longleftrightarrow> (\<forall>x \<in> set ss. ps_id x \<noteq> 0 \<and> ps_key x \<noteq> [] \<and> ps_id x \<notin> ids \<and> ps_key x \<notin> keys)
     \<and> distinct (map ps_id ss) \<and> distinct (map ps_key ss)"
proof (induction ss arbitrary: ids keys)
  case (Cons s ss)
  have "(\<forall>x \<in> set ss. ps_id x \<noteq> ps_id s) \<longleftrightarrow> ps_id s \<notin> ps_id ` set ss"
    by (metis image_iff)
  moreover have "(\<forall>x \<in> set ss. ps_key x \<noteq> ps_key s) \<longleftrightarrow> ps_key s \<notin> ps_key ` set ss"
    by (metis image_iff)
  ultimately show ?case unfolding validateSpecSet.simps Cons.IH by auto
qed simp

lemma put_ids_exact:
  "distinct (map ps_id ss) \<Longrightarrow> \<forall>x \<in> set ss. m (ps_id x) = None \<Longrightarrow>
   put_ids ss m i = Some x \<longleftrightarrow> x \<in> set ss \<and> ps_id x = i \<or> m i = Some x"
proof (induction ss arbitrary: m)
  case (Cons s ss)
  then have "put_ids ss (m(ps_id s \<mapsto> s)) i = Some x \<longleftrightarrow> x \<in> set ss \<and> ps_id x = i \<or> (m(ps_id s \<mapsto> s)) i = Some x"
    by (intro Cons.IH) (auto simp: image_iff)
  then show ?case using Cons.prems by (auto simp: put_ids_def emplace_def)
qed (simp add: put_ids_def)

lemma put_keys_exact:
  "distinct (map ps_key ss) \<Longrightarrow> \<forall>x \<in> set ss. m (ps_key x) = None \<and> ps_key x \<noteq> [] \<Longrightarrow>
   put_keys ss m i = Some x \<longleftrightarrow> x \<in> set ss \<and> ps_key x = i \<or> m i = Some x"
proof (induction ss arbitrary: m)
  case (Cons s ss)
  then have "put_keys ss (m(ps_key s \<mapsto> s)) i = Some x \<longleftrightarrow> x \<in> set ss \<and> ps_key x = i \<or> (m(ps_key s \<mapsto> s)) i = Some x"
    by (intro Cons.IH) (auto simp: image_iff)
  then show ?case using Cons.prems by (auto simp: put_keys_def emplace_def)
qed (simp add: put_keys_def)

lemma valid_kind:
  "valid_profile p \<Longrightarrow> distinct (map ps_id (specs_of k p)) \<and> distinct (map ps_key (specs_of k p))
     \<and> (\<forall>x \<in> set (specs_of k p). ps_id x \<noteq> 0 \<and> ps_key x \<noteq> [])"
  by (cases k) (auto simp: valid_profile_def validateProfileDefinition_def valid_specs)

text \<open>The snapshot of distinct valid profiles has their entries and no others.\<close>

lemma snapshot_fold:
  assumes "\<forall>a \<in> set xs. valid_profile (P a)" "distinct (map (pf_id \<circ> P) xs)"
    and "\<forall>a \<in> set xs. sh_by_id s0 k (pf_id (P a)) = None \<and> sh_by_key s0 k (pf_id (P a)) = None"
  shows "sh_by_id (fold (add_profile P) xs s0) k pid = (case find (\<lambda>a. pf_id (P a) = pid) xs of
      None \<Rightarrow> sh_by_id s0 k pid | Some a \<Rightarrow> Some (put_ids (specs_of k (P a)) Map.empty))
    \<and> sh_by_key (fold (add_profile P) xs s0) k pid = (case find (\<lambda>a. pf_id (P a) = pid) xs of
      None \<Rightarrow> sh_by_key s0 k pid | Some a \<Rightarrow> Some (put_keys (specs_of k (P a)) Map.empty))"
  using assms
proof (induction xs arbitrary: s0)
  case (Cons x xs)
  let ?s = "add_profile P x s0"
  have x: "sh_by_id ?s k = (sh_by_id s0 k)(pf_id (P x) \<mapsto> put_ids (specs_of k (P x)) Map.empty)"
    "sh_by_key ?s k = (sh_by_key s0 k)(pf_id (P x) \<mapsto> put_keys (specs_of k (P x)) Map.empty)"
    using Cons.prems(1,3) by (auto simp: add_profile_def valid_profile_def sub_map_def Let_def)
  have "\<forall>a \<in> set xs. sh_by_id ?s k (pf_id (P a)) = None \<and> sh_by_key ?s k (pf_id (P a)) = None"
    using Cons.prems(2,3) unfolding x by (auto simp: image_iff)
  from Cons.IH [OF _ _ this] Cons.prems(1,2)
  have ih: "sh_by_id (fold (add_profile P) xs ?s) k pid = (case find (\<lambda>a. pf_id (P a) = pid) xs of
      None \<Rightarrow> sh_by_id ?s k pid | Some a \<Rightarrow> Some (put_ids (specs_of k (P a)) Map.empty))"
    "sh_by_key (fold (add_profile P) xs ?s) k pid = (case find (\<lambda>a. pf_id (P a) = pid) xs of
      None \<Rightarrow> sh_by_key ?s k pid | Some a \<Rightarrow> Some (put_keys (specs_of k (P a)) Map.empty))"
    by simp_all
  show ?case
  proof (cases "pf_id (P x) = pid")
    case True
    then have "find (\<lambda>a. pf_id (P a) = pid) xs = None"
      using Cons.prems(2) by (auto simp: find_None_iff image_iff)
    with True show ?thesis by (simp add: ih) (simp add: x)
  next
    case False
    then have "sh_by_id ?s k pid = sh_by_id s0 k pid" "sh_by_key ?s k pid = sh_by_key s0 k pid" by (simp_all add: x)
    with False show ?thesis by (cases "find (\<lambda>a. pf_id (P a) = pid) xs") (simp_all add: ih)
  qed
qed simp

lemma find_unique:
  "distinct (map f xs) \<Longrightarrow> find (\<lambda>a. f a = i) xs = Some a \<longleftrightarrow> a \<in> set xs \<and> f a = i"
proof (induction xs)
  case (Cons x xs)
  then show ?case by (auto simp: image_iff)
qed simp

lemma built_exact:
  assumes "registry_ok P s"
  shows "(case sh_by_id (build_snapshot P s) k pid of None \<Rightarrow> None | Some m \<Rightarrow> m i) = Some x
      \<longleftrightarrow> (\<exists>a \<in> set (pr_profiles s). pf_id (P a) = pid \<and> x \<in> set (specs_of k (P a)) \<and> ps_id x = i)"
    and "(case sh_by_key (build_snapshot P s) k pid of None \<Rightarrow> None | Some m \<Rightarrow> m key) = Some x
      \<longleftrightarrow> (\<exists>a \<in> set (pr_profiles s). pf_id (P a) = pid \<and> x \<in> set (specs_of k (P a)) \<and> ps_key x = key)"
proof -
  have ok: "\<forall>a \<in> set (pr_profiles s). valid_profile (P a)" "distinct (map (pf_id \<circ> P) (pr_profiles s))"
    using assms by (simp_all add: registry_ok_def)
  have sh: "sh_by_id (build_snapshot P s) k pid = map_option (\<lambda>a. put_ids (specs_of k (P a)) Map.empty)
      (find (\<lambda>a. pf_id (P a) = pid) (pr_profiles s))"
    "sh_by_key (build_snapshot P s) k pid = map_option (\<lambda>a. put_keys (specs_of k (P a)) Map.empty)
      (find (\<lambda>a. pf_id (P a) = pid) (pr_profiles s))"
    using snapshot_fold [OF ok, of "empty_snapshot\<lparr>sh_generation := pr_generation s\<rparr>" k pid]
    by (auto simp: build_snapshot_def empty_snapshot_def split: option.splits)
  have found: "find (\<lambda>a. pf_id (P a) = pid) (pr_profiles s) = Some a \<longleftrightarrow> a \<in> set (pr_profiles s) \<and> pf_id (P a) = pid" for a
    using find_unique [OF ok(2), of pid a] by simp
  have exact: "put_ids (specs_of k (P a)) Map.empty i = Some x \<longleftrightarrow> x \<in> set (specs_of k (P a)) \<and> ps_id x = i"
    "put_keys (specs_of k (P a)) Map.empty key = Some x \<longleftrightarrow> x \<in> set (specs_of k (P a)) \<and> ps_key x = key"
    if "a \<in> set (pr_profiles s)" for a
    using valid_kind [of "P a" k] ok(1) that by (auto simp: put_ids_exact put_keys_exact)
  show "(case sh_by_id (build_snapshot P s) k pid of None \<Rightarrow> None | Some m \<Rightarrow> m i) = Some x
      \<longleftrightarrow> (\<exists>a \<in> set (pr_profiles s). pf_id (P a) = pid \<and> x \<in> set (specs_of k (P a)) \<and> ps_id x = i)"
  proof (cases "find (\<lambda>a. pf_id (P a) = pid) (pr_profiles s)")
    case None
    then have "\<forall>a \<in> set (pr_profiles s). pf_id (P a) \<noteq> pid" by (auto simp: find_None_iff)
    with None show ?thesis by (simp add: sh)
  next
    case (Some a)
    then have "a \<in> set (pr_profiles s)" "pf_id (P a) = pid" using found by simp_all
    moreover have "\<forall>b \<in> set (pr_profiles s). pf_id (P b) = pid \<longrightarrow> b = a"
    proof (intro ballI impI)
      fix b assume "b \<in> set (pr_profiles s)" "pf_id (P b) = pid"
      then have "find (\<lambda>a. pf_id (P a) = pid) (pr_profiles s) = Some b" using found by simp
      with Some show "b = a" by simp
    qed
    ultimately have "(\<exists>a \<in> set (pr_profiles s). pf_id (P a) = pid \<and> x \<in> set (specs_of k (P a)) \<and> ps_id x = i)
        \<longleftrightarrow> x \<in> set (specs_of k (P a)) \<and> ps_id x = i"
      by blast
    with Some exact(1) [OF \<open>a \<in> set (pr_profiles s)\<close>] show ?thesis by (simp add: sh)
  qed
  show "(case sh_by_key (build_snapshot P s) k pid of None \<Rightarrow> None | Some m \<Rightarrow> m key) = Some x
      \<longleftrightarrow> (\<exists>a \<in> set (pr_profiles s). pf_id (P a) = pid \<and> x \<in> set (specs_of k (P a)) \<and> ps_key x = key)"
  proof (cases "find (\<lambda>a. pf_id (P a) = pid) (pr_profiles s)")
    case None
    then have "\<forall>a \<in> set (pr_profiles s). pf_id (P a) \<noteq> pid" by (auto simp: find_None_iff)
    with None show ?thesis by (simp add: sh)
  next
    case (Some a)
    then have "a \<in> set (pr_profiles s)" "pf_id (P a) = pid" using found by simp_all
    moreover have "\<forall>b \<in> set (pr_profiles s). pf_id (P b) = pid \<longrightarrow> b = a"
    proof (intro ballI impI)
      fix b assume "b \<in> set (pr_profiles s)" "pf_id (P b) = pid"
      then have "find (\<lambda>a. pf_id (P a) = pid) (pr_profiles s) = Some b" using found by simp
      with Some show "b = a" by simp
    qed
    ultimately have "(\<exists>a \<in> set (pr_profiles s). pf_id (P a) = pid \<and> x \<in> set (specs_of k (P a)) \<and> ps_key x = key)
        \<longleftrightarrow> x \<in> set (specs_of k (P a)) \<and> ps_key x = key"
      by blast
    with Some exact(2) [OF \<open>a \<in> set (pr_profiles s)\<close>] show ?thesis by (simp add: sh)
  qed
qed

section \<open>Every operation keeps the registry exact\<close>

lemma new_registry_ok: "registry_ok P new_registry"
  by (simp add: registry_ok_def new_registry_def)

lemma register_ok: "registry_ok P s \<Longrightarrow> wp (registerProfile P x) (\<lambda>_. registry_ok P) s"
proof (cases x)
  case (Some a)
  assume ok: "registry_ok P s"
  show ?thesis
  proof (cases "pf_name (P a)")
    case None
    with Some ok show ?thesis by (simp add: registerProfile_def wp_rules)
  next
    case (Some name)
    let ?t = "s\<lparr>pr_profiles := pr_profiles s @ [a], pr_by_id := (pr_by_id s)(pf_id (P a) \<mapsto> a),
      pr_by_name := (pr_by_name s)(name \<mapsto> a), pr_generation := pr_generation s + 1, pr_cache_valid := False\<rparr>"
    have "registry_ok P ?t" if new: "pf_id (P a) \<noteq> kProfileUnknown" "name \<noteq> []" "validateProfileDefinition (P a)"
      "a \<notin> set (pr_profiles s)" "pr_by_id s (pf_id (P a)) = None \<or> pr_by_id s (pf_id (P a)) = Some a"
      "pr_by_name s name = None \<or> pr_by_name s name = Some a"
    proof -
      have index: "\<forall>b \<in> set (pr_profiles s). pr_by_id s (pf_id (P b)) = Some b"
        "\<And>b n. b \<in> set (pr_profiles s) \<Longrightarrow> pf_name (P b) = Some n \<Longrightarrow> pr_by_name s n = Some b"
        using ok by (simp_all add: registry_ok_def)
      have free: "\<forall>b \<in> set (pr_profiles s). pf_id (P b) \<noteq> pf_id (P a)" "\<forall>b \<in> set (pr_profiles s). pf_name (P b) \<noteq> Some name"
        using new(4-6) index by force+
      have "valid_profile (P a)" using new Some by (simp add: valid_profile_def)
      then show ?thesis using ok free new(4) Some by (auto simp: registry_ok_def image_iff)
    qed
    with \<open>x = Some a\<close> Some ok show ?thesis
      by (auto simp: registerProfile_def wp_rules split: option.splits)
  qed
qed (simp add: registerProfile_def wp_rules)

lemma snapshot_ok:
  "registry_ok P s \<Longrightarrow> wp (snapshot P) (\<lambda>sh t. sh = build_snapshot P s \<and> registry_ok P t \<and> pr_profiles t = pr_profiles s) s"
  by (auto simp: snapshot_def rebuildSnapshotCache_def wp_rules registry_ok_def build_snapshot_def)

inductive registry_reach :: "profiles \<Rightarrow> ProfileRegistry \<Rightarrow> bool" for P where
  start: "registry_reach P new_registry"
| register: "registry_reach P s \<Longrightarrow> run_state (registerProfile P x) s = (b, t) \<Longrightarrow> registry_reach P t"
| lookup: "registry_reach P s \<Longrightarrow> run_state (snapshot P) s = (sh, t) \<Longrightarrow> registry_reach P t"

lemma reach_ok: "registry_reach P s \<Longrightarrow> registry_ok P s"
proof (induction rule: registry_reach.induct)
  case start
  show ?case by (rule new_registry_ok)
next
  case (register s x b t)
  then show ?case using wp_run [OF register_ok] by blast
next
  case (lookup s sh t)
  then show ?case using wp_run [OF snapshot_ok] by blast
qed

lemma registered_id:
  "registry_ok P s \<Longrightarrow> a \<in> set (pr_profiles s) \<Longrightarrow> x \<in> set (specs_of k (P a)) \<Longrightarrow>
   pf_id (P a) \<noteq> kProfileUnknown \<and> ps_id x \<noteq> 0 \<and> ps_key x \<noteq> []"
  using valid_kind [of "P a" k] by (auto simp: registry_ok_def valid_profile_def)

lemma registered_valid:
  "registry_ok P s \<Longrightarrow> a \<in> set (pr_profiles s) \<Longrightarrow> valid_profile (P a)"
  by (simp add: registry_ok_def)

text \<open>
  C27. Whatever the order in which profiles are registered and looked up, resolving an entry by its id or
  by its key finds exactly the entry of that kind that the registered profile of that id lists, and
  the lookup of a profile by id or name finds exactly the registered one. The cached snapshot is never
  seen stale.
\<close>

theorem profile_resolution_exact:
  assumes "registry_reach P s"
  shows "(fst (run_state (resolve_id P k pid i) s) = Some x \<longleftrightarrow>
      (\<exists>a \<in> set (pr_profiles s). pf_id (P a) = pid \<and> x \<in> set (specs_of k (P a)) \<and> ps_id x = i))
    \<and> (fst (run_state (resolve_key P k pid key) s) = Some x \<longleftrightarrow>
      (\<exists>a \<in> set (pr_profiles s). pf_id (P a) = pid \<and> x \<in> set (specs_of k (P a)) \<and> ps_key x = key))
    \<and> (findProfile pid s = Some a \<longleftrightarrow> a \<in> set (pr_profiles s) \<and> pf_id (P a) = pid)
    \<and> (findByName name s = Some a \<longleftrightarrow> a \<in> set (pr_profiles s) \<and> pf_name (P a) = Some name)"
proof (intro conjI)
  have ok: "registry_ok P s" using assms by (rule reach_ok)
  obtain t where snap: "run_state (snapshot P) s = (build_snapshot P s, t)"
    using wp_run [OF snapshot_ok [OF ok]] by (metis surj_pair)
  show "fst (run_state (resolve_id P k pid i) s) = Some x \<longleftrightarrow>
      (\<exists>a \<in> set (pr_profiles s). pf_id (P a) = pid \<and> x \<in> set (specs_of k (P a)) \<and> ps_id x = i)"
    using built_exact(1) [OF ok, where k = k and pid = pid and i = i and x = x] registered_id [OF ok] snap
    by (auto simp: resolve_id_def State_Monad.bind_def)
  show "fst (run_state (resolve_key P k pid key) s) = Some x \<longleftrightarrow>
      (\<exists>a \<in> set (pr_profiles s). pf_id (P a) = pid \<and> x \<in> set (specs_of k (P a)) \<and> ps_key x = key)"
    using built_exact(2) [OF ok, where k = k and pid = pid and key = key and x = x] registered_id [OF ok] snap
    by (auto simp: resolve_key_def State_Monad.bind_def)
  show "findProfile pid s = Some a \<longleftrightarrow> a \<in> set (pr_profiles s) \<and> pf_id (P a) = pid"
    "findByName name s = Some a \<longleftrightarrow> a \<in> set (pr_profiles s) \<and> pf_name (P a) = Some name"
    using ok by (auto simp: findProfile_def findByName_def registry_ok_def)
qed

lemma pms_valid [simp]: "validateProfileDefinition g_pms_profile"
  by (simp add: validateProfileDefinition_def g_pms_profile_def kCodecIdDefault_def isBuiltInCodecId_def)

lemma relay_valid [simp]: "validateProfileDefinition g_relay_profile"
  by (simp add: validateProfileDefinition_def g_relay_profile_def kCodecIdDefault_def isBuiltInCodecId_def)

lemma sens_valid [simp]: "validateProfileDefinition g_sens_profile"
  by (simp add: validateProfileDefinition_def g_sens_profile_def kCodecIdDefault_def isBuiltInCodecId_def)

lemma semu_valid [simp]: "validateProfileDefinition g_semu_profile"
  by (simp add: validateProfileDefinition_def g_semu_profile_def kCodecIdDefault_def isBuiltInCodecId_def)

lemma remu_valid [simp]: "validateProfileDefinition g_remu_profile"
  by (simp add: validateProfileDefinition_def g_remu_profile_def kCodecIdDefault_def isBuiltInCodecId_def)

lemma lock_alarm_valid [simp]: "validateProfileDefinition g_lock_alarm_profile"
  by (simp add: validateProfileDefinition_def g_lock_alarm_profile_def kCodecIdDefault_def isBuiltInCodecId_def)

lemma built_in_heads:
  "map (pf_id \<circ> built_in_profiles) [0, 1, 2, 3, 4, 5] = [1, 2, 3, 4, 5, 6]"
  "map (pf_name \<circ> built_in_profiles) [0, 1, 2, 3, 4, 5]
     = [Some ''PMS'', Some ''RELAY'', Some ''SENS'', Some ''SEMU'', Some ''REMU'', Some ''LOCK_ALARM'']"
  by (simp_all add: built_in_profiles_def g_pms_profile_def g_relay_profile_def g_sens_profile_def g_semu_profile_def
    g_remu_profile_def g_lock_alarm_profile_def kProfileUnknown_def kProfilePms_def kProfileRelay_def kProfileSens_def kProfileSemu_def kProfileRemu_def kProfileLockAlarm_def)

text \<open>All six built-in profiles are well formed and no two clash: all are registered.\<close>

lemma built_ins_registered: "pr_profiles (snd (run_state registerBuiltInProfiles new_registry)) = [0, 1, 2, 3, 4, 5]"
proof -
  have valid: "validateProfileDefinition (built_in_profiles a)" for a
    by (simp add: built_in_profiles_def)
  show ?thesis using built_in_heads valid
    by (simp add: registerBuiltInProfiles_def registerProfile_def new_registry_def State_Monad.bind_def kProfileUnknown_def)
qed

lemma profile_resolution_exact_witness:
  "fst (run_state (resolveTelemetryById built_in_profiles kProfileSens 10)
     (snd (run_state (registerProfile built_in_profiles (Some 2)) new_registry))) = Some (ProfileSpec 10 ''lux'')"
proof -
  let ?s = "snd (run_state (registerProfile built_in_profiles (Some 2)) new_registry)"
  have two: "built_in_profiles 2 = g_sens_profile" by (simp add: built_in_profiles_def)
  have "registry_reach built_in_profiles ?s"
    by (rule registry_reach.register [OF registry_reach.start]) (rule prod.collapse [symmetric])
  moreover have "pr_profiles ?s = [2]"
    using sens_valid by (simp add: registerProfile_def new_registry_def two g_sens_profile_def kProfileSens_def
      kProfileUnknown_def State_Monad.bind_def)
  ultimately show ?thesis
    unfolding resolveTelemetryById_def
    using profile_resolution_exact [of built_in_profiles ?s Telemetry kProfileSens 10 "ProfileSpec 10 ''lux''"]
    by (simp add: two g_sens_profile_def)
qed

end
