(* ===== verification/LogStore.thy ===== *)
theory LogStore
  imports Environment "HOL-Library.Sublist"
begin

text \<open>
  The persistent log: \<open>src/platform/library_logger.cpp\<close> and \<open>log_storage.cpp\<close>. A logger encodes records and
  appends them to a store, a file of bounded size that starts over when it is full. The backend of the
  store is a parameter: programs over a state of its own (theory LogBackend has those of the
  repository). The store is a member of the logger here; \<open>ll_attached\<close> says whether the logger has one.
  What the file holds is shown for any backend that appends at least a part of the data, at the end
  of the file or to an emptied one, and says whether it was all of it.
\<close>

section \<open>Data\<close>

record LogStoreConfig =
  lc_log_path :: string
  lc_index_path :: string
  lc_max_bytes :: u32

record LogStorageStats =
  lst_available :: bool
  lst_bytes_used :: u32
  lst_bytes_dropped :: u32
  lst_records_appended :: u32
  lst_rotations :: u32

definition no_stats :: LogStorageStats where
  "no_stats = \<lparr>lst_available = False, lst_bytes_used = 0, lst_bytes_dropped = 0, lst_records_appended = 0, lst_rotations = 0\<rparr>"

record 'b log_backend =
  lb_begin :: "('b, bool) state"
  lb_read :: "string \<Rightarrow> u32 \<Rightarrow> nat \<Rightarrow> ('b, bool \<times> bytes) state"
  lb_append :: "string \<Rightarrow> bytes \<Rightarrow> ('b, bool) state"
  lb_size :: "string \<Rightarrow> ('b, bool \<times> u32) state"
  lb_truncate :: "string \<Rightarrow> ('b, bool) state"

record 'b logger =
  ll_backend :: 'b
  ll_config :: LogStoreConfig
  ll_stats :: LogStorageStats
  ll_attached :: bool
  ll_enabled :: bool
  ll_min_level :: LibraryLogLevel
  ll_last_sequence :: u32

type_synonym ('b, 'a) logm = "('b logger, 'a) state"

definition in_backend :: "('b, 'a) state \<Rightarrow> ('b, 'a) logm" where
  "in_backend m = State (\<lambda>s. case run_state m (ll_backend s) of (a, b) \<Rightarrow> (a, s\<lparr>ll_backend := b\<rparr>))"

section \<open>The store\<close>

definition log_path :: "('b, string) logm" where
  "log_path = gets (\<lambda>s. lc_log_path (ll_config s))"

definition refreshSize :: "'b log_backend \<Rightarrow> ('b, bool) logm" where
  "refreshSize B = do {
     path \<leftarrow> log_path;
     r \<leftarrow> in_backend (lb_size B path);
     _ \<leftarrow> modify (\<lambda>s. s\<lparr>ll_stats := (ll_stats s)\<lparr>lst_bytes_used := if fst r then snd r else 0\<rparr>\<rparr>);
     ret (fst r) }"

definition store_begin :: "'b log_backend \<Rightarrow> ('b, bool) logm" where
  "store_begin B = do {
     _ \<leftarrow> modify (\<lambda>s. s\<lparr>ll_stats := no_stats\<rparr>);
     ok \<leftarrow> in_backend (lb_begin B);
     _ \<leftarrow> modify (\<lambda>s. s\<lparr>ll_stats := (ll_stats s)\<lparr>lst_available := ok\<rparr>\<rparr>);
     if \<not> ok then ret False
     else do { _ \<leftarrow> refreshSize B; ret True } }"

text \<open>A full file is emptied first; the result is the size to append at, if that succeeds.\<close>

definition make_room :: "'b log_backend \<Rightarrow> string \<Rightarrow> u32 \<Rightarrow> u32 \<Rightarrow> u32 \<Rightarrow> ('b, u32 option) logm" where
  "make_room B path max_bytes current len =
     (if current + len > max_bytes then do {
        ok \<leftarrow> in_backend (lb_truncate B path);
        if \<not> ok then ret None
        else do {
          _ \<leftarrow> modify (\<lambda>s. s\<lparr>ll_stats := (ll_stats s)\<lparr>lst_bytes_dropped := lst_bytes_dropped (ll_stats s) + current,
            lst_rotations := lst_rotations (ll_stats s) + 1\<rparr>\<rparr>);
          ret (Some 0) } }
      else ret (Some current))"

definition store_append :: "'b log_backend \<Rightarrow> buf \<Rightarrow> ('b, bool) logm" where
  "store_append B data = do {
     available \<leftarrow> gets (\<lambda>s. lst_available (ll_stats s));
     max_bytes \<leftarrow> gets (\<lambda>s. lc_max_bytes (ll_config s));
     path \<leftarrow> log_path;
     case data of
       None \<Rightarrow> ret False
     | Some bytes \<Rightarrow>
         if \<not> available \<or> bytes = [] then ret False
         else if length bytes > unat max_bytes then ret False
         else do {
           sz \<leftarrow> in_backend (lb_size B path);
           if \<not> fst sz then ret False
           else do {
             room \<leftarrow> make_room B path max_bytes (snd sz) (of_nat (length bytes));
             case room of
               None \<Rightarrow> ret False
             | Some current \<Rightarrow> do {
                 ok \<leftarrow> in_backend (lb_append B path bytes);
                 if \<not> ok then ret False
                 else do {
                   _ \<leftarrow> modify (\<lambda>s. s\<lparr>ll_stats := (ll_stats s)\<lparr>lst_records_appended := lst_records_appended (ll_stats s) + 1,
                     lst_bytes_used := min max_bytes (current + of_nat (length bytes))\<rparr>\<rparr>);
                   ret True } } } } }"

definition store_readChunk :: "'b log_backend \<Rightarrow> u32 \<Rightarrow> nat \<Rightarrow> ('b, bool \<times> bytes \<times> u32) logm" where
  "store_readChunk B offset max_len = do {
     available \<leftarrow> gets (\<lambda>s. lst_available (ll_stats s));
     path \<leftarrow> log_path;
     if \<not> available \<or> max_len = 0 then ret (False, [], 0)
     else do {
       sz \<leftarrow> in_backend (lb_size B path);
       if \<not> fst sz then ret (False, [], 0)
       else if offset \<ge> snd sz then ret (True, [], snd sz)
       else do {
         r \<leftarrow> in_backend (lb_read B path offset max_len);
         ret (fst r, snd r, snd sz) } } }"

definition store_clear :: "'b log_backend \<Rightarrow> ('b, bool) logm" where
  "store_clear B = do {
     available \<leftarrow> gets (\<lambda>s. lst_available (ll_stats s));
     path \<leftarrow> log_path;
     if \<not> available then ret False
     else do {
       ok \<leftarrow> in_backend (lb_truncate B path);
       if \<not> ok then ret False
       else do { _ \<leftarrow> modify (\<lambda>s. s\<lparr>ll_stats := (ll_stats s)\<lparr>lst_bytes_used := 0\<rparr>\<rparr>); ret True } } }"

definition store_stats :: "'b log_backend \<Rightarrow> ('b, LogStorageStats) logm" where
  "store_stats B = do {
     st \<leftarrow> gets ll_stats;
     path \<leftarrow> log_path;
     if \<not> lst_available st then ret st
     else do {
       sz \<leftarrow> in_backend (lb_size B path);
       ret (if fst sz then st\<lparr>lst_bytes_used := snd sz\<rparr> else st) } }"

definition setMaxBytes :: "u32 \<Rightarrow> ('b, unit) logm" where
  "setMaxBytes n = whenM (n \<noteq> 0) (modify (\<lambda>s. s\<lparr>ll_config := (ll_config s)\<lparr>lc_max_bytes := n\<rparr>\<rparr>))"

section \<open>The logger\<close>

fun level_code :: "LibraryLogLevel \<Rightarrow> u8" where
  "level_code LogError = 0"
| "level_code LogWarn = 1"
| "level_code LogInfo = 2"
| "level_code LogDebug = 3"

definition kLogMagic :: u16 where "kLogMagic = 0x454C"
definition kLogVersion :: u8 where "kLogVersion = 1"

definition attachStore :: "bool \<Rightarrow> ('b, unit) logm" where
  "attachStore b = modify (\<lambda>s. s\<lparr>ll_attached := b\<rparr>)"

definition setLogEnabled :: "bool \<Rightarrow> ('b, unit) logm" where
  "setLogEnabled b = modify (\<lambda>s. s\<lparr>ll_enabled := b\<rparr>)"

definition setMinLevel :: "LibraryLogLevel \<Rightarrow> ('b, unit) logm" where
  "setMinLevel l = modify (\<lambda>s. s\<lparr>ll_min_level := l\<rparr>)"

definition shouldStore :: "LibraryLogLevel \<Rightarrow> 'b logger \<Rightarrow> bool" where
  "shouldStore l s \<longleftrightarrow> level_code l \<le> level_code (ll_min_level s)"

definition encode_head :: "LibraryLogRecord \<Rightarrow> u32 \<Rightarrow> bytes" where
  "encode_head r seq = appendLe16 kLogMagic @ [kLogVersion, level_code (lr_level r)] @ appendLe16 (lr_source_id r)
     @ appendLe16 (lr_event_id r) @ appendLe32 seq @ appendLe32 (lr_epoch_s r) @ appendLe32 (lr_uptime_ms r)
     @ appendLe32 (lr_p0 r) @ appendLe32 (lr_p1 r) @ appendLe32 (lr_p2 r)
     @ of_nat (min (length (lr_ext r)) 255) # take 255 (lr_ext r)"

definition encodeRecord :: "LibraryLogRecord \<Rightarrow> u32 \<Rightarrow> bytes" where
  "encodeRecord r seq = encode_head r seq @ appendLe16 (crc16CcittFalse (encode_head r seq))"

definition logger_log :: "'b log_backend \<Rightarrow> LibraryLogRecord \<Rightarrow> ('b, bool) logm" where
  "logger_log B r = do {
     enabled \<leftarrow> gets ll_enabled;
     stored \<leftarrow> gets (shouldStore (lr_level r));
     attached \<leftarrow> gets ll_attached;
     if \<not> enabled then ret True
     else if \<not> stored then ret True
     else if \<not> attached then ret False
     else do {
       seq \<leftarrow> gets (\<lambda>s. ll_last_sequence s + 1);
       ok \<leftarrow> store_append B (Some (encodeRecord r seq));
       if \<not> ok then ret False
       else do { _ \<leftarrow> modify (\<lambda>s. s\<lparr>ll_last_sequence := seq\<rparr>); ret True } } }"

definition logger_readChunk :: "'b log_backend \<Rightarrow> u32 \<Rightarrow> nat \<Rightarrow> ('b, bool \<times> bytes \<times> u32) logm" where
  "logger_readChunk B offset max_len = do {
     attached \<leftarrow> gets ll_attached;
     if \<not> attached then ret (False, [], 0) else store_readChunk B offset max_len }"

definition logger_clear :: "'b log_backend \<Rightarrow> ('b, bool) logm" where
  "logger_clear B = do {
     attached \<leftarrow> gets ll_attached;
     if \<not> attached then ret False
     else do {
       _ \<leftarrow> modify (\<lambda>s. s\<lparr>ll_last_sequence := 0\<rparr>);
       store_clear B } }"

definition logger_stats :: "'b log_backend \<Rightarrow> ('b, bool \<times> LogStorageStats) logm" where
  "logger_stats B = do {
     attached \<leftarrow> gets ll_attached;
     if \<not> attached then ret (False, no_stats)
     else do { st \<leftarrow> store_stats B; ret (True, st) } }"

section \<open>What a backend may do\<close>

text \<open>
  \<open>content b\<close> is the content of the log file. An append writes some first part of the data, at the end
  of the file or, after having emptied it, at its start, and reports whether that was all of the
  data; a truncation that reports failure may or may not have emptied the file.
\<close>

definition file_backend :: "'b log_backend \<Rightarrow> string \<Rightarrow> ('b \<Rightarrow> bytes) \<Rightarrow> bool" where
  "file_backend B path content \<longleftrightarrow> (\<forall>b.
     wp (lb_size B path) (\<lambda>r b'. content b' = content b \<and> (fst r \<longrightarrow> snd r = of_nat (length (content b)))) b
   \<and> (\<forall>off n. wp (lb_read B path off n) (\<lambda>_ b'. content b' = content b) b)
   \<and> (\<forall>data. data \<noteq> [] \<longrightarrow> wp (lb_append B path data) (\<lambda>ok b'. \<exists>base k. content b' = base @ take k data
        \<and> (base = content b \<or> base = []) \<and> (ok \<longleftrightarrow> length data \<le> k)) b)
   \<and> wp (lb_truncate B path) (\<lambda>ok b'. content b' = [] \<or> \<not> ok \<and> content b' = content b) b)"

definition log_file :: "('b \<Rightarrow> bytes) \<Rightarrow> 'b logger \<Rightarrow> bytes" where
  "log_file content s = content (ll_backend s)"

lemma wp_in_backend: "wp (in_backend m) Q s \<longleftrightarrow> wp m (\<lambda>a b. Q a (s\<lparr>ll_backend := b\<rparr>)) (ll_backend s)"
  by (simp add: in_backend_def wp_def split: prod.splits)

lemma length_record: "length (encodeRecord r q) = 35 + min (length (lr_ext r)) 255"
  by (simp add: encodeRecord_def encode_head_def length_appendLe16 length_appendLe32)

text \<open>The members that no operation on the file changes.\<close>

definition same_settings :: "'b logger \<Rightarrow> 'b logger \<Rightarrow> bool" where
  "same_settings s t \<longleftrightarrow> ll_config t = ll_config s \<and> ll_attached t = ll_attached s \<and> ll_enabled t = ll_enabled s
     \<and> ll_min_level t = ll_min_level s"

lemma same_settings_refl [simp]: "same_settings s s"
  by (simp add: same_settings_def)

lemma same_settings_steps [simp]:
  "same_settings s (t\<lparr>ll_backend := b\<rparr>) = same_settings s t" "same_settings s (t\<lparr>ll_stats := st\<rparr>) = same_settings s t"
  "same_settings s (t\<lparr>ll_last_sequence := q\<rparr>) = same_settings s t"
  by (simp_all add: same_settings_def)

lemma file_calls:
  assumes "file_backend B path content"
  shows "wp (lb_size B path) (\<lambda>r b'. content b' = content b \<and> (fst r \<longrightarrow> snd r = of_nat (length (content b)))) b"
    "wp (lb_read B path off n) (\<lambda>_ b'. content b' = content b) b"
    "data \<noteq> [] \<Longrightarrow> wp (lb_append B path data) (\<lambda>ok b'. \<exists>base k. content b' = base @ take k data
        \<and> (base = content b \<or> base = []) \<and> (ok \<longleftrightarrow> length data \<le> k)) b"
    "wp (lb_truncate B path) (\<lambda>ok b'. content b' = [] \<or> \<not> ok \<and> content b' = content b) b"
  using assms by (simp_all add: file_backend_def)

text \<open>
  What an append leaves: the file or nothing, followed by a part of the data, which is all of it if
  and only if the append reports success. Nothing is written that does not fit.
\<close>

definition appended :: "('b \<Rightarrow> bytes) \<Rightarrow> bytes \<Rightarrow> 'b logger \<Rightarrow> bool \<Rightarrow> 'b logger \<Rightarrow> bool" where
  "appended content data s ok t \<longleftrightarrow> same_settings s t \<and> ll_last_sequence t = ll_last_sequence s
     \<and> (\<exists>base k. log_file content t = base @ take k data \<and> (base = log_file content s \<or> base = [])
          \<and> (ok \<longleftrightarrow> length data \<le> k) \<and> (k = 0 \<or> length base + length data \<le> unat (lc_max_bytes (ll_config s))))"

lemma appended_nothing:
  "same_settings s t \<Longrightarrow> ll_last_sequence t = ll_last_sequence s \<Longrightarrow> data \<noteq> [] \<Longrightarrow>
   log_file content t = log_file content s \<or> log_file content t = [] \<Longrightarrow> appended content data s False t"
  unfolding appended_def
  by (intro conjI exI [of _ "log_file content t"] exI [of _ 0]) auto

lemma appended_part:
  assumes "same_settings s t" "ll_last_sequence t = ll_last_sequence s"
    and "log_file content t = base @ take k data" "base = log_file content s \<or> base = []"
    and "ok \<longleftrightarrow> length data \<le> k" "length base + length data \<le> unat (lc_max_bytes (ll_config s))"
  shows "appended content data s ok t"
  unfolding appended_def by (intro conjI exI [of _ base] exI [of _ k]) (use assms in auto)

lemma wp_append:
  assumes backend: "file_backend B path content"
    and "lc_log_path (ll_config s) = path" "length (log_file content s) < 2 ^ 31" "lc_max_bytes (ll_config s) < 2 ^ 31"
    and "length data < 2 ^ 30" "data \<noteq> []"
  shows "wp (store_append B (Some data)) (appended content data s) s"
proof -
  let ?n = "length (log_file content s)" and ?max = "lc_max_bytes (ll_config s)"
  have fits: "(of_nat ?n :: u32) + of_nat (length data) > ?max \<longleftrightarrow> \<not> ?n + length data \<le> unat ?max"
    using assms(3,5) by (simp add: word_less_nat_alt unat_word_ariths unat_of_nat not_le)
  have failed: "appended content data s False t"
    if "same_settings s t" "ll_last_sequence t = ll_last_sequence s" "log_file content t = log_file content s \<or> log_file content t = []" for t
    using that assms(6) by (intro appended_nothing) simp_all
  have grow: "wp (do {
      ok \<leftarrow> in_backend (lb_append B path data);
      if \<not> ok then ret False
      else do {
        _ \<leftarrow> modify (\<lambda>s. s\<lparr>ll_stats := f s\<rparr>);
        ret True } }) (appended content data s) t"
    if "same_settings s t" "ll_last_sequence t = ll_last_sequence s"
      "log_file content t = log_file content s \<or> log_file content t = []"
      "length (log_file content t) + length data \<le> unat ?max" for t f
  proof -
    note t = that
    have result: "appended content data s ok (t\<lparr>ll_backend := b\<rparr>) \<and> appended content data s ok (t\<lparr>ll_backend := b, ll_stats := g\<rparr>)"
      if part: "\<exists>base k. content b = base @ take k data \<and> (base = log_file content t \<or> base = []) \<and> (ok \<longleftrightarrow> length data \<le> k)" for ok b g
    proof -
      from part obtain base k where b: "content b = base @ take k data" "base = log_file content t \<or> base = []"
        "ok \<longleftrightarrow> length data \<le> k" by blast
      have "base = log_file content s \<or> base = []" "length base + length data \<le> unat ?max"
        using b(2) t(3,4) by auto
      then show ?thesis
        using b(1,3) t(1,2) by (intro conjI appended_part [of s _ content base k]) (simp_all add: log_file_def)
    qed
    show ?thesis
      unfolding wp_bind wp_in_backend
      by (rule wp_mono [OF file_calls(3) [OF backend assms(6)]], drule result [unfolded log_file_def, where g = "f (t\<lparr>ll_backend := b\<rparr>)" for b])
         (auto simp: wp_rules)
  qed
  have room: "wp (make_room B path ?max (of_nat ?n) (of_nat (length data))) R t"
    if t: "same_settings s t" "ll_last_sequence t = ll_last_sequence s" "log_file content t = log_file content s"
      "length data \<le> unat ?max"
      and none: "\<And>u. same_settings s u \<Longrightarrow> ll_last_sequence u = ll_last_sequence s \<Longrightarrow>
        log_file content u = log_file content s \<or> log_file content u = [] \<Longrightarrow> R None u"
      and some: "\<And>c u. same_settings s u \<Longrightarrow> ll_last_sequence u = ll_last_sequence s \<Longrightarrow>
        log_file content u = log_file content s \<or> log_file content u = [] \<Longrightarrow>
        length (log_file content u) + length data \<le> unat ?max \<Longrightarrow> R (Some c) u"
    for R t
    using t unfolding make_room_def fits
    by (auto simp: wp_in_backend wp_rules log_file_def intro!: wp_mono [OF file_calls(4) [OF backend]] none some)
  show ?thesis
    unfolding store_append_def log_path_def
    apply (simp add: wp_bind wp_gets assms(2) wp_if wp_ret failed)
    apply (intro impI)
    apply (unfold wp_in_backend)
    apply (rule wp_mono [OF file_calls(1) [OF backend]])
    apply (simp add: wp_ret)
    apply (intro conjI impI)
    subgoal by (rule failed) (simp_all add: log_file_def)
    subgoal for sz b
      unfolding wp_bind
      by (simp only: assms(2), rule room [unfolded log_file_def]) (auto simp: log_file_def wp_ret intro!: failed grow)
    done
qed

section \<open>What the file holds\<close>

datatype log_op = OpLog LibraryLogRecord | OpClear | OpEnable bool | OpLevel LibraryLogLevel | OpRead u32 nat | OpStats

text \<open>A step and a run, with the records logged and whether logging them succeeded.\<close>

fun log_step :: "'b log_backend \<Rightarrow> log_op \<Rightarrow> ('b, (LibraryLogRecord \<times> bool) list) logm" where
  "log_step B (OpLog r) = do { ok \<leftarrow> logger_log B r; ret [(r, ok)] }"
| "log_step B OpClear = do { _ \<leftarrow> logger_clear B; ret [] }"
| "log_step B (OpEnable b) = do { _ \<leftarrow> setLogEnabled b; ret [] }"
| "log_step B (OpLevel l) = do { _ \<leftarrow> setMinLevel l; ret [] }"
| "log_step B (OpRead off n) = do { _ \<leftarrow> logger_readChunk B off n; ret [] }"
| "log_step B OpStats = do { _ \<leftarrow> logger_stats B; ret [] }"

fun log_run :: "'b log_backend \<Rightarrow> log_op list \<Rightarrow> ('b, (LibraryLogRecord \<times> bool) list) logm" where
  "log_run B [] = ret []"
| "log_run B (op # ops) = do { out \<leftarrow> log_step B op; outs \<leftarrow> log_run B ops; ret (out @ outs) }"

text \<open>The first \<open>k\<close> bytes of a record, written under the number \<open>q\<close>.\<close>

type_synonym log_part = "LibraryLogRecord \<times> u32 \<times> nat"

definition part_bytes :: "log_part \<Rightarrow> bytes" where
  "part_bytes = (\<lambda>(r, q, k). take k (encodeRecord r q))"

definition part_outcome :: "log_part \<Rightarrow> LibraryLogRecord \<times> bool" where
  "part_outcome = (\<lambda>(r, q, k). (r, part_bytes (r, q, k) = encodeRecord r q))"

text \<open>
  The file is what it was at the start, or nothing, followed by records in the order of logging, each
  whole if logging it succeeded and cut off if it failed.
\<close>

definition log_inv ::
  "('b \<Rightarrow> bytes) \<Rightarrow> string \<Rightarrow> u32 \<Rightarrow> bytes \<Rightarrow> (LibraryLogRecord \<times> bool) list \<Rightarrow> 'b logger \<Rightarrow> bool" where
  "log_inv content path mx f0 L s \<longleftrightarrow> lc_log_path (ll_config s) = path \<and> lc_max_bytes (ll_config s) = mx
     \<and> length (log_file content s) \<le> max (length f0) (unat mx)
     \<and> (\<exists>base ps. log_file content s = base @ concat (map part_bytes ps) \<and> (base = f0 \<or> base = [])
          \<and> subseq (map part_outcome ps) L)"

lemma log_inv_cong:
  "log_inv content path mx f0 L s \<Longrightarrow> ll_config t = ll_config s \<Longrightarrow> log_file content t = log_file content s
     \<Longrightarrow> log_inv content path mx f0 (L @ L') t"
  by (auto simp: log_inv_def intro: subseq_rev_drop_many)

lemma log_inv_empty:
  "log_inv content path mx f0 L s \<Longrightarrow> ll_config t = ll_config s \<Longrightarrow> log_file content t = []
     \<Longrightarrow> log_inv content path mx f0 (L @ L') t"
  by (auto simp: log_inv_def intro!: exI [of _ "[]"])

lemma part_whole: "part_outcome (r, q, k) = (r, length (encodeRecord r q) \<le> k)"
  by (simp add: part_outcome_def part_bytes_def)

lemma log_inv_append:
  assumes inv: "log_inv content path mx f0 L s" and app: "appended content (encodeRecord r q) s ok t"
  shows "log_inv content path mx f0 (L @ [(r, ok)]) t"
proof -
  from inv obtain base ps where s: "log_file content s = base @ concat (map part_bytes ps)" "base = f0 \<or> base = []"
    "subseq (map part_outcome ps) L" and cfg: "lc_log_path (ll_config s) = path" "lc_max_bytes (ll_config s) = mx"
    and size: "length (log_file content s) \<le> max (length f0) (unat mx)"
    unfolding log_inv_def by blast
  from app obtain pre k where t: "log_file content t = pre @ take k (encodeRecord r q)" "pre = log_file content s \<or> pre = []"
    "ok \<longleftrightarrow> length (encodeRecord r q) \<le> k" "k = 0 \<or> length pre + length (encodeRecord r q) \<le> unat mx"
    and same: "same_settings s t" unfolding appended_def cfg by blast
  have size_t: "length (log_file content t) \<le> max (length f0) (unat mx)"
    using t size by (auto simp: min_def)
  have last: "part_bytes (r, q, k) = take k (encodeRecord r q)" "part_outcome (r, q, k) = (r, ok)"
    using t(3) by (simp_all add: part_bytes_def part_whole)
  have "\<exists>base' ps'. log_file content t = base' @ concat (map part_bytes ps') \<and> (base' = f0 \<or> base' = [])
      \<and> subseq (map part_outcome ps') (L @ [(r, ok)])"
    using t(2)
  proof
    assume "pre = log_file content s"
    with s t(1) last show ?thesis
      by (intro exI [of _ base] exI [of _ "ps @ [(r, q, k)]"]) simp
  next
    assume "pre = []"
    with t(1) last show ?thesis
      by (intro exI [of _ "[]"] exI [of _ "[(r, q, k)]"]) (simp add: subseq_singleton_left)
  qed
  with size_t same cfg show ?thesis by (simp add: log_inv_def same_settings_def)
qed

lemma wp_logger_log:
  assumes backend: "file_backend B path content" and inv: "log_inv content path mx f0 L s"
    and "length f0 < 2 ^ 31" "mx < 2 ^ 31"
  shows "wp (logger_log B r) (\<lambda>ok. log_inv content path mx f0 (L @ [(r, ok)])) s"
proof -
  have s: "lc_log_path (ll_config s) = path" "lc_max_bytes (ll_config s) = mx" "length (log_file content s) < 2 ^ 31"
    using inv assms(3,4) by (auto simp: log_inv_def word_less_nat_alt)
  have keep: "log_inv content path mx f0 (L @ [(r, ok)]) s" for ok by (rule log_inv_cong [OF inv]) simp_all
  have "length (encodeRecord r q) < 2 ^ 30" "encodeRecord r q \<noteq> []" for q
    using length_record [of r q] by auto
  note append = wp_append [OF backend s(1,3) _ this]
  have sequence: "log_inv content path mx f0 L' (t\<lparr>ll_last_sequence := q\<rparr>) = log_inv content path mx f0 L' t" for L' t q
    by (simp add: log_inv_def log_file_def)
  have "wp (store_append B (Some (encodeRecord r q))) (\<lambda>ok. log_inv content path mx f0 (L @ [(r, ok)])) s" for q
    by (rule wp_mono [OF append]) (use s(2) assms(4) log_inv_append [OF inv] in auto)
  note logged = wp_mono [OF this]
  show ?thesis
    unfolding logger_log_def
    by (auto simp: wp_rules keep sequence intro!: logged)
qed

lemma wp_log_step:
  assumes backend: "file_backend B path content" and inv: "log_inv content path mx f0 L s"
    and "length f0 < 2 ^ 31" "mx < 2 ^ 31"
  shows "wp (log_step B op) (\<lambda>out. log_inv content path mx f0 (L @ out)) s"
proof -
  have path: "lc_log_path (ll_config s) = path" using inv by (simp add: log_inv_def)
  note keep = log_inv_cong [OF inv, where L' = "[]", simplified] and empty = log_inv_empty [OF inv, where L' = "[]", simplified]
  have either: "log_inv content path mx f0 L t" if "ll_config t = ll_config s" "log_file content t = log_file content s \<or> log_file content t = []" for t
    using that keep empty by blast
  note calls = wp_mono [OF file_calls(1) [OF backend]] wp_mono [OF file_calls(2) [OF backend]] wp_mono [OF file_calls(4) [OF backend]]
  show ?thesis
  proof (cases op)
    case (OpLog r)
    then show ?thesis by (auto simp: wp_bind wp_ret intro!: wp_mono [OF wp_logger_log [OF assms]])
  next
    case OpClear
    then show ?thesis
      by (auto simp: logger_clear_def store_clear_def log_path_def wp_rules wp_in_backend path log_file_def
        intro!: calls either)
  next
    case (OpRead off n)
    then show ?thesis
      by (auto simp: logger_readChunk_def store_readChunk_def log_path_def wp_rules wp_in_backend path log_file_def
        intro!: calls keep)
  next
    case OpStats
    then show ?thesis
      by (auto simp: logger_stats_def store_stats_def log_path_def wp_rules wp_in_backend path log_file_def
        intro!: calls keep)
  qed (auto simp: setLogEnabled_def setMinLevel_def wp_rules log_file_def intro!: keep)
qed

lemma wp_log_run:
  assumes "file_backend B path content" "log_inv content path mx f0 L s" "length f0 < 2 ^ 31" "mx < 2 ^ 31"
  shows "wp (log_run B ops) (\<lambda>out. log_inv content path mx f0 (L @ out)) s"
  using assms(2)
proof (induction ops arbitrary: L s)
  case Nil
  then show ?case by (simp add: wp_ret)
next
  case (Cons op ops)
  have "wp (do { outs \<leftarrow> log_run B ops; ret (out @ outs) }) (\<lambda>all. log_inv content path mx f0 (L @ all)) t"
    if "log_inv content path mx f0 (L @ out) t" for out t
    using wp_mono [OF Cons.IH [OF that]] by (simp add: wp_bind wp_ret)
  then show ?case
    unfolding log_run.simps wp_bind [of "log_step B op"]
    by (rule wp_mono [OF wp_log_step [OF assms(1) Cons.prems assms(3,4)]])
qed

text \<open>
  The members at the start satisfy the invariant; so a run gives the structure of the file.
\<close>

lemma log_run_inv:
  assumes "file_backend B (lc_log_path (ll_config s)) content"
    and "length (log_file content s) < 2 ^ 31" "lc_max_bytes (ll_config s) < 2 ^ 31"
    and "run_state (log_run B ops) s = (out, t)"
  shows "log_inv content (lc_log_path (ll_config s)) (lc_max_bytes (ll_config s)) (log_file content s) out t"
proof -
  have "log_inv content (lc_log_path (ll_config s)) (lc_max_bytes (ll_config s)) (log_file content s) [] s"
    unfolding log_inv_def by (intro conjI exI [of _ "log_file content s"] exI [of _ "[]"]) simp_all
  from wp_run [OF wp_log_run [OF assms(1) this assms(2,3)] assms(4)] show ?thesis by simp
qed

text \<open>A record that was logged with success is whole at the end of the file.\<close>

lemma logged_record_stored:
  assumes "file_backend B (lc_log_path (ll_config s)) content"
    and "length (log_file content s) < 2 ^ 31" "lc_max_bytes (ll_config s) < 2 ^ 31"
    and "ll_enabled s" "shouldStore (lr_level r) s" "run_state (logger_log B r) s = (True, t)"
  shows "\<exists>pre. log_file content t = pre @ encodeRecord r (ll_last_sequence s + 1)"
proof -
  have size: "length (encodeRecord r q) < 2 ^ 30" "encodeRecord r q \<noteq> []" for q
    using length_record [of r q] by auto
  let ?Q = "\<lambda>ok t. ok \<longrightarrow> (\<exists>pre. log_file content t = pre @ encodeRecord r (ll_last_sequence s + 1))"
  have "wp (store_append B (Some (encodeRecord r (ll_last_sequence s + 1)))) ?Q s"
    by (rule wp_mono [OF wp_append [OF assms(1) refl assms(2,3) size]]) (auto simp: appended_def)
  then have "wp (logger_log B r) ?Q s"
    unfolding logger_log_def using assms(4,5)
    by (auto simp: wp_rules log_file_def elim!: wp_mono)
  from wp_run [OF this assms(6)] show ?thesis by simp
qed

end
