(* ===== verification/LogBackend.thy ===== *)
theory LogBackend
  imports LogStore
begin

text \<open>
  The backends of the log store (\<open>src/platform/log_storage_arduino.cpp\<close>): one on SPIFFS, one that
  chooses between an SD card and SPIFFS. The Arduino file system is a parameter: programs over a state
  of its own. What the log file holds rests on what is documented of it: opening for reading or for
  appending changes nothing, opening for writing empties the file, and a write puts some first part of
  its data behind what is there and returns how much.
\<close>

section \<open>The file system\<close>

text \<open>
  Opening for reading gives the size of the file; the calls on an open file name it by its path. The
  argument of \<open>fo_mount\<close> tells whether to format a file system that cannot be mounted.
\<close>

record 'd fs_ops =
  fo_mount :: "bool \<Rightarrow> ('d, bool) state"
  fo_exists :: "string \<Rightarrow> ('d, bool) state"
  fo_remove :: "string \<Rightarrow> ('d, bool) state"
  fo_open_append :: "string \<Rightarrow> ('d, bool) state"
  fo_open_write :: "string \<Rightarrow> ('d, bool) state"
  fo_open_read :: "string \<Rightarrow> ('d, nat option) state"
  fo_seek :: "string \<Rightarrow> u32 \<Rightarrow> ('d, bool) state"
  fo_read :: "string \<Rightarrow> u32 \<Rightarrow> nat \<Rightarrow> ('d, bytes) state"
  fo_write :: "string \<Rightarrow> bytes \<Rightarrow> ('d, nat) state"

text \<open>The documented behaviour, for the file at a path with the content \<open>c\<close> (nothing if it is missing).\<close>

definition fs_law :: "'d fs_ops \<Rightarrow> string \<Rightarrow> ('d \<Rightarrow> bytes) \<Rightarrow> bool" where
  "fs_law F path c \<longleftrightarrow> (\<forall>d.
     wp (fo_exists F path) (\<lambda>there d'. c d' = c d \<and> (\<not> there \<longrightarrow> c d = [])) d
   \<and> wp (fo_open_append F path) (\<lambda>_ d'. c d' = c d) d
   \<and> wp (fo_open_write F path) (\<lambda>ok d'. c d' = [] \<or> \<not> ok \<and> c d' = c d) d
   \<and> wp (fo_open_read F path) (\<lambda>r d'. c d' = c d \<and> (\<forall>n. r = Some n \<longrightarrow> n = length (c d))) d
   \<and> (\<forall>off. wp (fo_seek F path off) (\<lambda>_ d'. c d' = c d) d)
   \<and> (\<forall>off n. wp (fo_read F path off n) (\<lambda>_ d'. c d' = c d) d)
   \<and> (\<forall>data. wp (fo_write F path data) (\<lambda>n d'. c d' = c d @ take n data \<and> n \<le> length data) d))"

section \<open>The operations both backends share\<close>

definition probe_path :: string where "probe_path = ''/.__enl_probe__''"

definition probeMounted :: "'d fs_ops \<Rightarrow> ('d, bool) state" where
  "probeMounted F = do {
     ok \<leftarrow> fo_open_append F probe_path;
     if \<not> ok then ret False else do { _ \<leftarrow> fo_remove F probe_path; ret True } }"

definition file_append :: "'d fs_ops \<Rightarrow> string \<Rightarrow> bytes \<Rightarrow> ('d, bool) state" where
  "file_append F path data = do {
     appending \<leftarrow> fo_open_append F path;
     opened \<leftarrow> (if appending then ret True else fo_open_write F path);
     if \<not> opened then ret False
     else do { written \<leftarrow> fo_write F path data; ret (written = length data) } }"

definition file_size :: "'d fs_ops \<Rightarrow> string \<Rightarrow> ('d, bool \<times> u32) state" where
  "file_size F path = do {
     there \<leftarrow> fo_exists F path;
     if \<not> there then ret (True, 0)
     else do {
       size \<leftarrow> fo_open_read F path;
       ret (case size of None \<Rightarrow> (False, 0) | Some n \<Rightarrow> (True, of_nat n)) } }"

definition file_truncate :: "'d fs_ops \<Rightarrow> string \<Rightarrow> ('d, bool) state" where
  "file_truncate F path = fo_open_write F path"

definition file_remove :: "'d fs_ops \<Rightarrow> string \<Rightarrow> ('d, bool) state" where
  "file_remove F path = do { there \<leftarrow> fo_exists F path; if \<not> there then ret True else fo_remove F path }"

section \<open>The SPIFFS backend\<close>

record 'd spiffs_log =
  sp_fs :: 'd
  sp_begun :: bool

definition in_spiffs :: "('d, 'a) state \<Rightarrow> ('d spiffs_log, 'a) state" where
  "in_spiffs m = State (\<lambda>s. case run_state m (sp_fs s) of (a, t) \<Rightarrow> (a, s\<lparr>sp_fs := t\<rparr>))"

definition spiffs_begin :: "'d fs_ops \<Rightarrow> bool \<Rightarrow> bool \<Rightarrow> ('d spiffs_log, bool) state" where
  "spiffs_begin F auto_mount format_on_fail = do {
     begun \<leftarrow> gets sp_begun;
     if begun then ret True
     else do {
       ok \<leftarrow> in_spiffs (if auto_mount then fo_mount F format_on_fail else probeMounted F);
       _ \<leftarrow> modify (\<lambda>s. s\<lparr>sp_begun := ok\<rparr>);
       ret ok } }"

text \<open>A read of nothing within the file is a failure.\<close>

definition spiffs_read :: "'d fs_ops \<Rightarrow> string \<Rightarrow> u32 \<Rightarrow> nat \<Rightarrow> ('d spiffs_log, bool \<times> bytes) state" where
  "spiffs_read F path offset max_len = do {
     begun \<leftarrow> gets sp_begun;
     if \<not> begun \<or> max_len = 0 then ret (False, [])
     else in_spiffs (do {
       size \<leftarrow> fo_open_read F path;
       case size of
         None \<Rightarrow> ret (False, [])
       | Some n \<Rightarrow>
           if unat offset \<ge> n then ret (True, [])
           else do {
             sought \<leftarrow> fo_seek F path offset;
             if \<not> sought then ret (False, [])
             else do {
               out \<leftarrow> fo_read F path offset max_len;
               ret (out \<noteq> [], out) } } }) }"

definition spiffs_append :: "'d fs_ops \<Rightarrow> string \<Rightarrow> bytes \<Rightarrow> ('d spiffs_log, bool) state" where
  "spiffs_append F path data = do {
     begun \<leftarrow> gets sp_begun;
     if \<not> begun \<or> data = [] then ret False else in_spiffs (file_append F path data) }"

definition spiffs_size :: "'d fs_ops \<Rightarrow> string \<Rightarrow> ('d spiffs_log, bool \<times> u32) state" where
  "spiffs_size F path = do { begun \<leftarrow> gets sp_begun; if \<not> begun then ret (False, 0) else in_spiffs (file_size F path) }"

definition spiffs_truncate :: "'d fs_ops \<Rightarrow> string \<Rightarrow> ('d spiffs_log, bool) state" where
  "spiffs_truncate F path = do { begun \<leftarrow> gets sp_begun; if \<not> begun then ret False else in_spiffs (file_truncate F path) }"

definition spiffs_remove :: "'d fs_ops \<Rightarrow> string \<Rightarrow> ('d spiffs_log, bool) state" where
  "spiffs_remove F path = do { begun \<leftarrow> gets sp_begun; if \<not> begun then ret False else in_spiffs (file_remove F path) }"

definition spiffs_backend :: "'d fs_ops \<Rightarrow> bool \<Rightarrow> bool \<Rightarrow> 'd spiffs_log log_backend" where
  "spiffs_backend F auto_mount format_on_fail = \<lparr>lb_begin = spiffs_begin F auto_mount format_on_fail,
     lb_read = spiffs_read F, lb_append = spiffs_append F, lb_size = spiffs_size F, lb_truncate = spiffs_truncate F\<rparr>"

section \<open>The selectable backend\<close>

datatype PreferredBackend = Spiffs | Sd

record 'd selectable_log =
  se_sd :: "'d option"
  se_spiffs :: "'d option"
  se_spiffs_is_default :: bool
  se_preferred :: PreferredBackend
  se_active :: PreferredBackend
  se_has_active :: bool
  se_begun :: bool

type_synonym ('d, 'a) sem = "('d selectable_log, 'a) state"

fun fs_of :: "PreferredBackend \<Rightarrow> 'd selectable_log \<Rightarrow> 'd option" where
  "fs_of Sd s = se_sd s"
| "fs_of Spiffs s = se_spiffs s"

fun put_fs :: "PreferredBackend \<Rightarrow> 'd \<Rightarrow> 'd selectable_log \<Rightarrow> 'd selectable_log" where
  "put_fs Sd f s = s\<lparr>se_sd := Some f\<rparr>"
| "put_fs Spiffs f s = s\<lparr>se_spiffs := Some f\<rparr>"

text \<open>A program on one of the two file systems; the value for a null pointer is given.\<close>

definition in_fs :: "PreferredBackend \<Rightarrow> 'a \<Rightarrow> ('d, 'a) state \<Rightarrow> ('d, 'a) sem" where
  "in_fs w none m = State (\<lambda>s. case fs_of w s of
     None \<Rightarrow> (none, s)
   | Some f \<Rightarrow> (case run_state m f of (a, t) \<Rightarrow> (a, put_fs w t s)))"

definition bindSd :: "'d option \<Rightarrow> ('d, unit) sem" where
  "bindSd f = modify (\<lambda>s. s\<lparr>se_sd := f, se_begun := False\<rparr>)"

definition bindSpiffs :: "'d option \<Rightarrow> bool \<Rightarrow> ('d, unit) sem" where
  "bindSpiffs f is_default = modify (\<lambda>s. s\<lparr>se_spiffs := f, se_spiffs_is_default := is_default, se_begun := False\<rparr>)"

definition setPreferredBackend :: "PreferredBackend \<Rightarrow> ('d, unit) sem" where
  "setPreferredBackend w = modify (\<lambda>s. s\<lparr>se_preferred := w, se_begun := False\<rparr>)"

definition activeBackendName :: "'d selectable_log \<Rightarrow> string" where
  "activeBackendName s = (if \<not> se_has_active s then ''none'' else if se_active s = Sd then ''sd'' else ''spiffs'')"

definition ensureSpiffsReady :: "'d fs_ops \<Rightarrow> bool \<Rightarrow> bool \<Rightarrow> ('d, bool) sem" where
  "ensureSpiffsReady F auto_mount format_on_fail = do {
     s \<leftarrow> gets id;
     if se_spiffs s = None then ret False
     else do {
       mounted \<leftarrow> (if se_spiffs_is_default s \<and> auto_mount then in_fs Spiffs False (fo_mount F format_on_fail)
                   else ret True);
       if \<not> mounted then ret False else in_fs Spiffs False (probeMounted F) } }"

definition activate :: "PreferredBackend \<Rightarrow> ('d, bool) sem" where
  "activate w = do { _ \<leftarrow> modify (\<lambda>s. s\<lparr>se_active := w, se_has_active := True\<rparr>); ret True }"

definition selectActiveBackend :: "(PreferredBackend \<Rightarrow> 'd fs_ops) \<Rightarrow> bool \<Rightarrow> bool \<Rightarrow> ('d, bool) sem" where
  "selectActiveBackend F auto_mount format_on_fail = do {
     sd_ready \<leftarrow> in_fs Sd False (probeMounted (F Sd));
     spiffs_ready \<leftarrow> ensureSpiffsReady (F Spiffs) auto_mount format_on_fail;
     _ \<leftarrow> modify (\<lambda>s. s\<lparr>se_has_active := False\<rparr>);
     preferred \<leftarrow> gets se_preferred;
     if preferred = Sd then
       (if sd_ready then activate Sd else if spiffs_ready then activate Spiffs else ret False)
     else
       (if spiffs_ready then activate Spiffs else if sd_ready then activate Sd else ret False) }"

definition activeFs :: "'d selectable_log \<Rightarrow> PreferredBackend option" where
  "activeFs s = (if \<not> se_has_active s \<or> fs_of (se_active s) s = None then None else Some (se_active s))"

definition selectable_begin :: "(PreferredBackend \<Rightarrow> 'd fs_ops) \<Rightarrow> bool \<Rightarrow> bool \<Rightarrow> ('d, bool) sem" where
  "selectable_begin F auto_mount format_on_fail = do {
     begun \<leftarrow> gets se_begun;
     if begun then ret True
     else do {
       ok \<leftarrow> selectActiveBackend F auto_mount format_on_fail;
       _ \<leftarrow> modify (\<lambda>s. s\<lparr>se_begun := ok\<rparr>);
       ret ok } }"

text \<open>The attempts of a read: a failed open or seek and an empty read are tried again.\<close>

fun read_attempts :: "'d fs_ops \<Rightarrow> nat \<Rightarrow> string \<Rightarrow> u32 \<Rightarrow> nat \<Rightarrow> ('d, bool \<times> bytes) state" where
  "read_attempts F 0 path offset max_len = ret (False, [])"
| "read_attempts F (Suc attempts) path offset max_len = do {
     size \<leftarrow> fo_open_read F path;
     case size of
       None \<Rightarrow> read_attempts F attempts path offset max_len
     | Some n \<Rightarrow>
         if unat offset \<ge> n then ret (True, [])
         else do {
           sought \<leftarrow> fo_seek F path offset;
           if \<not> sought then read_attempts F attempts path offset max_len
           else do {
             out \<leftarrow> fo_read F path offset max_len;
             if out \<noteq> [] then ret (True, out) else read_attempts F attempts path offset max_len } } }"

definition on_active :: "bool \<Rightarrow> 'a \<Rightarrow> (PreferredBackend \<Rightarrow> ('d, 'a) state) \<Rightarrow> ('d, 'a) sem" where
  "on_active valid none m = do {
     s \<leftarrow> gets id;
     case activeFs s of
       None \<Rightarrow> ret none
     | Some w \<Rightarrow> if \<not> se_begun s \<or> \<not> valid then ret none else in_fs w none (m w) }"

definition selectable_read :: "(PreferredBackend \<Rightarrow> 'd fs_ops) \<Rightarrow> string \<Rightarrow> u32 \<Rightarrow> nat \<Rightarrow> ('d, bool \<times> bytes) sem" where
  "selectable_read F path offset max_len = on_active (max_len \<noteq> 0) (False, [])
     (\<lambda>w. read_attempts (F w) (if w = Sd then 3 else 1) path offset max_len)"

definition selectable_append :: "(PreferredBackend \<Rightarrow> 'd fs_ops) \<Rightarrow> string \<Rightarrow> bytes \<Rightarrow> ('d, bool) sem" where
  "selectable_append F path data = on_active (data \<noteq> []) False (\<lambda>w. file_append (F w) path data)"

definition selectable_size :: "(PreferredBackend \<Rightarrow> 'd fs_ops) \<Rightarrow> string \<Rightarrow> ('d, bool \<times> u32) sem" where
  "selectable_size F path = on_active True (False, 0) (\<lambda>w. file_size (F w) path)"

definition selectable_truncate :: "(PreferredBackend \<Rightarrow> 'd fs_ops) \<Rightarrow> string \<Rightarrow> ('d, bool) sem" where
  "selectable_truncate F path = on_active True False (\<lambda>w. file_truncate (F w) path)"

definition selectable_remove :: "(PreferredBackend \<Rightarrow> 'd fs_ops) \<Rightarrow> string \<Rightarrow> ('d, bool) sem" where
  "selectable_remove F path = on_active True False (\<lambda>w. file_remove (F w) path)"

definition selectable_backend :: "(PreferredBackend \<Rightarrow> 'd fs_ops) \<Rightarrow> bool \<Rightarrow> bool \<Rightarrow> 'd selectable_log log_backend" where
  "selectable_backend F auto_mount format_on_fail = \<lparr>lb_begin = selectable_begin F auto_mount format_on_fail,
     lb_read = selectable_read F, lb_append = selectable_append F, lb_size = selectable_size F,
     lb_truncate = selectable_truncate F\<rparr>"

section \<open>What they may do to the log file\<close>

lemma fs_calls:
  assumes "fs_law F path c"
  shows "wp (fo_exists F path) (\<lambda>there d'. c d' = c d \<and> (\<not> there \<longrightarrow> c d = [])) d"
    "wp (fo_open_append F path) (\<lambda>_ d'. c d' = c d) d"
    "wp (fo_open_write F path) (\<lambda>ok d'. c d' = [] \<or> \<not> ok \<and> c d' = c d) d"
    "wp (fo_open_read F path) (\<lambda>r d'. c d' = c d \<and> (\<forall>n. r = Some n \<longrightarrow> n = length (c d))) d"
    "wp (fo_seek F path off) (\<lambda>_ d'. c d' = c d) d" "wp (fo_read F path off n) (\<lambda>_ d'. c d' = c d) d"
    "wp (fo_write F path data) (\<lambda>n d'. c d' = c d @ take n data \<and> n \<le> length data) d"
  using assms by (simp_all add: fs_law_def)

text \<open>The calls on a file system.\<close>

definition written :: "bytes \<Rightarrow> bytes \<Rightarrow> bool \<Rightarrow> bytes \<Rightarrow> bool" where
  "written data old ok new \<longleftrightarrow> (\<exists>base k. new = base @ take k data \<and> (base = old \<or> base = [])
     \<and> (ok \<longleftrightarrow> length data \<le> k))"

lemma written_nothing: "data \<noteq> [] \<Longrightarrow> new = old \<or> new = [] \<Longrightarrow> written data old False new"
  unfolding written_def by (intro exI [of _ new] exI [of _ 0]) auto

lemma written_part:
  "base = old \<or> base = [] \<Longrightarrow> n \<le> length data \<Longrightarrow> written data old (n = length data) (base @ take n data)"
  unfolding written_def by (rule exI [of _ base], rule exI [of _ n]) auto

lemma file_append_law:
  assumes F: "fs_law F path c" and data: "data \<noteq> []"
  shows "wp (file_append F path data) (\<lambda>ok t. written data (c s) ok (c t)) s"
proof -
  have put: "wp (fo_write F path data) (\<lambda>n. wp (ret (n = length data)) (\<lambda>ok t. written data (c s) ok (c t))) t"
    if "c t = c s \<or> c t = []" for t
    by (rule wp_mono [OF fs_calls(7) [OF F]]) (use that written_part in \<open>auto simp: wp_ret\<close>)
  have finish: "wp (if \<not> ok then ret False else do { n \<leftarrow> fo_write F path data; ret (n = length data) })
      (\<lambda>ok t. written data (c s) ok (c t)) t" if "c t = c s \<or> c t = []" for ok t
    using put [OF that] written_nothing [OF data that] by (simp add: wp_bind wp_ret)
  have reopen: "wp (fo_open_write F path) (\<lambda>_ u. c u = c s \<or> c u = []) t" if "c t = c s" for t
    by (rule wp_mono [OF fs_calls(3) [OF F]]) (use that in auto)
  have either: "wp (if appending then ret True else fo_open_write F path) (\<lambda>_ u. c u = c s \<or> c u = []) t"
    if "c t = c s" for appending t
    using reopen [OF that] that by (simp add: wp_ret)
  show ?thesis
    unfolding file_append_def wp_bind [of "fo_open_append F path"] wp_bind [of "if b then ret True else x" for b x]
    by (rule wp_mono [OF fs_calls(2) [OF F]], rule wp_mono [OF either], assumption, rule finish)
qed

lemma file_size_law:
  assumes F: "fs_law F path c"
  shows "wp (file_size F path) (\<lambda>r t. c t = c s \<and> (fst r \<longrightarrow> snd r = of_nat (length (c s)))) s"
  unfolding file_size_def wp_bind
  by (rule wp_mono [OF fs_calls(1) [OF F]])
     (auto simp: wp_ret wp_bind intro!: wp_mono [OF fs_calls(4) [OF F]] split: option.splits)

lemma file_truncate_law:
  "fs_law F path c \<Longrightarrow> wp (file_truncate F path) (\<lambda>ok t. c t = [] \<or> \<not> ok \<and> c t = c s) s"
  unfolding file_truncate_def by (rule fs_calls(3))

lemma read_attempts_law:
  assumes F: "fs_law F path c"
  shows "wp (read_attempts F k path off m) (\<lambda>_ t. c t = c s) s"
proof (induction k arbitrary: s)
  case (Suc k)
  have again: "wp (read_attempts F k path off m) (\<lambda>_ t. c t = c s) t" if "c t = c s" for t
    using Suc.IH [of t] that by simp
  show ?case
    unfolding read_attempts.simps wp_bind
    by (rule wp_mono [OF fs_calls(4) [OF F]])
       (auto simp: wp_ret wp_bind intro!: again wp_mono [OF fs_calls(5) [OF F]] wp_mono [OF fs_calls(6) [OF F]] split: option.split)
qed (simp add: wp_ret)

text \<open>Both backends are what the store expects.\<close>

lemma wp_in_spiffs: "wp (in_spiffs m) Q s \<longleftrightarrow> wp m (\<lambda>a t. Q a (s\<lparr>sp_fs := t\<rparr>)) (sp_fs s)"
  by (simp add: wp_def in_spiffs_def split: prod.split)

lemma spiffs_file_backend:
  assumes F: "fs_law F path c"
  shows "file_backend (spiffs_backend F a f) path (\<lambda>s. c (sp_fs s))"
  unfolding file_backend_def
proof (intro allI conjI impI)
  fix s and off :: u32 and n :: nat and data :: bytes
  show "wp (lb_size (spiffs_backend F a f) path) (\<lambda>r t. c (sp_fs t) = c (sp_fs s)
      \<and> (fst r \<longrightarrow> snd r = of_nat (length (c (sp_fs s))))) s"
    by (auto simp: spiffs_backend_def spiffs_size_def wp_rules wp_in_spiffs intro!: wp_mono [OF file_size_law [OF F]])
  show "wp (lb_read (spiffs_backend F a f) path off n) (\<lambda>_ t. c (sp_fs t) = c (sp_fs s)) s"
    by (auto simp: spiffs_backend_def spiffs_read_def wp_rules wp_in_spiffs intro!: wp_mono [OF fs_calls(4) [OF F]]
        wp_mono [OF fs_calls(5) [OF F]] wp_mono [OF fs_calls(6) [OF F]] split: option.split)
  show "wp (lb_truncate (spiffs_backend F a f) path) (\<lambda>ok t. c (sp_fs t) = [] \<or> \<not> ok \<and> c (sp_fs t) = c (sp_fs s)) s"
    by (auto simp: spiffs_backend_def spiffs_truncate_def wp_rules wp_in_spiffs intro!: wp_mono [OF file_truncate_law [OF F]])
  assume data: "data \<noteq> []"
  have "wp (lb_append (spiffs_backend F a f) path data) (\<lambda>ok t. written data (c (sp_fs s)) ok (c (sp_fs t))) s"
    using data by (auto simp: spiffs_backend_def spiffs_append_def wp_rules wp_in_spiffs
        intro!: wp_mono [OF file_append_law [OF F]] written_nothing)
  then show "wp (lb_append (spiffs_backend F a f) path data) (\<lambda>ok t. \<exists>base k. c (sp_fs t) = base @ take k data
      \<and> (base = c (sp_fs s) \<or> base = []) \<and> (ok \<longleftrightarrow> length data \<le> k)) s"
    by (simp add: written_def)
qed

definition selectable_content :: "(PreferredBackend \<Rightarrow> 'd \<Rightarrow> bytes) \<Rightarrow> 'd selectable_log \<Rightarrow> bytes" where
  "selectable_content c s = (case activeFs s of None \<Rightarrow> [] | Some w \<Rightarrow> c w (the (fs_of w s)))"

lemma active_put:
  assumes "activeFs s = Some w"
  obtains f where "fs_of w s = Some f" "selectable_content c s = c w f"
    "\<And>t. selectable_content c (put_fs w t s) = c w t"
proof -
  from assms obtain f where w: "se_has_active s" "w = se_active s" "fs_of w s = Some f"
    by (auto simp: activeFs_def split: if_splits)
  have put: "fs_of w (put_fs w t s) = Some t" "se_has_active (put_fs w t s)" "se_active (put_fs w t s) = w" for t
    using w by (cases w; simp)+
  then have "activeFs (put_fs w t s) = Some w" for t by (simp add: activeFs_def)
  with put w assms that show ?thesis by (simp add: selectable_content_def)
qed

lemma wp_on_active:
  assumes none: "R none (selectable_content c s)"
    and prog: "\<And>w f. c w f = selectable_content c s \<Longrightarrow> wp (m w) (\<lambda>a t. R a (c w t)) f"
  shows "wp (on_active valid none m) (\<lambda>a t. R a (selectable_content c t)) s"
proof (cases "activeFs s")
  case None
  then show ?thesis using none by (simp add: on_active_def wp_rules)
next
  case (Some w)
  from active_put [OF Some, of c] obtain f where f: "fs_of w s = Some f" "selectable_content c s = c w f"
    "\<And>t. selectable_content c (put_fs w t s) = c w t" by blast
  have "wp (in_fs w none (m w)) (\<lambda>a t. R a (selectable_content c t)) s"
    using prog [of w f] f by (auto simp: wp_def in_fs_def split: prod.splits)
  then show ?thesis using Some none by (simp add: on_active_def wp_rules)
qed

lemma selectable_file_backend:
  assumes F: "\<And>w. fs_law (F w) path (c w)"
  shows "file_backend (selectable_backend F a f) path (selectable_content c)"
  unfolding file_backend_def
proof (intro allI conjI impI)
  fix s and off :: u32 and n :: nat and data :: bytes
  let ?old = "selectable_content c s"
  show "wp (lb_size (selectable_backend F a f) path) (\<lambda>r t. selectable_content c t = ?old
      \<and> (fst r \<longrightarrow> snd r = of_nat (length ?old))) s"
    unfolding selectable_backend_def selectable_size_def log_backend.simps
    by (rule wp_on_active [where R = "\<lambda>r x. x = ?old \<and> (fst r \<longrightarrow> snd r = of_nat (length ?old))"])
       (simp, drule sym, simp add: file_size_law [OF F])
  show "wp (lb_read (selectable_backend F a f) path off n) (\<lambda>_ t. selectable_content c t = ?old) s"
    unfolding selectable_backend_def selectable_read_def log_backend.simps
    by (rule wp_on_active [where R = "\<lambda>_ x. x = ?old"]) (simp, drule sym, simp add: read_attempts_law [OF F])
  show "wp (lb_truncate (selectable_backend F a f) path) (\<lambda>ok t. selectable_content c t = []
      \<or> \<not> ok \<and> selectable_content c t = ?old) s"
    unfolding selectable_backend_def selectable_truncate_def log_backend.simps
    by (rule wp_on_active [where R = "\<lambda>ok x. x = [] \<or> \<not> ok \<and> x = ?old"])
       (simp, drule sym, simp add: file_truncate_law [OF F])
  assume data: "data \<noteq> []"
  have "wp (lb_append (selectable_backend F a f) path data) (\<lambda>ok t. written data ?old ok (selectable_content c t)) s"
    unfolding selectable_backend_def selectable_append_def log_backend.simps
    by (rule wp_on_active [where R = "written data ?old"])
       (simp add: written_nothing [OF data], drule sym, simp add: file_append_law [OF F data])
  then show "wp (lb_append (selectable_backend F a f) path data) (\<lambda>ok t. \<exists>base k. selectable_content c t = base @ take k data
      \<and> (base = ?old \<or> base = []) \<and> (ok \<longleftrightarrow> length data \<le> k)) s"
    by (simp add: written_def)
qed

section \<open>What the log file holds\<close>

text \<open>
  C26. What the log file holds: whatever is logged, cleared, read and switched, in any order, over a
  backend whose calls may fail, may write only a part of a record and may empty the file instead of
  appending to it (as both of the repository do, over any file system that does what is documented:
  \<open>spiffs_file_backend\<close>, \<open>selectable_file_backend\<close>), the file never exceeds its limit (or the size
  it had before), and it is what it was at the start, or nothing, followed by records in the order in
  which they were logged: a record that was logged with success is there as a whole, one whose
  logging failed is cut off. A record logged with success stands whole at the end of the file.
\<close>

theorem log_file_accounted:
  assumes "file_backend B (lc_log_path (ll_config s)) content"
    and "length (content (ll_backend s)) < 2 ^ 31" "lc_max_bytes (ll_config s) < 2 ^ 31"
    and run: "run_state (log_run B ops) s = (out, t)"
  shows "length (content (ll_backend t)) \<le> max (length (content (ll_backend s))) (unat (lc_max_bytes (ll_config s)))
    \<and> (\<exists>base ps. content (ll_backend t) = base @ concat (map (\<lambda>(r, q, k). take k (encodeRecord r q)) ps)
         \<and> (base = content (ll_backend s) \<or> base = [])
         \<and> subseq (map (\<lambda>(r, q, k). (r, length (encodeRecord r q) \<le> k)) ps) out)
    \<and> (\<forall>r u. ll_enabled t \<and> shouldStore (lr_level r) t \<and> run_state (logger_log B r) t = (True, u)
         \<longrightarrow> (\<exists>pre. content (ll_backend u) = pre @ encodeRecord r (ll_last_sequence t + 1)))"
proof -
  let ?mx = "lc_max_bytes (ll_config s)"
  have inv: "log_inv content (lc_log_path (ll_config s)) ?mx (log_file content s) out t"
    by (rule log_run_inv [OF assms(1) _ assms(3) run]) (use assms(2) in \<open>simp add: log_file_def\<close>)
  then have t: "lc_log_path (ll_config t) = lc_log_path (ll_config s)" "lc_max_bytes (ll_config t) = ?mx"
    "length (log_file content t) \<le> max (length (log_file content s)) (unat ?mx)" by (simp_all add: log_inv_def)
  have "length (log_file content t) < 2 ^ 31"
    using t(3) assms(2,3) by (simp add: log_file_def word_less_nat_alt)
  from logged_record_stored [where s = t, unfolded t, OF assms(1) this assms(3)]
  have "\<forall>r u. ll_enabled t \<and> shouldStore (lr_level r) t \<and> run_state (logger_log B r) t = (True, u)
      \<longrightarrow> (\<exists>pre. content (ll_backend u) = pre @ encodeRecord r (ll_last_sequence t + 1))"
    by (auto simp: log_file_def)
  moreover have "part_outcome = (\<lambda>(r, q, k). (r, length (encodeRecord r q) \<le> k))"
    by (auto simp: part_whole [symmetric])
  ultimately show ?thesis
    using inv by (simp add: log_inv_def log_file_def part_bytes_def [abs_def])
qed

text \<open>A file system of one file whose first write stops after ten bytes: its content, and whether it was written to.\<close>

definition short_fs :: "(bytes option \<times> bool) fs_ops" where
  "short_fs = \<lparr>fo_mount = (\<lambda>_. ret True), fo_exists = (\<lambda>_. gets (\<lambda>d. fst d \<noteq> None)),
     fo_remove = (\<lambda>_. do { _ \<leftarrow> modify (\<lambda>d. (None, snd d)); ret True }),
     fo_open_append = (\<lambda>_. do { _ \<leftarrow> modify (\<lambda>d. (Some (case fst d of None \<Rightarrow> [] | Some c \<Rightarrow> c), snd d)); ret True }),
     fo_open_write = (\<lambda>_. do { _ \<leftarrow> modify (\<lambda>d. (Some [], snd d)); ret True }),
     fo_open_read = (\<lambda>_. gets (\<lambda>d. map_option length (fst d))), fo_seek = (\<lambda>_ _. ret True),
     fo_read = (\<lambda>_ off n. gets (\<lambda>d. take n (drop (unat off) (case fst d of None \<Rightarrow> [] | Some c \<Rightarrow> c)))),
     fo_write = (\<lambda>_ data. do {
       again \<leftarrow> gets snd;
       let n = (if again then length data else min 10 (length data));
       _ \<leftarrow> modify (\<lambda>d. (Some ((case fst d of None \<Rightarrow> [] | Some c \<Rightarrow> c) @ take n data), True));
       ret n })\<rparr>"

definition short_content :: "bytes option \<times> bool \<Rightarrow> bytes" where
  "short_content d = (case fst d of None \<Rightarrow> [] | Some c \<Rightarrow> c)"

lemma short_fs_law: "fs_law short_fs path short_content"
  by (simp add: fs_law_def short_fs_def short_content_def wp_rules Let_def split: option.split)

definition sample_logger :: "(bytes option \<times> bool) spiffs_log logger" where
  "sample_logger = \<lparr>ll_backend = \<lparr>sp_fs = (None, False), sp_begun = True\<rparr>,
     ll_config = \<lparr>lc_log_path = ''/elg.bin'', lc_index_path = ''/elg.idx'', lc_max_bytes = 50\<rparr>,
     ll_stats = no_stats\<lparr>lst_available := True\<rparr>, ll_attached = True, ll_enabled = True, ll_min_level = LogInfo,
     ll_last_sequence = 0\<rparr>"

definition sample_log_record :: LibraryLogRecord where
  "sample_log_record = \<lparr>lr_level = LogWarn, lr_source_id = 1, lr_event_id = 2, lr_epoch_s = 3, lr_uptime_ms = 4, lr_p0 = 5,
     lr_p1 = 6, lr_p2 = 7, lr_ext = []\<rparr>"

lemma log_file_accounted_witness:
  "\<exists>out t. run_state (log_run (spiffs_backend short_fs True True) [OpLog sample_log_record, OpLog sample_log_record]) sample_logger
       = (out, t)
     \<and> length (short_content (sp_fs (ll_backend t))) \<le> 50"
proof -
  let ?B = "spiffs_backend short_fs True True" and ?ops = "[OpLog sample_log_record, OpLog sample_log_record]"
  obtain out t where run: "run_state (log_run ?B ?ops) sample_logger = (out, t)" by fastforce
  have empty: "short_content (sp_fs (ll_backend sample_logger)) = []" "lc_max_bytes (ll_config sample_logger) = 50"
    by (simp_all add: sample_logger_def short_content_def)
  from log_file_accounted [OF spiffs_file_backend [OF short_fs_law] _ _ run, unfolded empty] run show ?thesis by auto
qed

text \<open>
  The part of a record that a failed append has left stays where it is: the next record is written
  right behind it, under the same number.
\<close>

lemma partial_record_stays:
  "\<exists>t. run_state (log_run (spiffs_backend short_fs True True) [OpLog sample_log_record, OpLog sample_log_record]) sample_logger
       = ([(sample_log_record, False), (sample_log_record, True)], t)
     \<and> short_content (sp_fs (ll_backend t)) = take 10 (encodeRecord sample_log_record 1) @ encodeRecord sample_log_record 1"
proof -
  have size: "length (encodeRecord sample_log_record q) = 35" for q
    by (simp add: length_record sample_log_record_def)
  then have "encodeRecord sample_log_record q \<noteq> []" for q by (metis list.size(3) zero_neq_numeral)
  with size show ?thesis
    by (simp add: sample_logger_def logger_log_def shouldStore_def store_append_def log_path_def in_backend_def spiffs_backend_def
        spiffs_size_def spiffs_append_def in_spiffs_def file_size_def file_append_def short_fs_def make_room_def Let_def
        short_content_def no_stats_def sample_log_record_def [THEN arg_cong [of _ _ lr_level]])
qed

end
