(* ===== verification/Spec2Isabelle.thy ===== *)
theory Spec2Isabelle
  imports Wire Tlv Registry Payloads PairingProps OtaProps OtaRecords StoreProps TopologyProps FirmwareProps CodecProps
    AutoPull Peers ResponseProps Profiles LogBackend
begin

text \<open>
  A verification library for espnow-link, a C++ library that pairs ESP32 nodes over ESP-NOW and
  carries control, telemetry, topology and firmware traffic between one master and its slaves.

  \<^bold>\<open>The program.\<close> A frame from the radio enters \<open>EspNowManager::onRx\<close>, is decoded
  (\<open>src/core/protocol.cpp\<close>) and put into one of four bounded queues (\<open>src/core/rx_dispatch.cpp\<close>);
  \<open>tick\<close> drains the queues and hands each frame to the component it is for. The pairing engine
  (\<open>src/pairing/pairing.cpp\<close>) runs the link: a three-way handshake that derives a link key,
  installs it at the radio and stores it, unpairing, and channel switching. The registry and the
  caches of the manager remember peers. Firmware frames reach the OTA manager
  (\<open>src/ota/ota_manager.cpp\<close>), which collects an image in memory, checks it, writes it to the
  storage and has it applied. Management service, console, descriptor service and runtimes are
  front ends over these.

  \<^bold>\<open>Conventions.\<close> Integers keep their width (\<open>8 word\<close> to \<open>64 word\<close>) and wrap as in C++;
  \<open>std::string\<close> and byte vectors are lists; a struct is a record and an enum a datatype. A method
  that changes its object is a program of the library's state monad over the record of the
  members, written in the order of the code; early returns are nested conditionals. Objects
  behind pointers (radio, peer window, pairing store, event sink, hooks, clock, logger, random
  numbers, OTA storage, gate, executor, heap, HMAC) are parameters: each call is an action
  appended to the object's trace, and its answer is given by an environment that may depend on
  the whole trace. A property without assumptions on the environment holds for every platform.

  \<^bold>\<open>Theories.\<close>
  \<^item> \<open>Prelude\<close>: word types, little-endian codecs, MAC addresses with their order (\<open>compareMac\<close>),
    the state monad with \<open>wp\<close> (weakest precondition, total correctness) and \<open>keeps\<close> (invariants).
  \<^item> \<open>Interfaces\<close>: the contracts as locales (byte codecs, keyed tables, bounded queues, machines with
    an invariant), each interpreted on the model in the theory that provides it.
  \<^item> \<open>Wire\<close> (\<open>protocol.cpp\<close>): message types and wire triples, CRC-16, \<open>encode\<close> and \<open>decode\<close>: totality,
    round trips in both directions, rejection of every one-byte corruption.
  \<^item> \<open>Tlv\<close> (\<open>control_codec.cpp\<close> and the parsers of \<open>manager_helpers.cpp\<close>) and \<open>Payloads\<close> (the
    fixed-layout payloads): builders and parsers, round trips, truncation, unknown records.
  \<^item> \<open>Tables\<close>, \<open>Registry\<close> (\<open>peer_registry.cpp\<close>, discovery cache and role hints of the manager):
    vectors searched by key, refinement of a map, lifetimes, survival of a restart.
  \<^item> \<open>Environment\<close>: configuration, actions, answers, and the key derivation of \<open>security.cpp\<close>.
  \<^item> \<open>PairingEngine\<close> (\<open>pairing.cpp\<close>): the complete state machine. \<open>PairingInvariant\<close>: its invariant, and
    what each of its inputs may install, store or report. \<open>PairingProgress\<close>: ticks end every
    attempt. \<open>PairingProps\<close>: the properties and two flaws. \<open>Handshake\<close>: two engines joined by the
    wire format and the receive path complete the handshake.
  \<^item> \<open>RxPath\<close> (\<open>onRx\<close>, \<open>rx_dispatch.cpp\<close>, the drains of \<open>manager_tick_and_queues.cpp\<close>): time metadata,
    bounded queues, budgets, routing.
  \<^item> \<open>OtaManager\<close> (\<open>ota_manager.cpp\<close>): sessions, chunks, flush, manifest, apply, rollback, boot
    confirmation, status record. \<open>OtaChunks\<close>: chunk arithmetic, bitmap, the contiguous prefix.
    \<open>OtaInvariant\<close>: the invariant over all operations. \<open>OtaDisk\<close>: storage calls as changes of
    files. \<open>OtaTransfer\<close>, \<open>OtaCompletes\<close>: safety and liveness of a transfer. \<open>OtaRecords\<close>: CRC-32
    against a bit-serial reference, the status record as text. \<open>OtaProps\<close>: the properties.

  \<^item> \<open>Text\<close>, \<open>PairStore\<close> (\<open>persistence.cpp\<close>): keys, records, index and counter over a cache of blobs.
    \<open>StoreCache\<close>: the cache is invisible, so a backend that delivers what it stored makes the store a
    map. \<open>StoreRecords\<close>: what the records of a map mean, the order of the index. \<open>StoreProps\<close>: the
    properties, and two peers that share a key.
  \<^item> \<open>Manager\<close> (\<open>manager_core.cpp\<close>, \<open>manager_tx.cpp\<close>): the members the manager's components share,
    their calls as a trace, the runtime log, local metadata, \<open>sendTyped\<close>.
  \<^item> \<open>TopologyData\<close>: snapshots, blobs, checksum, validation; \<open>TopologyValid\<close>: the validation as a
    predicate. \<open>Topology\<close> (\<open>manager_topology_storage.cpp\<close>, staging and committing of
    \<open>manager_topology_runtime.cpp\<close>) and \<open>Triggers\<close> (its triggers): the programs. \<open>TopologyFrame\<close>: which
    programs leave snapshots and triggers alone, as a locale; \<open>LocalMeta\<close>: the local metadata as a
    map from slots. \<open>TopologyState\<close>: the operations as steps, validity of the snapshots;
    \<open>TopologyDurable\<close>: memory and storage agree; \<open>TriggerRuns\<close>: what frames notify and remember;
    \<open>BatchRetry\<close>: the answer to a refused or repeated batch. \<open>TopologyProps\<close>: the properties, and a flaw of batches.
  \<^item> \<open>Transmit\<close>: a typed send puts its payload on the air once and changes nothing else.
    \<open>Firmware\<close> (\<open>manager_firmware.cpp\<close>, \<open>ota_firmware_sink.cpp\<close>, the firmware frames of \<open>manager_tx.cpp\<close>,
    events and OTA timers of \<open>manager_telemetry_push.cpp\<close>): a node with an OTA manager behind its
    sink. \<open>FirmwareSession\<close>: what the sink does to the session, as a locale; \<open>FirmwareRx\<close>: status
    frames on the air; \<open>FirmwareSteps\<close>: the handlers return, keep the invariant and acknowledge
    exactly; \<open>FirmwareEvents\<close>: the queue of mandatory events; \<open>Unpairing\<close> (\<open>onRxUnpairRequest\<close>,
    \<open>requestUnpair\<close> and \<open>removePeer\<close> of the manager): what unpairing clears, that queue included;
    \<open>FirmwareRuns\<close>: runs of a node, and where each event goes;
    \<open>FirmwareDelivery\<close>: a transfer between two nodes; \<open>FirmwareProps\<close>: the properties and flaws.
  \<^item> \<open>Descriptor\<close> (\<open>descriptor.hpp\<close>, \<open>descriptor.cpp\<close>): the queries of a master and their record
    encoding; \<open>DescriptorCodec\<close>: what is written and what is read from it. \<open>Codecs\<close>, \<open>ProfileCodecs\<close>
    (\<open>src/descriptor/codecs\<close>, \<open>codec.cpp\<close>): the seven built-in codecs over reads that may leave the
    buffer, and their registry. \<open>CodecFields\<close>: the law of a field, closed under composition, and the
    codecs' fields as instances of a locale. \<open>CodecProps\<close>: the contract of a codec as a locale, the
    seven instances, the properties and three flaws.
  \<^item> \<open>PullClient\<close> (\<open>master_pull_client.cpp\<close>, \<open>sendPullRequest\<close> of \<open>manager_tx.cpp\<close>): the requests of a master;
    \<open>PullProps\<close>: a query reaches the codec of the slave. \<open>AutoPull\<close> (\<open>master_autopull.cpp\<close>): the periodic
    requests, and when a silent slave is reported. \<open>Response\<close>, \<open>ResponseRead\<close> (\<open>descriptor.cpp\<close>): what
    a slave answers, written into one frame with pages and truncation, and its parser with its
    entries under construction. \<open>ResponseLaws\<close>, \<open>ResponseBodies\<close>: what writing records and reading
    them back gives, per kind of response; \<open>ResponseProps\<close>: the properties, and a flaw of lists.
  \<^item> \<open>Profiles\<close> (\<open>profile.cpp\<close>): the built-in device profiles, their registry with its cached snapshot,
    and that resolving is exact. \<open>Peers\<close> (\<open>manager_pairing_and_peers.cpp\<close>): the lists of stored peers.
  \<^item> \<open>LogStore\<close> (\<open>library_logger.cpp\<close>, \<open>log_storage.cpp\<close>): the logger and its bounded file, over a backend
    that may fail or write a part of a record. \<open>LogBackend\<close> (\<open>log_storage_arduino.cpp\<close>): the two backends,
    over the Arduino file system as a parameter; what the log file holds, and a flaw.

  \<^bold>\<open>Loops and fuel.\<close> All loops are recursive functions with a termination proof, except
  \<open>refreshContiguousReceived_\<close>, whose termination depends on the state: \<open>refresh_loop\<close> has one unit of
  fuel per chunk and one more and gives \<open>None\<close> without it; \<open>refresh_loop_returns\<close> shows that it is
  enough in every session the manager can be in, and \<open>ota_chunks_in_bounds\<close> that the call returns.
  The loop over the next acknowledgement (\<open>raise_next_ack\<close>) is a \<open>while_option\<close>, as its offsets may
  wrap around; \<open>raise_returns\<close> shows that it ends for images below 2 GiB.

  \<^bold>\<open>Not modelled.\<close> The service that answers queries from data of the application, the
  response encodings of the codecs other than the default one, the restore plan and telemetry
  subscriptions. Left out: the Arduino drivers and file systems (calls of code outside the
  repository), the management service, its JSON adapter and the serial console (text front ends),
  the node runtimes (wiring), the profile catalog (data), examples. A drained frame that belongs to
  a component without a model is represented by the name of the handler it reaches.
\<close>

end
